(* ===== verification/Prelude.thy ===== *)
theory Prelude
  imports Complex_Main "HOL-Library.Char_ord" "HOL-Library.List_Lexorder"
begin

text \<open>
  Shared vocabulary of the development: the collections of rewrite rules the component
  theories feed, the fragments of Python's standard library the modelled code uses
  (slices with negative bounds, string methods, integer formatting and parsing, JSON
  values and their equality) and the generic lemmas about them.

  Conventions used everywhere: Python \<open>int\<close> is \<^typ>\<open>int\<close>, Python \<open>float\<close> is \<^typ>\<open>rat\<close>
  (arithmetic without rounding), Python \<open>str\<close> is \<^typ>\<open>string\<close>, a raised exception is the left
  part of a sum, and an object that is mutated in place is passed in and handed back.
\<close>

named_theorems py_defs \<open>definitions of the modelled fragments of the Python library\<close>
named_theorems frame \<open>fields an operation leaves alone\<close>
named_theorems inv_intros \<open>operations keep their component's invariant\<close>

section \<open>Results\<close>

text \<open>
  An exception value. The classes it is an instance of are part of the value, so that no
  exception hierarchy of a third-party package has to be assumed.
\<close>

datatype exc_class =
    AuthenticationError | ServiceUnavailableError | APIConnectionError | APIError
  | InternalServerError | BadRequestError | ContentPolicyViolationError | RateLimitError
  | Timeout | NotFoundError | ContextWindowExceededError | OpenAIError
  | LLMMalformedActionError | LLMNoActionError | LLMResponseError
  | FunctionCallValidationError | FunctionCallNotExistsError
  | LLMContextWindowExceedError | AgentStuckInLoopError | LLMNoResponseError | BadGatewayError
  | RuntimeError | ValueError | FileNotFoundError | OtherError

record exn =
  exc_name :: string
  exc_classes :: "exc_class list"
  exc_str :: string
  retry_attempt :: "int option"
  max_retries :: "int option"

definition exc_isinstance :: "exn \<Rightarrow> exc_class \<Rightarrow> bool" where
  "exc_isinstance e c \<longleftrightarrow> c \<in> set (exc_classes e)"

definition mk_exn :: "string \<Rightarrow> exc_class \<Rightarrow> string \<Rightarrow> exn" where
  "mk_exn n c m = \<lparr>exc_name = n, exc_classes = [c], exc_str = m,
                    retry_attempt = None, max_retries = None\<rparr>"

lemma mk_exn_simps [simp]:
  "exc_name (mk_exn n c m) = n" "exc_classes (mk_exn n c m) = [c]" "exc_str (mk_exn n c m) = m"
  by (simp_all add: mk_exn_def)

section \<open>Sequences\<close>

definition slice_bound :: "int \<Rightarrow> int \<Rightarrow> int" where
  "slice_bound n i = (if i < 0 then max 0 (n + i) else min i n)"

text \<open>\<open>xs[start:stop]\<close>, with \<^const>\<open>None\<close> for an omitted bound.\<close>

definition py_slice :: "'a list \<Rightarrow> int option \<Rightarrow> int option \<Rightarrow> 'a list" where
  "py_slice xs start stop =
     (let n = int (length xs);
          s = (case start of None \<Rightarrow> 0 | Some i \<Rightarrow> slice_bound n i);
          e = (case stop of None \<Rightarrow> n | Some i \<Rightarrow> slice_bound n i)
      in take (nat (e - s)) (drop (nat s) xs))"

text \<open>\<open>xs[i]\<close>; \<^const>\<open>None\<close> stands for the \<open>IndexError\<close>.\<close>

definition py_nth :: "'a list \<Rightarrow> int \<Rightarrow> 'a option" where
  "py_nth xs i =
     (let n = int (length xs); j = (if i < 0 then n + i else i)
      in if 0 \<le> j \<and> j < n then Some (xs ! nat j) else None)"

text \<open>The position of the first element with a property (\<open>list.index\<close>, \<open>next\<close> over \<open>enumerate\<close>).\<close>

fun find_index :: "('a \<Rightarrow> bool) \<Rightarrow> 'a list \<Rightarrow> nat option" where
  "find_index P [] = None"
| "find_index P (x # xs) = (if P x then Some 0 else map_option Suc (find_index P xs))"

lemma py_slice_from [simp]: "0 \<le> i \<Longrightarrow> py_slice xs (Some i) None = drop (nat i) xs"
  by (auto simp: py_slice_def slice_bound_def Let_def min_def)

lemma py_slice_upto [simp]: "0 \<le> i \<Longrightarrow> py_slice xs None (Some i) = take (nat i) xs"
  by (auto simp: py_slice_def slice_bound_def Let_def min_def)

lemma py_slice_last: "0 < k \<Longrightarrow> py_slice xs (Some (- k)) None = drop (length xs - nat k) xs"
  by (auto simp: py_slice_def slice_bound_def Let_def max_def nat_diff_distrib)

lemma py_slice_neg0: "py_slice xs (Some (- 0)) None = xs"
  by simp

lemma py_slice_mid:
  "0 \<le> i \<Longrightarrow> 0 \<le> j \<Longrightarrow> py_slice xs (Some i) (Some j) = take (nat j - nat i) (drop (nat i) xs)"
proof -
  assume "0 \<le> i" "0 \<le> j"
  then obtain m k where ik: "i = int m" "j = int k"
    by (metis nonneg_int_cases)
  then show ?thesis
    by (cases "m \<le> length xs"; cases "k \<le> length xs")
      (auto simp: py_slice_def slice_bound_def Let_def min_def nat_minus_as_int)
qed

lemma set_py_slice: "set (py_slice xs a b) \<subseteq> set xs"
  by (auto simp: py_slice_def Let_def dest: in_set_takeD in_set_dropD)

lemma find_index_Some:
  "find_index P xs = Some i \<Longrightarrow> i < length xs \<and> P (xs ! i) \<and> (\<forall>j < i. \<not> P (xs ! j))"
proof (induction xs arbitrary: i)
  case (Cons x xs)
  show ?case
  proof (cases "P x")
    case True
    with Cons.prems show ?thesis by simp
  next
    case False
    with Cons.prems obtain k where k: "find_index P xs = Some k" "i = Suc k" by auto
    with Cons.IH [OF k(1)] False show ?thesis
      by (auto simp: less_Suc_eq_0_disj nth_Cons')
  qed
qed simp

lemma find_index_None: "find_index P xs = None \<longleftrightarrow> (\<forall>x \<in> set xs. \<not> P x)"
  by (induction xs) auto

lemma find_index_takeWhile:
  "find_index P xs = Some i \<Longrightarrow> takeWhile (\<lambda>x. \<not> P x) xs = take i xs"
  by (induction xs arbitrary: i) (auto split: if_splits)

lemma filter_last_split:
  "filter P xs = ys @ [y] \<Longrightarrow>
   \<exists>us vs. xs = us @ y # vs \<and> P y \<and> filter P us = ys \<and> (\<forall>v \<in> set vs. \<not> P v)"
proof (induction xs rule: rev_induct)
  case (snoc x xs)
  show ?case
  proof (cases "P x")
    case True
    with snoc.prems show ?thesis by (intro exI [of _ xs] exI [of _ "[]"]) auto
  next
    case False
    with snoc.prems snoc.IH obtain us vs
      where "xs = us @ y # vs" "P y" "filter P us = ys" "\<forall>v \<in> set vs. \<not> P v" by auto
    with False show ?thesis by (intro exI [of _ us] exI [of _ "vs @ [x]"]) auto
  qed
qed simp

section \<open>Strings\<close>

abbreviation newline :: char where
  "newline \<equiv> CHR 0x0A"

definition str_startswith :: "string \<Rightarrow> string \<Rightarrow> bool" where [py_defs]:
  "str_startswith s p \<longleftrightarrow> take (length p) s = p"

definition str_endswith :: "string \<Rightarrow> string \<Rightarrow> bool" where [py_defs]:
  "str_endswith s p \<longleftrightarrow> str_startswith (rev s) (rev p)"

text \<open>\<open>sub in s\<close>\<close>

fun str_contains :: "string \<Rightarrow> string \<Rightarrow> bool" where
  "str_contains sub [] = (sub = [])"
| "str_contains sub (c # s) = (str_startswith (c # s) sub \<or> str_contains sub s)"

text \<open>\<open>s.split(c)\<close> for a one-character separator\<close>

fun str_split :: "char \<Rightarrow> string \<Rightarrow> string list" where
  "str_split c [] = [[]]"
| "str_split c (x # xs) =
     (if x = c then [] # str_split c xs
      else (case str_split c xs of [] \<Rightarrow> [[x]] | l # ls \<Rightarrow> (x # l) # ls))"

definition is_py_space :: "char \<Rightarrow> bool" where
  "is_py_space c \<longleftrightarrow> (let n = (of_char c :: nat) in n = 32 \<or> (9 \<le> n \<and> n \<le> 13) \<or> (28 \<le> n \<and> n \<le> 31))"

definition str_strip :: "string \<Rightarrow> string" where
  "str_strip s = rev (dropWhile is_py_space (rev (dropWhile is_py_space s)))"

definition char_lower :: "char \<Rightarrow> char" where
  "char_lower c = (let n = (of_char c :: nat) in if 65 \<le> n \<and> n \<le> 90 then char_of (n + 32) else c)"

definition str_lower :: "string \<Rightarrow> string" where
  "str_lower s = map char_lower s"

definition str_removesuffix :: "string \<Rightarrow> string \<Rightarrow> string" where
  "str_removesuffix s p = (if str_endswith s p then take (length s - length p) s else s)"

definition str_removeprefix :: "string \<Rightarrow> string \<Rightarrow> string" where
  "str_removeprefix s p = (if str_startswith s p then drop (length p) s else s)"

fun str_join :: "string \<Rightarrow> string list \<Rightarrow> string" where
  "str_join sep [] = []"
| "str_join sep [s] = s"
| "str_join sep (s # t # ss) = s @ sep @ str_join sep (t # ss)"

text \<open>
  \<open>s.replace(old, new)\<close>: leftmost non-overlapping occurrences; an empty \<open>old\<close> matches before
  every character and at the end.
\<close>

function (sequential) str_replace_ne :: "string \<Rightarrow> string \<Rightarrow> string \<Rightarrow> string" where
  "str_replace_ne old new [] = []"
| "str_replace_ne old new (c # s) =
     (if old \<noteq> [] \<and> str_startswith (c # s) old
      then new @ str_replace_ne old new (drop (length old) (c # s))
      else c # str_replace_ne old new s)"
  by pat_completeness auto
termination
proof (relation "measure (\<lambda>(old, new, s). length s)", goal_cases)
  case (2 old new c s)
  then show ?case by (cases old) auto
qed auto

definition str_replace :: "string \<Rightarrow> string \<Rightarrow> string \<Rightarrow> string" where
  "str_replace s old new =
     (if old = [] then concat (map (\<lambda>c. new @ [c]) s) @ new else str_replace_ne old new s)"

lemma str_startswith_iff: "str_startswith s p \<longleftrightarrow> (\<exists>t. s = p @ t)"
  unfolding str_startswith_def by (metis append_eq_conv_conj append_take_drop_id)

lemma str_endswith_iff: "str_endswith s p \<longleftrightarrow> (\<exists>t. s = t @ p)"
  unfolding str_endswith_def str_startswith_iff by (metis rev_append rev_rev_ident)

lemma str_contains_iff: "str_contains sub s \<longleftrightarrow> (\<exists>a b. s = a @ sub @ b)"
proof (induction s)
  case (Cons c s)
  show ?case
  proof
    assume "str_contains sub (c # s)"
    then consider "str_startswith (c # s) sub" | "str_contains sub s" by auto
    then show "\<exists>a b. c # s = a @ sub @ b"
    proof cases
      case 1
      then show ?thesis by (metis append_Nil str_startswith_iff)
    next
      case 2
      with Cons show ?thesis by (metis append_Cons)
    qed
  next
    assume "\<exists>a b. c # s = a @ sub @ b"
    then obtain a b where ab: "c # s = a @ sub @ b" by blast
    show "str_contains sub (c # s)"
    proof (cases a)
      case Nil
      with ab have "str_startswith (c # s) sub" by (auto simp: str_startswith_iff)
      then show ?thesis by simp
    next
      case (Cons d a')
      with ab have "s = a' @ sub @ b" by simp
      with \<open>str_contains sub s = (\<exists>a b. s = a @ sub @ b)\<close> show ?thesis by auto
    qed
  qed
qed simp

lemma str_split_ne [simp]: "str_split c s \<noteq> []"
  by (induction s) (auto split: list.split)

lemma str_split_append_sep: "str_split c (s @ c # t) = str_split c s @ str_split c t"
  by (induction s) (auto split: list.split)

lemma str_split_nosep: "c \<notin> set s \<Longrightarrow> str_split c s = [s]"
  by (induction s) auto

lemma str_removesuffix_append [simp]: "str_removesuffix (s @ p) p = s"
  by (simp add: str_removesuffix_def str_endswith_iff)

lemma str_removeprefix_append [simp]: "str_removeprefix (p @ s) p = s"
  by (simp add: str_removeprefix_def str_startswith_iff)

section \<open>Integers as text\<close>

definition digit_char :: "nat \<Rightarrow> char" where
  "digit_char d = char_of (48 + d)"

fun show_nat :: "nat \<Rightarrow> string" where
  "show_nat n = (if n < 10 then [digit_char n] else show_nat (n div 10) @ [digit_char (n mod 10)])"

declare show_nat.simps [simp del]

definition show_int :: "int \<Rightarrow> string" where
  "show_int i = (if i < 0 then ''-'' @ show_nat (nat (- i)) else show_nat (nat i))"

text \<open>\<open>repr\<close> of a list of integers\<close>

definition show_int_list :: "int list \<Rightarrow> string" where
  "show_int_list xs = ''['' @ str_join '', '' (map show_int xs) @ '']''"

definition is_digit :: "char \<Rightarrow> bool" where
  "is_digit c \<longleftrightarrow> (let n = (of_char c :: nat) in 48 \<le> n \<and> n \<le> 57)"

definition digit_val :: "char \<Rightarrow> nat" where
  "digit_val c = of_char c - 48"

text \<open>
  The digits of an integer literal as \<open>int(text)\<close> reads them: at least one digit, single
  underscores only between two digits.
\<close>

fun digits_ok :: "string \<Rightarrow> bool" where
  "digits_ok [] = False"
| "digits_ok [c] = is_digit c"
| "digits_ok (c # d # s) =
     (is_digit c \<and> (if d = CHR ''_'' then digits_ok s else digits_ok (d # s)))"

definition digits_val :: "string \<Rightarrow> nat" where
  "digits_val s = foldl (\<lambda>v c. if is_digit c then 10 * v + digit_val c else v) 0 s"

text \<open>\<open>int(text)\<close>; \<^const>\<open>None\<close> is the \<open>ValueError\<close>.\<close>

definition py_int :: "string \<Rightarrow> int option" where
  "py_int text =
     (case str_strip text of
        [] \<Rightarrow> None
      | c # s \<Rightarrow>
          if c = CHR ''-'' then (if digits_ok s then Some (- int (digits_val s)) else None)
          else if c = CHR ''+'' then (if digits_ok s then Some (int (digits_val s)) else None)
          else if digits_ok (c # s) then Some (int (digits_val (c # s))) else None)"

lemma of_char_digit [simp]: "d < 10 \<Longrightarrow> (of_char (digit_char d) :: nat) = 48 + d"
  by (simp add: digit_char_def)

lemma is_digit_digit_char [simp]: "d < 10 \<Longrightarrow> is_digit (digit_char d)"
  by (simp add: is_digit_def)

lemma digit_val_digit_char [simp]: "d < 10 \<Longrightarrow> digit_val (digit_char d) = d"
  by (simp add: digit_val_def)

lemma show_nat_ne [simp]: "show_nat n \<noteq> []"
  by (subst show_nat.simps) simp

lemma show_nat_digits: "c \<in> set (show_nat n) \<Longrightarrow> is_digit c"
proof (induction n rule: show_nat.induct)
  case (1 n)
  then show ?case
    by (cases "n < 10") (auto simp: show_nat.simps [of n])
qed

lemma digits_val_show_nat [simp]: "digits_val (show_nat n) = n"
proof (induction n rule: show_nat.induct)
  case (1 n)
  show ?case
  proof (cases "n < 10")
    case True
    then show ?thesis by (simp add: show_nat.simps [of n] digits_val_def)
  next
    case False
    with 1 have "digits_val (show_nat (n div 10)) = n div 10" by simp
    with False show ?thesis by (simp add: show_nat.simps [of n] digits_val_def)
  qed
qed

lemma digits_ok_all: "s \<noteq> [] \<Longrightarrow> (\<And>c. c \<in> set s \<Longrightarrow> is_digit c) \<Longrightarrow> digits_ok s"
proof (induction s rule: digits_ok.induct)
  case (3 c d s)
  then have "is_digit d" by simp
  then have "d \<noteq> CHR ''_''" by (auto simp: is_digit_def)
  with 3 show ?case by simp
qed simp_all

lemma is_digit_not_space: "is_digit c \<Longrightarrow> \<not> is_py_space c"
  by (auto simp: is_digit_def is_py_space_def Let_def)

lemma is_digit_neqs: "is_digit c \<Longrightarrow> c \<noteq> CHR ''-'' \<and> c \<noteq> CHR ''+'' \<and> c \<noteq> CHR ''.'' \<and> c \<noteq> CHR ''/''"
  by (auto simp: is_digit_def)

lemma str_strip_id: "(\<And>c. c \<in> set s \<Longrightarrow> \<not> is_py_space c) \<Longrightarrow> str_strip s = s"
  unfolding str_strip_def
  by (metis dropWhile_eq_self_iff hd_in_set rev_rev_ident set_rev)

lemma py_int_show_nat [simp]: "py_int (show_nat n) = Some (int n)"
proof -
  obtain c s where cs: "show_nat n = c # s" by (cases "show_nat n") auto
  have d: "is_digit x" if "x \<in> set (c # s)" for x
    using that show_nat_digits [of x n] cs by simp
  then have strip: "str_strip (c # s) = c # s"
    using is_digit_not_space by (intro str_strip_id) auto
  have "digits_ok (c # s)" using d by (intro digits_ok_all) auto
  moreover have "digits_val (c # s) = n" using digits_val_show_nat [of n] cs by simp
  ultimately show ?thesis using strip is_digit_neqs [OF d, of c] by (simp add: py_int_def cs)
qed

lemma show_nat_inj: "show_nat m = show_nat n \<Longrightarrow> m = n"
  by (metis digits_val_show_nat)

lemma show_int_inj: "show_int i = show_int j \<Longrightarrow> i = j"
proof -
  assume eq: "show_int i = show_int j"
  have "CHR ''-'' \<notin> set (show_nat n)" for n
    using show_nat_digits is_digit_neqs by blast
  with eq show ?thesis
    unfolding show_int_def
    by (smt (verit) append_Cons append_Nil list.set_intros(1) list.inject nat_eq_iff2 show_nat_inj)
qed

text \<open>\<open>f'{x:.2f}'\<close>: two decimals, ties to even\<close>

definition round_half_even :: "rat \<Rightarrow> int" where
  "round_half_even x =
     (let f = \<lfloor>x\<rfloor>; r = x - of_int f
      in if r < 1 / 2 then f else if 1 / 2 < r then f + 1 else if even f then f else f + 1)"

definition show_fixed2 :: "rat \<Rightarrow> string" where
  "show_fixed2 x =
     (let n = nat (round_half_even (\<bar>x\<bar> * 100)); c = n mod 100
      in (if x < 0 then ''-'' else '''') @ show_nat (n div 100) @ ''.''
         @ [digit_char (c div 10), digit_char (c mod 10)])"

section \<open>JSON values\<close>

text \<open>Values of \<open>Any\<close>-typed dictionaries; a dictionary keeps its insertion order.\<close>

datatype json =
    JNull
  | JBool bool
  | JInt int
  | JFloat rat
  | JStr string
  | JList "json list"
  | JDict "(string \<times> json) list"

type_synonym jdict = "(string \<times> json) list"

text \<open>
  Python's \<open>==\<close> on such values: \<open>True == 1 == 1.0\<close>, and dictionaries compare as finite maps.
  Two values are equal when their canonical forms are.
\<close>

fun json_canon :: "json \<Rightarrow> json" where
  "json_canon JNull = JNull"
| "json_canon (JBool b) = JFloat (if b then 1 else 0)"
| "json_canon (JInt i) = JFloat (of_int i)"
| "json_canon (JFloat x) = JFloat x"
| "json_canon (JStr s) = JStr s"
| "json_canon (JList xs) = JList (map json_canon xs)"
| "json_canon (JDict d) = JDict (sort_key fst (map (\<lambda>(k, v). (k, json_canon v)) d))"

definition dict_canon :: "jdict \<Rightarrow> jdict" where
  "dict_canon d = sort_key fst (map (\<lambda>(k, v). (k, json_canon v)) d)"

text \<open>\<open>d[k] = v\<close>: an existing key keeps its position\<close>

fun alist_set :: "'k \<Rightarrow> 'v \<Rightarrow> ('k \<times> 'v) list \<Rightarrow> ('k \<times> 'v) list" where
  "alist_set k v [] = [(k, v)]"
| "alist_set k v ((k', v') # d) = (if k = k' then (k, v) # d else (k', v') # alist_set k v d)"

definition alist_update :: "('k \<times> 'v) list \<Rightarrow> ('k \<times> 'v) list \<Rightarrow> ('k \<times> 'v) list" where
  "alist_update d e = foldl (\<lambda>acc (k, v). alist_set k v acc) d e"

definition alist_del :: "'k \<Rightarrow> ('k \<times> 'v) list \<Rightarrow> ('k \<times> 'v) list" where
  "alist_del k d = filter (\<lambda>(k', v). k' \<noteq> k) d"

lemma map_of_alist_set [simp]: "map_of (alist_set k v d) = (map_of d)(k \<mapsto> v)"
  by (induction d) auto

lemma map_of_alist_del [simp]: "map_of (alist_del k d) = (map_of d)(k := None)"
  unfolding alist_del_def by (induction d) auto

lemma dom_alist_set [simp]: "set (map fst (alist_set k v d)) = insert k (set (map fst d))"
  by (induction d rule: alist_set.induct) auto

lemma distinct_alist_set [simp]:
  "distinct (map fst d) \<Longrightarrow> distinct (map fst (alist_set k v d))"
proof (induction k v d rule: alist_set.induct)
  case (2 k v k' v' d)
  then show ?case using dom_alist_set [of k v d] by auto
qed simp

lemma distinct_alist_del [simp]:
  "distinct (map fst d) \<Longrightarrow> distinct (map fst (alist_del k d))"
  unfolding alist_del_def by (induction d) auto

end
