(* ===== verification/Text_Search.thy ===== *)
theory Text_Search
  imports Prelude
begin

text \<open>
  Searching in strings: the first occurrence of a text, and what \<open>split\<close>, \<open>count\<close>, \<open>lstrip\<close> and the
  regular expressions of the modelled code need of it.
\<close>

section \<open>The first occurrence\<close>

text \<open>What is before and after the first occurrence of \<open>sep\<close>\<close>

fun cut_at :: "string \<Rightarrow> string \<Rightarrow> (string \<times> string) option" where
  "cut_at sep [] = (if sep = [] then Some ([], []) else None)"
| "cut_at sep (c # s) =
     (if str_startswith (c # s) sep then Some ([], drop (length sep) (c # s))
      else map_option (\<lambda>(a, b). (c # a, b)) (cut_at sep s))"

text \<open>\<open>s.split(sep)[0]\<close>\<close>

definition before_first :: "string \<Rightarrow> string \<Rightarrow> string" where
  "before_first sep s = (case cut_at sep s of None \<Rightarrow> s | Some (a, b) \<Rightarrow> a)"

text \<open>\<open>s.replace(old, '', 1)\<close>\<close>

definition remove_first :: "string \<Rightarrow> string \<Rightarrow> string" where
  "remove_first old s = (case cut_at old s of None \<Rightarrow> s | Some (a, b) \<Rightarrow> a @ b)"

lemma cut_at_Some: "cut_at sep s = Some (a, b) \<Longrightarrow> s = a @ sep @ b"
proof (induction s arbitrary: a)
  case (Cons c s)
  then show ?case
    by (auto simp: str_startswith_iff split: if_splits)
qed (auto split: if_splits)

lemma cut_at_None: "cut_at sep s = None \<longleftrightarrow> \<not> str_contains sep s"
  by (induction s) auto

lemma cut_at_shorter: "cut_at sep s = Some (a, b) \<Longrightarrow> sep \<noteq> [] \<Longrightarrow> length b < length s"
  using cut_at_Some by fastforce

text \<open>\<open>s.count(sep)\<close> for a text that is not empty\<close>

function (sequential) count_occ :: "string \<Rightarrow> string \<Rightarrow> nat" where
  "count_occ [] s = Suc (length s)"
| "count_occ (c # sep) s = (case cut_at (c # sep) s of None \<Rightarrow> 0 | Some (a, b) \<Rightarrow> Suc (count_occ (c # sep) b))"
  by pat_completeness auto
termination
  by (relation "measure (\<lambda>(sep, s). length s)") (auto dest: cut_at_shorter)

declare count_occ.simps [simp del]

definition str_lstrip :: "string \<Rightarrow> string" where
  "str_lstrip s = dropWhile is_py_space s"

definition str_rstrip :: "string \<Rightarrow> string" where
  "str_rstrip s = rev (dropWhile is_py_space (rev s))"

section \<open>Texts that do not overlap themselves\<close>

text \<open>
  A text whose last character does not occur earlier in it: no occurrence of such a text ends inside another
  one. All the tags the code searches for are of this kind.
\<close>

definition tag_like :: "string \<Rightarrow> bool" where
  "tag_like t \<longleftrightarrow> t \<noteq> [] \<and> last t \<notin> set (butlast t)"

lemma tag_like_split:
  assumes "tag_like t" "a @ t @ b = a' @ t @ b'" "length a' < length a"
  shows "str_contains t a"
proof -
  have drop_eq: "drop (length a') (a @ t @ b) = t @ b'" using assms(2) by simp
  then have eq: "drop (length a') a @ t @ b = t @ b'" using assms(3) by simp
  define k where "k = length a - length a'"
  have k: "0 < k" "length (drop (length a') a) = k" using assms(3) by (auto simp: k_def)
  show ?thesis
  proof (cases "k < length t")
    case True
    have len: "length t \<le> k + length t" by simp
    have "last t = (t @ b') ! (length t - 1)" using assms(1) by (simp add: tag_like_def last_conv_nth nth_append)
    also have "\<dots> = (drop (length a') a @ t @ b) ! (length t - 1)" using eq by simp
    also have "\<dots> = (t @ b) ! (length t - 1 - k)"
      using True k by (subst nth_append) (auto simp: Suc_diff_Suc)
    also have "\<dots> = t ! (length t - 1 - k)" using True k by (subst nth_append) auto
    also have "\<dots> = butlast t ! (length t - 1 - k)" using True k by (simp add: nth_butlast)
    finally have "last t \<in> set (butlast t)" using True k by (simp add: nth_mem)
    with assms(1) show ?thesis by (simp add: tag_like_def)
  next
    case False
    then have "take (length t) (drop (length a') a) = t"
      using arg_cong [OF eq, of "take (length t)"] k by simp
    then have "a = take (length a') a @ t @ drop (length t) (drop (length a') a)"
      by (metis append_take_drop_id)
    then show ?thesis unfolding str_contains_iff by blast
  qed
qed

lemma cut_at_append:
  assumes "tag_like t" "\<not> str_contains t a"
  shows "cut_at t (a @ t @ b) = Some (a, b)"
proof -
  have "str_contains t (a @ t @ b)" unfolding str_contains_iff by blast
  then obtain x y where xy: "cut_at t (a @ t @ b) = Some (x, y)"
    using cut_at_None [of t "a @ t @ b"] by (metis not_Some_eq surj_pair)
  then have eq: "a @ t @ b = x @ t @ y" by (rule cut_at_Some)
  have "\<not> length x < length a" using tag_like_split [OF assms(1) eq] assms(2) by blast
  moreover have "\<not> length a < length x"
  proof
    assume l: "length a < length x"
    have "cut_at t (a @ t @ b) \<noteq> Some (x, y)"
      using l
    proof (induction a arbitrary: x)
      case Nil
      have "t \<noteq> []" using assms(1) by (simp add: tag_like_def)
      then obtain c t' where "t = c # t'" by (cases t) auto
      with Nil show ?case by (auto simp: str_startswith_iff)
    next
      case (Cons c a)
      then show ?case by (cases x) auto
    qed
    with xy show False by simp
  qed
  ultimately have "length a = length x" by simp
  with eq have "a = x" "b = y" by auto
  with xy show ?thesis by simp
qed

lemma before_first_append:
  "tag_like t \<Longrightarrow> \<not> str_contains t a \<Longrightarrow> before_first t (a @ t @ b) = a"
  by (simp add: before_first_def cut_at_append)

lemma before_first_none: "\<not> str_contains t a \<Longrightarrow> before_first t a = a"
  using cut_at_None [of t a] by (simp add: before_first_def)

lemma remove_first_prefix: "t \<noteq> [] \<Longrightarrow> remove_first t (t @ b) = b"
  by (cases t) (auto simp: remove_first_def str_startswith_def)

lemma remove_first_Nil [simp]: "remove_first [] s = s"
  by (cases s) (auto simp: remove_first_def str_startswith_def)

lemma str_contains_append:
  assumes "tag_like t" "\<not> str_contains t a" "\<not> str_contains t b" "last t \<notin> set b"
  shows "\<not> str_contains t (a @ b)"
proof
  assume "str_contains t (a @ b)"
  then obtain x y where xy: "a @ b = x @ t @ y" unfolding str_contains_iff by blast
  show False
  proof (cases "length (x @ t) \<le> length a")
    case True
    then have "a = (x @ t) @ take (length a - length (x @ t)) y"
      using arg_cong [OF xy, of "take (length a)"] by simp
    then show False using assms(2) unfolding str_contains_iff by (metis append.assoc)
  next
    case False
    have t: "t \<noteq> []" using assms(1) by (simp add: tag_like_def)
    define n where "n = length x + length t - 1"
    have n: "length a \<le> n" "n < length (a @ b)" using False t xy by (auto simp: n_def Suc_le_eq neq_Nil_conv)
    have "(x @ t @ y) ! n = (t @ y) ! (length t - 1)" using t by (cases t) (simp_all add: n_def nth_append)
    also have "\<dots> = t ! (length t - 1)" using t by (subst nth_append) simp
    finally have "last t = (x @ t @ y) ! n" using t by (simp add: last_conv_nth)
    also have "\<dots> = b ! (n - length a)" using n(1) xy [symmetric] by (simp add: nth_append)
    finally have "last t \<in> set b" using n by simp
    with assms(4) show False by simp
  qed
qed

lemma str_contains_mono: "str_contains t a \<Longrightarrow> str_contains t (x @ a @ y)"
  unfolding str_contains_iff by (metis append.assoc)

lemma not_contains_part: "\<not> str_contains t (x @ a @ y) \<Longrightarrow> \<not> str_contains t a"
  using str_contains_mono by blast

lemma str_contains_char: "str_contains t s \<Longrightarrow> c \<in> set t \<Longrightarrow> c \<in> set s"
  unfolding str_contains_iff by auto

lemma count_occ_none: "t \<noteq> [] \<Longrightarrow> \<not> str_contains t s \<Longrightarrow> count_occ t s = 0"
  using cut_at_None [of t s] by (cases t) (auto simp: count_occ.simps)

lemma count_occ_one:
  "tag_like t \<Longrightarrow> \<not> str_contains t a \<Longrightarrow> \<not> str_contains t b \<Longrightarrow> count_occ t (a @ t @ b) = 1"
  using cut_at_append [of t a b] count_occ_none [of t b]
  by (cases t) (auto simp: count_occ.simps tag_like_def)

text \<open>Where an occurrence can start and end\<close>

lemma contains_skip: "t \<noteq> [] \<Longrightarrow> hd t \<notin> set x \<Longrightarrow> str_contains t (x @ s) = str_contains t s"
  by (induction x) (auto simp: str_startswith_iff neq_Nil_conv)

lemma contains_at_start:
  assumes "t \<noteq> []" "hd t \<notin> set (tl t)" "b = [] \<or> hd b = hd t"
  shows "str_contains t (a @ b) \<longleftrightarrow> str_contains t a \<or> str_contains t b"
proof (cases b)
  case Nil
  with assms(1) show ?thesis by simp
next
  case (Cons c b')
  with assms(3) have c: "c = hd t" by simp
  show ?thesis
  proof (induction a)
    case Nil
    with assms(1) show ?case by simp
  next
    case (Cons d a)
    have "str_startswith ((d # a) @ b) t = str_startswith (d # a) t"
    proof (cases "length t \<le> length (d # a)")
      case True
      then show ?thesis unfolding str_startswith_def by (simp only: take_append) simp
    next
      case False
      have "take (length t) ((d # a) @ b) \<noteq> t"
      proof
        assume "take (length t) ((d # a) @ b) = t"
        then have "t ! length (d # a) = hd t"
          using False c \<open>b = c # b'\<close> by (metis leI nth_append_length nth_take)
        moreover have "t ! length (d # a) \<in> set (tl t)"
          using False assms(1) by (cases t) auto
        ultimately show False using assms(2) by simp
      qed
      moreover have "d # a \<noteq> t" using False by auto
      ultimately show ?thesis using False by (simp add: str_startswith_def)
    qed
    with Cons.IH show ?case by simp
  qed
qed

lemma cut_at_first:
  assumes "t \<noteq> []" "\<not> str_contains t (a @ butlast t)"
  shows "cut_at t (a @ t @ b) = Some (a, b)"
  using assms(2)
proof (induction a)
  case Nil
  with assms(1) show ?case by (cases t) (auto simp: str_startswith_def)
next
  case (Cons c a)
  have "\<not> str_startswith ((c # a) @ t @ b) t"
  proof
    assume "str_startswith ((c # a) @ t @ b) t"
    moreover have "t @ b = butlast t @ last t # b" using assms(1) by simp
    ultimately have "take (length t) (((c # a) @ butlast t) @ last t # b) = t"
      unfolding str_startswith_def by (simp only: append_assoc)
    moreover have "length t \<le> length ((c # a) @ butlast t)" using assms(1) by simp
    ultimately have "take (length t) ((c # a) @ butlast t) = t" by (simp only: take_append) simp
    then have "str_startswith ((c # a) @ butlast t) t" by (simp add: str_startswith_def)
    with Cons.prems show False by simp
  qed
  with Cons show ?case by simp
qed

section \<open>Stripping\<close>

lemma str_strip_lr: "str_strip s = str_rstrip (str_lstrip s)"
  by (simp add: str_strip_def str_rstrip_def str_lstrip_def)

lemma dropWhile_all_append: "list_all P xs \<Longrightarrow> dropWhile P (xs @ ys) = dropWhile P ys"
  by (induction xs) auto

lemma str_strip_spaces: "list_all is_py_space xs \<Longrightarrow> str_strip (s @ xs) = str_strip s"
proof -
  assume xs: "list_all is_py_space xs"
  show ?thesis
  proof (cases "list_all is_py_space s")
    case True
    then have "list_all is_py_space (s @ xs)" using xs by simp
    with True have "dropWhile is_py_space (s @ xs) = []" "dropWhile is_py_space s = []"
      unfolding dropWhile_eq_Nil_conv list_all_iff by blast+
    then show ?thesis by (simp only: str_strip_def)
  next
    case False
    then have "dropWhile is_py_space (s @ xs) = dropWhile is_py_space s @ xs"
      by (metis dropWhile_append1 list_all_iff)
    then show ?thesis using xs by (simp add: str_strip_def dropWhile_all_append)
  qed
qed

lemma str_strip_lstrip: "str_strip (str_lstrip s) = str_strip s"
  by (simp add: str_strip_def str_lstrip_def)

lemma str_lstrip_append: "s \<noteq> [] \<Longrightarrow> \<not> is_py_space (hd s) \<Longrightarrow> str_lstrip (a @ s) = str_lstrip a @ s"
  unfolding str_lstrip_def by (induction a) (auto simp: neq_Nil_conv)

lemma str_lstrip_suffix: "\<exists>x. s = x @ str_lstrip s"
  unfolding str_lstrip_def by (metis takeWhile_dropWhile_id)

lemma lstrip_not_contains: "\<not> str_contains t s \<Longrightarrow> \<not> str_contains t (str_lstrip s)"
  using str_lstrip_suffix [of s] str_contains_mono [of t "str_lstrip s"] by (metis append_Nil2)

lemma py_int_show_int [simp]: "py_int (show_int i) = Some i"
proof (cases "i < 0")
  case False
  then show ?thesis by (simp add: show_int_def)
next
  case True
  let ?s = "show_nat (nat (- i))"
  have "\<not> is_py_space c" if "c \<in> set (CHR ''-'' # ?s)" for c
    using that show_nat_digits is_digit_not_space by (auto simp: is_py_space_def Let_def)
  then have "str_strip (CHR ''-'' # ?s) = CHR ''-'' # ?s" by (rule str_strip_id)
  moreover have "digits_ok ?s" using show_nat_digits by (intro digits_ok_all) auto
  ultimately show ?thesis using True by (simp add: show_int_def py_int_def)
qed

end
