(* ===== verification/Fn_Calls.thy ===== *)
theory Fn_Calls
  imports Fn_Examples Text_Search
begin

text \<open>
  \<open>openhands/llm/fn_call_converter.py\<close>: messages with tool calls written as plain text for models that have no tool
  calls, and read back. A message is the dictionary sent to the client library. The texts of the errors are left
  out; they are told apart by their class.

  Parameters: \<open>json.loads\<close>, \<open>json.dumps\<close>, \<open>str\<close> of floats, lists and dictionaries, and whether the platform is
  Windows.
\<close>

record fn_env =
  fe_loads :: "string \<Rightarrow> json option"
  fe_dumps :: "json \<Rightarrow> string"
  fe_str :: "json \<Rightarrow> string"
  fe_windows :: bool

datatype fn_error =
    Conversion_error | Validation_error
  | Key_error | Type_error | Attribute_error | Assertion_error

section \<open>Dictionaries and results\<close>

definition and_then :: "'e + 'a \<Rightarrow> ('a \<Rightarrow> 'e + 'b) \<Rightarrow> 'e + 'b" where
  "and_then r f = (case r of Inl e \<Rightarrow> Inl e | Inr x \<Rightarrow> f x)"

fun traverse :: "('a \<Rightarrow> 'e + 'b) \<Rightarrow> 'a list \<Rightarrow> 'e + 'b list" where
  "traverse f [] = Inr []"
| "traverse f (x # xs) = and_then (f x) (\<lambda>y. and_then (traverse f xs) (\<lambda>ys. Inr (y # ys)))"

lemma and_then_simps [simp]: "and_then (Inl e) f = Inl e" "and_then (Inr x) f = f x"
  by (simp_all add: and_then_def)

text \<open>\<open>j[k]\<close>, and whether an item is a text\<close>

definition sub :: "string \<Rightarrow> json \<Rightarrow> fn_error + json" where
  "sub k j =
     (case j of JDict d \<Rightarrow> (case map_of d k of None \<Rightarrow> Inl Key_error | Some v \<Rightarrow> Inr v) | _ \<Rightarrow> Inl Type_error)"

definition text_type :: "json \<Rightarrow> fn_error + bool" where
  "text_type j = and_then (sub ''type'' j) (\<lambda>t. Inr (t = JStr ''text''))"

definition get_text_type :: "json \<Rightarrow> bool" where
  "get_text_type j = (case j of JDict d \<Rightarrow> map_of d ''type'' = Some (JStr ''text'') | _ \<Rightarrow> False)"

definition item_text :: "json \<Rightarrow> fn_error + string" where
  "item_text j = and_then (sub ''text'' j) (\<lambda>t. case t of JStr s \<Rightarrow> Inr s | _ \<Rightarrow> Inl Type_error)"

definition set_text :: "string \<Rightarrow> json \<Rightarrow> json" where
  "set_text s j = (case j of JDict d \<Rightarrow> JDict (alist_set ''text'' (JStr s) d) | _ \<Rightarrow> j)"

definition map_text :: "(string \<Rightarrow> string) \<Rightarrow> json \<Rightarrow> fn_error + json" where
  "map_text f j = and_then (item_text j) (\<lambda>s. Inr (set_text (f s) j))"

definition text_item :: "string \<Rightarrow> json" where
  "text_item s = JDict [(''type'', JStr ''text''), (''text'', JStr s)]"

text \<open>\<open>f'{value}'\<close>\<close>

definition py_format :: "fn_env \<Rightarrow> json \<Rightarrow> string" where
  "py_format env j =
     (case j of
        JStr s \<Rightarrow> s
      | JInt i \<Rightarrow> show_int i
      | JBool b \<Rightarrow> (if b then ''True'' else ''False'')
      | JNull \<Rightarrow> ''None''
      | _ \<Rightarrow> fe_str env j)"

section \<open>Tools\<close>

text \<open>The schema of a tool as the client library declares it; \<open>None\<close> for a key that is left out\<close>

record fn_param =
  fp_type :: "string option"
  fp_description :: "string option"
  fp_enum :: "json list option"

record fn_params =
  fs_properties :: "(string \<times> fn_param) list option"
  fs_required :: "string list option"

record fn_tool =
  ft_type :: string
  ft_name :: string
  ft_description :: "string option"
  ft_parameters :: "fn_params option"

definition or_nil :: "'a list option \<Rightarrow> 'a list" where
  "or_nil x = (case x of None \<Rightarrow> [] | Some xs \<Rightarrow> xs)"

definition param_type :: "fn_param \<Rightarrow> string" where
  "param_type p = (case fp_type p of None \<Rightarrow> ''string'' | Some t \<Rightarrow> t)"

definition tool_properties :: "fn_tool \<Rightarrow> (string \<times> fn_param) list" where
  "tool_properties t = (case ft_parameters t of None \<Rightarrow> [] | Some ps \<Rightarrow> or_nil (fs_properties ps))"

definition tool_required :: "fn_tool \<Rightarrow> string list" where
  "tool_required t = (case ft_parameters t of None \<Rightarrow> [] | Some ps \<Rightarrow> or_nil (fs_required ps))"

definition describe_param :: "fn_env \<Rightarrow> string list \<Rightarrow> nat \<times> string \<times> fn_param \<Rightarrow> string" where
  "describe_param env required = (\<lambda>(j, name, p).
     let desc = (case fp_description p of None \<Rightarrow> ''No description provided'' | Some d \<Rightarrow> d);
         desc' = (case fp_enum p of
                    None \<Rightarrow> desc
                  | Some vs \<Rightarrow> desc @ newline # ''Allowed values: ['' @
                      str_join '', '' (map (\<lambda>v. [CHR 0x60] @ py_format env v @ [CHR 0x60]) vs) @ '']'')
     in ''  ('' @ show_nat j @ '') '' @ name @ '' ('' @ param_type p @ '', '' @
        (if name \<in> set required then ''required'' else ''optional'') @ ''): '' @ desc' @ [newline])"

definition describe_tool :: "fn_env \<Rightarrow> nat \<times> fn_tool \<Rightarrow> fn_error + string" where
  "describe_tool env = (\<lambda>(i, t).
     if ft_type t \<noteq> ''function'' then Inl Assertion_error
     else case ft_description t of
            None \<Rightarrow> Inl Key_error
          | Some d \<Rightarrow>
              Inr (''---- BEGIN FUNCTION #'' @ show_nat i @ '': '' @ ft_name t @ '' ----'' @ newline #
                ''Description: '' @ d @ newline #
                (case ft_parameters t of
                   None \<Rightarrow> ''No parameters are required for this function.'' @ [newline]
                 | Some ps \<Rightarrow> ''Parameters:'' @ newline #
                     concat (map (describe_param env (tool_required t)) (enumerate 1 (tool_properties t)))) @
                ''---- END FUNCTION #'' @ show_nat i @ '' ----'' @ [newline]))"

definition convert_tools_to_description :: "fn_env \<Rightarrow> fn_tool list \<Rightarrow> fn_error + string" where
  "convert_tools_to_description env tools =
     and_then (traverse (describe_tool env) (enumerate 1 tools)) (\<lambda>blocks. Inr (str_join [newline] blocks))"

definition system_prompt_suffix :: "fn_env \<Rightarrow> fn_tool list \<Rightarrow> fn_error + string" where
  "system_prompt_suffix env tools =
     and_then (convert_tools_to_description env tools) (\<lambda>d. Inr (SYSTEM_SUFFIX_HEAD @ d @ SYSTEM_SUFFIX_TAIL))"

definition refine_prompt :: "fn_env \<Rightarrow> string \<Rightarrow> string" where
  "refine_prompt env prompt = (if fe_windows env then str_replace prompt ''bash'' ''powershell'' else prompt)"

definition get_example_for_tools :: "fn_env \<Rightarrow> fn_tool list \<Rightarrow> string" where
  "get_example_for_tools env tools =
     (let names = map ft_name (filter (\<lambda>t. ft_type t = ''function'') tools);
          has = (\<lambda>n. n \<in> set names)
      in if \<not> (has ''execute_bash'' \<or> has ''str_replace_editor'' \<or> has ''browser'' \<or> has ''finish'' \<or> has ''edit_file'')
         then []
         else refine_prompt env (str_lstrip
           (EXAMPLE_START @
            (if has ''execute_bash'' then EXAMPLE_execute_bash_check_dir else []) @
            (if has ''str_replace_editor'' then EXAMPLE_str_replace_editor_create_file
             else if has ''edit_file'' then EXAMPLE_edit_file_create_file else []) @
            (if has ''execute_bash'' then EXAMPLE_execute_bash_run_server else []) @
            (if has ''browser'' then EXAMPLE_browser_view_page else []) @
            (if has ''execute_bash'' then EXAMPLE_execute_bash_kill_server else []) @
            (if has ''str_replace_editor'' then EXAMPLE_str_replace_editor_edit_file
             else if has ''edit_file'' then EXAMPLE_edit_file_edit_file else []) @
            (if has ''execute_bash'' then EXAMPLE_execute_bash_run_server_again else []) @
            (if has ''finish'' then EXAMPLE_finish_example else []) @
            EXAMPLE_END)))"

section \<open>From tool calls to text\<close>

definition value_text :: "fn_env \<Rightarrow> json \<Rightarrow> string" where
  "value_text env v = (case v of JList _ \<Rightarrow> fe_dumps env v | JDict _ \<Rightarrow> fe_dumps env v | _ \<Rightarrow> py_format env v)"

definition param_text :: "fn_env \<Rightarrow> string \<times> json \<Rightarrow> string" where
  "param_text env = (\<lambda>(k, v).
     ''<parameter='' @ k @ ''>'' @ value_text env v @ ''</parameter>'' @ [newline])"

definition call_text :: "fn_env \<Rightarrow> string \<Rightarrow> jdict \<Rightarrow> string" where
  "call_text env name args =
     ''<function='' @ name @ ''>'' @ newline # concat (map (param_text env) args) @ ''</function>''"

definition convert_tool_call_to_string :: "fn_env \<Rightarrow> jdict \<Rightarrow> fn_error + string" where
  "convert_tool_call_to_string env tc =
     (case (map_of tc ''function'', map_of tc ''id'', map_of tc ''type'') of
        (Some f, Some _, Some (JStr t)) \<Rightarrow>
          if t \<noteq> ''function'' then Inl Conversion_error
          else and_then (sub ''name'' f) (\<lambda>name. and_then (sub ''arguments'' f) (\<lambda>a.
            case a of
              JStr s \<Rightarrow>
                (case fe_loads env s of
                   None \<Rightarrow> Inl Conversion_error
                 | Some (JDict args) \<Rightarrow> Inr (call_text env (py_format env name) args)
                 | Some _ \<Rightarrow> Inl Attribute_error)
            | _ \<Rightarrow> Inl Type_error))
      | _ \<Rightarrow> Inl Conversion_error)"

text \<open>
  A text put behind a content: on a string, on the last item if that is a text, or as a new item. Any other
  content is refused.
\<close>

definition extend_content :: "(string \<Rightarrow> string) \<Rightarrow> string \<Rightarrow> json \<Rightarrow> fn_error + json" where
  "extend_content f new c =
     (case c of
        JStr s \<Rightarrow> Inr (JStr (f s))
      | JList [] \<Rightarrow> Inr (JList [text_item new])
      | JList items \<Rightarrow>
          and_then (text_type (last items)) (\<lambda>is_txt.
            if is_txt
            then and_then (map_text f (last items)) (\<lambda>i. Inr (JList (butlast items @ [i])))
            else Inr (JList (items @ [text_item new])))
      | _ \<Rightarrow> Inl Conversion_error)"

definition add_example :: "string \<Rightarrow> json \<Rightarrow> fn_error + json" where
  "add_example ex c =
     (case c of
        JStr s \<Rightarrow> Inr (JStr (ex @ s @ EXAMPLE_SUFFIX))
      | JList [] \<Rightarrow> Inr (JList [text_item ex, text_item EXAMPLE_SUFFIX])
      | JList (i # items) \<Rightarrow>
          and_then (text_type i) (\<lambda>is_txt.
            if is_txt then and_then (map_text (\<lambda>s. ex @ s @ EXAMPLE_SUFFIX) i) (\<lambda>i'. Inr (JList (i' # items)))
            else Inr (JList (text_item ex # (i # items) @ [text_item EXAMPLE_SUFFIX])))
      | _ \<Rightarrow> Inl Conversion_error)"

fun prefix_first_text :: "string \<Rightarrow> json list \<Rightarrow> fn_error + json list option" where
  "prefix_first_text p [] = Inr None"
| "prefix_first_text p (i # items) =
     and_then (text_type i) (\<lambda>is_txt.
       if is_txt then and_then (map_text (\<lambda>s. p @ s) i) (\<lambda>i'. Inr (Some (i' # items)))
       else and_then (prefix_first_text p items) (\<lambda>r. Inr (map_option ((#) i) r)))"

definition result_prefix :: "fn_env \<Rightarrow> jdict \<Rightarrow> string" where
  "result_prefix env m =
     ''EXECUTION RESULT of ['' @
     py_format env (case map_of m ''name'' of None \<Rightarrow> JStr ''function'' | Some n \<Rightarrow> n) @ '']:'' @ [newline]"

definition convert_tool_result :: "fn_env \<Rightarrow> jdict \<Rightarrow> json \<Rightarrow> fn_error + json" where
  "convert_tool_result env m c =
     (let p = result_prefix env m
      in and_then
        (case c of
           JStr s \<Rightarrow> Inr (JStr (p @ s))
         | JList items \<Rightarrow>
             and_then (prefix_first_text p items) (\<lambda>r.
               Inr (JList (case r of None \<Rightarrow> text_item p # items | Some is \<Rightarrow> is)))
         | _ \<Rightarrow> Inl Conversion_error)
        (\<lambda>c'. if map_of m ''cache_control'' = None then Inr c'
              else case c' of
                     JList items \<Rightarrow>
                       (case last items of
                          JDict d \<Rightarrow> Inr (JList (butlast items @
                            [JDict (alist_set ''cache_control'' (JDict [(''type'', JStr ''ephemeral'')]) d)]))
                        | _ \<Rightarrow> Inl Type_error)
                   | _ \<Rightarrow> Inl Type_error))"

definition out_message :: "string \<Rightarrow> json \<Rightarrow> jdict" where
  "out_message role c = [(''role'', JStr role), (''content'', c)]"

definition convert_assistant :: "fn_env \<Rightarrow> jdict \<Rightarrow> json \<Rightarrow> fn_error + json" where
  "convert_assistant env m c =
     (case map_of m ''tool_calls'' of
        None \<Rightarrow> Inr c
      | Some JNull \<Rightarrow> Inr c
      | Some (JList [JDict tc]) \<Rightarrow>
          (case convert_tool_call_to_string env tc of
             Inl e \<Rightarrow> Inl e
           | Inr t \<Rightarrow> extend_content (\<lambda>s. str_lstrip (s @ [newline, newline] @ t)) t c)
      | Some (JList [_]) \<Rightarrow> Inl Type_error
      | Some (JList _) \<Rightarrow> Inl Conversion_error
      | Some _ \<Rightarrow> Inl Type_error)"

text \<open>One message; the flag says whether the example is still to be added.\<close>

definition convert_out :: "fn_env \<Rightarrow> string \<Rightarrow> string \<Rightarrow> bool \<Rightarrow> jdict \<Rightarrow> fn_error + jdict \<times> bool" where
  "convert_out env suffix ex first m =
     and_then (sub ''role'' (JDict m)) (\<lambda>r. and_then (sub ''content'' (JDict m)) (\<lambda>c.
       if r = JStr ''system''
       then and_then (extend_content (\<lambda>s. s @ suffix) suffix c) (\<lambda>c'. Inr (out_message ''system'' c', first))
       else if r = JStr ''user''
       then and_then (if first \<and> ex \<noteq> [] then add_example ex c else Inr c) (\<lambda>c'. Inr (out_message ''user'' c', False))
       else if r = JStr ''assistant''
       then and_then (convert_assistant env m c) (\<lambda>c'. Inr (out_message ''assistant'' c', first))
       else if r = JStr ''tool''
       then and_then (convert_tool_result env m c) (\<lambda>c'. Inr (out_message ''user'' c', first))
       else Inl Conversion_error))"

fun out_loop :: "fn_env \<Rightarrow> string \<Rightarrow> string \<Rightarrow> bool \<Rightarrow> jdict list \<Rightarrow> fn_error + jdict list" where
  "out_loop env suffix ex first [] = Inr []"
| "out_loop env suffix ex first (m # ms) =
     and_then (convert_out env suffix ex first m) (\<lambda>(m', first').
       and_then (out_loop env suffix ex first' ms) (\<lambda>ms'. Inr (m' # ms')))"

definition convert_fncall_messages_to_non_fncall_messages ::
    "fn_env \<Rightarrow> jdict list \<Rightarrow> fn_tool list \<Rightarrow> bool \<Rightarrow> fn_error + jdict list" where
  "convert_fncall_messages_to_non_fncall_messages env messages tools add_ex =
     and_then (system_prompt_suffix env tools) (\<lambda>suffix.
       out_loop env suffix (get_example_for_tools env tools) add_ex messages)"

section \<open>Patterns\<close>

text \<open>
  \<open>FN_REGEX_PATTERN\<close>: behind an opening tag the name up to the first \<open>>\<close>, a line break, and everything up to the
  first closing tag; the search tries the next opening tag when one does not fit.
\<close>

definition fn_match_after :: "string \<Rightarrow> (string \<times> string) option" where
  "fn_match_after s =
     (let name = takeWhile (\<lambda>c. c \<noteq> CHR ''>'') s; rest = dropWhile (\<lambda>c. c \<noteq> CHR ''>'') s
      in if name = [] \<or> \<not> str_startswith rest [CHR ''>'', newline] then None
         else map_option (\<lambda>(b, _). (name, b)) (cut_at ''</function>'' (drop 2 rest)))"

function fn_search :: "string \<Rightarrow> (string \<times> string) option" where
  "fn_search s =
     (case cut_at ''<function='' s of
        None \<Rightarrow> None
      | Some (_, b) \<Rightarrow> (case fn_match_after b of Some r \<Rightarrow> Some r | None \<Rightarrow> fn_search b))"
  by pat_completeness auto
termination
  by (relation "measure length") (auto dest: cut_at_shorter)

declare fn_search.simps [simp del]

text \<open>\<open>FN_PARAM_REGEX_PATTERN\<close>, all matches\<close>

definition param_match_after :: "string \<Rightarrow> (string \<times> string \<times> string) option" where
  "param_match_after s =
     (let name = takeWhile (\<lambda>c. c \<noteq> CHR ''>'') s; rest = dropWhile (\<lambda>c. c \<noteq> CHR ''>'') s
      in if name = [] \<or> rest = [] then None
         else map_option (\<lambda>(v, b). (name, v, b)) (cut_at ''</parameter>'' (tl rest)))"

lemma param_match_after_shorter: "param_match_after s = Some (n, v, b) \<Longrightarrow> length b < length s"
  using length_dropWhile_le [of "\<lambda>c. c \<noteq> CHR ''>''" s]
  by (auto simp: param_match_after_def Let_def split: if_splits dest!: cut_at_shorter)

function param_matches :: "string \<Rightarrow> (string \<times> string) list" where
  "param_matches s =
     (case cut_at ''<parameter='' s of
        None \<Rightarrow> []
      | Some (_, b) \<Rightarrow>
          (case param_match_after b of
             None \<Rightarrow> param_matches b
           | Some (n, v, r) \<Rightarrow> (n, v) # param_matches r))"
  by pat_completeness auto
termination
  by (relation "measure length") (auto dest!: cut_at_shorter param_match_after_shorter)

declare param_matches.simps [simp del]

text \<open>\<open>_normalize_parameter_tags\<close>\<close>

definition tag_word :: "char \<Rightarrow> bool" where
  "tag_word c \<longleftrightarrow>
     (let n = (of_char c :: nat)
      in (97 \<le> n \<and> n \<le> 122) \<or> (65 \<le> n \<and> n \<le> 90) \<or> (48 \<le> n \<and> n \<le> 57) \<or> c = CHR ''_'')"

definition malformed_after :: "string \<Rightarrow> (string \<times> string \<times> string) option" where
  "malformed_after s =
     (let w = takeWhile tag_word s; r = dropWhile tag_word s;
          v = takeWhile (\<lambda>c. c \<noteq> CHR ''<'') (tl r); b = dropWhile (\<lambda>c. c \<noteq> CHR ''<'') (tl r)
      in if w \<noteq> [] \<and> str_startswith r ''='' \<and> str_startswith b ''</parameter>''
         then Some (w, v, drop 12 b) else None)"

lemma malformed_after_shorter: "malformed_after s = Some (w, v, b) \<Longrightarrow> length b \<le> length s"
proof -
  assume "malformed_after s = Some (w, v, b)"
  then have "b = drop 12 (dropWhile (\<lambda>c. c \<noteq> CHR ''<'') (tl (dropWhile tag_word s)))"
    by (auto simp: malformed_after_def Let_def split: if_splits)
  moreover have "length (dropWhile (\<lambda>c. c \<noteq> CHR ''<'') (tl (dropWhile tag_word s))) \<le> length s"
    using length_dropWhile_le [of "\<lambda>c. c \<noteq> CHR ''<''" "tl (dropWhile tag_word s)"]
      length_dropWhile_le [of tag_word s] by simp
  ultimately show ?thesis by simp
qed

function normalize_parameter_tags :: "string \<Rightarrow> string" where
  "normalize_parameter_tags s =
     (case cut_at ''<parameter='' s of
        None \<Rightarrow> s
      | Some (a, b) \<Rightarrow>
          (case malformed_after b of
             None \<Rightarrow> a @ ''<parameter='' @ normalize_parameter_tags b
           | Some (w, v, r) \<Rightarrow> a @ ''<parameter='' @ w @ ''>'' @ v @ ''</parameter>'' @ normalize_parameter_tags r))"
  by pat_completeness auto
termination
  by (relation "measure length") (auto dest!: cut_at_shorter malformed_after_shorter)

declare normalize_parameter_tags.simps [simp del]

text \<open>\<open>TOOL_RESULT_REGEX_PATTERN\<close>\<close>

definition tool_result_search :: "string \<Rightarrow> (string \<times> string) option" where
  "tool_result_search s =
     (case cut_at ''EXECUTION RESULT of ['' s of None \<Rightarrow> None | Some (_, b) \<Rightarrow> cut_at ('']:'' @ [newline]) b)"

definition fix_stopword :: "string \<Rightarrow> string" where
  "fix_stopword s =
     (if str_contains ''<function='' s \<and> count_occ ''<function='' s = 1
      then if str_endswith s ''</'' then str_rstrip s @ ''function>'' else s @ newline # ''</function>''
      else s)"

section \<open>From text to tool calls\<close>

definition json_in :: "json \<Rightarrow> json list \<Rightarrow> bool" where
  "json_in v vs \<longleftrightarrow> list_ex (\<lambda>w. json_canon v = json_canon w) vs"

definition read_param :: "fn_env \<Rightarrow> fn_tool \<Rightarrow> string \<Rightarrow> string \<Rightarrow> fn_error + json" where
  "read_param env t name v =
     (if tool_properties t \<noteq> [] \<and> name \<notin> fst ` set (tool_properties t) then Inl Validation_error
      else case map_of (tool_properties t) name of
             None \<Rightarrow> Inl Key_error
           | Some p \<Rightarrow>
               and_then
                 (if param_type p = ''integer''
                  then (case py_int v of None \<Rightarrow> Inl Validation_error | Some i \<Rightarrow> Inr (JInt i))
                  else if param_type p = ''array''
                  then (case fe_loads env v of None \<Rightarrow> Inl Validation_error | Some j \<Rightarrow> Inr j)
                  else Inr (JStr v))
                 (\<lambda>j. case fp_enum p of
                        None \<Rightarrow> Inr j
                      | Some vs \<Rightarrow> if json_in j vs then Inr j else Inl Validation_error))"

fun collect_params :: "fn_env \<Rightarrow> fn_tool \<Rightarrow> (string \<times> string) list \<Rightarrow> jdict \<Rightarrow> fn_error + jdict" where
  "collect_params env t [] params = Inr params"
| "collect_params env t ((n, v) # ms) params =
     and_then (read_param env t n v) (\<lambda>j. collect_params env t ms (alist_set n j params))"

definition extract_and_validate_params ::
    "fn_env \<Rightarrow> fn_tool \<Rightarrow> (string \<times> string) list \<Rightarrow> fn_error + jdict" where
  "extract_and_validate_params env t matches =
     and_then (collect_params env t matches []) (\<lambda>params.
       if list_all (\<lambda>r. r \<in> fst ` set params) (tool_required t) then Inr params else Inl Validation_error)"

definition toolu :: "nat \<Rightarrow> string" where
  "toolu n = ''toolu_'' @ (if n < 10 then CHR ''0'' # show_nat n else show_nat n)"

definition read_call :: "fn_env \<Rightarrow> fn_tool list \<Rightarrow> nat \<Rightarrow> string \<times> string \<Rightarrow> fn_error + json" where
  "read_call env tools counter = (\<lambda>(name, fn_body).
     case find (\<lambda>t. ft_type t = ''function'' \<and> ft_name t = name) tools of
       None \<Rightarrow> Inl Validation_error
     | Some t \<Rightarrow>
         and_then (extract_and_validate_params env t (param_matches (normalize_parameter_tags fn_body))) (\<lambda>params.
           Inr (JDict
             [(''index'', JInt 1), (''id'', JStr (toolu counter)), (''type'', JStr ''function''),
              (''function'', JDict [(''name'', JStr name), (''arguments'', JStr (fe_dumps env (JDict params)))])])))"

definition strip_example :: "string \<Rightarrow> string \<Rightarrow> string" where
  "strip_example ex s =
     (let s1 = (if str_startswith s ex then remove_first ex s else s)
      in if str_endswith s1 EXAMPLE_SUFFIX then remove_first EXAMPLE_SUFFIX s1 else s1)"

definition content_or_empty :: "json \<Rightarrow> json" where
  "content_or_empty c = (if c \<in> {JNull, JStr [], JList [], JDict [], JBool False, JInt 0, JFloat 0} then JStr [] else c)"

definition read_system :: "string \<Rightarrow> json \<Rightarrow> fn_error + json" where
  "read_system suffix c =
     (case c of
        JStr s \<Rightarrow> Inr (JStr (before_first suffix s))
      | JList (i # items) \<Rightarrow>
          and_then (text_type (last (i # items))) (\<lambda>is_txt.
            if is_txt
            then and_then (map_text (before_first suffix) (last (i # items))) (\<lambda>l. Inr (JList (butlast (i # items) @ [l])))
            else Inr c)
      | _ \<Rightarrow> Inr c)"

definition strip_first_user :: "string \<Rightarrow> json \<Rightarrow> fn_error + json" where
  "strip_first_user ex c =
     (case c of
        JStr s \<Rightarrow> Inr (JStr (strip_example ex s))
      | JList items \<Rightarrow>
          and_then (traverse (\<lambda>i. and_then (text_type i) (\<lambda>is_txt.
            if is_txt then map_text (strip_example ex) i else Inr i)) items) (\<lambda>is. Inr (JList is))
      | _ \<Rightarrow> Inl Conversion_error)"

fun first_result :: "json list \<Rightarrow> fn_error + (string \<times> string) option" where
  "first_result [] = Inr None"
| "first_result (i # items) =
     (if get_text_type i
      then and_then (item_text i) (\<lambda>s. case tool_result_search s of
             Some r \<Rightarrow> Inr (Some r) | None \<Rightarrow> first_result items)
      else first_result items)"

definition read_user :: "nat \<Rightarrow> json \<Rightarrow> fn_error + jdict" where
  "read_user counter c =
     (let tool_message = (\<lambda>name content.
            [(''role'', JStr ''tool''), (''name'', JStr name), (''content'', content),
             (''tool_call_id'', JStr (toolu (counter - 1)))])
      in case c of
           JStr s \<Rightarrow>
             (case tool_result_search s of
                None \<Rightarrow> Inr (out_message ''user'' c)
              | Some (name, r) \<Rightarrow> Inr (tool_message name (JStr (str_strip r))))
         | JList items \<Rightarrow>
             and_then (first_result items) (\<lambda>m. case m of
                None \<Rightarrow> Inr (out_message ''user'' c)
              | Some (name, r) \<Rightarrow> Inr (tool_message name (JList [text_item (str_strip r)])))
         | _ \<Rightarrow> Inl Conversion_error)"

fun any_call :: "json list \<Rightarrow> fn_error + bool" where
  "any_call [] = Inr False"
| "any_call (i # items) =
     (if get_text_type i
      then and_then (item_text i) (\<lambda>s. if fn_search s \<noteq> None then Inr True else any_call items)
      else any_call items)"

text \<open>
  The call in a content, and the content as it is after \<open>_fix_stopword\<close>; in a list only the last item may
  have one.
\<close>

definition find_call :: "json \<Rightarrow> fn_error + json \<times> (string \<times> string) option" where
  "find_call c =
     (case c of
        JStr s \<Rightarrow> Inr (JStr (fix_stopword s), fn_search (fix_stopword s))
      | JList items \<Rightarrow>
          and_then
            (if items = [] then Inr (items, None)
             else and_then (text_type (last items)) (\<lambda>is_txt.
               if is_txt
               then and_then (item_text (last items)) (\<lambda>s.
                 Inr (butlast items @ [set_text (fix_stopword s) (last items)], fn_search (fix_stopword s)))
               else Inr (items, None)))
            (\<lambda>(items', m).
               and_then (any_call items') (\<lambda>exists.
                 if exists \<and> m = None then Inl Conversion_error else Inr (JList items', m)))
      | _ \<Rightarrow> Inl Conversion_error)"

definition drop_call :: "json \<Rightarrow> fn_error + json" where
  "drop_call c =
     (case c of
        JStr s \<Rightarrow> Inr (JStr (str_strip (before_first ''<function='' s)))
      | JList items \<Rightarrow>
          and_then (map_text (\<lambda>s. str_strip (before_first ''<function='' s)) (last items))
            (\<lambda>l. Inr (JList (butlast items @ [l])))
      | _ \<Rightarrow> Inl Conversion_error)"

definition read_assistant :: "fn_env \<Rightarrow> fn_tool list \<Rightarrow> nat \<Rightarrow> jdict \<Rightarrow> json \<Rightarrow> fn_error + jdict \<times> nat" where
  "read_assistant env tools counter m c =
     and_then (find_call c) (\<lambda>(c', found).
       case found of
         None \<Rightarrow> Inr (case c' of JList _ \<Rightarrow> alist_set ''content'' c' m | _ \<Rightarrow> m, counter)
       | Some call \<Rightarrow>
           and_then (read_call env tools counter call) (\<lambda>tc.
             and_then (drop_call c') (\<lambda>c''.
               Inr (out_message ''assistant'' c'' @ [(''tool_calls'', JList [tc])], counter + 1))))"

definition convert_in ::
    "fn_env \<Rightarrow> fn_tool list \<Rightarrow> string \<Rightarrow> nat \<Rightarrow> bool \<Rightarrow> jdict \<Rightarrow> fn_error + jdict \<times> nat \<times> bool" where
  "convert_in env tools suffix counter first m =
     and_then (sub ''role'' (JDict m)) (\<lambda>r. and_then (sub ''content'' (JDict m)) (\<lambda>c0.
       let c = content_or_empty c0
       in if r = JStr ''system''
          then and_then (read_system suffix c) (\<lambda>c'. Inr (out_message ''system'' c', counter, first))
          else if r = JStr ''user''
          then and_then (if first then strip_first_user (get_example_for_tools env tools) c else Inr c) (\<lambda>c'.
                 and_then (read_user counter c') (\<lambda>m'. Inr (m', counter, False)))
          else if r = JStr ''assistant''
          then and_then (read_assistant env tools counter m c) (\<lambda>(m', n). Inr (m', n, first))
          else Inl Conversion_error))"

fun in_loop :: "fn_env \<Rightarrow> fn_tool list \<Rightarrow> string \<Rightarrow> nat \<Rightarrow> bool \<Rightarrow> jdict list \<Rightarrow> fn_error + jdict list" where
  "in_loop env tools suffix counter first [] = Inr []"
| "in_loop env tools suffix counter first (m # ms) =
     and_then (convert_in env tools suffix counter first m) (\<lambda>(m', counter', first').
       and_then (in_loop env tools suffix counter' first' ms) (\<lambda>ms'. Inr (m' # ms')))"

definition convert_non_fncall_messages_to_fncall_messages ::
    "fn_env \<Rightarrow> jdict list \<Rightarrow> fn_tool list \<Rightarrow> fn_error + jdict list" where
  "convert_non_fncall_messages_to_fncall_messages env messages tools =
     and_then (system_prompt_suffix env tools) (\<lambda>suffix. in_loop env tools suffix 1 True messages)"

section \<open>One call per message\<close>

text \<open>
  \<open>convert_from_multiple_tool_calls_to_single_tool_call_messages\<close>; the pending messages by the id of their call,
  which is a string
\<close>

definition key_str :: "json \<Rightarrow> fn_error + string" where
  "key_str j = (case j of JStr s \<Rightarrow> Inr s | _ \<Rightarrow> Inl Type_error)"

fun add_pending :: "json \<Rightarrow> json list \<Rightarrow> (string \<times> jdict) list \<Rightarrow> fn_error + (string \<times> jdict) list" where
  "add_pending content [] pending = Inr pending"
| "add_pending content (tc # tcs) pending =
     and_then (and_then (sub ''id'' tc) key_str) (\<lambda>i.
       add_pending (JStr []) tcs
         (alist_set i (out_message ''assistant'' content @ [(''tool_calls'', JList [tc])]) pending))"

fun split_loop :: "(string \<times> jdict) list \<Rightarrow> jdict list \<Rightarrow> fn_error + jdict list \<times> (string \<times> jdict) list" where
  "split_loop pending [] = Inr ([], pending)"
| "split_loop pending (m # ms) =
     and_then (sub ''role'' (JDict m)) (\<lambda>r. and_then (sub ''content'' (JDict m)) (\<lambda>c.
       if r = JStr ''assistant''
       then (case map_of m ''tool_calls'' of
               Some (JList (a # b # tcs)) \<Rightarrow>
                 and_then (add_pending c (a # b # tcs) pending) (\<lambda>pending'. split_loop pending' ms)
             | _ \<Rightarrow> and_then (split_loop pending ms) (\<lambda>(ms', p'). Inr (m # ms', p')))
       else if r = JStr ''tool''
       then and_then (and_then (sub ''tool_call_id'' (JDict m)) key_str) (\<lambda>i.
              case map_of pending i of
                Some tm \<Rightarrow> and_then (split_loop (alist_del i pending) ms) (\<lambda>(ms', p'). Inr (tm # m # ms', p'))
              | None \<Rightarrow>
                  if pending \<noteq> [] then Inl Assertion_error
                  else and_then (split_loop pending ms) (\<lambda>(ms', p'). Inr (m # ms', p')))
       else if pending \<noteq> [] then Inl Assertion_error
       else and_then (split_loop pending ms) (\<lambda>(ms', p'). Inr (m # ms', p'))))"

definition convert_from_multiple_tool_calls_to_single_tool_call_messages ::
    "jdict list \<Rightarrow> bool \<Rightarrow> fn_error + jdict list" where
  "convert_from_multiple_tool_calls_to_single_tool_call_messages messages ignore_final =
     and_then (split_loop [] messages) (\<lambda>(ms, pending).
       if \<not> ignore_final \<and> pending \<noteq> [] then Inl Conversion_error else Inr ms)"

lemma alist_set_new: "k \<notin> fst ` set d \<Longrightarrow> alist_set k v d = d @ [(k, v)]"
  by (induction d) auto

end
