(* ===== verification/Fn_Round_Trip.thy ===== *)
theory Fn_Round_Trip
  imports Fn_Calls
begin

text \<open>
  Reading back a conversation that was written as text. A conversation is given by its turns; \<open>render\<close> makes the
  messages of the client library from them, with the ids the reader gives out.
\<close>

datatype turn =
    Says_system string
  | Says_user string
  | Says string
  | Calls string string jdict
  | Result string string

definition call_dict :: "fn_env \<Rightarrow> nat \<Rightarrow> string \<Rightarrow> jdict \<Rightarrow> json" where
  "call_dict env n name args =
     JDict [(''index'', JInt 1), (''id'', JStr (toolu n)), (''type'', JStr ''function''),
       (''function'', JDict [(''name'', JStr name), (''arguments'', JStr (fe_dumps env (JDict args)))])]"

fun render :: "fn_env \<Rightarrow> nat \<Rightarrow> turn list \<Rightarrow> jdict list" where
  "render env n [] = []"
| "render env n (Says_system s # ts) = out_message ''system'' (JStr s) # render env n ts"
| "render env n (Says_user s # ts) = out_message ''user'' (JStr s) # render env n ts"
| "render env n (Says s # ts) = out_message ''assistant'' (JStr s) # render env n ts"
| "render env n (Calls s name args # ts) =
     (out_message ''assistant'' (JStr s) @ [(''tool_calls'', JList [call_dict env n name args])]) # render env (n + 1) ts"
| "render env n (Result name s # ts) =
     [(''role'', JStr ''tool''), (''name'', JStr name), (''content'', JStr s), (''tool_call_id'', JStr (toolu (n - 1)))]
     # render env n ts"

section \<open>What can be read back\<close>

definition tags :: "string list" where
  "tags = [''<function='', ''</function>'', ''<parameter='', ''</parameter>'']"

definition safe_text :: "string \<Rightarrow> bool" where
  "safe_text s \<longleftrightarrow> list_all (\<lambda>t. \<not> str_contains t s) tags"

definition safe_name :: "string \<Rightarrow> bool" where
  "safe_name s \<longleftrightarrow> s \<noteq> [] \<and> CHR ''<'' \<notin> set s \<and> CHR ''>'' \<notin> set s \<and> CHR ''='' \<notin> set s"

text \<open>
  An argument of the declared type: integers, arrays the JSON library reads back, and strings for every other type
\<close>

definition typed_value :: "fn_env \<Rightarrow> string \<Rightarrow> json \<Rightarrow> bool" where
  "typed_value env ty v \<longleftrightarrow>
     (if ty = ''integer'' then (case v of JInt _ \<Rightarrow> True | _ \<Rightarrow> False)
      else if ty = ''array'' then (case v of JList _ \<Rightarrow> fe_loads env (fe_dumps env v) = Some v | _ \<Rightarrow> False)
      else (case v of JStr _ \<Rightarrow> True | _ \<Rightarrow> False))"

definition arg_ok :: "fn_env \<Rightarrow> fn_tool \<Rightarrow> string \<times> json \<Rightarrow> bool" where
  "arg_ok env t = (\<lambda>(k, v). safe_name k \<and> safe_text (value_text env v) \<and>
     (case map_of (tool_properties t) k of
        None \<Rightarrow> False
      | Some p \<Rightarrow> typed_value env (param_type p) v \<and> (case fp_enum p of None \<Rightarrow> True | Some vs \<Rightarrow> json_in v vs)))"

definition call_ok :: "fn_env \<Rightarrow> fn_tool list \<Rightarrow> string \<Rightarrow> jdict \<Rightarrow> bool" where
  "call_ok env tools name args \<longleftrightarrow>
     safe_name name \<and> distinct (map fst args) \<and> fe_loads env (fe_dumps env (JDict args)) = Some (JDict args) \<and>
     (case find (\<lambda>t. ft_type t = ''function'' \<and> ft_name t = name) tools of
        None \<Rightarrow> False
      | Some t \<Rightarrow> list_all (arg_ok env t) args \<and> list_all (\<lambda>r. r \<in> fst ` set args) (tool_required t))"

definition RESULT_TAG :: string where
  "RESULT_TAG = ''EXECUTION RESULT of [''"

fun turns_ok :: "fn_env \<Rightarrow> fn_tool list \<Rightarrow> string \<Rightarrow> bool \<Rightarrow> turn list \<Rightarrow> bool" where
  "turns_ok env tools suffix first [] = True"
| "turns_ok env tools suffix first (Says_system s # ts) =
     (\<not> str_contains suffix (s @ butlast suffix) \<and> turns_ok env tools suffix first ts)"
| "turns_ok env tools suffix first (Says_user s # ts) =
     (\<not> str_contains RESULT_TAG s \<and> (first \<longrightarrow> \<not> str_contains EXAMPLE_SUFFIX (s @ butlast EXAMPLE_SUFFIX)) \<and>
      turns_ok env tools suffix False ts)"
| "turns_ok env tools suffix first (Says s # ts) =
     (\<not> str_contains ''<function='' s \<and> turns_ok env tools suffix first ts)"
| "turns_ok env tools suffix first (Calls s name args # ts) =
     (\<not> str_contains ''<function='' s \<and> str_strip s = s \<and> call_ok env tools name args \<and>
      turns_ok env tools suffix first ts)"
| "turns_ok env tools suffix first (Result name s # ts) =
     (\<not> first \<and> \<not> str_contains ('']:'' @ [newline]) name \<and> str_strip s = s \<and> turns_ok env tools suffix first ts)"

text \<open>
  When the worked example is not added, the reader still looks for it: the first text of the user must not begin with it.
\<close>

fun example_free :: "string \<Rightarrow> turn list \<Rightarrow> bool" where
  "example_free ex [] = True"
| "example_free ex (Says_user s # ts) = (ex = [] \<or> \<not> str_startswith s ex)"
| "example_free ex (_ # ts) = example_free ex ts"

section \<open>Tags in the text of a call\<close>

lemma tag_like_tags [simp]:
  "tag_like ''<function=''" "tag_like ''</function>''" "tag_like ''<parameter=''" "tag_like ''</parameter>''"
  "tag_like RESULT_TAG" "tag_like ('']:'' @ [newline])"
  by (simp_all add: tag_like_def RESULT_TAG_def)

lemma safe_textD:
  assumes "safe_text s"
  shows "\<not> str_contains ''<function='' s" "\<not> str_contains ''</function>'' s"
    "\<not> str_contains ''<parameter='' s" "\<not> str_contains ''</parameter>'' s"
  using assms by (simp_all add: safe_text_def tags_def)

text \<open>Through the text of one argument to what follows\<close>

lemma contains_param:
  assumes "t = ''<function='' \<or> t = ''</function>''" "CHR ''<'' \<notin> set k" "\<not> str_contains t v"
  shows "str_contains t (''<parameter='' @ k @ ''>'' @ v @ ''</parameter>'' @ newline # rest) = str_contains t rest"
proof -
  have h: "hd t = CHR ''<''" "t \<noteq> []" "hd t \<notin> set (tl t)" using assms(1) by auto
  have 1: "str_contains t (CHR ''<'' # s) = str_contains t s" if "hd s \<in> {CHR ''p'', CHR ''/''}" "hd s = CHR ''/'' \<longrightarrow> hd (tl s) = CHR ''p''" "1 < length s" for s
    using that assms(1) by (cases s; cases "tl s") (auto simp: str_startswith_def)
  have "str_contains t (''<parameter='' @ k @ ''>'' @ v @ ''</parameter>'' @ newline # rest) =
      str_contains t ((''parameter='' @ k @ ''>'') @ v @ ''</parameter>'' @ newline # rest)"
    using 1 [of "(''parameter='' @ k @ ''>'') @ v @ ''</parameter>'' @ newline # rest"] by simp
  also have "\<dots> = str_contains t (v @ ''</parameter>'' @ newline # rest)"
    by (rule contains_skip) (use h assms(2) in auto)
  also have "\<dots> = (str_contains t v \<or> str_contains t (''</parameter>'' @ newline # rest))"
    by (rule contains_at_start) (use h in auto)
  also have "\<dots> = str_contains t (CHR ''<'' # (''/parameter>'' @ [newline]) @ rest)" using assms(3) by simp
  also have "\<dots> = str_contains t ((''/parameter>'' @ [newline]) @ rest)"
    by (rule 1) auto
  also have "\<dots> = str_contains t rest"
    by (rule contains_skip) (use h in auto)
  finally show ?thesis .
qed

lemma contains_params:
  assumes "t = ''<function='' \<or> t = ''</function>''" "\<forall>(k, v) \<in> set args. safe_name k \<and> safe_text (value_text env v)"
  shows "str_contains t (concat (map (param_text env) args) @ rest) = str_contains t rest"
  using assms(2)
proof (induction args)
  case (Cons a args)
  obtain k v where a: "a = (k, v)" by force
  with Cons.prems have kv: "CHR ''<'' \<notin> set k" "\<not> str_contains t (value_text env v)"
    using assms(1) safe_textD by (auto simp: safe_name_def)
  show ?case
    using contains_param [OF assms(1) kv, of "concat (map (param_text env) args) @ rest"] Cons a
    by (simp add: param_text_def)
qed simp

lemma takeWhile_name: "c \<notin> set n \<Longrightarrow> takeWhile (\<lambda>x. x \<noteq> c) (n @ c # s) = n"
  by (induction n) auto

lemma dropWhile_name: "c \<notin> set n \<Longrightarrow> dropWhile (\<lambda>x. x \<noteq> c) (n @ c # s) = c # s"
  by (induction n) auto

section \<open>The patterns on the text of a call\<close>

lemma param_match_text:
  assumes "safe_name k" "\<not> str_contains ''</parameter>'' v"
  shows "param_match_after (k @ ''>'' @ v @ ''</parameter>'' @ rest) = Some (k, v, rest)"
  using assms cut_at_append [of "''</parameter>''" v rest]
  by (simp add: param_match_after_def Let_def safe_name_def takeWhile_name dropWhile_name)

lemma malformed_none:
  assumes "safe_name k"
  shows "malformed_after (k @ ''>'' @ rest) = None"
proof -
  have "CHR ''='' \<notin> set k" using assms by (simp add: safe_name_def)
  then have "\<not> str_startswith (dropWhile tag_word (k @ CHR ''>'' # rest)) ''=''"
    by (induction k) (auto simp: str_startswith_def tag_word_def)
  then show ?thesis by (auto simp: malformed_after_def Let_def)
qed

lemma no_parameter_tag:
  assumes "safe_name k" "\<not> str_contains ''<parameter='' v"
  shows "\<not> str_contains ''<parameter='' (k @ ''>'' @ v @ ''</parameter>'' @ [newline])"
proof -
  let ?t = "''<parameter=''"
  have "str_contains ?t ((k @ ''>'') @ v @ ''</parameter>'' @ [newline]) = str_contains ?t (v @ ''</parameter>'' @ [newline])"
    by (rule contains_skip) (use assms(1) in \<open>auto simp: safe_name_def\<close>)
  also have "\<dots> = (str_contains ?t v \<or> str_contains ?t (''</parameter>'' @ [newline]))"
    by (rule contains_at_start) auto
  finally show ?thesis using assms(2) by (simp add: str_startswith_def)
qed

lemma param_text_split:
  "concat (map (param_text env) ((k, v) # args)) =
     ''<parameter='' @ (k @ ''>'' @ value_text env v @ ''</parameter>'' @ [newline]) @ concat (map (param_text env) args)"
  by (simp add: param_text_def)

text \<open>Behind the arguments may stand blanks.\<close>

lemma no_tag_behind:
  assumes "CHR ''='' \<notin> set z" "\<not> str_contains ''<parameter='' x"
  shows "\<not> str_contains ''<parameter='' (x @ z)"
  by (rule str_contains_append) (use assms str_contains_char [of "''<parameter=''" z "CHR ''=''"] in auto)

lemma normalize_params:
  assumes "\<forall>(k, v) \<in> set args. safe_name k \<and> safe_text (value_text env v)" "\<not> str_contains ''<parameter='' x" "CHR ''='' \<notin> set z"
  shows "normalize_parameter_tags (x @ concat (map (param_text env) args) @ z) = x @ concat (map (param_text env) args) @ z"
  using assms(1,2)
proof (induction args arbitrary: x)
  case Nil
  then show ?case using cut_at_None [of "''<parameter=''" "x @ z"] no_tag_behind [OF assms(3)]
    by (simp add: normalize_parameter_tags.simps)
next
  case (Cons a args)
  obtain k v where a: "a = (k, v)" by force
  let ?y = "k @ ''>'' @ value_text env v @ ''</parameter>'' @ [newline]"
  have kv: "safe_name k" "safe_text (value_text env v)" using Cons.prems(1) a by auto
  have y: "\<not> str_contains ''<parameter='' ?y" using no_parameter_tag kv safe_textD(3) by blast
  have "cut_at ''<parameter='' (x @ ''<parameter='' @ ?y @ concat (map (param_text env) args) @ z) =
      Some (x, ?y @ concat (map (param_text env) args) @ z)"
    by (rule cut_at_append) (use Cons.prems(2) in simp_all)
  moreover have "malformed_after (?y @ concat (map (param_text env) args) @ z) = None"
    using malformed_none [OF kv(1)] by simp
  moreover have "normalize_parameter_tags (?y @ concat (map (param_text env) args) @ z) = ?y @ concat (map (param_text env) args) @ z"
    by (rule Cons.IH) (use Cons.prems(1) y in auto)
  ultimately show ?case
    by (subst normalize_parameter_tags.simps) (simp add: a param_text_def)
qed

lemma param_matches_params:
  assumes "\<forall>(k, v) \<in> set args. safe_name k \<and> safe_text (value_text env v)" "\<not> str_contains ''<parameter='' x" "CHR ''='' \<notin> set z"
  shows "param_matches (x @ concat (map (param_text env) args) @ z) = map (\<lambda>(k, v). (k, value_text env v)) args"
  using assms(1,2)
proof (induction args arbitrary: x)
  case Nil
  then show ?case using cut_at_None [of "''<parameter=''" "x @ z"] no_tag_behind [OF assms(3)] by (simp add: param_matches.simps)
next
  case (Cons a args)
  obtain k v where a: "a = (k, v)" by force
  let ?r = "[newline] @ concat (map (param_text env) args) @ z"
  have kv: "safe_name k" "safe_text (value_text env v)" using Cons.prems(1) a by auto
  have "cut_at ''<parameter='' (x @ ''<parameter='' @ k @ ''>'' @ value_text env v @ ''</parameter>'' @ ?r) =
      Some (x, k @ ''>'' @ value_text env v @ ''</parameter>'' @ ?r)"
    by (rule cut_at_append) (use Cons.prems(2) in simp_all)
  moreover have "param_match_after (k @ ''>'' @ value_text env v @ ''</parameter>'' @ ?r) = Some (k, value_text env v, ?r)"
    by (rule param_match_text) (use kv safe_textD(4) in auto)
  moreover have "param_matches ?r = map (\<lambda>(k, v). (k, value_text env v)) args"
    by (rule Cons.IH) (use Cons.prems(1) in \<open>auto simp: str_startswith_def\<close>)
  ultimately show ?case
    by (subst param_matches.simps) (simp add: a param_text_def)
qed

lemma fn_search_body:
  assumes "\<not> str_contains ''<function='' pre" "safe_name name" "\<not> str_contains ''</function>'' b"
  shows "fn_search (pre @ ''<function='' @ name @ CHR ''>'' # newline # b @ ''</function>'' @ rest) = Some (name, b)"
proof -
  have "cut_at ''</function>'' (b @ ''</function>'' @ rest) = Some (b, rest)"
    by (rule cut_at_append) (use assms(3) in simp_all)
  then have "fn_match_after (name @ CHR ''>'' # newline # b @ ''</function>'' @ rest) = Some (name, b)"
    using assms(2) by (simp add: fn_match_after_def Let_def safe_name_def takeWhile_name dropWhile_name str_startswith_def)
  moreover have "cut_at ''<function='' (pre @ ''<function='' @ name @ CHR ''>'' # newline # b @ ''</function>'' @ rest) =
      Some (pre, name @ CHR ''>'' # newline # b @ ''</function>'' @ rest)"
    by (rule cut_at_append) (use assms(1) in simp_all)
  ultimately show ?thesis by (subst fn_search.simps) simp
qed

lemma fn_search_call:
  assumes "\<not> str_contains ''<function='' pre" "safe_name name"
    and "\<forall>(k, v) \<in> set args. safe_name k \<and> safe_text (value_text env v)"
  shows "fn_search (pre @ call_text env name args @ rest) = Some (name, concat (map (param_text env) args))"
proof -
  have "\<not> str_contains ''</function>'' (concat (map (param_text env) args))"
    using contains_params [OF _ assms(3), of "''</function>''" "[]"] by simp
  from fn_search_body [OF assms(1,2) this] show ?thesis by (simp add: call_text_def)
qed

lemma fix_stopword_call:
  assumes "\<not> str_contains ''<function='' pre" "safe_name name"
    and "\<forall>(k, v) \<in> set args. safe_name k \<and> safe_text (value_text env v)"
  shows "fix_stopword (pre @ call_text env name args) = pre @ call_text env name args @ newline # ''</function>''"
proof -
  let ?t = "''<function=''" and ?b = "concat (map (param_text env) args)"
  let ?r = "name @ CHR ''>'' # newline # ?b @ ''</function>''"
  have "str_contains ?t ((name @ [CHR ''>'', newline]) @ ?b @ ''</function>'') = str_contains ?t (?b @ ''</function>'')"
    by (rule contains_skip) (use assms(2) in \<open>auto simp: safe_name_def\<close>)
  also have "\<dots> = str_contains ?t ''</function>''" by (rule contains_params) (use assms(3) in auto)
  finally have r: "\<not> str_contains ?t ?r" by (simp add: str_startswith_def)
  have split: "pre @ call_text env name args = pre @ ?t @ ?r" by (simp add: call_text_def)
  have "count_occ ?t (pre @ ?t @ ?r) = 1" by (rule count_occ_one) (use assms(1) r in simp_all)
  moreover have "str_contains ?t (pre @ ?t @ ?r)" unfolding str_contains_iff by blast
  moreover have "\<not> str_endswith (pre @ ?t @ ?r) ''</''"
    by (simp add: str_endswith_def str_startswith_def)
  ultimately have "fix_stopword (pre @ ?t @ ?r) = (pre @ ?t @ ?r) @ newline # ''</function>''"
    by (simp add: fix_stopword_def)
  then show ?thesis unfolding split [symmetric] by simp
qed

lemma find_call_text:
  assumes "\<not> str_contains ''<function='' s" "safe_name name"
    and "\<forall>(k, v) \<in> set args. safe_name k \<and> safe_text (value_text env v)"
  shows "\<exists>pre rest. find_call (JStr (str_lstrip (s @ newline # newline # call_text env name args))) =
      Inr (JStr (pre @ call_text env name args @ rest), Some (name, concat (map (param_text env) args))) \<and>
    \<not> str_contains ''<function='' pre \<and> str_strip pre = str_strip s"
proof -
  let ?pre = "str_lstrip (s @ [newline, newline])"
  have c: "call_text env name args \<noteq> []" "\<not> is_py_space (hd (call_text env name args))"
    by (simp_all add: call_text_def is_py_space_def)
  have "str_lstrip ((s @ [newline, newline]) @ call_text env name args) = ?pre @ call_text env name args"
    by (rule str_lstrip_append) (use c in auto)
  moreover have p: "\<not> str_contains ''<function='' ?pre"
    by (rule lstrip_not_contains, rule str_contains_append) (use assms(1) in \<open>auto simp: str_startswith_def\<close>)
  moreover have "str_strip ?pre = str_strip s"
    unfolding str_strip_lstrip by (rule str_strip_spaces) (simp add: is_py_space_def)
  moreover have "fix_stopword (?pre @ call_text env name args) = ?pre @ call_text env name args @ newline # ''</function>''"
    by (rule fix_stopword_call) (use assms p in auto)
  moreover have "fn_search (?pre @ call_text env name args @ newline # ''</function>'') = Some (name, concat (map (param_text env) args))"
    by (rule fn_search_call) (use assms p in auto)
  ultimately show ?thesis
    by (intro exI [of _ ?pre] exI [of _ "newline # ''</function>''"]) (simp add: find_call_def)
qed

section \<open>Arguments\<close>

lemma read_param_typed:
  assumes "arg_ok env t (k, v)"
  shows "read_param env t k (value_text env v) = Inr v"
proof -
  obtain p where p: "map_of (tool_properties t) k = Some p" "typed_value env (param_type p) v"
    "case fp_enum p of None \<Rightarrow> True | Some vs \<Rightarrow> json_in v vs"
    using assms by (auto simp: arg_ok_def split: option.splits)
  have k: "k \<in> fst ` set (tool_properties t)" using map_of_SomeD [OF p(1)] by force
  have "(if param_type p = ''integer''
         then (case py_int (value_text env v) of None \<Rightarrow> Inl Validation_error | Some i \<Rightarrow> Inr (JInt i))
         else if param_type p = ''array''
         then (case fe_loads env (value_text env v) of None \<Rightarrow> Inl Validation_error | Some j \<Rightarrow> Inr j)
         else Inr (JStr (value_text env v))) = Inr v"
    using p(2) by (auto simp: typed_value_def value_text_def py_format_def split: if_splits json.splits)
  then show ?thesis using p(1, 3) k by (auto simp: read_param_def split: option.splits)
qed

lemma collect_typed:
  assumes "list_all (arg_ok env t) args" "distinct (map fst (done @ args))"
  shows "collect_params env t (map (\<lambda>(k, v). (k, value_text env v)) args) done = Inr (done @ args)"
  using assms
proof (induction args arbitrary: "done")
  case (Cons a args)
  obtain k v where a: "a = (k, v)" by force
  with Cons.prems(1) have "read_param env t k (value_text env v) = Inr v" by (simp add: read_param_typed)
  moreover have "alist_set k v done = done @ [(k, v)]"
    using Cons.prems(2) a by (intro alist_set_new) auto
  ultimately show ?case using Cons.IH [of "done @ [(k, v)]"] Cons.prems a by simp
qed simp

lemma arg_ok_safe: "arg_ok env t (k, v) \<Longrightarrow> safe_name k \<and> safe_text (value_text env v)"
  by (simp add: arg_ok_def)

lemma call_ok_args:
  assumes "call_ok env tools name args"
  shows "safe_name name" "\<forall>(k, v) \<in> set args. safe_name k \<and> safe_text (value_text env v)"
proof -
  show "safe_name name" using assms by (simp add: call_ok_def)
  obtain t where "list_all (arg_ok env t) args" using assms by (auto simp: call_ok_def split: option.splits)
  then show "\<forall>(k, v) \<in> set args. safe_name k \<and> safe_text (value_text env v)"
    using arg_ok_safe by (auto simp: list_all_iff)
qed

lemma read_call_text:
  assumes "call_ok env tools name args" "CHR ''='' \<notin> set z"
  shows "read_call env tools n (name, concat (map (param_text env) args) @ z) = Inr (call_dict env n name args)"
proof -
  obtain t where t: "find (\<lambda>t. ft_type t = ''function'' \<and> ft_name t = name) tools = Some t"
    "list_all (arg_ok env t) args" "list_all (\<lambda>r. r \<in> fst ` set args) (tool_required t)" "distinct (map fst args)"
    using assms(1) by (auto simp: call_ok_def split: option.splits)
  note safe = call_ok_args(2) [OF assms(1)]
  have "param_matches (normalize_parameter_tags (concat (map (param_text env) args) @ z)) =
      map (\<lambda>(k, v). (k, value_text env v)) args"
    using normalize_params [OF safe _ assms(2), of "[]"] param_matches_params [OF safe _ assms(2), of "[]"] by simp
  then show ?thesis
    using t collect_typed [OF t(2), of "[]"]
    by (simp add: read_call_def extract_and_validate_params_def call_dict_def)
qed

lemma drop_call_body:
  assumes "\<not> str_contains ''<function='' pre"
  shows "drop_call (JStr (pre @ ''<function='' @ rest)) = Inr (JStr (str_strip pre))"
  using before_first_append [OF tag_like_tags(1) assms] by (simp add: drop_call_def)

lemma drop_call_text:
  assumes "\<not> str_contains ''<function='' pre"
  shows "drop_call (JStr (pre @ call_text env name args @ rest)) = Inr (JStr (str_strip pre))"
  using drop_call_body [OF assms] by (simp add: call_text_def)

section \<open>One message\<close>

lemma role_content [simp]:
  "sub ''role'' (JDict (out_message r c @ d)) = Inr (JStr r)" "sub ''content'' (JDict (out_message r c @ d)) = Inr c"
  "sub ''role'' (JDict (out_message r c)) = Inr (JStr r)" "sub ''content'' (JDict (out_message r c)) = Inr c"
  by (simp_all add: sub_def out_message_def)

lemma content_or_empty_str [simp]: "content_or_empty (JStr s) = JStr s"
  by (auto simp: content_or_empty_def)

lemma convert_call_dict:
  assumes "call_ok env tools name args"
  shows "convert_assistant env (out_message ''assistant'' (JStr s) @ [(''tool_calls'', JList [call_dict env n name args])]) (JStr s) =
    Inr (JStr (str_lstrip (s @ newline # newline # call_text env name args)))"
  using assms
  by (simp add: convert_assistant_def out_message_def call_dict_def convert_tool_call_to_string_def sub_def
      extend_content_def py_format_def call_ok_def)

lemma system_back:
  assumes "suffix \<noteq> []" "\<not> str_contains suffix (s @ butlast suffix)"
  shows "read_system suffix (JStr (s @ suffix)) = Inr (JStr s)"
  using cut_at_first [OF assms, of "[]"] by (simp add: read_system_def before_first_def)

lemma no_example_suffix:
  assumes "\<not> str_contains EXAMPLE_SUFFIX (s @ butlast EXAMPLE_SUFFIX)"
  shows "\<not> str_endswith s EXAMPLE_SUFFIX"
proof
  assume "str_endswith s EXAMPLE_SUFFIX"
  then obtain x where "s = x @ EXAMPLE_SUFFIX" unfolding str_endswith_iff by blast
  then have "str_contains EXAMPLE_SUFFIX (s @ butlast EXAMPLE_SUFFIX)"
    unfolding str_contains_iff by (metis append.assoc)
  with assms show False by simp
qed

lemma strip_example_back:
  assumes "\<not> str_contains EXAMPLE_SUFFIX (s @ butlast EXAMPLE_SUFFIX)"
  shows "strip_example ex (if ex = [] then s else ex @ s @ EXAMPLE_SUFFIX) = s"
proof -
  have ne: "EXAMPLE_SUFFIX \<noteq> []" by (simp add: EXAMPLE_SUFFIX_def)
  have "remove_first EXAMPLE_SUFFIX (s @ EXAMPLE_SUFFIX) = s"
    using cut_at_first [OF ne assms, of "[]"] by (simp add: remove_first_def)
  moreover have "str_endswith (s @ EXAMPLE_SUFFIX) EXAMPLE_SUFFIX" by (auto simp: str_endswith_iff)
  ultimately show ?thesis
    using remove_first_prefix [of ex "s @ EXAMPLE_SUFFIX"] no_example_suffix [OF assms]
    by (auto simp: strip_example_def Let_def str_startswith_def)
qed

lemma strip_no_example:
  assumes "\<not> str_contains EXAMPLE_SUFFIX (s @ butlast EXAMPLE_SUFFIX)" "ex = [] \<or> \<not> str_startswith s ex"
  shows "strip_example ex s = s"
  using strip_example_back [OF assms(1), of ex] no_example_suffix [OF assms(1)] assms(2)
  by (cases "ex = []") (auto simp: strip_example_def Let_def)

lemma user_back:
  assumes "\<not> str_contains RESULT_TAG s"
  shows "read_user n (JStr s) = Inr (out_message ''user'' (JStr s))"
  using assms cut_at_None [of RESULT_TAG s] by (simp add: read_user_def tool_result_search_def RESULT_TAG_def)

lemma result_back:
  assumes "\<not> str_contains ('']:'' @ [newline]) name" "str_strip s = s"
  shows "read_user n (JStr (''EXECUTION RESULT of ['' @ name @ '']:'' @ newline # s)) =
    Inr [(''role'', JStr ''tool''), (''name'', JStr name), (''content'', JStr s), (''tool_call_id'', JStr (toolu (n - 1)))]"
proof -
  have "cut_at RESULT_TAG ([] @ RESULT_TAG @ name @ '']:'' @ newline # s) = Some ([], name @ '']:'' @ newline # s)"
    by (rule cut_at_append) (simp, simp add: RESULT_TAG_def)
  moreover have "cut_at ('']:'' @ [newline]) (name @ ('']:'' @ [newline]) @ s) = Some (name, s)"
    by (rule cut_at_append [OF tag_like_tags(6) assms(1)])
  ultimately have "tool_result_search (''EXECUTION RESULT of ['' @ name @ '']:'' @ newline # s) = Some (name, s)"
    by (simp add: tool_result_search_def RESULT_TAG_def)
  then show ?thesis using assms(2) by (simp add: read_user_def Let_def)
qed

lemma says_back:
  assumes "\<not> str_contains ''<function='' s"
  shows "read_assistant env tools n m (JStr s) = Inr (m, n)"
proof -
  have "fix_stopword s = s" using assms by (simp add: fix_stopword_def)
  moreover have "fn_search s = None" using assms cut_at_None [of "''<function=''" s] by (simp add: fn_search.simps)
  ultimately show ?thesis by (simp add: read_assistant_def find_call_def)
qed

lemma call_back:
  assumes "\<not> str_contains ''<function='' s" "str_strip s = s" "call_ok env tools name args"
  shows "read_assistant env tools n m (JStr (str_lstrip (s @ newline # newline # call_text env name args))) =
    Inr (out_message ''assistant'' (JStr s) @ [(''tool_calls'', JList [call_dict env n name args])], n + 1)"
proof -
  obtain pre rest where f: "find_call (JStr (str_lstrip (s @ newline # newline # call_text env name args))) =
      Inr (JStr (pre @ call_text env name args @ rest), Some (name, concat (map (param_text env) args)))"
    "\<not> str_contains ''<function='' pre" "str_strip pre = str_strip s"
    using find_call_text [OF assms(1) call_ok_args [OF assms(3)]] by blast
  then show ?thesis
    using read_call_text [OF assms(3), of "[]"] drop_call_text [OF f(2)] assms(2) by (simp add: read_assistant_def)
qed

section \<open>Conversations\<close>

lemma loop_back:
  assumes "suffix \<noteq> []" "turns_ok env tools suffix first ts"
    and "fo = first \<or> \<not> fo \<and> example_free (get_example_for_tools env tools) ts"
  shows "\<exists>texts. out_loop env suffix (get_example_for_tools env tools) fo (render env n ts) = Inr texts \<and>
    in_loop env tools suffix n first texts = Inr (render env n ts)"
  using assms(2,3)
proof (induction ts arbitrary: n first fo)
  case (Cons t ts)
  let ?ex = "get_example_for_tools env tools"
  show ?case
  proof (cases t)
    case (Says_system s)
    with Cons.prems Cons.IH [of first fo n] system_back [OF assms(1), of s] show ?thesis
      by (auto simp: convert_out_def convert_in_def extend_content_def)
  next
    case (Says_user s)
    from Says_user Cons.prems obtain texts where
      ih: "out_loop env suffix ?ex False (render env n ts) = Inr texts" "in_loop env tools suffix n False texts = Inr (render env n ts)"
      using Cons.IH [of False False n] by auto
    consider "first" "fo" | "first" "\<not> fo" | "\<not> first" "\<not> fo" using Cons.prems(2) by auto
    then show ?thesis
    proof cases
      case 1
      then have "strip_example ?ex (if ?ex = [] then s else ?ex @ s @ EXAMPLE_SUFFIX) = s"
        using Says_user Cons.prems by (intro strip_example_back) simp
      then show ?thesis using Says_user 1 ih Cons.prems user_back [of s n]
        by (auto simp: convert_out_def convert_in_def add_example_def strip_first_user_def Let_def split: if_splits)
    next
      case 2
      then have "strip_example ?ex s = s" using Says_user Cons.prems by (intro strip_no_example) auto
      then show ?thesis using Says_user 2 ih Cons.prems user_back [of s n]
        by (auto simp: convert_out_def convert_in_def strip_first_user_def Let_def)
    next
      case 3
      then show ?thesis using Says_user ih Cons.prems user_back [of s n]
        by (auto simp: convert_out_def convert_in_def Let_def)
    qed
  next
    case (Says s)
    with Cons.prems Cons.IH [of first fo n] says_back [of s env tools n "out_message ''assistant'' (JStr s)"]
    show ?thesis by (auto simp: convert_out_def convert_in_def convert_assistant_def out_message_def sub_def Let_def)
  next
    case (Calls s name args)
    with Cons.prems have ok: "\<not> str_contains ''<function='' s" "str_strip s = s" "call_ok env tools name args" by auto
    obtain texts where ih: "out_loop env suffix ?ex fo (render env (n + 1) ts) = Inr texts"
      "in_loop env tools suffix (n + 1) first texts = Inr (render env (n + 1) ts)"
      using Calls Cons.prems Cons.IH [of first fo "n + 1"] by auto
    show ?thesis
      using Calls ih convert_call_dict [OF ok(3)] call_back [OF ok]
      by (auto simp: convert_out_def convert_in_def Let_def)
  next
    case (Result name s)
    with Cons.prems have "\<not> first" "\<not> str_contains ('']:'' @ [newline]) name" "str_strip s = s" by auto
    with Result Cons.prems Cons.IH [of False False n] result_back [of name s n] show ?thesis
      by (auto simp: convert_out_def convert_in_def sub_def convert_tool_result_def result_prefix_def py_format_def
          out_message_def Let_def)
  qed
qed simp

lemma suffix_ne: "system_prompt_suffix env tools = Inr suffix \<Longrightarrow> suffix \<noteq> []"
  by (cases "convert_tools_to_description env tools") (auto simp: system_prompt_suffix_def SYSTEM_SUFFIX_HEAD_def)

lemma conversation_back:
  assumes "system_prompt_suffix env tools = Inr suffix" "turns_ok env tools suffix True ts"
    and "add_ex \<or> example_free (get_example_for_tools env tools) ts"
  shows "\<exists>texts. convert_fncall_messages_to_non_fncall_messages env (render env 1 ts) tools add_ex = Inr texts \<and>
    convert_non_fncall_messages_to_fncall_messages env texts tools = Inr (render env 1 ts)"
  using loop_back [OF suffix_ne [OF assms(1)] assms(2), of add_ex] assms(1,3)
  by (auto simp: convert_fncall_messages_to_non_fncall_messages_def convert_non_fncall_messages_to_fncall_messages_def)

text \<open>A boolean argument is read back as a text.\<close>

lemma boolean_becomes_text:
  assumes "map_of (tool_properties t) k = Some \<lparr>fp_type = Some ''boolean'', fp_description = d, fp_enum = None\<rparr>"
  shows "read_param env t k (value_text env (JBool True)) = Inr (JStr ''True'')"
  using assms map_of_SomeD [OF assms]
  by (force simp: read_param_def value_text_def py_format_def param_type_def)

text \<open>A number that is declared as one, such as the time limit of a command, is read back as a text too.\<close>

lemma number_becomes_text:
  assumes "map_of (tool_properties t) k = Some \<lparr>fp_type = Some ''number'', fp_description = d, fp_enum = None\<rparr>"
  shows "read_param env t k (value_text env (JInt n)) = Inr (JStr (show_int n))"
  using assms map_of_SomeD [OF assms]
  by (force simp: read_param_def value_text_def py_format_def param_type_def)

text \<open>A text of the user that quotes a result becomes the result of a tool.\<close>

lemma quoted_result_becomes_tool:
  "read_user 1 (JStr (''You wrote EXECUTION RESULT of [x]:'' @ newline # ''ok'')) =
   Inr [(''role'', JStr ''tool''), (''name'', JStr ''x''), (''content'', JStr ''ok''), (''tool_call_id'', JStr ''toolu_00'')]"
  by code_simp

end
