(* ===== verification/Metrics.thy ===== *)
theory Metrics
  imports Prelude
begin

text \<open>
  \<open>openhands/llm/metrics.py\<close>: the costs, latencies and token counts an LLM service
  accumulates. Timestamps are read from the clock by the code and are arguments here. The
  getters' fallback for objects unpickled from versions without a field is not modelled:
  every field is present.
\<close>

section \<open>Records\<close>

record cost_entry =
  co_model :: string
  co_cost :: rat
  co_timestamp :: rat

record response_latency =
  rl_model :: string
  rl_latency :: rat
  rl_response_id :: string

record token_usage =
  tu_model :: string
  prompt_tokens :: int
  completion_tokens :: int
  cache_read_tokens :: int
  cache_write_tokens :: int
  context_window :: int
  per_turn_token :: int
  tu_response_id :: string

record metrics =
  accumulated_cost :: rat
  max_budget_per_task :: "rat option"
  costs :: "cost_entry list"
  response_latencies :: "response_latency list"
  model_name :: string
  token_usages :: "token_usage list"
  accumulated_token_usage :: token_usage

section \<open>Operations\<close>

text \<open>\<open>TokenUsage.__add__\<close>\<close>

definition token_usage_add :: "token_usage \<Rightarrow> token_usage \<Rightarrow> token_usage" where
  "token_usage_add u v =
     \<lparr>tu_model = tu_model u,
      prompt_tokens = prompt_tokens u + prompt_tokens v,
      completion_tokens = completion_tokens u + completion_tokens v,
      cache_read_tokens = cache_read_tokens u + cache_read_tokens v,
      cache_write_tokens = cache_write_tokens u + cache_write_tokens v,
      context_window = max (context_window u) (context_window v),
      per_turn_token = per_turn_token v,
      tu_response_id = tu_response_id u\<rparr>"

text \<open>\<open>Metrics.__init__\<close>\<close>

definition metrics_init :: "string \<Rightarrow> metrics" where
  "metrics_init name =
     \<lparr>accumulated_cost = 0, max_budget_per_task = None, costs = [], response_latencies = [],
      model_name = name, token_usages = [],
      accumulated_token_usage =
        \<lparr>tu_model = name, prompt_tokens = 0, completion_tokens = 0, cache_read_tokens = 0,
         cache_write_tokens = 0, context_window = 0, per_turn_token = 0, tu_response_id = []\<rparr>\<rparr>"

text \<open>The \<open>accumulated_cost\<close> setter\<close>

definition set_accumulated_cost :: "metrics \<Rightarrow> rat \<Rightarrow> exn + metrics" where
  "set_accumulated_cost m v =
     (if v < 0 then Inl (mk_exn ''ValueError'' ValueError ''Total cost cannot be negative.'')
      else Inr (m\<lparr>accumulated_cost := v\<rparr>))"

definition add_cost :: "metrics \<Rightarrow> rat \<Rightarrow> rat \<Rightarrow> exn + metrics" where
  "add_cost m v now =
     (if v < 0 then Inl (mk_exn ''ValueError'' ValueError ''Added cost cannot be negative.'')
      else Inr (m\<lparr>accumulated_cost := accumulated_cost m + v,
                  costs := costs m @ [\<lparr>co_model = model_name m, co_cost = v, co_timestamp = now\<rparr>]\<rparr>))"

definition add_response_latency :: "metrics \<Rightarrow> rat \<Rightarrow> string \<Rightarrow> metrics" where
  "add_response_latency m v rid =
     m\<lparr>response_latencies := response_latencies m @
         [\<lparr>rl_model = model_name m, rl_latency = max 0 v, rl_response_id = rid\<rparr>]\<rparr>"

definition add_token_usage ::
    "metrics \<Rightarrow> int \<Rightarrow> int \<Rightarrow> int \<Rightarrow> int \<Rightarrow> int \<Rightarrow> string \<Rightarrow> metrics" where
  "add_token_usage m p c cr cw ctx rid =
     (let usage = \<lparr>tu_model = model_name m, prompt_tokens = p, completion_tokens = c,
                   cache_read_tokens = cr, cache_write_tokens = cw, context_window = ctx,
                   per_turn_token = p + c, tu_response_id = rid\<rparr>
      in m\<lparr>token_usages := token_usages m @ [usage],
           accumulated_token_usage :=
             token_usage_add (accumulated_token_usage m) (usage\<lparr>tu_response_id := []\<rparr>)\<rparr>)"

definition metrics_merge :: "metrics \<Rightarrow> metrics \<Rightarrow> metrics" where
  "metrics_merge m other =
     m\<lparr>accumulated_cost := accumulated_cost m + accumulated_cost other,
       max_budget_per_task :=
         (if max_budget_per_task m = None \<and> max_budget_per_task other \<noteq> None
          then max_budget_per_task other else max_budget_per_task m),
       costs := costs m @ costs other,
       token_usages := token_usages m @ token_usages other,
       response_latencies := response_latencies m @ response_latencies other,
       accumulated_token_usage :=
         token_usage_add (accumulated_token_usage m) (accumulated_token_usage other)\<rparr>"

text \<open>\<open>model_dump()\<close> of the entries and \<open>Metrics.get\<close>\<close>

definition cost_dump :: "cost_entry \<Rightarrow> json" where
  "cost_dump c = JDict [(''model'', JStr (co_model c)), (''cost'', JFloat (co_cost c)),
                        (''timestamp'', JFloat (co_timestamp c))]"

definition latency_dump :: "response_latency \<Rightarrow> json" where
  "latency_dump l = JDict [(''model'', JStr (rl_model l)), (''latency'', JFloat (rl_latency l)),
                           (''response_id'', JStr (rl_response_id l))]"

definition token_usage_dump :: "token_usage \<Rightarrow> json" where
  "token_usage_dump u =
     JDict [(''model'', JStr (tu_model u)),
            (''prompt_tokens'', JInt (prompt_tokens u)),
            (''completion_tokens'', JInt (completion_tokens u)),
            (''cache_read_tokens'', JInt (cache_read_tokens u)),
            (''cache_write_tokens'', JInt (cache_write_tokens u)),
            (''context_window'', JInt (context_window u)),
            (''per_turn_token'', JInt (per_turn_token u)),
            (''response_id'', JStr (tu_response_id u))]"

definition metrics_get :: "metrics \<Rightarrow> json" where
  "metrics_get m =
     JDict [(''accumulated_cost'', JFloat (accumulated_cost m)),
            (''max_budget_per_task'',
               case max_budget_per_task m of None \<Rightarrow> JNull | Some b \<Rightarrow> JFloat b),
            (''accumulated_token_usage'', token_usage_dump (accumulated_token_usage m)),
            (''costs'', JList (map cost_dump (costs m))),
            (''response_latencies'', JList (map latency_dump (response_latencies m))),
            (''token_usages'', JList (map token_usage_dump (token_usages m)))]"

definition metrics_diff :: "metrics \<Rightarrow> metrics \<Rightarrow> metrics" where
  "metrics_diff m baseline =
     (let base = accumulated_token_usage baseline; cur = accumulated_token_usage m
      in (metrics_init (model_name m))
           \<lparr>accumulated_cost := accumulated_cost m - accumulated_cost baseline,
            costs := (if costs baseline \<noteq> []
                      then filter (\<lambda>c. co_timestamp c > co_timestamp (last (costs baseline))) (costs m)
                      else costs m),
            response_latencies := drop (length (response_latencies baseline)) (response_latencies m),
            token_usages := drop (length (token_usages baseline)) (token_usages m),
            accumulated_token_usage :=
              \<lparr>tu_model = model_name m,
               prompt_tokens = prompt_tokens cur - prompt_tokens base,
               completion_tokens = completion_tokens cur - completion_tokens base,
               cache_read_tokens = cache_read_tokens cur - cache_read_tokens base,
               cache_write_tokens = cache_write_tokens cur - cache_write_tokens base,
               context_window = context_window cur,
               per_turn_token = 0, tu_response_id = []\<rparr>\<rparr>)"

section \<open>The bookkeeping invariant\<close>

text \<open>
  The accumulated figures are the sums over the recorded entries, and no recorded cost is
  negative.
\<close>

definition metrics_ok :: "metrics \<Rightarrow> bool" where
  "metrics_ok m \<longleftrightarrow>
     (\<forall>c \<in> set (costs m). 0 \<le> co_cost c) \<and>
     accumulated_cost m = sum_list (map co_cost (costs m)) \<and>
     (\<forall>l \<in> set (response_latencies m). 0 \<le> rl_latency l) \<and>
     prompt_tokens (accumulated_token_usage m) = sum_list (map prompt_tokens (token_usages m)) \<and>
     completion_tokens (accumulated_token_usage m) = sum_list (map completion_tokens (token_usages m)) \<and>
     cache_read_tokens (accumulated_token_usage m) = sum_list (map cache_read_tokens (token_usages m)) \<and>
     cache_write_tokens (accumulated_token_usage m) = sum_list (map cache_write_tokens (token_usages m))"

lemma metrics_ok_init [inv_intros]: "metrics_ok (metrics_init n)"
  by (simp add: metrics_ok_def metrics_init_def)

lemma metrics_ok_add_cost [inv_intros]:
  "metrics_ok m \<Longrightarrow> add_cost m v now = Inr m' \<Longrightarrow> metrics_ok m'"
  by (auto simp: metrics_ok_def add_cost_def split: if_splits)

lemma metrics_ok_add_latency [inv_intros]:
  "metrics_ok m \<Longrightarrow> metrics_ok (add_response_latency m v rid)"
  by (auto simp: metrics_ok_def add_response_latency_def)

lemma metrics_ok_add_token_usage [inv_intros]:
  "metrics_ok m \<Longrightarrow> metrics_ok (add_token_usage m p c cr cw ctx rid)"
  by (simp add: metrics_ok_def add_token_usage_def token_usage_add_def Let_def)

lemma metrics_ok_merge [inv_intros]:
  "metrics_ok m \<Longrightarrow> metrics_ok m' \<Longrightarrow> metrics_ok (metrics_merge m m')"
  by (auto simp: metrics_ok_def metrics_merge_def token_usage_add_def)

lemma metrics_ok_cost_nonneg: "metrics_ok m \<Longrightarrow> 0 \<le> accumulated_cost m"
  by (auto simp: metrics_ok_def intro!: sum_list_nonneg)

lemma token_usage_add_assoc:
  "token_usage_add (token_usage_add u v) w = token_usage_add u (token_usage_add v w)"
  by (simp add: token_usage_add_def max.assoc)

text \<open>What was recorded on top of a baseline\<close>

definition recorded_since :: "metrics \<Rightarrow> metrics \<Rightarrow> bool" where
  "recorded_since b m \<longleftrightarrow>
     (\<exists>cs ls us. costs m = costs b @ cs \<and> response_latencies m = response_latencies b @ ls \<and>
        token_usages m = token_usages b @ us \<and>
        (\<forall>c \<in> set cs. \<forall>c' \<in> set (costs b). co_timestamp c' < co_timestamp c))"

definition timestamps_sorted :: "metrics \<Rightarrow> bool" where
  "timestamps_sorted m \<longleftrightarrow> sorted (map co_timestamp (costs m))"

lemma sorted_le_last: "sorted xs \<Longrightarrow> x \<in> set xs \<Longrightarrow> x \<le> last xs"
  by (induction xs rule: rev_induct) (auto simp: sorted_append)

lemma metrics_diff_costs:
  assumes "timestamps_sorted b" and "costs m = costs b @ cs"
    and "\<forall>c \<in> set cs. \<forall>c' \<in> set (costs b). co_timestamp c' < co_timestamp c"
  shows "costs (metrics_diff m b) = cs"
proof (cases "costs b = []")
  case True
  with assms(2) show ?thesis by (simp add: metrics_diff_def Let_def metrics_init_def)
next
  case False
  let ?t = "co_timestamp (last (costs b))"
  have old: "\<forall>c \<in> set (costs b). \<not> ?t < co_timestamp c"
  proof
    fix c assume "c \<in> set (costs b)"
    then have "co_timestamp c \<le> last (map co_timestamp (costs b))"
      using assms(1) by (intro sorted_le_last) (auto simp: timestamps_sorted_def)
    with False show "\<not> ?t < co_timestamp c" by (simp add: last_map)
  qed
  have new: "\<forall>c \<in> set cs. ?t < co_timestamp c" using assms(3) False by simp
  from False old new show ?thesis
    by (simp add: metrics_diff_def Let_def assms(2) filter_id_conv filter_empty_conv)
qed

section \<open>Conversation statistics\<close>

text \<open>
  \<open>openhands/server/services/conversation_stats.py\<close>. \<open>service_to_metrics\<close> holds the metrics
  objects of the registered LLM services (the same objects the services update),
  \<open>restored_metrics\<close> those read back from the store and not yet claimed by a service. The
  persisted file is the field \<open>cs_saved\<close>, \<^const>\<open>None\<close> when it does not exist; the pickled
  dictionary is kept as the dictionary itself.
\<close>

record conv_stats =
  cs_has_store :: bool
  cs_conversation_id :: string
  service_to_metrics :: "(string \<times> metrics) list"
  restored_metrics :: "(string \<times> metrics) list"
  cs_saved :: "(string \<times> metrics) list option"

definition save_metrics :: "conv_stats \<Rightarrow> conv_stats" where
  "save_metrics cs =
     (if \<not> cs_has_store cs then cs
      else cs\<lparr>cs_saved := Some (alist_update (restored_metrics cs) (service_to_metrics cs))\<rparr>)"

definition maybe_restore_metrics :: "conv_stats \<Rightarrow> conv_stats" where
  "maybe_restore_metrics cs =
     (if \<not> cs_has_store cs \<or> cs_conversation_id cs = [] then cs
      else (case cs_saved cs of None \<Rightarrow> cs | Some d \<Rightarrow> cs\<lparr>restored_metrics := d\<rparr>))"

definition conv_stats_init ::
    "bool \<Rightarrow> string \<Rightarrow> (string \<times> metrics) list option \<Rightarrow> conv_stats" where
  "conv_stats_init store cid saved =
     maybe_restore_metrics
       \<lparr>cs_has_store = store, cs_conversation_id = cid, service_to_metrics = [],
        restored_metrics = [], cs_saved = saved\<rparr>"

definition get_combined_metrics :: "conv_stats \<Rightarrow> metrics" where
  "get_combined_metrics cs =
     foldl metrics_merge (metrics_init ''default'') (map snd (service_to_metrics cs))"

definition get_metrics_for_service :: "conv_stats \<Rightarrow> string \<Rightarrow> exn + metrics" where
  "get_metrics_for_service cs sid =
     (case map_of (service_to_metrics cs) sid of
        None \<Rightarrow> Inl (mk_exn ''Exception'' OtherError (''LLM service does not exist '' @ sid))
      | Some m \<Rightarrow> Inr m)"

text \<open>The pair of the new statistics and the metrics the LLM uses from now on\<close>

definition register_llm :: "conv_stats \<Rightarrow> string \<Rightarrow> metrics \<Rightarrow> conv_stats \<times> metrics" where
  "register_llm cs sid llm_metrics =
     (case map_of (restored_metrics cs) sid of
        Some m \<Rightarrow>
          (cs\<lparr>restored_metrics := alist_del sid (restored_metrics cs),
              service_to_metrics := alist_set sid m (service_to_metrics cs)\<rparr>, m)
      | None \<Rightarrow>
          (cs\<lparr>service_to_metrics := alist_set sid llm_metrics (service_to_metrics cs)\<rparr>, llm_metrics))"

definition drop_zero_cost :: "(string \<times> metrics) list \<Rightarrow> (string \<times> metrics) list" where
  "drop_zero_cost d = filter (\<lambda>(k, m). accumulated_cost m \<noteq> 0) d"

definition merge_and_save :: "conv_stats \<Rightarrow> conv_stats \<Rightarrow> conv_stats" where
  "merge_and_save cs other =
     save_metrics (cs\<lparr>restored_metrics :=
       alist_update (drop_zero_cost (restored_metrics cs)) (drop_zero_cost (restored_metrics other))\<rparr>)"

text \<open>A registered service's metrics object is updated in place by the service.\<close>

definition update_service :: "conv_stats \<Rightarrow> string \<Rightarrow> (metrics \<Rightarrow> metrics) \<Rightarrow> conv_stats" where
  "update_service cs sid f =
     cs\<lparr>service_to_metrics := map (\<lambda>(k, m). (k, if k = sid then f m else m)) (service_to_metrics cs)\<rparr>"

definition stats_ok :: "conv_stats \<Rightarrow> bool" where
  "stats_ok cs \<longleftrightarrow>
     distinct (map fst (service_to_metrics cs)) \<and> distinct (map fst (restored_metrics cs)) \<and>
     set (map fst (service_to_metrics cs)) \<inter> set (map fst (restored_metrics cs)) = {}"

definition total_cost :: "(string \<times> metrics) list \<Rightarrow> rat" where
  "total_cost d = sum_list (map (accumulated_cost \<circ> snd) d)"

lemma foldl_merge_cost:
  "accumulated_cost (foldl metrics_merge m ms) = accumulated_cost m + sum_list (map accumulated_cost ms)"
  by (induction ms arbitrary: m) (auto simp: metrics_merge_def)

lemma foldl_merge_ok: "metrics_ok m \<Longrightarrow> \<forall>x \<in> set ms. metrics_ok x \<Longrightarrow> metrics_ok (foldl metrics_merge m ms)"
  by (induction ms arbitrary: m) (auto intro: metrics_ok_merge)

lemma alist_set_fresh: "k \<notin> set (map fst d) \<Longrightarrow> alist_set k v d = d @ [(k, v)]"
  by (induction k v d rule: alist_set.induct) auto

lemma alist_update_fresh:
  "distinct (map fst e) \<Longrightarrow> set (map fst d) \<inter> set (map fst e) = {} \<Longrightarrow> alist_update d e = d @ e"
proof (induction e arbitrary: d)
  case Nil
  show ?case by (simp add: alist_update_def)
next
  case (Cons p e)
  obtain k v where p: "p = (k, v)" by (cases p)
  have "alist_set k v d = d @ [(k, v)]" using Cons.prems by (intro alist_set_fresh) (auto simp: p)
  then have "alist_update d (p # e) = alist_update (d @ [(k, v)]) e"
    by (simp add: p alist_update_def)
  also have "\<dots> = (d @ [(k, v)]) @ e"
    using Cons.prems by (intro Cons.IH) (auto simp: p)
  finally show ?case by (simp add: p)
qed

lemma total_cost_del:
  "distinct (map fst d) \<Longrightarrow> map_of d k = Some m \<Longrightarrow>
   total_cost (alist_del k d) + accumulated_cost m = total_cost d"
proof (induction d)
  case (Cons p d)
  obtain k' m' where p: "p = (k', m')" by (cases p)
  show ?case
  proof (cases "k' = k")
    case True
    with Cons.prems have "filter (\<lambda>(k', v). k' \<noteq> k) d = d"
      by (force simp: p filter_id_conv)
    with True Cons.prems show ?thesis by (simp add: p total_cost_def alist_del_def)
  next
    case False
    with Cons show ?thesis by (simp add: p total_cost_def alist_del_def algebra_simps)
  qed
qed simp

lemma register_llm_ok [inv_intros]: "stats_ok cs \<Longrightarrow> stats_ok (fst (register_llm cs sid m))"
proof -
  assume ok: "stats_ok cs"
  have "map fst (alist_del sid d) = filter (\<lambda>k. k \<noteq> sid) (map fst d)" for d :: "(string \<times> metrics) list"
    unfolding alist_del_def by (induction d) auto
  with ok show ?thesis
    by (auto simp: stats_ok_def register_llm_def map_of_eq_None_iff simp del: set_map
        split: option.split) (auto)
qed

end
