(* ===== verification/Events.thy ===== *)
theory Events
  imports Metrics
begin

text \<open>
  The event vocabulary of \<open>openhands/events\<close>: the metadata every event carries
  (\<open>event.py\<close>, \<open>tool.py\<close>), the action classes (\<open>action/*.py\<close>) and the observation classes
  (\<open>observation/*.py\<close>). A dataclass is a record; the class of an event is the constructor of
  its payload. The metadata are private attributes outside the dataclass fields, so Python's
  \<open>==\<close> on events ignores them and compares class and fields: \<open>ev_eq\<close>.

  The class attribute \<open>action\<close>/\<open>observation\<close> (a constant per class) is represented by the
  constructor. \<open>agent_state\<close> strings are values of the enum \<open>AgentState\<close>.
\<close>

section \<open>Enumerations\<close>

datatype event_source = AGENT | USER | ENVIRONMENT

datatype file_edit_source = LLM_BASED_EDIT | EDIT_OH_ACI

datatype file_read_source = READ_OH_ACI | READ_DEFAULT

datatype confirmation_status = CONFIRMED | CONFIRM_REJECTED | AWAITING_CONFIRMATION

datatype security_risk = UNKNOWN | LOW | MEDIUM | HIGH

datatype recall_type = WORKSPACE_CONTEXT | KNOWLEDGE

datatype agent_state =
    LOADING | RUNNING | AWAITING_USER_INPUT | PAUSED | STOPPED | FINISHED | REJECTED | ERROR
  | AWAITING_USER_CONFIRMATION | USER_CONFIRMED | USER_REJECTED | RATE_LIMITED

fun source_value :: "event_source \<Rightarrow> string" where
  "source_value AGENT = ''agent''"
| "source_value USER = ''user''"
| "source_value ENVIRONMENT = ''environment''"

fun agent_state_value :: "agent_state \<Rightarrow> string" where
  "agent_state_value LOADING = ''loading''"
| "agent_state_value RUNNING = ''running''"
| "agent_state_value AWAITING_USER_INPUT = ''awaiting_user_input''"
| "agent_state_value PAUSED = ''paused''"
| "agent_state_value STOPPED = ''stopped''"
| "agent_state_value FINISHED = ''finished''"
| "agent_state_value REJECTED = ''rejected''"
| "agent_state_value ERROR = ''error''"
| "agent_state_value AWAITING_USER_CONFIRMATION = ''awaiting_user_confirmation''"
| "agent_state_value USER_CONFIRMED = ''user_confirmed''"
| "agent_state_value USER_REJECTED = ''user_rejected''"
| "agent_state_value RATE_LIMITED = ''rate_limited''"

section \<open>Actions\<close>

record cmd_run_action =
  cra_command :: string
  cra_is_input :: bool
  cra_thought :: string
  cra_blocking :: bool
  cra_is_static :: bool
  cra_cwd :: "string option"
  cra_hidden :: bool
  cra_confirmation :: confirmation_status
  cra_risk :: security_risk

record ipython_action =
  ipy_code :: string
  ipy_thought :: string
  ipy_include_extra :: bool
  ipy_confirmation :: confirmation_status
  ipy_risk :: security_risk
  ipy_kernel_init_code :: string

record file_read_action =
  fra_path :: string
  fra_start :: int
  fra_end :: int
  fra_thought :: string
  fra_risk :: security_risk
  fra_impl_source :: file_read_source
  fra_view_range :: "int list option"

record file_write_action =
  fwa_path :: string
  fwa_content :: string
  fwa_start :: int
  fwa_end :: int
  fwa_thought :: string
  fwa_risk :: security_risk

record file_edit_action =
  fea_path :: string
  fea_command :: string
  fea_file_text :: "string option"
  fea_old_str :: "string option"
  fea_new_str :: "string option"
  fea_insert_line :: "int option"
  fea_content :: string
  fea_start :: int
  fea_end :: int
  fea_thought :: string
  fea_risk :: security_risk
  fea_impl_source :: file_edit_source

record browse_url_action =
  bua_url :: string
  bua_thought :: string
  bua_risk :: security_risk
  bua_return_axtree :: bool

record browse_interactive_action =
  bia_browser_actions :: string
  bia_thought :: string
  bia_send_msg :: string
  bia_risk :: security_risk
  bia_return_axtree :: bool

record mcp_action =
  mcpa_name :: string
  mcpa_arguments :: jdict
  mcpa_thought :: string
  mcpa_risk :: security_risk

record change_agent_state_action =
  casa_agent_state :: agent_state
  casa_thought :: string

record agent_finish_action =
  afa_final_thought :: string
  afa_outputs :: jdict
  afa_thought :: string

record agent_reject_action =
  ara_outputs :: jdict
  ara_thought :: string

record agent_delegate_action =
  ada_agent :: string
  ada_inputs :: jdict
  ada_thought :: string

record recall_action =
  ra_recall_type :: recall_type
  ra_query :: string
  ra_thought :: string

record condensation_action =
  forgotten_event_ids :: "int list option"
  forgotten_events_start_id :: "int option"
  forgotten_events_end_id :: "int option"
  ca_summary :: "string option"
  ca_summary_offset :: "int option"

record task_tracking_action =
  tta_command :: string
  tta_task_list :: "jdict list"
  tta_thought :: string

record message_action =
  ma_content :: string
  ma_file_urls :: "string list option"
  ma_image_urls :: "string list option"
  ma_wait_for_response :: bool
  ma_risk :: security_risk

record system_message_action =
  sma_content :: string
  sma_tools :: "json list option"
  sma_openhands_version :: "string option"
  sma_agent_class :: "string option"

datatype action =
    NullAction
  | CmdRunAction cmd_run_action
  | IPythonRunCellAction ipython_action
  | FileReadAction file_read_action
  | FileWriteAction file_write_action
  | FileEditAction file_edit_action
  | BrowseURLAction browse_url_action
  | BrowseInteractiveAction browse_interactive_action
  | MCPAction mcp_action
  | ChangeAgentStateAction change_agent_state_action
  | AgentFinishAction agent_finish_action
  | AgentThinkAction string
  | AgentRejectAction agent_reject_action
  | AgentDelegateAction agent_delegate_action
  | RecallAction recall_action
  | CondensationAction condensation_action
  | CondensationRequestAction
  | TaskTrackingAction task_tracking_action
  | LoopRecoveryAction int
  | MessageAction message_action
  | SystemMessageAction system_message_action

section \<open>Observations\<close>

record cmd_output_metadata =
  com_exit_code :: int
  com_pid :: int
  com_username :: "string option"
  com_hostname :: "string option"
  com_working_dir :: "string option"
  com_py_interpreter_path :: "string option"
  com_prefix :: string
  com_suffix :: string

record cmd_output_observation =
  coo_content :: string
  coo_command :: string
  coo_metadata :: cmd_output_metadata
  coo_hidden :: bool

record ipython_observation =
  ipo_content :: string
  ipo_code :: string
  ipo_image_urls :: "string list option"

record browser_output_observation =
  boo_content :: string
  boo_url :: string
  boo_trigger_by_action :: string
  boo_screenshot :: string
  boo_screenshot_path :: "string option"
  boo_set_of_marks :: string
  boo_error :: bool
  boo_goal_image_urls :: "string list"
  boo_open_pages_urls :: "string list"
  boo_active_page_index :: int
  boo_dom_object :: jdict
  boo_axtree_object :: jdict
  boo_extra_element_properties :: jdict
  boo_last_browser_action :: string
  boo_last_browser_action_error :: string
  boo_focused_element_bid :: string
  boo_filter_visible_only :: bool

record file_read_observation =
  fro_content :: string
  fro_path :: string
  fro_impl_source :: file_read_source

record file_write_observation =
  fwo_content :: string
  fwo_path :: string

record file_edit_observation =
  feo_content :: string
  feo_path :: string
  feo_prev_exist :: bool
  feo_old_content :: "string option"
  feo_new_content :: "string option"
  feo_impl_source :: file_edit_source
  feo_diff :: "string option"
  feo_diff_cache :: "string option"

record error_observation =
  eo_content :: string
  eo_error_id :: string

record agent_state_changed_observation =
  asco_content :: string
  asco_agent_state :: agent_state
  asco_reason :: string

record agent_delegate_observation =
  ado_content :: string
  ado_outputs :: jdict

record microagent_knowledge =
  mk_name :: string
  mk_trigger :: string
  mk_content :: string

record recall_observation =
  ro_content :: string
  ro_recall_type :: recall_type
  ro_repo_name :: string
  ro_repo_directory :: string
  ro_repo_branch :: string
  ro_repo_instructions :: string
  ro_runtime_hosts :: jdict
  ro_additional_agent_instructions :: string
  ro_date :: string
  ro_custom_secrets_descriptions :: jdict
  ro_conversation_instructions :: string
  ro_working_dir :: string
  ro_microagent_knowledge :: "microagent_knowledge list"

record mcp_observation =
  mcpo_content :: string
  mcpo_name :: string
  mcpo_arguments :: jdict

record file_download_observation =
  fdo_content :: string
  fdo_file_path :: string

record task_tracking_observation =
  tto_content :: string
  tto_command :: string
  tto_task_list :: "jdict list"

datatype observation =
    NullObservation string
  | AgentThinkObservation string
  | CmdOutputObservation cmd_output_observation
  | IPythonRunCellObservation ipython_observation
  | BrowserOutputObservation browser_output_observation
  | FileReadObservation file_read_observation
  | FileWriteObservation file_write_observation
  | FileEditObservation file_edit_observation
  | ErrorObservation error_observation
  | AgentStateChangedObservation agent_state_changed_observation
  | AgentDelegateObservation agent_delegate_observation
  | SuccessObservation string
  | UserRejectObservation string
  | AgentCondensationObservation string
  | RecallObservation recall_observation
  | LoopDetectionObservation string
  | MCPObservation mcp_observation
  | FileDownloadObservation file_download_observation
  | TaskTrackingObservation task_tracking_observation

section \<open>Events\<close>

text \<open>
  \<open>ToolCallMetadata\<close>; \<open>model_response\<close> is an object of the LLM client library, kept as data.
\<close>

record tool_call_metadata =
  tcm_function_name :: string
  tcm_tool_call_id :: string
  tcm_model_response :: json
  tcm_total_calls_in_response :: int

datatype payload = Act action | Obs observation

text \<open>
  The private attributes of an event, \<^const>\<open>None\<close> when unset. \<open>m_confirmation\<close> is the attribute
  \<open>confirmation_state\<close> on an action whose class does not declare that field: the controller
  assigns it dynamically.
\<close>

record event =
  m_id :: "int option"
  m_timestamp :: "string option"
  m_source :: "event_source option"
  m_cause :: "int option"
  m_timeout :: "rat option"
  m_llm_metrics :: "metrics option"
  m_tool_call :: "tool_call_metadata option"
  m_response_id :: "string option"
  m_confirmation :: "confirmation_status option"
  payload :: payload

definition mk_event :: "payload \<Rightarrow> event" where
  "mk_event p =
     \<lparr>m_id = None, m_timestamp = None, m_source = None, m_cause = None, m_timeout = None,
      m_llm_metrics = None, m_tool_call = None, m_response_id = None, m_confirmation = None,
      payload = p\<rparr>"

abbreviation mk_action :: "action \<Rightarrow> event" where
  "mk_action a \<equiv> mk_event (Act a)"

abbreviation mk_obs :: "observation \<Rightarrow> event" where
  "mk_obs ob \<equiv> mk_event (Obs ob)"

text \<open>\<open>Event.id\<close>, with \<open>INVALID_ID = -1\<close>\<close>

definition INVALID_ID :: int where
  "INVALID_ID = - 1"

definition ev_id :: "event \<Rightarrow> int" where
  "ev_id e = (case m_id e of None \<Rightarrow> INVALID_ID | Some i \<Rightarrow> i)"

lemma mk_event_simps [simp]:
  "payload (mk_event p) = p" "m_id (mk_event p) = None" "m_source (mk_event p) = None"
  "m_cause (mk_event p) = None" "m_tool_call (mk_event p) = None"
  "m_timestamp (mk_event p) = None" "m_confirmation (mk_event p) = None"
  "ev_id (mk_event p) = INVALID_ID"
  by (simp_all add: mk_event_def ev_id_def)

subsection \<open>Classes and \<open>isinstance\<close>\<close>

datatype event_class =
    C_Event | C_Action | C_Observation
  | C_NullAction | C_CmdRunAction | C_IPythonRunCellAction | C_FileReadAction | C_FileWriteAction
  | C_FileEditAction | C_BrowseURLAction | C_BrowseInteractiveAction | C_MCPAction
  | C_ChangeAgentStateAction | C_AgentFinishAction | C_AgentThinkAction | C_AgentRejectAction
  | C_AgentDelegateAction | C_RecallAction | C_CondensationAction | C_CondensationRequestAction
  | C_TaskTrackingAction | C_LoopRecoveryAction | C_MessageAction | C_SystemMessageAction
  | C_NullObservation | C_AgentThinkObservation | C_CmdOutputObservation
  | C_IPythonRunCellObservation | C_BrowserOutputObservation | C_FileReadObservation
  | C_FileWriteObservation | C_FileEditObservation | C_ErrorObservation
  | C_AgentStateChangedObservation | C_AgentDelegateObservation | C_SuccessObservation
  | C_UserRejectObservation | C_AgentCondensationObservation | C_RecallObservation
  | C_LoopDetectionObservation | C_MCPObservation | C_FileDownloadObservation
  | C_TaskTrackingObservation

fun action_class :: "action \<Rightarrow> event_class" where
  "action_class NullAction = C_NullAction"
| "action_class (CmdRunAction _) = C_CmdRunAction"
| "action_class (IPythonRunCellAction _) = C_IPythonRunCellAction"
| "action_class (FileReadAction _) = C_FileReadAction"
| "action_class (FileWriteAction _) = C_FileWriteAction"
| "action_class (FileEditAction _) = C_FileEditAction"
| "action_class (BrowseURLAction _) = C_BrowseURLAction"
| "action_class (BrowseInteractiveAction _) = C_BrowseInteractiveAction"
| "action_class (MCPAction _) = C_MCPAction"
| "action_class (ChangeAgentStateAction _) = C_ChangeAgentStateAction"
| "action_class (AgentFinishAction _) = C_AgentFinishAction"
| "action_class (AgentThinkAction _) = C_AgentThinkAction"
| "action_class (AgentRejectAction _) = C_AgentRejectAction"
| "action_class (AgentDelegateAction _) = C_AgentDelegateAction"
| "action_class (RecallAction _) = C_RecallAction"
| "action_class (CondensationAction _) = C_CondensationAction"
| "action_class CondensationRequestAction = C_CondensationRequestAction"
| "action_class (TaskTrackingAction _) = C_TaskTrackingAction"
| "action_class (LoopRecoveryAction _) = C_LoopRecoveryAction"
| "action_class (MessageAction _) = C_MessageAction"
| "action_class (SystemMessageAction _) = C_SystemMessageAction"

fun obs_class :: "observation \<Rightarrow> event_class" where
  "obs_class (NullObservation _) = C_NullObservation"
| "obs_class (AgentThinkObservation _) = C_AgentThinkObservation"
| "obs_class (CmdOutputObservation _) = C_CmdOutputObservation"
| "obs_class (IPythonRunCellObservation _) = C_IPythonRunCellObservation"
| "obs_class (BrowserOutputObservation _) = C_BrowserOutputObservation"
| "obs_class (FileReadObservation _) = C_FileReadObservation"
| "obs_class (FileWriteObservation _) = C_FileWriteObservation"
| "obs_class (FileEditObservation _) = C_FileEditObservation"
| "obs_class (ErrorObservation _) = C_ErrorObservation"
| "obs_class (AgentStateChangedObservation _) = C_AgentStateChangedObservation"
| "obs_class (AgentDelegateObservation _) = C_AgentDelegateObservation"
| "obs_class (SuccessObservation _) = C_SuccessObservation"
| "obs_class (UserRejectObservation _) = C_UserRejectObservation"
| "obs_class (AgentCondensationObservation _) = C_AgentCondensationObservation"
| "obs_class (RecallObservation _) = C_RecallObservation"
| "obs_class (LoopDetectionObservation _) = C_LoopDetectionObservation"
| "obs_class (MCPObservation _) = C_MCPObservation"
| "obs_class (FileDownloadObservation _) = C_FileDownloadObservation"
| "obs_class (TaskTrackingObservation _) = C_TaskTrackingObservation"

fun payload_class :: "payload \<Rightarrow> event_class" where
  "payload_class (Act a) = action_class a"
| "payload_class (Obs b) = obs_class b"

definition isinstance :: "event \<Rightarrow> event_class \<Rightarrow> bool" where
  "isinstance e c \<longleftrightarrow>
     c = C_Event \<or> (c = C_Action \<and> (case payload e of Act _ \<Rightarrow> True | Obs _ \<Rightarrow> False))
     \<or> (c = C_Observation \<and> (case payload e of Act _ \<Rightarrow> False | Obs _ \<Rightarrow> True))
     \<or> payload_class (payload e) = c"

definition is_action :: "event \<Rightarrow> bool" where
  "is_action e \<longleftrightarrow> (case payload e of Act _ \<Rightarrow> True | Obs _ \<Rightarrow> False)"

definition is_observation :: "event \<Rightarrow> bool" where
  "is_observation e \<longleftrightarrow> (case payload e of Act _ \<Rightarrow> False | Obs _ \<Rightarrow> True)"

lemma is_observation_iff: "is_observation e \<longleftrightarrow> \<not> is_action e"
  by (simp add: is_action_def is_observation_def split: payload.split)

lemma isinstance_base [simp]:
  "isinstance e C_Event" "isinstance e C_Action = is_action e"
  "isinstance e C_Observation = is_observation e"
proof -
  have c: "action_class a \<noteq> C_Action" "action_class a \<noteq> C_Observation" for a
    by (cases a; simp)+
  have d: "obs_class b \<noteq> C_Action" "obs_class b \<noteq> C_Observation" for b
    by (cases b; simp)+
  show "isinstance e C_Event" "isinstance e C_Action = is_action e"
    "isinstance e C_Observation = is_observation e"
    using c d by (auto simp: isinstance_def is_action_def is_observation_def split: payload.splits)
qed

end
