(* ===== verification/Event_Ops.thy ===== *)
theory Event_Ops
  imports Events
begin

text \<open>
  The behaviour of events: equality, the attributes a class has or lacks, the condensation
  action's field rules (\<open>action/agent.py\<close>), truncation of command output
  (\<open>observation/commands.py\<close>, \<open>serialization/event.py\<close>), the displayed messages and the pairing of
  actions with observations (\<open>events/utils.py\<close>).
\<close>

section \<open>Order of security risks\<close>

text \<open>\<open>ActionSecurityRisk\<close> is an integer enumeration.\<close>

fun risk_value :: "security_risk \<Rightarrow> int" where
  "risk_value UNKNOWN = - 1"
| "risk_value LOW = 0"
| "risk_value MEDIUM = 1"
| "risk_value HIGH = 2"

instantiation security_risk :: linorder
begin

definition less_eq_security_risk :: "security_risk \<Rightarrow> security_risk \<Rightarrow> bool" where
  "less_eq_security_risk a b \<longleftrightarrow> risk_value a \<le> risk_value b"

definition less_security_risk :: "security_risk \<Rightarrow> security_risk \<Rightarrow> bool" where
  "less_security_risk a b \<longleftrightarrow> risk_value a < risk_value b"

instance
proof
  fix a b c :: security_risk
  show "a < b \<longleftrightarrow> a \<le> b \<and> \<not> b \<le> a" by (auto simp: less_eq_security_risk_def less_security_risk_def)
  show "a \<le> a" by (simp add: less_eq_security_risk_def)
  show "a \<le> b \<Longrightarrow> b \<le> c \<Longrightarrow> a \<le> c" by (simp add: less_eq_security_risk_def)
  show "a \<le> b \<Longrightarrow> b \<le> a \<Longrightarrow> a = b"
    by (cases a; cases b) (simp_all add: less_eq_security_risk_def)
  show "a \<le> b \<or> b \<le> a" by (auto simp: less_eq_security_risk_def)
qed

end

section \<open>Equality\<close>

text \<open>
  Dataclass \<open>==\<close>: same class and equal fields. Dictionary-valued fields are compared as finite
  maps, which the canonical form of JSON values expresses.
\<close>

fun action_canon :: "action \<Rightarrow> action" where
  "action_canon (MCPAction a) = MCPAction (a\<lparr>mcpa_arguments := dict_canon (mcpa_arguments a)\<rparr>)"
| "action_canon (AgentFinishAction a) = AgentFinishAction (a\<lparr>afa_outputs := dict_canon (afa_outputs a)\<rparr>)"
| "action_canon (AgentRejectAction a) = AgentRejectAction (a\<lparr>ara_outputs := dict_canon (ara_outputs a)\<rparr>)"
| "action_canon (AgentDelegateAction a) = AgentDelegateAction (a\<lparr>ada_inputs := dict_canon (ada_inputs a)\<rparr>)"
| "action_canon (TaskTrackingAction a) = TaskTrackingAction (a\<lparr>tta_task_list := map dict_canon (tta_task_list a)\<rparr>)"
| "action_canon (SystemMessageAction a) =
     SystemMessageAction (a\<lparr>sma_tools := map_option (map json_canon) (sma_tools a)\<rparr>)"
| "action_canon a = a"

fun obs_canon :: "observation \<Rightarrow> observation" where
  "obs_canon (BrowserOutputObservation b) =
     BrowserOutputObservation
       (b\<lparr>boo_dom_object := dict_canon (boo_dom_object b),
          boo_axtree_object := dict_canon (boo_axtree_object b),
          boo_extra_element_properties := dict_canon (boo_extra_element_properties b)\<rparr>)"
| "obs_canon (AgentDelegateObservation b) =
     AgentDelegateObservation (b\<lparr>ado_outputs := dict_canon (ado_outputs b)\<rparr>)"
| "obs_canon (RecallObservation b) =
     RecallObservation
       (b\<lparr>ro_runtime_hosts := dict_canon (ro_runtime_hosts b),
          ro_custom_secrets_descriptions := dict_canon (ro_custom_secrets_descriptions b)\<rparr>)"
| "obs_canon (MCPObservation b) = MCPObservation (b\<lparr>mcpo_arguments := dict_canon (mcpo_arguments b)\<rparr>)"
| "obs_canon (TaskTrackingObservation b) =
     TaskTrackingObservation (b\<lparr>tto_task_list := map dict_canon (tto_task_list b)\<rparr>)"
| "obs_canon b = b"

fun payload_canon :: "payload \<Rightarrow> payload" where
  "payload_canon (Act a) = Act (action_canon a)"
| "payload_canon (Obs b) = Obs (obs_canon b)"

definition ev_eq :: "event \<Rightarrow> event \<Rightarrow> bool" where
  "ev_eq e f \<longleftrightarrow> payload_canon (payload e) = payload_canon (payload f)"

lemma ev_eq_refl [simp]: "ev_eq e e"
  by (simp add: ev_eq_def)

lemma ev_eq_sym: "ev_eq e f \<Longrightarrow> ev_eq f e"
  by (simp add: ev_eq_def)

lemma ev_eq_trans: "ev_eq e f \<Longrightarrow> ev_eq f g \<Longrightarrow> ev_eq e g"
  by (simp add: ev_eq_def)

lemma payload_class_canon [simp]: "payload_class (payload_canon p) = payload_class p"
proof (cases p)
  case (Act a)
  then show ?thesis by (cases a) simp_all
next
  case (Obs b)
  then show ?thesis by (cases b) simp_all
qed

lemma ev_eq_class: "ev_eq e f \<Longrightarrow> payload_class (payload e) = payload_class (payload f)"
  unfolding ev_eq_def by (metis payload_class_canon)

section \<open>Attributes\<close>

text \<open>\<open>getattr(event, 'hidden', False)\<close>\<close>

definition ev_hidden :: "event \<Rightarrow> bool" where
  "ev_hidden e =
     (case payload e of
        Act (CmdRunAction a) \<Rightarrow> cra_hidden a
      | Obs (CmdOutputObservation b) \<Rightarrow> coo_hidden b
      | _ \<Rightarrow> False)"

text \<open>The class attribute \<open>runnable\<close>\<close>

fun runnable :: "action \<Rightarrow> bool" where
  "runnable (CmdRunAction _) = True"
| "runnable (IPythonRunCellAction _) = True"
| "runnable (FileReadAction _) = True"
| "runnable (FileWriteAction _) = True"
| "runnable (FileEditAction _) = True"
| "runnable (BrowseURLAction _) = True"
| "runnable (BrowseInteractiveAction _) = True"
| "runnable (MCPAction _) = True"
| "runnable _ = False"

text \<open>\<open>security_risk\<close>; \<^const>\<open>None\<close> when the class has no such field\<close>

fun get_security_risk :: "action \<Rightarrow> security_risk option" where
  "get_security_risk (CmdRunAction a) = Some (cra_risk a)"
| "get_security_risk (IPythonRunCellAction a) = Some (ipy_risk a)"
| "get_security_risk (FileReadAction a) = Some (fra_risk a)"
| "get_security_risk (FileWriteAction a) = Some (fwa_risk a)"
| "get_security_risk (FileEditAction a) = Some (fea_risk a)"
| "get_security_risk (BrowseURLAction a) = Some (bua_risk a)"
| "get_security_risk (BrowseInteractiveAction a) = Some (bia_risk a)"
| "get_security_risk (MCPAction a) = Some (mcpa_risk a)"
| "get_security_risk (MessageAction a) = Some (ma_risk a)"
| "get_security_risk _ = None"

text \<open>\<open>if hasattr(action, 'security_risk'): action.security_risk = r\<close>\<close>

fun set_security_risk :: "security_risk \<Rightarrow> action \<Rightarrow> action" where
  "set_security_risk r (CmdRunAction a) = CmdRunAction (a\<lparr>cra_risk := r\<rparr>)"
| "set_security_risk r (IPythonRunCellAction a) = IPythonRunCellAction (a\<lparr>ipy_risk := r\<rparr>)"
| "set_security_risk r (FileReadAction a) = FileReadAction (a\<lparr>fra_risk := r\<rparr>)"
| "set_security_risk r (FileWriteAction a) = FileWriteAction (a\<lparr>fwa_risk := r\<rparr>)"
| "set_security_risk r (FileEditAction a) = FileEditAction (a\<lparr>fea_risk := r\<rparr>)"
| "set_security_risk r (BrowseURLAction a) = BrowseURLAction (a\<lparr>bua_risk := r\<rparr>)"
| "set_security_risk r (BrowseInteractiveAction a) = BrowseInteractiveAction (a\<lparr>bia_risk := r\<rparr>)"
| "set_security_risk r (MCPAction a) = MCPAction (a\<lparr>mcpa_risk := r\<rparr>)"
| "set_security_risk r (MessageAction a) = MessageAction (a\<lparr>ma_risk := r\<rparr>)"
| "set_security_risk r a = a"

text \<open>\<open>if hasattr(action, 'thought'): action.thought = ''\<close>\<close>

fun clear_thought :: "action \<Rightarrow> action" where
  "clear_thought (CmdRunAction a) = CmdRunAction (a\<lparr>cra_thought := []\<rparr>)"
| "clear_thought (IPythonRunCellAction a) = IPythonRunCellAction (a\<lparr>ipy_thought := []\<rparr>)"
| "clear_thought (FileReadAction a) = FileReadAction (a\<lparr>fra_thought := []\<rparr>)"
| "clear_thought (FileWriteAction a) = FileWriteAction (a\<lparr>fwa_thought := []\<rparr>)"
| "clear_thought (FileEditAction a) = FileEditAction (a\<lparr>fea_thought := []\<rparr>)"
| "clear_thought (BrowseURLAction a) = BrowseURLAction (a\<lparr>bua_thought := []\<rparr>)"
| "clear_thought (BrowseInteractiveAction a) = BrowseInteractiveAction (a\<lparr>bia_thought := []\<rparr>)"
| "clear_thought (MCPAction a) = MCPAction (a\<lparr>mcpa_thought := []\<rparr>)"
| "clear_thought (ChangeAgentStateAction a) = ChangeAgentStateAction (a\<lparr>casa_thought := []\<rparr>)"
| "clear_thought (AgentFinishAction a) = AgentFinishAction (a\<lparr>afa_thought := []\<rparr>)"
| "clear_thought (AgentThinkAction t) = AgentThinkAction []"
| "clear_thought (AgentRejectAction a) = AgentRejectAction (a\<lparr>ara_thought := []\<rparr>)"
| "clear_thought (AgentDelegateAction a) = AgentDelegateAction (a\<lparr>ada_thought := []\<rparr>)"
| "clear_thought (RecallAction a) = RecallAction (a\<lparr>ra_thought := []\<rparr>)"
| "clear_thought (TaskTrackingAction a) = TaskTrackingAction (a\<lparr>tta_thought := []\<rparr>)"
| "clear_thought a = a"

text \<open>
  \<open>confirmation_state\<close>: a dataclass field of two classes, otherwise the dynamically assigned
  attribute.
\<close>

definition get_confirmation :: "event \<Rightarrow> confirmation_status option" where
  "get_confirmation e =
     (case payload e of
        Act (CmdRunAction a) \<Rightarrow> Some (cra_confirmation a)
      | Act (IPythonRunCellAction a) \<Rightarrow> Some (ipy_confirmation a)
      | _ \<Rightarrow> m_confirmation e)"

definition set_confirmation :: "confirmation_status \<Rightarrow> event \<Rightarrow> event" where
  "set_confirmation c e =
     (case payload e of
        Act (CmdRunAction a) \<Rightarrow> e\<lparr>payload := Act (CmdRunAction (a\<lparr>cra_confirmation := c\<rparr>))\<rparr>
      | Act (IPythonRunCellAction a) \<Rightarrow> e\<lparr>payload := Act (IPythonRunCellAction (a\<lparr>ipy_confirmation := c\<rparr>))\<rparr>
      | _ \<Rightarrow> e\<lparr>m_confirmation := Some c\<rparr>)"

lemma get_set_confirmation [simp]: "get_confirmation (set_confirmation c e) = Some c"
  by (auto simp: get_confirmation_def set_confirmation_def split: payload.split action.split)

lemma set_confirmation_frame [simp]:
  "m_id (set_confirmation c e) = m_id e" "m_source (set_confirmation c e) = m_source e"
  "m_cause (set_confirmation c e) = m_cause e" "m_tool_call (set_confirmation c e) = m_tool_call e"
  "payload_class (payload (set_confirmation c e)) = payload_class (payload e)"
  by (auto simp: set_confirmation_def split: payload.split action.split)

text \<open>\<open>Event.set_hard_timeout\<close>\<close>

definition set_hard_timeout :: "rat option \<Rightarrow> bool \<Rightarrow> event \<Rightarrow> event" where
  "set_hard_timeout v blocking e =
     (case payload e of
        Act (CmdRunAction a) \<Rightarrow> e\<lparr>m_timeout := v, payload := Act (CmdRunAction (a\<lparr>cra_blocking := blocking\<rparr>))\<rparr>
      | _ \<Rightarrow> e\<lparr>m_timeout := v\<rparr>)"

section \<open>Messages from one of the parties\<close>

definition is_message_from :: "event_source \<Rightarrow> event \<Rightarrow> bool" where
  "is_message_from src e \<longleftrightarrow>
     (case payload e of Act (MessageAction _) \<Rightarrow> m_source e = Some src | _ \<Rightarrow> False)"

abbreviation is_user_message :: "event \<Rightarrow> bool" where
  "is_user_message \<equiv> is_message_from USER"

abbreviation is_agent_message :: "event \<Rightarrow> bool" where
  "is_agent_message \<equiv> is_message_from AGENT"

lemma is_message_from_action: "is_message_from src e \<Longrightarrow> is_action e"
  by (simp add: is_message_from_def is_action_def split: payload.splits)

section \<open>The condensation action\<close>

text \<open>\<open>CondensationAction._validate_field_polymorphism\<close>\<close>

definition validate_field_polymorphism :: "condensation_action \<Rightarrow> bool" where
  "validate_field_polymorphism c \<longleftrightarrow>
     (let using_event_ids = (forgotten_event_ids c \<noteq> None);
          using_event_range = (forgotten_events_start_id c \<noteq> None \<and> forgotten_events_end_id c \<noteq> None);
          forgotten_event_configuration = (using_event_ids \<noteq> using_event_range);
          summary_configuration =
            ((ca_summary c = None \<and> ca_summary_offset c = None) \<or>
             (ca_summary c \<noteq> None \<and> ca_summary_offset c \<noteq> None))
      in forgotten_event_configuration \<and> summary_configuration)"

definition condensation_error :: exn where
  "condensation_error = mk_exn ''ValueError'' ValueError ''Invalid configuration of the optional fields.''"

text \<open>The constructor with \<open>__post_init__\<close>\<close>

definition mk_condensation ::
    "int list option \<Rightarrow> int option \<Rightarrow> int option \<Rightarrow> string option \<Rightarrow> int option \<Rightarrow> exn + condensation_action" where
  "mk_condensation ids s e sm off =
     (let c = \<lparr>forgotten_event_ids = ids, forgotten_events_start_id = s, forgotten_events_end_id = e,
               ca_summary = sm, ca_summary_offset = off\<rparr>
      in if validate_field_polymorphism c then Inr c else Inl condensation_error)"

text \<open>The property \<open>forgotten\<close>\<close>

definition forgotten :: "condensation_action \<Rightarrow> exn + int list" where
  "forgotten c =
     (if \<not> validate_field_polymorphism c then Inl condensation_error
      else (case forgotten_event_ids c of
              Some ids \<Rightarrow> Inr ids
            | None \<Rightarrow>
                (case (forgotten_events_start_id c, forgotten_events_end_id c) of
                   (Some s, Some e) \<Rightarrow> Inr [s..e]
                 | _ \<Rightarrow> Inl condensation_error)))"

lemma mk_condensation_ids [simp]:
  "mk_condensation (Some ids) None None None None =
     Inr \<lparr>forgotten_event_ids = Some ids, forgotten_events_start_id = None,
          forgotten_events_end_id = None, ca_summary = None, ca_summary_offset = None\<rparr>"
  by (simp add: mk_condensation_def validate_field_polymorphism_def)

lemma mk_condensation_range [simp]:
  "mk_condensation None (Some s) (Some e) None None =
     Inr \<lparr>forgotten_event_ids = None, forgotten_events_start_id = Some s,
          forgotten_events_end_id = Some e, ca_summary = None, ca_summary_offset = None\<rparr>"
  by (simp add: mk_condensation_def validate_field_polymorphism_def)

lemma mk_condensation_summary [simp]:
  "mk_condensation None (Some s) (Some e) (Some sm) (Some off) =
     Inr \<lparr>forgotten_event_ids = None, forgotten_events_start_id = Some s,
          forgotten_events_end_id = Some e, ca_summary = Some sm, ca_summary_offset = Some off\<rparr>"
  by (simp add: mk_condensation_def validate_field_polymorphism_def)

lemma forgotten_total: "mk_condensation ids s e sm off = Inr c \<Longrightarrow> \<exists>xs. forgotten c = Inr xs"
  by (auto simp: mk_condensation_def forgotten_def validate_field_polymorphism_def Let_def
      split: if_splits option.splits)

section \<open>Truncation\<close>

definition trunc_notice :: string where
  "trunc_notice = newline # ''[... Observation truncated due to length ...]'' @ [newline]"

text \<open>\<open>truncate_content\<close>\<close>

definition truncate_content :: "string \<Rightarrow> int option \<Rightarrow> string" where
  "truncate_content content max_chars =
     (case max_chars of
        None \<Rightarrow> content
      | Some mx \<Rightarrow>
          if int (length content) \<le> mx \<or> mx < 0 then content
          else (let half = mx div 2
                in py_slice content None (Some half) @ trunc_notice @ py_slice content (Some (- half)) None))"

definition MAX_CMD_OUTPUT_SIZE :: int where
  "MAX_CMD_OUTPUT_SIZE = 30000"

text \<open>\<open>CmdOutputObservation._maybe_truncate\<close>\<close>

definition maybe_truncate :: "string \<Rightarrow> int \<Rightarrow> string" where
  "maybe_truncate content max_size =
     (if int (length content) \<le> max_size then content
      else (let half = max_size div 2
            in py_slice content None (Some half) @ trunc_notice @ py_slice content (Some (- half)) None))"

definition default_cmd_metadata :: cmd_output_metadata where
  "default_cmd_metadata =
     \<lparr>com_exit_code = - 1, com_pid = - 1, com_username = None, com_hostname = None,
      com_working_dir = None, com_py_interpreter_path = None, com_prefix = [], com_suffix = []\<rparr>"

text \<open>\<open>CmdOutputObservation.__init__\<close>; the legacy keyword arguments are optional.\<close>

definition mk_cmd_output ::
    "string \<Rightarrow> string \<Rightarrow> cmd_output_metadata option \<Rightarrow> bool \<Rightarrow> int option \<Rightarrow> int option \<Rightarrow> cmd_output_observation" where
  "mk_cmd_output content command md hid exit_code command_id =
     (let content' = (if hid then content else maybe_truncate content MAX_CMD_OUTPUT_SIZE);
          md0 = (case md of None \<Rightarrow> default_cmd_metadata | Some d \<Rightarrow> d);
          md1 = (case exit_code of None \<Rightarrow> md0 | Some c \<Rightarrow> md0\<lparr>com_exit_code := c\<rparr>);
          md2 = (case command_id of None \<Rightarrow> md1 | Some p \<Rightarrow> md1\<lparr>com_pid := p\<rparr>)
      in \<lparr>coo_content = content', coo_command = command, coo_metadata = md2, coo_hidden = hid\<rparr>)"

definition cmd_error :: "cmd_output_observation \<Rightarrow> bool" where
  "cmd_error b \<longleftrightarrow> com_exit_code (coo_metadata b) \<noteq> 0"

definition to_agent_observation :: "cmd_output_observation \<Rightarrow> string" where
  "to_agent_observation b =
     (let md = coo_metadata b;
          r0 = com_prefix md @ coo_content b @ com_suffix md;
          r1 = (case com_working_dir md of
                  None \<Rightarrow> r0
                | Some d \<Rightarrow> if d = [] then r0
                            else r0 @ newline # ''[Current working directory: '' @ d @ '']'');
          r2 = (case com_py_interpreter_path md of
                  None \<Rightarrow> r1
                | Some d \<Rightarrow> if d = [] then r1 else r1 @ newline # ''[Python interpreter: '' @ d @ '']'')
      in if com_exit_code md \<noteq> - 1
         then r2 @ newline # ''[Command finished with exit code '' @ show_int (com_exit_code md) @ '']''
         else r2)"

lemma length_truncated:
  assumes "0 < h" and "h \<le> int (length s)"
  shows "length (py_slice s None (Some h) @ trunc_notice @ py_slice s (Some (- h)) None)
           = 2 * nat h + length trunc_notice"
  using assms by (simp add: py_slice_last)

text \<open>A limit of at least two really shortens the text to the limit plus the notice.\<close>

lemma truncate_content_length:
  assumes "2 \<le> mx"
  shows "int (length (truncate_content s (Some mx))) \<le> max (int (length s)) (mx + int (length trunc_notice)) \<and>
         (mx < int (length s) \<longrightarrow>
            int (length (truncate_content s (Some mx))) \<le> mx + int (length trunc_notice))"
proof (cases "int (length s) \<le> mx")
  case False
  with assms have h: "0 < mx div 2" "mx div 2 \<le> int (length s)" by auto
  have "length (truncate_content s (Some mx)) = 2 * nat (mx div 2) + length trunc_notice"
    using False assms length_truncated [OF h] by (simp add: truncate_content_def Let_def)
  moreover have "2 * int (nat (mx div 2)) \<le> mx" using assms by simp
  ultimately show ?thesis by simp
qed (simp add: truncate_content_def)

section \<open>Displayed messages\<close>

text \<open>
  The property \<open>message\<close>. \<open>rp\<close> is Python's \<open>repr\<close> of a dictionary; \<^const>\<open>None\<close> is a raised
  exception (an invalid condensation action, a rejection reason that is not a string).
\<close>

fun action_message :: "(jdict \<Rightarrow> string) \<Rightarrow> action \<Rightarrow> string option" where
  "action_message rp NullAction = Some ''No action''"
| "action_message rp (CmdRunAction a) = Some (''Running command: '' @ cra_command a)"
| "action_message rp (IPythonRunCellAction a) = Some (''Running Python code interactively: '' @ ipy_code a)"
| "action_message rp (FileReadAction a) = Some (''Reading file: '' @ fra_path a)"
| "action_message rp (FileWriteAction a) = Some (''Writing file: '' @ fwa_path a)"
| "action_message rp (FileEditAction a) = Some ''''"
| "action_message rp (BrowseURLAction a) = Some (''I am browsing the URL: '' @ bua_url a)"
| "action_message rp (BrowseInteractiveAction a) =
     Some (''I am interacting with the browser:'' @ newline # ''```'' @ newline # bia_browser_actions a
           @ newline # ''```'')"
| "action_message rp (MCPAction a) =
     Some (''I am interacting with the MCP server with name:'' @ newline # ''```'' @ newline # mcpa_name a
           @ newline # ''```'' @ newline # ''and arguments:'' @ newline # ''```'' @ newline #
           rp (mcpa_arguments a) @ newline # ''```'')"
| "action_message rp (ChangeAgentStateAction a) =
     Some (''Agent state changed to '' @ agent_state_value (casa_agent_state a))"
| "action_message rp (AgentFinishAction a) =
     Some (if afa_thought a \<noteq> [] then afa_thought a
           else ''All done! What'' @ CHR 0x27 # ''s next on the agenda?'')"
| "action_message rp (AgentThinkAction t) = Some (''I am thinking...: '' @ t)"
| "action_message rp (AgentRejectAction a) =
     (case map_of (ara_outputs a) ''reason'' of
        None \<Rightarrow> Some ''Task is rejected by the agent.''
      | Some (JStr r) \<Rightarrow> Some (''Task is rejected by the agent. Reason: '' @ r)
      | Some _ \<Rightarrow> None)"
| "action_message rp (AgentDelegateAction a) =
     Some (''I'' @ CHR 0x27 # ''m asking '' @ ada_agent a @ '' for help with this task.'')"
| "action_message rp (RecallAction a) = Some (''Retrieving content for: '' @ take 50 (ra_query a))"
| "action_message rp (CondensationAction c) =
     (case ca_summary c of
        Some (x # xs) \<Rightarrow> Some (''Summary: '' @ x # xs)
      | _ \<Rightarrow>
          (case forgotten c of
             Inl _ \<Rightarrow> None
           | Inr ids \<Rightarrow> Some (''Condenser is dropping the events: '' @ show_int_list ids @ ''.'')))"
| "action_message rp CondensationRequestAction = Some ''Requesting a condensation of the conversation history.''"
| "action_message rp (TaskTrackingAction a) =
     (let n = length (tta_task_list a)
      in Some (if n = 0 then ''Clearing the task list.''
               else if n = 1 then ''Managing 1 task item.''
               else ''Managing '' @ show_nat n @ '' task items.''))"
| "action_message rp (LoopRecoveryAction _) = Some ''''"
| "action_message rp (MessageAction a) = Some (ma_content a)"
| "action_message rp (SystemMessageAction a) = Some (sma_content a)"

fun obs_message :: "observation \<Rightarrow> string" where
  "obs_message (NullObservation _) = ''No observation''"
| "obs_message (AgentThinkObservation c) = c"
| "obs_message (CmdOutputObservation b) =
     ''Command `'' @ coo_command b @ ''` executed with exit code ''
       @ show_int (com_exit_code (coo_metadata b)) @ ''.''"
| "obs_message (IPythonRunCellObservation _) = ''Code executed in IPython cell.''"
| "obs_message (BrowserOutputObservation b) = ''Visited '' @ boo_url b"
| "obs_message (FileReadObservation b) = ''I read the file '' @ fro_path b @ ''.''"
| "obs_message (FileWriteObservation b) = ''I wrote to the file '' @ fwo_path b @ ''.''"
| "obs_message (FileEditObservation b) = ''I edited the file '' @ feo_path b @ ''.''"
| "obs_message (ErrorObservation b) = eo_content b"
| "obs_message (AgentStateChangedObservation _) = ''''"
| "obs_message (AgentDelegateObservation _) = ''''"
| "obs_message (SuccessObservation c) = c"
| "obs_message (UserRejectObservation c) = c"
| "obs_message (AgentCondensationObservation c) = c"
| "obs_message (RecallObservation b) =
     (if ro_recall_type b = WORKSPACE_CONTEXT then ''Added workspace context''
      else ''Added microagent knowledge'')"
| "obs_message (LoopDetectionObservation _) = ''''"
| "obs_message (MCPObservation b) = mcpo_content b"
| "obs_message (FileDownloadObservation b) = ''Downloaded the file at location: '' @ fdo_file_path b"
| "obs_message (TaskTrackingObservation b) = tto_content b"

definition ev_message :: "(jdict \<Rightarrow> string) \<Rightarrow> event \<Rightarrow> string option" where
  "ev_message rp e = (case payload e of Act a \<Rightarrow> action_message rp a | Obs b \<Rightarrow> Some (obs_message b))"

section \<open>Pairs of actions and observations\<close>

text \<open>
  \<open>get_pairs_from_events\<close>: the two dictionaries keep insertion order, a later event with the
  same key replaces the value in place.
\<close>

definition pair_action_map :: "event list \<Rightarrow> (int \<times> event) list" where
  "pair_action_map evs =
     foldl (\<lambda>m e. if is_action e then alist_set (ev_id e) e m else m) [] evs"

definition pair_observation_map :: "event list \<Rightarrow> (int \<times> event) list" where
  "pair_observation_map evs =
     foldl (\<lambda>m e. if is_observation e
                  then (case m_cause e of None \<Rightarrow> m | Some c \<Rightarrow> alist_set c e m) else m) [] evs"

definition get_pairs_from_events :: "event list \<Rightarrow> (event \<times> event) list" where
  "get_pairs_from_events evs =
     (let am = pair_action_map evs; om = pair_observation_map evs
      in map (\<lambda>(i, a). (a, case map_of om i of Some ob \<Rightarrow> ob | None \<Rightarrow> mk_obs (NullObservation []))) am
         @ map (\<lambda>(c, ob). (mk_action NullAction, ob))
             (filter (\<lambda>(c, ob). c \<notin> fst ` set am \<and> \<not> isinstance ob C_NullObservation) om))"

lemma foldl_alist_set_distinct:
  "distinct (map fst d) \<Longrightarrow>
   distinct (map fst (foldl (\<lambda>m e. if P e then alist_set (k e) (v e) m else m) d evs))"
  by (induction evs arbitrary: d) auto

lemma pair_action_map_distinct: "distinct (map fst (pair_action_map evs))"
  unfolding pair_action_map_def by (rule foldl_alist_set_distinct) simp

lemma foldl_alist_set_keys:
  "set (map fst (foldl (\<lambda>m e. if P e then alist_set (k e) (v e) m else m) d evs))
     = set (map fst d) \<union> k ` {e \<in> set evs. P e}"
proof (induction evs arbitrary: d)
  case (Cons e evs)
  show ?case
    using Cons [of "if P e then alist_set (k e) (v e) d else d"] dom_alist_set [of "k e" "v e" d]
    by (auto simp del: dom_alist_set set_map)
qed simp

lemma pair_action_map_keys:
  "set (map fst (pair_action_map evs)) = ev_id ` {e \<in> set evs. is_action e}"
  unfolding pair_action_map_def using foldl_alist_set_keys [of is_action ev_id "\<lambda>e. e" "[]" evs] by simp

end
