(* ===== verification/Event_Codec.thy ===== *)
theory Event_Codec
  imports Event_Ops
begin

text \<open>
  The dictionary form of the event classes: what \<open>dataclasses.asdict\<close> yields for each class and
  what the class constructors accept back as keyword arguments, used by
  \<open>openhands/events/serialization\<close>. A string enumeration is its value, as in the JSON file.

  The dataclass constructors do not check the types of their arguments. A stored value outside the
  declared type of a field cannot be represented in the records of \<^theory_text>\<open>Events\<close>; the
  result is then \<open>Untyped\<close> instead of an object with a field of another type.
\<close>

datatype ser_error = Malformed | Key_Error | Type_Error | Value_Error | Untyped

fun sbind :: "'e + 'a \<Rightarrow> ('a \<Rightarrow> 'e + 'b) \<Rightarrow> 'e + 'b" where
  "sbind (Inl e) f = Inl e"
| "sbind (Inr x) f = f x"

section \<open>Values of declared types\<close>

fun dec_str :: "json \<Rightarrow> string option" where
  "dec_str (JStr s) = Some s"
| "dec_str _ = None"

fun dec_bool :: "json \<Rightarrow> bool option" where
  "dec_bool (JBool b) = Some b"
| "dec_bool _ = None"

fun dec_int :: "json \<Rightarrow> int option" where
  "dec_int (JInt i) = Some i"
| "dec_int _ = None"

fun dec_rat :: "json \<Rightarrow> rat option" where
  "dec_rat (JFloat x) = Some x"
| "dec_rat (JInt i) = Some (of_int i)"
| "dec_rat _ = None"

fun dec_dict :: "json \<Rightarrow> jdict option" where
  "dec_dict (JDict d) = Some d"
| "dec_dict _ = None"

fun dec_opt :: "(json \<Rightarrow> 'a option) \<Rightarrow> json \<Rightarrow> 'a option option" where
  "dec_opt r JNull = Some None"
| "dec_opt r j = map_option Some (r j)"

fun dec_all :: "(json \<Rightarrow> 'a option) \<Rightarrow> json list \<Rightarrow> 'a list option" where
  "dec_all r [] = Some []"
| "dec_all r (j # js) =
     (case r j of None \<Rightarrow> None | Some x \<Rightarrow> map_option (\<lambda>xs. x # xs) (dec_all r js))"

fun dec_list :: "(json \<Rightarrow> 'a option) \<Rightarrow> json \<Rightarrow> 'a list option" where
  "dec_list r (JList js) = dec_all r js"
| "dec_list r _ = None"

fun enc_opt :: "('a \<Rightarrow> json) \<Rightarrow> 'a option \<Rightarrow> json" where
  "enc_opt f None = JNull"
| "enc_opt f (Some x) = f x"

definition enc_ints :: "int list \<Rightarrow> json" where
  "enc_ints xs = JList (map JInt xs)"

definition enc_strs :: "string list \<Rightarrow> json" where
  "enc_strs xs = JList (map JStr xs)"

subsection \<open>Enumerations\<close>

text \<open>An enumeration class called with a value\<close>

definition dec_enum :: "(string \<times> 'e) list \<Rightarrow> json \<Rightarrow> 'e option" where
  "dec_enum members j = (case j of JStr s \<Rightarrow> map_of members s | _ \<Rightarrow> None)"

fun confirmation_value :: "confirmation_status \<Rightarrow> string" where
  "confirmation_value CONFIRMED = ''confirmed''"
| "confirmation_value CONFIRM_REJECTED = ''rejected''"
| "confirmation_value AWAITING_CONFIRMATION = ''awaiting_confirmation''"

fun read_source_value :: "file_read_source \<Rightarrow> string" where
  "read_source_value READ_OH_ACI = ''oh_aci''"
| "read_source_value READ_DEFAULT = ''default''"

fun edit_source_value :: "file_edit_source \<Rightarrow> string" where
  "edit_source_value LLM_BASED_EDIT = ''llm_based_edit''"
| "edit_source_value EDIT_OH_ACI = ''oh_aci''"

fun recall_value :: "recall_type \<Rightarrow> string" where
  "recall_value WORKSPACE_CONTEXT = ''workspace_context''"
| "recall_value KNOWLEDGE = ''knowledge''"

definition confirmation_members :: "(string \<times> confirmation_status) list" where
  "confirmation_members =
     map (\<lambda>c. (confirmation_value c, c)) [CONFIRMED, CONFIRM_REJECTED, AWAITING_CONFIRMATION]"

definition read_source_members :: "(string \<times> file_read_source) list" where
  "read_source_members = map (\<lambda>c. (read_source_value c, c)) [READ_OH_ACI, READ_DEFAULT]"

definition edit_source_members :: "(string \<times> file_edit_source) list" where
  "edit_source_members = map (\<lambda>c. (edit_source_value c, c)) [LLM_BASED_EDIT, EDIT_OH_ACI]"

definition recall_members :: "(string \<times> recall_type) list" where
  "recall_members = map (\<lambda>c. (recall_value c, c)) [WORKSPACE_CONTEXT, KNOWLEDGE]"

definition source_members :: "(string \<times> event_source) list" where
  "source_members = map (\<lambda>c. (source_value c, c)) [AGENT, USER, ENVIRONMENT]"

definition agent_state_members :: "(string \<times> agent_state) list" where
  "agent_state_members =
     map (\<lambda>c. (agent_state_value c, c))
       [LOADING, RUNNING, AWAITING_USER_INPUT, PAUSED, STOPPED, FINISHED, REJECTED, ERROR,
        AWAITING_USER_CONFIRMATION, USER_CONFIRMED, USER_REJECTED, RATE_LIMITED]"

fun dec_risk :: "json \<Rightarrow> security_risk option" where
  "dec_risk (JInt i) = find (\<lambda>r. risk_value r = i) [UNKNOWN, LOW, MEDIUM, HIGH]"
| "dec_risk _ = None"

subsection \<open>Nested records\<close>

definition enc_metadata :: "cmd_output_metadata \<Rightarrow> json" where
  "enc_metadata m =
     JDict [(''exit_code'', JInt (com_exit_code m)), (''pid'', JInt (com_pid m)),
            (''username'', enc_opt JStr (com_username m)), (''hostname'', enc_opt JStr (com_hostname m)),
            (''working_dir'', enc_opt JStr (com_working_dir m)),
            (''py_interpreter_path'', enc_opt JStr (com_py_interpreter_path m)),
            (''prefix'', JStr (com_prefix m)), (''suffix'', JStr (com_suffix m))]"

text \<open>A field of a constructor call: given, defaulted or missing\<close>

definition fld :: "(json \<Rightarrow> 'a option) \<Rightarrow> 'a option \<Rightarrow> jdict \<Rightarrow> string \<Rightarrow> ser_error + 'a" where
  "fld r dflt d k =
     (case map_of d k of
        None \<Rightarrow> (case dflt of None \<Rightarrow> Inl Type_Error | Some v \<Rightarrow> Inr v)
      | Some j \<Rightarrow> (case r j of None \<Rightarrow> Inl Untyped | Some v \<Rightarrow> Inr v))"

text \<open>The same field read by \<open>pydantic\<close>, for one model whose fields all have defaults\<close>

definition opt_fld :: "(json \<Rightarrow> 'a option) \<Rightarrow> 'a \<Rightarrow> jdict \<Rightarrow> string \<Rightarrow> 'a option" where
  "opt_fld r dflt d k = (case map_of d k of None \<Rightarrow> Some dflt | Some j \<Rightarrow> r j)"

text \<open>\<open>CmdOutputMetadata(**metadata)\<close>; a value that is no dictionary yields the default object.\<close>

fun dec_metadata :: "json \<Rightarrow> cmd_output_metadata option" where
  "dec_metadata (JDict d) =
     (case (opt_fld dec_int (- 1) d ''exit_code'', opt_fld dec_int (- 1) d ''pid'') of
        (Some ec, Some p) \<Rightarrow>
          (case (opt_fld (dec_opt dec_str) None d ''username'',
                 opt_fld (dec_opt dec_str) None d ''hostname'',
                 opt_fld (dec_opt dec_str) None d ''working_dir'',
                 opt_fld (dec_opt dec_str) None d ''py_interpreter_path'') of
             (Some u, Some h, Some w, Some i) \<Rightarrow>
               (case (opt_fld dec_str [] d ''prefix'', opt_fld dec_str [] d ''suffix'') of
                  (Some pr, Some su) \<Rightarrow>
                    Some \<lparr>com_exit_code = ec, com_pid = p, com_username = u, com_hostname = h,
                          com_working_dir = w, com_py_interpreter_path = i,
                          com_prefix = pr, com_suffix = su\<rparr>
                | _ \<Rightarrow> None)
           | _ \<Rightarrow> None)
      | _ \<Rightarrow> None)"
| "dec_metadata _ = Some default_cmd_metadata"

definition enc_knowledge :: "microagent_knowledge \<Rightarrow> json" where
  "enc_knowledge k =
     JDict [(''name'', JStr (mk_name k)), (''trigger'', JStr (mk_trigger k)),
            (''content'', JStr (mk_content k))]"

fun dec_knowledge :: "json \<Rightarrow> microagent_knowledge option" where
  "dec_knowledge (JDict d) =
     (if set (map fst d) = {''name'', ''trigger'', ''content''}
      then (case (map_of d ''name'', map_of d ''trigger'', map_of d ''content'') of
              (Some (JStr n), Some (JStr t), Some (JStr c)) \<Rightarrow>
                 Some \<lparr>mk_name = n, mk_trigger = t, mk_content = c\<rparr>
            | _ \<Rightarrow> None)
      else None)"
| "dec_knowledge _ = None"

text \<open>
  The keyword arguments of a dataclass: its fields and the class attribute, which may be given
  with the value it has anyway.
\<close>

definition check_keys :: "string \<Rightarrow> string \<Rightarrow> string list \<Rightarrow> jdict \<Rightarrow> ser_error + unit" where
  "check_keys attr tag keys d =
     (if \<not> set (map fst d) \<subseteq> insert attr (set keys) then Inl Type_Error
      else if map_of d attr \<notin> {None, Some (JStr tag)} then Inl Untyped
      else Inr ())"

lemma sbind_Inr_iff: "sbind x f = Inr y \<longleftrightarrow> (\<exists>z. x = Inr z \<and> f z = Inr y)"
  by (cases x) auto

lemma dec_all_map: "(\<And>x. x \<in> set xs \<Longrightarrow> r (f x) = Some x) \<Longrightarrow> dec_all r (map f xs) = Some xs"
  by (induction xs) auto

lemma dec_all_Some [simp]: "dec_all Some js = Some js"
  by (induction js) auto

lemma dec_enum_confirmation [simp]: "dec_enum confirmation_members (JStr (confirmation_value c)) = Some c"
  by (cases c; simp add: dec_enum_def confirmation_members_def)

lemma dec_enum_read_source [simp]: "dec_enum read_source_members (JStr (read_source_value c)) = Some c"
  by (cases c; simp add: dec_enum_def read_source_members_def)

lemma dec_enum_edit_source [simp]: "dec_enum edit_source_members (JStr (edit_source_value c)) = Some c"
  by (cases c; simp add: dec_enum_def edit_source_members_def)

lemma dec_enum_recall [simp]: "dec_enum recall_members (JStr (recall_value c)) = Some c"
  by (cases c; simp add: dec_enum_def recall_members_def)

lemma dec_enum_source [simp]: "dec_enum source_members (JStr (source_value c)) = Some c"
  by (cases c; simp add: dec_enum_def source_members_def)

lemma dec_enum_agent_state [simp]: "dec_enum agent_state_members (JStr (agent_state_value s)) = Some s"
  by (cases s; simp add: dec_enum_def agent_state_members_def)

declare dec_risk.simps [simp del]

lemma dec_risk_value [simp]: "dec_risk (JInt (risk_value r)) = Some r"
  by (cases r; simp add: dec_risk.simps)

lemma dec_enc_simps [simp]:
  "dec_opt dec_str (enc_opt JStr x) = Some x"
  "dec_opt dec_int (enc_opt JInt y) = Some y"
  "dec_list dec_int (enc_ints is) = Some is"
  "dec_list dec_str (enc_strs ss) = Some ss"
  "dec_opt (dec_list dec_int) (enc_opt enc_ints z) = Some z"
  "dec_opt (dec_list dec_str) (enc_opt enc_strs w) = Some w"
  "dec_opt (dec_list Some) (enc_opt JList v) = Some v"
  "dec_all dec_dict (map JDict ds) = Some ds"
  by (cases x; cases y; cases z; cases w; cases v; simp add: enc_ints_def enc_strs_def dec_all_map)+

lemma dec_metadata_enc [simp]: "dec_metadata (enc_metadata m) = Some m"
  by (simp add: enc_metadata_def opt_fld_def)

lemma dec_knowledge_enc [simp]: "dec_knowledge (enc_knowledge k) = Some k"
  by (auto simp: enc_knowledge_def)

lemma dec_knowledge_list [simp]: "dec_all dec_knowledge (map enc_knowledge ks) = Some ks"
  by (simp add: dec_all_map)

lemma fld_given: "map_of d k = Some j \<Longrightarrow> r j = Some v \<Longrightarrow> fld r dflt d k = Inr v"
  by (simp add: fld_def)

lemma check_keys_self:
  assumes "map fst d = keys" and "attr \<notin> set keys"
  shows "check_keys attr tag keys d = Inr ()"
proof -
  from assms have "map_of d attr = None" by (simp add: map_of_eq_None_iff flip: set_map)
  with assms show ?thesis by (auto simp: check_keys_def)
qed

section \<open>The fields of an action\<close>

text \<open>The class attribute \<open>action\<close>\<close>

fun action_type :: "action \<Rightarrow> string" where
  "action_type NullAction = ''null''"
| "action_type (CmdRunAction _) = ''run''"
| "action_type (IPythonRunCellAction _) = ''run_ipython''"
| "action_type (FileReadAction _) = ''read''"
| "action_type (FileWriteAction _) = ''write''"
| "action_type (FileEditAction _) = ''edit''"
| "action_type (BrowseURLAction _) = ''browse''"
| "action_type (BrowseInteractiveAction _) = ''browse_interactive''"
| "action_type (MCPAction _) = ''call_tool_mcp''"
| "action_type (ChangeAgentStateAction _) = ''change_agent_state''"
| "action_type (AgentFinishAction _) = ''finish''"
| "action_type (AgentThinkAction _) = ''think''"
| "action_type (AgentRejectAction _) = ''reject''"
| "action_type (AgentDelegateAction _) = ''delegate''"
| "action_type (RecallAction _) = ''recall''"
| "action_type (CondensationAction _) = ''condensation''"
| "action_type CondensationRequestAction = ''condensation_request''"
| "action_type (TaskTrackingAction _) = ''task_tracking''"
| "action_type (LoopRecoveryAction _) = ''loop_recovery''"
| "action_type (MessageAction _) = ''message''"
| "action_type (SystemMessageAction _) = ''system''"

text \<open>\<open>asdict\<close> without the class attribute, enumerations as their values\<close>

fun action_props :: "action \<Rightarrow> jdict" where
  "action_props NullAction =
     []"
| "action_props (CmdRunAction a) =
     [(''command'', JStr (cra_command a)),
      (''is_input'', JBool (cra_is_input a)),
      (''thought'', JStr (cra_thought a)),
      (''blocking'', JBool (cra_blocking a)),
      (''is_static'', JBool (cra_is_static a)),
      (''cwd'', enc_opt JStr (cra_cwd a)),
      (''hidden'', JBool (cra_hidden a)),
      (''confirmation_state'', JStr (confirmation_value (cra_confirmation a))),
      (''security_risk'', JInt (risk_value (cra_risk a)))]"
| "action_props (IPythonRunCellAction a) =
     [(''code'', JStr (ipy_code a)),
      (''thought'', JStr (ipy_thought a)),
      (''include_extra'', JBool (ipy_include_extra a)),
      (''confirmation_state'', JStr (confirmation_value (ipy_confirmation a))),
      (''security_risk'', JInt (risk_value (ipy_risk a))),
      (''kernel_init_code'', JStr (ipy_kernel_init_code a))]"
| "action_props (FileReadAction a) =
     [(''path'', JStr (fra_path a)),
      (''start'', JInt (fra_start a)),
      (''end'', JInt (fra_end a)),
      (''thought'', JStr (fra_thought a)),
      (''security_risk'', JInt (risk_value (fra_risk a))),
      (''impl_source'', JStr (read_source_value (fra_impl_source a))),
      (''view_range'', enc_opt enc_ints (fra_view_range a))]"
| "action_props (FileWriteAction a) =
     [(''path'', JStr (fwa_path a)),
      (''content'', JStr (fwa_content a)),
      (''start'', JInt (fwa_start a)),
      (''end'', JInt (fwa_end a)),
      (''thought'', JStr (fwa_thought a)),
      (''security_risk'', JInt (risk_value (fwa_risk a)))]"
| "action_props (FileEditAction a) =
     [(''path'', JStr (fea_path a)),
      (''command'', JStr (fea_command a)),
      (''file_text'', enc_opt JStr (fea_file_text a)),
      (''old_str'', enc_opt JStr (fea_old_str a)),
      (''new_str'', enc_opt JStr (fea_new_str a)),
      (''insert_line'', enc_opt JInt (fea_insert_line a)),
      (''content'', JStr (fea_content a)),
      (''start'', JInt (fea_start a)),
      (''end'', JInt (fea_end a)),
      (''thought'', JStr (fea_thought a)),
      (''security_risk'', JInt (risk_value (fea_risk a))),
      (''impl_source'', JStr (edit_source_value (fea_impl_source a)))]"
| "action_props (BrowseURLAction a) =
     [(''url'', JStr (bua_url a)),
      (''thought'', JStr (bua_thought a)),
      (''security_risk'', JInt (risk_value (bua_risk a))),
      (''return_axtree'', JBool (bua_return_axtree a))]"
| "action_props (BrowseInteractiveAction a) =
     [(''browser_actions'', JStr (bia_browser_actions a)),
      (''thought'', JStr (bia_thought a)),
      (''browsergym_send_msg_to_user'', JStr (bia_send_msg a)),
      (''security_risk'', JInt (risk_value (bia_risk a))),
      (''return_axtree'', JBool (bia_return_axtree a))]"
| "action_props (MCPAction a) =
     [(''name'', JStr (mcpa_name a)),
      (''arguments'', JDict (mcpa_arguments a)),
      (''thought'', JStr (mcpa_thought a)),
      (''security_risk'', JInt (risk_value (mcpa_risk a)))]"
| "action_props (ChangeAgentStateAction a) =
     [(''agent_state'', JStr (agent_state_value (casa_agent_state a))),
      (''thought'', JStr (casa_thought a))]"
| "action_props (AgentFinishAction a) =
     [(''final_thought'', JStr (afa_final_thought a)),
      (''outputs'', JDict (afa_outputs a)),
      (''thought'', JStr (afa_thought a))]"
| "action_props (AgentThinkAction a) =
     [(''thought'', JStr (a))]"
| "action_props (AgentRejectAction a) =
     [(''outputs'', JDict (ara_outputs a)),
      (''thought'', JStr (ara_thought a))]"
| "action_props (AgentDelegateAction a) =
     [(''agent'', JStr (ada_agent a)),
      (''inputs'', JDict (ada_inputs a)),
      (''thought'', JStr (ada_thought a))]"
| "action_props (RecallAction a) =
     [(''recall_type'', JStr (recall_value (ra_recall_type a))),
      (''query'', JStr (ra_query a)),
      (''thought'', JStr (ra_thought a))]"
| "action_props (CondensationAction a) =
     [(''forgotten_event_ids'', enc_opt enc_ints (forgotten_event_ids a)),
      (''forgotten_events_start_id'', enc_opt JInt (forgotten_events_start_id a)),
      (''forgotten_events_end_id'', enc_opt JInt (forgotten_events_end_id a)),
      (''summary'', enc_opt JStr (ca_summary a)),
      (''summary_offset'', enc_opt JInt (ca_summary_offset a))]"
| "action_props CondensationRequestAction =
     []"
| "action_props (TaskTrackingAction a) =
     [(''command'', JStr (tta_command a)),
      (''task_list'', JList (map JDict (tta_task_list a))),
      (''thought'', JStr (tta_thought a))]"
| "action_props (LoopRecoveryAction a) =
     [(''option'', JInt (a))]"
| "action_props (MessageAction a) =
     [(''content'', JStr (ma_content a)),
      (''file_urls'', enc_opt enc_strs (ma_file_urls a)),
      (''image_urls'', enc_opt enc_strs (ma_image_urls a)),
      (''wait_for_response'', JBool (ma_wait_for_response a)),
      (''security_risk'', JInt (risk_value (ma_risk a)))]"
| "action_props (SystemMessageAction a) =
     [(''content'', JStr (sma_content a)),
      (''tools'', enc_opt JList (sma_tools a)),
      (''openhands_version'', enc_opt JStr (sma_openhands_version a)),
      (''agent_class'', enc_opt JStr (sma_agent_class a))]"

subsection \<open>Construction from keyword arguments\<close>

definition build_null_action :: "jdict \<Rightarrow> ser_error + action" where
  "build_null_action args =
     sbind (check_keys ''action'' ''null'' [] args) (\<lambda>_.
     Inr NullAction)"

definition build_cmd_run_action :: "jdict \<Rightarrow> ser_error + action" where
  "build_cmd_run_action args =
     sbind (check_keys ''action'' ''run'' [''command'', ''is_input'', ''thought'', ''blocking'', ''is_static'', ''cwd'', ''hidden'', ''confirmation_state'', ''security_risk''] args) (\<lambda>_.
     sbind (fld dec_str (None) args ''command'') (\<lambda>v_command.
     sbind (fld dec_bool (Some False) args ''is_input'') (\<lambda>v_is_input.
     sbind (fld dec_str (Some []) args ''thought'') (\<lambda>v_thought.
     sbind (fld dec_bool (Some False) args ''blocking'') (\<lambda>v_blocking.
     sbind (fld dec_bool (Some False) args ''is_static'') (\<lambda>v_is_static.
     sbind (fld (dec_opt dec_str) (Some None) args ''cwd'') (\<lambda>v_cwd.
     sbind (fld dec_bool (Some False) args ''hidden'') (\<lambda>v_hidden.
     sbind (fld (dec_enum confirmation_members) (Some CONFIRMED) args ''confirmation_state'') (\<lambda>v_confirmation.
     sbind (fld dec_risk (Some UNKNOWN) args ''security_risk'') (\<lambda>v_risk.
     Inr (CmdRunAction
       \<lparr>cra_command = v_command,
        cra_is_input = v_is_input,
        cra_thought = v_thought,
        cra_blocking = v_blocking,
        cra_is_static = v_is_static,
        cra_cwd = v_cwd,
        cra_hidden = v_hidden,
        cra_confirmation = v_confirmation,
        cra_risk = v_risk\<rparr>)))))))))))"

definition build_ipython_run_cell_action :: "jdict \<Rightarrow> ser_error + action" where
  "build_ipython_run_cell_action args =
     sbind (check_keys ''action'' ''run_ipython'' [''code'', ''thought'', ''include_extra'', ''confirmation_state'', ''security_risk'', ''kernel_init_code''] args) (\<lambda>_.
     sbind (fld dec_str (None) args ''code'') (\<lambda>v_code.
     sbind (fld dec_str (Some []) args ''thought'') (\<lambda>v_thought.
     sbind (fld dec_bool (Some True) args ''include_extra'') (\<lambda>v_include_extra.
     sbind (fld (dec_enum confirmation_members) (Some CONFIRMED) args ''confirmation_state'') (\<lambda>v_confirmation.
     sbind (fld dec_risk (Some UNKNOWN) args ''security_risk'') (\<lambda>v_risk.
     sbind (fld dec_str (Some []) args ''kernel_init_code'') (\<lambda>v_kernel_init_code.
     Inr (IPythonRunCellAction
       \<lparr>ipy_code = v_code,
        ipy_thought = v_thought,
        ipy_include_extra = v_include_extra,
        ipy_confirmation = v_confirmation,
        ipy_risk = v_risk,
        ipy_kernel_init_code = v_kernel_init_code\<rparr>))))))))"

definition build_file_read_action :: "jdict \<Rightarrow> ser_error + action" where
  "build_file_read_action args =
     sbind (check_keys ''action'' ''read'' [''path'', ''start'', ''end'', ''thought'', ''security_risk'', ''impl_source'', ''view_range''] args) (\<lambda>_.
     sbind (fld dec_str (None) args ''path'') (\<lambda>v_path.
     sbind (fld dec_int (Some 0) args ''start'') (\<lambda>v_start.
     sbind (fld dec_int (Some (- 1)) args ''end'') (\<lambda>v_end.
     sbind (fld dec_str (Some []) args ''thought'') (\<lambda>v_thought.
     sbind (fld dec_risk (Some UNKNOWN) args ''security_risk'') (\<lambda>v_risk.
     sbind (fld (dec_enum read_source_members) (Some READ_DEFAULT) args ''impl_source'') (\<lambda>v_impl_source.
     sbind (fld (dec_opt (dec_list dec_int)) (Some None) args ''view_range'') (\<lambda>v_view_range.
     Inr (FileReadAction
       \<lparr>fra_path = v_path,
        fra_start = v_start,
        fra_end = v_end,
        fra_thought = v_thought,
        fra_risk = v_risk,
        fra_impl_source = v_impl_source,
        fra_view_range = v_view_range\<rparr>)))))))))"

definition build_file_write_action :: "jdict \<Rightarrow> ser_error + action" where
  "build_file_write_action args =
     sbind (check_keys ''action'' ''write'' [''path'', ''content'', ''start'', ''end'', ''thought'', ''security_risk''] args) (\<lambda>_.
     sbind (fld dec_str (None) args ''path'') (\<lambda>v_path.
     sbind (fld dec_str (None) args ''content'') (\<lambda>v_content.
     sbind (fld dec_int (Some 0) args ''start'') (\<lambda>v_start.
     sbind (fld dec_int (Some (- 1)) args ''end'') (\<lambda>v_end.
     sbind (fld dec_str (Some []) args ''thought'') (\<lambda>v_thought.
     sbind (fld dec_risk (Some UNKNOWN) args ''security_risk'') (\<lambda>v_risk.
     Inr (FileWriteAction
       \<lparr>fwa_path = v_path,
        fwa_content = v_content,
        fwa_start = v_start,
        fwa_end = v_end,
        fwa_thought = v_thought,
        fwa_risk = v_risk\<rparr>))))))))"

definition build_file_edit_action :: "jdict \<Rightarrow> ser_error + action" where
  "build_file_edit_action args =
     sbind (check_keys ''action'' ''edit'' [''path'', ''command'', ''file_text'', ''old_str'', ''new_str'', ''insert_line'', ''content'', ''start'', ''end'', ''thought'', ''security_risk'', ''impl_source''] args) (\<lambda>_.
     sbind (fld dec_str (None) args ''path'') (\<lambda>v_path.
     sbind (fld dec_str (Some []) args ''command'') (\<lambda>v_command.
     sbind (fld (dec_opt dec_str) (Some None) args ''file_text'') (\<lambda>v_file_text.
     sbind (fld (dec_opt dec_str) (Some None) args ''old_str'') (\<lambda>v_old_str.
     sbind (fld (dec_opt dec_str) (Some None) args ''new_str'') (\<lambda>v_new_str.
     sbind (fld (dec_opt dec_int) (Some None) args ''insert_line'') (\<lambda>v_insert_line.
     sbind (fld dec_str (Some []) args ''content'') (\<lambda>v_content.
     sbind (fld dec_int (Some 1) args ''start'') (\<lambda>v_start.
     sbind (fld dec_int (Some (- 1)) args ''end'') (\<lambda>v_end.
     sbind (fld dec_str (Some []) args ''thought'') (\<lambda>v_thought.
     sbind (fld dec_risk (Some UNKNOWN) args ''security_risk'') (\<lambda>v_risk.
     sbind (fld (dec_enum edit_source_members) (Some EDIT_OH_ACI) args ''impl_source'') (\<lambda>v_impl_source.
     Inr (FileEditAction
       \<lparr>fea_path = v_path,
        fea_command = v_command,
        fea_file_text = v_file_text,
        fea_old_str = v_old_str,
        fea_new_str = v_new_str,
        fea_insert_line = v_insert_line,
        fea_content = v_content,
        fea_start = v_start,
        fea_end = v_end,
        fea_thought = v_thought,
        fea_risk = v_risk,
        fea_impl_source = v_impl_source\<rparr>))))))))))))))"

definition build_browse_url_action :: "jdict \<Rightarrow> ser_error + action" where
  "build_browse_url_action args =
     sbind (check_keys ''action'' ''browse'' [''url'', ''thought'', ''security_risk'', ''return_axtree''] args) (\<lambda>_.
     sbind (fld dec_str (None) args ''url'') (\<lambda>v_url.
     sbind (fld dec_str (Some []) args ''thought'') (\<lambda>v_thought.
     sbind (fld dec_risk (Some UNKNOWN) args ''security_risk'') (\<lambda>v_risk.
     sbind (fld dec_bool (Some False) args ''return_axtree'') (\<lambda>v_return_axtree.
     Inr (BrowseURLAction
       \<lparr>bua_url = v_url,
        bua_thought = v_thought,
        bua_risk = v_risk,
        bua_return_axtree = v_return_axtree\<rparr>))))))"

definition build_browse_interactive_action :: "jdict \<Rightarrow> ser_error + action" where
  "build_browse_interactive_action args =
     sbind (check_keys ''action'' ''browse_interactive'' [''browser_actions'', ''thought'', ''browsergym_send_msg_to_user'', ''security_risk'', ''return_axtree''] args) (\<lambda>_.
     sbind (fld dec_str (None) args ''browser_actions'') (\<lambda>v_browser_actions.
     sbind (fld dec_str (Some []) args ''thought'') (\<lambda>v_thought.
     sbind (fld dec_str (Some []) args ''browsergym_send_msg_to_user'') (\<lambda>v_send_msg.
     sbind (fld dec_risk (Some UNKNOWN) args ''security_risk'') (\<lambda>v_risk.
     sbind (fld dec_bool (Some False) args ''return_axtree'') (\<lambda>v_return_axtree.
     Inr (BrowseInteractiveAction
       \<lparr>bia_browser_actions = v_browser_actions,
        bia_thought = v_thought,
        bia_send_msg = v_send_msg,
        bia_risk = v_risk,
        bia_return_axtree = v_return_axtree\<rparr>)))))))"

definition build_mcp_action :: "jdict \<Rightarrow> ser_error + action" where
  "build_mcp_action args =
     sbind (check_keys ''action'' ''call_tool_mcp'' [''name'', ''arguments'', ''thought'', ''security_risk''] args) (\<lambda>_.
     sbind (fld dec_str (None) args ''name'') (\<lambda>v_name.
     sbind (fld dec_dict (Some []) args ''arguments'') (\<lambda>v_arguments.
     sbind (fld dec_str (Some []) args ''thought'') (\<lambda>v_thought.
     sbind (fld dec_risk (Some UNKNOWN) args ''security_risk'') (\<lambda>v_risk.
     Inr (MCPAction
       \<lparr>mcpa_name = v_name,
        mcpa_arguments = v_arguments,
        mcpa_thought = v_thought,
        mcpa_risk = v_risk\<rparr>))))))"

definition build_change_agent_state_action :: "jdict \<Rightarrow> ser_error + action" where
  "build_change_agent_state_action args =
     sbind (check_keys ''action'' ''change_agent_state'' [''agent_state'', ''thought''] args) (\<lambda>_.
     sbind (fld (dec_enum agent_state_members) (None) args ''agent_state'') (\<lambda>v_agent_state.
     sbind (fld dec_str (Some []) args ''thought'') (\<lambda>v_thought.
     Inr (ChangeAgentStateAction
       \<lparr>casa_agent_state = v_agent_state,
        casa_thought = v_thought\<rparr>))))"

definition build_agent_finish_action :: "jdict \<Rightarrow> ser_error + action" where
  "build_agent_finish_action args =
     sbind (check_keys ''action'' ''finish'' [''final_thought'', ''outputs'', ''thought''] args) (\<lambda>_.
     sbind (fld dec_str (Some []) args ''final_thought'') (\<lambda>v_final_thought.
     sbind (fld dec_dict (Some []) args ''outputs'') (\<lambda>v_outputs.
     sbind (fld dec_str (Some []) args ''thought'') (\<lambda>v_thought.
     Inr (AgentFinishAction
       \<lparr>afa_final_thought = v_final_thought,
        afa_outputs = v_outputs,
        afa_thought = v_thought\<rparr>)))))"

definition build_agent_think_action :: "jdict \<Rightarrow> ser_error + action" where
  "build_agent_think_action args =
     sbind (check_keys ''action'' ''think'' [''thought''] args) (\<lambda>_.
     sbind (fld dec_str (Some []) args ''thought'') (\<lambda>v_thought.
     Inr (AgentThinkAction v_thought)))"

definition build_agent_reject_action :: "jdict \<Rightarrow> ser_error + action" where
  "build_agent_reject_action args =
     sbind (check_keys ''action'' ''reject'' [''outputs'', ''thought''] args) (\<lambda>_.
     sbind (fld dec_dict (Some []) args ''outputs'') (\<lambda>v_outputs.
     sbind (fld dec_str (Some []) args ''thought'') (\<lambda>v_thought.
     Inr (AgentRejectAction
       \<lparr>ara_outputs = v_outputs,
        ara_thought = v_thought\<rparr>))))"

definition build_agent_delegate_action :: "jdict \<Rightarrow> ser_error + action" where
  "build_agent_delegate_action args =
     sbind (check_keys ''action'' ''delegate'' [''agent'', ''inputs'', ''thought''] args) (\<lambda>_.
     sbind (fld dec_str (None) args ''agent'') (\<lambda>v_agent.
     sbind (fld dec_dict (None) args ''inputs'') (\<lambda>v_inputs.
     sbind (fld dec_str (Some []) args ''thought'') (\<lambda>v_thought.
     Inr (AgentDelegateAction
       \<lparr>ada_agent = v_agent,
        ada_inputs = v_inputs,
        ada_thought = v_thought\<rparr>)))))"

definition build_recall_action :: "jdict \<Rightarrow> ser_error + action" where
  "build_recall_action args =
     sbind (check_keys ''action'' ''recall'' [''recall_type'', ''query'', ''thought''] args) (\<lambda>_.
     sbind (fld (dec_enum recall_members) (None) args ''recall_type'') (\<lambda>v_recall_type.
     sbind (fld dec_str (Some []) args ''query'') (\<lambda>v_query.
     sbind (fld dec_str (Some []) args ''thought'') (\<lambda>v_thought.
     Inr (RecallAction
       \<lparr>ra_recall_type = v_recall_type,
        ra_query = v_query,
        ra_thought = v_thought\<rparr>)))))"

definition build_condensation_action :: "jdict \<Rightarrow> ser_error + action" where
  "build_condensation_action args =
     sbind (check_keys ''action'' ''condensation'' [''forgotten_event_ids'', ''forgotten_events_start_id'', ''forgotten_events_end_id'', ''summary'', ''summary_offset''] args) (\<lambda>_.
     sbind (fld (dec_opt (dec_list dec_int)) (Some None) args ''forgotten_event_ids'') (\<lambda>v_forgotten_event_ids.
     sbind (fld (dec_opt dec_int) (Some None) args ''forgotten_events_start_id'') (\<lambda>v_forgotten_events_start_id.
     sbind (fld (dec_opt dec_int) (Some None) args ''forgotten_events_end_id'') (\<lambda>v_forgotten_events_end_id.
     sbind (fld (dec_opt dec_str) (Some None) args ''summary'') (\<lambda>v_ca_summary.
     sbind (fld (dec_opt dec_int) (Some None) args ''summary_offset'') (\<lambda>v_ca_summary_offset.
     map_sum (\<lambda>_. Value_Error) CondensationAction
       (mk_condensation v_forgotten_event_ids v_forgotten_events_start_id v_forgotten_events_end_id
          v_ca_summary v_ca_summary_offset)))))))"

definition build_condensation_request_action :: "jdict \<Rightarrow> ser_error + action" where
  "build_condensation_request_action args =
     sbind (check_keys ''action'' ''condensation_request'' [] args) (\<lambda>_.
     Inr CondensationRequestAction)"

definition build_task_tracking_action :: "jdict \<Rightarrow> ser_error + action" where
  "build_task_tracking_action args =
     sbind (check_keys ''action'' ''task_tracking'' [''command'', ''task_list'', ''thought''] args) (\<lambda>_.
     sbind (fld dec_str (Some ''view'') args ''command'') (\<lambda>v_command.
     sbind (fld (dec_list dec_dict) (Some []) args ''task_list'') (\<lambda>v_task_list.
     sbind (fld dec_str (Some []) args ''thought'') (\<lambda>v_thought.
     Inr (TaskTrackingAction
       \<lparr>tta_command = v_command,
        tta_task_list = v_task_list,
        tta_thought = v_thought\<rparr>)))))"

definition build_loop_recovery_action :: "jdict \<Rightarrow> ser_error + action" where
  "build_loop_recovery_action args =
     sbind (check_keys ''action'' ''loop_recovery'' [''option''] args) (\<lambda>_.
     sbind (fld dec_int (Some 1) args ''option'') (\<lambda>v_option.
     Inr (LoopRecoveryAction v_option)))"

definition build_message_action :: "jdict \<Rightarrow> ser_error + action" where
  "build_message_action args =
     sbind (check_keys ''action'' ''message'' [''content'', ''file_urls'', ''image_urls'', ''wait_for_response'', ''security_risk''] args) (\<lambda>_.
     sbind (fld dec_str (None) args ''content'') (\<lambda>v_content.
     sbind (fld (dec_opt (dec_list dec_str)) (Some None) args ''file_urls'') (\<lambda>v_file_urls.
     sbind (fld (dec_opt (dec_list dec_str)) (Some None) args ''image_urls'') (\<lambda>v_image_urls.
     sbind (fld dec_bool (Some False) args ''wait_for_response'') (\<lambda>v_wait_for_response.
     sbind (fld dec_risk (Some UNKNOWN) args ''security_risk'') (\<lambda>v_risk.
     Inr (MessageAction
       \<lparr>ma_content = v_content,
        ma_file_urls = v_file_urls,
        ma_image_urls = v_image_urls,
        ma_wait_for_response = v_wait_for_response,
        ma_risk = v_risk\<rparr>)))))))"

definition build_system_message_action :: "string \<Rightarrow> jdict \<Rightarrow> ser_error + action" where
  "build_system_message_action ver args =
     sbind (check_keys ''action'' ''system'' [''content'', ''tools'', ''openhands_version'', ''agent_class''] args) (\<lambda>_.
     sbind (fld dec_str (None) args ''content'') (\<lambda>v_content.
     sbind (fld (dec_opt (dec_list Some)) (Some None) args ''tools'') (\<lambda>v_tools.
     sbind (fld (dec_opt dec_str) (Some (Some ver)) args ''openhands_version'') (\<lambda>v_openhands_version.
     sbind (fld (dec_opt dec_str) (Some None) args ''agent_class'') (\<lambda>v_agent_class.
     Inr (SystemMessageAction
       \<lparr>sma_content = v_content,
        sma_tools = v_tools,
        sma_openhands_version = v_openhands_version,
        sma_agent_class = v_agent_class\<rparr>))))))"

text \<open>\<open>ACTION_TYPE_TO_CLASS\<close> and the call \<open>action_class(**args)\<close>\<close>

definition ACTION_TYPE_TO_CLASS :: "(string \<times> event_class) list" where
  "ACTION_TYPE_TO_CLASS =
     [(''null'', C_NullAction),
      (''run'', C_CmdRunAction),
      (''run_ipython'', C_IPythonRunCellAction),
      (''read'', C_FileReadAction),
      (''write'', C_FileWriteAction),
      (''edit'', C_FileEditAction),
      (''browse'', C_BrowseURLAction),
      (''browse_interactive'', C_BrowseInteractiveAction),
      (''call_tool_mcp'', C_MCPAction),
      (''change_agent_state'', C_ChangeAgentStateAction),
      (''finish'', C_AgentFinishAction),
      (''think'', C_AgentThinkAction),
      (''reject'', C_AgentRejectAction),
      (''delegate'', C_AgentDelegateAction),
      (''recall'', C_RecallAction),
      (''condensation'', C_CondensationAction),
      (''condensation_request'', C_CondensationRequestAction),
      (''task_tracking'', C_TaskTrackingAction),
      (''loop_recovery'', C_LoopRecoveryAction),
      (''message'', C_MessageAction),
      (''system'', C_SystemMessageAction)]"

fun construct_action :: "string \<Rightarrow> event_class \<Rightarrow> jdict \<Rightarrow> ser_error + action" where
  "construct_action ver C_NullAction args = build_null_action args"
| "construct_action ver C_CmdRunAction args = build_cmd_run_action args"
| "construct_action ver C_IPythonRunCellAction args = build_ipython_run_cell_action args"
| "construct_action ver C_FileReadAction args = build_file_read_action args"
| "construct_action ver C_FileWriteAction args = build_file_write_action args"
| "construct_action ver C_FileEditAction args = build_file_edit_action args"
| "construct_action ver C_BrowseURLAction args = build_browse_url_action args"
| "construct_action ver C_BrowseInteractiveAction args = build_browse_interactive_action args"
| "construct_action ver C_MCPAction args = build_mcp_action args"
| "construct_action ver C_ChangeAgentStateAction args = build_change_agent_state_action args"
| "construct_action ver C_AgentFinishAction args = build_agent_finish_action args"
| "construct_action ver C_AgentThinkAction args = build_agent_think_action args"
| "construct_action ver C_AgentRejectAction args = build_agent_reject_action args"
| "construct_action ver C_AgentDelegateAction args = build_agent_delegate_action args"
| "construct_action ver C_RecallAction args = build_recall_action args"
| "construct_action ver C_CondensationAction args = build_condensation_action args"
| "construct_action ver C_CondensationRequestAction args = build_condensation_request_action args"
| "construct_action ver C_TaskTrackingAction args = build_task_tracking_action args"
| "construct_action ver C_LoopRecoveryAction args = build_loop_recovery_action args"
| "construct_action ver C_MessageAction args = build_message_action args"
| "construct_action ver C_SystemMessageAction args = build_system_message_action ver args"
| "construct_action ver _ args = Inl Type_Error"

section \<open>The fields of an observation\<close>

fun obs_type :: "observation \<Rightarrow> string" where
  "obs_type (NullObservation _) = ''null''"
| "obs_type (AgentThinkObservation _) = ''think''"
| "obs_type (CmdOutputObservation _) = ''run''"
| "obs_type (IPythonRunCellObservation _) = ''run_ipython''"
| "obs_type (BrowserOutputObservation _) = ''browse''"
| "obs_type (FileReadObservation _) = ''read''"
| "obs_type (FileWriteObservation _) = ''write''"
| "obs_type (FileEditObservation _) = ''edit''"
| "obs_type (ErrorObservation _) = ''error''"
| "obs_type (AgentStateChangedObservation _) = ''agent_state_changed''"
| "obs_type (AgentDelegateObservation _) = ''delegate''"
| "obs_type (SuccessObservation _) = ''success''"
| "obs_type (UserRejectObservation _) = ''user_rejected''"
| "obs_type (AgentCondensationObservation _) = ''condense''"
| "obs_type (RecallObservation _) = ''recall''"
| "obs_type (LoopDetectionObservation _) = ''loop_detection''"
| "obs_type (MCPObservation _) = ''mcp''"
| "obs_type (FileDownloadObservation _) = ''download''"
| "obs_type (TaskTrackingObservation _) = ''task_tracking''"

fun obs_content :: "observation \<Rightarrow> string" where
  "obs_content (NullObservation b) = b"
| "obs_content (AgentThinkObservation b) = b"
| "obs_content (CmdOutputObservation b) = coo_content b"
| "obs_content (IPythonRunCellObservation b) = ipo_content b"
| "obs_content (BrowserOutputObservation b) = boo_content b"
| "obs_content (FileReadObservation b) = fro_content b"
| "obs_content (FileWriteObservation b) = fwo_content b"
| "obs_content (FileEditObservation b) = feo_content b"
| "obs_content (ErrorObservation b) = eo_content b"
| "obs_content (AgentStateChangedObservation b) = asco_content b"
| "obs_content (AgentDelegateObservation b) = ado_content b"
| "obs_content (SuccessObservation b) = b"
| "obs_content (UserRejectObservation b) = b"
| "obs_content (AgentCondensationObservation b) = b"
| "obs_content (RecallObservation b) = ro_content b"
| "obs_content (LoopDetectionObservation b) = b"
| "obs_content (MCPObservation b) = mcpo_content b"
| "obs_content (FileDownloadObservation b) = fdo_content b"
| "obs_content (TaskTrackingObservation b) = tto_content b"

fun obs_extras :: "observation \<Rightarrow> jdict" where
  "obs_extras (NullObservation b) =
     []"
| "obs_extras (AgentThinkObservation b) =
     []"
| "obs_extras (CmdOutputObservation b) =
     [(''command'', JStr (coo_command b)),
      (''metadata'', enc_metadata (coo_metadata b)),
      (''hidden'', JBool (coo_hidden b))]"
| "obs_extras (IPythonRunCellObservation b) =
     [(''code'', JStr (ipo_code b)),
      (''image_urls'', enc_opt enc_strs (ipo_image_urls b))]"
| "obs_extras (BrowserOutputObservation b) =
     [(''url'', JStr (boo_url b)),
      (''trigger_by_action'', JStr (boo_trigger_by_action b)),
      (''screenshot'', JStr (boo_screenshot b)),
      (''screenshot_path'', enc_opt JStr (boo_screenshot_path b)),
      (''set_of_marks'', JStr (boo_set_of_marks b)),
      (''error'', JBool (boo_error b)),
      (''goal_image_urls'', enc_strs (boo_goal_image_urls b)),
      (''open_pages_urls'', enc_strs (boo_open_pages_urls b)),
      (''active_page_index'', JInt (boo_active_page_index b)),
      (''dom_object'', JDict (boo_dom_object b)),
      (''axtree_object'', JDict (boo_axtree_object b)),
      (''extra_element_properties'', JDict (boo_extra_element_properties b)),
      (''last_browser_action'', JStr (boo_last_browser_action b)),
      (''last_browser_action_error'', JStr (boo_last_browser_action_error b)),
      (''focused_element_bid'', JStr (boo_focused_element_bid b)),
      (''filter_visible_only'', JBool (boo_filter_visible_only b))]"
| "obs_extras (FileReadObservation b) =
     [(''path'', JStr (fro_path b)),
      (''impl_source'', JStr (read_source_value (fro_impl_source b)))]"
| "obs_extras (FileWriteObservation b) =
     [(''path'', JStr (fwo_path b))]"
| "obs_extras (FileEditObservation b) =
     [(''path'', JStr (feo_path b)),
      (''prev_exist'', JBool (feo_prev_exist b)),
      (''old_content'', enc_opt JStr (feo_old_content b)),
      (''new_content'', enc_opt JStr (feo_new_content b)),
      (''impl_source'', JStr (edit_source_value (feo_impl_source b))),
      (''diff'', enc_opt JStr (feo_diff b)),
      (''_diff_cache'', enc_opt JStr (feo_diff_cache b))]"
| "obs_extras (ErrorObservation b) =
     [(''error_id'', JStr (eo_error_id b))]"
| "obs_extras (AgentStateChangedObservation b) =
     [(''agent_state'', JStr (agent_state_value (asco_agent_state b))),
      (''reason'', JStr (asco_reason b))]"
| "obs_extras (AgentDelegateObservation b) =
     [(''outputs'', JDict (ado_outputs b))]"
| "obs_extras (SuccessObservation b) =
     []"
| "obs_extras (UserRejectObservation b) =
     []"
| "obs_extras (AgentCondensationObservation b) =
     []"
| "obs_extras (RecallObservation b) =
     [(''recall_type'', JStr (recall_value (ro_recall_type b))),
      (''repo_name'', JStr (ro_repo_name b)),
      (''repo_directory'', JStr (ro_repo_directory b)),
      (''repo_branch'', JStr (ro_repo_branch b)),
      (''repo_instructions'', JStr (ro_repo_instructions b)),
      (''runtime_hosts'', JDict (ro_runtime_hosts b)),
      (''additional_agent_instructions'', JStr (ro_additional_agent_instructions b)),
      (''date'', JStr (ro_date b)),
      (''custom_secrets_descriptions'', JDict (ro_custom_secrets_descriptions b)),
      (''conversation_instructions'', JStr (ro_conversation_instructions b)),
      (''working_dir'', JStr (ro_working_dir b)),
      (''microagent_knowledge'', JList (map enc_knowledge (ro_microagent_knowledge b)))]"
| "obs_extras (LoopDetectionObservation b) =
     []"
| "obs_extras (MCPObservation b) =
     [(''name'', JStr (mcpo_name b)),
      (''arguments'', JDict (mcpo_arguments b))]"
| "obs_extras (FileDownloadObservation b) =
     [(''file_path'', JStr (fdo_file_path b))]"
| "obs_extras (TaskTrackingObservation b) =
     [(''command'', JStr (tto_command b)),
      (''task_list'', JList (map JDict (tto_task_list b)))]"

subsection \<open>Construction from keyword arguments\<close>

definition build_null_observation :: "string \<Rightarrow> jdict \<Rightarrow> ser_error + observation" where
  "build_null_observation content ex =
     sbind (check_keys ''observation'' ''null'' [] ex) (\<lambda>_.
     Inr (NullObservation content))"

definition build_agent_think_observation :: "string \<Rightarrow> jdict \<Rightarrow> ser_error + observation" where
  "build_agent_think_observation content ex =
     sbind (check_keys ''observation'' ''think'' [] ex) (\<lambda>_.
     Inr (AgentThinkObservation content))"

definition build_ipython_run_cell_observation :: "string \<Rightarrow> jdict \<Rightarrow> ser_error + observation" where
  "build_ipython_run_cell_observation content ex =
     sbind (check_keys ''observation'' ''run_ipython'' [''code'', ''image_urls''] ex) (\<lambda>_.
     sbind (fld dec_str (None) ex ''code'') (\<lambda>v_code.
     sbind (fld (dec_opt (dec_list dec_str)) (Some None) ex ''image_urls'') (\<lambda>v_image_urls.
     Inr (IPythonRunCellObservation
       \<lparr>ipo_content = content,
        ipo_code = v_code,
        ipo_image_urls = v_image_urls\<rparr>))))"

definition build_browser_output_observation :: "string \<Rightarrow> jdict \<Rightarrow> ser_error + observation" where
  "build_browser_output_observation content ex =
     sbind (check_keys ''observation'' ''browse'' [''url'', ''trigger_by_action'', ''screenshot'', ''screenshot_path'', ''set_of_marks'', ''error'', ''goal_image_urls'', ''open_pages_urls'', ''active_page_index'', ''dom_object'', ''axtree_object'', ''extra_element_properties'', ''last_browser_action'', ''last_browser_action_error'', ''focused_element_bid'', ''filter_visible_only''] ex) (\<lambda>_.
     sbind (fld dec_str (None) ex ''url'') (\<lambda>v_url.
     sbind (fld dec_str (None) ex ''trigger_by_action'') (\<lambda>v_trigger_by_action.
     sbind (fld dec_str (Some []) ex ''screenshot'') (\<lambda>v_screenshot.
     sbind (fld (dec_opt dec_str) (Some None) ex ''screenshot_path'') (\<lambda>v_screenshot_path.
     sbind (fld dec_str (Some []) ex ''set_of_marks'') (\<lambda>v_set_of_marks.
     sbind (fld dec_bool (Some False) ex ''error'') (\<lambda>v_error.
     sbind (fld (dec_list dec_str) (Some []) ex ''goal_image_urls'') (\<lambda>v_goal_image_urls.
     sbind (fld (dec_list dec_str) (Some []) ex ''open_pages_urls'') (\<lambda>v_open_pages_urls.
     sbind (fld dec_int (Some (- 1)) ex ''active_page_index'') (\<lambda>v_active_page_index.
     sbind (fld dec_dict (Some []) ex ''dom_object'') (\<lambda>v_dom_object.
     sbind (fld dec_dict (Some []) ex ''axtree_object'') (\<lambda>v_axtree_object.
     sbind (fld dec_dict (Some []) ex ''extra_element_properties'') (\<lambda>v_extra_element_properties.
     sbind (fld dec_str (Some []) ex ''last_browser_action'') (\<lambda>v_last_browser_action.
     sbind (fld dec_str (Some []) ex ''last_browser_action_error'') (\<lambda>v_last_browser_action_error.
     sbind (fld dec_str (Some []) ex ''focused_element_bid'') (\<lambda>v_focused_element_bid.
     sbind (fld dec_bool (Some False) ex ''filter_visible_only'') (\<lambda>v_filter_visible_only.
     Inr (BrowserOutputObservation
       \<lparr>boo_content = content,
        boo_url = v_url,
        boo_trigger_by_action = v_trigger_by_action,
        boo_screenshot = v_screenshot,
        boo_screenshot_path = v_screenshot_path,
        boo_set_of_marks = v_set_of_marks,
        boo_error = v_error,
        boo_goal_image_urls = v_goal_image_urls,
        boo_open_pages_urls = v_open_pages_urls,
        boo_active_page_index = v_active_page_index,
        boo_dom_object = v_dom_object,
        boo_axtree_object = v_axtree_object,
        boo_extra_element_properties = v_extra_element_properties,
        boo_last_browser_action = v_last_browser_action,
        boo_last_browser_action_error = v_last_browser_action_error,
        boo_focused_element_bid = v_focused_element_bid,
        boo_filter_visible_only = v_filter_visible_only\<rparr>))))))))))))))))))"

definition build_file_read_observation :: "string \<Rightarrow> jdict \<Rightarrow> ser_error + observation" where
  "build_file_read_observation content ex =
     sbind (check_keys ''observation'' ''read'' [''path'', ''impl_source''] ex) (\<lambda>_.
     sbind (fld dec_str (None) ex ''path'') (\<lambda>v_path.
     sbind (fld (dec_enum read_source_members) (Some READ_DEFAULT) ex ''impl_source'') (\<lambda>v_impl_source.
     Inr (FileReadObservation
       \<lparr>fro_content = content,
        fro_path = v_path,
        fro_impl_source = v_impl_source\<rparr>))))"

definition build_file_write_observation :: "string \<Rightarrow> jdict \<Rightarrow> ser_error + observation" where
  "build_file_write_observation content ex =
     sbind (check_keys ''observation'' ''write'' [''path''] ex) (\<lambda>_.
     sbind (fld dec_str (None) ex ''path'') (\<lambda>v_path.
     Inr (FileWriteObservation
       \<lparr>fwo_content = content,
        fwo_path = v_path\<rparr>)))"

definition build_file_edit_observation :: "string \<Rightarrow> jdict \<Rightarrow> ser_error + observation" where
  "build_file_edit_observation content ex =
     sbind (check_keys ''observation'' ''edit'' [''path'', ''prev_exist'', ''old_content'', ''new_content'', ''impl_source'', ''diff'', ''_diff_cache''] ex) (\<lambda>_.
     sbind (fld dec_str (Some []) ex ''path'') (\<lambda>v_path.
     sbind (fld dec_bool (Some False) ex ''prev_exist'') (\<lambda>v_prev_exist.
     sbind (fld (dec_opt dec_str) (Some None) ex ''old_content'') (\<lambda>v_old_content.
     sbind (fld (dec_opt dec_str) (Some None) ex ''new_content'') (\<lambda>v_new_content.
     sbind (fld (dec_enum edit_source_members) (Some LLM_BASED_EDIT) ex ''impl_source'') (\<lambda>v_impl_source.
     sbind (fld (dec_opt dec_str) (Some None) ex ''diff'') (\<lambda>v_diff.
     sbind (fld (dec_opt dec_str) (Some None) ex ''_diff_cache'') (\<lambda>v_diff_cache.
     Inr (FileEditObservation
       \<lparr>feo_content = content,
        feo_path = v_path,
        feo_prev_exist = v_prev_exist,
        feo_old_content = v_old_content,
        feo_new_content = v_new_content,
        feo_impl_source = v_impl_source,
        feo_diff = v_diff,
        feo_diff_cache = v_diff_cache\<rparr>)))))))))"

definition build_error_observation :: "string \<Rightarrow> jdict \<Rightarrow> ser_error + observation" where
  "build_error_observation content ex =
     sbind (check_keys ''observation'' ''error'' [''error_id''] ex) (\<lambda>_.
     sbind (fld dec_str (Some []) ex ''error_id'') (\<lambda>v_error_id.
     Inr (ErrorObservation
       \<lparr>eo_content = content,
        eo_error_id = v_error_id\<rparr>)))"

definition build_agent_state_changed_observation :: "string \<Rightarrow> jdict \<Rightarrow> ser_error + observation" where
  "build_agent_state_changed_observation content ex =
     sbind (check_keys ''observation'' ''agent_state_changed'' [''agent_state'', ''reason''] ex) (\<lambda>_.
     sbind (fld (dec_enum agent_state_members) (None) ex ''agent_state'') (\<lambda>v_agent_state.
     sbind (fld dec_str (Some []) ex ''reason'') (\<lambda>v_reason.
     Inr (AgentStateChangedObservation
       \<lparr>asco_content = content,
        asco_agent_state = v_agent_state,
        asco_reason = v_reason\<rparr>))))"

definition build_agent_delegate_observation :: "string \<Rightarrow> jdict \<Rightarrow> ser_error + observation" where
  "build_agent_delegate_observation content ex =
     sbind (check_keys ''observation'' ''delegate'' [''outputs''] ex) (\<lambda>_.
     sbind (fld dec_dict (None) ex ''outputs'') (\<lambda>v_outputs.
     Inr (AgentDelegateObservation
       \<lparr>ado_content = content,
        ado_outputs = v_outputs\<rparr>)))"

definition build_success_observation :: "string \<Rightarrow> jdict \<Rightarrow> ser_error + observation" where
  "build_success_observation content ex =
     sbind (check_keys ''observation'' ''success'' [] ex) (\<lambda>_.
     Inr (SuccessObservation content))"

definition build_user_reject_observation :: "string \<Rightarrow> jdict \<Rightarrow> ser_error + observation" where
  "build_user_reject_observation content ex =
     sbind (check_keys ''observation'' ''user_rejected'' [] ex) (\<lambda>_.
     Inr (UserRejectObservation content))"

definition build_agent_condensation_observation :: "string \<Rightarrow> jdict \<Rightarrow> ser_error + observation" where
  "build_agent_condensation_observation content ex =
     sbind (check_keys ''observation'' ''condense'' [] ex) (\<lambda>_.
     Inr (AgentCondensationObservation content))"

definition build_recall_observation :: "string \<Rightarrow> jdict \<Rightarrow> ser_error + observation" where
  "build_recall_observation content ex =
     sbind (check_keys ''observation'' ''recall'' [''recall_type'', ''repo_name'', ''repo_directory'', ''repo_branch'', ''repo_instructions'', ''runtime_hosts'', ''additional_agent_instructions'', ''date'', ''custom_secrets_descriptions'', ''conversation_instructions'', ''working_dir'', ''microagent_knowledge''] ex) (\<lambda>_.
     sbind (fld (dec_enum recall_members) (None) ex ''recall_type'') (\<lambda>v_recall_type.
     sbind (fld dec_str (Some []) ex ''repo_name'') (\<lambda>v_repo_name.
     sbind (fld dec_str (Some []) ex ''repo_directory'') (\<lambda>v_repo_directory.
     sbind (fld dec_str (Some []) ex ''repo_branch'') (\<lambda>v_repo_branch.
     sbind (fld dec_str (Some []) ex ''repo_instructions'') (\<lambda>v_repo_instructions.
     sbind (fld dec_dict (Some []) ex ''runtime_hosts'') (\<lambda>v_runtime_hosts.
     sbind (fld dec_str (Some []) ex ''additional_agent_instructions'') (\<lambda>v_additional_agent_instructions.
     sbind (fld dec_str (Some []) ex ''date'') (\<lambda>v_date.
     sbind (fld dec_dict (Some []) ex ''custom_secrets_descriptions'') (\<lambda>v_custom_secrets_descriptions.
     sbind (fld dec_str (Some []) ex ''conversation_instructions'') (\<lambda>v_conversation_instructions.
     sbind (fld dec_str (Some []) ex ''working_dir'') (\<lambda>v_working_dir.
     sbind (fld (dec_list dec_knowledge) (Some []) ex ''microagent_knowledge'') (\<lambda>v_microagent_knowledge.
     Inr (RecallObservation
       \<lparr>ro_content = content,
        ro_recall_type = v_recall_type,
        ro_repo_name = v_repo_name,
        ro_repo_directory = v_repo_directory,
        ro_repo_branch = v_repo_branch,
        ro_repo_instructions = v_repo_instructions,
        ro_runtime_hosts = v_runtime_hosts,
        ro_additional_agent_instructions = v_additional_agent_instructions,
        ro_date = v_date,
        ro_custom_secrets_descriptions = v_custom_secrets_descriptions,
        ro_conversation_instructions = v_conversation_instructions,
        ro_working_dir = v_working_dir,
        ro_microagent_knowledge = v_microagent_knowledge\<rparr>))))))))))))))"

definition build_loop_detection_observation :: "string \<Rightarrow> jdict \<Rightarrow> ser_error + observation" where
  "build_loop_detection_observation content ex =
     sbind (check_keys ''observation'' ''loop_detection'' [] ex) (\<lambda>_.
     Inr (LoopDetectionObservation content))"

definition build_mcp_observation :: "string \<Rightarrow> jdict \<Rightarrow> ser_error + observation" where
  "build_mcp_observation content ex =
     sbind (check_keys ''observation'' ''mcp'' [''name'', ''arguments''] ex) (\<lambda>_.
     sbind (fld dec_str (Some []) ex ''name'') (\<lambda>v_name.
     sbind (fld dec_dict (Some []) ex ''arguments'') (\<lambda>v_arguments.
     Inr (MCPObservation
       \<lparr>mcpo_content = content,
        mcpo_name = v_name,
        mcpo_arguments = v_arguments\<rparr>))))"

definition build_file_download_observation :: "string \<Rightarrow> jdict \<Rightarrow> ser_error + observation" where
  "build_file_download_observation content ex =
     sbind (check_keys ''observation'' ''download'' [''file_path''] ex) (\<lambda>_.
     sbind (fld dec_str (None) ex ''file_path'') (\<lambda>v_file_path.
     Inr (FileDownloadObservation
       \<lparr>fdo_content = content,
        fdo_file_path = v_file_path\<rparr>)))"

definition build_task_tracking_observation :: "string \<Rightarrow> jdict \<Rightarrow> ser_error + observation" where
  "build_task_tracking_observation content ex =
     sbind (check_keys ''observation'' ''task_tracking'' [''command'', ''task_list''] ex) (\<lambda>_.
     sbind (fld dec_str (Some []) ex ''command'') (\<lambda>v_command.
     sbind (fld (dec_list dec_dict) (Some []) ex ''task_list'') (\<lambda>v_task_list.
     Inr (TaskTrackingObservation
       \<lparr>tto_content = content,
        tto_command = v_command,
        tto_task_list = v_task_list\<rparr>))))"

text \<open>\<open>CmdOutputObservation.__init__\<close> takes any further keyword argument.\<close>

definition build_cmd_output_observation :: "string \<Rightarrow> jdict \<Rightarrow> ser_error + observation" where
  "build_cmd_output_observation content ex =
     (if ''content'' \<in> set (map fst ex) then Inl Type_Error
      else if map_of ex ''observation'' \<notin> {None, Some (JStr ''run'')} then Inl Untyped
      else
     sbind (fld dec_str (None) ex ''command'') (\<lambda>v_command.
     sbind (fld dec_metadata (Some default_cmd_metadata) ex ''metadata'') (\<lambda>v_metadata.
     sbind (fld dec_bool (Some False) ex ''hidden'') (\<lambda>v_hidden.
     Inr (CmdOutputObservation
       (mk_cmd_output content v_command (Some v_metadata) v_hidden None None))))))"

definition OBSERVATION_TYPE_TO_CLASS :: "(string \<times> event_class) list" where
  "OBSERVATION_TYPE_TO_CLASS =
     [(''null'', C_NullObservation),
      (''think'', C_AgentThinkObservation),
      (''run'', C_CmdOutputObservation),
      (''run_ipython'', C_IPythonRunCellObservation),
      (''browse'', C_BrowserOutputObservation),
      (''read'', C_FileReadObservation),
      (''write'', C_FileWriteObservation),
      (''edit'', C_FileEditObservation),
      (''error'', C_ErrorObservation),
      (''agent_state_changed'', C_AgentStateChangedObservation),
      (''delegate'', C_AgentDelegateObservation),
      (''success'', C_SuccessObservation),
      (''user_rejected'', C_UserRejectObservation),
      (''condense'', C_AgentCondensationObservation),
      (''recall'', C_RecallObservation),
      (''loop_detection'', C_LoopDetectionObservation),
      (''mcp'', C_MCPObservation),
      (''download'', C_FileDownloadObservation),
      (''task_tracking'', C_TaskTrackingObservation)]"

fun construct_observation :: "event_class \<Rightarrow> string \<Rightarrow> jdict \<Rightarrow> ser_error + observation" where
  "construct_observation C_NullObservation content ex = build_null_observation content ex"
| "construct_observation C_AgentThinkObservation content ex = build_agent_think_observation content ex"
| "construct_observation C_CmdOutputObservation content ex = build_cmd_output_observation content ex"
| "construct_observation C_IPythonRunCellObservation content ex = build_ipython_run_cell_observation content ex"
| "construct_observation C_BrowserOutputObservation content ex = build_browser_output_observation content ex"
| "construct_observation C_FileReadObservation content ex = build_file_read_observation content ex"
| "construct_observation C_FileWriteObservation content ex = build_file_write_observation content ex"
| "construct_observation C_FileEditObservation content ex = build_file_edit_observation content ex"
| "construct_observation C_ErrorObservation content ex = build_error_observation content ex"
| "construct_observation C_AgentStateChangedObservation content ex = build_agent_state_changed_observation content ex"
| "construct_observation C_AgentDelegateObservation content ex = build_agent_delegate_observation content ex"
| "construct_observation C_SuccessObservation content ex = build_success_observation content ex"
| "construct_observation C_UserRejectObservation content ex = build_user_reject_observation content ex"
| "construct_observation C_AgentCondensationObservation content ex = build_agent_condensation_observation content ex"
| "construct_observation C_RecallObservation content ex = build_recall_observation content ex"
| "construct_observation C_LoopDetectionObservation content ex = build_loop_detection_observation content ex"
| "construct_observation C_MCPObservation content ex = build_mcp_observation content ex"
| "construct_observation C_FileDownloadObservation content ex = build_file_download_observation content ex"
| "construct_observation C_TaskTrackingObservation content ex = build_task_tracking_observation content ex"
| "construct_observation _ content ex = Inl Type_Error"

section \<open>Round trip of the fields\<close>

text \<open>
  Constructing an object from its own fields gives it back, for a condensation action when its
  fields are a valid combination.
\<close>

fun action_fields_ok :: "action \<Rightarrow> bool" where
  "action_fields_ok (CondensationAction c) = validate_field_polymorphism c"
| "action_fields_ok _ = True"

lemma build_null_action_props [simp]:
  "build_null_action (action_props NullAction) = Inr NullAction"
  by (simp add: build_null_action_def check_keys_self fld_def)

lemma build_cmd_run_action_props [simp]:
  "build_cmd_run_action (action_props (CmdRunAction a)) = Inr (CmdRunAction a)"
  by (simp add: build_cmd_run_action_def check_keys_self fld_def)

lemma build_ipython_run_cell_action_props [simp]:
  "build_ipython_run_cell_action (action_props (IPythonRunCellAction a)) = Inr (IPythonRunCellAction a)"
  by (simp add: build_ipython_run_cell_action_def check_keys_self fld_def)

lemma build_file_read_action_props [simp]:
  "build_file_read_action (action_props (FileReadAction a)) = Inr (FileReadAction a)"
  by (simp add: build_file_read_action_def check_keys_self fld_def)

lemma build_file_write_action_props [simp]:
  "build_file_write_action (action_props (FileWriteAction a)) = Inr (FileWriteAction a)"
  by (simp add: build_file_write_action_def check_keys_self fld_def)

lemma build_file_edit_action_props [simp]:
  "build_file_edit_action (action_props (FileEditAction a)) = Inr (FileEditAction a)"
  by (simp add: build_file_edit_action_def check_keys_self fld_def)

lemma build_browse_url_action_props [simp]:
  "build_browse_url_action (action_props (BrowseURLAction a)) = Inr (BrowseURLAction a)"
  by (simp add: build_browse_url_action_def check_keys_self fld_def)

lemma build_browse_interactive_action_props [simp]:
  "build_browse_interactive_action (action_props (BrowseInteractiveAction a)) = Inr (BrowseInteractiveAction a)"
  by (simp add: build_browse_interactive_action_def check_keys_self fld_def)

lemma build_mcp_action_props [simp]:
  "build_mcp_action (action_props (MCPAction a)) = Inr (MCPAction a)"
  by (simp add: build_mcp_action_def check_keys_self fld_def)

lemma build_change_agent_state_action_props [simp]:
  "build_change_agent_state_action (action_props (ChangeAgentStateAction a)) = Inr (ChangeAgentStateAction a)"
  by (simp add: build_change_agent_state_action_def check_keys_self fld_def)

lemma build_agent_finish_action_props [simp]:
  "build_agent_finish_action (action_props (AgentFinishAction a)) = Inr (AgentFinishAction a)"
  by (simp add: build_agent_finish_action_def check_keys_self fld_def)

lemma build_agent_think_action_props [simp]:
  "build_agent_think_action (action_props (AgentThinkAction a)) = Inr (AgentThinkAction a)"
  by (simp add: build_agent_think_action_def check_keys_self fld_def)

lemma build_agent_reject_action_props [simp]:
  "build_agent_reject_action (action_props (AgentRejectAction a)) = Inr (AgentRejectAction a)"
  by (simp add: build_agent_reject_action_def check_keys_self fld_def)

lemma build_agent_delegate_action_props [simp]:
  "build_agent_delegate_action (action_props (AgentDelegateAction a)) = Inr (AgentDelegateAction a)"
  by (simp add: build_agent_delegate_action_def check_keys_self fld_def)

lemma build_recall_action_props [simp]:
  "build_recall_action (action_props (RecallAction a)) = Inr (RecallAction a)"
  by (simp add: build_recall_action_def check_keys_self fld_def)

lemma build_condensation_action_props [simp]:
  "validate_field_polymorphism a \<Longrightarrow>
   build_condensation_action (action_props (CondensationAction a)) = Inr (CondensationAction a)"
  by (cases a) (simp add: build_condensation_action_def check_keys_self fld_def mk_condensation_def Let_def)

lemma build_condensation_request_action_props [simp]:
  "build_condensation_request_action (action_props CondensationRequestAction) = Inr CondensationRequestAction"
  by (simp add: build_condensation_request_action_def check_keys_self fld_def)

lemma build_task_tracking_action_props [simp]:
  "build_task_tracking_action (action_props (TaskTrackingAction a)) = Inr (TaskTrackingAction a)"
  by (simp add: build_task_tracking_action_def check_keys_self fld_def)

lemma build_loop_recovery_action_props [simp]:
  "build_loop_recovery_action (action_props (LoopRecoveryAction a)) = Inr (LoopRecoveryAction a)"
  by (simp add: build_loop_recovery_action_def check_keys_self fld_def)

lemma build_message_action_props [simp]:
  "build_message_action (action_props (MessageAction a)) = Inr (MessageAction a)"
  by (simp add: build_message_action_def check_keys_self fld_def)

lemma build_system_message_action_props [simp]:
  "build_system_message_action ver (action_props (SystemMessageAction a)) = Inr (SystemMessageAction a)"
  by (simp add: build_system_message_action_def check_keys_self fld_def)

lemma construct_action_props:
  "action_fields_ok a \<Longrightarrow> construct_action ver (action_class a) (action_props a) = Inr a"
  by (cases a) (simp_all del: action_props.simps)

text \<open>A command output comes back with its content truncated, unless it is hidden.\<close>

fun obs_retruncate :: "observation \<Rightarrow> observation" where
  "obs_retruncate (CmdOutputObservation b) =
     CmdOutputObservation (mk_cmd_output (coo_content b) (coo_command b) (Some (coo_metadata b)) (coo_hidden b) None None)"
| "obs_retruncate b = b"

lemma build_null_observation_extras [simp]:
  "build_null_observation b (obs_extras (NullObservation b)) = Inr (obs_retruncate (NullObservation b))"
  by (simp add: build_null_observation_def check_keys_self fld_def)

lemma build_agent_think_observation_extras [simp]:
  "build_agent_think_observation b (obs_extras (AgentThinkObservation b)) = Inr (obs_retruncate (AgentThinkObservation b))"
  by (simp add: build_agent_think_observation_def check_keys_self fld_def)

lemma build_cmd_output_observation_extras [simp]:
  "build_cmd_output_observation (coo_content b) (obs_extras (CmdOutputObservation b)) = Inr (obs_retruncate (CmdOutputObservation b))"
  by (simp add: build_cmd_output_observation_def check_keys_self fld_def)

lemma build_ipython_run_cell_observation_extras [simp]:
  "build_ipython_run_cell_observation (ipo_content b) (obs_extras (IPythonRunCellObservation b)) = Inr (obs_retruncate (IPythonRunCellObservation b))"
  by (simp add: build_ipython_run_cell_observation_def check_keys_self fld_def)

lemma build_browser_output_observation_extras [simp]:
  "build_browser_output_observation (boo_content b) (obs_extras (BrowserOutputObservation b)) = Inr (obs_retruncate (BrowserOutputObservation b))"
  by (simp add: build_browser_output_observation_def check_keys_self fld_def)

lemma build_file_read_observation_extras [simp]:
  "build_file_read_observation (fro_content b) (obs_extras (FileReadObservation b)) = Inr (obs_retruncate (FileReadObservation b))"
  by (simp add: build_file_read_observation_def check_keys_self fld_def)

lemma build_file_write_observation_extras [simp]:
  "build_file_write_observation (fwo_content b) (obs_extras (FileWriteObservation b)) = Inr (obs_retruncate (FileWriteObservation b))"
  by (simp add: build_file_write_observation_def check_keys_self fld_def)

lemma build_file_edit_observation_extras [simp]:
  "build_file_edit_observation (feo_content b) (obs_extras (FileEditObservation b)) = Inr (obs_retruncate (FileEditObservation b))"
  by (simp add: build_file_edit_observation_def check_keys_self fld_def)

lemma build_error_observation_extras [simp]:
  "build_error_observation (eo_content b) (obs_extras (ErrorObservation b)) = Inr (obs_retruncate (ErrorObservation b))"
  by (simp add: build_error_observation_def check_keys_self fld_def)

lemma build_agent_state_changed_observation_extras [simp]:
  "build_agent_state_changed_observation (asco_content b) (obs_extras (AgentStateChangedObservation b)) = Inr (obs_retruncate (AgentStateChangedObservation b))"
  by (simp add: build_agent_state_changed_observation_def check_keys_self fld_def)

lemma build_agent_delegate_observation_extras [simp]:
  "build_agent_delegate_observation (ado_content b) (obs_extras (AgentDelegateObservation b)) = Inr (obs_retruncate (AgentDelegateObservation b))"
  by (simp add: build_agent_delegate_observation_def check_keys_self fld_def)

lemma build_success_observation_extras [simp]:
  "build_success_observation b (obs_extras (SuccessObservation b)) = Inr (obs_retruncate (SuccessObservation b))"
  by (simp add: build_success_observation_def check_keys_self fld_def)

lemma build_user_reject_observation_extras [simp]:
  "build_user_reject_observation b (obs_extras (UserRejectObservation b)) = Inr (obs_retruncate (UserRejectObservation b))"
  by (simp add: build_user_reject_observation_def check_keys_self fld_def)

lemma build_agent_condensation_observation_extras [simp]:
  "build_agent_condensation_observation b (obs_extras (AgentCondensationObservation b)) = Inr (obs_retruncate (AgentCondensationObservation b))"
  by (simp add: build_agent_condensation_observation_def check_keys_self fld_def)

lemma build_recall_observation_extras [simp]:
  "build_recall_observation (ro_content b) (obs_extras (RecallObservation b)) = Inr (obs_retruncate (RecallObservation b))"
  by (simp add: build_recall_observation_def check_keys_self fld_def)

lemma build_loop_detection_observation_extras [simp]:
  "build_loop_detection_observation b (obs_extras (LoopDetectionObservation b)) = Inr (obs_retruncate (LoopDetectionObservation b))"
  by (simp add: build_loop_detection_observation_def check_keys_self fld_def)

lemma build_mcp_observation_extras [simp]:
  "build_mcp_observation (mcpo_content b) (obs_extras (MCPObservation b)) = Inr (obs_retruncate (MCPObservation b))"
  by (simp add: build_mcp_observation_def check_keys_self fld_def)

lemma build_file_download_observation_extras [simp]:
  "build_file_download_observation (fdo_content b) (obs_extras (FileDownloadObservation b)) = Inr (obs_retruncate (FileDownloadObservation b))"
  by (simp add: build_file_download_observation_def check_keys_self fld_def)

lemma build_task_tracking_observation_extras [simp]:
  "build_task_tracking_observation (tto_content b) (obs_extras (TaskTrackingObservation b)) = Inr (obs_retruncate (TaskTrackingObservation b))"
  by (simp add: build_task_tracking_observation_def check_keys_self fld_def)

lemma construct_observation_extras:
  "construct_observation (obs_class b) (obs_content b) (obs_extras b) = Inr (obs_retruncate b)"
  by (cases b) (simp_all del: obs_extras.simps obs_retruncate.simps)

lemma action_type_class: "map_of ACTION_TYPE_TO_CLASS (action_type a) = Some (action_class a)"
  by (cases a) (simp_all add: ACTION_TYPE_TO_CLASS_def)

lemma obs_type_class: "map_of OBSERVATION_TYPE_TO_CLASS (obs_type b) = Some (obs_class b)"
  by (cases b) (simp_all add: OBSERVATION_TYPE_TO_CLASS_def)

end
