(* ===== verification/Messages.thy ===== *)
theory Messages
  imports Event_Codec
begin

text \<open>
  \<open>openhands/core/message.py\<close>: the messages sent to a language model and their two serializations. A
  tool call is an object of the client library with an id, the name of the function and its arguments.
\<close>

datatype role = R_user | R_system | R_assistant | R_tool

fun role_value :: "role \<Rightarrow> string" where
  "role_value R_user = ''user''"
| "role_value R_system = ''system''"
| "role_value R_assistant = ''assistant''"
| "role_value R_tool = ''tool''"

definition role_of :: "string \<Rightarrow> role option" where
  "role_of s = find (\<lambda>r. role_value r = s) [R_user, R_system, R_assistant, R_tool]"

text \<open>The flag is \<open>cache_prompt\<close>.\<close>

datatype content =
    TextContent (cache_prompt: bool) (c_text: string)
  | ImageContent (cache_prompt: bool) (c_image_urls: "string list")

record tool_call =
  tc_id :: string
  tc_name :: "string option"
  tc_arguments :: string

record message =
  msg_role :: role
  msg_content :: "content list"
  cache_enabled :: bool
  vision_enabled :: bool
  function_calling_enabled :: bool
  tool_calls :: "tool_call list option"
  msg_tool_call_id :: "string option"
  msg_name :: "string option"
  force_string_serializer :: bool

definition mk_msg :: "role \<Rightarrow> content list \<Rightarrow> message" where
  "mk_msg r cs =
     \<lparr>msg_role = r, msg_content = cs, cache_enabled = False, vision_enabled = False,
      function_calling_enabled = False, tool_calls = None, msg_tool_call_id = None, msg_name = None,
      force_string_serializer = False\<rparr>"

lemma mk_msg_simps [simp]:
  "msg_role (mk_msg r cs) = r" "msg_content (mk_msg r cs) = cs" "tool_calls (mk_msg r cs) = None"
  "msg_tool_call_id (mk_msg r cs) = None" "msg_name (mk_msg r cs) = None"
  by (simp_all add: mk_msg_def)

definition is_text :: "content \<Rightarrow> bool" where
  "is_text c \<longleftrightarrow> (case c of TextContent _ _ \<Rightarrow> True | ImageContent _ _ \<Rightarrow> False)"

definition contains_image :: "message \<Rightarrow> bool" where
  "contains_image m \<longleftrightarrow> list_ex (\<lambda>c. \<not> is_text c) (msg_content m)"

section \<open>Content items\<close>

definition ephemeral :: json where
  "ephemeral = JDict [(''type'', JStr ''ephemeral'')]"

text \<open>\<open>serialize_model\<close> of the two kinds of content: one dictionary, or one per image\<close>

definition image_dump :: "string \<Rightarrow> jdict" where
  "image_dump url = [(''type'', JStr ''image_url''), (''image_url'', JDict [(''url'', JStr url)])]"

fun content_dump :: "content \<Rightarrow> jdict list" where
  "content_dump (TextContent cache t) =
     [[(''type'', JStr ''text''), (''text'', JStr t)] @ (if cache then [(''cache_control'', ephemeral)] else [])]"
| "content_dump (ImageContent cache urls) =
     (let images = map image_dump urls
      in if cache \<and> images \<noteq> []
         then butlast images @ [last images @ [(''cache_control'', ephemeral)]] else images)"

section \<open>Messages\<close>

definition tool_call_dict :: "tool_call \<Rightarrow> json" where
  "tool_call_dict tc =
     JDict [(''id'', JStr (tc_id tc)), (''type'', JStr ''function''),
            (''function'', JDict [(''name'', case tc_name tc of None \<Rightarrow> JNull | Some n \<Rightarrow> JStr n),
                                  (''arguments'', JStr (tc_arguments tc))])]"

text \<open>\<open>_add_tool_call_keys\<close>; a tool response without a name fails the assertion\<close>

definition add_tool_call_keys :: "message \<Rightarrow> jdict \<Rightarrow> exn + jdict" where
  "add_tool_call_keys m d =
     (let d1 = (case tool_calls m of
                  None \<Rightarrow> d
                | Some tcs \<Rightarrow> alist_set ''tool_calls'' (JList (map tool_call_dict tcs)) d)
      in case msg_tool_call_id m of
           None \<Rightarrow> Inr d1
         | Some i \<Rightarrow>
             (case msg_name m of
                None \<Rightarrow> Inl (mk_exn ''AssertionError'' OtherError ''name is required when tool_call_id is not None'')
              | Some n \<Rightarrow> Inr (alist_set ''name'' (JStr n) (alist_set ''tool_call_id'' (JStr i) d1))))"

definition string_serializer :: "message \<Rightarrow> exn + jdict" where
  "string_serializer m =
     add_tool_call_keys m
       [(''content'', JStr (str_join [newline] (map c_text (filter is_text (msg_content m))))),
        (''role'', JStr (role_value (msg_role m)))]"

text \<open>The dictionaries of one item as \<open>_list_serializer\<close> uses them\<close>

definition list_item :: "message \<Rightarrow> content \<Rightarrow> jdict list" where
  "list_item m c =
     (let ds = content_dump c;
          ds' = (if msg_role m = R_tool \<and> cache_prompt c then map (alist_del ''cache_control'') ds else ds)
      in if is_text c then ds' else if vision_enabled m then ds' else [])"

definition list_serializer :: "message \<Rightarrow> exn + jdict" where
  "list_serializer m =
     (let d = [(''content'', JList (map JDict (concat (map (list_item m) (msg_content m))))),
               (''role'', JStr (role_value (msg_role m)))];
          tool_cache = list_ex (\<lambda>c. msg_role m = R_tool \<and> cache_prompt c) (msg_content m)
      in add_tool_call_keys m (if tool_cache then alist_set ''cache_control'' ephemeral d else d))"

text \<open>\<open>serialize_model\<close>\<close>

definition serialize_message :: "message \<Rightarrow> exn + jdict" where
  "serialize_message m =
     (if \<not> force_string_serializer m \<and> (cache_enabled m \<or> vision_enabled m \<or> function_calling_enabled m)
      then list_serializer m else string_serializer m)"

section \<open>Properties\<close>

lemma add_tool_call_keys_lookup:
  assumes "add_tool_call_keys m d = Inr d'" "k \<notin> {''tool_calls'', ''tool_call_id'', ''name''}"
  shows "map_of d' k = map_of d k"
  using assms by (auto simp: add_tool_call_keys_def Let_def split: option.splits)

lemma content_dump_no_control:
  "d \<in> set (map (alist_del ''cache_control'') (content_dump c)) \<Longrightarrow> map_of d ''cache_control'' = None"
  by (auto simp: map_of_alist_del)

lemma content_dump_control:
  "d \<in> set (content_dump c) \<Longrightarrow> map_of d ''cache_control'' \<noteq> None \<Longrightarrow> cache_prompt c"
  by (cases c) (auto simp: image_dump_def Let_def split: if_splits)

text \<open>The cache marks of a tool response are on the message and on none of its items.\<close>

lemma tool_cache_moved:
  assumes "msg_role m = R_tool" "list_serializer m = Inr d"
  shows "\<exists>items. map_of d ''content'' = Some (JList (map JDict items)) \<and>
    (\<forall>i \<in> set items. map_of i ''cache_control'' = None) \<and>
    (map_of d ''cache_control'' \<noteq> None \<longleftrightarrow> list_ex cache_prompt (msg_content m))"
proof -
  let ?items = "concat (map (list_item m) (msg_content m))"
  have none: "map_of i ''cache_control'' = None" if "i \<in> set ?items" for i
  proof -
    from that obtain c where c: "c \<in> set (msg_content m)" "i \<in> set (list_item m c)" by auto
    show ?thesis
      using c(2) assms(1) content_dump_no_control [of i c] content_dump_control [of i c]
      by (cases "cache_prompt c"; cases "map_of i ''cache_control''")
        (auto simp: list_item_def Let_def split: if_splits)
  qed
  have "map_of d ''content'' = Some (JList (map JDict ?items))"
    using assms by (auto simp: list_serializer_def Let_def dest!: add_tool_call_keys_lookup [where k = "''content''"])
  moreover have "map_of d ''cache_control'' \<noteq> None \<longleftrightarrow> list_ex cache_prompt (msg_content m)"
    using assms by (auto simp: list_serializer_def Let_def list_ex_iff
        split: if_splits dest!: add_tool_call_keys_lookup [where k = "''cache_control''"])
  ultimately show ?thesis using none by blast
qed

end
