(* ===== verification/Conversation_Memory.thy ===== *)
theory Conversation_Memory
  imports Messages Event_Ops
begin

text \<open>
  \<open>openhands/memory/conversation_memory.py\<close>: the view of an agent as messages for a language model. Actions
  that came from tool calls are held back until all calls of the same response have their results, then the
  response and the results are added together.

  Parameters: the templates of the prompt manager, the accessors of the response object of the client library,
  \<open>str\<close> of an event. The configuration is a record.
\<close>

record repository_info =
  ri_repo_name :: string
  ri_repo_directory :: string
  ri_branch_name :: "string option"

record runtime_info =
  rti_date :: string
  rti_available_hosts :: jdict
  rti_additional_agent_instructions :: string
  rti_custom_secrets_descriptions :: jdict
  rti_working_dir :: string

text \<open>What is read of a \<open>ModelResponse\<close>: its id and the first choice's message\<close>

record model_response =
  resp_id :: string
  resp_role :: string
  resp_content :: "string option"
  resp_tool_calls :: "tool_call list option"

record memory_env =
  enable_prompt_extensions :: bool
  disabled_microagents :: "string list"
  enable_som_visual_browsing :: bool
  pm_system_message :: string
  pm_workspace_context :: "repository_info option \<Rightarrow> runtime_info \<Rightarrow> string option \<Rightarrow> string \<Rightarrow> string"
  pm_microagent_info :: "microagent_knowledge list \<Rightarrow> string"
  response_of :: "json \<Rightarrow> exn + model_response"
  str_of :: "event \<Rightarrow> string"

section \<open>The first messages\<close>

text \<open>\<open>_ensure_system_message\<close>\<close>

definition ensure_system_message :: "memory_env \<Rightarrow> event list \<Rightarrow> event list" where
  "ensure_system_message env events =
     (if list_ex (\<lambda>e. isinstance e C_SystemMessageAction) events then events
      else if pm_system_message env \<noteq> []
      then mk_action (SystemMessageAction \<lparr>sma_content = pm_system_message env, sma_tools = None,
             sma_openhands_version = None, sma_agent_class = None\<rparr>) # events
      else events)"

text \<open>\<open>_ensure_initial_user_message\<close>\<close>

definition ensure_initial_user_message :: "event list \<Rightarrow> event \<Rightarrow> int set \<Rightarrow> event list" where
  "ensure_initial_user_message events init forgotten_ids =
     (case events of
        [] \<Rightarrow> []
      | e0 # rest \<Rightarrow>
          if ev_id init \<in> forgotten_ids then events
          else (case rest of
                  [] \<Rightarrow> [e0, init]
                | e1 # _ \<Rightarrow> if \<not> is_user_message e1 then e0 # init # rest else events))"

section \<open>Actions\<close>

fun tool_action :: "action \<Rightarrow> bool" where
  "tool_action (AgentDelegateAction _) = True"
| "tool_action (AgentThinkAction _) = True"
| "tool_action (IPythonRunCellAction _) = True"
| "tool_action (FileEditAction _) = True"
| "tool_action (FileReadAction _) = True"
| "tool_action (BrowseInteractiveAction _) = True"
| "tool_action (BrowseURLAction _) = True"
| "tool_action (MCPAction _) = True"
| "tool_action (TaskTrackingAction _) = True"
| "tool_action _ = False"

definition needs_metadata :: "event \<Rightarrow> action \<Rightarrow> bool" where
  "needs_metadata e a \<longleftrightarrow>
     tool_action a \<or> ((case a of CmdRunAction _ \<Rightarrow> True | _ \<Rightarrow> False) \<and> m_source e = Some AGENT)"

abbreviation text_msg :: "role \<Rightarrow> string \<Rightarrow> message" where
  "text_msg r t \<equiv> mk_msg r [TextContent False t]"

type_synonym pending = "(string \<times> message) list"

text \<open>The message that started the tool calls\<close>

definition response_message :: "model_response \<Rightarrow> exn + message" where
  "response_message r =
     (case role_of (resp_role r) of
        None \<Rightarrow> Inl (mk_exn ''ValidationError'' ValueError [])
      | Some ro \<Rightarrow>
          Inr ((mk_msg ro (case resp_content r of
                             None \<Rightarrow> []
                           | Some t \<Rightarrow> if str_strip t \<noteq> [] then [TextContent False t] else []))
                \<lparr>tool_calls := resp_tool_calls r\<rparr>))"

definition user_images :: "bool \<Rightarrow> string list \<Rightarrow> content list" where
  "user_images vision urls =
     concat (map (\<lambda>(i, url). (if vision then [TextContent False (''Image '' @ show_int (int i + 1) @ '':'')] else [])
                             @ [ImageContent False [url]])
       (zip [0..<length urls] urls))"

definition assertion_error :: exn where
  "assertion_error = mk_exn ''AssertionError'' OtherError []"

text \<open>
  \<open>_process_action\<close>: the messages, the event afterwards (an \<open>AgentFinishAction\<close> takes over the text of the
  response and loses its metadata) and the pending messages.
\<close>

definition process_action ::
    "memory_env \<Rightarrow> bool \<Rightarrow> event \<Rightarrow> action \<Rightarrow> pending \<Rightarrow> exn + message list \<times> event \<times> pending" where
  "process_action env vision e a pend =
     (if needs_metadata e a
      then (case m_tool_call e of
              None \<Rightarrow>
                if m_source e = Some USER
                then Inr ([text_msg R_user (''User requested to read file: '' @ str_of env e)], e, pend)
                else Inl assertion_error
            | Some md \<Rightarrow>
                sbind (response_of env (tcm_model_response md)) (\<lambda>r.
                sbind (response_message r) (\<lambda>m.
                  Inr ([], e, alist_set (resp_id r) m pend))))
      else (case a of
              AgentFinishAction f \<Rightarrow>
                let ro = (if m_source e = Some USER then R_user else R_assistant)
                in (case m_tool_call e of
                      None \<Rightarrow> Inr ([text_msg ro (afa_thought f)], e, pend)
                    | Some md \<Rightarrow>
                        sbind (response_of env (tcm_model_response md)) (\<lambda>r.
                          let c = (case resp_content r of None \<Rightarrow> [] | Some t \<Rightarrow> t);
                              th = (if afa_thought f \<noteq> []
                                    then (if afa_thought f \<noteq> c then afa_thought f @ newline # c else afa_thought f)
                                    else c)
                          in Inr ([text_msg ro th],
                                  e\<lparr>payload := Act (AgentFinishAction (f\<lparr>afa_thought := th\<rparr>)), m_tool_call := None\<rparr>,
                                  pend)))
            | MessageAction m \<Rightarrow>
                let ro = (if m_source e = Some USER then R_user else R_assistant);
                    images = (case ma_image_urls m of
                                None \<Rightarrow> []
                              | Some urls \<Rightarrow>
                                  if urls = [] then []
                                  else if ro = R_user then user_images vision urls
                                  else [ImageContent False urls])
                in Inr ([mk_msg ro (TextContent False (ma_content m) # images)], e, pend)
            | CmdRunAction c \<Rightarrow>
                if m_source e = Some USER
                then Inr ([text_msg R_user (''User executed the command:'' @ newline # cra_command c)], e, pend)
                else Inr ([], e, pend)
            | SystemMessageAction s \<Rightarrow> Inr ([text_msg R_system (sma_content s)], e, pend)
            | _ \<Rightarrow> Inr ([], e, pend)))"

section \<open>Observations\<close>

definition is_valid_image_url :: "string \<Rightarrow> bool" where
  "is_valid_image_url url \<longleftrightarrow> str_strip url \<noteq> []"

text \<open>The text of a cell with its inline images replaced\<close>

definition clean_cell_text :: "string \<Rightarrow> string" where
  "clean_cell_text t =
     str_join [newline]
       (map (\<lambda>line. if str_contains ''![image](data:image/png;base64,'' line
                    then ''![image](data:image/png;base64, ...) already displayed to user'' else line)
         (str_split newline t))"

definition ipython_message :: "int option \<Rightarrow> bool \<Rightarrow> ipython_observation \<Rightarrow> content list" where
  "ipython_message max_chars vision b =
     (let t = truncate_content (clean_cell_text (ipo_content b)) max_chars
      in case ipo_image_urls b of
           None \<Rightarrow> [TextContent False t]
         | Some urls \<Rightarrow>
             if urls = [] then [TextContent False t]
             else (let valid = filter is_valid_image_url urls;
                       invalid_count = length urls - length valid
                   in if valid \<noteq> []
                      then [TextContent False
                              (if vision \<and> invalid_count > 0
                               then t @ [newline, newline] @ ''Note: '' @ show_int (int invalid_count) @
                                    '' invalid or empty image(s) were filtered from this output. The agent may need to use alternative methods to access visual information.''
                               else t),
                            ImageContent False valid]
                      else [TextContent False
                              (if vision
                               then t @ [newline, newline] @ ''Note: All '' @ show_int (int (length urls)) @
                                    '' image(s) in this output were invalid or empty and have been filtered. The agent should use alternative methods to access visual information.''
                               else t)]))"

definition browser_message :: "memory_env \<Rightarrow> bool \<Rightarrow> browser_output_observation \<Rightarrow> content list" where
  "browser_message env vision b =
     (if boo_trigger_by_action b = ''browse_interactive'' \<and> enable_som_visual_browsing env
      then (let t = boo_content b @
                    (if vision
                     then ''Image: Current webpage screenshot (Note that only visible portion of webpage is present in the screenshot. However, the Accessibility tree contains information from the entire webpage.)'' @ [newline]
                     else []);
                (url, ty) = (if boo_set_of_marks b \<noteq> [] then (boo_set_of_marks b, ''set of marks'')
                             else if boo_screenshot b \<noteq> [] then (boo_screenshot b, ''screenshot'')
                             else ([], []))
            in if is_valid_image_url url then [TextContent False t, ImageContent False [url]]
               else if vision \<and> url \<noteq> []
               then [TextContent False (t @ [newline, newline] @ ''Note: The '' @ ty @
                       '' for this webpage was invalid or empty and has been filtered. The agent should use alternative methods to access visual information about the webpage.'')]
               else if vision
               then [TextContent False (t @ [newline, newline] @
                       ''Note: No visual information (screenshot or set of marks) is available for this webpage. The agent should rely on the text content above.'')]
               else [TextContent False t])
      else [TextContent False (boo_content b)])"

text \<open>\<open>_has_agent_in_earlier_events\<close>, \<open>_filter_agents_in_microagent_obs\<close>\<close>

definition has_agent_in_earlier_events :: "string \<Rightarrow> nat \<Rightarrow> event list \<Rightarrow> bool" where
  "has_agent_in_earlier_events name i events =
     list_ex (\<lambda>e. case payload e of
                    Obs (RecallObservation b) \<Rightarrow> list_ex (\<lambda>k. mk_name k = name) (ro_microagent_knowledge b)
                  | _ \<Rightarrow> False)
       (take i events)"

definition filter_agents_in_microagent_obs ::
    "recall_observation \<Rightarrow> nat \<Rightarrow> event list \<Rightarrow> microagent_knowledge list" where
  "filter_agents_in_microagent_obs b i events =
     (if ro_recall_type b \<noteq> KNOWLEDGE then ro_microagent_knowledge b
      else filter (\<lambda>k. \<not> has_agent_in_earlier_events (mk_name k) i events) (ro_microagent_knowledge b))"

definition enabled_agents :: "memory_env \<Rightarrow> microagent_knowledge list \<Rightarrow> microagent_knowledge list" where
  "enabled_agents env ks = filter (\<lambda>k. mk_name k \<notin> set (disabled_microagents env)) ks"

text \<open>The content of a workspace recall; empty when there is nothing to say\<close>

definition workspace_message :: "memory_env \<Rightarrow> recall_observation \<Rightarrow> content list" where
  "workspace_message env b =
     (let repo = (if ro_repo_name b \<noteq> [] \<or> ro_repo_directory b \<noteq> []
                  then Some \<lparr>ri_repo_name = ro_repo_name b, ri_repo_directory = ro_repo_directory b,
                             ri_branch_name = (if ro_repo_branch b = [] then None else Some (ro_repo_branch b))\<rparr>
                  else None);
          runtime = \<lparr>rti_date = ro_date b, rti_available_hosts = ro_runtime_hosts b,
                     rti_additional_agent_instructions = ro_additional_agent_instructions b,
                     rti_custom_secrets_descriptions = ro_custom_secrets_descriptions b,
                     rti_working_dir = ro_working_dir b\<rparr>;
          instr = (if ro_conversation_instructions b = [] then None else Some (ro_conversation_instructions b));
          has_repo_info = (case repo of None \<Rightarrow> False | Some r \<Rightarrow> ri_repo_name r \<noteq> [] \<or> ri_repo_directory r \<noteq> []);
          has_runtime_info = (rti_date runtime \<noteq> [] \<or> rti_custom_secrets_descriptions runtime \<noteq> []);
          has_repo_instructions = (str_strip (ro_repo_instructions b) \<noteq> []);
          agents = enabled_agents env (ro_microagent_knowledge b)
      in (if has_repo_info \<or> has_runtime_info \<or> has_repo_instructions \<or> instr \<noteq> None
          then [TextContent False (pm_workspace_context env repo runtime instr (ro_repo_instructions b))] else [])
         @ (if agents \<noteq> [] then [TextContent False (pm_microagent_info env agents)] else []))"

text \<open>
  What an observation becomes: nothing, a message that is added as it is, or a message that is the result of
  a tool call when the observation has the metadata of one.
\<close>

datatype obs_result = NoMessage | DirectMessage "content list" | ResultMessage "content list"

abbreviation result_text :: "string \<Rightarrow> exn + obs_result" where
  "result_text t \<equiv> Inr (ResultMessage [TextContent False t])"

definition observation_result ::
    "memory_env \<Rightarrow> int option \<Rightarrow> bool \<Rightarrow> nat \<Rightarrow> event list \<Rightarrow> event \<Rightarrow> observation \<Rightarrow> exn + obs_result" where
  "observation_result env max_chars vision i events e ob =
     (case ob of
        CmdOutputObservation b \<Rightarrow>
          (case m_tool_call e of
             None \<Rightarrow> result_text (truncate_content
                       (newline # ''Observed result of command executed by user:'' @ newline # to_agent_observation b)
                       max_chars)
           | Some _ \<Rightarrow> result_text (truncate_content (to_agent_observation b) max_chars))
      | MCPObservation b \<Rightarrow> result_text (truncate_content (mcpo_content b) max_chars)
      | IPythonRunCellObservation b \<Rightarrow> Inr (ResultMessage (ipython_message max_chars vision b))
      | FileEditObservation b \<Rightarrow> result_text (truncate_content (str_of env e) max_chars)
      | FileReadObservation b \<Rightarrow> result_text (fro_content b)
      | BrowserOutputObservation b \<Rightarrow> Inr (ResultMessage (browser_message env vision b))
      | AgentDelegateObservation b \<Rightarrow>
          (case map_of (ado_outputs b) ''content'' of
             None \<Rightarrow> result_text (truncate_content (ado_content b) max_chars)
           | Some (JStr t) \<Rightarrow> result_text (truncate_content t max_chars)
           | Some _ \<Rightarrow> Inl (mk_exn ''TypeError'' OtherError []))
      | AgentThinkObservation t \<Rightarrow> result_text (truncate_content t max_chars)
      | TaskTrackingObservation b \<Rightarrow> result_text (truncate_content (tto_content b) max_chars)
      | ErrorObservation b \<Rightarrow>
          result_text (truncate_content (eo_content b) max_chars @ newline # ''[Error occurred in processing last action]'')
      | UserRejectObservation t \<Rightarrow>
          result_text (''OBSERVATION:'' @ newline # truncate_content t max_chars @
                       newline # ''[Last action has been rejected by the user]'')
      | AgentCondensationObservation t \<Rightarrow> result_text (truncate_content t max_chars)
      | FileDownloadObservation b \<Rightarrow> result_text (truncate_content (fdo_content b) max_chars)
      | LoopDetectionObservation _ \<Rightarrow> Inr NoMessage
      | RecallObservation b \<Rightarrow>
          if \<not> enable_prompt_extensions env then Inr NoMessage
          else if ro_recall_type b = WORKSPACE_CONTEXT
          then (let cs = workspace_message env b in Inr (if cs = [] then NoMessage else ResultMessage cs))
          else (let ks = enabled_agents env (filter_agents_in_microagent_obs b i events)
                in Inr (if ks = [] then NoMessage else DirectMessage [TextContent False (pm_microagent_info env ks)]))
      | _ \<Rightarrow> Inl (mk_exn ''ValueError'' ValueError ''Unknown observation type''))"

text \<open>\<open>_process_observation\<close>: the messages and the results by tool call\<close>

definition process_observation ::
    "memory_env \<Rightarrow> int option \<Rightarrow> bool \<Rightarrow> nat \<Rightarrow> event list \<Rightarrow> event \<Rightarrow> observation \<Rightarrow> pending \<Rightarrow>
     exn + message list \<times> pending" where
  "process_observation env max_chars vision i events e ob results =
     sbind (observation_result env max_chars vision i events e ob) (\<lambda>r.
       case r of
         NoMessage \<Rightarrow> Inr ([], results)
       | DirectMessage cs \<Rightarrow> Inr ([mk_msg R_user cs], results)
       | ResultMessage cs \<Rightarrow>
           (case m_tool_call e of
              None \<Rightarrow> Inr ([mk_msg R_user cs], results)
            | Some md \<Rightarrow>
                Inr ([], alist_set (tcm_tool_call_id md)
                  ((mk_msg R_tool cs)\<lparr>msg_tool_call_id := Some (tcm_tool_call_id md),
                                      msg_name := Some (tcm_function_name md)\<rparr>) results)))"

section \<open>Completed responses\<close>

text \<open>The results of the calls of one response, taken out of the dictionary one after the other\<close>

fun take_results :: "tool_call list \<Rightarrow> pending \<Rightarrow> exn + message list \<times> pending" where
  "take_results [] results = Inr ([], results)"
| "take_results (tc # tcs) results =
     (case map_of results (tc_id tc) of
        None \<Rightarrow> Inl (mk_exn ''KeyError'' OtherError (tc_id tc))
      | Some m \<Rightarrow>
          sbind (take_results tcs (alist_del (tc_id tc) results)) (\<lambda>(ms, rs). Inr (m # ms, rs)))"

text \<open>The messages added, the responses that are complete, and the results left\<close>

fun complete_responses :: "pending \<Rightarrow> pending \<Rightarrow> exn + message list \<times> string list \<times> pending" where
  "complete_responses [] results = Inr ([], [], results)"
| "complete_responses ((rid, m) # pend) results =
     (case tool_calls m of
        None \<Rightarrow> Inl assertion_error
      | Some tcs \<Rightarrow>
          if list_all (\<lambda>tc. map_of results (tc_id tc) \<noteq> None) tcs
          then sbind (take_results tcs results) (\<lambda>(ms, rs).
               sbind (complete_responses pend rs) (\<lambda>(ms', ids, rs'). Inr (m # ms @ ms', rid # ids, rs')))
          else complete_responses pend results)"

text \<open>One event: the messages, the event afterwards, and the two dictionaries\<close>

definition process_event ::
    "memory_env \<Rightarrow> int option \<Rightarrow> bool \<Rightarrow> event list \<Rightarrow> nat \<Rightarrow> event \<Rightarrow> pending \<Rightarrow> pending \<Rightarrow>
     exn + message list \<times> event \<times> pending \<times> pending" where
  "process_event env max_chars vision events i e pend results =
     (case payload e of
        Act a \<Rightarrow> map_sum (\<lambda>x. x) (\<lambda>(ms, e', p). (ms, e', p, results)) (process_action env vision e a pend)
      | Obs ob \<Rightarrow> map_sum (\<lambda>x. x) (\<lambda>(ms, rs). (ms, e, pend, rs))
                   (process_observation env max_chars vision i events e ob results))"

text \<open>The loop over the events; the first component of the result are the messages.\<close>

fun process_loop ::
    "memory_env \<Rightarrow> int option \<Rightarrow> bool \<Rightarrow> event list \<Rightarrow> nat \<Rightarrow> event list \<Rightarrow> pending \<Rightarrow> pending \<Rightarrow>
     exn + message list \<times> event list" where
  "process_loop env max_chars vision events i [] pend results = Inr ([], [])"
| "process_loop env max_chars vision events i (e # es) pend results =
     sbind (process_event env max_chars vision events i e pend results) (\<lambda>(ms, e', p, rs).
     sbind (complete_responses p rs) (\<lambda>(ms', ids, rs').
     sbind (process_loop env max_chars vision events (Suc i) es (filter (\<lambda>(rid, _). rid \<notin> set ids) p) rs')
       (\<lambda>(out, es'). Inr (ms @ ms' @ out, e' # es'))))"

section \<open>Final passes\<close>

text \<open>\<open>_filter_unmatched_tool_calls\<close>\<close>

definition call_ids :: "message list \<Rightarrow> string set" where
  "call_ids ms =
     set (concat (map (\<lambda>m. case tool_calls m of
                             None \<Rightarrow> []
                           | Some tcs \<Rightarrow> if msg_role m = R_assistant then filter (\<lambda>i. i \<noteq> []) (map tc_id tcs) else []) ms))"

definition response_ids :: "message list \<Rightarrow> string set" where
  "response_ids ms =
     set (concat (map (\<lambda>m. case msg_tool_call_id m of
                             None \<Rightarrow> []
                           | Some i \<Rightarrow> if msg_role m = R_tool \<and> i \<noteq> [] then [i] else []) ms))"

definition keep_matched :: "string set \<Rightarrow> string set \<Rightarrow> message \<Rightarrow> message list" where
  "keep_matched calls responses m =
     (if msg_role m = R_tool \<and> msg_tool_call_id m \<noteq> None \<and> msg_tool_call_id m \<noteq> Some []
      then (if the (msg_tool_call_id m) \<in> calls then [m] else [])
      else if msg_role m = R_assistant \<and> tool_calls m \<noteq> None \<and> tool_calls m \<noteq> Some []
      then (let tcs = the (tool_calls m)
            in if list_all (\<lambda>tc. tc_id tc \<in> responses) tcs then [m]
               else (let matched = filter (\<lambda>tc. tc_id tc \<in> responses) tcs
                     in if matched \<noteq> [] then [m\<lparr>tool_calls := Some matched\<rparr>] else []))
      else [m])"

definition filter_unmatched_tool_calls :: "message list \<Rightarrow> message list" where
  "filter_unmatched_tool_calls ms = concat (map (keep_matched (call_ids ms) (response_ids ms)) ms)"

text \<open>\<open>_apply_user_message_formatting\<close>\<close>

fun separate_text :: "content list \<Rightarrow> content list" where
  "separate_text [] = []"
| "separate_text (TextContent b t # cs) = TextContent b ([newline, newline] @ t) # cs"
| "separate_text (c # cs) = c # separate_text cs"

fun user_formatting :: "role option \<Rightarrow> message list \<Rightarrow> message list" where
  "user_formatting prev [] = []"
| "user_formatting prev (m # ms) =
     (if msg_role m = R_user \<and> prev = Some R_user \<and> msg_content m \<noteq> []
      then m\<lparr>msg_content := separate_text (msg_content m)\<rparr> else m) # user_formatting (Some (msg_role m)) ms"

text \<open>\<open>process_events\<close>: the messages and the list of events, which is changed in place\<close>

definition process_events ::
    "memory_env \<Rightarrow> event list \<Rightarrow> event \<Rightarrow> int set \<Rightarrow> int option \<Rightarrow> bool \<Rightarrow> exn + message list \<times> event list" where
  "process_events env history init forgotten_ids max_chars vision =
     (let events = ensure_initial_user_message (ensure_system_message env history) init forgotten_ids
      in map_sum (\<lambda>x. x) (\<lambda>(ms, es). (user_formatting None (filter_unmatched_tool_calls ms), es))
           (process_loop env max_chars vision events 0 events [] []))"

text \<open>\<open>apply_prompt_caching\<close>; a message without content raises\<close>

definition mark_last :: "message \<Rightarrow> exn + message" where
  "mark_last m =
     (if msg_content m = [] then Inl (mk_exn ''IndexError'' OtherError ''list index out of range'')
      else Inr (m\<lparr>msg_content := butlast (msg_content m) @
        [(case last (msg_content m) of
            TextContent _ t \<Rightarrow> TextContent True t | ImageContent _ us \<Rightarrow> ImageContent True us)]\<rparr>))"

fun mark_first :: "(message \<Rightarrow> bool) \<Rightarrow> message list \<Rightarrow> exn + message list" where
  "mark_first P [] = Inr []"
| "mark_first P (m # ms) =
     (if P m then map_sum (\<lambda>x. x) (\<lambda>m'. m' # ms) (mark_last m)
      else map_sum (\<lambda>x. x) ((#) m) (mark_first P ms))"

definition apply_prompt_caching :: "message list \<Rightarrow> exn + message list" where
  "apply_prompt_caching ms =
     sbind (case ms of
              m # rest \<Rightarrow> if msg_role m = R_system then map_sum (\<lambda>x. x) (\<lambda>m'. m' # rest) (mark_last m) else Inr ms
            | [] \<Rightarrow> Inr [])
       (\<lambda>ms'. map_sum (\<lambda>x. x) rev (mark_first (\<lambda>m. msg_role m = R_user \<or> msg_role m = R_tool) (rev ms')))"

end
