(* ===== verification/Conversation_Properties.thy ===== *)
theory Conversation_Properties
  imports Conversation_Memory
begin

text \<open>
  The messages of the conversation memory obey the protocol of tool calls: the results of the calls of a
  message follow it at once, in the order of the calls, and no result stands anywhere else.
\<close>

section \<open>The protocol\<close>

definition calls_of :: "message \<Rightarrow> string list" where
  "calls_of m = (case tool_calls m of None \<Rightarrow> [] | Some tcs \<Rightarrow> map tc_id tcs)"

text \<open>An acceptor for the protocol; its state is the list of calls that are to be answered next.\<close>

fun answered :: "string list \<Rightarrow> message list \<Rightarrow> bool" where
  "answered ids [] \<longleftrightarrow> ids = []"
| "answered [] (m # ms) \<longleftrightarrow>
     msg_role m \<noteq> R_tool \<and> (tool_calls m \<noteq> None \<longrightarrow> msg_role m = R_assistant) \<and> answered (calls_of m) ms"
| "answered (i # ids) (m # ms) \<longleftrightarrow>
     msg_role m = R_tool \<and> msg_tool_call_id m = Some i \<and> tool_calls m = None \<and> answered ids ms"

lemma answered_append: "answered ids ms \<Longrightarrow> answered [] ms' \<Longrightarrow> answered ids (ms @ ms')"
  by (induction ids ms rule: answered.induct) auto

lemma calls_of_None [simp]: "tool_calls m = None \<Longrightarrow> calls_of m = []"
  by (simp add: calls_of_def)

lemma calls_of_Some [simp]: "tool_calls m = Some tcs \<Longrightarrow> calls_of m = map tc_id tcs"
  by (simp add: calls_of_def)

section \<open>The passes over the messages\<close>

lemma call_ids_simps [simp]:
  "call_ids [] = {}"
  "call_ids (m # ms) = (if msg_role m = R_assistant then set (calls_of m) - {[]} else {}) \<union> call_ids ms"
  by (auto simp: call_ids_def calls_of_def split: option.splits if_splits)

lemma response_ids_simps [simp]:
  "response_ids [] = {}"
  "response_ids (m # ms) =
     (if msg_role m = R_tool then set_option (msg_tool_call_id m) - {[]} else {}) \<union> response_ids ms"
  by (auto simp: response_ids_def split: option.splits if_splits)

lemma call_ids_append [simp]: "call_ids (ms @ ms') = call_ids ms \<union> call_ids ms'"
  by (induction ms) auto

lemma response_ids_append [simp]: "response_ids (ms @ ms') = response_ids ms \<union> response_ids ms'"
  by (induction ms) auto

lemma answered_ids:
  assumes "answered ids ms"
  shows "response_ids ms = set ids - {[]} \<union> call_ids ms"
  using assms by (induction ids ms rule: answered.induct) (auto simp: calls_of_def split: option.splits)

lemma keep_matched_same:
  assumes "msg_role m = R_tool \<Longrightarrow> set_option (msg_tool_call_id m) - {[]} \<subseteq> calls"
    and "msg_role m = R_assistant \<Longrightarrow> set (calls_of m) \<subseteq> responses"
  shows "keep_matched calls responses m = [m]"
  using assms by (cases "msg_role m"; cases "msg_tool_call_id m"; cases "tool_calls m")
    (auto simp: keep_matched_def list_all_iff)

lemma concat_map_same: "(\<And>x. x \<in> set xs \<Longrightarrow> f x = [x]) \<Longrightarrow> concat (map f xs) = xs"
  by (induction xs) auto

lemma response_ids_mem:
  "m \<in> set ms \<Longrightarrow> msg_role m = R_tool \<Longrightarrow> set_option (msg_tool_call_id m) - {[]} \<subseteq> response_ids ms"
  by (induction ms) auto

lemma call_ids_mem:
  "m \<in> set ms \<Longrightarrow> msg_role m = R_assistant \<Longrightarrow> set (calls_of m) - {[]} \<subseteq> call_ids ms"
  by (induction ms) auto

lemma filter_answered:
  assumes "answered [] ms" "\<And>m. m \<in> set ms \<Longrightarrow> [] \<notin> set (calls_of m)"
  shows "filter_unmatched_tool_calls ms = ms"
  unfolding filter_unmatched_tool_calls_def
proof (rule concat_map_same, rule keep_matched_same)
  fix m assume m: "m \<in> set ms"
  have eq: "response_ids ms = call_ids ms" using answered_ids [OF assms(1)] by simp
  show "set_option (msg_tool_call_id m) - {[]} \<subseteq> call_ids ms" if "msg_role m = R_tool"
    using response_ids_mem [OF m that] eq by simp
  show "set (calls_of m) \<subseteq> response_ids ms" if "msg_role m = R_assistant"
    using call_ids_mem [OF m that] assms(2) [OF m] eq by auto
qed

lemma answered_formatting: "answered ids ms \<Longrightarrow> answered ids (user_formatting prev ms)"
  by (induction ids ms arbitrary: prev rule: answered.induct) (auto simp: calls_of_def split: option.splits)

section \<open>The loop\<close>

text \<open>What the pending messages and the collected results are\<close>

definition pending_ok :: "pending \<Rightarrow> bool" where
  "pending_ok p \<longleftrightarrow> (\<forall>m \<in> snd ` set p. msg_role m = R_assistant \<and> [] \<notin> set (calls_of m))"

definition results_ok :: "pending \<Rightarrow> bool" where
  "results_ok rs \<longleftrightarrow>
     (\<forall>(i, m) \<in> set rs. msg_role m = R_tool \<and> msg_tool_call_id m = Some i \<and> tool_calls m = None)"

lemma set_alist_set: "set (alist_set k v d) \<subseteq> insert (k, v) (set d)"
  by (induction d) (auto split: if_splits)

lemma set_alist_del: "set (alist_del k d) \<subseteq> set d"
  by (auto simp: alist_del_def)

lemma pending_ok_set:
  "pending_ok p \<Longrightarrow> msg_role m = R_assistant \<Longrightarrow> [] \<notin> set (calls_of m) \<Longrightarrow> pending_ok (alist_set k m p)"
  using set_alist_set [of k m p] by (fastforce simp: pending_ok_def)

lemma pending_ok_filter: "pending_ok p \<Longrightarrow> pending_ok (filter P p)"
  by (auto simp: pending_ok_def)

lemma results_ok_set:
  "results_ok rs \<Longrightarrow> msg_role m = R_tool \<Longrightarrow> msg_tool_call_id m = Some i \<Longrightarrow> tool_calls m = None \<Longrightarrow>
   results_ok (alist_set i m rs)"
  using set_alist_set [of i m rs] by (fastforce simp: results_ok_def)

lemma results_ok_del: "results_ok rs \<Longrightarrow> results_ok (alist_del i rs)"
  using set_alist_del [of i rs] by (fastforce simp: results_ok_def)

lemma take_results_answered:
  assumes "take_results tcs rs = Inr (ms, rs')" "results_ok rs"
  shows "answered (map tc_id tcs) ms \<and> (\<forall>m \<in> set ms. tool_calls m = None) \<and> results_ok rs'"
  using assms
proof (induction tcs arbitrary: rs ms)
  case (Cons tc tcs)
  from Cons.prems(1) obtain m ms1 where
    m: "map_of rs (tc_id tc) = Some m" "ms = m # ms1" "take_results tcs (alist_del (tc_id tc) rs) = Inr (ms1, rs')"
    by (auto simp: sbind_Inr_iff split: option.splits)
  have "msg_role m = R_tool \<and> msg_tool_call_id m = Some (tc_id tc) \<and> tool_calls m = None"
    using map_of_SomeD [OF m(1)] Cons.prems(2) by (auto simp: results_ok_def)
  then show ?case using Cons.IH [OF m(3) results_ok_del [OF Cons.prems(2)]] m(2) by simp
qed simp

text \<open>A list of messages that may be added anywhere between two groups\<close>

definition group_ok :: "message list \<Rightarrow> bool" where
  "group_ok ms \<longleftrightarrow> answered [] ms \<and> (\<forall>m \<in> set ms. [] \<notin> set (calls_of m))"

lemma group_ok_append: "group_ok ms \<Longrightarrow> group_ok ms' \<Longrightarrow> group_ok (ms @ ms')"
  by (auto simp: group_ok_def answered_append)

lemma group_ok_Nil [simp]: "group_ok []"
  by (simp add: group_ok_def)

lemma group_ok_single [simp]: "group_ok [mk_msg r cs] \<longleftrightarrow> r \<noteq> R_tool"
  by (simp add: group_ok_def)

lemma complete_responses_ok:
  assumes "complete_responses p rs = Inr (ms, ids, rs')" "pending_ok p" "results_ok rs"
  shows "group_ok ms \<and> results_ok rs'"
  using assms
proof (induction p rs arbitrary: ms ids rule: complete_responses.induct)
  case (2 rid m pend results)
  have m: "msg_role m = R_assistant" "[] \<notin> set (calls_of m)" and p: "pending_ok pend"
    using "2.prems"(2) by (auto simp: pending_ok_def)
  from "2.prems"(1) obtain tcs where tcs: "tool_calls m = Some tcs" by (cases "tool_calls m") auto
  show ?case
  proof (cases "list_all (\<lambda>tc. map_of results (tc_id tc) \<noteq> None) tcs")
    case False
    then show ?thesis using "2.IH"(2) [OF tcs False] "2.prems" tcs p by simp
  next
    case True
    then obtain ms1 rs1 ms2 ids2 where
      t: "take_results tcs results = Inr (ms1, rs1)" and
      c: "complete_responses pend rs1 = Inr (ms2, ids2, rs')" and ms: "ms = (m # ms1) @ ms2"
      using "2.prems"(1) tcs by (auto simp: sbind_Inr_iff)
    have r: "answered (map tc_id tcs) ms1" "\<forall>x \<in> set ms1. tool_calls x = None" "results_ok rs1"
      using take_results_answered [OF t "2.prems"(3)] by auto
    have "group_ok (m # ms1)" using r m tcs by (auto simp: group_ok_def)
    moreover have "group_ok ms2 \<and> results_ok rs'"
      using "2.IH"(1) [OF tcs True c p r(3)] by simp
    ultimately show ?thesis using ms group_ok_append by blast
  qed
qed simp

text \<open>
  What the client library promises of a response: it is the assistant's, and every call has an id.
\<close>

definition responses_ok :: "memory_env \<Rightarrow> bool" where
  "responses_ok env \<longleftrightarrow>
     (\<forall>j r. response_of env j = Inr r \<longrightarrow>
        resp_role r = ''assistant'' \<and> (\<forall>tcs. resp_tool_calls r = Some tcs \<longrightarrow> (\<forall>tc \<in> set tcs. tc_id tc \<noteq> [])))"

lemma response_message_ok:
  assumes "responses_ok env" "response_of env j = Inr r" "response_message r = Inr m"
  shows "msg_role m = R_assistant \<and> [] \<notin> set (calls_of m)"
proof -
  have r: "resp_role r = ''assistant''" "\<And>tcs. resp_tool_calls r = Some tcs \<Longrightarrow> \<forall>tc \<in> set tcs. tc_id tc \<noteq> []"
    using assms(1, 2) by (auto simp: responses_ok_def)
  then have "msg_role m = R_assistant" "tool_calls m = resp_tool_calls r"
    using assms(3) by (auto simp: response_message_def role_of_def)
  then show ?thesis using r(2) by (cases "resp_tool_calls r") (auto simp: calls_of_def)
qed

lemma process_action_ok:
  assumes "responses_ok env" "process_action env vision e a p = Inr (ms, e', p')" "pending_ok p"
  shows "group_ok ms \<and> pending_ok p'"
proof (cases "needs_metadata e a")
  case True
  then show ?thesis using assms(2, 3)
    by (auto simp: process_action_def sbind_Inr_iff dest: response_message_ok [OF assms(1)]
        intro!: pending_ok_set split: if_splits option.splits)
next
  case False
  have "p' = p \<and> group_ok ms"
    using assms(2) unfolding process_action_def if_not_P [OF False]
    by (cases a; cases "m_source e = Some USER"; cases "m_tool_call e")
      (auto simp: Let_def sbind_Inr_iff)
  then show ?thesis using assms(3) by simp
qed

lemma process_observation_ok:
  assumes "process_observation env mc vision i events e ob rs = Inr (ms, rs')" "results_ok rs"
  shows "group_ok ms \<and> results_ok rs'"
proof -
  obtain r where "observation_result env mc vision i events e ob = Inr r"
    using assms(1) by (auto simp: process_observation_def sbind_Inr_iff)
  then show ?thesis using assms
    by (cases r) (auto simp: process_observation_def intro!: results_ok_set split: option.splits)
qed

lemma process_event_ok:
  assumes "responses_ok env" "process_event env mc vision events i e p rs = Inr (ms, e', p', rs')"
    "pending_ok p" "results_ok rs"
  shows "group_ok ms \<and> pending_ok p' \<and> results_ok rs'"
proof (cases "payload e")
  case (Act a)
  then show ?thesis using assms(2-4) process_action_ok [OF assms(1)]
    by (cases "process_action env vision e a p") (auto simp: process_event_def)
next
  case (Obs ob)
  then show ?thesis using assms(2-4) process_observation_ok
    by (cases "process_observation env mc vision i events e ob rs") (auto simp: process_event_def)
qed

lemma process_loop_ok:
  assumes "responses_ok env" "process_loop env mc vision events i es p rs = Inr (ms, es')"
    "pending_ok p" "results_ok rs"
  shows "group_ok ms"
  using assms(2-4)
proof (induction es arbitrary: i p rs ms es')
  case (Cons e es)
  from Cons.prems(1) obtain ms0 e0 p0 rs0 ms1 ids rs1 out es1 where
    step: "process_event env mc vision events i e p rs = Inr (ms0, e0, p0, rs0)" and
    c: "complete_responses p0 rs0 = Inr (ms1, ids, rs1)" and
    l: "process_loop env mc vision events (Suc i) es (filter (\<lambda>(rid, _). rid \<notin> set ids) p0) rs1 = Inr (out, es1)" and
    ms: "ms = ms0 @ ms1 @ out"
    by (auto simp: sbind_Inr_iff)
  have 0: "group_ok ms0 \<and> pending_ok p0 \<and> results_ok rs0"
    using process_event_ok [OF assms(1) step Cons.prems(2, 3)] .
  then have 1: "group_ok ms1 \<and> results_ok rs1" using complete_responses_ok [OF c] by blast
  have "group_ok out" using Cons.IH [OF l pending_ok_filter] 0 1 by blast
  then show ?case using 0 1 ms group_ok_append by blast
qed simp

lemma process_events_loop:
  assumes "process_events env history init forgotten_ids mc vision = Inr (ms, es)"
  defines "events \<equiv> ensure_initial_user_message (ensure_system_message env history) init forgotten_ids"
  obtains ms0 where "process_loop env mc vision events 0 events [] [] = Inr (ms0, es)"
    "ms = user_formatting None (filter_unmatched_tool_calls ms0)"
  using assms by (cases "process_loop env mc vision events 0 events [] []") (auto simp: process_events_def Let_def)

section \<open>Unmatched calls\<close>

text \<open>A message that is neither a call nor a result\<close>

definition no_tool_msg :: "message \<Rightarrow> bool" where
  "no_tool_msg m \<longleftrightarrow>
     \<not> (msg_role m = R_tool \<and> set_option (msg_tool_call_id m) - {[]} \<noteq> {}) \<and>
     \<not> (msg_role m = R_assistant \<and> calls_of m \<noteq> [])"

lemma keep_matched_calls: "call_ids (keep_matched calls rs m) = call_ids [m] \<inter> (rs \<union> {[]}) - {[]}"
  by (cases "msg_role m"; cases "msg_tool_call_id m"; cases "tool_calls m")
    (auto simp: keep_matched_def Let_def filter_empty_conv list_all_iff)

lemma keep_matched_responses: "response_ids (keep_matched calls rs m) = response_ids [m] \<inter> calls"
  by (cases "msg_role m"; cases "msg_tool_call_id m"; cases "tool_calls m")
    (auto simp: keep_matched_def Let_def)

lemma keep_matched_assistant:
  assumes "m' \<in> set (keep_matched calls rs m)" "msg_role m' = R_assistant"
  shows "set (calls_of m') \<subseteq> rs"
  using assms by (cases "msg_role m"; cases "msg_tool_call_id m"; cases "tool_calls m")
    (auto simp: keep_matched_def Let_def list_all_iff split: if_splits)

lemma keep_matched_plain:
  "filter no_tool_msg (keep_matched calls rs m) = filter no_tool_msg [m]"
  by (cases "msg_role m"; cases "msg_tool_call_id m"; cases "tool_calls m")
    (auto simp: keep_matched_def no_tool_msg_def Let_def filter_empty_conv)

lemma call_ids_concat: "call_ids (concat mss) = (\<Union>ms \<in> set mss. call_ids ms)"
  by (induction mss) auto

lemma response_ids_concat: "response_ids (concat mss) = (\<Union>ms \<in> set mss. response_ids ms)"
  by (induction mss) auto

lemma call_ids_Union: "call_ids ms = (\<Union>m \<in> set ms. call_ids [m])"
  using call_ids_concat [of "map (\<lambda>m. [m]) ms"] by (simp add: concat_map_same)

lemma response_ids_Union: "response_ids ms = (\<Union>m \<in> set ms. response_ids [m])"
  using response_ids_concat [of "map (\<lambda>m. [m]) ms"] by (simp add: concat_map_same)

lemma no_empty_id: "[] \<notin> call_ids ms" "[] \<notin> response_ids ms"
  by (induction ms) auto

lemma filter_call_ids: "call_ids (filter_unmatched_tool_calls ms) = call_ids ms \<inter> response_ids ms"
  unfolding filter_unmatched_tool_calls_def call_ids_concat
  by (simp add: keep_matched_calls call_ids_Union [of ms] no_empty_id)

lemma filter_response_ids: "response_ids (filter_unmatched_tool_calls ms) = call_ids ms \<inter> response_ids ms"
  unfolding filter_unmatched_tool_calls_def response_ids_concat
  by (simp add: keep_matched_responses response_ids_Union [of ms] Int_commute)

lemma filter_idem:
  "filter_unmatched_tool_calls (filter_unmatched_tool_calls ms) = filter_unmatched_tool_calls ms"
  (is "filter_unmatched_tool_calls ?out = _")
  unfolding filter_unmatched_tool_calls_def [of ?out]
proof (rule concat_map_same, rule keep_matched_same)
  fix m assume m: "m \<in> set ?out"
  show "set_option (msg_tool_call_id m) - {[]} \<subseteq> call_ids ?out" if "msg_role m = R_tool"
    using response_ids_mem [OF m that] by (simp add: filter_call_ids filter_response_ids)
  show "set (calls_of m) \<subseteq> response_ids ?out" if "msg_role m = R_assistant"
  proof -
    have "set (calls_of m) \<subseteq> response_ids ms"
      using m keep_matched_assistant [OF _ that] by (fastforce simp: filter_unmatched_tool_calls_def)
    then show ?thesis
      using call_ids_mem [OF m that] no_empty_id(2) [of ms] by (auto simp: filter_call_ids filter_response_ids)
  qed
qed

lemma filter_plain: "filter no_tool_msg (filter_unmatched_tool_calls ms) = filter no_tool_msg ms"
proof -
  have "filter no_tool_msg (concat (map (keep_matched calls rs) ms)) = filter no_tool_msg ms" for calls rs
    by (induction ms) (simp_all add: keep_matched_plain)
  then show ?thesis by (simp add: filter_unmatched_tool_calls_def)
qed

section \<open>The first messages\<close>

definition starts_with_system :: "memory_env \<Rightarrow> event list \<Rightarrow> bool" where
  "starts_with_system env history \<longleftrightarrow>
     (if list_ex (\<lambda>e. isinstance e C_SystemMessageAction) history
      then isinstance (hd history) C_SystemMessageAction else pm_system_message env \<noteq> [])"

lemma ensured_events:
  assumes "starts_with_system env history" "is_user_message init" "ev_id init \<notin> forgotten_ids"
  obtains e0 e1 rest where
    "ensure_initial_user_message (ensure_system_message env history) init forgotten_ids = e0 # e1 # rest"
    "isinstance e0 C_SystemMessageAction" "is_user_message e1"
proof -
  obtain e0 rest where e: "ensure_system_message env history = e0 # rest" "isinstance e0 C_SystemMessageAction"
    using assms(1)
    by (cases history)
      (auto simp: starts_with_system_def ensure_system_message_def isinstance_def split: if_splits)
  show thesis
    using that e assms(2, 3)
    by (cases rest; cases "is_user_message (hd rest)") (auto simp: ensure_initial_user_message_def)
qed

lemma user_formatting_roles: "map msg_role (user_formatting prev ms) = map msg_role ms"
  by (induction ms arbitrary: prev) auto

lemma system_message_payload:
  assumes "isinstance e C_SystemMessageAction"
  obtains s where "payload e = Act (SystemMessageAction s)"
proof -
  have "payload_class (payload e) = C_SystemMessageAction" using assms by (simp add: isinstance_def)
  then show thesis using that by (cases "payload e") (auto elim: action_class.elims obs_class.elims)
qed

lemma user_message_payload:
  assumes "is_user_message e"
  obtains m where "payload e = Act (MessageAction m)" "m_source e = Some USER"
  using assms by (auto simp: is_message_from_def split: payload.splits action.splits)

lemma process_loop_plain:
  assumes "process_loop env mc vision events i (e # es) [] [] = Inr (ms, es')"
    "isinstance e C_SystemMessageAction \<or> is_user_message e"
  obtains m ms' es'' where "ms = m # ms'" "process_loop env mc vision events (Suc i) es [] [] = Inr (ms', es'')"
    "msg_role m = (if is_user_message e then R_user else R_system)"
  using assms(2)
proof
  assume "isinstance e C_SystemMessageAction"
  then obtain s where "payload e = Act (SystemMessageAction s)" by (rule system_message_payload)
  then show thesis using assms(1) that by (auto simp: process_event_def process_action_def needs_metadata_def sbind_Inr_iff is_message_from_def)
next
  assume u: "is_user_message e"
  then obtain m where "payload e = Act (MessageAction m)" "m_source e = Some USER" by (rule user_message_payload)
  then show thesis using assms(1) that u by (auto simp: process_event_def process_action_def needs_metadata_def Let_def sbind_Inr_iff)
qed

section \<open>Success\<close>

text \<open>The observations with a message, and the events that can be turned into one\<close>

definition known_observation :: "observation \<Rightarrow> bool" where
  "known_observation ob \<longleftrightarrow>
     (case ob of
        AgentDelegateObservation b \<Rightarrow>
          (case map_of (ado_outputs b) ''content'' of None \<Rightarrow> True | Some (JStr _) \<Rightarrow> True | Some _ \<Rightarrow> False)
      | _ \<Rightarrow> obs_class ob \<in> {C_CmdOutputObservation, C_MCPObservation, C_IPythonRunCellObservation,
              C_FileEditObservation, C_FileReadObservation, C_BrowserOutputObservation, C_AgentThinkObservation,
              C_TaskTrackingObservation, C_ErrorObservation, C_UserRejectObservation, C_AgentCondensationObservation,
              C_FileDownloadObservation, C_LoopDetectionObservation, C_RecallObservation})"

definition calls_ok :: "message \<Rightarrow> bool" where
  "calls_ok m \<longleftrightarrow> (case tool_calls m of None \<Rightarrow> False | Some tcs \<Rightarrow> distinct (map tc_id tcs))"

definition convertible :: "memory_env \<Rightarrow> event \<Rightarrow> bool" where
  "convertible env e \<longleftrightarrow>
     (case payload e of
        Obs ob \<Rightarrow> known_observation ob
      | Act a \<Rightarrow>
          (case m_tool_call e of
             None \<Rightarrow> needs_metadata e a \<longrightarrow> m_source e = Some USER
           | Some md \<Rightarrow>
               (case response_of env (tcm_model_response md) of
                  Inl _ \<Rightarrow> False
                | Inr r \<Rightarrow> (case response_message r of Inl _ \<Rightarrow> False | Inr m \<Rightarrow> calls_ok m))))"

lemma observation_result_known:
  assumes "known_observation ob"
  shows "\<exists>r. observation_result env mc vision i events e ob = Inr r"
  using assms by (cases ob)
    (auto simp: known_observation_def observation_result_def Let_def split: option.splits json.splits)

lemma process_observation_total:
  assumes "known_observation ob"
  shows "\<exists>ms rs'. process_observation env mc vision i events e ob rs = Inr (ms, rs')"
proof -
  obtain r where "observation_result env mc vision i events e ob = Inr r"
    using observation_result_known [OF assms] by blast
  then show ?thesis by (cases r) (auto simp: process_observation_def split: option.splits)
qed

definition pending_calls_ok :: "pending \<Rightarrow> bool" where
  "pending_calls_ok p \<longleftrightarrow> (\<forall>m \<in> snd ` set p. calls_ok m)"

lemma pending_calls_ok_set: "pending_calls_ok p \<Longrightarrow> calls_ok m \<Longrightarrow> pending_calls_ok (alist_set k m p)"
  using set_alist_set [of k m p] by (fastforce simp: pending_calls_ok_def)

lemma pending_calls_ok_filter: "pending_calls_ok p \<Longrightarrow> pending_calls_ok (filter P p)"
  by (auto simp: pending_calls_ok_def)

lemma process_action_total:
  assumes "payload e = Act a" "convertible env e" "pending_calls_ok p"
  shows "\<exists>ms e' p'. process_action env vision e a p = Inr (ms, e', p') \<and> pending_calls_ok p'"
proof (cases "m_tool_call e")
  case None
  then show ?thesis using assms by (cases a) (auto simp: process_action_def convertible_def Let_def)
next
  case (Some md)
  then obtain r m where r: "response_of env (tcm_model_response md) = Inr r" "response_message r = Inr m" "calls_ok m"
    using assms(1, 2) by (auto simp: convertible_def split: sum.splits)
  then show ?thesis using Some assms(3) pending_calls_ok_set [OF assms(3) r(3)]
    by (cases "needs_metadata e a"; cases a) (auto simp: process_action_def Let_def)
qed

lemma take_results_total:
  assumes "list_all (\<lambda>tc. map_of rs (tc_id tc) \<noteq> None) tcs" "distinct (map tc_id tcs)"
  shows "\<exists>ms rs'. take_results tcs rs = Inr (ms, rs')"
  using assms
proof (induction tcs arbitrary: rs)
  case (Cons tc tcs)
  have "list_all (\<lambda>x. map_of (alist_del (tc_id tc) rs) (tc_id x) \<noteq> None) tcs"
    using Cons.prems by (auto simp: list_all_iff) (metis image_eqI)
  then obtain ms rs' where "take_results tcs (alist_del (tc_id tc) rs) = Inr (ms, rs')"
    using Cons.IH [of "alist_del (tc_id tc) rs"] Cons.prems(2) by auto
  then show ?case using Cons.prems(1) by auto
qed simp

lemma complete_responses_total:
  "pending_calls_ok p \<Longrightarrow> \<exists>ms ids rs'. complete_responses p rs = Inr (ms, ids, rs')"
proof (induction p arbitrary: rs)
  case (Cons x p)
  obtain rid m where x: "x = (rid, m)" by (cases x)
  obtain tcs where tcs: "tool_calls m = Some tcs" "distinct (map tc_id tcs)" and p: "pending_calls_ok p"
    using Cons.prems x by (auto simp: pending_calls_ok_def calls_ok_def split: option.splits)
  show ?case
  proof (cases "list_all (\<lambda>tc. map_of rs (tc_id tc) \<noteq> None) tcs")
    case True
    then obtain ms1 rs1 where t: "take_results tcs rs = Inr (ms1, rs1)" using take_results_total tcs(2) by blast
    then show ?thesis using Cons.IH [OF p, of rs1] True tcs x by auto
  next
    case False
    then show ?thesis using Cons.IH [OF p] tcs x by simp
  qed
qed simp

lemma process_event_total:
  assumes "convertible env e" "pending_calls_ok p"
  shows "\<exists>ms e' p' rs'. process_event env mc vision events i e p rs = Inr (ms, e', p', rs') \<and> pending_calls_ok p'"
proof (cases "payload e")
  case (Act a)
  obtain ms e' p' where "process_action env vision e a p = Inr (ms, e', p')" "pending_calls_ok p'"
    using process_action_total [OF Act assms] by blast
  then show ?thesis using Act by (simp add: process_event_def)
next
  case (Obs ob)
  then have "known_observation ob" using assms(1) by (simp add: convertible_def)
  from process_observation_total [OF this] obtain ms rs' where
    "process_observation env mc vision i events e ob rs = Inr (ms, rs')" by blast
  then show ?thesis using Obs assms(2) by (simp add: process_event_def)
qed

lemma process_loop_total:
  "list_all (convertible env) es \<Longrightarrow> pending_calls_ok p \<Longrightarrow>
   \<exists>ms es'. process_loop env mc vision events i es p rs = Inr (ms, es')"
proof (induction es arbitrary: i p rs)
  case (Cons e es)
  obtain ms0 e0 p0 rs0 where
    s: "process_event env mc vision events i e p rs = Inr (ms0, e0, p0, rs0)" "pending_calls_ok p0"
    using process_event_total [of env e p] Cons.prems by fastforce
  from complete_responses_total [OF s(2), of rs0] obtain ms1 ids rs1 where
    c: "complete_responses p0 rs0 = Inr (ms1, ids, rs1)" by blast
  show ?case
    using Cons.IH [OF _ pending_calls_ok_filter [OF s(2)], of "Suc i" "\<lambda>(rid, _). rid \<notin> set ids" rs1]
      Cons.prems(1) s(1) c by auto
qed simp

lemma ensured_convertible:
  assumes "list_all (convertible env) history" "convertible env init"
  shows "list_all (convertible env)
    (ensure_initial_user_message (ensure_system_message env history) init forgotten_ids)"
proof -
  have "convertible env (mk_action (SystemMessageAction s))" for s
    by (simp add: convertible_def needs_metadata_def)
  then have "list_all (convertible env) (ensure_system_message env history)"
    using assms(1) by (simp add: ensure_system_message_def)
  then show ?thesis
    using assms(2) by (auto simp: ensure_initial_user_message_def split: list.splits)
qed

section \<open>The claims\<close>

text \<open>
  An example: one response with two calls whose results arrive in the opposite order, and a call that is
  never answered.
\<close>

definition demo_response :: "string \<Rightarrow> string list \<Rightarrow> model_response" where
  "demo_response i ids =
     \<lparr>resp_id = i, resp_role = ''assistant'', resp_content = None,
      resp_tool_calls = Some (map (\<lambda>c. \<lparr>tc_id = c, tc_name = Some ''think'', tc_arguments = ''{}''\<rparr>) ids)\<rparr>"

definition demo_memory :: memory_env where
  "demo_memory =
     \<lparr>enable_prompt_extensions = True, disabled_microagents = [], enable_som_visual_browsing = False,
      pm_system_message = ''You are an agent.'', pm_workspace_context = (\<lambda>_ _ _ _. []),
      pm_microagent_info = (\<lambda>_. []),
      response_of = (\<lambda>j. if j = JStr ''r'' then Inr (demo_response ''r'' [''a'', ''b''])
                         else if j = JStr ''s'' then Inr (demo_response ''s'' [''c'']) else Inl assertion_error),
      str_of = (\<lambda>_. [])\<rparr>"

definition demo_call :: "string \<Rightarrow> string \<Rightarrow> payload \<Rightarrow> event" where
  "demo_call r c p =
     (mk_event p)\<lparr>m_source := Some AGENT,
       m_tool_call := Some \<lparr>tcm_function_name = ''think'', tcm_tool_call_id = c, tcm_model_response = JStr r,
                            tcm_total_calls_in_response = 2\<rparr>\<rparr>"

definition demo_task :: event where
  "demo_task =
     (mk_action (MessageAction \<lparr>ma_content = ''Fix it'', ma_file_urls = None, ma_image_urls = None,
        ma_wait_for_response = False, ma_risk = UNKNOWN\<rparr>))\<lparr>m_id := Some 1, m_source := Some USER\<rparr>"

definition demo_history :: "event list" where
  "demo_history =
     [demo_call ''r'' ''a'' (Act (AgentThinkAction ''x'')), demo_call ''r'' ''b'' (Act (AgentThinkAction ''y'')),
      demo_call ''r'' ''b'' (Obs (AgentThinkObservation ''2'')), demo_call ''r'' ''a'' (Obs (AgentThinkObservation ''1'')),
      demo_call ''s'' ''c'' (Act (AgentThinkAction ''z''))]"

definition demo_messages :: "message list" where
  "demo_messages =
     [text_msg R_system ''You are an agent.'', text_msg R_user ''Fix it'',
      (mk_msg R_assistant [])\<lparr>tool_calls := resp_tool_calls (demo_response ''r'' [''a'', ''b''])\<rparr>,
      (text_msg R_tool ''1'')\<lparr>msg_tool_call_id := Some ''a'', msg_name := Some ''think''\<rparr>,
      (text_msg R_tool ''2'')\<lparr>msg_tool_call_id := Some ''b'', msg_name := Some ''think''\<rparr>]"

lemma demo_responses_ok: "responses_ok demo_memory"
  by (auto simp: responses_ok_def demo_memory_def demo_response_def)

lemma process_events_answered:
  assumes "responses_ok env" "process_events env history init forgotten_ids mc vision = Inr (msgs, es)"
  shows "answered [] msgs"
proof -
  obtain ms where ms: "msgs = user_formatting None (filter_unmatched_tool_calls ms)" and
    "process_loop env mc vision (ensure_initial_user_message (ensure_system_message env history) init forgotten_ids) 0
      (ensure_initial_user_message (ensure_system_message env history) init forgotten_ids) [] [] = Inr (ms, es)"
    using process_events_loop [OF assms(2)] by blast
  then have "group_ok ms"
    using process_loop_ok [OF assms(1)] by (fastforce simp: pending_ok_def results_ok_def)
  then have "answered [] ms" "filter_unmatched_tool_calls ms = ms"
    by (auto simp: group_ok_def intro: filter_answered)
  then show ?thesis using ms answered_formatting by simp
qed

text \<open>
  C8. The messages of \<open>process_events\<close> obey the protocol of tool calls: right after a message of the assistant
  with calls stand the results of exactly these calls, in the order of the calls, whatever the order in which
  the results arrived and whichever calls are still open; no result stands anywhere else and only the
  assistant's messages have calls. It assumes that the responses of the language model are the assistant's and
  give every call an id.
\<close>

theorem tool_calls_answered:
  assumes "responses_ok env" "process_events env history init forgotten_ids mc vision = Inr (msgs, es)"
  shows "answered [] msgs"
  by (rule process_events_answered [OF assms])

theorem tool_calls_answered_witness:
  "responses_ok demo_memory \<and>
   map_sum (\<lambda>_. ()) fst (process_events demo_memory demo_history demo_task {} None False) = Inr demo_messages \<and>
   answered [] demo_messages"
proof -
  have eq: "map_sum (\<lambda>_. ()) fst (process_events demo_memory demo_history demo_task {} None False) = Inr demo_messages"
    by code_simp
  then obtain es where "process_events demo_memory demo_history demo_task {} None False = Inr (demo_messages, es)"
    by (cases "process_events demo_memory demo_history demo_task {} None False") auto
  from tool_calls_answered [OF demo_responses_ok this] eq show ?thesis using demo_responses_ok by simp
qed

text \<open>
  \<open>_filter_unmatched_tool_calls\<close> on any list of messages: the calls that are left are those that had a
  result, the results that are left are those of a call, so the two sets of ids are the same; all other
  messages are kept in their order, and filtering again changes nothing.
\<close>

theorem filter_unmatched_closed:
  "call_ids (filter_unmatched_tool_calls ms) = call_ids ms \<inter> response_ids ms \<and>
   response_ids (filter_unmatched_tool_calls ms) = call_ids ms \<inter> response_ids ms \<and>
   filter no_tool_msg (filter_unmatched_tool_calls ms) = filter no_tool_msg ms \<and>
   filter_unmatched_tool_calls (filter_unmatched_tool_calls ms) = filter_unmatched_tool_calls ms"
  by (simp add: filter_call_ids filter_response_ids filter_plain filter_idem)

text \<open>
  The conversation starts with the system message and a message of the user, also when the view has lost
  them, unless the first message of the user was condensed away.
\<close>

theorem conversation_start:
  assumes "process_events env history init forgotten_ids mc vision = Inr (msgs, es)"
    "starts_with_system env history" "is_user_message init" "ev_id init \<notin> forgotten_ids"
  shows "\<exists>m1 m2 rest. msgs = m1 # m2 # rest \<and> msg_role m1 = R_system \<and> msg_role m2 = R_user"
proof -
  obtain e0 e1 rest where e:
    "ensure_initial_user_message (ensure_system_message env history) init forgotten_ids = e0 # e1 # rest"
    "isinstance e0 C_SystemMessageAction" "is_user_message e1"
    using ensured_events [OF assms(2-4)] by blast
  obtain ms where ms: "msgs = user_formatting None (filter_unmatched_tool_calls ms)" and
    l: "process_loop env mc vision (e0 # e1 # rest) 0 (e0 # e1 # rest) [] [] = Inr (ms, es)"
    using process_events_loop [OF assms(1)] e(1) by auto
  have "\<not> is_user_message e0"
    using e(2) by (auto elim: system_message_payload simp: is_message_from_def)
  then obtain m1 ms1 es1 where 1: "ms = m1 # ms1" "msg_role m1 = R_system"
      "process_loop env mc vision (e0 # e1 # rest) (Suc 0) (e1 # rest) [] [] = Inr (ms1, es1)"
    using process_loop_plain [OF l disjI1 [OF e(2)]] by metis
  obtain m2 ms2 where 2: "ms1 = m2 # ms2" "msg_role m2 = R_user"
    using process_loop_plain [OF 1(3) disjI2 [OF e(3)]] e(3) by metis
  have "filter_unmatched_tool_calls ms =
      m1 # m2 # concat (map (keep_matched (call_ids ms) (response_ids ms)) ms2)"
    using 1(1, 2) 2 by (simp add: filter_unmatched_tool_calls_def keep_matched_def)
  then show ?thesis using ms 1(2) 2(2) by auto
qed

theorem conversation_start_witness:
  "\<exists>m1 m2 rest. demo_messages = m1 # m2 # rest \<and> msg_role m1 = R_system \<and> msg_role m2 = R_user"
proof -
  have "map_sum (\<lambda>_. ()) fst (process_events demo_memory demo_history demo_task {} None False) = Inr demo_messages"
    by code_simp
  then obtain es where p: "process_events demo_memory demo_history demo_task {} None False = Inr (demo_messages, es)"
    by (cases "process_events demo_memory demo_history demo_task {} None False") auto
  have "starts_with_system demo_memory demo_history" "is_user_message demo_task" by code_simp+
  from conversation_start [OF p this] show ?thesis by simp
qed

text \<open>
  C26. \<open>process_events\<close> returns messages for every view of convertible events: the actions that need the
  metadata of a tool call have it (or come from the user), the response in the metadata can be read and has
  distinct calls, and no observation is of a kind without a message. The view may be condensed in any way:
  results without their call, and calls without their result, are not an error.
\<close>

theorem process_events_returns:
  assumes "list_all (convertible env) history" "convertible env init"
  shows "\<exists>msgs es. process_events env history init forgotten_ids mc vision = Inr (msgs, es)"
proof -
  obtain ms es where
    "process_loop env mc vision (ensure_initial_user_message (ensure_system_message env history) init forgotten_ids) 0
       (ensure_initial_user_message (ensure_system_message env history) init forgotten_ids) [] [] = Inr (ms, es)"
    using process_loop_total [OF ensured_convertible [OF assms], of "[]"] by (fastforce simp: pending_calls_ok_def)
  then show ?thesis by (simp add: process_events_def Let_def)
qed

theorem process_events_returns_witness:
  "list_all (convertible demo_memory) (tl demo_history) \<and> convertible demo_memory demo_task \<and>
   (\<exists>msgs es. process_events demo_memory (tl demo_history) demo_task {1} (Some 5) True = Inr (msgs, es))"
proof -
  have "list_all (convertible demo_memory) (tl demo_history)" "convertible demo_memory demo_task" by code_simp+
  then show ?thesis using process_events_returns by blast
qed

end
