(* ===== verification/Fn_Split.thy ===== *)
theory Fn_Split
  imports Fn_Calls Conversation_Properties
begin

text \<open>
  One call per message: what \<open>convert_from_multiple_tool_calls_to_single_tool_call_messages\<close> makes of the messages
  of a conversation, which obey the protocol of tool calls (\<open>answered\<close>).
\<close>

definition dict_role :: "jdict \<Rightarrow> json" where
  "dict_role d = (case map_of d ''role'' of None \<Rightarrow> JNull | Some r \<Rightarrow> r)"

definition is_result :: "jdict \<Rightarrow> bool" where
  "is_result d \<longleftrightarrow> dict_role d = JStr ''tool''"

text \<open>The ids of the calls of a message\<close>

definition dict_calls :: "jdict \<Rightarrow> json list" where
  "dict_calls d =
     (case map_of d ''tool_calls'' of
        Some (JList tcs) \<Rightarrow> map (\<lambda>tc. case sub ''id'' tc of Inr i \<Rightarrow> i | Inl _ \<Rightarrow> JNull) tcs
      | _ \<Rightarrow> [])"

text \<open>At most one call per message, and its result right behind it; the state is the call to be answered next.\<close>

fun paired :: "json option \<Rightarrow> jdict list \<Rightarrow> bool" where
  "paired c [] = (c = None)"
| "paired None (d # ds) =
     (\<not> is_result d \<and> (case dict_calls d of [] \<Rightarrow> paired None ds | [i] \<Rightarrow> paired (Some i) ds | _ \<Rightarrow> False))"
| "paired (Some i) (d # ds) =
     (is_result d \<and> map_of d ''tool_call_id'' = Some i \<and> dict_calls d = [] \<and> paired None ds)"

section \<open>Serialized messages\<close>

lemma add_keys_lookup:
  assumes "add_tool_call_keys m d = Inr d'" "map_of d ''tool_calls'' = None" "map_of d ''tool_call_id'' = None"
  shows "map_of d' ''tool_calls'' = map_option (\<lambda>tcs. JList (map tool_call_dict tcs)) (tool_calls m)"
    "map_of d' ''tool_call_id'' = map_option JStr (msg_tool_call_id m)"
  using assms by (auto simp: add_tool_call_keys_def Let_def split: option.splits)

lemma serialized_lookup:
  assumes "serialize_message m = Inr d"
  shows "map_of d ''role'' = Some (JStr (role_value (msg_role m)))" "\<exists>c. map_of d ''content'' = Some c"
    "map_of d ''tool_calls'' = map_option (\<lambda>tcs. JList (map tool_call_dict tcs)) (tool_calls m)"
    "map_of d ''tool_call_id'' = map_option JStr (msg_tool_call_id m)"
proof -
  obtain d0 where d0: "add_tool_call_keys m d0 = Inr d" "map_of d0 ''tool_calls'' = None" "map_of d0 ''tool_call_id'' = None"
    "map_of d0 ''role'' = Some (JStr (role_value (msg_role m)))" "\<exists>c. map_of d0 ''content'' = Some c"
    using assms by (fastforce simp: serialize_message_def string_serializer_def list_serializer_def Let_def split: if_splits)
  show "map_of d ''tool_calls'' = map_option (\<lambda>tcs. JList (map tool_call_dict tcs)) (tool_calls m)"
    "map_of d ''tool_call_id'' = map_option JStr (msg_tool_call_id m)" by (fact add_keys_lookup [OF d0(1-3)])+
  show "map_of d ''role'' = Some (JStr (role_value (msg_role m)))" "\<exists>c. map_of d ''content'' = Some c"
    using d0(4, 5) add_tool_call_keys_lookup [OF d0(1)] by simp_all
qed

lemma dict_calls_message:
  "serialize_message m = Inr d \<Longrightarrow> dict_calls d = map JStr (calls_of m)"
  using serialized_lookup(3) [of m d]
  by (cases "tool_calls m") (simp_all add: dict_calls_def calls_of_def tool_call_dict_def sub_def)

lemma is_result_message: "serialize_message m = Inr d \<Longrightarrow> is_result d \<longleftrightarrow> msg_role m = R_tool"
  using serialized_lookup(1) [of m d] by (cases "msg_role m") (simp_all add: is_result_def dict_role_def)

section \<open>Pending calls\<close>

lemma call_id [simp]: "and_then (sub ''id'' (tool_call_dict tc)) key_str = Inr (tc_id tc)"
  by (simp add: tool_call_dict_def sub_def key_str_def)

definition pending_for :: "string list \<Rightarrow> (string \<times> jdict) list \<Rightarrow> bool" where
  "pending_for ids pending \<longleftrightarrow>
     map fst pending = ids \<and> distinct ids \<and>
     list_all (\<lambda>(i, d). \<not> is_result d \<and> dict_calls d = [JStr i]) pending"

lemma add_pending_calls:
  assumes "distinct (ids @ map tc_id tcs)" "pending_for ids pending"
  shows "\<exists>pending'. add_pending c (map tool_call_dict tcs) pending = Inr pending' \<and> pending_for (ids @ map tc_id tcs) pending'"
  using assms
proof (induction tcs arbitrary: c ids pending)
  case (Cons tc tcs)
  let ?d = "out_message ''assistant'' c @ [(''tool_calls'', JList [tool_call_dict tc])]"
  have new: "tc_id tc \<notin> fst ` set pending" using Cons.prems by (force simp: pending_for_def)
  have "pending_for (ids @ [tc_id tc]) (pending @ [(tc_id tc, ?d)])"
    using Cons.prems
    by (auto simp: pending_for_def is_result_def dict_role_def dict_calls_def out_message_def tool_call_dict_def sub_def)
  from Cons.IH [OF _ this] Cons.prems(1) alist_set_new [OF new, of ?d] show ?case by simp
qed simp

lemma alist_del_fresh: "k \<notin> set (map fst d) \<Longrightarrow> alist_del k d = d"
  unfolding alist_del_def by (induction d) auto

lemma pending_pop:
  assumes "pending_for (i # ids) pending"
  obtains d where "map_of pending i = Some d" "\<not> is_result d" "dict_calls d = [JStr i]" "pending_for ids (alist_del i pending)"
proof -
  obtain d rest where p: "pending = (i, d) # rest" using assms by (cases pending) (auto simp: pending_for_def)
  with assms have "i \<notin> set (map fst rest)" by (auto simp: pending_for_def)
  with p have "alist_del i pending = rest" using alist_del_fresh [of i rest] by (simp add: alist_del_def)
  then show ?thesis using that [of d] assms p by (simp add: pending_for_def)
qed

section \<open>The loop\<close>

text \<open>
  What the loop returns: pairs, the calls in their order (those pending first), and the results in their order
\<close>

definition split_result :: "json option \<Rightarrow> string list \<Rightarrow> jdict list \<Rightarrow> jdict list \<Rightarrow> bool" where
  "split_result c ids ds ds' \<longleftrightarrow>
     paired c ds' \<and> concat (map dict_calls ds') = map JStr ids @ concat (map dict_calls ds) \<and>
     filter is_result ds' = filter is_result ds"

lemma split_result_keep:
  assumes "split_result c' [] ds ds'" "paired c (d # ds') = paired c' ds'"
  shows "split_result c [] (d # ds) (d # ds')"
  using assms by (simp add: split_result_def)

lemma subs [simp]:
  "map_of d ''role'' = Some r \<Longrightarrow> sub ''role'' (JDict d) = Inr r"
  "map_of d ''content'' = Some c \<Longrightarrow> sub ''content'' (JDict d) = Inr c"
  "map_of d ''tool_call_id'' = Some i \<Longrightarrow> sub ''tool_call_id'' (JDict d) = Inr i"
  by (simp_all add: sub_def)

lemma split_answered:
  assumes "answered ids ms" "list_all2 (\<lambda>m d. serialize_message m = Inr d) ms ds" "\<forall>m \<in> set ms. distinct (calls_of m)"
  shows "(length ids \<le> 1 \<longrightarrow> (\<exists>ds'. split_loop [] ds = Inr (ds', []) \<and>
            split_result (case ids of [] \<Rightarrow> None | i # _ \<Rightarrow> Some (JStr i)) [] ds ds')) \<and>
    (\<forall>pending. pending_for ids pending \<longrightarrow> (\<exists>ds'. split_loop pending ds = Inr (ds', []) \<and> split_result None ids ds ds'))"
  using assms
proof (induction ids ms arbitrary: ds rule: answered.induct)
  case (1 ids)
  then show ?case by (auto simp: split_result_def pending_for_def)
next
  case (2 m ms)
  then obtain d ds1 where ds: "ds = d # ds1" "serialize_message m = Inr d"
    "list_all2 (\<lambda>m d. serialize_message m = Inr d) ms ds1"
    by (auto simp: list_all2_Cons1)
  note look = serialized_lookup [OF ds(2)]
  obtain c where c: "map_of d ''content'' = Some c" using look(2) by blast
  have m: "msg_role m \<noteq> R_tool" "tool_calls m \<noteq> None \<longrightarrow> msg_role m = R_assistant" "answered (calls_of m) ms"
    "distinct (calls_of m)"
    using 2 by auto
  note ih = "2.IH" [OF m(3) ds(3)]
  have res: "\<not> is_result d" using is_result_message [OF ds(2)] m(1) by simp
  have calls: "dict_calls d = map JStr (calls_of m)" by (rule dict_calls_message [OF ds(2)])
  have main: "\<exists>ds'. split_loop [] ds = Inr (ds', []) \<and> split_result None [] ds ds'"
  proof (cases "length (calls_of m) \<le> 1")
    case True
    obtain ds' where ds': "split_loop [] ds1 = Inr (ds', [])"
      "split_result (case calls_of m of [] \<Rightarrow> None | i # _ \<Rightarrow> Some (JStr i)) [] ds1 ds'"
      using ih 2 True by auto
    have "split_loop [] ds = Inr (d # ds', [])"
      using ds(1) ds'(1) look c m(1) True
      by (cases "msg_role m"; cases "tool_calls m") (auto simp: calls_of_def split: list.splits)
    moreover have "split_result None [] ds (d # ds')"
      unfolding ds(1) by (rule split_result_keep [OF ds'(2)])
        (use True res calls in \<open>cases "calls_of m"; auto\<close>)
    ultimately show ?thesis by blast
  next
    case False
    then obtain tcs where tcs: "tool_calls m = Some tcs" "1 < length tcs" "msg_role m = R_assistant"
      using m(2) by (auto simp: calls_of_def split: option.splits)
    obtain pending where p: "add_pending c (map tool_call_dict tcs) [] = Inr pending" "pending_for (calls_of m) pending"
      using add_pending_calls [of "[]" tcs "[]" c] m(4) tcs(1) by (auto simp: pending_for_def calls_of_def)
    obtain ds' where ds': "split_loop pending ds1 = Inr (ds', [])" "split_result None (calls_of m) ds1 ds'"
      using ih 2 p(2) by auto
    obtain a b ts where "tcs = a # b # ts" using tcs(2) by (cases tcs; cases "tl tcs") auto
    then have "split_loop [] ds = Inr (ds', [])"
      using ds(1) look c tcs p(1) ds'(1) by simp
    moreover have "split_result None [] ds ds'"
      using ds'(2) res calls by (simp add: split_result_def ds(1))
    ultimately show ?thesis by blast
  qed
  then show ?case by (auto simp: pending_for_def)
next
  case (3 i ids m ms)
  then obtain d ds1 where ds: "ds = d # ds1" "serialize_message m = Inr d"
    "list_all2 (\<lambda>m d. serialize_message m = Inr d) ms ds1"
    by (auto simp: list_all2_Cons1)
  note look = serialized_lookup [OF ds(2)]
  obtain c where c: "map_of d ''content'' = Some c" using look(2) by blast
  have m: "msg_role m = R_tool" "msg_tool_call_id m = Some i" "tool_calls m = None" "answered ids ms"
    using 3 by auto
  note ih = "3.IH" [OF m(4) ds(3)]
  have res: "is_result d" using is_result_message [OF ds(2)] m(1) by simp
  have calls: "dict_calls d = []" using dict_calls_message [OF ds(2)] m(3) by simp
  have id: "map_of d ''tool_call_id'' = Some (JStr i)" using look(4) m(2) by simp
  show ?case
  proof (intro conjI impI allI)
    assume "length (i # ids) \<le> 1"
    then obtain ds' where ds': "split_loop [] ds1 = Inr (ds', [])" "split_result None [] ds1 ds'" using ih 3 by auto
    have "split_loop [] ds = Inr (d # ds', [])"
      using ds(1) ds'(1) look(1) c m(1) id by (simp add: key_str_def)
    moreover have "split_result (Some (JStr i)) [] ds (d # ds')"
      unfolding ds(1) by (rule split_result_keep [OF ds'(2)]) (use res calls id in simp)
    ultimately show "\<exists>ds'. split_loop [] ds = Inr (ds', []) \<and>
        split_result (case i # ids of [] \<Rightarrow> None | i # _ \<Rightarrow> Some (JStr i)) [] ds ds'" by auto
  next
    fix pending assume p: "pending_for (i # ids) pending"
    obtain t where t: "map_of pending i = Some t" "\<not> is_result t" "dict_calls t = [JStr i]" "pending_for ids (alist_del i pending)"
      using pending_pop [OF p] by blast
    obtain ds' where ds': "split_loop (alist_del i pending) ds1 = Inr (ds', [])" "split_result None ids ds1 ds'"
      using ih 3 t(4) by auto
    have "split_loop pending ds = Inr (t # d # ds', [])"
      using ds(1) ds'(1) look(1) c m(1) id t(1) by (simp add: key_str_def)
    moreover have "split_result None (i # ids) ds (t # d # ds')"
      using ds'(2) res calls id t(2, 3) by (simp add: split_result_def ds(1))
    ultimately show "\<exists>ds'. split_loop pending ds = Inr (ds', []) \<and> split_result None (i # ids) ds ds'" by blast
  qed
qed

lemma traverse_list_all2: "traverse f xs = Inr ys \<Longrightarrow> list_all2 (\<lambda>x y. f x = Inr y) xs ys"
  by (induction xs arbitrary: ys) (auto simp: and_then_def split: sum.splits)

lemma split_messages:
  assumes "answered [] ms" "traverse serialize_message ms = Inr ds" "\<forall>m \<in> set ms. distinct (calls_of m)"
  shows "\<exists>ds'. convert_from_multiple_tool_calls_to_single_tool_call_messages ds b = Inr ds' \<and> split_result None [] ds ds'"
  using split_answered [OF assms(1) traverse_list_all2 [OF assms(2)] assms(3)]
  by (auto simp: convert_from_multiple_tool_calls_to_single_tool_call_messages_def)

end
