(* ===== verification/Fn_Properties.thy ===== *)
theory Fn_Properties
  imports Fn_Round_Trip Fn_Split
begin

text \<open>
  The properties of the conversion of function calls: a conversation written as text for a model without tools is
  read back, and the messages of a conversation are split into one call per message.
\<close>

section \<open>A conversation as text and back\<close>

text \<open>A tool with an integer, a choice and a text as its arguments, and a conversation that calls it\<close>

definition demo_tool :: fn_tool where
  "demo_tool =
     \<lparr>ft_type = ''function'', ft_name = ''view'', ft_description = Some ''Shows a file.'',
      ft_parameters = Some \<lparr>
        fs_properties = Some [(''path'', \<lparr>fp_type = Some ''string'', fp_description = None, fp_enum = None\<rparr>),
          (''line'', \<lparr>fp_type = Some ''integer'', fp_description = None, fp_enum = None\<rparr>),
          (''how'', \<lparr>fp_type = Some ''string'', fp_description = None, fp_enum = Some [JStr ''all'', JStr ''top'']\<rparr>)],
        fs_required = Some [''path'']\<rparr>\<rparr>"

definition demo_call_args :: jdict where
  "demo_call_args = [(''path'', JStr ''/a=b.txt''), (''line'', JInt (-12)), (''how'', JStr ''top'')]"

definition demo_fn_env :: fn_env where
  "demo_fn_env =
     \<lparr>fe_loads = (\<lambda>s. if s = ''{...}'' then Some (JDict demo_call_args) else None), fe_dumps = (\<lambda>_. ''{...}''),
      fe_str = (\<lambda>_. []), fe_windows = False\<rparr>"

definition demo_turns :: "turn list" where
  "demo_turns =
     [Says_system ''You are an agent.'', Says_user ''Show a.txt < b'', Calls ''I look.'' ''view'' demo_call_args,
      Result ''view'' ''1 <parameter=x'', Says ''Done.'']"

lemma not_contains_start:
  assumes "t \<noteq> []" "hd t \<notin> set s"
  shows "\<not> str_contains t (s @ butlast t)"
proof -
  have "length t \<le> length (butlast t)" if "str_contains t (butlast t)"
    using that by (auto simp: str_contains_iff dest: arg_cong [where f = length])
  moreover have "0 < length t" using assms(1) by simp
  ultimately have "\<not> str_contains t (butlast t)" by (simp only: length_butlast) linarith
  then show ?thesis using contains_skip [OF assms] by simp
qed

lemma demo_turns_ok:
  obtains suffix where "system_prompt_suffix demo_fn_env [demo_tool] = Inr suffix"
    "turns_ok demo_fn_env [demo_tool] suffix True demo_turns"
proof -
  have "\<not> Option.is_none (case convert_tools_to_description demo_fn_env [demo_tool] of Inl _ \<Rightarrow> None | Inr d \<Rightarrow> Some d)"
    by code_simp
  then obtain d where "convert_tools_to_description demo_fn_env [demo_tool] = Inr d" by (auto split: sum.splits)
  then obtain suffix where suffix: "system_prompt_suffix demo_fn_env [demo_tool] = Inr suffix" "hd suffix = newline"
    by (simp add: system_prompt_suffix_def SYSTEM_SUFFIX_HEAD_def)
  have "\<not> str_contains suffix (''You are an agent.'' @ butlast suffix)"
    "\<not> str_contains EXAMPLE_SUFFIX (''Show a.txt < b'' @ butlast EXAMPLE_SUFFIX)"
    by (rule not_contains_start; use suffix suffix_ne [OF suffix(1)] in \<open>simp add: EXAMPLE_SUFFIX_def\<close>)+
  moreover have "call_ok demo_fn_env [demo_tool] ''view'' demo_call_args" "\<not> str_contains RESULT_TAG ''Show a.txt < b''"
    "\<not> str_contains ''<function='' ''I look.''" "str_strip ''I look.'' = ''I look.''"
    "\<not> str_contains ('']:'' @ [newline]) ''view''" "str_strip ''1 <parameter=x'' = ''1 <parameter=x''"
    "\<not> str_contains ''<function='' ''Done.''"
    by code_simp+
  ultimately have "turns_ok demo_fn_env [demo_tool] suffix True demo_turns"
    unfolding demo_turns_def turns_ok.simps by blast
  with suffix(1) show thesis by (rule that)
qed

text \<open>
  C9. A conversation that calls tools survives its translation into text for a model without tools, with or without
  the worked example: the messages are written as texts, and reading the texts back gives the messages, with the calls,
  their arguments and ids, the results, and with the instructions and the worked example removed again. It asks that the
  texts do not quote the markers of the format (without the example, that the first text of the user does not begin with
  it), that messages with a call and results have no blanks at their ends, that a result comes after a text of the user,
  that all required arguments are given, and that every argument is a declared one: an integer where one is declared, an
  array that the JSON library reads back where one is declared, and a string everywhere else. Booleans, numbers and
  objects are not covered: they come back as texts.
\<close>

theorem fncall_round_trip:
  assumes "system_prompt_suffix env tools = Inr suffix" "turns_ok env tools suffix True ts"
    and "add_ex \<or> example_free (get_example_for_tools env tools) ts"
  shows "\<exists>texts. convert_fncall_messages_to_non_fncall_messages env (render env 1 ts) tools add_ex = Inr texts \<and>
    convert_non_fncall_messages_to_fncall_messages env texts tools = Inr (render env 1 ts)"
  by (rule conversation_back [OF assms])

theorem fncall_round_trip_witness:
  "\<exists>texts. convert_fncall_messages_to_non_fncall_messages demo_fn_env (render demo_fn_env 1 demo_turns) [demo_tool] True
        = Inr texts \<and>
    convert_non_fncall_messages_to_fncall_messages demo_fn_env texts [demo_tool] = Inr (render demo_fn_env 1 demo_turns)"
proof -
  obtain suffix where "system_prompt_suffix demo_fn_env [demo_tool] = Inr suffix"
    "turns_ok demo_fn_env [demo_tool] suffix True demo_turns"
    by (rule demo_turns_ok)
  then show ?thesis using fncall_round_trip [of demo_fn_env "[demo_tool]" suffix demo_turns True] by simp
qed

section \<open>One call per message\<close>

definition demo_dicts :: "jdict list" where
  "demo_dicts = (case traverse serialize_message demo_messages of Inr ds \<Rightarrow> ds | Inl _ \<Rightarrow> [])"

text \<open>
  For a model that makes one call at a time, the messages that the conversation memory makes of a history are
  split without an error: afterwards no message has two calls, right behind every call stands its result and
  nowhere else is one, and the calls and the results are the same in the same order. It assumes that the
  responses of the language model are the assistant's and give the calls of a message distinct ids.
\<close>

theorem calls_split:
  assumes "responses_ok env" "process_events env history init forgotten_ids mc vision = Inr (msgs, es)"
    "list_all (\<lambda>m. distinct (calls_of m)) msgs" "traverse serialize_message msgs = Inr ds"
  shows "\<exists>ds'. convert_from_multiple_tool_calls_to_single_tool_call_messages ds ignore_final = Inr ds' \<and> paired None ds' \<and>
    concat (map dict_calls ds') = concat (map dict_calls ds) \<and> filter is_result ds' = filter is_result ds"
  using split_messages [OF process_events_answered [OF assms(1, 2)] assms(4)] assms(3)
  by (simp add: split_result_def list_all_iff)

theorem calls_split_witness:
  "\<exists>ds'. convert_from_multiple_tool_calls_to_single_tool_call_messages demo_dicts False = Inr ds' \<and> paired None ds' \<and>
    concat (map dict_calls ds') = [JStr ''a'', JStr ''b''] \<and> length (filter is_result ds') = 2"
proof -
  have eq: "map_sum (\<lambda>_. ()) fst (process_events demo_memory demo_history demo_task {} None False) = Inr demo_messages"
    by code_simp
  then obtain es where p: "process_events demo_memory demo_history demo_task {} None False = Inr (demo_messages, es)"
    by (cases "process_events demo_memory demo_history demo_task {} None False") auto
  have d: "list_all (\<lambda>m. distinct (calls_of m)) demo_messages" "traverse serialize_message demo_messages = Inr demo_dicts"
    by code_simp+
  have "concat (map dict_calls demo_dicts) = [JStr ''a'', JStr ''b'']" "length (filter is_result demo_dicts) = 2"
    by code_simp+
  with calls_split [OF demo_responses_ok p d, of False] show ?thesis by metis
qed

end
