(* ===== verification/Control_Flags.thy ===== *)
theory Control_Flags
  imports Prelude
begin

text \<open>
  \<open>openhands/controller/state/control_flags.py\<close>: the iteration limit and the budget limit
  that stop a running agent. The generic base class is the record below over an ordered
  ring: \<^typ>\<open>int\<close> for iterations, \<^typ>\<open>rat\<close> for the budget. Methods that write a field
  return the new flag; \<open>step\<close> returns the flag together with the exception it raises, since the
  field \<open>_hit_limit\<close> is written before the exception leaves the method.
\<close>

record 'a control_flag =
  limit_increase_amount :: 'a
  current_value :: 'a
  max_value :: 'a
  flag_headless_mode :: bool
  hit_limit :: bool

type_synonym iteration_flag = "int control_flag"
type_synonym budget_flag = "rat control_flag"

definition mk_flag :: "'a \<Rightarrow> 'a \<Rightarrow> 'a \<Rightarrow> 'a control_flag" where
  "mk_flag inc cur mx =
     \<lparr>limit_increase_amount = inc, current_value = cur, max_value = mx,
      flag_headless_mode = False, hit_limit = False\<rparr>"

section \<open>IterationControlFlag\<close>

definition iter_reached_limit :: "iteration_flag \<Rightarrow> bool \<times> iteration_flag" where
  "iter_reached_limit f =
     (let hit = current_value f \<ge> max_value f in (hit, f\<lparr>hit_limit := hit\<rparr>))"

definition iter_increase_limit :: "bool \<Rightarrow> iteration_flag \<Rightarrow> iteration_flag" where
  "iter_increase_limit headless f =
     (if \<not> headless \<and> hit_limit f
      then f\<lparr>max_value := max_value f + limit_increase_amount f, hit_limit := False\<rparr>
      else f)"

definition iter_error :: "iteration_flag \<Rightarrow> exn" where
  "iter_error f = mk_exn ''RuntimeError'' RuntimeError
     (''Agent reached maximum iteration. Current iteration: '' @ show_int (current_value f)
      @ '', max iteration: '' @ show_int (max_value f))"

definition iter_step :: "iteration_flag \<Rightarrow> exn option \<times> iteration_flag" where
  "iter_step f =
     (let (hit, f') = iter_reached_limit f
      in if hit then (Some (iter_error f'), f')
         else (None, f'\<lparr>current_value := current_value f' + 1\<rparr>))"

section \<open>BudgetControlFlag\<close>

definition budget_reached_limit :: "budget_flag \<Rightarrow> bool \<times> budget_flag" where
  "budget_reached_limit f =
     (let hit = current_value f \<ge> max_value f in (hit, f\<lparr>hit_limit := hit\<rparr>))"

definition budget_increase_limit :: "bool \<Rightarrow> budget_flag \<Rightarrow> budget_flag" where
  "budget_increase_limit headless f =
     (if hit_limit f
      then f\<lparr>max_value := current_value f + limit_increase_amount f, hit_limit := False\<rparr>
      else f)"

definition budget_error :: "budget_flag \<Rightarrow> exn" where
  "budget_error f = mk_exn ''RuntimeError'' RuntimeError
     (''Agent reached maximum budget for conversation.Current budget: ''
      @ show_fixed2 (current_value f) @ '', max budget: '' @ show_fixed2 (max_value f))"

definition budget_step :: "budget_flag \<Rightarrow> exn option \<times> budget_flag" where
  "budget_step f =
     (let (hit, f') = budget_reached_limit f
      in if hit then (Some (budget_error f'), f') else (None, f'))"

section \<open>The contract the two flags share\<close>

text \<open>
  What the state tracker relies on: a step is refused exactly at the limit, a refused step
  leaves the figures alone and records the hit, an accepted step moves the value by a fixed
  amount, and raising the limit of a flag that was refused under the given mode makes room.
\<close>

locale control_flag_ops =
  fixes step :: "('a::linordered_idom) control_flag \<Rightarrow> exn option \<times> 'a control_flag"
    and increase :: "bool \<Rightarrow> 'a control_flag \<Rightarrow> 'a control_flag"
    and delta :: 'a
    and extendable :: "bool \<Rightarrow> bool"
  assumes delta_nonneg: "0 \<le> delta"
    and step_refused: "fst (step f) \<noteq> None \<longleftrightarrow> max_value f \<le> current_value f"
    and step_hit: "hit_limit (snd (step f)) \<longleftrightarrow> max_value f \<le> current_value f"
    and step_max: "max_value (snd (step f)) = max_value f"
    and step_inc: "limit_increase_amount (snd (step f)) = limit_increase_amount f"
    and step_value: "current_value (snd (step f)) =
                       (if max_value f \<le> current_value f then current_value f
                        else current_value f + delta)"
    and increase_value: "current_value (increase h f) = current_value f"
    and increase_inc: "limit_increase_amount (increase h f) = limit_increase_amount f"
    and increase_hit: "extendable h \<Longrightarrow> \<not> hit_limit (increase h f)"
    and increase_off: "\<not> extendable h \<Longrightarrow> increase h f = f"
    and increase_not_hit: "\<not> hit_limit f \<Longrightarrow> increase h f = f"
    and increase_max: "extendable h \<Longrightarrow> hit_limit f \<Longrightarrow> max_value f \<le> current_value f \<Longrightarrow>
                         max_value f + limit_increase_amount f \<le> max_value (increase h f)"
    and increase_max_le: "extendable h \<Longrightarrow> hit_limit f \<Longrightarrow> max_value f \<le> current_value f \<Longrightarrow>
                         max_value (increase h f) \<le> current_value f + limit_increase_amount f"
begin

text \<open>Any number of steps, without raising the limit in between\<close>

fun steps :: "nat \<Rightarrow> 'a control_flag \<Rightarrow> 'a control_flag" where
  "steps 0 f = f"
| "steps (Suc n) f = steps n (snd (step f))"

lemma steps_max: "max_value (steps n f) = max_value f"
  by (induction n arbitrary: f) (auto simp: step_max)

lemma steps_inc: "limit_increase_amount (steps n f) = limit_increase_amount f"
  by (induction n arbitrary: f) (auto simp: step_inc)

text \<open>A value below the limit never passes the limit by more than one step's amount.\<close>

lemma step_bounded:
  "current_value f \<le> max_value f + delta \<Longrightarrow> current_value (snd (step f)) \<le> max_value f + delta"
  using delta_nonneg by (auto simp: step_value)

lemma steps_bounded:
  "current_value f \<le> max_value f + delta \<Longrightarrow> current_value (steps n f) \<le> max_value f + delta"
proof (induction n arbitrary: f)
  case (Suc n)
  then show ?case using step_bounded [of f] Suc.IH [of "snd (step f)"] by (simp add: step_max)
qed simp

text \<open>Once refused, refused for ever, until the limit is raised.\<close>

lemma refused_stays:
  assumes "max_value f \<le> current_value f"
  shows "fst (step (steps n f)) \<noteq> None"
proof -
  have "current_value (steps n f) = current_value f" using assms
    by (induction n arbitrary: f) (auto simp: step_value step_max)
  with assms show ?thesis by (intro step_refused [THEN iffD2]) (simp add: steps_max)
qed

text \<open>After a refusal in an extendable mode, raising the limit by a positive amount re-enables steps.\<close>

lemma increase_reenables:
  assumes "fst (step f) \<noteq> None" and "extendable h"
    and "current_value f < max_value f + limit_increase_amount f"
  shows "fst (step (increase h (snd (step f)))) = None"
proof -
  have lim: "max_value f \<le> current_value f" using assms(1) by (rule step_refused [THEN iffD1])
  let ?g = "snd (step f)"
  have g: "hit_limit ?g" "max_value ?g \<le> current_value ?g" "current_value ?g = current_value f"
    "max_value ?g = max_value f" "limit_increase_amount ?g = limit_increase_amount f"
    using lim by (simp_all add: step_hit step_value step_max step_inc)
  have "current_value (increase h ?g) < max_value (increase h ?g)"
    using increase_max [OF assms(2) g(1,2)] assms(3) by (simp add: increase_value g)
  then show ?thesis using step_refused [of "increase h ?g"] by auto
qed

end

interpretation iter: control_flag_ops iter_step iter_increase_limit 1 Not
  by unfold_locales
    (auto simp: iter_step_def iter_increase_limit_def iter_reached_limit_def Let_def)

interpretation budget: control_flag_ops budget_step budget_increase_limit 0 "\<lambda>_. True"
  by unfold_locales
    (auto simp: budget_step_def budget_increase_limit_def budget_reached_limit_def Let_def)

end
