(* ===== verification/View.thy ===== *)
theory View
  imports Event_Codec
begin

text \<open>
  \<open>openhands/memory/view.py\<close> and \<open>openhands/memory/condenser/condenser.py\<close>: the view of the history
  an agent sees, and the interface of the strategies that shorten it. A condensation is recorded in
  the history as an action; the view interprets it.
\<close>

section \<open>Views\<close>

record view =
  v_events :: "event list"
  unhandled_condensation_request :: bool
  v_forgotten :: "int set"

definition mk_view :: "event list \<Rightarrow> view" where
  "mk_view es = \<lparr>v_events = es, unhandled_condensation_request = False, v_forgotten = {}\<rparr>"

text \<open>\<open>list.insert\<close>\<close>

definition py_insert :: "'a list \<Rightarrow> int \<Rightarrow> 'a \<Rightarrow> 'a list" where
  "py_insert xs i x =
     (let k = nat (slice_bound (int (length xs)) i) in take k xs @ x # drop k xs)"

text \<open>The ids one event removes from the view\<close>

definition event_forgets :: "event \<Rightarrow> exn + int list" where
  "event_forgets e =
     (case payload e of
        Act (CondensationAction c) \<Rightarrow> map_sum (\<lambda>x. x) (\<lambda>ids. ids @ [ev_id e]) (forgotten c)
      | Act CondensationRequestAction \<Rightarrow> Inr [ev_id e]
      | _ \<Rightarrow> Inr [])"

fun collect_forgotten :: "event list \<Rightarrow> exn + int list" where
  "collect_forgotten [] = Inr []"
| "collect_forgotten (e # es) =
     sbind (event_forgets e) (\<lambda>xs. sbind (collect_forgotten es) (\<lambda>ys. Inr (xs @ ys)))"

text \<open>The summary of the last condensation that has one; the argument is the reversed history.\<close>

fun find_summary :: "event list \<Rightarrow> (string \<times> int) option" where
  "find_summary [] = None"
| "find_summary (e # es) =
     (case payload e of
        Act (CondensationAction c) \<Rightarrow>
          (case (ca_summary c, ca_summary_offset c) of
             (Some s, Some off) \<Rightarrow> Some (s, off)
           | _ \<Rightarrow> find_summary es)
      | _ \<Rightarrow> find_summary es)"

fun find_request :: "event list \<Rightarrow> bool" where
  "find_request [] = False"
| "find_request (e # es) =
     (case payload e of
        Act (CondensationAction _) \<Rightarrow> False
      | Act CondensationRequestAction \<Rightarrow> True
      | _ \<Rightarrow> find_request es)"

definition from_events :: "event list \<Rightarrow> exn + view" where
  "from_events events =
     sbind (collect_forgotten events) (\<lambda>ids.
       let kept = filter (\<lambda>e. ev_id e \<notin> set ids) events;
           kept' = (case find_summary (rev events) of
                      None \<Rightarrow> kept
                    | Some (s, off) \<Rightarrow> py_insert kept off (mk_obs (AgentCondensationObservation s)))
       in Inr \<lparr>v_events = kept', unhandled_condensation_request = find_request (rev events),
               v_forgotten = set ids\<rparr>)"

text \<open>\<open>View.__getitem__\<close>, for a position; slices are \<^const>\<open>py_slice\<close> of the events.\<close>

definition index_error :: exn where
  "index_error = mk_exn ''IndexError'' OtherError ''list index out of range''"

definition view_nth :: "view \<Rightarrow> int \<Rightarrow> exn + event" where
  "view_nth v i = (case py_nth (v_events v) i of None \<Rightarrow> Inl index_error | Some e \<Rightarrow> Inr e)"

lemma set_py_insert: "set (py_insert xs i x) = insert x (set xs)"
proof -
  have "set (take k xs) \<union> set (drop k xs) = set xs" for k
    by (metis append_take_drop_id set_append)
  then show ?thesis by (auto simp: py_insert_def Let_def)
qed

lemma length_py_insert [simp]: "length (py_insert xs i x) = Suc (length xs)"
  by (simp add: py_insert_def Let_def)

section \<open>Well-formed histories\<close>

text \<open>Every condensation action in the history was accepted by its constructor.\<close>

definition condensations_ok :: "event list \<Rightarrow> bool" where
  "condensations_ok es \<longleftrightarrow>
     (\<forall>e \<in> set es. case payload e of Act a \<Rightarrow> action_fields_ok a | Obs _ \<Rightarrow> True)"

lemma forgotten_ok: "validate_field_polymorphism c \<Longrightarrow> \<exists>ids. forgotten c = Inr ids"
  by (auto simp: forgotten_def validate_field_polymorphism_def Let_def split: option.splits)

lemma event_forgets_ok:
  assumes "case payload e of Act a \<Rightarrow> action_fields_ok a | Obs _ \<Rightarrow> True"
  shows "\<exists>ids. event_forgets e = Inr ids"
  using assms forgotten_ok
  by (fastforce simp: event_forgets_def split: payload.splits action.splits)

lemma collect_forgotten_ok: "condensations_ok es \<Longrightarrow> \<exists>ids. collect_forgotten es = Inr ids"
proof (induction es)
  case (Cons e es)
  then obtain xs ys where "event_forgets e = Inr xs" "collect_forgotten es = Inr ys"
    using event_forgets_ok [of e] by (auto simp: condensations_ok_def)
  then show ?case by simp
qed simp

lemma collect_forgotten_append:
  "collect_forgotten (es @ fs) =
     sbind (collect_forgotten es) (\<lambda>xs. sbind (collect_forgotten fs) (\<lambda>ys. Inr (xs @ ys)))"
proof (induction es)
  case Nil
  then show ?case by (cases "collect_forgotten fs") simp_all
next
  case (Cons e es)
  then show ?case
    by (cases "event_forgets e"; cases "collect_forgotten es"; cases "collect_forgotten fs") simp_all
qed

lemma from_events_ok: "condensations_ok es \<Longrightarrow> \<exists>v. from_events es = Inr v"
  using collect_forgotten_ok by (fastforce simp: from_events_def Let_def)

lemma from_events_fields:
  assumes "from_events es = Inr v"
  shows "unhandled_condensation_request v = find_request (rev es)"
    and "\<exists>ids. collect_forgotten es = Inr ids \<and> v_forgotten v = set ids"
  using assms by (auto simp: from_events_def sbind_Inr_iff Let_def)

text \<open>What a view shows: nothing forgotten, and nothing that is not in the history but the summary.\<close>

lemma from_events_sound:
  assumes "from_events es = Inr v" "e \<in> set (v_events v)"
  shows "(e \<in> set es \<and> ev_id e \<notin> v_forgotten v) \<or>
         (\<exists>s. payload e = Obs (AgentCondensationObservation s) \<and> m_id e = None)"
  using assms
  by (auto simp: from_events_def sbind_Inr_iff Let_def set_py_insert split: option.splits)

lemma from_events_complete:
  assumes "from_events es = Inr v" "e \<in> set es" "ev_id e \<notin> v_forgotten v"
  shows "e \<in> set (v_events v)"
  using assms
  by (auto simp: from_events_def sbind_Inr_iff Let_def set_py_insert split: option.splits)

section \<open>The condenser interface\<close>

datatype condensed = KeepView view | Condensation condensation_action

type_synonym condenser = "view \<Rightarrow> (exn + condensed) \<times> jdict"

text \<open>\<open>RollingCondenser.condense\<close>; the second component is the metadata batch.\<close>

definition rolling_condense ::
    "(view \<Rightarrow> bool) \<Rightarrow> (view \<Rightarrow> (exn + condensation_action) \<times> jdict) \<Rightarrow> condenser" where
  "rolling_condense should_condense get_condensation v =
     (if should_condense v
      then map_prod (map_sum (\<lambda>x. x) Condensation) (\<lambda>m. m) (get_condensation v)
      else (Inr (KeepView v), []))"

definition CONDENSER_METADATA_KEY :: string where
  "CONDENSER_METADATA_KEY = ''condenser_meta''"

text \<open>
  \<open>write_metadata\<close> on the \<open>extra_data\<close> of a state. The entry is created as a list and only
  written here.
\<close>

definition write_metadata :: "jdict \<Rightarrow> jdict \<Rightarrow> jdict" where
  "write_metadata batch extra =
     (let batches = (case map_of extra CONDENSER_METADATA_KEY of Some (JList bs) \<Rightarrow> bs | _ \<Rightarrow> [])
      in alist_set CONDENSER_METADATA_KEY
           (JList (if batch \<noteq> [] then batches @ [JDict batch] else batches)) extra)"

definition get_condensation_metadata :: "jdict \<Rightarrow> json list" where
  "get_condensation_metadata extra =
     (case map_of extra CONDENSER_METADATA_KEY of Some (JList bs) \<Rightarrow> bs | _ \<Rightarrow> [])"

text \<open>\<open>condensed_history\<close>: the batch is written also when condensing raises.\<close>

definition condensed_history :: "condenser \<Rightarrow> view \<Rightarrow> jdict \<Rightarrow> (exn + condensed) \<times> jdict" where
  "condensed_history c v extra = (let (r, batch) = c v in (r, write_metadata batch extra))"

lemma metadata_batches:
  "get_condensation_metadata (snd (condensed_history c v extra)) =
     get_condensation_metadata extra @ (if snd (c v) \<noteq> [] then [JDict (snd (c v))] else [])"
  by (simp add: condensed_history_def split_beta Let_def get_condensation_metadata_def write_metadata_def)

text \<open>\<open>CondenserPipeline\<close>\<close>

fun pipeline_condense :: "condenser list \<Rightarrow> view \<Rightarrow> (exn + condensed) \<times> jdict list" where
  "pipeline_condense [] v = (Inr (KeepView v), [])"
| "pipeline_condense (c # cs) v =
     (let (r, batch) = c v
      in case r of
           Inr (KeepView v') \<Rightarrow> (let (r', bs) = pipeline_condense cs v' in (r', batch # bs))
         | _ \<Rightarrow> (r, batch # map (\<lambda>_. []) cs))"

definition pipeline_condensed_history ::
    "condenser list \<Rightarrow> view \<Rightarrow> jdict \<Rightarrow> (exn + condensed) \<times> jdict" where
  "pipeline_condensed_history cs v extra =
     (let (r, bs) = pipeline_condense cs v in (r, foldl (\<lambda>ex b. write_metadata b ex) extra bs))"

lemma pipeline_batches: "length (snd (pipeline_condense cs v)) = length cs"
proof (induction cs arbitrary: v)
  case (Cons c cs)
  then show ?case
    by (cases "c v"; cases "fst (c v)") (auto simp: split_beta split: condensed.split)
qed simp

subsection \<open>Rolling condensers\<close>

text \<open>
  What a rolling strategy promises: the action it produces names its forgotten ids in a valid way
  and does not touch the first events it is told to keep. From this follows that a condensation
  added to a well-formed history gives a view again, with the request served.
\<close>

locale rolling =
  fixes should_condense :: "view \<Rightarrow> bool"
    and get_condensation :: "view \<Rightarrow> (exn + condensation_action) \<times> jdict"
    and keep :: "view \<Rightarrow> event set"
    and pre :: "view \<Rightarrow> bool"
  assumes valid: "fst (get_condensation v) = Inr c \<Longrightarrow> validate_field_polymorphism c"
    and keeps: "pre v \<Longrightarrow> fst (get_condensation v) = Inr c \<Longrightarrow> forgotten c = Inr ids \<Longrightarrow>
                e \<in> keep v \<Longrightarrow> ev_id e \<notin> set ids"
begin

lemma condense_cases:
  "fst (rolling_condense should_condense get_condensation v) = Inr r \<Longrightarrow>
   (r = KeepView v \<and> \<not> should_condense v) \<or>
   (\<exists>c ids. r = Condensation c \<and> should_condense v \<and> forgotten c = Inr ids)"
  using valid forgotten_ok
  by (cases "fst (get_condensation v)") (auto simp: rolling_condense_def split: if_splits)

lemma next_view:
  assumes "condensations_ok es" "fst (get_condensation v) = Inr c"
    and "payload e = Act (CondensationAction c)"
  shows "\<exists>v'. from_events (es @ [e]) = Inr v' \<and> \<not> unhandled_condensation_request v'"
proof -
  have "condensations_ok (es @ [e])"
    using assms valid [OF assms(2)] by (auto simp: condensations_ok_def)
  then obtain v' where v': "from_events (es @ [e]) = Inr v'" using from_events_ok by blast
  moreover have "\<not> find_request (rev (es @ [e]))" using assms(3) by simp
  ultimately show ?thesis using from_events_fields(1) [OF v'] by auto
qed

lemma next_view_keeps:
  assumes hist: "from_events es = Inr v" and c: "fst (get_condensation v) = Inr c" and "pre v"
    and e: "payload e = Act (CondensationAction c)"
    and k: "k \<in> keep v" "k \<in> set es" "k \<in> set (v_events v)" "ev_id k \<notin> v_forgotten v" "ev_id k \<noteq> ev_id e"
    and v': "from_events (es @ [e]) = Inr v'"
  shows "k \<in> set (v_events v')"
proof -
  from forgotten_ok [OF valid [OF c]] obtain ids where ids: "forgotten c = Inr ids" by blast
  from from_events_fields(2) [OF hist] obtain xs
    where xs: "collect_forgotten es = Inr xs" "v_forgotten v = set xs" by blast
  have "v_forgotten v' = v_forgotten v \<union> set ids \<union> {ev_id e}"
    using from_events_fields(2) [OF v'] xs ids e
    by (auto simp: collect_forgotten_append event_forgets_def)
  with k keeps [OF \<open>pre v\<close> c ids k(1)] have "ev_id k \<notin> v_forgotten v'" by simp
  with k(2) from_events_complete [OF v', of k] show ?thesis by simp
qed

end

end
