(* ===== verification/File_Store.thy ===== *)
theory File_Store
  imports Prelude
begin

text \<open>
  \<open>openhands/storage/files.py\<close>, \<open>memory.py\<close> and \<open>locations.py\<close>: the file-store interface, its
  in-memory implementation and the file names of a conversation. File contents are of an
  arbitrary type: the callers store JSON documents and pickled objects.
\<close>

section \<open>The in-memory file store\<close>

type_synonym 'c fstore = "(string \<times> 'c) list"

definition fs_write :: "'c fstore \<Rightarrow> string \<Rightarrow> 'c \<Rightarrow> 'c fstore" where
  "fs_write fs path contents = alist_set path contents fs"

text \<open>\<^const>\<open>None\<close> is \<open>FileNotFoundError\<close>.\<close>

definition fs_read :: "'c fstore \<Rightarrow> string \<Rightarrow> 'c option" where
  "fs_read fs path = map_of fs path"

text \<open>\<open>os.path.join\<close>\<close>

definition path_join :: "string \<Rightarrow> string \<Rightarrow> string" where
  "path_join a b =
     (if str_startswith b ''/'' then b
      else if a = [] \<or> str_endswith a ''/'' then a @ b
      else a @ ''/'' @ b)"

definition fs_list_entry :: "string \<Rightarrow> string list \<Rightarrow> string \<Rightarrow> string list" where
  "fs_list_entry path files f =
     (if \<not> str_startswith f path then files
      else (let parts0 = str_split (CHR ''/'') (str_removeprefix f path);
                parts = (if hd parts0 = [] then tl parts0 else parts0)
            in if length parts = 1 then files @ [f]
               else (let d = path_join path (if parts = [] then [] else hd parts);
                         d' = (if str_endswith d ''/'' then d else d @ ''/'')
                     in if d' \<in> set files then files else files @ [d'])))"

text \<open>
  \<open>InMemoryFileStore.list\<close>: the entries one level below a path. A file whose name is the path
  itself makes the code index an empty list; \<^const>\<open>None\<close> is that \<open>IndexError\<close>.
\<close>

definition fs_list :: "'c fstore \<Rightarrow> string \<Rightarrow> string list option" where
  "fs_list fs path =
     (if path \<in> set (map fst fs) then None
      else Some (foldl (fs_list_entry path) [] (map fst fs)))"

text \<open>\<open>InMemoryFileStore.delete\<close>: every file whose name starts with the path\<close>

definition fs_delete :: "'c fstore \<Rightarrow> string \<Rightarrow> 'c fstore" where
  "fs_delete fs path = filter (\<lambda>(k, v). \<not> str_startswith k path) fs"

section \<open>The interface\<close>

text \<open>What the clients of a file store rely on\<close>

locale file_store =
  fixes rd :: "'s \<Rightarrow> string \<Rightarrow> 'c option"
    and wr :: "'s \<Rightarrow> string \<Rightarrow> 'c \<Rightarrow> 's"
    and dl :: "'s \<Rightarrow> string \<Rightarrow> 's"
  assumes read_write: "rd (wr s p c) q = (if q = p then Some c else rd s q)"
    and read_delete: "rd (dl s p) q = (if str_startswith q p then None else rd s q)"
begin

fun write_all :: "'s \<Rightarrow> (string \<times> 'c) list \<Rightarrow> 's" where
  "write_all s [] = s"
| "write_all s ((p, c) # ws) = write_all (wr s p c) ws"

lemma read_write_same: "rd (wr s p c) p = Some c"
  by (simp add: read_write)

lemma read_write_other: "q \<noteq> p \<Longrightarrow> rd (wr s p c) q = rd s q"
  by (simp add: read_write)

lemma read_write_all:
  "rd (write_all s ws) q = (case map_of (rev ws) q of Some c \<Rightarrow> Some c | None \<Rightarrow> rd s q)"
  by (induction s ws rule: write_all.induct) (auto simp: read_write map_add_def split: option.split)

text \<open>A file outside the deleted subtree survives.\<close>

lemma delete_frame: "\<not> str_startswith q p \<Longrightarrow> rd (dl s p) q = rd s q"
  by (simp add: read_delete)

end

lemma map_of_filter_key: "map_of (filter (\<lambda>(k, v). P k) d) q = (if P q then map_of d q else None)"
  by (induction d) auto

interpretation mem_store: file_store fs_read fs_write fs_delete
  by unfold_locales (auto simp: fs_read_def fs_write_def fs_delete_def map_of_filter_key)

section \<open>Locations\<close>

definition get_conversation_dir :: "string \<Rightarrow> string option \<Rightarrow> string" where
  "get_conversation_dir sid user_id =
     (case user_id of
        Some (c # u) \<Rightarrow> ''users/'' @ (c # u) @ ''/conversations/'' @ sid @ ''/''
      | _ \<Rightarrow> ''sessions/'' @ sid @ ''/'')"

definition get_conversation_events_dir :: "string \<Rightarrow> string option \<Rightarrow> string" where
  "get_conversation_events_dir sid user_id = get_conversation_dir sid user_id @ ''events/''"

definition get_conversation_event_filename :: "string \<Rightarrow> int \<Rightarrow> string option \<Rightarrow> string" where
  "get_conversation_event_filename sid i user_id =
     get_conversation_events_dir sid user_id @ show_int i @ ''.json''"

definition get_conversation_metadata_filename :: "string \<Rightarrow> string option \<Rightarrow> string" where
  "get_conversation_metadata_filename sid user_id = get_conversation_dir sid user_id @ ''metadata.json''"

definition get_conversation_init_data_filename :: "string \<Rightarrow> string option \<Rightarrow> string" where
  "get_conversation_init_data_filename sid user_id = get_conversation_dir sid user_id @ ''init.json''"

definition get_conversation_agent_state_filename :: "string \<Rightarrow> string option \<Rightarrow> string" where
  "get_conversation_agent_state_filename sid user_id = get_conversation_dir sid user_id @ ''agent_state.pkl''"

definition get_conversation_llm_registry_filename :: "string \<Rightarrow> string option \<Rightarrow> string" where
  "get_conversation_llm_registry_filename sid user_id = get_conversation_dir sid user_id @ ''llm_registry.json''"

definition get_conversation_stats_filename :: "string \<Rightarrow> string option \<Rightarrow> string" where
  "get_conversation_stats_filename sid user_id = get_conversation_dir sid user_id @ ''conversation_stats.pkl''"

definition get_experiment_config_filename :: "string \<Rightarrow> string option \<Rightarrow> string" where
  "get_experiment_config_filename sid user_id = get_conversation_dir sid user_id @ ''exp_config.json''"

lemma event_filename_inj:
  "get_conversation_event_filename sid i u = get_conversation_event_filename sid j u \<longleftrightarrow> i = j"
  by (auto simp: get_conversation_event_filename_def dest: show_int_inj)

text \<open>\<open>EventStore._get_filename_for_cache\<close>\<close>

definition get_filename_for_cache :: "string \<Rightarrow> string option \<Rightarrow> int \<Rightarrow> int \<Rightarrow> string" where
  "get_filename_for_cache sid user_id s e =
     get_conversation_dir sid user_id @ ''event_cache/'' @ show_int s @ ''-'' @ show_int e @ ''.json''"

lemma cache_filename_neq_event:
  "get_filename_for_cache sid u s e \<noteq> get_conversation_event_filename sid i u"
  by (simp add: get_filename_for_cache_def get_conversation_event_filename_def
      get_conversation_events_dir_def)

lemma nonneg_show_int_digits: "0 \<le> i \<Longrightarrow> c \<in> set (show_int i) \<Longrightarrow> is_digit c"
  by (auto simp: show_int_def dest: show_nat_digits)

lemma dash_split:
  assumes "a @ CHR ''-'' # b = a' @ CHR ''-'' # b'" "CHR ''-'' \<notin> set a" "CHR ''-'' \<notin> set a'"
  shows "a = a' \<and> b = b'"
proof -
  have "takeWhile (\<lambda>c. c \<noteq> CHR ''-'') (x @ CHR ''-'' # y) = x" if "CHR ''-'' \<notin> set x" for x y
    using that by (simp add: takeWhile_append)
  with assms have "a = a'" by metis
  with assms(1) show ?thesis by simp
qed

lemma cache_filename_inj:
  assumes "0 \<le> s"
  shows "get_filename_for_cache sid u s e = get_filename_for_cache sid u s' e' \<longleftrightarrow> s = s' \<and> e = e'"
proof
  assume "get_filename_for_cache sid u s e = get_filename_for_cache sid u s' e'"
  then have eq: "show_int s @ CHR ''-'' # show_int e = show_int s' @ CHR ''-'' # show_int e'"
    by (simp add: get_filename_for_cache_def)
  have nodash: "CHR ''-'' \<notin> set (show_int x)" if "0 \<le> x" for x
    using nonneg_show_int_digits [OF that] is_digit_neqs by blast
  have "0 \<le> s'"
  proof (rule ccontr)
    assume "\<not> 0 \<le> s'"
    then have "hd (show_int s' @ CHR ''-'' # show_int e') = CHR ''-''" by (simp add: show_int_def)
    moreover have "show_int s \<noteq> []" using assms by (simp add: show_int_def)
    ultimately have "CHR ''-'' \<in> set (show_int s)"
      using eq by (metis hd_append2 hd_in_set)
    with nodash [OF assms] show False by simp
  qed
  from dash_split [OF eq nodash [OF assms] nodash [OF this]]
  show "s = s' \<and> e = e'" by (auto dest: show_int_inj)
qed simp

end
