(* ===== verification/Agent_State.thy ===== *)
theory Agent_State
  imports Control_Flags View File_Store
begin

text \<open>
  \<open>openhands/controller/state/state.py\<close>: the state of a running agent, how it is saved to and
  restored from a session, and what is read off its history. The pickled object is the record of
  its attributes; attributes that an older version lacks, or that only an older version has, are
  optional there.
\<close>

datatype traffic_control_state = TC_NORMAL | TC_THROTTLING | TC_PAUSED

record state =
  session_id :: string
  st_user_id :: "string option"
  iteration_flag :: iteration_flag
  conversation_stats :: "conv_stats option"
  budget_flag :: "budget_flag option"
  confirmation_mode :: bool
  history :: "event list"
  inputs :: jdict
  outputs :: jdict
  agent_state :: agent_state
  resume_state :: "agent_state option"
  delegate_level :: int
  start_id :: int
  end_id :: int
  parent_metrics_snapshot :: "metrics option"
  parent_iteration :: int
  extra_data :: jdict
  last_error :: string
  dep_iteration :: "int option"
  dep_local_iteration :: "int option"
  dep_max_iterations :: "int option"
  dep_traffic_control_state :: "traffic_control_state option"
  dep_local_metrics :: "metrics option"
  dep_delegates :: "((int \<times> int) \<times> (string \<times> string)) list option"
  st_metrics :: metrics
  history_checksum :: int
  view_cache :: "view option"

text \<open>\<open>State()\<close>; the cache attributes do not exist yet, which reads as the checksum \<open>-1\<close>.\<close>

definition default_state :: state where
  "default_state =
     \<lparr>session_id = [], st_user_id = None, iteration_flag = mk_flag 100 0 100, conversation_stats = None,
      budget_flag = None, confirmation_mode = False, history = [], inputs = [], outputs = [],
      agent_state = LOADING, resume_state = None, delegate_level = 0, start_id = - 1, end_id = - 1,
      parent_metrics_snapshot = None, parent_iteration = 100, extra_data = [], last_error = [],
      dep_iteration = None, dep_local_iteration = None, dep_max_iterations = None,
      dep_traffic_control_state = None, dep_local_metrics = None, dep_delegates = None,
      st_metrics = metrics_init ''default'', history_checksum = - 1, view_cache = None\<rparr>"

definition RESUMABLE_STATES :: "agent_state list" where
  "RESUMABLE_STATES = [RUNNING, PAUSED, AWAITING_USER_INPUT, FINISHED]"

section \<open>Persistence\<close>

record pickled_state =
  pk_attrs :: state
  pk_history :: "event list option"
  pk_iteration_flag :: "iteration_flag option"
  pk_budget_flag :: "budget_flag option option"
  pk_iteration :: "int option"
  pk_max_iterations :: "int option"

definition without_deprecated :: "state \<Rightarrow> state" where
  "without_deprecated st =
     st\<lparr>dep_iteration := None, dep_local_iteration := None, dep_max_iterations := None,
        dep_traffic_control_state := None, dep_local_metrics := None, dep_delegates := None\<rparr>"

text \<open>\<open>__getstate__\<close>\<close>

definition getstate :: "state \<Rightarrow> pickled_state" where
  "getstate st =
     \<lparr>pk_attrs = (without_deprecated st)\<lparr>history := [], history_checksum := - 1, view_cache := None\<rparr>,
      pk_history = Some [], pk_iteration_flag = Some (iteration_flag st),
      pk_budget_flag = Some (budget_flag st), pk_iteration = None, pk_max_iterations = None\<rparr>"

text \<open>\<open>__setstate__\<close>\<close>

definition setstate :: "pickled_state \<Rightarrow> state" where
  "setstate pk =
     (let max_iterations = (case pk_max_iterations pk of None \<Rightarrow> 100 | Some m \<Rightarrow> m);
          flag = (case pk_iteration pk of
                    Some i \<Rightarrow> mk_flag max_iterations i max_iterations
                  | None \<Rightarrow>
                      (case pk_iteration_flag pk of None \<Rightarrow> mk_flag 100 0 100 | Some f \<Rightarrow> f))
      in (pk_attrs pk)\<lparr>iteration_flag := flag,
            history := (case pk_history pk of None \<Rightarrow> [] | Some h \<Rightarrow> h),
            budget_flag := (case pk_budget_flag pk of None \<Rightarrow> None | Some b \<Rightarrow> b),
            dep_iteration := pk_iteration pk, dep_max_iterations := pk_max_iterations pk\<rparr>)"

text \<open>\<open>save_to_session\<close>: the object is pickled without its statistics.\<close>

definition save_to_session ::
    "string \<Rightarrow> string option \<Rightarrow> state \<Rightarrow> pickled_state fstore \<Rightarrow> pickled_state fstore" where
  "save_to_session sid user st fs =
     (let fs1 = fs_write fs (get_conversation_agent_state_filename sid user)
                  (getstate (st\<lparr>conversation_stats := None\<rparr>))
      in if user \<noteq> None \<and> user \<noteq> Some []
         then fs_delete fs1 (get_conversation_agent_state_filename sid None)
         else fs1)"

text \<open>\<open>restore_from_session\<close>; \<^const>\<open>None\<close> is \<open>FileNotFoundError\<close>.\<close>

definition restore_from_session ::
    "string \<Rightarrow> string option \<Rightarrow> pickled_state fstore \<Rightarrow> state option" where
  "restore_from_session sid user fs =
     (let pk = (case fs_read fs (get_conversation_agent_state_filename sid user) of
                  Some p \<Rightarrow> Some p
                | None \<Rightarrow>
                    (if user \<noteq> None \<and> user \<noteq> Some []
                     then fs_read fs (get_conversation_agent_state_filename sid None) else None))
      in case pk of
           None \<Rightarrow> None
         | Some p \<Rightarrow>
             (let st = setstate p
              in Some (st\<lparr>resume_state := (if agent_state st \<in> set RESUMABLE_STATES
                                           then Some (agent_state st) else None),
                          agent_state := LOADING\<rparr>)))"

lemma setstate_getstate:
  "setstate (getstate st) = (without_deprecated st)\<lparr>history := [], history_checksum := - 1, view_cache := None\<rparr>"
  by (simp add: setstate_def getstate_def without_deprecated_def)

lemma agent_state_file_not_prefix:
  assumes "user = Some (c # u)"
  shows "\<not> str_startswith (get_conversation_agent_state_filename sid user)
           (get_conversation_agent_state_filename sid None)"
  using assms
  by (simp add: get_conversation_agent_state_filename_def get_conversation_dir_def str_startswith_iff)

lemma restore_save:
  "restore_from_session sid user (save_to_session sid user st fs) =
     Some ((without_deprecated st)
       \<lparr>conversation_stats := None, history := [], history_checksum := - 1, view_cache := None,
        resume_state := (if agent_state st \<in> set RESUMABLE_STATES then Some (agent_state st) else None),
        agent_state := LOADING\<rparr>)"
proof -
  have rd: "fs_read (save_to_session sid user st fs) (get_conversation_agent_state_filename sid user) =
      Some (getstate (st\<lparr>conversation_stats := None\<rparr>))"
  proof (cases "user \<noteq> None \<and> user \<noteq> Some []")
    case True
    then obtain c u where "user = Some (c # u)" by (cases user; cases "the user") auto
    then show ?thesis
      using agent_state_file_not_prefix [of user c u sid]
      by (simp add: save_to_session_def Let_def mem_store.read_write mem_store.read_delete)
  next
    case False
    then show ?thesis by (auto simp: save_to_session_def Let_def mem_store.read_write)
  qed
  then show ?thesis
    by (simp add: restore_from_session_def setstate_getstate Let_def without_deprecated_def)
qed

section \<open>The cached view\<close>

text \<open>The property \<open>view\<close>: the cache key is the length of the history.\<close>

definition get_view :: "state \<Rightarrow> (exn + view) \<times> state" where
  "get_view st =
     (let checksum = int (length (history st))
      in if checksum \<noteq> history_checksum st
         then (case from_events (history st) of
                 Inl x \<Rightarrow> (Inl x, st\<lparr>history_checksum := checksum\<rparr>)
               | Inr v \<Rightarrow> (Inr v, st\<lparr>history_checksum := checksum, view_cache := Some v\<rparr>))
         else (case view_cache st of
                 None \<Rightarrow> (Inl (mk_exn ''AttributeError'' OtherError ''_view''), st)
               | Some v \<Rightarrow> (Inr v, st)))"

text \<open>The cache is coherent: it holds the view of a history of the recorded length.\<close>

definition view_coherent :: "state \<Rightarrow> bool" where
  "view_coherent st \<longleftrightarrow>
     (history_checksum st = - 1 \<and> view_cache st = None) \<or>
     (\<exists>k v. history_checksum st = int k \<and> k \<le> length (history st) \<and> view_cache st = Some v \<and>
        from_events (take k (history st)) = Inr v)"

lemma get_view_fresh:
  assumes "view_coherent st" "from_events (history st) = Inr v"
  shows "fst (get_view st) = Inr v" and "view_coherent (snd (get_view st))"
  using assms by (auto simp: view_coherent_def get_view_def Let_def)

text \<open>Appending to the history keeps the cache coherent; shortening it need not.\<close>

lemma view_coherent_append:
  "view_coherent st \<Longrightarrow> view_coherent (st\<lparr>history := history st @ es\<rparr>)"
  by (auto simp: view_coherent_def)

section \<open>Reading the view\<close>

fun user_intent_loop ::
    "event list \<Rightarrow> string option \<Rightarrow> string list option \<Rightarrow> string option \<times> string list option" where
  "user_intent_loop [] msg imgs = (msg, imgs)"
| "user_intent_loop (e # es) msg imgs =
     (case payload e of
        Act (MessageAction m) \<Rightarrow>
          if m_source e = Some USER then user_intent_loop es (Some (ma_content m)) (ma_image_urls m)
          else user_intent_loop es msg imgs
      | Act (AgentFinishAction _) \<Rightarrow>
          if msg \<noteq> None then (msg, None) else user_intent_loop es msg imgs
      | _ \<Rightarrow> user_intent_loop es msg imgs)"

definition get_current_user_intent :: "view \<Rightarrow> string option \<times> string list option" where
  "get_current_user_intent v = user_intent_loop (rev (v_events v)) None (Some [])"

definition get_last_agent_message :: "view \<Rightarrow> event option" where
  "get_last_agent_message v = find is_agent_message (rev (v_events v))"

definition get_last_user_message :: "view \<Rightarrow> event option" where
  "get_last_user_message v = find is_user_message (rev (v_events v))"

definition get_local_step :: "state \<Rightarrow> int" where
  "get_local_step st =
     (if parent_iteration st = 0 then current_value (iteration_flag st)
      else current_value (iteration_flag st) - parent_iteration st)"

definition get_local_metrics :: "state \<Rightarrow> metrics" where
  "get_local_metrics st =
     (case parent_metrics_snapshot st of
        None \<Rightarrow> st_metrics st
      | Some b \<Rightarrow> metrics_diff (st_metrics st) b)"

text \<open>The intent is a user message of the view: the oldest one after the last finished task.\<close>

lemma user_intent_is_message:
  assumes "user_intent_loop es msg imgs = (Some t, r)"
  shows "Some t = msg \<or> (\<exists>e \<in> set es. is_user_message e \<and>
           (\<exists>m. payload e = Act (MessageAction m) \<and> ma_content m = t))"
  using assms
proof (induction es arbitrary: msg imgs)
  case (Cons e es)
  show ?case
  proof (cases "\<exists>m. payload e = Act (MessageAction m) \<and> m_source e = Some USER")
    case True
    then obtain m where m: "payload e = Act (MessageAction m)" "m_source e = Some USER" by blast
    with Cons.prems have "user_intent_loop es (Some (ma_content m)) (ma_image_urls m) = (Some t, r)" by simp
    from Cons.IH [OF this] m show ?thesis by (auto simp: is_message_from_def)
  next
    case False
    then have "user_intent_loop (e # es) msg imgs = user_intent_loop es msg imgs \<or>
        user_intent_loop (e # es) msg imgs = (msg, None)"
      by (auto split: payload.splits action.splits)
    with Cons.prems Cons.IH [of msg imgs] show ?thesis by auto
  qed
qed simp

end
