(* ===== verification/Serialization.thy ===== *)
theory Serialization
  imports Event_Codec
begin

text \<open>
  \<open>openhands/events/serialization\<close>: events to dictionaries and back.

  Parameters: \<open>rp\<close> is Python's \<open>repr\<close> of a dictionary (used in one displayed message),
  \<open>ver\<close> the package version (a field default) and \<open>lit\<close> is \<open>ast.literal_eval\<close> restricted to
  dictionary literals, \<^const>\<open>None\<close> for \<open>ValueError\<close> and \<open>SyntaxError\<close>. The object of the LLM client
  library inside \<open>ToolCallMetadata\<close> is kept as the data it dumps to.
\<close>

section \<open>To dictionaries\<close>

definition tool_call_dump :: "tool_call_metadata \<Rightarrow> json" where
  "tool_call_dump t =
     JDict [(''function_name'', JStr (tcm_function_name t)), (''tool_call_id'', JStr (tcm_tool_call_id t)),
            (''model_response'', tcm_model_response t),
            (''total_calls_in_response'', JInt (tcm_total_calls_in_response t))]"

text \<open>The property \<open>success\<close>, of two observation classes\<close>

fun obs_success :: "observation \<Rightarrow> bool option" where
  "obs_success (CmdOutputObservation b) = Some (\<not> cmd_error b)"
| "obs_success (IPythonRunCellObservation b) = Some True"
| "obs_success _ = None"

definition opt_entry :: "string \<Rightarrow> ('a \<Rightarrow> json) \<Rightarrow> 'a option \<Rightarrow> jdict" where
  "opt_entry k f v = (case v of None \<Rightarrow> [] | Some x \<Rightarrow> [(k, f x)])"

definition type_entry :: "payload \<Rightarrow> string \<times> json" where
  "type_entry p =
     (case p of Act a \<Rightarrow> (''action'', JStr (action_type a)) | Obs b \<Rightarrow> (''observation'', JStr (obs_type b)))"

definition body_entries :: "event \<Rightarrow> jdict" where
  "body_entries e =
     (case payload e of
        Act a \<Rightarrow> (''args'', JDict (action_props a)) # opt_entry ''timeout'' JFloat (m_timeout e)
      | Obs b \<Rightarrow> (''content'', JStr (obs_content b)) # (''extras'', JDict (obs_extras b))
                   # opt_entry ''success'' JBool (obs_success b))"

text \<open>\<open>event_to_dict\<close>, with \<open>TOP_KEYS\<close> in their order\<close>

definition event_to_dict :: "(jdict \<Rightarrow> string) \<Rightarrow> event \<Rightarrow> jdict option" where
  "event_to_dict rp e =
     (case ev_message rp e of
        None \<Rightarrow> None
      | Some msg \<Rightarrow>
          Some ((if ev_id e = INVALID_ID then [] else [(''id'', JInt (ev_id e))])
                @ opt_entry ''timestamp'' JStr (m_timestamp e)
                @ opt_entry ''source'' (\<lambda>s. JStr (source_value s)) (m_source e)
                @ [(''message'', JStr msg)]
                @ opt_entry ''cause'' JInt (m_cause e)
                @ [type_entry (payload e)]
                @ opt_entry ''tool_call_metadata'' tool_call_dump (m_tool_call e)
                @ opt_entry ''llm_metrics'' metrics_get (m_llm_metrics e)
                @ body_entries e))"

section \<open>From dictionaries: actions\<close>

text \<open>\<open>handle_action_deprecated_args\<close>\<close>

definition handle_action_deprecated_args ::
    "(string \<Rightarrow> jdict option) \<Rightarrow> jdict \<Rightarrow> ser_error + jdict" where
  "handle_action_deprecated_args lit args0 =
     (let args = alist_del ''task_completed'' (alist_del ''keep_prompt'' args0);
          finish = (\<lambda>d. if map_of d ''command'' = Some (JStr ''view'') then alist_del ''command'' d else d);
          file_editor_prefix = ''print(file_editor(**''
      in case map_of args ''translated_ipython_code'' of
           None \<Rightarrow> Inr args
         | Some JNull \<Rightarrow> Inr (finish (alist_del ''translated_ipython_code'' args))
         | Some (JStr code) \<Rightarrow>
             (let rest = alist_del ''translated_ipython_code'' args
              in if str_startswith code file_editor_prefix \<and> str_endswith code ''))''
                 then (case lit (py_slice code (Some (int (length file_editor_prefix))) (Some (- 2))) of
                         Some file_args \<Rightarrow> Inr (finish (alist_update rest file_args))
                       | None \<Rightarrow> Inr (finish rest))
                 else Inr (finish rest))
         | Some _ \<Rightarrow> Inl Untyped)"

text \<open>The renamed arguments\<close>

definition rename_confirmed :: "jdict \<Rightarrow> jdict" where
  "rename_confirmed args =
     (case map_of args ''is_confirmed'' of
        None \<Rightarrow> args
      | Some JNull \<Rightarrow> alist_del ''is_confirmed'' args
      | Some v \<Rightarrow> alist_set ''confirmation_state'' v (alist_del ''is_confirmed'' args))"

definition rename_images :: "jdict \<Rightarrow> jdict" where
  "rename_images args =
     (case map_of args ''images_urls'' of
        None \<Rightarrow> args
      | Some v \<Rightarrow> alist_set ''image_urls'' v (alist_del ''images_urls'' args))"

text \<open>\<open>ActionSecurityRisk(v)\<close>: lookup by value, where \<open>True == 1 == 1.0\<close>\<close>

definition risk_of_value :: "json \<Rightarrow> security_risk option" where
  "risk_of_value v =
     find (\<lambda>r. json_canon v = JFloat (of_int (risk_value r))) [UNKNOWN, LOW, MEDIUM, HIGH]"

definition convert_risk :: "jdict \<Rightarrow> jdict" where
  "convert_risk args =
     (case map_of args ''security_risk'' of
        None \<Rightarrow> args
      | Some JNull \<Rightarrow> args
      | Some v \<Rightarrow>
          (case risk_of_value v of
             Some r \<Rightarrow> alist_set ''security_risk'' (JInt (risk_value r)) args
           | None \<Rightarrow> alist_del ''security_risk'' args))"

text \<open>\<open>if timestamp: decoded_action._timestamp = timestamp\<close>; only a string is a visible timestamp\<close>

definition arg_timestamp :: "json option \<Rightarrow> string option" where
  "arg_timestamp v = (case v of Some (JStr (c # s)) \<Rightarrow> Some (c # s) | _ \<Rightarrow> None)"

definition apply_timeout :: "jdict \<Rightarrow> jdict \<Rightarrow> event \<Rightarrow> ser_error + event" where
  "apply_timeout d args e =
     (case map_of d ''timeout'' of
        None \<Rightarrow> Inr e
      | Some t \<Rightarrow>
          (case (dec_opt dec_rat t,
                 case map_of args ''blocking'' of None \<Rightarrow> Some False | Some b \<Rightarrow> dec_bool b) of
             (Some v, Some b) \<Rightarrow> Inr (set_hard_timeout v b e)
           | _ \<Rightarrow> Inl Untyped))"

definition as_malformed :: "ser_error + 'a \<Rightarrow> ser_error + 'a" where
  "as_malformed r = (case r of Inl Type_Error \<Rightarrow> Inl Malformed | _ \<Rightarrow> r)"

text \<open>\<open>action_from_dict\<close>\<close>

definition action_from_dict ::
    "string \<Rightarrow> (string \<Rightarrow> jdict option) \<Rightarrow> jdict \<Rightarrow> ser_error + event" where
  "action_from_dict ver lit d =
     (case map_of d ''action'' of
        Some (JStr t) \<Rightarrow>
          (case map_of ACTION_TYPE_TO_CLASS t of
             None \<Rightarrow> Inl Malformed
           | Some cls \<Rightarrow>
               (case (case map_of d ''args'' of None \<Rightarrow> Some [] | Some j \<Rightarrow> dec_dict j) of
                  None \<Rightarrow> Inl Untyped
                | Some args0 \<Rightarrow>
                    (let args1 = convert_risk (rename_images (rename_confirmed (alist_del ''timestamp'' args0)))
                     in sbind (handle_action_deprecated_args lit args1) (\<lambda>args.
                        sbind (as_malformed (construct_action ver cls args)) (\<lambda>a.
                        sbind (apply_timeout d args (mk_action a)) (\<lambda>e.
                        Inr (case arg_timestamp (map_of args0 ''timestamp'') of
                               None \<Rightarrow> e
                             | Some ts \<Rightarrow> e\<lparr>m_timestamp := Some ts\<rparr>)))))))
      | _ \<Rightarrow> Inl Malformed)"

section \<open>From dictionaries: observations\<close>

text \<open>\<open>_update_cmd_output_metadata\<close>; a fresh metadata object is the dictionary of its one argument.\<close>

definition update_cmd_output_metadata :: "json option \<Rightarrow> string \<Rightarrow> json \<Rightarrow> json" where
  "update_cmd_output_metadata md k v =
     (case md of
        None \<Rightarrow> JDict [(k, v)]
      | Some JNull \<Rightarrow> JDict [(k, v)]
      | Some (JDict d) \<Rightarrow> JDict (alist_set k v d)
      | Some j \<Rightarrow> j)"

definition move_into_metadata :: "string \<Rightarrow> string \<Rightarrow> jdict \<Rightarrow> jdict" where
  "move_into_metadata old new ex =
     (case map_of ex old of
        None \<Rightarrow> ex
      | Some v \<Rightarrow>
          alist_set ''metadata'' (update_cmd_output_metadata (map_of ex ''metadata'') new v) (alist_del old ex))"

text \<open>\<open>handle_observation_deprecated_extras\<close>\<close>

definition handle_observation_deprecated_extras :: "jdict \<Rightarrow> jdict" where
  "handle_observation_deprecated_extras ex =
     alist_del ''formatted_output_and_error''
       (move_into_metadata ''command_id'' ''pid'' (move_into_metadata ''exit_code'' ''exit_code'' ex))"

text \<open>The conversions for \<open>RecallObservation\<close>: an unknown recall type and a malformed entry raise.\<close>

definition check_recall :: "jdict \<Rightarrow> ser_error + unit" where
  "check_recall ex =
     (if (case map_of ex ''recall_type'' of None \<Rightarrow> False | Some j \<Rightarrow> dec_enum recall_members j = None)
      then Inl Value_Error
      else if (case map_of ex ''microagent_knowledge'' of
                 Some (JList js) \<Rightarrow>
                   \<exists>j \<in> set js. case j of JDict d \<Rightarrow> set (map fst d) \<noteq> {''name'', ''trigger'', ''content''}
                                        | _ \<Rightarrow> False
               | _ \<Rightarrow> False)
      then Inl Type_Error
      else Inr ())"

text \<open>\<open>observation_from_dict\<close>\<close>

definition observation_from_dict :: "jdict \<Rightarrow> ser_error + event" where
  "observation_from_dict d =
     (case map_of d ''observation'' of
        Some (JStr t) \<Rightarrow>
          (case map_of OBSERVATION_TYPE_TO_CLASS t of
             None \<Rightarrow> Inl Key_Error
           | Some cls \<Rightarrow>
               (case (case map_of d ''content'' of None \<Rightarrow> Some [] | Some j \<Rightarrow> dec_str j,
                      case map_of d ''extras'' of None \<Rightarrow> Some [] | Some j \<Rightarrow> dec_dict j) of
                  (Some content, Some ex0) \<Rightarrow>
                    (let ex = handle_observation_deprecated_extras ex0
                     in sbind (if cls = C_RecallObservation then check_recall ex else Inr ()) (\<lambda>_.
                        sbind (construct_observation cls content ex) (\<lambda>b. Inr (mk_obs b))))
                | _ \<Rightarrow> Inl Untyped))
      | _ \<Rightarrow> Inl Key_Error)"

section \<open>From dictionaries: metadata\<close>

fun dec_tool_call :: "json \<Rightarrow> ser_error + tool_call_metadata" where
  "dec_tool_call (JDict d) =
     (case (map_of d ''function_name'', map_of d ''tool_call_id'', map_of d ''model_response'',
            map_of d ''total_calls_in_response'') of
        (Some f, Some i, Some r, Some n) \<Rightarrow>
          (case (dec_str f, dec_str i, dec_int n) of
             (Some f', Some i', Some n') \<Rightarrow>
               Inr \<lparr>tcm_function_name = f', tcm_tool_call_id = i', tcm_model_response = r,
                    tcm_total_calls_in_response = n'\<rparr>
           | _ \<Rightarrow> Inl Untyped)
      | _ \<Rightarrow> Inl Value_Error)"
| "dec_tool_call _ = Inl Type_Error"

fun dec_cost :: "json \<Rightarrow> cost_entry option" where
  "dec_cost (JDict d) =
     (case (map_of d ''model'', map_of d ''cost'', map_of d ''timestamp'') of
        (Some (JStr m), Some c, Some t) \<Rightarrow>
          (case (dec_rat c, dec_rat t) of
             (Some c', Some t') \<Rightarrow> Some \<lparr>co_model = m, co_cost = c', co_timestamp = t'\<rparr>
           | _ \<Rightarrow> None)
      | _ \<Rightarrow> None)"
| "dec_cost _ = None"

fun dec_latency :: "json \<Rightarrow> response_latency option" where
  "dec_latency (JDict d) =
     (case (map_of d ''model'', map_of d ''latency'', map_of d ''response_id'') of
        (Some (JStr m), Some l, Some (JStr r)) \<Rightarrow>
          map_option (\<lambda>l'. \<lparr>rl_model = m, rl_latency = l', rl_response_id = r\<rparr>) (dec_rat l)
      | _ \<Rightarrow> None)"
| "dec_latency _ = None"

fun dec_usage :: "json \<Rightarrow> token_usage option" where
  "dec_usage (JDict d) =
     (case (opt_fld dec_str [] d ''model'', opt_fld dec_int 0 d ''prompt_tokens'',
            opt_fld dec_int 0 d ''completion_tokens'', opt_fld dec_int 0 d ''cache_read_tokens'') of
        (Some m, Some p, Some c, Some cr) \<Rightarrow>
          (case (opt_fld dec_int 0 d ''cache_write_tokens'', opt_fld dec_int 0 d ''context_window'',
                 opt_fld dec_int 0 d ''per_turn_token'', opt_fld dec_str [] d ''response_id'') of
             (Some cw, Some w, Some t, Some r) \<Rightarrow>
               Some \<lparr>tu_model = m, prompt_tokens = p, completion_tokens = c, cache_read_tokens = cr,
                     cache_write_tokens = cw, context_window = w, per_turn_token = t, tu_response_id = r\<rparr>
           | _ \<Rightarrow> None)
      | _ \<Rightarrow> None)"
| "dec_usage _ = None"

text \<open>The metrics branch of \<open>event_from_dict\<close>\<close>

fun metrics_from_dict :: "json \<Rightarrow> ser_error + metrics" where
  "metrics_from_dict (JDict d) =
     sbind (fld dec_rat (Some 0) d ''accumulated_cost'') (\<lambda>acc.
     sbind (map_sum (\<lambda>_. Value_Error) (\<lambda>m. m) (set_accumulated_cost (metrics_init ''default'') acc)) (\<lambda>m.
     sbind (fld (dec_opt dec_rat) (Some None) d ''max_budget_per_task'') (\<lambda>budget.
     sbind (fld (dec_list dec_cost) (Some []) d ''costs'') (\<lambda>cs.
     sbind (fld (dec_list dec_latency) (Some []) d ''response_latencies'') (\<lambda>ls.
     sbind (fld (dec_list dec_usage) (Some []) d ''token_usages'') (\<lambda>us.
     sbind (fld dec_usage (Some (accumulated_token_usage m)) d ''accumulated_token_usage'') (\<lambda>acu.
     Inr (m\<lparr>max_budget_per_task := budget, costs := cs, response_latencies := ls,
            token_usages := us, accumulated_token_usage := acu\<rparr>))))))))"
| "metrics_from_dict _ = Inr (metrics_init ''default'')"

text \<open>The loop over \<open>UNDERSCORE_KEYS\<close>\<close>

definition set_underscore_keys :: "jdict \<Rightarrow> event \<Rightarrow> ser_error + event" where
  "set_underscore_keys d e0 =
     sbind (fld (dec_opt dec_int) (Some (m_id e0)) d ''id'') (\<lambda>i.
     sbind (case map_of d ''source'' of
              None \<Rightarrow> Inr (m_source e0)
            | Some j \<Rightarrow> (case dec_enum source_members j of None \<Rightarrow> Inl Value_Error | Some s \<Rightarrow> Inr (Some s))) (\<lambda>src.
     sbind (fld (dec_opt dec_int) (Some (m_cause e0)) d ''cause'') (\<lambda>c.
     sbind (case map_of d ''tool_call_metadata'' of
              None \<Rightarrow> Inr (m_tool_call e0)
            | Some j \<Rightarrow> map_sum (\<lambda>x. x) Some (dec_tool_call j)) (\<lambda>tc.
     sbind (case map_of d ''llm_metrics'' of
              None \<Rightarrow> Inr (m_llm_metrics e0)
            | Some j \<Rightarrow> map_sum (\<lambda>x. x) Some (metrics_from_dict j)) (\<lambda>lm.
     Inr (e0\<lparr>m_id := i,
             m_timestamp := (case map_of d ''timestamp'' of
                               None \<Rightarrow> m_timestamp e0
                             | Some j \<Rightarrow> dec_str j),
             m_source := src, m_cause := c, m_tool_call := tc, m_llm_metrics := lm\<rparr>))))))"

text \<open>\<open>event_from_dict\<close>\<close>

definition event_from_dict ::
    "string \<Rightarrow> (string \<Rightarrow> jdict option) \<Rightarrow> jdict \<Rightarrow> ser_error + event" where
  "event_from_dict ver lit d =
     sbind (if ''action'' \<in> set (map fst d) then action_from_dict ver lit d
            else if ''observation'' \<in> set (map fst d) then observation_from_dict d
            else Inl Value_Error) (set_underscore_keys d)"

section \<open>What a round trip keeps\<close>

text \<open>
  The parts of an event that its dictionary carries: the identifier of the model response and a
  dynamically assigned confirmation state are not written, neither is the model name of the
  metrics nor the timeout of an observation.
\<close>

definition persisted :: "event \<Rightarrow> event" where
  "persisted e =
     e\<lparr>m_id := (if ev_id e = INVALID_ID then None else m_id e),
       m_timeout := (case payload e of Act _ \<Rightarrow> m_timeout e | Obs _ \<Rightarrow> None),
       m_llm_metrics := map_option (\<lambda>m. m\<lparr>model_name := ''default''\<rparr>) (m_llm_metrics e),
       m_response_id := None, m_confirmation := None,
       payload := (case payload e of Act a \<Rightarrow> Act a | Obs b \<Rightarrow> Obs (obs_retruncate b))\<rparr>"

definition serializable :: "event \<Rightarrow> bool" where
  "serializable e \<longleftrightarrow>
     (case payload e of Act a \<Rightarrow> action_fields_ok a | Obs b \<Rightarrow> True) \<and>
     (case m_llm_metrics e of None \<Rightarrow> True | Some m \<Rightarrow> 0 \<le> accumulated_cost m)"

lemma map_of_opt_entry [simp]: "map_of (opt_entry k f v) k' = (if k' = k then map_option f v else None)"
  by (simp add: opt_entry_def split: option.split)

lemma alist_del_absent: "map_of d k = None \<Longrightarrow> alist_del k d = d"
  unfolding alist_del_def by (induction d) (auto split: if_splits)

lemma alist_set_same: "map_of d k = Some v \<Longrightarrow> alist_set k v d = d"
  by (induction d) (auto split: if_splits)

lemma action_props_no_deprecated [simp]:
  "map_of (action_props a) ''timestamp'' = None"
  "map_of (action_props a) ''is_confirmed'' = None"
  "map_of (action_props a) ''images_urls'' = None"
  "map_of (action_props a) ''keep_prompt'' = None"
  "map_of (action_props a) ''task_completed'' = None"
  "map_of (action_props a) ''translated_ipython_code'' = None"
  by (cases a; simp)+

lemma action_props_risk:
  "map_of (action_props a) ''security_risk'' = map_option (\<lambda>r. JInt (risk_value r)) (get_security_risk a)"
  by (cases a; simp)

lemma risk_of_value_JInt [simp]: "risk_of_value (JInt (risk_value r)) = Some r"
  by (cases r; simp add: risk_of_value_def)

lemma convert_risk_props [simp]: "convert_risk (action_props a) = action_props a"
  by (auto simp: convert_risk_def action_props_risk alist_set_same split: option.split)

lemma deprecated_args_props [simp]:
  "handle_action_deprecated_args lit (action_props a) = Inr (action_props a)"
  by (simp add: handle_action_deprecated_args_def alist_del_absent Let_def)

lemma dec_cost_dump [simp]: "dec_cost (cost_dump c) = Some c"
  by (simp add: cost_dump_def)

lemma dec_latency_dump [simp]: "dec_latency (latency_dump c) = Some c"
  by (simp add: latency_dump_def)

lemma dec_usage_dump [simp]: "dec_usage (token_usage_dump c) = Some c"
  by (simp add: token_usage_dump_def opt_fld_def)

lemma dec_tool_call_dump [simp]: "dec_tool_call (tool_call_dump t) = Inr t"
  by (simp add: tool_call_dump_def)

lemma dec_opt_rat [simp]: "dec_opt dec_rat (case b of None \<Rightarrow> JNull | Some x \<Rightarrow> JFloat x) = Some b"
  by (cases b) simp_all

lemma metrics_from_get:
  "0 \<le> accumulated_cost m \<Longrightarrow> metrics_from_dict (metrics_get m) = Inr (m\<lparr>model_name := ''default''\<rparr>)"
  by (simp add: metrics_get_def fld_def set_accumulated_cost_def dec_all_map metrics_init_def)

text \<open>The entries of the dictionary of an event\<close>

lemma event_to_dict_lookup:
  assumes "event_to_dict rp e = Some d"
  shows "map_of d ''id'' = (if ev_id e = INVALID_ID then None else Some (JInt (ev_id e)))"
    and "map_of d ''timestamp'' = map_option JStr (m_timestamp e)"
    and "map_of d ''source'' = map_option (\<lambda>s. JStr (source_value s)) (m_source e)"
    and "map_of d ''cause'' = map_option JInt (m_cause e)"
    and "map_of d ''tool_call_metadata'' = map_option tool_call_dump (m_tool_call e)"
    and "map_of d ''llm_metrics'' = map_option metrics_get (m_llm_metrics e)"
    and "payload e = Act a \<Longrightarrow> map_of d ''action'' = Some (JStr (action_type a))"
    and "payload e = Act a \<Longrightarrow> map_of d ''args'' = Some (JDict (action_props a))"
    and "payload e = Act a \<Longrightarrow> map_of d ''timeout'' = map_option JFloat (m_timeout e)"
    and "payload e = Obs b \<Longrightarrow> map_of d ''action'' = None"
    and "payload e = Obs b \<Longrightarrow> map_of d ''observation'' = Some (JStr (obs_type b))"
    and "payload e = Obs b \<Longrightarrow> map_of d ''content'' = Some (JStr (obs_content b))"
    and "payload e = Obs b \<Longrightarrow> map_of d ''extras'' = Some (JDict (obs_extras b))"
  using assms
  by (auto simp: event_to_dict_def type_entry_def body_entries_def map_add_def
      split: option.splits payload.splits)

lemma set_underscore_roundtrip:
  assumes d: "event_to_dict rp e = Some d" and s: "serializable e"
    and e0: "m_id e0 = None" "m_source e0 = None" "m_cause e0 = None" "m_tool_call e0 = None"
      "m_llm_metrics e0 = None" "m_timestamp e0 = None"
  shows "set_underscore_keys d e0 =
    Inr (e0\<lparr>m_id := m_id (persisted e), m_timestamp := m_timestamp e, m_source := m_source e,
            m_cause := m_cause e, m_tool_call := m_tool_call e,
            m_llm_metrics := m_llm_metrics (persisted e)\<rparr>)"
proof -
  note look = event_to_dict_lookup(1-6) [OF d]
  have i: "fld (dec_opt dec_int) (Some (m_id e0)) d ''id'' = Inr (m_id (persisted e))"
    using e0 by (cases "m_id e") (auto simp: look fld_def persisted_def ev_id_def INVALID_ID_def)
  have c: "fld (dec_opt dec_int) (Some (m_cause e0)) d ''cause'' = Inr (m_cause e)"
    using e0 by (cases "m_cause e") (auto simp: look fld_def)
  have lm: "(case map_of d ''llm_metrics'' of
               None \<Rightarrow> Inr (m_llm_metrics e0)
             | Some j \<Rightarrow> map_sum (\<lambda>x. x) Some (metrics_from_dict j)) = Inr (m_llm_metrics (persisted e))"
    using e0 s by (cases "m_llm_metrics e")
      (auto simp: look persisted_def serializable_def metrics_from_get)
  show ?thesis
    unfolding set_underscore_keys_def i c lm
    using e0 by (cases "m_source e"; cases "m_tool_call e"; cases "m_timestamp e") (simp_all add: look)
qed

lemma apply_timeout_roundtrip:
  assumes "map_of d ''timeout'' = map_option JFloat t"
  shows "apply_timeout d (action_props a) (mk_action a) = Inr ((mk_action a)\<lparr>m_timeout := t\<rparr>)"
  using assms
  by (cases t; cases a) (simp_all add: apply_timeout_def set_hard_timeout_def mk_event_def)

lemma obs_extras_no_deprecated [simp]:
  "map_of (obs_extras b) ''exit_code'' = None" "map_of (obs_extras b) ''command_id'' = None"
  "map_of (obs_extras b) ''formatted_output_and_error'' = None"
  by (cases b; simp)+

lemma deprecated_extras [simp]: "handle_observation_deprecated_extras (obs_extras b) = obs_extras b"
  by (simp add: handle_observation_deprecated_extras_def move_into_metadata_def alist_del_absent)

lemma check_recall_extras [simp]: "check_recall (obs_extras (RecallObservation r)) = Inr ()"
  by (auto simp: check_recall_def enc_knowledge_def)

lemma obs_class_recall: "obs_class b = C_RecallObservation \<Longrightarrow> \<exists>r. b = RecallObservation r"
  by (cases b) simp_all

lemma event_from_to_dict:
  assumes d: "event_to_dict rp e = Some d" and s: "serializable e"
  shows "event_from_dict ver lit d = Inr (persisted e)"
proof (cases "payload e")
  case (Act a)
  note look = event_to_dict_lookup(7-9) [OF d Act]
  from Act s have ok: "action_fields_ok a" by (simp add: serializable_def)
  have "''action'' \<in> set (map fst d)" using look(1) by (force dest: map_of_SomeD)
  moreover have "action_from_dict ver lit d = Inr ((mk_action a)\<lparr>m_timeout := m_timeout e\<rparr>)"
    using look ok
    by (simp add: action_from_dict_def action_type_class rename_confirmed_def rename_images_def
        alist_del_absent construct_action_props as_malformed_def apply_timeout_roundtrip arg_timestamp_def)
  ultimately show ?thesis
    using Act set_underscore_roundtrip [OF d s, of "(mk_action a)\<lparr>m_timeout := m_timeout e\<rparr>"]
    by (simp add: event_from_dict_def mk_event_def persisted_def)
next
  case (Obs b)
  note look = event_to_dict_lookup(10-13) [OF d Obs]
  have "''action'' \<notin> set (map fst d)" using look(1) by (simp add: map_of_eq_None_iff)
  moreover have "''observation'' \<in> set (map fst d)" using look(2) by (force dest: map_of_SomeD)
  moreover have "observation_from_dict d = Inr (mk_obs (obs_retruncate b))"
    using look check_recall_extras
    by (auto simp: observation_from_dict_def obs_type_class construct_observation_extras
        dest!: obs_class_recall)
  ultimately show ?thesis
    using Obs set_underscore_roundtrip [OF d s, of "mk_obs (obs_retruncate b)"]
    by (simp add: event_from_dict_def mk_event_def persisted_def)
qed

subsection \<open>Truncation is stable\<close>

lemma length_trunc_notice [simp]: "length trunc_notice = 47"
  by (simp add: trunc_notice_def)

lemma maybe_truncate_idem:
  assumes "2 \<le> mx"
  shows "maybe_truncate (maybe_truncate s mx) mx = maybe_truncate s mx"
proof (cases "int (length s) \<le> mx")
  case False
  define h where "h = nat (mx div 2)"
  have h: "mx div 2 = int h" "0 < h" "h \<le> length s" "mx \<le> 2 * int h + 1"
    using assms False by (auto simp: h_def)
  define t where "t = take h s @ trunc_notice @ drop (length s - h) s"
  have t: "maybe_truncate s mx = t"
    using False h by (simp add: maybe_truncate_def t_def py_slice_last)
  have "length t = 2 * h + 47" using h by (simp add: t_def)
  moreover have "take h t = take h s" "drop (length t - h) t = drop (length s - h) s"
    using h by (simp_all add: t_def)
  ultimately have "maybe_truncate t mx = t"
    using h by (simp add: maybe_truncate_def py_slice_last Let_def) (simp add: t_def)
  with t show ?thesis by simp
qed (simp add: maybe_truncate_def)

lemma obs_retruncate_idem [simp]: "obs_retruncate (obs_retruncate b) = obs_retruncate b"
  by (cases b) (simp_all add: mk_cmd_output_def maybe_truncate_idem MAX_CMD_OUTPUT_SIZE_def)

lemma persisted_idem [simp]: "persisted (persisted e) = persisted e"
  by (auto simp: persisted_def ev_id_def option.map_comp o_def split: payload.split option.split)

section \<open>Trajectories\<close>

text \<open>\<open>remove_fields\<close>\<close>

fun remove_fields :: "string list \<Rightarrow> json \<Rightarrow> json" where
  "remove_fields fs (JDict d) =
     JDict (map (\<lambda>(k, v). (k, remove_fields fs v)) (filter (\<lambda>(k, v). k \<notin> set fs) d))"
| "remove_fields fs (JList xs) = JList (map (remove_fields fs) xs)"
| "remove_fields fs j = j"

definition DELETE_FROM_TRAJECTORY_EXTRAS :: "string list" where
  "DELETE_FROM_TRAJECTORY_EXTRAS =
     [''dom_object'', ''axtree_object'', ''active_page_index'', ''last_browser_action'',
      ''last_browser_action_error'', ''focused_element_bid'', ''extra_element_properties'']"

definition DELETE_FROM_TRAJECTORY_EXTRAS_AND_SCREENSHOTS :: "string list" where
  "DELETE_FROM_TRAJECTORY_EXTRAS_AND_SCREENSHOTS =
     DELETE_FROM_TRAJECTORY_EXTRAS @ [''screenshot'', ''set_of_marks'']"

definition event_to_trajectory :: "(jdict \<Rightarrow> string) \<Rightarrow> event \<Rightarrow> bool \<Rightarrow> jdict option" where
  "event_to_trajectory rp e include_screenshots =
     (case event_to_dict rp e of
        None \<Rightarrow> None
      | Some d \<Rightarrow>
          (case map_of d ''extras'' of
             None \<Rightarrow> Some d
           | Some ex \<Rightarrow>
               Some (alist_set ''extras''
                 (remove_fields (if include_screenshots then DELETE_FROM_TRAJECTORY_EXTRAS
                                 else DELETE_FROM_TRAJECTORY_EXTRAS_AND_SCREENSHOTS) ex) d)))"

fun json_keys :: "json \<Rightarrow> string list" where
  "json_keys (JDict d) = concat (map (\<lambda>(k, v). k # json_keys v) d)"
| "json_keys (JList xs) = concat (map json_keys xs)"
| "json_keys _ = []"

lemma remove_fields_keys: "set (json_keys (remove_fields fs j)) \<inter> set fs = {}"
  by (induction fs j rule: remove_fields.induct) fastforce+

end
