(* ===== verification/Event_Store.thy ===== *)
theory Event_Store
  imports Serialization File_Store
begin

text \<open>
  \<open>openhands/events/event_filter.py\<close>, \<open>event_store.py\<close> and the queries of \<open>event_store_abc.py\<close>: the
  events of a conversation as files, one per event, with read-only pages of several events beside
  them. A file holds the parsed JSON document. A generator is the list of what it yields, or the
  exception it ends with. The process is not shutting down (\<open>should_continue()\<close> holds).
\<close>

text \<open>The parameters of the serialization, with \<open>json.dumps\<close>\<close>

record codec =
  cd_repr :: "jdict \<Rightarrow> string"
  cd_version :: string
  cd_literal_eval :: "string \<Rightarrow> jdict option"
  cd_dumps :: "jdict \<Rightarrow> string"

definition to_dict :: "codec \<Rightarrow> event \<Rightarrow> jdict option" where
  "to_dict cd e = event_to_dict (cd_repr cd) e"

definition from_dict :: "codec \<Rightarrow> jdict \<Rightarrow> ser_error + event" where
  "from_dict cd d = event_from_dict (cd_version cd) (cd_literal_eval cd) d"

section \<open>Filters\<close>

record event_filter =
  exclude_hidden :: bool
  ef_query :: "string option"
  include_types :: "event_class list option"
  exclude_types :: "event_class list option"
  ef_source :: "string option"
  start_date :: "string option"
  end_date :: "string option"

definition no_filter :: event_filter where
  "no_filter = \<lparr>exclude_hidden = False, ef_query = None, include_types = None, exclude_types = None,
                ef_source = None, start_date = None, end_date = None\<rparr>"

text \<open>A string option in a condition: \<^const>\<open>None\<close> and the empty string are false.\<close>

definition given :: "string option \<Rightarrow> bool" where
  "given s \<longleftrightarrow> s \<noteq> None \<and> s \<noteq> Some []"

text \<open>
  \<open>json.dumps(event_to_dict(event))\<close>. An event that was stored has a dictionary, so the other
  case does not arise in a search.
\<close>

definition event_text :: "codec \<Rightarrow> event \<Rightarrow> string" where
  "event_text cd e = (case to_dict cd e of None \<Rightarrow> [] | Some d \<Rightarrow> cd_dumps cd d)"

text \<open>\<open>EventFilter.include\<close> and \<open>exclude\<close>\<close>

definition ef_include :: "codec \<Rightarrow> event_filter \<Rightarrow> event \<Rightarrow> bool" where
  "ef_include cd f e =
     (if include_types f \<noteq> None \<and> include_types f \<noteq> Some [] \<and>
         \<not> list_ex (isinstance e) (the (include_types f)) then False
      else if exclude_types f \<noteq> None \<and> list_ex (isinstance e) (the (exclude_types f)) then False
      else if given (ef_source f) \<and> map_option source_value (m_source e) \<noteq> ef_source f then False
      else if given (start_date f) \<and> m_timestamp e \<noteq> None \<and> the (m_timestamp e) < the (start_date f) then False
      else if given (end_date f) \<and> m_timestamp e \<noteq> None \<and> the (end_date f) < the (m_timestamp e) then False
      else if exclude_hidden f \<and> ev_hidden e then False
      else if given (ef_query f) \<and>
              \<not> str_contains (str_lower (the (ef_query f))) (str_lower (event_text cd e)) then False
      else True)"

definition ef_exclude :: "codec \<Rightarrow> event_filter \<Rightarrow> event \<Rightarrow> bool" where
  "ef_exclude cd f e \<longleftrightarrow> \<not> ef_include cd f e"

lemma ef_include_no_filter [simp]: "ef_include cd no_filter e"
  by (simp add: ef_include_def no_filter_def given_def)

section \<open>The store\<close>

datatype doc = EventDoc jdict | PageDoc "jdict list"

datatype store_error =
    File_Not_Found
  | Index_Error
  | Serialization_Error ser_error
  | Message_Error
  | Already_Has_Id int
  | Limit_Error
  | Callback_Exists

record event_store =
  es_sid :: string
  es_user :: "string option"
  es_files :: "doc fstore"
  es_cache_size :: int
  es_cur :: "int option"

definition filename_for_id :: "'a event_store_scheme \<Rightarrow> int \<Rightarrow> string" where
  "filename_for_id st i = get_conversation_event_filename (es_sid st) i (es_user st)"

text \<open>\<open>_get_id_from_filename\<close>\<close>

definition get_id_from_filename :: "string \<Rightarrow> int" where
  "get_id_from_filename filename =
     (case py_int (hd (str_split (CHR ''.'') (last (str_split (CHR ''/'') filename)))) of
        Some i \<Rightarrow> i
      | None \<Rightarrow> - 1)"

text \<open>\<open>_calculate_cur_id\<close>: the in-memory store lists an absent directory as empty.\<close>

definition max_file_id :: "string list \<Rightarrow> int" where
  "max_file_id files =
     foldl (\<lambda>max_id f. if get_id_from_filename f \<ge> max_id then get_id_from_filename f else max_id) (- 1) files"

definition calculate_cur_id :: "'a event_store_scheme \<Rightarrow> store_error + int" where
  "calculate_cur_id st =
     (case fs_list (es_files st) (get_conversation_events_dir (es_sid st) (es_user st)) of
        None \<Rightarrow> Inl Index_Error
      | Some files \<Rightarrow> Inr (if files = [] then 0 else max_file_id files + 1))"

text \<open>The property \<open>cur_id\<close>, computed once\<close>

definition cur_id :: "'a event_store_scheme \<Rightarrow> store_error + int \<times> 'a event_store_scheme" where
  "cur_id st =
     (case es_cur st of
        Some n \<Rightarrow> Inr (n, st)
      | None \<Rightarrow>
          (case calculate_cur_id st of
             Inl x \<Rightarrow> Inl x
           | Inr n \<Rightarrow> Inr (n, st\<lparr>es_cur := Some n\<rparr>)))"

definition decode_doc :: "codec \<Rightarrow> doc \<Rightarrow> store_error + event" where
  "decode_doc cd c =
     (case c of
        EventDoc d \<Rightarrow> map_sum Serialization_Error (\<lambda>e. e) (from_dict cd d)
      | PageDoc _ \<Rightarrow> Inl (Serialization_Error Type_Error))"

text \<open>\<open>get_event\<close>, \<open>get_latest_event_id\<close>, \<open>get_latest_event\<close>\<close>

definition get_event :: "codec \<Rightarrow> 'a event_store_scheme \<Rightarrow> int \<Rightarrow> store_error + event" where
  "get_event cd st i =
     (case fs_read (es_files st) (filename_for_id st i) of
        None \<Rightarrow> Inl File_Not_Found
      | Some c \<Rightarrow> decode_doc cd c)"

definition get_latest_event_id :: "'a event_store_scheme \<Rightarrow> store_error + int \<times> 'a event_store_scheme" where
  "get_latest_event_id st = map_sum (\<lambda>x. x) (\<lambda>(n, st'). (n - 1, st')) (cur_id st)"

definition get_latest_event :: "codec \<Rightarrow> 'a event_store_scheme \<Rightarrow> store_error + event" where
  "get_latest_event cd st = sbind (cur_id st) (\<lambda>(n, st'). get_event cd st' (n - 1))"

subsection \<open>Pages\<close>

record cache_page =
  cp_events :: "jdict list option"
  cp_start :: int
  cp_end :: int

definition covers :: "cache_page \<Rightarrow> int \<Rightarrow> bool" where
  "covers p i = (if i < cp_start p then False else if i \<ge> cp_end p then False else True)"

definition page_get_event :: "codec \<Rightarrow> cache_page \<Rightarrow> int \<Rightarrow> store_error + event option" where
  "page_get_event cd p i =
     (case cp_events p of
        None \<Rightarrow> Inr None
      | Some [] \<Rightarrow> Inr None
      | Some ds \<Rightarrow>
          (case py_nth ds (i - cp_start p) of
             None \<Rightarrow> Inl Index_Error
           | Some d \<Rightarrow> map_sum Serialization_Error Some (from_dict cd d)))"

definition DUMMY_PAGE :: cache_page where
  "DUMMY_PAGE = \<lparr>cp_events = None, cp_start = 1, cp_end = - 1\<rparr>"

definition load_cache_page :: "'a event_store_scheme \<Rightarrow> int \<Rightarrow> int \<Rightarrow> cache_page" where
  "load_cache_page st s e =
     \<lparr>cp_events =
        (case fs_read (es_files st) (get_filename_for_cache (es_sid st) (es_user st) s e) of
           Some (PageDoc ds) \<Rightarrow> Some ds
         | _ \<Rightarrow> None),
      cp_start = s, cp_end = e\<rparr>"

definition load_cache_page_for_index :: "'a event_store_scheme \<Rightarrow> int \<Rightarrow> cache_page" where
  "load_cache_page_for_index st i =
     (let s = i - i mod es_cache_size st in load_cache_page st s (s + es_cache_size st))"

subsection \<open>Searching\<close>

text \<open>One index of the loop: the page in use afterwards and the event found\<close>

definition search_step ::
    "codec \<Rightarrow> 'a event_store_scheme \<Rightarrow> cache_page \<Rightarrow> int \<Rightarrow> store_error + cache_page \<times> event option" where
  "search_step cd st page i =
     (let p = (if covers page i then page else load_cache_page_for_index st i)
      in sbind (page_get_event cd p i) (\<lambda>r.
           case r of
             Some e \<Rightarrow> Inr (p, Some e)
           | None \<Rightarrow>
               (case get_event cd st i of
                  Inr e \<Rightarrow> Inr (p, Some e)
                | Inl File_Not_Found \<Rightarrow> Inr (p, None)
                | Inl x \<Rightarrow> Inl x)))"

fun search_loop ::
    "codec \<Rightarrow> 'a event_store_scheme \<Rightarrow> event_filter option \<Rightarrow> int option \<Rightarrow> cache_page \<Rightarrow> int \<Rightarrow>
     int list \<Rightarrow> store_error + event list" where
  "search_loop cd st flt limit page num_results [] = Inr []"
| "search_loop cd st flt limit page num_results (i # is) =
     sbind (search_step cd st page i) (\<lambda>(p, r).
       case r of
         None \<Rightarrow> search_loop cd st flt limit p num_results is
       | Some e \<Rightarrow>
           if flt = None \<or> ef_include cd (the flt) e
           then (if limit \<noteq> None \<and> limit \<noteq> Some 0 \<and> the limit \<le> num_results + 1
                 then Inr [e]
                 else sbind (search_loop cd st flt limit p (num_results + 1) is) (\<lambda>es. Inr (e # es)))
           else search_loop cd st flt limit p num_results is)"

text \<open>\<open>range(start_id, end_id, step)\<close> after the adjustments for \<open>reverse\<close>\<close>

definition search_range :: "int \<Rightarrow> int \<Rightarrow> bool \<Rightarrow> int list" where
  "search_range s e reverse = (if reverse then rev [s..e - 1] else [s..e - 1])"

definition search_events ::
    "codec \<Rightarrow> 'a event_store_scheme \<Rightarrow> int \<Rightarrow> int option \<Rightarrow> bool \<Rightarrow> event_filter option \<Rightarrow> int option \<Rightarrow>
     store_error + event list" where
  "search_events cd st start_id end_id reverse flt limit =
     (case end_id of
        Some e \<Rightarrow> search_loop cd st flt limit DUMMY_PAGE 0 (search_range start_id (e + 1) reverse)
      | None \<Rightarrow>
          sbind (cur_id st) (\<lambda>(n, st').
            search_loop cd st' flt limit DUMMY_PAGE 0 (search_range start_id n reverse)))"

text \<open>
  Consuming the generator up to its first event with a property, as a loop that returns there and
  \<open>next\<close> do: nothing after that event is read.
\<close>

fun search_first_loop ::
    "codec \<Rightarrow> 'a event_store_scheme \<Rightarrow> (event \<Rightarrow> bool) \<Rightarrow> cache_page \<Rightarrow> int list \<Rightarrow> store_error + event option" where
  "search_first_loop cd st P page [] = Inr None"
| "search_first_loop cd st P page (i # is) =
     sbind (search_step cd st page i) (\<lambda>(p, r).
       case r of
         None \<Rightarrow> search_first_loop cd st P p is
       | Some e \<Rightarrow> if P e then Inr (Some e) else search_first_loop cd st P p is)"

definition search_first ::
    "codec \<Rightarrow> 'a event_store_scheme \<Rightarrow> int \<Rightarrow> bool \<Rightarrow> (event \<Rightarrow> bool) \<Rightarrow> store_error + event option" where
  "search_first cd st start_id reverse P =
     sbind (cur_id st) (\<lambda>(n, st').
       search_first_loop cd st' P DUMMY_PAGE (search_range start_id n reverse))"

text \<open>
  \<open>filtered_events_by_source\<close>, \<open>get_events\<close>, \<open>get_matching_events\<close>. \<open>islice(events, limit)\<close> leaves the
  generator after \<open>limit\<close> results, as the search itself does with that limit.
\<close>

definition filtered_events_by_source ::
    "codec \<Rightarrow> 'a event_store_scheme \<Rightarrow> event_source \<Rightarrow> store_error + event list" where
  "filtered_events_by_source cd st src =
     map_sum (\<lambda>x. x) (filter (\<lambda>e. m_source e = Some src)) (search_events cd st 0 None False None None)"

definition get_events ::
    "codec \<Rightarrow> 'a event_store_scheme \<Rightarrow> int \<Rightarrow> int option \<Rightarrow> bool \<Rightarrow> event_class list option \<Rightarrow> bool \<Rightarrow>
     store_error + event list" where
  "get_events cd st start_id end_id reverse filter_out_type filter_hidden =
     search_events cd st start_id end_id reverse
       (Some (no_filter\<lparr>exclude_types := filter_out_type, exclude_hidden := filter_hidden\<rparr>)) None"

definition get_matching_events ::
    "codec \<Rightarrow> 'a event_store_scheme \<Rightarrow> string option \<Rightarrow> event_class list option \<Rightarrow> string option \<Rightarrow>
     string option \<Rightarrow> string option \<Rightarrow> int \<Rightarrow> int \<Rightarrow> bool \<Rightarrow> store_error + event list" where
  "get_matching_events cd st query event_types source sd ed start_id limit reverse =
     (if limit < 1 \<or> limit > 100 then Inl Limit_Error
      else search_events cd st start_id None reverse
             (Some (no_filter\<lparr>ef_query := query, include_types := event_types, ef_source := source,
                              start_date := sd, end_date := ed\<rparr>)) (Some limit))"

section \<open>Pages are transparent\<close>

text \<open>The event of an id, as its own file has it\<close>

definition event_at :: "codec \<Rightarrow> 'a event_store_scheme \<Rightarrow> int \<Rightarrow> event option" where
  "event_at cd st i = (case get_event cd st i of Inr e \<Rightarrow> Some e | Inl _ \<Rightarrow> None)"

text \<open>Every event file decodes, and every page repeats the files of its range.\<close>

definition store_ok :: "codec \<Rightarrow> 'a event_store_scheme \<Rightarrow> bool" where
  "store_ok cd st \<longleftrightarrow>
     0 < es_cache_size st \<and>
     (\<forall>i c. fs_read (es_files st) (filename_for_id st i) = Some c \<longrightarrow>
        (\<exists>d e. c = EventDoc d \<and> from_dict cd d = Inr e)) \<and>
     (\<forall>s ds. fs_read (es_files st)
               (get_filename_for_cache (es_sid st) (es_user st) s (s + es_cache_size st)) = Some (PageDoc ds) \<longrightarrow>
        length ds = nat (es_cache_size st) \<and>
        (\<forall>k < length ds. fs_read (es_files st) (filename_for_id st (s + int k)) = Some (EventDoc (ds ! k))))"

definition page_valid :: "'a event_store_scheme \<Rightarrow> cache_page \<Rightarrow> bool" where
  "page_valid st p \<longleftrightarrow>
     (\<forall>ds i. cp_events p = Some ds \<longrightarrow> covers p i \<longrightarrow>
        (\<exists>d. py_nth ds (i - cp_start p) = Some d \<and>
             fs_read (es_files st) (filename_for_id st i) = Some (EventDoc d)))"

text \<open>The first results up to a limit, where \<open>0\<close> is no limit and a negative one keeps one result\<close>

definition cut :: "int option \<Rightarrow> int \<Rightarrow> 'e list \<Rightarrow> 'e list" where
  "cut limit k xs =
     (if limit = None \<or> limit = Some 0 then xs else take (nat (max 1 (the limit - k))) xs)"

definition matching :: "codec \<Rightarrow> event_filter option \<Rightarrow> event list \<Rightarrow> event list" where
  "matching cd flt es = filter (\<lambda>e. flt = None \<or> ef_include cd (the flt) e) es"

lemma page_valid_dummy [simp]: "page_valid st DUMMY_PAGE"
  by (simp add: page_valid_def DUMMY_PAGE_def)

lemma covers_iff: "covers p i \<longleftrightarrow> cp_start p \<le> i \<and> i < cp_end p"
  by (auto simp: covers_def)

lemma page_valid_load:
  assumes "store_ok cd st"
  shows "page_valid st (load_cache_page_for_index st i)"
  unfolding page_valid_def
proof (intro allI impI)
  fix ds j
  let ?s = "i - i mod es_cache_size st"
  assume ev: "cp_events (load_cache_page_for_index st i) = Some ds"
    and cov: "covers (load_cache_page_for_index st i) j"
  then have rd: "fs_read (es_files st)
      (get_filename_for_cache (es_sid st) (es_user st) ?s (?s + es_cache_size st)) = Some (PageDoc ds)"
    by (auto simp: load_cache_page_for_index_def load_cache_page_def Let_def split: option.splits doc.splits)
  with assms have len: "length ds = nat (es_cache_size st)"
    and docs: "\<And>k. k < length ds \<Longrightarrow>
      fs_read (es_files st) (filename_for_id st (?s + int k)) = Some (EventDoc (ds ! k))"
    and pos: "0 < es_cache_size st"
    by (auto simp: store_ok_def)
  from cov have j: "?s \<le> j" "j < ?s + es_cache_size st"
    by (auto simp: covers_iff load_cache_page_for_index_def load_cache_page_def Let_def)
  let ?k = "nat (j - ?s)"
  from j len have k: "?k < length ds" "j = ?s + int ?k" by auto
  have "py_nth ds (j - ?s) = Some (ds ! ?k)" using k(1) j by (simp add: py_nth_def Let_def nat_less_iff)
  moreover have "fs_read (es_files st) (filename_for_id st j) = Some (EventDoc (ds ! ?k))"
    using docs [OF k(1)] k(2) by metis
  ultimately show "\<exists>d. py_nth ds (j - cp_start (load_cache_page_for_index st i)) = Some d \<and>
      fs_read (es_files st) (filename_for_id st j) = Some (EventDoc d)"
    by (simp add: load_cache_page_for_index_def load_cache_page_def Let_def)
qed

lemma covers_load: "0 < es_cache_size st \<Longrightarrow> covers (load_cache_page_for_index st i) i"
  using pos_mod_sign [of "es_cache_size st" i] pos_mod_bound [of "es_cache_size st" i]
  by (simp add: covers_iff load_cache_page_for_index_def load_cache_page_def Let_def)

lemma get_event_cases:
  assumes "store_ok cd st"
  obtains "get_event cd st i = Inl File_Not_Found" "event_at cd st i = None"
    "fs_read (es_files st) (filename_for_id st i) = None"
  | e d where "get_event cd st i = Inr e" "event_at cd st i = Some e"
    "fs_read (es_files st) (filename_for_id st i) = Some (EventDoc d)" "from_dict cd d = Inr e"
proof (cases "fs_read (es_files st) (filename_for_id st i)")
  case None
  then show ?thesis using that(1) by (simp add: get_event_def event_at_def)
next
  case (Some c)
  with assms obtain d e where "c = EventDoc d" "from_dict cd d = Inr e"
    unfolding store_ok_def by blast
  with Some show ?thesis using that(2) by (simp add: get_event_def event_at_def decode_doc_def)
qed

lemma search_step_spec:
  assumes ok: "store_ok cd st" and pv: "page_valid st page"
  shows "\<exists>p. search_step cd st page i = Inr (p, event_at cd st i) \<and> page_valid st p"
proof -
  define p where "p = (if covers page i then page else load_cache_page_for_index st i)"
  have p: "page_valid st p" "covers p i"
    using pv page_valid_load [OF ok] covers_load ok by (auto simp: p_def store_ok_def)
  show ?thesis
  proof (cases "cp_events p = None \<or> cp_events p = Some []")
    case True
    then have "page_get_event cd p i = Inr None" by (auto simp: page_get_event_def)
    with p show ?thesis
      by (rule_tac get_event_cases [OF ok, of i])
        (auto simp: search_step_def p_def [symmetric] Let_def)
  next
    case False
    then obtain x xs where ds: "cp_events p = Some (x # xs)"
      by (cases "cp_events p"; cases "the (cp_events p)") auto
    with p obtain d where d: "py_nth (x # xs) (i - cp_start p) = Some d"
      "fs_read (es_files st) (filename_for_id st i) = Some (EventDoc d)"
      unfolding page_valid_def by blast
    with p ds show ?thesis
      by (rule_tac get_event_cases [OF ok, of i])
        (auto simp: search_step_def p_def [symmetric] Let_def page_get_event_def)
  qed
qed

lemma search_loop_spec:
  assumes "store_ok cd st" and "page_valid st page"
  shows "search_loop cd st flt limit page k is =
         Inr (cut limit k (matching cd flt (List.map_filter (event_at cd st) is)))"
  using assms(2)
proof (induction "is" arbitrary: page k)
  case Nil
  then show ?case by (simp add: cut_def matching_def map_filter_simps)
next
  case (Cons i "is")
  obtain p where p: "search_step cd st page i = Inr (p, event_at cd st i)" "page_valid st p"
    using search_step_spec [OF assms(1) Cons.prems] by blast
  show ?case
  proof (cases "event_at cd st i")
    case None
    with p Cons.IH [OF p(2)] show ?thesis by (simp add: map_filter_simps)
  next
    case (Some e)
    have take1: "take (nat (max 1 (l - k))) (e # es) = e # take (nat (max 1 (l - (k + 1)))) es"
      if "\<not> l \<le> k + 1" for l and es :: "event list"
    proof -
      from that have "nat (max 1 (l - k)) = Suc (nat (max 1 (l - (k + 1))))" by linarith
      then show ?thesis by (metis take_Suc_Cons)
    qed
    have take2: "take (nat (max 1 (l - k))) (e # es) = [e]" if "l \<le> k + 1" for l and es :: "event list"
    proof -
      from that have "max 1 (l - k) = 1" by linarith
      then show ?thesis by (simp only: nat_one_as_int) simp
    qed
    show ?thesis
      using p Some Cons.IH [OF p(2)] take1 take2
      by (auto simp: map_filter_simps matching_def cut_def)
  qed
qed

lemma search_first_loop_spec:
  assumes "store_ok cd st" and "page_valid st page"
  shows "search_first_loop cd st P page is = Inr (find P (List.map_filter (event_at cd st) is))"
  using assms(2)
proof (induction "is" arbitrary: page)
  case (Cons i "is")
  obtain p where p: "search_step cd st page i = Inr (p, event_at cd st i)" "page_valid st p"
    using search_step_spec [OF assms(1) Cons.prems] by blast
  then show ?case
    using Cons.IH [OF p(2)] by (cases "event_at cd st i") (simp_all add: map_filter_simps)
qed (simp add: map_filter_simps)

lemma cur_id_same:
  assumes "cur_id st = Inr (n, st')"
  shows "event_at cd st' = event_at cd st" "store_ok cd st' = store_ok cd st"
  using assms
  by (auto simp: cur_id_def event_at_def get_event_def filename_for_id_def store_ok_def fun_eq_iff
      split: option.splits sum.splits)

lemma search_first_spec:
  assumes ok: "store_ok cd st" and n: "cur_id st = Inr (n, st')"
  shows "search_first cd st s reverse P =
    Inr (find P (List.map_filter (event_at cd st) (search_range s n reverse)))"
  using search_first_loop_spec [OF _ page_valid_dummy, of cd st' P] ok cur_id_same [OF n, of cd] n
  by (simp add: search_first_def)

lemma search_events_spec:
  assumes ok: "store_ok cd st" and n: "cur_id st = Inr (n, st')"
  shows "search_events cd st s e reverse flt limit =
    Inr (cut limit 0 (matching cd flt
      (List.map_filter (event_at cd st)
         (search_range s (case e of None \<Rightarrow> n | Some x \<Rightarrow> x + 1) reverse))))"
  using search_loop_spec [OF ok page_valid_dummy] search_loop_spec [OF _ page_valid_dummy, of cd st']
    ok cur_id_same [OF n, of cd] n
  by (simp add: search_events_def split: option.split)

end
