(* ===== verification/Event_Stream.thy ===== *)
theory Event_Stream
  imports Event_Store
begin

text \<open>
  \<open>openhands/events/stream.py\<close>: the stream assigns ids, hides secrets, stores every event and the
  full pages, and hands the events to its subscribers.

  A callback is a value of type \<open>'c\<close>; executors and event loops are represented by the keys under
  which they are registered. The lock makes the id assignment and the page update one step; the
  operations below are the sequential steps of the threads.
\<close>

record 'c event_stream = event_store +
  secrets :: "(string \<times> string) list"
  subscribers :: "(string \<times> (string \<times> 'c) list) list"
  thread_pools :: "(string \<times> string list) list"
  thread_loops :: "(string \<times> string list) list"
  write_page :: "jdict list"
  equeue :: "event list"
  stop_flag :: bool

definition event_stream_init :: "string \<Rightarrow> doc fstore \<Rightarrow> string option \<Rightarrow> 'c event_stream" where
  "event_stream_init sid files user =
     \<lparr>es_sid = sid, es_user = user, es_files = files, es_cache_size = 25, es_cur = None,
      secrets = [], subscribers = [], thread_pools = [], thread_loops = [], write_page = [],
      equeue = [], stop_flag = False\<rparr>"

section \<open>Secrets\<close>

definition SECRET_HIDDEN :: string where
  "SECRET_HIDDEN = ''<secret_hidden>''"

definition TOP_LEVEL_PROTECTED_FIELDS :: "string list" where
  "TOP_LEVEL_PROTECTED_FIELDS =
     [''timestamp'', ''id'', ''source'', ''cause'', ''action'', ''observation'', ''message'']"

definition hide_secrets :: "string list \<Rightarrow> string \<Rightarrow> string" where
  "hide_secrets ss s = foldl (\<lambda>acc secret. str_replace acc secret SECRET_HIDDEN) s ss"

text \<open>\<open>_replace_secrets\<close> below the top level: dictionaries and strings; lists are left as they are.\<close>

fun replace_secrets_nested :: "string list \<Rightarrow> json \<Rightarrow> json" where
  "replace_secrets_nested ss (JDict d) = JDict (map (\<lambda>(k, v). (k, replace_secrets_nested ss v)) d)"
| "replace_secrets_nested ss (JStr s) = JStr (hide_secrets ss s)"
| "replace_secrets_nested ss j = j"

definition replace_secrets :: "string list \<Rightarrow> jdict \<Rightarrow> jdict" where
  "replace_secrets ss d =
     map (\<lambda>(k, v). (k, if k \<in> set TOP_LEVEL_PROTECTED_FIELDS then v else replace_secrets_nested ss v)) d"

definition set_secrets :: "(string \<times> string) list \<Rightarrow> 'c event_stream \<Rightarrow> 'c event_stream" where
  "set_secrets ss st = st\<lparr>secrets := ss\<rparr>"

definition update_secrets :: "(string \<times> string) list \<Rightarrow> 'c event_stream \<Rightarrow> 'c event_stream" where
  "update_secrets ss st = st\<lparr>secrets := alist_update (secrets st) ss\<rparr>"

section \<open>Adding an event\<close>

text \<open>\<open>_store_cache_page\<close>\<close>

definition store_cache_page :: "jdict list \<Rightarrow> 'c event_stream \<Rightarrow> store_error + 'c event_stream" where
  "store_cache_page page st =
     (if int (length page) < es_cache_size st then Inr st
      else (case page of
              [] \<Rightarrow> Inl Index_Error
            | d # _ \<Rightarrow>
                (case map_of d ''id'' of
                   Some (JInt s) \<Rightarrow>
                     Inr (st\<lparr>es_files :=
                       fs_write (es_files st)
                         (get_filename_for_cache (es_sid st) (es_user st) s (s + es_cache_size st))
                         (PageDoc page)\<rparr>)
                 | _ \<Rightarrow> Inl Index_Error)))"

text \<open>
  \<open>add_event\<close>. The caller's event object gets its timestamp, source and id; the object that is
  queued is the one read back from the sanitized dictionary. The result is the exception, if any,
  the caller's object afterwards, and the stream. A replayed action may come without a source.
\<close>

definition add_event ::
    "codec \<Rightarrow> string \<Rightarrow> event \<Rightarrow> event_source option \<Rightarrow> 'c event_stream \<Rightarrow> store_error option \<times> event \<times> 'c event_stream" where
  "add_event cd now e src st =
     (if ev_id e \<noteq> INVALID_ID then (Some (Already_Has_Id (ev_id e)), e, st)
      else
        (let e1 = e\<lparr>m_timestamp := Some now, m_source := src\<rparr>
         in case cur_id st of
              Inl x \<Rightarrow> (Some x, e1, st)
            | Inr (n, st0) \<Rightarrow>
                (let e2 = e1\<lparr>m_id := Some n\<rparr>;
                     st1 = st0\<lparr>es_cur := Some (n + 1)\<rparr>
                 in case to_dict cd e2 of
                      None \<Rightarrow> (Some Message_Error, e2, st1)
                    | Some d0 \<Rightarrow>
                        (let d = replace_secrets (map snd (secrets st1)) d0
                         in case from_dict cd d of
                              Inl x \<Rightarrow> (Some (Serialization_Error x), e2, st1)
                            | Inr ev \<Rightarrow>
                                (let page = write_page st1 @ [d];
                                     st2 = st1\<lparr>write_page :=
                                       (if int (length page) = es_cache_size st1 then [] else page)\<rparr>;
                                     st3 = st2\<lparr>es_files :=
                                       fs_write (es_files st2) (filename_for_id st2 (ev_id ev)) (EventDoc d)\<rparr>
                                 in case store_cache_page page st3 of
                                      Inl x \<Rightarrow> (Some x, e2, st3)
                                    | Inr st4 \<Rightarrow> (None, e2, st4\<lparr>equeue := equeue st4 @ [ev]\<rparr>))))))"

section \<open>Subscribers\<close>

definition has_callback :: "'c event_stream \<Rightarrow> string \<Rightarrow> string \<Rightarrow> bool" where
  "has_callback st s c \<longleftrightarrow>
     (case map_of (subscribers st) s of None \<Rightarrow> False | Some cbs \<Rightarrow> c \<in> set (map fst cbs))"

definition keyed :: "(string \<times> 'k list) list \<Rightarrow> string \<Rightarrow> 'k list" where
  "keyed m s = (case map_of m s of None \<Rightarrow> [] | Some ks \<Rightarrow> ks)"

text \<open>\<open>_init_thread_loop\<close>, run by an executor before its first callback\<close>

definition init_thread_loop :: "string \<Rightarrow> string \<Rightarrow> 'c event_stream \<Rightarrow> 'c event_stream" where
  "init_thread_loop s c st =
     st\<lparr>thread_loops := alist_set s (removeAll c (keyed (thread_loops st) s) @ [c]) (thread_loops st)\<rparr>"

definition clean_up_subscriber :: "string \<Rightarrow> string \<Rightarrow> 'c event_stream \<Rightarrow> 'c event_stream" where
  "clean_up_subscriber s c st =
     (if \<not> has_callback st s c then st
      else (let st1 = (if c \<in> set (keyed (thread_loops st) s)
                       then st\<lparr>thread_loops := alist_set s (removeAll c (keyed (thread_loops st) s)) (thread_loops st)\<rparr>
                       else st);
                st2 = (if c \<in> set (keyed (thread_pools st1) s)
                       then st1\<lparr>thread_pools := alist_set s (removeAll c (keyed (thread_pools st1) s)) (thread_pools st1)\<rparr>
                       else st1)
            in st2\<lparr>subscribers := alist_set s (alist_del c (keyed (subscribers st2) s)) (subscribers st2)\<rparr>))"

text \<open>\<open>subscribe\<close>: \<open>ValueError\<close> when the callback id is taken\<close>

definition subscribe ::
    "string \<Rightarrow> 'c \<Rightarrow> string \<Rightarrow> 'c event_stream \<Rightarrow> store_error option \<times> 'c event_stream" where
  "subscribe s cb c st =
     (let st1 = (if map_of (subscribers st) s = None
                 then st\<lparr>subscribers := alist_set s [] (subscribers st),
                         thread_pools := alist_set s [] (thread_pools st)\<rparr>
                 else st)
      in if c \<in> set (map fst (keyed (subscribers st1) s)) then (Some Callback_Exists, st1)
         else (None,
               st1\<lparr>subscribers := alist_set s (alist_set c cb (keyed (subscribers st1) s)) (subscribers st1),
                   thread_pools := alist_set s (keyed (thread_pools st1) s @ [c]) (thread_pools st1)\<rparr>))"

definition unsubscribe :: "string \<Rightarrow> string \<Rightarrow> 'c event_stream \<Rightarrow> 'c event_stream" where
  "unsubscribe s c st =
     (if map_of (subscribers st) s = None then st
      else if c \<notin> set (map fst (keyed (subscribers st) s)) then st
      else clean_up_subscriber s c st)"

definition close_stream :: "'c event_stream \<Rightarrow> 'c event_stream" where
  "close_stream st =
     (let st1 = st\<lparr>stop_flag := True\<rparr>;
          pairs = concat (map (\<lambda>(s, cbs). map (\<lambda>(c, cb). (s, c)) cbs) (subscribers st1));
          st2 = foldl (\<lambda>acc (s, c). clean_up_subscriber s c acc) st1 pairs
      in st2\<lparr>equeue := []\<rparr>)"

text \<open>
  One turn of \<open>_process_queue\<close>: the submissions to the executors, subscribers in the order of
  their keys. Each executor has one worker, so a callback runs its submissions in order.
\<close>

definition submissions :: "'c event_stream \<Rightarrow> event \<Rightarrow> (string \<times> string \<times> 'c \<times> event) list" where
  "submissions st e =
     concat (map (\<lambda>s. map (\<lambda>(c, cb). (s, c, cb, e)) (keyed (subscribers st) s))
               (sort (map fst (subscribers st))))"

definition process_queue_step ::
    "'c event_stream \<Rightarrow> 'c event_stream \<times> (string \<times> string \<times> 'c \<times> event) list" where
  "process_queue_step st =
     (if stop_flag st then (st, [])
      else (case equeue st of
              [] \<Rightarrow> (st, [])
            | e # es \<Rightarrow> (st\<lparr>equeue := es\<rparr>, submissions st e)))"

fun process_queue ::
    "nat \<Rightarrow> 'c event_stream \<Rightarrow> 'c event_stream \<times> (string \<times> string \<times> 'c \<times> event) list" where
  "process_queue 0 st = (st, [])"
| "process_queue (Suc n) st =
     (let (st1, xs) = process_queue_step st; (st2, ys) = process_queue n st1 in (st2, xs @ ys))"

section \<open>Hidden secrets\<close>

text \<open>
  A secret that cannot be confused with the replacement text: not empty, no angle bracket, not
  part of the words between the brackets.
\<close>

definition clean_secret :: "string \<Rightarrow> bool" where
  "clean_secret s \<longleftrightarrow>
     s \<noteq> [] \<and> CHR ''<'' \<notin> set s \<and> CHR ''>'' \<notin> set s \<and> \<not> str_contains s ''secret_hidden''"

lemma hidden_split: "SECRET_HIDDEN = CHR ''<'' # ''secret_hidden'' @ [CHR ''>'']"
  by (simp add: SECRET_HIDDEN_def)

lemma str_contains_sep:
  assumes "x \<notin> set s" and "str_contains s (a @ x # b)"
  shows "str_contains s a \<or> str_contains s b"
proof -
  from assms(2) obtain u v where uv: "a @ x # b = u @ s @ v" by (auto simp: str_contains_iff)
  then consider "length a < length u" | "length u + length s \<le> length a"
    | "length u \<le> length a" "length a < length u + length s" by linarith
  then show ?thesis
  proof cases
    case 1
    then have "b = drop (Suc (length a)) u @ s @ v"
      using arg_cong [OF uv, of "drop (Suc (length a))"] by (simp add: Suc_le_eq)
    then show ?thesis by (auto simp: str_contains_iff)
  next
    case 2
    then have "a = u @ s @ take (length a - length u - length s) v"
      using arg_cong [OF uv, of "take (length a)"] by simp
    then show ?thesis by (auto simp: str_contains_iff)
  next
    case 3
    then have lt: "length a - length u < length s" by linarith
    with 3 have "s ! (length a - length u) = x"
      using arg_cong [OF uv, of "\<lambda>l. l ! length a"] by (simp add: nth_append)
    with lt have "x \<in> set s" by (metis nth_mem)
    with assms(1) show ?thesis by simp
  qed
qed

lemma not_contains_sep_front:
  assumes "x \<notin> set s" "s \<noteq> []" "str_contains s (x # b)"
  shows "str_contains s b"
  using str_contains_sep [of x s "[]" b] assms by simp

lemma clean_not_hidden:
  assumes "clean_secret s" "str_contains s (SECRET_HIDDEN @ t)"
  shows "str_contains s t"
proof -
  have "str_contains s ((CHR ''<'' # ''secret_hidden'') @ CHR ''>'' # t)"
    using assms(2) by (simp add: hidden_split)
  then have "str_contains s (CHR ''<'' # ''secret_hidden'') \<or> str_contains s t"
    using assms(1) by (intro str_contains_sep) (auto simp: clean_secret_def)
  then show ?thesis
    using assms(1) not_contains_sep_front [of "CHR ''<''" s "''secret_hidden''"]
    by (auto simp: clean_secret_def)
qed

lemma startswith_replace:
  assumes "CHR ''<'' \<notin> set p" "str_startswith (str_replace_ne t SECRET_HIDDEN x) p"
  shows "str_startswith x p"
  using assms
proof (induction t SECRET_HIDDEN x arbitrary: p rule: str_replace_ne.induct)
  case (2 old c s)
  show ?case
  proof (cases p)
    case Nil
    then show ?thesis by (simp add: str_startswith_def)
  next
    case (Cons d q)
    with 2 show ?thesis
      by (auto simp: str_startswith_iff hidden_split split: if_splits)
  qed
qed simp

lemma startswith_unreplaced:
  assumes "clean_secret s" "str_startswith (c # str_replace_ne t SECRET_HIDDEN x) s"
  shows "str_startswith (c # x) s"
proof -
  from assms(1) obtain d q where s: "s = d # q" by (cases s) (auto simp: clean_secret_def)
  from assms(2) s have "d = c" "str_startswith (str_replace_ne t SECRET_HIDDEN x) q"
    by (auto simp: str_startswith_iff)
  moreover from assms(1) s have "CHR ''<'' \<notin> set q" by (simp add: clean_secret_def)
  ultimately show ?thesis using startswith_replace s by (auto simp: str_startswith_iff)
qed

lemma contains_replace:
  assumes s: "clean_secret s" and "str_contains s (str_replace_ne t SECRET_HIDDEN x)"
  shows "str_contains s x"
  using assms(2)
proof (induction t SECRET_HIDDEN x rule: str_replace_ne.induct)
  case (2 old c x)
  show ?case
  proof (cases "old \<noteq> [] \<and> str_startswith (c # x) old")
    case True
    with 2 have "str_contains s (drop (length old) (c # x))"
      using clean_not_hidden [OF s] by simp
    then show ?thesis
      by (metis append_assoc append_take_drop_id str_contains_iff)
  next
    case False
    with 2 show ?thesis using startswith_unreplaced [OF s] by auto
  qed
qed simp

lemma replace_hides:
  assumes s: "clean_secret s"
  shows "\<not> str_contains s (str_replace_ne s SECRET_HIDDEN x)"
proof (induction x rule: length_induct)
  case (1 x)
  show ?case
  proof (cases x)
    case Nil
    with s show ?thesis by (simp add: clean_secret_def)
  next
    case (Cons c y)
    show ?thesis
    proof (cases "str_startswith (c # y) s")
      case True
      have "length (drop (length s) (c # y)) < length x"
        using s Cons by (cases s) (auto simp: clean_secret_def)
      with 1 have "\<not> str_contains s (str_replace_ne s SECRET_HIDDEN (drop (length s) (c # y)))" by blast
      moreover have "str_replace_ne s SECRET_HIDDEN x =
          SECRET_HIDDEN @ str_replace_ne s SECRET_HIDDEN (drop (length s) (c # y))"
        using True s Cons by (simp add: clean_secret_def)
      ultimately show ?thesis using clean_not_hidden [OF s] by metis
    next
      case False
      with 1 Cons show ?thesis using startswith_unreplaced [OF s] by auto
    qed
  qed
qed

lemma contains_interleaved:
  assumes s: "clean_secret s"
    and "str_contains s (concat (map (\<lambda>c. SECRET_HIDDEN @ [c]) x) @ SECRET_HIDDEN)"
  shows "str_contains s x"
  using assms(2)
proof (induction x)
  case Nil
  then show ?case using clean_not_hidden [OF s, of "[]"] by simp
next
  case (Cons c x)
  let ?r = "concat (map (\<lambda>c. SECRET_HIDDEN @ [c]) x) @ SECRET_HIDDEN"
  from Cons.prems have "str_contains s (SECRET_HIDDEN @ (c # ?r))" by simp
  then have "str_contains s (c # ?r)" by (rule clean_not_hidden [OF s])
  then consider "str_startswith (c # ?r) s" | "str_contains s ?r" by auto
  then show ?case
  proof cases
    case 1
    obtain r' where r: "?r = CHR ''<'' # r'" by (cases x) (auto simp: hidden_split)
    from s obtain d q where dq: "s = d # q" by (cases s) (auto simp: clean_secret_def)
    with 1 r have "d = c" "str_startswith (CHR ''<'' # r') q" by (auto simp: str_startswith_iff)
    with s dq have "s = [c]" by (cases q) (auto simp: str_startswith_iff clean_secret_def)
    then show ?thesis by (simp add: str_startswith_def)
  next
    case 2
    with Cons.IH show ?thesis by simp
  qed
qed

lemma contains_str_replace:
  assumes "clean_secret s" "str_contains s (str_replace x t SECRET_HIDDEN)"
  shows "str_contains s x"
proof (cases "t = []")
  case True
  show ?thesis
    by (rule contains_interleaved [OF assms(1)])
      (use assms(2) True in \<open>simp only: str_replace_def if_True simp_thms\<close>)
next
  case False
  show ?thesis
    by (rule contains_replace [OF assms(1), of t])
      (use assms(2) False in \<open>simp only: str_replace_def if_False simp_thms\<close>)
qed

lemma hide_secrets_mono:
  "clean_secret s \<Longrightarrow> str_contains s (hide_secrets ss x) \<Longrightarrow> str_contains s x"
  unfolding hide_secrets_def
  by (induction ss arbitrary: x) (auto dest: contains_str_replace)

lemma hide_secrets_hides:
  assumes "clean_secret s" "s \<in> set ss"
  shows "\<not> str_contains s (hide_secrets ss x)"
proof -
  from assms(2) obtain us vs where ss: "ss = us @ s # vs" by (meson split_list)
  have "hide_secrets ss x = hide_secrets vs (str_replace (hide_secrets us x) s SECRET_HIDDEN)"
    by (simp add: ss hide_secrets_def)
  moreover have "\<not> str_contains s (str_replace (hide_secrets us x) s SECRET_HIDDEN)"
    using assms(1) replace_hides by (simp add: str_replace_def clean_secret_def)
  ultimately show ?thesis using hide_secrets_mono [OF assms(1)] by metis
qed

text \<open>The strings of a value that are reached through dictionaries only\<close>

fun dict_strings :: "json \<Rightarrow> string list" where
  "dict_strings (JDict d) = concat (map (\<lambda>(k, v). dict_strings v) d)"
| "dict_strings (JStr s) = [s]"
| "dict_strings _ = []"

lemma replace_nested_hides:
  assumes "clean_secret s" "s \<in> set ss"
  shows "t \<in> set (dict_strings (replace_secrets_nested ss j)) \<Longrightarrow> \<not> str_contains s t"
  using assms(2)
  by (induction ss j rule: replace_secrets_nested.induct) (auto dest: hide_secrets_hides [OF assms(1)])

lemma replace_secrets_keys [simp]: "map fst (replace_secrets ss d) = map fst d"
  by (auto simp: replace_secrets_def)

lemma replace_secrets_protected:
  "k \<in> set TOP_LEVEL_PROTECTED_FIELDS \<Longrightarrow> map_of (replace_secrets ss d) k = map_of d k"
  unfolding replace_secrets_def by (induction d) auto

lemma replace_nested_nil [simp]: "replace_secrets_nested [] j = j"
  by (induction "[] :: string list" j rule: replace_secrets_nested.induct)
    (auto simp: hide_secrets_def intro!: map_idI)

lemma replace_secrets_nil [simp]: "replace_secrets [] d = d"
  by (auto simp: replace_secrets_def intro!: map_idI)

section \<open>The stream is a log\<close>

text \<open>The event files are those of the ids below \<open>n\<close>, the write page is the tail of the log.\<close>

definition stream_ok :: "codec \<Rightarrow> 'c event_stream \<Rightarrow> int \<Rightarrow> bool" where
  "stream_ok cd st n \<longleftrightarrow>
     store_ok cd st \<and> es_cur st = Some n \<and> 0 \<le> n \<and>
     (\<forall>i. fs_read (es_files st) (filename_for_id st i) \<noteq> None \<longleftrightarrow> 0 \<le> i \<and> i < n) \<and>
     (\<forall>i e. event_at cd st i = Some e \<longrightarrow> ev_id e = i) \<and>
     int (length (write_page st)) < es_cache_size st \<and> int (length (write_page st)) \<le> n \<and>
     (\<forall>k < length (write_page st).
        fs_read (es_files st) (filename_for_id st (n - int (length (write_page st)) + int k))
          = Some (EventDoc (write_page st ! k)) \<and>
        map_of (write_page st ! k) ''id'' = Some (JInt (n - int (length (write_page st)) + int k)))"

text \<open>The dictionary that is stored for an event and the event it reads back as\<close>

definition stamped :: "string \<Rightarrow> event_source option \<Rightarrow> int \<Rightarrow> event \<Rightarrow> event" where
  "stamped now src n e = e\<lparr>m_timestamp := Some now, m_source := src, m_id := Some n\<rparr>"

definition sanitized ::
    "codec \<Rightarrow> string \<Rightarrow> event_source option \<Rightarrow> int \<Rightarrow> string list \<Rightarrow> event \<Rightarrow> (jdict \<times> event) option" where
  "sanitized cd now src n ss e =
     (case to_dict cd (stamped now src n e) of
        None \<Rightarrow> None
      | Some d0 \<Rightarrow>
          (case from_dict cd (replace_secrets ss d0) of
             Inl _ \<Rightarrow> None
           | Inr ev \<Rightarrow> Some (replace_secrets ss d0, ev)))"

lemma from_dict_id:
  assumes "from_dict cd d = Inr ev" "map_of d ''id'' = Some (JInt n)"
  shows "m_id ev = Some n"
  using assms
  by (auto simp: from_dict_def event_from_dict_def set_underscore_keys_def sbind_Inr_iff fld_def
      split: if_splits)

lemma sanitized_id:
  assumes "sanitized cd now src n ss e = Some (d, ev)" "0 \<le> n"
  shows "map_of d ''id'' = Some (JInt n)" "ev_id ev = n" "from_dict cd d = Inr ev"
proof -
  from assms(1) obtain d0 where d0: "event_to_dict (cd_repr cd) (stamped now src n e) = Some d0"
    "d = replace_secrets ss d0" and ev: "from_dict cd d = Inr ev"
    by (auto simp: sanitized_def to_dict_def split: option.splits sum.splits)
  have "map_of d0 ''id'' = Some (JInt n)"
    using event_to_dict_lookup(1) [OF d0(1)] assms(2)
    by (simp add: stamped_def ev_id_def INVALID_ID_def)
  with d0(2) show id: "map_of d ''id'' = Some (JInt n)"
    by (simp add: replace_secrets_protected TOP_LEVEL_PROTECTED_FIELDS_def)
  show "from_dict cd d = Inr ev" by (fact ev)
  show "ev_id ev = n" using from_dict_id [OF ev id] by (simp add: ev_id_def)
qed

text \<open>Without secrets the stored event is what the dictionary keeps of the stamped event.\<close>

lemma sanitized_plain:
  assumes "serializable e" "sanitized cd now src n [] e = Some (d, ev)"
  shows "ev = persisted (stamped now src n e)"
proof -
  have "serializable (stamped now src n e)" using assms(1) by (simp add: serializable_def stamped_def)
  with assms(2) show ?thesis
    using event_from_to_dict [of "cd_repr cd" "stamped now src n e"]
    by (auto simp: sanitized_def to_dict_def from_dict_def split: option.splits sum.splits)
qed

text \<open>Adding one file, and possibly the page that ends with it, keeps the invariant.\<close>

lemma stream_ok_extend:
  fixes st st' :: "'c event_stream"
  assumes ok: "stream_ok cd st n" and dec: "from_dict cd d = Inr ev" "ev_id ev = n"
    and same: "es_sid st' = es_sid st" "es_user st' = es_user st" "es_cache_size st' = es_cache_size st"
    and cur: "es_cur st' = Some (n + 1)"
    and files: "\<And>i. fs_read (es_files st') (filename_for_id st i) =
        (if i = n then Some (EventDoc d) else fs_read (es_files st) (filename_for_id st i))"
    and pages: "\<And>s e. fs_read (es_files st') (get_filename_for_cache (es_sid st) (es_user st) s e) =
        (if int (length page) = es_cache_size st \<and> s = n - int (length (write_page st)) \<and> e = s + es_cache_size st
         then Some (PageDoc page)
         else fs_read (es_files st) (get_filename_for_cache (es_sid st) (es_user st) s e))"
    and page: "page = write_page st @ [d]" "map_of d ''id'' = Some (JInt n)"
    and wp: "write_page st' = (if int (length page) = es_cache_size st then [] else page)"
  shows "stream_ok cd st' (n + 1) \<and> event_at cd st' = (event_at cd st)(n \<mapsto> ev)"
proof -
  have fn: "filename_for_id st' = filename_for_id st"
    using same by (simp add: filename_for_id_def fun_eq_iff)
  let ?w = "length (write_page st)"
  note O = ok [unfolded stream_ok_def]
  have docs: "fs_read (es_files st') (filename_for_id st (n - int ?w + int k)) = Some (EventDoc (page ! k)) \<and>
      map_of (page ! k) ''id'' = Some (JInt (n - int ?w + int k))" if "k < length page" for k
  proof (cases "k < ?w")
    case True
    then have "n - int ?w + int k \<noteq> n" by simp
    with True O show ?thesis by (simp add: files page nth_append)
  next
    case False
    with that page have "k = ?w" by simp
    then show ?thesis by (simp add: files page nth_append)
  qed
  have at: "event_at cd st' = (event_at cd st)(n \<mapsto> ev)"
    using dec by (auto simp: fun_eq_iff event_at_def get_event_def fn files decode_doc_def)
  have "store_ok cd st'"
    unfolding store_ok_def
  proof (intro conjI allI impI)
    show "0 < es_cache_size st'" using O same by (simp add: store_ok_def)
  next
    fix i c
    assume "fs_read (es_files st') (filename_for_id st' i) = Some c"
    then show "\<exists>d e. c = EventDoc d \<and> from_dict cd d = Inr e"
      using O dec by (auto simp: fn files store_ok_def split: if_splits)
  next
    fix s ds
    assume rd: "fs_read (es_files st')
      (get_filename_for_cache (es_sid st') (es_user st') s (s + es_cache_size st')) = Some (PageDoc ds)"
    have "length ds = nat (es_cache_size st) \<and>
      (\<forall>k<length ds. fs_read (es_files st') (filename_for_id st (s + int k)) = Some (EventDoc (ds ! k)))"
    proof (cases "int (length page) = es_cache_size st \<and> s = n - int ?w")
      case True
      with rd have "ds = page" by (simp add: same pages)
      with True docs show ?thesis by auto
    next
      case False
      with rd have old: "fs_read (es_files st)
        (get_filename_for_cache (es_sid st) (es_user st) s (s + es_cache_size st)) = Some (PageDoc ds)"
        by (auto simp: same pages split: if_splits)
      with O have "length ds = nat (es_cache_size st)"
        and rdk: "\<forall>k<length ds. fs_read (es_files st) (filename_for_id st (s + int k)) = Some (EventDoc (ds ! k))"
        by (auto simp: store_ok_def)
      moreover have "s + int k \<noteq> n" if "k < length ds" for k
        using O rdk that by (metis less_irrefl option.distinct(1))
      ultimately show ?thesis by (simp add: files)
    qed
    then show "length ds = nat (es_cache_size st')"
      and "\<And>k. k < length ds \<Longrightarrow> fs_read (es_files st') (filename_for_id st' (s + int k)) = Some (EventDoc (ds ! k))"
      by (simp_all add: same fn)
  qed
  moreover have "fs_read (es_files st') (filename_for_id st' i) \<noteq> None \<longleftrightarrow> 0 \<le> i \<and> i < n + 1" for i
    using O by (auto simp: fn files)
  moreover have "int (length (write_page st')) < es_cache_size st'"
    "int (length (write_page st')) \<le> n + 1"
    using O same by (auto simp: wp page)
  moreover have "fs_read (es_files st') (filename_for_id st' (n + 1 - int (length (write_page st')) + int k))
      = Some (EventDoc (write_page st' ! k)) \<and>
      map_of (write_page st' ! k) ''id'' = Some (JInt (n + 1 - int (length (write_page st')) + int k))"
    if "k < length (write_page st')" for k
    using that docs [of k] by (auto simp: wp fn page split: if_splits)
  ultimately show ?thesis
    using O at cur dec(2) by (simp add: stream_ok_def)
qed

lemma store_cache_page_ok:
  assumes "int (length page) < es_cache_size st \<or> (int (length page) = es_cache_size st \<and> page \<noteq> [])"
    and "page \<noteq> [] \<Longrightarrow> map_of (hd page) ''id'' = Some (JInt s)"
  shows "store_cache_page page st =
    Inr (if int (length page) < es_cache_size st then st
         else st\<lparr>es_files := fs_write (es_files st)
                (get_filename_for_cache (es_sid st) (es_user st) s (s + es_cache_size st)) (PageDoc page)\<rparr>)"
  using assms by (cases page) (auto simp: store_cache_page_def)

lemma add_event_refines:
  fixes st :: "'c event_stream"
  assumes ok: "stream_ok cd st n" and fresh: "ev_id e = INVALID_ID"
    and san: "sanitized cd now src n (map snd (secrets st)) e = Some (d, ev)"
  shows "\<exists>st'. add_event cd now e src st = (None, stamped now src n e, st') \<and>
    stream_ok cd st' (n + 1) \<and> event_at cd st' = (event_at cd st)(n \<mapsto> ev) \<and>
    equeue st' = equeue st @ [ev] \<and> secrets st' = secrets st \<and> subscribers st' = subscribers st"
proof -
  note O = ok [unfolded stream_ok_def]
  from O have n0: "0 \<le> n" and cur: "cur_id st = Inr (n, st)" by (auto simp: cur_id_def)
  note id = sanitized_id [OF san n0]
  define page where "page = write_page st @ [d]"
  define s where "s = n - int (length (write_page st))"
  define st3 where "st3 = st\<lparr>es_cur := Some (n + 1),
      write_page := (if int (length page) = es_cache_size st then [] else page),
      es_files := fs_write (es_files st) (filename_for_id st n) (EventDoc d)\<rparr>"
  define st4 where "st4 = (if int (length page) < es_cache_size st then st3
      else st3\<lparr>es_files := fs_write (es_files st3)
             (get_filename_for_cache (es_sid st) (es_user st) s (s + es_cache_size st)) (PageDoc page)\<rparr>)"
  define st' where "st' = st4\<lparr>equeue := equeue st @ [ev]\<rparr>"
  have hd: "map_of (hd page) ''id'' = Some (JInt s)"
    using O id(1) by (cases "write_page st") (auto simp: page_def s_def)
  have len: "int (length page) < es_cache_size st \<or> int (length page) = es_cache_size st"
    using O by (auto simp: page_def)
  have page_ok: "store_cache_page page st3 = Inr st4"
    using store_cache_page_ok [of page st3 s] hd len by (simp add: st3_def st4_def page_def)
  from san obtain d0 where d0: "to_dict cd (stamped now src n e) = Some d0"
    "replace_secrets (map snd (secrets st)) d0 = d"
    by (auto simp: sanitized_def split: option.splits sum.splits)
  have "add_event cd now e src st =
      (case store_cache_page page st3 of
         Inl x \<Rightarrow> (Some x, stamped now src n e, st3)
       | Inr st4 \<Rightarrow> (None, stamped now src n e, st4\<lparr>equeue := equeue st4 @ [ev]\<rparr>))"
    using fresh cur id d0 unfolding stamped_def page_def st3_def
    by (simp add: add_event_def Let_def filename_for_id_def cong: sum.case_cong)
  moreover have "equeue st4 = equeue st" by (simp add: st4_def st3_def)
  ultimately have eq: "add_event cd now e src st = (None, stamped now src n e, st')"
    by (simp add: page_ok st'_def)
  have fn_neq: "get_filename_for_cache (es_sid st) (es_user st) a b \<noteq> filename_for_id st i" for a b i
    by (simp add: filename_for_id_def cache_filename_neq_event)
  have fn_inj: "filename_for_id st i = filename_for_id st j \<longleftrightarrow> i = j" for i j
    by (simp add: filename_for_id_def event_filename_inj)
  have files: "fs_read (es_files st') (filename_for_id st i) =
      (if i = n then Some (EventDoc d) else fs_read (es_files st) (filename_for_id st i))" for i
    by (auto simp: st'_def st4_def st3_def mem_store.read_write fn_inj fn_neq [symmetric])
  have s0: "0 \<le> s" using O by (simp add: s_def)
  have pages: "fs_read (es_files st') (get_filename_for_cache (es_sid st) (es_user st) a b) =
      (if int (length page) = es_cache_size st \<and> a = s \<and> b = a + es_cache_size st then Some (PageDoc page)
       else fs_read (es_files st) (get_filename_for_cache (es_sid st) (es_user st) a b))" for a b
    using len cache_filename_inj [OF s0, of "es_sid st" "es_user st" "s + es_cache_size st" a b]
    by (auto simp: st'_def st4_def st3_def mem_store.read_write fn_neq)
  have "stream_ok cd st' (n + 1) \<and> event_at cd st' = (event_at cd st)(n \<mapsto> ev)"
    by (rule stream_ok_extend [OF ok id(3,2), where page = page])
      (use files pages id(1) in \<open>simp_all add: st'_def st4_def st3_def page_def s_def\<close>)
  with eq show ?thesis by (auto simp: st'_def st4_def st3_def)
qed

text \<open>An event that already has an id is refused and nothing changes.\<close>

lemma add_event_twice:
  "ev_id e \<noteq> INVALID_ID \<Longrightarrow> add_event cd now e src st = (Some (Already_Has_Id (ev_id e)), e, st)"
  by (simp add: add_event_def)

section \<open>The log interface\<close>

text \<open>
  What the users of the stream rely on: an accepted event gets the next id, is found under it
  afterwards, and nothing else changes. \<open>acc\<close> is the result of sanitizing, when that succeeds.
\<close>

locale event_log =
  fixes ok :: "'s \<Rightarrow> int \<Rightarrow> bool"
    and add :: "'s \<Rightarrow> 'e \<Rightarrow> 's"
    and look :: "'s \<Rightarrow> int \<Rightarrow> 'f option"
    and acc :: "'s \<Rightarrow> int \<Rightarrow> 'e \<Rightarrow> 'f option"
  assumes add_ok: "ok s n \<Longrightarrow> acc s n e = Some f \<Longrightarrow> ok (add s e) (n + 1)"
    and add_look: "ok s n \<Longrightarrow> acc s n e = Some f \<Longrightarrow> look (add s e) = (look s)(n \<mapsto> f)"
    and acc_stable: "ok s n \<Longrightarrow> acc s n e = Some f \<Longrightarrow> acc (add s e) = acc s"
    and ok_dom: "ok s n \<Longrightarrow> look s i \<noteq> None \<longleftrightarrow> 0 \<le> i \<and> i < n"
begin

fun add_all :: "'s \<Rightarrow> 'e list \<Rightarrow> 's" where
  "add_all s [] = s"
| "add_all s (e # es) = add_all (add s e) es"

fun accs :: "'s \<Rightarrow> int \<Rightarrow> 'e list \<Rightarrow> 'f list option" where
  "accs s n [] = Some []"
| "accs s n (e # es) =
     (case acc s n e of None \<Rightarrow> None | Some f \<Rightarrow> map_option (\<lambda>fs. f # fs) (accs s (n + 1) es))"

lemma accs_cong: "acc s = acc s' \<Longrightarrow> accs s n es = accs s' n es"
  by (induction es arbitrary: n) (simp_all cong: option.case_cong)

lemma add_all_log:
  assumes "ok s n" "accs s n es = Some fs"
  shows "ok (add_all s es) (n + int (length es)) \<and>
    (\<forall>i. look (add_all s es) i =
       (if n \<le> i \<and> i < n + int (length es) then Some (fs ! nat (i - n)) else look s i))"
  using assms
proof (induction es arbitrary: s n fs)
  case (Cons e es)
  from Cons.prems(2) obtain f gs where f: "acc s n e = Some f" "accs s (n + 1) es = Some gs" "fs = f # gs"
    by (auto split: option.splits)
  have "accs (add s e) (n + 1) es = Some gs"
    using f(2) accs_cong [OF acc_stable [OF Cons.prems(1) f(1)]] by metis
  from Cons.IH [OF add_ok [OF Cons.prems(1) f(1)] this]
  have IH: "ok (add_all (add s e) es) (n + 1 + int (length es))"
    "\<And>i. look (add_all (add s e) es) i =
      (if n + 1 \<le> i \<and> i < n + 1 + int (length es) then Some (gs ! nat (i - (n + 1))) else look (add s e) i)"
    by auto
  have "fs ! nat (i - n) = gs ! nat (i - (n + 1))" if "n + 1 \<le> i" for i
  proof -
    from that have "nat (i - n) = Suc (nat (i - (n + 1)))" by linarith
    then show ?thesis using f(3) by simp
  qed
  with IH add_look [OF Cons.prems(1) f(1)] f(3) show ?case
    by (auto simp: algebra_simps)
qed (auto)

lemma add_all_ids:
  assumes "ok s n" "accs s n es = Some fs"
  shows "look (add_all s es) i \<noteq> None \<longleftrightarrow> 0 \<le> i \<and> i < n + int (length es)"
  using add_all_log [OF assms] ok_dom by blast

end

text \<open>The stream as a log: a clock reading and a source come with each event.\<close>

definition stream_add :: "codec \<Rightarrow> 'c event_stream \<Rightarrow> string \<times> event_source option \<times> event \<Rightarrow> 'c event_stream" where
  "stream_add cd st = (\<lambda>(now, src, e). snd (snd (add_event cd now e src st)))"

definition stream_acc ::
    "codec \<Rightarrow> 'c event_stream \<Rightarrow> int \<Rightarrow> string \<times> event_source option \<times> event \<Rightarrow> event option" where
  "stream_acc cd st n =
     (\<lambda>(now, src, e). if ev_id e = INVALID_ID
                      then map_option snd (sanitized cd now src n (map snd (secrets st)) e) else None)"

interpretation stream: event_log "stream_ok cd" "stream_add cd" "event_at cd" "stream_acc cd"
  for cd :: codec
proof unfold_locales
  fix s :: "'c event_stream" and n i and x :: "string \<times> event_source option \<times> event" and f :: event
  obtain now src e where x: "x = (now, src, e)" by (cases x)
  { assume ok: "stream_ok cd s n" and a: "stream_acc cd s n x = Some f"
    from a obtain d where fresh: "ev_id e = INVALID_ID"
      and san: "sanitized cd now src n (map snd (secrets s)) e = Some (d, f)"
      by (auto simp: stream_acc_def x split: if_splits)
    note r = add_event_refines [OF ok fresh san]
    from r show "stream_ok cd (stream_add cd s x) (n + 1)" by (auto simp: stream_add_def x)
    from r show "event_at cd (stream_add cd s x) = (event_at cd s)(n \<mapsto> f)"
      by (auto simp: stream_add_def x)
    from r show "stream_acc cd (stream_add cd s x) = stream_acc cd s"
      by (auto simp: stream_add_def x stream_acc_def fun_eq_iff) }
  assume ok: "stream_ok cd s n"
  then have st: "store_ok cd s" by (simp add: stream_ok_def)
  from ok have "fs_read (es_files s) (filename_for_id s i) \<noteq> None \<longleftrightarrow> 0 \<le> i \<and> i < n"
    unfolding stream_ok_def by blast
  then show "event_at cd s i \<noteq> None \<longleftrightarrow> 0 \<le> i \<and> i < n"
    by (rule_tac get_event_cases [OF st, of i]) auto
qed

end
