(* ===== verification/State_Tracker.thy ===== *)
theory State_Tracker
  imports Agent_State Event_Stream
begin

text \<open>
  \<open>openhands/controller/state/state_tracker.py\<close>: the history of an agent read from the event
  stream, its control flags and its persistence.
\<close>

record tracker =
  tr_sid :: "string option"
  tr_files :: "pickled_state fstore option"
  tr_user :: "string option"
  tr_state :: state

section \<open>The history filter\<close>

definition agent_history_filter :: event_filter where
  "agent_history_filter =
     no_filter\<lparr>exclude_types := Some [C_NullAction, C_NullObservation, C_ChangeAgentStateAction,
                                     C_AgentStateChangedObservation],
               exclude_hidden := True\<rparr>"

text \<open>The filter has no text query, so the serialization does not matter.\<close>

definition in_history :: "event \<Rightarrow> bool" where
  "in_history e \<longleftrightarrow>
     \<not> list_ex (isinstance e) [C_NullAction, C_NullObservation, C_ChangeAgentStateAction,
                               C_AgentStateChangedObservation]
     \<and> \<not> ev_hidden e"

lemma in_history_filter: "ef_include cd agent_history_filter e = in_history e"
  by (simp add: ef_include_def agent_history_filter_def no_filter_def given_def in_history_def)

section \<open>Initial state\<close>

definition set_initial_state ::
    "string \<Rightarrow> state option \<Rightarrow> conv_stats \<Rightarrow> int \<Rightarrow> rat option \<Rightarrow> bool \<Rightarrow> string option \<Rightarrow> state" where
  "set_initial_state cid st stats max_iterations max_budget confirm user =
     (case st of
        None \<Rightarrow>
          default_state\<lparr>session_id := str_removesuffix cid ''-delegate'', st_user_id := user, inputs := [],
             conversation_stats := Some stats,
             iteration_flag := mk_flag max_iterations 0 max_iterations,
             budget_flag := (case max_budget of
                               None \<Rightarrow> None
                             | Some b \<Rightarrow> if b = 0 then None else Some (mk_flag b 0 b)),
             confirmation_mode := confirm, start_id := 0\<rparr>
      | Some s \<Rightarrow>
          s\<lparr>start_id := (if start_id s \<le> - 1 then 0 else start_id s), conversation_stats := Some stats\<rparr>)"

section \<open>Delegates in the history\<close>

text \<open>The matched pairs of delegate action and observation; the stack has the last action first.\<close>

fun delegate_ranges :: "int list \<Rightarrow> event list \<Rightarrow> (int \<times> int) list" where
  "delegate_ranges stack [] = []"
| "delegate_ranges stack (e # es) =
     (case payload e of
        Act (AgentDelegateAction _) \<Rightarrow> delegate_ranges (ev_id e # stack) es
      | Obs (AgentDelegateObservation _) \<Rightarrow>
          (case stack of
             [] \<Rightarrow> delegate_ranges stack es
           | a # rest \<Rightarrow> (a, ev_id e) # delegate_ranges rest es)
      | _ \<Rightarrow> delegate_ranges stack es)"

text \<open>\<open>sorted\<close> on pairs of integers\<close>

definition pair_le :: "int \<times> int \<Rightarrow> int \<times> int \<Rightarrow> bool" where
  "pair_le p q \<longleftrightarrow> fst p < fst q \<or> (fst p = fst q \<and> snd p \<le> snd q)"

fun insert_pair :: "int \<times> int \<Rightarrow> (int \<times> int) list \<Rightarrow> (int \<times> int) list" where
  "insert_pair p [] = [p]"
| "insert_pair p (q # qs) = (if pair_le p q then p # q # qs else q # insert_pair p qs)"

definition sort_pairs :: "(int \<times> int) list \<Rightarrow> (int \<times> int) list" where
  "sort_pairs ps = foldr insert_pair ps []"

text \<open>The loop that cuts the ranges out; the result is the list so far and the next index.\<close>

definition cut_step :: "event list \<Rightarrow> event list \<times> nat \<Rightarrow> int \<times> int \<Rightarrow> event list \<times> nat" where
  "cut_step events acc r =
     (let (out, idx) = acc; (s, e) = r
      in (out @ filter (\<lambda>ev. ev_id ev < s) (drop idx events)
              @ filter (\<lambda>ev. ev_id ev = s \<or> ev_id ev = e) events,
          case find_index (\<lambda>ev. ev_id ev > e) events of Some i \<Rightarrow> i | None \<Rightarrow> length events))"

definition cut_delegates :: "(int \<times> int) list \<Rightarrow> event list \<Rightarrow> event list" where
  "cut_delegates ranges events =
     (let (out, idx) = foldl (cut_step events) ([], 0) ranges in out @ drop idx events)"

text \<open>\<open>_init_history\<close>; the loop variable over the ranges is the variable written back at the end.\<close>

definition init_history :: "codec \<Rightarrow> 'a event_store_scheme \<Rightarrow> state \<Rightarrow> store_error + state" where
  "init_history cd es st =
     (let s = (if start_id st \<ge> 0 then start_id st else 0)
      in sbind (if end_id st \<ge> 0 then Inr (end_id st) else map_sum (\<lambda>x. x) fst (get_latest_event_id es))
           (\<lambda>e.
              if s > e + 1 then Inr (st\<lparr>history := []\<rparr>)
              else sbind (search_events cd es s (Some e) False (Some agent_history_filter) None)
                     (\<lambda>events.
                        let ranges = sort_pairs (delegate_ranges [] events)
                        in if ranges \<noteq> []
                           then Inr (st\<lparr>history := cut_delegates ranges events,
                                        start_id := fst (last ranges)\<rparr>)
                           else Inr (st\<lparr>history := events, start_id := s\<rparr>))))"

text \<open>\<open>close\<close>: the history with the delegates' events\<close>

definition close_history :: "codec \<Rightarrow> 'a event_store_scheme \<Rightarrow> state \<Rightarrow> store_error + state" where
  "close_history cd es st =
     (let s = (if start_id st \<ge> 0 then start_id st else 0)
      in sbind (if end_id st \<ge> 0 then Inr (end_id st) else map_sum (\<lambda>x. x) fst (get_latest_event_id es))
           (\<lambda>e. sbind (search_events cd es s (Some e) False (Some agent_history_filter) None)
              (\<lambda>events. Inr (st\<lparr>history := events\<rparr>))))"

section \<open>Running\<close>

definition add_history :: "event \<Rightarrow> state \<Rightarrow> state" where
  "add_history e st = (if in_history e then st\<lparr>history := history st @ [e]\<rparr> else st)"

definition get_trajectory :: "(jdict \<Rightarrow> string) \<Rightarrow> state \<Rightarrow> bool \<Rightarrow> jdict option list" where
  "get_trajectory rp st include_screenshots =
     map (\<lambda>e. event_to_trajectory rp e include_screenshots) (history st)"

definition maybe_increase_control_flags_limits :: "bool \<Rightarrow> state \<Rightarrow> state" where
  "maybe_increase_control_flags_limits headless st =
     st\<lparr>iteration_flag := iter_increase_limit headless (iteration_flag st),
        budget_flag := map_option (budget_increase_limit headless) (budget_flag st)\<rparr>"

text \<open>\<open>run_control_flags\<close>: the exception, if one flag is at its limit, and the state\<close>

definition run_control_flags :: "state \<Rightarrow> exn option \<times> state" where
  "run_control_flags st =
     (let (x, f) = iter_step (iteration_flag st); st1 = st\<lparr>iteration_flag := f\<rparr>
      in case x of
           Some err \<Rightarrow> (Some err, st1)
         | None \<Rightarrow>
             (case budget_flag st1 of
                None \<Rightarrow> (None, st1)
              | Some b \<Rightarrow> (let (y, b') = budget_step b in (y, st1\<lparr>budget_flag := Some b'\<rparr>))))"

definition sync_budget_flag_with_metrics :: "state \<Rightarrow> state" where
  "sync_budget_flag_with_metrics st =
     (case (budget_flag st, conversation_stats st) of
        (Some b, Some cs) \<Rightarrow>
          st\<lparr>budget_flag := Some (b\<lparr>current_value := accumulated_cost (get_combined_metrics cs)\<rparr>)\<rparr>
      | _ \<Rightarrow> st)"

definition save_state :: "tracker \<Rightarrow> tracker" where
  "save_state t =
     (let t1 = (case (tr_sid t, tr_files t) of
                  (Some (c # s), Some fs) \<Rightarrow>
                    t\<lparr>tr_files := Some (save_to_session (c # s) (tr_user t) (tr_state t) fs)\<rparr>
                | _ \<Rightarrow> t)
      in t1\<lparr>tr_state := (tr_state t1)\<lparr>conversation_stats := map_option save_metrics (conversation_stats (tr_state t1))\<rparr>\<rparr>)"

section \<open>Properties\<close>

text \<open>The limits hold: a step that is let through was below both of them.\<close>

lemma run_control_flags_limits:
  assumes "run_control_flags st = (None, st')"
  shows "current_value (iteration_flag st) < max_value (iteration_flag st) \<and>
    current_value (iteration_flag st') = current_value (iteration_flag st) + 1 \<and>
    (\<forall>b. budget_flag st = Some b \<longrightarrow> current_value b < max_value b)"
  using assms
  by (auto simp: run_control_flags_def iter_step_def iter_reached_limit_def budget_step_def
      budget_reached_limit_def Let_def split_beta split: if_splits option.splits)

text \<open>The budget that is checked is the cost recorded by all services.\<close>

lemma sync_budget_total:
  assumes "budget_flag st = Some b" "conversation_stats st = Some cs"
  shows "budget_flag (sync_budget_flag_with_metrics st) =
    Some (b\<lparr>current_value := total_cost (service_to_metrics cs)\<rparr>)"
  using assms
  by (simp add: sync_budget_flag_with_metrics_def get_combined_metrics_def foldl_merge_cost
      total_cost_def metrics_init_def o_def)

lemma add_history_coherent [inv_intros]: "view_coherent st \<Longrightarrow> view_coherent (add_history e st)"
  by (simp add: add_history_def view_coherent_append)

subsection \<open>Cutting out delegates\<close>

definition outside_ranges :: "(int \<times> int) list \<Rightarrow> event \<Rightarrow> bool" where
  "outside_ranges rs ev \<longleftrightarrow> list_all (\<lambda>(s, e). \<not> (s < ev_id ev \<and> ev_id ev < e)) rs"

text \<open>Ranges one after the other, all above a bound\<close>

fun ordered_ranges :: "int \<Rightarrow> (int \<times> int) list \<Rightarrow> bool" where
  "ordered_ranges lo [] = True"
| "ordered_ranges lo ((s, e) # rs) = (lo < s \<and> s < e \<and> ordered_ranges e rs)"

lemma filter_append_sorted:
  assumes "sorted_wrt (<) (map f xs)"
    and "\<And>x y. x \<in> set xs \<Longrightarrow> y \<in> set xs \<Longrightarrow> P x \<Longrightarrow> Q y \<Longrightarrow> f x < (f y :: int)"
  shows "filter P xs @ filter Q xs = filter (\<lambda>x. P x \<or> Q x) xs"
  using assms
proof (induction xs)
  case (Cons x xs)
  then have IH: "filter P xs @ filter Q xs = filter (\<lambda>x. P x \<or> Q x) xs" by simp
  show ?case
  proof (cases "P x")
    case True
    then have "\<not> Q x" using Cons.prems(2) [of x x] by auto
    with True IH show ?thesis by simp
  next
    case False
    show ?thesis
    proof (cases "Q x")
      case True
      have "\<not> P y" if "y \<in> set xs" for y
        using Cons.prems that True by fastforce
      then have "filter P xs = []" by (simp add: filter_empty_conv)
      with False True IH show ?thesis by simp
    next
      case False
      with \<open>\<not> P x\<close> IH show ?thesis by simp
    qed
  qed
qed simp

lemma drop_after:
  assumes "sorted_wrt (<) (map ev_id events)"
  shows "drop (case find_index (\<lambda>ev. ev_id ev > e) events of Some i \<Rightarrow> i | None \<Rightarrow> length events) events
    = filter (\<lambda>ev. ev_id ev > e) events"
  using assms
proof (induction events)
  case (Cons x xs)
  show ?case
  proof (cases "ev_id x > e")
    case True
    with Cons.prems have "filter (\<lambda>ev. ev_id ev > e) xs = xs" by (fastforce simp: filter_id_conv)
    with True show ?thesis by simp
  next
    case False
    with Cons show ?thesis by (cases "find_index (\<lambda>ev. ev_id ev > e) xs") simp_all
  qed
qed simp

lemma cut_loop:
  assumes srt: "sorted_wrt (<) (map ev_id events)" and rs: "ordered_ranges lo rs"
    and out: "out = filter (\<lambda>ev. ev_id ev \<le> lo \<and> outside_ranges ds ev) events"
    and idx: "drop idx events = filter (\<lambda>ev. lo < ev_id ev) events"
    and fin: "list_all (\<lambda>(s, e). e \<le> lo) ds"
  shows "(let (out', idx') = foldl (cut_step events) (out, idx) rs in out' @ drop idx' events)
    = filter (outside_ranges (ds @ rs)) events"
  using rs out idx fin
proof (induction rs arbitrary: lo out idx ds)
  case Nil
  have "filter (\<lambda>ev. ev_id ev \<le> lo \<and> outside_ranges ds ev) events @ filter (\<lambda>ev. lo < ev_id ev) events
      = filter (\<lambda>ev. (ev_id ev \<le> lo \<and> outside_ranges ds ev) \<or> lo < ev_id ev) events"
    by (rule filter_append_sorted [OF srt]) auto
  also have "\<dots> = filter (outside_ranges ds) events"
    using Nil.prems(4) by (intro filter_cong) (auto simp: outside_ranges_def list_all_iff)
  finally show ?case using Nil by simp
next
  case (Cons r rs)
  obtain s e where r: "r = (s, e)" by (cases r)
  with Cons.prems(1) have o: "lo < s" "s < e" "ordered_ranges e rs" by simp_all
  let ?idx = "case find_index (\<lambda>ev. ev_id ev > e) events of Some i \<Rightarrow> i | None \<Rightarrow> length events"
  let ?out = "out @ filter (\<lambda>ev. ev_id ev < s) (drop idx events) @ filter (\<lambda>ev. ev_id ev = s \<or> ev_id ev = e) events"
  have 1: "filter (\<lambda>ev. ev_id ev < s) (drop idx events) = filter (\<lambda>ev. lo < ev_id ev \<and> ev_id ev < s) events"
    using Cons.prems(3) by (simp add: conj_commute)
  have 2: "filter (\<lambda>ev. lo < ev_id ev \<and> ev_id ev < s) events @ filter (\<lambda>ev. ev_id ev = s \<or> ev_id ev = e) events
      = filter (\<lambda>ev. (lo < ev_id ev \<and> ev_id ev < s) \<or> ev_id ev = s \<or> ev_id ev = e) events"
    by (rule filter_append_sorted [OF srt]) (use o in auto)
  have 3: "out @ filter (\<lambda>ev. (lo < ev_id ev \<and> ev_id ev < s) \<or> ev_id ev = s \<or> ev_id ev = e) events
      = filter (\<lambda>ev. (ev_id ev \<le> lo \<and> outside_ranges ds ev) \<or>
          ((lo < ev_id ev \<and> ev_id ev < s) \<or> ev_id ev = s \<or> ev_id ev = e)) events"
    unfolding Cons.prems(2) by (rule filter_append_sorted [OF srt]) (use o in auto)
  have out: "?out = filter (\<lambda>ev. ev_id ev \<le> e \<and> outside_ranges (ds @ [(s, e)]) ev) events"
    unfolding 1 2 3 using o Cons.prems(4)
    by (intro filter_cong) (auto simp: outside_ranges_def list_all_iff)
  have "(let (out', idx') = foldl (cut_step events) (?out, ?idx) rs in out' @ drop idx' events)
      = filter (outside_ranges ((ds @ [(s, e)]) @ rs)) events"
    by (rule Cons.IH [OF o(3) out drop_after [OF srt]]) (use o Cons.prems(4) in \<open>auto simp: list_all_iff\<close>)
  moreover have "cut_step events (out, idx) r = (?out, ?idx)" by (simp add: r cut_step_def)
  ultimately show ?case by (simp add: r)
qed

lemma cut_delegates_spec:
  assumes "sorted_wrt (<) (map ev_id events)" "ordered_ranges lo rs" "\<forall>ev \<in> set events. lo < ev_id ev"
  shows "cut_delegates rs events = filter (outside_ranges rs) events"
proof -
  have "[] = filter (\<lambda>ev. ev_id ev \<le> lo \<and> outside_ranges [] ev) events"
    using assms(3) by (subst eq_commute) (auto simp: filter_empty_conv)
  moreover have "drop 0 events = filter (\<lambda>ev. lo < ev_id ev) events"
    using assms(3) by (simp add: filter_id_conv)
  ultimately show ?thesis
    using cut_loop [OF assms(1,2), of "[]" "[]" 0] by (simp add: cut_delegates_def)
qed

text \<open>Delegations that are not nested: no delegate action while another one is open\<close>

fun flat_delegates :: "bool \<Rightarrow> event list \<Rightarrow> bool" where
  "flat_delegates b [] = True"
| "flat_delegates b (e # es) =
     (case payload e of
        Act (AgentDelegateAction _) \<Rightarrow> \<not> b \<and> flat_delegates True es
      | Obs (AgentDelegateObservation _) \<Rightarrow> flat_delegates False es
      | _ \<Rightarrow> flat_delegates b es)"

lemma delegate_ranges_ordered:
  assumes "flat_delegates (stack \<noteq> []) es" "sorted_wrt (<) (map ev_id es)" "length stack \<le> 1"
    and "\<forall>e \<in> set es. lo < ev_id e" "\<forall>a \<in> set stack. lo < a \<and> (\<forall>e \<in> set es. a < ev_id e)"
  shows "ordered_ranges lo (delegate_ranges stack es)"
  using assms
proof (induction stack es arbitrary: lo rule: delegate_ranges.induct)
  case (2 stack e es)
  show ?case
  proof (cases "payload e")
    case (Act a)
    show ?thesis
    proof (cases a)
      case (AgentDelegateAction d)
      with 2 Act show ?thesis by simp
    qed (use 2 Act in auto)
  next
    case (Obs ob)
    show ?thesis
    proof (cases ob)
      case (AgentDelegateObservation d)
      show ?thesis
      proof (cases stack)
        case Nil
        with 2 Obs AgentDelegateObservation show ?thesis by simp
      next
        case (Cons s rest)
        with "2.prems"(3) have "rest = []" by simp
        with Cons 2 Obs AgentDelegateObservation show ?thesis by auto
      qed
    qed (use 2 Obs in auto)
  qed
qed simp

lemma sort_ordered_ranges: "ordered_ranges lo rs \<Longrightarrow> sort_pairs rs = rs"
proof (induction rs arbitrary: lo)
  case Nil
  show ?case by (simp add: sort_pairs_def)
next
  case (Cons r rs)
  obtain s e where r: "r = (s, e)" by (cases r)
  with Cons have "sort_pairs rs = rs" "s < e" "ordered_ranges e rs" by auto
  then have "insert_pair r (sort_pairs rs) = r # rs"
    by (cases rs) (auto simp: r pair_le_def)
  then show ?case by (simp add: sort_pairs_def)
qed

text \<open>
  The restored history of an agent whose delegations are not nested: the relevant events of the
  range that lie outside every delegation, in order.
\<close>

lemma map_filter_event_ids:
  assumes "\<And>i e. event_at cd es i = Some e \<Longrightarrow> ev_id e = i"
  shows "sorted_wrt (<) (map ev_id (List.map_filter (event_at cd es) [s..e]))"
    and "x \<in> set (List.map_filter (event_at cd es) [s..e]) \<Longrightarrow> s \<le> ev_id x"
proof -
  have ids: "x \<in> set (List.map_filter (event_at cd es) is) \<Longrightarrow> ev_id x \<in> set is" for x "is"
    using assms by (auto simp: map_filter_def)
  have "sorted_wrt (<) is \<Longrightarrow> sorted_wrt (<) (map ev_id (List.map_filter (event_at cd es) is))" for "is"
  proof (induction "is")
    case (Cons i "is")
    then show ?case
      using assms ids [of _ "is"] by (cases "event_at cd es i") (auto simp: map_filter_simps)
  qed (simp add: map_filter_simps)
  then show "sorted_wrt (<) (map ev_id (List.map_filter (event_at cd es) [s..e]))"
    by (simp add: sorted_wrt_upto)
  show "x \<in> set (List.map_filter (event_at cd es) [s..e]) \<Longrightarrow> s \<le> ev_id x"
    using ids [of x "[s..e]"] by simp
qed

lemma init_history_spec:
  assumes ok: "store_ok cd es" and ids: "\<And>i e. event_at cd es i = Some e \<Longrightarrow> ev_id e = i"
    and n: "cur_id es = Inr (n, es')" "end_id st < 0" "0 \<le> start_id st" "start_id st \<le> n"
  defines "events \<equiv> filter in_history (List.map_filter (event_at cd es) [start_id st..n - 1])"
  assumes flat: "flat_delegates False events"
  shows "\<exists>st'. init_history cd es st = Inr st' \<and>
    history st' = filter (outside_ranges (delegate_ranges [] events)) events \<and>
    start_id st' = (if delegate_ranges [] events = [] then start_id st else fst (last (delegate_ranges [] events)))"
proof -
  have search: "search_events cd es (start_id st) (Some (n - 1)) False (Some agent_history_filter) None = Inr events"
    using search_events_spec [OF ok n(1), of "start_id st" "Some (n - 1)"]
    by (simp add: cut_def matching_def in_history_filter search_range_def events_def)
  have srt: "sorted_wrt (<) (map ev_id events)"
    using map_filter_event_ids(1) [where cd = cd and es = es, OF ids] unfolding events_def
    by (simp add: sorted_wrt_map sorted_wrt_filter)
  have lo: "\<forall>ev \<in> set events. start_id st - 1 < ev_id ev"
    using map_filter_event_ids(2) [where cd = cd and es = es, OF ids] unfolding events_def by fastforce
  have ord: "ordered_ranges (start_id st - 1) (delegate_ranges [] events)"
    by (rule delegate_ranges_ordered) (use flat srt lo in auto)
  have cut: "cut_delegates (delegate_ranges [] events) events = filter (outside_ranges (delegate_ranges [] events)) events"
    by (rule cut_delegates_spec [OF srt ord lo])
  have all: "filter (outside_ranges []) events = events" by (simp add: filter_id_conv outside_ranges_def)
  show ?thesis
    using n search cut all sort_ordered_ranges [OF ord]
    by (auto simp: init_history_def Let_def get_latest_event_id_def)
qed

end
