(* ===== verification/Stuck_Detector.thy ===== *)
theory Stuck_Detector
  imports Event_Ops
begin

text \<open>
  \<open>openhands/controller/stuck.py\<close>: five patterns in the recent history that count as a loop, and the
  analysis a detection leaves behind for the recovery.
\<close>

record stuck_analysis =
  loop_type :: string
  loop_repeat_times :: int
  loop_start_idx :: int

definition is_null_event :: "event \<Rightarrow> bool" where
  "is_null_event e \<longleftrightarrow> isinstance e C_NullAction \<or> isinstance e C_NullObservation"

section \<open>Comparison\<close>

definition str_lines :: "string \<Rightarrow> string list" where
  "str_lines s = str_split newline s"

text \<open>\<open>_eq_no_pid\<close>\<close>

definition eq_no_pid :: "event \<Rightarrow> event \<Rightarrow> bool" where
  "eq_no_pid x y =
     (case (payload x, payload y) of
        (Act (IPythonRunCellAction a), Act (IPythonRunCellAction b)) \<Rightarrow>
          if str_contains ''edit_file_by_replace('' (ipy_code a) \<and>
             str_contains ''edit_file_by_replace('' (ipy_code b)
          then length (str_lines (ipy_code a)) > 2 \<and>
               take 3 (str_lines (ipy_code a)) = take 3 (str_lines (ipy_code b))
          else ev_eq x y
      | (Obs (CmdOutputObservation a), Obs (CmdOutputObservation b)) \<Rightarrow>
          coo_command a = coo_command b \<and>
          com_exit_code (coo_metadata a) = com_exit_code (coo_metadata b)
      | _ \<Rightarrow> ev_eq x y)"

text \<open>\<open>list.index\<close>; the searched event is an element, so the search succeeds.\<close>

definition event_index :: "event list \<Rightarrow> event \<Rightarrow> int" where
  "event_index es e = (case find_index (\<lambda>x. ev_eq x e) es of Some i \<Rightarrow> int i | None \<Rightarrow> 0)"

section \<open>Recent actions and observations\<close>

text \<open>The loop over the reversed history; the accumulators have the most recent event first.\<close>

fun collect_recent :: "nat \<Rightarrow> event list \<Rightarrow> event list \<Rightarrow> event list \<Rightarrow> event list \<times> event list" where
  "collect_recent n acts obs [] = (acts, obs)"
| "collect_recent n acts obs (e # es) =
     (let acts' = (if is_action e \<and> length acts < n then acts @ [e] else acts);
          obs' = (if is_action e \<and> length acts < n then obs
                  else if is_observation e \<and> length obs < n then obs @ [e] else obs)
      in if length acts' = n \<and> length obs' = n then (acts', obs')
         else collect_recent n acts' obs' es)"

section \<open>Scenarios\<close>

definition mk_analysis :: "string \<Rightarrow> int \<Rightarrow> int \<Rightarrow> stuck_analysis" where
  "mk_analysis t n i = \<lparr>loop_type = t, loop_repeat_times = n, loop_start_idx = i\<rparr>"

definition stuck_repeating_action_observation ::
    "event list \<Rightarrow> event list \<Rightarrow> event list \<Rightarrow> int \<Rightarrow> stuck_analysis option" where
  "stuck_repeating_action_observation acts obs fh off =
     (if length acts = 4 \<and> length obs = 4 \<and>
         list_all (eq_no_pid (acts ! 0)) acts \<and> list_all (eq_no_pid (obs ! 0)) obs
      then Some (mk_analysis ''repeating_action_observation'' 4 (event_index fh (last acts) + off))
      else None)"

definition ipython_content :: "event \<Rightarrow> string" where
  "ipython_content e = (case payload e of Obs (IPythonRunCellObservation b) \<Rightarrow> ipo_content b | _ \<Rightarrow> [])"

definition content_lines :: "event \<Rightarrow> string list" where
  "content_lines e = str_lines (str_strip (ipython_content e))"

definition from_end :: "'a list \<Rightarrow> nat \<Rightarrow> 'a" where
  "from_end xs k = xs ! (length xs - k)"

text \<open>\<open>_check_for_consistent_invalid_syntax\<close>\<close>

definition consistent_invalid_syntax :: "event list \<Rightarrow> string \<Rightarrow> bool" where
  "consistent_invalid_syntax obs msg =
     (if \<not> list_all (\<lambda>b. length (content_lines b) \<ge> 6 \<and>
                         str_startswith (str_strip (content_lines b ! 0)) ''Cell In[1], line'') obs
      then False
      else (let first_lines = map (\<lambda>b. str_strip (content_lines b ! 0)) obs;
                valid = filter (\<lambda>b. str_startswith (from_end (content_lines b) 1) ''[Jupyter Python interpreter:'' \<and>
                                    str_startswith (from_end (content_lines b) 2) ''[Jupyter current working directory:'' \<and>
                                    str_contains msg (from_end (content_lines b) 3)) obs
            in length (remdups first_lines) = 1 \<and> length valid = 3 \<and>
               length (remdups (map (\<lambda>b. from_end (content_lines b) 3) valid)) = 1))"

text \<open>\<open>_check_for_consistent_line_error\<close>\<close>

definition consistent_line_error :: "event list \<Rightarrow> string \<Rightarrow> bool" where
  "consistent_line_error obs msg =
     (if \<not> list_all (\<lambda>b. length (content_lines b) \<ge> 3 \<and>
                         str_startswith (from_end (content_lines b) 2) ''[Jupyter current working directory:'' \<and>
                         str_startswith (from_end (content_lines b) 1) ''[Jupyter Python interpreter:'') obs
      then False
      else (let error_lines = filter (str_contains msg) (map (\<lambda>b. from_end (content_lines b) 3) obs)
            in length error_lines = 3 \<and> length (remdups error_lines) = 1))"

definition UNTERMINATED :: string where
  "UNTERMINATED = ''SyntaxError: unterminated string literal (detected at line''"

definition SYNTAX_ERROR_MESSAGES :: "string list" where
  "SYNTAX_ERROR_MESSAGES =
     [UNTERMINATED, ''SyntaxError: invalid syntax. Perhaps you forgot a comma?'',
      ''SyntaxError: incomplete input'']"

definition stuck_repeating_action_error ::
    "event list \<Rightarrow> event list \<Rightarrow> event list \<Rightarrow> int \<Rightarrow> stuck_analysis option" where
  "stuck_repeating_action_error acts obs fh off =
     (let analysis = mk_analysis ''repeating_action_error'' 3 (event_index fh (last acts) + off)
      in if length acts < 3 \<or> length obs < 3 then None
         else if \<not> list_all (eq_no_pid (acts ! 0)) (take 3 acts) then None
         else if list_all (\<lambda>b. isinstance b C_ErrorObservation) (take 3 obs) then Some analysis
         else if list_all (\<lambda>b. isinstance b C_IPythonRunCellObservation) (take 3 obs) \<and>
                 list_ex (\<lambda>msg. if str_startswith msg UNTERMINATED
                                then consistent_line_error (take 3 obs) msg
                                else consistent_invalid_syntax (take 3 obs) msg) SYNTAX_ERROR_MESSAGES
              then Some analysis
         else None)"

definition indexed :: "(event \<Rightarrow> bool) \<Rightarrow> event list \<Rightarrow> (nat \<times> event) list" where
  "indexed P es = filter (\<lambda>(i, e). P e) (enumerate 0 es)"

definition stuck_monologue :: "event list \<Rightarrow> int \<Rightarrow> stuck_analysis option" where
  "stuck_monologue fh off =
     (let msgs = indexed is_agent_message fh
      in if length msgs \<ge> 3
         then (let last3 = drop (length msgs - 3) msgs;
                   s = fst (last3 ! 0); e = fst (last last3)
               in if list_all (\<lambda>(i, x). ev_eq (snd (last3 ! 0)) x) last3 \<and>
                     \<not> list_ex is_observation (take (e - Suc s) (drop (Suc s) fh))
                  then Some (mk_analysis ''monologue'' 3 (int s + off))
                  else None)
         else None)"

definition stuck_action_observation_pattern :: "event list \<Rightarrow> int \<Rightarrow> stuck_analysis option" where
  "stuck_action_observation_pattern fh off =
     (let (acts, obs) = collect_recent 6 [] [] (rev fh)
      in if length acts = 6 \<and> length obs = 6 \<and>
            eq_no_pid (acts ! 0) (acts ! 2) \<and> eq_no_pid (acts ! 0) (acts ! 4) \<and>
            eq_no_pid (acts ! 1) (acts ! 3) \<and> eq_no_pid (acts ! 1) (acts ! 5) \<and>
            eq_no_pid (obs ! 0) (obs ! 2) \<and> eq_no_pid (obs ! 0) (obs ! 4) \<and>
            eq_no_pid (obs ! 1) (obs ! 3) \<and> eq_no_pid (obs ! 1) (obs ! 5)
         then Some (mk_analysis ''repeating_action_observation_pattern'' 3 (event_index fh (last acts) + off))
         else None)"

definition is_condensation :: "event \<Rightarrow> bool" where
  "is_condensation e \<longleftrightarrow> isinstance e C_AgentCondensationObservation"

definition stuck_context_window_error :: "event list \<Rightarrow> int \<Rightarrow> stuck_analysis option" where
  "stuck_context_window_error fh off =
     (let cs = indexed is_condensation fh
      in if length cs < 10 then None
         else (let last10 = map fst (drop (length cs - 10) cs)
               in case find (\<lambda>(s, e). \<not> list_ex (\<lambda>x. \<not> is_condensation x) (take (e - Suc s) (drop (Suc s) fh)))
                         (zip last10 (tl last10)) of
                    Some (s, e) \<Rightarrow> Some (mk_analysis ''context_window_error'' 2 (int s + off))
                  | None \<Rightarrow> None))"

section \<open>The verdict\<close>

text \<open>The first scenario that applies\<close>

definition stuck_scenarios :: "event list \<Rightarrow> int \<Rightarrow> stuck_analysis option" where
  "stuck_scenarios fh off =
     (let (acts, obs) = collect_recent 4 [] [] (rev fh)
      in case stuck_repeating_action_observation acts obs fh off of
           Some a \<Rightarrow> Some a
         | None \<Rightarrow>
        (case stuck_repeating_action_error acts obs fh off of
           Some a \<Rightarrow> Some a
         | None \<Rightarrow>
        (case stuck_monologue fh off of
           Some a \<Rightarrow> Some a
         | None \<Rightarrow>
        (case (if length fh \<ge> 6 then stuck_action_observation_pattern fh off else None) of
           Some a \<Rightarrow> Some a
         | None \<Rightarrow> (if length fh \<ge> 10 then stuck_context_window_error fh off else None)))))"

definition last_user_idx :: "event list \<Rightarrow> int" where
  "last_user_idx h =
     (case find_index is_user_message (rev h) of None \<Rightarrow> - 1 | Some i \<Rightarrow> int (length h) - int i - 1)"

definition history_to_check :: "bool \<Rightarrow> event list \<Rightarrow> event list" where
  "history_to_check headless h = (if headless then h else py_slice h (Some (last_user_idx h + 1)) None)"

definition history_offset :: "bool \<Rightarrow> event list \<Rightarrow> int" where
  "history_offset headless h = (if headless then 0 else last_user_idx h + 1)"

definition filtered_history :: "bool \<Rightarrow> event list \<Rightarrow> event list" where
  "filtered_history headless h =
     filter (\<lambda>e. \<not> (is_user_message e \<or> is_null_event e)) (history_to_check headless h)"

text \<open>\<open>is_stuck\<close>: the verdict and the analysis the detector holds afterwards\<close>

definition is_stuck ::
    "bool \<Rightarrow> event list \<Rightarrow> stuck_analysis option \<Rightarrow> bool \<times> stuck_analysis option" where
  "is_stuck headless h old =
     (let fh = filtered_history headless h
      in if length fh < 3 then (False, old)
         else (case stuck_scenarios fh (history_offset headless h) of
                 Some a \<Rightarrow> (True, Some a)
               | None \<Rightarrow> (False, None)))"

section \<open>Recent events\<close>

lemma collect_recent_spec:
  assumes "length acts \<le> n" "length obs \<le> n" "\<not> (length acts = n \<and> length obs = n) \<or> es = []"
  shows "collect_recent n acts obs es =
    (acts @ take (n - length acts) (filter is_action es), obs @ take (n - length obs) (filter is_observation es))"
  using assms
proof (induction n acts obs es rule: collect_recent.induct)
  case (2 n acts obs e es)
  define acts' where "acts' = (if is_action e \<and> length acts < n then acts @ [e] else acts)"
  define obs' where "obs' = (if is_action e \<and> length acts < n then obs
                  else if is_observation e \<and> length obs < n then obs @ [e] else obs)"
  have le: "length acts' \<le> n" "length obs' \<le> n" using "2.prems" by (auto simp: acts'_def obs'_def)
  have a: "acts @ take (n - length acts) (filter is_action (e # es)) =
      acts' @ take (n - length acts') (filter is_action es)"
    using "2.prems" by (auto simp: acts'_def take_Cons' Suc_diff_Suc not_less is_observation_iff)
  have b: "obs @ take (n - length obs) (filter is_observation (e # es)) =
      obs' @ take (n - length obs') (filter is_observation es)"
    using "2.prems" by (auto simp: obs'_def take_Cons' Suc_diff_Suc not_less is_observation_iff)
  have step: "collect_recent n acts obs (e # es) =
      (if length acts' = n \<and> length obs' = n then (acts', obs') else collect_recent n acts' obs' es)"
    by (simp only: collect_recent.simps Let_def acts'_def obs'_def)
  show ?case
  proof (cases "length acts' = n \<and> length obs' = n")
    case True
    then show ?thesis unfolding a b step by simp
  next
    case False
    then have "collect_recent n acts' obs' es =
        (acts' @ take (n - length acts') (filter is_action es), obs' @ take (n - length obs') (filter is_observation es))"
      using 2(1) [OF acts'_def obs'_def False le] by simp
    with False show ?thesis unfolding a b step by (simp only: if_False)
  qed
qed simp

lemma collect_recent_last:
  "0 < n \<Longrightarrow> collect_recent n [] [] (rev fh) =
     (take n (rev (filter is_action fh)), take n (rev (filter is_observation fh)))"
  by (simp add: collect_recent_spec rev_filter)

section \<open>Soundness\<close>

text \<open>Evidence of repetition in a list of events\<close>

definition repeats :: "(event \<Rightarrow> bool) \<Rightarrow> event list \<Rightarrow> bool" where
  "repeats P es \<longleftrightarrow>
     (\<exists>i j. i < j \<and> j < length es \<and> P (es ! i) \<and> P (es ! j) \<and> (eq_no_pid (es ! j) (es ! i) \<or> ev_eq (es ! i) (es ! j)))"

lemma filter_nth_positions:
  "i < j \<Longrightarrow> j < length (filter P xs) \<Longrightarrow>
   \<exists>p q. p < q \<and> q < length xs \<and> xs ! p = filter P xs ! i \<and> xs ! q = filter P xs ! j"
proof (induction xs arbitrary: i j)
  case (Cons x xs)
  show ?case
  proof (cases "P x")
    case False
    with Cons.prems have "j < length (filter P xs)" by simp
    from Cons.IH [OF Cons.prems(1) this] obtain p q
      where "p < q" "q < length xs" "xs ! p = filter P xs ! i" "xs ! q = filter P xs ! j"
      by blast
    with False show ?thesis by (intro exI [of _ "Suc p"] exI [of _ "Suc q"]) simp
  next
    case True
    obtain j' where j: "j = Suc j'" using Cons.prems by (cases j) auto
    show ?thesis
    proof (cases i)
      case 0
      have "j' < length (filter P xs)" using Cons.prems True j by simp
      then have "filter P xs ! j' \<in> set xs" by (metis nth_mem set_filter mem_Collect_eq)
      then obtain q where "q < length xs" "xs ! q = filter P xs ! j'" by (auto simp: in_set_conv_nth)
      with 0 True j show ?thesis by (intro exI [of _ 0] exI [of _ "Suc q"]) simp
    next
      case (Suc i')
      with Cons.prems True j have "i' < j'" "j' < length (filter P xs)" by auto
      from Cons.IH [OF this] obtain p q
        where "p < q" "q < length xs" "xs ! p = filter P xs ! i'" "xs ! q = filter P xs ! j'" by blast
      with Suc True j show ?thesis by (intro exI [of _ "Suc p"] exI [of _ "Suc q"]) simp
    qed
  qed
qed simp

text \<open>The \<open>k\<close>-th most recent element of a kind occurs before the more recent ones.\<close>

lemma recent_repeats:
  assumes "b < n" "a < b" "length (take n (rev (filter P fh))) = n"
    and "eq_no_pid (take n (rev (filter P fh)) ! a) (take n (rev (filter P fh)) ! b)"
  shows "repeats P fh"
proof -
  let ?f = "filter P fh"
  let ?L = "length ?f"
  from assms have L: "n \<le> ?L" by simp
  have nth: "take n (rev ?f) ! k = ?f ! (?L - Suc k)" if "k < n" for k
    using that L by (simp add: rev_nth)
  have "?L - Suc b < ?L - Suc a" "?L - Suc a < ?L" using assms L by linarith+
  then obtain p q where pq: "p < q" "q < length fh" "fh ! p = ?f ! (?L - Suc b)" "fh ! q = ?f ! (?L - Suc a)"
    using filter_nth_positions by blast
  moreover have "P (?f ! (?L - Suc b))" "P (?f ! (?L - Suc a))"
    using assms L nth_mem [of "?L - Suc b" ?f] nth_mem [of "?L - Suc a" ?f] by auto
  ultimately show ?thesis
    using assms nth [of a] nth [of b] unfolding repeats_def by (intro exI [of _ p] exI [of _ q]) auto
qed

lemma indexed_nth:
  assumes "(i, e) \<in> set (indexed P fh)"
  shows "i < length fh" "e = fh ! i" "P e"
  using assms by (auto simp: indexed_def in_set_enumerate_eq)

lemma indexed_sorted: "sorted_wrt (<) (map fst (indexed P fh))"
proof -
  have "sorted_wrt (\<lambda>p q. fst p < fst q) (enumerate 0 fh)"
    by (auto simp: sorted_wrt_iff_nth_less nth_enumerate_eq)
  then show ?thesis by (simp add: indexed_def sorted_wrt_map sorted_wrt_filter)
qed

lemma indexed_length: "length (indexed P fh) = length (filter P fh)"
proof -
  have "length (filter (\<lambda>(i, e). P e) (enumerate n fh)) = length (filter P fh)" for n
    by (induction fh arbitrary: n) simp_all
  then show ?thesis by (simp add: indexed_def)
qed

lemma monologue_repeats:
  assumes "stuck_monologue fh off = Some a"
  shows "repeats is_action fh \<and> off \<le> loop_start_idx a \<and> loop_start_idx a < off + int (length fh)"
proof -
  let ?m = "indexed is_agent_message fh"
  let ?l = "drop (length ?m - 3) ?m"
  from assms have len: "length ?m \<ge> 3" and eq: "list_all (\<lambda>(i, x). ev_eq (snd (?l ! 0)) x) ?l"
    and a: "a = mk_analysis ''monologue'' 3 (int (fst (?l ! 0)) + off)"
    by (auto simp: stuck_monologue_def Let_def split: if_splits)
  have mem: "?l ! k \<in> set ?m" if "k < 3" for k using that len by simp
  obtain i x where 0: "?l ! 0 = (i, x)" by fastforce
  obtain j y where 1: "?l ! 1 = (j, y)" by fastforce
  have ij: "i < length fh" "x = fh ! i" "is_agent_message x" "j < length fh" "y = fh ! j" "is_agent_message y"
    using indexed_nth [of i x is_agent_message fh] indexed_nth [of j y is_agent_message fh]
      mem [of 0] mem [of 1] 0 1 by simp_all
  have "map fst ?m ! (length ?m - 3) < map fst ?m ! (length ?m - 3 + 1)"
    using indexed_sorted [of is_agent_message fh] len by (auto simp: sorted_wrt_iff_nth_less simp del: nth_map)
  then have "i < j" using 0 1 len by simp
  moreover have "ev_eq x y"
  proof -
    have "1 < length ?l" using len by simp
    then have "(j, y) \<in> set ?l" using 1 nth_mem by metis
    from bspec [OF eq [unfolded list_all_iff] this] show ?thesis unfolding 0 by simp
  qed
  ultimately have "repeats is_action fh"
    using ij is_message_from_action unfolding repeats_def
    by (intro exI [of _ i] exI [of _ j]) auto
  with a 0 ij show ?thesis by (simp add: mk_analysis_def)
qed

lemma event_index_bound:
  assumes "e \<in> set es"
  shows "0 \<le> event_index es e" "event_index es e < int (length es)"
proof -
  have "find_index (\<lambda>x. ev_eq x e) es \<noteq> None"
    using assms unfolding find_index_None by (metis ev_eq_refl)
  then obtain i where "find_index (\<lambda>x. ev_eq x e) es = Some i" by blast
  with find_index_Some [OF this] show "0 \<le> event_index es e" "event_index es e < int (length es)"
    by (simp_all add: event_index_def)
qed

lemma last_recent_mem:
  assumes "take n (rev (filter P fh)) \<noteq> []"
  shows "last (take n (rev (filter P fh))) \<in> set fh"
proof -
  have "last (take n (rev (filter P fh))) \<in> set (take n (rev (filter P fh)))" using assms by (rule last_in_set)
  then show ?thesis by (auto dest: in_set_takeD)
qed

lemma context_window_bound:
  assumes "stuck_context_window_error fh off = Some a"
  shows "10 \<le> length (filter is_condensation fh) \<and> off \<le> loop_start_idx a \<and>
    loop_start_idx a < off + int (length fh)"
proof -
  let ?c = "indexed is_condensation fh"
  let ?l = "map fst (drop (length ?c - 10) ?c)"
  from assms have len: "10 \<le> length ?c" by (auto simp: stuck_context_window_error_def Let_def split: if_splits)
  with assms obtain s e where f: "find (\<lambda>(s, e). \<not> list_ex (\<lambda>x. \<not> is_condensation x)
        (take (e - Suc s) (drop (Suc s) fh))) (zip ?l (tl ?l)) = Some (s, e)"
    and a: "a = mk_analysis ''context_window_error'' 2 (int s + off)"
    by (auto simp: stuck_context_window_error_def Let_def split: option.splits)
  from f have "(s, e) \<in> set (zip ?l (tl ?l))" unfolding find_Some_iff by (metis nth_mem)
  then have "s \<in> set ?l" by (rule set_zip_leftD)
  then obtain x where "(s, x) \<in> set ?c" by (auto dest: in_set_dropD)
  then have "s < length fh" by (rule indexed_nth)
  with a len show ?thesis by (simp add: indexed_length mk_analysis_def)
qed

lemma stuck_scenarios_sound:
  assumes "stuck_scenarios fh off = Some a"
  shows "(repeats is_action fh \<or> 10 \<le> length (filter is_condensation fh)) \<and>
    off \<le> loop_start_idx a \<and> loop_start_idx a < off + int (length fh)"
proof -
  let ?A = "\<lambda>n. take n (rev (filter is_action fh))" and ?O = "\<lambda>n. take n (rev (filter is_observation fh))"
  from assms consider
    "stuck_repeating_action_observation (?A 4) (?O 4) fh off = Some a"
    | "stuck_repeating_action_error (?A 4) (?O 4) fh off = Some a"
    | "stuck_monologue fh off = Some a"
    | "stuck_action_observation_pattern fh off = Some a"
    | "stuck_context_window_error fh off = Some a"
    by (auto simp: stuck_scenarios_def collect_recent_last split: option.splits if_splits)
  then show ?thesis
  proof cases
    case 1
    then have l: "length (?A 4) = 4" "list_all (eq_no_pid (?A 4 ! 0)) (?A 4)"
      and a: "a = mk_analysis ''repeating_action_observation'' 4 (event_index fh (last (?A 4)) + off)"
      by (auto simp: stuck_repeating_action_observation_def split: if_splits)
    have "eq_no_pid (?A 4 ! 0) (?A 4 ! 1)" using l by (metis list_all_length one_less_numeral_iff semiring_norm(76))
    then have "repeats is_action fh" by (rule recent_repeats [rotated 3]) (use l in simp_all)
    moreover have "last (?A 4) \<in> set fh" by (rule last_recent_mem) (use l in auto)
    ultimately show ?thesis using event_index_bound [of "last (?A 4)" fh] a by (simp add: mk_analysis_def)
  next
    case 2
    then have l: "3 \<le> length (?A 4)" "list_all (eq_no_pid (?A 4 ! 0)) (take 3 (?A 4))"
      and a: "a = mk_analysis ''repeating_action_error'' 3 (event_index fh (last (?A 4)) + off)"
      by (auto simp: stuck_repeating_action_error_def Let_def not_less split: if_splits)
    have t: "take 3 (?A 4) = ?A 3" by simp
    have l3: "length (?A 3) = 3" "?A 4 ! 0 = ?A 3 ! 0" using l by auto
    have "eq_no_pid (?A 3 ! 0) (?A 3 ! 1)"
      using l(2) l3 unfolding t by (auto simp: list_all_length)
    then have "repeats is_action fh" by (rule recent_repeats [rotated 3]) (use l3 in simp_all)
    moreover have "last (?A 4) \<in> set fh" by (rule last_recent_mem) (use l in auto)
    ultimately show ?thesis using event_index_bound [of "last (?A 4)" fh] a by (simp add: mk_analysis_def)
  next
    case 3
    then show ?thesis using monologue_repeats by blast
  next
    case 4
    then have l: "length (?A 6) = 6" "eq_no_pid (?A 6 ! 0) (?A 6 ! 2)"
      and a: "a = mk_analysis ''repeating_action_observation_pattern'' 3 (event_index fh (last (?A 6)) + off)"
      by (auto simp: stuck_action_observation_pattern_def collect_recent_last split: if_splits)
    have "repeats is_action fh" by (rule recent_repeats [OF _ _ l]) simp_all
    moreover have "last (?A 6) \<in> set fh" by (rule last_recent_mem) (use l in auto)
    ultimately show ?thesis using event_index_bound [of "last (?A 6)" fh] a by (simp add: mk_analysis_def)
  next
    case 5
    then show ?thesis using context_window_bound by blast
  qed
qed

lemma is_stuck_sound:
  assumes "is_stuck headless h old = (True, a')"
  obtains a where "a' = Some a"
    and "repeats is_action (filtered_history headless h) \<or>
         10 \<le> length (filter is_condensation (filtered_history headless h))"
    and "history_offset headless h \<le> loop_start_idx a"
    and "loop_start_idx a < history_offset headless h + int (length (filtered_history headless h))"
proof -
  let ?fh = "filtered_history headless h" and ?off = "history_offset headless h"
  from assms obtain a where a: "stuck_scenarios ?fh ?off = Some a" "a' = Some a"
    by (cases "stuck_scenarios ?fh ?off") (auto simp: is_stuck_def Let_def split: if_splits)
  from that [OF a(2)] stuck_scenarios_sound [OF a(1)] show thesis by blast
qed

section \<open>Completeness of the main scenario\<close>

text \<open>Four times the same action with the same observation at the end of the relevant history\<close>

definition four_pairs :: "event list \<Rightarrow> bool" where
  "four_pairs t \<longleftrightarrow>
     (\<exists>a0 o0 a1 o1 a2 o2 a3 o3.
        t = [a3, o3, a2, o2, a1, o1, a0, o0] \<and>
        list_all is_action [a0, a1, a2, a3] \<and> list_all is_observation [o0, o1, o2, o3] \<and>
        list_all (eq_no_pid a0) [a0, a1, a2, a3] \<and> list_all (eq_no_pid o0) [o0, o1, o2, o3])"

lemma four_pairs_stuck:
  assumes "filtered_history headless h = pre @ t" "four_pairs t"
  shows "fst (is_stuck headless h old)"
proof -
  from assms(2) obtain a0 o0 a1 o1 a2 o2 a3 o3 where t: "t = [a3, o3, a2, o2, a1, o1, a0, o0]"
    and a: "list_all is_action [a0, a1, a2, a3]" and b: "list_all is_observation [o0, o1, o2, o3]"
    and e: "list_all (eq_no_pid a0) [a0, a1, a2, a3]" "list_all (eq_no_pid o0) [o0, o1, o2, o3]"
    unfolding four_pairs_def by blast
  have "take 4 (rev (filter is_action (pre @ t))) = [a0, a1, a2, a3]"
    "take 4 (rev (filter is_observation (pre @ t))) = [o0, o1, o2, o3]"
    using a b by (simp_all add: t is_observation_iff)
  then have c: "collect_recent 4 [] [] (rev (pre @ t)) = ([a0, a1, a2, a3], [o0, o1, o2, o3])"
    using collect_recent_last [of 4 "pre @ t"] by simp
  have "stuck_scenarios (pre @ t) (history_offset headless h) \<noteq> None"
    using e unfolding stuck_scenarios_def c by (simp add: stuck_repeating_action_observation_def)
  then show ?thesis
    using assms(1) by (auto simp: is_stuck_def Let_def t split: option.split)
qed

section \<open>A user message starts over\<close>

lemma last_user_idx_none: "list_all (\<lambda>e. \<not> is_user_message e) h \<Longrightarrow> last_user_idx h = - 1"
proof -
  assume "list_all (\<lambda>e. \<not> is_user_message e) h"
  then have "find_index is_user_message (rev h) = None" by (simp add: find_index_None list_all_iff)
  then show ?thesis by (simp add: last_user_idx_def)
qed

lemma find_index_append: "\<forall>x \<in> set xs. \<not> P x \<Longrightarrow> find_index P (xs @ ys) = map_option (\<lambda>i. length xs + i) (find_index P ys)"
  by (induction xs; cases "find_index P ys") auto

lemma last_user_idx_append:
  assumes "is_user_message u" "list_all (\<lambda>e. \<not> is_user_message e) t"
  shows "last_user_idx (h @ u # t) = int (length h)"
proof -
  have "find_index is_user_message (rev t @ (u # rev h)) = Some (length t)"
    using assms by (subst find_index_append) (auto simp: list_all_iff)
  then show ?thesis by (simp add: last_user_idx_def)
qed

lemma interactive_forgets:
  assumes "is_user_message u" "list_all (\<lambda>e. \<not> is_user_message e) t"
  shows "filtered_history False (h @ u # t) = filtered_history False t"
  using assms
  by (simp add: filtered_history_def history_to_check_def last_user_idx_append last_user_idx_none
      nat_add_distrib)

lemma verdict_offset: "stuck_scenarios fh off = None \<longleftrightarrow> stuck_scenarios fh off' = None"
proof -
  have 1: "stuck_repeating_action_observation acts obs fh off = None \<longleftrightarrow>
      stuck_repeating_action_observation acts obs fh off' = None" for acts obs
    by (simp add: stuck_repeating_action_observation_def)
  have 2: "stuck_repeating_action_error acts obs fh off = None \<longleftrightarrow>
      stuck_repeating_action_error acts obs fh off' = None" for acts obs
    by (simp add: stuck_repeating_action_error_def Let_def)
  have 3: "stuck_monologue fh off = None \<longleftrightarrow> stuck_monologue fh off' = None"
    by (simp add: stuck_monologue_def Let_def)
  have 4: "stuck_action_observation_pattern fh off = None \<longleftrightarrow> stuck_action_observation_pattern fh off' = None"
    by (simp add: stuck_action_observation_pattern_def Let_def split_beta)
  have 5: "stuck_context_window_error fh off = None \<longleftrightarrow> stuck_context_window_error fh off' = None"
    by (auto simp: stuck_context_window_error_def Let_def split: option.splits)
  have none: "(case x of Some a \<Rightarrow> Some a | None \<Rightarrow> y) = None \<longleftrightarrow> x = None \<and> y = None"
    for x y :: "stuck_analysis option" by (cases x) simp_all
  obtain acts obs where c: "collect_recent 4 [] [] (rev fh) = (acts, obs)" by fastforce
  have "stuck_scenarios fh n = None \<longleftrightarrow>
      stuck_repeating_action_observation acts obs fh n = None \<and>
      stuck_repeating_action_error acts obs fh n = None \<and> stuck_monologue fh n = None \<and>
      (length fh \<ge> 6 \<longrightarrow> stuck_action_observation_pattern fh n = None) \<and>
      (length fh \<ge> 10 \<longrightarrow> stuck_context_window_error fh n = None)" for n
    by (simp add: stuck_scenarios_def c none)
  then show ?thesis using 1 [of acts obs] 2 [of acts obs] 3 4 5 by simp
qed

lemma interactive_verdict:
  assumes "is_user_message u" "list_all (\<lambda>e. \<not> is_user_message e) t"
  shows "fst (is_stuck False (h @ u # t) old) = fst (is_stuck False t old')"
  using interactive_forgets [OF assms, of h]
    verdict_offset [of "filtered_history False t" "history_offset False (h @ u # t)" "history_offset False t"]
  by (auto simp: is_stuck_def Let_def split: option.split)

text \<open>One pair of adjacent condensations among the last ten is enough.\<close>

lemma context_window_adjacent:
  assumes "10 \<le> length (indexed is_condensation fh)"
    and "(s, Suc s) \<in> set (zip (map fst (drop (length (indexed is_condensation fh) - 10) (indexed is_condensation fh)))
                             (tl (map fst (drop (length (indexed is_condensation fh) - 10) (indexed is_condensation fh)))))"
  shows "stuck_context_window_error fh off \<noteq> None"
proof -
  have "find (\<lambda>(s, e). \<not> list_ex (\<lambda>x. \<not> is_condensation x) (take (e - Suc s) (drop (Suc s) fh)))
      (zip (map fst (drop (length (indexed is_condensation fh) - 10) (indexed is_condensation fh)))
           (tl (map fst (drop (length (indexed is_condensation fh) - 10) (indexed is_condensation fh))))) \<noteq> None"
    using bexI [OF _ assms(2), where P = "\<lambda>(s, e). \<not> list_ex (\<lambda>x. \<not> is_condensation x) (take (e - Suc s) (drop (Suc s) fh))"]
    by (auto simp: find_None_iff)
  with assms(1) show ?thesis by (auto simp: stuck_context_window_error_def Let_def split: option.split)
qed

end
