(* ===== verification/Replay.thy ===== *)
theory Replay
  imports Serialization
begin

text \<open>
  \<open>openhands/controller/replay.py\<close>: the actions of a recorded trajectory are played back one by
  one instead of asking the agent.
\<close>

record replay =
  replay_events :: "event list"
  replay_mode :: bool
  replay_index :: nat

text \<open>\<open>ReplayManager.__init__\<close>\<close>

definition stop_waiting :: "event \<Rightarrow> event" where
  "stop_waiting e =
     (case payload e of
        Act (MessageAction m) \<Rightarrow>
          if ma_wait_for_response m
          then e\<lparr>payload := Act (MessageAction (m\<lparr>ma_wait_for_response := False\<rparr>))\<rparr> else e
      | _ \<Rightarrow> e)"

definition replayed_event :: "event \<Rightarrow> bool" where
  "replayed_event e \<longleftrightarrow> m_source e \<noteq> Some ENVIRONMENT \<and> \<not> isinstance e C_NullObservation"

definition replay_init :: "event list option \<Rightarrow> replay" where
  "replay_init events =
     (let kept = filter replayed_event (case events of None \<Rightarrow> [] | Some es \<Rightarrow> es);
          es = (if kept = [] then [] else map stop_waiting (butlast kept) @ [last kept])
      in \<lparr>replay_events = es, replay_mode = (es \<noteq> []), replay_index = 0\<rparr>)"

text \<open>\<open>_replayable\<close>\<close>

definition replayable :: "replay \<Rightarrow> bool" where
  "replayable r \<longleftrightarrow>
     replay_index r < length (replay_events r) \<and> is_action (replay_events r ! replay_index r)"

text \<open>The loop of \<open>should_replay\<close>\<close>

function advance :: "event list \<Rightarrow> nat \<Rightarrow> nat" where
  "advance es i = (if i < length es \<and> \<not> is_action (es ! i) then advance es (Suc i) else i)"
  by pat_completeness auto

termination
  by (relation "measure (\<lambda>(es, i). length es - i)") auto

declare advance.simps [simp del]

definition should_replay :: "replay \<Rightarrow> bool \<times> replay" where
  "should_replay r =
     (if \<not> replay_mode r then (False, r)
      else (let r' = r\<lparr>replay_index := advance (replay_events r) (replay_index r)\<rparr> in (replayable r', r')))"

text \<open>\<open>step\<close>\<close>

definition replay_step :: "replay \<Rightarrow> (exn + event) \<times> replay" where
  "replay_step r =
     (if replay_index r \<ge> length (replay_events r)
      then (Inl (mk_exn ''IndexError'' OtherError ''list index out of range''), r)
      else if \<not> is_action (replay_events r ! replay_index r)
      then (Inl (mk_exn ''AssertionError'' OtherError []), r)
      else (Inr (replay_events r ! replay_index r), r\<lparr>replay_index := Suc (replay_index r)\<rparr>))"

text \<open>\<open>get_replay_events\<close> on a list of dictionaries\<close>

fun get_replay_events ::
    "string \<Rightarrow> (string \<Rightarrow> jdict option) \<Rightarrow> jdict list \<Rightarrow> ser_error + event list" where
  "get_replay_events version lit [] = Inr []"
| "get_replay_events version lit (d # ds) =
     sbind (event_from_dict version lit d) (\<lambda>e.
     sbind (get_replay_events version lit ds) (\<lambda>es.
       Inr (if m_source e = Some ENVIRONMENT then es else e\<lparr>m_id := None\<rparr> # es)))"

section \<open>Properties\<close>

text \<open>The controller's use: as long as there is something to replay, take it.\<close>

fun replay_run :: "nat \<Rightarrow> replay \<Rightarrow> event list \<times> replay" where
  "replay_run 0 r = ([], r)"
| "replay_run (Suc n) r =
     (let (b, r1) = should_replay r
      in if b
         then (case replay_step r1 of
                 (Inl _, r2) \<Rightarrow> ([], r2)
               | (Inr e, r2) \<Rightarrow> (let (es, r3) = replay_run n r2 in (e # es, r3)))
         else ([], r1))"

lemma advance_spec:
  "advance es i = i + length (takeWhile (\<lambda>e. \<not> is_action e) (drop i es))"
proof (induction es i rule: advance.induct)
  case (1 es i)
  show ?case
  proof (cases "i < length es")
    case True
    then have "drop i es = es ! i # drop (Suc i) es" by (simp add: Cons_nth_drop_Suc)
    with True 1 show ?thesis by (simp add: advance.simps [of es i])
  next
    case False
    then show ?thesis by (simp add: advance.simps [of es i])
  qed
qed

lemma filter_after_advance:
  "filter is_action (drop (advance es i) es) = filter is_action (drop i es)"
proof -
  let ?t = "takeWhile (\<lambda>e. \<not> is_action e) (drop i es)"
  have "drop (advance es i) es = dropWhile (\<lambda>e. \<not> is_action e) (drop i es)"
    by (simp add: advance_spec dropWhile_eq_drop add.commute)
  moreover have "filter is_action (drop i es) =
      filter is_action ?t @ filter is_action (dropWhile (\<lambda>e. \<not> is_action e) (drop i es))"
    by (metis filter_append takeWhile_dropWhile_id)
  moreover have "filter is_action ?t = []"
    by (auto simp: filter_empty_conv dest: set_takeWhileD)
  ultimately show ?thesis by simp
qed

lemma advance_action:
  "advance es i < length es \<Longrightarrow> is_action (es ! advance es i)"
  by (induction es i rule: advance.induct) (metis advance.simps)

text \<open>\<open>step\<close> cannot fail after a successful \<open>should_replay\<close>.\<close>

lemma replay_step_ready:
  assumes "should_replay r = (True, r1)"
  shows "\<exists>e r2. replay_step r1 = (Inr e, r2) \<and> is_action e"
  using assms
  by (auto simp: should_replay_def replay_step_def replayable_def Let_def split: if_splits)

text \<open>The replay plays exactly the actions that remain, in order, and then stops.\<close>

lemma replay_run_spec:
  assumes "replay_mode r" "length (filter is_action (drop (replay_index r) (replay_events r))) < n"
  shows "fst (replay_run n r) = filter is_action (drop (replay_index r) (replay_events r)) \<and>
    \<not> fst (should_replay (snd (replay_run n r)))"
  using assms
proof (induction n arbitrary: r)
  case (Suc n)
  let ?es = "replay_events r" and ?i = "replay_index r"
  let ?a = "advance ?es ?i"
  define r1 where "r1 = r\<lparr>replay_index := ?a\<rparr>"
  have sr: "should_replay r = (replayable r1, r1)" using Suc.prems by (simp add: should_replay_def r1_def Let_def)
  show ?case
  proof (cases "?a < length ?es")
    case True
    then have act: "is_action (?es ! ?a)" by (rule advance_action)
    define r2 where "r2 = r\<lparr>replay_index := Suc ?a\<rparr>"
    have dr: "filter is_action (drop ?i ?es) = ?es ! ?a # filter is_action (drop (Suc ?a) ?es)"
      using filter_after_advance [of ?es ?i] Cons_nth_drop_Suc [OF True] act by (metis filter.simps(2))
    have st: "replay_step r1 = (Inr (?es ! ?a), r2)" "replayable r1"
      using True act by (simp_all add: replay_step_def replayable_def r1_def r2_def)
    have "fst (replay_run n r2) = filter is_action (drop (Suc ?a) ?es) \<and>
        \<not> fst (should_replay (snd (replay_run n r2)))"
      using Suc.IH [of r2] Suc.prems dr by (simp add: r2_def)
    with sr st dr show ?thesis by (simp add: split_beta)
  next
    case False
    then have "filter is_action (drop ?i ?es) = []"
      using filter_after_advance [of ?es ?i] by simp
    moreover have "\<not> replayable r1" using False by (simp add: replayable_def r1_def)
    moreover have "should_replay r1 = (replayable r1, r1)"
      using False Suc.prems by (simp add: should_replay_def r1_def advance.simps Let_def)
    ultimately show ?thesis using sr by simp
  qed
qed simp

lemma stop_waiting_action [simp]: "is_action (stop_waiting e) = is_action e"
  by (auto simp: stop_waiting_def is_action_def split: payload.splits action.splits)

lemma filter_stop_waiting: "filter is_action (map stop_waiting es) = map stop_waiting (filter is_action es)"
  by (induction es) auto

text \<open>No message before the last event of the trajectory waits for an answer.\<close>

lemma replay_init_no_wait:
  assumes "i + 1 < length (replay_events (replay_init events))"
    and "payload (replay_events (replay_init events) ! i) = Act (MessageAction m)"
  shows "\<not> ma_wait_for_response m"
proof -
  define kept where "kept = filter replayed_event (case events of None \<Rightarrow> [] | Some es \<Rightarrow> es)"
  have ev: "replay_events (replay_init events) =
      (if kept = [] then [] else map stop_waiting (butlast kept) @ [last kept])"
    by (simp add: replay_init_def kept_def Let_def)
  with assms have ne: "kept \<noteq> []" and i: "i < length (butlast kept)" by (auto split: if_splits)
  then have "replay_events (replay_init events) ! i = stop_waiting (butlast kept ! i)"
    by (simp add: ev nth_append)
  with assms(2) show ?thesis
    by (auto simp: stop_waiting_def split: payload.splits action.splits if_splits)
qed

end
