(* ===== verification/Agent_Controller.thy ===== *)
theory Agent_Controller
  imports State_Tracker Stuck_Detector Replay
begin

text \<open>
  \<open>openhands/controller/agent_controller.py\<close>: the controller that drives an agent and its
  delegates.

  The root controller and its chain of delegates are a list, the delegate of a controller being
  the next element; operations take the position of the controller they run on. Parent and
  delegate share the objects behind the iteration flag, the budget flag, the metrics and the
  conversation statistics, so writing them through one controller writes them for all
  (\<open>put_state\<close>). An operation returns the exception that leaves it, if any, and the world.
  Logging has no effect on the state and is left out.

  The agent (its policy, its configuration, its internal state), the security analyzer, the clock
  and \<open>str\<close> of a JSON value are parameters.
\<close>

section \<open>The world of a conversation\<close>

datatype runtime_status =
    RS_STOPPED
  | RS_BUILDING_RUNTIME
  | RS_STARTING_RUNTIME
  | RS_RUNTIME_STARTED
  | RS_SETTING_UP_WORKSPACE
  | RS_SETTING_UP_GIT_HOOKS
  | RS_READY
  | RS_ERROR
  | RS_ERROR_RUNTIME_DISCONNECTED
  | RS_ERROR_LLM_AUTHENTICATION
  | RS_ERROR_LLM_SERVICE_UNAVAILABLE
  | RS_ERROR_LLM_INTERNAL_SERVER_ERROR
  | RS_ERROR_LLM_OUT_OF_CREDITS
  | RS_ERROR_LLM_CONTENT_POLICY_VIOLATION
  | RS_AGENT_RATE_LIMITED_STOPPED_MESSAGE
  | RS_GIT_PROVIDER_AUTHENTICATION_ERROR
  | RS_LLM_RETRY
  | RS_ERROR_MEMORY

fun runtime_status_value :: "runtime_status \<Rightarrow> string" where
  "runtime_status_value RS_STOPPED = ''STATUS$STOPPED''"
| "runtime_status_value RS_BUILDING_RUNTIME = ''STATUS$BUILDING_RUNTIME''"
| "runtime_status_value RS_STARTING_RUNTIME = ''STATUS$STARTING_RUNTIME''"
| "runtime_status_value RS_RUNTIME_STARTED = ''STATUS$RUNTIME_STARTED''"
| "runtime_status_value RS_SETTING_UP_WORKSPACE = ''STATUS$SETTING_UP_WORKSPACE''"
| "runtime_status_value RS_SETTING_UP_GIT_HOOKS = ''STATUS$SETTING_UP_GIT_HOOKS''"
| "runtime_status_value RS_READY = ''STATUS$READY''"
| "runtime_status_value RS_ERROR = ''STATUS$ERROR''"
| "runtime_status_value RS_ERROR_RUNTIME_DISCONNECTED = ''STATUS$ERROR_RUNTIME_DISCONNECTED''"
| "runtime_status_value RS_ERROR_LLM_AUTHENTICATION = ''STATUS$ERROR_LLM_AUTHENTICATION''"
| "runtime_status_value RS_ERROR_LLM_SERVICE_UNAVAILABLE = ''STATUS$ERROR_LLM_SERVICE_UNAVAILABLE''"
| "runtime_status_value RS_ERROR_LLM_INTERNAL_SERVER_ERROR = ''STATUS$ERROR_LLM_INTERNAL_SERVER_ERROR''"
| "runtime_status_value RS_ERROR_LLM_OUT_OF_CREDITS = ''STATUS$ERROR_LLM_OUT_OF_CREDITS''"
| "runtime_status_value RS_ERROR_LLM_CONTENT_POLICY_VIOLATION = ''STATUS$ERROR_LLM_CONTENT_POLICY_VIOLATION''"
| "runtime_status_value RS_AGENT_RATE_LIMITED_STOPPED_MESSAGE = ''CHAT_INTERFACE$AGENT_RATE_LIMITED_STOPPED_MESSAGE''"
| "runtime_status_value RS_GIT_PROVIDER_AUTHENTICATION_ERROR = ''STATUS$GIT_PROVIDER_AUTHENTICATION_ERROR''"
| "runtime_status_value RS_LLM_RETRY = ''STATUS$LLM_RETRY''"
| "runtime_status_value RS_ERROR_MEMORY = ''STATUS$ERROR_MEMORY''"

record 'a controller =
  c_id :: string
  c_sid :: "string option"
  c_user :: "string option"
  c_agent :: 'a
  c_headless :: bool
  c_is_delegate :: bool
  c_state :: state
  c_max_iterations :: int
  c_max_budget :: "rat option"
  c_stuck_analysis :: "stuck_analysis option"
  c_status_callback :: bool
  c_replay :: replay
  c_confirmation_mode :: bool
  c_pending :: "event option"
  c_closed :: bool
  c_cached_first :: "event option"

record ('a, 'c) world =
  stream :: "'c event_stream"
  session_files :: "pickled_state fstore option"
  stack :: "'a controller list"
  status_log :: "(runtime_status \<times> string) list"

text \<open>What the controller calls but does not define\<close>

record ('a, 'c) env =
  env_codec :: codec
  env_now :: string
  env_str :: "json \<Rightarrow> string"
  env_callback :: 'c
  analyzer :: "(event \<Rightarrow> exn + security_risk) option"
  ag_step :: "'a \<Rightarrow> state \<Rightarrow> (exn + event option) \<times> 'a \<times> state"
  ag_reset :: "'a \<Rightarrow> 'a"
  ag_name :: "'a \<Rightarrow> string"
  ag_system_message :: "'a \<Rightarrow> event option"
  ag_create :: "'a \<Rightarrow> string \<Rightarrow> exn + 'a"
  enable_stuck_detection :: "'a \<Rightarrow> bool"
  enable_history_truncation :: "'a \<Rightarrow> bool"
  cli_mode :: "'a \<Rightarrow> bool"

type_synonym ('a, 'c) op = "('a, 'c) world \<Rightarrow> exn option \<times> ('a, 'c) world"

subsection \<open>Sequencing\<close>

text \<open>Statements one after the other, until one raises\<close>

fun run_ops :: "('w \<Rightarrow> exn option \<times> 'w) list \<Rightarrow> 'w \<Rightarrow> exn option \<times> 'w" where
  "run_ops [] w = (None, w)"
| "run_ops (f # fs) w = (case f w of (Some x, w') \<Rightarrow> (Some x, w') | (None, w') \<Rightarrow> run_ops fs w')"

definition when_op :: "('w \<Rightarrow> bool) \<Rightarrow> ('w \<Rightarrow> exn option \<times> 'w) \<Rightarrow> 'w \<Rightarrow> exn option \<times> 'w" where
  "when_op b f w = (if b w then f w else (None, w))"

definition upd_op :: "('w \<Rightarrow> 'w) \<Rightarrow> 'w \<Rightarrow> exn option \<times> 'w" where
  "upd_op f w = (None, f w)"

subsection \<open>Access\<close>

abbreviation ctl :: "('a, 'c) world \<Rightarrow> nat \<Rightarrow> 'a controller" where
  "ctl w i \<equiv> stack w ! i"

abbreviation st_of :: "('a, 'c) world \<Rightarrow> nat \<Rightarrow> state" where
  "st_of w i \<equiv> c_state (stack w ! i)"

definition upd_ctl :: "nat \<Rightarrow> ('a controller \<Rightarrow> 'a controller) \<Rightarrow> ('a, 'c) world \<Rightarrow> ('a, 'c) world" where
  "upd_ctl i f w = w\<lparr>stack := (stack w)[i := f (stack w ! i)]\<rparr>"

definition share :: "state \<Rightarrow> state \<Rightarrow> state" where
  "share st other =
     other\<lparr>iteration_flag := iteration_flag st, budget_flag := budget_flag st,
           st_metrics := st_metrics st, conversation_stats := conversation_stats st\<rparr>"

definition put_state :: "nat \<Rightarrow> state \<Rightarrow> ('a, 'c) world \<Rightarrow> ('a, 'c) world" where
  "put_state i st w =
     w\<lparr>stack := (map (\<lambda>c. c\<lparr>c_state := share st (c_state c)\<rparr>) (stack w))
                [i := (stack w ! i)\<lparr>c_state := st\<rparr>]\<rparr>"

definition upd_state :: "nat \<Rightarrow> (state \<Rightarrow> state) \<Rightarrow> ('a, 'c) world \<Rightarrow> ('a, 'c) world" where
  "upd_state i f w = put_state i (f (st_of w i)) w"

text \<open>The classes of the exceptions the store raises; only class names are shown to the user.\<close>

fun store_exn :: "store_error \<Rightarrow> exn" where
  "store_exn File_Not_Found = mk_exn ''FileNotFoundError'' FileNotFoundError []"
| "store_exn Index_Error = mk_exn ''IndexError'' OtherError []"
| "store_exn (Serialization_Error Malformed) = mk_exn ''LLMMalformedActionError'' LLMMalformedActionError []"
| "store_exn (Serialization_Error Key_Error) = mk_exn ''KeyError'' OtherError []"
| "store_exn (Serialization_Error Type_Error) = mk_exn ''TypeError'' OtherError []"
| "store_exn (Serialization_Error Value_Error) = mk_exn ''ValueError'' ValueError []"
| "store_exn (Serialization_Error Untyped) = mk_exn ''TypeError'' OtherError []"
| "store_exn Message_Error = mk_exn ''TypeError'' OtherError []"
| "store_exn (Already_Has_Id n) = mk_exn ''ValueError'' ValueError
     (''Event already has an ID:'' @ show_int n @
      ''. It was probably added back to the EventStream from inside a handler, triggering a loop.'')"
| "store_exn Limit_Error = mk_exn ''ValueError'' ValueError []"
| "store_exn Callback_Exists = mk_exn ''ValueError'' ValueError []"

text \<open>\<open>event_stream.add_event\<close> of a fresh event\<close>

definition emit :: "('a, 'c) env \<Rightarrow> event \<Rightarrow> event_source \<Rightarrow> ('a, 'c) op" where
  "emit env e src w =
     (let (x, e', s) = add_event (env_codec env) (env_now env) e (Some src) (stream w)
      in (map_option store_exn x, w\<lparr>stream := s\<rparr>))"

text \<open>The same for the pending action, which is the object that gets the id\<close>

definition emit_pending :: "('a, 'c) env \<Rightarrow> nat \<Rightarrow> event_source option \<Rightarrow> ('a, 'c) op" where
  "emit_pending env i src w =
     (case c_pending (ctl w i) of
        None \<Rightarrow> (None, w)
      | Some p \<Rightarrow>
          (let (x, p', s) = add_event (env_codec env) (env_now env) p src (stream w)
           in (map_option store_exn x, upd_ctl i (\<lambda>c. c\<lparr>c_pending := Some p'\<rparr>) (w\<lparr>stream := s\<rparr>))))"

text \<open>\<open>save_state\<close>\<close>

definition save_state_op :: "nat \<Rightarrow> ('a, 'c) world \<Rightarrow> ('a, 'c) world" where
  "save_state_op i w =
     (let t = save_state \<lparr>tr_sid = c_sid (ctl w i), tr_files = session_files w,
                          tr_user = c_user (ctl w i), tr_state = st_of w i\<rparr>
      in put_state i (tr_state t) (w\<lparr>session_files := tr_files t\<rparr>))"

section \<open>State changes\<close>

definition ERROR_ACTION_NOT_EXECUTED_STOPPED_ID :: string where
  "ERROR_ACTION_NOT_EXECUTED_STOPPED_ID = ''AGENT_ERROR$ERROR_ACTION_NOT_EXECUTED_STOPPED''"

definition ERROR_ACTION_NOT_EXECUTED_ERROR_ID :: string where
  "ERROR_ACTION_NOT_EXECUTED_ERROR_ID = ''AGENT_ERROR$ERROR_ACTION_NOT_EXECUTED_ERROR''"

definition ERROR_ACTION_NOT_EXECUTED_STOPPED :: string where
  "ERROR_ACTION_NOT_EXECUTED_STOPPED = ''Stop button pressed. The action has not been executed.''"

definition ERROR_ACTION_NOT_EXECUTED_ERROR :: string where
  "ERROR_ACTION_NOT_EXECUTED_ERROR =
     ''The action has not been executed due to a runtime error. The runtime system may have crashed and restarted due to resource constraints. Any previously established system state, dependencies, or environment variables may have been lost.''"

text \<open>Equality of \<open>ToolCallMetadata\<close> or \<open>None\<close>\<close>

definition tool_call_eq :: "tool_call_metadata option \<Rightarrow> tool_call_metadata option \<Rightarrow> bool" where
  "tool_call_eq a b =
     (case (a, b) of
        (None, None) \<Rightarrow> True
      | (Some x, Some y) \<Rightarrow>
          x\<lparr>tcm_model_response := json_canon (tcm_model_response x)\<rparr> =
          y\<lparr>tcm_model_response := json_canon (tcm_model_response y)\<rparr>
      | _ \<Rightarrow> False)"

definition mk_error_obs :: "string \<Rightarrow> string \<Rightarrow> event" where
  "mk_error_obs content error_id = mk_obs (ErrorObservation \<lparr>eo_content = content, eo_error_id = error_id\<rparr>)"

text \<open>The observation that \<open>_reset\<close> emits in place of the one the pending action will not get\<close>

definition reset_observation :: "'a controller \<Rightarrow> event option" where
  "reset_observation c =
     (case c_pending c of
        None \<Rightarrow> None
      | Some p \<Rightarrow>
          if list_ex (\<lambda>e. is_observation e \<and> tool_call_eq (m_tool_call e) (m_tool_call p)) (history (c_state c))
          then None
          else Some ((if agent_state (c_state c) = STOPPED
                      then mk_error_obs ERROR_ACTION_NOT_EXECUTED_STOPPED ERROR_ACTION_NOT_EXECUTED_STOPPED_ID
                      else mk_error_obs ERROR_ACTION_NOT_EXECUTED_ERROR ERROR_ACTION_NOT_EXECUTED_ERROR_ID)
                     \<lparr>m_tool_call := m_tool_call p, m_cause := Some (ev_id p)\<rparr>))"

text \<open>\<open>_reset\<close>\<close>

definition reset_controller :: "('a, 'c) env \<Rightarrow> nat \<Rightarrow> ('a, 'c) op" where
  "reset_controller env i =
     run_ops
       [\<lambda>w. (case reset_observation (ctl w i) of None \<Rightarrow> (None, w) | Some ob \<Rightarrow> emit env ob AGENT w),
        upd_op (upd_ctl i (\<lambda>c. c\<lparr>c_pending := None, c_agent := ag_reset env (c_agent c)\<rparr>))]"

definition state_changed_obs :: "state \<Rightarrow> event" where
  "state_changed_obs st =
     mk_obs (AgentStateChangedObservation
       \<lparr>asco_content = [], asco_agent_state = agent_state st,
        asco_reason = (if agent_state st = ERROR then last_error st else [])\<rparr>)"

text \<open>The answer of the user is put on the pending action, which is then sent again.\<close>

definition answer_pending :: "agent_state \<Rightarrow> event \<Rightarrow> event" where
  "answer_pending new p =
     (let p1 = (case payload p of Act a \<Rightarrow> p\<lparr>payload := Act (clear_thought a)\<rparr> | Obs _ \<Rightarrow> p)
      in (set_confirmation (if new = USER_CONFIRMED then CONFIRMED else CONFIRM_REJECTED) p1)\<lparr>m_id := None\<rparr>)"

definition set_agent_state_to :: "('a, 'c) env \<Rightarrow> nat \<Rightarrow> agent_state \<Rightarrow> ('a, 'c) op" where
  "set_agent_state_to env i new w =
     (if new = agent_state (st_of w i) then (None, w)
      else (let old = agent_state (st_of w i)
            in run_ops
                 [upd_op (upd_state i (\<lambda>st. st\<lparr>agent_state := new\<rparr>)),
                  when_op (\<lambda>_. new = STOPPED \<or> new = ERROR) (reset_controller env i),
                  when_op (\<lambda>_. old = ERROR \<and> new = RUNNING)
                    (upd_op (\<lambda>w. upd_state i (maybe_increase_control_flags_limits (c_headless (ctl w i))) w)),
                  when_op (\<lambda>w. c_pending (ctl w i) \<noteq> None \<and> (new = USER_CONFIRMED \<or> new = USER_REJECTED))
                    (run_ops
                       [upd_op (upd_ctl i (\<lambda>c. c\<lparr>c_pending := map_option (answer_pending new) (c_pending c)\<rparr>)),
                        emit_pending env i (Some AGENT)]),
                  \<lambda>w. emit env (state_changed_obs (st_of w i)) ENVIRONMENT w,
                  upd_op (save_state_op i)] w))"

section \<open>Exceptions\<close>

definition set_last_error :: "nat \<Rightarrow> string \<Rightarrow> ('a, 'c) world \<Rightarrow> ('a, 'c) world" where
  "set_last_error i m = upd_state i (\<lambda>st. st\<lparr>last_error := m\<rparr>)"

text \<open>The status of the exceptions other than rate limits; \<^const>\<open>None\<close> keeps the error message.\<close>

definition exception_status :: "exn \<Rightarrow> runtime_status option" where
  "exception_status e =
     (if exc_isinstance e AuthenticationError then Some RS_ERROR_LLM_AUTHENTICATION
      else if exc_isinstance e ServiceUnavailableError \<or> exc_isinstance e APIConnectionError \<or>
              exc_isinstance e APIError then Some RS_ERROR_LLM_SERVICE_UNAVAILABLE
      else if exc_isinstance e InternalServerError then Some RS_ERROR_LLM_INTERNAL_SERVER_ERROR
      else if exc_isinstance e BadRequestError \<and> str_contains ''ExceededBudget'' (exc_str e)
           then Some RS_ERROR_LLM_OUT_OF_CREDITS
      else if exc_isinstance e ContentPolicyViolationError \<or>
              (exc_isinstance e BadRequestError \<and> str_contains ''ContentPolicyViolationError'' (exc_str e))
           then Some RS_ERROR_LLM_CONTENT_POLICY_VIOLATION
      else None)"

definition retries_exhausted :: "exn \<Rightarrow> bool" where
  "retries_exhausted e =
     (case (retry_attempt e, max_retries e) of (Some a, Some m) \<Rightarrow> a \<ge> m | _ \<Rightarrow> False)"

text \<open>\<open>_react_to_exception\<close>\<close>

definition react_to_exception :: "('a, 'c) env \<Rightarrow> nat \<Rightarrow> exn \<Rightarrow> ('a, 'c) op" where
  "react_to_exception env i e w =
     (let w1 = set_last_error i (exc_name e @ '': '' @ exc_str e) w
      in if \<not> c_status_callback (ctl w1 i) then set_agent_state_to env i ERROR w1
         else (case exception_status e of
                 Some s \<Rightarrow>
                   set_agent_state_to env i ERROR
                     (set_last_error i (runtime_status_value s) w1
                       \<lparr>status_log := status_log w1 @ [(s, runtime_status_value s)]\<rparr>)
               | None \<Rightarrow>
                   if exc_isinstance e RateLimitError
                   then (if retries_exhausted e
                         then set_agent_state_to env i ERROR
                                (set_last_error i (runtime_status_value RS_AGENT_RATE_LIMITED_STOPPED_MESSAGE) w1)
                         else set_agent_state_to env i RATE_LIMITED w1)
                   else set_agent_state_to env i ERROR
                          (w1\<lparr>status_log := status_log w1 @ [(RS_ERROR, last_error (st_of w1 i))]\<rparr>)))"

section \<open>Creating and closing\<close>

definition AGENT_CONTROLLER :: string where
  "AGENT_CONTROLLER = ''agent_controller''"

text \<open>\<open>_add_system_message\<close>\<close>

definition stops_system_message :: "event \<Rightarrow> bool" where
  "stops_system_message e \<longleftrightarrow> is_user_message e \<or> isinstance e C_SystemMessageAction"

definition system_content :: "event \<Rightarrow> string" where
  "system_content e = (case payload e of Act (SystemMessageAction m) \<Rightarrow> sma_content m | _ \<Rightarrow> [])"

definition add_system_message ::
    "('a, 'c) env \<Rightarrow> 'a \<Rightarrow> state \<Rightarrow> 'c event_stream \<Rightarrow> exn option \<times> 'c event_stream" where
  "add_system_message env agent st s =
     (case search_first (env_codec env) s (start_id st) False stops_system_message of
        Inl x \<Rightarrow> (Some (store_exn x), s)
      | Inr (Some _) \<Rightarrow> (None, s)
      | Inr None \<Rightarrow>
          (case ag_system_message env agent of
             None \<Rightarrow> (None, s)
           | Some m \<Rightarrow>
               if system_content m = [] then (None, s)
               else (let (x, _, s') = add_event (env_codec env) (env_now env) m (Some AGENT) s
                     in (map_option store_exn x, s'))))"

text \<open>
  \<open>__init__\<close> with \<open>set_initial_state\<close>: the new controller, or the exception, and the stream it has
  subscribed to and written to.
\<close>

record 'a init_args =
  ia_agent :: 'a
  ia_stats :: conv_stats
  ia_iteration_delta :: int
  ia_budget_delta :: "rat option"
  ia_sid :: "string option"
  ia_user :: "string option"
  ia_confirmation_mode :: bool
  ia_initial_state :: "state option"
  ia_is_delegate :: bool
  ia_headless :: bool
  ia_status_callback :: bool
  ia_replay_events :: "event list option"

definition controller_init ::
    "('a, 'c) env \<Rightarrow> 'a init_args \<Rightarrow> 'c event_stream \<Rightarrow> (exn + 'a controller) \<times> 'c event_stream" where
  "controller_init env a s =
     (let cid = (case ia_sid a of Some (c # r) \<Rightarrow> c # r | _ \<Rightarrow> es_sid s);
          (x, s1) = (if ia_is_delegate a then (None, s) else subscribe AGENT_CONTROLLER (env_callback env) cid s)
      in case x of
           Some err \<Rightarrow> (Inl (store_exn err), s1)
         | None \<Rightarrow>
             (let st0 = set_initial_state cid (ia_initial_state a) (ia_stats a) (ia_iteration_delta a)
                          (ia_budget_delta a) (ia_confirmation_mode a) (ia_user a)
              in case init_history (env_codec env) s1 st0 of
                   Inl err \<Rightarrow> (Inl (store_exn err), s1)
                 | Inr st \<Rightarrow>
                     (let c = \<lparr>c_id = cid, c_sid = ia_sid a, c_user = ia_user a, c_agent = ia_agent a,
                               c_headless = ia_headless a, c_is_delegate = ia_is_delegate a, c_state = st,
                               c_max_iterations = ia_iteration_delta a, c_max_budget = ia_budget_delta a,
                               c_stuck_analysis = None, c_status_callback = ia_status_callback a,
                               c_replay = replay_init (ia_replay_events a),
                               c_confirmation_mode = ia_confirmation_mode a, c_pending = None,
                               c_closed = False, c_cached_first = None\<rparr>;
                          (y, s2) = add_system_message env (ia_agent a) st s1
                      in case y of Some err \<Rightarrow> (Inl err, s2) | None \<Rightarrow> (Inr c, s2))))"

text \<open>\<open>close\<close>\<close>

definition close_controller :: "('a, 'c) env \<Rightarrow> nat \<Rightarrow> bool \<Rightarrow> ('a, 'c) op" where
  "close_controller env i set_stop_state =
     run_ops
       [when_op (\<lambda>_. set_stop_state) (set_agent_state_to env i STOPPED),
        \<lambda>w. (case close_history (env_codec env) (stream w) (st_of w i) of
               Inl x \<Rightarrow> (Some (store_exn x), w)
             | Inr st \<Rightarrow> (None, put_state i st w)),
        when_op (\<lambda>w. \<not> c_is_delegate (ctl w i))
          (upd_op (\<lambda>w. w\<lparr>stream := unsubscribe AGENT_CONTROLLER (c_id (ctl w i)) (stream w)\<rparr>)),
        upd_op (upd_ctl i (\<lambda>c. c\<lparr>c_closed := True\<rparr>))]"

text \<open>\<open>get_trajectory\<close>; \<^const>\<open>None\<close> is the failed assertion that the controller is closed.\<close>

definition controller_trajectory :: "(jdict \<Rightarrow> string) \<Rightarrow> 'a controller \<Rightarrow> bool \<Rightarrow> jdict option list option" where
  "controller_trajectory rp c include_screenshots =
     (if c_closed c then Some (get_trajectory rp (c_state c) include_screenshots) else None)"

section \<open>Delegates\<close>

definition has_delegate :: "('a, 'c) world \<Rightarrow> nat \<Rightarrow> bool" where
  "has_delegate w i \<longleftrightarrow> Suc i < length (stack w)"

text \<open>The controller's statistics are the object its state has from construction on.\<close>

definition controller_stats :: "'a controller \<Rightarrow> conv_stats" where
  "controller_stats c =
     (case conversation_stats (c_state c) of Some cs \<Rightarrow> cs | None \<Rightarrow> conv_stats_init False [] None)"

text \<open>The state a delegate starts with; flags and metrics are the parent's objects.\<close>

definition delegate_initial_state :: "'a controller \<Rightarrow> agent_delegate_action \<Rightarrow> int \<Rightarrow> state" where
  "delegate_initial_state c action latest =
     default_state
       \<lparr>session_id := str_removesuffix (c_id c) ''-delegate'', st_user_id := c_user c,
        inputs := ada_inputs action, iteration_flag := iteration_flag (c_state c),
        budget_flag := budget_flag (c_state c), delegate_level := delegate_level (c_state c) + 1,
        st_metrics := st_metrics (c_state c), start_id := latest + 1,
        parent_metrics_snapshot := Some (st_metrics (c_state c)),
        parent_iteration := current_value (iteration_flag (c_state c))\<rparr>"

definition start_delegate :: "('a, 'c) env \<Rightarrow> nat \<Rightarrow> agent_delegate_action \<Rightarrow> ('a, 'c) op" where
  "start_delegate env i action w =
     (let c = ctl w i
      in case ag_create env (c_agent c) (ada_agent action) of
           Inl x \<Rightarrow> (Some x, w)
         | Inr agent \<Rightarrow>
             (case get_latest_event_id (stream w) of
                Inl x \<Rightarrow> (Some (store_exn x), w)
              | Inr (latest, s0) \<Rightarrow>
                  (let (r, s1) = controller_init env
                         \<lparr>ia_agent = agent,
                          ia_stats = controller_stats c,
                          ia_iteration_delta = c_max_iterations c, ia_budget_delta = c_max_budget c,
                          ia_sid = Some (c_id c @ ''-delegate''), ia_user = c_user c,
                          ia_confirmation_mode = False,
                          ia_initial_state = Some (delegate_initial_state c action latest),
                          ia_is_delegate = True, ia_headless = c_headless c,
                          ia_status_callback = False, ia_replay_events = None\<rparr> s0
                   in case r of
                        Inl x \<Rightarrow> (Some x, w\<lparr>stream := s1\<rparr>)
                      | Inr d \<Rightarrow> (None, w\<lparr>stream := s1, stack := take (Suc i) (stack w) @ [d]\<rparr>))))"

definition format_outputs :: "(json \<Rightarrow> string) \<Rightarrow> jdict \<Rightarrow> string" where
  "format_outputs str outs =
     str_join '', '' (map (\<lambda>(k, v). k @ '': '' @ str v) (filter (\<lambda>(k, v). k \<noteq> ''metrics'') outs))"

definition delegate_observation :: "('a, 'c) env \<Rightarrow> agent_state \<Rightarrow> 'a controller \<Rightarrow> 'a controller \<Rightarrow> event" where
  "delegate_observation env ds parent d =
     (let content = (if ds = FINISHED \<or> ds = REJECTED
                     then ag_name env (c_agent d) @ '' finishes task with ''
                          @ format_outputs (env_str env) (outputs (c_state d))
                     else ag_name env (c_agent d) @ '' encountered an error during execution.'');
          ob = mk_obs (AgentDelegateObservation
                 \<lparr>ado_content = ''Delegated agent finished with result:'' @ [newline, newline] @ content,
                  ado_outputs = outputs (c_state d)\<rparr>)
      in case find (\<lambda>e. isinstance e C_AgentDelegateAction) (rev (history (c_state parent))) of
           None \<Rightarrow> ob
         | Some e \<Rightarrow> ob\<lparr>m_tool_call := m_tool_call e\<rparr>)"

definition end_delegate :: "('a, 'c) env \<Rightarrow> nat \<Rightarrow> ('a, 'c) op" where
  "end_delegate env i w =
     (if \<not> has_delegate w i then (None, w)
      else (let ds = agent_state (st_of w (Suc i))
            in run_ops
                 [upd_op (\<lambda>w. upd_state i (\<lambda>st. st\<lparr>iteration_flag := (iteration_flag st)
                     \<lparr>current_value := current_value (iteration_flag (st_of w (Suc i)))\<rparr>\<rparr>) w),
                  close_controller env (Suc i) True,
                  \<lambda>w. emit env (delegate_observation env ds (ctl w i) (ctl w (Suc i))) AGENT w,
                  upd_op (\<lambda>w. w\<lparr>stack := take (Suc i) (stack w)\<rparr>)] w))"

section \<open>One step of the agent\<close>

text \<open>\<open>_is_stuck\<close>: the delegates first, then the controller itself\<close>

fun stuck_chain :: "'a controller list \<Rightarrow> bool \<times> 'a controller list" where
  "stuck_chain [] = (False, [])"
| "stuck_chain (c # cs) =
     (let (b, cs') = stuck_chain cs
      in if b then (True, c # cs')
         else (let (v, a) = is_stuck (c_headless c) (history (c_state c)) (c_stuck_analysis c)
               in (v, c\<lparr>c_stuck_analysis := a\<rparr> # cs')))"

definition is_stuck_op :: "nat \<Rightarrow> ('a, 'c) world \<Rightarrow> bool \<times> ('a, 'c) world" where
  "is_stuck_op i w =
     (let (b, cs) = stuck_chain (drop i (stack w)) in (b, w\<lparr>stack := take i (stack w) @ cs\<rparr>))"

text \<open>\<open>_handle_security_analyzer\<close>\<close>

definition set_risk :: "security_risk \<Rightarrow> event \<Rightarrow> event" where
  "set_risk r e = (case payload e of Act a \<Rightarrow> e\<lparr>payload := Act (set_security_risk r a)\<rparr> | Obs _ \<Rightarrow> e)"

definition handle_security_analyzer :: "('a, 'c) env \<Rightarrow> event \<Rightarrow> event" where
  "handle_security_analyzer env e =
     (case analyzer env of
        Some f \<Rightarrow> (case f e of Inr r \<Rightarrow> set_risk r e | Inl _ \<Rightarrow> set_risk UNKNOWN e)
      | None \<Rightarrow> set_risk UNKNOWN e)"

fun confirm_class :: "action \<Rightarrow> bool" where
  "confirm_class (CmdRunAction _) = True"
| "confirm_class (IPythonRunCellAction _) = True"
| "confirm_class (BrowseInteractiveAction _) = True"
| "confirm_class (FileEditAction _) = True"
| "confirm_class (FileReadAction _) = True"
| "confirm_class _ = False"

definition event_risk :: "event \<Rightarrow> security_risk" where
  "event_risk e =
     (case payload e of
        Act a \<Rightarrow> (case get_security_risk a of Some r \<Rightarrow> r | None \<Rightarrow> UNKNOWN)
      | Obs _ \<Rightarrow> UNKNOWN)"

text \<open>The confirmation a runnable action is held back for\<close>

definition guard_action :: "('a, 'c) env \<Rightarrow> 'a controller \<Rightarrow> action \<Rightarrow> event \<Rightarrow> event" where
  "guard_action env c a e =
     (if confirmation_mode (c_state c) \<and> confirm_class a
      then (let e1 = handle_security_analyzer env e;
                is_high_security_risk = (event_risk e1 = HIGH);
                is_ask_for_every_action = (event_risk e1 = UNKNOWN \<and> analyzer env = None)
            in if cli_mode env (c_agent c) then set_confirmation AWAITING_CONFIRMATION e1
               else if (is_high_security_risk \<or> is_ask_for_every_action) \<and> c_confirmation_mode c
               then set_confirmation AWAITING_CONFIRMATION e1
               else e1)
      else e)"

text \<open>\<open>_prepare_metrics_for_frontend\<close>\<close>

definition prepare_metrics :: "'a controller \<Rightarrow> event \<Rightarrow> exn + event" where
  "prepare_metrics c e =
     (let m = get_combined_metrics (controller_stats c)
      in sbind (set_accumulated_cost (metrics_init ''default'') (accumulated_cost m)) (\<lambda>cm.
           Inr (e\<lparr>m_llm_metrics := Some (cm\<lparr>accumulated_token_usage := accumulated_token_usage m,
                 max_budget_per_task := map_option max_value (budget_flag (c_state c))\<rparr>)\<rparr>)))"

text \<open>The second half of \<open>_step\<close>: what is done with the action\<close>

definition send_action :: "('a, 'c) env \<Rightarrow> nat \<Rightarrow> action \<Rightarrow> event \<Rightarrow> ('a, 'c) op" where
  "send_action env i a e w =
     (case prepare_metrics (ctl w i) e of
        Inl x \<Rightarrow> (Some x, w)
      | Inr e2 \<Rightarrow>
          (let (x, e3, s) = add_event (env_codec env) (env_now env) e2 (m_source e2) (stream w);
               w1 = w\<lparr>stream := s\<rparr>
           in (map_option store_exn x,
               if runnable a then upd_ctl i (\<lambda>c. c\<lparr>c_pending := Some e3\<rparr>) w1 else w1)))"

definition act :: "('a, 'c) env \<Rightarrow> nat \<Rightarrow> event \<Rightarrow> ('a, 'c) op" where
  "act env i e w =
     (case payload e of
        Obs _ \<Rightarrow> (Some (mk_exn ''AttributeError'' OtherError []), w)
      | Act a \<Rightarrow>
          (let e1 = (if runnable a then guard_action env (ctl w i) a e else e)
           in run_ops
                [when_op (\<lambda>_. runnable a) (upd_op (upd_ctl i (\<lambda>c. c\<lparr>c_pending := Some e1\<rparr>))),
                 when_op (\<lambda>_. a \<noteq> NullAction \<and> get_confirmation e1 = Some AWAITING_CONFIRMATION)
                   (set_agent_state_to env i AWAITING_USER_CONFIRMATION),
                 when_op (\<lambda>_. a \<noteq> NullAction) (send_action env i a e1)] w))"

text \<open>The exceptions of the agent\<close>

definition recoverable_error :: "exn \<Rightarrow> bool" where
  "recoverable_error x \<longleftrightarrow>
     list_ex (exc_isinstance x)
       [LLMMalformedActionError, LLMNoActionError, LLMResponseError, FunctionCallValidationError,
        FunctionCallNotExistsError]"

definition context_window_error :: "exn \<Rightarrow> bool" where
  "context_window_error x \<longleftrightarrow>
     (let s = str_lower (exc_str x)
      in str_contains ''contextwindowexceedederror'' s \<or> str_contains ''prompt is too long'' s \<or>
         str_contains ''input length and `max_tokens` exceed context limit'' s \<or>
         str_contains ''please reduce the length of'' s \<or>
         str_contains ''the request exceeds the available context size'' s \<or>
         str_contains ''context length exceeded'' s \<or>
         (str_contains ''sambanovaexception'' s \<and> str_contains ''maximum context length'' s) \<or>
         exc_isinstance x ContextWindowExceededError)"

definition tool_validation_error :: "exn \<Rightarrow> bool" where
  "tool_validation_error x \<longleftrightarrow>
     (let s = str_lower (exc_str x)
      in exc_isinstance x BadRequestError \<and> str_contains ''tool call validation failed'' s \<and>
         (str_contains ''missing properties'' s \<or> str_contains ''missing required'' s))"

definition context_window_exn :: exn where
  "context_window_exn =
     (mk_exn ''LLMContextWindowExceedError'' LLMContextWindowExceedError
        ''Conversation history longer than LLM context window limit. Consider turning on enable_history_truncation config to avoid this error'')
     \<lparr>exc_classes := [LLMContextWindowExceedError, RuntimeError]\<rparr>"

definition agent_error :: "('a, 'c) env \<Rightarrow> nat \<Rightarrow> exn \<Rightarrow> ('a, 'c) op" where
  "agent_error env i x w =
     (if recoverable_error x then emit env (mk_error_obs (exc_str x) []) AGENT w
      else if list_ex (exc_isinstance x) [ContextWindowExceededError, BadRequestError, OpenAIError]
      then (if context_window_error x
            then (if enable_history_truncation env (c_agent (ctl w i))
                  then emit env (mk_action CondensationRequestAction) AGENT w
                  else (Some context_window_exn, w))
            else if tool_validation_error x
            then emit env (mk_error_obs
                   (''Tool call validation failed: '' @ exc_str x @
                    ''. Please check the tool parameters and try again.'') []) AGENT w
            else (Some x, w))
      else (Some x, w))"

definition no_action_exn :: exn where
  "no_action_exn = mk_exn ''LLMNoActionError'' LLMNoActionError ''No action was returned''"

definition agent_turn :: "('a, 'c) env \<Rightarrow> nat \<Rightarrow> ('a, 'c) op" where
  "agent_turn env i w =
     (let (r, ag, st) = ag_step env (c_agent (ctl w i)) (st_of w i);
          w1 = put_state i st (upd_ctl i (\<lambda>c. c\<lparr>c_agent := ag\<rparr>) w)
      in case r of
           Inl x \<Rightarrow> agent_error env i x w1
         | Inr None \<Rightarrow> agent_error env i no_action_exn w1
         | Inr (Some e) \<Rightarrow> act env i (e\<lparr>m_source := Some AGENT\<rparr>) w1)"

definition replay_turn :: "('a, 'c) env \<Rightarrow> nat \<Rightarrow> ('a, 'c) op" where
  "replay_turn env i w =
     (let (r, rp) = replay_step (c_replay (ctl w i));
          w1 = upd_ctl i (\<lambda>c. c\<lparr>c_replay := rp\<rparr>) w
      in case r of Inl x \<Rightarrow> (Some x, w1) | Inr e \<Rightarrow> act env i e w1)"

definition stuck_exn :: exn where
  "stuck_exn = mk_exn ''AgentStuckInLoopError'' AgentStuckInLoopError ''Agent got stuck in a loop''"

text \<open>\<open>_step\<close>, after the guards on the state and the pending action\<close>

definition checked_step :: "('a, 'c) env \<Rightarrow> nat \<Rightarrow> ('a, 'c) op" where
  "checked_step env i w =
     (let w1 = upd_state i sync_budget_flag_with_metrics w;
          (stuck, w2) = (if enable_stuck_detection env (c_agent (ctl w1 i)) then is_stuck_op i w1
                         else (False, w1))
      in if stuck then react_to_exception env i stuck_exn w2
         else (let (x, st) = run_control_flags (st_of w2 i);
                   w3 = put_state i st w2
               in case x of
                    Some err \<Rightarrow> react_to_exception env i err w3
                  | None \<Rightarrow>
                      (let (b, rp) = should_replay (c_replay (ctl w3 i));
                           w4 = upd_ctl i (\<lambda>c. c\<lparr>c_replay := rp\<rparr>) w3
                       in if b then replay_turn env i w4 else agent_turn env i w4)))"

definition step :: "('a, 'c) env \<Rightarrow> nat \<Rightarrow> ('a, 'c) op" where
  "step env i w =
     (if agent_state (st_of w i) \<noteq> RUNNING then (None, w)
      else if c_pending (ctl w i) \<noteq> None then (None, w)
      else checked_step env i w)"

text \<open>\<open>_step_with_exception_handling\<close>\<close>

definition reported_exn :: "exn \<Rightarrow> exn" where
  "reported_exn x =
     (if list_ex (exc_isinstance x)
           [Timeout, APIError, BadRequestError, NotFoundError, InternalServerError,
            AuthenticationError, RateLimitError, ContentPolicyViolationError, LLMContextWindowExceedError]
      then x
      else mk_exn ''RuntimeError'' RuntimeError
             (''There was an unexpected error while running the agent: '' @ exc_name x @
              ''. You can refresh the page or ask the agent to try again.''))"

definition step_with_exception_handling :: "('a, 'c) env \<Rightarrow> nat \<Rightarrow> ('a, 'c) op" where
  "step_with_exception_handling env i w =
     (case step env i w of
        (None, w') \<Rightarrow> (None, w')
      | (Some x, w') \<Rightarrow> react_to_exception env i (reported_exn x) w')"

section \<open>Loop recovery\<close>

text \<open>The texts shown to the user; the symbols outside ASCII are given by their UTF-8 bytes.\<close>

definition loop_detected_text :: "string \<Rightarrow> int \<Rightarrow> int \<Rightarrow> string" where
  "loop_detected_text lt iteration recovery_point =
     [CHR 0xE2, CHR 0x9A, CHR 0xA0] @ [CHR 0xEF, CHR 0xB8, CHR 0x8F] @ ''  Agent detected in a loop!'' @ [newline] @ ''Loop type: '' @ lt @
     [newline] @ ''Loop detected at iteration '' @ show_int iteration @
     [newline] @ [newline] @ ''Recovery options:'' @ [newline] @ ''/resume 1. Restart from before loop (preserves ''
     @ show_int recovery_point @
     '' events)'' @ [newline] @ ''/resume 2. Restart with last user message (reuses your most recent instruction)'' @ [newline] @ ''/exit. Quit directly'' @ [newline] @ [newline] @ ''The agent has been paused. Type '' @ [CHR 0x27] @ ''/resume 1'' @ [CHR 0x27] @ '', '' @ [CHR 0x27] @ ''/resume 2'' @ [CHR 0x27] @ '', or '' @ [CHR 0x27] @ ''/exit'' @ [CHR 0x27] @ '' to choose an option.'' @ [newline]"

definition recovery_done_text :: string where
  "recovery_done_text =
     [CHR 0xE2, CHR 0x9C, CHR 0x85] @ '' Loop recovery completed. Agent has been reset to before the loop.'' @ [newline] @ ''You can now provide new instructions to continue.'' @ [newline]"

definition restart_text :: "string \<Rightarrow> string" where
  "restart_text content =
     [newline] @ [CHR 0xE2, CHR 0x9C, CHR 0x85] @ '' Restarting with your last instruction: '' @ content @
     [newline] @ ''Agent is now continuing with the same task...'' @ [newline]"

definition mk_message :: "string \<Rightarrow> event" where
  "mk_message content =
     mk_action (MessageAction \<lparr>ma_content = content, ma_file_urls = None, ma_image_urls = None,
                              ma_wait_for_response = False, ma_risk = UNKNOWN\<rparr>)"

text \<open>\<open>attempt_loop_recovery\<close>\<close>

definition attempt_loop_recovery :: "('a, 'c) env \<Rightarrow> nat \<Rightarrow> ('a, 'c) world \<Rightarrow> (exn + bool) \<times> ('a, 'c) world" where
  "attempt_loop_recovery env i w =
     (case c_stuck_analysis (ctl w i) of
        None \<Rightarrow> (Inr False, w)
      | Some an \<Rightarrow>
          (let (x, w1) = run_ops
                 [emit env (mk_obs (LoopDetectionObservation
                     (loop_detected_text (loop_type an) (current_value (iteration_flag (st_of w i)))
                        (loop_start_idx an)))) ENVIRONMENT,
                  emit env (mk_action (ChangeAgentStateAction
                     \<lparr>casa_agent_state = PAUSED, casa_thought = []\<rparr>)) ENVIRONMENT] w
           in (case x of None \<Rightarrow> Inr True | Some err \<Rightarrow> Inl err, w1)))"

text \<open>\<open>_truncate_memory_to_point\<close>\<close>

definition truncate_memory :: "nat \<Rightarrow> int \<Rightarrow> ('a, 'c) world \<Rightarrow> ('a, 'c) world" where
  "truncate_memory i recovery_point w =
     (if recovery_point \<ge> int (length (history (st_of w i))) then w
      else (let keep = py_slice (history (st_of w i)) None (Some recovery_point)
            in upd_ctl i (\<lambda>c. c\<lparr>c_cached_first := None\<rparr>)
                 (upd_state i (\<lambda>st. st\<lparr>history := keep,
                     end_id := (if keep \<noteq> [] then ev_id (last keep) else - 1)\<rparr>) w)))"

text \<open>\<open>_perform_loop_recovery\<close>\<close>

definition perform_loop_recovery :: "('a, 'c) env \<Rightarrow> nat \<Rightarrow> stuck_analysis \<Rightarrow> ('a, 'c) op" where
  "perform_loop_recovery env i an =
     run_ops
       [upd_op (truncate_memory i (loop_start_idx an)),
        set_agent_state_to env i AWAITING_USER_INPUT,
        emit env (mk_obs (LoopDetectionObservation recovery_done_text)) ENVIRONMENT]"

section \<open>Messages\<close>

text \<open>\<open>_first_user_message\<close>, from a list and from the stream with its cache\<close>

definition first_user_message_in :: "event list \<Rightarrow> event option" where
  "first_user_message_in es = find is_user_message es"

definition first_user_message ::
    "('a, 'c) env \<Rightarrow> nat \<Rightarrow> ('a, 'c) world \<Rightarrow> (exn + event option) \<times> ('a, 'c) world" where
  "first_user_message env i w =
     (case c_cached_first (ctl w i) of
        Some e \<Rightarrow> (Inr (Some e), w)
      | None \<Rightarrow>
          (case search_first (env_codec env) (stream w) (start_id (st_of w i)) False is_user_message of
             Inl x \<Rightarrow> (Inl (store_exn x), w)
           | Inr r \<Rightarrow> (Inr r, upd_ctl i (\<lambda>c. c\<lparr>c_cached_first := r\<rparr>) w)))"

definition mk_recall :: "recall_type \<Rightarrow> string \<Rightarrow> event" where
  "mk_recall t q = mk_action (RecallAction \<lparr>ra_recall_type = t, ra_query = q, ra_thought = []\<rparr>)"

text \<open>\<open>_handle_message_action\<close>\<close>

definition handle_message_action :: "('a, 'c) env \<Rightarrow> nat \<Rightarrow> event \<Rightarrow> message_action \<Rightarrow> ('a, 'c) op" where
  "handle_message_action env i e m w =
     (if m_source e = Some USER
      then (let (r, w1) = first_user_message env i w
            in case r of
                 Inl x \<Rightarrow> (Some x, w1)
               | Inr first \<Rightarrow>
                   (let is_first = (case first of None \<Rightarrow> False | Some f \<Rightarrow> ev_id e = ev_id f);
                        recall = mk_recall (if is_first then WORKSPACE_CONTEXT else KNOWLEDGE) (ma_content m)
                    in run_ops
                         [upd_op (upd_ctl i (\<lambda>c. c\<lparr>c_pending := Some recall\<rparr>)),
                          emit_pending env i (Some USER),
                          set_agent_state_to env i RUNNING] w1))
      else if m_source e = Some AGENT \<and> ma_wait_for_response m
      then set_agent_state_to env i AWAITING_USER_INPUT w
      else (None, w))"

text \<open>\<open>_restart_with_last_user_message\<close>\<close>

definition restart_with_last_user_message :: "('a, 'c) env \<Rightarrow> nat \<Rightarrow> stuck_analysis \<Rightarrow> ('a, 'c) op" where
  "restart_with_last_user_message env i an w =
     (case find is_user_message (rev (history (st_of w i))) of
        None \<Rightarrow> perform_loop_recovery env i an w
      | Some u \<Rightarrow>
          (case payload u of
             Act (MessageAction m) \<Rightarrow>
               (let new = (mk_message (ma_content m))\<lparr>m_source := Some USER\<rparr>
                in run_ops
                     [upd_op (truncate_memory i (loop_start_idx an)),
                      set_agent_state_to env i RUNNING,
                      emit env (mk_obs (LoopDetectionObservation (restart_text (ma_content m)))) ENVIRONMENT,
                      handle_message_action env i new
                        (m\<lparr>ma_file_urls := None, ma_image_urls := None, ma_wait_for_response := False,
                           ma_risk := UNKNOWN\<rparr>)] w)
           | _ \<Rightarrow> perform_loop_recovery env i an w))"

text \<open>\<open>_handle_loop_recovery_action\<close>\<close>

definition handle_loop_recovery_action :: "('a, 'c) env \<Rightarrow> nat \<Rightarrow> int \<Rightarrow> ('a, 'c) op" where
  "handle_loop_recovery_action env i option w =
     (case c_stuck_analysis (ctl w i) of
        None \<Rightarrow> (None, w)
      | Some an \<Rightarrow>
          if option = 1 then perform_loop_recovery env i an w
          else if option = 2 then restart_with_last_user_message env i an w
          else if option = 3 then set_agent_state_to env i STOPPED w
          else (None, w))"

section \<open>Events\<close>

text \<open>\<open>should_step\<close>\<close>

definition should_step :: "('a, 'c) world \<Rightarrow> nat \<Rightarrow> event \<Rightarrow> bool" where
  "should_step w i e =
     (if has_delegate w i then False
      else (case payload e of
              Act (MessageAction _) \<Rightarrow>
                m_source e = Some USER \<or> agent_state (st_of w i) \<noteq> AWAITING_USER_INPUT
            | Act (AgentDelegateAction _) \<Rightarrow> True
            | Act (CondensationAction _) \<Rightarrow> True
            | Act CondensationRequestAction \<Rightarrow> True
            | Act _ \<Rightarrow> False
            | Obs (NullObservation _) \<Rightarrow> (case m_cause e of None \<Rightarrow> False | Some k \<Rightarrow> k > 0)
            | Obs (AgentStateChangedObservation _) \<Rightarrow> False
            | Obs _ \<Rightarrow> True))"

text \<open>\<open>_handle_action\<close>\<close>

definition delegate_task :: "('a, 'c) env \<Rightarrow> nat \<Rightarrow> jdict \<Rightarrow> ('a, 'c) op" where
  "delegate_task env i ins w =
     (case map_of ins ''task'' of
        None \<Rightarrow> (None, w)
      | Some (JStr t) \<Rightarrow>
          run_ops [emit env (mk_message (''TASK: '' @ t)) USER, set_agent_state_to env (Suc i) RUNNING] w
      | Some _ \<Rightarrow> (Some (mk_exn ''TypeError'' OtherError []), w))"

definition handle_action :: "('a, 'c) env \<Rightarrow> nat \<Rightarrow> event \<Rightarrow> action \<Rightarrow> ('a, 'c) op" where
  "handle_action env i e a w =
     (case a of
        ChangeAgentStateAction b \<Rightarrow> set_agent_state_to env i (casa_agent_state b) w
      | MessageAction m \<Rightarrow> handle_message_action env i e m w
      | AgentDelegateAction d \<Rightarrow> run_ops [start_delegate env i d, delegate_task env i (ada_inputs d)] w
      | AgentFinishAction f \<Rightarrow>
          set_agent_state_to env i FINISHED (upd_state i (\<lambda>st. st\<lparr>outputs := afa_outputs f\<rparr>) w)
      | AgentRejectAction r \<Rightarrow>
          set_agent_state_to env i REJECTED (upd_state i (\<lambda>st. st\<lparr>outputs := ara_outputs r\<rparr>) w)
      | LoopRecoveryAction k \<Rightarrow> handle_loop_recovery_action env i k w
      | _ \<Rightarrow> (None, w))"

text \<open>\<open>_handle_observation\<close>\<close>

definition handle_observation :: "('a, 'c) env \<Rightarrow> nat \<Rightarrow> event \<Rightarrow> ('a, 'c) op" where
  "handle_observation env i e w =
     (case c_pending (ctl w i) of
        None \<Rightarrow> (None, w)
      | Some p \<Rightarrow>
          if m_cause e \<noteq> Some (ev_id p) then (None, w)
          else if agent_state (st_of w i) = AWAITING_USER_CONFIRMATION then (None, w)
          else run_ops
                 [upd_op (upd_ctl i (\<lambda>c. c\<lparr>c_pending := None\<rparr>)),
                  when_op (\<lambda>w. agent_state (st_of w i) = USER_CONFIRMED) (set_agent_state_to env i RUNNING),
                  when_op (\<lambda>w. agent_state (st_of w i) = USER_REJECTED)
                    (set_agent_state_to env i AWAITING_USER_INPUT)] w)"

text \<open>\<open>_on_event\<close>\<close>

definition on_event_own :: "('a, 'c) env \<Rightarrow> nat \<Rightarrow> event \<Rightarrow> ('a, 'c) op" where
  "on_event_own env i e w =
     (if ev_hidden e then (None, w)
      else run_ops
             [upd_op (upd_state i (add_history e)),
              (case payload e of
                 Act a \<Rightarrow> handle_action env i e a
               | Obs _ \<Rightarrow> handle_observation env i e),
              when_op (\<lambda>w. should_step w i e) (step_with_exception_handling env i)] w)"

text \<open>\<open>on_event\<close>\<close>

definition delegate_active :: "state \<Rightarrow> bool" where
  "delegate_active st \<longleftrightarrow>
     agent_state st \<notin> {FINISHED, ERROR, REJECTED} \<or>
     str_contains ''RuntimeError: Agent reached maximum iteration.'' (last_error st) \<or>
     str_contains ''RuntimeError:Agent reached maximum budget for conversation'' (last_error st)"

definition on_event :: "('a, 'c) env \<Rightarrow> nat \<Rightarrow> event \<Rightarrow> ('a, 'c) op" where
  "on_event env i e w =
     (if has_delegate w i
      then (if delegate_active (st_of w (Suc i)) then on_event_own env (Suc i) e w
            else end_delegate env i w)
      else on_event_own env i e w)"

text \<open>\<open>_is_awaiting_observation\<close>\<close>

definition is_awaiting_observation :: "('a, 'c) env \<Rightarrow> ('a, 'c) world \<Rightarrow> store_error + bool" where
  "is_awaiting_observation env w =
     map_sum (\<lambda>x. x)
       (\<lambda>r. case r of
              None \<Rightarrow> False
            | Some e \<Rightarrow> (case payload e of
                           Obs (AgentStateChangedObservation b) \<Rightarrow> asco_agent_state b = RUNNING
                         | _ \<Rightarrow> False))
       (search_first (env_codec env) (stream w) 0 True (\<lambda>e. isinstance e C_AgentStateChangedObservation))"

end
