(* ===== verification/Runtime.thy ===== *)
theory Runtime
  imports Agent_Controller
begin

text \<open>
  \<open>openhands/runtime/base.py\<close>: what a runtime does with the events of a conversation. A runtime takes actions off
  the event stream, runs them in its sandbox and puts the observations back on the stream. The sandbox itself -
  the methods \<open>run\<close>, \<open>read\<close>, \<open>write\<close>, \<dots> of the implementations - is a function of the environment on a sandbox
  state of any type, and so are the services that hand out the tokens of the git providers.
\<close>

section \<open>State\<close>

text \<open>The exceptions \<open>_handle_action\<close> tells apart, with the name of the class and the text\<close>

datatype rt_exn =
    Permission_error string
  | Disconnected_error string string
  | Other_error string string

text \<open>The exceptions of the file store\<close>

datatype read_error = Not_found | Read_failed string

text \<open>
  What the base class calls: \<open>rt_execute\<close> are the methods named by the type of an action, \<open>rt_supports\<close> says which of
  them there are, \<open>rt_tokens\<close> is \<open>ProviderHandler.get_env_vars\<close> for some providers, \<open>rt_dumps\<close> is \<open>json.dumps\<close> on a text.
\<close>

record 's runtime_env =
  rt_codec :: codec
  rt_now :: string
  rt_str :: "json \<Rightarrow> string"
  rt_repr :: "string \<Rightarrow> string"
  rt_obs_str :: "event \<Rightarrow> string"
  rt_dumps :: "string \<Rightarrow> string"
  rt_windows :: bool
  rt_supports :: "string \<Rightarrow> bool"
  rt_execute :: "event \<Rightarrow> 's \<Rightarrow> (rt_exn + event) \<times> 's"
  rt_mcp :: "event \<Rightarrow> 's \<Rightarrow> (rt_exn + event) \<times> 's"
  rt_tokens :: "string list \<Rightarrow> rt_exn + (string \<times> string) list"
  rt_write_file :: "string fstore \<Rightarrow> string \<Rightarrow> string \<Rightarrow> string + string fstore"
  rt_read_file :: "string fstore \<Rightarrow> string \<Rightarrow> read_error + string"

record ('s, 'c) runtime =
  rt_sid :: string
  rt_timeout :: rat
  rt_jupyter :: bool
  rt_cli :: bool
  rt_git_user :: "string \<times> string"
  rt_attach :: bool
  rt_initial_env :: "(string \<times> string) list"
  rt_startup_env :: "(string \<times> string) list"
  rt_callback :: bool
  rt_status :: "runtime_status option"
  rt_status_log :: "(string \<times> runtime_status \<times> string) list"
  rt_tasks :: "string fstore"
  rt_sandbox :: 's
  rt_stream :: "'c event_stream"

text \<open>\<open>set_runtime_status\<close>\<close>

definition set_runtime_status ::
    "runtime_status \<Rightarrow> string \<Rightarrow> string \<Rightarrow> ('s, 'c) runtime \<Rightarrow> ('s, 'c) runtime" where
  "set_runtime_status s msg level rt =
     rt\<lparr>rt_status := Some s,
        rt_status_log := (if rt_callback rt then rt_status_log rt @ [(level, s, msg)] else rt_status_log rt)\<rparr>"

section \<open>Commands of the runtime itself\<close>

definition CMD_RETRY_MAX_ATTEMPTS :: nat where
  "CMD_RETRY_MAX_ATTEMPTS = 3"

definition CMD_RETRY_TIMEOUT_EXIT_CODE :: int where
  "CMD_RETRY_TIMEOUT_EXIT_CODE = - 1"

text \<open>\<open>CmdRunAction(cmd)\<close> and \<open>IPythonRunCellAction(code)\<close>\<close>

definition mk_cmd :: "string \<Rightarrow> event" where
  "mk_cmd cmd =
     mk_action (CmdRunAction \<lparr>cra_command = cmd, cra_is_input = False, cra_thought = [], cra_blocking = False,
       cra_is_static = False, cra_cwd = None, cra_hidden = False, cra_confirmation = CONFIRMED, cra_risk = UNKNOWN\<rparr>)"

definition mk_ipython :: "string \<Rightarrow> event" where
  "mk_ipython code =
     mk_action (IPythonRunCellAction \<lparr>ipy_code = code, ipy_thought = [], ipy_include_extra = True,
       ipy_confirmation = CONFIRMED, ipy_risk = UNKNOWN, ipy_kernel_init_code = []\<rparr>)"

definition exit_code :: "event \<Rightarrow> int option" where
  "exit_code ob =
     (case payload ob of Obs (CmdOutputObservation b) \<Rightarrow> Some (com_exit_code (coo_metadata b)) | _ \<Rightarrow> None)"

text \<open>\<open>_is_bash_session_timeout\<close>\<close>

definition is_bash_session_timeout :: "event \<Rightarrow> bool" where
  "is_bash_session_timeout ob \<longleftrightarrow> exit_code ob = Some CMD_RETRY_TIMEOUT_EXIT_CODE"

text \<open>\<open>_calculate_retry_delay\<close>, in seconds\<close>

definition calculate_retry_delay :: "nat \<Rightarrow> int" where
  "calculate_retry_delay attempt = 2 ^ attempt"

text \<open>\<open>_extract_error_content\<close>\<close>

definition extract_error_content :: "'s runtime_env \<Rightarrow> event option \<Rightarrow> string" where
  "extract_error_content env obs =
     (case obs of
        None \<Rightarrow> ''No observation received''
      | Some ob \<Rightarrow>
          (case payload ob of
             Obs (CmdOutputObservation b) \<Rightarrow>
               coo_content b @ '' (exit_code='' @ show_int (com_exit_code (coo_metadata b)) @ '')''
           | Obs (ErrorObservation b) \<Rightarrow> eo_content b
           | _ \<Rightarrow> rt_obs_str env ob))"

text \<open>
  The loop of \<open>_run_cmd_with_retry\<close>: \<open>left\<close> attempts are left, of which this is one. The result has the delays that
  were slept for.
\<close>

fun retry_loop ::
    "'s runtime_env \<Rightarrow> string \<Rightarrow> nat \<Rightarrow> nat \<Rightarrow> event option \<Rightarrow> 's \<Rightarrow> (rt_exn + (event option \<times> event option)) \<times> int list \<times> 's" where
  "retry_loop env cmd attempt 0 last_obs s = (Inr (None, last_obs), [], s)"
| "retry_loop env cmd attempt (Suc left) last_obs s =
     (case rt_execute env (mk_cmd cmd) s of
        (Inl x, s1) \<Rightarrow> (Inl x, [], s1)
      | (Inr ob, s1) \<Rightarrow>
          if exit_code ob = Some 0 then (Inr (Some ob, last_obs), [], s1)
          else if is_bash_session_timeout ob \<and> left \<noteq> 0
          then (case retry_loop env cmd (attempt + 1) left (Some ob) s1 of
                  (r, ds, s2) \<Rightarrow> (r, calculate_retry_delay attempt # ds, s2))
          else (Inr (None, Some ob), [], s1))"

text \<open>\<open>_run_cmd_with_retry\<close>\<close>

definition run_cmd_with_retry ::
    "'s runtime_env \<Rightarrow> string \<Rightarrow> string \<Rightarrow> nat \<Rightarrow> 's \<Rightarrow> (rt_exn + event) \<times> 's" where
  "run_cmd_with_retry env cmd error_context attempts s =
     (if str_strip cmd = [] then (Inl (Other_error ''ValueError'' ''Command cannot be empty''), s)
      else if attempts < 1 then (Inl (Other_error ''ValueError'' ''max_retries must be at least 1''), s)
      else (case retry_loop env cmd 0 attempts None s of
              (Inl x, _, s1) \<Rightarrow> (Inl x, s1)
            | (Inr (Some ob, _), _, s1) \<Rightarrow> (Inr ob, s1)
            | (Inr (None, last_obs), _, s1) \<Rightarrow>
                (Inl (Other_error ''RuntimeError'' (error_context @ '': '' @ extract_error_content env last_obs)), s1)))"

section \<open>Environment variables\<close>

definition char_upper :: "char \<Rightarrow> char" where
  "char_upper c = (let n = (of_char c :: nat) in if 97 \<le> n \<and> n \<le> 122 then char_of (n - 32) else c)"

definition str_upper :: "string \<Rightarrow> string" where
  "str_upper s = map char_upper s"

text \<open>\<open>{key.upper(): value for key, value in env_vars.items()}\<close>\<close>

definition upper_keys :: "(string \<times> string) list \<Rightarrow> (string \<times> string) list" where
  "upper_keys vars = foldl (\<lambda>d (k, v). alist_set (str_upper k) v d) [] vars"

definition quote_char :: char where
  "quote_char = CHR 0x22"

definition ipython_code :: "'s runtime_env \<Rightarrow> (string \<times> string) list \<Rightarrow> string" where
  "ipython_code env vars =
     ''import os'' @ newline #
     concat (map (\<lambda>(k, v). ''os.environ['' @ quote_char # k @ quote_char # ''] = '' @ rt_dumps env v @ [newline]) vars) @
     [newline]"

definition powershell_cmd :: "'s runtime_env \<Rightarrow> (string \<times> string) list \<Rightarrow> string" where
  "powershell_cmd env vars = concat (map (\<lambda>(k, v). ''$env:'' @ k @ '' = '' @ rt_dumps env v @ ''; '') vars)"

definition export_cmd :: "'s runtime_env \<Rightarrow> (string \<times> string) list \<Rightarrow> string" where
  "export_cmd env vars = concat (map (\<lambda>(k, v). ''export '' @ k @ ''='' @ rt_dumps env v @ ''; '') vars)"

definition bashrc_cmd :: "'s runtime_env \<Rightarrow> (string \<times> string) list \<Rightarrow> string" where
  "bashrc_cmd env vars =
     concat (map (\<lambda>(k, v).
       ''touch ~/.bashrc; grep -q '' @ quote_char # ''^export '' @ k @ ''='' @ quote_char # '' ~/.bashrc || echo '' @
       quote_char # ''export '' @ k @ ''='' @ rt_dumps env v @ quote_char # '' >> ~/.bashrc; '') vars)"

definition env_failed :: "'s runtime_env \<Rightarrow> (string \<times> string) list \<Rightarrow> string \<Rightarrow> string" where
  "env_failed env vars target =
     ''Failed to add env vars [dict_keys(['' @ str_join '', '' (map (rt_repr env \<circ> fst) vars) @ ''])] to '' @ target"

text \<open>\<open>add_env_vars\<close>; \<open>jupyter\<close> says whether the plugin is loaded\<close>

definition add_env_vars ::
    "'s runtime_env \<Rightarrow> bool \<Rightarrow> (string \<times> string) list \<Rightarrow> 's \<Rightarrow> rt_exn option \<times> 's" where
  "add_env_vars env jupyter env_vars s =
     (let vars = upper_keys env_vars;
          (x, s0) = (if jupyter
                     then (case rt_execute env (mk_ipython (ipython_code env vars)) s of
                             (Inl x, s1) \<Rightarrow> (Some x, s1) | (Inr _, s1) \<Rightarrow> (None, s1))
                     else (None, s))
      in case x of
           Some x \<Rightarrow> (Some x, s0)
         | None \<Rightarrow>
             if vars = [] then (None, s0)
             else if rt_windows env
             then (case run_cmd_with_retry env (str_strip (powershell_cmd env vars)) (env_failed env vars ''environment'')
                          CMD_RETRY_MAX_ATTEMPTS s0 of
                     (Inl x, s1) \<Rightarrow> (Some x, s1) | (Inr _, s1) \<Rightarrow> (None, s1))
             else (case run_cmd_with_retry env (str_strip (export_cmd env vars)) (env_failed env vars ''environment'')
                          CMD_RETRY_MAX_ATTEMPTS s0 of
                     (Inl x, s1) \<Rightarrow> (Some x, s1)
                   | (Inr _, s1) \<Rightarrow>
                       (case run_cmd_with_retry env (str_strip (bashrc_cmd env vars)) (env_failed env vars ''.bashrc'')
                               CMD_RETRY_MAX_ATTEMPTS s1 of
                          (Inl x, s2) \<Rightarrow> (Some x, s2) | (Inr _, s2) \<Rightarrow> (None, s2))))"

text \<open>\<open>_setup_git_config\<close>: a failure is only logged\<close>

definition setup_git_config :: "'s runtime_env \<Rightarrow> ('s, 'c) runtime \<Rightarrow> ('s, 'c) runtime" where
  "setup_git_config env rt =
     (if rt_cli rt then rt
      else rt\<lparr>rt_sandbox := snd (rt_execute env (mk_cmd
             (''git config --global user.name '' @ quote_char # fst (rt_git_user rt) @ quote_char #
              '' && git config --global user.email '' @ quote_char # snd (rt_git_user rt) @ [quote_char])) (rt_sandbox rt))\<rparr>)"

text \<open>\<open>setup_initial_env\<close>\<close>

definition setup_initial_env :: "'s runtime_env \<Rightarrow> ('s, 'c) runtime \<Rightarrow> rt_exn option \<times> ('s, 'c) runtime" where
  "setup_initial_env env rt =
     (if rt_attach rt then (None, rt)
      else (case add_env_vars env (rt_jupyter rt) (rt_initial_env rt) (rt_sandbox rt) of
              (Some x, s1) \<Rightarrow> (Some x, rt\<lparr>rt_sandbox := s1\<rparr>)
            | (None, s1) \<Rightarrow>
                (case (if rt_startup_env rt = [] then (None, s1)
                       else add_env_vars env (rt_jupyter rt) (rt_startup_env rt) s1) of
                   (Some x, s2) \<Rightarrow> (Some x, rt\<lparr>rt_sandbox := s2\<rparr>)
                 | (None, s2) \<Rightarrow> (None, setup_git_config env (rt\<lparr>rt_sandbox := s2\<rparr>)))))"

section \<open>The tokens of the git providers\<close>

text \<open>The values of \<open>ProviderType\<close>, and \<open>get_provider_env_key\<close>\<close>

definition PROVIDER_TYPES :: "string list" where
  "PROVIDER_TYPES = [''github'', ''gitlab'', ''bitbucket'', ''forgejo'', ''azure_devops'', ''enterprise_sso'']"

definition get_provider_env_key :: "string \<Rightarrow> string" where
  "get_provider_env_key provider = str_lower (provider @ ''_token'')"

text \<open>\<open>check_cmd_action_for_provider_token_ref\<close>\<close>

definition check_cmd_action_for_provider_token_ref :: "event \<Rightarrow> string list" where
  "check_cmd_action_for_provider_token_ref e =
     (case payload e of
        Act (CmdRunAction a) \<Rightarrow>
          filter (\<lambda>p. str_contains (get_provider_env_key p) (str_lower (cra_command a))) PROVIDER_TYPES
      | _ \<Rightarrow> [])"

text \<open>\<open>expose_env_vars\<close>\<close>

definition expose_env_vars :: "(string \<times> string) list \<Rightarrow> (string \<times> string) list" where
  "expose_env_vars tokens = map (\<lambda>(p, t). (get_provider_env_key p, t)) tokens"

text \<open>\<open>_export_latest_git_provider_tokens\<close>; a failure of \<open>add_env_vars\<close> is only logged\<close>

definition export_latest_git_provider_tokens ::
    "'s runtime_env \<Rightarrow> event \<Rightarrow> ('s, 'c) runtime \<Rightarrow> rt_exn option \<times> ('s, 'c) runtime" where
  "export_latest_git_provider_tokens env e rt =
     (let called = check_cmd_action_for_provider_token_ref e
      in if called = [] then (None, rt)
         else (case rt_tokens env called of
                 Inl x \<Rightarrow> (Some x, rt)
               | Inr tokens \<Rightarrow>
                   if tokens = [] then (None, rt)
                   else (let vars = expose_env_vars tokens
                         in (None, rt\<lparr>rt_stream := set_secrets vars (rt_stream rt),
                                      rt_sandbox := snd (add_env_vars env (rt_jupyter rt) vars (rt_sandbox rt))\<rparr>))))"

section \<open>Running an action\<close>

text \<open>The formatting of a value in an f-string, and the icons, as UTF-8\<close>

definition rt_format :: "'s runtime_env \<Rightarrow> json \<Rightarrow> string" where
  "rt_format env j = (case j of JStr s \<Rightarrow> s | _ \<Rightarrow> rt_str env j)"

definition status_icon :: "json \<Rightarrow> string" where
  "status_icon j =
     (if j = JStr ''in_progress'' then [CHR 0xF0, CHR 0x9F, CHR 0x94, CHR 0x84]
      else if j = JStr ''done'' then [CHR 0xE2, CHR 0x9C, CHR 0x85]
      else [CHR 0xE2, CHR 0x8F, CHR 0xB3])"

definition get_or :: "jdict \<Rightarrow> string \<Rightarrow> string \<Rightarrow> json" where
  "get_or d k v = (case map_of d k of None \<Rightarrow> JStr v | Some j \<Rightarrow> j)"

text \<open>A status that is a list or a dictionary cannot be looked up.\<close>

definition unhashable :: "json \<Rightarrow> string option" where
  "unhashable j = (case j of JList _ \<Rightarrow> Some ''list'' | JDict _ \<Rightarrow> Some ''dict'' | _ \<Rightarrow> None)"

definition bad_status :: "jdict list \<Rightarrow> string option" where
  "bad_status tasks =
     (case List.map_filter (\<lambda>t. unhashable (get_or t ''status'' ''todo'')) tasks of [] \<Rightarrow> None | t # _ \<Rightarrow> Some t)"

definition task_line :: "'s runtime_env \<Rightarrow> nat \<times> jdict \<Rightarrow> string" where
  "task_line env = (\<lambda>(i, task).
     show_nat i @ ''. '' @ status_icon (get_or task ''status'' ''todo'') @ '' '' @ rt_format env (get_or task ''title'' []) @
     newline # rt_format env (get_or task ''notes'' []) @ [newline])"

definition task_list_content :: "'s runtime_env \<Rightarrow> jdict list \<Rightarrow> string" where
  "task_list_content env tasks =
     ''# Task List'' @ newline # newline # concat (map (task_line env) (enumerate 1 tasks))"

definition task_file_path :: "('s, 'c) runtime \<Rightarrow> string" where
  "task_file_path rt = get_conversation_dir (rt_sid rt) (es_user (rt_stream rt)) @ ''TASKS.md''"

definition mk_task_obs :: "string \<Rightarrow> string \<Rightarrow> jdict list \<Rightarrow> event" where
  "mk_task_obs content command tasks =
     mk_obs (TaskTrackingObservation \<lparr>tto_content = content, tto_command = command, tto_task_list = tasks\<rparr>)"

definition mk_error :: "string \<Rightarrow> event" where
  "mk_error content = mk_obs (ErrorObservation \<lparr>eo_content = content, eo_error_id = []\<rparr>)"

definition track_tasks ::
    "'s runtime_env \<Rightarrow> task_tracking_action \<Rightarrow> ('s, 'c) runtime \<Rightarrow> (rt_exn + event) \<times> ('s, 'c) runtime" where
  "track_tasks env a rt =
     (let path = task_file_path rt
      in if tta_command a = ''plan''
         then (case bad_status (tta_task_list a) of
                 Some t \<Rightarrow>
                   (Inl (Other_error ''TypeError'' (''unhashable type: '' @ CHR 0x27 # t @ [CHR 0x27])), rt)
               | None \<Rightarrow>
                 (case rt_write_file env (rt_tasks rt) path (task_list_content env (tta_task_list a)) of
                       Inr files \<Rightarrow>
                         (Inr (mk_task_obs
                            (''Task list has been updated with '' @ show_nat (length (tta_task_list a)) @
                             '' items. Stored in session directory: '' @ path) (tta_command a) (tta_task_list a)),
                          rt\<lparr>rt_tasks := files\<rparr>)
                     | Inl x \<Rightarrow>
                         (Inr (mk_error (''Failed to write task list to session directory '' @ path @ '': '' @ x)), rt)))
         else if tta_command a = ''view''
         then (Inr (mk_task_obs
                 (case rt_read_file env (rt_tasks rt) path of
                    Inr content \<Rightarrow> content
                  | Inl Not_found \<Rightarrow>
                      ''No task list found. Use the '' @ quote_char # ''plan'' @ quote_char # '' command to create one.''
                  | Inl (Read_failed x) \<Rightarrow>
                      ''Failed to read the task list from session directory '' @ path @ ''. Error: '' @ x)
                 (tta_command a) []), rt)
         else (Inr (mk_task_obs (''Unknown command: '' @ tta_command a) (tta_command a) []), rt))"

text \<open>The keys of \<open>ACTION_TYPE_TO_CLASS\<close>\<close>

definition ACTION_TYPES :: "string list" where
  "ACTION_TYPES =
     [''null'', ''run'', ''run_ipython'', ''browse'', ''browse_interactive'', ''read'', ''write'', ''edit'', ''think'',
      ''finish'', ''reject'', ''delegate'', ''recall'', ''change_agent_state'', ''message'', ''system'',
      ''condensation'', ''condensation_request'', ''call_tool_mcp'', ''task_tracking'', ''loop_recovery'']"

definition in_sandbox ::
    "('s \<Rightarrow> (rt_exn + event) \<times> 's) \<Rightarrow> ('s, 'c) runtime \<Rightarrow> (rt_exn + event) \<times> ('s, 'c) runtime" where
  "in_sandbox f rt = (case f (rt_sandbox rt) of (r, s) \<Rightarrow> (r, rt\<lparr>rt_sandbox := s\<rparr>))"

text \<open>\<open>run_action\<close>\<close>

definition run_action ::
    "'s runtime_env \<Rightarrow> event \<Rightarrow> action \<Rightarrow> ('s, 'c) runtime \<Rightarrow> (rt_exn + event) \<times> ('s, 'c) runtime" where
  "run_action env e a rt =
     (if \<not> runnable a
      then (case a of
              AgentThinkAction _ \<Rightarrow> (Inr (mk_obs (AgentThinkObservation ''Your thought has been logged.'')), rt)
            | TaskTrackingAction t \<Rightarrow> track_tasks env t rt
            | _ \<Rightarrow> (Inr (mk_obs (NullObservation [])), rt))
      else if get_confirmation e = Some AWAITING_CONFIRMATION then (Inr (mk_obs (NullObservation [])), rt)
      else if action_type a \<notin> set ACTION_TYPES
      then (Inr (mk_error (''Action '' @ action_type a @ '' does not exist.'')), rt)
      else if \<not> rt_supports env (action_type a)
      then (Inr (mk_error (''Action '' @ action_type a @ '' is not supported in the current runtime.'')), rt)
      else if get_confirmation e = Some CONFIRM_REJECTED
      then (Inr (mk_obs (UserRejectObservation ''Action has been rejected by the user! Waiting for further user input.'')), rt)
      else in_sandbox (rt_execute env e) rt)"

section \<open>Handling an event\<close>

definition with_timeout :: "('s, 'c) runtime \<Rightarrow> event \<Rightarrow> event" where
  "with_timeout rt e = (if m_timeout e = None then set_hard_timeout (Some (rt_timeout rt)) False e else e)"

text \<open>The body of the \<open>try\<close> block of \<open>_handle_action\<close>\<close>

definition attempt_action ::
    "'s runtime_env \<Rightarrow> event \<Rightarrow> ('s, 'c) runtime \<Rightarrow> (rt_exn + event) \<times> ('s, 'c) runtime" where
  "attempt_action env e rt =
     (case export_latest_git_provider_tokens env e rt of
        (Some x, rt1) \<Rightarrow> (Inl x, rt1)
      | (None, rt1) \<Rightarrow>
          (case payload e of
             Act (MCPAction _) \<Rightarrow> in_sandbox (rt_mcp env e) rt1
           | Act a \<Rightarrow> run_action env e a rt1
           | Obs _ \<Rightarrow> (Inl (Other_error ''AttributeError'' []), rt1)))"

text \<open>The observation goes to the stream, with the action as its cause.\<close>

definition is_null_obs :: "event \<Rightarrow> bool" where
  "is_null_obs ob = (case payload ob of Obs (NullObservation _) \<Rightarrow> True | _ \<Rightarrow> False)"

definition publish ::
    "'s runtime_env \<Rightarrow> event \<Rightarrow> event \<Rightarrow> ('s, 'c) runtime \<Rightarrow> store_error option \<times> ('s, 'c) runtime" where
  "publish env e ob rt =
     (let ob1 = ob\<lparr>m_cause := Some (ev_id e), m_tool_call := m_tool_call e\<rparr>;
          source = (case m_source e of Some s \<Rightarrow> s | None \<Rightarrow> AGENT)
      in if is_null_obs ob1 then (None, rt)
         else (case add_event (rt_codec env) (rt_now env) ob1 (Some source) (rt_stream rt) of
                 (x, _, st) \<Rightarrow> (x, rt\<lparr>rt_stream := st\<rparr>)))"

text \<open>What the handlers of the exceptions and the end of \<open>_handle_action\<close> make of the attempt\<close>

definition conclude ::
    "'s runtime_env \<Rightarrow> event \<Rightarrow> (rt_exn + event) \<times> ('s, 'c) runtime \<Rightarrow> store_error option \<times> ('s, 'c) runtime" where
  "conclude env e r =
     (case r of
        (Inr ob, rt) \<Rightarrow> publish env e ob rt
      | (Inl (Permission_error msg), rt) \<Rightarrow> publish env e (mk_error msg) rt
      | (Inl (Disconnected_error n msg), rt) \<Rightarrow>
          (None, set_runtime_status RS_ERROR_RUNTIME_DISCONNECTED (n @ '': '' @ msg) ''error'' rt)
      | (Inl (Other_error n msg), rt) \<Rightarrow> (None, set_runtime_status RS_ERROR (n @ '': '' @ msg) ''error'' rt))"

text \<open>\<open>_handle_action\<close> and \<open>on_event\<close>\<close>

definition handle_runtime_action ::
    "'s runtime_env \<Rightarrow> event \<Rightarrow> ('s, 'c) runtime \<Rightarrow> store_error option \<times> ('s, 'c) runtime" where
  "handle_runtime_action env e rt = conclude env (with_timeout rt e) (attempt_action env (with_timeout rt e) rt)"

definition runtime_on_event ::
    "'s runtime_env \<Rightarrow> event \<Rightarrow> ('s, 'c) runtime \<Rightarrow> store_error option \<times> ('s, 'c) runtime" where
  "runtime_on_event env e rt = (if is_action e then handle_runtime_action env e rt else (None, rt))"

end
