(* ===== verification/Controller_Rules.thy ===== *)
theory Controller_Rules
  imports Agent_Controller
begin

text \<open>
  Rules for reasoning about the controller: what the elementary operations change and leave alone,
  how properties pass through sequences of statements, and what an emitted event adds to the
  stream.
\<close>

named_theorems keeps \<open>operations preserve the property at hand\<close>

section \<open>Sequences\<close>

definition preserves :: "('w \<Rightarrow> bool) \<Rightarrow> ('w \<Rightarrow> exn option \<times> 'w) \<Rightarrow> bool" where
  "preserves P f \<longleftrightarrow> (\<forall>w. P w \<longrightarrow> P (snd (f w)))"

lemma preservesD: "preserves P f \<Longrightarrow> P w \<Longrightarrow> P (snd (f w))"
  by (simp add: preserves_def)

lemma preserves_run_ops [keeps]: "list_all (preserves P) fs \<Longrightarrow> preserves P (run_ops fs)"
  unfolding preserves_def
proof (intro allI impI)
  fix w
  assume "list_all (\<lambda>f. \<forall>w. P w \<longrightarrow> P (snd (f w))) fs" "P w"
  then show "P (snd (run_ops fs w))"
  proof (induction fs arbitrary: w)
    case (Cons f fs)
    then have "P (snd (f w))" by simp
    with Cons show ?case by (cases "f w") (auto split: option.splits)
  qed simp
qed

lemma preserves_when [keeps]: "preserves P f \<Longrightarrow> preserves P (when_op b f)"
  by (simp add: preserves_def when_op_def)

lemma preserves_upd: "(\<And>w. P w \<Longrightarrow> P (f w)) \<Longrightarrow> preserves P (upd_op f)"
  by (simp add: preserves_def upd_op_def)

lemma upd_op_simps [simp]: "upd_op f w = (None, f w)"
  by (simp add: upd_op_def)

lemma when_op_simps [simp]:
  "b w \<Longrightarrow> when_op b f w = f w" "\<not> b w \<Longrightarrow> when_op b f w = (None, w)"
  by (simp_all add: when_op_def)

lemma run_ops_None:
  "run_ops (f # fs) w = (None, w') \<longleftrightarrow> (\<exists>w1. f w = (None, w1) \<and> run_ops fs w1 = (None, w'))"
  by (auto split: prod.splits option.splits)

lemma run_ops_single [simp]: "run_ops [f] w = f w"
  by (auto split: prod.split option.split)

lemma run_ops_case [simp]: "(case p of (None, v) \<Rightarrow> run_ops [] v | (Some x, v) \<Rightarrow> (Some x, v)) = p"
  by (auto split: prod.split option.split)

lemma run_ops_snoc:
  "run_ops (fs @ [upd_op g]) w =
     (case run_ops fs w of (Some x, v) \<Rightarrow> (Some x, v) | (None, v) \<Rightarrow> (None, g v))"
  by (induction fs arbitrary: w) (auto split: prod.split option.split)

section \<open>Elementary updates\<close>

lemma upd_ctl_frame [simp]:
  "stream (upd_ctl i f w) = stream w" "session_files (upd_ctl i f w) = session_files w"
  "status_log (upd_ctl i f w) = status_log w" "length (stack (upd_ctl i f w)) = length (stack w)"
  by (simp_all add: upd_ctl_def)

lemma ctl_upd_ctl [simp]:
  "i < length (stack w) \<Longrightarrow> ctl (upd_ctl i f w) i = f (ctl w i)"
  "i \<noteq> j \<Longrightarrow> ctl (upd_ctl i f w) j = ctl w j"
  by (simp_all add: upd_ctl_def)

lemma put_state_frame [simp]:
  "stream (put_state i st w) = stream w" "session_files (put_state i st w) = session_files w"
  "status_log (put_state i st w) = status_log w" "length (stack (put_state i st w)) = length (stack w)"
  by (simp_all add: put_state_def)

lemma ctl_put_state:
  assumes "i < length (stack w)" "j < length (stack w)"
  shows "ctl (put_state i st w) j =
    (if j = i then (ctl w i)\<lparr>c_state := st\<rparr> else (ctl w j)\<lparr>c_state := share st (st_of w j)\<rparr>)"
  using assms by (simp add: put_state_def)

lemma ctl_put_state_same [simp]:
  "i < length (stack w) \<Longrightarrow> ctl (put_state i st w) i = (ctl w i)\<lparr>c_state := st\<rparr>"
  by (simp add: put_state_def)

lemma upd_state_frame [simp]:
  "stream (upd_state i f w) = stream w" "session_files (upd_state i f w) = session_files w"
  "status_log (upd_state i f w) = status_log w" "length (stack (upd_state i f w)) = length (stack w)"
  by (simp_all add: upd_state_def)

lemma ctl_upd_state_same [simp]:
  "i < length (stack w) \<Longrightarrow> ctl (upd_state i f w) i = (ctl w i)\<lparr>c_state := f (st_of w i)\<rparr>"
  by (simp add: upd_state_def)

lemma share_frame [simp]:
  "agent_state (share st o') = agent_state o'" "history (share st o') = history o'"
  "last_error (share st o') = last_error o'" "start_id (share st o') = start_id o'"
  "end_id (share st o') = end_id o'" "outputs (share st o') = outputs o'"
  "iteration_flag (share st o') = iteration_flag st" "budget_flag (share st o') = budget_flag st"
  "st_metrics (share st o') = st_metrics st" "conversation_stats (share st o') = conversation_stats st"
  "confirmation_mode (share st o') = confirmation_mode o'"
  by (simp_all add: share_def)

section \<open>Emitted events\<close>

text \<open>What \<open>add_event\<close> does to the stream, whether it succeeds or not\<close>

lemma cur_id_frame:
  fixes s s' :: "'c event_stream"
  assumes "cur_id s = Inr (n, s')"
  shows "equeue s' = equeue s" "subscribers s' = subscribers s" "secrets s' = secrets s"
    "es_sid s' = es_sid s" "es_user s' = es_user s"
  using assms by (auto simp: cur_id_def split: option.splits sum.splits)

lemma store_cache_page_frame:
  assumes "store_cache_page page s = Inr s'"
  shows "equeue s' = equeue s" "subscribers s' = subscribers s" "secrets s' = secrets s"
    "es_sid s' = es_sid s" "es_user s' = es_user s"
  using assms
  by (auto simp: store_cache_page_def split: if_splits list.splits option.splits json.splits)

lemma add_event_fails:
  assumes "add_event cd now e src s = (Some x, e', s')"
  shows "equeue s' = equeue s" "subscribers s' = subscribers s" "secrets s' = secrets s"
  using assms
  by (auto simp: add_event_def Let_def cur_id_frame split: if_splits sum.splits option.splits prod.splits)

lemma add_event_succeeds:
  assumes "add_event cd now e src s = (None, e', s')"
  obtains n s0 d ev where "cur_id s = Inr (n, s0)" "e' = stamped now src n e"
    "sanitized cd now src n (map snd (secrets s)) e = Some (d, ev)" "equeue s' = equeue s @ [ev]"
    "subscribers s' = subscribers s" "secrets s' = secrets s" "ev_id e = INVALID_ID"
proof -
  from assms have f: "ev_id e = INVALID_ID" by (auto simp: add_event_def split: if_splits)
  from assms f obtain n s0 where c: "cur_id s = Inr (n, s0)"
    by (cases "cur_id s") (auto simp: add_event_def Let_def)
  note fr = cur_id_frame [OF c]
  from assms f c obtain d0 where d0: "to_dict cd (stamped now src n e) = Some d0"
    by (cases "to_dict cd (stamped now src n e)") (auto simp: add_event_def stamped_def Let_def)
  define d where "d = replace_secrets (map snd (secrets s)) d0"
  from assms f c d0 fr obtain ev where ev: "from_dict cd d = Inr ev"
    by (cases "from_dict cd d") (auto simp: add_event_def stamped_def Let_def d_def)
  have san: "sanitized cd now src n (map snd (secrets s)) e = Some (d, ev)"
    using d0 ev by (simp add: sanitized_def d_def)
  show thesis
    by (rule that [OF c _ san])
      (use assms f c d0 ev fr in \<open>auto simp: add_event_def stamped_def Let_def d_def store_cache_page_frame
         split: sum.splits\<close>)
qed

lemma emit_frame [simp]:
  "stack (snd (emit env e src w)) = stack w" "session_files (snd (emit env e src w)) = session_files w"
  "status_log (snd (emit env e src w)) = status_log w"
  by (simp_all add: emit_def split_beta)

text \<open>The stored form of an event under the next id of the stream\<close>

definition stored_as :: "('a, 'c) env \<Rightarrow> event_source option \<Rightarrow> event \<Rightarrow> 'c event_stream \<Rightarrow> event \<Rightarrow> bool" where
  "stored_as env src e s ev \<longleftrightarrow>
     (\<exists>n s0 d. cur_id s = Inr (n, s0) \<and>
        sanitized (env_codec env) (env_now env) src n (map snd (secrets s)) e = Some (d, ev))"

lemma emit_None:
  assumes "emit env e src w = (None, w')"
  obtains ev where "stored_as env (Some src) e (stream w) ev"
    "equeue (stream w') = equeue (stream w) @ [ev]" "stack w' = stack w"
    "subscribers (stream w') = subscribers (stream w)" "secrets (stream w') = secrets (stream w)"
proof -
  obtain x e' s where a: "add_event (env_codec env) (env_now env) e (Some src) (stream w) = (x, e', s)"
    using prod_cases3 by blast
  with assms have "x = None" and w': "w' = w\<lparr>stream := s\<rparr>" by (auto simp: emit_def)
  with a have "add_event (env_codec env) (env_now env) e (Some src) (stream w) = (None, e', s)" by simp
  then show thesis
    by (rule add_event_succeeds) (use that w' in \<open>auto simp: stored_as_def\<close>)
qed

lemma emit_Some:
  assumes "emit env e src w = (Some x, w')"
  shows "equeue (stream w') = equeue (stream w)"
  using assms by (auto simp: emit_def split: prod.splits dest: add_event_fails)

section \<open>The queue only grows\<close>

definition grows :: "('a, 'c) world \<Rightarrow> ('a, 'c) world \<Rightarrow> bool" where
  "grows w0 w \<longleftrightarrow> (\<exists>evs. equeue (stream w) = equeue (stream w0) @ evs)"

lemma grows_refl [simp]: "grows w w"
  by (simp add: grows_def)

lemma grows_stream: "stream w' = stream w \<Longrightarrow> grows w0 w' = grows w0 w"
  by (simp add: grows_def)

lemma grows_updates [simp]:
  "grows w0 (upd_ctl i f w) = grows w0 w" "grows w0 (put_state i st w) = grows w0 w"
  "grows w0 (upd_state i g w) = grows w0 w" "grows w0 (w\<lparr>stack := cs\<rparr>) = grows w0 w"
  "grows w0 (w\<lparr>status_log := l\<rparr>) = grows w0 w" "grows w0 (w\<lparr>session_files := fs\<rparr>) = grows w0 w"
  by (simp_all add: grows_def)

lemma add_event_grows:
  assumes "add_event cd now e src s = (x, e', s')"
  shows "\<exists>evs. equeue s' = equeue s @ evs"
  using assms by (cases x) (auto elim: add_event_succeeds dest: add_event_fails)

lemma grows_add_event:
  assumes "grows w0 w" "add_event cd now e src (stream w) = (x, e', s)"
  shows "grows w0 (w\<lparr>stream := s\<rparr>)"
  using assms add_event_grows [OF assms(2)] by (auto simp: grows_def)

lemma emit_grows [keeps]: "preserves (grows w0) (emit env e src)"
  by (auto simp: preserves_def emit_def split: prod.splits intro: grows_add_event)

section \<open>Shared objects\<close>

text \<open>Parent and delegates see the same limits, metrics and statistics.\<close>

definition shared :: "('a, 'c) world \<Rightarrow> bool" where
  "shared w \<longleftrightarrow> (\<forall>c \<in> set (stack w). \<forall>d \<in> set (stack w). share (c_state c) (c_state d) = c_state d)"

lemma share_idem [simp]: "share st st = st" "share st (share st' o') = share st o'"
  "share (share st x) y = share st y"
  by (simp_all add: share_def)

lemma shared_put_state [simp]: "i < length (stack w) \<Longrightarrow> shared (put_state i st w)"
  unfolding shared_def put_state_def
  by (auto simp: in_set_conv_nth nth_list_update split: if_splits)

lemma shared_upd_state [simp]: "i < length (stack w) \<Longrightarrow> shared (upd_state i f w)"
  by (simp add: upd_state_def)

lemma shared_upd_ctl:
  assumes "shared w" "\<And>c. c_state (f c) = c_state c"
  shows "shared (upd_ctl i f w)"
proof -
  have "map c_state (stack (upd_ctl i f w)) = map c_state (stack w)"
    using assms(2)
    by (cases "i < length (stack w)") (auto simp: upd_ctl_def list_eq_iff_nth_eq nth_list_update)
  moreover have "shared v \<longleftrightarrow>
      (\<forall>c \<in> set (map c_state (stack v)). \<forall>d \<in> set (map c_state (stack v)). share c d = d)" for v :: "('a, 'c) world"
    by (simp add: shared_def)
  ultimately show ?thesis using assms(1) by metis
qed

lemma shared_stack: "stack w' = stack w \<Longrightarrow> shared w' = shared w"
  by (simp add: shared_def)

lemma shared_subset: "shared w \<Longrightarrow> set (stack w') \<subseteq> set (stack w) \<Longrightarrow> shared w'"
  by (auto simp: shared_def)

end
