(* ===== verification/Controller_Invariant.thy ===== *)
theory Controller_Invariant
  imports Controller_Rules
begin

text \<open>
  The invariant of a controller chain under every handler: parent and delegates share their
  limits, metrics and statistics, the chain keeps its root, and the queue of the stream is only
  appended to.
\<close>

text \<open>A controller that is only affected through the objects it shares\<close>

definition untouched :: "('a, 'c) world \<Rightarrow> ('a, 'c) world \<Rightarrow> nat \<Rightarrow> bool" where
  "untouched w0 w j \<longleftrightarrow> (\<exists>st. ctl w j = (ctl w0 j)\<lparr>c_state := share st (st_of w0 j)\<rparr>)"

lemma untouched_refl [simp]: "untouched w w j"
  unfolding untouched_def by (rule exI [of _ "st_of w j"]) simp

text \<open>The controllers below \<open>k\<close> are left alone by what happens at \<open>i\<close>.\<close>

definition okw :: "nat \<Rightarrow> nat \<Rightarrow> ('a, 'c) world \<Rightarrow> ('a, 'c) world \<Rightarrow> bool" where
  "okw k i w0 w \<longleftrightarrow>
     shared w \<and> i < length (stack w) \<and> grows w0 w \<and> conversation_stats (st_of w i) \<noteq> None \<and> k \<le> i \<and>
     (\<forall>j < k. untouched w0 w j)"

lemma okwD:
  assumes "okw k i w0 w"
  shows "shared w" "i < length (stack w)" "grows w0 w" "conversation_stats (st_of w i) \<noteq> None"
    "k \<le> i" "j < k \<Longrightarrow> untouched w0 w j"
  using assms by (simp_all add: okw_def)

lemma untouched_put_state:
  assumes "untouched w0 w j" "j \<noteq> i" "j < length (stack w)"
  shows "untouched w0 (put_state i st w) j"
proof -
  from assms(1) obtain st' where "ctl w j = (ctl w0 j)\<lparr>c_state := share st' (st_of w0 j)\<rparr>"
    by (auto simp: untouched_def)
  with assms(2,3) have "ctl (put_state i st w) j = (ctl w0 j)\<lparr>c_state := share st (st_of w0 j)\<rparr>"
    by (simp add: put_state_def)
  then show ?thesis unfolding untouched_def by blast
qed

lemma untouched_stack: "ctl w' j = ctl w j \<Longrightarrow> untouched w0 w' j = untouched w0 w j"
  by (simp add: untouched_def)

lemma okw_put_state:
  "okw k i w0 w \<Longrightarrow> conversation_stats st \<noteq> None \<Longrightarrow> okw k i w0 (put_state i st w)"
  by (auto simp: okw_def intro!: untouched_put_state)

lemma okw_upd_state:
  "okw k i w0 w \<Longrightarrow> (\<And>st. conversation_stats st \<noteq> None \<Longrightarrow> conversation_stats (f st) \<noteq> None) \<Longrightarrow>
   okw k i w0 (upd_state i f w)"
  unfolding upd_state_def by (rule okw_put_state) (auto simp: okw_def)

lemma okw_upd_ctl:
  assumes "okw k i w0 w" "\<And>c. c_state (f c) = c_state c"
  shows "okw k i w0 (upd_ctl i f w)"
  using assms shared_upd_ctl [of w f i] by (auto simp: okw_def untouched_def)

lemma okw_stream:
  assumes "okw k i w0 w" "stack w' = stack w" "grows w0 w'"
  shows "okw k i w0 w'"
  using assms shared_stack [of w' w] by (simp add: okw_def untouched_def)

lemma okw_log: "okw k i w0 w \<Longrightarrow> okw k i w0 (w\<lparr>status_log := l\<rparr>)"
  "okw k i w0 w \<Longrightarrow> okw k i w0 (w\<lparr>session_files := fs\<rparr>)"
  by (rule okw_stream; simp add: okw_def)+

lemma okw_emit [keeps]: "preserves (okw k i w0) (emit env e src)"
  unfolding preserves_def
proof (intro allI impI)
  fix w
  assume "okw k i w0 w"
  then show "okw k i w0 (snd (emit env e src w))"
    by (rule okw_stream) (use \<open>okw k i w0 w\<close> in \<open>auto intro: preservesD [OF emit_grows] okwD(3)\<close>)
qed

lemma okw_emit_at [keeps]: "preserves (okw k i w0) (\<lambda>w. emit env (h w) src w)"
  by (auto simp: preserves_def intro: preservesD [OF okw_emit])

lemma okw_add_event:
  "okw k i w0 w \<Longrightarrow> add_event cd now e src (stream w) = (x, e', s) \<Longrightarrow> okw k i w0 (w\<lparr>stream := s\<rparr>)"
  by (rule okw_stream, assumption) (auto intro: grows_add_event okwD(3))

lemma okw_emit_pending [keeps]: "preserves (okw k i w0) (emit_pending env i src)"
  by (auto simp: preserves_def emit_pending_def split: option.split prod.split
      intro!: okw_upd_ctl intro: okw_add_event)

lemma okw_save_state [keeps]: "preserves (okw k i w0) (upd_op (save_state_op i))"
proof (rule preserves_upd)
  fix w
  assume ok: "okw k i w0 w"
  have "conversation_stats (tr_state (save_state t)) \<noteq> None" if "conversation_stats (tr_state t) \<noteq> None" for t
    using that by (auto simp: save_state_def Let_def split: option.splits list.splits)
  with okwD(4) [OF ok] show "okw k i w0 (save_state_op i w)"
    unfolding save_state_op_def Let_def using ok by (intro okw_put_state okw_log) auto
qed

lemma okw_reset [keeps]: "preserves (okw k i w0) (reset_controller env i)"
  unfolding reset_controller_def
  by (intro preserves_run_ops)
    (auto intro!: preserves_upd okw_upd_ctl simp: preserves_def split: option.split
      intro: preservesD [OF okw_emit])

lemma okw_set_agent_state [keeps]: "preserves (okw k i w0) (set_agent_state_to env i new)"
proof -
  have "preserves (okw k i w0) (\<lambda>w. run_ops
       [upd_op (upd_state i (\<lambda>st. st\<lparr>agent_state := new\<rparr>)),
        when_op (\<lambda>_. new = STOPPED \<or> new = ERROR) (reset_controller env i),
        when_op (\<lambda>_. old = ERROR \<and> new = RUNNING)
          (upd_op (\<lambda>w. upd_state i (maybe_increase_control_flags_limits (c_headless (ctl w i))) w)),
        when_op (\<lambda>w. c_pending (ctl w i) \<noteq> None \<and> (new = USER_CONFIRMED \<or> new = USER_REJECTED))
          (run_ops
             [upd_op (upd_ctl i (\<lambda>c. c\<lparr>c_pending := map_option (answer_pending new) (c_pending c)\<rparr>)),
              emit_pending env i (Some AGENT)]),
        \<lambda>w. emit env (state_changed_obs (st_of w i)) ENVIRONMENT w,
        upd_op (save_state_op i)] w)" for old
    by (rule preserves_run_ops)
      (auto intro!: keeps preserves_upd okw_upd_ctl okw_upd_state
        simp: maybe_increase_control_flags_limits_def)
  then show ?thesis by (simp add: preserves_def set_agent_state_to_def Let_def)
qed

lemma okw_shift:
  assumes "okw k j w0 w" "i < length (stack w)" "k \<le> i"
  shows "okw k i w0 w"
proof -
  have "share (st_of w j) (st_of w i) = st_of w i"
    using assms by (simp add: okw_def shared_def)
  then have "conversation_stats (st_of w i) = conversation_stats (st_of w j)"
    by (metis share_frame(10))
  with assms show ?thesis by (simp add: okw_def)
qed

lemma shared_map:
  "shared w \<longleftrightarrow> (\<forall>c \<in> set (map c_state (stack w)). \<forall>d \<in> set (map c_state (stack w)). share c d = d)"
  by (simp add: shared_def)

lemma okw_states:
  assumes "okw k i w0 w" "map c_state (stack w') = map c_state (stack w)" "stream w' = stream w"
    and "\<And>j. j < i \<Longrightarrow> ctl w' j = ctl w j"
  shows "okw k i w0 w'"
proof -
  have len: "length (stack w') = length (stack w)" using assms(2) by (metis length_map)
  have "shared w'" using okwD(1) [OF assms(1)] unfolding shared_map assms(2) .
  have "st_of w' i = st_of w i"
    using okwD(2) [OF assms(1)] len assms(2) by (metis nth_map)
  with assms len \<open>shared w'\<close> show ?thesis by (auto simp: okw_def grows_def untouched_def)
qed

lemma okw_set_last_error: "okw k i w0 w \<Longrightarrow> okw k i w0 (set_last_error i m w)"
  by (simp add: set_last_error_def okw_upd_state)

lemma okw_react [keeps]: "preserves (okw k i w0) (react_to_exception env i e)"
  by (auto simp: preserves_def react_to_exception_def Let_def split: option.split
      intro!: preservesD [OF okw_set_agent_state] okw_set_last_error okw_log)

lemma stuck_chain_states: "map c_state (snd (stuck_chain cs)) = map c_state cs"
  by (induction cs) (auto simp: split_beta Let_def)

lemma okw_is_stuck:
  assumes "okw k i w0 w" "is_stuck_op i w = (b, w')"
  shows "okw k i w0 w'"
  using assms(1)
proof (rule okw_states)
  have "map c_state (take i (stack w)) @ map c_state (snd (stuck_chain (drop i (stack w)))) = map c_state (stack w)"
    by (simp add: stuck_chain_states flip: map_append)
  with assms(2) show "map c_state (stack w') = map c_state (stack w)" "stream w' = stream w"
    "\<And>j. j < i \<Longrightarrow> ctl w' j = ctl w j"
    using okwD(2) [OF assms(1)] by (auto simp: is_stuck_op_def split_beta Let_def nth_append)
qed

lemma close_history_stats:
  "close_history cd es st = Inr st' \<Longrightarrow> conversation_stats st' = conversation_stats st"
  by (auto simp: close_history_def Let_def sbind_Inr_iff)

lemma unsubscribe_queue: "equeue (unsubscribe a c s) = equeue s"
  by (simp add: unsubscribe_def clean_up_subscriber_def Let_def)

lemma okw_close [keeps]: "preserves (okw k i w0) (close_controller env i b)"
proof -
  have h: "preserves (okw k i w0) (\<lambda>w. case close_history (env_codec env) (stream w) (st_of w i) of
               Inl x \<Rightarrow> (Some (store_exn x), w) | Inr st \<Rightarrow> (None, put_state i st w))"
    using okwD(4) [of k i w0] close_history_stats
    by (fastforce simp: preserves_def split: sum.split intro: okw_put_state)
  have u: "okw k i w0 (w\<lparr>stream := unsubscribe AGENT_CONTROLLER (c_id (ctl w i)) (stream w)\<rparr>)"
    if "okw k i w0 w" for w
    using that by (rule okw_stream) (use okwD(3) [OF that] in \<open>simp_all add: grows_def unsubscribe_queue\<close>)
  show ?thesis
    unfolding close_controller_def
    by (intro preserves_run_ops) (auto intro!: keeps preserves_upd okw_upd_ctl h u)
qed

section \<open>Delegates\<close>

lemma init_history_result:
  assumes "init_history cd es st = Inr st'"
  shows "\<exists>h s. st' = st\<lparr>history := h, start_id := s\<rparr>"
proof -
  have e: "\<exists>h' s. st\<lparr>history := h\<rparr> = st\<lparr>history := h', start_id := s\<rparr>" for h
    by (rule exI [of _ h], rule exI [of _ "start_id st"]) simp
  show ?thesis
    using assms by (auto simp: init_history_def Let_def sbind_Inr_iff split: if_splits intro!: e)
qed

lemma add_system_message_grows:
  "add_system_message env ag st s = (x, s') \<Longrightarrow> \<exists>evs. equeue s' = equeue s @ evs"
  by (auto simp: add_system_message_def split: sum.splits option.splits if_splits prod.splits
      dest: add_event_grows)

lemma subscribe_queue: "equeue (snd (subscribe a cb c s)) = equeue s"
  by (simp add: subscribe_def Let_def)

text \<open>The controller that a successful construction returns\<close>

lemma controller_init_result:
  assumes "controller_init env a s = (r, s')"
  shows "\<exists>evs. equeue s' = equeue s @ evs"
    and "r = Inr c \<Longrightarrow> \<exists>cid h k. c_state c = (set_initial_state cid (ia_initial_state a) (ia_stats a)
            (ia_iteration_delta a) (ia_budget_delta a) (ia_confirmation_mode a) (ia_user a))\<lparr>history := h, start_id := k\<rparr>"
    and "r = Inr c \<Longrightarrow> c_is_delegate c = ia_is_delegate a \<and> c_pending c = None \<and> c_agent c = ia_agent a
          \<and> c_confirmation_mode c = ia_confirmation_mode a \<and> \<not> c_closed c"
proof -
  define cid where "cid = (case ia_sid a of Some (c # r) \<Rightarrow> c # r | _ \<Rightarrow> es_sid s)"
  define s1 where "s1 = (if ia_is_delegate a then s else snd (subscribe AGENT_CONTROLLER (env_callback env) cid s))"
  have q: "equeue s1 = equeue s" by (simp add: s1_def subscribe_queue)
  note D = assms [unfolded controller_init_def Let_def, folded cid_def]
  have g: "\<exists>evs. equeue (snd (add_system_message env ag st s1)) = equeue s @ evs" for ag st
    using add_system_message_grows [OF surjective_pairing, of env ag st s1] q by simp
  show "\<exists>evs. equeue s' = equeue s @ evs"
    using D g q unfolding s1_def
    by (cases "ia_is_delegate a") (auto simp: split_beta split: if_splits option.splits sum.splits)
  show "r = Inr c \<Longrightarrow> \<exists>cid h k. c_state c = (set_initial_state cid (ia_initial_state a) (ia_stats a)
            (ia_iteration_delta a) (ia_budget_delta a) (ia_confirmation_mode a) (ia_user a))\<lparr>history := h, start_id := k\<rparr>"
    using D by (auto simp: split_beta split: if_splits option.splits sum.splits dest!: init_history_result)
      (intro exI, rule refl)+
  show "r = Inr c \<Longrightarrow> c_is_delegate c = ia_is_delegate a \<and> c_pending c = None \<and> c_agent c = ia_agent a
          \<and> c_confirmation_mode c = ia_confirmation_mode a \<and> \<not> c_closed c"
    using D by (auto simp: split_beta split: if_splits option.splits sum.splits)
qed

text \<open>A delegate either does not come into being or is put on top of its parent.\<close>

lemma start_delegate_cases:
  obtains (failed) x s1 evs where "start_delegate env i d w = (Some x, w\<lparr>stream := s1\<rparr>)"
    "equeue s1 = equeue (stream w) @ evs"
  | (started) c s1 evs latest h k where
    "start_delegate env i d w = (None, w\<lparr>stream := s1, stack := take (Suc i) (stack w) @ [c]\<rparr>)"
    "equeue s1 = equeue (stream w) @ evs"
    "c_state c = (delegate_initial_state (ctl w i) d latest)
       \<lparr>conversation_stats := Some (controller_stats (ctl w i)), history := h, start_id := k\<rparr>"
    "c_is_delegate c" "c_pending c = None" "\<not> c_confirmation_mode c" "\<not> c_closed c"
proof (cases "ag_create env (c_agent (ctl w i)) (ada_agent d)")
  case (Inl x)
  then show thesis using failed [of x "stream w" "[]"] by (simp add: start_delegate_def Let_def)
next
  case ag: (Inr ag)
  show thesis
  proof (cases "get_latest_event_id (stream w)")
    case (Inl x)
    with ag show thesis using failed [of "store_exn x" "stream w" "[]"] by (simp add: start_delegate_def Let_def)
  next
    case l: (Inr p)
    obtain latest s0 where p: "p = (latest, s0)" by (cases p)
    define a where "a = \<lparr>ia_agent = ag, ia_stats = controller_stats (ctl w i),
        ia_iteration_delta = c_max_iterations (ctl w i), ia_budget_delta = c_max_budget (ctl w i),
        ia_sid = Some (c_id (ctl w i) @ ''-delegate''), ia_user = c_user (ctl w i),
        ia_confirmation_mode = False,
        ia_initial_state = Some (delegate_initial_state (ctl w i) d latest),
        ia_is_delegate = True, ia_headless = c_headless (ctl w i),
        ia_status_callback = False, ia_replay_events = None\<rparr>"
    obtain r s1 where init: "controller_init env a s0 = (r, s1)" by (cases "controller_init env a s0")
    have q0: "equeue s0 = equeue (stream w)"
      using l p cur_id_frame(1) by (fastforce simp: get_latest_event_id_def map_sum_def split: sum.splits)
    from controller_init_result(1) [OF init] q0 obtain evs where q: "equeue s1 = equeue (stream w) @ evs" by auto
    have eq: "start_delegate env i d w = (case r of Inl x \<Rightarrow> (Some x, w\<lparr>stream := s1\<rparr>)
        | Inr c \<Rightarrow> (None, w\<lparr>stream := s1, stack := take (Suc i) (stack w) @ [c]\<rparr>))"
      using ag l p init by (simp add: start_delegate_def Let_def a_def)
    show thesis
    proof (cases r)
      case (Inl x)
      with eq q show thesis using failed by simp
    next
      case r: (Inr c)
      from controller_init_result(2) [OF init r] obtain h k where
        "c_state c = (delegate_initial_state (ctl w i) d latest)
           \<lparr>conversation_stats := Some (controller_stats (ctl w i)), history := h, start_id := k\<rparr>"
        by (auto simp: a_def set_initial_state_def)
      with started [OF _ q] controller_init_result(3) [OF init r] eq r show thesis by (simp add: a_def)
    qed
  qed
qed

lemma okw_start_delegate [keeps]: "preserves (okw k i w0) (start_delegate env i d)"
  unfolding preserves_def
proof (intro allI impI)
  fix w
  assume ok: "okw k i w0 w"
  show "okw k i w0 (snd (start_delegate env i d w))"
  proof (rule start_delegate_cases [of env i d w])
    fix x s1 evs
    assume eq: "start_delegate env i d w = (Some x, w\<lparr>stream := s1\<rparr>)"
      and q: "equeue s1 = equeue (stream w) @ evs"
    have "okw k i w0 (w\<lparr>stream := s1\<rparr>)"
      using ok by (rule okw_stream) (use okwD(3) [OF ok] q in \<open>auto simp: grows_def\<close>)
    then show ?thesis by (simp add: eq)
  next
    fix c s1 evs latest h k
    assume eq: "start_delegate env i d w = (None, w\<lparr>stream := s1, stack := take (Suc i) (stack w) @ [c]\<rparr>)"
      and q: "equeue s1 = equeue (stream w) @ evs"
      and c: "c_state c = (delegate_initial_state (ctl w i) d latest)
       \<lparr>conversation_stats := Some (controller_stats (ctl w i)), history := h, start_id := k\<rparr>"
    have sh: "share (st_of w i) (c_state c) = c_state c" "share (c_state c) x = share (st_of w i) x" for x
      using okwD(4) [OF ok] by (auto simp: c delegate_initial_state_def share_def controller_stats_def)
    have in_w: "x \<in> set (take (Suc i) (stack w)) \<Longrightarrow> x \<in> set (stack w)" for x by (rule in_set_takeD)
    have i: "ctl w i \<in> set (stack w)" using okwD(2) [OF ok] by simp
    have "shared (w\<lparr>stream := s1, stack := take (Suc i) (stack w) @ [c]\<rparr>)"
      using okwD(1) [OF ok] i in_w sh unfolding shared_def
      by (auto simp: share_def) (metis share_def share_idem(3))+
    with q okwD [OF ok] show ?thesis
      by (auto simp: eq okw_def nth_append grows_def untouched_def)
  qed
qed

lemma okw_parent: "okw k (Suc i) w0 w \<Longrightarrow> k \<le> i \<Longrightarrow> okw k i w0 w"
  by (rule okw_shift, assumption) (simp_all add: okw_def)

lemma okw_upd_parent:
  assumes "okw k (Suc i) w0 w" "k \<le> i" "\<And>st. conversation_stats st \<noteq> None \<Longrightarrow> conversation_stats (f st) \<noteq> None"
  shows "okw k (Suc i) w0 (upd_state i f w)"
proof -
  have "okw k i w0 (upd_state i f w)"
    using okw_parent [OF assms(1,2)] by (rule okw_upd_state) (use assms(3) in auto)
  then show ?thesis by (rule okw_shift) (use okwD(2) [OF assms(1)] assms(2) in simp_all)
qed

lemma okw_drop_delegate:
  "okw k (Suc i) w0 w \<Longrightarrow> k \<le> i \<Longrightarrow> okw k i w0 (w\<lparr>stack := take (Suc i) (stack w)\<rparr>)"
  using okw_parent [of k i w0 w] shared_subset [of w "w\<lparr>stack := take (Suc i) (stack w)\<rparr>"]
  by (auto simp: okw_def untouched_def dest: in_set_takeD)

lemma okw_end_delegate [keeps]: "preserves (okw k i w0) (end_delegate env i)"
  unfolding preserves_def
proof (intro allI impI)
  fix w
  assume ok: "okw k i w0 w"
  show "okw k i w0 (snd (end_delegate env i w))"
  proof (cases "has_delegate w i")
    case False
    with ok show ?thesis by (simp add: end_delegate_def)
  next
    case True
    have k: "k \<le> i" by (rule okwD(5) [OF ok])
    with True have ok': "okw k (Suc i) w0 w" using okw_shift [OF ok] by (simp add: has_delegate_def)
    define ops where "ops = [upd_op (\<lambda>w. upd_state i (\<lambda>st. st\<lparr>iteration_flag := (iteration_flag st)
        \<lparr>current_value := current_value (iteration_flag (st_of w (Suc i)))\<rparr>\<rparr>) w),
        close_controller env (Suc i) True,
        \<lambda>v. emit env (delegate_observation env (agent_state (st_of w (Suc i))) (ctl v i) (ctl v (Suc i))) AGENT v]"
    have "preserves (okw k (Suc i) w0) (run_ops ops)"
      unfolding ops_def by (rule preserves_run_ops) (auto intro!: keeps preserves_upd okw_upd_parent k)
    then have "okw k (Suc i) w0 (snd (run_ops ops w))" using ok' by (rule preservesD)
    moreover have "end_delegate env i w =
        (case run_ops ops w of (Some x, v) \<Rightarrow> (Some x, v) | (None, v) \<Rightarrow> (None, v\<lparr>stack := take (Suc i) (stack v)\<rparr>))"
      using True run_ops_snoc [of ops "\<lambda>w. w\<lparr>stack := take (Suc i) (stack w)\<rparr>" w]
      by (simp add: end_delegate_def Let_def ops_def del: run_ops.simps)
    ultimately show ?thesis
      by (auto split: prod.split option.split intro: okw_parent okw_drop_delegate k)
  qed
qed

section \<open>Steps and handlers\<close>

text \<open>The agent may change the state it is given, but it does not take its statistics away.\<close>

definition keeps_stats :: "('a, 'c) env \<Rightarrow> bool" where
  "keeps_stats env \<longleftrightarrow>
     (\<forall>a st. conversation_stats st \<noteq> None \<longrightarrow> conversation_stats (snd (snd (ag_step env a st))) \<noteq> None)"

lemma okw_send_action [keeps]: "preserves (okw k i w0) (send_action env i a e)"
  by (auto simp: preserves_def send_action_def Let_def split: sum.split prod.split
      intro!: okw_upd_ctl intro: okw_add_event)

lemma okw_act [keeps]: "preserves (okw k i w0) (act env i e)"
proof -
  have "preserves (okw k i w0) (run_ops
     [when_op (\<lambda>_. runnable a) (upd_op (upd_ctl i (\<lambda>c. c\<lparr>c_pending := Some e1\<rparr>))),
      when_op (\<lambda>_. a \<noteq> NullAction \<and> get_confirmation e1 = Some AWAITING_CONFIRMATION)
        (set_agent_state_to env i AWAITING_USER_CONFIRMATION),
      when_op (\<lambda>_. a \<noteq> NullAction) (send_action env i a e1)])" for a e1
    by (rule preserves_run_ops) (auto intro!: keeps preserves_upd okw_upd_ctl)
  then show ?thesis by (auto simp: preserves_def act_def Let_def split: payload.split)
qed

lemma okw_agent_error [keeps]: "preserves (okw k i w0) (agent_error env i x)"
  by (auto simp: preserves_def agent_error_def intro: preservesD [OF okw_emit])

lemma okw_agent_turn: "keeps_stats env \<Longrightarrow> preserves (okw k i w0) (agent_turn env i)"
  unfolding preserves_def
proof (intro allI impI)
  fix w
  assume k: "keeps_stats env" and ok: "okw k i w0 w"
  obtain r ag st where s: "ag_step env (c_agent (ctl w i)) (st_of w i) = (r, ag, st)" using prod_cases3 by blast
  define w1 where "w1 = put_state i st (upd_ctl i (\<lambda>c. c\<lparr>c_agent := ag\<rparr>) w)"
  have "conversation_stats st \<noteq> None" using k okwD(4) [OF ok] s unfolding keeps_stats_def by (metis snd_conv)
  with ok have "okw k i w0 w1" by (auto simp: w1_def intro!: okw_put_state okw_upd_ctl)
  then show "okw k i w0 (snd (agent_turn env i w))"
    by (auto simp: agent_turn_def s Let_def w1_def [symmetric] split: sum.split option.split
        intro: preservesD [OF okw_agent_error] preservesD [OF okw_act])
qed

lemma okw_replay_turn [keeps]: "preserves (okw k i w0) (replay_turn env i)"
  by (auto simp: preserves_def replay_turn_def Let_def split: sum.split prod.split
      intro!: okw_upd_ctl preservesD [OF okw_act])

lemma run_control_flags_stats:
  "conversation_stats (snd (run_control_flags st)) = conversation_stats st"
  by (auto simp: run_control_flags_def Let_def split_beta split: option.split)

lemma sync_budget_stats: "conversation_stats (sync_budget_flag_with_metrics st) = conversation_stats st"
  by (simp add: sync_budget_flag_with_metrics_def split: option.split)

lemma okw_checked_step:
  assumes "keeps_stats env"
  shows "preserves (okw k i w0) (checked_step env i)"
  unfolding preserves_def
proof (intro allI impI)
  fix w
  assume "okw k i w0 w"
  define w1 where "w1 = upd_state i sync_budget_flag_with_metrics w"
  have ok1: "okw k i w0 w1"
    unfolding w1_def using \<open>okw k i w0 w\<close> by (rule okw_upd_state) (simp add: sync_budget_stats)
  obtain b w2 where s: "(if enable_stuck_detection env (c_agent (ctl w1 i)) then is_stuck_op i w1 else (False, w1)) = (b, w2)"
    by fastforce
  then have ok2: "okw k i w0 w2" using ok1 by (auto split: if_splits intro: okw_is_stuck)
  obtain x st where c: "run_control_flags (st_of w2 i) = (x, st)" by fastforce
  have ok3: "okw k i w0 (put_state i st w2)"
    using ok2 by (rule okw_put_state) (metis c okwD(4) ok2 run_control_flags_stats snd_conv)
  then have ok4: "okw k i w0 (upd_ctl i (\<lambda>c. c\<lparr>c_replay := rp\<rparr>) (put_state i st w2))" for rp
    by (rule okw_upd_ctl) simp
  show "okw k i w0 (snd (checked_step env i w))"
    unfolding checked_step_def Let_def w1_def [symmetric] s prod.case c
    using preservesD [OF okw_react ok2] preservesD [OF okw_react ok3]
      preservesD [OF okw_replay_turn ok4] preservesD [OF okw_agent_turn [OF assms] ok4]
    by (auto split: option.split prod.split)
qed

lemma okw_step: "keeps_stats env \<Longrightarrow> preserves (okw k i w0) (step env i)"
  by (auto simp: preserves_def step_def intro: preservesD [OF okw_checked_step])

lemma okw_step_handled:
  assumes "keeps_stats env"
  shows "preserves (okw k i w0) (step_with_exception_handling env i)"
  unfolding preserves_def
proof (intro allI impI)
  fix w
  assume "okw k i w0 w"
  then have "okw k i w0 (snd (step env i w))" by (rule preservesD [OF okw_step [OF assms]])
  then show "okw k i w0 (snd (step_with_exception_handling env i w))"
    by (auto simp: step_with_exception_handling_def split: prod.split option.split
        intro: preservesD [OF okw_react])
qed

lemma okw_truncate: "okw k i w0 w \<Longrightarrow> okw k i w0 (truncate_memory i r w)"
  by (auto simp: truncate_memory_def Let_def intro!: okw_upd_ctl okw_upd_state)

lemma okw_loop_recovery [keeps]: "preserves (okw k i w0) (perform_loop_recovery env i an)"
  unfolding perform_loop_recovery_def
  by (rule preserves_run_ops) (auto intro!: keeps preserves_upd okw_truncate)

lemma okw_first_user_message:
  "okw k i w0 w \<Longrightarrow> okw k i w0 (snd (first_user_message env i w))"
  by (auto simp: first_user_message_def split: option.split sum.split intro!: okw_upd_ctl)

lemma okw_handle_message [keeps]: "preserves (okw k i w0) (handle_message_action env i e m)"
  unfolding preserves_def
proof (intro allI impI)
  fix w
  assume ok: "okw k i w0 w"
  have ops: "preserves (okw k i w0) (run_ops
      [upd_op (upd_ctl i (\<lambda>c. c\<lparr>c_pending := Some recall\<rparr>)), emit_pending env i (Some USER),
       set_agent_state_to env i RUNNING])" for recall
    by (rule preserves_run_ops) (auto intro!: keeps preserves_upd okw_upd_ctl)
  obtain r w1 where f: "first_user_message env i w = (r, w1)" by fastforce
  then have "okw k i w0 w1" using okw_first_user_message [OF ok, of env] by simp
  then show "okw k i w0 (snd (handle_message_action env i e m w))"
    using ok preservesD [OF okw_set_agent_state ok] preservesD [OF ops]
    by (simp add: handle_message_action_def f split: sum.split del: run_ops.simps)
qed

lemma okw_restart [keeps]: "preserves (okw k i w0) (restart_with_last_user_message env i an)"
proof -
  have ops: "preserves (okw k i w0) (run_ops
      [upd_op (truncate_memory i r), set_agent_state_to env i RUNNING,
       emit env ob ENVIRONMENT, handle_message_action env i new m])" for r ob new m
    by (rule preserves_run_ops) (auto intro!: keeps preserves_upd okw_truncate)
  show ?thesis
    unfolding preserves_def restart_with_last_user_message_def Let_def
    by (intro allI impI)
      (simp split: option.split payload.split action.split add: preservesD [OF ops] preservesD [OF okw_loop_recovery]
        del: run_ops.simps)
qed

lemma okw_loop_recovery_action [keeps]: "preserves (okw k i w0) (handle_loop_recovery_action env i opt)"
  unfolding preserves_def handle_loop_recovery_action_def
  by (auto split: option.split intro: preservesD [OF okw_loop_recovery] preservesD [OF okw_restart]
      preservesD [OF okw_set_agent_state])

lemma okw_delegate_task: "okw k i w0 w \<Longrightarrow> has_delegate w i \<Longrightarrow> okw k i w0 (snd (delegate_task env i ins w))"
proof -
  assume ok: "okw k i w0 w" and d: "has_delegate w i"
  from d have "Suc i < length (stack w)" by (simp add: has_delegate_def)
  with ok have ok': "okw k (Suc i) w0 w" by (rule okw_shift) (use okwD(5) [OF ok] in simp)
  have "preserves (okw k (Suc i) w0) (run_ops [emit env m USER, set_agent_state_to env (Suc i) RUNNING])" for m
    by (rule preserves_run_ops) (auto intro!: keeps)
  from preservesD [OF this ok'] ok show ?thesis
    by (auto simp: delegate_task_def split: option.split json.split intro: okw_parent okwD(5)
        simp del: run_ops.simps)
qed

lemma okw_handle_action [keeps]: "preserves (okw k i w0) (handle_action env i e a)"
  unfolding preserves_def
proof (intro allI impI)
  fix w
  assume ok: "okw k i w0 w"
  have out: "okw k i w0 (upd_state i (\<lambda>st. st\<lparr>outputs := v\<rparr>) w)" for v
    using ok by (rule okw_upd_state) simp
  have dl: "okw k i w0 (snd (run_ops [start_delegate env i d, delegate_task env i (ada_inputs d)] w))" for d
  proof (rule start_delegate_cases [of env i d w])
    fix x s1
    assume "start_delegate env i d w = (Some x, w\<lparr>stream := s1\<rparr>)"
    with preservesD [OF okw_start_delegate ok, of env d] show ?thesis by simp
  next
    fix c s1
    assume eq: "start_delegate env i d w = (None, w\<lparr>stream := s1, stack := take (Suc i) (stack w) @ [c]\<rparr>)"
    have "okw k i w0 (w\<lparr>stream := s1, stack := take (Suc i) (stack w) @ [c]\<rparr>)"
      using preservesD [OF okw_start_delegate ok, of env d] eq by simp
    moreover have "has_delegate (w\<lparr>stream := s1, stack := take (Suc i) (stack w) @ [c]\<rparr>) i"
      using okwD(2) [OF ok] by (simp add: has_delegate_def)
    ultimately have "okw k i w0 (snd (delegate_task env i (ada_inputs d)
        (w\<lparr>stream := s1, stack := take (Suc i) (stack w) @ [c]\<rparr>)))" by (rule okw_delegate_task)
    then show ?thesis by (auto simp: eq split: prod.split option.split)
  qed
  show "okw k i w0 (snd (handle_action env i e a w))"
    using ok out dl
    by (cases a) (simp_all add: handle_action_def preservesD [OF okw_set_agent_state]
        preservesD [OF okw_handle_message] preservesD [OF okw_loop_recovery_action] del: run_ops.simps)
qed

lemma okw_handle_observation [keeps]: "preserves (okw k i w0) (handle_observation env i e)"
proof -
  have "preserves (okw k i w0) (run_ops
      [upd_op (upd_ctl i (\<lambda>c. c\<lparr>c_pending := None\<rparr>)),
       when_op (\<lambda>w. agent_state (st_of w i) = USER_CONFIRMED) (set_agent_state_to env i RUNNING),
       when_op (\<lambda>w. agent_state (st_of w i) = USER_REJECTED) (set_agent_state_to env i AWAITING_USER_INPUT)])"
    by (rule preserves_run_ops) (auto intro!: keeps preserves_upd okw_upd_ctl)
  then show ?thesis
    by (auto simp: preserves_def handle_observation_def split: option.split simp del: run_ops.simps)
qed

lemma add_history_stats [simp]: "conversation_stats (add_history e st) = conversation_stats st"
  by (simp add: add_history_def)

lemma okw_on_event_own:
  assumes "keeps_stats env"
  shows "preserves (okw k i w0) (on_event_own env i e)"
proof -
  have "preserves (okw k i w0) (run_ops
     [upd_op (upd_state i (add_history e)),
      (case payload e of Act a \<Rightarrow> handle_action env i e a | Obs _ \<Rightarrow> handle_observation env i e),
      when_op (\<lambda>w. should_step w i e) (step_with_exception_handling env i)])"
    by (rule preserves_run_ops)
      (auto intro!: keeps preserves_upd okw_upd_state okw_step_handled [OF assms] split: payload.split)
  then show ?thesis by (auto simp: preserves_def on_event_own_def simp del: run_ops.simps)
qed

lemma okw_on_event:
  assumes "keeps_stats env"
  shows "preserves (okw k i w0) (on_event env i e)"
  unfolding preserves_def
proof (intro allI impI)
  fix w
  assume ok: "okw k i w0 w"
  have "okw k i w0 (snd (on_event_own env (Suc i) e w))" if "has_delegate w i"
  proof -
    from that have "Suc i < length (stack w)" by (simp add: has_delegate_def)
    with ok have "okw k (Suc i) w0 w" by (rule okw_shift) (use okwD(5) [OF ok] in simp)
    from preservesD [OF okw_on_event_own [OF assms] this] show ?thesis
      by (rule okw_parent) (rule okwD(5) [OF ok])
  qed
  then show "okw k i w0 (snd (on_event env i e w))"
    using preservesD [OF okw_on_event_own [OF assms] ok] preservesD [OF okw_end_delegate ok]
    by (simp add: on_event_def)
qed

end
