(* ===== verification/Controller_Safety.thy ===== *)
theory Controller_Safety
  imports Controller_Invariant
begin

text \<open>
  What the controller guarantees: changes of the agent state and what they emit, limits that stop
  the agent, confirmation of risky actions, delegation, and progress.
\<close>

section \<open>Changing the agent state\<close>

lemma save_state_agent [simp]: "agent_state (tr_state (save_state t)) = agent_state (tr_state t)"
  "history (tr_state (save_state t)) = history (tr_state t)"
  "last_error (tr_state (save_state t)) = last_error (tr_state t)"
  "iteration_flag (tr_state (save_state t)) = iteration_flag (tr_state t)"
  "budget_flag (tr_state (save_state t)) = budget_flag (tr_state t)"
  by (auto simp: save_state_def Let_def split: option.splits list.splits)

lemma save_state_op_frame [simp]:
  "stream (save_state_op i w) = stream w" "length (stack (save_state_op i w)) = length (stack w)"
  "status_log (save_state_op i w) = status_log w"
  by (simp_all add: save_state_op_def Let_def)

lemma save_state_op_ctl [simp]:
  assumes "i < length (stack w)"
  shows "c_pending (ctl (save_state_op i w) i) = c_pending (ctl w i)"
    "c_agent (ctl (save_state_op i w) i) = c_agent (ctl w i)"
    "agent_state (st_of (save_state_op i w) i) = agent_state (st_of w i)"
    "history (st_of (save_state_op i w) i) = history (st_of w i)"
    "last_error (st_of (save_state_op i w) i) = last_error (st_of w i)"
    "iteration_flag (st_of (save_state_op i w) i) = iteration_flag (st_of w i)"
    "budget_flag (st_of (save_state_op i w) i) = budget_flag (st_of w i)"
    "c_stuck_analysis (ctl (save_state_op i w) i) = c_stuck_analysis (ctl w i)"
    "c_headless (ctl (save_state_op i w) i) = c_headless (ctl w i)"
  using assms by (simp_all add: save_state_op_def Let_def)

text \<open>The end of \<open>set_agent_state_to\<close>: tell the others and save\<close>

definition announce :: "('a, 'c) env \<Rightarrow> nat \<Rightarrow> ('a, 'c) op" where
  "announce env i =
     run_ops [\<lambda>w. emit env (state_changed_obs (st_of w i)) ENVIRONMENT w, upd_op (save_state_op i)]"

lemma announce_frame:
  assumes "i < length (stack w)"
  shows "agent_state (st_of (snd (announce env i w)) i) = agent_state (st_of w i)"
    "c_pending (ctl (snd (announce env i w)) i) = c_pending (ctl w i)"
    "c_agent (ctl (snd (announce env i w)) i) = c_agent (ctl w i)"
    "history (st_of (snd (announce env i w)) i) = history (st_of w i)"
    "last_error (st_of (snd (announce env i w)) i) = last_error (st_of w i)"
    "iteration_flag (st_of (snd (announce env i w)) i) = iteration_flag (st_of w i)"
    "budget_flag (st_of (snd (announce env i w)) i) = budget_flag (st_of w i)"
    "length (stack (snd (announce env i w))) = length (stack w)"
proof -
  obtain x w1 where e: "emit env (state_changed_obs (st_of w i)) ENVIRONMENT w = (x, w1)" by fastforce
  then have "stack w1 = stack w" by (metis emit_frame(1) snd_conv)
  with assms e show "agent_state (st_of (snd (announce env i w)) i) = agent_state (st_of w i)"
    "c_pending (ctl (snd (announce env i w)) i) = c_pending (ctl w i)"
    "c_agent (ctl (snd (announce env i w)) i) = c_agent (ctl w i)"
    "history (st_of (snd (announce env i w)) i) = history (st_of w i)"
    "last_error (st_of (snd (announce env i w)) i) = last_error (st_of w i)"
    "iteration_flag (st_of (snd (announce env i w)) i) = iteration_flag (st_of w i)"
    "budget_flag (st_of (snd (announce env i w)) i) = budget_flag (st_of w i)"
    "length (stack (snd (announce env i w))) = length (stack w)"
    by (simp_all add: announce_def split: option.split)
qed

lemma announce_None:
  assumes "announce env i w = (None, w')"
  obtains ev where "stored_as env (Some ENVIRONMENT) (state_changed_obs (st_of w i)) (stream w) ev"
    "equeue (stream w') = equeue (stream w) @ [ev]"
proof -
  from assms obtain w1 where "emit env (state_changed_obs (st_of w i)) ENVIRONMENT w = (None, w1)"
    "w' = save_state_op i w1"
    by (auto simp: announce_def split: prod.splits option.splits)
  then show thesis by (auto elim!: emit_None intro: that)
qed

text \<open>A change to a state that neither resets nor answers the pending action\<close>

lemma set_state_plain:
  assumes "new \<noteq> agent_state (st_of w i)" "new \<notin> {STOPPED, ERROR, USER_CONFIRMED, USER_REJECTED}"
    "\<not> (agent_state (st_of w i) = ERROR \<and> new = RUNNING)"
  shows "set_agent_state_to env i new w = announce env i (upd_state i (\<lambda>st. st\<lparr>agent_state := new\<rparr>) w)"
  using assms by (auto simp: set_agent_state_to_def announce_def when_op_def)

lemma set_state_resume:
  assumes "agent_state (st_of w i) = ERROR"
  shows "set_agent_state_to env i RUNNING w = announce env i
    (upd_state i (maybe_increase_control_flags_limits (c_headless (ctl (upd_state i (\<lambda>st. st\<lparr>agent_state := RUNNING\<rparr>) w) i)))
      (upd_state i (\<lambda>st. st\<lparr>agent_state := RUNNING\<rparr>) w))"
  using assms by (simp add: set_agent_state_to_def announce_def when_op_def)

lemma set_state_reset:
  assumes "new \<noteq> agent_state (st_of w i)" "new = STOPPED \<or> new = ERROR"
  shows "set_agent_state_to env i new w =
    run_ops [reset_controller env i, announce env i] (upd_state i (\<lambda>st. st\<lparr>agent_state := new\<rparr>) w)"
  using assms by (auto simp: set_agent_state_to_def announce_def when_op_def split: prod.split option.split)

lemma set_state_answer:
  assumes "new \<noteq> agent_state (st_of w i)" "new = USER_CONFIRMED \<or> new = USER_REJECTED"
    "c_pending (ctl w i) = Some p" "i < length (stack w)"
  shows "set_agent_state_to env i new w =
    run_ops [emit_pending env i (Some AGENT), announce env i]
      (upd_ctl i (\<lambda>c. c\<lparr>c_pending := map_option (answer_pending new) (c_pending c)\<rparr>)
        (upd_state i (\<lambda>st. st\<lparr>agent_state := new\<rparr>) w))"
    (is "_ = run_ops _ ?w2")
proof -
  obtain x v where e: "emit_pending env i (Some AGENT) ?w2 = (x, v)" by fastforce
  show ?thesis
  proof (cases x)
    case None
    with assms e show ?thesis by (auto simp: set_agent_state_to_def announce_def when_op_def)
  next
    case (Some y)
    with assms e show ?thesis by (auto simp: set_agent_state_to_def when_op_def)
  qed
qed

lemma reset_frame:
  assumes "i < length (stack w)"
  shows "st_of (snd (reset_controller env i w)) i = st_of w i"
    "length (stack (snd (reset_controller env i w))) = length (stack w)"
proof -
  obtain x w1 where e: "(case reset_observation (ctl w i) of None \<Rightarrow> (None, w) | Some ob \<Rightarrow> emit env ob AGENT w) = (x, w1)"
    by fastforce
  then have "stack w1 = stack w" by (metis emit_frame(1) option.case_eq_if snd_conv)
  with assms e show "st_of (snd (reset_controller env i w)) i = st_of w i"
    "length (stack (snd (reset_controller env i w))) = length (stack w)"
    by (simp_all add: reset_controller_def split: option.split)
qed

lemma reset_None:
  assumes "reset_controller env i w = (None, w')" "i < length (stack w)"
  obtains evs where "c_pending (ctl w' i) = None" "c_agent (ctl w' i) = ag_reset env (c_agent (ctl w i))"
    "equeue (stream w') = equeue (stream w) @ evs" "secrets (stream w') = secrets (stream w)"
    "case reset_observation (ctl w i) of None \<Rightarrow> evs = []
     | Some ob \<Rightarrow> \<exists>r. evs = [r] \<and> stored_as env (Some AGENT) ob (stream w) r"
proof (cases "reset_observation (ctl w i)")
  case None
  with assms that [of "[]"] show thesis by (auto simp: reset_controller_def)
next
  case (Some ob)
  with assms obtain w1 where e: "emit env ob AGENT w = (None, w1)"
    and w': "w' = upd_ctl i (\<lambda>c. c\<lparr>c_pending := None, c_agent := ag_reset env (c_agent c)\<rparr>) w1"
    by (auto simp: reset_controller_def split: prod.splits option.splits)
  from e show thesis
    by (rule emit_None) (use assms(2) w' Some that in auto)
qed

text \<open>Whatever happens, the state is the new one; the state is set before anything can fail.\<close>

lemma emit_pending_frame:
  assumes "i < length (stack w)"
  shows "st_of (snd (emit_pending env i src w)) i = st_of w i"
    "length (stack (snd (emit_pending env i src w))) = length (stack w)"
  using assms by (auto simp: emit_pending_def Let_def split: option.split prod.split)

lemma maybe_increase_frame [simp]:
  "agent_state (maybe_increase_control_flags_limits h st) = agent_state st"
  "last_error (maybe_increase_control_flags_limits h st) = last_error st"
  by (simp_all add: maybe_increase_control_flags_limits_def)

lemma run_two:
  "snd (run_ops [f, g] w) = (if fst (f w) = None then snd (g (snd (f w))) else snd (f w))"
  by (auto split: prod.split option.split)

lemma set_agent_state_result:
  assumes "i < length (stack w)"
  shows "agent_state (st_of (snd (set_agent_state_to env i new w)) i) = new"
    "length (stack (snd (set_agent_state_to env i new w))) = length (stack w)"
proof -
  let ?w1 = "upd_state i (\<lambda>st. st\<lparr>agent_state := new\<rparr>) w"
  have 1: "i < length (stack ?w1)" using assms by simp
  consider (same) "new = agent_state (st_of w i)"
    | (plain) "new \<noteq> agent_state (st_of w i)" "new \<notin> {STOPPED, ERROR, USER_CONFIRMED, USER_REJECTED}"
      "\<not> (agent_state (st_of w i) = ERROR \<and> new = RUNNING)"
    | (resume) "agent_state (st_of w i) = ERROR" "new = RUNNING"
    | (reset) "new \<noteq> agent_state (st_of w i)" "new = STOPPED \<or> new = ERROR"
    | (answer) p where "new \<noteq> agent_state (st_of w i)" "new = USER_CONFIRMED \<or> new = USER_REJECTED"
      "c_pending (ctl w i) = Some p"
    | (nothing) "new \<noteq> agent_state (st_of w i)" "new = USER_CONFIRMED \<or> new = USER_REJECTED"
      "c_pending (ctl w i) = None"
    by auto
  then have "agent_state (st_of (snd (set_agent_state_to env i new w)) i) = new \<and>
      length (stack (snd (set_agent_state_to env i new w))) = length (stack w)"
  proof cases
    case same
    then show ?thesis by (simp add: set_agent_state_to_def)
  next
    case reset
    then show ?thesis
      using 1 assms reset_frame [OF 1, of env] by (simp add: set_state_reset run_two announce_frame del: run_ops.simps)
  next
    case answer
    let ?w2 = "upd_ctl i (\<lambda>c. c\<lparr>c_pending := map_option (answer_pending new) (c_pending c)\<rparr>) ?w1"
    have "i < length (stack ?w2)" using assms by simp
    then show ?thesis
      using assms emit_pending_frame [of i ?w2 env "Some AGENT"] answer
      by (simp add: set_state_answer run_two announce_frame del: run_ops.simps)
  next
    case nothing
    then have "set_agent_state_to env i new w = announce env i ?w1"
      using assms by (auto simp: set_agent_state_to_def announce_def when_op_def)
    then show ?thesis using assms by (simp add: announce_frame)
  qed (use assms in \<open>simp_all add: set_state_plain set_state_resume announce_frame\<close>)
  then show "agent_state (st_of (snd (set_agent_state_to env i new w)) i) = new"
    "length (stack (snd (set_agent_state_to env i new w))) = length (stack w)" by simp_all
qed

text \<open>Stopping or failing clears the pending action; a missing answer is replaced by an error.\<close>

lemma stop_clears:
  assumes "i < length (stack w)" "new \<noteq> agent_state (st_of w i)" "new = STOPPED \<or> new = ERROR"
    and run: "set_agent_state_to env i new w = (None, w')"
  shows "c_pending (ctl w' i) = None \<and> c_agent (ctl w' i) = ag_reset env (c_agent (ctl w i)) \<and>
    agent_state (st_of w' i) = new \<and>
    (\<exists>evs ev s. equeue (stream w') = equeue (stream w) @ evs @ [ev] \<and>
       (case reset_observation ((ctl w i)\<lparr>c_state := (st_of w i)\<lparr>agent_state := new\<rparr>\<rparr>) of None \<Rightarrow> evs = []
        | Some ob \<Rightarrow> \<exists>r. evs = [r] \<and> stored_as env (Some AGENT) ob (stream w) r) \<and>
       secrets s = secrets (stream w) \<and>
       stored_as env (Some ENVIRONMENT) (state_changed_obs ((st_of w i)\<lparr>agent_state := new\<rparr>)) s ev)"
proof -
  let ?w1 = "upd_state i (\<lambda>st. st\<lparr>agent_state := new\<rparr>) w"
  have 1: "i < length (stack ?w1)" using assms(1) by simp
  from run set_state_reset [OF assms(2,3)] obtain w2 where
    r: "reset_controller env i ?w1 = (None, w2)" and a: "announce env i w2 = (None, w')"
    by (auto split: prod.splits option.splits)
  from reset_frame [OF 1, of env] r have fr: "st_of w2 i = (st_of w i)\<lparr>agent_state := new\<rparr>" "i < length (stack w2)"
    using assms(1) by simp_all
  obtain evs where
    res: "c_pending (ctl w2 i) = None" "c_agent (ctl w2 i) = ag_reset env (c_agent (ctl w i))"
      "equeue (stream w2) = equeue (stream w) @ evs" "secrets (stream w2) = secrets (stream w)"
      "case reset_observation (ctl ?w1 i) of None \<Rightarrow> evs = []
       | Some ob \<Rightarrow> \<exists>r. evs = [r] \<and> stored_as env (Some AGENT) ob (stream w) r"
    by (rule reset_None [OF r 1]) (rule that, use assms(1) in \<open>simp_all cong: option.case_cong\<close>)
  from announce_None [OF a] obtain ev where
    ev: "stored_as env (Some ENVIRONMENT) (state_changed_obs (st_of w2 i)) (stream w2) ev"
      "equeue (stream w') = equeue (stream w2) @ [ev]" by blast
  have "c_pending (ctl w' i) = None" "c_agent (ctl w' i) = ag_reset env (c_agent (ctl w i))"
    "agent_state (st_of w' i) = new"
    using announce_frame [OF fr(2), of env] a res fr by simp_all
  moreover have "equeue (stream w') = equeue (stream w) @ evs @ [ev]" using res ev by simp
  ultimately show ?thesis
    using res ev fr assms(1) by (intro conjI exI [of _ evs] exI [of _ ev] exI [of _ "stream w2"]) simp_all
qed

lemma stop_frame:
  assumes "i < length (stack w)" "new \<noteq> agent_state (st_of w i)" "new = STOPPED \<or> new = ERROR"
  shows "last_error (st_of (snd (set_agent_state_to env i new w)) i) = last_error (st_of w i)"
    "iteration_flag (st_of (snd (set_agent_state_to env i new w)) i) = iteration_flag (st_of w i)"
    "budget_flag (st_of (snd (set_agent_state_to env i new w)) i) = budget_flag (st_of w i)"
    "history (st_of (snd (set_agent_state_to env i new w)) i) = history (st_of w i)"
proof -
  let ?w1 = "upd_state i (\<lambda>st. st\<lparr>agent_state := new\<rparr>) w"
  have 1: "i < length (stack ?w1)" using assms(1) by simp
  note fr = reset_frame [OF 1, of env] set_state_reset [OF assms(2,3), of env]
  show "last_error (st_of (snd (set_agent_state_to env i new w)) i) = last_error (st_of w i)"
    "iteration_flag (st_of (snd (set_agent_state_to env i new w)) i) = iteration_flag (st_of w i)"
    "budget_flag (st_of (snd (set_agent_state_to env i new w)) i) = budget_flag (st_of w i)"
    "history (st_of (snd (set_agent_state_to env i new w)) i) = history (st_of w i)"
    using assms(1) by (simp_all add: fr run_two announce_frame del: run_ops.simps)
qed

text \<open>Without a pending action no change of state creates one.\<close>

lemma set_state_no_pending:
  assumes "i < length (stack w)" "c_pending (ctl w i) = None"
  shows "c_pending (ctl (snd (set_agent_state_to env i new w)) i) = None"
proof -
  let ?w1 = "upd_state i (\<lambda>st. st\<lparr>agent_state := new\<rparr>) w"
  have 1: "i < length (stack ?w1)" using assms(1) by simp
  have r: "reset_controller env i ?w1 = (None, upd_ctl i (\<lambda>c. c\<lparr>c_pending := None, c_agent := ag_reset env (c_agent c)\<rparr>) ?w1)"
    using assms by (simp add: reset_controller_def reset_observation_def)
  show ?thesis
    using assms r 1
    by (auto simp: set_agent_state_to_def announce_def [symmetric] when_op_def announce_frame)
qed

section \<open>Exceptions that stop the agent\<close>

lemma set_last_error_simps [simp]:
  "stream (set_last_error i m w) = stream w" "length (stack (set_last_error i m w)) = length (stack w)"
  "i < length (stack w) \<Longrightarrow> ctl (set_last_error i m w) i = (ctl w i)\<lparr>c_state := (st_of w i)\<lparr>last_error := m\<rparr>\<rparr>"
  by (simp_all add: set_last_error_def)

text \<open>An exception without a special status ends in the error state, with its text as the reason.\<close>

lemma react_plain:
  assumes "i < length (stack w)" "agent_state (st_of w i) \<noteq> ERROR" "c_pending (ctl w i) = None"
    and "exception_status e = None" "\<not> exc_isinstance e RateLimitError"
    and run: "react_to_exception env i e w = (None, w')"
  defines "err \<equiv> exc_name e @ '': '' @ exc_str e"
  shows "c_pending (ctl w' i) = None \<and> c_agent (ctl w' i) = ag_reset env (c_agent (ctl w i)) \<and>
    agent_state (st_of w' i) = ERROR \<and> last_error (st_of w' i) = err \<and>
    iteration_flag (st_of w' i) = iteration_flag (st_of w i) \<and>
    budget_flag (st_of w' i) = budget_flag (st_of w i) \<and>
    (\<exists>ev s. equeue (stream w') = equeue (stream w) @ [ev] \<and> secrets s = secrets (stream w) \<and>
       stored_as env (Some ENVIRONMENT) (state_changed_obs (st_of w' i)) s ev)"
proof -
  define w1 where "w1 = (if c_status_callback (ctl w i)
      then set_last_error i err w\<lparr>status_log := status_log w @ [(RS_ERROR, err)]\<rparr> else set_last_error i err w)"
  have run1: "set_agent_state_to env i ERROR w1 = (None, w')"
    using run assms(1,4,5) unfolding react_to_exception_def Let_def err_def [symmetric]
    by (simp add: w1_def set_last_error_def split: if_splits)
  have w1: "i < length (stack w1)" "ERROR \<noteq> agent_state (st_of w1 i)" "c_pending (ctl w1 i) = None"
    "c_agent (ctl w1 i) = c_agent (ctl w i)" "st_of w1 i = (st_of w i)\<lparr>last_error := err\<rparr>" "stream w1 = stream w"
    using assms(1-3) by (simp_all add: w1_def)
  have r: "reset_observation ((ctl w1 i)\<lparr>c_state := st\<rparr>) = None" for st
    using w1(3) by (simp add: reset_observation_def)
  have fr: "last_error (st_of w' i) = err" "iteration_flag (st_of w' i) = iteration_flag (st_of w i)"
    "budget_flag (st_of w' i) = budget_flag (st_of w i)"
    using stop_frame [OF w1(1,2), of env] run1 w1(5) by simp_all
  have "agent_state (st_of w' i) = ERROR" using set_agent_state_result(1) [OF w1(1), of env ERROR] run1 by simp
  then have up: "state_changed_obs ((st_of w1 i)\<lparr>agent_state := ERROR\<rparr>) = state_changed_obs (st_of w' i)"
    using fr(1) by (simp add: state_changed_obs_def w1(5))
  from stop_clears [OF w1(1,2) _ run1] fr show ?thesis
    unfolding up by (auto simp: r w1(4,6))
qed

lemma stuck_op_frame:
  assumes "is_stuck_op i w = (b, w')" "i < length (stack w)"
  shows "stream w' = stream w" "length (stack w') = length (stack w)" "st_of w' i = st_of w i"
    "c_pending (ctl w' i) = c_pending (ctl w i)" "c_agent (ctl w' i) = c_agent (ctl w i)"
    "c_replay (ctl w' i) = c_replay (ctl w i)" "c_confirmation_mode (ctl w' i) = c_confirmation_mode (ctl w i)"
proof -
  have len: "length (snd (stuck_chain cs)) = length cs" for cs :: "'x controller list"
    using arg_cong [OF stuck_chain_states [of cs], of length] by simp
  obtain c cs where d: "drop i (stack w) = c # cs" using assms(2) by (metis Cons_nth_drop_Suc)
  then have c: "c = ctl w i" using assms(2) by (metis Cons_nth_drop_Suc list.inject)
  have hd: "\<exists>a v rest. stuck_chain (c # cs) = (v, c\<lparr>c_stuck_analysis := a\<rparr> # rest)"
    by (auto simp: split_beta Let_def) (metis controller.surjective controller.update_convs(10))+
  then obtain a v rest where ch: "stuck_chain (drop i (stack w)) = (v, c\<lparr>c_stuck_analysis := a\<rparr> # rest)"
    using d by auto
  have "stack w' = take i (stack w) @ c\<lparr>c_stuck_analysis := a\<rparr> # rest" and str: "stream w' = stream w"
    using assms(1) ch by (auto simp: is_stuck_op_def)
  moreover from this have "ctl w' i = c\<lparr>c_stuck_analysis := a\<rparr>" using assms(2) by (simp add: nth_append)
  moreover have "length (c\<lparr>c_stuck_analysis := a\<rparr> # rest) = length (drop i (stack w))"
    using len [of "drop i (stack w)"] ch by simp
  ultimately show "stream w' = stream w" "length (stack w') = length (stack w)" "st_of w' i = st_of w i"
    "c_pending (ctl w' i) = c_pending (ctl w i)" "c_agent (ctl w' i) = c_agent (ctl w i)"
    "c_replay (ctl w' i) = c_replay (ctl w i)" "c_confirmation_mode (ctl w' i) = c_confirmation_mode (ctl w i)"
    using assms(2) by (simp_all add: c)
qed

section \<open>Limits\<close>

text \<open>The iteration limit, or the recorded cost of all services against the budget\<close>

definition limit_reached :: "state \<Rightarrow> bool" where
  "limit_reached st \<longleftrightarrow>
     max_value (iteration_flag st) \<le> current_value (iteration_flag st) \<or>
     (\<exists>b cs. budget_flag st = Some b \<and> conversation_stats st = Some cs \<and>
        max_value b \<le> total_cost (service_to_metrics cs))"

lemma plain_errors [simp]:
  "exception_status stuck_exn = None" "\<not> exc_isinstance stuck_exn RateLimitError"
  "exception_status (iter_error f) = None" "\<not> exc_isinstance (iter_error f) RateLimitError"
  "exception_status (budget_error g) = None" "\<not> exc_isinstance (budget_error g) RateLimitError"
  by (simp_all add: exception_status_def exc_isinstance_def stuck_exn_def iter_error_def budget_error_def)

lemma limit_raises:
  assumes "limit_reached st"
  obtains x st' where "run_control_flags (sync_budget_flag_with_metrics st) = (Some x, st')"
    "agent_state st' = agent_state st" "exception_status x = None" "\<not> exc_isinstance x RateLimitError"
proof -
  let ?st = "sync_budget_flag_with_metrics st"
  have it: "iteration_flag ?st = iteration_flag st" "agent_state ?st = agent_state st"
    by (simp_all add: sync_budget_flag_with_metrics_def split: option.split)
  show thesis
  proof (cases "max_value (iteration_flag st) \<le> current_value (iteration_flag st)")
    case True
    let ?f = "(iteration_flag st)\<lparr>hit_limit := True\<rparr>"
    from True it have "run_control_flags ?st = (Some (iter_error ?f), ?st\<lparr>iteration_flag := ?f\<rparr>)"
      by (simp add: run_control_flags_def iter_step_def iter_reached_limit_def Let_def)
    then show thesis by (rule that) (simp_all add: it)
  next
    case False
    with assms obtain b cs where b: "budget_flag st = Some b" "conversation_stats st = Some cs"
      "max_value b \<le> total_cost (service_to_metrics cs)" by (auto simp: limit_reached_def)
    obtain g st' where "run_control_flags ?st = (Some (budget_error g), st')" "agent_state st' = agent_state st"
      using sync_budget_total [OF b(1,2)] it False b(3)
      by (simp add: run_control_flags_def iter_step_def iter_reached_limit_def
          budget_step_def budget_reached_limit_def Let_def)
    then show thesis by (rule that) simp_all
  qed
qed

text \<open>At a limit, or in a loop, the agent is not asked: the only event is the change to \<^const>\<open>ERROR\<close>.\<close>

lemma limit_stops:
  assumes "i < length (stack w)" "agent_state (st_of w i) = RUNNING" "c_pending (ctl w i) = None"
    and lim: "limit_reached (st_of w i)" and run: "step env i w = (None, w')"
  shows "agent_state (st_of w' i) = ERROR \<and> c_pending (ctl w' i) = None \<and>
    c_agent (ctl w' i) = ag_reset env (c_agent (ctl w i)) \<and>
    (\<exists>ev s. equeue (stream w') = equeue (stream w) @ [ev] \<and> secrets s = secrets (stream w) \<and>
       stored_as env (Some ENVIRONMENT) (state_changed_obs (st_of w' i)) s ev)"
proof -
  define w1 where "w1 = upd_state i sync_budget_flag_with_metrics w"
  have w1: "i < length (stack w1)" "c_pending (ctl w1 i) = None" "c_agent (ctl w1 i) = c_agent (ctl w i)"
    "st_of w1 i = sync_budget_flag_with_metrics (st_of w i)" "stream w1 = stream w"
    using assms(1,3) by (simp_all add: w1_def)
  obtain b w2 where s: "(if enable_stuck_detection env (c_agent (ctl w1 i)) then is_stuck_op i w1 else (False, w1)) = (b, w2)"
    by fastforce
  have w2: "i < length (stack w2)" "c_pending (ctl w2 i) = None" "c_agent (ctl w2 i) = c_agent (ctl w i)"
    "st_of w2 i = sync_budget_flag_with_metrics (st_of w i)" "stream w2 = stream w"
    using s w1 stuck_op_frame [of i w1 b w2] by (auto split: if_splits)
  obtain x st where c: "run_control_flags (st_of w2 i) = (Some x, st)" "agent_state st = RUNNING"
    "exception_status x = None" "\<not> exc_isinstance x RateLimitError"
    using limit_raises [OF lim] w2(4) assms(2) by metis
  have ag: "agent_state (st_of w2 i) \<noteq> ERROR"
    using assms(2) w2(4) by (simp add: sync_budget_flag_with_metrics_def split: option.split)
  let ?w3 = "put_state i st w2"
  have "(if b then react_to_exception env i stuck_exn w2 else react_to_exception env i x ?w3) = (None, w')"
    using run assms(2,3)
    by (cases b) (simp_all add: step_def checked_step_def Let_def w1_def [symmetric] s c(1))
  then consider "react_to_exception env i stuck_exn w2 = (None, w')" | "react_to_exception env i x ?w3 = (None, w')"
    by (auto split: if_splits)
  then show ?thesis
  proof cases
    case 1
    from react_plain [OF w2(1) ag w2(2) plain_errors(1,2) 1] show ?thesis
      using w2(3,5) by auto
  next
    case 2
    have "i < length (stack ?w3)" "agent_state (st_of ?w3 i) \<noteq> ERROR" "c_pending (ctl ?w3 i) = None"
      using w2 c(2) by simp_all
    from react_plain [OF this c(3,4) 2] show ?thesis
      using w2 by auto
  qed
qed

text \<open>
  Resuming from the error state in interactive mode raises a limit that was hit, so the next check
  passes if the increase is positive.
\<close>

lemma resume_raises_limit:
  assumes "i < length (stack w)" "agent_state (st_of w i) = ERROR" "\<not> c_headless (ctl w i)"
    and hit: "iteration_flag (st_of w i) = snd (iter_step f)" "max_value f \<le> current_value f"
    and inc: "current_value f < max_value f + limit_increase_amount f"
  shows "fst (iter_step (iteration_flag (st_of (snd (set_agent_state_to env i RUNNING w)) i))) = None"
proof -
  have "fst (iter_step f) \<noteq> None" using hit(2) iter.step_refused by blast
  from iter.increase_reenables [OF this, of False] inc
  have "fst (iter_step (iter_increase_limit False (snd (iter_step f)))) = None" by simp
  then show ?thesis
    using assms by (simp add: set_state_resume announce_frame maybe_increase_control_flags_limits_def)
qed

section \<open>Confirmation\<close>

lemma get_confirmation_cong:
  "payload e' = payload e \<Longrightarrow> m_confirmation e' = m_confirmation e \<Longrightarrow> get_confirmation e' = get_confirmation e"
  by (auto simp: get_confirmation_def split: payload.split action.split)

lemma add_event_object:
  assumes "add_event cd now e src s = (x, e', s')"
  shows "payload e' = payload e" "get_confirmation e' = get_confirmation e"
    "m_cause e' = m_cause e" "m_tool_call e' = m_tool_call e"
proof -
  show p: "payload e' = payload e" "m_cause e' = m_cause e" "m_tool_call e' = m_tool_call e"
    using assms by (auto simp: add_event_def Let_def split: if_splits sum.splits option.splits prod.splits)
  have "m_confirmation e' = m_confirmation e"
    using assms by (auto simp: add_event_def Let_def split: if_splits sum.splits option.splits prod.splits)
  with p(1) show "get_confirmation e' = get_confirmation e" by (rule get_confirmation_cong)
qed

lemma set_state_plain_frame:
  assumes "i < length (stack w)" "new \<notin> {STOPPED, ERROR, USER_CONFIRMED, USER_REJECTED, RUNNING}"
  shows "c_pending (ctl (snd (set_agent_state_to env i new w)) i) = c_pending (ctl w i)"
    "c_agent (ctl (snd (set_agent_state_to env i new w)) i) = c_agent (ctl w i)"
    "history (st_of (snd (set_agent_state_to env i new w)) i) = history (st_of w i)"
proof -
  show "c_pending (ctl (snd (set_agent_state_to env i new w)) i) = c_pending (ctl w i)"
    "c_agent (ctl (snd (set_agent_state_to env i new w)) i) = c_agent (ctl w i)"
    "history (st_of (snd (set_agent_state_to env i new w)) i) = history (st_of w i)"
    using assms
    by (cases "new = agent_state (st_of w i)";
        simp add: set_state_plain announce_frame; simp add: set_agent_state_to_def)+
qed

lemma send_action_pending:
  assumes "i < length (stack w)" "send_action env i a e w = (x, w')" "c_pending (ctl w i) = (if runnable a then Some e else None)"
  shows "agent_state (st_of w' i) = agent_state (st_of w i)"
    "c_pending (ctl w' i) = Some p \<Longrightarrow> runnable a \<and> payload p = payload e \<and> get_confirmation p = get_confirmation e"
proof -
  have prep: "payload e2 = payload e" "get_confirmation e2 = get_confirmation e"
    if "prepare_metrics c e = Inr e2" for c :: "'a controller" and e2
    using that by (auto simp: prepare_metrics_def Let_def sbind_Inr_iff intro: get_confirmation_cong)
  show "agent_state (st_of w' i) = agent_state (st_of w i)"
    "c_pending (ctl w' i) = Some p \<Longrightarrow> runnable a \<and> payload p = payload e \<and> get_confirmation p = get_confirmation e"
    using assms
    by (auto simp: send_action_def Let_def prep add_event_object split: sum.splits prod.splits if_splits)
qed

text \<open>What becomes the pending action is the action after the confirmation check.\<close>

lemma act_pending:
  assumes i: "i < length (stack w)" and none: "c_pending (ctl w i) = None"
    and run: "act env i e w = (x, w')" and p: "c_pending (ctl w' i) = Some p"
  obtains a where "payload e = Act a" "runnable a"
    "payload p = payload (guard_action env (ctl w i) a e)"
    "get_confirmation p = get_confirmation (guard_action env (ctl w i) a e)"
    "get_confirmation p = Some AWAITING_CONFIRMATION \<Longrightarrow> agent_state (st_of w' i) = AWAITING_USER_CONFIRMATION"
proof (cases "payload e")
  case (Obs ob)
  with run p none show thesis by (simp add: act_def)
next
  case (Act a)
  define e1 where "e1 = (if runnable a then guard_action env (ctl w i) a e else e)"
  define w1 where "w1 = (if runnable a then upd_ctl i (\<lambda>c. c\<lparr>c_pending := Some e1\<rparr>) w else w)"
  define aw where "aw \<longleftrightarrow> a \<noteq> NullAction \<and> get_confirmation e1 = Some AWAITING_CONFIRMATION"
  define r2 where "r2 = (if aw then set_agent_state_to env i AWAITING_USER_CONFIRMATION w1 else (None, w1))"
  have w1: "i < length (stack w1)" "c_pending (ctl w1 i) = (if runnable a then Some e1 else None)"
    using i none by (simp_all add: w1_def)
  have w2: "i < length (stack (snd r2))" "c_pending (ctl (snd r2) i) = (if runnable a then Some e1 else None)"
    "aw \<Longrightarrow> agent_state (st_of (snd r2) i) = AWAITING_USER_CONFIRMATION"
    using w1 set_agent_state_result [OF w1(1)] set_state_plain_frame(1) [OF w1(1), of AWAITING_USER_CONFIRMATION]
    by (simp_all add: r2_def)
  have "when_op (\<lambda>_. runnable a) (upd_op (upd_ctl i (\<lambda>c. c\<lparr>c_pending := Some e1\<rparr>))) w = (None, w1)"
    by (simp add: w1_def when_op_def)
  moreover have "when_op (\<lambda>_. aw) (set_agent_state_to env i AWAITING_USER_CONFIRMATION) w1 = r2"
    by (simp add: r2_def when_op_def)
  ultimately have eq: "act env i e w = run_ops [\<lambda>_. r2, when_op (\<lambda>_. a \<noteq> NullAction) (send_action env i a e1)] w1"
    unfolding act_def Act payload.case Let_def e1_def [symmetric] aw_def [symmetric] by simp
  have fin: "runnable a \<and> payload p = payload e1 \<and> get_confirmation p = get_confirmation e1 \<and>
      (aw \<longrightarrow> agent_state (st_of w' i) = AWAITING_USER_CONFIRMATION)"
  proof (cases "fst r2 = None \<and> a \<noteq> NullAction")
    case True
    then have "send_action env i a e1 (snd r2) = (x, w')"
      using run eq by (cases r2) auto
    from send_action_pending [OF w2(1) this w2(2)] p w2(3) show ?thesis by auto
  next
    case False
    then have "w' = snd r2" using run eq by (cases r2; cases "fst r2") (auto simp: when_op_def)
    with p w2 show ?thesis by (auto split: if_splits)
  qed
  moreover have "runnable a \<Longrightarrow> a \<noteq> NullAction" by auto
  ultimately show thesis using that [OF Act] by (auto simp: e1_def aw_def)
qed

text \<open>The agent does not switch the confirmation mode of the state it is given.\<close>

definition keeps_mode :: "('a, 'c) env \<Rightarrow> bool" where
  "keeps_mode env \<longleftrightarrow> (\<forall>a st. confirmation_mode (snd (snd (ag_step env a st))) = confirmation_mode st)"

lemma react_no_pending:
  assumes "i < length (stack w)" "c_pending (ctl w i) = None"
  shows "c_pending (ctl (snd (react_to_exception env i e w)) i) = None"
  using assms
  by (auto simp: react_to_exception_def Let_def split: option.split intro!: set_state_no_pending)

lemma agent_error_stack [simp]: "stack (snd (agent_error env i x w)) = stack w"
  by (simp add: agent_error_def)

lemma sync_mode [simp]: "confirmation_mode (sync_budget_flag_with_metrics st) = confirmation_mode st"
  by (simp add: sync_budget_flag_with_metrics_def split: option.split)

lemma flags_mode: "run_control_flags st = (x, st') \<Longrightarrow> confirmation_mode st' = confirmation_mode st"
  by (auto simp: run_control_flags_def Let_def split_beta split: option.splits)

text \<open>A pending action after a step is one the step has acted on.\<close>

lemma turn_pending:
  assumes "i < length (stack w)" "c_pending (ctl w i) = None" "keeps_mode env"
    and run: "agent_turn env i w = (x, w') \<or> replay_turn env i w = (x, w')"
    and p: "c_pending (ctl w' i) = Some p"
  obtains e w1 where "act env i e w1 = (x, w')" "i < length (stack w1)" "c_pending (ctl w1 i) = None"
    "c_confirmation_mode (ctl w1 i) = c_confirmation_mode (ctl w i)"
    "confirmation_mode (st_of w1 i) = confirmation_mode (st_of w i)"
  using run
proof
  assume run: "replay_turn env i w = (x, w')"
  obtain r rp where s: "replay_step (c_replay (ctl w i)) = (r, rp)" by fastforce
  let ?w1 = "upd_ctl i (\<lambda>c. c\<lparr>c_replay := rp\<rparr>) w"
  from run s p assms(1,2) obtain e where "act env i e ?w1 = (x, w')"
    by (cases r) (auto simp: replay_turn_def)
  then show thesis by (rule that) (use assms(1,2) in simp_all)
next
  assume run: "agent_turn env i w = (x, w')"
  obtain r ag st where s: "ag_step env (c_agent (ctl w i)) (st_of w i) = (r, ag, st)" using prod_cases3 by blast
  let ?w1 = "put_state i st (upd_ctl i (\<lambda>c. c\<lparr>c_agent := ag\<rparr>) w)"
  have m: "confirmation_mode st = confirmation_mode (st_of w i)"
    using assms(3) s unfolding keeps_mode_def by (metis snd_conv)
  have none: "c_pending (ctl (snd (agent_error env i y ?w1)) i) = None" for y using assms(1,2) by simp
  have "\<exists>e. act env i e ?w1 = (x, w')"
    using run s p none by (auto simp: agent_turn_def Let_def split: sum.splits option.splits)
      (metis none option.distinct(1) snd_conv)+
  then show thesis using that assms(1,2) m by auto
qed

lemma step_pending:
  assumes i: "i < length (stack w)" and none: "c_pending (ctl w i) = None" and km: "keeps_mode env"
    and run: "step env i w = (x, w')" and p: "c_pending (ctl w' i) = Some p"
  obtains e w1 where "act env i e w1 = (x, w')" "i < length (stack w1)" "c_pending (ctl w1 i) = None"
    "c_confirmation_mode (ctl w1 i) = c_confirmation_mode (ctl w i)"
    "confirmation_mode (st_of w1 i) = confirmation_mode (st_of w i)"
proof -
  from run none p have rs: "agent_state (st_of w i) = RUNNING" "checked_step env i w = (x, w')"
    by (auto simp: step_def split: if_splits)
  define w1 where "w1 = upd_state i sync_budget_flag_with_metrics w"
  obtain b w2 where s: "(if enable_stuck_detection env (c_agent (ctl w1 i)) then is_stuck_op i w1 else (False, w1)) = (b, w2)"
    by fastforce
  have w2: "i < length (stack w2)" "c_pending (ctl w2 i) = None"
    "c_confirmation_mode (ctl w2 i) = c_confirmation_mode (ctl w i)"
    "confirmation_mode (st_of w2 i) = confirmation_mode (st_of w i)"
    using s i none stuck_op_frame [of i w1 b w2] by (auto simp: w1_def split: if_splits)
  obtain y st where c: "run_control_flags (st_of w2 i) = (y, st)" by fastforce
  let ?w3 = "put_state i st w2"
  obtain d rp where sr: "should_replay (c_replay (ctl ?w3 i)) = (d, rp)" by fastforce
  let ?w4 = "upd_ctl i (\<lambda>c. c\<lparr>c_replay := rp\<rparr>) ?w3"
  have w4: "i < length (stack ?w4)" "c_pending (ctl ?w4 i) = None"
    "c_confirmation_mode (ctl ?w4 i) = c_confirmation_mode (ctl w i)"
    "confirmation_mode (st_of ?w4 i) = confirmation_mode (st_of w i)"
    using w2 flags_mode [OF c] by simp_all
  have r: "c_pending (ctl (snd (react_to_exception env i z v)) i) = None" if "v = w2 \<or> v = ?w3" for z v
    using that w2 by (auto intro!: react_no_pending)
  have "\<not> b" "y = None"
    using rs(2) p r [of w2] r [of ?w3]
    by (auto simp: checked_step_def Let_def w1_def [symmetric] s c split: if_splits option.splits)
      (metis option.distinct(1) snd_conv)+
  then have "agent_turn env i ?w4 = (x, w') \<or> replay_turn env i ?w4 = (x, w')"
    using rs(2) sr by (cases d) (simp_all add: checked_step_def Let_def w1_def [symmetric] s c)
  from turn_pending [OF w4(1,2) km this p] that w4(3,4) show thesis by metis
qed

end
