(* ===== verification/Controller_Protocol.thy ===== *)
theory Controller_Protocol
  imports Controller_Safety
begin

text \<open>
  Confirmation of actions by the user, the answers to pending actions, user messages, delegates
  and progress of the controller.
\<close>

section \<open>Risky actions wait for the user\<close>

lemma event_risk_set_confirmation [simp]: "event_risk (set_confirmation c e) = event_risk e"
  by (auto simp: event_risk_def set_confirmation_def split: payload.split action.split)

lemma event_risk_set_risk:
  "payload e = Act a \<Longrightarrow> confirm_class a \<Longrightarrow> event_risk (set_risk r e) = r"
  by (cases a) (simp_all add: event_risk_def set_risk_def)

lemma guard_action_awaits:
  assumes "payload e = Act a" "confirm_class a" "confirmation_mode (c_state c)" "c_confirmation_mode c"
    and "analyzer env = None \<or> event_risk (guard_action env c a e) = HIGH"
  shows "get_confirmation (guard_action env c a e) = Some AWAITING_CONFIRMATION"
proof -
  have "analyzer env = None \<Longrightarrow> event_risk (handle_security_analyzer env e) = UNKNOWN"
    using event_risk_set_risk [OF assms(1,2)] by (simp add: handle_security_analyzer_def)
  with assms show ?thesis by (auto simp: guard_action_def Let_def)
qed

lemma guard_action_class:
  "payload e = Act a \<Longrightarrow> confirm_class a \<Longrightarrow> \<exists>b. payload (guard_action env c a e) = Act b \<and> confirm_class b"
  "payload (guard_action env c a e) = Act b \<Longrightarrow> confirm_class b \<Longrightarrow> payload e = Act a \<Longrightarrow> confirm_class a"
  by (cases a; auto simp: guard_action_def Let_def handle_security_analyzer_def set_risk_def
      set_confirmation_def split: option.splits sum.splits if_splits)+

text \<open>
  In confirmation mode a command, a cell, a browser interaction or a file access that the controller
  takes up is marked as awaiting confirmation, and the agent waits for the user, if no analyzer
  is there to judge it or the analyzer finds it risky.
\<close>

lemma step_awaits_confirmation:
  assumes "i < length (stack w)" "c_pending (ctl w i) = None" "keeps_mode env"
    and modes: "confirmation_mode (st_of w i)" "c_confirmation_mode (ctl w i)"
    and run: "step env i w = (x, w')" and p: "c_pending (ctl w' i) = Some p"
    and a: "payload p = Act a" "confirm_class a"
    and risk: "analyzer env = None \<or> event_risk p = HIGH"
  shows "get_confirmation p = Some AWAITING_CONFIRMATION \<and>
    agent_state (st_of w' i) = AWAITING_USER_CONFIRMATION"
proof -
  obtain e w1 where act: "act env i e w1 = (x, w')" "i < length (stack w1)" "c_pending (ctl w1 i) = None"
    and m: "c_confirmation_mode (ctl w1 i)" "confirmation_mode (st_of w1 i)"
    using step_pending [OF assms(1-3) run p] modes by metis
  obtain b where b: "payload e = Act b" "runnable b" "payload p = payload (guard_action env (ctl w1 i) b e)"
    "get_confirmation p = get_confirmation (guard_action env (ctl w1 i) b e)"
    "get_confirmation p = Some AWAITING_CONFIRMATION \<Longrightarrow> agent_state (st_of w' i) = AWAITING_USER_CONFIRMATION"
    using act_pending [OF act(2,3,1) p] by metis
  have "confirm_class b" using guard_action_class(2) [of env "ctl w1 i" b e a] a b by simp
  moreover have "event_risk p = event_risk (guard_action env (ctl w1 i) b e)"
    using b(3) by (simp add: event_risk_def)
  ultimately have "get_confirmation p = Some AWAITING_CONFIRMATION"
    using guard_action_awaits [OF b(1) _ m(2,1)] risk b(4) by auto
  with b(5) show ?thesis by simp
qed

text \<open>While the user is asked, observations change nothing but the history.\<close>

lemma awaiting_ignores_observation:
  assumes "i < length (stack w)" "agent_state (st_of w i) = AWAITING_USER_CONFIRMATION"
    and "c_pending (ctl w i) = Some p" "payload e = Obs ob"
  shows "on_event_own env i e w = (None, if ev_hidden e then w else upd_state i (add_history e) w)"
proof (cases "ev_hidden e")
  case True
  then show ?thesis by (simp add: on_event_own_def)
next
  case False
  let ?w1 = "upd_state i (add_history e) w"
  have 1: "i < length (stack ?w1)" "agent_state (st_of ?w1 i) = AWAITING_USER_CONFIRMATION"
    "c_pending (ctl ?w1 i) = Some p"
    using assms by (simp_all add: add_history_def)
  have "handle_observation env i e ?w1 = (None, ?w1)" using 1 by (simp add: handle_observation_def)
  moreover have "step_with_exception_handling env i ?w1 = (None, ?w1)"
    using 1 by (simp add: step_with_exception_handling_def step_def)
  ultimately show ?thesis using False assms(4) by (simp add: on_event_own_def when_op_def)
qed

text \<open>The answer: the same action, marked and without its thought, is sent again under a new id.\<close>

lemma answer_pending_marks:
  "get_confirmation (answer_pending new p) = Some (if new = USER_CONFIRMED then CONFIRMED else CONFIRM_REJECTED)"
  "m_id (answer_pending new p) = None"
  by (simp_all add: answer_pending_def Let_def get_confirmation_cong [where e' = "e\<lparr>m_id := None\<rparr>" and e = e for e])

lemma emit_pending_None:
  assumes "emit_pending env i src w = (None, w')" "c_pending (ctl w i) = Some p" "i < length (stack w)"
  obtains n s0 ev where "stored_as env src p (stream w) ev" "equeue (stream w') = equeue (stream w) @ [ev]"
    "cur_id (stream w) = Inr (n, s0)" "c_pending (ctl w' i) = Some (stamped (env_now env) src n p)" "st_of w' i = st_of w i"
    "length (stack w') = length (stack w)" "secrets (stream w') = secrets (stream w)"
    "c_agent (ctl w' i) = c_agent (ctl w i)"
proof -
  obtain x p' s where a: "add_event (env_codec env) (env_now env) p src (stream w) = (x, p', s)"
    using prod_cases3 by blast
  with assms have x: "x = None" and w': "w' = upd_ctl i (\<lambda>c. c\<lparr>c_pending := Some p'\<rparr>) (w\<lparr>stream := s\<rparr>)"
    by (auto simp: emit_pending_def)
  from a [unfolded x] show thesis
    by (rule add_event_succeeds) (rule that, use w' assms(3) in \<open>auto simp: stored_as_def\<close>)
qed

lemma answer_resends:
  assumes "i < length (stack w)" "agent_state (st_of w i) = AWAITING_USER_CONFIRMATION"
    and "c_pending (ctl w i) = Some p" "new = USER_CONFIRMED \<or> new = USER_REJECTED"
    and run: "set_agent_state_to env i new w = (None, w')"
  shows "agent_state (st_of w' i) = new \<and>
    (\<exists>n s0 ev ev' s. c_pending (ctl w' i) = Some (stamped (env_now env) (Some AGENT) n (answer_pending new p)) \<and>
       cur_id (stream w) = Inr (n, s0) \<and> equeue (stream w') = equeue (stream w) @ [ev, ev'] \<and>
       stored_as env (Some AGENT) (answer_pending new p) (stream w) ev \<and>
       secrets s = secrets (stream w) \<and>
       stored_as env (Some ENVIRONMENT) (state_changed_obs (st_of w' i)) s ev')"
proof -
  let ?w1 = "upd_ctl i (\<lambda>c. c\<lparr>c_pending := map_option (answer_pending new) (c_pending c)\<rparr>)
        (upd_state i (\<lambda>st. st\<lparr>agent_state := new\<rparr>) w)"
  have ne: "new \<noteq> agent_state (st_of w i)" using assms(2,4) by auto
  from run set_state_answer [OF ne assms(4,3,1), of env] obtain w2
    where e: "emit_pending env i (Some AGENT) ?w1 = (None, w2)" and a: "announce env i w2 = (None, w')"
    by (auto split: prod.splits option.splits)
  have 1: "c_pending (ctl ?w1 i) = Some (answer_pending new p)" "i < length (stack ?w1)"
    using assms(1,3) by simp_all
  obtain n s0 ev where ev: "stored_as env (Some AGENT) (answer_pending new p) (stream w) ev"
    "equeue (stream w2) = equeue (stream w) @ [ev]"
    "c_pending (ctl w2 i) = Some (stamped (env_now env) (Some AGENT) n (answer_pending new p))"
    "st_of w2 i = (st_of w i)\<lparr>agent_state := new\<rparr>" "i < length (stack w2)" "secrets (stream w2) = secrets (stream w)"
    "cur_id (stream w) = Inr (n, s0)"
    by (rule emit_pending_None [OF e 1]) (use that assms(1) in auto)
  obtain ev' where ev': "stored_as env (Some ENVIRONMENT) (state_changed_obs (st_of w2 i)) (stream w2) ev'"
    "equeue (stream w') = equeue (stream w2) @ [ev']"
    using announce_None [OF a] by blast
  have fr: "agent_state (st_of w' i) = new" "c_pending (ctl w' i) = c_pending (ctl w2 i)"
    "last_error (st_of w' i) = last_error (st_of w2 i)"
    using announce_frame [OF ev(5), of env] a ev(4) by simp_all
  then have "state_changed_obs (st_of w' i) = state_changed_obs (st_of w2 i)"
    by (simp add: state_changed_obs_def ev(4))
  with ev ev' fr show ?thesis
    by (intro conjI exI [of _ n] exI [of _ s0] exI [of _ ev] exI [of _ ev'] exI [of _ "stream w2"]) simp_all
qed

text \<open>When the observation of the answered action arrives, the agent goes on or waits for input.\<close>

lemma answered_observation:
  assumes "i < length (stack w)" "c_pending (ctl w i) = Some p" "m_cause e = Some (ev_id p)"
    and st: "agent_state (st_of w i) = USER_CONFIRMED \<or> agent_state (st_of w i) = USER_REJECTED"
  shows "c_pending (ctl (snd (handle_observation env i e w)) i) = None \<and>
    agent_state (st_of (snd (handle_observation env i e w)) i) =
      (if agent_state (st_of w i) = USER_CONFIRMED then RUNNING else AWAITING_USER_INPUT)"
proof -
  let ?w1 = "upd_ctl i (\<lambda>c. c\<lparr>c_pending := None\<rparr>) w"
  have 1: "i < length (stack ?w1)" "c_pending (ctl ?w1 i) = None" "st_of ?w1 i = st_of w i"
    using assms(1) by simp_all
  note r = set_agent_state_result(1) [OF 1(1), of env] set_state_no_pending [OF 1(1,2), of env]
  show ?thesis
  proof (cases "agent_state (st_of w i) = USER_CONFIRMED")
    case True
    obtain x w2 where s: "set_agent_state_to env i RUNNING ?w1 = (x, w2)" by fastforce
    have "handle_observation env i e w = (x, w2)"
      using assms True s 1 r(1) [of RUNNING]
      by (cases x) (simp_all add: handle_observation_def when_op_def)
    with r [of RUNNING] s True show ?thesis by simp
  next
    case False
    obtain x w2 where s: "set_agent_state_to env i AWAITING_USER_INPUT ?w1 = (x, w2)" by fastforce
    have "handle_observation env i e w = (x, w2)"
      using assms False st s 1 by (simp add: handle_observation_def when_op_def)
    with r [of AWAITING_USER_INPUT] s False show ?thesis by simp
  qed
qed

text \<open>
  The mark is an attribute that the dictionary of a file or browser action does not have, so the
  subscribers of the stream receive such an action without it.
\<close>

lemma stored_action_unmarked:
  assumes "stored_as env src e s ev" "secrets s = []" "serializable e" "payload e = Act a"
    and "\<not> (\<exists>c. a = CmdRunAction c)" "\<not> (\<exists>c. a = IPythonRunCellAction c)"
  shows "get_confirmation ev = None"
proof -
  from assms(1,2) obtain n d where "sanitized (env_codec env) (env_now env) src n [] e = Some (d, ev)"
    by (auto simp: stored_as_def)
  with assms(3) have ev: "ev = persisted (stamped (env_now env) src n e)" by (rule sanitized_plain)
  have "payload ev = Act a" "m_confirmation ev = None"
    using assms(4) by (simp_all add: ev persisted_def stamped_def)
  with assms(5,6) show ?thesis by (cases a) (simp_all add: get_confirmation_def)
qed

section \<open>Messages of the user\<close>

lemma set_running_pending:
  assumes "i < length (stack w)"
  shows "c_pending (ctl (snd (set_agent_state_to env i RUNNING w)) i) = c_pending (ctl w i)"
    "c_agent (ctl (snd (set_agent_state_to env i RUNNING w)) i) = c_agent (ctl w i)"
proof -
  consider "agent_state (st_of w i) = RUNNING" | "agent_state (st_of w i) = ERROR"
    | "agent_state (st_of w i) \<noteq> RUNNING" "agent_state (st_of w i) \<noteq> ERROR" by blast
  then have "c_pending (ctl (snd (set_agent_state_to env i RUNNING w)) i) = c_pending (ctl w i) \<and>
    c_agent (ctl (snd (set_agent_state_to env i RUNNING w)) i) = c_agent (ctl w i)"
  proof cases
    case 1
    then show ?thesis by (simp add: set_agent_state_to_def)
  next
    case 2
    with assms show ?thesis by (simp add: set_state_resume announce_frame)
  next
    case 3
    with assms show ?thesis by (simp add: set_state_plain announce_frame)
  qed
  then show "c_pending (ctl (snd (set_agent_state_to env i RUNNING w)) i) = c_pending (ctl w i)"
    "c_agent (ctl (snd (set_agent_state_to env i RUNNING w)) i) = c_agent (ctl w i)" by simp_all
qed

lemma first_user_message_frame:
  assumes "first_user_message env i w = (r, w1)" "i < length (stack w)"
  shows "stream w1 = stream w" "length (stack w1) = length (stack w)" "st_of w1 i = st_of w i"
    "c_agent (ctl w1 i) = c_agent (ctl w i)"
  using assms by (auto simp: first_user_message_def split: option.splits sum.splits)

text \<open>
  A user message asks for the knowledge it triggers and starts the agent; the agent is not asked
  before that recall is answered.
\<close>

lemma user_message_steps:
  assumes "i < length (stack w)" "payload e = Act (MessageAction m)" "m_source e = Some USER"
    and run: "on_event_own env i e w = (None, w')"
  obtains t v v' where "emit_pending env i (Some USER) v = (None, v')" "set_agent_state_to env i RUNNING v' = (None, w')"
    "c_pending (ctl v i) = Some (mk_recall t (ma_content m))" "stream v = stream w"
    "length (stack v) = length (stack w)" "c_agent (ctl v i) = c_agent (ctl w i)"
proof -
  let ?w1 = "upd_state i (add_history e) w"
  have h: "\<not> ev_hidden e" using assms(2) by (simp add: ev_hidden_def)
  from run h assms(2) obtain w5 where hm: "handle_message_action env i e m ?w1 = (None, w5)"
    and st: "when_op (\<lambda>w. should_step w i e) (step_with_exception_handling env i) w5 = (None, w')"
    by (auto simp: on_event_own_def handle_action_def split: prod.splits option.splits)
  from hm assms(3) obtain f w2 where f: "first_user_message env i ?w1 = (Inr f, w2)"
    by (auto simp: handle_message_action_def Let_def split: prod.splits sum.splits)
  define t where "t = (if (case f of None \<Rightarrow> False | Some g \<Rightarrow> ev_id e = ev_id g) then WORKSPACE_CONTEXT else KNOWLEDGE)"
  let ?rc = "mk_recall t (ma_content m)"
  have fr: "stream w2 = stream w" "length (stack w2) = length (stack w)" "c_agent (ctl w2 i) = c_agent (ctl w i)"
    using first_user_message_frame [OF f] assms(1) by simp_all
  let ?w3 = "upd_ctl i (\<lambda>c. c\<lparr>c_pending := Some ?rc\<rparr>) w2"
  have w3: "i < length (stack ?w3)" "c_pending (ctl ?w3 i) = Some ?rc" using fr assms(1) by simp_all
  from hm f assms(3) obtain w4 where e: "emit_pending env i (Some USER) ?w3 = (None, w4)"
    and s: "set_agent_state_to env i RUNNING w4 = (None, w5)"
    by (auto simp: handle_message_action_def Let_def t_def split: prod.splits option.splits)
  obtain n where w4: "c_pending (ctl w4 i) = Some (stamped (env_now env) (Some USER) n ?rc)" "i < length (stack w4)"
    by (rule emit_pending_None [OF e w3(2,1)]) (use that w3 in auto)
  then have "c_pending (ctl w5 i) \<noteq> None" using set_running_pending(1) [OF w4(2), of env] s by simp
  then have "step_with_exception_handling env i w5 = (None, w5)"
    by (simp add: step_with_exception_handling_def step_def)
  with st have "w' = w5" by (simp add: when_op_def split: if_splits)
  with e s w3 fr show thesis by (intro that [of ?w3 w4 t]) (use assms(1) in simp_all)
qed

lemma user_message_recalls:
  assumes "i < length (stack w)" "\<not> has_delegate w i" "payload e = Act (MessageAction m)" "m_source e = Some USER"
    and run: "on_event_own env i e w = (None, w')"
  shows "agent_state (st_of w' i) = RUNNING \<and> c_agent (ctl w' i) = c_agent (ctl w i) \<and>
    (\<exists>n t. c_pending (ctl w' i) = Some (stamped (env_now env) (Some USER) n (mk_recall t (ma_content m))))"
proof -
  obtain t v v' where e: "emit_pending env i (Some USER) v = (None, v')"
    and s: "set_agent_state_to env i RUNNING v' = (None, w')"
    and v: "c_pending (ctl v i) = Some (mk_recall t (ma_content m))" "i < length (stack v)"
      "c_agent (ctl v i) = c_agent (ctl w i)"
    using user_message_steps [OF assms(1,3,4) run] assms(1) by metis
  obtain n where v': "c_pending (ctl v' i) = Some (stamped (env_now env) (Some USER) n (mk_recall t (ma_content m)))"
    "i < length (stack v')" "c_agent (ctl v' i) = c_agent (ctl w i)"
    by (rule emit_pending_None [OF e v(1,2)]) (use that v in auto)
  show ?thesis
    using set_agent_state_result(1) [OF v'(2), of env RUNNING] set_running_pending [OF v'(2), of env] s v' by auto
qed

section \<open>Delegates\<close>

text \<open>An event for a working delegate leaves the parent alone, apart from what they share.\<close>

lemma delegate_event_frame:
  assumes "keeps_stats env" "shared w" "has_delegate w 0" "conversation_stats (st_of w 1) \<noteq> None"
    and "delegate_active (st_of w 1)"
  shows "untouched w (snd (on_event env 0 e w)) 0"
proof -
  have "okw 1 1 w w" using assms(2-4) by (simp add: okw_def has_delegate_def)
  from preservesD [OF okw_on_event_own [OF assms(1)] this]
  have "okw 1 1 w (snd (on_event_own env 1 e w))" .
  then show ?thesis using assms(3,5) by (simp add: on_event_def okw_def)
qed

lemma untouched_frame:
  assumes "untouched w0 w j"
  shows "agent_state (st_of w j) = agent_state (st_of w0 j)" "history (st_of w j) = history (st_of w0 j)"
    "c_pending (ctl w j) = c_pending (ctl w0 j)" "c_agent (ctl w j) = c_agent (ctl w0 j)"
    "start_id (st_of w j) = start_id (st_of w0 j)"
  using assms by (auto simp: untouched_def)

text \<open>Fields of the state that a change of the agent state does not touch\<close>

definition plain_field :: "(state \<Rightarrow> 'f) \<Rightarrow> bool" where
  "plain_field g \<longleftrightarrow>
     (\<forall>st s. g (st\<lparr>agent_state := s\<rparr>) = g st) \<and>
     (\<forall>h st. g (maybe_increase_control_flags_limits h st) = g st) \<and>
     (\<forall>t. g (tr_state (save_state t)) = g (tr_state t))"

lemma plain_outputs: "plain_field outputs"
  by (auto simp: plain_field_def maybe_increase_control_flags_limits_def save_state_def Let_def
      split: option.splits list.splits)

lemma set_state_plain_field:
  assumes "plain_field g"
  shows "preserves (\<lambda>v. i < length (stack v) \<and> g (st_of v i) = x) (set_agent_state_to env i new)"
proof -
  let ?P = "\<lambda>v. i < length (stack v) \<and> g (st_of v i) = x"
  have em: "preserves ?P (\<lambda>w. emit env (h w) src w)" for h src by (simp add: preserves_def)
  have ep: "preserves ?P (emit_pending env i src)" for src by (simp add: preserves_def emit_pending_frame)
  have rs: "preserves ?P (reset_controller env i)" by (simp add: preserves_def reset_frame)
  have sv: "preserves ?P (upd_op (save_state_op i))"
    using assms by (intro preserves_upd) (simp add: save_state_op_def Let_def plain_field_def)
  have "preserves ?P (\<lambda>w. run_ops
       [upd_op (upd_state i (\<lambda>st. st\<lparr>agent_state := new\<rparr>)),
        when_op (\<lambda>_. new = STOPPED \<or> new = ERROR) (reset_controller env i),
        when_op (\<lambda>_. old = ERROR \<and> new = RUNNING)
          (upd_op (\<lambda>w. upd_state i (maybe_increase_control_flags_limits (c_headless (ctl w i))) w)),
        when_op (\<lambda>w. c_pending (ctl w i) \<noteq> None \<and> (new = USER_CONFIRMED \<or> new = USER_REJECTED))
          (run_ops
             [upd_op (upd_ctl i (\<lambda>c. c\<lparr>c_pending := map_option (answer_pending new) (c_pending c)\<rparr>)),
              emit_pending env i (Some AGENT)]),
        \<lambda>w. emit env (state_changed_obs (st_of w i)) ENVIRONMENT w,
        upd_op (save_state_op i)] w)" for old
    using assms
    by (intro preserves_run_ops)
      (auto intro!: preserves_when preserves_run_ops preserves_upd em ep rs sv simp: plain_field_def)
  then show ?thesis by (simp add: preserves_def set_agent_state_to_def Let_def)
qed

lemma close_keeps_outputs:
  "preserves (\<lambda>v. i < length (stack v) \<and> outputs (st_of v i) = x) (close_controller env i b)"
proof -
  let ?P = "\<lambda>v. i < length (stack v) \<and> outputs (st_of v i) = x"
  have ch: "outputs st' = outputs st" if "close_history cd es st = Inr st'"
    for cd and es :: "'c event_stream" and st st'
    using that by (auto simp: close_history_def Let_def sbind_Inr_iff)
  have "preserves ?P (\<lambda>w. case close_history (env_codec env) (stream w) (st_of w i) of
               Inl y \<Rightarrow> (Some (store_exn y), w) | Inr st \<Rightarrow> (None, put_state i st w))"
    by (auto simp: preserves_def ch split: sum.split)
  then show ?thesis
    unfolding close_controller_def
    by (intro preserves_run_ops)
      (auto intro!: preserves_when preserves_upd set_state_plain_field [OF plain_outputs])
qed

text \<open>
  The end of a delegation: the parent is on top again, unchanged but for the shared objects, and
  the last event on the stream is the delegate's result for the tool call that started it.
\<close>

lemma end_delegate_result:
  assumes "shared w" "has_delegate w i" "conversation_stats (st_of w i) \<noteq> None"
    and run: "end_delegate env i w = (None, w')"
  defines "action \<equiv> find (\<lambda>e. isinstance e C_AgentDelegateAction) (rev (history (st_of w i)))"
  shows "length (stack w') = Suc i \<and> history (st_of w' i) = history (st_of w i) \<and>
    agent_state (st_of w' i) = agent_state (st_of w i) \<and> c_pending (ctl w' i) = c_pending (ctl w i) \<and>
    (\<exists>ob r ev s evs. equeue (stream w') = equeue (stream w) @ evs @ [ev] \<and> stored_as env (Some AGENT) ob s ev \<and>
       payload ob = Obs (AgentDelegateObservation r) \<and> ado_outputs r = outputs (st_of w (Suc i)) \<and>
       m_tool_call ob = (case action of None \<Rightarrow> None | Some a \<Rightarrow> m_tool_call a))"
proof -
  define w1 where "w1 = upd_state i (\<lambda>st. st\<lparr>iteration_flag := (iteration_flag st)
     \<lparr>current_value := current_value (iteration_flag (st_of w (Suc i)))\<rparr>\<rparr>) w"
  have len: "Suc i < length (stack w)" using assms(2) by (simp add: has_delegate_def)
  from run assms(2) obtain w2 w3 where
    c: "close_controller env (Suc i) True w1 = (None, w2)" and
    e: "emit env (delegate_observation env (agent_state (st_of w (Suc i))) (ctl w2 i) (ctl w2 (Suc i))) AGENT w2 = (None, w3)"
    and w': "w' = w3\<lparr>stack := take (Suc i) (stack w3)\<rparr>"
    by (auto simp: end_delegate_def Let_def w1_def [symmetric] split: prod.splits option.splits)
  have "okw 0 i w w" using assms(1,3) len by (simp add: okw_def)
  then have "okw 0 i w w1" unfolding w1_def by (rule okw_upd_state) simp
  then have "okw 0 (Suc i) w w1" by (rule okw_shift) (simp_all add: w1_def len)
  then have "okw (Suc i) (Suc i) w1 w1" by (simp add: okw_def)
  from preservesD [OF okw_close this, of env True] c have ok2: "okw (Suc i) (Suc i) w1 w2" by simp
  have par: "history (st_of w2 i) = history (st_of w i)" "agent_state (st_of w2 i) = agent_state (st_of w i)"
    "c_pending (ctl w2 i) = c_pending (ctl w i)"
    using untouched_frame [OF okwD(6) [OF ok2, of i]] len by (simp_all add: w1_def)
  have "outputs (st_of w1 (Suc i)) = outputs (st_of w (Suc i))"
    using len by (simp add: w1_def upd_state_def ctl_put_state)
  then have out: "outputs (st_of w2 (Suc i)) = outputs (st_of w (Suc i))"
    using preservesD [OF close_keeps_outputs, of "Suc i" w1 "outputs (st_of w (Suc i))" env True] c len
    by (simp add: w1_def)
  obtain evs where q: "equeue (stream w2) = equeue (stream w) @ evs"
    using okwD(3) [OF ok2] by (auto simp: grows_def w1_def)
  let ?ob = "delegate_observation env (agent_state (st_of w (Suc i))) (ctl w2 i) (ctl w2 (Suc i))"
  from e obtain ev where ev: "stored_as env (Some AGENT) ?ob (stream w2) ev"
    "equeue (stream w3) = equeue (stream w2) @ [ev]" "stack w3 = stack w2" by (rule emit_None)
  have "\<exists>r. payload ?ob = Obs (AgentDelegateObservation r) \<and> ado_outputs r = outputs (st_of w (Suc i)) \<and>
      m_tool_call ?ob = (case action of None \<Rightarrow> None | Some a \<Rightarrow> m_tool_call a)"
    by (simp add: delegate_observation_def Let_def par(1) action_def [symmetric] out split: option.split)
  then obtain r where r: "payload ?ob = Obs (AgentDelegateObservation r)" "ado_outputs r = outputs (st_of w (Suc i))"
      "m_tool_call ?ob = (case action of None \<Rightarrow> None | Some a \<Rightarrow> m_tool_call a)" by blast
  have "length (stack w') = Suc i" "history (st_of w' i) = history (st_of w i)"
    "agent_state (st_of w' i) = agent_state (st_of w i)" "c_pending (ctl w' i) = c_pending (ctl w i)"
    "equeue (stream w') = equeue (stream w) @ evs @ [ev]"
    using okwD(2) [OF ok2] par ev q by (simp_all add: w')
  with ev(1) r show ?thesis by blast
qed

text \<open>A delegate starts with an empty history, the parent's limits, and without confirmation mode.\<close>

lemma init_history_beyond:
  assumes "get_latest_event_id es = Inr (n, es')" "end_id st < 0" "n < (if start_id st \<ge> 0 then start_id st else 0)"
    and "init_history cd es st = Inr st'"
  shows "history st' = []"
  using assms by (auto simp: init_history_def Let_def search_events_def search_range_def sort_pairs_def split: if_splits)

lemma latest_id_again:
  assumes "get_latest_event_id es = Inr (n, es')"
  shows "get_latest_event_id es' = Inr (n, es')"
  using assms by (auto simp: get_latest_event_id_def cur_id_def map_sum_def split: sum.splits option.splits)

lemma controller_init_delegate:
  assumes "controller_init env a s = (Inr c, s')" "ia_is_delegate a"
  obtains cid where "init_history (env_codec env) s (set_initial_state cid (ia_initial_state a) (ia_stats a)
    (ia_iteration_delta a) (ia_budget_delta a) (ia_confirmation_mode a) (ia_user a)) = Inr (c_state c)"
  using assms
  by (auto simp: controller_init_def Let_def split: option.splits sum.splits prod.splits)

lemma start_delegate_fresh:
  assumes run: "start_delegate env i d w = (None, w')" and i: "i < length (stack w)"
  shows "length (stack w') = Suc (Suc i) \<and> history (st_of w' (Suc i)) = [] \<and>
    iteration_flag (st_of w' (Suc i)) = iteration_flag (st_of w i) \<and>
    budget_flag (st_of w' (Suc i)) = budget_flag (st_of w i) \<and>
    delegate_level (st_of w' (Suc i)) = delegate_level (st_of w i) + 1 \<and>
    \<not> confirmation_mode (st_of w' (Suc i)) \<and> \<not> c_confirmation_mode (ctl w' (Suc i))"
proof -
  from run obtain ag latest s0 where
    l: "get_latest_event_id (stream w) = Inr (latest, s0)" and ag: "ag_create env (c_agent (ctl w i)) (ada_agent d) = Inr ag"
    by (auto simp: start_delegate_def Let_def split: sum.splits)
  let ?st0 = "delegate_initial_state (ctl w i) d latest"
  define a where "a = \<lparr>ia_agent = ag, ia_stats = controller_stats (ctl w i),
      ia_iteration_delta = c_max_iterations (ctl w i), ia_budget_delta = c_max_budget (ctl w i),
      ia_sid = Some (c_id (ctl w i) @ ''-delegate''), ia_user = c_user (ctl w i),
      ia_confirmation_mode = False, ia_initial_state = Some ?st0, ia_is_delegate = True,
      ia_headless = c_headless (ctl w i), ia_status_callback = False, ia_replay_events = None\<rparr>"
  obtain r s1 where init: "controller_init env a s0 = (r, s1)" by fastforce
  with run l ag obtain c where c: "r = Inr c" "w' = w\<lparr>stream := s1, stack := take (Suc i) (stack w) @ [c]\<rparr>"
    by (cases r) (auto simp: start_delegate_def Let_def a_def)
  from controller_init_delegate [of env a s0 c s1] init c(1) obtain cid where
    ih: "init_history (env_codec env) s0 (set_initial_state cid (Some ?st0) (controller_stats (ctl w i))
      (c_max_iterations (ctl w i)) (c_max_budget (ctl w i)) False (c_user (ctl w i))) = Inr (c_state c)"
    by (auto simp: a_def)
  have "history (c_state c) = []"
    by (rule init_history_beyond [OF latest_id_again [OF l] _ _ ih])
      (auto simp: set_initial_state_def delegate_initial_state_def default_state_def)
  moreover from init_history_result [OF ih] obtain h k where
    "c_state c = (?st0\<lparr>start_id := (if start_id ?st0 \<le> - 1 then 0 else start_id ?st0),
       conversation_stats := Some (controller_stats (ctl w i))\<rparr>)\<lparr>history := h, start_id := k\<rparr>"
    by (auto simp: set_initial_state_def)
  moreover have "\<not> c_confirmation_mode c"
    using controller_init_result(3) [OF init c(1)] by (simp add: a_def)
  ultimately show ?thesis
    using i by (simp add: c(2) nth_append delegate_initial_state_def default_state_def)
qed

section \<open>Progress\<close>

lemma emit_pending_grows [keeps]: "preserves (grows w0) (emit_pending env i src)"
  by (auto simp: preserves_def emit_pending_def split: option.split prod.split intro: grows_add_event)

lemma reset_grows [keeps]: "preserves (grows w0) (reset_controller env i)"
  unfolding reset_controller_def
  by (intro preserves_run_ops)
    (auto intro!: preserves_upd simp: preserves_def split: option.split intro: preservesD [OF emit_grows])

lemma grows_save [simp]: "grows w0 (save_state_op i w) = grows w0 w"
  by (simp add: save_state_op_def Let_def)

definition more_events :: "('a, 'c) world \<Rightarrow> ('a, 'c) world \<Rightarrow> bool" where
  "more_events w w' \<longleftrightarrow> (\<exists>evs. evs \<noteq> [] \<and> equeue (stream w') = equeue (stream w) @ evs)"

lemma announce_more:
  assumes "grows w w1" "announce env i w1 = (None, w')"
  shows "more_events w w'"
  using assms by (auto simp: grows_def more_events_def elim!: announce_None)

text \<open>A change of state that goes through is announced.\<close>

lemma set_state_more:
  assumes "new \<noteq> agent_state (st_of w i)" "set_agent_state_to env i new w = (None, w')"
  shows "more_events w w'"
proof -
  define pre where "pre =
       [upd_op (upd_state i (\<lambda>st. st\<lparr>agent_state := new\<rparr>)),
        when_op (\<lambda>_. new = STOPPED \<or> new = ERROR) (reset_controller env i),
        when_op (\<lambda>_. agent_state (st_of w i) = ERROR \<and> new = RUNNING)
          (upd_op (\<lambda>w. upd_state i (maybe_increase_control_flags_limits (c_headless (ctl w i))) w)),
        when_op (\<lambda>w. c_pending (ctl w i) \<noteq> None \<and> (new = USER_CONFIRMED \<or> new = USER_REJECTED))
          (run_ops
             [upd_op (upd_ctl i (\<lambda>c. c\<lparr>c_pending := map_option (answer_pending new) (c_pending c)\<rparr>)),
              emit_pending env i (Some AGENT)])]"
  have split: "run_ops (fs @ gs) v = (None, v') \<Longrightarrow> \<exists>u. run_ops fs v = (None, u) \<and> run_ops gs u = (None, v')"
    for fs gs :: "('a, 'b) op list" and v v'
    by (induction fs arbitrary: v) (auto split: prod.splits option.splits)
  have "run_ops (pre @ [\<lambda>w. emit env (state_changed_obs (st_of w i)) ENVIRONMENT w, upd_op (save_state_op i)]) w = (None, w')"
    using assms by (simp add: set_agent_state_to_def Let_def pre_def del: run_ops.simps)
  from split [OF this] obtain u where u: "run_ops pre w = (None, u)" "announce env i u = (None, w')"
    unfolding announce_def by blast
  have "preserves (grows w) (run_ops pre)"
    unfolding pre_def by (rule preserves_run_ops) (auto intro!: keeps preserves_upd)
  then have "grows w (snd (run_ops pre w))" by (rule preservesD) simp
  with u show ?thesis using announce_more by simp
qed

lemma more_events_stream: "stream w1 = stream w \<Longrightarrow> more_events w1 w' = more_events w w'"
  by (simp add: more_events_def)

lemma more_events_from: "grows w w1 \<Longrightarrow> more_events w1 w' \<Longrightarrow> more_events w w'"
  by (auto simp: grows_def more_events_def)

lemma emit_more: "emit env e src w = (None, w') \<Longrightarrow> more_events w w'"
  by (auto simp: more_events_def elim: emit_None)

text \<open>Every reaction to an exception is a change of state.\<close>

lemma react_is_change:
  assumes "i < length (stack w)"
  shows "\<exists>new w1. (new = ERROR \<or> new = RATE_LIMITED) \<and> agent_state (st_of w1 i) = agent_state (st_of w i) \<and>
    stream w1 = stream w \<and> react_to_exception env i e w = set_agent_state_to env i new w1"
proof -
  have I: "\<exists>new' w1'. (new' = ERROR \<or> new' = RATE_LIMITED) \<and> agent_state (st_of w1' i) = agent_state (st_of w i) \<and>
      stream w1' = stream w \<and> set_agent_state_to env i new w1 = set_agent_state_to env i new' w1'"
    if "new = ERROR \<or> new = RATE_LIMITED" "agent_state (st_of w1 i) = agent_state (st_of w i)" "stream w1 = stream w"
    for new w1 using that by blast
  show ?thesis
    unfolding react_to_exception_def Let_def
    by (cases "c_status_callback (ctl (set_last_error i (exc_name e @ '': '' @ exc_str e) w) i)";
        cases "exception_status e"; cases "exc_isinstance e RateLimitError"; cases "retries_exhausted e";
        simp only: not_True_eq_False not_False_eq_True if_True if_False option.case; rule I)
      (use assms in simp_all)
qed

lemma react_more:
  assumes "i < length (stack w)" "agent_state (st_of w i) = RUNNING" "react_to_exception env i e w = (None, w')"
  shows "more_events w w'"
proof -
  from react_is_change [OF assms(1), of env e] obtain new w1 where "new = ERROR \<or> new = RATE_LIMITED"
    "agent_state (st_of w1 i) = RUNNING" "stream w1 = stream w" "set_agent_state_to env i new w1 = (None, w')"
    unfolding assms(2,3) by metis
  then show ?thesis using set_state_more [of new w1 i env w'] more_events_stream [of w1 w] by auto
qed

lemma agent_error_more: "agent_error env i x w = (None, w') \<Longrightarrow> more_events w w'"
  by (auto simp: agent_error_def split: if_splits dest: emit_more)

lemma send_action_more: "send_action env i a e w = (None, w') \<Longrightarrow> more_events w w'"
  by (auto simp: send_action_def Let_def more_events_def split: sum.splits prod.splits if_splits
      elim!: add_event_succeeds)

lemma act_more:
  assumes "act env i e w = (None, w')" "payload e \<noteq> Act NullAction"
  shows "more_events w w'"
proof -
  from assms obtain a where a: "payload e = Act a" "a \<noteq> NullAction"
    by (cases "payload e") (auto simp: act_def)
  have "\<exists>w1 w2 e1. stream w1 = stream w \<and>
      (w2 = w1 \<or> set_agent_state_to env i AWAITING_USER_CONFIRMATION w1 = (None, w2)) \<and>
      send_action env i a e1 w2 = (None, w')"
    using assms(1) a
    by (auto simp: act_def Let_def when_op_def split: prod.splits option.splits if_splits)
      (metis upd_ctl_frame(1))+
  then obtain w1 w2 e1 where w: "stream w1 = stream w" "send_action env i a e1 w2 = (None, w')"
    "w2 = w1 \<or> set_agent_state_to env i AWAITING_USER_CONFIRMATION w1 = (None, w2)" by blast
  have "grows w1 w2"
  proof (cases "AWAITING_USER_CONFIRMATION = agent_state (st_of w1 i)")
    case True
    with w(3) show ?thesis by (auto simp: set_agent_state_to_def)
  next
    case False
    with w(3) set_state_more [of AWAITING_USER_CONFIRMATION w1 i env w2] show ?thesis
      by (auto simp: grows_def more_events_def)
  qed
  with send_action_more [OF w(2)] have "more_events w1 w'" using more_events_from by blast
  then show ?thesis using more_events_stream w(1) by metis
qed

text \<open>
  The action of a step: the next event of the recording while there is one, otherwise what the policy answers for the
  state that the checks of the step have left.
\<close>

definition asked_state :: "state \<Rightarrow> state" where
  "asked_state st = snd (run_control_flags (sync_budget_flag_with_metrics st))"

definition next_decision :: "('a, 'c) env \<Rightarrow> 'a controller \<Rightarrow> event option" where
  "next_decision env c =
     (case should_replay (c_replay c) of
        (True, rp) \<Rightarrow> (case fst (replay_step rp) of Inl _ \<Rightarrow> None | Inr e \<Rightarrow> Some e)
      | (False, _) \<Rightarrow>
          (case fst (ag_step env (c_agent c) (asked_state (c_state c))) of Inl _ \<Rightarrow> None | Inr r \<Rightarrow> r))"

lemma replay_turn_decides:
  assumes "replay_turn env i v = (None, w')"
  obtains e rp where "replay_step (c_replay (ctl v i)) = (Inr e, rp)"
    "act env i e (upd_ctl i (\<lambda>c. c\<lparr>c_replay := rp\<rparr>) v) = (None, w')"
  using assms that by (auto simp: replay_turn_def Let_def split: prod.splits sum.splits)

lemma agent_turn_decides:
  assumes "agent_turn env i v = (None, w')"
  obtains x v1 where "stream v1 = stream v" "agent_error env i x v1 = (None, w')"
  | e v1 where "fst (ag_step env (c_agent (ctl v i)) (st_of v i)) = Inr (Some e)" "stream v1 = stream v"
      "act env i (e\<lparr>m_source := Some AGENT\<rparr>) v1 = (None, w')"
proof -
  obtain r ag st where r: "ag_step env (c_agent (ctl v i)) (st_of v i) = (r, ag, st)" using prod_cases3 by blast
  show thesis
  proof (cases r)
    case (Inl x)
    with assms r show thesis
      by (intro that(1) [of "put_state i st (upd_ctl i (\<lambda>c. c\<lparr>c_agent := ag\<rparr>) v)"]) (simp_all add: agent_turn_def)
  next
    case (Inr o1)
    with assms r show thesis
      by (cases o1; intro that(1) [of "put_state i st (upd_ctl i (\<lambda>c. c\<lparr>c_agent := ag\<rparr>) v)"]
          that(2) [of _ "put_state i st (upd_ctl i (\<lambda>c. c\<lparr>c_agent := ag\<rparr>) v)"]) (simp_all add: agent_turn_def)
  qed
qed

text \<open>
  A step that is not blocked and ends without an exception puts an event on the stream, unless
  its action is the null action.
\<close>

lemma step_progress:
  assumes "i < length (stack w)" "agent_state (st_of w i) = RUNNING" "c_pending (ctl w i) = None"
    and run: "step env i w = (None, w')"
  shows "more_events w w' \<or> (\<exists>e. next_decision env (ctl w i) = Some e \<and> payload e = Act NullAction)"
proof -
  define w1 where "w1 = upd_state i sync_budget_flag_with_metrics w"
  have sy: "agent_state (sync_budget_flag_with_metrics st) = agent_state st" for st
    by (simp add: sync_budget_flag_with_metrics_def split: option.split)
  obtain b w2 where s: "(if enable_stuck_detection env (c_agent (ctl w1 i)) then is_stuck_op i w1 else (False, w1)) = (b, w2)"
    by fastforce
  have w2: "i < length (stack w2)" "agent_state (st_of w2 i) = RUNNING" "stream w2 = stream w"
    "st_of w2 i = sync_budget_flag_with_metrics (st_of w i)" "c_agent (ctl w2 i) = c_agent (ctl w i)"
    "c_replay (ctl w2 i) = c_replay (ctl w i)"
    using s assms(1,2) stuck_op_frame [of i w1 b w2] by (auto simp: w1_def sy split: if_splits)
  obtain y st where c: "run_control_flags (st_of w2 i) = (y, st)" by fastforce
  then have "agent_state st = RUNNING" "asked_state (st_of w i) = st"
    using w2(2,4) by (auto simp: run_control_flags_def Let_def split_beta asked_state_def split: option.splits)
  then have w3: "i < length (stack (put_state i st w2))" "agent_state (st_of (put_state i st w2) i) = RUNNING"
    "stream (put_state i st w2) = stream w" "asked_state (st_of w i) = st" using w2 by simp_all
  obtain d rp where d: "should_replay (c_replay (ctl w i)) = (d, rp)" by fastforce
  define w4 where "w4 = upd_ctl i (\<lambda>c. c\<lparr>c_replay := rp\<rparr>) (put_state i st w2)"
  have w4: "stream w4 = stream w" "c_agent (ctl w4 i) = c_agent (ctl w i)" "st_of w4 i = asked_state (st_of w i)"
    "c_replay (ctl w4 i) = rp" using w2 w3 by (simp_all add: w4_def)
  have act: "more_events w w' \<or> payload e = Act NullAction" if "act env i e v = (None, w')" "stream v = stream w" for e v
    using act_more [OF that(1)] more_events_stream [OF that(2)] by auto
  from run assms(2,3) have cs: "checked_step env i w = (None, w')" by (simp add: step_def)
  consider "b" "react_to_exception env i stuck_exn w2 = (None, w')"
    | x where "react_to_exception env i x (put_state i st w2) = (None, w')"
    | "(if d then replay_turn env i w4 else agent_turn env i w4) = (None, w')"
    using cs d w2(1,6)
    by (cases b; cases y; cases d) (simp_all add: checked_step_def Let_def w1_def [symmetric] s c w4_def)
  then show ?thesis
  proof cases
    case 3
    show ?thesis
    proof (cases d)
      case True
      then obtain e rp' where e: "replay_step rp = (Inr e, rp')" "act env i e (upd_ctl i (\<lambda>c. c\<lparr>c_replay := rp'\<rparr>) w4) = (None, w')"
        using replay_turn_decides [of env i w4 w'] 3 w4(4) by auto
      then show ?thesis using act [OF e(2)] True d w4(1) by (auto simp: next_decision_def)
    next
      case False
      then have "agent_turn env i w4 = (None, w')" using 3 by simp
      then show ?thesis
      proof (cases rule: agent_turn_decides)
        case (1 x v1)
        then show ?thesis using agent_error_more more_events_stream [of v1 w] w4(1) by metis
      next
        case (2 e v1)
        then show ?thesis using act [OF 2(3)] False d w4 by (auto simp: next_decision_def)
      qed
    qed
  qed (use react_more [OF w2(1,2)] more_events_stream [OF w2(3)] react_more [OF w3(1,2)] more_events_stream [OF w3(3)] in blast)+
qed

section \<open>Runs of the controller\<close>

text \<open>The worlds that callbacks of the stream lead to, exceptions included\<close>

inductive reaches :: "('a, 'c) env \<Rightarrow> ('a, 'c) world \<Rightarrow> ('a, 'c) world \<Rightarrow> bool" for env w0 where
  reaches_start: "reaches env w0 w0"
| reaches_event: "reaches env w0 w \<Longrightarrow> on_event env 0 e w = (x, w') \<Longrightarrow> reaches env w0 w'"

lemma reaches_okw:
  assumes "reaches env w0 w" "keeps_stats env" "okw 0 0 w0 w0"
  shows "okw 0 0 w0 w"
  using assms
proof (induction rule: reaches.induct)
  case (reaches_event w e x w')
  then show ?case using preservesD [OF okw_on_event, of env 0 0 w0 w e] by simp
qed simp

section \<open>The system message\<close>

text \<open>It is added once: a second controller on the same stream finds it and adds nothing.\<close>

lemma add_system_message_once:
  assumes ok: "stream_ok (env_codec env) s n" and sec: "secrets s = []" and st: "0 \<le> start_id st" "start_id st \<le> n"
    and m: "ag_system_message env agent = Some m" "payload m = Act (SystemMessageAction sm)"
      "serializable m" "m_id m = None"
    and run: "add_system_message env agent st s = (None, s')" "s' \<noteq> s"
  shows "event_at (env_codec env) s' n = Some (persisted (stamped (env_now env) (Some AGENT) n m)) \<and>
    add_system_message env agent st s' = (None, s')"
proof -
  from run m(1) obtain e' where a: "add_event (env_codec env) (env_now env) m (Some AGENT) s = (None, e', s')"
    by (auto simp: add_system_message_def split: sum.splits option.splits if_splits prod.splits)
  obtain n' s0 d ev where r: "cur_id s = Inr (n', s0)"
    "sanitized (env_codec env) (env_now env) (Some AGENT) n' (map snd (secrets s)) m = Some (d, ev)"
    "ev_id m = INVALID_ID"
    using a by (rule add_event_succeeds)
  have "n' = n" using r(1) ok by (auto simp: stream_ok_def cur_id_def)
  note R = add_event_refines [OF ok r(3) r(2) [unfolded \<open>n' = n\<close>]]
  from R a have s': "stream_ok (env_codec env) s' (n + 1)"
    "event_at (env_codec env) s' = (event_at (env_codec env) s)(n \<mapsto> ev)" by auto
  have ev: "ev = persisted (stamped (env_now env) (Some AGENT) n m)"
    using sanitized_plain [OF m(3)] r(2) sec \<open>n' = n\<close> by simp
  have stops: "stops_system_message ev"
    using m(2) by (simp add: ev stops_system_message_def isinstance_def persisted_def stamped_def)
  have cur: "store_ok (env_codec env) s'" "cur_id s' = Inr (n + 1, s')"
    using s'(1) by (simp_all add: stream_ok_def cur_id_def)
  have "ev \<in> set (List.map_filter (event_at (env_codec env) s') [start_id st..n])"
    using s'(2) st by (auto simp: map_filter_def image_iff intro!: bexI [of _ n])
  then have "find stops_system_message (List.map_filter (event_at (env_codec env) s') [start_id st..n]) \<noteq> None"
    using stops by (auto simp: find_None_iff)
  then obtain f where "find stops_system_message (List.map_filter (event_at (env_codec env) s') [start_id st..n]) = Some f"
    by blast
  then have "search_first (env_codec env) s' (start_id st) False stops_system_message = Inr (Some f)"
    using search_first_spec [OF cur, of "start_id st" False] by (simp add: search_range_def)
  then show ?thesis using s'(2) by (simp add: add_system_message_def ev)
qed

end
