(* ===== verification/Runtime_Rules.thy ===== *)
theory Runtime_Rules
  imports Runtime Controller_Protocol
begin

text \<open>
  The runtime and the controller on the same stream: what the controller puts on the stream for an action, and what
  the runtime makes of it.
\<close>

section \<open>What is read back\<close>

text \<open>Reading an action back keeps its payload, its source and its id; the mark only if the class has the field.\<close>

lemma stored_plain:
  assumes "sanitized cd now src n [] e = Some (d, ev)" "serializable e" "payload e = Act a"
  shows "payload ev = Act a" "m_confirmation ev = None" "m_source ev = src" "ev_id ev = n" "m_tool_call ev = m_tool_call e"
proof -
  have ev: "ev = persisted (stamped now src n e)" by (rule sanitized_plain [OF assms(2,1)])
  then show "payload ev = Act a" "m_confirmation ev = None" "m_source ev = src" "m_tool_call ev = m_tool_call e"
    using assms(3) by (simp_all add: persisted_def stamped_def)
  show "ev_id ev = n" by (simp add: ev persisted_def stamped_def ev_id_def)
qed

fun marked_class :: "action \<Rightarrow> bool" where
  "marked_class (CmdRunAction _) = True"
| "marked_class (IPythonRunCellAction _) = True"
| "marked_class _ = False"

lemma confirmation_of_payload:
  "payload e = Act a \<Longrightarrow> marked_class a \<Longrightarrow> payload e' = Act a \<Longrightarrow> get_confirmation e' = get_confirmation e"
  by (cases a) (simp_all add: get_confirmation_def)

lemma confirmation_unmarked:
  "payload e = Act a \<Longrightarrow> \<not> marked_class a \<Longrightarrow> get_confirmation e = m_confirmation e"
  by (cases a) (simp_all add: get_confirmation_def)

section \<open>The event a step sends\<close>

lemma act_sends:
  assumes "i < length (stack w)" "c_pending (ctl w i) = None" "act env i e w = (None, w')" "c_pending (ctl w' i) = Some p"
  obtains a e1 w2 where "runnable a" "send_action env i a e1 w2 = (None, w')" "i < length (stack w2)"
proof -
  obtain a where a: "payload e = Act a" "runnable a" using act_pending [OF assms] by blast
  moreover have "a \<noteq> NullAction" using a(2) by auto
  moreover have "i < length (stack w2)" if "set_agent_state_to env i st (upd_ctl i f w) = (x, w2)" for f st x w2
    using set_agent_state_result(2) [of i "upd_ctl i f w" env st] assms(1) that by simp
  ultimately show thesis
    using assms(1,3) that by (auto simp: act_def Let_def when_op_def split: prod.splits option.splits if_splits)
qed

lemma send_action_sends:
  assumes "send_action env i a e w = (None, w')" "runnable a" "c_pending (ctl w' i) = Some p" "i < length (stack w)"
  obtains e2 n d ev where "p = stamped (env_now env) (m_source e2) n e2"
    "sanitized (env_codec env) (env_now env) (m_source e2) n (map snd (secrets (stream w'))) e2 = Some (d, ev)"
    "equeue (stream w') = equeue (stream w) @ [ev]"
proof -
  from assms(1) obtain e2 where e2: "prepare_metrics (ctl w i) e = Inr e2"
    by (cases "prepare_metrics (ctl w i) e") (auto simp: send_action_def)
  obtain x e3 s where add: "add_event (env_codec env) (env_now env) e2 (m_source e2) (stream w) = (x, e3, s)"
    using prod_cases3 by blast
  from assms(1,2) e2 add have x: "x = None" and w': "w' = upd_ctl i (\<lambda>c. c\<lparr>c_pending := Some e3\<rparr>) (w\<lparr>stream := s\<rparr>)"
    by (auto simp: send_action_def)
  then have p: "p = e3" using assms(3,4) by simp
  from add [unfolded x] show thesis
    by (rule add_event_succeeds) (rule that, use w' p in auto)
qed

text \<open>The last event of the queue is the stored form of the action that is pending.\<close>

lemma step_sends:
  assumes "i < length (stack w)" "c_pending (ctl w i) = None" "keeps_mode env"
    and "step env i w = (None, w')" "c_pending (ctl w' i) = Some p"
    and "secrets (stream w') = []" "serializable p" "payload p = Act a"
  obtains ev q where "equeue (stream w') = q @ [ev]" "payload ev = Act a" "m_confirmation ev = None"
    "ev_id ev = ev_id p"
proof -
  obtain e w1 where "act env i e w1 = (None, w')" "i < length (stack w1)" "c_pending (ctl w1 i) = None"
    using step_pending [OF assms(1-5)] by metis
  then obtain b e1 w2 where "runnable b" "send_action env i b e1 w2 = (None, w')" "i < length (stack w2)"
    using act_sends assms(5) by metis
  from send_action_sends [OF this(2,1) assms(5) this(3)] obtain e2 n d ev
    where e2: "p = stamped (env_now env) (m_source e2) n e2"
      "sanitized (env_codec env) (env_now env) (m_source e2) n [] e2 = Some (d, ev)"
      "equeue (stream w') = equeue (stream w2) @ [ev]"
    using assms(6) by (metis list.simps(8))
  have "serializable e2" "payload e2 = Act a" using assms(7,8) e2(1) by (simp_all add: serializable_def stamped_def)
  from stored_plain [OF e2(2) this] that [OF e2(3)] e2(1) show thesis by (simp add: stamped_def ev_id_def)
qed

section \<open>The runtime on an action\<close>

lemma with_timeout_simps [simp]:
  "m_id (with_timeout rt e) = m_id e" "m_source (with_timeout rt e) = m_source e"
  "m_tool_call (with_timeout rt e) = m_tool_call e" "ev_id (with_timeout rt e) = ev_id e"
  "check_cmd_action_for_provider_token_ref (with_timeout rt e) = check_cmd_action_for_provider_token_ref e"
  "get_confirmation (with_timeout rt e) = get_confirmation e"
  by (auto simp: with_timeout_def set_hard_timeout_def ev_id_def check_cmd_action_for_provider_token_ref_def
      get_confirmation_def split: payload.split action.split)

text \<open>The type of an action survives the timeout.\<close>

lemma with_timeout_act:
  assumes "payload e = Act a"
  shows "\<exists>b. payload (with_timeout rt e) = Act b \<and> action_type b = action_type a \<and> runnable b = runnable a"
proof (cases "\<exists>c. a = CmdRunAction c")
  case False
  with assms have "payload (with_timeout rt e) = Act a"
    by (cases a) (simp_all add: with_timeout_def set_hard_timeout_def)
  then show ?thesis by blast
qed (use assms in \<open>auto simp: with_timeout_def set_hard_timeout_def\<close>)

lemma action_types_known: "action_type a \<in> set ACTION_TYPES"
  by (cases a) (simp_all add: ACTION_TYPES_def)

lemma no_tokens_exported:
  "check_cmd_action_for_provider_token_ref e = [] \<Longrightarrow> export_latest_git_provider_tokens env e rt = (None, rt)"
  by (simp add: export_latest_git_provider_tokens_def)

text \<open>
  A runnable action. The tokens it names are exported first; then nothing is done while it awaits confirmation, a
  runtime that does not support it says so, the refusal of the user is reported when it is rejected, and otherwise it
  is run in the sandbox. A tool of an MCP server is called without these checks.
\<close>

definition perform ::
    "'s runtime_env \<Rightarrow> event \<Rightarrow> action \<Rightarrow> ('s, 'c) runtime \<Rightarrow> (rt_exn + event) \<times> ('s, 'c) runtime" where
  "perform env e a rt =
     (if action_type a = ''call_tool_mcp'' then in_sandbox (rt_mcp env e) rt
      else if \<not> rt_supports env (action_type a)
      then (Inr (mk_error (''Action '' @ action_type a @ '' is not supported in the current runtime.'')), rt)
      else in_sandbox (rt_execute env e) rt)"

lemma runtime_exports:
  assumes "payload e = Act a" "runnable a" "action_type a \<noteq> ''call_tool_mcp''"
  shows "runtime_on_event env e rt =
    (case export_latest_git_provider_tokens env (with_timeout rt e) rt of
       (Some x, rt1) \<Rightarrow> conclude env (with_timeout rt e) (Inl x, rt1)
     | (None, rt1) \<Rightarrow>
         if get_confirmation e = Some AWAITING_CONFIRMATION then (None, rt1)
         else if get_confirmation e = Some CONFIRM_REJECTED \<and> rt_supports env (action_type a)
         then publish env (with_timeout rt e)
           (mk_obs (UserRejectObservation ''Action has been rejected by the user! Waiting for further user input.'')) rt1
         else conclude env (with_timeout rt e) (perform env (with_timeout rt e) a rt1))"
proof -
  obtain b where b: "payload (with_timeout rt e) = Act b" "action_type b = action_type a" "runnable b"
    using with_timeout_act [OF assms(1)] assms(2) by metis
  obtain x rt1 where ex: "export_latest_git_provider_tokens env (with_timeout rt e) rt = (x, rt1)" by fastforce
  have "attempt_action env (with_timeout rt e) rt =
      (case x of Some y \<Rightarrow> (Inl y, rt1) | None \<Rightarrow> run_action env (with_timeout rt e) b rt1)"
    using b assms(3) by (cases x; cases b) (simp_all add: attempt_action_def ex)
  then show ?thesis
    using assms(1,3) b action_types_known [of b]
    by (simp add: runtime_on_event_def is_action_def handle_runtime_action_def run_action_def perform_def conclude_def
        publish_def is_null_obs_def ex split: option.split)
qed

lemma runtime_mcp:
  assumes "payload e = Act a" "action_type a = ''call_tool_mcp''"
  shows "runtime_on_event env e rt = conclude env (with_timeout rt e) (perform env (with_timeout rt e) a rt)"
proof -
  obtain m where m: "a = MCPAction m" using assms(2) by (cases a) simp_all
  then have "payload (with_timeout rt e) = Act a" "check_cmd_action_for_provider_token_ref e = []"
    using assms(1) by (simp_all add: with_timeout_def set_hard_timeout_def check_cmd_action_for_provider_token_ref_def)
  then show ?thesis
    using assms m by (simp add: runtime_on_event_def is_action_def handle_runtime_action_def attempt_action_def
        no_tokens_exported perform_def)
qed

lemma runtime_runnable:
  assumes "payload e = Act a" "runnable a" "action_type a \<noteq> ''call_tool_mcp''" "check_cmd_action_for_provider_token_ref e = []"
    and "rt_supports env (action_type a)"
  shows "runtime_on_event env e rt =
    (if get_confirmation e = Some AWAITING_CONFIRMATION then (None, rt)
     else if get_confirmation e = Some CONFIRM_REJECTED
     then publish env (with_timeout rt e)
       (mk_obs (UserRejectObservation ''Action has been rejected by the user! Waiting for further user input.'')) rt
     else conclude env (with_timeout rt e) (in_sandbox (rt_execute env (with_timeout rt e)) rt))"
  using runtime_exports [OF assms(1-3), of env rt] assms(3-5) by (simp add: no_tokens_exported perform_def)

lemma runtime_performs:
  assumes "payload e = Act a" "runnable a" "check_cmd_action_for_provider_token_ref e = []"
    and "get_confirmation e = None \<or> get_confirmation e = Some CONFIRMED"
  shows "runtime_on_event env e rt = conclude env (with_timeout rt e) (perform env (with_timeout rt e) a rt)"
  using runtime_exports [OF assms(1,2), of env rt] runtime_mcp [OF assms(1), of env rt] assms(3,4)
  by (cases "action_type a = ''call_tool_mcp''") (auto simp: no_tokens_exported)

lemma runtime_awaiting:
  assumes "payload e = Act a" "runnable a" "action_type a \<noteq> ''call_tool_mcp''"
    and "get_confirmation e = Some AWAITING_CONFIRMATION"
  shows "runtime_on_event env e rt =
    (case export_latest_git_provider_tokens env (with_timeout rt e) rt of
       (Some x, rt1) \<Rightarrow> conclude env (with_timeout rt e) (Inl x, rt1)
     | (None, rt1) \<Rightarrow> (None, rt1))"
  using runtime_exports [OF assms(1-3), of env rt] assms(4) by (simp split: option.split prod.split)

section \<open>The observation\<close>

text \<open>What is published names the action as its cause.\<close>

lemma publish_None:
  assumes "publish env e ob rt = (None, rt')"
  obtains "is_null_obs ob" "rt' = rt"
  | n d ev where "\<not> is_null_obs ob"
      "sanitized (rt_codec env) (rt_now env) (Some (case m_source e of Some s \<Rightarrow> s | None \<Rightarrow> AGENT)) n
         (map snd (secrets (rt_stream rt))) (ob\<lparr>m_cause := Some (ev_id e), m_tool_call := m_tool_call e\<rparr>) = Some (d, ev)"
      "equeue (rt_stream rt') = equeue (rt_stream rt) @ [ev]" "rt_sandbox rt' = rt_sandbox rt"
proof (cases "is_null_obs ob")
  case True
  with assms show thesis using that(1) by (simp add: publish_def is_null_obs_def)
next
  case False
  let ?ob = "ob\<lparr>m_cause := Some (ev_id e), m_tool_call := m_tool_call e\<rparr>"
  let ?src = "Some (case m_source e of Some s \<Rightarrow> s | None \<Rightarrow> AGENT)"
  obtain x e3 s where add: "add_event (rt_codec env) (rt_now env) ?ob ?src (rt_stream rt) = (x, e3, s)"
    using prod_cases3 by blast
  with assms False have x: "x = None" "rt' = rt\<lparr>rt_stream := s\<rparr>"
    by (simp_all add: publish_def is_null_obs_def Let_def)
  from add [unfolded x(1)] show thesis
    by (rule add_event_succeeds) (rule that(2) [OF False], use x in auto)
qed

end
