(* ===== verification/Stream_Restart.thy ===== *)
theory Stream_Restart
  imports Event_Stream
begin

text \<open>
  Reopening a conversation and delivering its events: the id counter is recovered from the file
  names (\<open>EventStore._calculate_cur_id\<close>), and every subscribed callback is given the queued events in
  order (\<open>EventStream._process_queue\<close>).
\<close>

section \<open>Recovering the counter\<close>

text \<open>Only event files lie in the events directory.\<close>

definition events_dir_ok :: "'a event_store_scheme \<Rightarrow> int \<Rightarrow> bool" where
  "events_dir_ok st n \<longleftrightarrow>
     (\<forall>p \<in> set (map fst (es_files st)).
        str_startswith p (get_conversation_events_dir (es_sid st) (es_user st)) \<longrightarrow>
        (\<exists>i. 0 \<le> i \<and> i < n \<and> p = filename_for_id st i))"

lemma filename_split:
  assumes "0 \<le> i"
  shows "filename_for_id st i =
    get_conversation_events_dir (es_sid st) (es_user st) @ show_nat (nat i) @ ''.json''"
    and "CHR ''/'' \<notin> set (show_nat (nat i) @ ''.json'')"
  using assms show_nat_digits [of "CHR ''/''" "nat i"] is_digit_neqs [of "CHR ''/''"]
  by (auto simp: filename_for_id_def get_conversation_event_filename_def show_int_def)

lemma get_id_filename:
  assumes "0 \<le> i"
  shows "get_id_from_filename (filename_for_id st i) = i"
proof -
  have dot: "CHR ''.'' \<notin> set (show_nat (nat i))"
    using show_nat_digits [of "CHR ''.''" "nat i"] is_digit_neqs [of "CHR ''.''"] by auto
  let ?dir = "get_conversation_dir (es_sid st) (es_user st) @ ''events''"
  let ?f = "show_nat (nat i) @ ''.json''"
  have "filename_for_id st i = ?dir @ CHR ''/'' # ?f"
    using filename_split(1) [OF assms] by (simp add: get_conversation_events_dir_def)
  then have "str_split (CHR ''/'') (filename_for_id st i) = str_split (CHR ''/'') ?dir @ [?f]"
    using str_split_append_sep [of "CHR ''/''" ?dir ?f] str_split_nosep [OF filename_split(2) [OF assms]]
    by metis
  moreover have "hd (str_split (CHR ''.'') ?f) = show_nat (nat i)"
    using str_split_append_sep [of "CHR ''.''" "show_nat (nat i)" "''json''"] str_split_nosep [OF dot]
    by simp
  ultimately show ?thesis using assms by (simp add: get_id_from_filename_def)
qed

lemma fs_list_entry_event:
  assumes "0 \<le> i"
  shows "fs_list_entry (get_conversation_events_dir (es_sid st) (es_user st)) files (filename_for_id st i)
    = files @ [filename_for_id st i]"
proof -
  let ?dir = "get_conversation_events_dir (es_sid st) (es_user st)"
  let ?f = "show_nat (nat i) @ ''.json''"
  note f = filename_split [OF assms]
  have "str_removeprefix (filename_for_id st i) ?dir = ?f" by (simp only: f str_removeprefix_append)
  moreover have "str_startswith (filename_for_id st i) ?dir" by (simp add: f str_startswith_iff)
  ultimately show ?thesis
    using str_split_nosep [OF f(2)] by (simp add: fs_list_entry_def)
qed

lemma fs_list_events:
  assumes "events_dir_ok st n"
  shows "fs_list (es_files st) (get_conversation_events_dir (es_sid st) (es_user st)) =
    Some (filter (\<lambda>p. str_startswith p (get_conversation_events_dir (es_sid st) (es_user st)))
            (map fst (es_files st)))"
proof -
  let ?dir = "get_conversation_events_dir (es_sid st) (es_user st)"
  have "foldl (fs_list_entry ?dir) acc ps = acc @ filter (\<lambda>p. str_startswith p ?dir) ps"
    if "\<forall>p \<in> set ps. str_startswith p ?dir \<longrightarrow> (\<exists>i. 0 \<le> i \<and> i < n \<and> p = filename_for_id st i)" for acc ps
    using that
  proof (induction ps arbitrary: acc)
    case (Cons p ps)
    show ?case
    proof (cases "str_startswith p ?dir")
      case True
      with Cons.prems obtain i where "0 \<le> i" "p = filename_for_id st i" by auto
      with True Cons show ?thesis by (simp add: fs_list_entry_event)
    next
      case False
      with Cons show ?thesis by (simp add: fs_list_entry_def)
    qed
  qed simp
  moreover have "?dir \<notin> set (map fst (es_files st))"
  proof
    assume "?dir \<in> set (map fst (es_files st))"
    moreover have "str_startswith ?dir ?dir" by (simp add: str_startswith_def)
    ultimately obtain i where "0 \<le> i" "?dir = filename_for_id st i"
      using assms unfolding events_dir_ok_def by blast
    then show False using filename_split(1) [of i st] by simp
  qed
  ultimately show ?thesis
    using assms [unfolded events_dir_ok_def] by (simp add: fs_list_def del: set_map)
qed

lemma max_file_id_Max: "max_file_id files = Max (insert (- 1) (get_id_from_filename ` set files))"
proof -
  have "foldl (\<lambda>m f. if get_id_from_filename f \<ge> m then get_id_from_filename f else m) a files
      = Max (insert a (get_id_from_filename ` set files))" for a
  proof (induction files arbitrary: a)
    case (Cons f fs)
    let ?S = "get_id_from_filename ` set fs"
    have "Max (insert (max a (get_id_from_filename f)) ?S) = Max (insert a (insert (get_id_from_filename f) ?S))"
      by (cases "?S = {}") (simp_all add: max.assoc)
    moreover have "(if get_id_from_filename f \<ge> a then get_id_from_filename f else a) = max a (get_id_from_filename f)"
      by (simp add: max_def)
    ultimately show ?case by (simp only: foldl.simps Cons list.set image_insert)
  qed simp
  then show ?thesis by (simp add: max_file_id_def)
qed

lemma calculate_cur_id_ok:
  fixes st :: "'c event_stream"
  assumes ok: "stream_ok cd st n" and dir: "events_dir_ok st n"
  shows "calculate_cur_id st = Inr n"
proof -
  let ?dir = "get_conversation_events_dir (es_sid st) (es_user st)"
  let ?fs = "filter (\<lambda>p. str_startswith p ?dir) (map fst (es_files st))"
  have present: "filename_for_id st i \<in> set ?fs \<longleftrightarrow> i < n" if "0 \<le> i" for i
  proof -
    have "fs_read (es_files st) (filename_for_id st i) \<noteq> None \<longleftrightarrow> i < n"
      using ok that unfolding stream_ok_def by blast
    then show ?thesis
      using filename_split(1) [OF that, of st]
      by (simp add: fs_read_def map_of_eq_None_iff str_startswith_iff)
  qed
  have ids: "get_id_from_filename ` set ?fs = {0..<n}"
  proof (intro set_eqI iffI)
    fix j assume "j \<in> get_id_from_filename ` set ?fs"
    then obtain p where "p \<in> set ?fs" "j = get_id_from_filename p" by auto
    with dir obtain i where "0 \<le> i" "i < n" "p = filename_for_id st i"
      by (auto simp: events_dir_ok_def)
    with \<open>j = _\<close> show "j \<in> {0..<n}" by (simp add: get_id_filename)
  next
    fix j assume "j \<in> {0..<n}"
    with present [of j] get_id_filename [of j st] show "j \<in> get_id_from_filename ` set ?fs"
      by (metis atLeastLessThan_iff image_eqI)
  qed
  have n0: "0 \<le> n" using ok by (simp add: stream_ok_def)
  have "?fs = [] \<longleftrightarrow> n = 0"
    using ids n0 by (metis atLeastLessThan_empty_iff image_is_empty not_le order_antisym set_empty)
  moreover have "max_file_id ?fs + 1 = n" if "n \<noteq> 0"
  proof -
    have "Max (insert (- 1) {0..<n}) = n - 1"
      using that n0 by (intro Max_eqI) auto
    then show ?thesis by (simp add: max_file_id_Max ids del: set_filter set_map)
  qed
  ultimately show ?thesis
    using fs_list_events [OF dir] by (auto simp: calculate_cur_id_def)
qed

text \<open>Adding events leaves only event files in the events directory.\<close>

lemma cache_not_in_events_dir:
  "\<not> str_startswith (get_filename_for_cache sid u s e) (get_conversation_events_dir sid u)"
  by (auto simp: str_startswith_iff get_filename_for_cache_def get_conversation_events_dir_def)

lemma events_dir_ok_write_event:
  assumes "events_dir_ok st n" "0 \<le> n"
  shows "events_dir_ok (st\<lparr>es_files := fs_write (es_files st) (filename_for_id st n) c\<rparr>) (n + 1)"
  using assms dom_alist_set [of "filename_for_id st n" c "es_files st"]
  by (auto simp: events_dir_ok_def fs_write_def filename_for_id_def simp del: dom_alist_set) force+

lemma events_dir_ok_write_page:
  assumes "events_dir_ok st n"
  shows "events_dir_ok
    (st\<lparr>es_files := fs_write (es_files st) (get_filename_for_cache (es_sid st) (es_user st) s e) c\<rparr>) n"
  using assms dom_alist_set [of "get_filename_for_cache (es_sid st) (es_user st) s e" c "es_files st"]
    cache_not_in_events_dir
  by (auto simp: events_dir_ok_def fs_write_def filename_for_id_def simp del: dom_alist_set)

section \<open>Delivery\<close>

text \<open>What one callback is given, in order\<close>

definition given_to :: "string \<Rightarrow> string \<Rightarrow> (string \<times> string \<times> 'c \<times> event) list \<Rightarrow> event list" where
  "given_to s c subs = map (\<lambda>(_, _, _, e). e) (filter (\<lambda>(s', c', _, _). s' = s \<and> c' = c) subs)"

definition subscribers_ok :: "'c event_stream \<Rightarrow> bool" where
  "subscribers_ok st \<longleftrightarrow>
     distinct (map fst (subscribers st)) \<and> (\<forall>(s, cbs) \<in> set (subscribers st). distinct (map fst cbs))"

lemma given_to_append [simp]: "given_to s c (xs @ ys) = given_to s c xs @ given_to s c ys"
  by (simp add: given_to_def)

lemma given_to_concat: "given_to s c (concat xss) = concat (map (given_to s c) xss)"
  by (induction xss) (simp_all add: given_to_def)

lemma given_to_one_subscriber:
  assumes "distinct (map fst cbs)"
  shows "given_to s c (map (\<lambda>(c', cb). (s', c', cb, e)) cbs) =
    (if s' = s \<and> c \<in> set (map fst cbs) then [e] else [])"
  using assms
proof (induction cbs)
  case (Cons x cbs)
  then show ?case by (cases x; cases "s' = s"; cases "fst x = c") (simp_all add: given_to_def)
qed (simp add: given_to_def)

lemma concat_map_single:
  "distinct ks \<Longrightarrow> (\<And>k. k \<in> set ks \<Longrightarrow> f k = (if k = s \<and> P then xs else [])) \<Longrightarrow>
   concat (map f ks) = (if s \<in> set ks \<and> P then xs else [])"
  by (induction ks) auto

lemma submissions_once:
  assumes "subscribers_ok st"
  shows "given_to s c (submissions st e) = (if has_callback st s c then [e] else [])"
proof -
  let ?f = "\<lambda>s'. given_to s c (map (\<lambda>(c', cb). (s', c', cb, e)) (keyed (subscribers st) s'))"
  have d: "distinct (map fst (keyed (subscribers st) s'))" for s'
    using assms by (auto simp: keyed_def subscribers_ok_def split: option.split dest: map_of_SomeD)
  have "concat (map ?f (sort (map fst (subscribers st)))) =
      (if s \<in> set (sort (map fst (subscribers st))) \<and> c \<in> set (map fst (keyed (subscribers st) s)) then [e] else [])"
    by (rule concat_map_single)
      (use assms given_to_one_subscriber [OF d] in \<open>auto simp: subscribers_ok_def\<close>)
  moreover have "has_callback st s c \<longleftrightarrow>
      s \<in> set (sort (map fst (subscribers st))) \<and> c \<in> set (map fst (keyed (subscribers st) s))"
  proof (cases "map_of (subscribers st) s")
    case None
    then have "s \<notin> set (map fst (subscribers st))" by (simp add: map_of_eq_None_iff)
    with None show ?thesis by (simp add: has_callback_def)
  next
    case (Some cbs)
    then have "s \<in> set (map fst (subscribers st))" by (force dest: map_of_SomeD)
    with Some show ?thesis by (simp add: has_callback_def keyed_def)
  qed
  ultimately show ?thesis by (simp add: submissions_def given_to_concat o_def)
qed

lemma process_queue_delivers:
  assumes "subscribers_ok st" "\<not> stop_flag st"
  shows "given_to s c (snd (process_queue k st)) = (if has_callback st s c then take k (equeue st) else [])
    \<and> equeue (fst (process_queue k st)) = drop k (equeue st)"
  using assms
proof (induction k arbitrary: st)
  case (Suc k)
  show ?case
  proof (cases "equeue st")
    case Nil
    with Suc show ?thesis
      by (simp add: process_queue_step_def split_beta Let_def)
  next
    case (Cons e es)
    let ?st = "st\<lparr>equeue := es\<rparr>"
    have "given_to s c (snd (process_queue k ?st)) = (if has_callback ?st s c then take k es else [])
        \<and> equeue (fst (process_queue k ?st)) = drop k es"
      using Suc.IH [of ?st] Suc.prems by (simp add: subscribers_ok_def)
    moreover have "has_callback ?st s c = has_callback st s c" by (simp add: has_callback_def)
    ultimately show ?thesis
      using Cons Suc.prems submissions_once [OF Suc.prems(1), of s c e]
      by (simp add: process_queue_step_def split_beta Let_def)
  qed
qed (simp add: given_to_def)

subsection \<open>Subscriptions\<close>

lemma keyed_alist_set [simp]: "keyed (alist_set s v m) s' = (if s' = s then v else keyed m s')"
  by (simp add: keyed_def)

lemma has_callback_keyed: "has_callback st s c \<longleftrightarrow> c \<in> set (map fst (keyed (subscribers st) s))"
  by (simp add: has_callback_def keyed_def split: option.split)

lemma map_fst_alist_del: "set (map fst (alist_del c d)) = set (map fst d) - {c}"
  unfolding alist_del_def by (induction d) auto

lemma subscribe_spec:
  assumes "subscribe s cb c st = (r, st')"
  shows "(r = None \<longleftrightarrow> \<not> has_callback st s c) \<and> has_callback st' s c \<and>
    (\<forall>s' c'. (s', c') \<noteq> (s, c) \<longrightarrow> has_callback st' s' c' = has_callback st s' c')"
proof -
  have "set (map fst (alist_set c cb d)) = insert c (set (map fst d))" for d :: "(string \<times> 'a) list"
    by (rule dom_alist_set)
  then show ?thesis
    using assms
    by (auto simp: subscribe_def Let_def has_callback_keyed keyed_def split: if_splits option.splits
        simp del: dom_alist_set set_map)
qed

lemma unsubscribe_spec:
  "has_callback (unsubscribe s c st) s' c' \<longleftrightarrow> has_callback st s' c' \<and> (s', c') \<noteq> (s, c)"
proof -
  have k: "map_of (subscribers st) s = None \<Longrightarrow> keyed (subscribers st) s = []" by (simp add: keyed_def)
  have frame: "has_callback (clean_up_subscriber s c st) s' c' \<longleftrightarrow>
      has_callback st s' c' \<and> (s', c') \<noteq> (s, c)" if "has_callback st s c"
    using that map_fst_alist_del [of c "keyed (subscribers st) s"]
    by (auto simp: clean_up_subscriber_def Let_def has_callback_keyed simp del: set_map)
  show ?thesis
  proof (cases "has_callback st s c")
    case True
    then have "unsubscribe s c st = clean_up_subscriber s c st"
      using k by (auto simp: unsubscribe_def has_callback_keyed)
    with frame [OF True] show ?thesis by simp
  next
    case False
    then have "unsubscribe s c st = st" by (auto simp: unsubscribe_def has_callback_keyed)
    with False show ?thesis by auto
  qed
qed

end
