(* ===== verification/Event_Log.thy ===== *)
theory Event_Log
  imports Stream_Restart
begin

text \<open>
  The event stream as a durable log, across \<open>events/stream.py\<close>, \<open>events/event_store.py\<close> and
  \<open>storage/memory.py\<close>. The abstract state is the list of the events accepted so far; the detailed
  state is the stream with its files, its write page, its cached next id and its subscribers. The
  relation \<open>log_run\<close> has one rule per operation of the stream, including a new stream object on
  the files of an old one, and the refinement lemma says that the detailed state always answers
  as the list does.
\<close>

section \<open>The invariant\<close>

text \<open>
  The stream is sound for \<open>n\<close> events; the next id is cached, or is found again from the files.
\<close>

definition log_ok :: "codec \<Rightarrow> 'c event_stream \<Rightarrow> int \<Rightarrow> bool" where
  "log_ok cd st n \<longleftrightarrow>
     stream_ok cd (st\<lparr>es_cur := Some n\<rparr>) n \<and> events_dir_ok st n \<and> es_cache_size st = 25 \<and>
     (es_cur st = None \<or> es_cur st = Some n)"

definition log_of :: "codec \<Rightarrow> 'c event_stream \<Rightarrow> int \<Rightarrow> event list" where
  "log_of cd st n = List.map_filter (event_at cd st) [0..n - 1]"

lemma event_at_cong [simp]:
  "event_at cd (st\<lparr>es_cur := c\<rparr>) = event_at cd st"
  "event_at cd (st\<lparr>secrets := ss\<rparr>) = event_at cd st"
  by (simp_all add: fun_eq_iff event_at_def get_event_def filename_for_id_def)

lemma event_at_files:
  assumes "es_files st' = es_files st" "es_sid st' = es_sid st" "es_user st' = es_user st"
  shows "event_at cd st' = event_at cd st"
  using assms by (simp add: fun_eq_iff event_at_def get_event_def filename_for_id_def)

lemma calculate_cur_id_files:
  "calculate_cur_id (st\<lparr>es_cur := c\<rparr>) = calculate_cur_id st"
  by (simp add: calculate_cur_id_def)

lemma log_ok_cur_id:
  assumes "log_ok cd st n"
  shows "cur_id st = Inr (n, st\<lparr>es_cur := Some n\<rparr>)"
proof (cases "es_cur st")
  case None
  have "events_dir_ok (st\<lparr>es_cur := Some n\<rparr>) n"
    using assms by (simp add: log_ok_def events_dir_ok_def filename_for_id_def)
  with assms None calculate_cur_id_ok [of cd "st\<lparr>es_cur := Some n\<rparr>" n] show ?thesis
    by (simp add: log_ok_def cur_id_def calculate_cur_id_files)
next
  case (Some k)
  with assms show ?thesis by (simp add: log_ok_def cur_id_def)
qed

lemma log_ok_store:
  assumes "log_ok cd st n" shows "store_ok cd st"
  using assms by (simp add: log_ok_def stream_ok_def store_ok_def filename_for_id_def)

lemma log_ok_at:
  assumes "log_ok cd st n"
  shows "event_at cd st i \<noteq> None \<longleftrightarrow> 0 \<le> i \<and> i < n"
    and "event_at cd st i = Some e \<Longrightarrow> ev_id e = i"
  using assms stream.ok_dom [of cd "st\<lparr>es_cur := Some n\<rparr>" n i]
  by (auto simp: log_ok_def stream_ok_def)

lemma map_filter_all_Some:
  "(\<And>x. x \<in> set xs \<Longrightarrow> f x \<noteq> None) \<Longrightarrow> List.map_filter f xs = map (the \<circ> f) xs"
proof (induction xs)
  case (Cons x xs)
  then obtain y where "f x = Some y" by fastforce
  with Cons show ?case by (simp add: map_filter_simps)
qed (simp add: map_filter_simps)

lemma log_of_map:
  assumes "log_ok cd st n"
  shows "log_of cd st n = map (the \<circ> event_at cd st) [0..n - 1]"
  unfolding log_of_def using log_ok_at(1) [OF assms] by (intro map_filter_all_Some) auto

lemma log_of_ids:
  assumes "log_ok cd st n"
  shows "map ev_id (log_of cd st n) = [0..n - 1]"
proof -
  have "ev_id (the (event_at cd st i)) = i" if "0 \<le> i" "i < n" for i
    using that log_ok_at [OF assms, of i] by (cases "event_at cd st i") auto
  then have "map (\<lambda>i. ev_id (the (event_at cd st i))) [0..n - 1] = [0..n - 1]"
    by (intro map_idI) auto
  then show ?thesis by (simp add: log_of_map [OF assms] o_def)
qed

lemma log_ok_length:
  assumes "log_ok cd st n"
  shows "int (length (log_of cd st n)) = n"
proof -
  have "0 \<le> n" using assms by (simp add: log_ok_def stream_ok_def)
  with arg_cong [OF log_of_ids [OF assms], of length] show ?thesis by simp
qed

section \<open>Operations\<close>

text \<open>A stream on an empty file store\<close>

lemma log_ok_init: "log_ok cd (event_stream_init sid [] user) 0"
  by (simp add: log_ok_def stream_ok_def store_ok_def events_dir_ok_def event_stream_init_def fs_read_def
      event_at_def get_event_def)

text \<open>A new stream object on the files of an old one\<close>

lemma log_ok_restart:
  fixes st :: "'c event_stream"
  assumes "log_ok cd st n"
  shows "log_ok cd (event_stream_init (es_sid st) (es_files st) (es_user st) :: 'c event_stream) n"
    and "log_of cd (event_stream_init (es_sid st) (es_files st) (es_user st) :: 'c event_stream) n = log_of cd st n"
proof -
  have "event_at cd (event_stream_init (es_sid st) (es_files st) (es_user st) :: 'c event_stream) = event_at cd st"
    by (rule event_at_files) (simp_all add: event_stream_init_def)
  then show "log_of cd (event_stream_init (es_sid st) (es_files st) (es_user st) :: 'c event_stream) n = log_of cd st n"
    by (simp add: log_of_def)
  show "log_ok cd (event_stream_init (es_sid st) (es_files st) (es_user st) :: 'c event_stream) n"
    using assms
    by (simp add: log_ok_def stream_ok_def store_ok_def events_dir_ok_def event_stream_init_def
        filename_for_id_def event_at_def get_event_def)
qed

text \<open>Operations that leave the files, the write page and the next id alone\<close>

lemma log_ok_frame:
  assumes "log_ok cd st n" "es_files st' = es_files st" "es_sid st' = es_sid st" "es_user st' = es_user st"
    and "es_cache_size st' = es_cache_size st" "es_cur st' = es_cur st" "write_page st' = write_page st"
  shows "log_ok cd st' n" and "log_of cd st' n = log_of cd st n"
  using assms event_at_files [of st' st cd]
  by (simp_all add: log_ok_def stream_ok_def store_ok_def events_dir_ok_def filename_for_id_def log_of_def)

lemma add_event_cur:
  assumes "cur_id st = Inr (n, st\<lparr>es_cur := Some n\<rparr>)"
  shows "add_event cd now e src st = add_event cd now e src (st\<lparr>es_cur := Some n\<rparr>) \<or> ev_id e \<noteq> INVALID_ID"
proof -
  have "cur_id (st\<lparr>es_cur := Some n\<rparr>) = Inr (n, st\<lparr>es_cur := Some n\<rparr>)" by (simp add: cur_id_def)
  with assms show ?thesis by (simp add: add_event_def)
qed

lemma store_cache_page_keeps:
  assumes "store_cache_page page st = Inr st'"
  shows "es_sid st' = es_sid st \<and> es_user st' = es_user st \<and> es_cache_size st' = es_cache_size st \<and>
    (events_dir_ok st m \<longrightarrow> events_dir_ok st' m) \<and>
    fs_read (es_files st') (filename_for_id st i) = fs_read (es_files st) (filename_for_id st i)"
  using assms events_dir_ok_write_page [of st m]
  by (auto simp: store_cache_page_def mem_store.read_write filename_for_id_def
      cache_filename_neq_event [symmetric] split: if_splits list.splits option.splits json.splits)

lemma add_event_frame:
  assumes san: "sanitized cd now src n (map snd (secrets st)) e = Some (d, ev)" and cur: "es_cur st = Some n"
    and n0: "0 \<le> n" and dir: "events_dir_ok st n" and run: "add_event cd now e src st = (None, e', st')"
  shows "es_sid st' = es_sid st \<and> es_user st' = es_user st \<and> es_cache_size st' = es_cache_size st \<and>
    events_dir_ok st' (n + 1) \<and> fs_read (es_files st') (filename_for_id st' n) = Some (EventDoc d)"
proof -
  note id = sanitized_id [OF san n0]
  from san obtain d0 where d0: "to_dict cd (stamped now src n e) = Some d0"
    "replace_secrets (map snd (secrets st)) d0 = d"
    by (auto simp: sanitized_def split: option.splits sum.splits)
  have c: "cur_id st = Inr (n, st)" using cur by (simp add: cur_id_def)
  define st3 where "st3 = st\<lparr>es_cur := Some (n + 1),
      write_page := (if int (length (write_page st @ [d])) = es_cache_size st then [] else write_page st @ [d]),
      es_files := fs_write (es_files st) (filename_for_id st n) (EventDoc d)\<rparr>"
  from run have "\<exists>st4. store_cache_page (write_page st @ [d]) st3 = Inr st4 \<and>
      st' = st4\<lparr>equeue := equeue st4 @ [ev]\<rparr>"
    using c id d0 unfolding st3_def
    by (auto simp: add_event_def stamped_def Let_def filename_for_id_def split: if_splits sum.splits)
  then obtain st4 where st4: "store_cache_page (write_page st @ [d]) st3 = Inr st4"
    "st' = st4\<lparr>equeue := equeue st4 @ [ev]\<rparr>" by blast
  have "events_dir_ok st3 (n + 1)"
    using events_dir_ok_write_event [OF dir n0, of "EventDoc d"]
    by (simp add: events_dir_ok_def filename_for_id_def st3_def)
  moreover have "fs_read (es_files st3) (filename_for_id st3 n) = Some (EventDoc d)"
    by (simp add: st3_def filename_for_id_def mem_store.read_write)
  ultimately have "es_sid st4 = es_sid st" "es_user st4 = es_user st" "es_cache_size st4 = es_cache_size st"
    "events_dir_ok st4 (n + 1)" "fs_read (es_files st4) (filename_for_id st3 n) = Some (EventDoc d)"
    using store_cache_page_keeps [OF st4(1), of "n + 1" n] by (simp_all add: st3_def)
  then show ?thesis by (simp add: st4(2) st3_def events_dir_ok_def filename_for_id_def)
qed

lemma log_ok_add:
  assumes ok: "log_ok cd st n" and fresh: "ev_id e = INVALID_ID"
    and san: "sanitized cd now src n (map snd (secrets st)) e = Some (d, ev)"
  shows "\<exists>st'. add_event cd now e src st = (None, stamped now src n e, st') \<and>
    log_ok cd st' (n + 1) \<and> log_of cd st' (n + 1) = log_of cd st n @ [ev] \<and>
    fs_read (es_files st') (filename_for_id st' n) = Some (EventDoc d) \<and>
    equeue st' = equeue st @ [ev] \<and> secrets st' = secrets st \<and> subscribers st' = subscribers st"
proof -
  let ?st = "st\<lparr>es_cur := Some n\<rparr>"
  have sok: "stream_ok cd ?st n" and n0: "0 \<le> n" and dir: "events_dir_ok ?st n"
    using ok by (auto simp: log_ok_def stream_ok_def events_dir_ok_def filename_for_id_def)
  have san': "sanitized cd now src n (map snd (secrets ?st)) e = Some (d, ev)" using san by simp
  from add_event_refines [OF sok fresh san'] obtain st' where
    st': "add_event cd now e src ?st = (None, stamped now src n e, st')" "stream_ok cd st' (n + 1)"
      "event_at cd st' = (event_at cd st)(n \<mapsto> ev)" "equeue st' = equeue st @ [ev]"
      "secrets st' = secrets st" "subscribers st' = subscribers st" by auto
  from add_event_frame [OF san' _ n0 dir st'(1)] have fr: "es_cache_size st' = es_cache_size st"
    "events_dir_ok st' (n + 1)" "fs_read (es_files st') (filename_for_id st' n) = Some (EventDoc d)" by auto
  have cur: "es_cur st' = Some (n + 1)" using st'(2) by (simp add: stream_ok_def)
  then have "stream_ok cd (st'\<lparr>es_cur := Some (n + 1)\<rparr>) (n + 1)"
    using st'(2) by (cases st') simp
  with fr ok cur have "log_ok cd st' (n + 1)" by (simp add: log_ok_def)
  moreover have "log_of cd st' (n + 1) = log_of cd st n @ [ev]"
  proof -
    have "[0..n] = [0..n - 1] @ [n]" using n0 by (simp add: upto_rec2)
    moreover have "List.map_filter (event_at cd st') [0..n - 1] = List.map_filter (event_at cd st) [0..n - 1]"
      unfolding List.map_filter_def by (auto simp: st'(3) intro!: map_cong filter_cong)
    ultimately show ?thesis by (simp add: log_of_def List.map_filter_def st'(3))
  qed
  moreover have "add_event cd now e src st = add_event cd now e src ?st"
    using add_event_cur [OF log_ok_cur_id [OF ok]] fresh by blast
  ultimately show ?thesis using st' fr by auto
qed

section \<open>Runs\<close>

text \<open>
  What happens to a stream: events are added, secrets change, callbacks come and go, the queue is
  processed, and the process ends and a new one opens the files. The second argument is the list of the
  events accepted. An event whose serialization fails is not in a run: the exception is raised after its
  id is taken.
\<close>

inductive log_run :: "codec \<Rightarrow> 'c event_stream \<Rightarrow> event list \<Rightarrow> bool" for cd where
  run_open: "log_run cd (event_stream_init sid [] user) []"
| run_add: "log_run cd st l \<Longrightarrow> ev_id e = INVALID_ID \<Longrightarrow>
    sanitized cd now src (int (length l)) (map snd (secrets st)) e = Some (d, ev) \<Longrightarrow>
    add_event cd now e src st = (x, e', st') \<Longrightarrow> log_run cd st' (l @ [ev])"
| run_refused: "log_run cd st l \<Longrightarrow> ev_id e \<noteq> INVALID_ID \<Longrightarrow>
    add_event cd now e src st = (x, e', st') \<Longrightarrow> log_run cd st' l"
| run_restart: "log_run cd st l \<Longrightarrow>
    log_run cd (event_stream_init (es_sid st) (es_files st) (es_user st)) l"
| run_set_secrets: "log_run cd st l \<Longrightarrow> log_run cd (set_secrets ss st) l"
| run_update_secrets: "log_run cd st l \<Longrightarrow> log_run cd (update_secrets ss st) l"
| run_subscribe: "log_run cd st l \<Longrightarrow> subscribe s cb c st = (x, st') \<Longrightarrow> log_run cd st' l"
| run_unsubscribe: "log_run cd st l \<Longrightarrow> log_run cd (unsubscribe s c st) l"
| run_process: "log_run cd st l \<Longrightarrow> process_queue k st = (st', submitted) \<Longrightarrow> log_run cd st' l"
| run_close: "log_run cd st l \<Longrightarrow> log_run cd (close_stream st) l"

definition log_frame :: "'c event_stream \<Rightarrow> 'c event_stream \<Rightarrow> bool" where
  "log_frame st st' \<longleftrightarrow>
     es_files st' = es_files st \<and> es_sid st' = es_sid st \<and> es_user st' = es_user st \<and>
     es_cache_size st' = es_cache_size st \<and> es_cur st' = es_cur st \<and> write_page st' = write_page st"

lemma log_frame_trans: "log_frame a b \<Longrightarrow> log_frame b c \<Longrightarrow> log_frame a c"
  by (simp add: log_frame_def)

lemma log_frame_refl [simp]: "log_frame st st"
  by (simp add: log_frame_def)

lemma log_frame_foldl: "(\<And>s x. log_frame s (f s x)) \<Longrightarrow> log_frame s (foldl f s xs)"
proof (induction xs arbitrary: s)
  case (Cons x xs)
  have "log_frame (f s x) (foldl f (f s x) xs)" by (rule Cons.IH) (rule Cons.prems)
  then show ?case using log_frame_trans [OF Cons.prems [of s x]] by simp
qed simp

lemma subscriber_frames:
  "log_frame st (set_secrets ss st)" "log_frame st (update_secrets ss st)"
  "log_frame st (snd (subscribe s cb c st))" "log_frame st (clean_up_subscriber s c st)"
  "log_frame st (unsubscribe s c st)" "log_frame st (fst (process_queue_step st))"
  by (auto simp: log_frame_def set_secrets_def update_secrets_def subscribe_def clean_up_subscriber_def
      unsubscribe_def process_queue_step_def Let_def split: if_splits option.splits list.splits)

lemma process_queue_frame: "log_frame st (fst (process_queue k st))"
proof (induction k arbitrary: st)
  case (Suc k)
  then show ?case
    by (simp add: Let_def split_beta) (rule log_frame_trans [OF subscriber_frames(6)], simp)
qed simp

lemma close_stream_frame: "log_frame st (close_stream st)"
proof -
  define st1 where "st1 = st\<lparr>stop_flag := True\<rparr>"
  define pairs where "pairs = concat (map (\<lambda>(s, cbs). map (\<lambda>(c, cb). (s, c)) cbs) (subscribers st1))"
  have "log_frame st1 (foldl (\<lambda>acc (s, c). clean_up_subscriber s c acc) st1 pairs)"
    by (rule log_frame_foldl) (auto simp: subscriber_frames(4))
  then show ?thesis
    unfolding close_stream_def Let_def st1_def [symmetric] pairs_def [symmetric]
    by (simp add: log_frame_def st1_def)
qed

lemma log_ok_same:
  assumes "log_ok cd st (int (length l)) \<and> log_of cd st (int (length l)) = l" "log_frame st st'"
  shows "log_ok cd st' (int (length l)) \<and> log_of cd st' (int (length l)) = l"
  using assms log_ok_frame [of cd st "int (length l)" st'] by (simp add: log_frame_def)

text \<open>The invariant of runs\<close>

lemma log_run_ok:
  assumes "log_run cd st l"
  shows "log_ok cd st (int (length l)) \<and> log_of cd st (int (length l)) = l"
  using assms
proof (induction rule: log_run.induct)
  case (run_open sid user)
  show ?case by (simp add: log_ok_init) (simp add: log_of_def map_filter_simps)
next
  case (run_add st l e now src d ev x e' st')
  with log_ok_add [of cd st "int (length l)" e now src d ev] show ?case by (auto simp: add.commute)
next
  case (run_refused st l e now src x e' st')
  then show ?case by (simp add: add_event_twice)
next
  case (run_restart st l)
  with log_ok_restart [of cd st "int (length l)"] show ?case by simp
next
  case (run_subscribe st l s cb c x st')
  then have "log_frame st st'" using subscriber_frames(3) [of st s cb c] by simp
  with run_subscribe show ?case using log_ok_same by blast
next
  case (run_process st l k st' submitted)
  then have "log_frame st st'" using process_queue_frame [of st k] by simp
  with run_process show ?case using log_ok_same by blast
next
  case (run_set_secrets st l ss)
  show ?case by (rule log_ok_same [OF run_set_secrets.IH]) (rule subscriber_frames)
next
  case (run_update_secrets st l ss)
  show ?case by (rule log_ok_same [OF run_update_secrets.IH]) (rule subscriber_frames)
next
  case (run_unsubscribe st l s c)
  show ?case by (rule log_ok_same [OF run_unsubscribe.IH]) (rule subscriber_frames)
next
  case (run_close st l)
  show ?case by (rule log_ok_same [OF run_close.IH]) (rule close_stream_frame)
qed

text \<open>The stream answers as the list of the events it accepted.\<close>

lemma log_run_search:
  assumes "log_run cd st l"
  shows "search_events cd st s None reverse flt limit =
    Inr (cut limit 0 (matching cd flt (List.map_filter (event_at cd st) (search_range s (int (length l)) reverse))))"
  using search_events_spec [OF log_ok_store log_ok_cur_id] log_run_ok [OF assms] by fastforce

lemma log_run_all:
  assumes "log_run cd st l"
  shows "search_events cd st 0 None False None None = Inr l"
  using log_run_search [OF assms, of 0 False None None] log_run_ok [OF assms]
  by (simp add: cut_def matching_def search_range_def log_of_def)

lemma log_run_rev:
  assumes "log_run cd st l"
  shows "search_events cd st 0 None True None None = Inr (rev l)"
  using log_run_search [OF assms, of 0 True None None] log_run_ok [OF assms]
  by (auto simp: cut_def matching_def search_range_def log_of_def List.map_filter_def rev_map [symmetric]
      rev_filter [symmetric])

lemma log_run_get:
  assumes "log_run cd st l" "i < length l"
  shows "get_event cd st (int i) = Inr (l ! i)" "ev_id (l ! i) = int i"
proof -
  from log_run_ok [OF assms(1)] have ok: "log_ok cd st (int (length l))" and l: "log_of cd st (int (length l)) = l"
    by auto
  have nth: "[0..int (length l) - 1] ! i = int i" using assms(2) by simp
  have "l ! i = the (event_at cd st (int i))"
    using arg_cong [OF log_of_map [OF ok], of "\<lambda>xs. xs ! i"] l nth assms(2) by simp
  moreover have "event_at cd st (int i) \<noteq> None" using log_ok_at(1) [OF ok] assms(2) by simp
  ultimately show "get_event cd st (int i) = Inr (l ! i)"
    by (auto simp: event_at_def split: sum.splits)
  show "ev_id (l ! i) = int i"
    using arg_cong [OF log_of_ids [OF ok], of "\<lambda>xs. xs ! i"] l nth assms(2) by simp
qed

lemma log_run_missing:
  assumes "log_run cd st l" "i < 0 \<or> int (length l) \<le> i"
  shows "get_event cd st i = Inl File_Not_Found"
proof -
  from log_run_ok [OF assms(1)]
  have "fs_read (es_files st) (filename_for_id st i) \<noteq> None \<longleftrightarrow> 0 \<le> i \<and> i < int (length l)"
    unfolding log_ok_def stream_ok_def filename_for_id_def by simp
  with assms(2) show ?thesis by (auto simp: get_event_def split: option.splits)
qed

end
