(* ===== verification/Scenario.thy ===== *)
theory Scenario
  imports Controller_Protocol
begin

text \<open>
  A small concrete conversation, on which the properties of the controller are instantiated: the
  agent is a script of actions, the analyzer is absent, the files are empty at the start.
\<close>

definition demo_codec :: codec where
  "demo_codec = \<lparr>cd_repr = (\<lambda>_. []), cd_version = [], cd_literal_eval = (\<lambda>_. None), cd_dumps = (\<lambda>_. [])\<rparr>"

text \<open>The agent is the list of the actions it will take; it has none to return when the list is empty.\<close>

fun script_step :: "event list \<Rightarrow> state \<Rightarrow> (exn + event option) \<times> event list \<times> state" where
  "script_step [] st = (Inr None, [], st)"
| "script_step (e # es) st = (Inr (Some e), es, st)"

definition demo_env :: "(event list, unit) env" where
  "demo_env =
     \<lparr>env_codec = demo_codec, env_now = ''2026-01-01T00:00:00'', env_str = (\<lambda>_. []), env_callback = (),
      analyzer = None, ag_step = script_step, ag_reset = (\<lambda>a. a), ag_name = (\<lambda>_. ''script''),
      ag_system_message = (\<lambda>_. None), ag_create = (\<lambda>_ _. Inr []), enable_stuck_detection = (\<lambda>_. True),
      enable_history_truncation = (\<lambda>_. True), cli_mode = (\<lambda>_. False)\<rparr>"

definition demo_stats :: conv_stats where
  "demo_stats = conv_stats_init False [] None"

definition demo_args :: "event list \<Rightarrow> event list init_args" where
  "demo_args script =
     \<lparr>ia_agent = script, ia_stats = demo_stats, ia_iteration_delta = 2, ia_budget_delta = None,
      ia_sid = Some ''c1'', ia_user = None, ia_confirmation_mode = True, ia_initial_state = None,
      ia_is_delegate = False, ia_headless = False, ia_status_callback = True, ia_replay_events = None\<rparr>"

definition demo_controller :: "event list \<Rightarrow> event list controller" where
  "demo_controller script =
     projr (fst (controller_init demo_env (demo_args script) (event_stream_init ''c1'' [] None)))"

definition demo_stream :: "unit event_stream" where
  "demo_stream = snd (controller_init demo_env (demo_args []) (event_stream_init ''c1'' [] None))"

definition demo_world :: "event list \<Rightarrow> (event list, unit) world" where
  "demo_world script =
     \<lparr>stream = demo_stream, session_files = None, stack = [demo_controller script], status_log = []\<rparr>"

definition demo_run :: "event" where
  "demo_run = mk_action (CmdRunAction \<lparr>cra_command = ''ls'', cra_is_input = False, cra_thought = ''list'',
     cra_blocking = False, cra_is_static = False, cra_cwd = None, cra_hidden = False,
     cra_confirmation = CONFIRMED, cra_risk = UNKNOWN\<rparr>)"

end
