(* ===== verification/Log_Properties.thy ===== *)
theory Log_Properties
  imports Event_Log Scenario
begin

text \<open>
  The properties of the event log: the stream as a durable list of events, searching, the
  dictionaries events are stored as, secrets, errors and delivery. The witnesses run the stream on
  a message of the user and on a shell command.
\<close>

section \<open>A concrete log\<close>

definition demo_hello :: event where
  "demo_hello = mk_message ''hello''"

definition demo_log0 :: "unit event_stream" where
  "demo_log0 = event_stream_init ''c1'' [] None"

definition demo_log1 :: "unit event_stream" where
  "demo_log1 = snd (snd (add_event demo_codec ''2026-01-01T00:00:00'' demo_hello (Some USER) demo_log0))"

definition demo_log2 :: "unit event_stream" where
  "demo_log2 = event_stream_init (es_sid demo_log1) (es_files demo_log1) (es_user demo_log1)"

definition demo_stored :: event where
  "demo_stored = persisted (stamped ''2026-01-01T00:00:00'' (Some USER) 0 demo_hello)"

lemma sanitized_serializable:
  assumes "serializable e" "to_dict cd (stamped now src n e) = Some d"
  shows "sanitized cd now src n [] e = Some (d, persisted (stamped now src n e))"
proof -
  have "serializable (stamped now src n e)" using assms(1) by (simp add: serializable_def stamped_def)
  from event_from_to_dict [OF assms(2) [unfolded to_dict_def] this]
  have "from_dict cd d = Inr (persisted (stamped now src n e))" by (simp add: from_dict_def)
  with assms(2) show ?thesis by (simp add: sanitized_def)
qed

lemma demo_hello_ok:
  "serializable demo_hello" "ev_id demo_hello = INVALID_ID"
  "to_dict demo_codec (stamped ''2026-01-01T00:00:00'' (Some USER) 0 demo_hello) \<noteq> None"
  by code_simp+

lemma demo_sanitized:
  obtains d where "sanitized demo_codec ''2026-01-01T00:00:00'' (Some USER) 0 [] demo_hello = Some (d, demo_stored)"
  using sanitized_serializable [OF demo_hello_ok(1)] demo_hello_ok(3) unfolding demo_stored_def by blast

lemma demo_log0_run: "log_run demo_codec demo_log0 []"
  unfolding demo_log0_def by (rule run_open)

lemma demo_log1_run: "log_run demo_codec demo_log1 [demo_stored]"
proof -
  obtain d where d: "sanitized demo_codec ''2026-01-01T00:00:00'' (Some USER) 0 [] demo_hello = Some (d, demo_stored)"
    by (rule demo_sanitized)
  have s: "secrets demo_log0 = []" by (simp add: demo_log0_def event_stream_init_def)
  obtain x e' st' where r: "add_event demo_codec ''2026-01-01T00:00:00'' demo_hello (Some USER) demo_log0 = (x, e', st')"
    by (metis prod_cases3)
  then have "demo_log1 = st'" by (simp add: demo_log1_def)
  with run_add [OF demo_log0_run demo_hello_ok(2) _ r, of d demo_stored] d s show ?thesis by simp
qed

lemma demo_log2_run: "log_run demo_codec demo_log2 [demo_stored]"
  unfolding demo_log2_def by (rule run_restart [OF demo_log1_run])

section \<open>The log\<close>

text \<open>
  C5. Whatever is done with a stream - events added, secrets changed, callbacks subscribed and removed,
  the queue processed, the process restarted on the same files - searching it returns exactly the events
  it accepted, in order or in reverse order, their ids are their positions, each is found under its id,
  and no other id is found.
\<close>

theorem event_log_refinement:
  assumes "log_run cd st l"
  shows "search_events cd st 0 None False None None = Inr l \<and>
    search_events cd st 0 None True None None = Inr (rev l) \<and>
    (\<forall>i < length l. get_event cd st (int i) = Inr (l ! i) \<and> ev_id (l ! i) = int i) \<and>
    (\<forall>i. i < 0 \<or> int (length l) \<le> i \<longrightarrow> get_event cd st i = Inl File_Not_Found)"
  using log_run_all [OF assms] log_run_rev [OF assms] log_run_get [OF assms] log_run_missing [OF assms]
  by blast

theorem event_log_refinement_witness:
  "search_events demo_codec demo_log2 0 None False None None = Inr [demo_stored] \<and>
   get_event demo_codec demo_log2 0 = Inr demo_stored \<and> ev_id demo_stored = 0 \<and>
   get_event demo_codec demo_log2 1 = Inl File_Not_Found"
  using event_log_refinement [OF demo_log2_run] by auto

text \<open>
  Adding a fresh event whose fields are of their declared types to a stream without secrets succeeds,
  stamps the caller's object with the clock, the source and the next id, and appends to the log and to the
  queue the event as it is read back from its dictionary.
\<close>

theorem add_event_appends:
  assumes "log_run cd st l" "secrets st = []" "ev_id e = INVALID_ID" "serializable e"
    and "to_dict cd (stamped now src (int (length l)) e) \<noteq> None"
  shows "\<exists>st'. add_event cd now e src st = (None, stamped now src (int (length l)) e, st') \<and>
    search_events cd st' 0 None False None None =
      Inr (l @ [persisted (stamped now src (int (length l)) e)]) \<and>
    equeue st' = equeue st @ [persisted (stamped now src (int (length l)) e)]"
proof -
  let ?n = "int (length l)"
  obtain d where san: "sanitized cd now src ?n (map snd (secrets st)) e = Some (d, persisted (stamped now src ?n e))"
    using sanitized_serializable [OF assms(4)] assms(2,5) by fastforce
  from log_run_ok [OF assms(1)] have ok: "log_ok cd st ?n" by blast
  from log_ok_add [OF ok assms(3) san] obtain st' where
    st': "add_event cd now e src st = (None, stamped now src ?n e, st')"
      "equeue st' = equeue st @ [persisted (stamped now src ?n e)]" by blast
  with log_run_all [OF run_add [OF assms(1,3) san st'(1)]] show ?thesis by auto
qed

theorem add_event_appends_witness:
  "\<exists>st'. add_event demo_codec ''2026-01-01T00:00:00'' demo_hello (Some USER) demo_log0 =
      (None, stamped ''2026-01-01T00:00:00'' (Some USER) 0 demo_hello, st') \<and>
    search_events demo_codec st' 0 None False None None = Inr [demo_stored] \<and> equeue st' = [demo_stored]"
  using add_event_appends [OF demo_log0_run _ demo_hello_ok(2,1), of "''2026-01-01T00:00:00''" "Some USER"]
    demo_hello_ok(3)
  by (simp add: demo_stored_def demo_log0_def event_stream_init_def)

text \<open>
  C19. The search with its cache pages, its early exit at the limit and its two directions returns what a
  filter over the readable events of the range returns, cut at the limit.
\<close>

theorem search_is_filter:
  assumes "store_ok cd st" "cur_id st = Inr (n, st')"
  shows "search_events cd st s e reverse flt limit =
    Inr (cut limit 0 (matching cd flt
      (List.map_filter (event_at cd st)
         (search_range s (case e of None \<Rightarrow> n | Some x \<Rightarrow> x + 1) reverse))))"
  using assms by (rule search_events_spec)

theorem search_is_filter_witness:
  "search_events demo_codec demo_log1 0 (Some 5) True None (Some 1) =
    Inr (cut (Some 1) 0 (matching demo_codec None
      (List.map_filter (event_at demo_codec demo_log1) (search_range 0 6 True))))"
proof -
  have ok: "log_ok demo_codec demo_log1 1" using log_run_ok [OF demo_log1_run] by simp
  show ?thesis using search_is_filter [OF log_ok_store [OF ok] log_ok_cur_id [OF ok], of 0 "Some 5"] by simp
qed

section \<open>Dictionaries\<close>

text \<open>
  C20. Reading an event back from its dictionary gives the event, less what \<open>persisted\<close> names: the response
  id, the model name of the metrics, the time limit of an observation, a confirmation status that the
  class of the action does not declare, and command output beyond the size limit.
\<close>

theorem event_round_trip:
  assumes "event_to_dict rp e = Some d" "serializable e"
  shows "event_from_dict ver lit d = Inr (persisted e)"
  using assms by (rule event_from_to_dict)

theorem event_round_trip_witness:
  "\<exists>d. event_to_dict (\<lambda>_. []) demo_run = Some d \<and>
       event_from_dict [] (\<lambda>_. None) d = Inr (persisted demo_run)"
proof -
  have "event_to_dict (\<lambda>_. []) demo_run \<noteq> None" "serializable demo_run" by code_simp+
  with event_round_trip [of "\<lambda>_. []" demo_run] show ?thesis by blast
qed

section \<open>Secrets\<close>

text \<open>
  C30. When an event is added, the file written for it holds the dictionary in which, outside the fields
  that describe the event itself, no string reachable through dictionaries contains a secret (a secret
  that cannot be confused with the replacement text); the descriptive fields are kept as they are.
\<close>

theorem secrets_hidden:
  assumes "log_run cd st l" "ev_id e = INVALID_ID" "secret \<in> set (map snd (secrets st))" "clean_secret secret"
    and "to_dict cd (stamped now src (int (length l)) e) = Some d0"
    and "from_dict cd (replace_secrets (map snd (secrets st)) d0) = Inr ev"
  shows "\<exists>st' d. add_event cd now e src st = (None, stamped now src (int (length l)) e, st') \<and>
    fs_read (es_files st') (filename_for_id st' (int (length l))) = Some (EventDoc d) \<and>
    (\<forall>(k, v) \<in> set d. k \<notin> set TOP_LEVEL_PROTECTED_FIELDS \<longrightarrow>
       (\<forall>t \<in> set (dict_strings v). \<not> str_contains secret t)) \<and>
    (\<forall>k \<in> set TOP_LEVEL_PROTECTED_FIELDS. map_of d k = map_of d0 k)"
proof -
  let ?d = "replace_secrets (map snd (secrets st)) d0"
  have san: "sanitized cd now src (int (length l)) (map snd (secrets st)) e = Some (?d, ev)"
    using assms(5,6) by (simp add: sanitized_def)
  from log_run_ok [OF assms(1)] have "log_ok cd st (int (length l))" by blast
  from log_ok_add [OF this assms(2) san] obtain st' where
    "add_event cd now e src st = (None, stamped now src (int (length l)) e, st')"
    "fs_read (es_files st') (filename_for_id st' (int (length l))) = Some (EventDoc ?d)" by blast
  moreover have "\<not> str_contains secret t"
    if "(k, v) \<in> set ?d" "k \<notin> set TOP_LEVEL_PROTECTED_FIELDS" "t \<in> set (dict_strings v)" for k v t
    using that replace_nested_hides [OF assms(4,3)] by (auto simp: replace_secrets_def)
  ultimately show ?thesis using replace_secrets_protected by blast
qed

definition demo_secret_log :: "unit event_stream" where
  "demo_secret_log = set_secrets [(''TOKEN'', ''hel'')] demo_log0"

theorem secrets_hidden_witness:
  "\<exists>st' d. add_event demo_codec ''t'' demo_hello (Some USER) demo_secret_log =
      (None, stamped ''t'' (Some USER) 0 demo_hello, st') \<and>
    fs_read (es_files st') (filename_for_id st' 0) = Some (EventDoc d) \<and>
    (\<forall>(k, v) \<in> set d. k \<notin> set TOP_LEVEL_PROTECTED_FIELDS \<longrightarrow>
       (\<forall>t \<in> set (dict_strings v). \<not> str_contains ''hel'' t))"
proof -
  have run: "log_run demo_codec demo_secret_log []"
    unfolding demo_secret_log_def by (rule run_set_secrets [OF demo_log0_run])
  obtain d0 where d0: "to_dict demo_codec (stamped ''t'' (Some USER) 0 demo_hello) = Some d0"
    by (cases "to_dict demo_codec (stamped ''t'' (Some USER) 0 demo_hello)") (use demo_hello_ok(3) in code_simp)
  have "case to_dict demo_codec (stamped ''t'' (Some USER) 0 demo_hello) of None \<Rightarrow> False
      | Some d0 \<Rightarrow> \<not> isl (from_dict demo_codec (replace_secrets [''hel''] d0))" by code_simp
  then obtain ev where ev: "from_dict demo_codec (replace_secrets [''hel''] d0) = Inr ev"
    by (cases "from_dict demo_codec (replace_secrets [''hel''] d0)") (auto simp: d0)
  have s: "map snd (secrets demo_secret_log) = [''hel'']" and c: "clean_secret ''hel''" by code_simp+
  show ?thesis
    using secrets_hidden [OF run demo_hello_ok(2) _ c, of "''t''" "Some USER" d0 ev] d0 ev by (auto simp: s)
qed

section \<open>Errors and delivery\<close>

text \<open>
  C32. Adding an event that has an id is refused and changes nothing. Adding an event that cannot be
  written or read back raises, and stores and queues nothing, but its id is used up.
\<close>

theorem add_event_errors:
  "(ev_id e \<noteq> INVALID_ID \<longrightarrow> add_event cd now e src st = (Some (Already_Has_Id (ev_id e)), e, st)) \<and>
   (ev_id e = INVALID_ID \<longrightarrow> cur_id st = Inr (n, st0) \<longrightarrow>
      sanitized cd now src n (map snd (secrets st0)) e = None \<longrightarrow>
      (\<exists>x st'. add_event cd now e src st = (Some x, stamped now src n e, st') \<and>
        es_files st' = es_files st0 \<and> equeue st' = equeue st0 \<and> es_cur st' = Some (n + 1)))"
  by (auto simp: add_event_twice)
    (auto simp: add_event_def sanitized_def stamped_def Let_def split: option.splits sum.splits)

definition demo_unreadable :: event where
  "demo_unreadable = demo_hello\<lparr>m_llm_metrics := Some ((metrics_init ''m'')\<lparr>accumulated_cost := - 1\<rparr>)\<rparr>"

theorem add_event_errors_witness:
  "add_event demo_codec ''t'' demo_stored None demo_log0 = (Some (Already_Has_Id 0), demo_stored, demo_log0) \<and>
   (\<exists>x st'. add_event demo_codec ''t'' demo_unreadable None demo_log0 =
      (Some x, stamped ''t'' None 0 demo_unreadable, st') \<and>
      es_files st' = es_files demo_log0 \<and> equeue st' = equeue demo_log0 \<and> es_cur st' = Some 1)"
proof -
  have "ev_id demo_stored = 0" "(0::int) \<noteq> INVALID_ID" "ev_id demo_unreadable = INVALID_ID" by code_simp+
  moreover have "cur_id demo_log0 = Inr (0, demo_log0\<lparr>es_cur := Some 0\<rparr>)"
    using log_ok_cur_id log_run_ok [OF demo_log0_run] by fastforce
  moreover have "sanitized demo_codec ''t'' None 0 [] demo_unreadable = None" by code_simp
  moreover have "secrets demo_log0 = []" by (simp add: demo_log0_def event_stream_init_def)
  ultimately show ?thesis
    using add_event_errors [of demo_stored demo_codec "''t''" None demo_log0]
      add_event_errors [of demo_unreadable demo_codec "''t''" None demo_log0 0 "demo_log0\<lparr>es_cur := Some 0\<rparr>"]
    by simp
qed

text \<open>
  C33. Processing the queue hands the next events, in order and each once, to every callback that is
  subscribed, and to no other.
\<close>

theorem queue_delivery:
  assumes "subscribers_ok st" "\<not> stop_flag st"
  shows "given_to s c (snd (process_queue k st)) = (if has_callback st s c then take k (equeue st) else [])
    \<and> equeue (fst (process_queue k st)) = drop k (equeue st)"
  using assms by (rule process_queue_delivers)

theorem queue_delivery_witness:
  "given_to ''agent_controller'' ''c1'' (snd (process_queue 3 (snd (subscribe ''agent_controller'' () ''c1'' demo_log1))))
     = equeue demo_log1"
proof -
  let ?st = "snd (subscribe ''agent_controller'' () ''c1'' demo_log1)"
  have "subscribers_ok ?st" "\<not> stop_flag ?st" "has_callback ?st ''agent_controller'' ''c1''"
    "take 3 (equeue ?st) = equeue demo_log1" by code_simp+
  with queue_delivery [of ?st "''agent_controller''" "''c1''" 3] show ?thesis by simp
qed

end
