(* ===== verification/Log_Clients.thy ===== *)
theory Log_Clients
  imports Log_Properties
begin

text \<open>
  The log as its clients use it: the controller, the runtime and the memory put events on the stream, and the stream
  stays a log.
\<close>

section \<open>Adding to a log\<close>

lemma log_added:
  assumes "log_run cd st l" "add_event cd now e src st = (None, e', st')"
  obtains d ev where "e' = stamped now src (int (length l)) e"
    "sanitized cd now src (int (length l)) (map snd (secrets st)) e = Some (d, ev)"
    "log_run cd st' (l @ [ev])" "equeue st' = equeue st @ [ev]" "secrets st' = secrets st"
proof -
  have c: "cur_id st = Inr (int (length l), st\<lparr>es_cur := Some (int (length l))\<rparr>)"
    using log_ok_cur_id log_run_ok [OF assms(1)] by blast
  from assms(2) show thesis
    by (rule add_event_succeeds) (rule that, use c run_add [OF assms(1) _ _ assms(2)] in auto)
qed

text \<open>Every observation has a dictionary, so a fresh one is always accepted.\<close>

lemma observation_has_dict: "is_observation ob \<Longrightarrow> to_dict cd ob \<noteq> None"
  by (auto simp: to_dict_def event_to_dict_def ev_message_def is_observation_def split: payload.splits)

lemma log_accepts_observation:
  assumes "log_run cd st l" "secrets st = []" "ev_id ob = INVALID_ID" "is_observation ob" "serializable ob"
  obtains st' where "add_event cd now ob src st = (None, stamped now src (int (length l)) ob, st')"
    "log_run cd st' (l @ [persisted (stamped now src (int (length l)) ob)])"
    "equeue st' = equeue st @ [persisted (stamped now src (int (length l)) ob)]" "secrets st' = []"
proof -
  let ?s = "stamped now src (int (length l)) ob"
  have "is_observation ?s" using assms(4) by (simp add: stamped_def is_observation_def)
  then obtain d where d: "to_dict cd ?s = Some d" using observation_has_dict by blast
  have san: "sanitized cd now src (int (length l)) (map snd (secrets st)) ob = Some (d, persisted ?s)"
    using sanitized_serializable [OF assms(5) d] assms(2) by simp
  from log_run_ok [OF assms(1)] have "log_ok cd st (int (length l))" by blast
  from log_ok_add [OF this assms(3) san] obtain st' where
    st': "add_event cd now ob src st = (None, ?s, st')" "equeue st' = equeue st @ [persisted ?s]" by blast
  have "secrets st' = []" by (rule log_added [OF assms(1) st'(1)]) (use assms(2) in simp)
  with st' that run_add [OF assms(1,3) san st'(1)] show thesis by blast
qed

section \<open>The controller\<close>

lemma emit_log:
  assumes "log_run (env_codec env) (stream w) l" "emit env e src w = (None, w')"
  obtains ev where "log_run (env_codec env) (stream w') (l @ [ev])" "equeue (stream w') = equeue (stream w) @ [ev]"
    "secrets (stream w') = secrets (stream w)"
proof -
  obtain x e' s where a: "add_event (env_codec env) (env_now env) e (Some src) (stream w) = (x, e', s)"
    using prod_cases3 by blast
  with assms(2) have "x = None" "w' = w\<lparr>stream := s\<rparr>" by (auto simp: emit_def)
  with a log_added [OF assms(1), of "env_now env" e "Some src" e' s] that show thesis by auto
qed

lemma emit_pending_log:
  assumes "log_run (env_codec env) (stream w) l" "emit_pending env i src w = (None, w')"
    and "c_pending (ctl w i) = Some p" "i < length (stack w)"
  obtains d ev where "log_run (env_codec env) (stream w') (l @ [ev])" "equeue (stream w') = equeue (stream w) @ [ev]"
    "secrets (stream w') = secrets (stream w)"
    "sanitized (env_codec env) (env_now env) src (int (length l)) (map snd (secrets (stream w))) p = Some (d, ev)"
    "c_pending (ctl w' i) = Some (stamped (env_now env) src (int (length l)) p)"
    "st_of w' i = st_of w i" "length (stack w') = length (stack w)"
proof -
  obtain x p' s where a: "add_event (env_codec env) (env_now env) p src (stream w) = (x, p', s)"
    using prod_cases3 by blast
  with assms have x: "x = None" and w': "w' = upd_ctl i (\<lambda>c. c\<lparr>c_pending := Some p'\<rparr>) (w\<lparr>stream := s\<rparr>)"
    by (auto simp: emit_pending_def)
  from a [unfolded x] show thesis
    by (rule log_added [OF assms(1)]) (rule that, use w' assms(4) in auto)
qed

lemma announce_log:
  assumes "log_run (env_codec env) (stream w) l" "announce env i w = (None, w')"
  obtains ev where "log_run (env_codec env) (stream w') (l @ [ev])" "equeue (stream w') = equeue (stream w) @ [ev]"
    "secrets (stream w') = secrets (stream w)"
proof -
  from assms(2) obtain w1 where w1: "emit env (state_changed_obs (st_of w i)) ENVIRONMENT w = (None, w1)"
    "w' = save_state_op i w1"
    by (auto simp: announce_def split: prod.splits option.splits)
  then have "stream w' = stream w1" by (simp add: save_state_op_def Let_def split: option.split)
  with emit_log [OF assms(1) w1(1)] that show thesis by metis
qed

lemma set_running_log:
  assumes "log_run (env_codec env) (stream w) l" "set_agent_state_to env i RUNNING w = (None, w')"
  obtains q where "log_run (env_codec env) (stream w') (l @ q)" "equeue (stream w') = equeue (stream w) @ q"
    "secrets (stream w') = secrets (stream w)"
proof (cases "agent_state (st_of w i) = RUNNING")
  case True
  with assms that [of "[]"] show thesis by (simp add: set_agent_state_to_def)
next
  case False
  then obtain v where v: "announce env i v = (None, w')" "stream v = stream w"
    using assms(2) set_state_resume [of w i env] set_state_plain [of RUNNING w i env]
    by (cases "agent_state (st_of w i) = ERROR") auto
  with announce_log [of env v l i w'] assms(1) that show thesis by metis
qed

end
