(* ===== verification/Condensers.thy ===== *)
theory Condensers
  imports View
begin

text \<open>
  The strategies of \<open>openhands/memory/condenser/impl\<close>. The language model is a parameter: a function
  from the prompt to its reply (or an exception), with the dumped response and metrics that go into
  the metadata batch. \<open>to_str\<close> is \<open>str(event)\<close>, \<open>rp\<close> is \<open>repr\<close> of a dictionary.
\<close>

section \<open>Masking strategies\<close>

text \<open>\<open>NoOpCondenser\<close>\<close>

definition no_op_condense :: condenser where
  "no_op_condense v = (Inr (KeepView v), [])"

text \<open>\<open>ObservationMaskingCondenser\<close>\<close>

definition mask_observation :: "int \<Rightarrow> nat \<times> event \<Rightarrow> event" where
  "mask_observation bound = (\<lambda>(i, e). if is_observation e \<and> int i < bound
                                       then mk_obs (AgentCondensationObservation ''<MASKED>'') else e)"

definition observation_masking_condense :: "int \<Rightarrow> condenser" where
  "observation_masking_condense attention_window v =
     (let es = v_events v
      in (Inr (KeepView (mk_view (map (mask_observation (int (length es) - attention_window))
                                    (enumerate 0 es)))), []))"

text \<open>\<open>BrowserOutputCondenser\<close>; the argument is the reversed view.\<close>

fun mask_browser :: "int \<Rightarrow> int \<Rightarrow> event list \<Rightarrow> event list" where
  "mask_browser window cnt [] = []"
| "mask_browser window cnt (e # es) =
     (case payload e of
        Obs (BrowserOutputObservation b) \<Rightarrow>
          if cnt \<ge> window
          then mk_obs (AgentCondensationObservation
                 (''Visited URL '' @ boo_url b @ newline # ''Content omitted''))
               # mask_browser window cnt es
          else e # mask_browser window (cnt + 1) es
      | _ \<Rightarrow> e # mask_browser window cnt es)"

definition browser_output_condense :: "int \<Rightarrow> condenser" where
  "browser_output_condense attention_window v =
     (Inr (KeepView (mk_view (rev (mask_browser attention_window 0 (rev (v_events v)))))), [])"

text \<open>\<open>RecentEventsCondenser\<close>\<close>

definition recent_events_condense :: "int \<Rightarrow> int \<Rightarrow> condenser" where
  "recent_events_condense keep_first max_events v =
     (let head = py_slice (v_events v) None (Some keep_first);
          tail_length = max 0 (max_events - int (length head));
          tail = py_slice (v_events v) (Some (- tail_length)) None
      in (Inr (KeepView (mk_view (head @ tail))), []))"

section \<open>The conversation window\<close>

definition is_class :: "event_class \<Rightarrow> event \<Rightarrow> bool" where
  "is_class c e \<longleftrightarrow> isinstance e c"

text \<open>The first recall action for the message after it, and the observation it caused\<close>

definition find_recall :: "string \<Rightarrow> event list \<Rightarrow> event list" where
  "find_recall content es =
     (case dropWhile (\<lambda>e. \<not> (case payload e of Act (RecallAction r) \<Rightarrow> ra_query r = content | _ \<Rightarrow> False)) es of
        [] \<Rightarrow> []
      | r # rest \<Rightarrow>
          (case find (\<lambda>ob. is_observation ob \<and> m_cause ob = Some (ev_id r)) rest of
             None \<Rightarrow> [r]
           | Some ob \<Rightarrow> [r, ob]))"

definition message_content :: "event \<Rightarrow> string" where
  "message_content e = (case payload e of Act (MessageAction m) \<Rightarrow> ma_content m | _ \<Rightarrow> [])"

text \<open>System message, first user message, its recall pair; empty without a user message\<close>

definition window_essential :: "event list \<Rightarrow> event list" where
  "window_essential events =
     (case find_index is_user_message events of
        None \<Rightarrow> []
      | Some i \<Rightarrow>
          (case find (is_class C_SystemMessageAction) events of None \<Rightarrow> [] | Some s \<Rightarrow> [s])
          @ [events ! i] @ find_recall (message_content (events ! i)) (drop (Suc i) events))"

definition window_first_kept :: "event list \<Rightarrow> nat" where
  "window_first_kept events =
     (let total = int (length events);
          num_recent = max 1 ((total - int (length (window_essential events))) div 2);
          s = nat (max 0 (total - num_recent))
      in s + (case find_index (\<lambda>e. \<not> is_observation e) (drop s events) of
                Some k \<Rightarrow> k
              | None \<Rightarrow> length (drop s events)))"

definition window_kept :: "event list \<Rightarrow> event list" where
  "window_kept events = window_essential events @ drop (window_first_kept events) events"

definition window_forgotten :: "event list \<Rightarrow> int list" where
  "window_forgotten events =
     sort (remdups (filter (\<lambda>i. i \<notin> set (map ev_id (window_kept events))) (map ev_id events)))"

text \<open>The action for a list of ids: a range when they are contiguous\<close>

definition forget_action :: "int list \<Rightarrow> exn + condensation_action" where
  "forget_action ids =
     (if ids \<noteq> []
      then (if length ids > 1 \<and> last ids - hd ids = int (length ids) - 1
            then mk_condensation None (Some (hd ids)) (Some (last ids)) None None
            else mk_condensation (Some ids) None None None None)
      else mk_condensation (Some []) None None None None)"

definition window_get_condensation :: "view \<Rightarrow> (exn + condensation_action) \<times> jdict" where
  "window_get_condensation v =
     (let events = v_events v
      in (if events = [] then mk_condensation (Some []) None None None None
          else if find is_user_message events = None then mk_condensation (Some []) None None None None
          else forget_action (window_forgotten events), []))"

definition window_should_condense :: "view \<Rightarrow> bool" where
  "window_should_condense v = unhandled_condensation_request v"

section \<open>Strategies with a size limit\<close>

text \<open>The checks of the constructors\<close>

definition check_sizes :: "int \<Rightarrow> int \<Rightarrow> exn option" where
  "check_sizes max_size keep_first =
     (if keep_first \<ge> max_size div 2 then
        Some (mk_exn ''ValueError'' ValueError
          (''keep_first ('' @ show_int keep_first @ '') must be less than half of max_size ('' @ show_int max_size @ '')''))
      else if keep_first < 0 then
        Some (mk_exn ''ValueError'' ValueError (''keep_first ('' @ show_int keep_first @ '') cannot be negative''))
      else if max_size < 1 then
        Some (mk_exn ''ValueError'' ValueError (''max_size ('' @ show_int max_size @ '') cannot be non-positive''))
      else None)"

definition size_should_condense :: "int \<Rightarrow> view \<Rightarrow> bool" where
  "size_should_condense max_size v \<longleftrightarrow>
     int (length (v_events v)) > max_size \<or> unhandled_condensation_request v"

text \<open>\<open>min\<close> and \<open>max\<close> of an iterable\<close>

definition py_min :: "int list \<Rightarrow> exn + int" where
  "py_min xs = (if xs = [] then Inl (mk_exn ''ValueError'' ValueError ''min() iterable argument is empty'')
                else Inr (Min (set xs)))"

definition py_max :: "int list \<Rightarrow> exn + int" where
  "py_max xs = (if xs = [] then Inl (mk_exn ''ValueError'' ValueError ''max() iterable argument is empty'')
                else Inr (Max (set xs)))"

definition range_condensation :: "int list \<Rightarrow> string option \<Rightarrow> int option \<Rightarrow> exn + condensation_action" where
  "range_condensation ids sm off =
     sbind (py_min ids) (\<lambda>mn. sbind (py_max ids) (\<lambda>mx. mk_condensation None (Some mn) (Some mx) sm off))"

text \<open>\<open>AmortizedForgettingCondenser\<close>\<close>

definition amortized_get_condensation :: "int \<Rightarrow> int \<Rightarrow> view \<Rightarrow> (exn + condensation_action) \<times> jdict" where
  "amortized_get_condensation max_size keep_first v =
     (let target_size = max_size div 2;
          head = py_slice (v_events v) None (Some keep_first);
          events_from_tail = target_size - int (length head);
          tail = py_slice (v_events v) (Some (- events_from_tail)) None;
          keep_ids = map ev_id (head @ tail);
          forget_ids = filter (\<lambda>i. i \<notin> set keep_ids) (map ev_id (v_events v))
      in (range_condensation forget_ids None None, []))"

text \<open>The parts of a view a summarizing condenser distinguishes\<close>

definition is_condensation_obs :: "event \<Rightarrow> bool" where
  "is_condensation_obs e \<longleftrightarrow> (case payload e of Obs (AgentCondensationObservation _) \<Rightarrow> True | _ \<Rightarrow> False)"

definition summary_tail_size :: "int \<Rightarrow> int \<Rightarrow> event list \<Rightarrow> int" where
  "summary_tail_size max_size keep_first es =
     max_size div 2 - int (length (py_slice es None (Some keep_first))) - 1"

definition summary_forgotten :: "int \<Rightarrow> int \<Rightarrow> event list \<Rightarrow> event list" where
  "summary_forgotten max_size keep_first es =
     filter (\<lambda>e. \<not> is_condensation_obs e)
       (py_slice es (Some keep_first) (Some (- summary_tail_size max_size keep_first es)))"

definition previous_summary :: "event \<Rightarrow> string" where
  "previous_summary e =
     (case payload e of Obs (AgentCondensationObservation c) \<Rightarrow> c | _ \<Rightarrow> ''No events summarized'')"

definition summary_prompt ::
    "string \<Rightarrow> (event \<Rightarrow> string) \<Rightarrow> int \<Rightarrow> string \<Rightarrow> event list \<Rightarrow> string" where
  "summary_prompt instructions to_str max_event_length previous forgotten_events =
     instructions @ [newline, newline] @ ''<PREVIOUS SUMMARY>'' @ newline #
     truncate_content previous (Some max_event_length) @ newline # ''</PREVIOUS SUMMARY>'' @
     [newline, newline, newline] @
     concat (map (\<lambda>e. ''<EVENT id='' @ show_int (ev_id e) @ ''>'' @ newline #
                       truncate_content (to_str e) (Some max_event_length) @ newline # ''</EVENT>'' @ [newline])
               forgotten_events)"

text \<open>The fixed text of the summarizing prompt\<close>

definition SUMMARY_INSTRUCTIONS :: string where
  "SUMMARY_INSTRUCTIONS =
     str_join [newline]
       [''You are maintaining a context-aware state summary for an interactive agent.'',
        ''You will be given a list of events corresponding to actions taken by the agent, and the most recent previous summary if one exists.'',
        ''If the events being summarized contain ANY task-tracking, you MUST include a TASK_TRACKING section to maintain continuity.'',
        ''When referencing tasks make sure to preserve exact task IDs and statuses.'',
        '''',
        ''Track:'',
        '''',
        ''USER_CONTEXT: (Preserve essential user requirements, goals, and clarifications in concise form)'',
        '''',
        ''TASK_TRACKING: {Active tasks, their IDs and statuses - PRESERVE TASK IDs}'',
        '''',
        ''COMPLETED: (Tasks completed so far, with brief results)'',
        ''PENDING: (Tasks that still need to be done)'',
        ''CURRENT_STATE: (Current variables, data structures, or relevant state)'',
        '''',
        ''For code-specific tasks, also include:'',
        ''CODE_STATE: {File paths, function signatures, data structures}'',
        ''TESTS: {Failing cases, error messages, outputs}'',
        ''CHANGES: {Code edits, variable updates}'',
        ''DEPS: {Dependencies, imports, external calls}'',
        ''VERSION_CONTROL_STATUS: {Repository state, current branch, PR status, commit history}'',
        '''',
        ''PRIORITIZE:'',
        ''1. Adapt tracking format to match the actual task type'',
        ''2. Capture key user requirements and goals'',
        ''3. Distinguish between completed and pending tasks'',
        ''4. Keep all sections concise and relevant'',
        '''',
        ''SKIP: Tracking irrelevant details for the current task type'',
        '''',
        ''Example formats:'',
        '''',
        ''For code tasks:'',
        ''USER_CONTEXT: Fix FITS card float representation issue'',
        ''COMPLETED: Modified mod_float() in card.py, all tests passing'',
        ''PENDING: Create PR, update documentation'',
        ''CODE_STATE: mod_float() in card.py updated'',
        ''TESTS: test_format() passed'',
        ''CHANGES: str(val) replaces f'' @ CHR 0x22 # ''{val:.16G}'' @ CHR 0x22 # '''',
        ''DEPS: None modified'',
        ''VERSION_CONTROL_STATUS: Branch: fix-float-precision, Latest commit: a1b2c3d'',
        '''',
        ''For other tasks:'',
        ''USER_CONTEXT: Write 20 haikus based on coin flip results'',
        ''COMPLETED: 15 haikus written for results [T,H,T,H,T,H,T,T,H,T,H,T,H,T,H]'',
        ''PENDING: 5 more haikus needed'',
        ''CURRENT_STATE: Last flip: Heads, Haiku count: 15/20'']"

text \<open>\<open>LLMSummarizingCondenser\<close>\<close>

definition summarizing_get_condensation ::
    "(event \<Rightarrow> string) \<Rightarrow> (string \<Rightarrow> exn + (string option \<times> json \<times> json)) \<Rightarrow> int \<Rightarrow> int \<Rightarrow> int \<Rightarrow>
     view \<Rightarrow> (exn + condensation_action) \<times> jdict" where
  "summarizing_get_condensation to_str llm max_size keep_first max_event_length v =
     (case view_nth v keep_first of
        Inl x \<Rightarrow> (Inl x, [])
      | Inr s0 \<Rightarrow>
          (let forgotten_events = summary_forgotten max_size keep_first (v_events v);
               prompt = summary_prompt SUMMARY_INSTRUCTIONS to_str max_event_length (previous_summary s0)
                          forgotten_events
                        @ ''Now summarize the events using the rules above.''
           in case llm prompt of
                Inl x \<Rightarrow> (Inl x, [])
              | Inr (summary, response, mtr) \<Rightarrow>
                  (range_condensation (map ev_id forgotten_events) summary (Some keep_first),
                   [(''response'', response), (''metrics'', mtr)])))"

subsection \<open>Structured summaries\<close>

text \<open>\<open>StateSummary\<close>\<close>

record state_summary =
  ss_user_context :: string
  ss_completed_tasks :: string
  ss_pending_tasks :: string
  ss_current_state :: string
  ss_files_modified :: string
  ss_function_changes :: string
  ss_data_structures :: string
  ss_tests_written :: string
  ss_tests_passing :: string
  ss_failing_tests :: string
  ss_error_messages :: string
  ss_branch_created :: string
  ss_branch_name :: string
  ss_commits_made :: string
  ss_pr_created :: string
  ss_pr_status :: string
  ss_dependencies :: string
  ss_other_relevant_context :: string

definition empty_summary :: state_summary where
  "empty_summary =
     \<lparr>ss_user_context = [],
      ss_completed_tasks = [],
      ss_pending_tasks = [],
      ss_current_state = [],
      ss_files_modified = [],
      ss_function_changes = [],
      ss_data_structures = [],
      ss_tests_written = [],
      ss_tests_passing = [],
      ss_failing_tests = [],
      ss_error_messages = [],
      ss_branch_created = [],
      ss_branch_name = [],
      ss_commits_made = [],
      ss_pr_created = [],
      ss_pr_status = [],
      ss_dependencies = [],
      ss_other_relevant_context = []\<rparr>"

definition summary_field :: "jdict \<Rightarrow> string \<Rightarrow> string" where
  "summary_field d k = (case map_of d k of Some (JStr s) \<Rightarrow> s | _ \<Rightarrow> [])"

text \<open>\<open>model_validate\<close>; \<^const>\<open>None\<close> when a field is no string\<close>

definition validate_summary :: "jdict \<Rightarrow> state_summary option" where
  "validate_summary d =
     (if list_all (\<lambda>k. case map_of d k of None \<Rightarrow> True | Some j \<Rightarrow> dec_str j \<noteq> None)
           [''user_context'',
            ''completed_tasks'',
            ''pending_tasks'',
            ''current_state'',
            ''files_modified'',
            ''function_changes'',
            ''data_structures'',
            ''tests_written'',
            ''tests_passing'',
            ''failing_tests'',
            ''error_messages'',
            ''branch_created'',
            ''branch_name'',
            ''commits_made'',
            ''pr_created'',
            ''pr_status'',
            ''dependencies'',
            ''other_relevant_context'']
      then Some \<lparr>ss_user_context = summary_field d ''user_context'',
                 ss_completed_tasks = summary_field d ''completed_tasks'',
                 ss_pending_tasks = summary_field d ''pending_tasks'',
                 ss_current_state = summary_field d ''current_state'',
                 ss_files_modified = summary_field d ''files_modified'',
                 ss_function_changes = summary_field d ''function_changes'',
                 ss_data_structures = summary_field d ''data_structures'',
                 ss_tests_written = summary_field d ''tests_written'',
                 ss_tests_passing = summary_field d ''tests_passing'',
                 ss_failing_tests = summary_field d ''failing_tests'',
                 ss_error_messages = summary_field d ''error_messages'',
                 ss_branch_created = summary_field d ''branch_created'',
                 ss_branch_name = summary_field d ''branch_name'',
                 ss_commits_made = summary_field d ''commits_made'',
                 ss_pr_created = summary_field d ''pr_created'',
                 ss_pr_status = summary_field d ''pr_status'',
                 ss_dependencies = summary_field d ''dependencies'',
                 ss_other_relevant_context = summary_field d ''other_relevant_context''\<rparr>
      else None)"

definition state_summary_str :: "state_summary \<Rightarrow> string" where
  "state_summary_str s =
     str_join [newline, newline]
       [''# State Summary'',
        ''## Core Information'',
        ''**User Context**: '' @ ss_user_context s,
        ''**Completed Tasks**: '' @ ss_completed_tasks s,
        ''**Pending Tasks**: '' @ ss_pending_tasks s,
        ''**Current State**: '' @ ss_current_state s,
        ''## Code Changes'',
        ''**Files Modified**: '' @ ss_files_modified s,
        ''**Function Changes**: '' @ ss_function_changes s,
        ''**Data Structures**: '' @ ss_data_structures s,
        ''**Dependencies**: '' @ ss_dependencies s,
        ''## Testing Status'',
        ''**Tests Written**: '' @ ss_tests_written s,
        ''**Tests Passing**: '' @ ss_tests_passing s,
        ''**Failing Tests**: '' @ ss_failing_tests s,
        ''**Error Messages**: '' @ ss_error_messages s,
        ''## Version Control'',
        ''**Branch Created**: '' @ ss_branch_created s,
        ''**Branch Name**: '' @ ss_branch_name s,
        ''**Commits Made**: '' @ ss_commits_made s,
        ''**PR Created**: '' @ ss_pr_created s,
        ''**PR Status**: '' @ ss_pr_status s,
        ''## Additional Context'',
        ''**Other Relevant Context**: '' @ ss_other_relevant_context s]"

definition STRUCTURED_INSTRUCTIONS :: string where
  "STRUCTURED_INSTRUCTIONS =
     str_join [newline]
       [''You are maintaining a context-aware state summary for an interactive software agent. This summary is critical because it:'',
        ''1. Preserves essential context when conversation history grows too large'',
        ''2. Prevents lost work when the session length exceeds token limits'',
        ''3. Helps maintain continuity across multiple interactions'',
        '''',
        ''You will be given:'',
        ''- A list of events (actions taken by the agent)'',
        ''- The most recent previous summary (if one exists)'',
        '''',
        ''Capture all relevant information, especially:'',
        ''- User requirements that were explicitly stated'',
        ''- Work that has been completed'',
        ''- Tasks that remain pending'',
        ''- Current state of code, variables, and data structures'',
        ''- The status of any version control operations'']"

text \<open>The tool calls of a reply: function name and argument text; \<open>loads\<close> is \<open>json.loads\<close>.\<close>

definition parse_summary ::
    "(string \<Rightarrow> json option) \<Rightarrow> (string \<times> string) list \<Rightarrow> state_summary" where
  "parse_summary loads tool_calls =
     (case find (\<lambda>(name, args). name = ''create_state_summary'') tool_calls of
        None \<Rightarrow> empty_summary
      | Some (_, args) \<Rightarrow>
          (case loads args of
             Some (JDict d) \<Rightarrow> (case validate_summary d of None \<Rightarrow> empty_summary | Some s \<Rightarrow> s)
           | _ \<Rightarrow> empty_summary))"

definition structured_get_condensation ::
    "(event \<Rightarrow> string) \<Rightarrow> (string \<Rightarrow> json option) \<Rightarrow> (string \<Rightarrow> exn + ((string \<times> string) list \<times> json \<times> json)) \<Rightarrow>
     int \<Rightarrow> int \<Rightarrow> int \<Rightarrow> view \<Rightarrow> (exn + condensation_action) \<times> jdict" where
  "structured_get_condensation to_str loads llm max_size keep_first max_event_length v =
     (case view_nth v keep_first of
        Inl x \<Rightarrow> (Inl x, [])
      | Inr s0 \<Rightarrow>
          (let forgotten_events = summary_forgotten max_size keep_first (v_events v);
               prompt = summary_prompt STRUCTURED_INSTRUCTIONS to_str max_event_length (previous_summary s0)
                          forgotten_events
           in case llm prompt of
                Inl x \<Rightarrow> (Inl x, [])
              | Inr (tool_calls, response, mtr) \<Rightarrow>
                  (range_condensation (map ev_id forgotten_events)
                     (Some (state_summary_str (parse_summary loads tool_calls))) (Some keep_first),
                   [(''response'', response), (''metrics'', mtr)])))"

section \<open>Selection by the language model\<close>

text \<open>\<open>LLMAttentionCondenser\<close>: \<open>rank\<close> is the model's list of ids for the messages it is sent.\<close>

definition attention_messages :: "(jdict \<Rightarrow> string) \<Rightarrow> event list \<Rightarrow> string list" where
  "attention_messages rp es =
     str_join [newline]
       [''You will be given a list of actions, observations, and thoughts from a coding agent.'',
        ''        Each item in the list has an identifier. Please sort the identifiers in order of how important the'',
        ''        contents of the item are for the next step of the coding agent'' @ CHR 0x27 # ''s task, from most important to least'',
        ''        important.'']
     # map (\<lambda>e. ''<ID>'' @ show_int (ev_id e) @ ''</ID>'' @ newline # ''<CONTENT>''
                  @ (case ev_message rp e of Some m \<Rightarrow> m | None \<Rightarrow> []) @ ''</CONTENT>'') es"

text \<open>The loop that tops up a short selection from the end of the view\<close>

fun fill_ids :: "int \<Rightarrow> int list \<Rightarrow> int list \<Rightarrow> int list" where
  "fill_ids n ids [] = ids"
| "fill_ids n ids (i # is) =
     (if int (length ids) \<ge> n then ids
      else if i \<notin> set ids then fill_ids n (ids @ [i]) is
      else fill_ids n ids is)"

definition attention_get_condensation ::
    "(jdict \<Rightarrow> string) \<Rightarrow> (string list \<Rightarrow> exn + (int list \<times> json)) \<Rightarrow> int \<Rightarrow> int \<Rightarrow>
     view \<Rightarrow> (exn + condensation_action) \<times> jdict" where
  "attention_get_condensation rp rank max_size keep_first v =
     (let ids = map ev_id (v_events v);
          head_ids = map ev_id (py_slice (v_events v) None (Some keep_first));
          events_from_tail = max_size div 2 - int (length head_ids)
      in case rank (attention_messages rp (v_events v)) of
           Inl x \<Rightarrow> (Inl x, [])
         | Inr (response_ids, mtr) \<Rightarrow>
             (let chosen = py_slice (filter (\<lambda>i. i \<notin> set head_ids) response_ids) None (Some events_from_tail);
                  filled = fill_ids events_from_tail chosen (rev ids)
              in (mk_condensation (Some (filter (\<lambda>i. i \<notin> set filled \<and> i \<notin> set head_ids) ids)) None None None None,
                  [(''metrics'', mtr)])))"

section \<open>What is kept\<close>

lemma range_condensation_valid: "range_condensation ids sm off = Inr c \<Longrightarrow> validate_field_polymorphism c"
  by (auto simp: range_condensation_def sbind_Inr_iff mk_condensation_def Let_def split: if_splits)

lemma range_condensation_forgotten:
  assumes "range_condensation ids sm off = Inr c" "forgotten c = Inr fs"
  shows "ids \<noteq> []" "fs = [Min (set ids)..Max (set ids)]"
  using assms
  by (auto simp: range_condensation_def sbind_Inr_iff mk_condensation_def Let_def py_min_def py_max_def
      forgotten_def split: if_splits)

lemma forget_action_valid: "forget_action ids = Inr c \<Longrightarrow> validate_field_polymorphism c"
  by (auto simp: forget_action_def mk_condensation_def Let_def split: if_splits)

text \<open>A sorted list of distinct ids whose ends are as far apart as its length is a range.\<close>

lemma contiguous_range:
  assumes "sorted xs" "distinct xs" "xs \<noteq> []" "last xs - hd xs = int (length xs) - 1"
  shows "xs = [hd xs..last xs]"
proof (rule sorted_distinct_set_unique)
  have sub: "set xs \<subseteq> {hd xs..last xs}"
  proof
    fix x assume x: "x \<in> set xs"
    then have "hd xs \<le> x" using assms(1,3) by (cases xs) auto
    moreover have "sorted (butlast xs @ [last xs])" "x \<in> set (butlast xs @ [last xs])"
      using x assms(1,3) by simp_all
    then have "x \<le> last xs" by (auto simp only: sorted_append set_append list.set)
    ultimately show "x \<in> {hd xs..last xs}" by simp
  qed
  have "card {hd xs..last xs} = card (set xs)"
    using assms by (simp add: distinct_card)
  with sub have "set xs = {hd xs..last xs}" by (simp add: card_subset_eq)
  then show "set xs = set [hd xs..last xs]" by simp
qed (use assms in simp_all)

lemma forget_action_forgotten:
  assumes "sorted ids" "distinct ids" "forget_action ids = Inr c"
  shows "forgotten c = Inr ids"
  using assms contiguous_range [of ids]
  by (auto simp: forget_action_def forgotten_def validate_field_polymorphism_def split: if_splits)

interpretation window: rolling window_should_condense window_get_condensation
  "\<lambda>v. set (window_kept (v_events v))" "\<lambda>v. True"
proof unfold_locales
  fix v c ids e
  assume c: "fst (window_get_condensation v) = Inr c"
  show "validate_field_polymorphism c"
    using c forget_action_valid
    by (auto simp: window_get_condensation_def Let_def validate_field_polymorphism_def split: if_splits)
  assume f: "forgotten c = Inr ids" and e: "e \<in> set (window_kept (v_events v))"
  show "ev_id e \<notin> set ids"
  proof (cases "v_events v = [] \<or> find is_user_message (v_events v) = None")
    case True
    with c f have "ids = []"
      by (auto simp: window_get_condensation_def Let_def forgotten_def validate_field_polymorphism_def
          split: if_splits)
    then show ?thesis by simp
  next
    case False
    with c have "forget_action (window_forgotten (v_events v)) = Inr c"
      by (auto simp: window_get_condensation_def Let_def)
    then have "forgotten c = Inr (window_forgotten (v_events v))"
      by (rule forget_action_forgotten [rotated 2]) (simp_all add: window_forgotten_def)
    with f e show ?thesis by (auto simp: window_forgotten_def)
  qed
qed

subsection \<open>Ranges in a chronological view\<close>

text \<open>The ids grow along the view, apart from inserted summaries, which have no id.\<close>

definition chronological :: "event list \<Rightarrow> bool" where
  "chronological es \<longleftrightarrow>
     sorted_wrt (\<lambda>a b. is_condensation_obs a \<or> is_condensation_obs b \<or> ev_id a < ev_id b) es"

lemma outside_range:
  assumes chr: "chronological es" and ne: "F \<noteq> {}" "finite F"
    and F: "\<And>f. f \<in> F \<Longrightarrow> \<exists>p < length es. i \<le> p \<and> p < j \<and> f = ev_id (es ! p) \<and> \<not> is_condensation_obs (es ! p)"
    and q: "q < length es" "q < i \<or> j \<le> q" "\<not> is_condensation_obs (es ! q)"
  shows "ev_id (es ! q) \<notin> {Min F..Max F}"
proof -
  have lt: "ev_id (es ! a) < ev_id (es ! b)"
    if "a < b" "b < length es" "\<not> is_condensation_obs (es ! a)" "\<not> is_condensation_obs (es ! b)" for a b
    using chr that by (auto simp: chronological_def sorted_wrt_iff_nth_less)
  from F [OF Min_in [OF ne(2,1)]] obtain p where p: "p < length es" "i \<le> p"
    "Min F = ev_id (es ! p)" "\<not> is_condensation_obs (es ! p)" by blast
  from F [OF Max_in [OF ne(2,1)]] obtain r where r: "r < length es" "r < j"
    "Max F = ev_id (es ! r)" "\<not> is_condensation_obs (es ! r)" by blast
  from q(2) show ?thesis
  proof
    assume "q < i"
    with p lt [of q p] q show ?thesis by simp
  next
    assume "j \<le> q"
    with r lt [of r q] q show ?thesis by simp
  qed
qed

lemma check_sizes_ok:
  assumes "check_sizes max_size keep_first = None"
  shows "0 \<le> keep_first" "keep_first < max_size div 2" "1 \<le> max_size"
  using assms by (auto simp: check_sizes_def split: if_splits)

text \<open>The first events up to \<open>keep_first\<close> and the last \<open>n\<close>, without summaries\<close>

definition head_and_tail :: "int \<Rightarrow> int \<Rightarrow> event list \<Rightarrow> event set" where
  "head_and_tail keep_first n es =
     {e \<in> set (take (nat keep_first) es) \<union> set (drop (length es - nat n) es). \<not> is_condensation_obs e}"

lemma head_and_tail_pos:
  assumes "e \<in> head_and_tail keep_first n es"
  obtains q where "q < length es" "e = es ! q" "q < nat keep_first \<or> length es - nat n \<le> q"
    "\<not> is_condensation_obs (es ! q)"
proof -
  from assms consider "e \<in> set (take (nat keep_first) es)" | "e \<in> set (drop (length es - nat n) es)"
    by (auto simp: head_and_tail_def)
  then show ?thesis
  proof cases
    case 1
    then obtain q where "q < length es" "q < nat keep_first" "e = es ! q"
      by (auto simp: in_set_conv_nth)
    with assms that show ?thesis by (auto simp: head_and_tail_def)
  next
    case 2
    then obtain q where "q < length es - (length es - nat n)" "e = es ! (length es - nat n + q)"
      by (auto simp: in_set_conv_nth)
    with assms that [of "length es - nat n + q"] show ?thesis by (auto simp: head_and_tail_def)
  qed
qed

subsection \<open>The amortized strategy\<close>

definition amortized_tail :: "int \<Rightarrow> int \<Rightarrow> event list \<Rightarrow> int" where
  "amortized_tail max_size keep_first es =
     max_size div 2 - int (length (py_slice es None (Some keep_first)))"

definition no_summaries :: "event list \<Rightarrow> bool" where
  "no_summaries es \<longleftrightarrow> list_all (\<lambda>e. \<not> is_condensation_obs e) es"

lemma amortized_tail_pos:
  assumes "check_sizes max_size keep_first = None"
  shows "0 < amortized_tail max_size keep_first es"
proof -
  have "int (length (take (nat keep_first) es)) \<le> keep_first"
    using check_sizes_ok(1) [OF assms] by simp
  then show ?thesis using check_sizes_ok(1,2) [OF assms] by (simp add: amortized_tail_def)
qed

lemma amortized_forget_pos:
  assumes sz: "check_sizes max_size keep_first = None" and nosum: "no_summaries es"
    and f: "f \<in> set (filter (\<lambda>i. i \<notin> set (map ev_id (py_slice es None (Some keep_first) @
                 py_slice es (Some (- amortized_tail max_size keep_first es)) None))) (map ev_id es))"
  shows "\<exists>p < length es. nat keep_first \<le> p \<and> p < length es - nat (amortized_tail max_size keep_first es)
    \<and> f = ev_id (es ! p) \<and> \<not> is_condensation_obs (es ! p)"
proof -
  let ?t = "length es - nat (amortized_tail max_size keep_first es)"
  from f obtain p where p: "p < length es" "f = ev_id (es ! p)" by (auto simp: in_set_conv_nth)
  have sl: "py_slice es None (Some keep_first) = take (nat keep_first) es"
    "py_slice es (Some (- amortized_tail max_size keep_first es)) None = drop ?t es"
    using check_sizes_ok(1) [OF sz] amortized_tail_pos [OF sz] by (simp_all add: py_slice_last)
  have "nat keep_first \<le> p"
  proof (rule ccontr)
    assume "\<not> nat keep_first \<le> p"
    with p have "es ! p \<in> set (take (nat keep_first) es)" by (auto simp: in_set_conv_nth)
    with f p show False by (simp add: sl)
  qed
  moreover have "p < ?t"
  proof (rule ccontr)
    assume "\<not> p < ?t"
    with p have "es ! p \<in> set (drop ?t es)"
      by (auto simp: in_set_conv_nth intro!: exI [of _ "p - ?t"])
    with f p show False by (simp add: sl)
  qed
  moreover have "\<not> is_condensation_obs (es ! p)" using nosum p by (simp add: no_summaries_def list_all_iff)
  ultimately show ?thesis using p by blast
qed

interpretation amortized: rolling "size_should_condense max_size"
  "amortized_get_condensation max_size keep_first"
  "\<lambda>v. head_and_tail keep_first (amortized_tail max_size keep_first (v_events v)) (v_events v)"
  "\<lambda>v. check_sizes max_size keep_first = None \<and> chronological (v_events v) \<and> no_summaries (v_events v)"
  for max_size keep_first :: int
proof unfold_locales
  fix v c ids e
  assume c: "fst (amortized_get_condensation max_size keep_first v) = Inr c"
  show "validate_field_polymorphism c"
    using c range_condensation_valid by (auto simp: amortized_get_condensation_def Let_def)
  assume pre: "check_sizes max_size keep_first = None \<and> chronological (v_events v) \<and> no_summaries (v_events v)"
    and f: "forgotten c = Inr ids"
    and e: "e \<in> head_and_tail keep_first (amortized_tail max_size keep_first (v_events v)) (v_events v)"
  let ?es = "v_events v" and ?t = "amortized_tail max_size keep_first (v_events v)"
  let ?F = "filter (\<lambda>i. i \<notin> set (map ev_id (py_slice ?es None (Some keep_first) @
                 py_slice ?es (Some (- ?t)) None))) (map ev_id ?es)"
  have rc: "range_condensation ?F None None = Inr c"
    using c by (simp add: amortized_get_condensation_def Let_def amortized_tail_def)
  note r = range_condensation_forgotten [OF rc f]
  from e obtain q where q: "q < length ?es" "e = ?es ! q" "q < nat keep_first \<or> length ?es - nat ?t \<le> q"
    "\<not> is_condensation_obs (?es ! q)" by (rule head_and_tail_pos)
  have "ev_id (?es ! q) \<notin> {Min (set ?F)..Max (set ?F)}"
    by (rule outside_range [where i = "nat keep_first" and j = "length ?es - nat ?t"])
      (use pre r(1) q amortized_forget_pos [of max_size keep_first ?es] in \<open>auto simp del: set_filter set_map\<close>)
  with q r(2) show "ev_id e \<notin> set ids" by simp
qed

text \<open>A view over the limit is always condensed, to exactly half the limit.\<close>

lemma chronological_distinct:
  assumes "chronological es" "no_summaries es"
  shows "sorted_wrt (<) (map ev_id es)"
proof -
  have "sorted_wrt (\<lambda>a b. ev_id a < ev_id b) es"
    using assms by (auto simp: chronological_def no_summaries_def list_all_iff
        intro: sorted_wrt_mono_rel [of es, rotated])
  then show ?thesis by (simp add: sorted_wrt_map)
qed

lemma amortized_parts:
  fixes es :: "event list"
  assumes sz: "check_sizes max_size keep_first = None" and big: "max_size < int (length es)"
  defines "t \<equiv> nat (amortized_tail max_size keep_first es)" and "k \<equiv> nat keep_first"
  shows "k < length es - t" "t \<le> length es" "int k + int t = max_size div 2"
    "amortized_tail max_size keep_first es = int t"
proof -
  note s = check_sizes_ok [OF sz]
  have k: "k \<le> length es" using s big by (simp add: k_def)
  have "length (py_slice es None (Some keep_first)) = k" using s(1) k by (simp add: k_def)
  then have at: "amortized_tail max_size keep_first es = max_size div 2 - int k"
    by (simp add: amortized_tail_def)
  show "amortized_tail max_size keep_first es = int t"
    using amortized_tail_pos [OF sz, of es] by (simp add: t_def)
  with at show sum: "int k + int t = max_size div 2" by simp
  show "k < length es - t" "t \<le> length es" using sum big s k by linarith+
qed

lemma amortized_filter:
  assumes sz: "check_sizes max_size keep_first = None" and big: "max_size < int (length es)"
    and chr: "chronological es" "no_summaries es"
  defines "t \<equiv> nat (amortized_tail max_size keep_first es)" and "k \<equiv> nat keep_first"
  shows "filter (\<lambda>i. i \<notin> set (map ev_id (take k es @ drop (length es - t) es))) (map ev_id es) =
    map ev_id (take (length es - t - k) (drop k es))"
proof -
  note p = amortized_parts [OF sz big, folded t_def k_def]
  let ?m = "take (length es - t - k) (drop k es)" and ?T = "drop (length es - t) es"
  have split: "es = take k es @ ?m @ ?T"
  proof -
    have "?m @ drop (length es - t - k) (drop k es) = drop k es" by (rule append_take_drop_id)
    moreover have "drop (length es - t - k) (drop k es) = ?T" using p(1) by simp
    ultimately show ?thesis by (metis append_take_drop_id)
  qed
  have d: "distinct (map ev_id es)"
    using chronological_distinct [OF chr] strict_sorted_iff by blast
  let ?P = "\<lambda>i. i \<notin> set (map ev_id (take k es @ ?T))"
  have "filter ?P (map ev_id es) = filter ?P (map ev_id (take k es)) @ filter ?P (map ev_id ?m) @ filter ?P (map ev_id ?T)"
    by (metis split filter_append map_append)
  moreover have "filter ?P (map ev_id (take k es)) = []" "filter ?P (map ev_id ?T) = []"
    by (auto simp: filter_empty_conv)
  moreover have "filter ?P (map ev_id ?m) = map ev_id ?m"
  proof (rule filter_True, rule ballI)
    fix x assume x: "x \<in> set (map ev_id ?m)"
    have "distinct (map ev_id (take k es) @ map ev_id ?m @ map ev_id ?T)"
      using d split by (metis map_append)
    with x show "x \<notin> set (map ev_id (take k es @ ?T))" by auto
  qed
  ultimately show ?thesis by simp
qed

lemma amortized_get_eq:
  assumes sz: "check_sizes max_size keep_first = None" and big: "max_size < int (length (v_events v))"
    and chr: "chronological (v_events v)" "no_summaries (v_events v)"
  defines "t \<equiv> nat (amortized_tail max_size keep_first (v_events v))" and "k \<equiv> nat keep_first"
  shows "fst (amortized_get_condensation max_size keep_first v) =
    range_condensation (map ev_id (take (length (v_events v) - t - k) (drop k (v_events v)))) None None"
proof -
  let ?es = "v_events v"
  have "fst (amortized_get_condensation max_size keep_first v) =
      range_condensation (filter (\<lambda>i. i \<notin> set (map ev_id (py_slice ?es None (Some keep_first) @
        py_slice ?es (Some (- amortized_tail max_size keep_first ?es)) None))) (map ev_id ?es)) None None"
    by (simp add: amortized_get_condensation_def Let_def amortized_tail_def)
  moreover have "py_slice ?es (Some (- amortized_tail max_size keep_first ?es)) None = drop (length ?es - t) ?es"
    using amortized_tail_pos [OF sz, of ?es] by (simp add: py_slice_last t_def)
  moreover have "py_slice ?es None (Some keep_first) = take k ?es"
    using check_sizes_ok(1) [OF sz] by (simp add: k_def)
  ultimately show ?thesis
    using amortized_filter [OF sz big chr, folded t_def k_def] by (simp only:)
qed

lemma filter_outside_mid:
  assumes "chronological es" "no_summaries es" "k < j" "j \<le> length es"
  defines "m \<equiv> map ev_id (take (j - k) (drop k es))"
  shows "filter (\<lambda>e. ev_id e \<notin> {Min (set m)..Max (set m)}) es = take k es @ drop j es"
proof -
  have m: "set m \<noteq> {}" "finite (set m)"
    using assms(3,4) by (auto simp: m_def)
  have split: "es = take k es @ take (j - k) (drop k es) @ drop j es"
    using assms(3) by (metis append_take_drop_id drop_drop le_add_diff_inverse2 less_imp_le)
  have pos: "\<exists>p<length es. k \<le> p \<and> p < j \<and> f = ev_id (es ! p) \<and> \<not> is_condensation_obs (es ! p)"
    if "f \<in> set m" for f
  proof -
    from that obtain p where "p < j - k" "p < length es - k" "f = ev_id (drop k es ! p)"
      by (auto simp: m_def in_set_conv_nth)
    then show ?thesis using assms(2) by (intro exI [of _ "k + p"]) (auto simp: no_summaries_def list_all_iff)
  qed
  have out: "ev_id (es ! q) \<notin> {Min (set m)..Max (set m)}" if "q < length es" "q < k \<or> j \<le> q" for q
    using outside_range [OF assms(1) m pos, of q] that assms(2)
    by (auto simp: no_summaries_def list_all_iff)
  have "filter (\<lambda>e. ev_id e \<notin> {Min (set m)..Max (set m)}) (take k es) = take k es"
    by (rule filter_True) (use out in \<open>auto simp: in_set_conv_nth\<close>)
  moreover have "filter (\<lambda>e. ev_id e \<notin> {Min (set m)..Max (set m)}) (drop j es) = drop j es"
  proof (rule filter_True, rule ballI)
    fix e assume "e \<in> set (drop j es)"
    then obtain q where "q < length es - j" "e = es ! (j + q)" by (auto simp: in_set_conv_nth)
    with out [of "j + q"] show "ev_id e \<notin> {Min (set m)..Max (set m)}" by simp
  qed
  moreover have "filter (\<lambda>e. ev_id e \<notin> {Min (set m)..Max (set m)}) (take (j - k) (drop k es)) = []"
    by (auto simp: filter_empty_conv m_def)
  ultimately show ?thesis by (subst split) simp
qed

lemma from_events_snoc_condensation:
  assumes v: "from_events hist = Inr v" and e: "payload e = Act (CondensationAction c)"
    and f: "forgotten c = Inr ids" and nosum: "ca_summary c = None" "find_summary (rev hist) = None"
    and fresh: "\<forall>x \<in> set hist. ev_id x \<noteq> ev_id e"
  shows "\<exists>v'. from_events (hist @ [e]) = Inr v' \<and>
    v_events v' = filter (\<lambda>x. ev_id x \<notin> set ids) (v_events v)"
proof -
  from v nosum obtain xs where xs: "collect_forgotten hist = Inr xs"
    "v_events v = filter (\<lambda>x. ev_id x \<notin> set xs) hist"
    by (auto simp: from_events_def sbind_Inr_iff Let_def)
  have "collect_forgotten (hist @ [e]) = Inr (xs @ ids @ [ev_id e])"
    using xs(1) e f by (simp add: collect_forgotten_append event_forgets_def)
  moreover have "find_summary (rev (hist @ [e])) = None" using e nosum by simp
  moreover have "filter (\<lambda>x. ev_id x \<notin> set (xs @ ids @ [ev_id e])) (hist @ [e]) =
      filter (\<lambda>x. ev_id x \<notin> set ids) (v_events v)"
    using fresh by (auto simp: xs(2) intro!: filter_cong)
  ultimately show ?thesis by (simp add: from_events_def Let_def)
qed

lemma no_summaries_view:
  assumes "from_events hist = Inr v" "no_summaries (v_events v)"
  shows "find_summary (rev hist) = None"
proof (rule ccontr)
  assume "find_summary (rev hist) \<noteq> None"
  then obtain s off where "find_summary (rev hist) = Some (s, off)" by auto
  with assms(1) have "mk_obs (AgentCondensationObservation s) \<in> set (v_events v)"
    by (auto simp: from_events_def sbind_Inr_iff Let_def set_py_insert)
  with assms(2) show False by (auto simp: no_summaries_def list_all_iff is_condensation_obs_def)
qed

lemma amortized_next_view:
  assumes sz: "check_sizes max_size keep_first = None"
    and v: "from_events hist = Inr v" "max_size < int (length (v_events v))"
      "chronological (v_events v)" "no_summaries (v_events v)"
  obtains c where "fst (amortized_get_condensation max_size keep_first v) = Inr c"
    and "\<And>e. payload e = Act (CondensationAction c) \<Longrightarrow> \<forall>x \<in> set hist. ev_id x \<noteq> ev_id e \<Longrightarrow>
      \<exists>v'. from_events (hist @ [e]) = Inr v' \<and> int (length (v_events v')) = max_size div 2 \<and>
        v_events v' = take (nat keep_first) (v_events v) @
          drop (length (v_events v) - nat (max_size div 2 - keep_first)) (v_events v)"
proof -
  let ?es = "v_events v"
  define t where "t = nat (amortized_tail max_size keep_first ?es)"
  define k where "k = nat keep_first"
  define m where "m = map ev_id (take (length ?es - t - k) (drop k ?es))"
  note p = amortized_parts [OF sz v(2), folded t_def k_def]
  have g: "fst (amortized_get_condensation max_size keep_first v) = range_condensation m None None"
    unfolding m_def t_def k_def by (rule amortized_get_eq [OF sz v(2-4)])
  have "m \<noteq> []" using p(1) by (auto simp: m_def)
  then obtain c where c: "range_condensation m None None = Inr c" "ca_summary c = None"
    by (auto simp: range_condensation_def py_min_def py_max_def)
  obtain ids where f: "forgotten c = Inr ids"
    using forgotten_ok [OF range_condensation_valid [OF c(1)]] by blast
  have ids: "set ids = {Min (set m)..Max (set m)}"
    using range_condensation_forgotten(2) [OF c(1) f] by simp
  have flt: "filter (\<lambda>x. ev_id x \<notin> set ids) ?es = take k ?es @ drop (length ?es - t) ?es"
    using filter_outside_mid [OF v(3,4) p(1)] by (simp add: ids m_def)
  have tk: "nat (max_size div 2 - keep_first) = t"
    using p(3) check_sizes_ok(1) [OF sz] by (simp add: k_def)
  show ?thesis
  proof (rule that [of c])
    fix e assume "payload e = Act (CondensationAction c)" "\<forall>x \<in> set hist. ev_id x \<noteq> ev_id e"
    from from_events_snoc_condensation [OF v(1) this(1) f c(2) no_summaries_view [OF v(1,4)] this(2)]
    obtain v' where "from_events (hist @ [e]) = Inr v'"
      "v_events v' = take k ?es @ drop (length ?es - t) ?es" by (auto simp: flt)
    then show "\<exists>v'. from_events (hist @ [e]) = Inr v' \<and> int (length (v_events v')) = max_size div 2 \<and>
        v_events v' = take (nat keep_first) ?es @
          drop (length ?es - nat (max_size div 2 - keep_first)) ?es"
      using p by (auto simp: tk k_def)
  qed (simp add: g c)
qed

subsection \<open>The summarizing strategies\<close>

lemma summary_forgotten_pos:
  assumes "f \<in> set (map ev_id (summary_forgotten max_size keep_first es))" "0 \<le> keep_first"
    "0 < summary_tail_size max_size keep_first es"
  shows "\<exists>p < length es. nat keep_first \<le> p \<and>
    p < length es - nat (summary_tail_size max_size keep_first es) \<and>
    f = ev_id (es ! p) \<and> \<not> is_condensation_obs (es ! p)"
proof -
  let ?t = "summary_tail_size max_size keep_first es"
  from assms(1) obtain e where e: "e \<in> set (py_slice es (Some keep_first) (Some (- ?t)))"
    "f = ev_id e" "\<not> is_condensation_obs e"
    by (auto simp: summary_forgotten_def)
  define n where "n = length es"
  let ?s = "slice_bound (int n) keep_first" and ?u = "slice_bound (int n) (- ?t)"
  have u: "?u = max 0 (int n - ?t)" using assms(3) by (simp add: slice_bound_def)
  have s: "?s = min keep_first (int n)" using assms(2) by (simp add: slice_bound_def)
  from e(1) obtain q where q: "q < nat (?u - ?s)" "q < n - nat ?s" "e = es ! (nat ?s + q)"
    by (auto simp: py_slice_def Let_def in_set_conv_nth n_def)
  have "keep_first \<le> int n" using q(2) s by linarith
  then have "nat ?s = nat keep_first" by (simp add: s)
  moreover have "nat ?s + q < n - nat ?t"
  proof -
    from q(1) have "int q < ?u - ?s" by (simp only: zless_nat_eq_int_zless)
    moreover have "int (nat ?s) = ?s" using s assms(2) by simp
    ultimately have "int (nat ?s) + int q < int n - ?t" using u s assms(2) by linarith
    then show ?thesis using assms(3) by linarith
  qed
  ultimately have "nat keep_first + q < length es - nat ?t" "e = es ! (nat keep_first + q)"
    using q(3) by (simp_all add: n_def)
  then show ?thesis using e by (intro exI [of _ "nat keep_first + q"]) auto
qed

lemma summary_keeps:
  assumes rc: "range_condensation (map ev_id (summary_forgotten max_size keep_first es)) sm off = Inr c"
    and f: "forgotten c = Inr ids" and pre: "0 \<le> keep_first" "chronological es"
      "0 < summary_tail_size max_size keep_first es"
    and e: "e \<in> head_and_tail keep_first (summary_tail_size max_size keep_first es) es"
  shows "ev_id e \<notin> set ids"
proof -
  let ?F = "map ev_id (summary_forgotten max_size keep_first es)"
  note r = range_condensation_forgotten [OF rc f]
  from e obtain q where q: "q < length es" "e = es ! q"
    "q < nat keep_first \<or> length es - nat (summary_tail_size max_size keep_first es) \<le> q"
    "\<not> is_condensation_obs (es ! q)" by (rule head_and_tail_pos)
  have "ev_id (es ! q) \<notin> {Min (set ?F)..Max (set ?F)}"
    by (rule outside_range [OF pre(2) _ _ summary_forgotten_pos [OF _ pre(1,3)]])
      (use r(1) q in \<open>auto simp del: set_map\<close>)
  with q r(2) show ?thesis by simp
qed

interpretation summarizing: rolling "size_should_condense max_size"
  "summarizing_get_condensation to_str llm max_size keep_first max_event_length"
  "\<lambda>v. head_and_tail keep_first (summary_tail_size max_size keep_first (v_events v)) (v_events v)"
  "\<lambda>v. 0 \<le> keep_first \<and> chronological (v_events v) \<and> 0 < summary_tail_size max_size keep_first (v_events v)"
  for to_str :: "event \<Rightarrow> string" and llm and max_size keep_first max_event_length :: int
proof unfold_locales
  fix v c ids e
  assume "fst (summarizing_get_condensation to_str llm max_size keep_first max_event_length v) = Inr c"
  then obtain sm where rc:
    "range_condensation (map ev_id (summary_forgotten max_size keep_first (v_events v))) sm (Some keep_first) = Inr c"
    by (auto simp: summarizing_get_condensation_def Let_def split: sum.splits)
  then show "validate_field_polymorphism c" by (rule range_condensation_valid)
  assume "0 \<le> keep_first \<and> chronological (v_events v) \<and> 0 < summary_tail_size max_size keep_first (v_events v)"
    "forgotten c = Inr ids"
    "e \<in> head_and_tail keep_first (summary_tail_size max_size keep_first (v_events v)) (v_events v)"
  with rc show "ev_id e \<notin> set ids" using summary_keeps by blast
qed

interpretation structured: rolling "size_should_condense max_size"
  "structured_get_condensation to_str loads llm max_size keep_first max_event_length"
  "\<lambda>v. head_and_tail keep_first (summary_tail_size max_size keep_first (v_events v)) (v_events v)"
  "\<lambda>v. 0 \<le> keep_first \<and> chronological (v_events v) \<and> 0 < summary_tail_size max_size keep_first (v_events v)"
  for to_str :: "event \<Rightarrow> string" and loads llm and max_size keep_first max_event_length :: int
proof unfold_locales
  fix v c ids e
  assume "fst (structured_get_condensation to_str loads llm max_size keep_first max_event_length v) = Inr c"
  then obtain sm where rc:
    "range_condensation (map ev_id (summary_forgotten max_size keep_first (v_events v))) sm (Some keep_first) = Inr c"
    by (auto simp: structured_get_condensation_def Let_def split: sum.splits)
  then show "validate_field_polymorphism c" by (rule range_condensation_valid)
  assume "0 \<le> keep_first \<and> chronological (v_events v) \<and> 0 < summary_tail_size max_size keep_first (v_events v)"
    "forgotten c = Inr ids"
    "e \<in> head_and_tail keep_first (summary_tail_size max_size keep_first (v_events v)) (v_events v)"
  with rc show "ev_id e \<notin> set ids" using summary_keeps by blast
qed

text \<open>
  With \<open>keep_first\<close> one below half the limit no event is left for the tail, the slice up to \<open>-0\<close> is
  empty and the strategy raises whatever the model answers.
\<close>

lemma summary_forgotten_no_tail:
  assumes "summary_tail_size max_size keep_first es = 0" "0 \<le> keep_first"
  shows "summary_forgotten max_size keep_first es = []"
  using assms by (simp add: summary_forgotten_def py_slice_def slice_bound_def Let_def)

subsection \<open>The attention strategy\<close>

interpretation attention: rolling "size_should_condense max_size"
  "attention_get_condensation rp rank max_size keep_first"
  "\<lambda>v. set (py_slice (v_events v) None (Some keep_first))" "\<lambda>v. True"
  for rp rank and max_size keep_first :: int
proof unfold_locales
  fix v c ids e
  assume c: "fst (attention_get_condensation rp rank max_size keep_first v) = Inr c"
  then show "validate_field_polymorphism c"
    by (auto simp: attention_get_condensation_def Let_def validate_field_polymorphism_def split: sum.splits)
  assume "forgotten c = Inr ids" "e \<in> set (py_slice (v_events v) None (Some keep_first))"
  with c show "ev_id e \<notin> set ids"
    by (auto simp: attention_get_condensation_def Let_def forgotten_def validate_field_polymorphism_def
        split: sum.splits)
qed

lemma fill_ids_length: "int (length ids) \<le> n \<Longrightarrow> int (length (fill_ids n ids is)) \<le> n"
  by (induction n ids "is" rule: fill_ids.induct) auto

lemma card_filter_le: "distinct xs \<Longrightarrow> length (filter (\<lambda>x. x \<in> set ys) xs) \<le> length ys"
proof -
  assume "distinct xs"
  then have "length (filter (\<lambda>x. x \<in> set ys) xs) = card (set (filter (\<lambda>x. x \<in> set ys) xs))"
    by (metis distinct_card distinct_filter)
  also have "\<dots> \<le> card (set ys)" by (intro card_mono) auto
  also have "\<dots> \<le> length ys" by (rule card_length)
  finally show ?thesis .
qed

text \<open>However the model answers, at most half the limit survives.\<close>

lemma attention_bound:
  assumes sz: "check_sizes max_size keep_first = None" and d: "distinct (map ev_id (v_events v))"
    and c: "fst (attention_get_condensation rp rank max_size keep_first v) = Inr c"
    and f: "forgotten c = Inr ids"
  shows "int (length (filter (\<lambda>i. i \<notin> set ids) (map ev_id (v_events v)))) \<le> max_size div 2"
proof -
  define head where "head = map ev_id (py_slice (v_events v) None (Some keep_first))"
  define n where "n = max_size div 2 - int (length head)"
  have n0: "0 < n"
  proof -
    have "int (length head) \<le> keep_first" using check_sizes_ok(1) [OF sz] by (simp add: head_def)
    then show ?thesis using check_sizes_ok(2) [OF sz] by (simp add: n_def)
  qed
  from c f obtain rids where ids: "ids = filter (\<lambda>i. i \<notin> set (fill_ids n (take (nat n)
        (filter (\<lambda>i. i \<notin> set head) rids)) (rev (map ev_id (v_events v)))) \<and> i \<notin> set head) (map ev_id (v_events v))"
    using n0 by (auto simp: attention_get_condensation_def Let_def forgotten_def head_def n_def
        validate_field_polymorphism_def split: sum.splits)
  define fl where "fl = fill_ids n (take (nat n) (filter (\<lambda>i. i \<notin> set head) rids)) (rev (map ev_id (v_events v)))"
  have "int (length fl) \<le> n" unfolding fl_def by (rule fill_ids_length) (use n0 in simp)
  moreover have "filter (\<lambda>i. i \<notin> set ids) (map ev_id (v_events v)) =
      filter (\<lambda>i. i \<in> set (fl @ head)) (map ev_id (v_events v))"
    by (rule filter_cong) (auto simp: ids fl_def [symmetric])
  moreover have "length (filter (\<lambda>i. i \<in> set (fl @ head)) (map ev_id (v_events v))) \<le> length (fl @ head)"
    by (rule card_filter_le [OF d])
  ultimately show ?thesis by (simp add: n_def)
qed

subsection \<open>The masking strategies\<close>

text \<open>They keep the number of events and every event that is not an observation of the masked kind.\<close>

lemma mask_browser_length [simp]: "length (mask_browser w n es) = length es"
  by (induction w n es rule: mask_browser.induct)
    (auto split: payload.split observation.split)

definition count_browser :: "event list \<Rightarrow> nat" where
  "count_browser es = length (filter (is_class C_BrowserOutputObservation) es)"

lemma mask_browser_count:
  "int (count_browser (mask_browser w n es)) \<le> max 0 (w - n)"
proof (induction w n es rule: mask_browser.induct)
  case (2 w n e es)
  have c: "is_class C_BrowserOutputObservation e = (\<exists>b. payload e = Obs (BrowserOutputObservation b))" for e
    by (cases "payload e"; cases "case payload e of Obs b \<Rightarrow> b | _ \<Rightarrow> NullObservation []"; cases "case payload e of Act a \<Rightarrow> a | _ \<Rightarrow> NullAction")
      (auto simp: is_class_def isinstance_def)
  show ?case
    using 2 by (auto simp: count_browser_def c split: payload.splits observation.splits)
qed (simp add: count_browser_def)

end
