(* ===== verification/Memory_Properties.thy ===== *)
theory Memory_Properties
  imports Log_Properties Condensers
begin

text \<open>
  The properties of what an agent remembers and is limited by: views and condensers, the persisted
  state, the history rebuilt from the log, the limits, the metrics, the stuck detector and replay.
\<close>

section \<open>Concrete histories\<close>

definition at_id :: "int \<Rightarrow> event \<Rightarrow> event" where
  "at_id i e = e\<lparr>m_id := Some i\<rparr>"

definition demo_user :: "int \<Rightarrow> event" where
  "demo_user i = at_id i (demo_hello\<lparr>m_source := Some USER\<rparr>)"

definition demo_output :: "int \<Rightarrow> event" where
  "demo_output i = at_id i (mk_obs (AgentThinkObservation ''ok''))"

text \<open>A message of the user and \<open>n\<close> commands with their results\<close>

definition demo_history :: "nat \<Rightarrow> event list" where
  "demo_history n =
     demo_user 0 # concat (map (\<lambda>k. [at_id (2 * int k + 1) demo_run, demo_output (2 * int k + 2)]) [0..<n])"

definition forget_event :: "int \<Rightarrow> condensation_action \<Rightarrow> event" where
  "forget_event i c = at_id i (mk_action (CondensationAction c))"

section \<open>Views\<close>

text \<open>
  What a condensation says, read off its fields: the ids it names, as a list or as the two ends of a range, and the
  summary with the place it belongs to.
\<close>

definition hides :: "event \<Rightarrow> int \<Rightarrow> bool" where
  "hides c i \<longleftrightarrow>
     (case payload c of
        Act (CondensationAction a) \<Rightarrow>
          ev_id c = i \<or>
          (case forgotten_event_ids a of
             Some ids \<Rightarrow> i \<in> set ids
           | None \<Rightarrow> (case (forgotten_events_start_id a, forgotten_events_end_id a) of
                        (Some s, Some t) \<Rightarrow> s \<le> i \<and> i \<le> t | _ \<Rightarrow> False))
      | Act CondensationRequestAction \<Rightarrow> ev_id c = i
      | _ \<Rightarrow> False)"

definition summary_in :: "event \<Rightarrow> (string \<times> int) option" where
  "summary_in e =
     (case payload e of
        Act (CondensationAction a) \<Rightarrow>
          (case (ca_summary a, ca_summary_offset a) of (Some s, Some off) \<Rightarrow> Some (s, off) | _ \<Rightarrow> None)
      | _ \<Rightarrow> None)"

definition condenses :: "event \<Rightarrow> bool" where
  "condenses e \<longleftrightarrow> (case payload e of Act (CondensationAction _) \<Rightarrow> True | _ \<Rightarrow> False)"

lemma event_forgets_hides:
  assumes "event_forgets c = Inr ids"
  shows "i \<in> set ids \<longleftrightarrow> hides c i"
proof (cases "\<exists>a. payload c = Act (CondensationAction a)")
  case True
  then obtain a where a: "payload c = Act (CondensationAction a)" by blast
  with assms obtain xs where "forgotten a = Inr xs" "ids = xs @ [ev_id c]"
    by (cases "forgotten a") (auto simp: event_forgets_def)
  with a show ?thesis by (auto simp: hides_def forgotten_def split: if_splits option.splits)
qed (use assms in \<open>auto simp: event_forgets_def hides_def split: payload.splits action.splits\<close>)

lemma collect_forgotten_hides: "collect_forgotten es = Inr ids \<Longrightarrow> i \<in> set ids \<longleftrightarrow> (\<exists>c \<in> set es. hides c i)"
  by (induction es arbitrary: ids) (auto simp: sbind_Inr_iff event_forgets_hides)

text \<open>The first element of a list that satisfies a condition, and the last one, by the parts of the list around it\<close>

lemma first_in_Cons:
  "(\<exists>xs e ys. x # es = xs @ e # ys \<and> P e \<and> (\<forall>y \<in> set xs. Q y)) \<longleftrightarrow>
   P x \<or> Q x \<and> (\<exists>xs e ys. es = xs @ e # ys \<and> P e \<and> (\<forall>y \<in> set xs. Q y))" (is "?l \<longleftrightarrow> ?r")
proof
  assume ?l
  then obtain xs e ys where "x # es = xs @ e # ys" "P e" "\<forall>y \<in> set xs. Q y" by blast
  then show ?r by (cases xs) auto
next
  assume ?r
  then show ?l
  proof (elim disjE conjE exE)
    assume "P x"
    then show ?l by (intro exI [of _ "[]"] exI [of _ x] exI [of _ es]) simp
  next
    fix xs e ys
    assume "Q x" "es = xs @ e # ys" "P e" "\<forall>y \<in> set xs. Q y"
    then show ?l by (intro exI [of _ "x # xs"] exI [of _ e] exI [of _ ys]) simp
  qed
qed

lemma first_of_rev:
  assumes "\<exists>xs e ys. rev es = xs @ e # ys \<and> P e \<and> (\<forall>y \<in> set xs. Q y)"
  shows "\<exists>xs e ys. es = xs @ e # ys \<and> P e \<and> (\<forall>y \<in> set ys. Q y)"
proof -
  obtain xs e ys where a: "rev es = xs @ e # ys" "P e" "\<forall>y \<in> set xs. Q y" using assms by blast
  from arg_cong [OF a(1), of rev] have "es = rev ys @ e # rev xs" by simp
  with a(2,3) show ?thesis by (intro exI [of _ "rev ys"] exI [of _ e] exI [of _ "rev xs"]) simp
qed

lemma last_to_rev:
  assumes "\<exists>xs e ys. es = xs @ e # ys \<and> P e \<and> (\<forall>y \<in> set ys. Q y)"
  shows "\<exists>xs e ys. rev es = xs @ e # ys \<and> P e \<and> (\<forall>y \<in> set xs. Q y)"
proof -
  obtain xs e ys where "es = xs @ e # ys" "P e" "\<forall>y \<in> set ys. Q y" using assms by blast
  then show ?thesis by (intro exI [of _ "rev ys"] exI [of _ e] exI [of _ "rev xs"]) simp
qed

lemma find_summary_Cons: "find_summary (e # es) = (case summary_in e of None \<Rightarrow> find_summary es | Some y \<Rightarrow> Some y)"
  by (simp add: summary_in_def split: payload.split action.split option.split)

lemma find_summary_first:
  "find_summary es = Some x \<Longrightarrow>
   \<exists>xs e ys. es = xs @ e # ys \<and> summary_in e = Some x \<and> (\<forall>y \<in> set xs. summary_in y = None)"
  by (induction es) (auto simp only: find_summary_Cons first_in_Cons split: option.splits, simp)

lemma find_summary_none: "find_summary es = None \<Longrightarrow> \<forall>e \<in> set es. summary_in e = None"
  by (induction es) (auto simp: find_summary_Cons simp del: find_summary.simps(2) split: option.splits)

lemma find_request_Cons:
  "find_request (e # es) \<longleftrightarrow> payload e = Act CondensationRequestAction \<or> \<not> condenses e \<and> find_request es"
  by (simp add: condenses_def split: payload.split action.split)

lemma find_request_first:
  "find_request es \<longleftrightarrow>
   (\<exists>xs e ys. es = xs @ e # ys \<and> payload e = Act CondensationRequestAction \<and> (\<forall>y \<in> set xs. \<not> condenses y))"
  by (induction es) (simp, simp only: find_request_Cons first_in_Cons)

text \<open>
  C36. Every history whose condensations are well formed has a view. It shows, in the order of the history, exactly the
  events whose id no condensation of the history names and that are no condensation or request themselves. If some
  condensation has a summary, the summary of the last one is inserted, exactly once and at its offset, as by
  \<open>list.insert\<close>; otherwise nothing is inserted. The view reports a request exactly if the history has one with no
  condensation after it.
\<close>

theorem view_exact:
  assumes "condensations_ok es"
  shows "\<exists>v kept. from_events es = Inr v \<and> kept = filter (\<lambda>e. \<not> (\<exists>c \<in> set es. hides c (ev_id e))) es \<and>
    ((\<forall>e \<in> set es. summary_in e = None) \<and> v_events v = kept \<or>
     (\<exists>xs c ys s off k. es = xs @ c # ys \<and> summary_in c = Some (s, off) \<and> (\<forall>y \<in> set ys. summary_in y = None) \<and>
        k = nat (if off < 0 then max 0 (int (length kept) + off) else min off (int (length kept))) \<and>
        v_events v = take k kept @ mk_obs (AgentCondensationObservation s) # drop k kept)) \<and>
    (unhandled_condensation_request v \<longleftrightarrow>
      (\<exists>xs e ys. es = xs @ e # ys \<and> payload e = Act CondensationRequestAction \<and> (\<forall>y \<in> set ys. \<not> condenses y)))"
proof -
  from from_events_ok [OF assms] obtain v where v: "from_events es = Inr v" by blast
  obtain ids where ids: "collect_forgotten es = Inr ids" using collect_forgotten_ok [OF assms] by blast
  define kept where "kept = filter (\<lambda>e. \<not> (\<exists>c \<in> set es. hides c (ev_id e))) es"
  have kept: "filter (\<lambda>e. ev_id e \<notin> set ids) es = kept" by (simp add: kept_def collect_forgotten_hides [OF ids])
  have ev: "v_events v = (case find_summary (rev es) of None \<Rightarrow> kept
      | Some (s, off) \<Rightarrow> py_insert kept off (mk_obs (AgentCondensationObservation s)))"
    using v by (auto simp: from_events_def ids Let_def kept split: option.splits)
  have shown: "(\<forall>e \<in> set es. summary_in e = None) \<and> v_events v = kept \<or>
     (\<exists>xs c ys s off k. es = xs @ c # ys \<and> summary_in c = Some (s, off) \<and> (\<forall>y \<in> set ys. summary_in y = None) \<and>
        k = nat (if off < 0 then max 0 (int (length kept) + off) else min off (int (length kept))) \<and>
        v_events v = take k kept @ mk_obs (AgentCondensationObservation s) # drop k kept)"
  proof (cases "find_summary (rev es)")
    case None
    with find_summary_none [OF None] ev show ?thesis by simp
  next
    case (Some x)
    obtain s off where x: "x = (s, off)" by (cases x)
    obtain xs c ys where c: "es = xs @ c # ys" "summary_in c = Some (s, off)" "\<forall>y \<in> set ys. summary_in y = None"
      using first_of_rev [OF find_summary_first [OF Some]] x by blast
    have "v_events v = py_insert kept off (mk_obs (AgentCondensationObservation s))" using Some x ev by simp
    then have "v_events v = take (nat (slice_bound (int (length kept)) off)) kept @
        mk_obs (AgentCondensationObservation s) # drop (nat (slice_bound (int (length kept)) off)) kept"
      by (simp add: py_insert_def Let_def)
    note at = conjI [OF c(1) conjI [OF c(2) conjI [OF c(3) conjI [OF refl this [unfolded slice_bound_def]]]]]
    show ?thesis by (rule disjI2, (rule exI)+, rule at)
  qed
  have request: "unhandled_condensation_request v \<longleftrightarrow>
      (\<exists>xs e ys. es = xs @ e # ys \<and> payload e = Act CondensationRequestAction \<and> (\<forall>y \<in> set ys. \<not> condenses y))"
    unfolding from_events_fields(1) [OF v] find_request_first
    by (rule iffI) (erule first_of_rev, erule last_to_rev)
  show ?thesis by (rule exI [of _ v], rule exI [of _ kept]) (intro conjI v kept_def shown request)
qed

text \<open>A condensation that names a range and has a summary\<close>

definition demo_summary :: condensation_action where
  "demo_summary = \<lparr>forgotten_event_ids = None, forgotten_events_start_id = Some 1,
     forgotten_events_end_id = Some 5, ca_summary = Some ''summary'', ca_summary_offset = Some 1\<rparr>"

definition condensed_history_demo :: "event list" where
  "condensed_history_demo = demo_history 3 @ [forget_event 7 demo_summary]"

lemma demo_history_plain:
  assumes "c \<in> set (demo_history n)"
  shows "\<not> hides c i" "summary_in c = None" "payload c \<noteq> Act CondensationRequestAction"
  using assms
  by (auto simp: demo_history_def demo_user_def demo_output_def demo_hello_def demo_run_def at_id_def mk_message_def mk_event_def
      hides_def summary_in_def)

lemma demo_summary_facts:
  "hides (forget_event 7 demo_summary) i \<longleftrightarrow> i = 7 \<or> 1 \<le> i \<and> i \<le> 5"
  "summary_in (forget_event 7 demo_summary) = Some (''summary'', 1)"
  "payload (forget_event 7 demo_summary) = Act (CondensationAction demo_summary)"
  by (auto simp: forget_event_def at_id_def mk_event_def hides_def summary_in_def demo_summary_def ev_id_def)

lemma condensed_history_facts:
  "condensations_ok condensed_history_demo"
  "filter (\<lambda>e. \<not> (ev_id e = 7 \<or> 1 \<le> ev_id e \<and> ev_id e \<le> 5)) condensed_history_demo = [demo_user 0, demo_output 6]"
  by code_simp+

lemma condensed_history_hides:
  "(\<exists>c \<in> set condensed_history_demo. hides c i) \<longleftrightarrow> i = 7 \<or> 1 \<le> i \<and> i \<le> 5"
  using demo_history_plain(1) by (auto simp: condensed_history_demo_def demo_summary_facts)

lemma condensed_history_summary:
  "x \<in> set condensed_history_demo \<Longrightarrow> summary_in x = Some y \<Longrightarrow> y = (''summary'', 1)"
  using demo_history_plain(2) by (fastforce simp: condensed_history_demo_def demo_summary_facts)

theorem view_exact_witness:
  "\<exists>v. from_events condensed_history_demo = Inr v \<and>
     v_events v = [demo_user 0, mk_obs (AgentCondensationObservation ''summary''), demo_output 6] \<and>
     \<not> unhandled_condensation_request v"
proof -
  let ?h = condensed_history_demo
  from view_exact [OF condensed_history_facts(1)] obtain v kept where v: "from_events ?h = Inr v"
    and kept: "kept = filter (\<lambda>e. \<not> (\<exists>c \<in> set ?h. hides c (ev_id e))) ?h"
    and shown: "(\<forall>e \<in> set ?h. summary_in e = None) \<and> v_events v = kept \<or>
     (\<exists>xs c ys s off k. ?h = xs @ c # ys \<and> summary_in c = Some (s, off) \<and> (\<forall>y \<in> set ys. summary_in y = None) \<and>
        k = nat (if off < 0 then max 0 (int (length kept) + off) else min off (int (length kept))) \<and>
        v_events v = take k kept @ mk_obs (AgentCondensationObservation s) # drop k kept)"
    and request: "unhandled_condensation_request v \<longleftrightarrow>
      (\<exists>xs e ys. ?h = xs @ e # ys \<and> payload e = Act CondensationRequestAction \<and> (\<forall>y \<in> set ys. \<not> condenses y))"
    by (elim exE conjE) (rule that, assumption+)
  have k: "kept = [demo_user 0, demo_output 6]" using kept condensed_history_facts(2) by (simp only: condensed_history_hides)
  have "\<not> (\<forall>e \<in> set ?h. summary_in e = None)"
    using demo_summary_facts(2) by (simp add: condensed_history_demo_def)
  with shown obtain xs c ys s off where c: "?h = xs @ c # ys" "summary_in c = Some (s, off)"
    "v_events v = take (nat (if off < 0 then max 0 (int 2 + off) else min off (int 2))) kept @
       mk_obs (AgentCondensationObservation s) # drop (nat (if off < 0 then max 0 (int 2 + off) else min off (int 2))) kept"
    using k by auto
  have "s = ''summary''" "off = 1" using condensed_history_summary [OF _ c(2)] unfolding c(1) by simp_all
  then have "v_events v = [demo_user 0, mk_obs (AgentCondensationObservation ''summary''), demo_output 6]"
    using c(3) k by simp
  moreover have "\<not> unhandled_condensation_request v"
  proof
    assume "unhandled_condensation_request v"
    with request obtain e where "e \<in> set ?h" "payload e = Act CondensationRequestAction" by (metis in_set_conv_decomp)
    then show False using demo_history_plain(3) by (auto simp: condensed_history_demo_def demo_summary_facts)
  qed
  ultimately show ?thesis using v by blast
qed

section \<open>Condensers\<close>

text \<open>
  C39. When the amortized condenser, with sizes that its constructor accepts, acts on a view longer than its limit,
  whose events are in the order of their ids and hold no summary, its action exists; recorded under a new id, it makes
  the next view exactly the first \<open>keep_first\<close> events followed by the most recent ones, half of the limit in all.
\<close>

theorem amortized_halves:
  assumes "check_sizes max_size keep_first = None" "from_events hist = Inr v"
    and "max_size < int (length (v_events v))" "chronological (v_events v)" "no_summaries (v_events v)"
  shows "\<exists>c. fst (amortized_get_condensation max_size keep_first v) = Inr c \<and>
    (\<forall>e. payload e = Act (CondensationAction c) \<longrightarrow> (\<forall>x \<in> set hist. ev_id x \<noteq> ev_id e) \<longrightarrow>
      (\<exists>v'. from_events (hist @ [e]) = Inr v' \<and> int (length (v_events v')) = max_size div 2 \<and>
        v_events v' = take (nat keep_first) (v_events v) @
          drop (length (v_events v) - nat (max_size div 2 - keep_first)) (v_events v)))"
  by (rule amortized_next_view [OF assms]) blast

theorem amortized_halves_witness:
  "\<exists>c v'. fst (amortized_get_condensation 4 1 (mk_view (demo_history 3))) = Inr c \<and>
     from_events (demo_history 3 @ [forget_event 7 c]) = Inr v' \<and>
     v_events v' = [demo_user 0, demo_output 6]"
proof -
  have sz: "check_sizes 4 1 = None" and v: "case from_events (demo_history 3) of Inr v \<Rightarrow> v_events v = demo_history 3
      \<and> \<not> unhandled_condensation_request v \<and> v_forgotten v = {} | Inl _ \<Rightarrow> False"
    and len: "4 < int (length (demo_history 3))" and chr: "chronological (demo_history 3)"
    and ns: "no_summaries (demo_history 3)"
    and ends: "take 1 (demo_history 3) = [demo_user 0]"
      "drop (length (demo_history 3) - 1) (demo_history 3) = [demo_output 6]"
    and ids: "list_all (\<lambda>x. ev_id x \<noteq> 7) (demo_history 3)"
    by code_simp+
  from v have v': "from_events (demo_history 3) = Inr (mk_view (demo_history 3))"
    by (auto simp: mk_view_def split: sum.splits)
  let ?v = "mk_view (demo_history 3)"
  have es: "v_events ?v = demo_history 3" by (simp add: mk_view_def)
  have "4 < int (length (v_events ?v))" "chronological (v_events ?v)" "no_summaries (v_events ?v)"
    using len chr ns by (simp_all only: es)
  from amortized_halves [OF sz v' this] obtain c where
    c: "fst (amortized_get_condensation 4 1 ?v) = Inr c"
    and next_v: "\<forall>e. payload e = Act (CondensationAction c) \<longrightarrow> (\<forall>x \<in> set (demo_history 3). ev_id x \<noteq> ev_id e) \<longrightarrow>
      (\<exists>v'. from_events (demo_history 3 @ [e]) = Inr v' \<and> int (length (v_events v')) = 4 div 2 \<and>
        v_events v' = take (nat 1) (v_events ?v) @ drop (length (v_events ?v) - nat (4 div 2 - 1)) (v_events ?v))"
    by blast
  have "payload (forget_event 7 c) = Act (CondensationAction c)" "ev_id (forget_event 7 c) = 7"
    by (simp_all add: forget_event_def at_id_def mk_event_def ev_id_def)
  with next_v [rule_format, of "forget_event 7 c"] ids c ends show ?thesis
    by (auto simp: es list_all_iff)
qed


text \<open>
  After the window condenser has answered a condensation request, the next view exists, has no request
  left, and still shows every event of the history that was visible and is one of the first system message,
  the first message of the user, the recall that belongs to it, or the recent half.
\<close>

theorem window_keeps_essentials:
  assumes "condensations_ok hist" "from_events hist = Inr v"
    and "fst (rolling_condense window_should_condense window_get_condensation v) = Inr (Condensation c)"
    and "payload e = Act (CondensationAction c)" "\<forall>x \<in> set hist. ev_id x \<noteq> ev_id e"
  shows "\<exists>v'. from_events (hist @ [e]) = Inr v' \<and> \<not> unhandled_condensation_request v' \<and>
    (\<forall>k \<in> set (window_kept (v_events v)). k \<in> set hist \<and> ev_id k \<notin> v_forgotten v \<longrightarrow> k \<in> set (v_events v'))"
proof -
  have c: "fst (window_get_condensation v) = Inr c"
    using assms(3) by (cases "fst (window_get_condensation v)") (auto simp: rolling_condense_def split: if_splits)
  from window.next_view [OF assms(1) c assms(4)] obtain v' where
    v': "from_events (hist @ [e]) = Inr v'" "\<not> unhandled_condensation_request v'" by blast
  moreover have "k \<in> set (v_events v')"
    if "k \<in> set (window_kept (v_events v))" "k \<in> set hist" "ev_id k \<notin> v_forgotten v" for k
    using that assms(5) from_events_complete [OF assms(2)]
    by (intro window.next_view_keeps [OF assms(2) c TrueI assms(4) _ _ _ _ _ v'(1)]) auto
  ultimately show ?thesis by blast
qed

definition demo_request :: event where
  "demo_request = at_id 7 (mk_action CondensationRequestAction)"

definition demo_forget :: condensation_action where
  "demo_forget = \<lparr>forgotten_event_ids = None, forgotten_events_start_id = Some 1,
     forgotten_events_end_id = Some 4, ca_summary = None, ca_summary_offset = None\<rparr>"

theorem window_keeps_essentials_witness:
  "\<exists>v'. from_events (demo_history 3 @ [demo_request, forget_event 8 demo_forget]) = Inr v' \<and>
     \<not> unhandled_condensation_request v' \<and> demo_user 0 \<in> set (v_events v')"
proof -
  let ?h = "demo_history 3 @ [demo_request]"
  have ok: "condensations_ok ?h" by code_simp
  obtain v where v: "from_events ?h = Inr v" using from_events_ok [OF ok] by blast
  have "case from_events ?h of Inl _ \<Rightarrow> False | Inr v \<Rightarrow>
      (case fst (rolling_condense window_should_condense window_get_condensation v) of
         Inr (Condensation c) \<Rightarrow> c = demo_forget | _ \<Rightarrow> False) \<and>
      demo_user 0 \<in> set (window_kept (v_events v)) \<and> ev_id (demo_user 0) \<notin> v_forgotten v" by code_simp
  then have c: "fst (rolling_condense window_should_condense window_get_condensation v) = Inr (Condensation demo_forget)"
    and k: "demo_user 0 \<in> set (window_kept (v_events v))" "ev_id (demo_user 0) \<notin> v_forgotten v"
    by (auto simp: v split: sum.splits condensed.splits)
  have "payload (forget_event 8 demo_forget) = Act (CondensationAction demo_forget)"
    "list_all (\<lambda>x. ev_id x \<noteq> ev_id (forget_event 8 demo_forget)) ?h" "demo_user 0 \<in> set ?h" by code_simp+
  with window_keeps_essentials [OF ok v c, of "forget_event 8 demo_forget"] k show ?thesis
    by (auto simp: list_all_iff)
qed

text \<open>
  The action of the summarizing condenser keeps the first \<open>keep_first\<close> events and the tail visible in
  the next view, which has no request left.
\<close>

theorem summary_keeps_ends:
  assumes "condensations_ok hist" "from_events hist = Inr v" "0 \<le> keep_first" "chronological (v_events v)"
    and "0 < summary_tail_size max_size keep_first (v_events v)"
    and c: "fst (summarizing_get_condensation to_str llm max_size keep_first max_event_length v) = Inr c"
    and e: "payload e = Act (CondensationAction c)" "\<forall>x \<in> set hist. ev_id x \<noteq> ev_id e"
  shows "\<exists>v'. from_events (hist @ [e]) = Inr v' \<and> \<not> unhandled_condensation_request v' \<and>
    (\<forall>k \<in> head_and_tail keep_first (summary_tail_size max_size keep_first (v_events v)) (v_events v).
       k \<in> set hist \<and> ev_id k \<notin> v_forgotten v \<longrightarrow> k \<in> set (v_events v'))"
proof -
  from summarizing.next_view [OF assms(1) c e(1)] obtain v' where
    v': "from_events (hist @ [e]) = Inr v'" "\<not> unhandled_condensation_request v'" by blast
  moreover have "k \<in> set (v_events v')"
    if "k \<in> head_and_tail keep_first (summary_tail_size max_size keep_first (v_events v)) (v_events v)"
      "k \<in> set hist" "ev_id k \<notin> v_forgotten v" for k
    using that assms(3-5) e(2) from_events_complete [OF assms(2)]
    by (intro summarizing.next_view_keeps [OF assms(2) c _ e(1) _ _ _ _ _ v'(1)]) auto
  ultimately show ?thesis by blast
qed

text \<open>The answer of the model in the examples\<close>

definition demo_llm :: "string \<Rightarrow> exn + (string option \<times> json \<times> json)" where
  "demo_llm prompt = Inr (Some ''summary'', JNull, JNull)"

theorem summary_keeps_ends_witness:
  "\<exists>v'. from_events (demo_history 3 @ [forget_event 7 demo_summary]) = Inr v' \<and>
     \<not> unhandled_condensation_request v' \<and> demo_output 6 \<in> set (v_events v')"
proof -
  let ?h = "demo_history 3"
  have ok: "condensations_ok ?h" and chr: "chronological ?h" by code_simp+
  obtain v where v: "from_events ?h = Inr v" using from_events_ok [OF ok] by blast
  have "case from_events ?h of Inl _ \<Rightarrow> False | Inr v \<Rightarrow> v_events v = ?h \<and>
      fst (summarizing_get_condensation (\<lambda>_. []) demo_llm 6 1 100 v) = Inr demo_summary \<and>
      0 < summary_tail_size 6 1 (v_events v) \<and> ev_id (demo_output 6) \<notin> v_forgotten v" by code_simp
  then have c: "v_events v = ?h" "fst (summarizing_get_condensation (\<lambda>_. []) demo_llm 6 1 100 v) = Inr demo_summary"
    "0 < summary_tail_size 6 1 (v_events v)" "ev_id (demo_output 6) \<notin> v_forgotten v" by (auto simp: v)
  have "payload (forget_event 7 demo_summary) = Act (CondensationAction demo_summary)"
    "list_all (\<lambda>x. ev_id x \<noteq> ev_id (forget_event 7 demo_summary)) ?h" "demo_output 6 \<in> set ?h"
    "demo_output 6 \<in> set (drop (length ?h - nat (summary_tail_size 6 1 ?h)) ?h)"
    "\<not> is_condensation_obs (demo_output 6)" by code_simp+
  with summary_keeps_ends [OF ok v _ _ c(3) c(2), of "forget_event 7 demo_summary"] chr c(1,4) show ?thesis
    by (auto simp: list_all_iff head_and_tail_def)
qed

text \<open>
  With sizes that leave no room for a tail (half of the limit is the kept prefix and the summary), which
  the constructor accepts, nothing is selected to be forgotten and condensing raises on the empty selection,
  for every view that has more than \<open>keep_first\<close> events and whatever the model answers.
\<close>

theorem summary_without_tail_fails:
  assumes "check_sizes max_size keep_first = None" "summary_tail_size max_size keep_first (v_events v) = 0"
  shows "\<exists>x. fst (summarizing_get_condensation to_str llm max_size keep_first max_event_length v) = Inl x"
proof -
  have "0 \<le> keep_first" using assms(1) by (auto simp: check_sizes_def split: if_splits)
  from summary_forgotten_no_tail [OF assms(2) this] show ?thesis
    by (auto simp: summarizing_get_condensation_def Let_def range_condensation_def py_min_def
        split: sum.splits)
qed

theorem summary_without_tail_fails_witness:
  "\<exists>x. fst (summarizing_get_condensation (\<lambda>_. []) demo_llm 4 1 100 (mk_view (demo_history 3))) = Inl x"
proof -
  have "check_sizes 4 1 = None" "summary_tail_size 4 1 (v_events (mk_view (demo_history 3))) = 0" by code_simp+
  then show ?thesis by (rule summary_without_tail_fails)
qed

end
