(* ===== verification/State_Properties.thy ===== *)
theory State_Properties
  imports Memory_Properties
begin

text \<open>
  The properties of the agent's state and of what limits it: saving and restoring, the cached view,
  the history rebuilt from the log, the iteration and budget limits, the metrics, the stuck detector
  and replay.
\<close>

section \<open>Saving and restoring\<close>

text \<open>
  Restoring what was saved gives the state back, with the history and the statistics left out (the
  controller rebuilds the one and is given the other), the deprecated fields cleared, the agent LOADING, and
  the state it was in remembered when that one can be resumed.
\<close>

theorem state_round_trip:
  "restore_from_session sid user (save_to_session sid user st fs) =
     Some ((without_deprecated st)
       \<lparr>conversation_stats := None, history := [], history_checksum := - 1, view_cache := None,
        resume_state := (if agent_state st \<in> set RESUMABLE_STATES then Some (agent_state st) else None),
        agent_state := LOADING\<rparr>)"
  by (rule restore_save)

fun observe_all :: "(bool \<times> event) list \<Rightarrow> state \<Rightarrow> state" where
  "observe_all [] st = st"
| "observe_all ((look, e) # es) st =
     observe_all es (add_history e (if look then snd (get_view st) else st))"

lemma get_view_history [simp]: "history (snd (get_view st)) = history st"
  by (simp add: get_view_def Let_def split: sum.splits option.splits)

lemma get_view_coherent:
  assumes "view_coherent st" "condensations_ok (history st)"
  shows "view_coherent (snd (get_view st))"
  using get_view_fresh(2) [OF assms(1)] from_events_ok [OF assms(2)] by blast

lemma observe_all_coherent:
  assumes "view_coherent st" "condensations_ok (history st)" "condensations_ok (map snd es)"
  shows "view_coherent (observe_all es st) \<and> condensations_ok (history (observe_all es st))"
  using assms
proof (induction es arbitrary: st)
  case (Cons p es)
  obtain look e where p: "p = (look, e)" by (cases p)
  let ?st = "add_history e (if look then snd (get_view st) else st)"
  have "view_coherent ?st"
    using Cons.prems get_view_coherent [OF Cons.prems(1,2)] by (simp add: add_history_coherent)
  moreover have "condensations_ok (history ?st)"
    using Cons.prems by (auto simp: p add_history_def condensations_ok_def)
  ultimately show ?case using Cons.IH [of ?st] Cons.prems(3) by (simp add: p condensations_ok_def)
qed simp

text \<open>
  The cached view is the view of the history: starting from a coherent cache, after any number of events
  and reads of the view in between, reading it gives what computing it from the history gives, and the cache
  is coherent again.
\<close>

theorem view_cache_equiv:
  assumes "view_coherent st" "condensations_ok (history st)" "condensations_ok (map snd es)"
  shows "fst (get_view (observe_all es st)) = from_events (history (observe_all es st)) \<and>
    view_coherent (snd (get_view (observe_all es st)))"
proof -
  note ok = observe_all_coherent [OF assms]
  obtain v where v: "from_events (history (observe_all es st)) = Inr v" using from_events_ok ok by blast
  from get_view_fresh [OF _ v] ok v show ?thesis by simp
qed

theorem view_cache_equiv_witness:
  "fst (get_view (observe_all [(True, demo_user 0), (True, demo_output 1)] default_state)) =
     from_events [demo_user 0, demo_output 1]"
proof -
  have "view_coherent default_state"
    by (simp add: view_coherent_def default_state_def)
  moreover have "condensations_ok (history default_state)"
    "condensations_ok (map snd [(True, demo_user 0), (True, demo_output 1)])"
    "history (observe_all [(True, demo_user 0), (True, demo_output 1)] default_state) = [demo_user 0, demo_output 1]"
    by code_simp+
  ultimately show ?thesis
    using view_cache_equiv [of default_state "[(True, demo_user 0), (True, demo_output 1)]"] by simp
qed

section \<open>The history of a restarted agent\<close>

text \<open>
  An agent that starts at the beginning of a log, whose delegations do not overlap, gets as its history
  the events of the log that are meant for agents, less those that lie strictly between a delegation and its
  result. (The loop over the delegations leaves the id of the last delegation in \<open>start_id\<close>.)
\<close>

theorem history_restored:
  fixes s :: "'c event_stream"
  assumes "log_run cd s l" "start_id st = 0" "end_id st < 0" "flat_delegates False (filter in_history l)"
  shows "\<exists>st'. init_history cd s st = Inr st' \<and>
    history st' = filter (outside_ranges (delegate_ranges [] (filter in_history l))) (filter in_history l) \<and>
    start_id st' = (if delegate_ranges [] (filter in_history l) = [] then 0
                    else fst (last (delegate_ranges [] (filter in_history l))))"
proof -
  from log_run_ok [OF assms(1)] have ok: "log_ok cd s (int (length l))" and
    l: "List.map_filter (event_at cd s) [0..int (length l) - 1] = l" by (auto simp: log_of_def)
  have "List.map_filter (event_at cd s) [start_id st..int (length l) - 1] = l" using l assms(2) by simp
  with init_history_spec [OF log_ok_store [OF ok] log_ok_at(2) [OF ok] log_ok_cur_id [OF ok] assms(3)]
    assms(4) show ?thesis by (simp only: assms(2))
qed

theorem history_restored_witness:
  "\<exists>st'. init_history demo_codec demo_log2 (default_state\<lparr>start_id := 0\<rparr>) = Inr st' \<and> history st' = [demo_stored]"
proof -
  have "start_id (default_state\<lparr>start_id := 0\<rparr>) = 0" "end_id (default_state\<lparr>start_id := 0\<rparr>) < 0"
    "flat_delegates False (filter in_history [demo_stored])"
    "filter (outside_ranges (delegate_ranges [] (filter in_history [demo_stored]))) (filter in_history [demo_stored])
       = [demo_stored]"
    by code_simp+
  with history_restored [OF demo_log2_run, of "default_state\<lparr>start_id := 0\<rparr>"] show ?thesis by auto
qed

section \<open>Limits\<close>

lemma run_flags_iteration:
  "iteration_flag (snd (run_control_flags st)) = snd (iter_step (iteration_flag st))"
  "fst (iter_step (iteration_flag st)) \<noteq> None \<Longrightarrow> fst (run_control_flags st) \<noteq> None"
  by (auto simp: run_control_flags_def Let_def split_beta split: option.splits)

lemma run_flags_steps:
  "iteration_flag (((snd \<circ> run_control_flags) ^^ n) st) = iter.steps n (iteration_flag st)"
proof (induction n arbitrary: st)
  case (Suc n)
  have "((snd \<circ> run_control_flags) ^^ Suc n) st = ((snd \<circ> run_control_flags) ^^ n) (snd (run_control_flags st))"
    by (simp only: funpow_Suc_right o_apply)
  then show ?case by (simp only: Suc.IH run_flags_iteration(1) iter.steps.simps)
qed simp

lemma iter_steps_value:
  "current_value (iter.steps n f) =
     (if max_value f \<le> current_value f then current_value f else min (current_value f + int n) (max_value f))"
proof (induction n arbitrary: f)
  case (Suc n)
  show ?case using Suc.IH [of "snd (iter_step f)"] by (auto simp: iter.step_value iter.step_max)
qed simp

text \<open>
  Without the user raising the limits, an agent is allowed at most as many steps as its iteration limit
  leaves: the counter never passes the limit, the limit stays, and after that many checks every check fails.
\<close>

theorem flags_bounded:
  defines "after \<equiv> (\<lambda>st n. ((snd \<circ> run_control_flags) ^^ n) st)"
  assumes "current_value (iteration_flag st) \<le> max_value (iteration_flag st)"
  shows "current_value (iteration_flag (after st n)) \<le> max_value (iteration_flag st) \<and>
    max_value (iteration_flag (after st n)) = max_value (iteration_flag st) \<and>
    (max_value (iteration_flag st) - current_value (iteration_flag st) \<le> int n \<longrightarrow>
       fst (run_control_flags (after st n)) \<noteq> None)"
proof -
  let ?f = "iteration_flag st"
  have "fst (iter_step (iter.steps n ?f)) \<noteq> None" if "max_value ?f - current_value ?f \<le> int n"
    by (rule iter.step_refused [THEN iffD2]) (use that assms in \<open>auto simp: iter.steps_max iter_steps_value\<close>)
  moreover have "current_value (iter.steps n ?f) \<le> max_value ?f" using assms by (simp add: iter_steps_value)
  ultimately show ?thesis
    using run_flags_iteration(2) [of "after st n"] by (simp add: after_def run_flags_steps iter.steps_max)
qed

theorem flags_bounded_witness:
  "fst (run_control_flags (((snd \<circ> run_control_flags) ^^ 100) default_state)) \<noteq> None"
proof -
  have "max_value (iteration_flag default_state) = 100" "current_value (iteration_flag default_state) = 0" by code_simp+
  with flags_bounded [of default_state 100] show ?thesis by simp
qed

text \<open>
  A step is let through exactly when the iteration counter is below its limit and, for an agent with a
  budget, the cost of all the services together is below the budget.
\<close>

theorem budget_is_total_cost:
  assumes "conversation_stats st = Some cs"
  shows "fst (run_control_flags (sync_budget_flag_with_metrics st)) = None \<longleftrightarrow>
    current_value (iteration_flag st) < max_value (iteration_flag st) \<and>
    (case budget_flag st of None \<Rightarrow> True | Some b \<Rightarrow> total_cost (service_to_metrics cs) < max_value b)"
proof -
  have i: "fst (iter_step f) = None \<longleftrightarrow> current_value f < max_value f" for f
    using iter.step_refused [of f] by auto
  have b: "fst (budget_step f) = None \<longleftrightarrow> current_value f < max_value f" for f
    using budget.step_refused [of f] by auto
  have "iteration_flag (sync_budget_flag_with_metrics st) = iteration_flag st"
    by (simp add: sync_budget_flag_with_metrics_def split: option.splits)
  then show ?thesis
    using sync_budget_total [OF _ assms] i [of "iteration_flag st"] b assms
    by (cases "budget_flag st"; cases "fst (iter_step (iteration_flag st))")
      (auto simp: run_control_flags_def Let_def split_beta sync_budget_flag_with_metrics_def)
qed

theorem budget_is_total_cost_witness:
  "fst (run_control_flags (sync_budget_flag_with_metrics
     (default_state\<lparr>conversation_stats := Some demo_stats, budget_flag := Some (mk_flag 1 0 0)\<rparr>))) \<noteq> None"
proof -
  have "total_cost (service_to_metrics demo_stats) = 0" by code_simp
  then show ?thesis
    using budget_is_total_cost [of "default_state\<lparr>conversation_stats := Some demo_stats, budget_flag := Some (mk_flag 1 0 0)\<rparr>"
        demo_stats]
    by (simp add: mk_flag_def)
qed

section \<open>Metrics\<close>

text \<open>What a service does to its metrics object, one call after the other\<close>

datatype metrics_op =
    AddCost rat rat
  | AddLatency rat string
  | AddUsage int int int int int string
  | Merge metrics

fun metrics_apply :: "metrics_op \<Rightarrow> metrics \<Rightarrow> metrics" where
  "metrics_apply (AddCost v now) m = (case add_cost m v now of Inl _ \<Rightarrow> m | Inr m' \<Rightarrow> m')"
| "metrics_apply (AddLatency v rid) m = add_response_latency m v rid"
| "metrics_apply (AddUsage p c cr cw ctx rid) m = add_token_usage m p c cr cw ctx rid"
| "metrics_apply (Merge m') m = metrics_merge m m'"

lemma metrics_apply_ok:
  "metrics_ok m \<Longrightarrow> (\<And>m'. Merge m' = op \<Longrightarrow> metrics_ok m') \<Longrightarrow> metrics_ok (metrics_apply op m)"
  by (cases op) (auto intro: inv_intros split: sum.splits)

text \<open>
  From a new metrics object on, whatever costs (refused ones included), latencies and token counts are
  recorded or merged in: the accumulated cost is the sum of the recorded costs, none of which is negative,
  and the accumulated token counts are the sums of the recorded ones. The metrics of all services together
  are again such, and their cost is the sum of the costs of the services.
\<close>

theorem metrics_invariant:
  assumes "\<forall>(sid, m) \<in> set (service_to_metrics cs). \<exists>name ops. m = fold metrics_apply ops (metrics_init name) \<and>
      (\<forall>m'. Merge m' \<in> set ops \<longrightarrow> metrics_ok m')"
  shows "(\<forall>(sid, m) \<in> set (service_to_metrics cs). metrics_ok m) \<and> metrics_ok (get_combined_metrics cs) \<and>
    accumulated_cost (get_combined_metrics cs) = total_cost (service_to_metrics cs)"
proof -
  have run: "metrics_ok (fold metrics_apply ops m)"
    if "metrics_ok m" "\<forall>m'. Merge m' \<in> set ops \<longrightarrow> metrics_ok m'" for ops m
    using that by (induction ops arbitrary: m) (auto intro: metrics_apply_ok)
  then have ok: "\<forall>(sid, m) \<in> set (service_to_metrics cs). metrics_ok m"
    using assms metrics_ok_init by fastforce
  then have "metrics_ok (get_combined_metrics cs)"
    unfolding get_combined_metrics_def by (intro foldl_merge_ok metrics_ok_init) auto
  moreover have "accumulated_cost (get_combined_metrics cs) = total_cost (service_to_metrics cs)"
    by (simp add: get_combined_metrics_def foldl_merge_cost total_cost_def metrics_init_def)
  ultimately show ?thesis using ok by blast
qed

definition demo_costs :: metrics where
  "demo_costs = fold metrics_apply [AddCost 2 0, AddCost (- 1) 1, AddUsage 3 4 0 0 10 ''r''] (metrics_init ''m'')"

theorem metrics_invariant_witness:
  "metrics_ok demo_costs \<and>
   accumulated_cost (get_combined_metrics (demo_stats\<lparr>service_to_metrics := [(''agent'', demo_costs)]\<rparr>)) =
     total_cost [(''agent'', demo_costs)]"
proof -
  let ?cs = "demo_stats\<lparr>service_to_metrics := [(''agent'', demo_costs)]\<rparr>"
  have "\<exists>name ops. demo_costs = fold metrics_apply ops (metrics_init name) \<and>
      (\<forall>m'. Merge m' \<in> set ops \<longrightarrow> metrics_ok m')"
    by (intro exI [of _ "''m''"] exI [of _ "[AddCost 2 0, AddCost (- 1) 1, AddUsage 3 4 0 0 10 ''r'']"])
      (simp add: demo_costs_def)
  with metrics_invariant [of ?cs] show ?thesis by simp
qed

section \<open>The stuck detector\<close>

text \<open>
  The detector only reports a loop when, in the part of the history it looks at, some action occurs
  twice or there are ten condensations, and the position it reports lies in that part.
\<close>

theorem stuck_sound:
  assumes "is_stuck headless h old = (True, a')"
  shows "\<exists>a. a' = Some a \<and>
    (repeats is_action (filtered_history headless h) \<or>
     10 \<le> length (filter is_condensation (filtered_history headless h))) \<and>
    history_offset headless h \<le> loop_start_idx a \<and>
    loop_start_idx a < history_offset headless h + int (length (filtered_history headless h))"
  by (rule is_stuck_sound [OF assms]) blast

definition demo_loop :: "event list" where
  "demo_loop = demo_history 4"

theorem stuck_sound_witness:
  "\<exists>a. is_stuck False demo_loop None = (True, Some a) \<and>
     history_offset False demo_loop \<le> loop_start_idx a"
proof -
  have "fst (is_stuck False demo_loop None)" by code_simp
  then obtain a' where a': "is_stuck False demo_loop None = (True, a')"
    by (cases "is_stuck False demo_loop None") auto
  from stuck_sound [OF this] a' show ?thesis by blast
qed

text \<open>
  Four times the same action with the same result at the end of the part of the history it looks at
  (same up to the process id) is always reported, whatever came before.
\<close>

theorem stuck_complete:
  assumes "filtered_history headless h = pre @ t" "four_pairs t"
  shows "fst (is_stuck headless h old)"
  using assms by (rule four_pairs_stuck)

theorem stuck_complete_witness: "fst (is_stuck False demo_loop None)"
proof -
  have t: "filtered_history False demo_loop = [] @ tl demo_loop" by code_simp
  have f: "four_pairs (tl demo_loop)"
    unfolding four_pairs_def
  proof (intro exI conjI)
    show "tl demo_loop = [at_id 1 demo_run, demo_output 2, at_id 3 demo_run, demo_output 4,
        at_id 5 demo_run, demo_output 6, at_id 7 demo_run, demo_output 8]" by code_simp
  qed code_simp+
  show ?thesis by (rule stuck_complete [OF t f])
qed

section \<open>Replay\<close>

text \<open>
  Replaying a recorded trajectory plays exactly its actions that do not come from the environment, in
  order, and then ends, leaving the agent in charge; no message but the last waits for an answer.
\<close>

theorem replay_plays_all:
  assumes "filter replayed_event es \<noteq> []" "length es < n"
  defines "kept \<equiv> filter replayed_event es"
  shows "fst (replay_run n (replay_init (Some es))) =
      filter is_action (map stop_waiting (butlast kept) @ [last kept]) \<and>
    \<not> fst (should_replay (snd (replay_run n (replay_init (Some es)))))"
proof -
  let ?r = "replay_init (Some es)"
  have ev: "replay_events ?r = map stop_waiting (butlast kept) @ [last kept]" and mode: "replay_mode ?r"
    and idx: "replay_index ?r = 0"
    using assms(1) by (simp_all add: replay_init_def kept_def Let_def)
  have "length (filter is_action (replay_events ?r)) \<le> length (replay_events ?r)" by (rule length_filter_le)
  also have "\<dots> = length kept" using assms(1) by (simp add: ev kept_def)
  also have "\<dots> \<le> length es" by (simp add: kept_def)
  finally have "length (filter is_action (drop (replay_index ?r) (replay_events ?r))) < n"
    using assms(2) by (simp add: idx)
  from replay_run_spec [OF mode this] show ?thesis by (simp add: idx ev)
qed

theorem replay_plays_all_witness:
  "fst (replay_run 6 (replay_init (Some (demo_history 2)))) = [demo_user 0, at_id 1 demo_run, at_id 3 demo_run]"
proof -
  have "filter replayed_event (demo_history 2) \<noteq> []" "length (demo_history 2) < 6"
    "filter is_action (map stop_waiting (butlast (filter replayed_event (demo_history 2))) @
       [last (filter replayed_event (demo_history 2))]) = [demo_user 0, at_id 1 demo_run, at_id 3 demo_run]"
    by code_simp+
  with replay_plays_all [of "demo_history 2" 6] show ?thesis by simp
qed

end
