(* ===== verification/Controller_Properties.thy ===== *)
theory Controller_Properties
  imports State_Properties
begin

text \<open>
  The properties of the controller: the invariant of its runs, confirmation, stopping, limits, progress,
  messages of the user, and delegates. The witnesses drive the scripted agent.
\<close>

section \<open>Concrete worlds\<close>

text \<open>Running with one command to execute; waiting for its confirmation; with the iterations used up\<close>

definition running_world :: "(event list, unit) world" where
  "running_world = snd (set_agent_state_to demo_env 0 RUNNING (demo_world [demo_run]))"

definition waiting_world :: "(event list, unit) world" where
  "waiting_world = snd (step demo_env 0 running_world)"

definition spent_world :: "(event list, unit) world" where
  "spent_world = upd_state 0 (\<lambda>st. st\<lparr>iteration_flag := mk_flag 2 2 2\<rparr>) running_world"

definition demo_delegate :: agent_delegate_action where
  "demo_delegate = \<lparr>ada_agent = ''helper'', ada_inputs = [(''task'', JStr ''count'')], ada_thought = []\<rparr>"

definition delegating_world :: "(event list, unit) world" where
  "delegating_world = snd (start_delegate demo_env 0 demo_delegate running_world)"

text \<open>What the witnesses need of these worlds, so that each of them is evaluated once\<close>

definition delegates :: "(event list, unit) world \<Rightarrow> bool" where
  "delegates w \<longleftrightarrow>
     has_delegate w 0 \<and> conversation_stats (st_of w 0) \<noteq> None \<and> conversation_stats (st_of w 1) \<noteq> None \<and>
     delegate_active (st_of w 1) \<and> agent_state (st_of w 0) = RUNNING \<and> fst (end_delegate demo_env 0 w) = None"

definition runs_alone :: "(event list, unit) world \<Rightarrow> bool" where
  "runs_alone w \<longleftrightarrow>
     length (stack w) = 1 \<and> conversation_stats (st_of w 0) \<noteq> None \<and> c_pending (ctl w 0) = None \<and>
     confirmation_mode (st_of w 0) \<and> c_confirmation_mode (ctl w 0) \<and>
     (case start_delegate demo_env 0 demo_delegate w of (x, w') \<Rightarrow> x = None \<and> delegates w')"

definition waits :: "(event list, unit) world \<Rightarrow> bool" where
  "waits w \<longleftrightarrow>
     0 < length (stack w) \<and> agent_state (st_of w 0) = AWAITING_USER_CONFIRMATION \<and>
     (case c_pending (ctl w 0) of
        None \<Rightarrow> False
      | Some p \<Rightarrow> (case payload p of Act a \<Rightarrow> confirm_class a | Obs _ \<Rightarrow> False)) \<and>
     filter is_observation (history (st_of w 0)) = [] \<and>
     fst (set_agent_state_to demo_env 0 USER_CONFIRMED w) = None \<and> fst (set_agent_state_to demo_env 0 STOPPED w) = None"

definition is_spent :: "(event list, unit) world \<Rightarrow> bool" where
  "is_spent w \<longleftrightarrow>
     0 < length (stack w) \<and> agent_state (st_of w 0) = RUNNING \<and> c_pending (ctl w 0) = None \<and>
     iteration_flag (st_of w 0) = mk_flag 2 2 2 \<and>
     (case next_decision demo_env (ctl w 0) of None \<Rightarrow> False | Some e \<Rightarrow> payload e \<noteq> Act NullAction) \<and>
     (case step demo_env 0 w of
        (x, w') \<Rightarrow>
          x = None \<and> 0 < length (stack w') \<and> agent_state (st_of w' 0) = ERROR \<and> \<not> c_headless (ctl w' 0) \<and>
          iteration_flag (st_of w' 0) = snd (iter_step (mk_flag 2 2 2)))"

lemma running_runs: "runs_alone running_world"
  by code_simp

lemma waiting_waits: "waits waiting_world"
  by code_simp

lemma spent_spent: "is_spent spent_world"
  by code_simp

lemma running_facts:
  "length (stack running_world) = 1" "conversation_stats (st_of running_world 0) \<noteq> None"
  "c_pending (ctl running_world 0) = None" "confirmation_mode (st_of running_world 0)"
  "c_confirmation_mode (ctl running_world 0)" "fst (start_delegate demo_env 0 demo_delegate running_world) = None"
  "delegates delegating_world"
  using running_runs by (auto simp: runs_alone_def delegating_world_def)

lemma waiting_facts:
  "0 < length (stack waiting_world)" "agent_state (st_of waiting_world 0) = AWAITING_USER_CONFIRMATION"
  "fst (set_agent_state_to demo_env 0 USER_CONFIRMED waiting_world) = None"
  "fst (set_agent_state_to demo_env 0 STOPPED waiting_world) = None"
  using waiting_waits by (auto simp: waits_def)

lemma waiting_pending:
  obtains p a where "c_pending (ctl waiting_world 0) = Some p" "payload p = Act a" "confirm_class a"
  using waiting_waits by (auto simp: waits_def split: option.splits payload.splits)

lemma waiting_unanswered: "\<forall>ob\<in>set (history (st_of waiting_world 0)). \<not> is_observation ob"
  using waiting_waits by (simp add: waits_def filter_empty_conv)

lemma running_single: "shared running_world" "stack running_world \<noteq> []"
proof -
  obtain c where "stack running_world = [c]" using running_facts(1) by (cases "stack running_world") auto
  then show "shared running_world" "stack running_world \<noteq> []" by (simp_all add: shared_def share_def)
qed

lemma op_result: "fst r = None \<Longrightarrow> r = (None, snd r)"
  by (cases r) simp

lemma demo_env_laws: "keeps_stats demo_env" "keeps_mode demo_env"
proof -
  have "snd (snd (script_step a st)) = st" for a st by (cases a) simp_all
  then show "keeps_stats demo_env" "keeps_mode demo_env"
    by (simp_all add: keeps_stats_def keeps_mode_def demo_env_def)
qed

section \<open>The invariant of runs\<close>

text \<open>
  C1. Whatever events a controller is given, in whatever order and whatever exceptions they end with: there is
  always a root controller, all controllers of the chain see the same iteration flag, budget flag, metrics and
  statistics, the root has its statistics, and nothing that was queued is ever taken back.
\<close>

theorem controller_invariant:
  assumes "reaches env w0 w" "keeps_stats env"
    and "shared w0" "stack w0 \<noteq> []" "conversation_stats (st_of w0 0) \<noteq> None"
  shows "shared w \<and> stack w \<noteq> [] \<and> conversation_stats (st_of w 0) \<noteq> None \<and>
    (\<exists>evs. equeue (stream w) = equeue (stream w0) @ evs)"
proof -
  have "okw 0 0 w0 w0" using assms(3-5) by (simp add: okw_def grows_def)
  from reaches_okw [OF assms(1,2) this] show ?thesis by (auto simp: okw_def grows_def)
qed

theorem controller_invariant_witness:
  "shared (snd (on_event demo_env 0 (demo_user 0) running_world))"
proof -
  have r: "reaches demo_env running_world (snd (on_event demo_env 0 (demo_user 0) running_world))"
    by (rule reaches_event [OF reaches_start]) (rule prod.collapse [symmetric])
  show ?thesis using controller_invariant [OF r demo_env_laws(1) running_single running_facts(2)] by blast
qed

section \<open>Confirmation\<close>

text \<open>
  C13. In confirmation mode, when a step of the agent leaves a pending command, code cell, browser interaction,
  file edit or file read that is of high risk, or of any risk when there is no analyzer, then the action is
  marked as awaiting confirmation and the agent waits for the user.
\<close>

theorem confirmation_holds:
  assumes "i < length (stack w)" "c_pending (ctl w i) = None" "keeps_mode env"
    and "confirmation_mode (st_of w i)" "c_confirmation_mode (ctl w i)"
    and "step env i w = (x, w')" "c_pending (ctl w' i) = Some p"
    and "payload p = Act a" "confirm_class a" "analyzer env = None \<or> event_risk p = HIGH"
  shows "get_confirmation p = Some AWAITING_CONFIRMATION \<and>
    agent_state (st_of w' i) = AWAITING_USER_CONFIRMATION"
  using assms by (rule step_awaits_confirmation)

theorem confirmation_holds_witness:
  "agent_state (st_of waiting_world 0) = AWAITING_USER_CONFIRMATION"
proof -
  have pre: "0 < length (stack running_world)" "analyzer demo_env = None" by (simp_all add: running_facts demo_env_def)
  obtain p a where p: "c_pending (ctl waiting_world 0) = Some p" "payload p = Act a" "confirm_class a" by (rule waiting_pending)
  have run: "step demo_env 0 running_world = (fst (step demo_env 0 running_world), waiting_world)"
    by (simp add: waiting_world_def)
  show ?thesis
    using confirmation_holds [OF pre(1) running_facts(3) demo_env_laws(2) running_facts(4,5) run p] pre(2) by blast
qed

text \<open>
  While an action awaits confirmation, an observation changes nothing but the history: the action stays
  pending, the agent is not asked for another step, and no event is sent.
\<close>

theorem confirmation_waits:
  assumes "i < length (stack w)" "agent_state (st_of w i) = AWAITING_USER_CONFIRMATION"
    and "c_pending (ctl w i) = Some p" "payload e = Obs ob"
  shows "on_event_own env i e w = (None, if ev_hidden e then w else upd_state i (add_history e) w)"
  using assms by (rule awaiting_ignores_observation)

theorem confirmation_waits_witness:
  "on_event_own demo_env 0 (demo_output 9) waiting_world =
     (None, upd_state 0 (add_history (demo_output 9)) waiting_world)"
proof -
  have out: "payload (demo_output 9) = Obs (AgentThinkObservation ''ok'')" "\<not> ev_hidden (demo_output 9)" by code_simp+
  obtain p where "c_pending (ctl waiting_world 0) = Some p" by (rule waiting_pending)
  from confirmation_waits [OF waiting_facts(1,2) this out(1), of demo_env] out(2) show ?thesis by simp
qed

text \<open>
  The answer of the user is put on the pending action, which is sent again as a new event followed by the
  announcement of the new state; the controller keeps waiting for its observation.
\<close>

theorem confirmation_answer:
  assumes "i < length (stack w)" "agent_state (st_of w i) = AWAITING_USER_CONFIRMATION"
    and "c_pending (ctl w i) = Some p" "new = USER_CONFIRMED \<or> new = USER_REJECTED"
    and "set_agent_state_to env i new w = (None, w')"
  shows "agent_state (st_of w' i) = new \<and>
    get_confirmation (answer_pending new p) = Some (if new = USER_CONFIRMED then CONFIRMED else CONFIRM_REJECTED) \<and>
    (\<exists>n ev ev' s. c_pending (ctl w' i) = Some (stamped (env_now env) (Some AGENT) n (answer_pending new p)) \<and>
       equeue (stream w') = equeue (stream w) @ [ev, ev'] \<and>
       stored_as env (Some AGENT) (answer_pending new p) (stream w) ev \<and>
       secrets s = secrets (stream w) \<and>
       stored_as env (Some ENVIRONMENT) (state_changed_obs (st_of w' i)) s ev')"
  using answer_resends [OF assms] answer_pending_marks(1) [of new p] by blast

theorem confirmation_answer_witness:
  "agent_state (st_of (snd (set_agent_state_to demo_env 0 USER_CONFIRMED waiting_world)) 0) = USER_CONFIRMED \<and>
   (\<exists>ev ev'. equeue (stream (snd (set_agent_state_to demo_env 0 USER_CONFIRMED waiting_world))) =
      equeue (stream waiting_world) @ [ev, ev'])"
proof -
  obtain p where p: "c_pending (ctl waiting_world 0) = Some p" by (rule waiting_pending)
  from confirmation_answer [OF waiting_facts(1,2) p _ op_result [OF waiting_facts(3)]] show ?thesis by blast
qed

text \<open>
  A file edit, a file read or a browser interaction that the controller has marked as awaiting
  confirmation reaches the subscribers without the mark: its class declares no such field, so the dictionary
  the event is stored as has none.
\<close>

theorem confirmation_lost:
  assumes "log_run cd st l" "secrets st = []" "ev_id e = INVALID_ID" "serializable e" "payload e = Act a"
    and "a = FileEditAction f \<or> a = FileReadAction r \<or> a = BrowseInteractiveAction b"
    and "get_confirmation e = Some AWAITING_CONFIRMATION"
    and "to_dict cd (stamped now src (int (length l)) e) \<noteq> None"
  shows "\<exists>ev st'. add_event cd now e src st = (None, stamped now src (int (length l)) e, st') \<and>
    equeue st' = equeue st @ [ev] \<and> payload ev = payload e \<and> get_confirmation ev = None"
proof -
  let ?s = "stamped now src (int (length l)) e"
  obtain d where san: "sanitized cd now src (int (length l)) (map snd (secrets st)) e = Some (d, persisted ?s)"
    using sanitized_serializable [OF assms(4)] assms(2,8) by fastforce
  from log_run_ok [OF assms(1)] have "log_ok cd st (int (length l))" by blast
  from log_ok_add [OF this assms(3) san] obtain st' where
    "add_event cd now e src st = (None, ?s, st')" "equeue st' = equeue st @ [persisted ?s]" by blast
  moreover have "payload (persisted ?s) = payload e" "get_confirmation (persisted ?s) = None"
    using assms(5,6) by (auto simp: persisted_def stamped_def get_confirmation_def)
  ultimately show ?thesis by blast
qed

definition demo_browse :: event where
  "demo_browse = set_confirmation AWAITING_CONFIRMATION
     (mk_action (BrowseInteractiveAction \<lparr>bia_browser_actions = ''noop()'', bia_thought = [],
        bia_send_msg = [], bia_risk = UNKNOWN, bia_return_axtree = False\<rparr>))"

theorem confirmation_lost_witness:
  "\<exists>ev st'. add_event demo_codec ''t'' demo_browse (Some AGENT) demo_log0 =
      (None, stamped ''t'' (Some AGENT) 0 demo_browse, st') \<and>
    equeue st' = [ev] \<and> get_confirmation demo_browse = Some AWAITING_CONFIRMATION \<and> get_confirmation ev = None"
proof -
  have pre: "secrets demo_log0 = []" "ev_id demo_browse = INVALID_ID" "serializable demo_browse"
    "get_confirmation demo_browse = Some AWAITING_CONFIRMATION" "equeue demo_log0 = []"
    "to_dict demo_codec (stamped ''t'' (Some AGENT) (int (length ([] :: event list))) demo_browse) \<noteq> None" by code_simp+
  obtain b where "payload demo_browse = Act (BrowseInteractiveAction b)"
    by (simp add: demo_browse_def set_confirmation_def mk_event_def)
  from confirmation_lost [OF demo_log0_run pre(1-3) this _ pre(4,6), of undefined undefined b] pre(4,5)
  show ?thesis by simp blast
qed

section \<open>Stopping and limits\<close>

text \<open>
  C23. Stopping an agent, or putting it in error, always clears the pending action and resets the agent, and the new
  state is announced. Before that, exactly one error observation is sent for a pending action: it has the tool call
  of the action and names the action as its cause, and says whether the agent was stopped or has failed, so that the
  action is not left without a result. It is left out when the history has an observation with the same tool call;
  for an action without a tool call, any observation without one counts as such.
\<close>

theorem stop_clears_pending:
  assumes "i < length (stack w)" "new \<noteq> agent_state (st_of w i)" "new = STOPPED \<or> new = ERROR"
    and "set_agent_state_to env i new w = (None, w')"
  shows "c_pending (ctl w' i) = None \<and> c_agent (ctl w' i) = ag_reset env (c_agent (ctl w i)) \<and>
    agent_state (st_of w' i) = new \<and>
    (\<exists>evs ev s. equeue (stream w') = equeue (stream w) @ evs @ [ev] \<and>
       (case c_pending (ctl w i) of
          None \<Rightarrow> evs = []
        | Some p \<Rightarrow>
            if \<exists>ob\<in>set (history (st_of w i)). is_observation ob \<and> tool_call_eq (m_tool_call ob) (m_tool_call p)
            then evs = []
            else \<exists>r. evs = [r] \<and> stored_as env (Some AGENT)
              ((if new = STOPPED
                then mk_error_obs ERROR_ACTION_NOT_EXECUTED_STOPPED ERROR_ACTION_NOT_EXECUTED_STOPPED_ID
                else mk_error_obs ERROR_ACTION_NOT_EXECUTED_ERROR ERROR_ACTION_NOT_EXECUTED_ERROR_ID)
               \<lparr>m_tool_call := m_tool_call p, m_cause := Some (ev_id p)\<rparr>) (stream w) r) \<and>
       secrets s = secrets (stream w) \<and>
       stored_as env (Some ENVIRONMENT) (state_changed_obs ((st_of w i)\<lparr>agent_state := new\<rparr>)) s ev)"
proof -
  from stop_clears [OF assms] obtain evs ev s where r: "c_pending (ctl w' i) = None"
    "c_agent (ctl w' i) = ag_reset env (c_agent (ctl w i))" "agent_state (st_of w' i) = new"
    "equeue (stream w') = equeue (stream w) @ evs @ [ev]"
    "case reset_observation ((ctl w i)\<lparr>c_state := (st_of w i)\<lparr>agent_state := new\<rparr>\<rparr>) of None \<Rightarrow> evs = []
     | Some ob \<Rightarrow> \<exists>r. evs = [r] \<and> stored_as env (Some AGENT) ob (stream w) r"
    "secrets s = secrets (stream w)"
    "stored_as env (Some ENVIRONMENT) (state_changed_obs ((st_of w i)\<lparr>agent_state := new\<rparr>)) s ev" by blast
  show ?thesis
    by (intro conjI exI [of _ evs] exI [of _ ev] exI [of _ s] r(1-4,6,7))
      (use r(5) in \<open>simp add: reset_observation_def list_ex_iff split: option.splits if_splits\<close>)
qed

theorem stop_clears_pending_witness:
  "\<exists>p ev1 ev2. c_pending (ctl waiting_world 0) = Some p \<and>
     c_pending (ctl (snd (set_agent_state_to demo_env 0 STOPPED waiting_world)) 0) = None \<and>
     equeue (stream (snd (set_agent_state_to demo_env 0 STOPPED waiting_world))) = equeue (stream waiting_world) @ [ev1, ev2]"
proof -
  have ne: "STOPPED \<noteq> agent_state (st_of waiting_world 0)" by (simp add: waiting_facts)
  obtain p where p: "c_pending (ctl waiting_world 0) = Some p" by (rule waiting_pending)
  have none: "\<not> (\<exists>ob\<in>set (history (st_of waiting_world 0)).
      is_observation ob \<and> tool_call_eq (m_tool_call ob) (m_tool_call p))" using waiting_unanswered by auto
  from stop_clears_pending [OF waiting_facts(1) ne _ op_result [OF waiting_facts(4)]] p none show ?thesis by auto
qed

text \<open>
  C24. An agent that has used up its iterations, or whose conversation has used up the budget, does not act: the
  step puts it in error, announces that, and sends nothing else; the agent's policy is not consulted.
\<close>

theorem limit_stops_agent:
  assumes "i < length (stack w)" "agent_state (st_of w i) = RUNNING" "c_pending (ctl w i) = None"
    and "limit_reached (st_of w i)" "step env i w = (None, w')"
  shows "agent_state (st_of w' i) = ERROR \<and> c_pending (ctl w' i) = None \<and>
    c_agent (ctl w' i) = ag_reset env (c_agent (ctl w i)) \<and>
    (\<exists>ev s. equeue (stream w') = equeue (stream w) @ [ev] \<and> secrets s = secrets (stream w) \<and>
       stored_as env (Some ENVIRONMENT) (state_changed_obs (st_of w' i)) s ev)"
  using assms by (rule limit_stops)

lemma spent_facts:
  "0 < length (stack spent_world)" "agent_state (st_of spent_world 0) = RUNNING"
  "c_pending (ctl spent_world 0) = None" "fst (step demo_env 0 spent_world) = None"
  "iteration_flag (st_of spent_world 0) = mk_flag 2 2 2"
  using spent_spent by (auto simp: is_spent_def)

theorem limit_stops_agent_witness:
  "agent_state (st_of (snd (step demo_env 0 spent_world)) 0) = ERROR \<and>
   c_agent (ctl (snd (step demo_env 0 spent_world)) 0) = c_agent (ctl spent_world 0)"
proof -
  have "limit_reached (st_of spent_world 0)" by (simp add: limit_reached_def spent_facts mk_flag_def)
  from limit_stops_agent [OF spent_facts(1-3) this op_result [OF spent_facts(4)]] show ?thesis
    by (simp add: demo_env_def)
qed

text \<open>
  When the user resumes an agent that was stopped by its iteration limit, outside headless mode, the limit
  has been raised far enough that the next check of the iterations passes.
\<close>

theorem resume_after_limit:
  assumes "i < length (stack w)" "agent_state (st_of w i) = ERROR" "\<not> c_headless (ctl w i)"
    and "iteration_flag (st_of w i) = snd (iter_step f)" "max_value f \<le> current_value f"
    and "current_value f < max_value f + limit_increase_amount f"
  shows "fst (iter_step (iteration_flag (st_of (snd (set_agent_state_to env i RUNNING w)) i))) = None"
  using assms by (rule resume_raises_limit)

theorem resume_after_limit_witness:
  "fst (iter_step (iteration_flag (st_of
     (snd (set_agent_state_to demo_env 0 RUNNING (snd (step demo_env 0 spent_world)))) 0))) = None"
proof -
  let ?w = "snd (step demo_env 0 spent_world)"
  have "0 < length (stack ?w)" "agent_state (st_of ?w 0) = ERROR" "\<not> c_headless (ctl ?w 0)"
    "iteration_flag (st_of ?w 0) = snd (iter_step (mk_flag 2 2 2))"
    "max_value (mk_flag 2 2 (2::int)) \<le> current_value (mk_flag 2 2 (2::int))"
    "current_value (mk_flag 2 2 (2::int)) < max_value (mk_flag 2 2 (2::int)) + limit_increase_amount (mk_flag 2 2 (2::int))"
    using spent_spent by (auto simp: is_spent_def mk_flag_def)
  then show ?thesis by (rule resume_after_limit)
qed

text \<open>
  C25. A step of a running agent with nothing pending that returns normally always sends at least one event, be
  it an action, an error or a change of state, unless the action of this step is the null action: the next event of
  the recording when one is replayed, otherwise what the policy answers when it is asked with the agent and the state
  of this step. The agent cannot stand still silently.
\<close>

theorem step_makes_progress:
  assumes "i < length (stack w)" "agent_state (st_of w i) = RUNNING" "c_pending (ctl w i) = None"
    and "step env i w = (None, w')"
  shows "(\<exists>evs. evs \<noteq> [] \<and> equeue (stream w') = equeue (stream w) @ evs) \<or>
    (\<exists>e. next_decision env (ctl w i) = Some e \<and> payload e = Act NullAction)"
  using step_progress [OF assms] by (simp add: more_events_def)

theorem step_makes_progress_witness:
  "\<exists>evs. evs \<noteq> [] \<and> equeue (stream (snd (step demo_env 0 spent_world))) = equeue (stream spent_world) @ evs"
  using step_makes_progress [OF spent_facts(1-3) op_result [OF spent_facts(4)]] spent_spent
  by (auto simp: is_spent_def split: option.splits)

section \<open>Messages of the user\<close>

text \<open>
  When a message of the user has been handled, the agent is running and waits for the recall of what is
  known about the message: a recall with the text of the message is pending, and the agent has not acted.
\<close>

theorem user_message_recall:
  assumes "i < length (stack w)" "\<not> has_delegate w i" "payload e = Act (MessageAction m)" "m_source e = Some USER"
    and "on_event_own env i e w = (None, w')"
  shows "agent_state (st_of w' i) = RUNNING \<and> c_agent (ctl w' i) = c_agent (ctl w i) \<and>
    (\<exists>n t. c_pending (ctl w' i) = Some (stamped (env_now env) (Some USER) n (mk_recall t (ma_content m))))"
  using assms by (rule user_message_recalls)

theorem user_message_recall_witness:
  "agent_state (st_of (snd (on_event_own demo_env 0 (demo_user 0) (demo_world []))) 0) = RUNNING \<and>
   (\<exists>n t. c_pending (ctl (snd (on_event_own demo_env 0 (demo_user 0) (demo_world []))) 0) =
      Some (stamped ''2026-01-01T00:00:00'' (Some USER) n (mk_recall t ''hello'')))"
proof -
  have pre: "0 < length (stack (demo_world []))" "\<not> has_delegate (demo_world []) 0"
    "m_source (demo_user 0) = Some USER" by code_simp+
  obtain m where m: "payload (demo_user 0) = Act (MessageAction m)" "ma_content m = ''hello''"
    by (simp add: demo_user_def at_id_def demo_hello_def mk_message_def mk_event_def)
  have "fst (on_event_own demo_env 0 (demo_user 0) (demo_world [])) = None" by code_simp
  from user_message_recall [OF pre(1,2) m(1) pre(3) op_result [OF this]] m(2) show ?thesis
    by (simp add: demo_env_def)
qed

section \<open>Delegates\<close>

text \<open>
  C35. While the delegate of the root is active, an event leaves the root as it is, except for the limits, metrics
  and statistics the two share: same state, history, pending action, agent and start of the history.
\<close>

theorem delegate_isolated:
  fixes e :: event
  assumes "keeps_stats env" "shared w" "has_delegate w 0" "conversation_stats (st_of w 1) \<noteq> None"
    and "delegate_active (st_of w 1)"
  defines "w' \<equiv> snd (on_event env 0 e w)"
  shows "agent_state (st_of w' 0) = agent_state (st_of w 0) \<and> history (st_of w' 0) = history (st_of w 0) \<and>
    c_pending (ctl w' 0) = c_pending (ctl w 0) \<and> c_agent (ctl w' 0) = c_agent (ctl w 0) \<and>
    start_id (st_of w' 0) = start_id (st_of w 0)"
  using untouched_frame [OF delegate_event_frame [OF assms(1-5), of e]] by (simp add: w'_def)

lemma delegating_facts:
  "has_delegate delegating_world 0" "conversation_stats (st_of delegating_world 0) \<noteq> None"
  "conversation_stats (st_of delegating_world 1) \<noteq> None" "delegate_active (st_of delegating_world 1)"
  "agent_state (st_of delegating_world 0) = RUNNING" "fst (end_delegate demo_env 0 delegating_world) = None"
  using running_facts(7) by (auto simp: delegates_def)

lemma delegating_shared: "shared delegating_world"
proof -
  have "okw 0 0 running_world running_world" using running_single running_facts(1,2) by (simp add: okw_def grows_def)
  then have "okw 0 0 running_world (snd (start_delegate demo_env 0 demo_delegate running_world))"
    by (rule preservesD [OF okw_start_delegate])
  then show ?thesis by (simp add: okw_def delegating_world_def)
qed

theorem delegate_isolated_witness:
  "history (st_of (snd (on_event demo_env 0 (demo_user 0) delegating_world)) 0) = history (st_of delegating_world 0)"
  using delegate_isolated [OF demo_env_laws(1) delegating_shared delegating_facts(1,3,4), of "demo_user 0"] by blast

text \<open>
  A delegate starts with an empty history, one level below its parent, on the same iteration and budget
  flags, and outside confirmation mode, whatever the mode of the parent is.
\<close>

theorem delegate_starts:
  assumes "start_delegate env i d w = (None, w')" "i < length (stack w)"
  shows "length (stack w') = Suc (Suc i) \<and> history (st_of w' (Suc i)) = [] \<and>
    iteration_flag (st_of w' (Suc i)) = iteration_flag (st_of w i) \<and>
    budget_flag (st_of w' (Suc i)) = budget_flag (st_of w i) \<and>
    delegate_level (st_of w' (Suc i)) = delegate_level (st_of w i) + 1 \<and>
    \<not> confirmation_mode (st_of w' (Suc i)) \<and> \<not> c_confirmation_mode (ctl w' (Suc i))"
  using assms by (rule start_delegate_fresh)

theorem delegate_starts_witness:
  "c_confirmation_mode (ctl running_world 0) \<and> \<not> c_confirmation_mode (ctl delegating_world 1)"
  using delegate_starts [OF op_result [OF running_facts(6)]] running_facts(1,5) by (simp add: delegating_world_def)

text \<open>
  Ending a delegate removes it, leaves the state, the history and the pending action of the parent as they
  are, and sends as the last event the result of the delegation: the outputs of the delegate, under the tool call
  of the most recent delegation in the parent's history.
\<close>

theorem delegate_ends:
  assumes "shared w" "has_delegate w i" "conversation_stats (st_of w i) \<noteq> None"
    and "end_delegate env i w = (None, w')"
  defines "action \<equiv> find (\<lambda>e. isinstance e C_AgentDelegateAction) (rev (history (st_of w i)))"
  shows "length (stack w') = Suc i \<and> history (st_of w' i) = history (st_of w i) \<and>
    agent_state (st_of w' i) = agent_state (st_of w i) \<and> c_pending (ctl w' i) = c_pending (ctl w i) \<and>
    (\<exists>ob r ev s evs. equeue (stream w') = equeue (stream w) @ evs @ [ev] \<and> stored_as env (Some AGENT) ob s ev \<and>
       payload ob = Obs (AgentDelegateObservation r) \<and> ado_outputs r = outputs (st_of w (Suc i)) \<and>
       m_tool_call ob = (case action of None \<Rightarrow> None | Some a \<Rightarrow> m_tool_call a))"
  using end_delegate_result [OF assms(1-4)] unfolding action_def .

theorem delegate_ends_witness:
  "length (stack (snd (end_delegate demo_env 0 delegating_world))) = 1 \<and>
   agent_state (st_of (snd (end_delegate demo_env 0 delegating_world)) 0) = RUNNING"
  using delegate_ends [OF delegating_shared delegating_facts(1,2) op_result [OF delegating_facts(6)]] delegating_facts(5) by simp

section \<open>The system message\<close>

text \<open>
  If creating a controller puts the system message of the agent into the log, it is stored under the next id
  as it was made, and creating a controller on that log again adds nothing.
\<close>

theorem system_message_once:
  assumes "stream_ok (env_codec env) s n" "secrets s = []" "0 \<le> start_id st" "start_id st \<le> n"
    and "ag_system_message env agent = Some m" "payload m = Act (SystemMessageAction sm)"
      "serializable m" "m_id m = None"
    and "add_system_message env agent st s = (None, s')" "s' \<noteq> s"
  shows "event_at (env_codec env) s' n = Some (persisted (stamped (env_now env) (Some AGENT) n m)) \<and>
    add_system_message env agent st s' = (None, s')"
  using assms by (rule add_system_message_once)

definition demo_system :: event where
  "demo_system = mk_action (SystemMessageAction \<lparr>sma_content = ''be helpful'', sma_tools = None,
     sma_openhands_version = None, sma_agent_class = None\<rparr>)"

definition system_env :: "(event list, unit) env" where
  "system_env = demo_env\<lparr>ag_system_message := \<lambda>_. Some demo_system\<rparr>"

definition fresh_log :: "unit event_stream" where
  "fresh_log = demo_log0\<lparr>es_cur := Some 0\<rparr>"

theorem system_message_once_witness:
  "event_at demo_codec (snd (add_system_message system_env [] (default_state\<lparr>start_id := 0\<rparr>) fresh_log)) 0 =
     Some (persisted (stamped ''2026-01-01T00:00:00'' (Some AGENT) 0 demo_system))"
proof -
  let ?st = "default_state\<lparr>start_id := 0\<rparr>"
  have ok: "stream_ok (env_codec system_env) fresh_log 0"
    using log_run_ok [OF demo_log0_run] by (simp add: log_ok_def fresh_log_def system_env_def demo_env_def)
  have pre: "secrets fresh_log = []" "0 \<le> start_id ?st" "start_id ?st \<le> 0"
    "ag_system_message system_env [] = Some demo_system" "serializable demo_system" "m_id demo_system = None"
    "fst (add_system_message system_env [] ?st fresh_log) = None"
    "es_cur (snd (add_system_message system_env [] ?st fresh_log)) = Some 1" "es_cur fresh_log = Some 0"
    by code_simp+
  obtain sm where sm: "payload demo_system = Act (SystemMessageAction sm)"
    by (simp add: demo_system_def mk_event_def)
  have "snd (add_system_message system_env [] ?st fresh_log) \<noteq> fresh_log" using pre(8,9) by auto
  from system_message_once [OF ok pre(1-4) sm pre(5,6) op_result [OF pre(7)] this] show ?thesis
    by (simp add: system_env_def demo_env_def)
qed

end
