(* ===== verification/Runtime_Properties.thy ===== *)
theory Runtime_Properties
  imports Runtime_Rules Log_Clients Controller_Properties
begin

text \<open>
  The properties of the runtime and of the runtime together with the controller: actions that await confirmation,
  the answer of the user, the observation that releases the controller, the commands of the runtime itself, the
  task list and the secrets.
\<close>

section \<open>The answered action\<close>

lemma answer_pending_act:
  assumes "payload p = Act a"
  obtains b where "payload (answer_pending new p) = Act b" "action_type b = action_type a" "runnable b = runnable a"
    "marked_class b = marked_class a"
proof -
  have "\<exists>b. payload (answer_pending new p) = Act b \<and> action_type b = action_type a \<and> runnable b = runnable a \<and>
      marked_class b = marked_class a"
    using assms by (cases a) (simp_all add: answer_pending_def set_confirmation_def)
  then show thesis using that by blast
qed

lemma answer_pending_frame:
  assumes "payload p = Act a"
  shows "check_cmd_action_for_provider_token_ref (answer_pending new p) = check_cmd_action_for_provider_token_ref p"
    "serializable p \<Longrightarrow> serializable (answer_pending new p)"
  using assms
  by (cases a; simp add: answer_pending_def set_confirmation_def check_cmd_action_for_provider_token_ref_def
      serializable_def)+

text \<open>The event that carries the answer, and the pending action that waits under its id\<close>

lemma answer_sent:
  assumes "i < length (stack w)" "agent_state (st_of w i) = AWAITING_USER_CONFIRMATION"
    and "c_pending (ctl w i) = Some p" "new = USER_CONFIRMED \<or> new = USER_REJECTED"
    and "set_agent_state_to env i new w = (None, w')"
    and "payload p = Act a" "serializable p" "secrets (stream w) = []"
  obtains ev ev' b p' where "equeue (stream w') = equeue (stream w) @ [ev, ev']" "payload ev = Act b"
    "payload (answer_pending new p) = Act b" "m_confirmation ev = None" "m_source ev = Some AGENT"
    "c_pending (ctl w' i) = Some p'" "ev_id p' = ev_id ev" "agent_state (st_of w' i) = new"
proof -
  obtain n s0 ev ev' where r: "c_pending (ctl w' i) = Some (stamped (env_now env) (Some AGENT) n (answer_pending new p))"
    "cur_id (stream w) = Inr (n, s0)" "equeue (stream w') = equeue (stream w) @ [ev, ev']"
    "stored_as env (Some AGENT) (answer_pending new p) (stream w) ev" "agent_state (st_of w' i) = new"
    using answer_resends [OF assms(1-5)] by blast
  then obtain d where d: "sanitized (env_codec env) (env_now env) (Some AGENT) n [] (answer_pending new p) = Some (d, ev)"
    using assms(8) by (auto simp: stored_as_def)
  obtain b where b: "payload (answer_pending new p) = Act b" using answer_pending_act [OF assms(6)] by metis
  note s = stored_plain [OF d answer_pending_frame(2) [OF assms(6,7)] b]
  show thesis by (rule that [OF r(3) s(1) b s(2,3) r(1) _ r(5)]) (use s(4) in \<open>simp add: stamped_def ev_id_def\<close>)
qed

section \<open>Concrete runtimes\<close>

text \<open>A sandbox that remembers what it ran\<close>

definition demo_execute :: "event \<Rightarrow> event list \<Rightarrow> (rt_exn + event) \<times> event list" where
  "demo_execute e es = (Inr (mk_obs (AgentThinkObservation ''done'')), es @ [e])"

definition demo_rt_env :: "event list runtime_env" where
  "demo_rt_env =
     \<lparr>rt_codec = demo_codec, rt_now = ''2026-01-01T00:00:00'', rt_str = (\<lambda>_. []), rt_repr = (\<lambda>s. s), rt_obs_str = (\<lambda>_. []),
      rt_dumps = (\<lambda>s. quote_char # s @ [quote_char]), rt_windows = False, rt_supports = (\<lambda>_. True),
      rt_execute = demo_execute, rt_mcp = demo_execute, rt_tokens = (\<lambda>ps. Inr (map (\<lambda>p. (p, ''t1'')) ps)),
      rt_write_file = (\<lambda>fs p c. Inr (fs_write fs p c)),
      rt_read_file = (\<lambda>fs p. case fs_read fs p of None \<Rightarrow> Inl Not_found | Some c \<Rightarrow> Inr c)\<rparr>"

definition demo_rt :: "unit event_stream \<Rightarrow> (event list, unit) runtime" where
  "demo_rt st =
     \<lparr>rt_sid = ''c1'', rt_timeout = 120, rt_jupyter = False, rt_cli = False, rt_git_user = (''u'', ''u@x''), rt_attach = False,
      rt_initial_env = [], rt_startup_env = [], rt_callback = True, rt_status = None, rt_status_log = [], rt_tasks = [],
      rt_sandbox = [], rt_stream = st\<rparr>"

lemma demo_conclude:
  "conclude demo_rt_env e (in_sandbox (rt_execute demo_rt_env e) (demo_rt st)) =
   publish demo_rt_env e (mk_obs (AgentThinkObservation ''done'')) ((demo_rt st)\<lparr>rt_sandbox := [e]\<rparr>)"
  by (simp add: conclude_def in_sandbox_def demo_rt_env_def demo_rt_def demo_execute_def)

text \<open>
  Worlds in which a step asks the user first: for the command of the script, and for a browser interaction. What the
  examples need of such a world is evaluated once.
\<close>

definition browsing_world :: "(event list, unit) world" where
  "browsing_world = snd (set_agent_state_to demo_env 0 RUNNING (demo_world [demo_browse\<lparr>m_confirmation := None\<rparr>]))"

definition asked_world :: "(event list, unit) world" where
  "asked_world = snd (step demo_env 0 browsing_world)"

definition asked :: "(event list, unit) world \<Rightarrow> bool \<Rightarrow> bool" where
  "asked w marked \<longleftrightarrow>
     0 < length (stack w) \<and> agent_state (st_of w 0) = AWAITING_USER_CONFIRMATION \<and> secrets (stream w) = [] \<and>
     fst (set_agent_state_to demo_env 0 USER_REJECTED w) = None \<and>
     (case c_pending (ctl w 0) of
        None \<Rightarrow> False
      | Some p \<Rightarrow>
          serializable p \<and> check_cmd_action_for_provider_token_ref p = [] \<and>
          (case payload p of Act a \<Rightarrow> confirm_class a \<and> marked_class a = marked | Obs _ \<Rightarrow> False))"

definition asks_first :: "(event list, unit) world \<Rightarrow> bool \<Rightarrow> bool" where
  "asks_first w marked \<longleftrightarrow>
     0 < length (stack w) \<and> c_pending (ctl w 0) = None \<and> confirmation_mode (st_of w 0) \<and> c_confirmation_mode (ctl w 0) \<and>
     (case step demo_env 0 w of (x, w') \<Rightarrow> x = None \<and> asked w' marked)"

lemma asks_first_worlds: "asks_first running_world True" "asks_first browsing_world False"
  by code_simp+

lemma asks_first_step:
  assumes "asks_first w marked"
  shows "step demo_env 0 w = (None, snd (step demo_env 0 w))" "asked (snd (step demo_env 0 w)) marked"
  using assms by (auto simp: asks_first_def split: prod.splits)

lemma asks_first_pre:
  assumes "asks_first w marked"
  shows "0 < length (stack w)" "c_pending (ctl w 0) = None" "confirmation_mode (st_of w 0)" "c_confirmation_mode (ctl w 0)"
  using assms by (simp_all add: asks_first_def)

lemma asked_pre:
  assumes "asked w marked"
  shows "0 < length (stack w)" "agent_state (st_of w 0) = AWAITING_USER_CONFIRMATION" "secrets (stream w) = []"
    "fst (set_agent_state_to demo_env 0 USER_REJECTED w) = None"
  using assms by (simp_all add: asked_def)

lemma asked_pending:
  assumes "asked w marked"
  obtains p a where "c_pending (ctl w 0) = Some p" "payload p = Act a" "confirm_class a" "marked_class a = marked"
    "serializable p" "check_cmd_action_for_provider_token_ref p = []"
  using assms that by (auto simp: asked_def split: option.splits payload.splits)

lemma demo_supports: "rt_supports demo_rt_env ty" "analyzer demo_env = None"
  by (simp_all add: demo_rt_env_def demo_env_def)

lemmas waiting_asked = asks_first_step [OF asks_first_worlds(1), folded waiting_world_def]
lemmas browser_asked = asks_first_step [OF asks_first_worlds(2), folded asked_world_def]

section \<open>Confirmation and the runtime\<close>

text \<open>
  C3. A command or code cell that a step sends in confirmation mode, and that needs the confirmation of the user, is
  the last event of the stream, the agent waits for the user, and the runtime that takes the event off the stream does
  not run it (the stream has no secrets). If the command names no provider token, the runtime does nothing at all:
  the sandbox, the files and the stream stay as they are. If it names one, the runtime only fetches the token and
  exports it, before it looks at the mark.
\<close>

theorem awaiting_command_not_run:
  assumes "i < length (stack w)" "c_pending (ctl w i) = None" "keeps_mode env"
    and "confirmation_mode (st_of w i)" "c_confirmation_mode (ctl w i)"
    and "step env i w = (None, w')" "c_pending (ctl w' i) = Some p" "payload p = Act a" "marked_class a"
    and "analyzer env = None \<or> event_risk p = HIGH"
    and "secrets (stream w') = []" "serializable p"
  shows "agent_state (st_of w' i) = AWAITING_USER_CONFIRMATION \<and>
    (\<exists>q ev. equeue (stream w') = q @ [ev] \<and> payload ev = payload p \<and> ev_id ev = ev_id p \<and>
       runtime_on_event renv ev rt =
         (if check_cmd_action_for_provider_token_ref p = [] then (None, rt)
          else (case export_latest_git_provider_tokens renv (with_timeout rt ev) rt of
                  (None, rt1) \<Rightarrow> (None, rt1)
                | (Some x, rt1) \<Rightarrow> conclude renv (with_timeout rt ev) (Inl x, rt1))))"
proof -
  have cls: "confirm_class a" "runnable a" "action_type a \<noteq> ''call_tool_mcp''" using assms(9) by (cases a; simp)+
  from step_awaits_confirmation [OF assms(1-7) assms(8) cls(1) assms(10)]
  have aw: "get_confirmation p = Some AWAITING_CONFIRMATION" "agent_state (st_of w' i) = AWAITING_USER_CONFIRMATION"
    by simp_all
  from step_sends [OF assms(1-3) assms(6,7) assms(11,12,8)] obtain ev q where
    ev: "equeue (stream w') = q @ [ev]" "payload ev = Act a" "ev_id ev = ev_id p" by metis
  have mark: "get_confirmation ev = Some AWAITING_CONFIRMATION"
    using confirmation_of_payload [OF assms(8,9) ev(2)] aw(1) by simp
  have "check_cmd_action_for_provider_token_ref ev = check_cmd_action_for_provider_token_ref p"
    using assms(8) ev(2) by (simp add: check_cmd_action_for_provider_token_ref_def)
  with runtime_awaiting [OF ev(2) cls(2,3) mark, of renv rt]
  have "runtime_on_event renv ev rt =
      (if check_cmd_action_for_provider_token_ref p = [] then (None, rt)
       else (case export_latest_git_provider_tokens renv (with_timeout rt ev) rt of
               (None, rt1) \<Rightarrow> (None, rt1)
             | (Some x, rt1) \<Rightarrow> conclude renv (with_timeout rt ev) (Inl x, rt1)))"
    by (simp add: no_tokens_exported split: option.split prod.split)
  with aw(2) ev assms(8) show ?thesis by auto
qed

theorem awaiting_command_not_run_witness:
  "\<exists>q ev. equeue (stream waiting_world) = q @ [ev] \<and>
     runtime_on_event demo_rt_env ev (demo_rt (stream waiting_world)) = (None, demo_rt (stream waiting_world))"
proof -
  obtain p a where p: "c_pending (ctl waiting_world 0) = Some p" "payload p = Act a" "marked_class a" "serializable p"
    "check_cmd_action_for_provider_token_ref p = []" using asked_pending [OF waiting_asked(2)] by metis
  note pre = asks_first_pre [OF asks_first_worlds(1)]
  from awaiting_command_not_run [OF pre(1,2) demo_env_laws(2) pre(3,4) waiting_asked(1) p(1-3) disjI1 [OF demo_supports(2)]
      asked_pre(3) [OF waiting_asked(2)] p(4), of demo_rt_env "demo_rt (stream waiting_world)"] p(5)
  show ?thesis by auto
qed

text \<open>
  A file edit, a file read or a browser interaction is run at once, although the step that sends it marks it as
  awaiting confirmation and leaves the agent waiting for the user: the mark is not stored, so the runtime does not see
  it.
\<close>

theorem unconfirmed_action_runs:
  assumes "i < length (stack w)" "c_pending (ctl w i) = None" "keeps_mode env"
    and "confirmation_mode (st_of w i)" "c_confirmation_mode (ctl w i)"
    and "step env i w = (None, w')" "c_pending (ctl w' i) = Some p" "payload p = Act a"
    and "confirm_class a" "\<not> marked_class a" "analyzer env = None \<or> event_risk p = HIGH"
    and "secrets (stream w') = []" "serializable p" "rt_supports renv (action_type a)"
  shows "agent_state (st_of w' i) = AWAITING_USER_CONFIRMATION \<and>
    (\<exists>q ev. equeue (stream w') = q @ [ev] \<and> payload ev = payload p \<and>
       runtime_on_event renv ev rt =
         conclude renv (with_timeout rt ev) (in_sandbox (rt_execute renv (with_timeout rt ev)) rt))"
proof -
  have cls: "runnable a" "action_type a \<noteq> ''call_tool_mcp''" using assms(9) by (cases a; simp)+
  from step_awaits_confirmation [OF assms(1-9) assms(11)]
  have aw: "agent_state (st_of w' i) = AWAITING_USER_CONFIRMATION" by simp
  from step_sends [OF assms(1-3) assms(6,7) assms(12,13,8)] obtain ev q where
    ev: "equeue (stream w') = q @ [ev]" "payload ev = Act a" "m_confirmation ev = None" by metis
  have "get_confirmation ev = None" using confirmation_unmarked [OF ev(2) assms(10)] ev(3) by simp
  moreover have "check_cmd_action_for_provider_token_ref ev = []"
    using assms(10) ev(2) by (cases a) (simp_all add: check_cmd_action_for_provider_token_ref_def)
  ultimately have "runtime_on_event renv ev rt =
      conclude renv (with_timeout rt ev) (in_sandbox (rt_execute renv (with_timeout rt ev)) rt)"
    using runtime_runnable [OF ev(2) cls _ assms(14)] by simp
  with aw ev assms(8) show ?thesis by auto
qed

theorem unconfirmed_action_runs_witness:
  "agent_state (st_of asked_world 0) = AWAITING_USER_CONFIRMATION \<and>
   (\<exists>q ev. equeue (stream asked_world) = q @ [ev] \<and>
     runtime_on_event demo_rt_env ev (demo_rt (stream asked_world)) =
       publish demo_rt_env (with_timeout (demo_rt (stream asked_world)) ev) (mk_obs (AgentThinkObservation ''done''))
         ((demo_rt (stream asked_world))\<lparr>rt_sandbox := [with_timeout (demo_rt (stream asked_world)) ev]\<rparr>))"
proof -
  obtain p a where p: "c_pending (ctl asked_world 0) = Some p" "payload p = Act a" "confirm_class a" "\<not> marked_class a"
    "serializable p" using asked_pending [OF browser_asked(2)] by metis
  note pre = asks_first_pre [OF asks_first_worlds(2)]
  from unconfirmed_action_runs [OF pre(1,2) demo_env_laws(2) pre(3,4) browser_asked(1) p(1-4) disjI1 [OF demo_supports(2)]
      asked_pre(3) [OF browser_asked(2)] p(5) demo_supports(1), of "demo_rt (stream asked_world)"]
  show ?thesis unfolding demo_conclude by blast
qed

text \<open>
  C4. When the user has answered for a command or code cell that awaits confirmation, the action is sent again under
  a new id that the controller waits for (it names no provider token, the runtime supports it, the stream has no
  secrets). The runtime runs it in the sandbox if the user has confirmed it; if the user has rejected it, the runtime
  only reports the rejection. The observation that names the event as its cause releases the controller: it runs on
  after a confirmation and waits for the user after a rejection. A file edit, a file read and a browser interaction
  are not covered: they are run whatever the answer.
\<close>

theorem answer_decides:
  assumes "i < length (stack w)" "agent_state (st_of w i) = AWAITING_USER_CONFIRMATION"
    and "c_pending (ctl w i) = Some p" "payload p = Act a" "marked_class a"
    and "new = USER_CONFIRMED \<or> new = USER_REJECTED" "set_agent_state_to env i new w = (None, w')"
    and "serializable p" "secrets (stream w) = []"
    and "check_cmd_action_for_provider_token_ref p = []" "rt_supports renv (action_type a)"
  shows "\<exists>ev ev'. equeue (stream w') = equeue (stream w) @ [ev, ev'] \<and>
    runtime_on_event renv ev rt =
      (if new = USER_CONFIRMED
       then conclude renv (with_timeout rt ev) (in_sandbox (rt_execute renv (with_timeout rt ev)) rt)
       else publish renv (with_timeout rt ev)
         (mk_obs (UserRejectObservation ''Action has been rejected by the user! Waiting for further user input.'')) rt) \<and>
    (\<forall>ob. m_cause ob = Some (ev_id ev) \<longrightarrow>
       c_pending (ctl (snd (handle_observation env i ob w')) i) = None \<and>
       agent_state (st_of (snd (handle_observation env i ob w')) i) =
         (if new = USER_CONFIRMED then RUNNING else AWAITING_USER_INPUT))"
proof -
  obtain ev ev' b p' where ev: "equeue (stream w') = equeue (stream w) @ [ev, ev']" "payload ev = Act b"
    "payload (answer_pending new p) = Act b" "c_pending (ctl w' i) = Some p'" "ev_id p' = ev_id ev"
    "agent_state (st_of w' i) = new"
    using answer_sent [OF assms(1-3,6,7,4,8,9)] by metis
  have cls: "runnable a" "action_type a \<noteq> ''call_tool_mcp''" using assms(5) by (cases a; simp)+
  have b: "action_type b = action_type a" "runnable b" "marked_class b" "action_type b \<noteq> ''call_tool_mcp''"
    by (rule answer_pending_act [OF assms(4), of new], use ev(3) assms(5) cls in simp)+
  have "get_confirmation ev = get_confirmation (answer_pending new p)"
    by (rule confirmation_of_payload [OF ev(3) b(3) ev(2)])
  moreover have "check_cmd_action_for_provider_token_ref ev = []"
    using answer_pending_frame(1) [OF assms(4), of new] assms(10) ev(2,3)
    by (simp add: check_cmd_action_for_provider_token_ref_def)
  ultimately have run: "runtime_on_event renv ev rt =
      (if new = USER_CONFIRMED
       then conclude renv (with_timeout rt ev) (in_sandbox (rt_execute renv (with_timeout rt ev)) rt)
       else publish renv (with_timeout rt ev)
         (mk_obs (UserRejectObservation ''Action has been rejected by the user! Waiting for further user input.'')) rt)"
    using runtime_runnable [OF ev(2) b(2,4)] assms(11) b(1) answer_pending_marks(1) [of new p]
    by (cases "new = USER_CONFIRMED") simp_all
  have "i < length (stack w')" using set_agent_state_result(2) [OF assms(1), of env new] assms(1,7) by simp
  from answered_observation [OF this ev(4)] ev(5,6) assms(6)
  have "m_cause ob = Some (ev_id ev) \<Longrightarrow> c_pending (ctl (snd (handle_observation env i ob w')) i) = None \<and>
       agent_state (st_of (snd (handle_observation env i ob w')) i) =
         (if new = USER_CONFIRMED then RUNNING else AWAITING_USER_INPUT)" for ob by auto
  with run ev(1) show ?thesis by blast
qed

theorem answer_decides_witness:
  "\<exists>ev ev'. equeue (stream (snd (set_agent_state_to demo_env 0 USER_REJECTED waiting_world))) =
      equeue (stream waiting_world) @ [ev, ev'] \<and>
    runtime_on_event demo_rt_env ev (demo_rt (stream waiting_world)) =
      publish demo_rt_env (with_timeout (demo_rt (stream waiting_world)) ev)
        (mk_obs (UserRejectObservation ''Action has been rejected by the user! Waiting for further user input.''))
        (demo_rt (stream waiting_world))"
proof -
  obtain p a where p: "c_pending (ctl waiting_world 0) = Some p" "payload p = Act a" "marked_class a" "serializable p"
    "check_cmd_action_for_provider_token_ref p = []" using asked_pending [OF waiting_asked(2)] by metis
  note pre = asked_pre [OF waiting_asked(2)]
  from answer_decides [OF pre(1,2) p(1-3) _ op_result [OF pre(4)] p(4) pre(3) p(5) demo_supports(1),
      of "demo_rt (stream waiting_world)"]
  show ?thesis by auto
qed

text \<open>
  A file edit, a file read or a browser interaction that awaits confirmation is run when the user rejects it: the
  action is sent again with the rejection, but the rejection is not stored either, so the runtime runs the action.
\<close>

theorem rejected_action_runs:
  assumes "i < length (stack w)" "agent_state (st_of w i) = AWAITING_USER_CONFIRMATION"
    and "c_pending (ctl w i) = Some p" "payload p = Act a" "confirm_class a" "\<not> marked_class a"
    and "set_agent_state_to env i USER_REJECTED w = (None, w')"
    and "serializable p" "secrets (stream w) = []" "rt_supports renv (action_type a)"
  shows "\<exists>ev ev'. equeue (stream w') = equeue (stream w) @ [ev, ev'] \<and>
    get_confirmation (answer_pending USER_REJECTED p) = Some CONFIRM_REJECTED \<and>
    runtime_on_event renv ev rt =
      conclude renv (with_timeout rt ev) (in_sandbox (rt_execute renv (with_timeout rt ev)) rt)"
proof -
  obtain ev ev' b where ev: "equeue (stream w') = equeue (stream w) @ [ev, ev']" "payload ev = Act b"
    "payload (answer_pending USER_REJECTED p) = Act b" "m_confirmation ev = None"
    using answer_sent [OF assms(1-3) _ assms(7,4,8,9)] by metis
  have cls: "runnable a" "action_type a \<noteq> ''call_tool_mcp''" using assms(5) by (cases a; simp)+
  have b: "action_type b = action_type a" "runnable b" "\<not> marked_class b" "action_type b \<noteq> ''call_tool_mcp''"
    by (rule answer_pending_act [OF assms(4), of USER_REJECTED], use ev(3) assms(6) cls in simp)+
  have "get_confirmation ev = None" using confirmation_unmarked [OF ev(2) b(3)] ev(4) by simp
  moreover have "check_cmd_action_for_provider_token_ref ev = []"
    using b(3) ev(2) by (cases b) (simp_all add: check_cmd_action_for_provider_token_ref_def)
  ultimately have "runtime_on_event renv ev rt =
      conclude renv (with_timeout rt ev) (in_sandbox (rt_execute renv (with_timeout rt ev)) rt)"
    using runtime_runnable [OF ev(2) b(2,4)] assms(10) b(1) by simp
  with ev(1) answer_pending_marks(1) [of USER_REJECTED p] show ?thesis by auto
qed

theorem rejected_action_runs_witness:
  "\<exists>ev ev'. equeue (stream (snd (set_agent_state_to demo_env 0 USER_REJECTED asked_world))) =
      equeue (stream asked_world) @ [ev, ev'] \<and>
    runtime_on_event demo_rt_env ev (demo_rt (stream asked_world)) =
      publish demo_rt_env (with_timeout (demo_rt (stream asked_world)) ev) (mk_obs (AgentThinkObservation ''done''))
        ((demo_rt (stream asked_world))\<lparr>rt_sandbox := [with_timeout (demo_rt (stream asked_world)) ev]\<rparr>)"
proof -
  obtain p a where p: "c_pending (ctl asked_world 0) = Some p" "payload p = Act a" "confirm_class a" "\<not> marked_class a"
    "serializable p" using asked_pending [OF browser_asked(2)] by metis
  note pre = asked_pre [OF browser_asked(2)]
  from rejected_action_runs [OF pre(1,2) p(1-4) op_result [OF pre(4)] p(5) pre(3) demo_supports(1),
      of "demo_rt (stream asked_world)"]
  show ?thesis unfolding demo_conclude by blast
qed

section \<open>The observation of an action\<close>

text \<open>The observation the sandbox answers with; a permission error is turned into one.\<close>

definition answer_of :: "rt_exn + event \<Rightarrow> event option" where
  "answer_of r = (case r of Inr ob \<Rightarrow> Some ob | Inl (Permission_error msg) \<Rightarrow> Some (mk_error msg) | Inl _ \<Rightarrow> None)"

definition caused_by :: "event \<Rightarrow> event \<Rightarrow> event" where
  "caused_by e ob = ob\<lparr>m_cause := Some (ev_id e), m_tool_call := m_tool_call e\<rparr>"

definition source_of :: "event \<Rightarrow> event_source" where
  "source_of e = (case m_source e of Some s \<Rightarrow> s | None \<Rightarrow> AGENT)"

definition storable :: "event \<Rightarrow> bool" where
  "storable ob \<longleftrightarrow> ev_id ob = INVALID_ID \<and> is_observation ob \<and> serializable ob \<and> \<not> is_null_obs ob"

lemma publish_adds:
  assumes "log_run (rt_codec env) (rt_stream rt) l" "secrets (rt_stream rt) = []"
    and "storable ob"
  obtains st where "publish env e ob rt = (None, rt\<lparr>rt_stream := st\<rparr>)"
    "log_run (rt_codec env) st (l @ [persisted (stamped (rt_now env) (Some (source_of e)) (int (length l)) (caused_by e ob))])"
    "equeue st = equeue (rt_stream rt) @ [persisted (stamped (rt_now env) (Some (source_of e)) (int (length l)) (caused_by e ob))]"
proof -
  have ob: "ev_id (caused_by e ob) = INVALID_ID" "is_observation (caused_by e ob)" "serializable (caused_by e ob)"
    using assms(3) by (simp_all add: storable_def caused_by_def ev_id_def serializable_def is_observation_def)
  obtain st where st: "add_event (rt_codec env) (rt_now env) (caused_by e ob) (Some (source_of e)) (rt_stream rt) =
        (None, stamped (rt_now env) (Some (source_of e)) (int (length l)) (caused_by e ob), st)"
    "log_run (rt_codec env) st (l @ [persisted (stamped (rt_now env) (Some (source_of e)) (int (length l)) (caused_by e ob))])"
    "equeue st = equeue (rt_stream rt) @ [persisted (stamped (rt_now env) (Some (source_of e)) (int (length l)) (caused_by e ob))]"
    using log_accepts_observation [OF assms(1,2) ob] by metis
  moreover have "publish env e ob rt = (None, rt\<lparr>rt_stream := st\<rparr>)"
    using st(1) assms(3) by (simp add: publish_def Let_def caused_by_def [symmetric] source_of_def [symmetric])
      (simp add: caused_by_def is_null_obs_def storable_def)
  ultimately show thesis using that by blast
qed

text \<open>
  C14. A runnable action that the user need not confirm, and that names no provider token, is performed exactly once:
  the tool of an MCP server is called, an action that the runtime does not support is answered with an error, and any
  other action is run in the sandbox. If this ends with an observation, or with a permission error, exactly one
  observation is appended to the log and to the queue, and it carries the id and the tool call of the action, so that
  the controller that waits for the action recognizes it; if it raises anything else, the stream stays as it is and
  the status is an error. (The stream has no secrets; the observation is a new one, not the null observation, and its
  class can be stored.)
\<close>

theorem runtime_answers:
  assumes "log_run (rt_codec env) (rt_stream rt) l" "secrets (rt_stream rt) = []"
    and "payload e = Act a" "runnable a" "check_cmd_action_for_provider_token_ref e = []"
    and "get_confirmation e = None \<or> get_confirmation e = Some CONFIRMED"
    and "(if action_type a = ''call_tool_mcp'' then rt_mcp env (with_timeout rt e) (rt_sandbox rt)
          else if \<not> rt_supports env (action_type a)
          then (Inr (mk_error (''Action '' @ action_type a @ '' is not supported in the current runtime.'')), rt_sandbox rt)
          else rt_execute env (with_timeout rt e) (rt_sandbox rt)) = (r, s)"
    and "case answer_of r of None \<Rightarrow> True | Some ob \<Rightarrow> storable ob"
  shows "\<exists>rt'. runtime_on_event env e rt = (None, rt') \<and> rt_sandbox rt' = s \<and>
    (case answer_of r of
       None \<Rightarrow> rt_stream rt' = rt_stream rt \<and> rt_status rt' \<in> {Some RS_ERROR, Some RS_ERROR_RUNTIME_DISCONNECTED}
     | Some ob \<Rightarrow> \<exists>ev. payload ev = payload (persisted ob) \<and> m_cause ev = Some (ev_id e) \<and> m_tool_call ev = m_tool_call e \<and>
         ev_id ev = int (length l) \<and>
         search_events (rt_codec env) (rt_stream rt') 0 None False None None = Inr (l @ [ev]) \<and>
         equeue (rt_stream rt') = equeue (rt_stream rt) @ [ev])"
proof -
  let ?e = "with_timeout rt e"
  let ?rt = "rt\<lparr>rt_sandbox := s\<rparr>"
  have "perform env ?e a rt = (r, ?rt)"
    using assms(7) by (simp add: perform_def in_sandbox_def split: if_splits)
  then have run: "runtime_on_event env e rt = conclude env ?e (r, ?rt)"
    using runtime_performs [OF assms(3-6), of env rt] by simp
  show ?thesis
  proof (cases "answer_of r")
    case None
    then obtain n msg where "r = Inl (Disconnected_error n msg) \<or> r = Inl (Other_error n msg)"
      by (auto simp: answer_of_def split: sum.splits rt_exn.splits)
    then show ?thesis using run None by (auto simp: conclude_def set_runtime_status_def)
  next
    case (Some ob)
    have same: "source_of ?e = source_of e" "caused_by ?e ob = caused_by e ob" by (simp_all add: source_of_def caused_by_def)
    have fits: "storable ob" using assms(8) Some by simp
    let ?ev = "persisted (stamped (rt_now env) (Some (source_of e)) (int (length l)) (caused_by e ob))"
    obtain st where st: "publish env ?e ob ?rt = (None, ?rt\<lparr>rt_stream := st\<rparr>)" "log_run (rt_codec env) st (l @ [?ev])"
      "equeue st = equeue (rt_stream rt) @ [?ev]"
      using publish_adds [of env ?rt l ob ?e] assms(1,2) same fits by (simp) metis
    have "conclude env ?e (r, ?rt) = publish env ?e ob ?rt"
      using Some by (auto simp: answer_of_def conclude_def split: sum.splits rt_exn.splits)
    moreover have "payload ?ev = payload (persisted ob)" "m_cause ?ev = Some (ev_id e)" "m_tool_call ?ev = m_tool_call e"
      "ev_id ?ev = int (length l)"
      by (simp_all add: persisted_def stamped_def caused_by_def ev_id_def)
    ultimately show ?thesis using run st log_run_all [OF st(2)] Some by auto
  qed
qed

theorem runtime_answers_witness:
  "\<exists>rt' ev. runtime_on_event demo_rt_env (demo_run\<lparr>m_id := Some 7\<rparr>) (demo_rt demo_log0) = (None, rt') \<and>
    equeue (rt_stream rt') = [ev] \<and> payload ev = Obs (AgentThinkObservation ''done'') \<and> m_cause ev = Some 7 \<and>
    length (rt_sandbox rt') = 1"
proof -
  let ?e = "demo_run\<lparr>m_id := Some 7\<rparr>" and ?rt = "demo_rt demo_log0" and ?ob = "mk_obs (AgentThinkObservation ''done'')"
  have log: "log_run (rt_codec demo_rt_env) (rt_stream ?rt) []"
    using demo_log0_run by (simp add: demo_rt_env_def demo_rt_def)
  have pre: "secrets (rt_stream ?rt) = []" "check_cmd_action_for_provider_token_ref ?e = []"
    "get_confirmation ?e = Some CONFIRMED" "equeue (rt_stream ?rt) = []" "ev_id ?e = 7"
    "case answer_of (Inr ?ob) of None \<Rightarrow> True | Some ob \<Rightarrow> storable ob"
    by code_simp+
  obtain a where a: "payload ?e = Act a" "runnable a" "action_type a \<noteq> ''call_tool_mcp''"
    by (simp add: demo_run_def mk_event_def)
  have x: "(if action_type a = ''call_tool_mcp'' then rt_mcp demo_rt_env (with_timeout ?rt ?e) (rt_sandbox ?rt)
      else if \<not> rt_supports demo_rt_env (action_type a)
      then (Inr (mk_error (''Action '' @ action_type a @ '' is not supported in the current runtime.'')), rt_sandbox ?rt)
      else rt_execute demo_rt_env (with_timeout ?rt ?e) (rt_sandbox ?rt)) = (Inr ?ob, [with_timeout ?rt ?e])"
    using a(3) by (simp add: demo_rt_env_def demo_execute_def demo_rt_def)
  from runtime_answers [OF log pre(1) a(1,2) pre(2) _ x pre(6)] pre(3-5) show ?thesis
    by (auto simp: answer_of_def persisted_def mk_event_def)
qed

section \<open>Secrets\<close>

lemma add_event_secrets: "add_event cd now e src st = (x, e', st') \<Longrightarrow> secrets st' = secrets st"
  by (auto simp: add_event_def store_cache_page_def cur_id_def Let_def
      split: if_splits sum.splits option.splits prod.splits list.splits json.splits)

lemma publish_secrets: "secrets (rt_stream (snd (publish env e ob rt))) = secrets (rt_stream rt)"
  by (auto simp: publish_def Let_def split: prod.split dest: add_event_secrets)

lemma conclude_secrets: "secrets (rt_stream (snd (conclude env e (r, rt)))) = secrets (rt_stream rt)"
  by (auto simp: conclude_def publish_secrets set_runtime_status_def split: sum.split rt_exn.split)

lemma run_action_stream: "rt_stream (snd (run_action env e a rt)) = rt_stream rt"
  by (auto simp: run_action_def in_sandbox_def track_tasks_def Let_def split: action.split prod.split sum.split option.split)

text \<open>
  A shell command that names the variable of a provider token makes the runtime fetch the tokens and replace the
  secrets of the stream by them. What the stream was told to hide before, such as the secrets of the user, is no
  longer hidden in the events that follow.
\<close>

theorem tokens_replace_secrets:
  assumes "payload e = Act (CmdRunAction c)" "check_cmd_action_for_provider_token_ref e = ps" "ps \<noteq> []"
    and "rt_tokens env ps = Inr tokens" "tokens \<noteq> []"
  shows "secrets (rt_stream (snd (runtime_on_event env e rt))) = expose_env_vars tokens"
proof -
  let ?e = "with_timeout rt e"
  obtain c' where c': "payload ?e = Act (CmdRunAction c')"
    using assms(1) by (cases "m_timeout e") (auto simp: with_timeout_def set_hard_timeout_def)
  obtain rt1 where ex: "export_latest_git_provider_tokens env ?e rt = (None, rt1)"
    "secrets (rt_stream rt1) = expose_env_vars tokens"
    using assms(2-5) by (simp add: export_latest_git_provider_tokens_def set_secrets_def Let_def)
  have "attempt_action env ?e rt = run_action env ?e (CmdRunAction c') rt1"
    using ex(1) c' by (simp add: attempt_action_def)
  then have "secrets (rt_stream (snd (attempt_action env ?e rt))) = expose_env_vars tokens"
    using run_action_stream [of env ?e "CmdRunAction c'" rt1] ex(2) by simp
  then show ?thesis
    using assms(1) conclude_secrets [of env ?e "fst (attempt_action env ?e rt)" "snd (attempt_action env ?e rt)"]
    by (simp add: runtime_on_event_def is_action_def handle_runtime_action_def)
qed

definition demo_token_cmd :: event where
  "demo_token_cmd = mk_cmd ''git push https://$GITHUB_TOKEN@x''"

theorem tokens_replace_secrets_witness:
  "secrets (rt_stream (snd (runtime_on_event demo_rt_env demo_token_cmd
     (demo_rt (set_secrets [(''KEY'', ''hunter2'')] demo_log0))))) = [(''github_token'', ''t1'')]"
proof -
  have c: "check_cmd_action_for_provider_token_ref demo_token_cmd = [''github'']"
    "expose_env_vars [(''github'', ''t1'')] = [(''github_token'', ''t1'')]" by code_simp+
  obtain a where "payload demo_token_cmd = Act (CmdRunAction a)" by (simp add: demo_token_cmd_def mk_cmd_def)
  from tokens_replace_secrets [OF this c(1), of demo_rt_env "[(''github'', ''t1'')]"] c(2) show ?thesis
    by (simp add: demo_rt_env_def)
qed

text \<open>
  A command that awaits confirmation and names a provider token: the runtime types the token into the shell and
  makes it the secret of the stream, although the user has not been asked yet.
\<close>

theorem unconfirmed_tokens_exported:
  assumes "payload e = Act (CmdRunAction c)" "cra_confirmation c = AWAITING_CONFIRMATION"
    and "check_cmd_action_for_provider_token_ref e = ps" "ps \<noteq> []" "rt_tokens env ps = Inr tokens" "tokens \<noteq> []"
  shows "runtime_on_event env e rt =
    (None, rt\<lparr>rt_stream := set_secrets (expose_env_vars tokens) (rt_stream rt),
              rt_sandbox := snd (add_env_vars env (rt_jupyter rt) (expose_env_vars tokens) (rt_sandbox rt))\<rparr>)"
proof -
  have "get_confirmation e = Some AWAITING_CONFIRMATION" using assms(1,2) by (simp add: get_confirmation_def)
  from runtime_awaiting [OF assms(1) _ _ this, of env rt] assms(3-6) show ?thesis
    by (simp add: export_latest_git_provider_tokens_def Let_def)
qed

definition demo_waiting_cmd :: event where
  "demo_waiting_cmd = set_confirmation AWAITING_CONFIRMATION demo_token_cmd"

theorem unconfirmed_tokens_exported_witness:
  "secrets (rt_stream (snd (runtime_on_event demo_rt_env demo_waiting_cmd (demo_rt demo_log0)))) = [(''github_token'', ''t1'')] \<and>
   rt_sandbox (snd (runtime_on_event demo_rt_env demo_waiting_cmd (demo_rt demo_log0))) \<noteq> []"
proof -
  have c: "check_cmd_action_for_provider_token_ref demo_waiting_cmd = [''github'']"
    "expose_env_vars [(''github'', ''t1'')] = [(''github_token'', ''t1'')]"
    "snd (add_env_vars demo_rt_env False [(''github_token'', ''t1'')] []) \<noteq> []" by code_simp+
  obtain a where "payload demo_waiting_cmd = Act (CmdRunAction a)" "cra_confirmation a = AWAITING_CONFIRMATION"
    by (simp add: demo_waiting_cmd_def demo_token_cmd_def mk_cmd_def set_confirmation_def)
  from unconfirmed_tokens_exported [OF this c(1), of demo_rt_env "[(''github'', ''t1'')]" "demo_rt demo_log0"] c(2,3) show ?thesis
    by (simp add: demo_rt_env_def demo_rt_def set_secrets_def)
qed

section \<open>Commands of the runtime\<close>

lemma retry_loop_result:
  assumes "retry_loop env cmd k n lo s = (r, ds, s')" "0 < n"
  shows "length ds < n \<and> ds = map calculate_retry_delay [k ..< k + length ds] \<and>
    (\<forall>ob lo'. r = Inr (Some ob, lo') \<longrightarrow> exit_code ob = Some 0) \<and>
    (\<forall>lo'. r = Inr (None, lo') \<longrightarrow> (\<exists>ob. lo' = Some ob \<and> exit_code ob \<noteq> Some 0 \<and>
       (is_bash_session_timeout ob \<longrightarrow> length ds = n - 1)))"
  using assms
proof (induction env cmd k n lo s arbitrary: r ds s' rule: retry_loop.induct)
  case (2 env cmd k m lo s)
  obtain x s1 where x: "rt_execute env (mk_cmd cmd) s = (x, s1)" by fastforce
  show ?case
  proof (cases "\<exists>ob. x = Inr ob \<and> exit_code ob \<noteq> Some 0 \<and> is_bash_session_timeout ob \<and> m \<noteq> 0")
    case True
    then obtain ob where ob: "x = Inr ob" "exit_code ob \<noteq> Some 0" "is_bash_session_timeout ob" "m \<noteq> 0" by blast
    obtain ds1 where ds1: "retry_loop env cmd (k + 1) m (Some ob) s1 = (r, ds1, s')" "ds = calculate_retry_delay k # ds1"
      using 2(2) ob x by (auto split: prod.splits)
    from 2(1) [OF x [symmetric] ob(1,2) _ ds1(1)] ob have ih: "length ds1 < m \<and>
        ds1 = map calculate_retry_delay [k + 1 ..< k + 1 + length ds1] \<and>
        (\<forall>ob lo'. r = Inr (Some ob, lo') \<longrightarrow> exit_code ob = Some 0) \<and>
        (\<forall>lo'. r = Inr (None, lo') \<longrightarrow> (\<exists>ob. lo' = Some ob \<and> exit_code ob \<noteq> Some 0 \<and>
           (is_bash_session_timeout ob \<longrightarrow> length ds1 = m - 1)))" by auto
    have "[k ..< k + length ds] = k # [k + 1 ..< k + 1 + length ds1]"
      using upt_conv_Cons [of k "k + length ds"] ds1(2) by (simp del: upt_Suc)
    then have "ds = map calculate_retry_delay [k ..< k + length ds]"
      using ih ds1(2) by (simp only: list.map)
    with ih ds1(2) ob(4) show ?thesis by auto
  next
    case False
    then show ?thesis using 2(2) x by (auto split: sum.splits if_splits prod.splits)
  qed
qed simp

text \<open>
  A command of the runtime is tried again only when the shell was busy, and at most twice: three executions,
  after waiting one and then two seconds. It succeeds only with an exit code of 0, and otherwise raises an error
  with what the last execution reported.
\<close>

theorem retry_bounded:
  assumes "retry_loop env cmd 0 CMD_RETRY_MAX_ATTEMPTS None s = (r, delays, s')"
  shows "delays \<in> {[], [1], [1, 2]} \<and>
    (\<forall>ob lo. r = Inr (Some ob, lo) \<longrightarrow> exit_code ob = Some 0) \<and>
    (\<forall>lo. r = Inr (None, lo) \<longrightarrow> (\<exists>ob. lo = Some ob \<and> exit_code ob \<noteq> Some 0 \<and>
       (is_bash_session_timeout ob \<longrightarrow> delays = [1, 2])))"
proof -
  from retry_loop_result [OF assms] have r: "length delays < 3" "delays = map calculate_retry_delay [0 ..< length delays]"
    "\<forall>ob lo. r = Inr (Some ob, lo) \<longrightarrow> exit_code ob = Some 0"
    "\<forall>lo. r = Inr (None, lo) \<longrightarrow> (\<exists>ob. lo = Some ob \<and> exit_code ob \<noteq> Some 0 \<and>
       (is_bash_session_timeout ob \<longrightarrow> length delays = 2))"
    by (simp_all add: CMD_RETRY_MAX_ATTEMPTS_def)
  have two: "length delays = 2 \<Longrightarrow> delays = [1, 2]"
    using r(2) by (simp add: numeral_2_eq_2 calculate_retry_delay_def)
  consider "length delays = 0" | "length delays = 1" | "length delays = 2" using r(1) by linarith
  then have "delays \<in> {[], [1], [1, 2]}" using r(2) two by cases (auto simp: calculate_retry_delay_def)
  with r(3,4) two show ?thesis by blast
qed

text \<open>A shell that is busy once\<close>

definition busy_output :: "int \<Rightarrow> event" where
  "busy_output code =
     mk_obs (CmdOutputObservation \<lparr>coo_content = ''out'', coo_command = ''ls'', coo_metadata =
       \<lparr>com_exit_code = code, com_pid = 1, com_username = None, com_hostname = None, com_working_dir = None,
        com_py_interpreter_path = None, com_prefix = [], com_suffix = []\<rparr>, coo_hidden = False\<rparr>)"

definition busy_env :: "event list runtime_env" where
  "busy_env = demo_rt_env\<lparr>rt_execute := (\<lambda>e es. (Inr (busy_output (if es = [] then - 1 else 0)), es @ [e]))\<rparr>"

theorem retry_bounded_witness:
  "retry_loop busy_env ''ls'' 0 CMD_RETRY_MAX_ATTEMPTS None [] =
     (Inr (Some (busy_output 0), Some (busy_output (- 1))), [1], [mk_cmd ''ls'', mk_cmd ''ls'']) \<and>
   exit_code (busy_output 0) = Some 0"
proof -
  have r: "retry_loop busy_env ''ls'' 0 CMD_RETRY_MAX_ATTEMPTS None [] =
     (Inr (Some (busy_output 0), Some (busy_output (- 1))), [1], [mk_cmd ''ls'', mk_cmd ''ls''])"
    by (simp add: busy_env_def CMD_RETRY_MAX_ATTEMPTS_def eval_nat_numeral busy_output_def exit_code_def
        is_bash_session_timeout_def CMD_RETRY_TIMEOUT_EXIT_CODE_def calculate_retry_delay_def)
  with retry_bounded [OF r] show ?thesis by blast
qed

section \<open>The task list\<close>

text \<open>The file store of the repository, as the runtime calls it\<close>

definition store_write :: "string fstore \<Rightarrow> string \<Rightarrow> string \<Rightarrow> string + string fstore" where
  "store_write fs p c = Inr (fs_write fs p c)"

definition store_read :: "string fstore \<Rightarrow> string \<Rightarrow> read_error + string" where
  "store_read fs p = (case fs_read fs p of None \<Rightarrow> Inl Not_found | Some c \<Rightarrow> Inr c)"

text \<open>A list that was planned is what a later view shows, one line with its icon and one with its notes per task.\<close>

theorem planned_list_viewed:
  assumes "rt_write_file env = store_write" "rt_read_file env = store_read"
    and "tta_command p = ''plan''" "tta_command v = ''view''" "bad_status (tta_task_list p) = None"
  shows "\<exists>ob rt'. track_tasks env p rt = (Inr ob, rt') \<and>
    track_tasks env v rt' = (Inr (mk_task_obs (task_list_content env (tta_task_list p)) ''view'' []), rt')"
  using assms
  by (auto simp: track_tasks_def Let_def store_write_def store_read_def task_file_path_def mem_store.read_write_same)

end
