(* ===== verification/Microagents.thy ===== *)
theory Microagents
  imports Agent_Controller
begin

text \<open>
  \<open>openhands/microagent\<close>: microagents, the texts that are added to a conversation. They are loaded from files
  with a header, the header decides whether a microagent is always active, triggered by a keyword, or a task that
  asks for inputs. The parser of the header and the validation of its fields by the model library are functions of
  the environment.
\<close>

section \<open>Data\<close>

datatype microagent_type = MT_KNOWLEDGE | MT_REPO_KNOWLEDGE | MT_TASK

fun microagent_type_value :: "microagent_type \<Rightarrow> string" where
  "microagent_type_value MT_KNOWLEDGE = ''knowledge''"
| "microagent_type_value MT_REPO_KNOWLEDGE = ''repo''"
| "microagent_type_value MT_TASK = ''task''"

text \<open>\<open>InputMetadata\<close>, \<open>MCPConfig\<close> with the configurations of its servers as data, \<open>MicroagentMetadata\<close>\<close>

record input_metadata =
  im_name :: string
  im_description :: string

record mcp_config =
  sse_servers :: "json list"
  stdio_servers :: "json list"
  shttp_servers :: "json list"

record microagent_metadata =
  md_name :: string
  md_type :: microagent_type
  md_version :: string
  md_agent :: string
  md_triggers :: "string list"
  md_inputs :: "input_metadata list"
  md_mcp_tools :: "mcp_config option"

definition default_metadata :: "string \<Rightarrow> microagent_metadata" where
  "default_metadata name =
     \<lparr>md_name = name, md_type = MT_REPO_KNOWLEDGE, md_version = ''1.0.0'', md_agent = ''CodeActAgent'', md_triggers = [],
      md_inputs = [], md_mcp_tools = None\<rparr>"

text \<open>\<open>BaseMicroagent\<close>; the type decides the class\<close>

record microagent =
  mag_name :: string
  mag_content :: string
  mag_metadata :: microagent_metadata
  mag_source :: string
  mag_type :: microagent_type

text \<open>\<open>MicroagentValidationError\<close>, and other exceptions, with their texts\<close>

datatype micro_error = Microagent_validation_error string | Load_error string

fun micro_text :: "micro_error \<Rightarrow> string" where
  "micro_text (Microagent_validation_error s) = s"
| "micro_text (Load_error s) = s"

section \<open>Paths and files\<close>

text \<open>
  An absolute path is the list of its components. A file tree lists the files, with their texts, and the directories,
  in the order in which they are found.
\<close>

type_synonym fpath = "string list"
type_synonym file_tree = "(fpath \<times> string option) list"

definition path_name :: "fpath \<Rightarrow> string" where
  "path_name p = (case rev p of [] \<Rightarrow> [] | n # _ \<Rightarrow> n)"

definition path_str :: "fpath \<Rightarrow> string" where
  "path_str p = ''/'' @ str_join ''/'' p"

definition path_parent :: "fpath \<Rightarrow> fpath" where
  "path_parent p = butlast p"

definition relative_to :: "fpath \<Rightarrow> fpath \<Rightarrow> fpath option" where
  "relative_to p dir = (if take (length dir) p = dir then Some (drop (length dir) p) else None)"

text \<open>\<open>with_suffix('')\<close> on a name: the last dot and what follows it go, if something stands on both sides\<close>

definition drop_suffix :: "string \<Rightarrow> string" where
  "drop_suffix name =
     (let ext = takeWhile (\<lambda>c. c \<noteq> CHR ''.'') (rev name); stem = tl (dropWhile (\<lambda>c. c \<noteq> CHR ''.'') (rev name))
      in if CHR ''.'' \<in> set name \<and> ext \<noteq> [] \<and> stem \<noteq> [] then rev stem else name)"

definition read_text :: "file_tree \<Rightarrow> fpath \<Rightarrow> micro_error + string" where
  "read_text t p =
     (case map_of t p of
        Some (Some s) \<Rightarrow> Inr s
      | Some None \<Rightarrow> Inl (Load_error (''[Errno 21] Is a directory: '' @ CHR 0x27 # path_str p @ [CHR 0x27]))
      | None \<Rightarrow> Inl (Load_error (''[Errno 2] No such file or directory: '' @ CHR 0x27 # path_str p @ [CHR 0x27])))"

definition path_exists :: "file_tree \<Rightarrow> fpath \<Rightarrow> bool" where
  "path_exists t p \<longleftrightarrow> map_of t p \<noteq> None"

text \<open>\<open>rglob('*.md')\<close>\<close>

definition rglob_md :: "file_tree \<Rightarrow> fpath \<Rightarrow> fpath list" where
  "rglob_md t dir =
     filter (\<lambda>p. (case relative_to p dir of None \<Rightarrow> False | Some r \<Rightarrow> r \<noteq> []) \<and> str_endswith (path_name p) ''.md'') (map fst t)"

section \<open>Loading a microagent\<close>

text \<open>
  \<open>me_frontmatter\<close> splits a text into its header and its content, \<open>me_validate\<close> is the constructor of the metadata,
  with the text of its error, \<open>me_str\<close> is \<open>str\<close> on a value of the header.
\<close>

record micro_env =
  me_frontmatter :: "string \<Rightarrow> string + jdict \<times> string"
  me_validate :: "jdict \<Rightarrow> string + microagent_metadata"
  me_str :: "json \<Rightarrow> string"

definition PATH_TO_THIRD_PARTY_MICROAGENT_NAME :: "(string \<times> string) list" where
  "PATH_TO_THIRD_PARTY_MICROAGENT_NAME =
     [(''.cursorrules'', ''cursorrules''), (''agents.md'', ''agents''), (''agent.md'', ''agents'')]"

definition third_party_name :: "fpath \<Rightarrow> string option" where
  "third_party_name p = map_of PATH_TO_THIRD_PARTY_MICROAGENT_NAME (str_lower (path_name p))"

definition repo_microagent :: "string \<Rightarrow> fpath \<Rightarrow> string \<Rightarrow> microagent" where
  "repo_microagent name p content =
     \<lparr>mag_name = name, mag_content = content, mag_metadata = default_metadata name, mag_source = path_str p,
      mag_type = MT_REPO_KNOWLEDGE\<rparr>"

text \<open>\<open>_handle_third_party\<close>\<close>

definition handle_third_party :: "fpath \<Rightarrow> string \<Rightarrow> microagent option" where
  "handle_third_party p content = map_option (\<lambda>n. repo_microagent n p content) (third_party_name p)"

text \<open>The name a file gets from its place in the directory\<close>

definition derive_name :: "fpath \<Rightarrow> fpath option \<Rightarrow> micro_error + string option" where
  "derive_name p dir =
     (case dir of
        None \<Rightarrow> Inr None
      | Some d \<Rightarrow>
          (case third_party_name p of
             Some n \<Rightarrow> Inr (Some n)
           | None \<Rightarrow>
               (case relative_to p d of
                  None \<Rightarrow> Inl (Load_error (CHR 0x27 # path_str p @ CHR 0x27 # '' is not in the subpath of '' @
                            CHR 0x27 # path_str d @ [CHR 0x27]))
                | Some r \<Rightarrow>
                    if r = [] then Inl (Load_error (''PosixPath('' @ CHR 0x27 # ''.'' @ CHR 0x27 # '') has an empty name''))
                    else Inr (Some (str_join ''/'' (butlast r @ [drop_suffix (last r)]))))))"

text \<open>The header with its version as a text\<close>

definition text_version :: "micro_env \<Rightarrow> jdict \<Rightarrow> jdict" where
  "text_version env d =
     (case map_of d ''version'' of
        None \<Rightarrow> d
      | Some (JStr _) \<Rightarrow> d
      | Some v \<Rightarrow> alist_set ''version'' (JStr (me_str env v)) d)"

definition TYPE_VALUES :: "string list" where
  "TYPE_VALUES = map microagent_type_value [MT_KNOWLEDGE, MT_REPO_KNOWLEDGE, MT_TASK]"

definition metadata_error :: "micro_env \<Rightarrow> fpath \<Rightarrow> jdict \<Rightarrow> string \<Rightarrow> micro_error" where
  "metadata_error env p d msg =
     Microagent_validation_error
       (''Error validating microagent metadata in '' @ path_name p @ '': '' @ msg @
        (case map_of d ''type'' of
           None \<Rightarrow> []
         | Some ty \<Rightarrow>
             if ty \<in> set (map JStr TYPE_VALUES) then []
             else ''. Invalid '' @ CHR 0x22 # ''type'' @ CHR 0x22 # '' value: '' @ CHR 0x22 #
               (case ty of JStr s \<Rightarrow> s | _ \<Rightarrow> me_str env ty) @ CHR 0x22 # ''. Valid types are: '' @
               str_join '', '' (map (\<lambda>t. CHR 0x22 # t @ [CHR 0x22]) TYPE_VALUES)))"

text \<open>The metadata, which may ask for servers only if one of them is a stdio server\<close>

definition read_metadata :: "micro_env \<Rightarrow> fpath \<Rightarrow> jdict \<Rightarrow> micro_error + microagent_metadata" where
  "read_metadata env p d =
     (case me_validate env d of
        Inl msg \<Rightarrow> Inl (metadata_error env p d msg)
      | Inr md \<Rightarrow>
          (case md_mcp_tools md of
             Some m \<Rightarrow>
               if stdio_servers m = []
               then Inl (metadata_error env p d
                 (''Microagent '' @ md_name md @
                  '' has MCP tools configuration but no stdio servers. Only stdio servers are currently supported.''))
               else Inr md
           | None \<Rightarrow> Inr md))"

text \<open>A task is triggered by its name; otherwise triggers make knowledge, and a text without them is always active.\<close>

definition infer_type :: "microagent_metadata \<Rightarrow> microagent_type \<times> microagent_metadata" where
  "infer_type md =
     (if md_inputs md \<noteq> []
      then (let trigger = ''/'' @ md_name md
            in (MT_TASK, if md_triggers md = [] \<or> trigger \<notin> set (md_triggers md)
                         then md\<lparr>md_triggers := md_triggers md @ [trigger]\<rparr> else md))
      else if md_triggers md \<noteq> [] then (MT_KNOWLEDGE, md)
      else (MT_REPO_KNOWLEDGE, md))"

section \<open>Variables of a task\<close>

definition ident_start :: "char \<Rightarrow> bool" where
  "ident_start c \<longleftrightarrow>
     (let n = (of_char c :: nat) in (65 \<le> n \<and> n \<le> 90) \<or> (97 \<le> n \<and> n \<le> 122) \<or> c = CHR ''_'')"

definition ident_char :: "char \<Rightarrow> bool" where
  "ident_char c \<longleftrightarrow> ident_start c \<or> is_digit c"

text \<open>A match of \<open>\$\{([a-zA-Z_][a-zA-Z0-9_]*)\}\<close> at the start of a text, with what follows\<close>

definition variable_at :: "string \<Rightarrow> (string \<times> string) option" where
  "variable_at s =
     (if \<not> str_startswith s ''${'' then None
      else (let v = takeWhile ident_char (drop 2 s); rest = dropWhile ident_char (drop 2 s)
            in case (v, rest) of
                 (c # _, d # rest') \<Rightarrow> if ident_start c \<and> d = CHR ''}'' then Some (v, rest') else None
               | _ \<Rightarrow> None))"

lemma variable_at_shorter: "variable_at s = Some (v, rest) \<Longrightarrow> length rest < length s"
proof -
  assume "variable_at s = Some (v, rest)"
  then have "length (dropWhile ident_char (drop 2 s)) = Suc (length rest)"
    by (auto simp: variable_at_def Let_def split: if_splits list.splits)
  moreover have "length (dropWhile ident_char (drop 2 s)) \<le> length s"
    by (rule order.trans [OF length_dropWhile_le]) simp
  ultimately show ?thesis by simp
qed

text \<open>\<open>extract_variables\<close>\<close>

function extract_variables :: "string \<Rightarrow> string list" where
  "extract_variables [] = []"
| "extract_variables (c # s) =
     (case variable_at (c # s) of
        Some (v, rest) \<Rightarrow> v # extract_variables rest
      | None \<Rightarrow> extract_variables s)"
  by pat_completeness auto

termination
  by (relation "measure length") (use variable_at_shorter in force)+

definition requires_user_input :: "string \<Rightarrow> bool" where
  "requires_user_input content \<longleftrightarrow> extract_variables content \<noteq> []"

definition MISSING_VARIABLES_PROMPT :: string where
  "MISSING_VARIABLES_PROMPT =
     newline # newline # ''If the user didn'' @ CHR 0x27 # ''t provide any of these variables, ask the user to provide them first before the agent can proceed with the task.''"

text \<open>\<open>_append_missing_variables_prompt\<close>\<close>

definition append_missing_variables_prompt :: "microagent \<Rightarrow> microagent" where
  "append_missing_variables_prompt a =
     (if \<not> requires_user_input (mag_content a) \<and> md_inputs (mag_metadata a) = [] then a
      else a\<lparr>mag_content := mag_content a @ MISSING_VARIABLES_PROMPT\<rparr>)"

section \<open>The classes\<close>

text \<open>The constructor of the class for the inferred type\<close>

definition make_microagent :: "microagent \<Rightarrow> microagent" where
  "make_microagent a = (if mag_type a = MT_TASK then append_missing_variables_prompt a else a)"

text \<open>\<open>BaseMicroagent.load\<close>\<close>

definition load ::
    "micro_env \<Rightarrow> file_tree \<Rightarrow> fpath \<Rightarrow> fpath option \<Rightarrow> string option \<Rightarrow> micro_error + microagent" where
  "load env t p dir file_content =
     (case derive_name p dir of
        Inl x \<Rightarrow> Inl x
      | Inr derived_name \<Rightarrow>
          (case (case file_content of Some s \<Rightarrow> Inr s | None \<Rightarrow> read_text t p) of
             Inl x \<Rightarrow> Inl x
           | Inr text \<Rightarrow>
               if path_name p = ''.openhands_instructions'' then Inr (repo_microagent ''repo_legacy'' p text)
               else (case handle_third_party p text of
                       Some a \<Rightarrow> Inr a
                     | None \<Rightarrow>
                         (case me_frontmatter env text of
                            Inl x \<Rightarrow> Inl (Load_error x)
                          | Inr (header, content) \<Rightarrow>
                              (case read_metadata env p (text_version env header) of
                                 Inl x \<Rightarrow> Inl x
                               | Inr md \<Rightarrow>
                                   (case infer_type md of
                                      (ty, md') \<Rightarrow>
                                        Inr (make_microagent
                                          \<lparr>mag_name = (case derived_name of Some n \<Rightarrow> n | None \<Rightarrow> md_name md'),
                                           mag_content = content, mag_metadata = md', mag_source = path_str p, mag_type = ty\<rparr>)))))))"

text \<open>\<open>KnowledgeMicroagent.match_trigger\<close>\<close>

definition match_trigger :: "microagent \<Rightarrow> string \<Rightarrow> string option" where
  "match_trigger a message =
     find (\<lambda>trigger. str_contains (str_lower trigger) (str_lower message)) (md_triggers (mag_metadata a))"

section \<open>Loading a directory\<close>

definition special_files :: "file_tree \<Rightarrow> fpath \<Rightarrow> fpath list" where
  "special_files t dir =
     (let root = path_parent (path_parent dir)
      in (if path_exists t (root @ [''.cursorrules'']) then [root @ [''.cursorrules'']] else []) @
         (case find (path_exists t) (map (\<lambda>n. root @ [n]) [''AGENTS.md'', ''agents.md'', ''AGENT.md'', ''agent.md'']) of
            None \<Rightarrow> [] | Some p \<Rightarrow> [p]))"

definition md_files :: "file_tree \<Rightarrow> fpath \<Rightarrow> fpath list" where
  "md_files t dir = (if path_exists t dir then filter (\<lambda>p. path_name p \<noteq> ''README.md'') (rglob_md t dir) else [])"

definition load_failed :: "fpath \<Rightarrow> micro_error \<Rightarrow> micro_error" where
  "load_failed p x =
     (let msg = ''Error loading microagent from '' @ path_str p @ '': '' @ micro_text x
      in case x of Microagent_validation_error _ \<Rightarrow> Microagent_validation_error msg | Load_error _ \<Rightarrow> Load_error msg)"

type_synonym micro_dict = "(string \<times> microagent) list"

text \<open>An agent goes into the dictionary of its class, in the place of one with its name.\<close>

definition file_agent :: "microagent \<Rightarrow> micro_dict \<times> micro_dict \<Rightarrow> micro_dict \<times> micro_dict" where
  "file_agent a d =
     (if mag_type a = MT_REPO_KNOWLEDGE then (alist_set (mag_name a) a (fst d), snd d)
      else (fst d, alist_set (mag_name a) a (snd d)))"

fun load_files ::
    "micro_env \<Rightarrow> file_tree \<Rightarrow> fpath \<Rightarrow> fpath list \<Rightarrow> micro_dict \<times> micro_dict \<Rightarrow> micro_error + micro_dict \<times> micro_dict" where
  "load_files env t dir [] d = Inr d"
| "load_files env t dir (p # ps) d =
     (case load env t p (Some dir) None of
        Inl x \<Rightarrow> Inl (load_failed p x)
      | Inr a \<Rightarrow> load_files env t dir ps (file_agent a d))"

text \<open>\<open>load_microagents_from_dir\<close>: the repository agents and the knowledge agents\<close>

definition load_microagents_from_dir :: "micro_env \<Rightarrow> file_tree \<Rightarrow> fpath \<Rightarrow> micro_error + micro_dict \<times> micro_dict" where
  "load_microagents_from_dir env t dir = load_files env t dir (special_files t dir @ md_files t dir) ([], [])"

end
