(* ===== verification/Recall.thy ===== *)
theory Recall
  imports Microagents Conversation_Memory
begin

text \<open>
  \<open>openhands/memory/memory.py\<close>: the memory listens to the stream for recalls and answers each with an observation that
  carries the context of the workspace and the microagents that the query triggers.
\<close>

section \<open>State\<close>

text \<open>
  What is told about the repository and the runtime are the records of the conversation memory; the conversation
  instructions are a text.
\<close>

record memory =
  mem_sid :: string
  mem_callback :: bool
  mem_status_log :: "(runtime_status \<times> string) list"
  repo_microagents :: micro_dict
  knowledge_microagents :: micro_dict
  mem_repository :: "repository_info option"
  mem_runtime :: "runtime_info option"
  mem_instructions :: "string option"

text \<open>
  The directories of the microagents, the file tree, \<open>os.makedirs\<close>, and what the memory calls of the stream: the codec,
  the clock, a fresh identifier and the callback it subscribes
\<close>

record 'c mem_env = micro_env +
  me_tree :: file_tree
  me_makedirs :: "fpath \<Rightarrow> micro_error + file_tree"
  me_global_dir :: fpath
  me_user_dir :: fpath
  me_codec :: codec
  me_now :: string
  me_uuid :: string
  me_callback :: 'c

definition micro_env_of :: "'c mem_env \<Rightarrow> micro_env" where
  "micro_env_of env =
     \<lparr>me_frontmatter = me_frontmatter env, me_validate = me_validate env, me_str = me_str env\<rparr>"

section \<open>The microagents of the memory\<close>

text \<open>The loops that copy loaded agents\<close>

definition put_agents :: "micro_dict \<times> micro_dict \<Rightarrow> memory \<Rightarrow> memory" where
  "put_agents d m =
     m\<lparr>knowledge_microagents := foldl (\<lambda>acc (n, a). alist_set n a acc) (knowledge_microagents m) (snd d),
       repo_microagents := foldl (\<lambda>acc (n, a). alist_set n a acc) (repo_microagents m) (fst d)\<rparr>"

text \<open>\<open>_load_global_microagents\<close>\<close>

definition load_global_microagents :: "'c mem_env \<Rightarrow> memory \<Rightarrow> micro_error + memory" where
  "load_global_microagents env m =
     map_sum id (\<lambda>d. put_agents d m) (load_microagents_from_dir (micro_env_of env) (me_tree env) (me_global_dir env))"

text \<open>\<open>_load_user_microagents\<close>: every exception is only logged\<close>

definition load_user_microagents :: "'c mem_env \<Rightarrow> memory \<Rightarrow> memory" where
  "load_user_microagents env m =
     (case me_makedirs env (me_user_dir env) of
        Inl _ \<Rightarrow> m
      | Inr t \<Rightarrow>
          (case load_microagents_from_dir (micro_env_of env) t (me_user_dir env) of
             Inl _ \<Rightarrow> m
           | Inr d \<Rightarrow> put_agents d m))"

text \<open>\<open>load_user_workspace_microagents\<close>\<close>

definition put_workspace_agent :: "memory \<Rightarrow> microagent \<Rightarrow> memory" where
  "put_workspace_agent m a =
     (if mag_type a = MT_REPO_KNOWLEDGE
      then m\<lparr>repo_microagents := alist_set (mag_name a) a (repo_microagents m)\<rparr>
      else m\<lparr>knowledge_microagents := alist_set (mag_name a) a (knowledge_microagents m)\<rparr>)"

definition load_user_workspace_microagents :: "microagent list \<Rightarrow> memory \<Rightarrow> memory" where
  "load_user_workspace_microagents agents m = foldl put_workspace_agent m agents"

text \<open>\<open>get_microagent_mcp_tools\<close>\<close>

definition get_microagent_mcp_tools :: "memory \<Rightarrow> mcp_config list" where
  "get_microagent_mcp_tools m = List.map_filter (\<lambda>(n, a). md_mcp_tools (mag_metadata a)) (repo_microagents m)"

text \<open>\<open>__init__\<close>\<close>

datatype memory_error = Store_raised store_error | Micro_raised micro_error

definition memory_init ::
    "'c mem_env \<Rightarrow> string \<Rightarrow> bool \<Rightarrow> 'c event_stream \<Rightarrow> (memory_error + memory) \<times> 'c event_stream" where
  "memory_init env sid callback st =
     (let sid' = (if sid = [] then me_uuid env else sid)
      in case subscribe ''memory'' (me_callback env) sid' st of
           (Some x, st1) \<Rightarrow> (Inl (Store_raised x), st1)
         | (None, st1) \<Rightarrow>
             (case load_global_microagents env
                     \<lparr>mem_sid = sid', mem_callback = callback, mem_status_log = [], repo_microagents = [],
                      knowledge_microagents = [], mem_repository = None, mem_runtime = None, mem_instructions = None\<rparr> of
                Inl x \<Rightarrow> (Inl (Micro_raised x), st1)
              | Inr m \<Rightarrow> (Inr (load_user_microagents env m), st1)))"

section \<open>Information\<close>

text \<open>\<open>set_repository_info\<close>, \<open>set_runtime_info\<close>, \<open>set_conversation_instructions\<close>\<close>

definition set_repository_info :: "string \<Rightarrow> string \<Rightarrow> string option \<Rightarrow> memory \<Rightarrow> memory" where
  "set_repository_info name directory branch m =
     m\<lparr>mem_repository :=
         (if name \<noteq> [] \<or> directory \<noteq> []
          then Some \<lparr>ri_repo_name = name, ri_repo_directory = directory, ri_branch_name = branch\<rparr> else None)\<rparr>"

definition set_runtime_info :: "jdict \<Rightarrow> string \<Rightarrow> string \<Rightarrow> jdict \<Rightarrow> string \<Rightarrow> memory \<Rightarrow> memory" where
  "set_runtime_info web_hosts instructions date secret_texts working_dir m =
     m\<lparr>mem_runtime := Some
         (if web_hosts \<noteq> [] \<or> instructions \<noteq> []
          then \<lparr>rti_date = date, rti_available_hosts = web_hosts, rti_additional_agent_instructions = instructions,
                rti_custom_secrets_descriptions = secret_texts, rti_working_dir = working_dir\<rparr>
          else \<lparr>rti_date = date, rti_available_hosts = [], rti_additional_agent_instructions = [],
                rti_custom_secrets_descriptions = secret_texts, rti_working_dir = working_dir\<rparr>)\<rparr>"

definition set_conversation_instructions :: "string option \<Rightarrow> memory \<Rightarrow> memory" where
  "set_conversation_instructions s m =
     m\<lparr>mem_instructions := Some (case s of None \<Rightarrow> [] | Some t \<Rightarrow> t)\<rparr>"

text \<open>\<open>set_runtime_status\<close>\<close>

definition set_memory_status :: "runtime_status \<Rightarrow> string \<Rightarrow> memory \<Rightarrow> memory" where
  "set_memory_status s msg m =
     (if mem_callback m then m\<lparr>mem_status_log := mem_status_log m @ [(s, msg)]\<rparr> else m)"

section \<open>Recalls\<close>

text \<open>\<open>_find_microagent_knowledge\<close>\<close>

definition knowledge_of :: "string \<Rightarrow> microagent \<Rightarrow> microagent_knowledge option" where
  "knowledge_of query a =
     (case match_trigger a query of
        Some (c # cs) \<Rightarrow> Some \<lparr>mk_name = mag_name a, mk_trigger = c # cs, mk_content = mag_content a\<rparr>
      | _ \<Rightarrow> None)"

definition find_microagent_knowledge :: "memory \<Rightarrow> string \<Rightarrow> microagent_knowledge list" where
  "find_microagent_knowledge m query =
     (if query = [] then [] else List.map_filter (\<lambda>(n, a). knowledge_of query a) (knowledge_microagents m))"

text \<open>The texts of all repository agents, with an empty line between them\<close>

fun join_instructions :: "string \<Rightarrow> string list \<Rightarrow> string" where
  "join_instructions acc [] = acc"
| "join_instructions acc (c # cs) =
     join_instructions ((if acc \<noteq> [] then acc @ [newline, newline] else acc) @ c) cs"

definition repo_instructions :: "memory \<Rightarrow> string" where
  "repo_instructions m = join_instructions [] (map (mag_content \<circ> snd) (repo_microagents m))"

text \<open>\<open>_on_workspace_context_recall\<close>\<close>

definition on_workspace_context_recall :: "memory \<Rightarrow> recall_action \<Rightarrow> observation option" where
  "on_workspace_context_recall m r =
     (let instructions = repo_instructions m; knowledge = find_microagent_knowledge m (ra_query r)
      in if mem_repository m \<noteq> None \<or> mem_runtime m \<noteq> None \<or> instructions \<noteq> [] \<or> knowledge \<noteq> [] \<or>
            mem_instructions m \<noteq> None
         then Some (RecallObservation
           \<lparr>ro_content = ''Added workspace context'', ro_recall_type = WORKSPACE_CONTEXT,
            ro_repo_name = (case mem_repository m of None \<Rightarrow> [] | Some i \<Rightarrow> ri_repo_name i),
            ro_repo_directory = (case mem_repository m of None \<Rightarrow> [] | Some i \<Rightarrow> ri_repo_directory i),
            ro_repo_branch = (case mem_repository m of None \<Rightarrow> [] | Some i \<Rightarrow> (case ri_branch_name i of None \<Rightarrow> [] | Some b \<Rightarrow> b)),
            ro_repo_instructions = instructions,
            ro_runtime_hosts = (case mem_runtime m of None \<Rightarrow> [] | Some i \<Rightarrow> rti_available_hosts i),
            ro_additional_agent_instructions = (case mem_runtime m of None \<Rightarrow> [] | Some i \<Rightarrow> rti_additional_agent_instructions i),
            ro_date = (case mem_runtime m of None \<Rightarrow> [] | Some i \<Rightarrow> rti_date i),
            ro_custom_secrets_descriptions = (case mem_runtime m of None \<Rightarrow> [] | Some i \<Rightarrow> rti_custom_secrets_descriptions i),
            ro_conversation_instructions = (case mem_instructions m of None \<Rightarrow> [] | Some s \<Rightarrow> s),
            ro_working_dir = (case mem_runtime m of None \<Rightarrow> [] | Some i \<Rightarrow> rti_working_dir i),
            ro_microagent_knowledge = knowledge\<rparr>)
         else None)"

text \<open>\<open>_on_microagent_recall\<close>\<close>

definition on_microagent_recall :: "memory \<Rightarrow> recall_action \<Rightarrow> observation option" where
  "on_microagent_recall m r =
     (let knowledge = find_microagent_knowledge m (ra_query r)
      in if knowledge = [] then None
         else Some (RecallObservation
           \<lparr>ro_content = ''Retrieved knowledge from microagents'', ro_recall_type = KNOWLEDGE, ro_repo_name = [],
            ro_repo_directory = [], ro_repo_branch = [], ro_repo_instructions = [], ro_runtime_hosts = [],
            ro_additional_agent_instructions = [], ro_date = [], ro_custom_secrets_descriptions = [],
            ro_conversation_instructions = [], ro_working_dir = [], ro_microagent_knowledge = knowledge\<rparr>))"

text \<open>The observation for a recall, when there is to be one\<close>

definition recall_answer :: "memory \<Rightarrow> event \<Rightarrow> observation option" where
  "recall_answer m e =
     (case payload e of
        Act (RecallAction r) \<Rightarrow>
          if m_source e = Some USER \<and> ra_recall_type r = WORKSPACE_CONTEXT
          then Some (case on_workspace_context_recall m r of None \<Rightarrow> NullObservation [] | Some ob \<Rightarrow> ob)
          else if (m_source e = Some USER \<or> m_source e = Some AGENT) \<and> ra_recall_type r = KNOWLEDGE
          then Some (case on_microagent_recall m r of None \<Rightarrow> NullObservation [] | Some ob \<Rightarrow> ob)
          else None
      | _ \<Rightarrow> None)"

text \<open>\<open>_on_event\<close>\<close>

definition memory_on_event :: "'c mem_env \<Rightarrow> event \<Rightarrow> memory \<Rightarrow> 'c event_stream \<Rightarrow> memory \<times> 'c event_stream" where
  "memory_on_event env e m st =
     (case recall_answer m e of
        None \<Rightarrow> (m, st)
      | Some ob \<Rightarrow>
          (case add_event (me_codec env) (me_now env) ((mk_obs ob)\<lparr>m_cause := Some (ev_id e)\<rparr>) (Some ENVIRONMENT) st of
             (None, _, st1) \<Rightarrow> (m, st1)
           | (Some x, _, st1) \<Rightarrow> (set_memory_status RS_ERROR_MEMORY (''Error: '' @ exc_name (store_exn x)) m, st1)))"

end
