(* ===== verification/Recall_Rules.thy ===== *)
theory Recall_Rules
  imports Recall
begin

text \<open>
  The microagents a memory holds: what loading guarantees of an agent, which of them a query recalls, and what every
  operation of the memory keeps.
\<close>

section \<open>A loaded agent\<close>

text \<open>
  An agent that is always active has neither triggers nor inputs, one of knowledge has triggers, and a task has inputs, is
  triggered by its name, and ends with the request for missing variables.
\<close>

definition micro_ok :: "microagent \<Rightarrow> bool" where
  "micro_ok a \<longleftrightarrow>
     (case mag_type a of
        MT_REPO_KNOWLEDGE \<Rightarrow> md_triggers (mag_metadata a) = [] \<and> md_inputs (mag_metadata a) = []
      | MT_KNOWLEDGE \<Rightarrow> md_triggers (mag_metadata a) \<noteq> [] \<and> md_inputs (mag_metadata a) = []
      | MT_TASK \<Rightarrow> md_inputs (mag_metadata a) \<noteq> [] \<and> ''/'' @ md_name (mag_metadata a) \<in> set (md_triggers (mag_metadata a)) \<and>
          str_endswith (mag_content a) MISSING_VARIABLES_PROMPT)"

lemma str_endswith_append [simp]: "str_endswith (s @ p) p"
  by (simp add: str_endswith_def str_startswith_def)

lemma repo_microagent_ok [simp]: "micro_ok (repo_microagent n p c)"
  by (simp add: micro_ok_def repo_microagent_def default_metadata_def)

lemma make_microagent_ok:
  assumes "infer_type md = (ty, md')"
  shows "micro_ok (make_microagent \<lparr>mag_name = n, mag_content = c, mag_metadata = md', mag_source = s, mag_type = ty\<rparr>)"
  using assms
  by (auto simp: infer_type_def Let_def make_microagent_def append_missing_variables_prompt_def micro_ok_def
      split: if_splits)

lemma load_ok:
  assumes "load env t p dir c = Inr a"
  shows "micro_ok a"
  using assms
  by (auto simp: load_def handle_third_party_def make_microagent_ok
      split: sum.splits option.splits if_splits prod.splits)

section \<open>Dictionaries of agents\<close>

definition dict_ok :: "bool \<Rightarrow> micro_dict \<Rightarrow> bool" where
  "dict_ok repo d \<longleftrightarrow>
     distinct (map fst d) \<and>
     list_all (\<lambda>(n, a). n = mag_name a \<and> micro_ok a \<and> (mag_type a = MT_REPO_KNOWLEDGE) = repo) d"

lemma list_all_alist_set: "list_all P d \<Longrightarrow> P (k, v) \<Longrightarrow> list_all P (alist_set k v d)"
  by (induction d) auto

lemma dict_ok_set:
  assumes "dict_ok repo d" "micro_ok a" "(mag_type a = MT_REPO_KNOWLEDGE) = repo"
  shows "dict_ok repo (alist_set (mag_name a) a d)"
  using assms by (auto simp: dict_ok_def distinct_alist_set intro!: list_all_alist_set)

lemma dict_ok_foldl:
  assumes "dict_ok repo d" "dict_ok repo d'"
  shows "dict_ok repo (foldl (\<lambda>acc (n, a). alist_set n a acc) d d')"
proof -
  have "dict_ok repo (foldl (\<lambda>acc (n, a). alist_set n a acc) d d')"
    if "list_all (\<lambda>(n, a). n = mag_name a \<and> micro_ok a \<and> (mag_type a = MT_REPO_KNOWLEDGE) = repo) d'" "dict_ok repo d" for d'
    using that by (induction d' arbitrary: d) (auto simp: dict_ok_set)
  then show ?thesis using assms by (simp add: dict_ok_def)
qed

lemma file_agent_ok:
  assumes "micro_ok a" "dict_ok True (fst d)" "dict_ok False (snd d)"
  shows "dict_ok True (fst (file_agent a d)) \<and> dict_ok False (snd (file_agent a d))"
  using assms by (auto simp: file_agent_def dict_ok_set)

lemma load_files_ok:
  assumes "load_files env t dir ps d = Inr d'" "dict_ok True (fst d)" "dict_ok False (snd d)"
  shows "dict_ok True (fst d') \<and> dict_ok False (snd d')"
  using assms
proof (induction ps arbitrary: d)
  case (Cons p ps)
  then obtain a where a: "load env t p (Some dir) None = Inr a" "load_files env t dir ps (file_agent a d) = Inr d'"
    by (auto split: sum.splits)
  with Cons.IH [OF a(2)] file_agent_ok [OF load_ok [OF a(1)] Cons.prems(2,3)] show ?case by blast
qed simp

lemma load_microagents_ok:
  "load_microagents_from_dir env t dir = Inr d \<Longrightarrow> dict_ok True (fst d) \<and> dict_ok False (snd d)"
  unfolding load_microagents_from_dir_def by (erule load_files_ok) (simp_all add: dict_ok_def)

section \<open>The memory\<close>

definition mem_ok :: "memory \<Rightarrow> bool" where
  "mem_ok m \<longleftrightarrow> dict_ok True (repo_microagents m) \<and> dict_ok False (knowledge_microagents m)"

lemma put_agents_ok:
  assumes "mem_ok m" "dict_ok True (fst d) \<and> dict_ok False (snd d)"
  shows "mem_ok (put_agents d m)"
  using assms by (simp add: mem_ok_def put_agents_def dict_ok_foldl)

lemma load_user_microagents_ok: "mem_ok m \<Longrightarrow> mem_ok (load_user_microagents env m)"
  by (auto simp: load_user_microagents_def split: sum.split intro!: put_agents_ok dest: load_microagents_ok)

lemma load_global_microagents_ok:
  "load_global_microagents env m = Inr m' \<Longrightarrow> mem_ok m \<Longrightarrow> mem_ok m'"
  by (cases "load_microagents_from_dir (micro_env_of env) (me_tree env) (me_global_dir env)")
    (auto simp: load_global_microagents_def intro!: put_agents_ok dest: load_microagents_ok)

lemma memory_init_ok:
  assumes "memory_init env sid cb st = (Inr m, st')"
  shows "mem_ok m"
proof -
  let ?sid = "if sid = [] then me_uuid env else sid"
  let ?m0 = "\<lparr>mem_sid = ?sid, mem_callback = cb, mem_status_log = [], repo_microagents = [], knowledge_microagents = [],
      mem_repository = None, mem_runtime = None, mem_instructions = None\<rparr>"
  have "mem_ok ?m0" by (simp add: mem_ok_def dict_ok_def)
  moreover obtain m1 where "load_global_microagents env ?m0 = Inr m1" "m = load_user_microagents env m1"
    using assms by (auto simp: memory_init_def Let_def split: prod.splits option.splits sum.splits)
  ultimately show ?thesis using load_global_microagents_ok load_user_microagents_ok by metis
qed

lemma workspace_agents_ok:
  assumes "mem_ok m" "list_all micro_ok agents"
  shows "mem_ok (load_user_workspace_microagents agents m)"
  using assms unfolding load_user_workspace_microagents_def
proof (induction agents arbitrary: m)
  case (Cons a agents)
  then have "mem_ok (put_workspace_agent m a)" by (simp add: mem_ok_def put_workspace_agent_def dict_ok_set)
  with Cons show ?case by simp
qed simp

lemma setters_ok:
  "mem_ok (set_repository_info n d b m) = mem_ok m" "mem_ok (set_runtime_info h ins dt sec wd m) = mem_ok m"
  "mem_ok (set_conversation_instructions c m) = mem_ok m" "mem_ok (set_memory_status s msg m) = mem_ok m"
  by (simp_all add: mem_ok_def set_repository_info_def set_runtime_info_def set_conversation_instructions_def
      set_memory_status_def)

lemma memory_on_event_ok: "mem_ok (fst (memory_on_event env e m st)) = mem_ok m"
  by (auto simp: memory_on_event_def setters_ok split: option.split prod.split)

text \<open>
  The operations of a memory in any order: it is opened, given the agents of a workspace, told about the repository, the
  runtime and the conversation, and given events.
\<close>

inductive memory_run :: "'c mem_env \<Rightarrow> memory \<Rightarrow> bool" for env where
  run_init: "memory_init env sid cb st = (Inr m, st') \<Longrightarrow> memory_run env m"
| run_workspace: "memory_run env m \<Longrightarrow> list_all (\<lambda>a. \<exists>t p dir c. load (micro_env_of env) t p dir c = Inr a) agents \<Longrightarrow>
    memory_run env (load_user_workspace_microagents agents m)"
| run_repository: "memory_run env m \<Longrightarrow> memory_run env (set_repository_info n d b m)"
| run_runtime: "memory_run env m \<Longrightarrow> memory_run env (set_runtime_info h ins dt sec wd m)"
| run_instructions: "memory_run env m \<Longrightarrow> memory_run env (set_conversation_instructions c m)"
| run_event: "memory_run env m \<Longrightarrow> memory_on_event env e m st = (m', st') \<Longrightarrow> memory_run env m'"

lemma memory_run_ok: "memory_run env m \<Longrightarrow> mem_ok m"
proof (induction rule: memory_run.induct)
  case (run_workspace m agents)
  then have "list_all micro_ok agents" by (auto simp: list_all_iff dest: load_ok)
  with run_workspace show ?case by (simp add: workspace_agents_ok)
next
  case (run_event m e st m' st')
  then show ?case by (metis fst_conv memory_on_event_ok)
qed (simp_all add: memory_init_ok setters_ok)

section \<open>What a query recalls\<close>

definition triggered :: "string \<Rightarrow> microagent \<Rightarrow> bool" where
  "triggered query a \<longleftrightarrow>
     list_ex (\<lambda>t. str_contains (str_lower t) (str_lower query)) (md_triggers (mag_metadata a))"

lemma match_trigger_iff: "match_trigger a q = None \<longleftrightarrow> \<not> triggered q a"
  by (auto simp: match_trigger_def triggered_def find_None_iff list_ex_iff)

lemma match_trigger_Some:
  assumes "match_trigger a q = Some t"
  shows "t \<in> set (md_triggers (mag_metadata a))" "str_contains (str_lower t) (str_lower q)"
  using assms by (auto simp: match_trigger_def find_Some_iff)

lemma knowledge_of_iff:
  assumes "[] \<notin> set (md_triggers (mag_metadata a))"
  shows "knowledge_of q a =
    (if triggered q a then Some \<lparr>mk_name = mag_name a, mk_trigger = the (match_trigger a q), mk_content = mag_content a\<rparr>
     else None)"
  using assms match_trigger_iff [of a q] match_trigger_Some(1) [of a q]
  by (auto simp: knowledge_of_def split: option.splits list.splits)

lemma map_filter_if: "List.map_filter (\<lambda>x. if P x then Some (f x) else None) xs = map f (filter P xs)"
  by (induction xs) (simp_all add: map_filter_simps)

lemma find_knowledge_filter:
  assumes "list_all (\<lambda>(n, a). [] \<notin> set (md_triggers (mag_metadata a))) (knowledge_microagents m)" "q \<noteq> []"
  shows "find_microagent_knowledge m q =
    map (\<lambda>a. \<lparr>mk_name = mag_name a, mk_trigger = the (match_trigger a q), mk_content = mag_content a\<rparr>)
      (filter (triggered q) (map snd (knowledge_microagents m)))"
proof -
  have "List.map_filter (\<lambda>(n, a). knowledge_of q a) d =
      map (\<lambda>a. \<lparr>mk_name = mag_name a, mk_trigger = the (match_trigger a q), mk_content = mag_content a\<rparr>)
        (filter (triggered q) (map snd d))"
    if "list_all (\<lambda>(n, a). [] \<notin> set (md_triggers (mag_metadata a))) d" for d
    using that by (induction d) (auto simp: map_filter_simps knowledge_of_iff)
  then show ?thesis using assms by (simp add: find_microagent_knowledge_def)
qed

end
