(* ===== verification/Recall_Properties.thy ===== *)
theory Recall_Properties
  imports Recall_Rules Runtime_Rules Log_Clients Controller_Properties
begin

text \<open>
  The properties of the memory, alone and together with the controller: which microagents a query recalls, what the
  memory holds, and that a message of the user reaches the agent through the recall.
\<close>

section \<open>A recall and its answer\<close>



section \<open>The controller and a recall\<close>




text \<open>A file tree with a text that is always active, one with a trigger, and a task\<close>

definition demo_tree :: file_tree where
  "demo_tree =
     [([''g'', ''skills''], None), ([''g'', ''skills'', ''repo.md''], Some ''R''), ([''g'', ''skills'', ''git.md''], Some ''G''),
      ([''g'', ''skills'', ''README.md''], Some ''X''), ([''g'', ''skills'', ''sub'', ''fix.md''], Some ''T'')]"

definition demo_header :: "string \<Rightarrow> string + jdict \<times> string" where
  "demo_header s =
     (if s = ''X'' then Inl ''bad header''
      else Inr (if s = ''G'' then [(''triggers'', JList [JStr ''Git''])]
                else if s = ''T'' then [(''name'', JStr ''fix''), (''inputs'', JList [JStr ''N''])] else [], s))"

definition demo_validate :: "jdict \<Rightarrow> string + microagent_metadata" where
  "demo_validate d =
     Inr ((default_metadata (if map_of d ''name'' = None then ''default'' else ''fix''))
       \<lparr>md_triggers := (if map_of d ''triggers'' = None then [] else [''Git'']),
        md_inputs := (if map_of d ''inputs'' = None then [] else [\<lparr>im_name = ''N'', im_description = []\<rparr>])\<rparr>)"

definition demo_mem_env :: "unit mem_env" where
  "demo_mem_env =
     \<lparr>me_frontmatter = demo_header, me_validate = demo_validate, me_str = (\<lambda>_. []), me_tree = demo_tree,
      me_makedirs = (\<lambda>p. Inl (Load_error ''denied'')), me_global_dir = [''g'', ''skills''], me_user_dir = [''home''],
      me_codec = demo_codec, me_now = ''2026-01-01T00:00:00'', me_uuid = ''u'', me_callback = ()\<rparr>"

definition demo_memory_of :: memory where
  "demo_memory_of = projr (fst (memory_init demo_mem_env ''c1'' True demo_log0))"



section \<open>What the memory holds\<close>

text \<open>
  C29. Whatever a memory is told and whatever agents it is given, both its dictionaries keep one agent per name, under
  that name. Those in the first are always active: they have neither triggers nor inputs. Those in the second have a
  trigger: either they are knowledge without inputs, or they are tasks with inputs whose name is a trigger and whose text
  ends with the request for missing variables.
\<close>

theorem memory_invariant:
  assumes "memory_run env m"
  shows "mem_ok m"
  by (rule memory_run_ok [OF assms])

theorem memory_invariant_witness:
  "mem_ok demo_memory_of \<and> map fst (repo_microagents demo_memory_of) = [''repo''] \<and>
   map fst (knowledge_microagents demo_memory_of) = [''git'', ''sub/fix'']"
proof -
  have k: "map fst (repo_microagents demo_memory_of) = [''repo''] \<and>
      map fst (knowledge_microagents demo_memory_of) = [''git'', ''sub/fix'']" by code_simp
  have "case fst (memory_init demo_mem_env ''c1'' True demo_log0) of Inl _ \<Rightarrow> False | Inr _ \<Rightarrow> True" by code_simp
  then obtain st where "memory_init demo_mem_env ''c1'' True demo_log0 = (Inr demo_memory_of, st)"
    by (cases "memory_init demo_mem_env ''c1'' True demo_log0") (auto simp: demo_memory_of_def split: sum.splits)
  from memory_invariant [OF run_init [OF this]] k show ?thesis by blast
qed

text \<open>
  A query recalls exactly the agents of the second dictionary that have a trigger in it, upper and lower case being
  the same, in the order of the dictionary; each with its name, its text and a trigger of its own that stands in the
  query. It assumes that no trigger is empty.
\<close>

theorem recalled_exactly:
  assumes "list_all (\<lambda>(n, a). [] \<notin> set (md_triggers (mag_metadata a))) (knowledge_microagents m)" "query \<noteq> []"
  shows "map (\<lambda>k. (mk_name k, mk_content k)) (find_microagent_knowledge m query) =
      map (\<lambda>a. (mag_name a, mag_content a)) (filter (triggered query) (map snd (knowledge_microagents m))) \<and>
    (\<forall>k \<in> set (find_microagent_knowledge m query). \<exists>(n, a) \<in> set (knowledge_microagents m).
       mk_name k = mag_name a \<and> mk_trigger k \<in> set (md_triggers (mag_metadata a)) \<and>
       str_contains (str_lower (mk_trigger k)) (str_lower query))"
proof -
  note eq = find_knowledge_filter [OF assms]
  have "\<exists>(n, a) \<in> set (knowledge_microagents m). mk_name k = mag_name a \<and> mk_trigger k \<in> set (md_triggers (mag_metadata a)) \<and>
       str_contains (str_lower (mk_trigger k)) (str_lower query)"
    if k: "k \<in> set (find_microagent_knowledge m query)" for k
  proof -
    from k obtain n a where a: "(n, a) \<in> set (knowledge_microagents m)" "triggered query a"
      "k = \<lparr>mk_name = mag_name a, mk_trigger = the (match_trigger a query), mk_content = mag_content a\<rparr>"
      unfolding eq by auto
    then obtain t where "match_trigger a query = Some t" using match_trigger_iff [of a query] by blast
    with a match_trigger_Some [of a query t] show ?thesis by auto
  qed
  then show ?thesis unfolding eq by simp
qed

theorem recalled_exactly_witness:
  "map mk_name (find_microagent_knowledge demo_memory_of ''please GIT pull'') = [''git'']"
proof -
  have pre: "list_all (\<lambda>(n, a). [] \<notin> set (md_triggers (mag_metadata a))) (knowledge_microagents demo_memory_of)"
    "map mag_name (filter (triggered ''please GIT pull'') (map snd (knowledge_microagents demo_memory_of))) = [''git'']"
    by code_simp+
  from recalled_exactly [OF pre(1), of "''please GIT pull''"]
  have "map fst (map (\<lambda>k. (mk_name k, mk_content k)) (find_microagent_knowledge demo_memory_of ''please GIT pull'')) =
      map fst (map (\<lambda>a. (mag_name a, mag_content a)) (filter (triggered ''please GIT pull'') (map snd (knowledge_microagents demo_memory_of))))"
    by simp
  with pre(2) show ?thesis by (simp add: comp_def)
qed

text \<open>An empty trigger stands in every query but recalls nothing, and it hides the triggers behind it.\<close>

lemma empty_trigger_hides:
  assumes "md_triggers (mag_metadata a) = [] # ts"
  shows "triggered query a \<and> knowledge_of query a = None"
proof -
  have "str_contains [] s" for s by (cases s) (simp_all add: str_startswith_def)
  with assms show ?thesis by (simp add: triggered_def knowledge_of_def match_trigger_def str_lower_def)
qed

text \<open>
  The trigger of a task is the name in its header, not the name it is filed under: without a name in the header it is
  the default.
\<close>

lemma task_trigger_from_header:
  assumes "load env t p (Some dir) None = Inr a" "mag_type a = MT_TASK"
  shows "''/'' @ md_name (mag_metadata a) \<in> set (md_triggers (mag_metadata a))"
  using load_ok [OF assms(1)] assms(2) by (simp add: micro_ok_def)

lemma filed_name_not_header:
  "map (\<lambda>(n, a). (n, md_name (mag_metadata a), md_triggers (mag_metadata a))) (knowledge_microagents demo_memory_of) =
     [(''git'', ''default'', [''Git'']), (''sub/fix'', ''fix'', [''/fix''])]"
  by code_simp

section \<open>Loading\<close>

lemma load_files_fails:
  assumes "load env t p (Some dir) None = Inl x" "list_all (\<lambda>p. \<exists>a. load env t p (Some dir) None = Inr a) ps"
  shows "load_files env t dir (ps @ p # qs) d = Inl (load_failed p x)"
  using assms(2)
proof (induction ps arbitrary: d)
  case (Cons q ps)
  then obtain a where "load env t q (Some dir) None = Inr a" by auto
  with Cons show ?case by simp
qed (use assms(1) in simp)

text \<open>
  Loading a directory stops at the first file that cannot be loaded, with an error that names the file: none of its
  agents is used, neither those before it nor those behind it. For the directory of the user this is only logged; for the
  agents of the installation it prevents the memory from being opened.
\<close>

theorem bad_file_blocks:
  assumes "special_files t dir @ md_files t dir = ps @ p # qs"
    and "list_all (\<lambda>p. \<exists>a. load env t p (Some dir) None = Inr a) ps" "load env t p (Some dir) None = Inl x"
  shows "load_microagents_from_dir env t dir = Inl (load_failed p x) \<and>
    (\<forall>menv m. micro_env_of menv = env \<and> me_makedirs menv dir = Inr t \<and> me_user_dir menv = dir \<longrightarrow>
       load_user_microagents menv m = m) \<and>
    (\<forall>menv sid cb st. micro_env_of menv = env \<and> me_tree menv = t \<and> me_global_dir menv = dir \<longrightarrow>
       (\<exists>y. fst (memory_init menv sid cb st) = Inl y))"
proof -
  have l: "load_microagents_from_dir env t dir = Inl (load_failed p x)"
    using load_files_fails [OF assms(3,2)] assms(1) by (simp add: load_microagents_from_dir_def)
  moreover have "load_user_microagents menv m = m"
    if "micro_env_of menv = env" "me_makedirs menv dir = Inr t" "me_user_dir menv = dir" for menv :: "'z mem_env" and m
    using that l by (simp add: load_user_microagents_def)
  moreover have "\<exists>y. fst (memory_init menv sid cb st) = Inl y"
    if "micro_env_of menv = env" "me_tree menv = t" "me_global_dir menv = dir"
    for menv :: "'y mem_env" and sid cb and st :: "'y event_stream"
    using that l by (auto simp: memory_init_def load_global_microagents_def Let_def split: prod.split option.split)
  ultimately show ?thesis by blast
qed

definition broken_tree :: file_tree where
  "broken_tree = ([''g'', ''skills'', ''bad.md''], Some ''X'') # demo_tree"

theorem bad_file_blocks_witness:
  "load_microagents_from_dir (micro_env_of demo_mem_env) broken_tree [''g'', ''skills''] =
     Inl (Load_error ''Error loading microagent from /g/skills/bad.md: bad header'')"
proof -
  have pre: "special_files broken_tree [''g'', ''skills''] @ md_files broken_tree [''g'', ''skills''] =
      [] @ [''g'', ''skills'', ''bad.md''] # md_files demo_tree [''g'', ''skills'']"
    "load (micro_env_of demo_mem_env) broken_tree [''g'', ''skills'', ''bad.md''] (Some [''g'', ''skills'']) None =
      Inl (Load_error ''bad header'')"
    "load_failed [''g'', ''skills'', ''bad.md''] (Load_error ''bad header'') =
      Load_error ''Error loading microagent from /g/skills/bad.md: bad header''" by code_simp+
  have "list_all (\<lambda>p. \<exists>a. load (micro_env_of demo_mem_env) broken_tree p (Some [''g'', ''skills'']) None = Inr a) []" by simp
  from conjunct1 [OF bad_file_blocks [OF pre(1) this pre(2)]] show ?thesis unfolding pre(3) .
qed

end
