(* ===== verification/CodeAct.thy ===== *)
theory CodeAct
  imports Agent_Controller Conversation_Memory
begin

text \<open>
  \<open>openhands/agenthub/codeact_agent\<close>: the agent of the program. Its step turns the history into messages, asks the
  language model, and turns the tool calls of the response into actions, which it hands out one at a time.

  Parameters: the JSON parser and \<open>float\<close>, the texts of values and types in error messages, the client of the language
  model. The fields of an action have their declared types: an argument of another type, which the program stores
  as it is, is the error \<open>untyped\<close> of the model.
\<close>

section \<open>Errors and arguments\<close>

record fc_env =
  fc_loads :: "string \<Rightarrow> json option"
  fc_float :: "string \<Rightarrow> rat option"
  fc_str :: "json \<Rightarrow> string"
  fc_type :: "json \<Rightarrow> string"
  fc_params_text :: string

definition validation_exn :: "string \<Rightarrow> exn" where
  "validation_exn msg = mk_exn ''FunctionCallValidationError'' FunctionCallValidationError msg"

definition not_exists_exn :: "string \<Rightarrow> exn" where
  "not_exists_exn msg = mk_exn ''FunctionCallNotExistsError'' FunctionCallNotExistsError msg"

definition type_exn :: exn where
  "type_exn = mk_exn ''TypeError'' OtherError []"

definition attribute_exn :: exn where
  "attribute_exn = mk_exn ''AttributeError'' OtherError []"

definition untyped_exn :: exn where
  "untyped_exn = mk_exn ''untyped'' OtherError []"

text \<open>\<open>key in arguments\<close>, \<open>arguments[key]\<close>, \<open>arguments.get(key, default)\<close> on what the parser returned\<close>

definition has_key :: "string \<Rightarrow> json \<Rightarrow> exn + bool" where
  "has_key k args =
     (case args of
        JDict d \<Rightarrow> Inr (map_of d k \<noteq> None)
      | JList xs \<Rightarrow> Inr (JStr k \<in> set xs)
      | JStr s \<Rightarrow> Inr (str_contains k s)
      | _ \<Rightarrow> Inl type_exn)"

definition arg :: "string \<Rightarrow> json \<Rightarrow> exn + json" where
  "arg k args =
     (case args of
        JDict d \<Rightarrow> (case map_of d k of Some v \<Rightarrow> Inr v | None \<Rightarrow> Inl (mk_exn ''KeyError'' OtherError k))
      | _ \<Rightarrow> Inl type_exn)"

definition arg_or :: "string \<Rightarrow> json \<Rightarrow> json \<Rightarrow> exn + json" where
  "arg_or k v args =
     (case args of
        JDict d \<Rightarrow> Inr (case map_of d k of Some x \<Rightarrow> x | None \<Rightarrow> v)
      | _ \<Rightarrow> Inl attribute_exn)"

text \<open>A value of the declared type\<close>

definition as_text :: "json \<Rightarrow> exn + string" where
  "as_text j = (case j of JStr s \<Rightarrow> Inr s | _ \<Rightarrow> Inl untyped_exn)"

definition as_int :: "json \<Rightarrow> exn + int" where
  "as_int j = (case j of JInt i \<Rightarrow> Inr i | _ \<Rightarrow> Inl untyped_exn)"

definition as_dict :: "json \<Rightarrow> exn + jdict" where
  "as_dict j = (case j of JDict d \<Rightarrow> Inr d | _ \<Rightarrow> Inl untyped_exn)"

definition as_opt :: "(json \<Rightarrow> exn + 'a) \<Rightarrow> json \<Rightarrow> exn + 'a option" where
  "as_opt f j = (if j = JNull then Inr None else map_sum id Some (f j))"

definition as_int_list :: "json \<Rightarrow> exn + int list" where
  "as_int_list j =
     (case j of
        JList xs \<Rightarrow> if list_all (\<lambda>x. case x of JInt _ \<Rightarrow> True | _ \<Rightarrow> False) xs then Inr (map (\<lambda>x. case x of JInt i \<Rightarrow> i | _ \<Rightarrow> 0) xs) else Inl untyped_exn
      | _ \<Rightarrow> Inl untyped_exn)"

definition text_arg :: "string \<Rightarrow> json \<Rightarrow> exn + string" where
  "text_arg k args = sbind (arg k args) as_text"

definition missing :: "string \<Rightarrow> string \<Rightarrow> exn" where
  "missing k name = validation_exn (''Missing required argument '' @ CHR 0x22 # k @ CHR 0x22 # '' in tool call '' @ name)"

definition require :: "string \<Rightarrow> string \<Rightarrow> json \<Rightarrow> exn + unit" where
  "require k name args = sbind (has_key k args) (\<lambda>b. if b then Inr () else Inl (missing k name))"

section \<open>Thoughts and risks\<close>

fun get_thought :: "action \<Rightarrow> string option" where
  "get_thought (CmdRunAction a) = Some (cra_thought a)"
| "get_thought (IPythonRunCellAction a) = Some (ipy_thought a)"
| "get_thought (FileReadAction a) = Some (fra_thought a)"
| "get_thought (FileWriteAction a) = Some (fwa_thought a)"
| "get_thought (FileEditAction a) = Some (fea_thought a)"
| "get_thought (BrowseURLAction a) = Some (bua_thought a)"
| "get_thought (BrowseInteractiveAction a) = Some (bia_thought a)"
| "get_thought (MCPAction a) = Some (mcpa_thought a)"
| "get_thought (ChangeAgentStateAction a) = Some (casa_thought a)"
| "get_thought (AgentFinishAction a) = Some (afa_thought a)"
| "get_thought (AgentThinkAction t) = Some t"
| "get_thought (AgentRejectAction a) = Some (ara_thought a)"
| "get_thought (AgentDelegateAction a) = Some (ada_thought a)"
| "get_thought (RecallAction a) = Some (ra_thought a)"
| "get_thought (TaskTrackingAction a) = Some (tta_thought a)"
| "get_thought _ = None"

fun put_thought :: "string \<Rightarrow> action \<Rightarrow> action" where
  "put_thought t (CmdRunAction a) = CmdRunAction (a\<lparr>cra_thought := t\<rparr>)"
| "put_thought t (IPythonRunCellAction a) = IPythonRunCellAction (a\<lparr>ipy_thought := t\<rparr>)"
| "put_thought t (FileReadAction a) = FileReadAction (a\<lparr>fra_thought := t\<rparr>)"
| "put_thought t (FileWriteAction a) = FileWriteAction (a\<lparr>fwa_thought := t\<rparr>)"
| "put_thought t (FileEditAction a) = FileEditAction (a\<lparr>fea_thought := t\<rparr>)"
| "put_thought t (BrowseURLAction a) = BrowseURLAction (a\<lparr>bua_thought := t\<rparr>)"
| "put_thought t (BrowseInteractiveAction a) = BrowseInteractiveAction (a\<lparr>bia_thought := t\<rparr>)"
| "put_thought t (MCPAction a) = MCPAction (a\<lparr>mcpa_thought := t\<rparr>)"
| "put_thought t (ChangeAgentStateAction a) = ChangeAgentStateAction (a\<lparr>casa_thought := t\<rparr>)"
| "put_thought t (AgentFinishAction a) = AgentFinishAction (a\<lparr>afa_thought := t\<rparr>)"
| "put_thought t (AgentThinkAction _) = AgentThinkAction t"
| "put_thought t (AgentRejectAction a) = AgentRejectAction (a\<lparr>ara_thought := t\<rparr>)"
| "put_thought t (AgentDelegateAction a) = AgentDelegateAction (a\<lparr>ada_thought := t\<rparr>)"
| "put_thought t (RecallAction a) = RecallAction (a\<lparr>ra_thought := t\<rparr>)"
| "put_thought t (TaskTrackingAction a) = TaskTrackingAction (a\<lparr>tta_thought := t\<rparr>)"
| "put_thought t a = a"

text \<open>\<open>combine_thought\<close>\<close>

definition combine_thought :: "action \<Rightarrow> string \<Rightarrow> action" where
  "combine_thought a thought =
     (case get_thought a of
        None \<Rightarrow> a
      | Some t \<Rightarrow>
          if thought \<noteq> [] \<and> t \<noteq> [] then put_thought (thought @ newline # t) a
          else if thought \<noteq> [] then put_thought thought a
          else a)"

text \<open>\<open>set_security_risk\<close>: a value that is none of the levels is only logged\<close>

definition apply_risk :: "json \<Rightarrow> action \<Rightarrow> action" where
  "apply_risk args a =
     (case args of
        JDict d \<Rightarrow>
          (case map_of d ''security_risk'' of
             Some r \<Rightarrow>
               if r = JStr ''LOW'' then set_security_risk LOW a
               else if r = JStr ''MEDIUM'' then set_security_risk MEDIUM a
               else if r = JStr ''HIGH'' then set_security_risk HIGH a
               else a
           | None \<Rightarrow> a)
      | _ \<Rightarrow> a)"

section \<open>One call\<close>

text \<open>A call becomes an action with the timeout it asks for. The tools one by one:\<close>

definition bash_call :: "fc_env \<Rightarrow> string \<Rightarrow> json \<Rightarrow> exn + action \<times> rat option" where
  "bash_call env name args =
     sbind (require ''command'' name args) (\<lambda>_.
     sbind (arg_or ''is_input'' (JStr ''false'') args) (\<lambda>inp.
     sbind (text_arg ''command'' args) (\<lambda>cmd.
     sbind (has_key ''timeout'' args) (\<lambda>timed.
     sbind (if \<not> timed then Inr None
            else sbind (arg ''timeout'' args) (\<lambda>v.
              case v of
                JInt i \<Rightarrow> Inr (Some (of_int i))
              | JFloat r \<Rightarrow> Inr (Some r)
              | JBool b \<Rightarrow> Inr (Some (if b then 1 else 0))
              | JStr s \<Rightarrow>
                  (case fc_float env s of
                     Some r \<Rightarrow> Inr (Some r)
                   | None \<Rightarrow> Inl (validation_exn (''Invalid float passed to '' @ CHR 0x27 # ''timeout'' @ CHR 0x27 # '' argument: '' @ s)))
              | _ \<Rightarrow> Inl type_exn)) (\<lambda>timeout.
       Inr (apply_risk args (CmdRunAction
              \<lparr>cra_command = cmd, cra_is_input = (inp = JStr ''true''), cra_thought = [], cra_blocking = (timeout \<noteq> None),
               cra_is_static = False, cra_cwd = None, cra_hidden = False, cra_confirmation = CONFIRMED, cra_risk = UNKNOWN\<rparr>),
            timeout))))))"

definition ipython_call :: "string \<Rightarrow> json \<Rightarrow> exn + action" where
  "ipython_call name args =
     sbind (require ''code'' name args) (\<lambda>_. sbind (text_arg ''code'' args) (\<lambda>code.
       Inr (apply_risk args (IPythonRunCellAction \<lparr>ipy_code = code, ipy_thought = [], ipy_include_extra = True,
         ipy_confirmation = CONFIRMED, ipy_risk = UNKNOWN, ipy_kernel_init_code = []\<rparr>))))"

definition finish_call :: "json \<Rightarrow> exn + action" where
  "finish_call args =
     sbind (sbind (arg_or ''message'' (JStr []) args) as_text) (\<lambda>msg.
       Inr (AgentFinishAction \<lparr>afa_final_thought = msg, afa_outputs = [], afa_thought = []\<rparr>))"

definition edit_source :: "json \<Rightarrow> exn + file_edit_source" where
  "edit_source j =
     (if j = JStr ''llm_based_edit'' then Inr LLM_BASED_EDIT
      else if j = JStr ''oh_aci'' then Inr EDIT_OH_ACI
      else Inl untyped_exn)"

definition llm_edit_call :: "string \<Rightarrow> json \<Rightarrow> exn + action" where
  "llm_edit_call name args =
     sbind (require ''path'' name args) (\<lambda>_. sbind (require ''content'' name args) (\<lambda>_.
     sbind (text_arg ''path'' args) (\<lambda>path. sbind (text_arg ''content'' args) (\<lambda>content.
     sbind (sbind (arg_or ''start'' (JInt 1) args) as_int) (\<lambda>s. sbind (sbind (arg_or ''end'' (JInt (- 1)) args) as_int) (\<lambda>e.
     sbind (sbind (arg_or ''impl_source'' (JStr ''llm_based_edit'') args) edit_source) (\<lambda>src.
       Inr (FileEditAction \<lparr>fea_path = path, fea_command = [], fea_file_text = None, fea_old_str = None, fea_new_str = None,
         fea_insert_line = None, fea_content = content, fea_start = s, fea_end = e, fea_thought = [], fea_risk = UNKNOWN,
         fea_impl_source = src\<rparr>))))))))"

definition EDITOR_PARAMS :: "string list" where
  "EDITOR_PARAMS =
     [''command'', ''path'', ''file_text'', ''old_str'', ''new_str'', ''insert_line'', ''view_range'', ''security_risk'']"

definition opt_arg :: "(json \<Rightarrow> exn + 'a) \<Rightarrow> string \<Rightarrow> jdict \<Rightarrow> exn + 'a option" where
  "opt_arg f k d = (case map_of d k of None \<Rightarrow> Inr None | Some v \<Rightarrow> as_opt f v)"

definition editor_call :: "fc_env \<Rightarrow> string \<Rightarrow> json \<Rightarrow> exn + action" where
  "editor_call env name args =
     sbind (require ''command'' name args) (\<lambda>_. sbind (require ''path'' name args) (\<lambda>_.
     sbind (arg ''path'' args) (\<lambda>p. sbind (arg ''command'' args) (\<lambda>c. sbind (as_dict args) (\<lambda>d.
       if c = JStr ''view''
       then sbind (as_text p) (\<lambda>path. sbind (opt_arg as_int_list ''view_range'' d) (\<lambda>range.
              Inr (apply_risk args (FileReadAction \<lparr>fra_path = path, fra_start = 0, fra_end = - 1, fra_thought = [],
                fra_risk = UNKNOWN, fra_impl_source = READ_OH_ACI, fra_view_range = range\<rparr>))))
       else (case find (\<lambda>k. k \<notin> set EDITOR_PARAMS) (map fst d) of
               Some k \<Rightarrow>
                 Inl (validation_exn (''Unexpected argument '' @ k @ '' in tool call '' @ name @
                   ''. Allowed arguments are: '' @ fc_params_text env))
             | None \<Rightarrow>
                 sbind (as_text p) (\<lambda>path. sbind (as_text c) (\<lambda>command.
                 sbind (opt_arg as_text ''file_text'' d) (\<lambda>ft. sbind (opt_arg as_text ''old_str'' d) (\<lambda>old.
                 sbind (opt_arg as_text ''new_str'' d) (\<lambda>new. sbind (opt_arg as_int ''insert_line'' d) (\<lambda>line.
                   Inr (apply_risk args (FileEditAction \<lparr>fea_path = path, fea_command = command, fea_file_text = ft,
                     fea_old_str = old, fea_new_str = new, fea_insert_line = line, fea_content = [], fea_start = 1,
                     fea_end = - 1, fea_thought = [], fea_risk = UNKNOWN, fea_impl_source = EDIT_OH_ACI\<rparr>))))))))))))))"

definition think_call :: "json \<Rightarrow> exn + action" where
  "think_call args = sbind (sbind (arg_or ''thought'' (JStr []) args) as_text) (\<lambda>t. Inr (AgentThinkAction t))"

definition browser_call :: "string \<Rightarrow> json \<Rightarrow> exn + action" where
  "browser_call name args =
     sbind (require ''code'' name args) (\<lambda>_. sbind (text_arg ''code'' args) (\<lambda>code.
       Inr (apply_risk args (BrowseInteractiveAction \<lparr>bia_browser_actions = code, bia_thought = [], bia_send_msg = [],
         bia_risk = UNKNOWN, bia_return_axtree = False\<rparr>))))"

text \<open>The task list of the task tracker, every task with its four fields\<close>

definition normalize_task :: "fc_env \<Rightarrow> nat \<times> json \<Rightarrow> exn + jdict" where
  "normalize_task env = (\<lambda>(i, task).
     case task of
       JDict t \<Rightarrow>
         (let get = (\<lambda>k v. case map_of t k of Some x \<Rightarrow> x | None \<Rightarrow> JStr v)
          in Inr [(''id'', get ''id'' (''task-'' @ show_nat (i + 1))), (''title'', get ''title'' ''Untitled task''),
                  (''status'', get ''status'' ''todo''), (''notes'', get ''notes'' [])])
     | _ \<Rightarrow>
         Inl (validation_exn (''Unexpected task format in task_list: '' @ fc_type env task @ ''. Each task should be a dictionary.'')))"

fun normalize_tasks :: "fc_env \<Rightarrow> (nat \<times> json) list \<Rightarrow> exn + jdict list" where
  "normalize_tasks env [] = Inr []"
| "normalize_tasks env (t # ts) =
     sbind (normalize_task env t) (\<lambda>x. sbind (normalize_tasks env ts) (\<lambda>xs. Inr (x # xs)))"

text \<open>The second component is the length of the list the inner loop has run over.\<close>

definition task_call :: "fc_env \<Rightarrow> string \<Rightarrow> json \<Rightarrow> exn + action \<times> nat" where
  "task_call env name args =
     sbind (require ''command'' name args) (\<lambda>_.
     sbind (arg ''command'' args) (\<lambda>c.
     sbind (has_key ''task_list'' args) (\<lambda>given.
       if c = JStr ''plan'' \<and> \<not> given
       then Inl (validation_exn (''Missing required argument '' @ CHR 0x22 # ''task_list'' @ CHR 0x22 # '' for '' @
              CHR 0x22 # ''plan'' @ CHR 0x22 # '' command in tool call '' @ name))
       else sbind (arg_or ''task_list'' (JList []) args) (\<lambda>raw.
              case raw of
                JList tasks \<Rightarrow>
                  sbind (normalize_tasks env (enumerate 0 tasks)) (\<lambda>ts. sbind (as_text c) (\<lambda>command.
                    Inr (TaskTrackingAction \<lparr>tta_command = command, tta_task_list = ts, tta_thought = []\<rparr>, length tasks)))
              | _ \<Rightarrow>
                  Inl (validation_exn (''Invalid format for '' @ CHR 0x22 # ''task_list'' @ CHR 0x22 #
                    ''. Expected a list but got '' @ fc_type env raw @ ''.''))))))"

text \<open>
  The chain of tools. The result is the action, its timeout, and the value of the variable \<open>i\<close> afterwards: the loop of the
  task tracker uses the same variable as the loop over the calls.
\<close>

definition convert_call :: "fc_env \<Rightarrow> string list \<Rightarrow> nat \<Rightarrow> string \<Rightarrow> json \<Rightarrow> exn + action \<times> rat option \<times> nat" where
  "convert_call env mcp_tool_names i name args =
     (let plain = map_sum id (\<lambda>a. (a, None, i))
      in if name = ''execute_bash'' then map_sum id (\<lambda>(a, t). (a, t, i)) (bash_call env name args)
         else if name = ''execute_ipython_cell'' then plain (ipython_call name args)
         else if name = ''delegate_to_browsing_agent''
         then plain (map_sum id (\<lambda>d. AgentDelegateAction \<lparr>ada_agent = ''BrowsingAgent'', ada_inputs = d, ada_thought = []\<rparr>) (as_dict args))
         else if name = ''finish'' then plain (finish_call args)
         else if name = ''edit_file'' then plain (llm_edit_call name args)
         else if name = ''str_replace_editor'' then plain (editor_call env name args)
         else if name = ''think'' then plain (think_call args)
         else if name = ''request_condensation'' then plain (Inr CondensationRequestAction)
         else if name = ''browser'' then plain (browser_call name args)
         else if name = ''task_tracker''
         then map_sum id (\<lambda>(a, n). (a, None, if n = 0 then i else n - 1)) (task_call env name args)
         else if name \<in> set mcp_tool_names
         then plain (map_sum id (\<lambda>d. MCPAction \<lparr>mcpa_name = name, mcpa_arguments = d, mcpa_thought = [], mcpa_risk = UNKNOWN\<rparr>) (as_dict args))
         else Inl (not_exists_exn (''Tool '' @ name @ '' is not registered. (arguments: '' @ fc_str env args @
                ''). Please check the tool name and retry with an existing tool.'')))"

section \<open>A response\<close>

text \<open>\<open>ToolCallMetadata\<close> for a call; \<open>dump\<close> is the response object as data\<close>

definition call_metadata :: "(model_response \<Rightarrow> json) \<Rightarrow> model_response \<Rightarrow> nat \<Rightarrow> string \<Rightarrow> tool_call \<Rightarrow> tool_call_metadata" where
  "call_metadata dump r n name tc =
     \<lparr>tcm_function_name = name, tcm_tool_call_id = tc_id tc, tcm_model_response = dump r,
      tcm_total_calls_in_response = int n\<rparr>"

definition call_event ::
    "fc_env \<Rightarrow> string list \<Rightarrow> (model_response \<Rightarrow> json) \<Rightarrow> model_response \<Rightarrow> nat \<Rightarrow> string \<Rightarrow> nat \<times> tool_call \<Rightarrow> exn + event" where
  "call_event env mcp dump r n thought = (\<lambda>(i, tc).
     case fc_loads env (tc_arguments tc) of
       None \<Rightarrow> Inl (validation_exn (''Failed to parse tool call arguments: '' @ tc_arguments tc))
     | Some args \<Rightarrow>
         (let name = (case tc_name tc of Some s \<Rightarrow> s | None \<Rightarrow> ''None'')
          in sbind (convert_call env mcp i name args) (\<lambda>(a, timeout, i').
               Inr ((mk_action (if i' = 0 then combine_thought a thought else a))
                 \<lparr>m_timeout := timeout, m_tool_call := Some (call_metadata dump r n name tc), m_response_id := Some (resp_id r)\<rparr>))))"

fun call_events ::
    "fc_env \<Rightarrow> string list \<Rightarrow> (model_response \<Rightarrow> json) \<Rightarrow> model_response \<Rightarrow> nat \<Rightarrow> string \<Rightarrow> (nat \<times> tool_call) list \<Rightarrow> exn + event list" where
  "call_events env mcp dump r n thought [] = Inr []"
| "call_events env mcp dump r n thought (c # cs) =
     sbind (call_event env mcp dump r n thought c) (\<lambda>e.
     sbind (call_events env mcp dump r n thought cs) (\<lambda>es. Inr (e # es)))"

text \<open>\<open>response_to_actions\<close>\<close>

definition response_to_actions ::
    "fc_env \<Rightarrow> string list \<Rightarrow> (model_response \<Rightarrow> json) \<Rightarrow> model_response \<Rightarrow> exn + event list" where
  "response_to_actions env mcp dump r =
     (let content = (case resp_content r of None \<Rightarrow> [] | Some s \<Rightarrow> s)
      in case resp_tool_calls r of
           Some (c # cs) \<Rightarrow> call_events env mcp dump r (length (c # cs)) content (enumerate 0 (c # cs))
         | _ \<Rightarrow>
             Inr [(mk_action (MessageAction \<lparr>ma_content = content, ma_file_urls = None, ma_image_urls = None,
                     ma_wait_for_response = True, ma_risk = UNKNOWN\<rparr>))\<lparr>m_response_id := Some (resp_id r)\<rparr>])"

section \<open>The agent\<close>

record 'l codeact =
  ca_pending :: "event list"
  ca_llm :: 'l
  ca_mcp_tools :: "string list"

text \<open>\<open>_get_tools\<close>: the names of the tools that are offered to the model\<close>

record tool_config =
  enable_cmd :: bool
  enable_think :: bool
  enable_finish :: bool
  enable_condensation_request :: bool
  enable_browsing :: bool
  enable_jupyter :: bool
  enable_plan_mode :: bool
  enable_llm_editor :: bool
  enable_editor :: bool
  on_win32 :: bool

definition get_tools :: "tool_config \<Rightarrow> string list" where
  "get_tools c =
     (if enable_cmd c then [''execute_bash''] else []) @ (if enable_think c then [''think''] else []) @
     (if enable_finish c then [''finish''] else []) @
     (if enable_condensation_request c then [''request_condensation''] else []) @
     (if enable_browsing c \<and> \<not> on_win32 c then [''browser''] else []) @
     (if enable_jupyter c then [''execute_ipython_cell''] else []) @
     (if enable_plan_mode c then [''task_tracker''] else []) @
     (if enable_llm_editor c then [''edit_file''] else if enable_editor c then [''str_replace_editor''] else [])"

text \<open>
  What the agent is configured with: its condenser, the conversation memory, the client of the language model, which
  may record its metrics in the state, and the properties of the model
\<close>

record 'l codeact_env =
  ce_calls :: fc_env
  ce_dump :: "model_response \<Rightarrow> json"
  ce_condenser :: condenser
  ce_memory :: memory_env
  ce_complete :: "message list \<Rightarrow> 'l \<Rightarrow> state \<Rightarrow> (exn + model_response) \<times> 'l \<times> state"
  ce_max_message_chars :: "int option"
  ce_vision :: bool
  ce_caching :: bool

text \<open>\<open>reset\<close>\<close>

definition codeact_reset :: "'l codeact \<Rightarrow> 'l codeact" where
  "codeact_reset ag = ag\<lparr>ca_pending := []\<rparr>"

text \<open>\<open>_get_initial_user_message\<close>\<close>

definition get_initial_user_message :: "event list \<Rightarrow> exn + event" where
  "get_initial_user_message evs =
     (case find is_user_message evs of
        Some e \<Rightarrow> Inr e
      | None \<Rightarrow> Inl (mk_exn ''ValueError'' ValueError ''Initial user message not found in history. Please report this issue.''))"

text \<open>
  \<open>_get_messages\<close>; the second component are the events afterwards, since making the messages changes the finish actions
  among them
\<close>

definition get_messages :: "'l codeact_env \<Rightarrow> event list \<Rightarrow> event \<Rightarrow> int set \<Rightarrow> exn + message list \<times> event list" where
  "get_messages env events init forgotten_ids =
     sbind (process_events (ce_memory env) events init forgotten_ids (ce_max_message_chars env) (ce_vision env)) (\<lambda>(ms, es).
       if ce_caching env then map_sum id (\<lambda>ms'. (ms', es)) (apply_prompt_caching ms) else Inr (ms, es))"

text \<open>The finish actions that were changed are those of the history.\<close>

definition changed_finish :: "event list \<Rightarrow> event \<Rightarrow> event" where
  "changed_finish es e =
     (case find (\<lambda>f. isinstance f C_AgentFinishAction \<and> m_id f = m_id e \<and> m_id e \<noteq> None) es of Some f \<Rightarrow> f | None \<Rightarrow> e)"

definition write_back :: "event list \<Rightarrow> state \<Rightarrow> state" where
  "write_back es st =
     st\<lparr>history := map (changed_finish es) (history st),
        view_cache := map_option (\<lambda>v. v\<lparr>v_events := map (changed_finish es) (v_events v)\<rparr>) (view_cache st)\<rparr>"

definition is_exit :: "event option \<Rightarrow> bool" where
  "is_exit e =
     (case e of
        Some f \<Rightarrow> (case payload f of Act (MessageAction m) \<Rightarrow> str_strip (ma_content m) = ''/exit'' | _ \<Rightarrow> False)
      | None \<Rightarrow> False)"

definition finish_event :: event where
  "finish_event = mk_action (AgentFinishAction \<lparr>afa_final_thought = [], afa_outputs = [], afa_thought = []\<rparr>)"

text \<open>What follows the condenser: the messages, the language model, and its response\<close>

definition ask_model ::
    "'l codeact_env \<Rightarrow> view \<Rightarrow> 'l codeact \<Rightarrow> state \<Rightarrow> (exn + event option) \<times> 'l codeact \<times> state" where
  "ask_model env v ag st =
     (case sbind (get_initial_user_message (history st)) (\<lambda>init. get_messages env (v_events v) init (v_forgotten v)) of
        Inl x \<Rightarrow> (Inl x, ag, st)
      | Inr (ms, es) \<Rightarrow>
          (case ce_complete env ms (ca_llm ag) (write_back es st) of
             (Inl x, l, st1) \<Rightarrow> (Inl x, ag\<lparr>ca_llm := l\<rparr>, st1)
           | (Inr r, l, st1) \<Rightarrow>
               (case response_to_actions (ce_calls env) (ca_mcp_tools ag) (ce_dump env) r of
                  Inl x \<Rightarrow> (Inl x, ag\<lparr>ca_llm := l\<rparr>, st1)
                | Inr as \<Rightarrow> (Inr (Some (hd as)), ag\<lparr>ca_llm := l, ca_pending := tl as\<rparr>, st1))))"

text \<open>\<open>step\<close>\<close>

definition codeact_step :: "'l codeact_env \<Rightarrow> 'l codeact \<Rightarrow> state \<Rightarrow> (exn + event option) \<times> 'l codeact \<times> state" where
  "codeact_step env ag st =
     (case ca_pending ag of
        a # as \<Rightarrow> (Inr (Some a), ag\<lparr>ca_pending := as\<rparr>, st)
      | [] \<Rightarrow>
          (case get_view st of
             (Inl x, st1) \<Rightarrow> (Inl x, ag, st1)
           | (Inr v, st1) \<Rightarrow>
               if is_exit (get_last_user_message v) then (Inr (Some finish_event), ag, st1)
               else (case get_view st1 of
                       (Inl x, st2) \<Rightarrow> (Inl x, ag, st2)
                     | (Inr v2, st2) \<Rightarrow>
                         (case condensed_history (ce_condenser env) v2 (extra_data st2) of
                            (r, extra) \<Rightarrow>
                              (let st3 = st2\<lparr>extra_data := extra\<rparr>
                               in case r of
                                    Inl x \<Rightarrow> (Inl x, ag, st3)
                                  | Inr (Condensation c) \<Rightarrow> (Inr (Some (mk_action (CondensationAction c))), ag, st3)
                                  | Inr (KeepView w) \<Rightarrow> ask_model env w ag st3)))))"

end
