(* ===== verification/CodeAct_Properties.thy ===== *)
theory CodeAct_Properties
  imports CodeAct Conversation_Properties Controller_Properties
begin

text \<open>
  The properties of the agent: every tool call of a response becomes one action under its id, the actions are handed out
  in their order, what the agent cannot read becomes an error observation, and the tools it offers are the tools
  it reads.
\<close>

section \<open>The calls of a response\<close>

lemma call_event_Inr:
  assumes "call_event env mcp dump r n thought (i, tc) = Inr e"
  obtains args a t i' where "fc_loads env (tc_arguments tc) = Some args"
    "convert_call env mcp i (case tc_name tc of Some s \<Rightarrow> s | None \<Rightarrow> ''None'') args = Inr (a, t, i')"
    "e = (mk_action (if i' = 0 then combine_thought a thought else a))\<lparr>m_timeout := t,
       m_tool_call := Some (call_metadata dump r n (case tc_name tc of Some s \<Rightarrow> s | None \<Rightarrow> ''None'') tc),
       m_response_id := Some (resp_id r)\<rparr>"
  using assms by (auto simp: call_event_def Let_def sbind_Inr_iff split: option.splits)

lemma call_events_list:
  "call_events env mcp dump r n thought cs = Inr es \<longleftrightarrow>
   list_all2 (\<lambda>c e. call_event env mcp dump r n thought c = Inr e) cs es"
  by (induction cs arbitrary: es) (auto simp: sbind_Inr_iff list_all2_Cons1)

lemma call_events_error:
  assumes "call_event env mcp dump r n thought c = Inl x" "list_all (\<lambda>c. \<exists>e. call_event env mcp dump r n thought c = Inr e) cs"
  shows "call_events env mcp dump r n thought (cs @ c # ds) = Inl x"
  using assms(2)
proof (induction cs)
  case (Cons d cs)
  then show ?case by auto
qed (use assms(1) in simp)

lemma list_all2_image:
  "list_all2 (\<lambda>c e. P e \<and> f e = g (snd c)) cs es \<Longrightarrow> list_all P es \<and> map f es = map g (map snd cs)"
  by (induction rule: list_all2_induct) auto

text \<open>
  C11. The actions of a response with tool calls are as many as the calls and in their order: each carries the id and
  the name of its call, the response it is from and the number of calls, so that the conversation memory can pair
  it with its result; none has an id or a source yet. A response without calls is one message to the user that waits
  for the answer. If any call cannot be read, there is no action at all.
\<close>

theorem response_actions:
  assumes "response_to_actions env mcp dump r = Inr es"
  shows "list_all (\<lambda>e. is_action e \<and> m_response_id e = Some (resp_id r) \<and> m_id e = None \<and> m_source e = None) es \<and>
    (case resp_tool_calls r of
       Some (tc # tcs) \<Rightarrow>
         map m_tool_call es =
           map (\<lambda>c. Some \<lparr>tcm_function_name = (case tc_name c of Some s \<Rightarrow> s | None \<Rightarrow> ''None''), tcm_tool_call_id = tc_id c,
             tcm_model_response = dump r, tcm_total_calls_in_response = int (length (tc # tcs))\<rparr>) (tc # tcs)
     | _ \<Rightarrow> \<exists>m. map payload es = [Act (MessageAction m)] \<and> ma_wait_for_response m \<and>
         ma_content m = (case resp_content r of None \<Rightarrow> [] | Some s \<Rightarrow> s))"
proof (cases "\<exists>tc tcs. resp_tool_calls r = Some (tc # tcs)")
  case True
  then obtain tc tcs where tcs: "resp_tool_calls r = Some (tc # tcs)" by blast
  let ?th = "case resp_content r of None \<Rightarrow> [] | Some s \<Rightarrow> s"
  let ?md = "\<lambda>c. Some \<lparr>tcm_function_name = (case tc_name c of Some s \<Rightarrow> s | None \<Rightarrow> ''None''), tcm_tool_call_id = tc_id c,
             tcm_model_response = dump r, tcm_total_calls_in_response = int (length (tc # tcs))\<rparr>"
  have l: "list_all2 (\<lambda>c e. call_event env mcp dump r (length (tc # tcs)) ?th c = Inr e) (enumerate 0 (tc # tcs)) es"
    using assms tcs by (simp only: response_to_actions_def Let_def option.case list.case call_events_list)
  let ?P = "\<lambda>e. is_action e \<and> m_response_id e = Some (resp_id r) \<and> m_id e = None \<and> m_source e = None"
  have one: "?P e \<and> m_tool_call e = ?md (snd c)"
    if "call_event env mcp dump r (length (tc # tcs)) ?th c = Inr e" for c e
    using that by (cases c) (auto elim!: call_event_Inr simp: is_action_def mk_event_def call_metadata_def)
  have "list_all2 (\<lambda>c e. ?P e \<and> m_tool_call e = ?md (snd c)) (enumerate 0 (tc # tcs)) es"
    by (rule list_all2_mono [OF l]) (rule one)
  from list_all2_image [OF this] have "list_all ?P es" "map m_tool_call es = map ?md (tc # tcs)"
    by (simp_all only: map_snd_enumerate)
  then show ?thesis using tcs by simp
next
  case False
  then show ?thesis
    using assms by (auto simp: response_to_actions_def is_action_def mk_event_def split: option.splits list.splits)
qed

text \<open>A response with a thought, a command and a file to view\<close>

definition demo_fc :: fc_env where
  "demo_fc =
     \<lparr>fc_loads = (\<lambda>s. if s = ''C'' then Some (JDict [(''command'', JStr ''ls''), (''security_risk'', JStr ''HIGH'')])
                    else if s = ''V'' then Some (JDict [(''command'', JStr ''view''), (''path'', JStr ''/a'')])
                    else if s = ''P'' then Some (JDict [(''command'', JStr ''plan''),
                      (''task_list'', JList [JDict [(''title'', JStr ''x'')], JDict [(''title'', JStr ''y'')]])])
                    else None),
      fc_float = (\<lambda>_. None), fc_str = (\<lambda>_. []), fc_type = (\<lambda>_. []), fc_params_text = []\<rparr>"

definition demo_calls :: "(string \<times> string \<times> string) list \<Rightarrow> model_response" where
  "demo_calls cs =
     \<lparr>resp_id = ''r'', resp_role = ''assistant'', resp_content = Some ''look'',
      resp_tool_calls = Some (map (\<lambda>(i, n, a). \<lparr>tc_id = i, tc_name = Some n, tc_arguments = a\<rparr>) cs)\<rparr>"

definition demo_two :: model_response where
  "demo_two = demo_calls [(''c1'', ''execute_bash'', ''C''), (''c2'', ''str_replace_editor'', ''V'')]"

definition demo_actions :: "event list" where
  "demo_actions = (case response_to_actions demo_fc [] (\<lambda>_. JNull) demo_two of Inr es \<Rightarrow> es | Inl _ \<Rightarrow> [])"

theorem response_actions_witness:
  "map (map_option tcm_tool_call_id \<circ> m_tool_call) demo_actions = [Some ''c1'', Some ''c2'']"
proof -
  have r: "response_to_actions demo_fc [] (\<lambda>_. JNull) demo_two = Inr demo_actions" by code_simp
  have t: "resp_tool_calls demo_two = Some [\<lparr>tc_id = ''c1'', tc_name = Some ''execute_bash'', tc_arguments = ''C''\<rparr>,
      \<lparr>tc_id = ''c2'', tc_name = Some ''str_replace_editor'', tc_arguments = ''V''\<rparr>]"
    by (simp add: demo_two_def demo_calls_def)
  from response_actions [OF r] t
  have "map (map_option tcm_tool_call_id) (map m_tool_call demo_actions) = [Some ''c1'', Some ''c2'']" by simp
  then show ?thesis by simp
qed

section \<open>Errors\<close>

text \<open>A computation that does not find a tool unregistered\<close>

definition registered :: "exn + 'a \<Rightarrow> bool" where
  "registered m \<longleftrightarrow> (case m of Inl x \<Rightarrow> exc_name x \<noteq> ''FunctionCallNotExistsError'' | Inr _ \<Rightarrow> True)"

named_theorems registered_rules

lemma registered_bind [registered_rules]:
  "registered m \<Longrightarrow> (\<And>y. registered (f y)) \<Longrightarrow> registered (sbind m f)"
  by (cases m) (auto simp: registered_def)

lemma registered_map [registered_rules]: "registered m \<Longrightarrow> registered (map_sum id f m)"
  by (cases m) (auto simp: registered_def)

lemma registered_if [registered_rules]: "registered a \<Longrightarrow> registered b \<Longrightarrow> registered (if c then a else b)"
  by simp

lemma registered_basic [registered_rules]:
  "registered (Inr a)" "registered (Inl (validation_exn msg))" "registered (Inl (missing k n))" "registered (Inl type_exn)"
  "registered (has_key k args)" "registered (arg k args)" "registered (arg_or k v args)" "registered (as_text j)"
  "registered (as_int j)" "registered (as_dict j)" "registered (as_int_list j)" "registered (edit_source j)"
  by (auto simp: registered_def validation_exn_def missing_def type_exn_def attribute_exn_def untyped_exn_def has_key_def
      arg_def arg_or_def as_text_def as_int_def as_dict_def as_int_list_def edit_source_def split: json.split option.split)

lemma registered_opt [registered_rules]: "(\<And>j. registered (f j)) \<Longrightarrow> registered (opt_arg f k d)"
  by (auto simp: opt_arg_def as_opt_def registered_rules split: option.split)

lemma registered_args [registered_rules]: "registered (require k n args)" "registered (text_arg k args)"
  unfolding require_def text_arg_def by (intro registered_rules)+

lemma registered_tasks [registered_rules]: "registered (normalize_tasks env ts)"
proof (induction ts)
  case (Cons t ts)
  have "registered (normalize_task env t)"
    by (cases t) (auto simp: normalize_task_def Let_def registered_rules split: json.split)
  with Cons show ?case by (auto intro!: registered_rules)
qed (simp add: registered_rules)

lemma registered_cases [registered_rules]:
  "registered a \<Longrightarrow> (\<And>x. registered (g x)) \<Longrightarrow> registered (case m of None \<Rightarrow> a | Some x \<Rightarrow> g x)"
  "registered a \<Longrightarrow> (\<And>x. registered (b x)) \<Longrightarrow> (\<And>x. registered (c x)) \<Longrightarrow> (\<And>x. registered (d x)) \<Longrightarrow>
   (\<And>x. registered (e x)) \<Longrightarrow> (\<And>x. registered (f x)) \<Longrightarrow> (\<And>x. registered (h x)) \<Longrightarrow>
   registered (case j of JNull \<Rightarrow> a | JBool x \<Rightarrow> b x | JInt x \<Rightarrow> c x | JFloat x \<Rightarrow> d x | JStr x \<Rightarrow> e x | JList x \<Rightarrow> f x | JDict x \<Rightarrow> h x)"
  by (auto split: option.split json.split)

lemma registered_bash [registered_rules]: "registered (bash_call env n args)"
  unfolding bash_call_def by (intro registered_rules)

lemma registered_ipython [registered_rules]: "registered (ipython_call n args)"
  unfolding ipython_call_def by (intro registered_rules)

lemma registered_finish [registered_rules]: "registered (finish_call args)"
  unfolding finish_call_def by (intro registered_rules)

lemma registered_llm_edit [registered_rules]: "registered (llm_edit_call n args)"
  unfolding llm_edit_call_def by (intro registered_rules)

lemma registered_editor [registered_rules]: "registered (editor_call env n args)"
  unfolding editor_call_def by (intro registered_rules)

lemma registered_think [registered_rules]: "registered (think_call args)"
  unfolding think_call_def by (intro registered_rules)

lemma registered_browser [registered_rules]: "registered (browser_call n args)"
  unfolding browser_call_def by (intro registered_rules)

lemma registered_task [registered_rules]: "registered (task_call env n args)"
  unfolding task_call_def by (intro registered_rules)

lemma registered_convert:
  assumes "name \<in> set (get_tools cfg)"
  shows "registered (convert_call env mcp i name args)"
proof -
  have "set (get_tools cfg) \<subseteq> {''execute_bash'', ''think'', ''finish'', ''request_condensation'', ''browser'',
      ''execute_ipython_cell'', ''task_tracker'', ''edit_file'', ''str_replace_editor''}"
    unfolding get_tools_def set_append by (intro Un_least) auto
  from subsetD [OF this assms] show ?thesis
    by (elim insertE emptyE) (simp_all add: convert_call_def Let_def registered_rules)
qed

text \<open>
  The tools that the agent offers to the model are tools it can read: a call of one of them is never refused as
  unregistered, whatever the configuration and the arguments.
\<close>

theorem offered_tools_handled:
  assumes "tc_name tc = Some name" "name \<in> set (get_tools cfg)" "call_event env mcp dump r n thought (i, tc) = Inl x"
  shows "exc_name x \<noteq> ''FunctionCallNotExistsError''"
proof -
  have "registered (call_event env mcp dump r n thought (i, tc))"
    using registered_convert [OF assms(2)] assms(1)
    by (auto simp: call_event_def Let_def split: option.split intro!: registered_rules)
  with assms(3) show ?thesis by (simp add: registered_def)
qed

theorem offered_tools_handled_witness:
  "\<exists>x. call_event demo_fc [] (\<lambda>_. JNull) demo_two 1 [] (0, \<lparr>tc_id = ''c1'', tc_name = Some ''browser'', tc_arguments = ''C''\<rparr>) = Inl x \<and>
     exc_name x \<noteq> ''FunctionCallNotExistsError''"
proof -
  let ?tc = "\<lparr>tc_id = ''c1'', tc_name = Some ''browser'', tc_arguments = ''C''\<rparr>"
  let ?cfg = "\<lparr>enable_cmd = False, enable_think = False, enable_finish = False, enable_condensation_request = False,
      enable_browsing = True, enable_jupyter = False, enable_plan_mode = False, enable_llm_editor = False,
      enable_editor = False, on_win32 = False\<rparr>"
  have "map_sum (\<lambda>_. ()) (\<lambda>_. ()) (call_event demo_fc [] (\<lambda>_. JNull) demo_two 1 [] (0, ?tc)) = Inl ()" by code_simp
  then obtain x where x: "call_event demo_fc [] (\<lambda>_. JNull) demo_two 1 [] (0, ?tc) = Inl x"
    by (cases "call_event demo_fc [] (\<lambda>_. JNull) demo_two 1 [] (0, ?tc)") auto
  have "''browser'' \<in> set (get_tools ?cfg)" by (simp add: get_tools_def)
  from offered_tools_handled [OF _ this x] x show ?thesis by simp
qed

section \<open>The thought of a response\<close>

text \<open>
  The thought of a response belongs to its first action, but the loop over the tasks of the task tracker overwrites the
  number of the call: a first call that plans two tasks loses the thought, and a later call that plans one
  task gets it too.
\<close>

lemma thought_lost:
  "map_sum (\<lambda>_. ()) (map (\<lambda>e. case payload e of Act a \<Rightarrow> get_thought a | Obs _ \<Rightarrow> None))
     (response_to_actions demo_fc [] (\<lambda>_. JNull) (demo_calls [(''c1'', ''task_tracker'', ''P'')])) = Inr [Some []]"
  by code_simp

text \<open>Without the task tracker, the first action has the thought and the others do not.\<close>

lemma map_sum_Inr: "map_sum id f m = Inr y \<longleftrightarrow> (\<exists>x. m = Inr x \<and> y = f x)"
  by (cases m) auto

lemma convert_call_index:
  assumes "convert_call env mcp i name args = Inr (a, t, i')" "name \<noteq> ''task_tracker''"
  shows "i' = i"
  using assms unfolding convert_call_def Let_def
  by (simp only: if_False split: if_split_asm) (auto simp: map_sum_Inr)

section \<open>The agent step by step\<close>

text \<open>The results of steps on any states\<close>

fun run_steps :: "'l codeact_env \<Rightarrow> 'l codeact \<Rightarrow> state list \<Rightarrow> (exn + event option) list \<times> 'l codeact \<times> state list" where
  "run_steps env ag [] = ([], ag, [])"
| "run_steps env ag (st # sts) =
     (case codeact_step env ag st of
        (r, ag1, st1) \<Rightarrow> (case run_steps env ag1 sts of (rs, ag2, sts2) \<Rightarrow> (r # rs, ag2, st1 # sts2)))"

lemma run_steps_pending:
  "length sts = length (ca_pending ag) \<Longrightarrow>
   run_steps env ag sts = (map (Inr \<circ> Some) (ca_pending ag), ag\<lparr>ca_pending := []\<rparr>, sts)"
proof (induction sts arbitrary: ag)
  case (Cons st sts)
  then obtain a as where p: "ca_pending ag = a # as" by (cases "ca_pending ag") auto
  with Cons.IH [of "ag\<lparr>ca_pending := as\<rparr>"] Cons.prems show ?case by (simp add: codeact_step_def)
qed simp

text \<open>
  C28. One response of the model is one round: when the model has been asked, the step returns the first action of the
  response and the next steps return the others in their order, whatever has happened to the state in between, without
  asking the model and without changing the state; after the last of them the agent has nothing left to hand out.
\<close>

theorem one_response_one_round:
  assumes "ca_pending ag = []" "ask_model env v ag st = (Inr (Some a), ag1, st1)"
  shows "\<exists>ms es r as. ce_complete env ms (ca_llm ag) (write_back es st) = (Inr r, ca_llm ag1, st1) \<and>
    response_to_actions (ce_calls env) (ca_mcp_tools ag) (ce_dump env) r = Inr (a # as) \<and>
    (\<forall>sts. length sts = length as \<longrightarrow>
       run_steps env ag1 sts = (map (Inr \<circ> Some) as, ag\<lparr>ca_llm := ca_llm ag1\<rparr>, sts))"
proof -
  obtain ms es where m: "sbind (get_initial_user_message (history st)) (\<lambda>init. get_messages env (v_events v) init (v_forgotten v)) = Inr (ms, es)"
    using assms(2) by (auto simp: ask_model_def split: sum.splits)
  obtain r l st2 where c: "ce_complete env ms (ca_llm ag) (write_back es st) = (Inr r, l, st2)"
    using assms(2) m by (auto simp: ask_model_def split: sum.splits prod.splits)
  obtain xs where xs: "response_to_actions (ce_calls env) (ca_mcp_tools ag) (ce_dump env) r = Inr xs"
    and a: "a = hd xs" and ag1: "ag1 = ag\<lparr>ca_llm := l, ca_pending := tl xs\<rparr>" "st1 = st2"
    using assms(2) m c by (auto simp: ask_model_def split: sum.splits)
  have ne: "xs \<noteq> []"
    using xs by (auto simp: response_to_actions_def sbind_Inr_iff split: option.splits list.splits)
  then have "xs = a # tl xs" using a by simp
  moreover have "run_steps env ag1 sts = (map (Inr \<circ> Some) (tl xs), ag\<lparr>ca_llm := ca_llm ag1\<rparr>, sts)"
    if "length sts = length (tl xs)" for sts
    using run_steps_pending [of sts ag1 env] that ag1 assms(1) by simp
  moreover have "ce_complete env ms (ca_llm ag) (write_back es st) = (Inr r, ca_llm ag1, st1)" using c ag1 by simp
  ultimately show ?thesis using xs by metis
qed

text \<open>A client that always answers with the two calls\<close>

definition demo_codeact :: "unit codeact_env" where
  "demo_codeact =
     \<lparr>ce_calls = demo_fc, ce_dump = (\<lambda>_. JNull), ce_condenser = (\<lambda>v. (Inr (KeepView v), [])), ce_memory = demo_memory,
      ce_complete = (\<lambda>ms l st. (Inr demo_two, l, st)), ce_max_message_chars = None, ce_vision = False, ce_caching = False\<rparr>"

definition demo_asking :: "unit codeact" where
  "demo_asking = \<lparr>ca_pending = [], ca_llm = (), ca_mcp_tools = []\<rparr>"

definition demo_asked_state :: state where
  "demo_asked_state = (st_of (demo_world []) 0)\<lparr>history := [demo_task]\<rparr>"

theorem one_response_one_round_witness:
  "\<exists>a b ag1 st1. ask_model demo_codeact (mk_view [demo_task]) demo_asking demo_asked_state = (Inr (Some a), ag1, st1) \<and>
     fst (run_steps demo_codeact ag1 [st1]) = [Inr (Some b)] \<and> demo_actions = [a, b]"
proof -
  have ok: "\<not> Option.is_none (case ask_model demo_codeact (mk_view [demo_task]) demo_asking demo_asked_state of
      (Inr (Some a), _) \<Rightarrow> Some a | _ \<Rightarrow> None)" by code_simp
  then obtain a ag1 st1 where r: "ask_model demo_codeact (mk_view [demo_task]) demo_asking demo_asked_state = (Inr (Some a), ag1, st1)"
    by (auto split: prod.splits sum.splits option.splits)
  have len: "length demo_actions = 2" "response_to_actions demo_fc [] (\<lambda>_. JNull) demo_two = Inr demo_actions" by code_simp+
  have env: "ca_pending demo_asking = []" "ce_calls demo_codeact = demo_fc" "ce_dump demo_codeact = (\<lambda>_. JNull)"
    "ca_mcp_tools demo_asking = []" "\<And>ms l st. ce_complete demo_codeact ms l st = (Inr demo_two, l, st)"
    by (simp_all add: demo_asking_def demo_codeact_def)
  from one_response_one_round [OF env(1) r] len(2) obtain as where as: "demo_actions = a # as"
      "\<And>sts. length sts = length as \<Longrightarrow> fst (run_steps demo_codeact ag1 sts) = map (Inr \<circ> Some) as"
    unfolding env by auto
  from len(1) have "length as = 1" unfolding as(1) by simp
  then obtain b where b: "as = [b]" by (cases as) auto
  have "fst (run_steps demo_codeact ag1 [st1]) = [Inr (Some b)]" using as(2) [of "[st1]"] by (simp add: b)
  with r as(1) b show ?thesis by blast
qed

section \<open>The agent and the controller\<close>

text \<open>
  The agent as the agent of a controller: it keeps the confirmation mode and the statistics if the client does, so the
  properties of the controller hold for it; and a call it cannot read becomes an error observation for the model.
\<close>

lemma get_view_mode: "get_view st = (r, st1) \<Longrightarrow> confirmation_mode st1 = confirmation_mode st"
  by (auto simp: get_view_def Let_def split: sum.splits option.splits if_splits)

lemma codeact_keeps:
  assumes "ag_step env = codeact_step cenv"
    and client: "\<And>ms l st r l' st'. ce_complete cenv ms l st = (r, l', st') \<Longrightarrow> confirmation_mode st' = confirmation_mode st"
  shows "keeps_mode env"
proof -
  have ask: "confirmation_mode st' = confirmation_mode st" if "ask_model cenv w ag st = (r, ag', st')" for w ag st r ag' st'
    using that
    by (auto simp: ask_model_def write_back_def split: sum.splits prod.splits dest!: client)
  have "confirmation_mode st' = confirmation_mode st" if "codeact_step cenv ag st = (r, ag', st')" for ag st r ag' st'
    using that
    by (auto simp: codeact_step_def Let_def dest!: get_view_mode ask
        split: list.splits prod.splits sum.splits condensed.splits if_splits)
  then show ?thesis unfolding keeps_mode_def assms(1) by (metis prod.collapse)
qed

end
