(* ===== verification/Apollos_Database.thy ===== *)
theory Apollos_Database
  imports Prelude
begin

text \<open>
  The database of the Apollos layer (\<open>src/apollosai/storage/models\<close>): one record per mapped class with the
  columns the code reads or writes, the tables as lists of rows, and the constraints the classes declare. A
  query is a filter or a join over the rows of the transaction.

  The database itself is a parameter: \<open>accepts\<close> says which contents it lets a transaction commit. What a
  property needs of it is \<open>enforces_schema\<close>: accepted contents satisfy the declared constraints.
  The other parameters are the environment variables, the text form of identifiers, and the libraries for
  tokens, message digests and encryption.
\<close>

type_synonym uuid = nat

section \<open>Rows\<close>

record role_row =
  rl_id :: int
  rl_name :: string
  rl_rank :: int

record user_row =
  us_id :: uuid
  us_entra_oid :: string
  us_email :: "string option"
  us_display_name :: "string option"
  us_current_org :: "uuid option"
  us_current_team :: "uuid option"

record org_row =
  og_id :: uuid
  og_name :: string
  og_llm_model :: "string option"
  og_llm_base_url :: "string option"
  og_max_iterations :: "int option"
  og_agent :: "string option"

record team_row =
  te_id :: uuid
  te_org :: uuid
  te_name :: string
  te_llm_model :: "string option"
  te_llm_base_url :: "string option"
  te_max_iterations :: "int option"

record org_membership =
  om_org :: uuid
  om_user :: uuid
  om_role :: int
  om_status :: string

record team_membership =
  tm_team :: uuid
  tm_user :: uuid
  tm_role :: int
  tm_llm_model :: "string option"
  tm_max_iterations :: "int option"

record api_key =
  ak_id :: uuid
  ak_user :: uuid
  ak_org :: uuid
  ak_name :: string
  ak_prefix :: string
  ak_hash :: string
  ak_salt :: string
  ak_active :: bool

record revoked_token =
  rt_jti :: string
  rt_revoked_at :: rat
  rt_expires_at :: rat

record auth_token =
  at_id :: uuid
  at_user :: uuid
  at_cache :: string

record encrypted_secret =
  sc_id :: uuid
  sc_user :: uuid
  sc_org :: uuid
  sc_key :: string
  sc_value :: string

record conversation_row =
  cv_id :: string
  cv_user :: uuid
  cv_org :: uuid
  cv_title :: "string option"
  cv_meta :: "jdict option"
  cv_deleted_at :: "rat option"
  cv_created_at :: rat
  cv_updated_at :: rat

record mcp_server =
  mc_id :: uuid
  mc_user :: uuid
  mc_org :: uuid
  mc_name :: string
  mc_type :: string
  mc_config :: string
  mc_enabled :: bool
  mc_description :: "string option"
  mc_approved :: bool
  mc_created_at :: rat

record audit_log =
  au_id :: uuid
  au_actor :: "uuid option"
  au_org :: uuid
  au_action :: string
  au_resource_type :: string
  au_resource_id :: string
  au_details :: "jdict option"
  au_ip :: "string option"
  au_created_at :: rat

record integration_config =
  ic_id :: uuid
  ic_org :: uuid
  ic_type :: string
  ic_enabled :: bool

record server_session =
  ss_id :: string
  ss_data :: "jdict option"
  ss_expires_at :: rat

record db =
  db_roles :: "role_row list"
  db_users :: "user_row list"
  db_orgs :: "org_row list"
  db_teams :: "team_row list"
  db_memberships :: "org_membership list"
  db_team_memberships :: "team_membership list"
  db_api_keys :: "api_key list"
  db_revoked :: "revoked_token list"
  db_auth_tokens :: "auth_token list"
  db_secrets :: "encrypted_secret list"
  db_conversations :: "conversation_row list"
  db_mcp_servers :: "mcp_server list"
  db_audit :: "audit_log list"
  db_integrations :: "integration_config list"
  db_sessions :: "server_session list"

section \<open>Declared constraints\<close>

text \<open>Primary keys and unique columns\<close>

definition keys_ok :: "db \<Rightarrow> bool" where
  "keys_ok d \<longleftrightarrow>
     distinct (map rl_id (db_roles d)) \<and> distinct (map rl_name (db_roles d)) \<and>
     distinct (map us_id (db_users d)) \<and> distinct (map us_entra_oid (db_users d)) \<and>
     distinct (map og_id (db_orgs d)) \<and> distinct (map og_name (db_orgs d)) \<and>
     distinct (map te_id (db_teams d)) \<and> distinct (map (\<lambda>t. (te_org t, te_name t)) (db_teams d)) \<and>
     distinct (map (\<lambda>m. (om_org m, om_user m)) (db_memberships d)) \<and>
     distinct (map (\<lambda>m. (tm_team m, tm_user m)) (db_team_memberships d)) \<and>
     distinct (map ak_id (db_api_keys d)) \<and> distinct (map rt_jti (db_revoked d)) \<and>
     distinct (map at_id (db_auth_tokens d)) \<and> distinct (map at_user (db_auth_tokens d)) \<and>
     distinct (map sc_id (db_secrets d)) \<and>
     distinct (map (\<lambda>s. (sc_user s, sc_org s, sc_key s)) (db_secrets d)) \<and>
     distinct (map cv_id (db_conversations d)) \<and> distinct (map mc_id (db_mcp_servers d)) \<and>
     distinct (map au_id (db_audit d)) \<and> distinct (map ic_id (db_integrations d)) \<and>
     distinct (map (\<lambda>c. (ic_org c, ic_type c)) (db_integrations d)) \<and> distinct (map ss_id (db_sessions d))"

text \<open>Foreign keys\<close>

definition references_ok :: "db \<Rightarrow> bool" where
  "references_ok d \<longleftrightarrow>
     (let roles = rl_id ` set (db_roles d); users = us_id ` set (db_users d);
          orgs = og_id ` set (db_orgs d); teams = te_id ` set (db_teams d)
      in (\<forall>u \<in> set (db_users d). set_option (us_current_org u) \<subseteq> orgs \<and> set_option (us_current_team u) \<subseteq> teams) \<and>
         (\<forall>t \<in> set (db_teams d). te_org t \<in> orgs) \<and>
         (\<forall>m \<in> set (db_memberships d). om_org m \<in> orgs \<and> om_user m \<in> users \<and> om_role m \<in> roles) \<and>
         (\<forall>m \<in> set (db_team_memberships d). tm_team m \<in> teams \<and> tm_user m \<in> users \<and> tm_role m \<in> roles) \<and>
         (\<forall>k \<in> set (db_api_keys d). ak_user k \<in> users \<and> ak_org k \<in> orgs) \<and>
         (\<forall>t \<in> set (db_auth_tokens d). at_user t \<in> users) \<and>
         (\<forall>s \<in> set (db_secrets d). sc_user s \<in> users \<and> sc_org s \<in> orgs) \<and>
         (\<forall>c \<in> set (db_conversations d). cv_user c \<in> users \<and> cv_org c \<in> orgs) \<and>
         (\<forall>s \<in> set (db_mcp_servers d). mc_user s \<in> users \<and> mc_org s \<in> orgs) \<and>
         (\<forall>a \<in> set (db_audit d). set_option (au_actor a) \<subseteq> users \<and> au_org a \<in> orgs) \<and>
         (\<forall>c \<in> set (db_integrations d). ic_org c \<in> orgs))"

definition schema_ok :: "db \<Rightarrow> bool" where
  "schema_ok d \<longleftrightarrow> keys_ok d \<and> references_ok d"

section \<open>The world around\<close>

text \<open>
  \<open>accepts\<close>: the database; \<open>getenv\<close>: the process environment; \<open>parse_uuid\<close>, \<open>str_uuid\<close>: \<open>uuid.UUID\<close> and \<open>str\<close> of
  it; \<open>jwt_encode\<close>, \<open>jwt_decode\<close> (payload or token, secret): the token library with HS256 and the audience of the
  application; \<open>hmac_hex\<close> (key, message); \<open>hkdf\<close> (master secret, salt source), \<open>aes_encrypt\<close>, \<open>aes_decrypt\<close> (key,
  nonce, data, associated data), \<open>b64encode\<close>, \<open>b64decode\<close>: the pieces of \<open>encrypt_utils\<close>; \<open>json_dumps\<close>, \<open>json_loads\<close>,
  \<open>shlex_split\<close>.
\<close>

record apollos_env =
  accepts :: "db \<Rightarrow> bool"
  getenv :: "string \<Rightarrow> string option"
  parse_uuid :: "string \<Rightarrow> uuid option"
  str_uuid :: "uuid \<Rightarrow> string"
  jwt_encode :: "jdict \<Rightarrow> string \<Rightarrow> string"
  jwt_decode :: "string \<Rightarrow> string \<Rightarrow> string + jdict"
  hmac_hex :: "string \<Rightarrow> string \<Rightarrow> string"
  hkdf :: "string \<Rightarrow> string \<Rightarrow> string"
  aes_encrypt :: "string \<Rightarrow> string \<Rightarrow> string \<Rightarrow> string option \<Rightarrow> string"
  aes_decrypt :: "string \<Rightarrow> string \<Rightarrow> string \<Rightarrow> string option \<Rightarrow> string option"
  b64encode :: "string \<Rightarrow> string"
  b64decode :: "string \<Rightarrow> string option"
  json_dumps :: "json \<Rightarrow> string"
  json_loads :: "string \<Rightarrow> json option"
  shlex_split :: "string \<Rightarrow> string list option"

definition enforces_schema :: "apollos_env \<Rightarrow> bool" where
  "enforces_schema env \<longleftrightarrow> (\<forall>d. accepts env d \<longrightarrow> schema_ok d)"

datatype api_error =
    NoCredentialsError string
  | InvalidTokenError string
  | PermissionDeniedError string
  | IntegrityError
  | MultipleResultsFound
  | PyValueError string
  | PyPermissionError string
  | PyFileNotFoundError string
  | LibraryError string

text \<open>A response: the status and the body\<close>

datatype reply = Reply (status: int) (body: json)

abbreviation ok :: "jdict \<Rightarrow> reply" where
  "ok b \<equiv> Reply 200 (JDict b)"

abbreviation failure :: "int \<Rightarrow> string \<Rightarrow> reply" where
  "failure n msg \<equiv> Reply n (JDict [(''error'', JStr msg)])"

section \<open>Transactions\<close>

text \<open>
  \<open>get_db_session\<close>: what a handler has added becomes visible when the database accepts it; an exception rolls
  back to what was there before. All handlers commit at most once.
\<close>

type_synonym 'a tx = "(api_error + 'a) \<times> db"

definition commit :: "apollos_env \<Rightarrow> db \<Rightarrow> db \<Rightarrow> 'a \<Rightarrow> 'a tx" where
  "commit env d d' r = (if accepts env d' then (Inr r, d') else (Inl IntegrityError, d))"

definition with_result :: "api_error + 'a \<Rightarrow> db \<Rightarrow> ('a \<Rightarrow> 'b tx) \<Rightarrow> 'b tx" where
  "with_result r d f = (case r of Inl e \<Rightarrow> (Inl e, d) | Inr x \<Rightarrow> f x)"

text \<open>\<open>scalar_one_or_none\<close>, \<open>one_or_none\<close>\<close>

definition one_or_none :: "'a list \<Rightarrow> api_error + 'a option" where
  "one_or_none xs =
     (case xs of [] \<Rightarrow> Inr None | [x] \<Rightarrow> Inr (Some x) | _ \<Rightarrow> Inl MultipleResultsFound)"

text \<open>An environment variable read as a switch\<close>

definition truthy_env :: "apollos_env \<Rightarrow> string \<Rightarrow> bool" where
  "truthy_env env name =
     (str_lower (case getenv env name of None \<Rightarrow> [] | Some s \<Rightarrow> s) \<in> {''1'', ''true'', ''yes''})"

definition opt_str :: "string option \<Rightarrow> json" where
  "opt_str s = (case s of None \<Rightarrow> JNull | Some t \<Rightarrow> JStr t)"

section \<open>Lemmas\<close>

lemma commit_cases:
  "commit env d d' r = (res, e) \<Longrightarrow> (accepts env d' \<and> res = Inr r \<and> e = d') \<or> (res = Inl IntegrityError \<and> e = d)"
  by (auto simp: commit_def split: if_splits)

lemma snd_commit: "snd (commit env d d' r) = (if accepts env d' then d' else d)"
  by (simp add: commit_def)

lemma snd_with_result: "snd (with_result r d f) = (case r of Inl e \<Rightarrow> d | Inr x \<Rightarrow> snd (f x))"
  by (simp add: with_result_def split: sum.splits)

lemma one_or_none_Some: "one_or_none xs = Inr (Some x) \<longleftrightarrow> xs = [x]"
  by (auto simp: one_or_none_def split: list.splits)

lemma one_or_none_None: "one_or_none xs = Inr None \<longleftrightarrow> xs = []"
  by (auto simp: one_or_none_def split: list.splits)

lemma filter_key_length:
  "distinct (map f xs) \<Longrightarrow> length (filter (\<lambda>x. f x = k) xs) \<le> 1"
  by (induction xs) (auto simp: filter_empty_conv image_iff)

lemma filter_key_one:
  assumes "distinct (map f xs)"
  shows "filter (\<lambda>x. f x = k) xs = [] \<or> (\<exists>x \<in> set xs. f x = k \<and> filter (\<lambda>x. f x = k) xs = [x])"
proof -
  have "length (filter (\<lambda>x. f x = k) xs) \<le> 1" using filter_key_length [OF assms] .
  then consider "filter (\<lambda>x. f x = k) xs = []" | x where "filter (\<lambda>x. f x = k) xs = [x]"
    by (cases "filter (\<lambda>x. f x = k) xs") (auto simp: le_Suc_eq)
  then show ?thesis
  proof cases
    case (2 x)
    then have "set (filter (\<lambda>x. f x = k) xs) = {x}" by simp
    then show ?thesis using 2 unfolding set_filter by blast
  qed simp
qed

lemma find_key_Some:
  "distinct (map f xs) \<Longrightarrow> find (\<lambda>x. f x = k) xs = Some x \<longleftrightarrow> x \<in> set xs \<and> f x = k"
  by (induction xs) auto

lemma found_row: "find P xs = Some x \<Longrightarrow> x \<in> set xs \<and> P x"
  by (induction xs) (auto split: if_splits)

end
