(* ===== verification/Apollos_Auth.thy ===== *)
theory Apollos_Auth
  imports Apollos_Database
begin

text \<open>
  Who a request comes from and what he may do: session tokens (\<open>server/auth/jwt_utils.py\<close>), their revocation
  (\<open>storage/services/token_revocation_service.py\<close>), the identity of a request (\<open>server/auth/entraid_auth.py\<close>), the
  roles (\<open>server/auth/rbac.py\<close>), the logout route, and the sessions kept in the database
  (\<open>server/middleware/db_session_middleware.py\<close>).
\<close>

section \<open>Tokens\<close>

definition MIN_SECRET_LENGTH :: nat where
  "MIN_SECRET_LENGTH = 32"

definition env_str :: "apollos_env \<Rightarrow> string \<Rightarrow> string" where
  "env_str env name = (case getenv env name of None \<Rightarrow> [] | Some s \<Rightarrow> s)"

definition get_jwt_secret :: "apollos_env \<Rightarrow> string" where
  "get_jwt_secret env = env_str env ''JWT_SECRET''"

definition get_validated_secret :: "apollos_env \<Rightarrow> api_error + string" where
  "get_validated_secret env =
     (let secret = get_jwt_secret env
      in if secret = [] then Inl (PyValueError ''JWT_SECRET environment variable is required'')
         else if length secret < MIN_SECRET_LENGTH
         then Inl (PyValueError (''JWT_SECRET must be at least '' @ show_int (int MIN_SECRET_LENGTH) @ '' characters (got ''
                @ show_int (int (length secret)) @ ''). Use a cryptographically random string.''))
         else Inr secret)"

text \<open>\<open>create_session_token\<close>; the time and the random \<open>jti\<close> are arguments\<close>

definition create_session_token ::
    "apollos_env \<Rightarrow> rat \<Rightarrow> uuid \<Rightarrow> string \<Rightarrow> string \<Rightarrow> string \<Rightarrow> int \<Rightarrow> api_error + string" where
  "create_session_token env now jti user_id email entra_oid expires_in =
     map_sum (\<lambda>e. e)
       (jwt_encode env
         [(''sub'', JStr user_id), (''email'', JStr email), (''entra_oid'', JStr entra_oid),
          (''aud'', JStr ''apollosai''), (''iat'', JFloat now), (''exp'', JFloat (now + of_int expires_in)),
          (''jti'', JStr (str_uuid env jti))])
       (get_validated_secret env)"

text \<open>The claims that are required, in the order they are checked\<close>

fun check_claims :: "string list \<Rightarrow> jdict \<Rightarrow> api_error + jdict" where
  "check_claims [] payload = Inr payload"
| "check_claims (c # cs) payload =
     (case map_of payload c of
        Some (JStr _) \<Rightarrow> check_claims cs payload
      | _ \<Rightarrow> Inl (LibraryError (''Missing or invalid required claim: '' @ c)))"

definition decode_session_token :: "apollos_env \<Rightarrow> string \<Rightarrow> api_error + jdict" where
  "decode_session_token env token =
     (case get_validated_secret env of
        Inl e \<Rightarrow> Inl e
      | Inr secret \<Rightarrow>
          (case jwt_decode env token secret of
             Inl msg \<Rightarrow> Inl (LibraryError msg)
           | Inr payload \<Rightarrow> check_claims [''sub'', ''email'', ''entra_oid''] payload))"

definition is_token_revoked :: "db \<Rightarrow> string \<Rightarrow> bool" where
  "is_token_revoked d jti \<longleftrightarrow> find (\<lambda>r. rt_jti r = jti) (db_revoked d) \<noteq> None"

definition revoke_token :: "apollos_env \<Rightarrow> rat \<Rightarrow> string \<Rightarrow> rat \<Rightarrow> db \<Rightarrow> unit tx" where
  "revoke_token env now jti expires_at d =
     (if is_token_revoked d jti then (Inr (), d)
      else commit env d
             (d\<lparr>db_revoked := db_revoked d @ [\<lparr>rt_jti = jti, rt_revoked_at = now, rt_expires_at = expires_at\<rparr>]\<rparr>) ())"

text \<open>\<open>validate_session_token\<close>; a claim \<open>jti\<close> that is not a text is never a key of the table\<close>

definition validate_session_token :: "apollos_env \<Rightarrow> string \<Rightarrow> db \<Rightarrow> api_error + jdict" where
  "validate_session_token env token d =
     (case decode_session_token env token of
        Inl e \<Rightarrow> Inl e
      | Inr payload \<Rightarrow>
          (case map_of payload ''jti'' of
             Some (JStr jti) \<Rightarrow>
               if is_token_revoked d jti
               then Inl (LibraryError (''Token has been revoked (jti='' @ jti @ '')'')) else Inr payload
           | _ \<Rightarrow> Inr payload))"

section \<open>The identity of a request\<close>

record http_request =
  rq_cookies :: "(string \<times> string) list"
  rq_headers :: "(string \<times> string) list"
  rq_base_url :: string

record entra_user =
  eu_user_id :: "string option"
  eu_email :: "string option"

definition claim_str :: "jdict \<Rightarrow> string \<Rightarrow> string option" where
  "claim_str payload c = (case map_of payload c of Some (JStr s) \<Rightarrow> Some s | _ \<Rightarrow> None)"

text \<open>The token: the cookie, or else the bearer token\<close>

definition request_token :: "http_request \<Rightarrow> string" where
  "request_token rq =
     (let cookie = (case map_of (rq_cookies rq) ''apollosai_auth'' of None \<Rightarrow> [] | Some t \<Rightarrow> t);
          header = (case map_of (rq_headers rq) ''authorization'' of None \<Rightarrow> [] | Some h \<Rightarrow> h)
      in if cookie \<noteq> [] then cookie
         else if str_startswith header ''Bearer '' then drop 7 header else cookie)"

text \<open>\<open>EntraIDUserAuth.get_instance\<close>\<close>

definition get_instance :: "apollos_env \<Rightarrow> http_request \<Rightarrow> api_error + entra_user" where
  "get_instance env rq =
     (let token = request_token rq
      in if token \<noteq> []
         then (case decode_session_token env token of
                 Inl _ \<Rightarrow> Inl (InvalidTokenError ''Invalid or expired authentication token.'')
               | Inr payload \<Rightarrow> Inr \<lparr>eu_user_id = claim_str payload ''sub'', eu_email = claim_str payload ''email''\<rparr>)
         else if truthy_env env ''APOLLOSAI_ALLOW_UNAUTHENTICATED''
         then Inr \<lparr>eu_user_id = None, eu_email = None\<rparr>
         else Inl (NoCredentialsError ''Authentication required. Provide a session cookie or Bearer token.''))"

section \<open>Roles\<close>

record authed_user =
  pu_user_id :: uuid
  pu_email :: "string option"
  pu_org_id :: "uuid option"
  pu_role_name :: "string option"
  pu_role_rank :: "int option"

definition DEV_MODE_USER_ID :: uuid where
  "DEV_MODE_USER_ID = 0"

definition mk_authed :: "uuid \<Rightarrow> string option \<Rightarrow> authed_user" where
  "mk_authed i email =
     \<lparr>pu_user_id = i, pu_email = email, pu_org_id = None, pu_role_name = None, pu_role_rank = None\<rparr>"

definition require_auth :: "apollos_env \<Rightarrow> http_request \<Rightarrow> api_error + authed_user" where
  "require_auth env rq =
     (case get_instance env rq of
        Inl e \<Rightarrow> Inl e
      | Inr a \<Rightarrow>
          (case eu_user_id a of
             Some (c # cs) \<Rightarrow>
               (case parse_uuid env (c # cs) of
                  None \<Rightarrow> Inl (PyValueError ''badly formed hexadecimal UUID string'')
                | Some i \<Rightarrow> Inr (mk_authed i (eu_email a)))
           | _ \<Rightarrow>
               if truthy_env env ''APOLLOSAI_ALLOW_UNAUTHENTICATED''
               then Inr (mk_authed DEV_MODE_USER_ID (Some ''dev@localhost''))
               else Inl (NoCredentialsError ''No user_id in auth context'')))"

definition ROLE_RANKS :: "(string \<times> int) list" where
  "ROLE_RANKS = [(''owner'', 0), (''admin'', 1), (''manager'', 2), (''member'', 3)]"

definition rank_for :: "string \<Rightarrow> int" where
  "rank_for r = (case map_of ROLE_RANKS r of None \<Rightarrow> 3 | Some n \<Rightarrow> n)"

text \<open>The join of memberships and roles that all checks use\<close>

definition member_rows :: "db \<Rightarrow> uuid \<Rightarrow> uuid \<Rightarrow> (org_membership \<times> role_row) list" where
  "member_rows d org user =
     concat (map (\<lambda>m. map (Pair m) (filter (\<lambda>r. rl_id r = om_role m) (db_roles d)))
       (filter (\<lambda>m. (om_org m, om_user m) = (org, user)) (db_memberships d)))"

text \<open>\<open>_check_org_role\<close> of the team routes, and the same check inside \<open>require_role\<close>\<close>

definition check_org_role :: "db \<Rightarrow> uuid \<Rightarrow> uuid \<Rightarrow> string \<Rightarrow> api_error + role_row" where
  "check_org_role d user org min_role =
     (case one_or_none (member_rows d org user) of
        Inl e \<Rightarrow> Inl e
      | Inr None \<Rightarrow> Inl (PermissionDeniedError ''Not a member of this organization'')
      | Inr (Some (_, role)) \<Rightarrow>
          if rl_rank role > rank_for min_role
          then Inl (PermissionDeniedError (''Requires '' @ min_role @ '' role (rank '' @ show_int (rank_for min_role) @
                 ''), you have '' @ rl_name role @ '' (rank '' @ show_int (rl_rank role) @ '')''))
          else Inr role)"

definition require_role :: "apollos_env \<Rightarrow> string \<Rightarrow> uuid \<Rightarrow> http_request \<Rightarrow> db \<Rightarrow> api_error + authed_user" where
  "require_role env min_role org rq d =
     (case require_auth env rq of
        Inl e \<Rightarrow> Inl e
      | Inr user \<Rightarrow>
          map_sum (\<lambda>e. e)
            (\<lambda>role. user\<lparr>pu_org_id := Some org, pu_role_name := Some (rl_name role), pu_role_rank := Some (rl_rank role)\<rparr>)
            (check_org_role d (pu_user_id user) org min_role))"

section \<open>Logout\<close>

definition hex_char :: "nat \<Rightarrow> char" where
  "hex_char n = ''0123456789ABCDEF'' ! n"

definition utf8 :: "char \<Rightarrow> nat list" where
  "utf8 c = (let n = of_char c in if n < 128 then [n] else [192 + n div 64, 128 + n mod 64])"

text \<open>\<open>urllib.parse.quote\<close> with nothing safe\<close>

definition quote_all :: "string \<Rightarrow> string" where
  "quote_all s =
     concat (map (\<lambda>c. let n = (of_char c :: nat) in
       if (65 \<le> n \<and> n \<le> 90) \<or> (97 \<le> n \<and> n \<le> 122) \<or> (48 \<le> n \<and> n \<le> 57) \<or> c \<in> set ''_.-~'' then [c]
       else concat (map (\<lambda>b. [CHR ''%'', hex_char (b div 16), hex_char (b mod 16)]) (utf8 c))) s)"

definition rstrip_slash :: "string \<Rightarrow> string" where
  "rstrip_slash s = rev (dropWhile (\<lambda>c. c = CHR ''/'') (rev s))"

definition signout_url :: "apollos_env \<Rightarrow> http_request \<Rightarrow> string" where
  "signout_url env rq =
     ''https://login.microsoftonline.com/'' @ env_str env ''ENTRA_TENANT_ID'' @
     ''/oauth2/v2.0/logout?post_logout_redirect_uri='' @ quote_all (rstrip_slash (rq_base_url rq))"

definition claim_time :: "jdict \<Rightarrow> rat option" where
  "claim_time payload = (case map_of payload ''exp'' of Some (JInt n) \<Rightarrow> Some (of_int n) | Some (JFloat x) \<Rightarrow> Some x | _ \<Rightarrow> None)"

text \<open>\<open>logout\<close>: errors of the token are swallowed; the cookie is deleted by the client\<close>

definition logout :: "apollos_env \<Rightarrow> rat \<Rightarrow> http_request \<Rightarrow> db \<Rightarrow> reply tx" where
  "logout env now rq d =
     (let d' = (case map_of (rq_cookies rq) ''apollosai_auth'' of
                  Some (c # cs) \<Rightarrow>
                    (case decode_session_token env (c # cs) of
                       Inl _ \<Rightarrow> d
                     | Inr payload \<Rightarrow>
                         (case (claim_str payload ''jti'', claim_time payload) of
                            (Some (j # js), Some t) \<Rightarrow> snd (revoke_token env now (j # js) t d)
                          | _ \<Rightarrow> d))
                | _ \<Rightarrow> d)
      in (Inr (ok [(''status'', JStr ''logged_out''), (''signout_url'', JStr (signout_url env rq))]), d'))"

section \<open>Sessions in the database\<close>

text \<open>The session of a request: its id and data, and whether the id is new; an expired row is deleted\<close>

definition load_session :: "apollos_env \<Rightarrow> rat \<Rightarrow> string \<Rightarrow> string option \<Rightarrow> db \<Rightarrow> (string \<times> jdict \<times> bool) tx" where
  "load_session env now new_id cookie d =
     (case cookie of
        Some (c # cs) \<Rightarrow>
          (case find (\<lambda>r. ss_id r = c # cs) (db_sessions d) of
             None \<Rightarrow> (Inr (c # cs, [], False), d)
           | Some row \<Rightarrow>
               if ss_expires_at row > now
               then (Inr (c # cs, (case ss_data row of None \<Rightarrow> [] | Some x \<Rightarrow> x), False), d)
               else commit env d (d\<lparr>db_sessions := filter (\<lambda>r. ss_id r \<noteq> c # cs) (db_sessions d)\<rparr>) (new_id, [], True))
      | _ \<Rightarrow> (Inr (new_id, [], True), d))"

definition save_session :: "apollos_env \<Rightarrow> rat \<Rightarrow> rat \<Rightarrow> string \<Rightarrow> jdict \<Rightarrow> db \<Rightarrow> unit tx" where
  "save_session env now max_age sid data d =
     (let t = now + max_age
      in commit env d
        (if find (\<lambda>r. ss_id r = sid) (db_sessions d) \<noteq> None
         then d\<lparr>db_sessions := map (\<lambda>r. if ss_id r = sid then r\<lparr>ss_data := Some data, ss_expires_at := t\<rparr> else r) (db_sessions d)\<rparr>
         else d\<lparr>db_sessions := db_sessions d @ [\<lparr>ss_id = sid, ss_data = Some data, ss_expires_at = t\<rparr>]\<rparr>) ())"

definition cleanup_expired :: "apollos_env \<Rightarrow> rat \<Rightarrow> db \<Rightarrow> db" where
  "cleanup_expired env now d =
     snd (commit env d
       (d\<lparr>db_sessions := filter (\<lambda>r. \<not> ss_expires_at r < now) (db_sessions d),
          db_revoked := filter (\<lambda>r. \<not> rt_expires_at r < now) (db_revoked d)\<rparr>) ())"

section \<open>The access matrix\<close>

text \<open>What a member may do in an organization, read off the tables\<close>

definition member_role :: "db \<Rightarrow> uuid \<Rightarrow> uuid \<Rightarrow> role_row option" where
  "member_role d org user = (case member_rows d org user of [] \<Rightarrow> None | (_, r) # _ \<Rightarrow> Some r)"

definition has_rank :: "db \<Rightarrow> uuid \<Rightarrow> uuid \<Rightarrow> int \<Rightarrow> bool" where
  "has_rank d org user n \<longleftrightarrow> (case member_role d org user of None \<Rightarrow> False | Some r \<Rightarrow> rl_rank r \<le> n)"

lemma check_org_role_Inr:
  assumes "check_org_role d user org min_role = Inr role"
  shows "member_role d org user = Some role" "has_rank d org user (rank_for min_role)"
  using assms by (auto simp: check_org_role_def member_role_def has_rank_def one_or_none_Some
      split: sum.splits option.splits prod.splits if_splits)

lemma require_role_Inr:
  assumes "require_role env min_role org rq d = Inr u"
  obtains u0 where "require_auth env rq = Inr u0" "pu_user_id u = pu_user_id u0"
    "has_rank d org (pu_user_id u) (rank_for min_role)"
proof -
  obtain u0 role where u0: "require_auth env rq = Inr u0" "check_org_role d (pu_user_id u0) org min_role = Inr role"
      "u = u0\<lparr>pu_org_id := Some org, pu_role_name := Some (rl_name role), pu_role_rank := Some (rl_rank role)\<rparr>"
    using assms by (cases "require_auth env rq"; cases "check_org_role d (pu_user_id (projr (require_auth env rq))) org min_role")
      (auto simp: require_role_def)
  then show thesis using that check_org_role_Inr(2) by auto
qed

end
