(* ===== verification/Apollos_Orgs.thy ===== *)
theory Apollos_Orgs
  imports Apollos_Auth
begin

text \<open>
  Organizations, their members and teams: \<open>server/routes/orgs.py\<close>, \<open>server/routes/teams.py\<close>, the request bodies
  of \<open>server/routes/models.py\<close> and the creation of users at login (\<open>storage/services/user_service.py\<close>).
  New identifiers are arguments.
\<close>

section \<open>Request bodies\<close>

text \<open>The pattern of names: letters, digits, white space, hyphen and underscore, one to a hundred\<close>

definition name_char :: "char \<Rightarrow> bool" where
  "name_char c \<longleftrightarrow>
     (let n = (of_char c :: nat)
      in (97 \<le> n \<and> n \<le> 122) \<or> (65 \<le> n \<and> n \<le> 90) \<or> (48 \<le> n \<and> n \<le> 57) \<or> (9 \<le> n \<and> n \<le> 13) \<or>
         n \<in> {32, 133, 160, 45, 95})"

definition valid_name :: "string \<Rightarrow> bool" where
  "valid_name s \<longleftrightarrow> 1 \<le> length s \<and> length s \<le> 100 \<and> list_all name_char s"

definition valid_org_role :: "string \<Rightarrow> bool" where
  "valid_org_role r \<longleftrightarrow> r \<in> {''owner'', ''admin'', ''manager'', ''member''}"

definition valid_team_role :: "string \<Rightarrow> bool" where
  "valid_team_role r \<longleftrightarrow> r \<in> {''admin'', ''manager'', ''member''}"

section \<open>Shared steps\<close>

definition mk_org :: "uuid \<Rightarrow> string \<Rightarrow> org_row" where
  "mk_org i name =
     \<lparr>og_id = i, og_name = name, og_llm_model = None, og_llm_base_url = None, og_max_iterations = None, og_agent = None\<rparr>"

definition mk_membership :: "uuid \<Rightarrow> uuid \<Rightarrow> int \<Rightarrow> org_membership" where
  "mk_membership org user role = \<lparr>om_org = org, om_user = user, om_role = role, om_status = ''active''\<rparr>"

text \<open>The role with a name, added with a rank when it is missing\<close>

definition get_or_create_role :: "int \<Rightarrow> string \<Rightarrow> int \<Rightarrow> db \<Rightarrow> api_error + role_row \<times> db" where
  "get_or_create_role new_id name rank d =
     (case one_or_none (filter (\<lambda>r. rl_name r = name) (db_roles d)) of
        Inl e \<Rightarrow> Inl e
      | Inr (Some r) \<Rightarrow> Inr (r, d)
      | Inr None \<Rightarrow>
          let r = \<lparr>rl_id = new_id, rl_name = name, rl_rank = rank\<rparr>
          in Inr (r, d\<lparr>db_roles := db_roles d @ [r]\<rparr>))"

definition org_response :: "apollos_env \<Rightarrow> uuid \<Rightarrow> string \<Rightarrow> jdict" where
  "org_response env i name = [(''id'', JStr (str_uuid env i)), (''name'', JStr name)]"

definition member_response :: "apollos_env \<Rightarrow> uuid \<Rightarrow> string option \<Rightarrow> role_row \<Rightarrow> jdict" where
  "member_response env user email r =
     [(''user_id'', JStr (str_uuid env user)), (''email'', opt_str email),
      (''role_name'', JStr (rl_name r)), (''role_rank'', JInt (rl_rank r))]"

definition team_response :: "apollos_env \<Rightarrow> team_row \<Rightarrow> jdict" where
  "team_response env t =
     [(''id'', JStr (str_uuid env (te_id t))), (''name'', JStr (te_name t)), (''org_id'', JStr (str_uuid env (te_org t)))]"

section \<open>Organizations\<close>

definition create_org :: "apollos_env \<Rightarrow> uuid \<Rightarrow> int \<Rightarrow> http_request \<Rightarrow> string \<Rightarrow> db \<Rightarrow> reply tx" where
  "create_org env new_id role_id rq name d =
     with_result (require_auth env rq) d (\<lambda>user.
     with_result (get_or_create_role role_id ''owner'' 0 d) d (\<lambda>(role, d1).
       commit env d
         (d1\<lparr>db_orgs := db_orgs d1 @ [mk_org new_id name],
             db_memberships := db_memberships d1 @ [mk_membership new_id (pu_user_id user) (rl_id role)]\<rparr>)
         (ok (org_response env new_id name))))"

definition list_orgs :: "apollos_env \<Rightarrow> http_request \<Rightarrow> db \<Rightarrow> api_error + reply" where
  "list_orgs env rq d =
     map_sum (\<lambda>e. e)
       (\<lambda>user. Reply 200 (JList (map (\<lambda>o'. JDict (org_response env (og_id o') (og_name o')))
          (concat (map (\<lambda>o'. map (\<lambda>_. o')
             (filter (\<lambda>m. om_org m = og_id o' \<and> om_user m = pu_user_id user) (db_memberships d))) (db_orgs d))))))
       (require_auth env rq)"

definition rename_org :: "uuid \<Rightarrow> string \<Rightarrow> db \<Rightarrow> db" where
  "rename_org org name d =
     d\<lparr>db_orgs := map (\<lambda>o'. if og_id o' = org then o'\<lparr>og_name := name\<rparr> else o') (db_orgs d)\<rparr>"

definition update_org :: "apollos_env \<Rightarrow> http_request \<Rightarrow> uuid \<Rightarrow> string option \<Rightarrow> db \<Rightarrow> reply tx" where
  "update_org env rq org name d =
     with_result (require_role env ''admin'' org rq d) d (\<lambda>user.
       case find (\<lambda>o'. og_id o' = org) (db_orgs d) of
         None \<Rightarrow> (Inr (failure 404 ''Organization not found''), d)
       | Some o' \<Rightarrow>
           (case name of
              None \<Rightarrow> commit env d d (ok (org_response env org (og_name o')))
            | Some n \<Rightarrow> commit env d (rename_org org n d) (ok (org_response env org n))))"

definition remove_org :: "uuid \<Rightarrow> db \<Rightarrow> db" where
  "remove_org org d =
     d\<lparr>db_memberships := filter (\<lambda>m. om_org m \<noteq> org) (db_memberships d),
       db_users := map (\<lambda>u. if us_current_org u = Some org then u\<lparr>us_current_org := None\<rparr> else u) (db_users d),
       db_orgs := filter (\<lambda>o'. og_id o' \<noteq> org) (db_orgs d)\<rparr>"

definition delete_org :: "apollos_env \<Rightarrow> http_request \<Rightarrow> uuid \<Rightarrow> db \<Rightarrow> reply tx" where
  "delete_org env rq org d =
     with_result (require_role env ''owner'' org rq d) d (\<lambda>user.
       case find (\<lambda>o'. og_id o' = org) (db_orgs d) of
         None \<Rightarrow> (Inr (failure 404 ''Organization not found''), d)
       | Some _ \<Rightarrow> commit env d (remove_org org d) (ok [(''status'', JStr ''deleted'')]))"

section \<open>Members\<close>

text \<open>\<open>add_member\<close>; a role that is not a key of the ranks is refused by the pattern of the body\<close>

definition add_member :: "apollos_env \<Rightarrow> int \<Rightarrow> http_request \<Rightarrow> uuid \<Rightarrow> uuid \<Rightarrow> string \<Rightarrow> db \<Rightarrow> reply tx" where
  "add_member env role_id rq org target role_name d =
     with_result (require_role env ''admin'' org rq d) d (\<lambda>user.
       case find (\<lambda>u. us_id u = target) (db_users d) of
         None \<Rightarrow> (Inr (failure 404 ''User not found''), d)
       | Some target_user \<Rightarrow>
           with_result (one_or_none (filter (\<lambda>m. (om_org m, om_user m) = (org, target)) (db_memberships d))) d (\<lambda>existing.
             if existing \<noteq> None then (Inr (failure 409 ''User already a member''), d)
             else with_result (get_or_create_role role_id role_name (rank_for role_name) d) d (\<lambda>(role, d1).
                    commit env d
                      (d1\<lparr>db_memberships := db_memberships d1 @ [mk_membership org target (rl_id role)]\<rparr>)
                      (ok (member_response env target (us_email target_user) role)))))"

definition list_members :: "apollos_env \<Rightarrow> http_request \<Rightarrow> uuid \<Rightarrow> db \<Rightarrow> api_error + reply" where
  "list_members env rq org d =
     map_sum (\<lambda>e. e)
       (\<lambda>user. Reply 200 (JList
          (concat (map (\<lambda>m. concat (map (\<lambda>r. map (\<lambda>u. JDict (member_response env (om_user m) (us_email u) r))
               (filter (\<lambda>u. us_id u = om_user m) (db_users d)))
             (filter (\<lambda>r. rl_id r = om_role m) (db_roles d))))
           (filter (\<lambda>m. om_org m = org) (db_memberships d))))))
       (require_role env ''member'' org rq d)"

text \<open>The owners of an organization: the join that \<open>remove_member\<close> counts\<close>

definition owner_rows :: "db \<Rightarrow> uuid \<Rightarrow> org_membership list" where
  "owner_rows d org =
     concat (map (\<lambda>m. map (\<lambda>_. m) (filter (\<lambda>r. rl_id r = om_role m \<and> rl_name r = ''owner'') (db_roles d)))
       (filter (\<lambda>m. om_org m = org) (db_memberships d)))"

definition drop_membership :: "uuid \<Rightarrow> uuid \<Rightarrow> db \<Rightarrow> db" where
  "drop_membership org user d =
     d\<lparr>db_memberships := filter (\<lambda>m. (om_org m, om_user m) \<noteq> (org, user)) (db_memberships d)\<rparr>"

definition remove_member :: "apollos_env \<Rightarrow> http_request \<Rightarrow> uuid \<Rightarrow> uuid \<Rightarrow> db \<Rightarrow> reply tx" where
  "remove_member env rq org member d =
     with_result (require_role env ''admin'' org rq d) d (\<lambda>user.
     with_result (one_or_none (filter (\<lambda>m. (om_org m, om_user m) = (org, member)) (db_memberships d))) d (\<lambda>found.
       case found of
         None \<Rightarrow> (Inr (failure 404 ''Membership not found''), d)
       | Some m \<Rightarrow>
           (let is_owner = (case find (\<lambda>r. rl_id r = om_role m) (db_roles d) of
                              None \<Rightarrow> False | Some r \<Rightarrow> rl_name r = ''owner'')
            in if is_owner \<and> length (owner_rows d org) \<le> 1
               then (Inl (PermissionDeniedError ''Cannot remove the last owner from an organization''), d)
               else commit env d (drop_membership org member d) (ok [(''status'', JStr ''removed'')]))))"

section \<open>Teams\<close>

definition create_team :: "apollos_env \<Rightarrow> uuid \<Rightarrow> http_request \<Rightarrow> uuid \<Rightarrow> string \<Rightarrow> db \<Rightarrow> reply tx" where
  "create_team env new_id rq org name d =
     with_result (require_auth env rq) d (\<lambda>user.
     with_result (check_org_role d (pu_user_id user) org ''admin'') d (\<lambda>_.
       let t = \<lparr>te_id = new_id, te_org = org, te_name = name, te_llm_model = None, te_llm_base_url = None,
                te_max_iterations = None\<rparr>
       in commit env d (d\<lparr>db_teams := db_teams d @ [t]\<rparr>) (ok (team_response env t))))"

definition list_teams :: "apollos_env \<Rightarrow> http_request \<Rightarrow> uuid \<Rightarrow> db \<Rightarrow> api_error + reply" where
  "list_teams env rq org d =
     map_sum (\<lambda>e. e)
       (\<lambda>user. Reply 200 (JList (map (\<lambda>t. JDict (team_response env t)) (filter (\<lambda>t. te_org t = org) (db_teams d)))))
       (require_role env ''member'' org rq d)"

text \<open>The team of a request and the check of the role in its organization\<close>

definition with_team ::
    "apollos_env \<Rightarrow> http_request \<Rightarrow> uuid \<Rightarrow> string \<Rightarrow> db \<Rightarrow> (team_row \<Rightarrow> reply tx) \<Rightarrow> reply tx" where
  "with_team env rq team min_role d f =
     with_result (require_auth env rq) d (\<lambda>user.
       case find (\<lambda>t. te_id t = team) (db_teams d) of
         None \<Rightarrow> (Inr (failure 404 ''Team not found''), d)
       | Some t \<Rightarrow> with_result (check_org_role d (pu_user_id user) (te_org t) min_role) d (\<lambda>_. f t))"

definition rename_team :: "uuid \<Rightarrow> string \<Rightarrow> db \<Rightarrow> db" where
  "rename_team team name d =
     d\<lparr>db_teams := map (\<lambda>t. if te_id t = team then t\<lparr>te_name := name\<rparr> else t) (db_teams d)\<rparr>"

definition update_team :: "apollos_env \<Rightarrow> http_request \<Rightarrow> uuid \<Rightarrow> string option \<Rightarrow> db \<Rightarrow> reply tx" where
  "update_team env rq team name d =
     with_team env rq team ''admin'' d (\<lambda>t.
       case name of
         None \<Rightarrow> commit env d d (ok (team_response env t))
       | Some n \<Rightarrow> commit env d (rename_team team n d) (ok (team_response env (t\<lparr>te_name := n\<rparr>))))"

definition remove_team :: "uuid \<Rightarrow> db \<Rightarrow> db" where
  "remove_team team d =
     d\<lparr>db_team_memberships := filter (\<lambda>m. tm_team m \<noteq> team) (db_team_memberships d),
       db_users := map (\<lambda>u. if us_current_team u = Some team then u\<lparr>us_current_team := None\<rparr> else u) (db_users d),
       db_teams := filter (\<lambda>t. te_id t \<noteq> team) (db_teams d)\<rparr>"

definition delete_team :: "apollos_env \<Rightarrow> http_request \<Rightarrow> uuid \<Rightarrow> db \<Rightarrow> reply tx" where
  "delete_team env rq team d =
     with_team env rq team ''admin'' d (\<lambda>_. commit env d (remove_team team d) (ok [(''status'', JStr ''deleted'')]))"

definition add_team_member :: "apollos_env \<Rightarrow> int \<Rightarrow> http_request \<Rightarrow> uuid \<Rightarrow> uuid \<Rightarrow> string \<Rightarrow> db \<Rightarrow> reply tx" where
  "add_team_member env role_id rq team target role_name d =
     with_team env rq team ''manager'' d (\<lambda>_.
       case find (\<lambda>u. us_id u = target) (db_users d) of
         None \<Rightarrow> (Inr (failure 404 ''User not found''), d)
       | Some _ \<Rightarrow>
           with_result (one_or_none (filter (\<lambda>m. (tm_team m, tm_user m) = (team, target)) (db_team_memberships d))) d
             (\<lambda>existing.
               if existing \<noteq> None then (Inr (failure 409 ''User already a team member''), d)
               else with_result (get_or_create_role role_id role_name (rank_for role_name) d) d (\<lambda>(role, d1).
                      commit env d
                        (d1\<lparr>db_team_memberships := db_team_memberships d1 @
                              [\<lparr>tm_team = team, tm_user = target, tm_role = rl_id role, tm_llm_model = None,
                                tm_max_iterations = None\<rparr>]\<rparr>)
                        (ok [(''user_id'', JStr (str_uuid env target)), (''role'', JStr (rl_name role))]))))"

definition list_team_members :: "apollos_env \<Rightarrow> http_request \<Rightarrow> uuid \<Rightarrow> db \<Rightarrow> reply tx" where
  "list_team_members env rq team d =
     with_team env rq team ''member'' d (\<lambda>_.
       (Inr (Reply 200 (JList
          (concat (map (\<lambda>m. concat (map (\<lambda>r. map (\<lambda>u. JDict (member_response env (tm_user m) (us_email u) r))
               (filter (\<lambda>u. us_id u = tm_user m) (db_users d)))
             (filter (\<lambda>r. rl_id r = tm_role m) (db_roles d))))
           (filter (\<lambda>m. tm_team m = team) (db_team_memberships d)))))), d))"

section \<open>Users\<close>

text \<open>\<open>upsert_user_on_login\<close>; the suffix of the organization's name is random\<close>

definition refresh_user :: "uuid \<Rightarrow> string \<Rightarrow> string option \<Rightarrow> db \<Rightarrow> db" where
  "refresh_user i email display d =
     d\<lparr>db_users := map (\<lambda>u. if us_id u = i
         then u\<lparr>us_email := Some email,
                us_display_name := (case display of Some (c # cs) \<Rightarrow> Some (c # cs) | _ \<Rightarrow> us_display_name u)\<rparr>
         else u) (db_users d)\<rparr>"

definition upsert_user_on_login ::
    "apollos_env \<Rightarrow> uuid \<Rightarrow> string \<Rightarrow> uuid \<Rightarrow> int \<Rightarrow> string \<Rightarrow> string \<Rightarrow> string option \<Rightarrow> db \<Rightarrow> uuid tx" where
  "upsert_user_on_login env org_id suffix user_id role_id oid email display d =
     with_result (one_or_none (filter (\<lambda>u. us_entra_oid u = oid) (db_users d))) d (\<lambda>found.
       case found of
         Some u \<Rightarrow> commit env d (refresh_user (us_id u) email display d) (us_id u)
       | None \<Rightarrow>
           with_result (get_or_create_role role_id ''owner'' 0 d) d (\<lambda>(role, d1).
             commit env d
               (d1\<lparr>db_orgs := db_orgs d1 @ [mk_org org_id (email @ ''-workspace-'' @ suffix)],
                   db_users := db_users d1 @ [\<lparr>us_id = user_id, us_entra_oid = oid, us_email = Some email,
                     us_display_name = display, us_current_org = Some org_id, us_current_team = None\<rparr>],
                   db_memberships := db_memberships d1 @ [mk_membership org_id user_id (rl_id role)]\<rparr>)
               user_id))"

end
