(* ===== verification/Apollos_Keys.thy ===== *)
theory Apollos_Keys
  imports Apollos_Orgs
begin

text \<open>
  Keys and user-defined servers: encryption at rest (\<open>storage/encrypt_utils.py\<close>), the cache of provider tokens
  (\<open>storage/services/token_cache_service.py\<close>), API keys (\<open>storage/services/api_key_service.py\<close>,
  \<open>server/routes/api_keys.py\<close>) and the MCP servers of a user (\<open>server/routes/mcp.py\<close>, \<open>mcp/config.py\<close>).
\<close>

section \<open>Encryption\<close>

text \<open>\<open>_get_key\<close>: the derived key; it is cached, and the environment does not change\<close>

definition get_key :: "apollos_env \<Rightarrow> api_error + string" where
  "get_key env =
     (let master = env_str env ''APOLLOSAI_ENCRYPTION_KEY'';
          salt_source = (case getenv env ''DATABASE_URL'' of None \<Rightarrow> ''apollosai-default-deployment'' | Some s \<Rightarrow> s)
      in if master = [] then Inl (PyValueError ''APOLLOSAI_ENCRYPTION_KEY environment variable is required'')
         else Inr (hkdf env master salt_source))"

text \<open>Empty associated data is no associated data\<close>

definition aad_bytes :: "string option \<Rightarrow> string option" where
  "aad_bytes aad = (case aad of Some (c # cs) \<Rightarrow> Some (c # cs) | _ \<Rightarrow> None)"

definition encrypt_value :: "apollos_env \<Rightarrow> string \<Rightarrow> string \<Rightarrow> string option \<Rightarrow> api_error + string" where
  "encrypt_value env nonce v aad =
     map_sum (\<lambda>e. e) (\<lambda>key. b64encode env (nonce @ aes_encrypt env key nonce v (aad_bytes aad))) (get_key env)"

definition decrypt_value :: "apollos_env \<Rightarrow> string \<Rightarrow> string option \<Rightarrow> api_error + string" where
  "decrypt_value env v aad =
     (case get_key env of
        Inl e \<Rightarrow> Inl e
      | Inr key \<Rightarrow>
          (case b64decode env v of
             None \<Rightarrow> Inl (LibraryError ''Invalid base64-encoded string'')
           | Some raw \<Rightarrow>
               (case aes_decrypt env key (take 12 raw) (drop 12 raw) (aad_bytes aad) of
                  None \<Rightarrow> Inl (LibraryError ''InvalidTag'')
                | Some v' \<Rightarrow> Inr v')))"

text \<open>What the libraries promise: the base64 and the cipher can be undone, the latter only with the same data\<close>

definition cipher_ok :: "apollos_env \<Rightarrow> bool" where
  "cipher_ok env \<longleftrightarrow>
     (\<forall>s. b64decode env (b64encode env s) = Some s) \<and>
     (\<forall>k n v a. aes_decrypt env k n (aes_encrypt env k n v a) a = Some v) \<and>
     (\<forall>k n v a b. a \<noteq> b \<longrightarrow> aes_decrypt env k n (aes_encrypt env k n v a) b = None)"

section \<open>Provider tokens\<close>

definition save_token_cache :: "apollos_env \<Rightarrow> string \<Rightarrow> uuid \<Rightarrow> string \<Rightarrow> db \<Rightarrow> unit tx" where
  "save_token_cache env nonce user cache d =
     with_result (encrypt_value env nonce cache (Some (str_uuid env user))) d (\<lambda>enc.
       commit env d
         (if find (\<lambda>t. at_id t = user) (db_auth_tokens d) \<noteq> None
          then d\<lparr>db_auth_tokens := map (\<lambda>t. if at_id t = user then t\<lparr>at_cache := enc\<rparr> else t) (db_auth_tokens d)\<rparr>
          else d\<lparr>db_auth_tokens := db_auth_tokens d @ [\<lparr>at_id = user, at_user = user, at_cache = enc\<rparr>]\<rparr>) ())"

definition load_token_cache :: "apollos_env \<Rightarrow> uuid \<Rightarrow> db \<Rightarrow> api_error + string option" where
  "load_token_cache env user d =
     (case find (\<lambda>t. at_id t = user) (db_auth_tokens d) of
        None \<Rightarrow> Inr None
      | Some t \<Rightarrow> map_sum (\<lambda>e. e) Some (decrypt_value env (at_cache t) (Some (str_uuid env user))))"

section \<open>API keys\<close>

definition PREFIX_LEN :: nat where
  "PREFIX_LEN = 8"

definition key_prefix :: "string \<Rightarrow> string" where
  "key_prefix token = ''sk-aai-'' @ take PREFIX_LEN token"

text \<open>\<open>create_api_key\<close>; the token and the salt are random\<close>

definition create_api_key ::
    "apollos_env \<Rightarrow> uuid \<Rightarrow> string \<Rightarrow> string \<Rightarrow> uuid \<Rightarrow> uuid \<Rightarrow> string \<Rightarrow> db \<Rightarrow> (string \<times> api_key) tx" where
  "create_api_key env new_id token salt user org name d =
     (let raw_key = ''sk-aai-'' @ token;
          record = \<lparr>ak_id = new_id, ak_user = user, ak_org = org, ak_name = name, ak_prefix = key_prefix token,
                    ak_hash = hmac_hex env salt raw_key, ak_salt = salt, ak_active = True\<rparr>
      in commit env d (d\<lparr>db_api_keys := db_api_keys d @ [record]\<rparr>) (raw_key, record))"

definition verify_api_key :: "apollos_env \<Rightarrow> string \<Rightarrow> db \<Rightarrow> api_key option" where
  "verify_api_key env raw_key d =
     (if \<not> str_startswith raw_key ''sk-aai-'' then None
      else (let prefix = key_prefix (drop 7 raw_key);
                candidates = filter (\<lambda>k. ak_prefix k = prefix \<and> ak_active k) (db_api_keys d)
            in find (\<lambda>k. hmac_hex env (ak_salt k) raw_key = ak_hash k) candidates))"

definition list_api_keys :: "uuid \<Rightarrow> uuid \<Rightarrow> db \<Rightarrow> api_key list" where
  "list_api_keys user org d = filter (\<lambda>k. ak_user k = user \<and> ak_org k = org \<and> ak_active k) (db_api_keys d)"

definition deactivate_key :: "uuid \<Rightarrow> db \<Rightarrow> db" where
  "deactivate_key i d = d\<lparr>db_api_keys := map (\<lambda>k. if ak_id k = i then k\<lparr>ak_active := False\<rparr> else k) (db_api_keys d)\<rparr>"

definition revoke_api_key :: "apollos_env \<Rightarrow> uuid \<Rightarrow> uuid \<Rightarrow> db \<Rightarrow> unit tx" where
  "revoke_api_key env key_id user d =
     (case find (\<lambda>k. ak_id k = key_id) (db_api_keys d) of
        None \<Rightarrow> (Inl (PyValueError (''API key '' @ str_uuid env key_id @ '' not found'')), d)
      | Some k \<Rightarrow>
          if ak_user k \<noteq> user then (Inl (PyPermissionError ''Cannot revoke another user's API key''), d)
          else commit env d (deactivate_key key_id d) ())"

text \<open>The routes\<close>

definition key_fields :: "apollos_env \<Rightarrow> api_key \<Rightarrow> jdict" where
  "key_fields env k =
     [(''id'', JStr (str_uuid env (ak_id k))), (''name'', JStr (ak_name k)), (''prefix'', JStr (ak_prefix k))]"

definition valid_key_name :: "string \<Rightarrow> bool" where
  "valid_key_name s \<longleftrightarrow> 1 \<le> length s \<and> length s \<le> 100"

definition create_key ::
    "apollos_env \<Rightarrow> uuid \<Rightarrow> string \<Rightarrow> string \<Rightarrow> http_request \<Rightarrow> uuid \<Rightarrow> string \<Rightarrow> db \<Rightarrow> reply tx" where
  "create_key env new_id token salt rq org name d =
     with_result (require_role env ''member'' org rq d) d (\<lambda>user.
       (case create_api_key env new_id token salt (pu_user_id user) org name d of
          (Inl e, d') \<Rightarrow> (Inl e, d')
        | (Inr (raw_key, k), d') \<Rightarrow> (Inr (ok ((''key'', JStr raw_key) # key_fields env k)), d')))"

definition list_keys :: "apollos_env \<Rightarrow> http_request \<Rightarrow> uuid \<Rightarrow> db \<Rightarrow> api_error + api_key list" where
  "list_keys env rq org d =
     map_sum (\<lambda>e. e) (\<lambda>user. list_api_keys (pu_user_id user) org d) (require_role env ''member'' org rq d)"

definition delete_key :: "apollos_env \<Rightarrow> http_request \<Rightarrow> uuid \<Rightarrow> uuid \<Rightarrow> db \<Rightarrow> reply tx" where
  "delete_key env rq org key_id d =
     with_result (require_role env ''member'' org rq d) d (\<lambda>user.
       (case revoke_api_key env key_id (pu_user_id user) d of
          (Inl (PyValueError _), d') \<Rightarrow> (Inr (failure 404 ''Key not found''), d')
        | (Inl (PyPermissionError _), d') \<Rightarrow> (Inr (failure 403 ''Cannot revoke another user's key''), d')
        | (Inl e, d') \<Rightarrow> (Inl e, d')
        | (Inr _, d') \<Rightarrow> (Inr (ok [(''status'', JStr ''revoked'')]), d')))"

section \<open>MCP servers\<close>

definition valid_server_type :: "string \<Rightarrow> bool" where
  "valid_server_type s \<longleftrightarrow> s \<in> {''stdio'', ''sse'', ''shttp''}"

definition server_response :: "apollos_env \<Rightarrow> mcp_server \<Rightarrow> jdict" where
  "server_response env s =
     [(''id'', JStr (str_uuid env (mc_id s))), (''name'', JStr (mc_name s)), (''server_type'', JStr (mc_type s)),
      (''enabled'', JBool (mc_enabled s)), (''approved'', JBool (mc_approved s)),
      (''description'', opt_str (mc_description s)), (''created_at'', JFloat (mc_created_at s))]"

text \<open>The configuration is stored as it is when there is no key.\<close>

definition seal_config :: "apollos_env \<Rightarrow> string \<Rightarrow> jdict \<Rightarrow> string" where
  "seal_config env nonce cfg =
     (let plaintext = json_dumps env (JDict cfg)
      in case encrypt_value env nonce plaintext None of Inl _ \<Rightarrow> plaintext | Inr enc \<Rightarrow> enc)"

definition list_mcp_servers :: "apollos_env \<Rightarrow> http_request \<Rightarrow> uuid \<Rightarrow> db \<Rightarrow> api_error + reply" where
  "list_mcp_servers env rq org d =
     map_sum (\<lambda>e. e)
       (\<lambda>user. Reply 200 (JList (map (\<lambda>s. JDict (server_response env s))
          (filter (\<lambda>s. mc_user s = pu_user_id user \<and> mc_org s = org) (db_mcp_servers d)))))
       (require_role env ''member'' org rq d)"

definition create_mcp_server ::
    "apollos_env \<Rightarrow> uuid \<Rightarrow> rat \<Rightarrow> string \<Rightarrow> http_request \<Rightarrow> uuid \<Rightarrow> string \<Rightarrow> string \<Rightarrow> jdict \<Rightarrow> string option \<Rightarrow> db \<Rightarrow>
     reply tx" where
  "create_mcp_server env new_id now nonce rq org name ty cfg descr d =
     with_result (require_role env ''member'' org rq d) d (\<lambda>user.
       let s = \<lparr>mc_id = new_id, mc_user = pu_user_id user, mc_org = org, mc_name = name, mc_type = ty,
                mc_config = seal_config env nonce cfg, mc_enabled = True, mc_description = descr, mc_approved = False,
                mc_created_at = now\<rparr>
       in commit env d (d\<lparr>db_mcp_servers := db_mcp_servers d @ [s]\<rparr>) (ok (server_response env s)))"

record server_update =
  su_name :: "string option"
  su_config :: "jdict option"
  su_enabled :: "bool option"
  su_description :: "string option"

definition apply_update :: "apollos_env \<Rightarrow> string \<Rightarrow> server_update \<Rightarrow> mcp_server \<Rightarrow> mcp_server" where
  "apply_update env nonce b s =
     s\<lparr>mc_name := (case su_name b of None \<Rightarrow> mc_name s | Some n \<Rightarrow> n),
       mc_config := (case su_config b of None \<Rightarrow> mc_config s | Some c \<Rightarrow> seal_config env nonce c),
       mc_enabled := (case su_enabled b of None \<Rightarrow> mc_enabled s | Some x \<Rightarrow> x),
       mc_description := (case su_description b of None \<Rightarrow> mc_description s | Some x \<Rightarrow> Some x)\<rparr>"

definition own_servers :: "uuid \<Rightarrow> uuid \<Rightarrow> uuid \<Rightarrow> db \<Rightarrow> mcp_server list" where
  "own_servers i user org d =
     filter (\<lambda>s. mc_id s = i \<and> mc_user s = user \<and> mc_org s = org) (db_mcp_servers d)"

definition update_mcp_server ::
    "apollos_env \<Rightarrow> string \<Rightarrow> http_request \<Rightarrow> uuid \<Rightarrow> uuid \<Rightarrow> server_update \<Rightarrow> db \<Rightarrow> reply tx" where
  "update_mcp_server env nonce rq org i b d =
     with_result (require_role env ''member'' org rq d) d (\<lambda>user.
     with_result (one_or_none (own_servers i (pu_user_id user) org d)) d (\<lambda>found.
       case found of
         None \<Rightarrow> (Inr (failure 404 ''MCP server not found''), d)
       | Some s \<Rightarrow>
           commit env d
             (d\<lparr>db_mcp_servers := map (\<lambda>x. if mc_id x = i then apply_update env nonce b x else x) (db_mcp_servers d)\<rparr>)
             (ok (server_response env (apply_update env nonce b s)))))"

definition delete_mcp_server :: "apollos_env \<Rightarrow> http_request \<Rightarrow> uuid \<Rightarrow> uuid \<Rightarrow> db \<Rightarrow> reply tx" where
  "delete_mcp_server env rq org i d =
     with_result (require_role env ''member'' org rq d) d (\<lambda>user.
     with_result (one_or_none (own_servers i (pu_user_id user) org d)) d (\<lambda>found.
       case found of
         None \<Rightarrow> (Inr (failure 404 ''MCP server not found''), d)
       | Some s \<Rightarrow>
           commit env d (d\<lparr>db_mcp_servers := filter (\<lambda>x. mc_id x \<noteq> i) (db_mcp_servers d)\<rparr>)
             (ok [(''status'', JStr ''deleted'')])))"

section \<open>The servers a conversation gets\<close>

record stdio_server =
  sv_name :: string
  sv_command :: string
  sv_args :: "string list"
  sv_env :: "(string \<times> string) list"

definition open_config :: "apollos_env \<Rightarrow> string \<Rightarrow> json option" where
  "open_config env s = json_loads env (case decrypt_value env s None of Inl _ \<Rightarrow> s | Inr t \<Rightarrow> t)"

text \<open>The validators of \<open>MCPStdioServerConfig\<close>; \<^const>\<open>None\<close> when one raises\<close>

definition word_char :: "char \<Rightarrow> bool" where
  "word_char c \<longleftrightarrow>
     (let n = (of_char c :: nat) in (97 \<le> n \<and> n \<le> 122) \<or> (65 \<le> n \<and> n \<le> 90) \<or> (48 \<le> n \<and> n \<le> 57) \<or> c = CHR ''_'')"

definition validate_server_name :: "string \<Rightarrow> string option" where
  "validate_server_name v =
     (let w = str_strip v in if w \<noteq> [] \<and> list_all (\<lambda>c. word_char c \<or> c = CHR ''-'') w then Some w else None)"

definition validate_command :: "json \<Rightarrow> string option" where
  "validate_command v =
     (case v of
        JStr s \<Rightarrow> (let w = str_strip s in if w = [] \<or> CHR '' '' \<in> set w then None else Some w)
      | _ \<Rightarrow> None)"

fun json_strings :: "json list \<Rightarrow> string list option" where
  "json_strings [] = Some []"
| "json_strings (JStr s # js) = map_option ((#) s) (json_strings js)"
| "json_strings (j # js) = None"

definition json_falsy :: "json \<Rightarrow> bool" where
  "json_falsy v \<longleftrightarrow> v \<in> {JNull, JBool False, JInt 0, JFloat 0, JStr [], JList [], JDict []}"

definition parse_args :: "apollos_env \<Rightarrow> json \<Rightarrow> string list option" where
  "parse_args env v =
     (case v of
        JStr s \<Rightarrow> if str_strip s = [] then Some [] else shlex_split env (str_strip s)
      | JList js \<Rightarrow> json_strings js
      | _ \<Rightarrow> if json_falsy v then Some [] else None)"

text \<open>One \<open>KEY=VALUE\<close> pair\<close>

definition parse_pair :: "string \<Rightarrow> (string \<times> string) option" where
  "parse_pair pair =
     (if CHR ''='' \<notin> set pair then None
      else (let key = str_strip (takeWhile (\<lambda>c. c \<noteq> CHR ''='') pair);
                v = tl (dropWhile (\<lambda>c. c \<noteq> CHR ''='') pair)
            in case key of
                 [] \<Rightarrow> None
               | c # cs \<Rightarrow>
                   if word_char c \<and> c \<notin> set ''0123456789'' \<and> list_all word_char cs then Some (key, v) else None))"

fun parse_pairs :: "string list \<Rightarrow> (string \<times> string) list \<Rightarrow> (string \<times> string) list option" where
  "parse_pairs [] env = Some env"
| "parse_pairs (p # ps) env =
     (if str_strip p = [] then parse_pairs ps env
      else case parse_pair (str_strip p) of
             None \<Rightarrow> None
           | Some (k, v) \<Rightarrow> parse_pairs ps (alist_set k v env))"

definition parse_env :: "json \<Rightarrow> (string \<times> string) list option" where
  "parse_env v =
     (case v of
        JStr s \<Rightarrow> if str_strip s = [] then Some [] else parse_pairs (str_split CHR '','' s) []
      | JDict d \<Rightarrow> map_option (zip (map fst d)) (json_strings (map snd d))
      | _ \<Rightarrow> if json_falsy v then Some [] else None)"

definition jget :: "jdict \<Rightarrow> string \<Rightarrow> json \<Rightarrow> json" where
  "jget d k dflt = (case map_of d k of None \<Rightarrow> dflt | Some v \<Rightarrow> v)"

definition stdio_config :: "apollos_env \<Rightarrow> string \<Rightarrow> jdict \<Rightarrow> stdio_server option" where
  "stdio_config env name cfg =
     (case (validate_server_name name, validate_command (jget cfg ''command'' (JStr [])),
            parse_args env (jget cfg ''args'' (JList [])), parse_env (jget cfg ''env'' (JDict []))) of
        (Some n, Some c, Some a, Some e) \<Rightarrow> Some \<lparr>sv_name = n, sv_command = c, sv_args = a, sv_env = e\<rparr>
      | _ \<Rightarrow> None)"

text \<open>
  The loop of \<open>_load_user_servers\<close>: a configuration that is not JSON is skipped; one that is not a dictionary, or that
  the validators refuse, raises, which ends the loop and keeps what was collected.
\<close>

fun load_servers :: "apollos_env \<Rightarrow> mcp_server list \<Rightarrow> stdio_server list" where
  "load_servers env [] = []"
| "load_servers env (s # ss) =
     (if mc_type s \<noteq> ''stdio'' then load_servers env ss
      else case open_config env (mc_config s) of
             None \<Rightarrow> load_servers env ss
           | Some (JDict cfg) \<Rightarrow>
               (case stdio_config env (mc_name s) cfg of None \<Rightarrow> [] | Some sv \<Rightarrow> sv # load_servers env ss)
           | Some _ \<Rightarrow> [])"

definition load_user_servers :: "apollos_env \<Rightarrow> string \<Rightarrow> db \<Rightarrow> stdio_server list" where
  "load_user_servers env user_id d =
     (case parse_uuid env user_id of
        None \<Rightarrow> []
      | Some u \<Rightarrow> load_servers env
          (filter (\<lambda>s. mc_user s = u \<and> mc_enabled s \<and> mc_approved s) (db_mcp_servers d)))"

text \<open>
  \<open>create_default_mcp_server_config\<close> with its cache of entries per user (\<open>shttp\<close> of the first call and the user's
  servers); which entries the cache still has is its state. \<open>shttp\<close> and \<open>stdio\<close> come from the parent class.
\<close>

type_synonym 's mcp_cache = "(string \<times> 's option \<times> stdio_server list) list"

definition default_mcp_config ::
    "apollos_env \<Rightarrow> 's option \<Rightarrow> stdio_server list \<Rightarrow> string option \<Rightarrow> db \<Rightarrow> 's mcp_cache \<Rightarrow>
     ('s option \<times> stdio_server list) \<times> 's mcp_cache" where
  "default_mcp_config env shttp stdio user_id d cache =
     (case user_id of
        None \<Rightarrow> ((shttp, stdio), cache)
      | Some u \<Rightarrow>
          (case map_of cache u of
             Some (h, own) \<Rightarrow> ((h, stdio @ own), cache)
           | None \<Rightarrow>
               let own = load_user_servers env u d
               in ((shttp, stdio @ own), alist_set u (shttp, own) cache)))"

definition invalidate_mcp_cache :: "string \<Rightarrow> 's mcp_cache \<Rightarrow> 's mcp_cache" where
  "invalidate_mcp_cache user_id cache = alist_del user_id cache"

end
