(* ===== verification/Apollos_Stores.thy ===== *)
theory Apollos_Stores
  imports Apollos_Keys
begin

text \<open>
  The stores that replace the file-based ones of the base server: settings resolved over organization, team and user
  (\<open>storage/stores/settings_store.py\<close>), encrypted secrets (\<open>secrets_store.py\<close>), conversations
  (\<open>conversation_store.py\<close>), and the audit log (\<open>monitoring/audit.py\<close>, \<open>server/routes/admin.py\<close>).
  A store has the id of its user; without a database it answers with defaults.
\<close>

section \<open>Settings\<close>

text \<open>The fields the layer sets; the rest of the settings is the extension of the record\<close>

record settings =
  sg_llm_model :: "string option"
  sg_llm_base_url :: "string option"
  sg_max_iterations :: "int option"
  sg_agent :: "string option"

text \<open>\<open>if x: d[k] = x\<close>: an empty text and zero do not override\<close>

definition set_str :: "string option \<Rightarrow> string option \<Rightarrow> string option" where
  "set_str x old = (case x of Some (c # cs) \<Rightarrow> Some (c # cs) | _ \<Rightarrow> old)"

definition set_int :: "int option \<Rightarrow> int option \<Rightarrow> int option" where
  "set_int x old = (case x of Some n \<Rightarrow> if n \<noteq> 0 then Some n else old | None \<Rightarrow> old)"

definition org_layer :: "org_row \<Rightarrow> 'a settings_scheme \<Rightarrow> 'a settings_scheme" where
  "org_layer o' s =
     s\<lparr>sg_llm_model := set_str (og_llm_model o') (sg_llm_model s),
       sg_llm_base_url := set_str (og_llm_base_url o') (sg_llm_base_url s),
       sg_max_iterations := set_int (og_max_iterations o') (sg_max_iterations s),
       sg_agent := set_str (og_agent o') (sg_agent s)\<rparr>"

definition team_layer :: "team_row \<Rightarrow> 'a settings_scheme \<Rightarrow> 'a settings_scheme" where
  "team_layer t s =
     s\<lparr>sg_llm_model := set_str (te_llm_model t) (sg_llm_model s),
       sg_llm_base_url := set_str (te_llm_base_url t) (sg_llm_base_url s),
       sg_max_iterations := set_int (te_max_iterations t) (sg_max_iterations s)\<rparr>"

definition user_layer :: "team_membership \<Rightarrow> 'a settings_scheme \<Rightarrow> 'a settings_scheme" where
  "user_layer m s =
     s\<lparr>sg_llm_model := set_str (tm_llm_model m) (sg_llm_model s),
       sg_max_iterations := set_int (tm_max_iterations m) (sg_max_iterations s)\<rparr>"

definition layer :: "('r \<Rightarrow> 's \<Rightarrow> 's) \<Rightarrow> 'r option \<Rightarrow> 's \<Rightarrow> 's" where
  "layer f r s = (case r of None \<Rightarrow> s | Some x \<Rightarrow> f x s)"

definition team_member_rows :: "db \<Rightarrow> uuid \<Rightarrow> uuid \<Rightarrow> team_membership list" where
  "team_member_rows d team user = filter (\<lambda>m. (tm_team m, tm_user m) = (team, user)) (db_team_memberships d)"

text \<open>The user's membership in his current team\<close>

definition current_membership :: "db \<Rightarrow> user_row \<Rightarrow> api_error + team_membership option" where
  "current_membership d u =
     (case us_current_team u of
        None \<Rightarrow> Inr None
      | Some t \<Rightarrow> one_or_none (team_member_rows d t (us_id u)))"

text \<open>\<open>load\<close>; \<open>base\<close> are the settings of the configuration file, or the defaults\<close>

definition load_settings ::
    "apollos_env \<Rightarrow> bool \<Rightarrow> string option \<Rightarrow> 'a settings_scheme \<Rightarrow> db \<Rightarrow> api_error + 'a settings_scheme" where
  "load_settings env has_db user_id base d =
     (case user_id of
        None \<Rightarrow> Inr base
      | Some s \<Rightarrow>
          if \<not> has_db then Inr base
          else (case parse_uuid env s of
                  None \<Rightarrow> Inl (PyValueError ''badly formed hexadecimal UUID string'')
                | Some i \<Rightarrow>
                    (case find (\<lambda>u. us_id u = i) (db_users d) of
                       None \<Rightarrow> Inr base
                     | Some u \<Rightarrow>
                         let org = Option.bind (us_current_org u) (\<lambda>x. find (\<lambda>r. og_id r = x) (db_orgs d));
                             team = Option.bind (us_current_team u) (\<lambda>x. find (\<lambda>r. te_id r = x) (db_teams d))
                         in map_sum (\<lambda>e. e)
                              (\<lambda>m. layer user_layer m (layer team_layer team (layer org_layer org base)))
                              (current_membership d u))))"

text \<open>\<open>store\<close>: only the membership in the current team is written\<close>

definition store_settings :: "apollos_env \<Rightarrow> bool \<Rightarrow> string option \<Rightarrow> 'a settings_scheme \<Rightarrow> db \<Rightarrow> unit tx" where
  "store_settings env has_db user_id s d =
     (case user_id of
        None \<Rightarrow> (Inr (), d)
      | Some uid \<Rightarrow>
          if \<not> has_db then (Inr (), d)
          else (case parse_uuid env uid of
                  None \<Rightarrow> (Inl (PyValueError ''badly formed hexadecimal UUID string''), d)
                | Some i \<Rightarrow>
                    (case find (\<lambda>u. us_id u = i) (db_users d) of
                       None \<Rightarrow> (Inr (), d)
                     | Some u \<Rightarrow>
                         (case us_current_team u of
                            None \<Rightarrow> (Inr (), d)
                          | Some t \<Rightarrow>
                              with_result (one_or_none (team_member_rows d t (us_id u))) d (\<lambda>found.
                                case found of
                                  None \<Rightarrow> (Inr (), d)
                                | Some m \<Rightarrow>
                                    commit env d
                                      (d\<lparr>db_team_memberships := map (\<lambda>x.
                                          if (tm_team x, tm_user x) = (t, us_id u)
                                          then x\<lparr>tm_llm_model := set_str (sg_llm_model s) (tm_llm_model x),
                                                 tm_max_iterations := set_int (sg_max_iterations s) (tm_max_iterations x)\<rparr>
                                          else x) (db_team_memberships d)\<rparr>) ())))))"

section \<open>Secrets\<close>

definition SECRETS_KEY :: string where
  "SECRETS_KEY = ''__secrets__''"

definition secret_rows :: "uuid \<Rightarrow> uuid \<Rightarrow> db \<Rightarrow> encrypted_secret list" where
  "secret_rows user org d =
     filter (\<lambda>s. (sc_user s, sc_org s, sc_key s) = (user, org, SECRETS_KEY)) (db_secrets d)"

text \<open>\<open>_resolve_org_id\<close> for the parsed id of the user\<close>

definition resolve_org_id :: "uuid \<Rightarrow> db \<Rightarrow> uuid option" where
  "resolve_org_id i d = Option.bind (find (\<lambda>u. us_id u = i) (db_users d)) us_current_org"

definition secret_aad :: "apollos_env \<Rightarrow> string \<Rightarrow> uuid \<Rightarrow> string" where
  "secret_aad env user_id org = user_id @ '':'' @ str_uuid env org"

text \<open>\<open>load\<close>: the fields the secrets are built from; none when nothing is stored\<close>

definition load_secrets :: "apollos_env \<Rightarrow> string \<Rightarrow> db \<Rightarrow> api_error + jdict" where
  "load_secrets env user_id d =
     (case parse_uuid env user_id of
        None \<Rightarrow> Inl (PyValueError ''badly formed hexadecimal UUID string'')
      | Some i \<Rightarrow>
          (case resolve_org_id i d of
             None \<Rightarrow> Inr []
           | Some org \<Rightarrow>
               (case one_or_none (secret_rows i org d) of
                  Inl e \<Rightarrow> Inl e
                | Inr None \<Rightarrow> Inr []
                | Inr (Some r) \<Rightarrow>
                    (case decrypt_value env (sc_value r) (Some (secret_aad env user_id org)) of
                       Inl e \<Rightarrow> Inl e
                     | Inr t \<Rightarrow>
                         (case json_loads env t of
                            Some (JDict x) \<Rightarrow> Inr x
                          | _ \<Rightarrow> Inl (LibraryError ''the stored secrets are not a dictionary''))))))"

definition store_secrets :: "apollos_env \<Rightarrow> uuid \<Rightarrow> string \<Rightarrow> string \<Rightarrow> jdict \<Rightarrow> db \<Rightarrow> unit tx" where
  "store_secrets env new_id nonce user_id x d =
     (case parse_uuid env user_id of
        None \<Rightarrow> (Inl (PyValueError ''badly formed hexadecimal UUID string''), d)
      | Some i \<Rightarrow>
          (case resolve_org_id i d of
             None \<Rightarrow> (Inr (), d)
           | Some org \<Rightarrow>
               with_result (encrypt_value env nonce (json_dumps env (JDict x)) (Some (secret_aad env user_id org))) d (\<lambda>enc.
               with_result (one_or_none (secret_rows i org d)) d (\<lambda>found.
                 commit env d
                   (case found of
                      Some r \<Rightarrow> d\<lparr>db_secrets := map (\<lambda>s. if sc_id s = sc_id r then s\<lparr>sc_value := enc\<rparr> else s) (db_secrets d)\<rparr>
                    | None \<Rightarrow> d\<lparr>db_secrets := db_secrets d @ [\<lparr>sc_id = new_id, sc_user = i, sc_org = org,
                                 sc_key = SECRETS_KEY, sc_value = enc\<rparr>]\<rparr>) ()))))"

section \<open>Conversations\<close>

record conversation_metadata =
  cm_id :: string
  cm_title :: "string option"
  cm_repository :: "string option"
  cm_branch :: "string option"
  cm_llm_model :: "string option"

definition meta_json :: "conversation_metadata \<Rightarrow> jdict" where
  "meta_json m =
     [(''selected_repository'', opt_str (cm_repository m)), (''selected_branch'', opt_str (cm_branch m)),
      (''llm_model'', opt_str (cm_llm_model m))]"

definition get_opt_str :: "jdict \<Rightarrow> string \<Rightarrow> string option" where
  "get_opt_str d k = (case map_of d k of Some (JStr s) \<Rightarrow> Some s | _ \<Rightarrow> None)"

definition row_metadata :: "conversation_row \<Rightarrow> conversation_metadata" where
  "row_metadata c =
     (let j = (case cv_meta c of None \<Rightarrow> [] | Some x \<Rightarrow> x)
      in \<lparr>cm_id = cv_id c, cm_title = cv_title c, cm_repository = get_opt_str j ''selected_repository'',
          cm_branch = get_opt_str j ''selected_branch'', cm_llm_model = get_opt_str j ''llm_model''\<rparr>)"

text \<open>\<open>save_metadata\<close>: a new row takes the id of the user for its organization as well.\<close>

definition save_metadata :: "apollos_env \<Rightarrow> rat \<Rightarrow> string \<Rightarrow> conversation_metadata \<Rightarrow> db \<Rightarrow> unit tx" where
  "save_metadata env now user_id m d =
     (case find (\<lambda>c. cv_id c = cm_id m) (db_conversations d) of
        Some _ \<Rightarrow>
          commit env d
            (d\<lparr>db_conversations := map (\<lambda>c. if cv_id c = cm_id m
                 then c\<lparr>cv_title := cm_title m, cv_meta := Some (meta_json m), cv_updated_at := now\<rparr> else c)
               (db_conversations d)\<rparr>) ()
      | None \<Rightarrow>
          (case parse_uuid env user_id of
             None \<Rightarrow> (Inl (PyValueError ''badly formed hexadecimal UUID string''), d)
           | Some i \<Rightarrow>
               commit env d
                 (d\<lparr>db_conversations := db_conversations d @
                      [\<lparr>cv_id = cm_id m, cv_user = i, cv_org = i, cv_title = cm_title m, cv_meta = Some (meta_json m),
                        cv_deleted_at = None, cv_created_at = now, cv_updated_at = now\<rparr>]\<rparr>) ()))"

definition own_conversations :: "uuid \<Rightarrow> db \<Rightarrow> conversation_row list" where
  "own_conversations i d = filter (\<lambda>c. cv_user c = i \<and> cv_deleted_at c = None) (db_conversations d)"

definition get_metadata :: "apollos_env \<Rightarrow> string \<Rightarrow> string \<Rightarrow> db \<Rightarrow> api_error + conversation_metadata" where
  "get_metadata env user_id cid d =
     (case parse_uuid env user_id of
        None \<Rightarrow> Inl (PyValueError ''badly formed hexadecimal UUID string'')
      | Some i \<Rightarrow>
          (case one_or_none (filter (\<lambda>c. cv_id c = cid) (own_conversations i d)) of
             Inl e \<Rightarrow> Inl e
           | Inr None \<Rightarrow> Inl (PyFileNotFoundError (''Conversation '' @ cid @ '' not found''))
           | Inr (Some c) \<Rightarrow> Inr (row_metadata c)))"

definition delete_metadata :: "apollos_env \<Rightarrow> rat \<Rightarrow> string \<Rightarrow> string \<Rightarrow> db \<Rightarrow> unit tx" where
  "delete_metadata env now user_id cid d =
     (case parse_uuid env user_id of
        None \<Rightarrow> (Inl (PyValueError ''badly formed hexadecimal UUID string''), d)
      | Some i \<Rightarrow>
          with_result (one_or_none (filter (\<lambda>c. cv_id c = cid) (own_conversations i d))) d (\<lambda>found.
            case found of
              None \<Rightarrow> (Inr (), d)
            | Some _ \<Rightarrow>
                commit env d
                  (d\<lparr>db_conversations := map (\<lambda>c. if cv_id c = cid then c\<lparr>cv_deleted_at := Some now, cv_updated_at := now\<rparr> else c)
                     (db_conversations d)\<rparr>) ()))"

definition conversation_exists :: "apollos_env \<Rightarrow> string \<Rightarrow> string \<Rightarrow> db \<Rightarrow> api_error + bool" where
  "conversation_exists env user_id cid d =
     (case parse_uuid env user_id of
        None \<Rightarrow> Inl (PyValueError ''badly formed hexadecimal UUID string'')
      | Some i \<Rightarrow>
          map_sum (\<lambda>e. e) (\<lambda>x. x \<noteq> None) (one_or_none (filter (\<lambda>c. cv_id c = cid) (own_conversations i d))))"

text \<open>\<open>search\<close>: one page, newest first, and the id the next page starts after\<close>

definition search_conversations ::
    "apollos_env \<Rightarrow> string \<Rightarrow> string option \<Rightarrow> nat \<Rightarrow> db \<Rightarrow> api_error + conversation_metadata list \<times> string option" where
  "search_conversations env user_id page_id limit d =
     (case parse_uuid env user_id of
        None \<Rightarrow> Inl (PyValueError ''badly formed hexadecimal UUID string'')
      | Some i \<Rightarrow>
          (let matching = filter (\<lambda>c. case page_id of Some (p # ps) \<Rightarrow> cv_id c < p # ps | _ \<Rightarrow> True) (own_conversations i d);
               rows = take (limit + 1) (sort_key (\<lambda>c. - cv_created_at c) matching);
               has_next = length rows > limit;
               page = (if has_next then take limit rows else rows)
           in Inr (map row_metadata page, if has_next then Some (cv_id (last page)) else None)))"

section \<open>The audit log\<close>

definition record_audit ::
    "apollos_env \<Rightarrow> uuid \<Rightarrow> rat \<Rightarrow> uuid \<Rightarrow> uuid \<Rightarrow> string \<Rightarrow> string \<Rightarrow> string \<Rightarrow> jdict option \<Rightarrow> string option \<Rightarrow> db \<Rightarrow>
     audit_log tx" where
  "record_audit env new_id now actor org action rtype rid details ip d =
     (let a = \<lparr>au_id = new_id, au_actor = Some actor, au_org = org, au_action = action, au_resource_type = rtype,
               au_resource_id = rid, au_details = details, au_ip = ip, au_created_at = now\<rparr>
      in commit env d (d\<lparr>db_audit := db_audit d @ [a]\<rparr>) a)"

text \<open>\<open>list_audit_logs\<close>: a page of the matching entries, newest first, and their number\<close>

definition list_audit_logs ::
    "apollos_env \<Rightarrow> http_request \<Rightarrow> uuid \<Rightarrow> nat \<Rightarrow> nat \<Rightarrow> string option \<Rightarrow> uuid option \<Rightarrow> db \<Rightarrow>
     api_error + audit_log list \<times> nat" where
  "list_audit_logs env rq org limit offset action actor d =
     map_sum (\<lambda>e. e)
       (\<lambda>user. let rows = filter (\<lambda>a. au_org a = org \<and>
                       (case action of Some (c # cs) \<Rightarrow> au_action a = c # cs | _ \<Rightarrow> True) \<and>
                       (case actor of Some x \<Rightarrow> au_actor a = Some x | None \<Rightarrow> True)) (db_audit d)
               in (take limit (drop offset (sort_key (\<lambda>a. - au_created_at a) rows)), length rows))
       (require_role env ''admin'' org rq d)"

section \<open>Lemmas\<close>

text \<open>The settings are those of the narrowest layer that sets them.\<close>

definition first_str :: "string option list \<Rightarrow> string option \<Rightarrow> string option" where
  "first_str xs dflt = (case filter (\<lambda>x. x \<noteq> None \<and> x \<noteq> Some []) xs of [] \<Rightarrow> dflt | x # _ \<Rightarrow> x)"

lemma set_str_first: "set_str x (first_str xs dflt) = first_str (x # xs) dflt"
  by (auto simp: set_str_def first_str_def split: option.splits list.splits)

lemma settings_precedence:
  assumes "parse_uuid env uid = Some i" "find (\<lambda>u. us_id u = i) (db_users d) = Some u"
    "us_current_org u = Some oi" "find (\<lambda>r. og_id r = oi) (db_orgs d) = Some org"
    "us_current_team u = Some ti" "find (\<lambda>r. te_id r = ti) (db_teams d) = Some team"
    "team_member_rows d ti i = [m]"
  shows "\<exists>s. load_settings env True (Some uid) base d = Inr s \<and>
    sg_llm_model s = first_str [tm_llm_model m, te_llm_model team, og_llm_model org] (sg_llm_model base) \<and>
    sg_llm_base_url s = first_str [te_llm_base_url team, og_llm_base_url org] (sg_llm_base_url base) \<and>
    sg_agent s = first_str [og_agent org] (sg_agent base)"
proof -
  have i: "us_id u = i" using found_row [OF assms(2)] by simp
  have base: "first_str [] x = x" for x by (simp add: first_str_def)
  show ?thesis using assms i
    by (simp add: load_settings_def Let_def current_membership_def one_or_none_def layer_def user_layer_def
        team_layer_def org_layer_def) (metis base set_str_first)
qed

text \<open>
  The row of a new conversation names the user as its organization, so a database that checks the reference refuses
  it.
\<close>

lemma new_conversation_refused:
  assumes "enforces_schema env" "find (\<lambda>c. cv_id c = cm_id m) (db_conversations d) = None"
    "parse_uuid env uid = Some i" "i \<notin> og_id ` set (db_orgs d)"
  shows "save_metadata env now uid m d = (Inl IntegrityError, d)"
proof -
  have "\<not> references_ok (d\<lparr>db_conversations := db_conversations d @
      [\<lparr>cv_id = cm_id m, cv_user = i, cv_org = i, cv_title = cm_title m, cv_meta = Some (meta_json m),
        cv_deleted_at = None, cv_created_at = now, cv_updated_at = now\<rparr>]\<rparr>)"
    using assms(4) by (auto simp: references_ok_def Let_def)
  then show ?thesis
    using assms(1-3) by (auto simp: save_metadata_def commit_def enforces_schema_def schema_ok_def)
qed

text \<open>Saving writes the row of that id, whoever it belongs to.\<close>

lemma save_overwrites:
  assumes "c \<in> set (db_conversations d)" "cv_id c = cm_id m"
    "save_metadata env now uid m d = (Inr (), d')"
  shows "\<exists>c' \<in> set (db_conversations d'). cv_id c' = cv_id c \<and> cv_user c' = cv_user c \<and> cv_title c' = cm_title m"
proof -
  have "find (\<lambda>c. cv_id c = cm_id m) (db_conversations d) \<noteq> None" using assms(1, 2) by (auto simp: find_None_iff)
  then have "d' = d\<lparr>db_conversations := map (\<lambda>c. if cv_id c = cm_id m
      then c\<lparr>cv_title := cm_title m, cv_meta := Some (meta_json m), cv_updated_at := now\<rparr> else c) (db_conversations d)\<rparr>"
    using assms(3) by (auto simp: save_metadata_def commit_def split: option.splits if_splits)
  then have "c\<lparr>cv_title := cm_title m, cv_meta := Some (meta_json m), cv_updated_at := now\<rparr> \<in> set (db_conversations d')"
    using assms(1, 2) by force
  then show ?thesis by (rule rev_bexI) simp
qed

text \<open>A page has the user's own conversations that are not deleted, at most as many as asked for.\<close>

lemma search_page:
  assumes "search_conversations env uid page limit d = Inr (ms, next)" "parse_uuid env uid = Some i"
  shows "length ms \<le> limit \<and> set ms \<subseteq> row_metadata ` {c \<in> set (db_conversations d). cv_user c = i \<and> cv_deleted_at c = None}"
proof -
  let ?rows = "take (limit + 1) (sort_key (\<lambda>c. - cv_created_at c)
    (filter (\<lambda>c. case page of Some (p # ps) \<Rightarrow> cv_id c < p # ps | _ \<Rightarrow> True) (own_conversations i d)))"
  have ms: "ms = map row_metadata (take limit ?rows)"
    using assms by (auto simp: search_conversations_def Let_def split: if_splits)
  have "set (take limit ?rows) \<subseteq> set (own_conversations i d)"
    by (auto dest!: in_set_takeD)
  then show ?thesis using ms by (auto simp: own_conversations_def)
qed

end
