(* ===== verification/Apollos_Requests.thy ===== *)
theory Apollos_Requests
  imports Apollos_Stores
begin

text \<open>
  Everything that changes the database, as one type of operations, and the runs of the database under any sequence
  of them. The bodies of requests have passed the patterns of \<open>server/routes/models.py\<close> (\<open>op_valid\<close>).
\<close>

section \<open>Operations\<close>

datatype operation =
    CreateOrg uuid int http_request string
  | UpdateOrg http_request uuid "string option"
  | DeleteOrg http_request uuid
  | AddMember int http_request uuid uuid string
  | RemoveMember http_request uuid uuid
  | CreateTeam uuid http_request uuid string
  | UpdateTeam http_request uuid "string option"
  | DeleteTeam http_request uuid
  | AddTeamMember int http_request uuid uuid string
  | CreateKey uuid string string http_request uuid string
  | DeleteKey http_request uuid uuid
  | CreateServer uuid rat string http_request uuid string string jdict "string option"
  | UpdateServer string http_request uuid uuid server_update
  | DeleteServer http_request uuid uuid
  | Logout rat http_request
  | Login uuid string uuid int string string "string option"
  | StoreSettings string settings
  | StoreSecrets uuid string string jdict
  | SaveConversation rat string conversation_metadata
  | DeleteConversation rat string string
  | SaveTokenCache string uuid string
  | SaveSession rat rat string jdict
  | Cleanup rat

fun op_valid :: "operation \<Rightarrow> bool" where
  "op_valid (CreateOrg _ _ _ name) \<longleftrightarrow> valid_name name"
| "op_valid (UpdateOrg _ _ name) \<longleftrightarrow> pred_option valid_name name"
| "op_valid (AddMember _ _ _ _ role) \<longleftrightarrow> valid_org_role role"
| "op_valid (CreateTeam _ _ _ name) \<longleftrightarrow> valid_name name"
| "op_valid (UpdateTeam _ _ name) \<longleftrightarrow> pred_option valid_name name"
| "op_valid (AddTeamMember _ _ _ _ role) \<longleftrightarrow> valid_team_role role"
| "op_valid (CreateKey _ _ _ _ _ name) \<longleftrightarrow> valid_key_name name"
| "op_valid (CreateServer _ _ _ _ _ name ty _ _) \<longleftrightarrow> valid_key_name name \<and> valid_server_type ty"
| "op_valid (UpdateServer _ _ _ _ b) \<longleftrightarrow> pred_option valid_key_name (su_name b)"
| "op_valid _ \<longleftrightarrow> True"

fun perform :: "apollos_env \<Rightarrow> operation \<Rightarrow> db \<Rightarrow> db" where
  "perform env (CreateOrg i r rq name) d = snd (create_org env i r rq name d)"
| "perform env (UpdateOrg rq org name) d = snd (update_org env rq org name d)"
| "perform env (DeleteOrg rq org) d = snd (delete_org env rq org d)"
| "perform env (AddMember r rq org u role) d = snd (add_member env r rq org u role d)"
| "perform env (RemoveMember rq org u) d = snd (remove_member env rq org u d)"
| "perform env (CreateTeam i rq org name) d = snd (create_team env i rq org name d)"
| "perform env (UpdateTeam rq t name) d = snd (update_team env rq t name d)"
| "perform env (DeleteTeam rq t) d = snd (delete_team env rq t d)"
| "perform env (AddTeamMember r rq t u role) d = snd (add_team_member env r rq t u role d)"
| "perform env (CreateKey i token salt rq org name) d = snd (create_key env i token salt rq org name d)"
| "perform env (DeleteKey rq org k) d = snd (delete_key env rq org k d)"
| "perform env (CreateServer i now nonce rq org name ty cfg descr) d =
     snd (create_mcp_server env i now nonce rq org name ty cfg descr d)"
| "perform env (UpdateServer nonce rq org i b) d = snd (update_mcp_server env nonce rq org i b d)"
| "perform env (DeleteServer rq org i) d = snd (delete_mcp_server env rq org i d)"
| "perform env (Logout now rq) d = snd (logout env now rq d)"
| "perform env (Login org suffix user r oid email display) d =
     snd (upsert_user_on_login env org suffix user r oid email display d)"
| "perform env (StoreSettings uid s) d = snd (store_settings env True (Some uid) s d)"
| "perform env (StoreSecrets i nonce uid x) d = snd (store_secrets env i nonce uid x d)"
| "perform env (SaveConversation now uid m) d = snd (save_metadata env now uid m d)"
| "perform env (DeleteConversation now uid c) d = snd (delete_metadata env now uid c d)"
| "perform env (SaveTokenCache nonce u c) d = snd (save_token_cache env nonce u c d)"
| "perform env (SaveSession now age sid data) d = snd (save_session env now age sid data d)"
| "perform env (Cleanup now) d = cleanup_expired env now d"

text \<open>The database under any sequence of operations\<close>

inductive db_run :: "apollos_env \<Rightarrow> db \<Rightarrow> db \<Rightarrow> bool" for env where
  run_start: "db_run env d d"
| run_step: "db_run env d d' \<Longrightarrow> op_valid op \<Longrightarrow> db_run env d (perform env op d')"

text \<open>What every operation keeps holds along every run.\<close>

locale run_invariant =
  fixes inv :: "apollos_env \<Rightarrow> db \<Rightarrow> bool"
  assumes step: "inv env d \<Longrightarrow> op_valid op \<Longrightarrow> inv env (perform env op d)"
begin

lemma along_run: "db_run env d d' \<Longrightarrow> inv env d \<Longrightarrow> inv env d'"
  by (induction rule: db_run.induct) (auto intro: step)

end

section \<open>Rules for handlers\<close>

text \<open>A handler leaves the database alone or commits contents that the database accepts and that satisfy \<open>P\<close>.\<close>

definition keeps :: "apollos_env \<Rightarrow> (db \<Rightarrow> bool) \<Rightarrow> db \<Rightarrow> db \<Rightarrow> bool" where
  "keeps env P d d' \<longleftrightarrow> d' = d \<or> (accepts env d' \<and> P d')"

named_theorems handler_rules \<open>rules for the effect of handlers\<close>

lemma keeps_same [handler_rules]: "keeps env P d d"
  by (simp add: keeps_def)

lemma keeps_pair [handler_rules]: "keeps env P d (snd (r, d))"
  by (simp add: keeps_def)

lemma keeps_commit [handler_rules]: "(accepts env d' \<Longrightarrow> P d') \<Longrightarrow> keeps env P d (snd (commit env d d' r))"
  by (simp add: keeps_def snd_commit)

lemma keeps_with_result [handler_rules]:
  "(\<And>x. r = Inr x \<Longrightarrow> keeps env P d (snd (f x))) \<Longrightarrow> keeps env P d (snd (with_result r d f))"
  by (cases r) (simp_all add: with_result_def keeps_same)

lemma keeps_if [handler_rules]:
  "(b \<Longrightarrow> keeps env P d (snd x)) \<Longrightarrow> (\<not> b \<Longrightarrow> keeps env P d (snd y)) \<Longrightarrow> keeps env P d (snd (if b then x else y))"
  by simp

lemma keeps_option [handler_rules]:
  "(o' = None \<Longrightarrow> keeps env P d (snd x)) \<Longrightarrow> (\<And>y. o' = Some y \<Longrightarrow> keeps env P d (snd (f y))) \<Longrightarrow>
   keeps env P d (snd (case o' of None \<Rightarrow> x | Some y \<Rightarrow> f y))"
  by (cases o') simp_all

lemma keeps_prod [handler_rules]:
  "(\<And>a b. p = (a, b) \<Longrightarrow> keeps env P d (snd (f a b))) \<Longrightarrow> keeps env P d (snd (case p of (a, b) \<Rightarrow> f a b))"
  by (cases p) simp

lemma keeps_Let [handler_rules]: "keeps env P d (snd (f x)) \<Longrightarrow> keeps env P d (snd (Let x f))"
  by simp

lemma keeps_with_team [handler_rules]:
  assumes "\<And>u t role. require_auth env rq = Inr u \<Longrightarrow> find (\<lambda>t. te_id t = team) (db_teams d) = Some t \<Longrightarrow>
    check_org_role d (pu_user_id u) (te_org t) min_role = Inr role \<Longrightarrow> keeps env P d (snd (f t))"
  shows "keeps env P d (snd (with_team env rq team min_role d f))"
  unfolding with_team_def by (intro handler_rules assms)

lemma keepsD: "keeps env P d d' \<Longrightarrow> P d \<Longrightarrow> P d'"
  by (auto simp: keeps_def)

lemma keeps_mono: "keeps env P d d' \<Longrightarrow> (\<And>x. P x \<Longrightarrow> Q x) \<Longrightarrow> keeps env Q d d'"
  by (auto simp: keeps_def)

section \<open>The tables an operation may change\<close>

text \<open>The identities, roles and structure; everything else belongs to a user\<close>

definition same_tenants :: "db \<Rightarrow> db \<Rightarrow> bool" where
  "same_tenants d d' \<longleftrightarrow>
     db_roles d' = db_roles d \<and> db_orgs d' = db_orgs d \<and> db_teams d' = db_teams d \<and>
     db_memberships d' = db_memberships d \<and>
     map (\<lambda>m. (tm_team m, tm_user m, tm_role m)) (db_team_memberships d') =
     map (\<lambda>m. (tm_team m, tm_user m, tm_role m)) (db_team_memberships d)"

lemma same_tenants_refl [simp]: "same_tenants d d"
  by (simp add: same_tenants_def)

text \<open>Operations on the data of a user\<close>

fun user_data_op :: "operation \<Rightarrow> bool" where
  "user_data_op (CreateKey _ _ _ _ _ _) = True"
| "user_data_op (DeleteKey _ _ _) = True"
| "user_data_op (CreateServer _ _ _ _ _ _ _ _ _) = True"
| "user_data_op (UpdateServer _ _ _ _ _) = True"
| "user_data_op (DeleteServer _ _ _) = True"
| "user_data_op (Logout _ _) = True"
| "user_data_op (StoreSettings _ _) = True"
| "user_data_op (StoreSecrets _ _ _ _) = True"
| "user_data_op (SaveConversation _ _ _) = True"
| "user_data_op (DeleteConversation _ _ _) = True"
| "user_data_op (SaveTokenCache _ _ _) = True"
| "user_data_op (SaveSession _ _ _ _) = True"
| "user_data_op (Cleanup _) = True"
| "user_data_op _ = False"

lemma create_key_db:
  "snd (create_key env i token salt rq org name d) =
   snd (with_result (require_role env ''member'' org rq d) d (\<lambda>u. create_api_key env i token salt (pu_user_id u) org name d))"
  by (auto simp: create_key_def with_result_def split: sum.splits prod.splits)

lemma delete_key_db:
  "snd (delete_key env rq org k d) =
   snd (with_result (require_role env ''member'' org rq d) d (\<lambda>u. revoke_api_key env k (pu_user_id u) d))"
  by (auto simp: delete_key_def with_result_def split: sum.splits prod.splits api_error.splits)

lemma logout_keeps:
  assumes "\<And>now jti t. keeps env P d (snd (revoke_token env now jti t d))"
  shows "keeps env P d (snd (logout env now rq d))"
  by (auto simp: logout_def Let_def keeps_same assms split: option.splits list.splits sum.splits)

lemmas user_data_defs = create_key_db create_api_key_def delete_key_db revoke_api_key_def create_mcp_server_def
  update_mcp_server_def delete_mcp_server_def store_settings_def store_secrets_def save_metadata_def
  delete_metadata_def save_token_cache_def save_session_def cleanup_expired_def revoke_token_def

lemma same_tenants_update:
  "same_tenants d (d\<lparr>db_api_keys := ks\<rparr>)" "same_tenants d (d\<lparr>db_mcp_servers := ms\<rparr>)"
  "same_tenants d (d\<lparr>db_revoked := rs\<rparr>)" "same_tenants d (d\<lparr>db_secrets := xs\<rparr>)"
  "same_tenants d (d\<lparr>db_conversations := cs\<rparr>)" "same_tenants d (d\<lparr>db_auth_tokens := ts\<rparr>)"
  "same_tenants d (d\<lparr>db_sessions := ss\<rparr>)" "same_tenants d (d\<lparr>db_sessions := ss, db_revoked := rs\<rparr>)"
  "same_tenants d (deactivate_key k d)"
  by (simp_all add: same_tenants_def deactivate_key_def)

lemma user_data_same_tenants:
  assumes "user_data_op op"
  shows "keeps env (same_tenants d) d (perform env op d)"
proof (cases op)
  case (Logout now rq)
  then show ?thesis
    by (simp, intro logout_keeps) (simp add: revoke_token_def keeps_def snd_commit same_tenants_update)
next
  case (StoreSettings uid s)
  then show ?thesis
    unfolding StoreSettings perform.simps user_data_defs
    by (intro handler_rules; simp add: same_tenants_def)
qed (use assms in \<open>simp_all add: user_data_defs del: snd_conv\<close>, (intro handler_rules; simp add: same_tenants_update split: option.splits)+)

end
