(* ===== verification/Apollos_Tenancy.thy ===== *)
theory Apollos_Tenancy
  imports Apollos_Requests
begin

text \<open>
  The invariant of the organizations along all runs: the declared constraints hold, every role has the rank of its
  name, and every organization has an owner.
\<close>

section \<open>Owners\<close>

definition owner_role :: "db \<Rightarrow> int \<Rightarrow> bool" where
  "owner_role d i \<longleftrightarrow> (\<exists>r \<in> set (db_roles d). rl_id r = i \<and> rl_name r = ''owner'')"

definition has_owner :: "db \<Rightarrow> uuid \<Rightarrow> bool" where
  "has_owner d org \<longleftrightarrow> (\<exists>m \<in> set (db_memberships d). om_org m = org \<and> owner_role d (om_role m))"

definition owners_ok :: "db \<Rightarrow> bool" where
  "owners_ok d \<longleftrightarrow> (\<forall>o' \<in> set (db_orgs d). has_owner d (og_id o'))"

definition ranks_ok :: "db \<Rightarrow> bool" where
  "ranks_ok d \<longleftrightarrow> (\<forall>r \<in> set (db_roles d). rl_rank r = rank_for (rl_name r))"

definition tenancy_ok :: "db \<Rightarrow> bool" where
  "tenancy_ok d \<longleftrightarrow> schema_ok d \<and> owners_ok d \<and> ranks_ok d"

lemma schema_keys:
  assumes "schema_ok d"
  shows "distinct (map rl_id (db_roles d))" "distinct (map rl_name (db_roles d))" "distinct (map og_id (db_orgs d))"
    "distinct (map te_id (db_teams d))" "distinct (map (\<lambda>m. (om_org m, om_user m)) (db_memberships d))"
    "distinct (map us_id (db_users d))" "distinct (map ak_id (db_api_keys d))" "distinct (map mc_id (db_mcp_servers d))"
    "distinct (map sc_id (db_secrets d))" "distinct (map cv_id (db_conversations d))"
    "distinct (map (\<lambda>s. (sc_user s, sc_org s, sc_key s)) (db_secrets d))"
    "distinct (map (\<lambda>m. (tm_team m, tm_user m)) (db_team_memberships d))"
  using assms by (simp_all add: schema_ok_def keys_ok_def)

lemma has_owner_mono:
  assumes "has_owner d org" "set (db_memberships d) \<subseteq> set (db_memberships d')" "set (db_roles d) \<subseteq> set (db_roles d')"
  shows "has_owner d' org"
  using assms by (fastforce simp: has_owner_def owner_role_def)

lemma old_owner:
  assumes "owners_ok d" "x \<in> set (db_orgs d)" "set (db_memberships d) \<subseteq> set (db_memberships d')"
    "set (db_roles d) \<subseteq> set (db_roles d')"
  shows "has_owner d' (og_id x)"
  using has_owner_mono [OF _ assms(3, 4)] assms(1, 2) by (auto simp: owners_ok_def)

lemma owner_rows_filter:
  assumes "distinct (map rl_id (db_roles d))"
  shows "owner_rows d org = filter (\<lambda>m. om_org m = org \<and> owner_role d (om_role m)) (db_memberships d)"
proof -
  have one: "map (\<lambda>_. m) (filter (\<lambda>r. rl_id r = om_role m \<and> rl_name r = ''owner'') (db_roles d)) =
      (if owner_role d (om_role m) then [m] else [])" for m :: org_membership
  proof -
    let ?K = "filter (\<lambda>r. rl_id r = om_role m) (db_roles d)"
    have f: "filter (\<lambda>r. rl_id r = om_role m \<and> rl_name r = ''owner'') (db_roles d) = filter (\<lambda>r. rl_name r = ''owner'') ?K"
      by (simp add: conj_commute)
    have o: "owner_role d (om_role m) \<longleftrightarrow> (\<exists>r \<in> set ?K. rl_name r = ''owner'')"
      by (auto simp: owner_role_def)
    from filter_key_one [OF assms, of "om_role m"] consider "?K = []" | x where "?K = [x]" by blast
    then show ?thesis unfolding f o by cases auto
  qed
  have "concat (map (\<lambda>m. if P m then [m] else []) xs) = filter P xs" for P and xs :: "org_membership list"
    by (induction xs) auto
  then show ?thesis by (simp add: owner_rows_def one conj_commute)
qed

lemma has_owner_rows:
  "distinct (map rl_id (db_roles d)) \<Longrightarrow> has_owner d org \<longleftrightarrow> owner_rows d org \<noteq> []"
  by (auto simp: owner_rows_filter has_owner_def filter_empty_conv)

section \<open>The operations that change organizations\<close>

lemma get_or_create_role_cases:
  assumes "get_or_create_role i name rank d = Inr (role, d1)"
  shows "d1 = d\<lparr>db_roles := db_roles d1\<rparr> \<and> set (db_roles d1) \<subseteq> insert \<lparr>rl_id = i, rl_name = name, rl_rank = rank\<rparr> (set (db_roles d))
    \<and> set (db_roles d) \<subseteq> set (db_roles d1) \<and> role \<in> set (db_roles d1) \<and> rl_name role = name"
proof (cases "filter (\<lambda>r. rl_name r = name) (db_roles d)")
  case Nil
  then show ?thesis using assms by (auto simp: get_or_create_role_def one_or_none_def Let_def)
next
  case (Cons r rs)
  then have "r \<in> set (db_roles d) \<and> rl_name r = name" by (auto simp: filter_eq_Cons_iff)
  then show ?thesis using assms Cons by (auto simp: get_or_create_role_def one_or_none_def split: list.splits)
qed

lemma role_added:
  assumes "get_or_create_role i name (rank_for name) d = Inr (role, d1)" "ranks_ok d"
  shows "ranks_ok d1" "rl_name role = name" "role \<in> set (db_roles d1)" "set (db_roles d) \<subseteq> set (db_roles d1)"
    "db_orgs d1 = db_orgs d" "db_memberships d1 = db_memberships d" "db_users d1 = db_users d" "db_teams d1 = db_teams d"
    "db_team_memberships d1 = db_team_memberships d"
proof -
  note c = get_or_create_role_cases [OF assms(1)]
  have "db_orgs d1 = db_orgs (d\<lparr>db_roles := db_roles d1\<rparr>)" using c by simp
  then show "db_orgs d1 = db_orgs d" by simp
  have "db_memberships d1 = db_memberships (d\<lparr>db_roles := db_roles d1\<rparr>)" using c by simp
  then show "db_memberships d1 = db_memberships d" by simp
  have "db_users d1 = db_users (d\<lparr>db_roles := db_roles d1\<rparr>)" using c by simp
  then show "db_users d1 = db_users d" by simp
  have "db_teams d1 = db_teams (d\<lparr>db_roles := db_roles d1\<rparr>)" using c by simp
  then show "db_teams d1 = db_teams d" by simp
  have "db_team_memberships d1 = db_team_memberships (d\<lparr>db_roles := db_roles d1\<rparr>)" using c by simp
  then show "db_team_memberships d1 = db_team_memberships d" by simp
  show "ranks_ok d1" using c assms(2) by (fastforce simp: ranks_ok_def)
qed (use get_or_create_role_cases [OF assms(1)] in auto)

definition structure_ok :: "db \<Rightarrow> bool" where
  "structure_ok d \<longleftrightarrow> owners_ok d \<and> ranks_ok d"

lemma owner_rank [simp]: "rank_for ''owner'' = 0"
  by (simp add: rank_for_def ROLE_RANKS_def)

lemma new_org_ok:
  assumes r: "get_or_create_role i ''owner'' 0 d = Inr (role, d1)" and d: "structure_ok d"
  shows "structure_ok (d1\<lparr>db_orgs := db_orgs d1 @ [mk_org org name],
    db_memberships := db_memberships d1 @ [mk_membership org user (rl_id role)]\<rparr>)" (is "structure_ok ?d")
    and "structure_ok (d1\<lparr>db_orgs := db_orgs d1 @ [mk_org org name], db_users := us,
    db_memberships := db_memberships d1 @ [mk_membership org user (rl_id role)]\<rparr>)" (is "structure_ok ?e")
proof -
  have r': "get_or_create_role i ''owner'' (rank_for ''owner'') d = Inr (role, d1)" using r by simp
  have d': "ranks_ok d" "owners_ok d" using d by (simp_all add: structure_ok_def)
  note a = role_added [OF r' d'(1)]
  have new: "has_owner ?d org" using a(2, 3) by (auto simp: has_owner_def owner_role_def mk_membership_def)
  have old: "has_owner ?d (og_id x)" if "x \<in> set (db_orgs d)" for x
    by (rule old_owner [OF d'(2) that]) (use a in auto)
  have eq: "has_owner ?e = has_owner ?d" by (simp add: has_owner_def owner_role_def fun_eq_iff)
  show "structure_ok ?d" using a new old by (auto simp: structure_ok_def owners_ok_def ranks_ok_def mk_org_def)
  then show "structure_ok ?e" by (simp add: structure_ok_def owners_ok_def ranks_ok_def eq)
qed

lemma added_membership_ok:
  assumes "get_or_create_role i name (rank_for name) d = Inr (role, d1)" "structure_ok d"
  shows "structure_ok (d1\<lparr>db_memberships := db_memberships d1 @ [m]\<rparr>)" (is "structure_ok ?d")
proof -
  have d: "ranks_ok d" "owners_ok d" using assms(2) by (simp_all add: structure_ok_def)
  note a = role_added [OF assms(1) d(1)]
  have "has_owner ?d (og_id x)" if "x \<in> set (db_orgs d)" for x
    by (rule old_owner [OF d(2) that]) (use a in auto)
  then show ?thesis using a by (simp add: structure_ok_def owners_ok_def ranks_ok_def)
qed

lemma added_team_member_ok:
  assumes "get_or_create_role i name (rank_for name) d = Inr (role, d1)" "structure_ok d"
  shows "structure_ok (d1\<lparr>db_team_memberships := ms\<rparr>)" (is "structure_ok ?d")
proof -
  have d: "ranks_ok d" "owners_ok d" using assms(2) by (simp_all add: structure_ok_def)
  note a = role_added [OF assms(1) d(1)]
  have "has_owner ?d (og_id x)" if "x \<in> set (db_orgs d)" for x
    by (rule old_owner [OF d(2) that]) (use a in auto)
  then show ?thesis using a by (simp add: structure_ok_def owners_ok_def ranks_ok_def)
qed

lemma same_tables_ok:
  assumes "structure_ok d" "db_roles d' = db_roles d" "map og_id (db_orgs d') = map og_id (db_orgs d)"
    "db_memberships d' = db_memberships d"
  shows "structure_ok d'"
proof -
  have "og_id ` set (db_orgs d') = og_id ` set (db_orgs d)" using assms(3) by (metis set_map)
  moreover have "has_owner d' = has_owner d" using assms by (simp add: has_owner_def owner_role_def fun_eq_iff)
  ultimately have "owners_ok d' \<longleftrightarrow> owners_ok d"
    unfolding owners_ok_def by (metis (no_types, lifting) image_iff)
  then show ?thesis using assms(1, 2) by (simp add: structure_ok_def ranks_ok_def)
qed

lemma remove_org_ok:
  assumes "structure_ok d" "distinct (map og_id (db_orgs d))"
  shows "structure_ok (remove_org org d)"
proof -
  have "has_owner (remove_org org d) i" if "has_owner d i" "i \<noteq> org" for i
    using that by (auto simp: has_owner_def owner_role_def remove_org_def)
  then show ?thesis using assms by (auto simp: structure_ok_def owners_ok_def ranks_ok_def remove_org_def)
qed

text \<open>The check of \<open>remove_member\<close>: after a removal that passes it there still is an owner.\<close>

lemma drop_membership_ok:
  assumes "structure_ok d" "schema_ok d" and m: "filter (\<lambda>m. (om_org m, om_user m) = (org, user)) (db_memberships d) = [m]"
    and check: "\<not> ((case find (\<lambda>r. rl_id r = om_role m) (db_roles d) of None \<Rightarrow> False | Some r \<Rightarrow> rl_name r = ''owner'') \<and>
      length (owner_rows d org) \<le> 1)"
  shows "structure_ok (drop_membership org user d)"
proof -
  let ?d = "drop_membership org user d"
  note keys = schema_keys [OF assms(2)]
  have roles: "owner_role ?d = owner_role d" by (simp add: owner_role_def drop_membership_def fun_eq_iff)
  have owner: "(case find (\<lambda>r. rl_id r = om_role m) (db_roles d) of None \<Rightarrow> False | Some r \<Rightarrow> rl_name r = ''owner'') \<longleftrightarrow>
      owner_role d (om_role m)"
    using keys(1) unfolding distinct_map inj_on_def
    by (auto simp: owner_role_def find_key_Some [OF keys(1)] find_None_iff split: option.splits)
  have keep: "has_owner ?d i" if has: "has_owner d i" for i
  proof (cases "i = org")
    case False
    then show ?thesis using that roles by (auto simp: has_owner_def drop_membership_def)
  next
    case True
    have eq: "owner_rows ?d org = filter (\<lambda>x. (om_org x, om_user x) \<noteq> (org, user)) (owner_rows d org)"
      using keys(1) by (simp add: owner_rows_filter drop_membership_def owner_role_def conj_ac)
    have "owner_rows ?d org \<noteq> []"
    proof (cases "owner_role d (om_role m)")
      case True
      then have two: "length (owner_rows d org) \<ge> 2" using check owner by simp
      have "distinct (map (\<lambda>x. (om_org x, om_user x)) (owner_rows d org))"
        using keys(5) by (simp add: owner_rows_filter [OF keys(1)] distinct_map_filter)
      then have "length (filter (\<lambda>x. (om_org x, om_user x) = (org, user)) (owner_rows d org)) \<le> 1"
        by (rule filter_key_length)
      then show ?thesis using two eq
          sum_length_filter_compl [of "\<lambda>x. (om_org x, om_user x) = (org, user)" "owner_rows d org"] by auto
    next
      case False
      obtain x where x: "x \<in> set (db_memberships d)" "om_org x = org" "owner_role d (om_role x)"
        using has \<open>i = org\<close> by (auto simp: has_owner_def)
      have "(om_org x, om_user x) \<noteq> (org, user)"
      proof
        assume "(om_org x, om_user x) = (org, user)"
        then have "x \<in> set (filter (\<lambda>m. (om_org m, om_user m) = (org, user)) (db_memberships d))" using x(1) by simp
        then have "x = m" unfolding m by simp
        then show False using x(3) False by simp
      qed
      then show ?thesis using x keys(1) by (auto simp: eq owner_rows_filter filter_empty_conv)
    qed
    then show ?thesis using True has_owner_rows [of ?d org] keys(1) by (simp add: drop_membership_def)
  qed
  show ?thesis using assms(1) keep by (auto simp: structure_ok_def owners_ok_def ranks_ok_def drop_membership_def)
qed

lemma same_tenants_ok: "same_tenants d d' \<Longrightarrow> structure_ok d \<Longrightarrow> structure_ok d'"
  by (rule same_tables_ok) (simp_all add: same_tenants_def)

lemma org_ops_structure:
  assumes "schema_ok d" "structure_ok d"
  shows "keeps env structure_ok d (snd (create_org env i r rq name d))"
    and "keeps env structure_ok d (snd (update_org env rq org name' d))"
    and "keeps env structure_ok d (snd (delete_org env rq org d))"
    and "keeps env structure_ok d (snd (add_member env r rq org u role d))"
    and "keeps env structure_ok d (snd (remove_member env rq org u d))"
    and "keeps env structure_ok d (snd (upsert_user_on_login env org suffix u r oid email display d))"
proof -
  show "keeps env structure_ok d (snd (create_org env i r rq name d))"
    unfolding create_org_def by (intro handler_rules) (simp add: new_org_ok(1) [OF _ assms(2)])
  show "keeps env structure_ok d (snd (update_org env rq org name' d))"
    unfolding update_org_def
    by (intro handler_rules assms(2)) (rule same_tables_ok [OF assms(2)], simp_all add: rename_org_def comp_def if_distrib cong: if_cong)
  show "keeps env structure_ok d (snd (delete_org env rq org d))"
    unfolding delete_org_def by (intro handler_rules) (rule remove_org_ok [OF assms(2) schema_keys(3) [OF assms(1)]])
  show "keeps env structure_ok d (snd (add_member env r rq org u role d))"
    unfolding add_member_def by (intro handler_rules) (simp add: added_membership_ok [OF _ assms(2)])
  show "keeps env structure_ok d (snd (remove_member env rq org u d))"
    unfolding remove_member_def
    by (intro handler_rules) (simp add: one_or_none_Some drop_membership_ok [OF assms(2, 1)])
  show "keeps env structure_ok d (snd (upsert_user_on_login env org suffix u r oid email display d))"
    unfolding upsert_user_on_login_def
    by (intro handler_rules) (simp_all add: new_org_ok(2) [OF _ assms(2)] same_tables_ok [OF assms(2)] refresh_user_def)
qed

lemma team_ops_structure:
  assumes "structure_ok d"
  shows "keeps env structure_ok d (snd (create_team env i rq org name d))"
    and "keeps env structure_ok d (snd (update_team env rq t name' d))"
    and "keeps env structure_ok d (snd (delete_team env rq t d))"
    and "keeps env structure_ok d (snd (add_team_member env r rq t u role d))"
proof -
  show "keeps env structure_ok d (snd (create_team env i rq org name d))"
    unfolding create_team_def by (intro handler_rules) (simp add: same_tables_ok [OF assms])
  show "keeps env structure_ok d (snd (update_team env rq t name' d))"
    unfolding update_team_def by (intro handler_rules assms) (simp add: same_tables_ok [OF assms] rename_team_def)
  show "keeps env structure_ok d (snd (delete_team env rq t d))"
    unfolding delete_team_def by (intro handler_rules) (simp add: same_tables_ok [OF assms] remove_team_def)
  show "keeps env structure_ok d (snd (add_team_member env r rq t u role d))"
    unfolding add_team_member_def by (intro handler_rules) (simp add: added_team_member_ok [OF _ assms])
qed

lemma perform_structure:
  assumes "schema_ok d" "structure_ok d"
  shows "keeps env structure_ok d (perform env op d)"
proof (cases "user_data_op op")
  case True
  show ?thesis
    by (rule keeps_mono [OF user_data_same_tenants [OF True]]) (rule same_tenants_ok [OF _ assms(2)])
next
  case False
  then show ?thesis using org_ops_structure [OF assms] team_ops_structure [OF assms(2)] by (cases op) simp_all
qed

lemma tenancy_step:
  assumes "enforces_schema env" "tenancy_ok d"
  shows "tenancy_ok (perform env op d)"
  using perform_structure [of d env op] assms
  by (auto simp: tenancy_ok_def structure_ok_def keeps_def enforces_schema_def)

interpretation tenancy: run_invariant "\<lambda>env d. enforces_schema env \<longrightarrow> tenancy_ok d"
  by unfold_locales (blast intro: tenancy_step)

end
