(* ===== verification/Apollos_Isolation.thy ===== *)
theory Apollos_Isolation
  imports Apollos_Tenancy
begin

text \<open>
  Who can change an organization: every operation either leaves the organization, its memberships and its teams as
  they are, or is a request of a user with the rank the routes ask for.
\<close>

section \<open>What belongs to an organization\<close>

definition org_view :: "uuid \<Rightarrow> db \<Rightarrow> org_row list \<times> org_membership list \<times> team_row list" where
  "org_view org d =
     (filter (\<lambda>x. og_id x = org) (db_orgs d), filter (\<lambda>m. om_org m = org) (db_memberships d),
      filter (\<lambda>t. te_org t = org) (db_teams d))"

text \<open>The members, with their roles, of given teams\<close>

definition team_view :: "uuid set \<Rightarrow> db \<Rightarrow> (uuid \<times> uuid \<times> int) list" where
  "team_view teams d =
     filter (\<lambda>x. fst x \<in> teams) (map (\<lambda>m. (tm_team m, tm_user m, tm_role m)) (db_team_memberships d))"

definition teams_of :: "uuid \<Rightarrow> db \<Rightarrow> uuid set" where
  "teams_of org d = te_id ` {t \<in> set (db_teams d). te_org t = org}"

fun op_request :: "operation \<Rightarrow> http_request option" where
  "op_request (CreateOrg _ _ rq _) = Some rq"
| "op_request (UpdateOrg rq _ _) = Some rq"
| "op_request (DeleteOrg rq _) = Some rq"
| "op_request (AddMember _ rq _ _ _) = Some rq"
| "op_request (RemoveMember rq _ _) = Some rq"
| "op_request (CreateTeam _ rq _ _) = Some rq"
| "op_request (UpdateTeam rq _ _) = Some rq"
| "op_request (DeleteTeam rq _) = Some rq"
| "op_request (AddTeamMember _ rq _ _ _) = Some rq"
| "op_request (CreateKey _ _ _ rq _ _) = Some rq"
| "op_request (DeleteKey rq _ _) = Some rq"
| "op_request (CreateServer _ _ _ rq _ _ _ _ _) = Some rq"
| "op_request (UpdateServer _ rq _ _ _) = Some rq"
| "op_request (DeleteServer rq _ _) = Some rq"
| "op_request (Logout _ rq) = Some rq"
| "op_request _ = None"

text \<open>The operation is a request of a member with at least the given rank.\<close>

definition authorised :: "apollos_env \<Rightarrow> db \<Rightarrow> uuid \<Rightarrow> int \<Rightarrow> operation \<Rightarrow> bool" where
  "authorised env d org n op \<longleftrightarrow>
     (case op_request op of
        None \<Rightarrow> False
      | Some rq \<Rightarrow> (case require_auth env rq of Inl _ \<Rightarrow> False | Inr u \<Rightarrow> has_rank d org (pu_user_id u) n))"

lemma rank_for_simps [simp]: "rank_for ''admin'' = 1" "rank_for ''manager'' = 2" "rank_for ''member'' = 3"
  by (simp_all add: rank_for_def ROLE_RANKS_def)

lemma has_rank_mono: "has_rank d org u m \<Longrightarrow> m \<le> n \<Longrightarrow> has_rank d org u n"
  by (auto simp: has_rank_def split: option.splits)

lemma authorised_role:
  assumes "require_role env r org rq d = Inr u" "op_request op = Some rq" "rank_for r \<le> n"
  shows "authorised env d org n op"
  using require_role_Inr [OF assms(1)] assms(2, 3) has_rank_mono by (fastforce simp: authorised_def)

lemma authorised_check:
  assumes "require_auth env rq = Inr u" "check_org_role d (pu_user_id u) org r = Inr role" "op_request op = Some rq"
    "rank_for r \<le> n"
  shows "authorised env d org n op"
  using check_org_role_Inr(2) [OF assms(2)] assms has_rank_mono by (fastforce simp: authorised_def)

section \<open>Changes\<close>

lemma filter_map_other:
  "(\<And>x. P x \<Longrightarrow> f x = x) \<Longrightarrow> (\<And>x. P (f x) = P x) \<Longrightarrow> filter P (map f xs) = filter P xs"
  by (induction xs) auto

lemma role_db: "get_or_create_role i name rank d = Inr (role, d1) \<Longrightarrow> \<exists>rs. d1 = d\<lparr>db_roles := rs\<rparr>"
  using get_or_create_role_cases by blast

lemma accepted_schema: "enforces_schema env \<Longrightarrow> accepts env d \<Longrightarrow> schema_ok d"
  by (simp add: enforces_schema_def)

lemma same_tenants_views:
  assumes "same_tenants d d'"
  shows "org_view org d' = org_view org d" "team_view T d' = team_view T d"
  using assms by (simp_all add: same_tenants_def org_view_def team_view_def)

lemma new_org_view:
  assumes "enforces_schema env" "org \<in> og_id ` set (db_orgs d)" "accepts env d'"
    "db_orgs d' = db_orgs d @ [mk_org i name]" "db_memberships d' = db_memberships d @ [mk_membership i u r]"
    "db_teams d' = db_teams d"
  shows "org_view org d' = org_view org d"
proof -
  have "org \<noteq> i"
    using schema_keys(3) [OF accepted_schema [OF assms(1, 3)]] assms(2, 4) by (auto simp: mk_org_def)
  then show ?thesis using assms(4-6) by (simp add: org_view_def mk_org_def mk_membership_def)
qed

lemma create_org_view:
  assumes "enforces_schema env" "org \<in> og_id ` set (db_orgs d)"
  shows "keeps env (\<lambda>x. org_view org x = org_view org d) d (snd (create_org env i r rq name d))"
  unfolding create_org_def
  by (intro handler_rules) (auto dest!: role_db intro!: new_org_view [OF assms])

lemma refresh_org_view: "org_view org (refresh_user i email disp d) = org_view org d"
  by (simp add: org_view_def refresh_user_def)

lemma login_view:
  assumes "enforces_schema env" "org \<in> og_id ` set (db_orgs d)"
  shows "keeps env (\<lambda>x. org_view org x = org_view org d) d (snd (upsert_user_on_login env i suffix u r oid email disp d))"
  unfolding upsert_user_on_login_def
  by (intro handler_rules) (auto dest!: role_db simp: refresh_org_view intro!: new_org_view [OF assms])

lemma other_org_view:
  assumes "i \<noteq> org"
  shows "org_view org (rename_org i n d) = org_view org d" "org_view org (remove_org i d) = org_view org d"
    "org_view org (drop_membership i u d) = org_view org d"
    "org_view org (d\<lparr>db_roles := rs, db_memberships := db_memberships d @ [mk_membership i u r]\<rparr>) = org_view org d"
    "te_org t = i \<Longrightarrow> org_view org (d\<lparr>db_teams := db_teams d @ [t]\<rparr>) = org_view org d"
proof -
  have "filter (\<lambda>x. og_id x = org) (map (\<lambda>x. if og_id x = i then x\<lparr>og_name := n\<rparr> else x) (db_orgs d)) =
      filter (\<lambda>x. og_id x = org) (db_orgs d)"
    by (rule filter_map_other) (use assms in auto)
  then show "org_view org (rename_org i n d) = org_view org d" by (simp add: org_view_def rename_org_def)
qed (use assms in \<open>auto simp: org_view_def remove_org_def drop_membership_def mk_membership_def intro!: filter_cong\<close>)

text \<open>The requests about one organization\<close>

lemma view_or_authorised:
  assumes "require_role env rn i rq d = Inr v" "op_request op = Some rq" "rank_for rn \<le> 1"
    "i \<noteq> org \<Longrightarrow> org_view org x = org_view org d"
  shows "org_view org x = org_view org d \<or> authorised env d org 1 op"
  using assms(4) authorised_role [OF assms(1-3)] by (cases "i = org") auto

lemma org_requests_view:
  shows "keeps env (\<lambda>x. org_view org x = org_view org d \<or> authorised env d org 1 (UpdateOrg rq i name)) d
      (snd (update_org env rq i name d))"
    and "keeps env (\<lambda>x. org_view org x = org_view org d \<or> authorised env d org 1 (DeleteOrg rq i)) d
      (snd (delete_org env rq i d))"
    and "keeps env (\<lambda>x. org_view org x = org_view org d \<or> authorised env d org 1 (AddMember r rq i u role)) d
      (snd (add_member env r rq i u role d))"
    and "keeps env (\<lambda>x. org_view org x = org_view org d \<or> authorised env d org 1 (RemoveMember rq i u)) d
      (snd (remove_member env rq i u d))"
    and "keeps env (\<lambda>x. org_view org x = org_view org d \<or> authorised env d org 1 (CreateTeam t rq i nm)) d
      (snd (create_team env t rq i nm d))"
proof -
  show "keeps env (\<lambda>x. org_view org x = org_view org d \<or> authorised env d org 1 (UpdateOrg rq i name)) d
      (snd (update_org env rq i name d))"
    unfolding update_org_def
    by (intro handler_rules; erule view_or_authorised) (simp_all add: other_org_view)
  show "keeps env (\<lambda>x. org_view org x = org_view org d \<or> authorised env d org 1 (DeleteOrg rq i)) d
      (snd (delete_org env rq i d))"
    unfolding delete_org_def
    by (intro handler_rules; erule view_or_authorised) (simp_all add: other_org_view)
  show "keeps env (\<lambda>x. org_view org x = org_view org d \<or> authorised env d org 1 (AddMember r rq i u role)) d
      (snd (add_member env r rq i u role d))"
    unfolding add_member_def
    by (intro handler_rules; erule view_or_authorised) (auto simp: other_org_view dest!: role_db)
  show "keeps env (\<lambda>x. org_view org x = org_view org d \<or> authorised env d org 1 (RemoveMember rq i u)) d
      (snd (remove_member env rq i u d))"
    unfolding remove_member_def
    by (intro handler_rules; erule view_or_authorised) (simp_all add: other_org_view)
  show "keeps env (\<lambda>x. org_view org x = org_view org d \<or> authorised env d org 1 (CreateTeam t rq i nm)) d
      (snd (create_team env t rq i nm d))"
    unfolding create_team_def
    by (intro handler_rules; cases "i = org") (auto simp: other_org_view intro!: authorised_check)
qed

text \<open>The requests about a team\<close>

lemma other_team_view:
  assumes "distinct (map te_id (db_teams d))" "find (\<lambda>t. te_id t = team) (db_teams d) = Some t" "te_org t \<noteq> org"
  shows "org_view org (rename_team team n d) = org_view org d" "org_view org (remove_team team d) = org_view org d"
proof -
  have t: "t \<in> set (db_teams d)" "te_id t = team" using assms(2) find_key_Some [OF assms(1)] by auto
  have other: "te_id x \<noteq> team" if "x \<in> set (db_teams d)" "te_org x = org" for x
    using that t assms(1, 3) by (auto simp: distinct_map inj_on_def)
  have "filter (\<lambda>t. te_org t = org) (map (\<lambda>t. if te_id t = team then t\<lparr>te_name := n\<rparr> else t) xs) =
      filter (\<lambda>t. te_org t = org) xs" if "set xs \<subseteq> set (db_teams d)" for xs
    using that other by (induction xs) auto
  then show "org_view org (rename_team team n d) = org_view org d" by (simp add: org_view_def rename_team_def)
  show "org_view org (remove_team team d) = org_view org d"
    using other by (auto simp: org_view_def remove_team_def intro!: filter_cong)
qed

lemma team_requests_view:
  assumes "schema_ok d"
  shows "keeps env (\<lambda>x. org_view org x = org_view org d \<or> authorised env d org 1 (UpdateTeam rq t name)) d
      (snd (update_team env rq t name d))"
    and "keeps env (\<lambda>x. org_view org x = org_view org d \<or> authorised env d org 1 (DeleteTeam rq t)) d
      (snd (delete_team env rq t d))"
    and "keeps env (\<lambda>x. org_view org x = org_view org d) d (snd (add_team_member env r rq t u role d))"
proof -
  have other: "org_view org x = org_view org d \<or> authorised env d org 1 op"
    if "require_auth env rq = Inr u" "find (\<lambda>t'. te_id t' = t) (db_teams d) = Some t0"
      "check_org_role d (pu_user_id u) (te_org t0) ''admin'' = Inr role" "op_request op = Some rq"
      "te_org t0 \<noteq> org \<Longrightarrow> org_view org x = org_view org d" for u t0 role op x
    using that authorised_check [OF that(1, 3, 4), of 1] by (cases "te_org t0 = org") auto
  show "keeps env (\<lambda>x. org_view org x = org_view org d \<or> authorised env d org 1 (UpdateTeam rq t name)) d
      (snd (update_team env rq t name d))"
    unfolding update_team_def
    by (intro handler_rules; erule (2) other) (simp_all add: other_team_view [OF schema_keys(4) [OF assms]])
  show "keeps env (\<lambda>x. org_view org x = org_view org d \<or> authorised env d org 1 (DeleteTeam rq t)) d
      (snd (delete_team env rq t d))"
    unfolding delete_team_def
    by (intro handler_rules; erule (2) other) (simp_all add: other_team_view [OF schema_keys(4) [OF assms]])
  show "keeps env (\<lambda>x. org_view org x = org_view org d) d (snd (add_team_member env r rq t u role d))"
    unfolding add_team_member_def by (intro handler_rules) (auto simp: org_view_def dest!: role_db)
qed

text \<open>All operations\<close>

lemma keeps_or: "keeps env P d d' \<Longrightarrow> keeps env (\<lambda>x. P x \<or> b) d d'"
  by (auto simp: keeps_def)

lemma org_view_kept:
  assumes "enforces_schema env" "schema_ok d" "org \<in> og_id ` set (db_orgs d)"
  shows "org_view org (perform env op d) = org_view org d \<or> authorised env d org 1 op"
proof -
  have "keeps env (\<lambda>x. org_view org x = org_view org d \<or> authorised env d org 1 op) d (perform env op d)"
  proof (cases "user_data_op op")
    case True
    show ?thesis by (rule keeps_mono [OF user_data_same_tenants [OF True]]) (simp add: same_tenants_views)
  next
    case False
    then show ?thesis
      using org_requests_view [of env org d] team_requests_view(1, 2) [OF assms(2), of env org]
        keeps_or [OF team_requests_view(3) [OF assms(2)]]
        keeps_or [OF create_org_view [OF assms(1, 3)]] keeps_or [OF login_view [OF assms(1, 3)]]
      by (cases op) simp_all
  qed
  then show ?thesis by (auto simp: keeps_def)
qed

lemma team_view_same:
  assumes "map (\<lambda>m. (tm_team m, tm_user m, tm_role m)) (db_team_memberships d') =
    map (\<lambda>m. (tm_team m, tm_user m, tm_role m)) (db_team_memberships d)"
  shows "team_view T d' = team_view T d"
  using assms by (simp add: team_view_def)

lemma other_team_members:
  assumes "schema_ok d" "find (\<lambda>t. te_id t = team) (db_teams d) = Some t" "te_org t \<noteq> org"
  shows "team \<notin> teams_of org d"
  using assms schema_keys(4) [OF assms(1)] find_key_Some [OF schema_keys(4) [OF assms(1)]]
  by (auto simp: teams_of_def distinct_map inj_on_def)

lemma remove_team_members: "team \<notin> T \<Longrightarrow> team_view T (remove_team team d) = team_view T d"
  by (auto simp: team_view_def remove_team_def filter_map comp_def intro!: arg_cong [where f = "map _"] filter_cong)

lemma team_ops_members:
  assumes "schema_ok d"
  shows "keeps env (\<lambda>x. team_view (teams_of org d) x = team_view (teams_of org d) d \<or> authorised env d org 2 (DeleteTeam rq t)) d
      (snd (delete_team env rq t d))"
    and "keeps env (\<lambda>x. team_view (teams_of org d) x = team_view (teams_of org d) d \<or>
        authorised env d org 2 (AddTeamMember r rq t u role)) d (snd (add_team_member env r rq t u role d))"
proof -
  have other: "team_view (teams_of org d) x = team_view (teams_of org d) d \<or> authorised env d org 2 op"
    if "require_auth env rq = Inr u" "find (\<lambda>t'. te_id t' = t) (db_teams d) = Some t0"
      "check_org_role d (pu_user_id u) (te_org t0) rn = Inr role" "op_request op = Some rq" "rank_for rn \<le> 2"
      "t \<notin> teams_of org d \<Longrightarrow> team_view (teams_of org d) x = team_view (teams_of org d) d" for u t0 role op x rn
    using that authorised_check [OF that(1, 3, 4, 5)] other_team_members [OF assms that(2)]
    by (cases "te_org t0 = org") auto
  show "keeps env (\<lambda>x. team_view (teams_of org d) x = team_view (teams_of org d) d \<or> authorised env d org 2 (DeleteTeam rq t)) d
      (snd (delete_team env rq t d))"
    unfolding delete_team_def by (intro handler_rules; erule (2) other) (simp_all add: remove_team_members)
  show "keeps env (\<lambda>x. team_view (teams_of org d) x = team_view (teams_of org d) d \<or>
        authorised env d org 2 (AddTeamMember r rq t u role)) d (snd (add_team_member env r rq t u role d))"
    unfolding add_team_member_def by (intro handler_rules; erule (2) other) (auto simp: team_view_def dest!: role_db)
qed

lemmas org_defs = create_org_def update_org_def delete_org_def add_member_def remove_member_def create_team_def
  update_team_def upsert_user_on_login_def

lemma team_view_kept:
  assumes "schema_ok d"
  shows "team_view (teams_of org d) (perform env op d) = team_view (teams_of org d) d \<or> authorised env d org 2 op"
    (is "?same (perform env op d) \<or> _")
proof -
  have "keeps env (\<lambda>x. ?same x \<or> authorised env d org 2 op) d (perform env op d)"
  proof (cases "user_data_op op")
    case True
    show ?thesis by (rule keeps_mono [OF user_data_same_tenants [OF True]]) (simp add: same_tenants_views)
  next
    case False
    then show ?thesis
    proof (cases op)
      case (DeleteTeam rq t)
      then show ?thesis using team_ops_members(1) [OF assms] by simp
    next
      case (AddTeamMember r rq t u role)
      then show ?thesis using team_ops_members(2) [OF assms] by simp
    qed (simp_all add: org_defs del: snd_conv,
      (intro handler_rules disjI1; rule team_view_same;
       force simp: rename_org_def remove_org_def drop_membership_def rename_team_def refresh_user_def dest: role_db)+)
  qed
  then show ?thesis by (auto simp: keeps_def)
qed

end
