(* ===== verification/Apollos_Lifecycle.thy ===== *)
theory Apollos_Lifecycle
  imports Apollos_Isolation
begin

text \<open>
  The life of API keys, MCP servers, tokens and secrets along runs: a revoked key stays revoked, no operation
  approves a server, a token is revoked but still accepted, secrets are read back by their user in their organization
  only.
\<close>

section \<open>Tables changed by few operations\<close>

lemmas all_defs = org_defs user_data_defs delete_team_def add_team_member_def

lemmas row_updates = rename_org_def remove_org_def drop_membership_def rename_team_def remove_team_def refresh_user_def

fun key_op :: "operation \<Rightarrow> bool" where
  "key_op (CreateKey _ _ _ _ _ _) = True"
| "key_op (DeleteKey _ _ _) = True"
| "key_op _ = False"

fun server_op :: "operation \<Rightarrow> bool" where
  "server_op (CreateServer _ _ _ _ _ _ _ _ _) = True"
| "server_op (UpdateServer _ _ _ _ _) = True"
| "server_op (DeleteServer _ _ _) = True"
| "server_op _ = False"

lemma api_keys_kept:
  assumes "\<not> key_op op"
  shows "keeps env (\<lambda>x. db_api_keys x = db_api_keys d) d (perform env op d)"
proof (cases op)
  case (Logout now rq)
  then show ?thesis by (simp, intro logout_keeps) (simp add: revoke_token_def keeps_def snd_commit)
qed (use assms in \<open>simp_all add: all_defs del: snd_conv\<close>,
  (intro handler_rules; force simp: row_updates dest: role_db split: option.splits)+)

lemma servers_kept:
  assumes "\<not> server_op op"
  shows "keeps env (\<lambda>x. db_mcp_servers x = db_mcp_servers d) d (perform env op d)"
proof (cases op)
  case (Logout now rq)
  then show ?thesis by (simp, intro logout_keeps) (simp add: revoke_token_def keeps_def snd_commit)
qed (use assms in \<open>simp_all add: all_defs deactivate_key_def del: snd_conv\<close>,
  (intro handler_rules; force simp: row_updates deactivate_key_def dest: role_db split: option.splits)+)

section \<open>API keys\<close>

definition key_dead :: "uuid \<Rightarrow> db \<Rightarrow> bool" where
  "key_dead i d \<longleftrightarrow> (\<exists>k \<in> set (db_api_keys d). ak_id k = i \<and> \<not> ak_active k)"

lemma key_dead_deactivate: "key_dead i d \<Longrightarrow> key_dead i (deactivate_key j d)"
  unfolding key_dead_def deactivate_key_def by (force simp: bex_Un split: if_splits)

lemma key_dead_step:
  assumes "key_dead i d"
  shows "key_dead i (perform env op d)"
proof (cases "key_op op")
  case False
  then show ?thesis using api_keys_kept [OF False, of env d] assms by (auto simp: keeps_def key_dead_def)
next
  case True
  have "keeps env (key_dead i) d (perform env op d)"
  proof (cases op)
    case (CreateKey j token salt rq org name)
    show ?thesis
      unfolding CreateKey perform.simps create_key_db create_api_key_def
      by (intro handler_rules) (use assms in \<open>auto simp: key_dead_def\<close>)
  next
    case (DeleteKey rq org j)
    show ?thesis
      unfolding DeleteKey perform.simps delete_key_db revoke_api_key_def
      by (intro handler_rules) (rule key_dead_deactivate [OF assms])
  qed (use True in simp_all)
  then show ?thesis using assms by (rule keepsD)
qed

interpretation dead: run_invariant "\<lambda>_. key_dead i" for i
  by unfold_locales (rule key_dead_step)

lemma verify_active:
  assumes "verify_api_key env raw d = Some k"
  shows "k \<in> set (db_api_keys d) \<and> ak_active k \<and> hmac_hex env (ak_salt k) raw = ak_hash k"
  using assms by (auto simp: verify_api_key_def Let_def split: if_splits dest: found_row)

lemma verify_not_dead:
  assumes "schema_ok d" "key_dead i d" "verify_api_key env raw d = Some k"
  shows "ak_id k \<noteq> i"
  using verify_active [OF assms(3)] assms(2) schema_keys(7) [OF assms(1)]
  by (auto simp: key_dead_def distinct_map inj_on_def)

lemma perform_keeps: "keeps env (\<lambda>_. True) d (perform env op d)"
proof (cases "key_op op")
  case True
  then have "user_data_op op" by (cases op) auto
  then show ?thesis by (rule keeps_mono [OF user_data_same_tenants]) simp
next
  case False
  then show ?thesis by (rule keeps_mono [OF api_keys_kept]) simp
qed

interpretation schema: run_invariant "\<lambda>env d. enforces_schema env \<longrightarrow> schema_ok d"
proof
  show "enforces_schema env \<longrightarrow> schema_ok (perform env op d)" if "enforces_schema env \<longrightarrow> schema_ok d" for env op d
    using that perform_keeps [of env d op] by (auto simp: keeps_def enforces_schema_def)
qed

text \<open>A new key is found again, if no other key has the same digest\<close>

lemma find_append: "find P (xs @ ys) = (case find P xs of None \<Rightarrow> find P ys | Some x \<Rightarrow> Some x)"
  by (induction xs) auto

lemma created_key_verifies:
  assumes "create_api_key env i token salt user org name d = (Inr (raw, k), d')" "verify_api_key env raw d = None"
  shows "verify_api_key env raw d' = Some k \<and> ak_user k = user \<and> ak_org k = org"
proof -
  have raw: "raw = ''sk-aai-'' @ token" and k: "k = \<lparr>ak_id = i, ak_user = user, ak_org = org, ak_name = name,
      ak_prefix = key_prefix token, ak_hash = hmac_hex env salt raw, ak_salt = salt, ak_active = True\<rparr>"
    and d': "d' = d\<lparr>db_api_keys := db_api_keys d @ [k]\<rparr>"
    using assms(1) by (auto simp: create_api_key_def Let_def commit_def split: if_splits)
  have "str_startswith raw ''sk-aai-''" by (simp add: raw str_startswith_def)
  then show ?thesis
    using assms(2) by (simp add: verify_api_key_def Let_def d' find_append k raw)
qed

section \<open>MCP servers\<close>

definition approved_ids :: "db \<Rightarrow> uuid set" where
  "approved_ids d = mc_id ` {s \<in> set (db_mcp_servers d). mc_approved s}"

lemma apply_update_keeps [simp]:
  "mc_id (apply_update env nonce b s) = mc_id s" "mc_approved (apply_update env nonce b s) = mc_approved s"
  "mc_user (apply_update env nonce b s) = mc_user s" "mc_org (apply_update env nonce b s) = mc_org s"
  "mc_type (apply_update env nonce b s) = mc_type s"
  by (simp_all add: apply_update_def)

lemma approved_step: "approved_ids (perform env op d) \<subseteq> approved_ids d"
proof (cases "server_op op")
  case False
  then show ?thesis using servers_kept [OF False, of env d] by (auto simp: keeps_def approved_ids_def)
next
  case True
  have "keeps env (\<lambda>x. approved_ids x \<subseteq> approved_ids d) d (perform env op d)"
  proof (cases op)
    case (CreateServer i now nonce rq org name ty cfg descr)
    show ?thesis
      unfolding CreateServer perform.simps create_mcp_server_def
      by (intro handler_rules) (auto simp: approved_ids_def)
  next
    case (UpdateServer nonce rq org i b)
    show ?thesis
      unfolding UpdateServer perform.simps update_mcp_server_def
      by (intro handler_rules) (auto simp: approved_ids_def)
  next
    case (DeleteServer rq org i)
    show ?thesis
      unfolding DeleteServer perform.simps delete_mcp_server_def
      by (intro handler_rules) (auto simp: approved_ids_def)
  qed (use True in simp_all)
  then show ?thesis by (auto simp: keeps_def)
qed

interpretation approved: run_invariant "\<lambda>_ d. approved_ids d \<subseteq> A" for A
  by unfold_locales (use approved_step in blast)

lemma none_approved_none_loaded: "approved_ids d = {} \<Longrightarrow> load_user_servers env uid d = []"
  by (auto simp: load_user_servers_def approved_ids_def filter_empty_conv split: option.splits)

text \<open>The owner of an approved server can replace what it runs.\<close>

lemma approved_server_rewritten:
  assumes "accepts env (d\<lparr>db_mcp_servers := map (\<lambda>x. if mc_id x = i then apply_update env nonce b x else x) (db_mcp_servers d)\<rparr>)"
    (is "accepts env ?d") and
    "require_role env ''member'' org rq d = Inr u" "own_servers i (pu_user_id u) org d = [s]" "mc_approved s"
    "su_config b = Some cfg"
  shows "\<exists>s' \<in> set (db_mcp_servers (perform env (UpdateServer nonce rq org i b) d)).
    mc_id s' = i \<and> mc_approved s' \<and> mc_config s' = seal_config env nonce cfg"
proof -
  have s: "s \<in> set (db_mcp_servers d)" "mc_id s = i" using assms(3)
    by (auto simp: own_servers_def filter_eq_Cons_iff)
  have "perform env (UpdateServer nonce rq org i b) d = ?d"
    using assms(1-3) by (simp add: update_mcp_server_def with_result_def one_or_none_def commit_def)
  moreover have "apply_update env nonce b s \<in> set (db_mcp_servers ?d)" using s by force
  ultimately show ?thesis using s(2) assms(4, 5)
    by (intro bexI [of _ "apply_update env nonce b s"]) (simp_all, simp add: apply_update_def)
qed

section \<open>Tokens\<close>

text \<open>After the logout the token is in the table of revoked tokens; the check that looks there is not the one in use.\<close>

lemma logout_revokes:
  assumes "map_of (rq_cookies rq) ''apollosai_auth'' = Some token" "token \<noteq> []"
    "decode_session_token env token = Inr payload" "claim_str payload ''jti'' = Some jti" "jti \<noteq> []"
    "claim_time payload = Some t" and
    acc: "accepts env (d\<lparr>db_revoked := db_revoked d @ [\<lparr>rt_jti = jti, rt_revoked_at = now, rt_expires_at = t\<rparr>]\<rparr>)"
  shows "is_token_revoked (perform env (Logout now rq) d) jti"
proof -
  obtain c cs j js where cons: "token = c # cs" "jti = j # js" using assms(2, 5) by (meson neq_Nil_conv)
  have "perform env (Logout now rq) d = snd (revoke_token env now jti t d)"
    using assms(1, 3, 4, 6) cons by (simp add: logout_def Let_def)
  moreover have "is_token_revoked (snd (revoke_token env now jti t d)) jti"
    using acc by (auto simp: revoke_token_def snd_commit is_token_revoked_def find_append split: option.splits)
  ultimately show ?thesis by simp
qed

section \<open>Secrets\<close>

lemma encrypt_decrypt:
  assumes "cipher_ok env" "length nonce = 12" "encrypt_value env nonce v aad = Inr enc"
  shows "decrypt_value env enc aad = Inr v"
    and "aad_bytes aad \<noteq> aad_bytes aad' \<Longrightarrow> decrypt_value env enc aad' = Inl (LibraryError ''InvalidTag'')"
  using assms by (auto simp: encrypt_value_def decrypt_value_def cipher_ok_def split: sum.splits)

lemma one_row:
  assumes "distinct (map f xs)" "x \<in> set xs" "f x = k"
  shows "filter (\<lambda>x. f x = k) xs = [x]"
  using filter_key_one [OF assms(1), of k]
proof
  assume "filter (\<lambda>x. f x = k) xs = []"
  then show ?thesis using assms(2, 3) by (simp add: filter_empty_conv)
next
  assume "\<exists>y \<in> set xs. f y = k \<and> filter (\<lambda>x. f x = k) xs = [y]"
  then obtain y where y: "y \<in> set xs" "f y = k" "filter (\<lambda>x. f x = k) xs = [y]" by blast
  have "y = x" using y(1, 2) assms by (simp add: distinct_map inj_on_def)
  then show ?thesis using y(3) by simp
qed

lemma store_secrets_row:
  assumes "store_secrets env i nonce uid x d = (Inr (), d')" "parse_uuid env uid = Some u" "resolve_org_id u d = Some org"
    "enforces_schema env" "schema_ok d"
  shows "\<exists>enc r. encrypt_value env nonce (json_dumps env (JDict x)) (Some (secret_aad env uid org)) = Inr enc \<and>
    secret_rows u org d' = [r] \<and> sc_value r = enc \<and> resolve_org_id u d' = Some org"
proof -
  obtain enc found where e: "encrypt_value env nonce (json_dumps env (JDict x)) (Some (secret_aad env uid org)) = Inr enc"
    and f: "one_or_none (secret_rows u org d) = Inr found"
    using assms(1-3) by (auto simp: store_secrets_def with_result_def split: sum.splits)
  let ?d = "case found of
      Some r \<Rightarrow> d\<lparr>db_secrets := map (\<lambda>s. if sc_id s = sc_id r then s\<lparr>sc_value := enc\<rparr> else s) (db_secrets d)\<rparr>
    | None \<Rightarrow> d\<lparr>db_secrets := db_secrets d @ [\<lparr>sc_id = i, sc_user = u, sc_org = org, sc_key = SECRETS_KEY, sc_value = enc\<rparr>]\<rparr>"
  have d': "d' = ?d" "accepts env ?d"
    using assms(1-3) e f by (auto simp: store_secrets_def with_result_def commit_def split: if_splits)
  have org: "resolve_org_id u d' = Some org" using assms(3) d' by (auto simp: resolve_org_id_def split: option.splits)
  have "\<exists>r. secret_rows u org d' = [r] \<and> sc_value r = enc"
  proof (cases found)
    case None
    then show ?thesis using f d' by (auto simp: secret_rows_def one_or_none_None)
  next
    case (Some r)
    then have "secret_rows u org d = [r]" using f by (simp add: one_or_none_Some)
    then have r: "r \<in> set (db_secrets d)" "(sc_user r, sc_org r, sc_key r) = (u, org, SECRETS_KEY)"
      by (auto simp: secret_rows_def filter_eq_Cons_iff)
    then have "r\<lparr>sc_value := enc\<rparr> \<in> set (db_secrets d')" using Some d' by force
    then have "filter (\<lambda>s. (sc_user s, sc_org s, sc_key s) = (u, org, SECRETS_KEY)) (db_secrets d') = [r\<lparr>sc_value := enc\<rparr>]"
      using schema_keys(11) [OF accepted_schema [OF assms(4) d'(2)]] d'(1) r(2) by (intro one_row) simp_all
    then show ?thesis by (simp add: secret_rows_def)
  qed
  then show ?thesis using e org by blast
qed

lemma secrets_round_trip:
  assumes "store_secrets env i nonce uid x d = (Inr (), d')" "parse_uuid env uid = Some u" "resolve_org_id u d = Some org"
    "enforces_schema env" "schema_ok d" "cipher_ok env" "length nonce = 12"
    "json_loads env (json_dumps env (JDict x)) = Some (JDict x)"
  shows "load_secrets env uid d' = Inr x"
proof -
  obtain enc r where e: "encrypt_value env nonce (json_dumps env (JDict x)) (Some (secret_aad env uid org)) = Inr enc"
    "secret_rows u org d' = [r]" "sc_value r = enc" "resolve_org_id u d' = Some org"
    using store_secrets_row [OF assms(1-5)] by blast
  then show ?thesis
    using encrypt_decrypt(1) [OF assms(6, 7) e(1)] assms(2, 8) by (simp add: load_secrets_def one_or_none_def)
qed

end
