(* ===== verification/Apollos_Takeover.thy ===== *)
theory Apollos_Takeover
  imports Apollos_Lifecycle
begin

text \<open>
  What an administrator can do to the owner of an organization: the route that adds members lets an administrator add
  an owner, and the route that removes members lets him remove an owner when there is a second one.
\<close>

definition exact_schema :: "apollos_env \<Rightarrow> bool" where
  "exact_schema env \<longleftrightarrow> (\<forall>d. accepts env d \<longleftrightarrow> schema_ok d)"

lemma schema_add_membership:
  assumes "schema_ok d" "filter (\<lambda>m. (om_org m, om_user m) = (org, u)) (db_memberships d) = []"
    "org \<in> og_id ` set (db_orgs d)" "u \<in> us_id ` set (db_users d)" "r \<in> rl_id ` set (db_roles d)"
  shows "schema_ok (d\<lparr>db_memberships := db_memberships d @ [mk_membership org u r]\<rparr>)"
proof -
  have "keys_ok (d\<lparr>db_memberships := db_memberships d @ [mk_membership org u r]\<rparr>)"
    using assms(1, 2) by (auto simp: schema_ok_def keys_ok_def mk_membership_def filter_empty_conv)
  moreover have "references_ok (d\<lparr>db_memberships := db_memberships d @ [mk_membership org u r]\<rparr>)"
    using assms(1, 3-5) by (simp add: schema_ok_def references_ok_def Let_def mk_membership_def)
  ultimately show ?thesis by (simp add: schema_ok_def)
qed

lemma schema_drop_membership:
  assumes "schema_ok d"
  shows "schema_ok (drop_membership org u d)"
proof -
  have "keys_ok (drop_membership org u d)"
    using assms by (simp add: schema_ok_def keys_ok_def drop_membership_def distinct_map_filter)
  moreover have "references_ok (drop_membership org u d)"
    using assms by (simp add: schema_ok_def references_ok_def Let_def drop_membership_def)
  ultimately show ?thesis by (simp add: schema_ok_def)
qed

lemma member_rows_add:
  "u \<noteq> c \<Longrightarrow> member_rows (d\<lparr>db_memberships := db_memberships d @ [mk_membership org c r]\<rparr>) org u = member_rows d org u"
  by (simp add: member_rows_def mk_membership_def)

lemma require_role_same:
  assumes "require_role env rn org rq d = Inr u" "member_rows d' org (pu_user_id u) = member_rows d org (pu_user_id u)"
  shows "require_role env rn org rq d' = Inr u"
proof -
  obtain u0 where u0: "require_auth env rq = Inr u0" "pu_user_id u = pu_user_id u0"
    using require_role_Inr [OF assms(1)] by blast
  then have "check_org_role d' (pu_user_id u0) org rn = check_org_role d (pu_user_id u0) org rn"
    using assms(2) by (simp add: check_org_role_def)
  then show ?thesis using assms(1) u0(1) by (simp add: require_role_def)
qed

lemma member_rows_key:
  assumes "filter (\<lambda>m. (om_org m, om_user m) = (org, c)) (db_memberships d) = []"
  shows "member_rows d org c = []"
  using assms by (simp add: member_rows_def)

text \<open>An administrator, the only owner, and an account that is not a member\<close>

definition takeover_ready ::
    "apollos_env \<Rightarrow> http_request \<Rightarrow> uuid \<Rightarrow> db \<Rightarrow> authed_user \<Rightarrow> org_membership \<Rightarrow> user_row \<Rightarrow> bool" where
  "takeover_ready env rq org d admin owner stranger \<longleftrightarrow>
     schema_ok d \<and> require_role env ''admin'' org rq d = Inr admin \<and> owner_rows d org = [owner] \<and>
     stranger \<in> set (db_users d) \<and>
     filter (\<lambda>m. (om_org m, om_user m) = (org, us_id stranger)) (db_memberships d) = []"

definition with_owner :: "uuid \<Rightarrow> uuid \<Rightarrow> int \<Rightarrow> db \<Rightarrow> db" where
  "with_owner org u r d = d\<lparr>db_memberships := db_memberships d @ [mk_membership org u r]\<rparr>"

lemma mk_membership_simps [simp]:
  "om_org (mk_membership org u r) = org" "om_user (mk_membership org u r) = u" "om_role (mk_membership org u r) = r"
  by (simp_all add: mk_membership_def)

lemma takeover_owner:
  assumes "takeover_ready env rq org d admin owner stranger"
  shows "owner \<in> set (db_memberships d)" "om_org owner = org" "owner_role d (om_role owner)"
    "om_user owner \<noteq> us_id stranger" "pu_user_id admin \<noteq> us_id stranger"
proof -
  have s: "schema_ok d" "owner_rows d org = [owner]" "require_role env ''admin'' org rq d = Inr admin" and
    no: "filter (\<lambda>m. (om_org m, om_user m) = (org, us_id stranger)) (db_memberships d) = []"
    using assms by (simp_all add: takeover_ready_def)
  have "owner \<in> set (filter (\<lambda>m. om_org m = org \<and> owner_role d (om_role m)) (db_memberships d))"
    using s owner_rows_filter [OF schema_keys(1) [OF s(1)], of org] by simp
  then show o: "owner \<in> set (db_memberships d)" "om_org owner = org" "owner_role d (om_role owner)" by auto
  show "om_user owner \<noteq> us_id stranger" using o no by (auto simp: filter_empty_conv)
  have "has_rank d org (pu_user_id admin) (rank_for ''admin'')" using require_role_Inr [OF s(3)] by blast
  then show "pu_user_id admin \<noteq> us_id stranger"
    using member_rows_key [OF no] by (auto simp: has_rank_def member_role_def)
qed

lemma second_owner:
  assumes "takeover_ready env rq org d admin owner stranger" "exact_schema env"
  defines "d1 \<equiv> with_owner org (us_id stranger) (om_role owner) d"
  shows "schema_ok d1" "perform env (AddMember i rq org (us_id stranger) ''owner'') d = d1"
    "owner_rows d1 org = [owner, mk_membership org (us_id stranger) (om_role owner)]"
    "require_role env ''admin'' org rq d1 = Inr admin"
proof -
  have s: "schema_ok d" "owner_rows d org = [owner]" "require_role env ''admin'' org rq d = Inr admin"
    "stranger \<in> set (db_users d)" and
    no: "filter (\<lambda>m. (om_org m, om_user m) = (org, us_id stranger)) (db_memberships d) = []"
    using assms(1) by (simp_all add: takeover_ready_def)
  note keys = schema_keys [OF s(1)]
  note o = takeover_owner [OF assms(1)]
  have "org \<in> og_id ` set (db_orgs d)" "om_role owner \<in> rl_id ` set (db_roles d)"
    using s(1) o by (auto simp: schema_ok_def references_ok_def Let_def)
  then show schema: "schema_ok d1"
    unfolding d1_def with_owner_def using schema_add_membership [OF s(1) no] s(4) by simp
  obtain r where r: "r \<in> set (db_roles d)" "rl_id r = om_role owner" "rl_name r = ''owner''"
    using o(3) by (auto simp: owner_role_def)
  have "filter (\<lambda>r. rl_name r = ''owner'') (db_roles d) = [r]" by (rule one_row [OF keys(2) r(1, 3)])
  moreover have "find (\<lambda>u. us_id u = us_id stranger) (db_users d) = Some stranger"
    using find_key_Some [OF keys(6)] s(4) by blast
  ultimately show "perform env (AddMember i rq org (us_id stranger) ''owner'') d = d1"
    using s(3) no r(2) assms(2) schema
    by (simp add: add_member_def with_result_def one_or_none_def get_or_create_role_def commit_def d1_def with_owner_def
        exact_schema_def)
  have "owner_role d1 = owner_role d" "db_roles d1 = db_roles d"
    by (simp_all add: owner_role_def d1_def with_owner_def fun_eq_iff)
  then show "owner_rows d1 org = [owner, mk_membership org (us_id stranger) (om_role owner)]"
    using s(2) owner_rows_filter [OF keys(1), of org] owner_rows_filter [of d1 org] keys(1) o(3)
    by (simp add: d1_def with_owner_def)
  show "require_role env ''admin'' org rq d1 = Inr admin"
    using require_role_same [OF s(3)] member_rows_add [OF o(5)] by (simp add: d1_def with_owner_def)
qed

lemma stranger_sole_owner:
  assumes "takeover_ready env rq org d admin owner stranger" "exact_schema env"
  shows "map om_user (owner_rows (perform env (RemoveMember rq org (om_user owner))
     (perform env (AddMember i rq org (us_id stranger) ''owner'') d)) org) = [us_id stranger]"
proof -
  let ?d1 = "with_owner org (us_id stranger) (om_role owner) d"
  note two = second_owner [OF assms]
  note o = takeover_owner [OF assms(1)]
  have "filter (\<lambda>m. (om_org m, om_user m) = (org, om_user owner)) (db_memberships ?d1) = [owner]"
    by (rule one_row [OF schema_keys(5) [OF two(1)]]) (use o in \<open>simp_all add: with_owner_def\<close>)
  then have "perform env (RemoveMember rq org (om_user owner)) ?d1 = drop_membership org (om_user owner) ?d1"
    using two(3, 4) assms(2) schema_drop_membership [OF two(1)]
    by (simp add: remove_member_def with_result_def one_or_none_def Let_def commit_def exact_schema_def)
  moreover have "owner_rows (drop_membership org (om_user owner) ?d1) org =
      filter (\<lambda>m. (om_org m, om_user m) \<noteq> (org, om_user owner)) (owner_rows ?d1 org)"
    using schema_keys(1) [OF two(1)] by (simp add: owner_rows_filter drop_membership_def owner_role_def conj_ac)
  ultimately show ?thesis using two(2, 3) o(2, 4) by simp
qed

end
