(* ===== verification/Apollos_Integrations.thy ===== *)
theory Apollos_Integrations
  imports Apollos_Auth
begin

text \<open>
  Webhooks (\<open>integrations/models.py\<close>, \<open>integrations/base.py\<close>, \<open>integrations/github/manager.py\<close>,
  \<open>server/routes/integrations.py\<close>). A manager is the interface of the abstract class as a record; reading a
  payload into its typed form is done by a library and is a parameter.
\<close>

section \<open>Sensitive fields\<close>

definition SENSITIVE_KEYS :: "string list" where
  "SENSITIVE_KEYS = [''token'', ''secret'', ''password'', ''authorization'', ''api_key'', ''access_token'', ''refresh_token'',
     ''client_secret'']"

definition sensitive :: "string \<Rightarrow> bool" where
  "sensitive k \<longleftrightarrow> str_lower k \<in> set SENSITIVE_KEYS"

lemma size_dict_entry: "(k, v) \<in> set d \<Longrightarrow> size v < size (JDict d)"
  by (induction d) auto

lemma size_list_item: "x \<in> set xs \<Longrightarrow> size x < size (JList xs)"
  by (induction xs) auto

text \<open>\<open>sanitize_payload\<close> on a value: a dictionary; the dictionaries in a list are handled by the caller\<close>

function sanitize :: "json \<Rightarrow> json" where
  "sanitize (JDict d) =
     JDict (map (\<lambda>(k, v). (k,
       if sensitive k then JStr ''[REDACTED]''
       else case v of
              JDict _ \<Rightarrow> sanitize v
            | JList items \<Rightarrow> JList (map (\<lambda>x. case x of JDict _ \<Rightarrow> sanitize x | _ \<Rightarrow> x) items)
            | _ \<Rightarrow> v)) d)"
| "sanitize JNull = JNull"
| "sanitize (JBool b) = JBool b"
| "sanitize (JInt i) = JInt i"
| "sanitize (JFloat x) = JFloat x"
| "sanitize (JStr s) = JStr s"
| "sanitize (JList xs) = JList xs"
  by pat_completeness auto
termination
proof (relation "measure size")
  fix d and x :: "string \<times> json" and k v x6 y x7
  show "(y, JDict d) \<in> measure size"
    if "x \<in> set d" "(k, v) = x" "\<not> sensitive k" "v = JList x6" "y \<in> set x6" "y = JDict x7"
    using that size_dict_entry [of k v d] size_list_item [of y x6] by auto
  show "(v, JDict d) \<in> measure size" if "x \<in> set d" "(k, v) = x" "\<not> sensitive k" "v = JDict x7"
    using that size_dict_entry [of k v d] by auto
qed simp

section \<open>Paths\<close>

definition slug_char :: "char \<Rightarrow> bool" where
  "slug_char c \<longleftrightarrow>
     (let n = (of_char c :: nat)
      in (97 \<le> n \<and> n \<le> 122) \<or> (65 \<le> n \<and> n \<le> 90) \<or> (48 \<le> n \<and> n \<le> 57) \<or> c \<in> set ''._-'')"

text \<open>\<open>$\<close> matches at the end and before a line break at the end.\<close>

definition at_end :: "(string \<Rightarrow> bool) \<Rightarrow> string \<Rightarrow> bool" where
  "at_end P s \<longleftrightarrow> P s \<or> (s \<noteq> [] \<and> last s = CHR 0x0A \<and> P (butlast s))"

definition is_slug :: "string \<Rightarrow> bool" where
  "is_slug s \<longleftrightarrow> s \<noteq> [] \<and> list_all slug_char s"

definition is_repo :: "string \<Rightarrow> bool" where
  "is_repo s \<longleftrightarrow>
     (let (owner, rest) = (takeWhile (\<lambda>c. c \<noteq> CHR ''/'') s, dropWhile (\<lambda>c. c \<noteq> CHR ''/'') s) in is_slug owner \<and> rest \<noteq> [] \<and> is_slug (tl rest))"

definition is_jira_key :: "string \<Rightarrow> bool" where
  "is_jira_key s \<longleftrightarrow>
     (let (project, rest) = (takeWhile (\<lambda>c. c \<noteq> CHR ''-'') s, dropWhile (\<lambda>c. c \<noteq> CHR ''-'') s);
          upper = (\<lambda>c. let n = (of_char c :: nat) in 65 \<le> n \<and> n \<le> 90);
          digit = (\<lambda>c. let n = (of_char c :: nat) in 48 \<le> n \<and> n \<le> 57)
      in length project \<ge> 2 \<and> upper (hd project) \<and> list_all (\<lambda>c. upper c \<or> digit c \<or> c = CHR ''_'') (tl project) \<and>
         length rest \<ge> 2 \<and> list_all digit (tl rest))"

definition validate_repo_path :: "string \<Rightarrow> api_error + string" where
  "validate_repo_path s = (if at_end is_repo s then Inr s else Inl (PyValueError (''Invalid repository path: '' @ s)))"

definition validate_jira_key :: "string \<Rightarrow> api_error + string" where
  "validate_jira_key s = (if at_end is_jira_key s then Inr s else Inl (PyValueError (''Invalid Jira issue key: '' @ s)))"

definition validate_slug :: "string \<Rightarrow> api_error + string" where
  "validate_slug s = (if at_end is_slug s then Inr s else Inl (PyValueError (''Invalid slug: '' @ s)))"

section \<open>Events and managers\<close>

datatype integration_type = GITHUB | JIRA | SLACK | BITBUCKET | MICROSOFT | OPENHANDS

fun integration_value :: "integration_type \<Rightarrow> string" where
  "integration_value GITHUB = ''github''"
| "integration_value JIRA = ''jira''"
| "integration_value SLACK = ''slack''"
| "integration_value BITBUCKET = ''bitbucket''"
| "integration_value MICROSOFT = ''microsoft''"
| "integration_value OPENHANDS = ''openhands''"

definition integration_of :: "string \<Rightarrow> integration_type option" where
  "integration_of s = find (\<lambda>t. integration_value t = s) [GITHUB, JIRA, SLACK, BITBUCKET, MICROSOFT, OPENHANDS]"

record integration_event =
  ie_source :: integration_type
  ie_event_type :: string
  ie_external_id :: string
  ie_external_url :: "string option"
  ie_title :: "string option"
  ie_body :: "string option"
  ie_repo_url :: "string option"
  ie_user_email :: "string option"
  ie_raw_payload :: "json option"

text \<open>The validator that sanitizes the payload of every event\<close>

definition mk_ievent :: "integration_event \<Rightarrow> integration_event" where
  "mk_ievent e = e\<lparr>ie_raw_payload := map_option sanitize (ie_raw_payload e)\<rparr>"

record webhook_request =
  wr_headers :: "(string \<times> string) list"
  wr_body :: string
  wr_form :: "jdict option"

record conversation_context =
  cc_title :: string
  cc_message :: string
  cc_repo_url :: "string option"
  cc_metadata :: jdict

record manager =
  mg_validate :: "webhook_request \<Rightarrow> bool"
  mg_parse :: "json \<Rightarrow> api_error + integration_event option"
  mg_context :: "integration_event \<Rightarrow> conversation_context"

definition MAX_SEEN :: nat where
  "MAX_SEEN = 10000"

fun evict :: "string list \<Rightarrow> string list" where
  "evict [] = []"
| "evict (x # xs) = (if length (x # xs) > MAX_SEEN then evict xs else x # xs)"

text \<open>\<open>_check_replay\<close>: whether the event was seen, and the events seen, oldest first\<close>

definition check_replay :: "string list \<Rightarrow> string \<Rightarrow> bool \<times> string list" where
  "check_replay seen i = (if i \<in> set seen then (True, seen) else (False, evict (seen @ [i])))"

definition header :: "webhook_request \<Rightarrow> string \<Rightarrow> string" where
  "header rq k = (case map_of (wr_headers rq) k of None \<Rightarrow> [] | Some v \<Rightarrow> v)"

definition status_reply :: "string \<Rightarrow> reply" where
  "status_reply s = ok [(''status'', JStr s)]"

text \<open>The payload by its content type\<close>

definition webhook_body :: "apollos_env \<Rightarrow> webhook_request \<Rightarrow> reply + json" where
  "webhook_body env rq =
     (if str_contains ''application/json'' (header rq ''content-type'')
      then (case json_loads env (wr_body rq) of None \<Rightarrow> Inl (failure 400 ''invalid_payload'') | Some j \<Rightarrow> Inr j)
      else if str_contains ''application/x-www-form-urlencoded'' (header rq ''content-type'')
      then (case wr_form rq of None \<Rightarrow> Inl (failure 400 ''invalid_payload'') | Some f \<Rightarrow> Inr (JDict f))
      else Inl (failure 400 ''unsupported_content_type''))"

definition handle_webhook ::
    "apollos_env \<Rightarrow> manager \<Rightarrow> webhook_request \<Rightarrow> string list \<Rightarrow> (api_error + reply) \<times> string list" where
  "handle_webhook env mg rq seen =
     (if \<not> mg_validate mg rq then (Inr (failure 401 ''invalid_signature''), seen)
      else case webhook_body env rq of
             Inl r \<Rightarrow> (Inr r, seen)
           | Inr b \<Rightarrow>
               (case mg_parse mg b of
                  Inl e \<Rightarrow> (Inl e, seen)
                | Inr None \<Rightarrow> (Inr (status_reply ''skipped''), seen)
                | Inr (Some ev) \<Rightarrow>
                    (case check_replay seen (ie_external_id ev) of
                       (True, seen') \<Rightarrow> (Inr (status_reply ''duplicate''), seen')
                     | (False, seen') \<Rightarrow>
                         (Inr (ok [(''status'', JStr ''processed''), (''title'', JStr (cc_title (mg_context mg ev)))]), seen'))))"

text \<open>
  \<open>receive_webhook\<close>: the registry maps a type to the constructor of its manager, which is called without
  credentials for every request.
\<close>

definition receive_webhook :: "apollos_env \<Rightarrow> (integration_type \<Rightarrow> manager option) \<Rightarrow> string \<Rightarrow> webhook_request \<Rightarrow> reply" where
  "receive_webhook env registry name rq =
     (case integration_of name of
        None \<Rightarrow> failure 404 ''Not found''
      | Some t \<Rightarrow>
          (case registry t of
             None \<Rightarrow> failure 404 ''Not found''
           | Some mg \<Rightarrow>
               (case fst (handle_webhook env mg rq []) of
                  Inl _ \<Rightarrow> failure 500 ''internal_error''
                | Inr r \<Rightarrow> r)))"

section \<open>GitHub\<close>

record github_item =
  gi_number :: "int option"
  gi_title :: "string option"
  gi_body :: "string option"
  gi_html_url :: "string option"

record github_payload =
  gp_action :: "string option"
  gp_issue :: "github_item option"
  gp_comment :: "github_item option"
  gp_pull_request :: "github_item option"
  gp_review :: "github_item option"
  gp_repository_url :: "string option"
  gp_sender_email :: "string option"
  gp_label :: "string option"

definition or_empty :: "string option \<Rightarrow> string" where
  "or_empty s = (case s of None \<Rightarrow> [] | Some t \<Rightarrow> t)"

definition github_validate :: "apollos_env \<Rightarrow> string option \<Rightarrow> webhook_request \<Rightarrow> bool" where
  "github_validate env secret rq =
     (case secret of
        None \<Rightarrow> truthy_env env ''APOLLOSAI_ALLOW_UNSIGNED_WEBHOOKS''
      | Some k \<Rightarrow>
          let signature = header rq ''x-hub-signature-256''
          in signature \<noteq> [] \<and> signature = ''sha256='' @ hmac_hex env k (wr_body rq))"

definition show_number :: "int option \<Rightarrow> string" where
  "show_number n = (case n of None \<Rightarrow> ''None'' | Some i \<Rightarrow> show_int i)"

definition github_event ::
    "github_payload \<Rightarrow> json \<Rightarrow> string \<Rightarrow> github_item \<Rightarrow> string option \<Rightarrow> string option \<Rightarrow> integration_event" where
  "github_event p payload ty item url b =
     mk_ievent \<lparr>ie_source = GITHUB, ie_event_type = ty, ie_external_id = show_number (gi_number item),
       ie_external_url = url, ie_title = gi_title item, ie_body = b, ie_repo_url = gp_repository_url p,
       ie_user_email = gp_sender_email p, ie_raw_payload = Some payload\<rparr>"

definition mentions_agent :: "string \<Rightarrow> bool" where
  "mentions_agent s \<longleftrightarrow> str_contains ''@openhands'' (str_lower s)"

text \<open>The comment or review of a pull request\<close>

definition github_review :: "github_payload \<Rightarrow> json \<Rightarrow> github_item \<Rightarrow> integration_event option" where
  "github_review p payload pr =
     (let comment = (case gp_comment p of None \<Rightarrow> gp_review p | Some c \<Rightarrow> Some c);
          text = (case comment of None \<Rightarrow> [] | Some c \<Rightarrow> or_empty (gi_body c))
      in if text = [] \<or> \<not> mentions_agent text then None
         else Some (github_event p payload ''pr_review_comment'' pr (Option.bind comment gi_html_url) (Some text)))"

definition github_parse :: "(json \<Rightarrow> api_error + github_payload) \<Rightarrow> json \<Rightarrow> api_error + integration_event option" where
  "github_parse validate payload =
     map_sum (\<lambda>e. e)
       (\<lambda>p. let action = or_empty (gp_action p)
            in case (gp_issue p, gp_comment p, gp_pull_request p) of
                 (Some issue, c, pr) \<Rightarrow>
                   if action = ''labeled''
                   then (if str_lower (or_empty (gp_label p)) \<in> {''openhands'', ''apollosai''}
                         then Some (github_event p payload ''issue_labeled'' issue (gi_html_url issue) (gi_body issue))
                         else None)
                   else if action = ''created'' \<and> c \<noteq> None
                   then (let text = or_empty (gi_body (the c))
                         in if mentions_agent text
                            then Some (github_event p payload ''issue_comment'' issue (gi_html_url (the c)) (Some text))
                            else None)
                   else if pr \<noteq> None \<and> action \<in> {''submitted'', ''created''} then github_review p payload (the pr) else None
               | (None, _, Some pr) \<Rightarrow>
                   if action \<in> {''submitted'', ''created''} then github_review p payload pr else None
               | _ \<Rightarrow> None)
       (validate payload)"

definition github_context :: "integration_event \<Rightarrow> conversation_context" where
  "github_context e =
     (let title = (if or_empty (ie_title e) \<noteq> [] then or_empty (ie_title e)
                   else ''GitHub '' @ ie_event_type e @ '' #'' @ ie_external_id e)
      in \<lparr>cc_title = title, cc_message = (if or_empty (ie_body e) \<noteq> [] then or_empty (ie_body e) else title),
          cc_repo_url = ie_repo_url e,
          cc_metadata = [(''source'', JStr ''github''), (''event_type'', JStr (ie_event_type e)),
            (''external_id'', JStr (ie_external_id e)), (''external_url'', opt_str (ie_external_url e))]\<rparr>)"

definition github_manager :: "apollos_env \<Rightarrow> (json \<Rightarrow> api_error + github_payload) \<Rightarrow> string option \<Rightarrow> manager" where
  "github_manager env validate secret =
     \<lparr>mg_validate = github_validate env secret, mg_parse = github_parse validate, mg_context = github_context\<rparr>"

section \<open>Lemmas\<close>

text \<open>A sensitive value that can be reached through dictionaries and lists of dictionaries\<close>

inductive leaks :: "json \<Rightarrow> bool" where
  leak_here: "(k, v) \<in> set d \<Longrightarrow> sensitive k \<Longrightarrow> v \<noteq> JStr ''[REDACTED]'' \<Longrightarrow> leaks (JDict d)"
| leak_dict: "(k, JDict e) \<in> set d \<Longrightarrow> leaks (JDict e) \<Longrightarrow> leaks (JDict d)"
| leak_list: "(k, JList xs) \<in> set d \<Longrightarrow> JDict e \<in> set xs \<Longrightarrow> leaks (JDict e) \<Longrightarrow> leaks (JDict d)"

inductive_cases leaks_cases: "leaks (JDict d)"

lemma sanitize_JDict: "\<exists>d'. sanitize (JDict d) = JDict d' \<and> map fst d' = map fst d"
  by (simp add: comp_def case_prod_beta)

lemma sanitize_no_leak: "leaks j \<Longrightarrow> j \<noteq> sanitize (JDict d)"
proof (induction arbitrary: d rule: leaks.induct)
  case (leak_here k v d')
  then show ?case by auto
next
  case (leak_dict k e d')
  show ?case
  proof
    assume "JDict d' = sanitize (JDict d)"
    then obtain v where v: "(k, v) \<in> set d" "\<not> sensitive k" "JDict e = sanitize v" "\<exists>x. v = JDict x"
      using leak_dict.hyps(1) by (auto split: if_splits json.splits)
    then show False using leak_dict.IH by blast
  qed
next
  case (leak_list k xs d' e)
  show ?case
  proof
    assume "JDict d' = sanitize (JDict d)"
    then obtain ys where ys: "(k, JList ys) \<in> set d" "xs = map (\<lambda>x. case x of JDict _ \<Rightarrow> sanitize x | _ \<Rightarrow> x) ys"
      using leak_list.hyps(1) by (auto split: if_splits json.splits)
    then obtain y where y: "JDict e = (case y of JDict _ \<Rightarrow> sanitize y | _ \<Rightarrow> y)"
      using leak_list.hyps(2) by auto
    have "\<exists>x. JDict e = sanitize (JDict x)"
    proof (cases y)
      case (JDict z)
      then show ?thesis using y by (intro exI [of _ z]) (simp del: sanitize.simps)
    next
      case (JList z)
      then show ?thesis using y by simp
    qed (use y in simp_all)
    then show False using leak_list.IH by blast
  qed
qed

lemma sanitize_idem: "sanitize (sanitize j) = sanitize j"
proof (induction j rule: sanitize.induct)
  case (1 d)
  have item: "(case (case x of JDict _ \<Rightarrow> sanitize x | _ \<Rightarrow> x) of JDict _ \<Rightarrow> sanitize (case x of JDict _ \<Rightarrow> sanitize x | _ \<Rightarrow> x)
      | _ \<Rightarrow> (case x of JDict _ \<Rightarrow> sanitize x | _ \<Rightarrow> x)) = (case x of JDict _ \<Rightarrow> sanitize x | _ \<Rightarrow> x)"
    if "(k, JList ys) \<in> set d" "\<not> sensitive k" "x \<in> set ys" for k ys x
    using that "1.IH"(1) [OF that(1) refl that(2) refl that(3)] sanitize_JDict by (cases x) fastforce+
  have entry: "(if sensitive k then JStr ''[REDACTED]''
      else case w of JDict _ \<Rightarrow> sanitize w | JList items \<Rightarrow> JList (map (\<lambda>x. case x of JDict _ \<Rightarrow> sanitize x | _ \<Rightarrow> x) items)
        | _ \<Rightarrow> w) = w"
    if "(k, v) \<in> set d" "w = (if sensitive k then JStr ''[REDACTED]''
      else case v of JDict _ \<Rightarrow> sanitize v | JList items \<Rightarrow> JList (map (\<lambda>x. case x of JDict _ \<Rightarrow> sanitize x | _ \<Rightarrow> x) items)
        | _ \<Rightarrow> v)" for k v w
  proof (cases "sensitive k")
    case False
    then show ?thesis
    proof (cases v)
      case (JList ys)
      then show ?thesis using that False item by (simp del: sanitize.simps)
    next
      case (JDict e)
      then show ?thesis using that False "1.IH"(2) [OF that(1) refl False JDict] sanitize_JDict [of e] by fastforce
    qed (use that False in simp_all)
  qed (use that in simp)
  show ?case using entry by (simp add: case_prod_beta comp_def)
qed simp_all

text \<open>Two lists inside each other are not searched.\<close>

lemma nested_list_not_sanitized:
  "sanitize (JDict [(''a'', JList [JList [JDict [(''token'', v)]]])]) = JDict [(''a'', JList [JList [JDict [(''token'', v)]]])]"
  by (simp add: sensitive_def SENSITIVE_KEYS_def str_lower_def char_lower_def Let_def)

text \<open>A path with two dots passes as an owner and as a name.\<close>

lemma dots_are_a_repo_path: "validate_repo_path ''../..'' = Inr ''../..''"
  by code_simp

lemma evict_bound: "length (evict xs) \<le> MAX_SEEN" "i \<in> set (evict (xs @ [i]))"
proof -
  show "length (evict xs) \<le> MAX_SEEN" by (induction xs) auto
  show "i \<in> set (evict (xs @ [i]))" by (induction xs) (auto simp: MAX_SEEN_def)
qed

lemma first_delivery: "fst (handle_webhook env mg rq []) \<noteq> Inr (status_reply ''duplicate'')"
  by (auto simp: handle_webhook_def check_replay_def webhook_body_def status_reply_def split: sum.splits option.splits if_splits)

lemma second_delivery:
  assumes "handle_webhook env mg rq seen = (Inr (ok [(''status'', JStr ''processed''), (''title'', t)]), seen')"
  shows "handle_webhook env mg rq seen' = (Inr (status_reply ''duplicate''), seen')"
proof -
  have "mg_validate mg rq" using assms by (auto simp: handle_webhook_def split: if_splits)
  moreover obtain b where b: "webhook_body env rq = Inr b"
    using assms by (auto simp: handle_webhook_def webhook_body_def split: sum.splits if_splits option.splits)
  moreover obtain ev where "mg_parse mg b = Inr (Some ev)"
    using assms calculation by (auto simp: handle_webhook_def status_reply_def split: sum.splits option.splits)
  ultimately show ?thesis
    using assms evict_bound(2) by (auto simp: handle_webhook_def check_replay_def status_reply_def split: if_splits)
qed

end
