(* ===== verification/Apollos_Scenario.thy ===== *)
theory Apollos_Scenario
  imports Apollos_Takeover Apollos_Integrations
begin

text \<open>
  A concrete deployment for the witnesses: the database accepts what the schema allows, the libraries are simple
  functions that satisfy what is asked of them, and three users have logged in.
\<close>

definition demo_uuid :: "uuid \<Rightarrow> string" where
  "demo_uuid n = ''u'' @ show_int (int n)"

text \<open>A cipher text starts with the associated data, preceded by its length in unary.\<close>

definition aad_mark :: "string option \<Rightarrow> string" where
  "aad_mark a = (case a of None \<Rightarrow> ''n'' | Some s \<Rightarrow> ''s'' @ replicate (length s) CHR ''x'' @ ''.'' @ s)"

definition demo_apollos :: apollos_env where
  "demo_apollos =
     \<lparr>accepts = schema_ok,
      getenv = (\<lambda>k. map_of [(''JWT_SECRET'', ''0123456789abcdef0123456789abcdef''), (''APOLLOSAI_ENCRYPTION_KEY'', ''k'')] k),
      parse_uuid = (\<lambda>s. find (\<lambda>n. demo_uuid n = s) [0..<20]),
      str_uuid = demo_uuid,
      jwt_encode = (\<lambda>p _. case map_of p ''sub'' of Some (JStr s) \<Rightarrow> s | _ \<Rightarrow> []),
      jwt_decode = (\<lambda>t _. Inr [(''sub'', JStr t), (''email'', JStr ''m''), (''entra_oid'', JStr t), (''exp'', JInt 100), (''jti'', JStr t)]),
      hmac_hex = (\<lambda>k m. k @ m),
      hkdf = (\<lambda>m s. m @ s),
      aes_encrypt = (\<lambda>_ _ v a. aad_mark a @ v),
      aes_decrypt = (\<lambda>_ _ c a. if take (length (aad_mark a)) c = aad_mark a then Some (drop (length (aad_mark a)) c) else None),
      b64encode = (\<lambda>s. s), b64decode = Some,
      json_dumps = (\<lambda>_. ''{}''), json_loads = (\<lambda>_. Some (JDict [(''k'', JStr ''v'')])),
      shlex_split = (\<lambda>s. Some [s])\<rparr>"

lemma demo_exact: "exact_schema demo_apollos" "enforces_schema demo_apollos"
  by (simp_all add: exact_schema_def enforces_schema_def demo_apollos_def)

text \<open>No mark is the start of another one followed by anything.\<close>

lemma unary_prefix:
  "replicate m CHR ''x'' @ CHR ''.'' # s = take k (replicate n CHR ''x'' @ CHR ''.'' # t) \<Longrightarrow> m = n"
proof (induction m arbitrary: n k)
  case 0
  then show ?case by (cases n; cases k) simp_all
next
  case (Suc m)
  show ?case
  proof (cases n)
    case 0
    then show ?thesis using Suc.prems by (cases k) simp_all
  next
    case n: (Suc n')
    obtain k' where k: "k = Suc k'" using Suc.prems by (cases k) simp_all
    have "replicate m CHR ''x'' @ CHR ''.'' # s = take k' (replicate n' CHR ''x'' @ CHR ''.'' # t)"
      using Suc.prems n k by simp
    then have "m = n'" by (rule Suc.IH)
    then show ?thesis using n by simp
  qed
qed

lemma aad_mark_prefix:
  assumes "take (length (aad_mark b)) (aad_mark a @ v) = aad_mark b"
  shows "a = b"
proof (cases a; cases b)
  fix s t assume ab: "a = Some s" "b = Some t"
  have e: "replicate (length t) CHR ''x'' @ CHR ''.'' # t =
      take (length t + Suc (length t)) (replicate (length s) CHR ''x'' @ CHR ''.'' # s @ v)"
    using assms ab by (simp add: aad_mark_def)
  then have "length t = length s" by (rule unary_prefix)
  then show ?thesis using e ab by simp
qed (use assms in \<open>simp_all add: aad_mark_def\<close>)

lemma demo_cipher: "cipher_ok demo_apollos"
  using aad_mark_prefix by (fastforce simp: cipher_ok_def demo_apollos_def)

definition empty_db :: db where
  "empty_db =
     \<lparr>db_roles = [], db_users = [], db_orgs = [], db_teams = [], db_memberships = [], db_team_memberships = [],
      db_api_keys = [], db_revoked = [], db_auth_tokens = [], db_secrets = [], db_conversations = [],
      db_mcp_servers = [], db_audit = [], db_integrations = [], db_sessions = []\<rparr>"

definition from_user :: "uuid \<Rightarrow> http_request" where
  "from_user n = \<lparr>rq_cookies = [(''apollosai_auth'', demo_uuid n)], rq_headers = [], rq_base_url = ''http://a/''\<rparr>"

definition run_ops :: "apollos_env \<Rightarrow> operation list \<Rightarrow> db \<Rightarrow> db" where
  "run_ops env ops d = fold (perform env) ops d"

lemma run_ops_run: "list_all op_valid ops \<Longrightarrow> db_run env d0 d \<Longrightarrow> db_run env d0 (run_ops env ops d)"
  by (induction ops arbitrary: d) (auto simp: run_ops_def intro: db_run.intros)

text \<open>Users 1, 2 and 3 with the organizations 11, 12 and 13; user 2 is an administrator of organization 11.\<close>

definition demo_ops :: "operation list" where
  "demo_ops =
     [Login 11 ''a'' 1 1 ''o1'' ''x'' None, Login 12 ''b'' 2 2 ''o2'' ''y'' None, Login 13 ''c'' 3 2 ''o3'' ''z'' None,
      AddMember 2 (from_user 1) 11 2 ''admin'']"

definition demo_db :: db where
  "demo_db = run_ops demo_apollos demo_ops empty_db"

lemma demo_run: "db_run demo_apollos empty_db demo_db"
proof -
  have "list_all op_valid demo_ops" by code_simp
  then show ?thesis unfolding demo_db_def by (rule run_ops_run) (rule run_start)
qed

lemma empty_tenancy: "tenancy_ok empty_db"
  by (simp add: tenancy_ok_def schema_ok_def keys_ok_def references_ok_def owners_ok_def ranks_ok_def empty_db_def)

lemma demo_schema: "schema_ok demo_db"
  using schema.along_run [OF demo_run] empty_tenancy demo_exact by (simp add: tenancy_ok_def)

text \<open>
  The pages of the conversations are ordered by time and continued by id: the older conversation \<open>b\<close> is on no page.
\<close>

definition two_conversations :: db where
  "two_conversations = demo_db\<lparr>db_conversations :=
     map (\<lambda>(i, t). \<lparr>cv_id = i, cv_user = 1, cv_org = 11, cv_title = None, cv_meta = None, cv_deleted_at = None,
                    cv_created_at = t, cv_updated_at = t\<rparr>) [(''b'', 1), (''a'', 2)]\<rparr>"

lemma second_page_empty:
  "map_sum (\<lambda>_. ()) (\<lambda>(ms, n). (map cm_id ms, n)) (search_conversations demo_apollos ''u1'' None 1 two_conversations) =
     Inr ([''a''], Some ''a'')"
  "map_sum (\<lambda>_. ()) (\<lambda>(ms, n). (map cm_id ms, n)) (search_conversations demo_apollos ''u1'' (Some ''a'') 1 two_conversations) =
     Inr ([], None)"
  by code_simp+

end
