(* ===== verification/Apollos_Properties.thy ===== *)
theory Apollos_Properties
  imports Apollos_Scenario
begin

text \<open>The properties of the Apollos layer\<close>

section \<open>Organizations\<close>

text \<open>
  C6. Along any sequence of requests, logins and store operations the constraints of the schema hold, every role
  has the rank of its name, and every organization has an owner: members may leave or be removed, but never the last
  owner. It assumes that the database commits only what satisfies the declared constraints.
\<close>

theorem tenancy_invariant:
  assumes "enforces_schema env" "db_run env d d'" "tenancy_ok d"
  shows "schema_ok d' \<and> ranks_ok d' \<and> (\<forall>o' \<in> set (db_orgs d'). has_owner d' (og_id o'))"
  using tenancy.along_run [OF assms(2)] assms(1, 3) by (simp add: tenancy_ok_def owners_ok_def)

theorem tenancy_invariant_witness:
  "length (db_orgs demo_db) = 3 \<and> list_all (\<lambda>o'. has_owner demo_db (og_id o')) (db_orgs demo_db)"
proof -
  have "length (db_orgs demo_db) = 3" by code_simp
  then show ?thesis using tenancy_invariant [OF demo_exact(2) demo_run empty_tenancy] by (simp add: list_all_iff)
qed

text \<open>
  C7. An operation that changes an organization, its memberships or its teams is a request of a user who is at least
  an administrator there; one that changes who is in its teams is a request of at least a manager. Everybody else,
  members of other organizations and logins included, leaves all of it as it is.
\<close>

theorem organization_isolated:
  assumes "enforces_schema env" "schema_ok d" "org \<in> og_id ` set (db_orgs d)"
  shows "(org_view org (perform env op d) \<noteq> org_view org d \<longrightarrow> authorised env d org 1 op) \<and>
    (team_view (teams_of org d) (perform env op d) \<noteq> team_view (teams_of org d) d \<longrightarrow> authorised env d org 2 op)"
  using org_view_kept [OF assms] team_view_kept [OF assms(2)] by blast

theorem organization_isolated_witness:
  "\<not> authorised demo_apollos demo_db 11 1 (DeleteOrg (from_user 3) 11) \<and>
   org_view 11 (perform demo_apollos (DeleteOrg (from_user 3) 11) demo_db) = org_view 11 demo_db \<and>
   org_view 11 (perform demo_apollos (DeleteOrg (from_user 1) 11) demo_db) \<noteq> org_view 11 demo_db"
proof -
  have "11 \<in> og_id ` set (db_orgs demo_db)" by code_simp
  note i = organization_isolated [OF demo_exact(2) demo_schema this, of "DeleteOrg (from_user 3) 11"]
  have "\<not> authorised demo_apollos demo_db 11 1 (DeleteOrg (from_user 3) 11)"
    "org_view 11 (perform demo_apollos (DeleteOrg (from_user 1) 11) demo_db) \<noteq> org_view 11 demo_db" by code_simp+
  then show ?thesis using i by blast
qed

text \<open>
  An administrator can make any other account the only owner: he adds it as an owner, which the check of the
  administrator's rank allows, and removes the previous owner, who then is not the last one.
\<close>

theorem admin_replaces_owner:
  assumes "takeover_ready env rq org d admin owner stranger" "exact_schema env"
  shows "map om_user (owner_rows (perform env (RemoveMember rq org (om_user owner))
      (perform env (AddMember i rq org (us_id stranger) ''owner'') d)) org) = [us_id stranger]"
  by (rule stranger_sole_owner [OF assms])

theorem admin_replaces_owner_witness:
  "map om_user (owner_rows (perform demo_apollos (RemoveMember (from_user 2) 11 1)
     (perform demo_apollos (AddMember 5 (from_user 2) 11 3 ''owner'') demo_db)) 11) = [3]"
proof -
  let ?admin = "projr (require_role demo_apollos ''admin'' 11 (from_user 2) demo_db)"
  let ?stranger = "the (find (\<lambda>u. us_id u = 3) (db_users demo_db))"
  have r: "takeover_ready demo_apollos (from_user 2) 11 demo_db ?admin (hd (owner_rows demo_db 11)) ?stranger"
    by code_simp
  have e: "om_user (hd (owner_rows demo_db 11)) = 1" "us_id ?stranger = 3" by code_simp+
  from admin_replaces_owner [OF r demo_exact(1), of 5] show ?thesis unfolding e .
qed

section \<open>Keys, servers and tokens\<close>

text \<open>
  C34. A revoked API key never identifies anybody again, whatever happens after the revocation: no operation
  reactivates a key, so a key that is accepted is another one.
\<close>

theorem revoked_key_dead:
  assumes "enforces_schema env" "db_run env d d'" "schema_ok d" "k \<in> set (db_api_keys d)" "\<not> ak_active k"
    "verify_api_key env raw d' = Some k'"
  shows "ak_id k' \<noteq> ak_id k"
proof -
  have "key_dead (ak_id k) d'"
    using dead.along_run [OF assms(2)] assms(4, 5) by (auto simp: key_dead_def)
  then show ?thesis
    using verify_not_dead [OF _ _ assms(6)] schema.along_run [OF assms(2)] assms(1, 3) by blast
qed

definition keys_db :: db where
  "keys_db = run_ops demo_apollos
     [CreateKey 21 ''tokentoken1'' ''s'' (from_user 1) 11 ''k1'', CreateKey 22 ''tokentoken2'' ''s'' (from_user 1) 11 ''k2'',
      DeleteKey (from_user 1) 11 21] demo_db"

theorem revoked_key_dead_witness:
  "verify_api_key demo_apollos ''sk-aai-tokentoken1'' keys_db = None \<and>
   ak_id (the (verify_api_key demo_apollos ''sk-aai-tokentoken2'' keys_db)) \<noteq> 21"
proof -
  let ?k = "hd (db_api_keys keys_db)" and ?k' = "the (verify_api_key demo_apollos ''sk-aai-tokentoken2'' keys_db)"
  have s: "schema_ok keys_db" by code_simp
  have k: "?k \<in> set (db_api_keys keys_db)" "\<not> ak_active ?k" "ak_id ?k = 21" by code_simp+
  have v: "verify_api_key demo_apollos ''sk-aai-tokentoken2'' keys_db = Some ?k'"
    "verify_api_key demo_apollos ''sk-aai-tokentoken1'' keys_db = None" by code_simp+
  have "ak_id ?k' \<noteq> ak_id ?k" by (rule revoked_key_dead [OF demo_exact(2) run_start s k(1, 2) v(1)])
  then show ?thesis using v(2) k(3) by simp
qed

text \<open>
  No operation approves a server of a user. So a deployment that starts without approved servers never gives a
  conversation any of them, whatever the users create, update or enable.
\<close>

theorem servers_never_approved:
  assumes "db_run env d d'" "approved_ids d = {}"
  shows "approved_ids d' = {} \<and> load_user_servers env user d' = []"
proof -
  have "approved_ids d' \<subseteq> {}" using approved.along_run [OF assms(1)] assms(2) by blast
  then show ?thesis using none_approved_none_loaded by blast
qed

theorem servers_never_approved_witness:
  "length (db_mcp_servers (run_ops demo_apollos
     [CreateServer 31 0 ''123456789012'' (from_user 1) 11 ''srv'' ''stdio'' [(''command'', JStr ''ls'')] None] demo_db)) = 1 \<and>
   load_user_servers demo_apollos ''u1'' (run_ops demo_apollos
     [CreateServer 31 0 ''123456789012'' (from_user 1) 11 ''srv'' ''stdio'' [(''command'', JStr ''ls'')] None] demo_db) = []"
proof -
  let ?ops = "[CreateServer 31 0 ''123456789012'' (from_user 1) 11 ''srv'' ''stdio'' [(''command'', JStr ''ls'')] None]"
  have "list_all op_valid ?ops" by code_simp
  then have "db_run demo_apollos empty_db (run_ops demo_apollos ?ops demo_db)" using demo_run by (rule run_ops_run)
  moreover have "approved_ids empty_db = {}" by (simp add: approved_ids_def empty_db_def)
  ultimately have "load_user_servers demo_apollos ''u1'' (run_ops demo_apollos ?ops demo_db) = []"
    using servers_never_approved by blast
  moreover have "length (db_mcp_servers (run_ops demo_apollos ?ops demo_db)) = 1" by code_simp
  ultimately show ?thesis by blast
qed

text \<open>
  After a logout the token of the request is in the table of revoked tokens and \<open>validate_session_token\<close>
  refuses it; the identification of requests does not use that function, and still accepts the token for the same
  user.
\<close>

theorem logged_out_token_accepted:
  assumes "map_of (rq_cookies rq) ''apollosai_auth'' = Some token" "token \<noteq> []"
    "decode_session_token env token = Inr payload" "claim_str payload ''jti'' = Some jti" "jti \<noteq> []"
    "claim_time payload = Some t"
    "accepts env (d\<lparr>db_revoked := db_revoked d @ [\<lparr>rt_jti = jti, rt_revoked_at = now, rt_expires_at = t\<rparr>]\<rparr>)"
  shows "(\<exists>e. validate_session_token env token (perform env (Logout now rq) d) = Inl e) \<and>
    get_instance env rq = Inr \<lparr>eu_user_id = claim_str payload ''sub'', eu_email = claim_str payload ''email''\<rparr>"
proof -
  have "map_of payload ''jti'' = Some (JStr jti)"
    using assms(4) by (auto simp: claim_str_def split: option.splits json.splits)
  then show ?thesis
    using logout_revokes [OF assms] assms(1-3)
    by (simp add: validate_session_token_def get_instance_def request_token_def Let_def)
qed

theorem logged_out_token_accepted_witness:
  "(\<exists>e. validate_session_token demo_apollos ''u1'' (perform demo_apollos (Logout 7 (from_user 1)) demo_db) = Inl e) \<and>
   get_instance demo_apollos (from_user 1) = Inr \<lparr>eu_user_id = Some ''u1'', eu_email = Some ''m''\<rparr>"
proof -
  let ?p = "[(''sub'', JStr ''u1''), (''email'', JStr ''m''), (''entra_oid'', JStr ''u1''), (''exp'', JInt 100), (''jti'', JStr ''u1'')]"
  have 1: "map_of (rq_cookies (from_user 1)) ''apollosai_auth'' = Some ''u1''" "''u1'' \<noteq> []"
    "decode_session_token demo_apollos ''u1'' = Inr ?p" "claim_str ?p ''jti'' = Some ''u1''" "claim_time ?p = Some 100"
    by code_simp+
  have "accepts demo_apollos (demo_db\<lparr>db_revoked := db_revoked demo_db @
      [\<lparr>rt_jti = ''u1'', rt_revoked_at = 7, rt_expires_at = 100\<rparr>]\<rparr>)" by code_simp
  from logged_out_token_accepted [OF 1(1-4) 1(2) 1(5) this]
  show ?thesis by (simp add: claim_str_def)
qed

section \<open>Secrets\<close>

text \<open>
  Stored secrets are read back by the same user in the same organization, and the stored text cannot be decrypted
  under any other user or organization. It assumes that the cipher can be undone with the same key and associated data
  only, and that the JSON library reads back the dictionary it has written.
\<close>

theorem secrets_read_back:
  assumes "store_secrets env i nonce uid x d = (Inr (), d')" "parse_uuid env uid = Some u" "resolve_org_id u d = Some org"
    "enforces_schema env" "schema_ok d" "cipher_ok env" "length nonce = 12"
    "json_loads env (json_dumps env (JDict x)) = Some (JDict x)"
  shows "load_secrets env uid d' = Inr x \<and>
    (\<exists>r. secret_rows u org d' = [r] \<and>
      (\<forall>uid' org'. secret_aad env uid' org' \<noteq> secret_aad env uid org \<longrightarrow>
         decrypt_value env (sc_value r) (Some (secret_aad env uid' org')) = Inl (LibraryError ''InvalidTag'')))"
proof -
  obtain enc r where e: "encrypt_value env nonce (json_dumps env (JDict x)) (Some (secret_aad env uid org)) = Inr enc"
    "secret_rows u org d' = [r]" "sc_value r = enc" using store_secrets_row [OF assms(1-5)] by blast
  have "aad_bytes (Some (secret_aad env a b)) = Some (secret_aad env a b)" for a b
    by (cases "secret_aad env a b") (simp_all add: aad_bytes_def secret_aad_def)
  then show ?thesis
    using secrets_round_trip [OF assms] encrypt_decrypt(2) [OF assms(6, 7) e(1)] e(2, 3) by simp
qed

theorem secrets_read_back_witness:
  "load_secrets demo_apollos ''u1''
     (snd (store_secrets demo_apollos 41 ''123456789012'' ''u1'' [(''k'', JStr ''v'')] demo_db)) = Inr [(''k'', JStr ''v'')]"
proof -
  let ?x = "[(''k'', JStr ''v'')]"
  let ?r = "store_secrets demo_apollos 41 ''123456789012'' ''u1'' ?x demo_db"
  have "fst ?r = Inr ()" by code_simp
  then have s: "?r = (Inr (), snd ?r)" by (metis prod.collapse)
  have p: "parse_uuid demo_apollos ''u1'' = Some 1" "resolve_org_id 1 demo_db = Some 11" by code_simp+
  have j: "json_loads demo_apollos (json_dumps demo_apollos (JDict ?x)) = Some (JDict ?x)" by code_simp
  have n: "length ''123456789012'' = 12" by simp
  show ?thesis
    using secrets_read_back [OF s p demo_exact(2) demo_schema demo_cipher n j] by simp
qed

section \<open>Webhooks\<close>

text \<open>
  In the payload kept with an event no sensitive field has a value that can be reached through dictionaries and
  lists of dictionaries; the keys are kept and sanitizing again changes nothing.
\<close>

theorem payload_sanitized:
  "\<not> leaks (sanitize (JDict d)) \<and> sanitize (sanitize (JDict d)) = sanitize (JDict d) \<and>
   (\<exists>d'. sanitize (JDict d) = JDict d' \<and> map fst d' = map fst d)"
  using sanitize_no_leak sanitize_idem sanitize_JDict by blast

text \<open>
  A manager that lives on answers the second delivery of a processed event as a duplicate and remembers it; the
  route makes a new manager for every request, so it never answers that a delivery is a duplicate.
\<close>

theorem replay_not_detected:
  assumes "handle_webhook env mg rq seen = (Inr (ok [(''status'', JStr ''processed''), (''title'', t)]), seen')"
  shows "handle_webhook env mg rq seen' = (Inr (status_reply ''duplicate''), seen') \<and>
    receive_webhook env registry name rq \<noteq> status_reply ''duplicate''"
proof -
  have "receive_webhook env registry name rq \<noteq> status_reply ''duplicate''"
    using first_delivery
    by (auto simp: receive_webhook_def status_reply_def split: option.splits sum.splits)
  then show ?thesis using second_delivery [OF assms] by blast
qed

definition demo_delivery :: webhook_request where
  "demo_delivery =
     \<lparr>wr_headers = [(''content-type'', ''application/json''), (''x-hub-signature-256'', ''sha256=sb'')], wr_body = ''b'', wr_form = None\<rparr>"

definition demo_github :: manager where
  "demo_github =
     github_manager demo_apollos (\<lambda>_. Inr \<lparr>gp_action = Some ''labeled'',
       gp_issue = Some \<lparr>gi_number = Some 7, gi_title = Some ''Bug'', gi_body = None, gi_html_url = None\<rparr>, gp_comment = None,
       gp_pull_request = None, gp_review = None, gp_repository_url = None, gp_sender_email = None,
       gp_label = Some ''OpenHands''\<rparr>) (Some ''s'')"

theorem replay_not_detected_witness:
  "handle_webhook demo_apollos demo_github demo_delivery [''7''] = (Inr (status_reply ''duplicate''), [''7'']) \<and>
   receive_webhook demo_apollos (\<lambda>_. Some demo_github) ''github'' demo_delivery \<noteq> status_reply ''duplicate''"
proof -
  have "handle_webhook demo_apollos demo_github demo_delivery [] =
      (Inr (ok [(''status'', JStr ''processed''), (''title'', JStr ''Bug'')]), [''7''])" by code_simp
  from replay_not_detected [OF this] show ?thesis by blast
qed

end
