(* ===== verification/Llm_Config.thy ===== *)
theory Llm_Config
  imports Fn_Calls Conversation_Memory Metrics
begin

text \<open>
  \<open>openhands/llm/model_features.py\<close>, \<open>llm_utils.py\<close> and the construction of a client in \<open>llm.py\<close>: what a model is
  able to do is read off its name, and the configuration becomes the parameters of every request.

  Parameters: the table of models of the client library, the model list of the proxy, the environment variables.
\<close>

section \<open>Names of models\<close>

text \<open>\<open>fnmatch\<close> for patterns with \<open>*\<close> and \<open>?\<close>, the only wildcards of the tables below\<close>

primrec fnmatch :: "string \<Rightarrow> string \<Rightarrow> bool" where
  "fnmatch [] s = (s = [])"
| "fnmatch (p # ps) s =
     (if p = CHR ''*'' then list_ex (\<lambda>k. fnmatch ps (drop k s)) [0..<Suc (length s)]
      else if p = CHR ''?'' then s \<noteq> [] \<and> fnmatch ps (tl s)
      else s \<noteq> [] \<and> hd s = p \<and> fnmatch ps (tl s))"

definition after_slash :: "string \<Rightarrow> string" where
  "after_slash s = rev (takeWhile (\<lambda>c. c \<noteq> CHR ''/'') (rev s))"

definition normalize_model_name :: "string \<Rightarrow> string" where
  "normalize_model_name model =
     (let raw = str_lower (str_strip model);
          name = (if CHR ''/'' \<in> set raw then takeWhile (\<lambda>c. c \<noteq> CHR '':'') (after_slash raw) else raw)
      in str_removesuffix name ''-gguf'')"

definition model_matches :: "string \<Rightarrow> string list \<Rightarrow> bool" where
  "model_matches model patterns =
     (let raw = str_lower (str_strip model); name = normalize_model_name model
      in list_ex (\<lambda>pat. fnmatch (str_lower pat) (if CHR ''/'' \<in> set (str_lower pat) then raw else name)) patterns)"

definition FUNCTION_CALLING_PATTERNS :: "string list" where
  "FUNCTION_CALLING_PATTERNS =
     [''claude-3-7-sonnet*'', ''claude-3.7-sonnet*'', ''claude-sonnet-3-7-latest'', ''claude-3-5-sonnet*'', ''claude-3.5-sonnet*'',
      ''claude-3.5-haiku*'', ''claude-3-5-haiku*'', ''claude-sonnet-4*'', ''claude-opus-4*'', ''gpt-4o*'', ''gpt-4.1'', ''gpt-5*'',
      ''o1-2024-12-17'', ''o3*'', ''o4-mini*'', ''gemini-2.5-pro*'', ''gemini-3*'', ''groq/*'', ''kimi-k2-0711-preview'',
      ''kimi-k2-instruct'', ''qwen3-coder*'', ''qwen3-coder-480b-a35b-instruct'', ''deepseek-chat'', ''grok-code-fast-1'']"

definition REASONING_EFFORT_PATTERNS :: "string list" where
  "REASONING_EFFORT_PATTERNS =
     [''o1-2024-12-17'', ''o1'', ''o3'', ''o3-2025-04-16'', ''o3-mini-2025-01-31'', ''o3-mini'', ''o4-mini'', ''o4-mini-2025-04-16'',
      ''gemini-2.5-flash'', ''gemini-2.5-pro'', ''gpt-5*'', ''deepseek-r1-0528*'', ''claude-sonnet-4-5*'', ''claude-haiku-4-5*'']"

definition PROMPT_CACHE_PATTERNS :: "string list" where
  "PROMPT_CACHE_PATTERNS =
     [''claude-3-7-sonnet*'', ''claude-3.7-sonnet*'', ''claude-sonnet-3-7-latest'', ''claude-3-5-sonnet*'', ''claude-3-5-haiku*'',
      ''claude-3.5-haiku*'', ''claude-3-haiku-20240307'', ''claude-3-opus-20240229'', ''claude-sonnet-4*'', ''claude-opus-4*'']"

definition SUPPORTS_STOP_WORDS_FALSE_PATTERNS :: "string list" where
  "SUPPORTS_STOP_WORDS_FALSE_PATTERNS =
     [''o1*'', ''grok-4-0709'', ''grok-code-fast-1'', ''deepseek-r1-0528*'', ''azure/gpt-5*'']"

record model_features =
  supports_function_calling :: bool
  supports_reasoning_effort :: bool
  supports_prompt_cache :: bool
  supports_stop_words :: bool

definition get_features :: "string \<Rightarrow> model_features" where
  "get_features model =
     \<lparr>supports_function_calling = model_matches model FUNCTION_CALLING_PATTERNS,
      supports_reasoning_effort = model_matches model REASONING_EFFORT_PATTERNS,
      supports_prompt_cache = model_matches model PROMPT_CACHE_PATTERNS,
      supports_stop_words = (\<not> model_matches model SUPPORTS_STOP_WORDS_FALSE_PATTERNS)\<rparr>"

section \<open>Tools for Gemini\<close>

text \<open>\<open>check_tools\<close> on the schema of a parameter, of a tool, and of all tools\<close>

definition check_prop :: "json \<Rightarrow> json" where
  "check_prop p =
     (case p of
        JDict d \<Rightarrow>
          (let d1 = alist_del ''default'' d
           in JDict (if map_of d1 ''type'' = Some (JStr ''string'') \<and> map_of d1 ''format'' \<noteq> None \<and>
                        map_of d1 ''format'' \<notin> {Some (JStr ''enum''), Some (JStr ''date-time'')}
                     then alist_del ''format'' d1 else d1))
      | _ \<Rightarrow> p)"

definition map_at :: "string \<Rightarrow> (json \<Rightarrow> json) \<Rightarrow> json \<Rightarrow> json" where
  "map_at k f j =
     (case j of
        JDict d \<Rightarrow> (case map_of d k of Some v \<Rightarrow> JDict (alist_set k (f v) d) | None \<Rightarrow> j)
      | _ \<Rightarrow> j)"

definition map_values :: "(json \<Rightarrow> json) \<Rightarrow> json \<Rightarrow> json" where
  "map_values f j = (case j of JDict d \<Rightarrow> JDict (map (\<lambda>(k, v). (k, f v)) d) | _ \<Rightarrow> j)"

definition check_tool :: "json \<Rightarrow> json" where
  "check_tool = map_at ''function'' (map_at ''parameters'' (map_at ''properties'' (map_values check_prop)))"

definition check_tools :: "json list \<Rightarrow> string \<Rightarrow> json list" where
  "check_tools tools model = (if str_contains ''gemini'' (str_lower model) then map check_tool tools else tools)"

section \<open>Configuration\<close>

text \<open>The fields of \<open>LLMConfig\<close> that the client reads; a secret is its text\<close>

record llm_config =
  lc_model :: string
  lc_api_key :: "string option"
  lc_base_url :: "string option"
  lc_api_version :: "string option"
  lc_aws_access_key_id :: "string option"
  lc_aws_secret_access_key :: "string option"
  lc_aws_region_name :: "string option"
  lc_num_retries :: int
  lc_timeout :: "int option"
  lc_temperature :: rat
  lc_top_p :: "rat option"
  lc_top_k :: "rat option"
  lc_custom_llm_provider :: "string option"
  lc_max_input_tokens :: "int option"
  lc_max_output_tokens :: "int option"
  lc_input_cost_per_token :: "rat option"
  lc_output_cost_per_token :: "rat option"
  lc_drop_params :: bool
  lc_disable_vision :: bool
  lc_disable_stop_word :: bool
  lc_caching_prompt :: bool
  lc_native_tool_calling :: "bool option"
  lc_reasoning_effort :: "string option"
  lc_seed :: "int option"
  lc_safety_settings :: "json list"
  lc_completion_kwargs :: "jdict option"

text \<open>
  What the constructor asks: \<open>litellm.get_model_info\<close> (\<open>None\<close> when it raises), the answer of the proxy (an exception of
  the request, or its body, \<open>None\<close> when that is not JSON), \<open>litellm.supports_vision\<close>, and \<open>os.getenv\<close>
\<close>

record init_env =
  le_model_info :: "string \<Rightarrow> jdict option"
  le_proxy :: "string \<Rightarrow> string \<Rightarrow> exn + json option"
  le_supports_vision :: "string \<Rightarrow> bool"
  le_getenv :: "string \<Rightarrow> string option"

definition set_text_opt :: "string option \<Rightarrow> bool" where
  "set_text_opt s \<longleftrightarrow> s \<noteq> None \<and> s \<noteq> Some []"

definition json_opt :: "('a \<Rightarrow> json) \<Rightarrow> 'a option \<Rightarrow> json" where
  "json_opt f x = (case x of None \<Rightarrow> JNull | Some v \<Rightarrow> f v)"

definition key_error :: "string \<Rightarrow> exn" where
  "key_error k = mk_exn ''KeyError'' OtherError k"

definition json_type_error :: exn where
  "json_type_error = mk_exn ''TypeError'' OtherError []"

section \<open>What is known of the model\<close>

text \<open>The entry of the proxy for a model: the first with its name\<close>

fun find_model :: "string \<Rightarrow> json list \<Rightarrow> exn + jdict option" where
  "find_model name [] = Inr None"
| "find_model name (JDict d # infos) =
     (case map_of d ''model_name'' of
        None \<Rightarrow> Inl (key_error ''model_name'')
      | Some n \<Rightarrow> if n = JStr name then Inr (Some d) else find_model name infos)"
| "find_model name (_ # infos) = Inl json_type_error"

definition proxy_models :: "json option \<Rightarrow> exn + json list" where
  "proxy_models body =
     (case body of
        Some (JDict d) \<Rightarrow>
          (case map_of d ''data'' of
             None \<Rightarrow> Inr []
           | Some (JList infos) \<Rightarrow> Inr infos
           | Some j \<Rightarrow> if j = JStr [] \<or> j = JDict [] then Inr [] else Inl json_type_error)
      | _ \<Rightarrow> Inr [])"

definition proxy_url :: "llm_config \<Rightarrow> string" where
  "proxy_url c =
     (let url = (case lc_base_url c of None \<Rightarrow> [] | Some u \<Rightarrow> str_strip u)
      in (if str_startswith url ''http://'' \<or> str_startswith url ''https://'' then url else ''http://'' @ url) @ ''/v1/model/info'')"

definition bearer :: "llm_config \<Rightarrow> string" where
  "bearer c = ''Bearer '' @ (if set_text_opt (lc_api_key c) then the (lc_api_key c) else ''None'')"

definition proxy_info :: "init_env \<Rightarrow> llm_config \<Rightarrow> jdict option \<Rightarrow> exn + jdict option" where
  "proxy_info env c info =
     (if \<not> str_startswith (lc_model c) ''litellm_proxy/'' then Inr info
      else sbind (le_proxy env (proxy_url c) (bearer c)) (\<lambda>body.
           sbind (proxy_models body) (\<lambda>infos.
           sbind (find_model (str_removeprefix (lc_model c) ''litellm_proxy/'') infos) (\<lambda>found.
             case found of
               None \<Rightarrow> Inr info
             | Some d \<Rightarrow>
                 (case map_of d ''model_info'' of
                    None \<Rightarrow> Inl (key_error ''model_info'')
                  | Some (JDict i) \<Rightarrow> Inr (Some i)
                  | Some _ \<Rightarrow> Inr None)))))"

definition or_info :: "jdict option \<Rightarrow> jdict option \<Rightarrow> jdict option" where
  "or_info i j = (if i = None \<or> i = Some [] then (case j of None \<Rightarrow> i | Some _ \<Rightarrow> j) else i)"

definition find_info :: "init_env \<Rightarrow> llm_config \<Rightarrow> exn + jdict option" where
  "find_info env c =
     sbind (proxy_info env c (if str_startswith (lc_model c) ''openrouter'' then le_model_info env (lc_model c) else None)) (\<lambda>info.
       Inr (or_info (or_info info (le_model_info env (takeWhile (\<lambda>ch. ch \<noteq> CHR '':'') (lc_model c))))
                    (le_model_info env (after_slash (lc_model c)))))"

definition info_int :: "jdict option \<Rightarrow> string \<Rightarrow> int option" where
  "info_int info k =
     (case info of None \<Rightarrow> None | Some d \<Rightarrow> (case map_of d k of Some (JInt i) \<Rightarrow> Some i | _ \<Rightarrow> None))"

definition LONG_OUTPUT_MODELS :: "string list" where
  "LONG_OUTPUT_MODELS =
     [''claude-3-7-sonnet'', ''claude-3.7-sonnet'', ''claude-sonnet-4'', ''claude-sonnet-4-5-20250929'', ''claude-haiku-4-5-20251001'']"

text \<open>\<open>init_model_info\<close>: the information, the configuration completed from it, whether tools are called natively\<close>

definition complete_config :: "jdict option \<Rightarrow> llm_config \<Rightarrow> llm_config" where
  "complete_config info c =
     c\<lparr>lc_top_p := (if str_startswith (lc_model c) ''huggingface'' \<and> lc_top_p c = Some 1 then Some (9 / 10) else lc_top_p c),
       lc_max_input_tokens :=
         (if lc_max_input_tokens c = None then info_int info ''max_input_tokens'' else lc_max_input_tokens c),
       lc_max_output_tokens :=
         (if lc_max_output_tokens c \<noteq> None then lc_max_output_tokens c
          else if list_ex (\<lambda>m. str_contains m (lc_model c)) LONG_OUTPUT_MODELS then Some 64000
          else (case info_int info ''max_output_tokens'' of
                  Some n \<Rightarrow> Some n
                | None \<Rightarrow> info_int info ''max_tokens''))\<rparr>"

definition init_model_info :: "init_env \<Rightarrow> llm_config \<Rightarrow> exn + llm_config \<times> jdict option \<times> bool" where
  "init_model_info env c =
     sbind (find_info env c) (\<lambda>info.
       let c' = complete_config info c
       in Inr (c', info,
            case lc_native_tool_calling c' of
              None \<Rightarrow> supports_function_calling (get_features (lc_model c'))
            | Some b \<Rightarrow> b))"

section \<open>The parameters of a request\<close>

definition openhands_llm_base_url :: "init_env \<Rightarrow> string" where
  "openhands_llm_base_url env =
     (if set_text_opt (le_getenv env ''LITE_LLM_API_URL'') then the (le_getenv env ''LITE_LLM_API_URL'')
      else case le_getenv env ''WEB_HOST'' of
             Some h \<Rightarrow>
               if h \<noteq> [] \<and> (str_contains ''.staging.'' h \<or> str_startswith h ''staging'')
               then ''https://llm-proxy.staging.all-hands.dev/'' else ''https://llm-proxy.app.all-hands.dev/''
           | None \<Rightarrow> ''https://llm-proxy.app.all-hands.dev/'')"

definition rewrite_model :: "init_env \<Rightarrow> llm_config \<Rightarrow> llm_config" where
  "rewrite_model env c =
     (if str_startswith (lc_model c) ''openhands/''
      then c\<lparr>lc_model := ''litellm_proxy/'' @ str_removeprefix (lc_model c) ''openhands/'',
             lc_base_url := Some (openhands_llm_base_url env)\<rparr>
      else c)"

definition first_params :: "llm_config \<Rightarrow> jdict" where
  "first_params c =
     [(''temperature'', JFloat (lc_temperature c)), (''max_completion_tokens'', json_opt JInt (lc_max_output_tokens c))] @
     (case lc_top_k c of None \<Rightarrow> [] | Some k \<Rightarrow> [(''top_k'', JFloat k)]) @
     (case lc_top_p c of None \<Rightarrow> [] | Some p \<Rightarrow> [(''top_p'', JFloat p)])"

text \<open>Models that reason take neither a temperature nor \<open>top_p\<close>.\<close>

definition reasoning_params :: "llm_config \<Rightarrow> jdict \<Rightarrow> exn + jdict" where
  "reasoning_params c d =
     (let m = lc_model c; effort = lc_reasoning_effort c;
          d1 = (if str_contains ''gemini-2.5-pro'' m
                then if effort \<in> {None, Some ''low'', Some ''none''}
                     then alist_set ''allowed_openai_params'' (JList [JStr ''thinking''])
                            (alist_set ''thinking'' (JDict [(''budget_tokens'', JInt 128)]) d)
                     else alist_set ''reasoning_effort'' (json_opt JStr effort) d
                else if str_contains ''claude-sonnet-4-5'' m \<or> str_contains ''claude-haiku-4-5-20251001'' m then d
                else (case effort of None \<Rightarrow> d | Some e \<Rightarrow> alist_set ''reasoning_effort'' (JStr e) d))
      in if \<not> supports_reasoning_effort (get_features m) then Inr d
         else if map_of d1 ''top_p'' = None then Inl (key_error ''top_p'')
         else Inr (alist_del ''top_p'' (alist_del ''temperature'' d1)))"

definition provider_params :: "llm_config \<Rightarrow> jdict \<Rightarrow> jdict" where
  "provider_params c d =
     (let m = str_lower (lc_model c);
          d1 = (if str_startswith (lc_model c) ''azure''
                then alist_del ''max_completion_tokens'' (alist_set ''max_tokens'' (json_opt JInt (lc_max_output_tokens c)) d) else d);
          d2 = (if (str_contains ''mistral'' m \<or> str_contains ''gemini'' m) \<and> lc_safety_settings c \<noteq> []
                then alist_set ''safety_settings'' (JList (lc_safety_settings c)) d1 else d1);
          d3 = alist_set ''aws_region_name'' (json_opt JStr (lc_aws_region_name c)) d2;
          d4 = (if set_text_opt (lc_aws_access_key_id c)
                then alist_set ''aws_access_key_id'' (json_opt JStr (lc_aws_access_key_id c)) d3 else d3);
          d5 = (if set_text_opt (lc_aws_secret_access_key c)
                then alist_set ''aws_secret_access_key'' (json_opt JStr (lc_aws_secret_access_key c)) d4 else d4);
          d6 = (if str_contains ''claude-opus-4-1'' m
                then alist_set ''thinking'' (JDict [(''type'', JStr ''disabled'')]) d5 else d5)
      in if (str_contains ''claude-opus-4-1'' m \<or> str_contains ''claude-opus-4-5'' m \<or> str_contains ''claude-sonnet-4'' m) \<and>
            map_of d6 ''temperature'' \<noteq> None \<and> map_of d6 ''top_p'' \<noteq> None
         then alist_del ''top_p'' d6 else d6)"

definition custom_params :: "llm_config \<Rightarrow> jdict \<Rightarrow> jdict" where
  "custom_params c d = (case lc_completion_kwargs c of None \<Rightarrow> d | Some e \<Rightarrow> alist_update d e)"

text \<open>The arguments that are always given; a name that comes twice is an error of the call.\<close>

definition fixed_params :: "llm_config \<Rightarrow> jdict" where
  "fixed_params c =
     [(''model'', JStr (lc_model c)),
      (''api_key'', if set_text_opt (lc_api_key c) then json_opt JStr (lc_api_key c) else JNull),
      (''base_url'', json_opt JStr (lc_base_url c)), (''api_version'', json_opt JStr (lc_api_version c)),
      (''custom_llm_provider'', json_opt JStr (lc_custom_llm_provider c)), (''timeout'', json_opt JInt (lc_timeout c)),
      (''drop_params'', JBool (lc_drop_params c)), (''seed'', json_opt JInt (lc_seed c))]"

definition request_params :: "llm_config \<Rightarrow> exn + jdict" where
  "request_params c =
     sbind (reasoning_params c (first_params c)) (\<lambda>d.
       let d' = custom_params c (provider_params c d)
       in if list_ex (\<lambda>(k, v). map_of d' k \<noteq> None) (fixed_params c) then Inl json_type_error
          else Inr (fixed_params c @ d'))"

section \<open>The client\<close>

text \<open>
  The last field is what the retry listener has been told, when there is one.
\<close>

record llm =
  llm_config :: llm_config
  llm_service_id :: string
  llm_metrics :: metrics
  llm_model_info :: "jdict option"
  function_calling_active :: bool
  cost_metric_supported :: bool
  llm_params :: jdict
  llm_notices :: "(int \<times> int) list option"

definition llm_init :: "init_env \<Rightarrow> llm_config \<Rightarrow> string \<Rightarrow> metrics option \<Rightarrow> bool \<Rightarrow> exn + llm" where
  "llm_init env c sid m listener =
     sbind (init_model_info env c) (\<lambda>(c1, info, native).
       let c2 = rewrite_model env c1
       in sbind (request_params c2) (\<lambda>params.
            Inr \<lparr>llm_config = c2, llm_service_id = sid,
                 llm_metrics = (case m of None \<Rightarrow> metrics_init (lc_model c) | Some x \<Rightarrow> x), llm_model_info = info,
                 function_calling_active = native, cost_metric_supported = True, llm_params = params,
                 llm_notices = (if listener then Some [] else None)\<rparr>))"

definition json_true :: "json \<Rightarrow> bool" where
  "json_true j \<longleftrightarrow> j \<notin> {JNull, JBool False, JInt 0, JFloat 0, JStr [], JList [], JDict []}"

definition supports_vision :: "init_env \<Rightarrow> llm \<Rightarrow> bool" where
  "supports_vision env l \<longleftrightarrow>
     str_lower (case le_getenv env ''OPENHANDS_FORCE_VISION'' of None \<Rightarrow> [] | Some s \<Rightarrow> s) \<in> {''1'', ''true'', ''yes'', ''on''} \<or>
     le_supports_vision env (lc_model (llm_config l)) \<or>
     le_supports_vision env (after_slash (lc_model (llm_config l))) \<or>
     (case llm_model_info l of None \<Rightarrow> False | Some d \<Rightarrow> (case map_of d ''supports_vision'' of None \<Rightarrow> False | Some j \<Rightarrow> json_true j))"

definition vision_is_active :: "init_env \<Rightarrow> llm \<Rightarrow> bool" where
  "vision_is_active env l \<longleftrightarrow> \<not> lc_disable_vision (llm_config l) \<and> supports_vision env l"

definition is_caching_prompt_active :: "llm \<Rightarrow> bool" where
  "is_caching_prompt_active l \<longleftrightarrow>
     lc_caching_prompt (llm_config l) \<and> supports_prompt_cache (get_features (lc_model (llm_config l)))"

definition is_local :: "llm \<Rightarrow> bool" where
  "is_local l =
     (case lc_base_url (llm_config l) of
        Some u \<Rightarrow> list_ex (\<lambda>s. str_contains s u) [''localhost'', ''127.0.0.1'', ''0.0.0.0'']
      | None \<Rightarrow> str_startswith (lc_model (llm_config l)) ''ollama'')"

end
