(* ===== verification/Llm.thy ===== *)
theory Llm
  imports Llm_Config CodeAct
begin

text \<open>
  \<open>openhands/llm/llm.py\<close>, \<open>retry_mixin.py\<close>, \<open>llm_registry.py\<close> and the routers: a request to a language model. The
  messages are serialized, turned into text when the model has no tools of its own, sent, and the text of the answer is
  read back as a tool call; latency, cost and tokens are recorded; some errors are tried again. The writing of completions
  to log files and positional arguments are left out.

  Parameters: the completion function of the client library, with its latency, on a state of any type; its price list;
  the retry library; \<open>float\<close>; the clock; \<open>str\<close> of a response.
\<close>

section \<open>Responses\<close>

record choice =
  ch_role :: string
  ch_content :: "string option"
  ch_tool_calls :: "tool_call list option"

text \<open>\<open>Usage\<close>: cached tokens are those of \<open>prompt_tokens_details\<close>, cache writes those of \<open>model_extra\<close>\<close>

record usage =
  us_prompt :: int
  us_completion :: int
  us_cached :: "int option"
  us_cache_write :: int

record completion_response =
  cr_id :: "string option"
  cr_choices :: "choice list"
  cr_usage :: "usage option"
  cr_cost_header :: "string option"

definition response_id :: "completion_response \<Rightarrow> string" where
  "response_id r = (case cr_id r of None \<Rightarrow> ''unknown'' | Some i \<Rightarrow> i)"

text \<open>
  The retry library is given the number of attempts, which exceptions to retry, whether to stop early, what to do before
  a further attempt, and the function with its keyword arguments.
\<close>

type_synonym 's call = "jdict \<Rightarrow> llm \<times> 's \<Rightarrow> (exn + completion_response) \<times> llm \<times> 's"
type_synonym 's pause = "int \<Rightarrow> exn \<Rightarrow> jdict \<Rightarrow> llm \<times> 's \<Rightarrow> jdict \<times> llm \<times> 's"

record 's llm_env = init_env +
  le_fn :: fn_env
  le_float :: "string \<Rightarrow> rat option"
  le_cost :: "string option \<Rightarrow> (rat \<times> rat) option \<Rightarrow> completion_response \<Rightarrow> rat option"
  le_count :: "string \<Rightarrow> jdict list \<Rightarrow> int option"
  le_resp_str :: "completion_response \<Rightarrow> string"
  le_now :: rat
  le_api :: "jdict \<Rightarrow> jdict list \<Rightarrow> fn_tool list option \<Rightarrow> 's \<Rightarrow> (exn + completion_response \<times> rat) \<times> 's"
  le_should_exit :: "'s \<Rightarrow> bool"
  le_retry :: "int \<Rightarrow> (exn \<Rightarrow> bool) \<Rightarrow> ('s \<Rightarrow> bool) \<Rightarrow> 's pause \<Rightarrow> 's call \<Rightarrow> 's call"

definition no_response_exn :: "'s llm_env \<Rightarrow> completion_response \<Rightarrow> exn" where
  "no_response_exn env r =
     mk_exn ''LLMNoResponseError'' LLMNoResponseError
       (''Response choices is less than 1 - This is only seen in Gemini models so far. Response: '' @ le_resp_str env r)"

definition fn_exn :: "fn_error \<Rightarrow> exn" where
  "fn_exn x =
     (case x of
        Conversion_error \<Rightarrow> mk_exn ''FunctionCallConversionError'' OtherError []
      | Validation_error \<Rightarrow> mk_exn ''FunctionCallValidationError'' FunctionCallValidationError []
      | Key_error \<Rightarrow> mk_exn ''KeyError'' OtherError []
      | Type_error \<Rightarrow> mk_exn ''TypeError'' OtherError []
      | Attribute_error \<Rightarrow> mk_exn ''AttributeError'' OtherError []
      | Assertion_error \<Rightarrow> mk_exn ''AssertionError'' OtherError [])"

definition fn_result :: "fn_error + 'a \<Rightarrow> exn + 'a" where
  "fn_result r = map_sum fn_exn id r"

section \<open>Messages\<close>

text \<open>\<open>format_messages_for_llm\<close>\<close>

definition string_only :: "string \<Rightarrow> bool" where
  "string_only model \<longleftrightarrow>
     str_contains ''deepseek'' model \<or> (str_contains ''kimi-k2-instruct'' model \<and> str_contains ''groq'' model) \<or>
     list_ex (\<lambda>k. str_contains k model)
       [''openrouter/anthropic/claude-sonnet-4'', ''openrouter/anthropic/claude-sonnet-4-5-20250929'',
        ''openrouter/anthropic/claude-haiku-4-5-20251001'']"

definition flag_message :: "'s llm_env \<Rightarrow> llm \<Rightarrow> message \<Rightarrow> message" where
  "flag_message env l m =
     m\<lparr>cache_enabled := is_caching_prompt_active l, vision_enabled := vision_is_active (init_env.truncate env) l,
       function_calling_enabled := function_calling_active l,
       force_string_serializer := (if string_only (lc_model (llm_config l)) then True else force_string_serializer m)\<rparr>"

fun serialize_all :: "message list \<Rightarrow> exn + jdict list" where
  "serialize_all [] = Inr []"
| "serialize_all (m # ms) = sbind (serialize_message m) (\<lambda>d. sbind (serialize_all ms) (\<lambda>ds. Inr (d # ds)))"

definition format_messages_for_llm :: "'s llm_env \<Rightarrow> llm \<Rightarrow> message list \<Rightarrow> exn + jdict list" where
  "format_messages_for_llm env l ms = serialize_all (map (flag_message env l) ms)"

text \<open>\<open>get_token_count\<close>: a failure counts as no tokens\<close>

definition get_token_count :: "'s llm_env \<Rightarrow> llm \<Rightarrow> message list \<Rightarrow> exn + int" where
  "get_token_count env l ms =
     sbind (format_messages_for_llm env l ms) (\<lambda>ds.
       Inr (case le_count env (lc_model (llm_config l)) ds of None \<Rightarrow> 0 | Some n \<Rightarrow> n))"

section \<open>Accounting\<close>

text \<open>\<open>_completion_cost\<close>: a header that is not a number is an exception for the caller; everything else ends the accounting\<close>

definition custom_cost :: "llm_config \<Rightarrow> (rat \<times> rat) option" where
  "custom_cost c =
     (case (lc_input_cost_per_token c, lc_output_cost_per_token c) of (Some i, Some k) \<Rightarrow> Some (i, k) | _ \<Rightarrow> None)"

definition fallback_name :: "string \<Rightarrow> string" where
  "fallback_name model = str_join ''/'' (tl (str_split (CHR ''/'') model))"

definition completion_cost :: "'s llm_env \<Rightarrow> completion_response \<Rightarrow> llm \<Rightarrow> rat \<times> llm" where
  "completion_cost env r l =
     (if \<not> cost_metric_supported l then (0, l)
      else (let price = (\<lambda>name. le_cost env name (custom_cost (llm_config l)) r);
                given = (case cr_cost_header r of None \<Rightarrow> Inr None | Some h \<Rightarrow> (case le_float env h of None \<Rightarrow> Inl () | Some c \<Rightarrow> Inr (Some c)))
            in case given of
                 Inl _ \<Rightarrow> (0, l)
               | Inr g \<Rightarrow>
                   (let cost = (case g of
                                  Some c \<Rightarrow> Some c
                                | None \<Rightarrow>
                                    (case price None of
                                       Some c \<Rightarrow> Some c
                                     | None \<Rightarrow> price (Some (fallback_name (lc_model (llm_config l))))))
                    in case cost of
                         None \<Rightarrow> (0, l\<lparr>cost_metric_supported := False\<rparr>)
                       | Some c \<Rightarrow>
                           (case add_cost (llm_metrics l) c (le_now env) of
                              Inl _ \<Rightarrow> (0, l\<lparr>cost_metric_supported := False\<rparr>)
                            | Inr m \<Rightarrow> (c, l\<lparr>llm_metrics := m\<rparr>)))))"

text \<open>\<open>_post_completion\<close>; a context window that is not a number is refused by the metrics\<close>

definition known_window :: "llm \<Rightarrow> exn + int" where
  "known_window l =
     (case llm_model_info l of
        None \<Rightarrow> Inr 0
      | Some d \<Rightarrow>
          (case map_of d ''max_input_tokens'' of
             None \<Rightarrow> Inr 0
           | Some (JInt n) \<Rightarrow> Inr n
           | Some _ \<Rightarrow> Inl (mk_exn ''ValidationError'' ValueError [])))"

definition post_completion :: "'s llm_env \<Rightarrow> completion_response \<Rightarrow> llm \<Rightarrow> (exn + rat) \<times> llm" where
  "post_completion env r l =
     (case completion_cost env r l of
        (c, l1) \<Rightarrow>
          (case cr_usage r of
             None \<Rightarrow> (Inr c, l1)
           | Some u \<Rightarrow>
               (case known_window l1 of
                  Inl x \<Rightarrow> (Inl x, l1)
                | Inr w \<Rightarrow>
                    (Inr c, l1\<lparr>llm_metrics :=
                       add_token_usage (llm_metrics l1) (us_prompt u) (us_completion u)
                         (case us_cached u of None \<Rightarrow> 0 | Some n \<Rightarrow> n) (us_cache_write u) w (response_id r)\<rparr>))))"

section \<open>One attempt\<close>

text \<open>The message of a response as the dictionary the converter reads, and back\<close>

definition choice_dict :: "choice \<Rightarrow> jdict" where
  "choice_dict c = out_message (ch_role c) (json_opt JStr (ch_content c))"

definition json_str :: "json \<Rightarrow> string option" where
  "json_str j = (case j of JStr s \<Rightarrow> Some s | _ \<Rightarrow> None)"

definition call_of_json :: "json \<Rightarrow> tool_call" where
  "call_of_json j =
     (case j of
        JDict d \<Rightarrow>
          (let f = (case map_of d ''function'' of Some (JDict f) \<Rightarrow> f | _ \<Rightarrow> []);
               str = (\<lambda>e k. case map_of e k of Some v \<Rightarrow> json_str v | None \<Rightarrow> None)
           in \<lparr>tc_id = (case str d ''id'' of Some s \<Rightarrow> s | None \<Rightarrow> []), tc_name = str f ''name'',
               tc_arguments = (case str f ''arguments'' of Some s \<Rightarrow> s | None \<Rightarrow> [])\<rparr>)
      | _ \<Rightarrow> \<lparr>tc_id = [], tc_name = None, tc_arguments = []\<rparr>)"

definition choice_of_dict :: "jdict \<Rightarrow> choice" where
  "choice_of_dict d =
     \<lparr>ch_role = (case map_of d ''role'' of Some (JStr s) \<Rightarrow> s | _ \<Rightarrow> []),
      ch_content = (case map_of d ''content'' of Some j \<Rightarrow> json_str j | None \<Rightarrow> None),
      ch_tool_calls = (case map_of d ''tool_calls'' of Some (JList js) \<Rightarrow> Some (map call_of_json js) | _ \<Rightarrow> None)\<rparr>"

text \<open>The answer of a model without tools, read back; an answer without a call is kept as it is\<close>

definition read_answer ::
    "'s llm_env \<Rightarrow> jdict list \<Rightarrow> fn_tool list \<Rightarrow> completion_response \<Rightarrow> exn + completion_response" where
  "read_answer env texts tools r =
     (case cr_choices r of
        [] \<Rightarrow> Inl (no_response_exn env r)
      | c # cs \<Rightarrow>
          sbind (fn_result (convert_non_fncall_messages_to_fncall_messages (le_fn env) (texts @ [choice_dict c]) tools)) (\<lambda>ms.
            let d = last ms
            in Inr (r\<lparr>cr_choices := (if d = choice_dict c then c else choice_of_dict d) # cs\<rparr>)))"

definition add_example_for :: "string \<Rightarrow> bool" where
  "add_example_for model \<longleftrightarrow> \<not> (str_contains ''openhands-lm'' model \<or> str_contains ''devstral'' model)"

text \<open>The keyword arguments when calls are written as text\<close>

definition mock_params :: "llm_config \<Rightarrow> jdict \<Rightarrow> jdict" where
  "mock_params c k =
     (let k1 = (if supports_stop_words (get_features (lc_model c)) \<and> \<not> lc_disable_stop_word c
                then alist_set ''stop'' (JList [JStr ''</function'']) k else k)
      in if str_contains ''openhands-lm'' (lc_model c) then alist_set ''tool_choice'' (JStr ''none'') k1
         else alist_del ''tool_choice'' k1)"

definition send ::
    "'s llm_env \<Rightarrow> jdict \<Rightarrow> jdict list \<Rightarrow> fn_tool list option \<Rightarrow> llm \<times> 's \<Rightarrow> (exn + completion_response) \<times> llm \<times> 's" where
  "send env k ds tools = (\<lambda>(l, s).
     if ds = []
     then (Inl (mk_exn ''ValueError'' ValueError ''The messages list is empty. At least one message is required.''), l, s)
     else (let k1 = (if str_contains ''litellm_proxy'' (lc_model (llm_config l)) then k else alist_del ''extra_body'' k)
           in case le_api env (alist_update (llm_params l) k1) ds tools s of
                (Inl x, s1) \<Rightarrow> (Inl x, l, s1)
              | (Inr (r, latency), s1) \<Rightarrow>
                  (Inr r, l\<lparr>llm_metrics := add_response_latency (llm_metrics l) latency (response_id r)\<rparr>, s1)))"

definition finish_response ::
    "'s llm_env \<Rightarrow> exn + completion_response \<Rightarrow> llm \<times> 's \<Rightarrow> (exn + completion_response) \<times> llm \<times> 's" where
  "finish_response env r = (\<lambda>(l, s).
     case r of
       Inl x \<Rightarrow> (Inl x, l, s)
     | Inr a \<Rightarrow>
         if cr_choices a = [] then (Inl (no_response_exn env a), l, s)
         else (case post_completion env a l of
                 (Inl x, l1) \<Rightarrow> (Inl x, l1, s)
               | (Inr _, l1) \<Rightarrow> (Inr a, l1, s)))"

text \<open>The function \<open>wrapper\<close> that is decorated by the retries\<close>

definition attempt ::
    "'s llm_env \<Rightarrow> jdict list + message list \<Rightarrow> fn_tool list option \<Rightarrow> 's call" where
  "attempt env msgs tools k = (\<lambda>(l, s).
     case (case msgs of Inl ds \<Rightarrow> Inr ds | Inr ms \<Rightarrow> format_messages_for_llm env l ms) of
       Inl x \<Rightarrow> (Inl x, l, s)
     | Inr ds \<Rightarrow>
         (case (if function_calling_active l then None else tools) of
            None \<Rightarrow> (case send env k ds tools (l, s) of (r, st) \<Rightarrow> finish_response env r st)
          | Some ts \<Rightarrow>
              (case fn_result (convert_fncall_messages_to_non_fncall_messages (le_fn env) ds ts (add_example_for (lc_model (llm_config l)))) of
                 Inl x \<Rightarrow> (Inl x, l, s)
               | Inr texts \<Rightarrow>
                   (case send env (mock_params (llm_config l) k) texts None (l, s) of
                      (r, st) \<Rightarrow> finish_response env (sbind r (read_answer env texts ts)) st))))"

section \<open>Retries\<close>

definition LLM_RETRY_EXCEPTIONS :: "exc_class list" where
  "LLM_RETRY_EXCEPTIONS =
     [APIConnectionError, RateLimitError, ServiceUnavailableError, BadGatewayError, Timeout, InternalServerError, LLMNoResponseError]"

definition retryable :: "exn \<Rightarrow> bool" where
  "retryable x \<longleftrightarrow> list_ex (exc_isinstance x) LLM_RETRY_EXCEPTIONS"

text \<open>\<open>log_retry_attempt\<close> writes the number of the attempt into the exception.\<close>

definition log_retry_attempt :: "int \<Rightarrow> int \<Rightarrow> exn \<Rightarrow> exn" where
  "log_retry_attempt n attempts x = x\<lparr>retry_attempt := Some n, max_retries := Some attempts\<rparr>"

definition is_zero :: "json \<Rightarrow> bool" where
  "is_zero j \<longleftrightarrow> json_canon j = JFloat 0"

text \<open>\<open>before_sleep\<close>\<close>

definition before_sleep :: "'s llm_env \<Rightarrow> int \<Rightarrow> 's pause" where
  "before_sleep env attempts n x k = (\<lambda>(l, s).
     let x' = log_retry_attempt n attempts x;
         l' = l\<lparr>llm_notices := map_option (\<lambda>ns. ns @ [(n, attempts)]) (llm_notices l)\<rparr>;
         temp = (case map_of k ''temperature'' of None \<Rightarrow> JInt 0 | Some t \<Rightarrow> t)
     in (if exc_isinstance x' LLMNoResponseError \<and> is_zero temp then alist_set ''temperature'' (JFloat 1) k else k, l', s))"

text \<open>\<open>completion\<close>\<close>

definition completion ::
    "'s llm_env \<Rightarrow> jdict list + message list \<Rightarrow> fn_tool list option \<Rightarrow> 's call" where
  "completion env msgs tools k = (\<lambda>(l, s).
     le_retry env (lc_num_retries (llm_config l)) retryable (le_should_exit env)
       (before_sleep env (lc_num_retries (llm_config l))) (attempt env msgs tools) k (l, s))"

text \<open>
  What the retry library is documented to do: the function is called until it returns, raises an exception that is not to
  be retried, or the attempts are used up; the last exception is raised. Between two attempts \<open>before_sleep\<close> is called.
\<close>

function retry_attempts ::
    "int \<Rightarrow> (exn \<Rightarrow> bool) \<Rightarrow> ('s \<Rightarrow> bool) \<Rightarrow> 's pause \<Rightarrow> 's call \<Rightarrow> int \<Rightarrow> 's call" where
  "retry_attempts attempts again stop pause f n k st =
     (case f k st of
        (Inr r, st1) \<Rightarrow> (Inr r, st1)
      | (Inl x, st1) \<Rightarrow>
          if \<not> again x \<or> attempts \<le> n \<or> stop (snd st1) then (Inl x, st1)
          else (case pause n x k st1 of (k', st2) \<Rightarrow> retry_attempts attempts again stop pause f (n + 1) k' st2))"
  by pat_completeness auto
termination
  by (relation "measure (\<lambda>(attempts, _, _, _, _, n, _). nat (attempts - n))") auto

declare retry_attempts.simps [simp del]

definition retry_law :: "'s llm_env \<Rightarrow> bool" where
  "retry_law env \<longleftrightarrow>
     (\<forall>attempts again stop pause f k st.
        le_retry env attempts again stop pause f k st = retry_attempts attempts again stop pause f 1 k st)"

end
