(* ===== verification/Llm_Registry.thy ===== *)
theory Llm_Registry
  imports Llm
begin

text \<open>
  \<open>openhands/llm/llm_registry.py\<close>, the routers of \<open>llm/router\<close> and the look-up of configurations in
  \<open>core/config/openhands_config.py\<close>: the clients of a conversation, one per service, whose metrics are those of the
  conversation's statistics. A client and the statistics share one metrics object; the model keeps both copies equal,
  writing through to the statistics what a client records under a service that is registered there.
\<close>

section \<open>Configurations\<close>

definition default_llm_config :: llm_config where
  "default_llm_config =
     \<lparr>lc_model = ''claude-opus-4-5-20251101'', lc_api_key = None, lc_base_url = None, lc_api_version = None,
      lc_aws_access_key_id = None, lc_aws_secret_access_key = None, lc_aws_region_name = None, lc_num_retries = 5,
      lc_timeout = None, lc_temperature = 0, lc_top_p = Some 1, lc_top_k = None, lc_custom_llm_provider = None,
      lc_max_input_tokens = None, lc_max_output_tokens = None, lc_input_cost_per_token = None,
      lc_output_cost_per_token = None, lc_drop_params = True, lc_disable_vision = False, lc_disable_stop_word = False,
      lc_caching_prompt = True, lc_native_tool_calling = None, lc_reasoning_effort = None, lc_seed = None,
      lc_safety_settings = [], lc_completion_kwargs = None\<rparr>"

record agent_config =
  ac_llm_config :: "string option"
  ac_router_name :: string
  ac_llms_for_routing :: "(string \<times> llm_config) list"

definition default_agent_config :: agent_config where
  "default_agent_config = \<lparr>ac_llm_config = None, ac_router_name = ''noop_router'', ac_llms_for_routing = []\<rparr>"

record oh_config =
  oc_llms :: "(string \<times> llm_config) list"
  oc_agents :: "(string \<times> agent_config) list"
  oc_default_agent :: "string option"

text \<open>A name that is not configured falls back to the default, which is created on demand.\<close>

definition get_llm_config :: "string \<Rightarrow> oh_config \<Rightarrow> llm_config \<times> oh_config" where
  "get_llm_config name oc =
     (case map_of (oc_llms oc) name of
        Some c \<Rightarrow> (c, oc)
      | None \<Rightarrow>
          (case map_of (oc_llms oc) ''llm'' of
             Some c \<Rightarrow> (c, oc)
           | None \<Rightarrow> (default_llm_config, oc\<lparr>oc_llms := alist_set ''llm'' default_llm_config (oc_llms oc)\<rparr>)))"

definition get_agent_config :: "string \<Rightarrow> oh_config \<Rightarrow> agent_config \<times> oh_config" where
  "get_agent_config name oc =
     (case map_of (oc_agents oc) name of
        Some c \<Rightarrow> (c, oc)
      | None \<Rightarrow>
          (case map_of (oc_agents oc) ''agent'' of
             Some c \<Rightarrow> (c, oc)
           | None \<Rightarrow> (default_agent_config, oc\<lparr>oc_agents := alist_set ''agent'' default_agent_config (oc_agents oc)\<rparr>)))"

definition get_llm_config_from_agent_config :: "agent_config \<Rightarrow> oh_config \<Rightarrow> llm_config \<times> oh_config" where
  "get_llm_config_from_agent_config ac oc = get_llm_config (case ac_llm_config ac of None \<Rightarrow> ''llm'' | Some n \<Rightarrow> n) oc"

definition get_llm_config_from_agent :: "string \<Rightarrow> oh_config \<Rightarrow> llm_config \<times> oh_config" where
  "get_llm_config_from_agent name oc =
     (case get_agent_config name oc of (ac, oc1) \<Rightarrow> get_llm_config_from_agent_config ac oc1)"

section \<open>The registry\<close>

record registry =
  rg_config :: oh_config
  rg_listener :: bool
  service_to_llm :: "(string \<times> llm) list"
  rg_stats :: "conv_stats option"

text \<open>\<open>notify\<close>: the subscriber is \<open>register_llm\<close> of the statistics, which may replace the client's metrics.\<close>

definition notify :: "string \<Rightarrow> registry \<Rightarrow> registry" where
  "notify sid rg =
     (case (rg_stats rg, map_of (service_to_llm rg) sid) of
        (Some cs, Some l) \<Rightarrow>
          (case register_llm cs sid (llm_metrics l) of
             (cs', m) \<Rightarrow> rg\<lparr>rg_stats := Some cs', service_to_llm := alist_set sid (l\<lparr>llm_metrics := m\<rparr>) (service_to_llm rg)\<rparr>)
      | _ \<Rightarrow> rg)"

definition create_new_llm :: "init_env \<Rightarrow> string \<Rightarrow> llm_config \<Rightarrow> bool \<Rightarrow> registry \<Rightarrow> exn option \<times> registry" where
  "create_new_llm env sid c with_listener rg =
     (case llm_init env c sid None (rg_listener rg \<and> with_listener) of
        Inl x \<Rightarrow> (Some x, rg)
      | Inr l \<Rightarrow> (None, notify sid (rg\<lparr>service_to_llm := alist_set sid l (service_to_llm rg)\<rparr>)))"

definition other_config_exn :: "string \<Rightarrow> exn" where
  "other_config_exn sid =
     mk_exn ''ValueError'' ValueError (''Requesting same service ID '' @ sid @ '' with different config, use a new service ID'')"

definition no_config_exn :: exn where
  "no_config_exn = mk_exn ''ValueError'' ValueError ''Requesting new LLM without specifying LLM config''"

definition get_llm :: "init_env \<Rightarrow> string \<Rightarrow> llm_config option \<Rightarrow> registry \<Rightarrow> exn option \<times> registry" where
  "get_llm env sid c rg =
     (case map_of (service_to_llm rg) sid of
        Some l \<Rightarrow> if Some (llm_config l) \<noteq> c then (Some (other_config_exn sid), rg) else (None, rg)
      | None \<Rightarrow> (case c of None \<Rightarrow> (Some no_config_exn, rg) | Some c \<Rightarrow> create_new_llm env sid c True rg))"

definition get_llm_from_agent_config :: "init_env \<Rightarrow> string \<Rightarrow> agent_config \<Rightarrow> registry \<Rightarrow> exn option \<times> registry" where
  "get_llm_from_agent_config env sid ac rg =
     (case get_llm_config_from_agent_config ac (rg_config rg) of
        (c, oc) \<Rightarrow>
          let rg1 = rg\<lparr>rg_config := oc\<rparr>
          in if map_of (service_to_llm rg) sid \<noteq> None then (None, rg1) else create_new_llm env sid c True rg1)"

definition registry_subscribe :: "conv_stats \<Rightarrow> registry \<Rightarrow> registry" where
  "registry_subscribe cs rg = notify ''agent'' (rg\<lparr>rg_stats := Some cs\<rparr>)"

fun agent_llm_configs :: "string list \<Rightarrow> oh_config \<Rightarrow> oh_config" where
  "agent_llm_configs [] oc = oc"
| "agent_llm_configs (n # ns) oc = agent_llm_configs ns (snd (get_llm_config_from_agent n oc))"

definition registry_init :: "init_env \<Rightarrow> oh_config \<Rightarrow> string option \<Rightarrow> bool \<Rightarrow> exn + registry" where
  "registry_init env oc agent_cls listener =
     (let oc1 = agent_llm_configs (map fst (oc_agents oc)) oc;
          agent_name = (case agent_cls of
                          Some n \<Rightarrow> if n \<noteq> [] then n else (case oc_default_agent oc of None \<Rightarrow> ''agent'' | Some d \<Rightarrow> d)
                        | None \<Rightarrow> (case oc_default_agent oc of None \<Rightarrow> ''agent'' | Some d \<Rightarrow> d))
      in case get_llm_config_from_agent agent_name oc1 of
           (c, oc2) \<Rightarrow>
             (case get_llm env ''agent'' (Some c) \<lparr>rg_config = oc2, rg_listener = listener, service_to_llm = [], rg_stats = None\<rparr> of
                (Some x, _) \<Rightarrow> Inl x
              | (None, rg) \<Rightarrow> Inr rg))"

text \<open>\<open>create_registry_and_conversation_stats\<close>, for the configuration with the user's settings in it\<close>

definition create_registry_and_conversation_stats ::
    "init_env \<Rightarrow> oh_config \<Rightarrow> string option \<Rightarrow> conv_stats \<Rightarrow> exn + registry" where
  "create_registry_and_conversation_stats env oc agent_cls cs =
     sbind (registry_init env oc agent_cls False) (\<lambda>rg. Inr (registry_subscribe cs rg))"

section \<open>Requests\<close>

text \<open>A request through the client of a service; what it records is in the statistics as well\<close>

definition put_llm :: "string \<Rightarrow> llm \<Rightarrow> registry \<Rightarrow> registry" where
  "put_llm sid l rg =
     rg\<lparr>service_to_llm := alist_set sid l (service_to_llm rg),
        rg_stats := map_option (\<lambda>cs. update_service cs sid (\<lambda>_. llm_metrics l)) (rg_stats rg)\<rparr>"

definition service_completion ::
    "'s llm_env \<Rightarrow> string \<Rightarrow> jdict list + message list \<Rightarrow> fn_tool list option \<Rightarrow> jdict \<Rightarrow> registry \<times> 's \<Rightarrow>
      (exn + completion_response) \<times> registry \<times> 's" where
  "service_completion env sid msgs tools k = (\<lambda>(rg, s).
     case map_of (service_to_llm rg) sid of
       None \<Rightarrow> (Inl (key_error sid), rg, s)
     | Some l \<Rightarrow> (case completion env msgs tools k (l, s) of (r, l', s') \<Rightarrow> (r, put_llm sid l' rg, s')))"

definition response_text :: "completion_response \<Rightarrow> exn + string" where
  "response_text r =
     (case cr_choices r of
        [] \<Rightarrow> Inl (mk_exn ''IndexError'' OtherError [])
      | c # _ \<Rightarrow> (case ch_content c of None \<Rightarrow> Inl (mk_exn ''AttributeError'' OtherError []) | Some t \<Rightarrow> Inr (str_strip t)))"

definition request_extraneous_completion ::
    "'s llm_env \<Rightarrow> string \<Rightarrow> llm_config \<Rightarrow> jdict list \<Rightarrow> registry \<times> 's \<Rightarrow> (exn + string) \<times> registry \<times> 's" where
  "request_extraneous_completion env sid c ds = (\<lambda>(rg, s).
     case (if map_of (service_to_llm rg) sid = None then create_new_llm (init_env.truncate env) sid c False rg else (None, rg)) of
       (Some x, rg1) \<Rightarrow> (Inl x, rg1, s)
     | (None, rg1) \<Rightarrow>
         (case service_completion env sid (Inl ds) None [] (rg1, s) of
            (r, st) \<Rightarrow> (sbind r response_text, st)))"

section \<open>Routers\<close>

text \<open>The clients a router chooses from, by key, are services of the registry.\<close>

record router =
  ro_available :: "(string \<times> string) list"
  ro_current :: string
  ro_max_token_exceeded :: bool

fun routing_llms :: "init_env \<Rightarrow> (string \<times> llm_config) list \<Rightarrow> registry \<Rightarrow> exn option \<times> registry" where
  "routing_llms env [] rg = (None, rg)"
| "routing_llms env ((name, c) # cs) rg =
     (case get_llm env (''llm_for_routing.'' @ name) (Some c) rg of
        (Some x, rg1) \<Rightarrow> (Some x, rg1)
      | (None, rg1) \<Rightarrow> routing_llms env cs rg1)"

definition SECONDARY_MODEL_CONFIG_NAME :: string where
  "SECONDARY_MODEL_CONFIG_NAME = ''secondary_model''"

definition router_model :: "llm_config \<Rightarrow> (string \<times> llm_config) list \<Rightarrow> string" where
  "router_model primary cs = ''router('' @ str_join '','' (map lc_model (primary # map snd cs)) @ '')''"

text \<open>\<open>MultimodalRouter.__init__\<close>; the client the router itself is serves as an interface only\<close>

definition multimodal_router :: "init_env \<Rightarrow> agent_config \<Rightarrow> registry \<Rightarrow> (exn + router) \<times> registry" where
  "multimodal_router env ac rg =
     (case get_llm_from_agent_config env ''agent'' ac rg of
        (Some x, rg1) \<Rightarrow> (Inl x, rg1)
      | (None, rg1) \<Rightarrow>
          (case routing_llms env (ac_llms_for_routing ac) rg1 of
             (Some x, rg2) \<Rightarrow> (Inl x, rg2)
           | (None, rg2) \<Rightarrow>
               (let pc = (case map_of (service_to_llm rg1) ''agent'' of Some l \<Rightarrow> llm_config l | None \<Rightarrow> default_llm_config)
                in case llm_init env (pc\<lparr>lc_model := router_model pc (ac_llms_for_routing ac)\<rparr>) ''router_llm'' None (rg_listener rg) of
                     Inl x \<Rightarrow> (Inl x, rg2)
                   | Inr _ \<Rightarrow>
                       (let available = alist_update [(''primary'', ''agent'')]
                              (map (\<lambda>(n, _). (n, ''llm_for_routing.'' @ n)) (ac_llms_for_routing ac))
                        in if map_of (ac_llms_for_routing ac) SECONDARY_MODEL_CONFIG_NAME = None
                           then (Inl (mk_exn ''ValueError'' ValueError
                                   (''Secondary LLM config '' @ SECONDARY_MODEL_CONFIG_NAME @ '' not found.'')), rg2)
                           else (Inr \<lparr>ro_available = available, ro_current = ''primary'', ro_max_token_exceeded = False\<rparr>, rg2)))))"

definition get_router :: "init_env \<Rightarrow> agent_config \<Rightarrow> registry \<Rightarrow> (exn + router option) \<times> registry" where
  "get_router env ac rg =
     (if ac_router_name ac = ''noop_router''
      then (case get_llm_from_agent_config env ''agent'' ac rg of
              (Some x, rg1) \<Rightarrow> (Inl x, rg1)
            | (None, rg1) \<Rightarrow> (Inr None, rg1))
      else if ac_router_name ac = ''multimodal_router''
      then map_prod (map_sum id Some) id (multimodal_router env ac rg)
      else (Inl (mk_exn ''ValueError'' ValueError (''Router LLM '' @ ac_router_name ac @ '' not found.'')), rg))"

text \<open>\<open>_select_llm\<close>: images and messages too long for the second model go to the first.\<close>

definition too_long :: "'s llm_env \<Rightarrow> registry \<Rightarrow> router \<Rightarrow> message list \<Rightarrow> exn + bool" where
  "too_long env rg ro ms =
     (case map_of (ro_available ro) SECONDARY_MODEL_CONFIG_NAME of
        None \<Rightarrow> Inr False
      | Some sid \<Rightarrow>
          (case map_of (service_to_llm rg) sid of
             None \<Rightarrow> Inr False
           | Some l \<Rightarrow>
               (case lc_max_input_tokens (llm_config l) of
                  None \<Rightarrow> Inr False
                | Some mx \<Rightarrow> if mx = 0 then Inr False else sbind (get_token_count env l ms) (\<lambda>n. Inr (mx < n)))))"

definition select_llm :: "'s llm_env \<Rightarrow> registry \<Rightarrow> message list \<Rightarrow> router \<Rightarrow> (exn + string) \<times> router" where
  "select_llm env rg ms ro =
     (case too_long env rg ro ms of
        Inl x \<Rightarrow> (Inl x, ro)
      | Inr long \<Rightarrow>
          (Inr (if list_ex contains_image ms \<or> ro_max_token_exceeded ro \<or> long then ''primary'' else SECONDARY_MODEL_CONFIG_NAME),
           ro\<lparr>ro_max_token_exceeded := (ro_max_token_exceeded ro \<or> long)\<rparr>))"

definition router_completion ::
    "'s llm_env \<Rightarrow> message list \<Rightarrow> fn_tool list option \<Rightarrow> jdict \<Rightarrow> router \<times> registry \<times> 's \<Rightarrow>
      (exn + completion_response) \<times> router \<times> registry \<times> 's" where
  "router_completion env ms tools k = (\<lambda>(ro, rg, s).
     case select_llm env rg ms ro of
       (Inl x, ro1) \<Rightarrow> (Inl x, ro1, rg, s)
     | (Inr key, ro1) \<Rightarrow>
         (case map_of (ro_available ro1) key of
            None \<Rightarrow> (Inl (mk_exn ''ValueError'' ValueError (''Unknown LLM key: '' @ key)), ro1, rg, s)
          | Some sid \<Rightarrow>
              (case service_completion env sid (Inr ms) tools k (rg, s) of
                 (r, st) \<Rightarrow> (r, ro1\<lparr>ro_current := key\<rparr>, st))))"

end
