(* ===== verification/Llm_Rules.thy ===== *)
theory Llm_Rules
  imports Llm Fn_Round_Trip
begin

text \<open>
  Laws of a request: the attempts of the retry loop as a chain of failures and a last attempt, what one attempt records,
  and how the answer of a model without tools is read.
\<close>

section \<open>The chain of attempts\<close>

text \<open>Attempts that fail with the listed exceptions, each followed by a pause\<close>

inductive failures :: "'s call \<Rightarrow> 's pause \<Rightarrow> int \<Rightarrow> jdict \<Rightarrow> llm \<times> 's \<Rightarrow> exn list \<Rightarrow> jdict \<Rightarrow> llm \<times> 's \<Rightarrow> bool"
  for f pause where
  no_failure: "failures f pause n k st [] k st"
| a_failure: "f k st = (Inl x, st1) \<Longrightarrow> pause n x k st1 = (k1, st2) \<Longrightarrow> failures f pause (n + 1) k1 st2 xs k' st' \<Longrightarrow>
    failures f pause n k st (x # xs) k' st'"

lemma retry_attempts_chain:
  assumes "retry_attempts attempts again stop pause f n k st = (r, st')"
  shows "\<exists>xs k1 st1. failures f pause n k st xs k1 st1 \<and> f k1 st1 = (r, st') \<and> list_all again xs \<and>
    (xs = [] \<or> n + int (length xs) \<le> attempts) \<and>
    (\<forall>x. r = Inl x \<and> again x \<longrightarrow> attempts \<le> n + int (length xs) \<or> stop (snd st'))"
  using assms
proof (induction attempts again stop pause f n k st rule: retry_attempts.induct)
  case (1 attempts again stop pause f n k st)
  obtain o1 st1 where f: "f k st = (o1, st1)" by (rule prod.exhaust)
  show ?case
  proof (cases "\<exists>x. o1 = Inl x \<and> again x \<and> n < attempts \<and> \<not> stop (snd st1)")
    case False
    then have "(r, st') = (o1, st1)"
      using "1.prems" f by (subst (asm) retry_attempts.simps) (auto split: sum.splits if_splits)
    with f False show ?thesis by (intro exI [of _ "[]"] exI [of _ k] exI [of _ st]) (auto intro: failures.intros)
  next
    case True
    then obtain x where x: "o1 = Inl x" "again x" "n < attempts" "\<not> stop (snd st1)" by blast
    obtain k2 st2 where p: "pause n x k st1 = (k2, st2)" by (rule prod.exhaust)
    have "retry_attempts attempts again stop pause f (n + 1) k2 st2 = (r, st')"
      using "1.prems" f x p by (subst (asm) retry_attempts.simps) simp
    from "1.IH" [OF f [symmetric] x(1) _ p [symmetric] this] x obtain xs k1 st3 where
      ih: "failures f pause (n + 1) k2 st2 xs k1 st3" "f k1 st3 = (r, st')" "list_all again xs"
        "xs = [] \<or> n + 1 + int (length xs) \<le> attempts"
        "\<forall>x. r = Inl x \<and> again x \<longrightarrow> attempts \<le> n + 1 + int (length xs) \<or> stop (snd st')" by auto
    have "failures f pause n k st (x # xs) k1 st3" using a_failure f x(1) p ih(1) by metis
    with ih x show ?thesis by (intro exI [of _ "x # xs"] exI [of _ k1] exI [of _ st3]) auto
  qed
qed

text \<open>What every failed attempt and every pause keep, the chain keeps.\<close>

lemma failures_keep:
  assumes "failures f pause n k st xs k' st'" "list_all again xs" "P k st"
    and "\<And>k st x st1. P k st \<Longrightarrow> f k st = (Inl x, st1) \<Longrightarrow> again x \<Longrightarrow> P k st1"
    and "\<And>k st n x k1 st1. P k st \<Longrightarrow> pause n x k st = (k1, st1) \<Longrightarrow> P k1 st1"
  shows "P k' st'"
  using assms(1-3)
proof (induction rule: failures.induct)
  case (a_failure k st x st1 n k1 st2 xs k' st')
  then show ?case using assms(4,5) by (metis list.pred_inject(2))
qed

lemma completion_chain:
  assumes "retry_law env" "completion env msgs tools k (l, s) = (r, st')"
  shows "\<exists>xs k1 st1. failures (attempt env msgs tools) (before_sleep env (lc_num_retries (llm_config l))) 1 k (l, s) xs k1 st1 \<and>
    attempt env msgs tools k1 st1 = (r, st') \<and> list_all retryable xs \<and>
    (xs = [] \<or> 1 + int (length xs) \<le> lc_num_retries (llm_config l)) \<and>
    (\<forall>x. r = Inl x \<and> retryable x \<longrightarrow>
       lc_num_retries (llm_config l) \<le> 1 + int (length xs) \<or> le_should_exit env (snd st'))"
  using assms retry_attempts_chain [of "lc_num_retries (llm_config l)" retryable "le_should_exit env"
      "before_sleep env (lc_num_retries (llm_config l))" "attempt env msgs tools" 1 k "(l, s)" r st']
  by (auto simp: completion_def retry_law_def)

section \<open>What is recorded\<close>

text \<open>Only latencies are added.\<close>

definition only_latencies :: "metrics \<Rightarrow> metrics \<Rightarrow> bool" where
  "only_latencies m m' \<longleftrightarrow> (\<exists>ls. m' = m\<lparr>response_latencies := response_latencies m @ ls\<rparr>)"

lemma only_latencies_refl [simp]: "only_latencies m m"
  by (auto simp: only_latencies_def intro!: exI [of _ "[]"])

lemma only_latencies_add: "only_latencies m m' \<Longrightarrow> only_latencies m (add_response_latency m' v i)"
  by (auto simp: only_latencies_def add_response_latency_def)

lemma only_latencies_ok: "only_latencies m m' \<Longrightarrow> costs m' = costs m \<and> token_usages m' = token_usages m \<and>
    accumulated_cost m' = accumulated_cost m \<and> model_name m' = model_name m \<and>
    accumulated_token_usage m' = accumulated_token_usage m"
  by (auto simp: only_latencies_def)

lemma send_records:
  assumes "send env k ds tools (l, s) = (r, l', s')"
  shows "l' = l\<lparr>llm_metrics := llm_metrics l'\<rparr>" "only_latencies (llm_metrics l) (llm_metrics l')"
    "metrics_ok (llm_metrics l) \<Longrightarrow> metrics_ok (llm_metrics l')"
    "r = Inr a \<Longrightarrow> \<exists>v params. le_api env params ds tools s = (Inr (a, v), s') \<and>
       llm_metrics l' = add_response_latency (llm_metrics l) v (response_id a)"
  using assms
  by (auto simp: send_def Let_def only_latencies_add metrics_ok_add_latency split: if_splits sum.splits prod.splits)

text \<open>What the accounting of a response adds to the metrics\<close>

definition usage_entry :: "llm \<Rightarrow> completion_response \<Rightarrow> usage \<Rightarrow> int \<Rightarrow> token_usage" where
  "usage_entry l r u w =
     \<lparr>tu_model = model_name (llm_metrics l), prompt_tokens = us_prompt u, completion_tokens = us_completion u,
      cache_read_tokens = (case us_cached u of None \<Rightarrow> 0 | Some n \<Rightarrow> n), cache_write_tokens = us_cache_write u,
      context_window = w, per_turn_token = us_prompt u + us_completion u, tu_response_id = response_id r\<rparr>"

lemma add_cost_Inr:
  "add_cost m c now = Inr m' \<Longrightarrow>
   m' = m\<lparr>accumulated_cost := accumulated_cost m + c, costs := costs m @ [\<lparr>co_model = model_name m, co_cost = c, co_timestamp = now\<rparr>]\<rparr>"
  by (simp add: add_cost_def split: if_splits)

lemma completion_cost_cases:
  assumes "completion_cost env r l = (c, l')"
  obtains (added) m where "0 \<le> c" "l' = l\<lparr>llm_metrics := m\<rparr>" "add_cost (llm_metrics l) c (le_now env) = Inr m"
    | (none) "c = 0" "l' = l"
    | (off) "c = 0" "l' = l\<lparr>cost_metric_supported := False\<rparr>"
  using assms
  by (auto simp: completion_cost_def Let_def add_cost_def split: if_splits sum.splits option.splits)

lemma completion_cost_records:
  assumes "completion_cost env r l = (c, l')"
  shows "0 \<le> c" "metrics_ok (llm_metrics l) \<Longrightarrow> metrics_ok (llm_metrics l')"
    "accumulated_cost (llm_metrics l') = accumulated_cost (llm_metrics l) + c"
    "map co_cost (costs (llm_metrics l')) = map co_cost (costs (llm_metrics l)) @ [c] \<or>
     costs (llm_metrics l') = costs (llm_metrics l) \<and> c = 0"
    "l' = l\<lparr>llm_metrics := llm_metrics l', cost_metric_supported := cost_metric_supported l'\<rparr>"
    "token_usages (llm_metrics l') = token_usages (llm_metrics l)"
    "response_latencies (llm_metrics l') = response_latencies (llm_metrics l)"
    "model_name (llm_metrics l') = model_name (llm_metrics l)"
  by (cases rule: completion_cost_cases [OF assms]; use metrics_ok_add_cost in \<open>auto dest: add_cost_Inr\<close>)+

text \<open>
  The price of a response: what the header says, if there is one; otherwise that of the price list, under the name the
  response has or else under the name of the configuration without its first part.
\<close>

definition price_of :: "'s llm_env \<Rightarrow> llm_config \<Rightarrow> completion_response \<Rightarrow> rat option" where
  "price_of env c r =
     (case cr_cost_header r of
        Some h \<Rightarrow> le_float env h
      | None \<Rightarrow>
          (case le_cost env None (custom_cost c) r of
             Some p \<Rightarrow> Some p
           | None \<Rightarrow> le_cost env (Some (fallback_name (lc_model c))) (custom_cost c) r))"

text \<open>What is due for it: nothing once the accounting was given up, and never a negative price\<close>

definition due :: "'s llm_env \<Rightarrow> llm \<Rightarrow> completion_response \<Rightarrow> rat option" where
  "due env l r =
     (if cost_metric_supported l
      then (case price_of env (llm_config l) r of Some p \<Rightarrow> if 0 \<le> p then Some p else None | None \<Rightarrow> None)
      else None)"

definition charged :: "metrics \<Rightarrow> rat option \<Rightarrow> rat \<Rightarrow> metrics" where
  "charged m p now =
     (case p of
        None \<Rightarrow> m
      | Some c \<Rightarrow> m\<lparr>accumulated_cost := accumulated_cost m + c,
                   costs := costs m @ [\<lparr>co_model = model_name m, co_cost = c, co_timestamp = now\<rparr>]\<rparr>)"

lemma completion_cost_charges:
  assumes "completion_cost env r l = (c, l')"
  shows "llm_metrics l' = charged (llm_metrics l) (due env l r) (le_now env)"
  using assms
  by (auto simp: completion_cost_def Let_def add_cost_def due_def price_of_def charged_def
      split: if_splits sum.splits option.splits)

lemma post_completion_charges:
  assumes "post_completion env r l = (Inr c, l')"
  shows "costs (llm_metrics l') = costs (charged (llm_metrics l) (due env l r) (le_now env))"
    "accumulated_cost (llm_metrics l') = accumulated_cost (charged (llm_metrics l) (due env l r) (le_now env))"
    "case cr_usage r of
       None \<Rightarrow> token_usages (llm_metrics l') = token_usages (llm_metrics l)
     | Some u \<Rightarrow> \<exists>w. known_window l = Inr w \<and>
         token_usages (llm_metrics l') = token_usages (llm_metrics l) @ [usage_entry l r u w]"
proof -
  obtain c1 l1 where c: "completion_cost env r l = (c1, l1)" by force
  note rec = completion_cost_records [OF c] completion_cost_charges [OF c]
  from rec(5) have "llm_model_info l1 = llm_model_info l" by (metis (no_types, lifting) llm.select_convs(4) llm.surjective llm.update_convs(3,6))
  then have w: "known_window l1 = known_window l" by (simp add: known_window_def)
  show "costs (llm_metrics l') = costs (charged (llm_metrics l) (due env l r) (le_now env))"
    "accumulated_cost (llm_metrics l') = accumulated_cost (charged (llm_metrics l) (due env l r) (le_now env))"
    using assms c rec(9) by (auto simp: post_completion_def add_token_usage_def Let_def split: option.splits sum.splits)
  show "case cr_usage r of
       None \<Rightarrow> token_usages (llm_metrics l') = token_usages (llm_metrics l)
     | Some u \<Rightarrow> \<exists>w. known_window l = Inr w \<and>
         token_usages (llm_metrics l') = token_usages (llm_metrics l) @ [usage_entry l r u w]"
    using assms c rec(6,8) w
    by (auto simp: post_completion_def add_token_usage_def usage_entry_def Let_def split: option.splits sum.splits)
qed

lemma post_completion_records:
  assumes "post_completion env r l = (q, l')"
  shows "metrics_ok (llm_metrics l) \<Longrightarrow> metrics_ok (llm_metrics l')"
    "l' = l\<lparr>llm_metrics := llm_metrics l', cost_metric_supported := cost_metric_supported l'\<rparr>"
    "response_latencies (llm_metrics l') = response_latencies (llm_metrics l)"
    "q = Inl x \<Longrightarrow> \<not> retryable x"
proof -
  obtain c1 l1 where c: "completion_cost env r l = (c1, l1)" by force
  note rec = completion_cost_records [OF c]
  have x: "\<not> retryable (mk_exn n ValueError m)" for n m
    by (simp add: retryable_def LLM_RETRY_EXCEPTIONS_def exc_isinstance_def)
  show "metrics_ok (llm_metrics l) \<Longrightarrow> metrics_ok (llm_metrics l')"
    using assms c rec(2) by (auto simp: post_completion_def intro!: metrics_ok_add_token_usage split: option.splits sum.splits)
  show "response_latencies (llm_metrics l') = response_latencies (llm_metrics l)"
    using assms c rec(7) by (auto simp: post_completion_def add_token_usage_def Let_def split: option.splits sum.splits)
  show "l' = l\<lparr>llm_metrics := llm_metrics l', cost_metric_supported := cost_metric_supported l'\<rparr>"
  proof -
    from assms c obtain m1 where "l' = l1\<lparr>llm_metrics := m1\<rparr>"
      by (auto simp: post_completion_def split: option.splits sum.splits) (metis llm.surjective llm.update_convs(3))+
    moreover from rec(5) obtain m b where "l1 = l\<lparr>llm_metrics := m, cost_metric_supported := b\<rparr>" by blast
    ultimately have l': "l' = l\<lparr>llm_metrics := m1, cost_metric_supported := b\<rparr>" by simp
    show ?thesis unfolding l' by simp
  qed
  show "q = Inl x \<Longrightarrow> \<not> retryable x"
    using assms c x by (auto simp: post_completion_def known_window_def split: option.splits sum.splits json.splits)
qed

section \<open>One attempt\<close>

text \<open>An attempt fails before anything is sent, or it sends one request and finishes with what it makes of the answer.\<close>

lemma attempt_cases:
  assumes "attempt env msgs tools k (l, s) = (r, l', s')"
  obtains (early) x where "r = Inl x" "l' = l" "s' = s"
    | (sent) k1 ds ts q l1 s1 g where "send env k1 ds ts (l, s) = (q, l1, s1)"
        "finish_response env (sbind q g) (l1, s1) = (r, l', s')"
        "\<And>a b. g a = Inr b \<Longrightarrow> response_id b = response_id a \<and> cr_usage b = cr_usage a"
proof -
  let ?ds = "case msgs of Inl ds \<Rightarrow> Inr ds | Inr ms \<Rightarrow> format_messages_for_llm env l ms"
  have same: "response_id b = response_id a \<and> cr_usage b = cr_usage a" if "read_answer env texts ts a = Inr b" for texts ts a b
    using that by (auto simp: read_answer_def response_id_def sbind_Inr_iff Let_def split: list.splits)
  show ?thesis
  proof (cases ?ds)
    case (Inl x)
    then show ?thesis using assms early by (auto simp: attempt_def)
  next
    case ds: (Inr ds)
    show ?thesis
    proof (cases "if function_calling_active l then None else tools")
      case None
      obtain q l1 s1 where q: "send env k ds tools (l, s) = (q, l1, s1)" by (metis prod_cases3)
      then have "finish_response env (sbind q Inr) (l1, s1) = (r, l', s')"
        using assms ds None by (cases q) (auto simp: attempt_def)
      then show ?thesis using sent [OF q] by auto
    next
      case (Some ts)
      show ?thesis
      proof (cases "fn_result (convert_fncall_messages_to_non_fncall_messages (le_fn env) ds ts (add_example_for (lc_model (llm_config l))))")
        case (Inl x)
        then show ?thesis using assms ds Some early by (auto simp: attempt_def)
      next
        case (Inr texts)
        obtain q l1 s1 where q: "send env (mock_params (llm_config l) k) texts None (l, s) = (q, l1, s1)" by (metis prod_cases3)
        then have "finish_response env (sbind q (read_answer env texts ts)) (l1, s1) = (r, l', s')"
          using assms ds Some Inr by (auto simp: attempt_def)
        then show ?thesis using sent [OF q] same by blast
      qed
    qed
  qed
qed

lemma no_response_retryable [simp]: "retryable (no_response_exn env r)"
  by (simp add: no_response_exn_def retryable_def LLM_RETRY_EXCEPTIONS_def exc_isinstance_def)

lemma finish_response_cases:
  assumes "finish_response env q (l, s) = (r, l', s')"
  obtains (failed) x where "r = Inl x" "l' = l" "s' = s"
    | (counted) a p where "q = Inr a" "post_completion env a l = (p, l')" "s' = s" "r = map_sum id (\<lambda>_. a) p" "cr_choices a \<noteq> []"
  using assms by (auto simp: finish_response_def split: sum.splits if_splits prod.splits)

lemma failed_attempt:
  assumes "attempt env msgs tools k (l, s) = (Inl x, l', s')" "retryable x"
  shows "\<exists>ls. l' = l\<lparr>llm_metrics := (llm_metrics l)\<lparr>response_latencies := response_latencies (llm_metrics l) @ ls\<rparr>\<rparr> \<and>
      length ls \<le> 1 \<and> (metrics_ok (llm_metrics l) \<longrightarrow> metrics_ok (llm_metrics l'))"
  using assms(1)
proof (cases rule: attempt_cases)
  case early
  then show ?thesis by (intro exI [of _ "[]"]) simp
next
  case (sent k1 ds ts q l1 s1 g)
  have 1: "\<exists>ls. l1 = l\<lparr>llm_metrics := (llm_metrics l)\<lparr>response_latencies := response_latencies (llm_metrics l) @ ls\<rparr>\<rparr> \<and>
      length ls \<le> 1"
  proof (cases q)
    case (Inl y)
    with sent(1) have "l1 = l" by (auto simp: send_def Let_def split: if_splits sum.splits prod.splits)
    then show ?thesis by (intro exI [of _ "[]"]) simp
  next
    case (Inr a)
    then obtain v where "llm_metrics l1 = add_response_latency (llm_metrics l) v (response_id a)"
      using send_records(4) [OF sent(1)] by blast
    then have "l1 = l\<lparr>llm_metrics := add_response_latency (llm_metrics l) v (response_id a)\<rparr>"
      using send_records(1) [OF sent(1)] by simp
    then show ?thesis unfolding add_response_latency_def by (intro exI conjI) (assumption, simp)
  qed
  have "l' = l1" using sent(2)
  proof (cases rule: finish_response_cases)
    case (counted a p)
    then obtain y where "p = Inl y" "x = y" by (cases p) auto
    with counted(2) assms(2) show ?thesis using post_completion_records(4) by blast
  qed
  with 1 send_records(3) [OF sent(1)] show ?thesis by blast
qed

lemma returned_attempt:
  assumes "attempt env msgs tools k (l, s) = (Inr r, l', s')"
  shows "\<exists>v params ds ts r0. le_api env params ds ts s = (Inr (r0, v), s') \<and> response_id r0 = response_id r \<and>
    costs (llm_metrics l') = costs (charged (llm_metrics l) (due env l r) (le_now env)) \<and>
    accumulated_cost (llm_metrics l') = accumulated_cost (charged (llm_metrics l) (due env l r) (le_now env)) \<and>
    (case cr_usage r of
       None \<Rightarrow> token_usages (llm_metrics l') = token_usages (llm_metrics l)
     | Some u \<Rightarrow> \<exists>w. known_window l = Inr w \<and>
         token_usages (llm_metrics l') = token_usages (llm_metrics l) @ [usage_entry l r u w]) \<and>
    response_latencies (llm_metrics l') = response_latencies (llm_metrics l) @
      [\<lparr>rl_model = model_name (llm_metrics l), rl_latency = max 0 v, rl_response_id = response_id r\<rparr>] \<and>
    (metrics_ok (llm_metrics l) \<longrightarrow> metrics_ok (llm_metrics l'))"
  using assms
proof (cases rule: attempt_cases)
  case (sent k1 ds ts q l1 s1 g)
  from sent(2) obtain a c where a: "sbind q g = Inr a" "post_completion env a l1 = (Inr c, l')" "r = a" "s' = s1"
    by (cases rule: finish_response_cases) (auto simp: map_sum_def split: sum.splits)
  then obtain a0 where q: "q = Inr a0" "g a0 = Inr a" by (auto simp: sbind_Inr_iff)
  have id: "response_id a0 = response_id r" using sent(3) [OF q(2)] a(3) by simp
  obtain v params where v: "llm_metrics l1 = add_response_latency (llm_metrics l) v (response_id r)"
    "le_api env params ds ts s = (Inr (a0, v), s')"
    using send_records(4) [OF sent(1) q(1)] id a(4) by auto
  have l1: "l1 = l\<lparr>llm_metrics := add_response_latency (llm_metrics l) v (response_id r)\<rparr>"
    using send_records(1) [OF sent(1)] v(1) by metis
  have eq: "usage_entry l1 r u w = usage_entry l r u w" "due env l1 r = due env l r" "known_window l1 = known_window l"
    "costs (charged (llm_metrics l1) p now) = costs (charged (llm_metrics l) p now)"
    "accumulated_cost (charged (llm_metrics l1) p now) = accumulated_cost (charged (llm_metrics l) p now)" for u w p now
    by (simp_all add: usage_entry_def due_def known_window_def charged_def l1 add_response_latency_def split: option.split)
  have tokens: "token_usages (llm_metrics l1) = token_usages (llm_metrics l)" by (simp add: v add_response_latency_def)
  note post = post_completion_charges [OF a(2), folded a(3), unfolded eq tokens] post_completion_records [OF a(2)]
  show ?thesis
    using v(2) id post(1-4,6) send_records(3) [OF sent(1)]
    by (intro exI [of _ v] exI [of _ params] exI [of _ ds] exI [of _ ts] exI [of _ a0]) (simp add: v(1) add_response_latency_def)
qed simp

section \<open>All attempts\<close>

lemma before_sleep_simps:
  assumes "before_sleep env attempts n x k (l, s) = (k', l', s')"
  shows "s' = s" "l' = l\<lparr>llm_notices := map_option (\<lambda>ns. ns @ [(n, attempts)]) (llm_notices l)\<rparr>"
    "k' = k \<or> k' = alist_set ''temperature'' (JFloat 1) k \<and> is_zero (case map_of k ''temperature'' of None \<Rightarrow> JInt 0 | Some t \<Rightarrow> t)"
  using assms by (auto simp: before_sleep_def Let_def split: if_splits)

lemma failures_record:
  assumes "failures (attempt env msgs tools) (before_sleep env attempts) n k st xs k' st'" "list_all retryable xs"
  shows "\<exists>ls. fst st' = (fst st)\<lparr>llm_metrics := (llm_metrics (fst st))\<lparr>response_latencies := response_latencies (llm_metrics (fst st)) @ ls\<rparr>,
      llm_notices := map_option (\<lambda>ns. ns @ map (\<lambda>i. (n + int i, attempts)) [0..<length xs]) (llm_notices (fst st))\<rparr> \<and>
    length ls \<le> length xs \<and> (metrics_ok (llm_metrics (fst st)) \<longrightarrow> metrics_ok (llm_metrics (fst st')))"
  using assms
proof (induction rule: failures.induct)
  case (no_failure n k st)
  show ?case by (cases "llm_notices (fst st)") (auto intro!: exI [of _ "[]"])
next
  case (a_failure k st x st1 n k1 st2 xs k' st')
  obtain l s where st: "st = (l, s)" by force
  obtain l1 s1 where st1: "st1 = (l1, s1)" by force
  obtain l2 s2 where st2: "st2 = (l2, s2)" by force
  from a_failure.prems have x: "retryable x" "list_all retryable xs" by auto
  obtain ls1 where 1: "l1 = l\<lparr>llm_metrics := (llm_metrics l)\<lparr>response_latencies := response_latencies (llm_metrics l) @ ls1\<rparr>\<rparr>"
    "length ls1 \<le> 1" "metrics_ok (llm_metrics l) \<longrightarrow> metrics_ok (llm_metrics l1)"
    using failed_attempt [OF a_failure.hyps(1) [unfolded st st1] x(1)] by blast
  have 2: "l2 = l1\<lparr>llm_notices := map_option (\<lambda>ns. ns @ [(n, attempts)]) (llm_notices l1)\<rparr>"
    by (rule before_sleep_simps(2) [OF a_failure.hyps(2) [unfolded st1 st2]])
  obtain ls where 3: "fst st' = l2\<lparr>llm_metrics := (llm_metrics l2)\<lparr>response_latencies := response_latencies (llm_metrics l2) @ ls\<rparr>,
      llm_notices := map_option (\<lambda>ns. ns @ map (\<lambda>i. (n + 1 + int i, attempts)) [0..<length xs]) (llm_notices l2)\<rparr>"
    "length ls \<le> length xs" "metrics_ok (llm_metrics l2) \<longrightarrow> metrics_ok (llm_metrics (fst st'))"
    using a_failure.IH x(2) unfolding st2 by auto
  have shift: "map (\<lambda>i. (n + int i, attempts)) [0..<length (x # xs)] =
      (n, attempts) # map (\<lambda>i. (n + 1 + int i, attempts)) [0..<length xs]"
    by (simp add: upt_rec [of 0 "Suc (length xs)"] map_Suc_upt [symmetric] del: upt_Suc)
  show ?case
    by (intro exI [of _ "ls1 @ ls"], unfold shift st fst_conv)
      (use 1 2 3 in \<open>auto simp: option.map_comp o_def\<close>)
qed

end
