(* ===== verification/Fn_Answers.thy ===== *)
theory Fn_Answers
  imports Fn_Round_Trip
begin

text \<open>
  The answer of a model to a conversation that was written as text: the model stops at the closing tag of its call, or
  writes the call to the end. Either way the call is read behind the messages of the conversation.
\<close>

section \<open>A call up to the stop word\<close>

definition cut_call :: "fn_env \<Rightarrow> string \<Rightarrow> jdict \<Rightarrow> string" where
  "cut_call env name args = ''<function='' @ name @ CHR ''>'' # newline # concat (map (param_text env) args)"

lemma call_text_cut: "call_text env name args = cut_call env name args @ ''</function>''"
  by (simp add: call_text_def cut_call_def)

lemma ends_with_newline:
  "\<exists>b. pre @ cut_call env name args = b @ [newline]"
proof (cases args rule: rev_cases)
  case Nil
  then show ?thesis by (auto simp: cut_call_def intro!: exI [of _ "pre @ ''<function='' @ name @ ''>''"])
next
  case (snoc as a)
  then show ?thesis by (cases a) (auto simp: cut_call_def param_text_def)
qed

lemma fix_stopword_cut:
  assumes "\<not> str_contains ''<function='' pre" "safe_name name"
    and "\<forall>(k, v) \<in> set args. safe_name k \<and> safe_text (value_text env v)"
  shows "fix_stopword (pre @ cut_call env name args) = pre @ cut_call env name args @ newline # ''</function>''"
proof -
  let ?t = "''<function=''" and ?b = "concat (map (param_text env) args)"
  let ?r = "name @ CHR ''>'' # newline # ?b"
  have "str_contains ?t ((name @ [CHR ''>'', newline]) @ ?b) = str_contains ?t ?b"
    by (rule contains_skip) (use assms(2) in \<open>auto simp: safe_name_def\<close>)
  moreover have "\<not> str_contains ?t ?b" using contains_params [OF _ assms(3), of ?t "[]"] by simp
  ultimately have r: "\<not> str_contains ?t ?r" by simp
  have split: "pre @ cut_call env name args = pre @ ?t @ ?r" by (simp add: cut_call_def)
  obtain b where "pre @ ?t @ ?r = b @ [newline]" using ends_with_newline [of pre env name args] split by auto
  then have "\<not> str_endswith (pre @ ?t @ ?r) ''</''" by (simp add: str_endswith_def str_startswith_def)
  moreover have "count_occ ?t (pre @ ?t @ ?r) = 1" by (rule count_occ_one) (use assms(1) r in simp_all)
  moreover have "str_contains ?t (pre @ ?t @ ?r)" unfolding str_contains_iff by blast
  ultimately have "fix_stopword (pre @ ?t @ ?r) = (pre @ ?t @ ?r) @ newline # ''</function>''"
    by (simp add: fix_stopword_def)
  then show ?thesis unfolding split [symmetric] by simp
qed

lemma cut_call_back:
  assumes "\<not> str_contains ''<function='' s" "str_strip s = s" "call_ok env tools name args"
  shows "read_assistant env tools n m (JStr (str_lstrip (s @ newline # newline # cut_call env name args))) =
    Inr (out_message ''assistant'' (JStr s) @ [(''tool_calls'', JList [call_dict env n name args])], n + 1)"
proof -
  note ok = call_ok_args [OF assms(3)]
  let ?pre = "str_lstrip (s @ [newline, newline])" and ?b = "concat (map (param_text env) args)"
  have lstrip: "str_lstrip ((s @ [newline, newline]) @ cut_call env name args) = ?pre @ cut_call env name args"
    by (rule str_lstrip_append) (auto simp: cut_call_def is_py_space_def)
  have p: "\<not> str_contains ''<function='' ?pre"
    by (rule lstrip_not_contains, rule str_contains_append) (use assms(1) in \<open>auto simp: str_startswith_def\<close>)
  have strip: "str_strip ?pre = s"
    unfolding str_strip_lstrip by (subst str_strip_spaces) (use assms(2) in \<open>simp_all add: is_py_space_def\<close>)
  have "\<not> str_contains ''</function>'' (?b @ [newline])"
    by (rule str_contains_append) (use contains_params [OF _ ok(2), of "''</function>''" "[]"] in \<open>auto simp: str_startswith_def\<close>)
  from fn_search_body [OF p ok(1) this, of "[]"]
  have "fn_search (?pre @ cut_call env name args @ newline # ''</function>'') = Some (name, ?b @ [newline])"
    by (simp add: cut_call_def)
  moreover have "drop_call (JStr (?pre @ cut_call env name args @ newline # ''</function>'')) = Inr (JStr s)"
    using drop_call_body [OF p] strip by (simp add: cut_call_def)
  moreover have "read_call env tools n (name, ?b @ [newline]) = Inr (call_dict env n name args)"
    by (rule read_call_text [OF assms(3)]) simp
  ultimately show ?thesis
    using lstrip fix_stopword_cut [OF p ok] by (simp add: read_assistant_def find_call_def)
qed

section \<open>The last message\<close>

lemma in_loop_last:
  assumes "\<And>n first. convert_in env tools suffix n first a = convert_in env tools suffix n first b"
  shows "in_loop env tools suffix n first (xs @ [a]) = in_loop env tools suffix n first (xs @ [b])"
  by (induction xs arbitrary: n first) (auto simp: assms and_then_def split: sum.splits prod.splits)

lemma out_loop_snoc:
  assumes "out_loop env suffix ex first (xs @ [m]) = Inr ts"
  shows "\<exists>us t first' f. ts = us @ [t] \<and> out_loop env suffix ex first xs = Inr us \<and> convert_out env suffix ex first' m = Inr (t, f)"
  using assms
proof (induction xs arbitrary: first ts)
  case Nil
  then show ?case by (auto simp: and_then_def split: sum.splits prod.splits)
next
  case (Cons x xs)
  from Cons.prems obtain y f1 ts1 where 1: "convert_out env suffix ex first x = Inr (y, f1)"
    "out_loop env suffix ex f1 (xs @ [m]) = Inr ts1" "ts = y # ts1"
    by (auto simp: and_then_def split: sum.splits prod.splits)
  from Cons.IH [OF 1(2)] obtain us t first' f where
    "ts1 = us @ [t]" "out_loop env suffix ex f1 xs = Inr us" "convert_out env suffix ex first' m = Inr (t, f)" by blast
  with 1 show ?case by (intro exI [of _ "y # us"] exI [of _ t] exI [of _ first'] exI [of _ f]) simp
qed

fun calls_made :: "turn list \<Rightarrow> nat" where
  "calls_made [] = 0"
| "calls_made (Calls _ _ _ # ts) = Suc (calls_made ts)"
| "calls_made (_ # ts) = calls_made ts"

lemma render_snoc_call:
  "render env n (ts @ [Calls s name args]) = render env n ts @
     [out_message ''assistant'' (JStr s) @ [(''tool_calls'', JList [call_dict env (n + calls_made ts) name args])]]"
  by (induction ts arbitrary: n rule: calls_made.induct) auto

lemma example_free_snoc_call [simp]: "example_free ex (ts @ [Calls s name args]) = example_free ex ts"
  by (induction ex ts rule: example_free.induct) auto

text \<open>The call is read with the next id, behind the conversation as it was.\<close>

lemma answer_back:
  assumes "system_prompt_suffix env tools = Inr suffix" "turns_ok env tools suffix True (ts @ [Calls s name args])"
    and "text = str_lstrip (s @ newline # newline # call_text env name args) \<or>
         text = str_lstrip (s @ newline # newline # cut_call env name args)"
    and "add_ex \<or> example_free (get_example_for_tools env tools) ts"
  shows "\<exists>texts. convert_fncall_messages_to_non_fncall_messages env (render env 1 ts) tools add_ex = Inr texts \<and>
    convert_non_fncall_messages_to_fncall_messages env (texts @ [out_message ''assistant'' (JStr text)]) tools =
      Inr (render env 1 (ts @ [Calls s name args]))"
proof -
  have "turns_ok env tools suffix first [Calls s name args]" if "turns_ok env tools suffix f (us @ [Calls s name args])" for f first us
    using that by (induction us arbitrary: f rule: calls_made.induct) auto
  from this [OF assms(2)] have ok: "\<not> str_contains ''<function='' s" "str_strip s = s" "call_ok env tools name args" by auto
  let ?full = "str_lstrip (s @ newline # newline # call_text env name args)"
  obtain all where all: "out_loop env suffix (get_example_for_tools env tools) add_ex (render env 1 (ts @ [Calls s name args])) = Inr all"
    "in_loop env tools suffix 1 True all = Inr (render env 1 (ts @ [Calls s name args]))"
    using loop_back [OF suffix_ne [OF assms(1)] assms(2), of add_ex] assms(4) by auto
  obtain us t first' f where us: "all = us @ [t]" "out_loop env suffix (get_example_for_tools env tools) add_ex (render env 1 ts) = Inr us"
    "convert_out env suffix (get_example_for_tools env tools) first'
       (out_message ''assistant'' (JStr s) @ [(''tool_calls'', JList [call_dict env (1 + calls_made ts) name args])]) = Inr (t, f)"
    using out_loop_snoc [OF all(1) [unfolded render_snoc_call]] by blast
  have t: "t = out_message ''assistant'' (JStr ?full)"
    using us(3) convert_call_dict [OF ok(3)] by (simp add: convert_out_def)
  have "convert_in env tools suffix n first (out_message ''assistant'' (JStr text)) = convert_in env tools suffix n first t" for n first
    using assms(3) call_back [OF ok] cut_call_back [OF ok] by (auto simp: t convert_in_def Let_def)
  then have "in_loop env tools suffix 1 True (us @ [out_message ''assistant'' (JStr text)]) = Inr (render env 1 (ts @ [Calls s name args]))"
    using in_loop_last [of env tools suffix "out_message ''assistant'' (JStr text)" t 1 True us] all(2) us(1) by simp
  then show ?thesis using us(2) assms(1)
    by (auto simp: convert_fncall_messages_to_non_fncall_messages_def convert_non_fncall_messages_to_fncall_messages_def)
qed

end
