(* ===== verification/Llm_Properties.thy ===== *)
theory Llm_Properties
  imports Llm_Rules Fn_Answers Fn_Properties Controller_Properties
begin

text \<open>
  The properties of a request to a language model: how often it is tried, what is recorded of it, how the text of a
  model without tools becomes a call, and how the controller learns of an exception that the attempts end with.
\<close>

section \<open>A client with scripted answers\<close>

type_synonym demo_answers = "(exn + completion_response \<times> rat) list"

definition demo_llm_env :: "demo_answers llm_env" where
  "demo_llm_env =
     \<lparr>le_model_info = (\<lambda>_. None), le_proxy = (\<lambda>_ _. Inr None), le_supports_vision = (\<lambda>_. False), le_getenv = (\<lambda>_. None),
      le_fn = demo_fn_env, le_float = (\<lambda>_. None), le_cost = (\<lambda>_ _ _. Some (1 / 2)), le_count = (\<lambda>_ _. None),
      le_resp_str = (\<lambda>_. []), le_now = 0, le_api = (\<lambda>_ _ _ s. (hd s, tl s)), le_should_exit = (\<lambda>_. False),
      le_retry = (\<lambda>attempts again stop pause f. retry_attempts attempts again stop pause f 1)\<rparr>"

definition demo_llm_config :: llm_config where
  "demo_llm_config =
     \<lparr>lc_model = ''llama3'', lc_api_key = None, lc_base_url = None, lc_api_version = None, lc_aws_access_key_id = None,
      lc_aws_secret_access_key = None, lc_aws_region_name = None, lc_num_retries = 3, lc_timeout = None,
      lc_temperature = 0, lc_top_p = Some 1, lc_top_k = None, lc_custom_llm_provider = None, lc_max_input_tokens = None,
      lc_max_output_tokens = None, lc_input_cost_per_token = None, lc_output_cost_per_token = None, lc_drop_params = True,
      lc_disable_vision = False, lc_disable_stop_word = False, lc_caching_prompt = True, lc_native_tool_calling = None,
      lc_reasoning_effort = None, lc_seed = None, lc_safety_settings = [], lc_completion_kwargs = None\<rparr>"

definition demo_client :: llm where
  "demo_client = projr (llm_init (init_env.truncate demo_llm_env) demo_llm_config ''agent'' None True)"

definition demo_busy :: exn where
  "demo_busy = mk_exn ''RateLimitError'' RateLimitError ''busy''"

definition demo_reply :: completion_response where
  "demo_reply =
     \<lparr>cr_id = Some ''r1'', cr_choices = [\<lparr>ch_role = ''assistant'', ch_content = Some ''Hello'', ch_tool_calls = None\<rparr>],
      cr_usage = Some \<lparr>us_prompt = 7, us_completion = 2, us_cached = None, us_cache_write = 0\<rparr>, cr_cost_header = None\<rparr>"

definition demo_question :: "jdict list" where
  "demo_question = [out_message ''user'' (JStr ''Hi'')]"

definition demo_told :: llm where
  "demo_told = demo_client\<lparr>llm_notices := Some [(1, 3)]\<rparr>"

lemma demo_retry_law: "retry_law demo_llm_env"
  by (simp add: retry_law_def demo_llm_env_def)

text \<open>The first attempt fails, the second is asked after the listener was told.\<close>

lemma demo_llm_eq:
  "demo_client =
     \<lparr>llm_config = demo_llm_config, llm_service_id = ''agent'', llm_metrics = metrics_init ''llama3'', llm_model_info = None,
      function_calling_active = False, cost_metric_supported = True,
      llm_params = fixed_params demo_llm_config @ [(''temperature'', JFloat 0), (''max_completion_tokens'', JNull),
        (''top_p'', JFloat 1), (''aws_region_name'', JNull)],
      llm_notices = Some []\<rparr>"
  by code_simp

lemma demo_llm_facts:
  "llm_metrics demo_client = metrics_init ''llama3''" "llm_model_info demo_client = None" "cost_metric_supported demo_client"
  "\<not> function_calling_active demo_client" "lc_num_retries (llm_config demo_client) = 3" "custom_cost (llm_config demo_client) = None"
  "llm_notices demo_client = Some []"
  by (simp_all add: demo_llm_eq demo_llm_config_def custom_cost_def)

lemma demo_env_facts:
  "le_api demo_llm_env k ds tools s = (hd s, tl s)" "le_cost demo_llm_env n c r = Some (1 / 2)" "le_now demo_llm_env = 0"
  "le_fn demo_llm_env = demo_fn_env" "le_should_exit demo_llm_env = (\<lambda>_. False)"
  by (simp_all add: demo_llm_env_def)

lemma demo_attempt:
  "attempt demo_llm_env (Inl demo_question) None [] (l, Inl x # s) = (Inl x, l, s)"
  "attempt demo_llm_env (Inl demo_question) None [] (l, Inr (r, v) # s) =
     finish_response demo_llm_env (Inr r) (l\<lparr>llm_metrics := add_response_latency (llm_metrics l) v (response_id r)\<rparr>, s)"
  by (simp_all add: attempt_def send_def demo_env_facts demo_question_def finish_response_def [of _ "Inl x"])

lemma demo_second:
  assumes "attempt demo_llm_env (Inl demo_question) None [] (demo_told, [Inr (demo_reply, 1)]) = (r, l', s')"
  shows "r = Inr demo_reply \<and> accumulated_cost (llm_metrics l') = 1 / 2 \<and> llm_notices l' = Some [(1, 3)]"
  using assms demo_llm_facts
  by (auto simp add: demo_attempt finish_response_def post_completion_def completion_cost_def known_window_def demo_env_facts
      demo_told_def demo_reply_def response_id_def add_cost_def add_token_usage_def add_response_latency_def
      metrics_init_def Let_def split: prod.splits)

lemma demo_completion:
  "completion demo_llm_env (Inl demo_question) None [] (demo_client, [Inl demo_busy, Inr (demo_reply, 1)]) =
     attempt demo_llm_env (Inl demo_question) None [] (demo_told, [Inr (demo_reply, 1)])" (is "?l = ?r")
proof -
  have p: "before_sleep demo_llm_env 3 1 demo_busy [] (demo_client, s) = ([], demo_told, s)" for s
    by (simp add: before_sleep_def demo_busy_def mk_exn_def log_retry_attempt_def exc_isinstance_def demo_told_def demo_llm_facts)
  have b: "retryable demo_busy" by code_simp
  let ?run = "retry_attempts 3 retryable (\<lambda>_. False) (before_sleep demo_llm_env 3) (attempt demo_llm_env (Inl demo_question) None)"
  have "?l = ?run 1 [] (demo_client, [Inl demo_busy, Inr (demo_reply, 1)])"
    using demo_retry_law by (simp add: completion_def retry_law_def demo_llm_facts demo_env_facts)
  also have "\<dots> = ?run 2 [] (demo_told, [Inr (demo_reply, 1)])"
    by (subst retry_attempts.simps) (simp add: demo_attempt b p)
  also have "\<dots> = ?r"
    using demo_second by (subst retry_attempts.simps) (auto split: prod.splits sum.splits)
  finally show ?thesis .
qed

lemma demo_completed:
  obtains l' s' where "completion demo_llm_env (Inl demo_question) None []
      (demo_client, [Inl demo_busy, Inr (demo_reply, 1)]) = (Inr demo_reply, l', s')"
    "accumulated_cost (llm_metrics l') = 1 / 2" "llm_notices l' = Some [(1, 3)]"
  unfolding demo_completion using demo_second by (metis prod_cases3)

section \<open>How often a request is tried\<close>

lemma attempt_keeps:
  assumes "attempt env msgs tools k (l, s) = (r, l', s')"
  shows "llm_notices l' = llm_notices l \<and> llm_config l' = llm_config l"
  using assms
proof (cases rule: attempt_cases)
  case (sent k1 ds ts q l1 s1 g)
  from send_records(1) [OF sent(1)] have 1: "llm_notices l1 = llm_notices l" "llm_config l1 = llm_config l"
    by (metis llm.ext_inject llm.surjective llm.update_convs(3))+
  from sent(2) show ?thesis
  proof (cases rule: finish_response_cases)
    case (counted a p)
    from post_completion_records(2) [OF counted(2)] obtain m b where
      "l' = l1\<lparr>llm_metrics := m, cost_metric_supported := b\<rparr>" by blast
    with 1 show ?thesis by simp
  qed (use 1 in simp)
qed simp

text \<open>
  C21. A request is tried at most as often as the configuration says, and at least once: every attempt but the last
  failed with one of the errors that are worth another attempt, the listener is told of each of these with its number,
  what the last attempt returns or raises is the outcome, and it raises such an error only when the attempts are used
  up or the program is shutting down.
\<close>

theorem completion_tries:
  assumes "retry_law env" "completion env msgs tools k (l, s) = (r, l', s')"
  defines "N \<equiv> lc_num_retries (llm_config l)"
  shows "\<exists>xs k1 st1. failures (attempt env msgs tools) (before_sleep env N) 1 k (l, s) xs k1 st1 \<and>
    attempt env msgs tools k1 st1 = (r, l', s') \<and> list_all retryable xs \<and> 1 + int (length xs) \<le> max 1 N \<and>
    llm_notices l' = map_option (\<lambda>ns. ns @ map (\<lambda>i. (1 + int i, N)) [0..<length xs]) (llm_notices l) \<and>
    (\<forall>x. r = Inl x \<and> retryable x \<longrightarrow> N \<le> 1 + int (length xs) \<or> le_should_exit env s')"
proof -
  from completion_chain [OF assms(1,2)] obtain xs k1 l1 s1 where
    c: "failures (attempt env msgs tools) (before_sleep env N) 1 k (l, s) xs k1 (l1, s1)"
      "attempt env msgs tools k1 (l1, s1) = (r, l', s')" "list_all retryable xs" "xs = [] \<or> 1 + int (length xs) \<le> N"
      "\<forall>x. r = Inl x \<and> retryable x \<longrightarrow> N \<le> 1 + int (length xs) \<or> le_should_exit env s'"
    unfolding N_def by auto
  from failures_record [OF c(1,3)] have
    "llm_notices l1 = map_option (\<lambda>ns. ns @ map (\<lambda>i. (1 + int i, N)) [0..<length xs]) (llm_notices l)" by auto
  with c attempt_keeps [OF c(2)] show ?thesis by (intro exI [of _ xs] exI [of _ k1] exI [of _ "(l1, s1)"]) auto
qed

theorem completion_tries_witness:
  "\<exists>l' s'. completion demo_llm_env (Inl demo_question) None [] (demo_client, [Inl demo_busy, Inr (demo_reply, 1)]) =
      (Inr demo_reply, l', s') \<and> llm_notices l' = Some [(1, 3)] \<and>
    (\<exists>xs. length xs \<le> 2 \<and> llm_notices l' = map_option (\<lambda>ns. ns @ map (\<lambda>i. (1 + int i, lc_num_retries (llm_config demo_client)))
       [0..<length xs]) (llm_notices demo_client) \<and> list_all retryable (xs :: exn list))"
proof -
  obtain l' s' where run: "completion demo_llm_env (Inl demo_question) None []
      (demo_client, [Inl demo_busy, Inr (demo_reply, 1)]) = (Inr demo_reply, l', s')" "llm_notices l' = Some [(1, 3)]"
    by (rule demo_completed)
  from completion_tries [OF demo_retry_law run(1)] demo_llm_facts(5) obtain xs where "length xs \<le> 2" "list_all retryable xs"
    "llm_notices l' = map_option (\<lambda>ns. ns @ map (\<lambda>i. (1 + int i, lc_num_retries (llm_config demo_client))) [0..<length xs])
       (llm_notices demo_client)" by auto
  with run show ?thesis by blast
qed

text \<open>
  C22. What a request costs is counted once. When it returns a response, and the accounting of costs has not been given
  up, the metrics have one cost more, the price of this very response: what its header says, or else what the price
  list gives for it, or else for the name of the model without its first part. If there is no such price, or it is
  negative, or the accounting was given up, the costs are unchanged. If the response has a usage, the metrics have one
  entry with its tokens and the window of the model. The time that the call to the model took which
  returned the response is recorded under the id of the response, behind the latencies of the attempts that failed;
  nothing that was recorded is changed, and the sums of the metrics stay right.
\<close>

theorem response_accounted:
  assumes "retry_law env" "completion env msgs tools k (l, s) = (Inr r, l', s')" "metrics_ok (llm_metrics l)"
  shows "metrics_ok (llm_metrics l') \<and> llm_config l' = llm_config l \<and>
    (case (if cost_metric_supported l then price_of env (llm_config l) r else None) of
       Some p \<Rightarrow>
         if 0 \<le> p
         then accumulated_cost (llm_metrics l') = accumulated_cost (llm_metrics l) + p \<and>
           costs (llm_metrics l') = costs (llm_metrics l) @
             [\<lparr>co_model = model_name (llm_metrics l), co_cost = p, co_timestamp = le_now env\<rparr>]
         else accumulated_cost (llm_metrics l') = accumulated_cost (llm_metrics l) \<and> costs (llm_metrics l') = costs (llm_metrics l)
     | None \<Rightarrow> accumulated_cost (llm_metrics l') = accumulated_cost (llm_metrics l) \<and> costs (llm_metrics l') = costs (llm_metrics l)) \<and>
    (case cr_usage r of
       None \<Rightarrow> token_usages (llm_metrics l') = token_usages (llm_metrics l)
     | Some u \<Rightarrow> \<exists>w. known_window l = Inr w \<and>
         token_usages (llm_metrics l') = token_usages (llm_metrics l) @ [usage_entry l r u w]) \<and>
    (\<exists>v params ds ts s0 r0 ls. le_api env params ds ts s0 = (Inr (r0, v), s') \<and> response_id r0 = response_id r \<and>
       response_latencies (llm_metrics l') = response_latencies (llm_metrics l) @ ls @
         [\<lparr>rl_model = model_name (llm_metrics l), rl_latency = max 0 v, rl_response_id = response_id r\<rparr>] \<and>
       1 + int (length ls) \<le> max 1 (lc_num_retries (llm_config l)))"
proof -
  from completion_chain [OF assms(1,2)] obtain xs k1 l1 s1 where
    c: "failures (attempt env msgs tools) (before_sleep env (lc_num_retries (llm_config l))) 1 k (l, s) xs k1 (l1, s1)"
      "attempt env msgs tools k1 (l1, s1) = (Inr r, l', s')" "list_all retryable xs"
      "xs = [] \<or> 1 + int (length xs) \<le> lc_num_retries (llm_config l)" by auto
  from failures_record [OF c(1,3)] obtain ls ns where
    l1: "l1 = l\<lparr>llm_metrics := (llm_metrics l)\<lparr>response_latencies := response_latencies (llm_metrics l) @ ls\<rparr>, llm_notices := ns\<rparr>"
      "length ls \<le> length xs" "metrics_ok (llm_metrics l1)" using assms(3) by auto
  have eq: "token_usages (llm_metrics l1) = token_usages (llm_metrics l)" "model_name (llm_metrics l1) = model_name (llm_metrics l)"
    "response_latencies (llm_metrics l1) = response_latencies (llm_metrics l) @ ls" "due env l1 r = due env l r"
    "costs (charged (llm_metrics l1) p now) = costs (charged (llm_metrics l) p now)"
    "accumulated_cost (charged (llm_metrics l1) p now) = accumulated_cost (charged (llm_metrics l) p now)"
    "usage_entry l1 r u w = usage_entry l r u w" "known_window l1 = known_window l" for u w p now
    by (simp_all add: usage_entry_def due_def charged_def known_window_def l1 split: option.split)
  from returned_attempt [OF c(2)] obtain v params ds ts r0 where
    a: "le_api env params ds ts s1 = (Inr (r0, v), s')" "response_id r0 = response_id r"
      "costs (llm_metrics l') = costs (charged (llm_metrics l) (due env l r) (le_now env))"
      "accumulated_cost (llm_metrics l') = accumulated_cost (charged (llm_metrics l) (due env l r) (le_now env))"
      "case cr_usage r of None \<Rightarrow> token_usages (llm_metrics l') = token_usages (llm_metrics l)
         | Some u \<Rightarrow> \<exists>w. known_window l = Inr w \<and>
             token_usages (llm_metrics l') = token_usages (llm_metrics l) @ [usage_entry l r u w]"
      "response_latencies (llm_metrics l') = response_latencies (llm_metrics l) @ ls @
         [\<lparr>rl_model = model_name (llm_metrics l), rl_latency = max 0 v, rl_response_id = response_id r\<rparr>]"
      "metrics_ok (llm_metrics l')"
    unfolding eq append_assoc using l1(3) by blast
  have "1 + int (length ls) \<le> max 1 (lc_num_retries (llm_config l))" using c(4) l1(2) by auto
  then have latency: "\<exists>v params ds ts s0 r0 ls. le_api env params ds ts s0 = (Inr (r0, v), s') \<and> response_id r0 = response_id r \<and>
       response_latencies (llm_metrics l') = response_latencies (llm_metrics l) @ ls @
         [\<lparr>rl_model = model_name (llm_metrics l), rl_latency = max 0 v, rl_response_id = response_id r\<rparr>] \<and>
       1 + int (length ls) \<le> max 1 (lc_num_retries (llm_config l))"
    using a(1,2,6) by blast
  have "llm_config l' = llm_config l" using attempt_keeps [OF c(2)] by (simp add: l1(1))
  then show ?thesis
    by (intro conjI a(5,7) latency) (use a(3,4) in \<open>auto simp: due_def charged_def split: option.split\<close>)
qed

theorem response_accounted_witness:
  "\<exists>l' s'. completion demo_llm_env (Inl demo_question) None [] (demo_client, [Inl demo_busy, Inr (demo_reply, 1)]) =
      (Inr demo_reply, l', s') \<and> metrics_ok (llm_metrics l') \<and> accumulated_cost (llm_metrics l') = 1 / 2 \<and>
      map co_cost (costs (llm_metrics l')) = [1 / 2]"
proof -
  obtain l' s' where run: "completion demo_llm_env (Inl demo_question) None []
      (demo_client, [Inl demo_busy, Inr (demo_reply, 1)]) = (Inr demo_reply, l', s')" by (rule demo_completed)
  have m: "metrics_ok (llm_metrics demo_client)" using metrics_ok_init by (simp add: demo_llm_facts)
  have p: "price_of demo_llm_env (llm_config demo_client) demo_reply = Some (1 / 2)"
    by (simp add: price_of_def demo_reply_def demo_env_facts)
  from response_accounted [OF demo_retry_law run m] demo_llm_facts(3) p have
    "metrics_ok (llm_metrics l')" "accumulated_cost (llm_metrics l') = accumulated_cost (llm_metrics demo_client) + 1 / 2"
    "costs (llm_metrics l') = costs (llm_metrics demo_client) @
       [\<lparr>co_model = model_name (llm_metrics demo_client), co_cost = 1 / 2, co_timestamp = le_now demo_llm_env\<rparr>]" by simp_all
  with run show ?thesis by (auto simp: demo_llm_facts metrics_init_def)
qed

section \<open>The answer of a model without tools\<close>

lemma out_loop_length: "out_loop env suffix ex first xs = Inr ys \<Longrightarrow> length ys = length xs"
  by (induction xs arbitrary: first ys) (auto simp: and_then_def split: sum.splits prod.splits)

lemma render_length [simp]: "length (render env n ts) = length ts"
  by (induction ts arbitrary: n rule: calls_made.induct) auto

lemma call_of_call_dict [simp]:
  "call_of_json (call_dict env n name args) =
     \<lparr>tc_id = toolu n, tc_name = Some name, tc_arguments = fe_dumps env (JDict args)\<rparr>"
  by (simp add: call_of_json_def call_dict_def json_str_def)

lemma read_call_answer:
  assumes "convert_non_fncall_messages_to_fncall_messages (le_fn env) (texts @ [out_message ''assistant'' (JStr text)]) tools =
      Inr (render (le_fn env) 1 (ts @ [Calls t name args]))"
    and "cr_choices r = [\<lparr>ch_role = ''assistant'', ch_content = Some text, ch_tool_calls = None\<rparr>]"
  shows "read_answer env texts tools r = Inr (r\<lparr>cr_choices := [\<lparr>ch_role = ''assistant'', ch_content = Some t,
      ch_tool_calls = Some [\<lparr>tc_id = toolu (1 + calls_made ts), tc_name = Some name,
        tc_arguments = fe_dumps (le_fn env) (JDict args)\<rparr>]\<rparr>]\<rparr>)"
  using assms
  by (simp add: read_answer_def choice_dict_def json_opt_def fn_result_def render_snoc_call out_message_def
      choice_of_dict_def json_str_def Let_def)

text \<open>
  C10. An agent whose model has no tools sees the same calls as one whose model has them. A conversation, which is not
  empty, is sent with its calls as text and without tools; when the model answers with text and a call in the described
  format, whole or stopped at the closing tag, the response has that text as its content and that call, with the name,
  the arguments and the next id, as if the model had called the tool; and the request is not repeated. It assumes of the
  conversation and of the answer what the round trip of a conversation assumes (no quoted markers; every argument a
  declared string, integer or array); that, for a model that is not shown the worked example, the first text of the user
  does not begin with it; and that the context window of the model, if it is known, is an integer.
\<close>

theorem mock_call_read:
  assumes "retry_law env" "\<not> function_calling_active l"
    and "add_example_for (lc_model (llm_config l)) \<or> example_free (get_example_for_tools (le_fn env) tools) ts"
    and "ts \<noteq> []" "system_prompt_suffix (le_fn env) tools = Inr suffix"
    and "turns_ok (le_fn env) tools suffix True (ts @ [Calls t name args])"
    and "text = str_lstrip (t @ newline # newline # call_text (le_fn env) name args) \<or>
         text = str_lstrip (t @ newline # newline # cut_call (le_fn env) name args)"
    and "cr_choices r = [\<lparr>ch_role = ''assistant'', ch_content = Some text, ch_tool_calls = None\<rparr>]"
    and "\<forall>params texts. le_api env params texts None s = (Inr (r, v), s1)" "known_window l = Inr w"
  shows "\<exists>l'. completion env (Inl (render (le_fn env) 1 ts)) (Some tools) k (l, s) =
    (Inr (r\<lparr>cr_choices := [\<lparr>ch_role = ''assistant'', ch_content = Some t,
       ch_tool_calls = Some [\<lparr>tc_id = toolu (1 + calls_made ts), tc_name = Some name,
         tc_arguments = fe_dumps (le_fn env) (JDict args)\<rparr>]\<rparr>]\<rparr>), l', s1)"
    (is "\<exists>l'. _ = (Inr ?r, l', s1)")
proof -
  let ?ex = "add_example_for (lc_model (llm_config l))"
  obtain texts where texts: "convert_fncall_messages_to_non_fncall_messages (le_fn env) (render (le_fn env) 1 ts) tools ?ex = Inr texts"
    "convert_non_fncall_messages_to_fncall_messages (le_fn env) (texts @ [out_message ''assistant'' (JStr text)]) tools =
      Inr (render (le_fn env) 1 (ts @ [Calls t name args]))"
    using answer_back [OF assms(5-7,3)] by blast
  have ne: "texts \<noteq> []"
    using out_loop_length assms(4,5) texts(1)
    by (fastforce simp: convert_fncall_messages_to_non_fncall_messages_def)
  let ?l1 = "l\<lparr>llm_metrics := add_response_latency (llm_metrics l) v (response_id r)\<rparr>"
  have "attempt env (Inl (render (le_fn env) 1 ts)) (Some tools) k (l, s) = finish_response env (Inr ?r) (?l1, s1)"
    using assms(2,9) ne texts(1) read_call_answer [OF texts(2) assms(8)]
    by (simp add: attempt_def send_def fn_result_def Let_def)
  moreover obtain c l2 where c: "completion_cost env ?r ?l1 = (c, l2)" by force
  moreover have "known_window l2 = Inr w"
  proof -
    from completion_cost_records(5) [OF c] have "llm_model_info l2 = llm_model_info l"
      by (metis (no_types, lifting) llm.select_convs(4) llm.surjective llm.update_convs(3,6))
    with assms(10) show ?thesis by (simp add: known_window_def)
  qed
  ultimately obtain l' where "attempt env (Inl (render (le_fn env) 1 ts)) (Some tools) k (l, s) = (Inr ?r, l', s1)"
    by (cases "cr_usage r") (auto simp: finish_response_def post_completion_def)
  then show ?thesis using assms(1)
    by (intro exI [of _ l']) (simp add: completion_def retry_law_def retry_attempts.simps)
qed

definition demo_stopped_text :: string where
  "demo_stopped_text = str_lstrip (''I look.'' @ newline # newline # cut_call demo_fn_env ''view'' demo_call_args)"

definition demo_called :: completion_response where
  "demo_called = demo_reply\<lparr>cr_choices :=
     [\<lparr>ch_role = ''assistant'', ch_content = Some demo_stopped_text, ch_tool_calls = None\<rparr>]\<rparr>"

theorem mock_call_read_witness:
  "\<exists>r l'. completion demo_llm_env (Inl (render demo_fn_env 1 [Says_system ''You are an agent.'', Says_user ''Show a.txt < b'']))
      (Some [demo_tool]) [] (demo_client, [Inr (demo_called, 1)]) = (Inr r, l', []) \<and>
    map ch_tool_calls (cr_choices r) = [Some [\<lparr>tc_id = toolu 1, tc_name = Some ''view'', tc_arguments = ''{...}''\<rparr>]]"
proof -
  let ?ts = "[Says_system ''You are an agent.'', Says_user ''Show a.txt < b'']"
  obtain suffix where suffix: "system_prompt_suffix demo_fn_env [demo_tool] = Inr suffix"
    "turns_ok demo_fn_env [demo_tool] suffix True demo_turns"
    by (rule demo_turns_ok)
  from suffix(2) have ok: "turns_ok demo_fn_env [demo_tool] suffix True (?ts @ [Calls ''I look.'' ''view'' demo_call_args])"
    by (simp add: demo_turns_def)
  have l: "add_example_for (lc_model (llm_config demo_client))" "known_window demo_client = Inr 0"
    by (simp_all add: demo_llm_eq demo_llm_config_def add_example_for_def known_window_def str_startswith_def)
  have "\<exists>l'. completion demo_llm_env (Inl (render demo_fn_env 1 ?ts)) (Some [demo_tool]) [] (demo_client, [Inr (demo_called, 1)]) =
      (Inr (demo_called\<lparr>cr_choices := [\<lparr>ch_role = ''assistant'', ch_content = Some ''I look.'',
         ch_tool_calls = Some [\<lparr>tc_id = toolu (1 + calls_made ?ts), tc_name = Some ''view'',
           tc_arguments = fe_dumps demo_fn_env (JDict demo_call_args)\<rparr>]\<rparr>]\<rparr>), l', [])"
    by (rule mock_call_read [OF demo_retry_law demo_llm_facts(4) disjI1 [OF l(1)], where ts = ?ts and suffix = suffix and w = 0 and v = 1,
          unfolded demo_env_facts(4), OF _ suffix(1) ok])
      (simp_all add: demo_called_def demo_stopped_text_def demo_env_facts(1) l(2))
  then show ?thesis by (force simp: demo_fn_env_def)
qed

section \<open>When all attempts were refused\<close>













end
