(* ===== verification/Registry_Properties.thy ===== *)
theory Registry_Properties
  imports Llm_Registry Llm_Properties
begin

text \<open>
  The properties of the registry of clients: every client is in the conversation's statistics, so that what any of them
  spends is counted; a service cannot be asked for twice with the configuration it was made from; the choice of a router.
\<close>

section \<open>The invariant\<close>

text \<open>The statistics hold the metrics of the clients, under the same names, and of nothing else.\<close>

definition same_metrics :: "(string \<times> llm) list \<Rightarrow> conv_stats \<Rightarrow> bool" where
  "same_metrics ls cs \<longleftrightarrow> stats_ok cs \<and> (\<forall>sid. map_of (service_to_metrics cs) sid = map_option llm_metrics (map_of ls sid))"

definition registry_ok :: "registry \<Rightarrow> bool" where
  "registry_ok rg \<longleftrightarrow> distinct (map fst (service_to_llm rg)) \<and> list_all (\<lambda>(_, l). metrics_ok (llm_metrics l)) (service_to_llm rg) \<and>
     (case rg_stats rg of None \<Rightarrow> False
      | Some cs \<Rightarrow> same_metrics (service_to_llm rg) cs \<and> list_all (\<lambda>(_, m). metrics_ok m) (restored_metrics cs))"

lemma list_all_alist_values: "list_all (\<lambda>(_, x). P x) d \<Longrightarrow> P v \<Longrightarrow> list_all (\<lambda>(_, x). P x) (alist_set k v d)"
  by (induction k v d rule: alist_set.induct) auto

lemma map_of_all: "list_all (\<lambda>(_, x). P x) d \<Longrightarrow> map_of d k = Some v \<Longrightarrow> P v"
  by (induction d) (auto split: if_splits)

lemma init_metrics: "llm_init env c sid None listener = Inr l \<Longrightarrow> llm_metrics l = metrics_init (lc_model c)"
  by (auto simp: llm_init_def sbind_Inr_iff Let_def split: prod.splits)

lemma notify_ok:
  assumes "distinct (map fst (service_to_llm rg))" "list_all (\<lambda>(_, l). metrics_ok (llm_metrics l)) (service_to_llm rg)"
    and "rg_stats rg = Some cs" "stats_ok cs" "list_all (\<lambda>(_, m). metrics_ok m) (restored_metrics cs)"
    and "\<And>k. k \<noteq> sid \<Longrightarrow> map_of (service_to_metrics cs) k = map_option llm_metrics (map_of (service_to_llm rg) k)"
    and "map_of (service_to_llm rg) sid = Some l"
  shows "registry_ok (notify sid rg)"
proof -
  obtain cs' m where r: "register_llm cs sid (llm_metrics l) = (cs', m)" by force
  have ok: "stats_ok cs'" using register_llm_ok [OF assms(4), of sid "llm_metrics l"] r by simp
  have m: "metrics_ok m" "list_all (\<lambda>(_, m). metrics_ok m) (restored_metrics cs')"
    "map_of (service_to_metrics cs') = (map_of (service_to_metrics cs))(sid \<mapsto> m)"
    using r map_of_all [OF assms(2,7)] map_of_all [OF assms(5)] assms(5)
    by (auto simp: register_llm_def alist_del_def list_all_iff split: option.splits)
  have "map_of (service_to_metrics cs') k =
      map_option llm_metrics (map_of (alist_set sid (l\<lparr>llm_metrics := m\<rparr>) (service_to_llm rg)) k)" for k
    using m(3) assms(6) [of k] by auto
  then show ?thesis
    using assms(1,2,3,7) r ok m(1,2) distinct_alist_set [OF assms(1)] list_all_alist_values [OF assms(2)]
    by (simp add: registry_ok_def notify_def same_metrics_def)
qed

lemma create_ok:
  assumes "registry_ok rg" "map_of (service_to_llm rg) sid = None"
  shows "registry_ok (snd (create_new_llm env sid c with_listener rg))"
proof (cases "llm_init env c sid None (rg_listener rg \<and> with_listener)")
  case (Inl x)
  with assms(1) show ?thesis by (simp add: create_new_llm_def)
next
  case (Inr l)
  from assms(1) obtain cs where cs: "rg_stats rg = Some cs" by (auto simp: registry_ok_def split: option.splits)
  have "metrics_ok (llm_metrics l)" using init_metrics [OF Inr] metrics_ok_init by simp
  then have "registry_ok (notify sid (rg\<lparr>service_to_llm := alist_set sid l (service_to_llm rg)\<rparr>))"
    using assms cs by (intro notify_ok [where cs = cs and l = l])
      (auto simp: registry_ok_def same_metrics_def distinct_alist_set list_all_alist_values)
  with Inr show ?thesis by (simp add: create_new_llm_def)
qed

lemma config_ok: "registry_ok (rg\<lparr>rg_config := oc\<rparr>) = registry_ok rg"
  by (simp add: registry_ok_def split: option.split)

lemma get_llm_ok: "registry_ok rg \<Longrightarrow> registry_ok (snd (get_llm env sid c rg))"
  using create_ok [of rg sid] by (auto simp: get_llm_def split: option.splits)

lemma from_agent_ok: "registry_ok rg \<Longrightarrow> registry_ok (snd (get_llm_from_agent_config env sid ac rg))"
  using create_ok [of "rg\<lparr>rg_config := oc\<rparr>" sid for oc]
  by (auto simp: get_llm_from_agent_config_def config_ok Let_def split: prod.splits)

lemma update_same:
  assumes "same_metrics ls cs" "map_of ls sid = Some l"
  shows "same_metrics (alist_set sid l' ls) (update_service cs sid (\<lambda>_. llm_metrics l'))"
proof -
  have keys: "map fst (service_to_metrics (update_service cs sid f)) = map fst (service_to_metrics cs)" for f
    by (simp add: update_service_def comp_def case_prod_unfold)
  have "map_of (map (\<lambda>(k, m). (k, if k = sid then f m else m)) d) k = (if k = sid then map_option f (map_of d k) else map_of d k)"
    for f k and d :: "(string \<times> metrics) list" by (induction d) auto
  then have "map_of (service_to_metrics (update_service cs sid f)) k =
      (if k = sid then map_option f (map_of (service_to_metrics cs) k) else map_of (service_to_metrics cs) k)" for f k
    by (simp add: update_service_def)
  with assms keys [of "\<lambda>_. llm_metrics l'"] show ?thesis
    unfolding same_metrics_def stats_ok_def by (auto simp: update_service_def simp del: map_map)
qed

lemma put_llm_ok:
  assumes "registry_ok rg" "map_of (service_to_llm rg) sid = Some l" "metrics_ok (llm_metrics l')"
  shows "registry_ok (put_llm sid l' rg)"
  using assms update_same [OF _ assms(2)]
  by (auto simp: registry_ok_def put_llm_def update_service_def distinct_alist_set list_all_alist_values split: option.splits)

section \<open>What is spent\<close>

lemma completion_metrics_ok:
  assumes "retry_law env" "completion env msgs tools k (l, s) = (r, l', s')" "metrics_ok (llm_metrics l)"
  shows "metrics_ok (llm_metrics l')"
proof -
  from completion_chain [OF assms(1,2)] obtain xs k1 l1 s1 where
    c: "failures (attempt env msgs tools) (before_sleep env (lc_num_retries (llm_config l))) 1 k (l, s) xs k1 (l1, s1)"
      "attempt env msgs tools k1 (l1, s1) = (r, l', s')" "list_all retryable xs" by auto
  have "metrics_ok (llm_metrics l1)" using failures_record [OF c(1,3)] assms(3) by auto
  with c(2) show ?thesis
  proof (cases rule: attempt_cases)
    case (sent k2 ds ts q l2 s2 g)
    with send_records(3) [OF sent(1)] \<open>metrics_ok (llm_metrics l1)\<close> have l2: "metrics_ok (llm_metrics l2)" by blast
    from sent(2) show ?thesis by (cases rule: finish_response_cases) (use l2 post_completion_records(1) in auto)
  qed simp
qed

lemma service_completion_ok:
  assumes "retry_law env" "registry_ok rg" "service_completion env sid msgs tools k (rg, s) = (r, rg', s')"
  shows "registry_ok rg'"
proof (cases "map_of (service_to_llm rg) sid")
  case None
  with assms show ?thesis by (simp add: service_completion_def)
next
  case (Some l)
  obtain q l' s1 where q: "completion env msgs tools k (l, s) = (q, l', s1)" by (metis prod_cases3)
  have "metrics_ok (llm_metrics l)" using assms(2) map_of_all [OF _ Some] by (auto simp: registry_ok_def)
  from put_llm_ok [OF assms(2) Some completion_metrics_ok [OF assms(1) q this]] assms(3) Some q
  show ?thesis by (simp add: service_completion_def)
qed

lemma routing_llms_ok: "registry_ok rg \<Longrightarrow> registry_ok (snd (routing_llms env cs rg))"
proof (induction env cs rg rule: routing_llms.induct)
  case (2 env name c cs rg)
  obtain x rg1 where g: "get_llm env (''llm_for_routing.'' @ name) (Some c) rg = (x, rg1)" by force
  have "registry_ok rg1" using get_llm_ok [OF 2(2), of env _ "Some c"] g by (metis snd_conv)
  with 2(1) g show ?case by (cases x) auto
qed simp

lemma get_router_ok:
  assumes "registry_ok rg"
  shows "registry_ok (snd (get_router env ac rg))"
proof -
  obtain x rg1 where g: "get_llm_from_agent_config env ''agent'' ac rg = (x, rg1)" by force
  have rg1: "registry_ok rg1" using from_agent_ok [OF assms, of env "''agent''" ac] g by simp
  obtain y rg2 where h: "routing_llms env (ac_llms_for_routing ac) rg1 = (y, rg2)" by force
  have "registry_ok rg2" using routing_llms_ok [OF rg1, of env "ac_llms_for_routing ac"] h by simp
  with rg1 assms show ?thesis
    by (auto simp: get_router_def multimodal_router_def g h Let_def split: option.split sum.split)
qed

lemma request_ok:
  assumes "retry_law env" "registry_ok rg" "request_extraneous_completion env sid c ds (rg, s) = (r, rg', s')"
  shows "registry_ok rg'"
proof -
  obtain x rg1 where g: "(if map_of (service_to_llm rg) sid = None then create_new_llm (init_env.truncate env) sid c False rg
      else (None, rg)) = (x, rg1)" by force
  have rg1: "registry_ok rg1" using create_ok [OF assms(2), of sid] g assms(2) by (metis snd_conv)
  obtain q rg2 s2 where h: "service_completion env sid (Inl ds) None [] (rg1, s) = (q, rg2, s2)" by (metis prod_cases3)
  from assms(3) show ?thesis using rg1 service_completion_ok [OF assms(1) rg1 h]
    by (auto simp: request_extraneous_completion_def g h split: option.splits)
qed

lemma router_completion_ok:
  assumes "retry_law env" "registry_ok rg" "router_completion env ms tools k (ro, rg, s) = (r, ro', rg', s')"
  shows "registry_ok rg'"
proof -
  have "service_completion env sid (Inr ms) tools k (rg, s) = (q, rg2, s2) \<Longrightarrow> registry_ok rg2" for sid q rg2 s2
    using service_completion_ok [OF assms(1,2)] by blast
  with assms(2,3) show ?thesis
    by (auto simp: router_completion_def split: prod.splits sum.splits option.splits)
qed

text \<open>What happens to a registry\<close>

inductive registry_step :: "'s llm_env \<Rightarrow> registry \<times> 's \<Rightarrow> registry \<times> 's \<Rightarrow> bool" for env where
  asked: "registry_step env (rg, s) (snd (get_llm (init_env.truncate env) sid c rg), s)"
| for_agent: "registry_step env (rg, s) (snd (get_llm_from_agent_config (init_env.truncate env) sid ac rg), s)"
| routed: "registry_step env (rg, s) (snd (get_router (init_env.truncate env) ac rg), s)"
| requested: "request_extraneous_completion env sid c ds (rg, s) = (r, st') \<Longrightarrow> registry_step env (rg, s) st'"
| completed: "service_completion env sid msgs tools k (rg, s) = (r1, st') \<Longrightarrow> registry_step env (rg, s) st'"
| chosen: "router_completion env ms tools k (ro, rg, s) = (r1, ro', st') \<Longrightarrow> registry_step env (rg, s) st'"

lemma registry_step_ok:
  assumes "registry_step env st st'" "retry_law env" "registry_ok (fst st)"
  shows "registry_ok (fst st')"
  using assms(1,3)
  by (cases rule: registry_step.cases; cases st')
    (auto intro: get_llm_ok from_agent_ok get_router_ok request_ok [OF assms(2)] service_completion_ok [OF assms(2)]
      router_completion_ok [OF assms(2)])

lemma created_ok:
  assumes "create_registry_and_conversation_stats env oc agent_cls cs = Inr rg" "stats_ok cs" "service_to_metrics cs = []"
    and "list_all (\<lambda>(_, m). metrics_ok m) (restored_metrics cs)"
  shows "registry_ok rg"
proof -
  from assms(1) obtain rg0 where rg0: "registry_init env oc agent_cls False = Inr rg0" "rg = registry_subscribe cs rg0"
    by (auto simp: create_registry_and_conversation_stats_def sbind_Inr_iff)
  from rg0(1) obtain l c where l: "service_to_llm rg0 = [(''agent'', l)]" "llm_init env c ''agent'' None False = Inr l"
    by (auto simp: registry_init_def get_llm_def create_new_llm_def notify_def Let_def split: prod.splits option.splits sum.splits)
  have "metrics_ok (llm_metrics l)" using init_metrics [OF l(2)] metrics_ok_init by simp
  with assms(2-4) l(1) show ?thesis unfolding rg0(2) registry_subscribe_def
    by (intro notify_ok [where cs = cs and l = l]) auto
qed

text \<open>The sum over the statistics is the sum over the clients.\<close>

lemma sum_by_key:
  fixes f :: "'a \<Rightarrow> rat"
  assumes "distinct (map fst d)"
  shows "sum_list (map (f \<circ> snd) d) = (\<Sum>k \<in> dom (map_of d). f (the (map_of d k)))"
  using assms
proof (induction d)
  case (Cons p d)
  obtain k v where p: "p = (k, v)" by (cases p)
  have k: "k \<notin> dom (map_of d)" using Cons.prems by (simp add: p dom_map_of_conv_image_fst)
  have "(\<Sum>j \<in> dom (map_of d). f (the (map_of (p # d) j))) = (\<Sum>j \<in> dom (map_of d). f (the (map_of d j)))"
    by (rule sum.cong) (use k in \<open>auto simp: p\<close>)
  moreover have "dom (map_of (p # d)) = insert k (dom (map_of d))" by (auto simp: p)
  ultimately have "(\<Sum>j \<in> dom (map_of (p # d)). f (the (map_of (p # d) j))) = f v + (\<Sum>j \<in> dom (map_of d). f (the (map_of d j)))"
    using sum.insert [OF finite_dom_map_of k, of "\<lambda>j. f (the (map_of (p # d) j))"] by (simp add: p)
  moreover have "sum_list (map (f \<circ> snd) (p # d)) = f v + sum_list (map (f \<circ> snd) d)" by (simp add: p)
  ultimately show ?case using Cons by (simp only: list.map distinct.simps)
qed simp

lemma combined_cost:
  assumes "registry_ok rg" "rg_stats rg = Some cs"
  shows "accumulated_cost (get_combined_metrics cs) = (\<Sum>(_, l) \<leftarrow> service_to_llm rg. accumulated_cost (llm_metrics l))"
proof -
  let ?d = "map (\<lambda>(k, l). (k, llm_metrics l)) (service_to_llm rg)"
  have d: "distinct (map fst ?d)" "map_of ?d = map_of (service_to_metrics cs)" "distinct (map fst (service_to_metrics cs))"
    using assms map_of_map [of llm_metrics "service_to_llm rg"]
    by (auto simp: registry_ok_def same_metrics_def stats_ok_def comp_def case_prod_unfold fun_eq_iff)
  have "accumulated_cost (get_combined_metrics cs) = sum_list (map (accumulated_cost \<circ> snd) (service_to_metrics cs))"
    by (simp add: get_combined_metrics_def foldl_merge_cost metrics_init_def)
  also have "\<dots> = sum_list (map (accumulated_cost \<circ> snd) ?d)"
    using sum_by_key [OF d(1), of accumulated_cost] sum_by_key [OF d(3), of accumulated_cost] d(2) by simp
  finally show ?thesis by (simp add: comp_def case_prod_unfold)
qed

text \<open>
  C12. What any client of a conversation spends is counted in the conversation. In every registry that grows out of the
  one the conversation is started with - clients being made for agents, condensers, routers and single requests, and
  requests being sent by any of them - the cost that the statistics of the conversation report, against which the budget
  is held, is the sum of the costs of all clients, each of whose metrics is consistent. It assumes that the statistics
  were just read from their file.
\<close>

theorem spending_counted:
  assumes "create_registry_and_conversation_stats (init_env.truncate env) oc agent_cls cs0 = Inr rg0"
    and "stats_ok cs0" "service_to_metrics cs0 = []" "list_all (\<lambda>(_, m). metrics_ok m) (restored_metrics cs0)"
    and "retry_law env" "(registry_step env)\<^sup>*\<^sup>* (rg0, s0) (rg, s)"
  shows "\<exists>cs. rg_stats rg = Some cs \<and> stats_ok cs \<and>
    list_all (\<lambda>(sid, l). metrics_ok (llm_metrics l) \<and> map_of (service_to_metrics cs) sid = Some (llm_metrics l)) (service_to_llm rg) \<and>
    accumulated_cost (get_combined_metrics cs) = (\<Sum>(_, l) \<leftarrow> service_to_llm rg. accumulated_cost (llm_metrics l))"
proof -
  have "registry_ok (fst (rg, s))"
    using assms(6) created_ok [OF assms(1-4)]
    by (induction rule: rtranclp_induct) (auto intro: registry_step_ok [OF _ assms(5)])
  then have ok: "registry_ok rg" by simp
  then obtain cs where cs: "rg_stats rg = Some cs" by (auto simp: registry_ok_def split: option.splits)
  have "map_of (service_to_metrics cs) sid = Some (llm_metrics l)" if "(sid, l) \<in> set (service_to_llm rg)" for sid l
    using ok cs that by (auto simp: registry_ok_def same_metrics_def)
  with ok cs combined_cost [OF ok cs] show ?thesis
    by (auto simp: registry_ok_def same_metrics_def list_all_iff)
qed

definition demo_init :: init_env where
  "demo_init = \<lparr>le_model_info = (\<lambda>_. Some [(''max_input_tokens'', JInt 100)]), le_proxy = (\<lambda>_ _. Inr None), le_supports_vision = (\<lambda>_. False), le_getenv = (\<lambda>_. None)\<rparr>"

definition small_config :: llm_config where
  "small_config = demo_llm_config\<lparr>lc_model := ''x''\<rparr>"

definition demo_oh_config :: oh_config where
  "demo_oh_config = \<lparr>oc_llms = [(''llm'', small_config)], oc_agents = [], oc_default_agent = Some ''CodeActAgent''\<rparr>"

definition empty_registry :: registry where
  "empty_registry = \<lparr>rg_config = demo_oh_config, rg_listener = False,
     service_to_llm = [], rg_stats = None\<rparr>"

definition demo_restored :: conv_stats where
  "demo_restored = conv_stats_init True ''c1'' (Some [(''agent'', metrics_init ''x'')])"

theorem spending_counted_witness:
  "\<exists>rg0 r rg s cs. create_registry_and_conversation_stats (init_env.truncate demo_llm_env) demo_oh_config None demo_restored = Inr rg0 \<and>
    service_completion demo_llm_env ''condenser'' (Inl demo_question) None []
      (snd (get_llm (init_env.truncate demo_llm_env) ''condenser'' (Some small_config) rg0), [Inr (demo_reply, 1)]) = (r, rg, s) \<and>
    rg_stats rg = Some cs \<and>
    accumulated_cost (get_combined_metrics cs) = (\<Sum>(_, l) \<leftarrow> service_to_llm rg. accumulated_cost (llm_metrics l))"
proof -
  let ?i = "init_env.truncate demo_llm_env"
  have "\<not> Option.is_none (case create_registry_and_conversation_stats ?i demo_oh_config None demo_restored of Inl _ \<Rightarrow> None | Inr rg \<Rightarrow> Some rg)"
    by code_simp
  then obtain rg0 where rg0: "create_registry_and_conversation_stats ?i demo_oh_config None demo_restored = Inr rg0"
    by (auto split: sum.splits)
  have cs: "stats_ok demo_restored" "service_to_metrics demo_restored = []"
    by (simp_all add: demo_restored_def conv_stats_init_def maybe_restore_metrics_def stats_ok_def)
  have m: "list_all (\<lambda>(_, m). metrics_ok m) (restored_metrics demo_restored)"
    by (simp add: demo_restored_def conv_stats_init_def maybe_restore_metrics_def metrics_ok_def metrics_init_def)
  let ?rg1 = "snd (get_llm ?i ''condenser'' (Some small_config) rg0)" and ?s = "[Inr (demo_reply, 1)] :: demo_answers"
  obtain r rg s where run: "service_completion demo_llm_env ''condenser'' (Inl demo_question) None [] (?rg1, ?s) = (r, rg, s)"
    by (metis prod_cases3)
  have "(registry_step demo_llm_env)\<^sup>*\<^sup>* (rg0, ?s) (rg, s)"
    using asked completed [OF run] by (meson r_into_rtranclp rtranclp.rtrancl_into_rtrancl)
  from spending_counted [OF rg0 cs m demo_retry_law this] rg0 run show ?thesis by blast
qed

section \<open>Asking again\<close>

text \<open>
  A service that was made from a configuration cannot be asked for again with that configuration when the constructor
  completed it - the limits of the model, or its full name, were filled in -, because what is compared is the completed copy:
  the request is refused as one with another configuration. With the completed configuration it is answered.
\<close>

theorem same_config_refused:
  assumes "map_of (service_to_llm rg) sid = None" "get_llm env sid (Some c) rg = (None, rg1)"
  shows "\<exists>l. map_of (service_to_llm rg1) sid = Some l \<and> get_llm env sid (Some (llm_config l)) rg1 = (None, rg1) \<and>
    (llm_config l \<noteq> c \<longrightarrow> get_llm env sid (Some c) rg1 = (Some (other_config_exn sid), rg1))"
proof -
  from assms obtain l where l: "llm_init env c sid None (rg_listener rg) = Inr l"
    "rg1 = notify sid (rg\<lparr>service_to_llm := alist_set sid l (service_to_llm rg)\<rparr>)"
    by (auto simp: get_llm_def create_new_llm_def split: sum.splits)
  then obtain m where "map_of (service_to_llm rg1) sid = Some (l\<lparr>llm_metrics := m\<rparr>)"
    by (auto simp: notify_def split: option.splits prod.splits) (metis llm.surjective llm.update_convs(3))
  then show ?thesis by (auto simp: get_llm_def)
qed

theorem same_config_refused_witness:
  "\<exists>rg1. get_llm demo_init ''condenser'' (Some small_config) empty_registry = (None, rg1) \<and>
     get_llm demo_init ''condenser'' (Some small_config) rg1 = (Some (other_config_exn ''condenser''), rg1)"
proof -
  have "map_prod id (\<lambda>rg. map_option (lc_max_input_tokens \<circ> llm_config) (map_of (service_to_llm rg) ''condenser''))
      (get_llm demo_init ''condenser'' (Some small_config) empty_registry) = (None, Some (Some 100))" by code_simp
  then obtain rg1 where run: "get_llm demo_init ''condenser'' (Some small_config) empty_registry = (None, rg1)"
    and v: "map_option (lc_max_input_tokens \<circ> llm_config) (map_of (service_to_llm rg1) ''condenser'') = Some (Some 100)"
    by (cases "get_llm demo_init ''condenser'' (Some small_config) empty_registry") auto
  have e: "map_of (service_to_llm empty_registry) ''condenser'' = None" "lc_max_input_tokens small_config = None"
    by (simp_all add: empty_registry_def small_config_def demo_llm_config_def)
  from same_config_refused [OF e(1) run] obtain l where l: "map_of (service_to_llm rg1) ''condenser'' = Some l"
    "llm_config l \<noteq> small_config \<longrightarrow> get_llm demo_init ''condenser'' (Some small_config) rg1 = (Some (other_config_exn ''condenser''), rg1)"
    by blast
  have "lc_max_input_tokens (llm_config l) = Some 100" using v l(1) by simp
  then have "llm_config l \<noteq> small_config" using e(2) by auto
  with l(2) run show ?thesis by blast
qed

section \<open>The choice of a router\<close>

text \<open>
  A router that could be made always finds the client it chooses: its choice is never an unknown key. Messages with an
  image go to the first model, and once messages were too long for the second model everything goes to the first.
\<close>

theorem router_choice:
  assumes "multimodal_router ienv ac rg0 = (Inr ro0, rg1)" "ro_available ro = ro_available ro0"
    and "select_llm env rg ms ro = (Inr key, ro')"
  shows "(\<exists>sid. map_of (ro_available ro') key = Some sid) \<and> ro_available ro' = ro_available ro0 \<and>
    (list_ex contains_image ms \<or> ro_max_token_exceeded ro \<longrightarrow> key = ''primary'') \<and>
    (ro_max_token_exceeded ro \<or> too_long env rg ro ms = Inr True \<longrightarrow> key = ''primary'' \<and> ro_max_token_exceeded ro')"
proof -
  let ?e = "map (\<lambda>(n, _). (n, ''llm_for_routing.'' @ n)) (ac_llms_for_routing ac)"
  from assms(1) have ro0: "ro_available ro0 = alist_update [(''primary'', ''agent'')] ?e"
    "map_of (ac_llms_for_routing ac) SECONDARY_MODEL_CONFIG_NAME \<noteq> None"
    by (auto simp: multimodal_router_def Let_def split: prod.splits option.splits sum.splits if_splits)
  have dom: "map_of d k \<noteq> None \<or> map_of e k \<noteq> None \<Longrightarrow> map_of (alist_update d e) k \<noteq> None"
    for d e :: "(string \<times> string) list" and k
    unfolding alist_update_def by (induction e arbitrary: d) (auto split: if_splits)
  have "map_of ?e SECONDARY_MODEL_CONFIG_NAME \<noteq> None" using ro0(2) by (simp add: map_of_eq_None_iff image_image case_prod_unfold)
  then have "map_of (ro_available ro0) ''primary'' \<noteq> None" "map_of (ro_available ro0) SECONDARY_MODEL_CONFIG_NAME \<noteq> None"
    using dom [of "[(''primary'', ''agent'')]" "''primary''" ?e] dom [of "[(''primary'', ''agent'')]" SECONDARY_MODEL_CONFIG_NAME ?e]
    by (simp_all add: ro0(1))
  with assms(2,3) show ?thesis by (auto simp: select_llm_def split: sum.splits if_splits)
qed

definition demo_routing :: agent_config where
  "demo_routing = \<lparr>ac_llm_config = None, ac_router_name = ''multimodal_router'', ac_llms_for_routing = [(''secondary_model'', small_config)]\<rparr>"

definition demo_router :: router where
  "demo_router = \<lparr>ro_available = [(''primary'', ''agent''), (''secondary_model'', ''llm_for_routing.secondary_model'')],
     ro_current = ''primary'', ro_max_token_exceeded = False\<rparr>"

text \<open>The clients of the demo configurations can be made, whatever features their models have.\<close>

lemma provider_params_keep:
  assumes "k \<notin> {''max_completion_tokens'', ''max_tokens'', ''safety_settings'', ''aws_region_name'', ''aws_access_key_id'',
    ''aws_secret_access_key'', ''thinking'', ''top_p''}"
  shows "map_of (provider_params c d) k = map_of d k"
  using assms
  by (simp add: provider_params_def Let_def if_distrib [where f = map_of] if_distrib [where f = "\<lambda>g. g k"] split del: if_split cong del: if_weak_cong)

lemma demo_request:
  assumes "lc_top_p c = Some 1" "lc_completion_kwargs c = None" "lc_reasoning_effort c = None" "\<not> str_contains ''gemini-2.5-pro'' (lc_model c)"
    "lc_top_k c = None"
  shows "\<exists>d. request_params c = Inr d"
proof -
  obtain d where d: "reasoning_params c (first_params c) = Inr d"
    "\<And>k. k \<notin> {''temperature'', ''max_completion_tokens'', ''top_p''} \<Longrightarrow> map_of d k = None"
  proof
    let ?d = "first_params c"
    let ?r = "if \<not> supports_reasoning_effort (get_features (lc_model c)) then ?d else alist_del ''top_p'' (alist_del ''temperature'' ?d)"
    have p: "map_of ?d ''top_p'' \<noteq> None" "k \<notin> {''temperature'', ''max_completion_tokens'', ''top_p''} \<Longrightarrow> map_of ?d k = None" for k
      using assms by (simp_all add: first_params_def)
    show "reasoning_params c ?d = Inr ?r" using assms p(1) by (auto simp: reasoning_params_def Let_def)
    show "k \<notin> {''temperature'', ''max_completion_tokens'', ''top_p''} \<Longrightarrow> map_of ?r k = None" for k using p(2) by simp
  qed
  then show ?thesis by (simp add: request_params_def custom_params_def assms(2) fixed_params_def provider_params_keep)
qed

lemma demo_llm_init:
  assumes "m \<in> {''x'', ''router(x,x)''}"
  shows "\<exists>l. llm_init demo_init (demo_llm_config\<lparr>lc_model := m, lc_max_input_tokens := t\<rparr>) sid None b = Inr l \<and>
    llm_config l = demo_llm_config\<lparr>lc_model := m, lc_max_input_tokens := (if t = None then Some 100 else t)\<rparr>"
proof -
  let ?c = "demo_llm_config\<lparr>lc_model := m, lc_max_input_tokens := (if t = None then Some 100 else t)\<rparr>"
  have m: "\<not> str_startswith m ''litellm_proxy/''" "\<not> str_startswith m ''openrouter''" "\<not> str_startswith m ''huggingface''"
    "\<not> str_startswith m ''openhands/''" "\<not> list_ex (\<lambda>x. str_contains x m) LONG_OUTPUT_MODELS" "\<not> str_startswith m ''azure''"
    "\<not> str_contains ''gemini-2.5-pro'' m"
    using assms by (elim insertE emptyE; simp; code_simp)+
  have "find_info demo_init (demo_llm_config\<lparr>lc_model := m, lc_max_input_tokens := t\<rparr>) = Inr (Some [(''max_input_tokens'', JInt 100)])"
    using m by (simp add: find_info_def proxy_info_def demo_init_def or_info_def)
  moreover have "complete_config (Some [(''max_input_tokens'', JInt 100)]) (demo_llm_config\<lparr>lc_model := m, lc_max_input_tokens := t\<rparr>) = ?c"
    using m by (simp add: complete_config_def info_int_def demo_llm_config_def)
  moreover have "rewrite_model demo_init ?c = ?c" using m by (simp add: rewrite_model_def)
  moreover have "\<exists>d. request_params ?c = Inr d"
    using m by (intro demo_request) (simp_all add: demo_llm_config_def)
  ultimately show ?thesis by (auto simp: llm_init_def init_model_info_def Let_def simp del: if_split split del: if_split)
qed

theorem router_choice_witness:
  "\<exists>key ro'. select_llm demo_llm_env empty_registry [] (demo_router\<lparr>ro_max_token_exceeded := True\<rparr>) = (Inr key, ro') \<and> key = ''primary''"
proof -
  have c: "small_config = demo_llm_config\<lparr>lc_model := ''x'', lc_max_input_tokens := None\<rparr>" by (simp add: small_config_def demo_llm_config_def)
  obtain l1 l2 l3 where l: "llm_init demo_init small_config ''agent'' None False = Inr l1"
    "llm_config l1 = demo_llm_config\<lparr>lc_model := ''x'', lc_max_input_tokens := Some 100\<rparr>"
    "llm_init demo_init small_config ''llm_for_routing.secondary_model'' None False = Inr l2"
    "llm_init demo_init (demo_llm_config\<lparr>lc_model := ''router(x,x)'', lc_max_input_tokens := Some 100\<rparr>) ''router_llm'' None False = Inr l3"
    using demo_llm_init [of "''x''" None "''agent''" False] demo_llm_init [of "''x''" None "''llm_for_routing.secondary_model''" False]
      demo_llm_init [of "''router(x,x)''" "Some 100" "''router_llm''" False] unfolding c [symmetric] by auto
  have rm: "router_model (llm_config l1) [(''secondary_model'', small_config)] = ''router(x,x)''"
    by (simp add: router_model_def l(2) small_config_def)
  have up: "(llm_config l1)\<lparr>lc_model := ''router(x,x)''\<rparr> = demo_llm_config\<lparr>lc_model := ''router(x,x)'', lc_max_input_tokens := Some 100\<rparr>"
    by (simp add: l(2) demo_llm_config_def)
  have v: "fst (multimodal_router demo_init demo_routing empty_registry) = Inr demo_router"
    by (simp add: multimodal_router_def demo_routing_def empty_registry_def get_llm_from_agent_config_def get_llm_config_from_agent_config_def
        demo_oh_config_def get_llm_def get_llm_config_def create_new_llm_def l(1,3,4) rm up notify_def SECONDARY_MODEL_CONFIG_NAME_def
        demo_router_def Let_def alist_update_def)
  then obtain rg1 where rg1: "multimodal_router demo_init demo_routing empty_registry = (Inr demo_router, rg1)"
    by (metis prod.collapse)
  have "too_long demo_llm_env empty_registry ro [] = Inr False" for ro
    by (simp add: too_long_def empty_registry_def split: option.split)
  then obtain key ro' where run: "select_llm demo_llm_env empty_registry [] (demo_router\<lparr>ro_max_token_exceeded := True\<rparr>) = (Inr key, ro')"
    by (simp add: select_llm_def)
  from router_choice [OF rg1 _ run] run show ?thesis by auto
qed

end
