(* ===== verification/Bash.thy ===== *)
theory Bash
  imports Runtime Text_Search
begin

text \<open>
  \<open>openhands/runtime/utils/bash.py\<close> and the prompts of \<open>events/observation/commands.py\<close>: a shell in a terminal. A
  command is typed into the terminal, the screen is read again and again until a prompt appears or a time is over, and
  the output is what the screen shows between the prompts. A command that has not ended keeps the session busy.

  Parameters: the terminal, the clock and the shutdown flag, on a state of any type; the parser for shell commands; the
  JSON parser, \<open>str\<close> and \<open>float\<close>.
\<close>

section \<open>Commands\<close>

text \<open>A node of the parser: kind, position, position of the here document, children\<close>

datatype bash_node =
  Bash_node (bn_kind: string) (bn_start: nat) (bn_end: nat) (bn_heredoc: "(nat \<times> nat) option") (bn_parts: "bash_node list")

text \<open>What the parser raises\<close>

datatype parse_error = Parsing_error | Not_implemented_error | Parse_type_error | Parse_attribute_error | Parse_other_error exn

definition parse_exn :: "parse_error \<Rightarrow> exn" where
  "parse_exn x =
     (case x of
        Parsing_error \<Rightarrow> mk_exn ''ParsingError'' OtherError []
      | Not_implemented_error \<Rightarrow> mk_exn ''NotImplementedError'' OtherError []
      | Parse_type_error \<Rightarrow> mk_exn ''TypeError'' OtherError []
      | Parse_attribute_error \<Rightarrow> mk_exn ''AttributeError'' OtherError []
      | Parse_other_error e \<Rightarrow> e)"

text \<open>\<open>s[a:b]\<close> for positions that are not negative\<close>

definition between :: "nat \<Rightarrow> nat \<Rightarrow> 'a list \<Rightarrow> 'a list" where
  "between a b s = drop a (take b s)"

text \<open>\<open>split_bash_commands\<close>\<close>

definition append_last :: "string \<Rightarrow> string list \<Rightarrow> string list" where
  "append_last s xs = butlast xs @ [last xs @ s]"

fun split_nodes :: "string \<Rightarrow> bash_node list \<Rightarrow> string list \<Rightarrow> nat \<Rightarrow> string list \<times> nat" where
  "split_nodes commands [] acc last_end = (acc, last_end)"
| "split_nodes commands (n # ns) acc last_end =
     (let gap = between last_end (bn_start n) commands;
          acc1 = (if last_end < bn_start n
                  then if acc \<noteq> [] then append_last (str_rstrip gap) acc
                       else if str_strip gap \<noteq> [] then acc @ [str_rstrip gap] else acc
                  else acc)
      in split_nodes commands ns (acc1 @ [str_rstrip (between (bn_start n) (bn_end n) commands)]) (bn_end n))"

definition split_bash_commands :: "(string \<Rightarrow> parse_error + bash_node list) \<Rightarrow> string \<Rightarrow> exn + string list" where
  "split_bash_commands parse commands =
     (if str_strip commands = [] then Inr [[]]
      else case parse commands of
             Inl (Parse_other_error x) \<Rightarrow> Inl x
           | Inl _ \<Rightarrow> Inr [commands]
           | Inr ns \<Rightarrow>
               (case split_nodes commands ns [] 0 of
                  (res, last_end) \<Rightarrow>
                    let remaining = str_rstrip (drop last_end commands)
                    in Inr (if last_end < length commands \<and> res \<noteq> [] then append_last remaining res
                            else if last_end < length commands \<and> remaining \<noteq> [] then res @ [remaining]
                            else res)))"

text \<open>\<open>re.sub\<close>: a backslash before an operator is doubled\<close>

definition backslash :: char where
  "backslash = CHR 0x5C"

fun escape_ops :: "string \<Rightarrow> string" where
  "escape_ops (a # b # s) =
     (if a = backslash \<and> b \<in> set '';&|><'' then a # a # b # escape_ops s else a # escape_ops (b # s))"
| "escape_ops s = s"

definition is_quoted :: "string \<Rightarrow> bool" where
  "is_quoted w \<longleftrightarrow>
     (str_startswith w [CHR 0x22] \<and> str_endswith w [CHR 0x22]) \<or> (str_startswith w [CHR 0x27] \<and> str_endswith w [CHR 0x27]) \<or>
     (str_startswith w ''$('' \<and> str_endswith w '')'') \<or> (str_startswith w [CHR 0x60] \<and> str_endswith w [CHR 0x60])"

text \<open>\<open>escape_bash_special_chars\<close>: the text written so far and the position behind it\<close>

fun visit_node :: "string \<Rightarrow> bash_node \<Rightarrow> string \<times> nat \<Rightarrow> string \<times> nat"
  and visit_nodes :: "string \<Rightarrow> bash_node list \<Rightarrow> string \<times> nat \<Rightarrow> string \<times> nat" where
  "visit_node command (Bash_node kind start stop heredoc parts) (acc, last_pos) =
     (if kind = ''redirect'' \<and> heredoc \<noteq> None
      then (acc @ between last_pos start command @ between start (fst (the heredoc)) command @
              between (fst (the heredoc)) (snd (the heredoc)) command, stop)
      else if kind = ''word''
      then (acc @ escape_ops (between last_pos start command) @
              (if is_quoted (between start stop command) then between start stop command
               else escape_ops (between start stop command)), stop)
      else visit_nodes command parts (acc, last_pos))"
| "visit_nodes command [] st = st"
| "visit_nodes command (n # ns) st = visit_nodes command ns (visit_node command n st)"

fun escape_nodes :: "string \<Rightarrow> bash_node list \<Rightarrow> string \<times> nat \<Rightarrow> string \<times> nat" where
  "escape_nodes command [] st = st"
| "escape_nodes command (n # ns) (acc, last_pos) =
     escape_nodes command ns
       (visit_node command n (acc @ escape_ops (between last_pos (bn_start n) command), bn_start n))"

definition escape_bash_special_chars :: "(string \<Rightarrow> parse_error + bash_node list) \<Rightarrow> string \<Rightarrow> exn + string" where
  "escape_bash_special_chars parse command =
     (if str_strip command = [] then Inr []
      else case parse command of
             Inl x \<Rightarrow>
               if x \<in> {Parsing_error, Not_implemented_error, Parse_type_error} then Inr command else Inl (parse_exn x)
           | Inr ns \<Rightarrow>
               (case escape_nodes command ns ([], 0) of (acc, last_pos) \<Rightarrow> Inr (acc @ drop last_pos command)))"

section \<open>Prompts\<close>

definition CMD_OUTPUT_PS1_BEGIN :: string where
  "CMD_OUTPUT_PS1_BEGIN = newline # ''###PS1JSON###'' @ [newline]"

definition CMD_OUTPUT_PS1_END :: string where
  "CMD_OUTPUT_PS1_END = newline # ''###PS1END###''"

definition ps1_open :: string where
  "ps1_open = str_strip CMD_OUTPUT_PS1_BEGIN"

definition ps1_close :: string where
  "ps1_close = str_strip CMD_OUTPUT_PS1_END"

text \<open>A match of \<open>CMD_OUTPUT_METADATA_PS1_REGEX\<close>: from the start of a line to the first closing mark\<close>

record ps1_match =
  pm_start :: nat
  pm_end :: nat
  pm_group :: string

definition ps1_at :: "bool \<Rightarrow> string \<Rightarrow> (string \<times> string) option" where
  "ps1_at line_start s =
     (if line_start \<and> str_startswith s ps1_open then cut_at ps1_close (drop (length ps1_open) s) else None)"

lemma ps1_at_shorter: "ps1_at b s = Some (g, rest) \<Longrightarrow> length rest < length s"
  by (auto simp: ps1_at_def split: if_splits dest!: cut_at_Some arg_cong [where f = length])
    (simp add: ps1_close_def ps1_open_def CMD_OUTPUT_PS1_END_def CMD_OUTPUT_PS1_BEGIN_def str_strip_def is_py_space_def)

function ps1_scan :: "nat \<Rightarrow> bool \<Rightarrow> string \<Rightarrow> ps1_match list" where
  "ps1_scan p b [] = []"
| "ps1_scan p b (c # s) =
     (case ps1_at b (c # s) of
        None \<Rightarrow> ps1_scan (Suc p) (c = newline) s
      | Some (g, rest) \<Rightarrow>
          let n = length ps1_open + length g + length ps1_close
          in \<lparr>pm_start = p, pm_end = p + n, pm_group = g\<rparr> # ps1_scan (p + n) False rest)"
  by pat_completeness auto
termination
  by (relation "measure (\<lambda>(p, b, s). length s)") (auto dest: ps1_at_shorter)

text \<open>
  The terminal: what \<open>capture-pane\<close> prints, keys with or without the enter key, clearing the history; \<open>be_start\<close> opens
  a window with a shell in a directory. The clock gives the time of each call.
\<close>

record 's bash_env =
  be_loads :: "string \<Rightarrow> json option"
  be_str :: "json \<Rightarrow> string"
  be_float :: "string \<Rightarrow> rat option"
  be_show :: "rat \<Rightarrow> string"
  be_parse :: "string \<Rightarrow> parse_error + bash_node list"
  be_start :: "string \<Rightarrow> string \<Rightarrow> 's \<Rightarrow> 's"
  be_kill :: "'s \<Rightarrow> 's"
  be_capture :: "'s \<Rightarrow> string list \<times> 's"
  be_send :: "string \<Rightarrow> bool \<Rightarrow> 's \<Rightarrow> 's"
  be_clear_history :: "'s \<Rightarrow> 's"
  be_time :: "'s \<Rightarrow> rat \<times> 's"
  be_sleep :: "rat \<Rightarrow> 's \<Rightarrow> 's"
  be_continue :: "'s \<Rightarrow> bool"

text \<open>\<open>matches_ps1_metadata\<close>: the matches whose inner text is JSON\<close>

definition matches_ps1_metadata :: "'s bash_env \<Rightarrow> string \<Rightarrow> ps1_match list" where
  "matches_ps1_metadata env s = filter (\<lambda>m. be_loads env (str_strip (pm_group m)) \<noteq> None) (ps1_scan 0 True s)"

text \<open>\<open>int(float(str(x)))\<close>, with -1 for what is no number\<close>

definition int_field :: "'s bash_env \<Rightarrow> json \<Rightarrow> int" where
  "int_field env j =
     (case be_float env (be_str env j) of None \<Rightarrow> -1 | Some q \<Rightarrow> if q < 0 then \<lceil>q\<rceil> else \<lfloor>q\<rfloor>)"

definition text_field :: "string \<Rightarrow> jdict \<Rightarrow> exn + string option" where
  "text_field k d =
     (case map_of d k of
        None \<Rightarrow> Inr None
      | Some JNull \<Rightarrow> Inr None
      | Some (JStr s) \<Rightarrow> Inr (Some s)
      | Some _ \<Rightarrow> Inl (mk_exn ''ValidationError'' ValueError k))"

definition prompt_plain_field :: "string \<Rightarrow> jdict \<Rightarrow> exn + string" where
  "prompt_plain_field k d =
     (case map_of d k of
        None \<Rightarrow> Inr []
      | Some (JStr s) \<Rightarrow> Inr s
      | Some _ \<Rightarrow> Inl (mk_exn ''ValidationError'' ValueError k))"

text \<open>\<open>from_ps1_match\<close>\<close>

definition from_ps1_match :: "'s bash_env \<Rightarrow> ps1_match \<Rightarrow> exn + cmd_output_metadata" where
  "from_ps1_match env m =
     (case be_loads env (pm_group m) of
        None \<Rightarrow> Inl (mk_exn ''JSONDecodeError'' ValueError [])
      | Some (JDict d) \<Rightarrow>
          sbind (text_field ''username'' d) (\<lambda>user. sbind (text_field ''hostname'' d) (\<lambda>host.
          sbind (text_field ''working_dir'' d) (\<lambda>dir. sbind (text_field ''py_interpreter_path'' d) (\<lambda>py.
          sbind (prompt_plain_field ''prefix'' d) (\<lambda>pre. sbind (prompt_plain_field ''suffix'' d) (\<lambda>suf.
            Inr \<lparr>com_exit_code = (case map_of d ''exit_code'' of None \<Rightarrow> -1 | Some j \<Rightarrow> int_field env j),
                 com_pid = (case map_of d ''pid'' of None \<Rightarrow> -1 | Some j \<Rightarrow> int_field env j),
                 com_username = user, com_hostname = host, com_working_dir = dir, com_py_interpreter_path = py,
                 com_prefix = pre, com_suffix = suf\<rparr>))))))
      | Some (JList _) \<Rightarrow> Inl (mk_exn ''TypeError'' OtherError [])
      | Some _ \<Rightarrow> Inl (mk_exn ''AttributeError'' OtherError []))"

section \<open>The session\<close>

datatype bash_status = Bash_continue | Bash_completed | Bash_no_change_timeout | Bash_hard_timeout

record bash_session =
  bs_no_change_timeout :: int
  bs_work_dir :: string
  bs_username :: "string option"
  bs_initialized :: bool
  bs_prev_status :: "bash_status option"
  bs_prev_output :: string
  bs_closed :: bool
  bs_cwd :: string

definition bash_session_init :: "string \<Rightarrow> string option \<Rightarrow> int \<Rightarrow> bash_session" where
  "bash_session_init work_dir username no_change_timeout =
     \<lparr>bs_no_change_timeout = no_change_timeout, bs_work_dir = work_dir, bs_username = username, bs_initialized = False,
      bs_prev_status = None, bs_prev_output = [], bs_closed = False, bs_cwd = []\<rparr>"

definition POLL_INTERVAL :: rat where
  "POLL_INTERVAL = 1 / 2"

definition TIMEOUT_MESSAGE_TEMPLATE :: string where
  "TIMEOUT_MESSAGE_TEMPLATE =
     ''You may wait longer to see additional output by sending empty command '' @ [CHR 0x27, CHR 0x27] @
     '', send other commands to interact with the current process, send keys ('' @
     CHR 0x22 # ''C-c'' @ CHR 0x22 # '', '' @ CHR 0x22 # ''C-z'' @ CHR 0x22 # '', '' @ CHR 0x22 # ''C-d'' @ CHR 0x22 #
     '') to interrupt/kill the previous command before sending your new command, or use the timeout parameter in execute_bash for future commands.''"

definition clear_screen :: "'s bash_env \<Rightarrow> 's \<Rightarrow> 's" where
  "clear_screen env s = be_clear_history env (be_sleep env (1 / 10) (be_send env ''C-l'' False s))"

text \<open>
  \<open>initialize\<close>: the shell runs as another user only for the users that the image has; the prompt \<open>ps1\<close> is that of
  \<open>to_ps1_prompt\<close>. \<open>abspath\<close> is a parameter.
\<close>

definition shell_command :: "bool \<Rightarrow> string option \<Rightarrow> string option \<Rightarrow> string" where
  "shell_command su_to_user runtime_username username =
     (case username of
        Some u \<Rightarrow>
          if su_to_user \<and> (u \<in> {''root'', ''openhands''} \<or> (u \<noteq> [] \<and> runtime_username = Some u)) then ''su '' @ u @ '' -''
          else ''/bin/bash''
      | None \<Rightarrow> ''/bin/bash'')"

definition initialize ::
    "'s bash_env \<Rightarrow> bool \<Rightarrow> string option \<Rightarrow> string \<Rightarrow> (string \<Rightarrow> string) \<Rightarrow> bash_session \<Rightarrow> 's \<Rightarrow> bash_session \<times> 's" where
  "initialize env su_to_user runtime_username ps1 abspath bs s =
     (let s1 = be_start env (bs_work_dir bs) (shell_command su_to_user runtime_username (bs_username bs)) s;
          s2 = be_send env (''export PROMPT_COMMAND='' @ CHR 0x27 # ''export PS1='' @ CHR 0x22 # ps1 @ CHR 0x22 # CHR 0x27 #
                 ''; export PS2='' @ [CHR 0x22, CHR 0x22]) True s1
      in (bs\<lparr>bs_prev_status := None, bs_prev_output := [], bs_closed := False, bs_cwd := abspath (bs_work_dir bs),
             bs_initialized := True\<rparr>, clear_screen env (be_sleep env (1 / 10) s2)))"

definition get_pane_content :: "'s bash_env \<Rightarrow> 's \<Rightarrow> string \<times> 's" where
  "get_pane_content env s = map_prod (\<lambda>lines. str_join [newline] (map str_rstrip lines)) id (be_capture env s)"

definition bash_close :: "'s bash_env \<Rightarrow> bash_session \<Rightarrow> 's \<Rightarrow> bash_session \<times> 's" where
  "bash_close env bs s = (if bs_closed bs then (bs, s) else (bs\<lparr>bs_closed := True\<rparr>, be_kill env s))"

definition is_special_key :: "string \<Rightarrow> bool" where
  "is_special_key command \<longleftrightarrow> str_startswith (str_strip command) ''C-'' \<and> length (str_strip command) = 3"

section \<open>Output\<close>

definition remove_command_prefix :: "string \<Rightarrow> string \<Rightarrow> string" where
  "remove_command_prefix output command = str_lstrip (str_removeprefix (str_lstrip output) (str_lstrip command))"

definition get_command_output ::
    "bash_session \<Rightarrow> string \<Rightarrow> string \<Rightarrow> cmd_output_metadata \<Rightarrow> string \<Rightarrow> string \<times> cmd_output_metadata \<times> bash_session" where
  "get_command_output bs command raw md continue_prefix =
     (let out = (if bs_prev_output bs \<noteq> [] then str_removeprefix raw (bs_prev_output bs) else raw);
          md' = (if bs_prev_output bs \<noteq> [] then md\<lparr>com_prefix := continue_prefix\<rparr> else md)
      in (str_rstrip (remove_command_prefix out command), md', bs\<lparr>bs_prev_output := raw\<rparr>))"

fun outputs_between :: "string \<Rightarrow> ps1_match list \<Rightarrow> string" where
  "outputs_between content [] = []"
| "outputs_between content [m] = drop (pm_end m + 1) content"
| "outputs_between content (m # m' # ms) =
     between (pm_end m + 1) (pm_start m') content @ newline # outputs_between content (m' # ms)"

definition combine_outputs_between_matches :: "string \<Rightarrow> ps1_match list \<Rightarrow> bool \<Rightarrow> string" where
  "combine_outputs_between_matches content ms before_last =
     (case ms of
        [] \<Rightarrow> content
      | [m] \<Rightarrow> if before_last then take (pm_start m) content else drop (pm_end m + 1) content
      | _ \<Rightarrow> outputs_between content ms)"

text \<open>\<open>len(s.splitlines())\<close>\<close>

definition is_line_end :: "char \<Rightarrow> bool" where
  "is_line_end c \<longleftrightarrow> (let n = (of_char c :: nat) in (10 \<le> n \<and> n \<le> 13) \<or> (28 \<le> n \<and> n \<le> 30) \<or> n = 133)"

fun count_lines :: "string \<Rightarrow> nat" where
  "count_lines [] = 0"
| "count_lines [c] = 1"
| "count_lines (c # d # s) =
     (if c = CHR 0x0D \<and> d = CHR 0x0A then count_lines (d # s)
      else if is_line_end c then Suc (count_lines (d # s)) else count_lines (d # s))"

type_synonym 's bash_result = "(exn + observation) \<times> bash_session \<times> 's"

definition cmd_output :: "string \<Rightarrow> string \<Rightarrow> cmd_output_metadata \<Rightarrow> bool \<Rightarrow> observation" where
  "cmd_output content command md hid = CmdOutputObservation (mk_cmd_output content command (Some md) hid None None)"

definition no_prompt_exn :: exn where
  "no_prompt_exn = mk_exn ''AssertionError'' OtherError ''Expected at least one PS1 metadata block, but got 0.''"

definition completed_suffix :: "string \<Rightarrow> int \<Rightarrow> string" where
  "completed_suffix command code =
     newline # ''[The command completed with exit code '' @ show_int code @
     (if is_special_key command then ''. CTRL+'' @ str_upper [last command] @ '' was sent.]'' else ''.]'')"

definition handle_completed_command ::
    "'s bash_env \<Rightarrow> bash_session \<Rightarrow> string \<Rightarrow> string \<Rightarrow> ps1_match list \<Rightarrow> bool \<Rightarrow> 's \<Rightarrow> 's bash_result" where
  "handle_completed_command env bs command content ms hid s =
     (if ms = [] then (Inl no_prompt_exn, bs, s)
      else case from_ps1_match env (last ms) of
             Inl x \<Rightarrow> (Inl x, bs, s)
           | Inr md \<Rightarrow>
               (let one = (length ms = 1);
                    bs1 = (case com_working_dir md of Some d \<Rightarrow> if d \<noteq> [] then bs\<lparr>bs_cwd := d\<rparr> else bs | None \<Rightarrow> bs);
                    raw = combine_outputs_between_matches content ms one;
                    md1 = (if one
                           then md\<lparr>com_prefix := ''[Previous command outputs are truncated. Showing the last '' @
                                  show_nat (count_lines raw) @ '' lines of the output below.]'' @ [newline]\<rparr>
                           else md)
                in case get_command_output bs1 command raw (md1\<lparr>com_suffix := completed_suffix command (com_exit_code md)\<rparr>) [] of
                     (out, md2, bs2) \<Rightarrow>
                       (Inr (cmd_output out command md2 hid),
                        bs2\<lparr>bs_prev_status := Some Bash_completed, bs_prev_output := []\<rparr>, clear_screen env s)))"

definition below_prefix :: string where
  "below_prefix = ''[Below is the output of the previous command.]'' @ [newline]"

text \<open>The two timeouts; the observation is never hidden\<close>

definition handle_timeout ::
    "bash_status \<Rightarrow> string \<Rightarrow> bash_session \<Rightarrow> string \<Rightarrow> string \<Rightarrow> ps1_match list \<Rightarrow> 's \<Rightarrow> 's bash_result" where
  "handle_timeout status suffix bs command content ms s =
     (case get_command_output bs command (combine_outputs_between_matches content ms False)
             (default_cmd_metadata\<lparr>com_suffix := newline # suffix @ TIMEOUT_MESSAGE_TEMPLATE @ '']''\<rparr>) below_prefix of
        (out, md, bs1) \<Rightarrow> (Inr (cmd_output out command md False), bs1\<lparr>bs_prev_status := Some status\<rparr>, s))"

definition handle_nochange_timeout_command ::
    "bash_session \<Rightarrow> string \<Rightarrow> string \<Rightarrow> ps1_match list \<Rightarrow> 's \<Rightarrow> 's bash_result" where
  "handle_nochange_timeout_command bs =
     handle_timeout Bash_no_change_timeout
       (''[The command has no new output after '' @ show_int (bs_no_change_timeout bs) @ '' seconds. '') bs"

definition handle_hard_timeout_command ::
    "'s bash_env \<Rightarrow> rat \<Rightarrow> bash_session \<Rightarrow> string \<Rightarrow> string \<Rightarrow> ps1_match list \<Rightarrow> 's \<Rightarrow> 's bash_result" where
  "handle_hard_timeout_command env timeout =
     handle_timeout Bash_hard_timeout (''[The command timed out after '' @ be_show env timeout @ '' seconds. '')"

section \<open>Executing a command\<close>

text \<open>One round of the loop: the result, or the screen and the time of its last change\<close>

definition prompt_at_end :: "string \<Rightarrow> bool" where
  "prompt_at_end content \<longleftrightarrow> str_endswith (str_rstrip content) (str_rstrip CMD_OUTPUT_PS1_END)"

definition bash_poll ::
    "'s bash_env \<Rightarrow> bash_session \<Rightarrow> cmd_run_action \<Rightarrow> rat option \<Rightarrow> string \<Rightarrow> nat \<Rightarrow> rat \<Rightarrow> string \<Rightarrow> rat \<Rightarrow> 's \<Rightarrow>
      's bash_result + string \<times> rat \<times> 's" where
  "bash_poll env bs a timeout command count start last_output last_change s =
     (case get_pane_content env s of
        (content, s1) \<Rightarrow>
          (let ms = matches_ps1_metadata env content
           in case (if content \<noteq> last_output then be_time env s1 else (last_change, s1)) of
                (change, s2) \<Rightarrow>
                  if count < length ms \<or> prompt_at_end content
                  then Inl (handle_completed_command env bs command content ms (cra_hidden a) s2)
                  else (case be_time env s2 of
                          (now, s3) \<Rightarrow>
                            if \<not> cra_blocking a \<and> of_int (bs_no_change_timeout bs) \<le> now - change
                            then Inl (handle_nochange_timeout_command bs command content ms s3)
                            else (case be_time env s3 of
                                    (now', s4) \<Rightarrow>
                                      (case timeout of
                                         Some t \<Rightarrow>
                                           if t \<noteq> 0 \<and> t \<le> now' - start
                                           then Inl (handle_hard_timeout_command env t bs command content ms s4)
                                           else Inr (content, change, s4)
                                       | None \<Rightarrow> Inr (content, change, s4))))))"

definition interrupted_exn :: exn where
  "interrupted_exn = mk_exn ''RuntimeError'' RuntimeError ''Bash session was likely interrupted...''"

text \<open>The loop may go on for ever; then there is no result.\<close>

partial_function (option) bash_loop ::
    "'s bash_env \<Rightarrow> bash_session \<Rightarrow> cmd_run_action \<Rightarrow> rat option \<Rightarrow> string \<Rightarrow> nat \<Rightarrow> rat \<Rightarrow> string \<Rightarrow> rat \<Rightarrow> 's \<Rightarrow>
      's bash_result option" where
  "bash_loop env bs a timeout command count start last_output last_change s =
     (if \<not> be_continue env s then Some (Inl interrupted_exn, bs, s)
      else case bash_poll env bs a timeout command count start last_output last_change s of
             Inl r \<Rightarrow> Some r
           | Inr (content, change, s1) \<Rightarrow>
               bash_loop env bs a timeout command count start content change (be_sleep env POLL_INTERVAL s1))"

declare bash_loop.simps [code]

definition numbered :: "string list \<Rightarrow> string" where
  "numbered cmds = str_join [newline] (map (\<lambda>(i, c). CHR ''('' # show_nat (i + 1) @ '') '' @ c) (enumerate 0 cmds))"

definition several_commands :: "string list \<Rightarrow> observation" where
  "several_commands cmds =
     ErrorObservation \<lparr>eo_content = ''ERROR: Cannot execute multiple commands at once.'' @ newline #
        ''Please run each command separately OR chain them into a single command via && or ;'' @ newline #
        ''Provided commands:'' @ newline # numbered cmds, eo_error_id = []\<rparr>"

definition not_executed_suffix :: "string \<Rightarrow> string" where
  "not_executed_suffix command =
     newline # ''[Your command '' @ CHR 0x22 # command @ CHR 0x22 # '' is NOT executed. The previous command is still running - You CANNOT send new commands until the previous command is completed. By setting `is_input` to `true`, you can interact with the current process: '' @
     TIMEOUT_MESSAGE_TEMPLATE @ '']''"

definition not_executed ::
    "bash_session \<Rightarrow> string \<Rightarrow> bool \<Rightarrow> string \<Rightarrow> ps1_match list \<Rightarrow> 's \<Rightarrow> 's bash_result" where
  "not_executed bs command hid content ms s =
     (case get_command_output bs command (combine_outputs_between_matches content ms False)
             (default_cmd_metadata\<lparr>com_suffix := not_executed_suffix command\<rparr>) below_prefix of
        (out, md, bs1) \<Rightarrow> (Inr (cmd_output out command md hid), bs1, s))"

definition still_running :: "bash_status option \<Rightarrow> bool" where
  "still_running st \<longleftrightarrow> st \<in> {Some Bash_hard_timeout, Some Bash_no_change_timeout}"

text \<open>What is typed: input as it is, a command with its operators escaped\<close>

definition typed_command :: "'s bash_env \<Rightarrow> bool \<Rightarrow> string \<Rightarrow> exn + string" where
  "typed_command env is_input command =
     (if command = [] \<or> is_input then Inr command else escape_bash_special_chars (be_parse env) command)"

definition execute_command ::
    "'s bash_env \<Rightarrow> bash_session \<Rightarrow> cmd_run_action \<Rightarrow> rat option \<Rightarrow> string \<Rightarrow> string \<Rightarrow> ps1_match list \<Rightarrow> rat \<Rightarrow> 's \<Rightarrow>
      's bash_result option" where
  "execute_command env bs a timeout command content ms start s =
     (case typed_command env (cra_is_input a) command of
        Inl x \<Rightarrow> Some (Inl x, bs, s)
      | Inr typed \<Rightarrow>
          bash_loop env bs a timeout typed (length ms) start content start
            (if command = [] then s else be_send env typed (\<not> is_special_key command) s))"

definition bash_execute ::
    "'s bash_env \<Rightarrow> bash_session \<Rightarrow> cmd_run_action \<Rightarrow> rat option \<Rightarrow> 's \<Rightarrow> 's bash_result option" where
  "bash_execute env bs a timeout s =
     (let command = str_strip (cra_command a);
          error = (\<lambda>m. Some (Inr (cmd_output m [] default_cmd_metadata False), bs, s))
      in if \<not> bs_initialized bs then Some (Inl (mk_exn ''RuntimeError'' RuntimeError ''Bash session is not initialized''), bs, s)
         else if bs_prev_status bs \<notin> {Some Bash_continue, Some Bash_no_change_timeout, Some Bash_hard_timeout} \<and> command = []
         then error ''ERROR: No previous running command to retrieve logs from.''
         else if bs_prev_status bs \<notin> {Some Bash_continue, Some Bash_no_change_timeout, Some Bash_hard_timeout} \<and> cra_is_input a
         then error ''ERROR: No previous running command to interact with.''
         else case split_bash_commands (be_parse env) command of
                Inl x \<Rightarrow> Some (Inl x, bs, s)
              | Inr cmds \<Rightarrow>
                  if 1 < length cmds then Some (Inr (several_commands cmds), bs, s)
                  else (case get_pane_content env s of
                          (content, s1) \<Rightarrow>
                            (case be_time env s1 of
                               (start, s2) \<Rightarrow>
                                 let ms = matches_ps1_metadata env content
                                 in if still_running (bs_prev_status bs) \<and> \<not> prompt_at_end content \<and> \<not> cra_is_input a \<and> command \<noteq> []
                                    then Some (not_executed bs command (cra_hidden a) content ms s2)
                                    else execute_command env bs a timeout command content ms start s2)))"

end
