(* ===== verification/Bash_Rules.thy ===== *)
theory Bash_Rules
  imports Bash
begin

text \<open>
  Laws of the shell session: the prompts on a screen and the output between them, the keys that a command types, and
  the rounds of the waiting loop.
\<close>

section \<open>Prompts on a screen\<close>

lemma ps1_marks: "ps1_open = ''###PS1JSON###''" "ps1_close = ''###PS1END###''" "length ps1_open = 13" "length ps1_close = 12"
  by (simp_all add: ps1_open_def ps1_close_def CMD_OUTPUT_PS1_BEGIN_def CMD_OUTPUT_PS1_END_def str_strip_def is_py_space_def)

definition block :: "string \<Rightarrow> string" where
  "block g = ps1_open @ g @ ps1_close"

definition prompt_group_ok :: "string \<Rightarrow> bool" where
  "prompt_group_ok g \<longleftrightarrow> \<not> str_contains ps1_close (g @ butlast ps1_close)"

lemma block_Cons: "\<exists>t. block g = CHR ''#'' # t"
  by (simp add: block_def ps1_marks)

lemma ps1_scan_skip:
  assumes "\<not> str_contains ps1_open x" "x = [] \<or> last x = newline"
  shows "ps1_scan p b (x @ s) = ps1_scan (p + length x) (if x = [] then b else True) s"
  using assms
proof (induction x arbitrary: p b)
  case (Cons c x)
  have "\<not> str_startswith ((c # x) @ s) ps1_open"
  proof
    assume "str_startswith ((c # x) @ s) ps1_open"
    then have eq: "take (length ps1_open) ((c # x) @ s) = ps1_open" by (simp only: str_startswith_def)
    show False
    proof (cases "length ps1_open \<le> length (c # x)")
      case True
      then have "take (length ps1_open) (c # x) = ps1_open" using eq by (simp only: take_append) simp
      then have "str_startswith (c # x) ps1_open" by (simp only: str_startswith_def)
      with Cons.prems(1) show False by simp
    next
      case False
      then have "ps1_open = (c # x) @ take (length ps1_open - length (c # x)) s" using eq by (simp only: take_append) simp
      then have "last (c # x) \<in> set ps1_open" by (metis Un_iff last_in_set list.distinct(1) set_append)
      with Cons.prems(2) show False by (simp add: ps1_marks)
    qed
  qed
  then have none: "ps1_at b ((c # x) @ s) = None" by (simp add: ps1_at_def)
  have "ps1_scan p b ((c # x) @ s) = ps1_scan (Suc p) (c = newline) (x @ s)"
    using none by (simp add: ps1_scan.simps)
  also have "\<dots> = ps1_scan (Suc p + length x) (if x = [] then c = newline else True) s"
    using Cons.prems by (intro Cons.IH) (auto split: if_splits)
  also have "\<dots> = ps1_scan (p + length (c # x)) (if c # x = [] then b else True) s"
    using Cons.prems(2) by (cases x) auto
  finally show ?case .
qed simp

lemma ps1_scan_block:
  assumes "prompt_group_ok g"
  shows "ps1_scan p True (block g @ s) =
    \<lparr>pm_start = p, pm_end = p + length (block g), pm_group = g\<rparr> # ps1_scan (p + length (block g)) False s"
proof -
  have "cut_at ps1_close (g @ ps1_close @ s) = Some (g, s)"
    by (rule cut_at_first) (use assms in \<open>simp_all add: prompt_group_ok_def ps1_marks\<close>)
  then have at: "ps1_at True (block g @ s) = Some (g, s)"
    by (simp add: ps1_at_def block_def str_startswith_def)
  obtain t where t: "block g @ s = CHR ''#'' # t" using block_Cons [of g] by auto
  then show ?thesis using at by (simp add: ps1_scan.simps Let_def block_def add.assoc)
qed

lemma ps1_scan_tail: "\<not> str_contains ps1_open x \<Longrightarrow> ps1_scan p b x = []"
proof (induction x arbitrary: p b)
  case (Cons c x)
  then have "ps1_at b (c # x) = None" by (auto simp: ps1_at_def)
  with Cons show ?case by (auto simp: ps1_scan.simps)
qed (simp add: ps1_scan.simps)

text \<open>A screen with two prompts, and the text between and behind them\<close>

lemma two_prompts:
  assumes "prompt_group_ok g" "prompt_group_ok g'" "\<not> str_contains ps1_open pre" "pre = [] \<or> last pre = newline"
    and "\<not> str_contains ps1_open mid" "\<not> str_contains ps1_open post"
  shows "ps1_scan 0 True (pre @ block g @ newline # mid @ newline # block g' @ post) =
    [\<lparr>pm_start = length pre, pm_end = length pre + length (block g), pm_group = g\<rparr>,
     \<lparr>pm_start = length pre + length (block g) + length mid + 2,
      pm_end = length pre + length (block g) + length mid + 2 + length (block g'), pm_group = g'\<rparr>]"
proof -
  have mid: "\<not> str_contains ps1_open (newline # mid @ [newline])"
  proof -
    have "\<not> str_contains ps1_open (mid @ [newline])"
    proof
      assume "str_contains ps1_open (mid @ [newline])"
      then obtain x y where xy: "mid @ [newline] = x @ ps1_open @ y" unfolding str_contains_iff by blast
      show False
      proof (cases y rule: rev_cases)
        case Nil
        with xy have "last (mid @ [newline]) = last (x @ ps1_open)" by simp
        then show False by (simp add: ps1_marks)
      next
        case (snoc y' c)
        with xy have "mid = x @ ps1_open @ y'" by simp
        with assms(5) show False unfolding str_contains_iff by blast
      qed
    qed
    then show ?thesis using contains_skip [of ps1_open "[newline]" "mid @ [newline]"] by (simp add: ps1_marks)
  qed
  have "ps1_scan 0 True (pre @ block g @ newline # mid @ newline # block g' @ post) =
      ps1_scan (length pre) True (block g @ (newline # mid @ [newline]) @ block g' @ post)"
    using ps1_scan_skip [OF assms(3,4), of 0 True] by simp
  also have "\<dots> = \<lparr>pm_start = length pre, pm_end = length pre + length (block g), pm_group = g\<rparr> #
      ps1_scan (length pre + length (block g)) False ((newline # mid @ [newline]) @ block g' @ post)"
    by (rule ps1_scan_block [OF assms(1)])
  also have "ps1_scan (length pre + length (block g)) False ((newline # mid @ [newline]) @ block g' @ post) =
      ps1_scan (length pre + length (block g) + length mid + 2) True (block g' @ post)"
    by (subst ps1_scan_skip [OF mid]) simp_all
  finally show ?thesis using ps1_scan_block [OF assms(2)] ps1_scan_tail [OF assms(6)] by simp
qed

lemma between_parts: "between (length a) (length a + length b) (a @ b @ c) = b"
  by (simp add: between_def)

lemma block_at_end:
  assumes "list_all is_py_space post" "g \<noteq> []" "last g = newline"
  shows "prompt_at_end (x @ block g @ post)"
proof -
  have r: "str_rstrip (y @ ps1_close @ post) = y @ ps1_close" for y
    using assms(1) by (simp add: str_rstrip_def dropWhile_all_append list_all_rev ps1_marks is_py_space_def)
  obtain h where g: "g = h @ [newline]" using assms(2,3) by (metis append_butlast_last_id)
  have "str_rstrip CMD_OUTPUT_PS1_END = newline # ps1_close"
    by (simp add: str_rstrip_def CMD_OUTPUT_PS1_END_def ps1_marks is_py_space_def)
  moreover have "str_rstrip (x @ block g @ post) = (x @ ps1_open @ h) @ newline # ps1_close"
    using r [of "x @ ps1_open @ g"] by (simp add: block_def g)
  ultimately show ?thesis by (simp add: prompt_at_end_def str_endswith_def str_startswith_def)
qed

section \<open>The output of a command\<close>

lemma strip_command:
  assumes "str_lstrip command = command" "list_all is_py_space ws" "command \<noteq> []"
  shows "str_rstrip (remove_command_prefix (command @ newline # out @ ws) command) = str_strip out"
proof -
  have c: "\<not> is_py_space (hd command)"
  proof
    assume "is_py_space (hd command)"
    with assms(3) have "length (str_lstrip command) < length command"
      by (cases command) (auto simp: str_lstrip_def le_imp_less_Suc length_dropWhile_le)
    with assms(1) show False by simp
  qed
  have "str_lstrip (command @ newline # out @ ws) = command @ newline # out @ ws"
    using c assms(3) by (cases command) (auto simp: str_lstrip_def)
  then have "remove_command_prefix (command @ newline # out @ ws) command = str_lstrip (newline # out @ ws)"
    using assms(1) by (simp add: remove_command_prefix_def str_removeprefix_def str_startswith_def)
  moreover have "str_rstrip (str_lstrip (newline # out @ ws)) = str_strip (out @ ws)"
    by (simp add: str_strip_lr [symmetric] str_strip_def is_py_space_def)
  ultimately show ?thesis using str_strip_spaces [OF assms(2)] by simp
qed

text \<open>The metadata depend on the text of the prompt only.\<close>

definition prompt_data :: "'s bash_env \<Rightarrow> string \<Rightarrow> exn + cmd_output_metadata" where
  "prompt_data env g = from_ps1_match env \<lparr>pm_start = 0, pm_end = 0, pm_group = g\<rparr>"

definition readable :: "'s bash_env \<Rightarrow> string \<Rightarrow> bool" where
  "readable env g \<longleftrightarrow> prompt_group_ok g \<and> be_loads env (str_strip g) \<noteq> None"

text \<open>A screen after a command: a prompt, the command as it was typed, its output, a prompt, blanks\<close>

definition finished_screen :: "'s bash_env \<Rightarrow> string \<Rightarrow> string \<Rightarrow> string \<Rightarrow> string \<Rightarrow> bool" where
  "finished_screen env command out g' content \<longleftrightarrow>
     (\<exists>pre g post. content = pre @ block g @ newline # (command @ newline # out) @ newline # block g' @ post \<and>
        readable env g \<and> readable env g' \<and> g' \<noteq> [] \<and> last g' = newline \<and>
        \<not> str_contains ps1_open pre \<and> (pre = [] \<or> last pre = newline) \<and>
        \<not> str_contains ps1_open (command @ newline # out) \<and> list_all is_py_space post)"

definition moved_to :: "cmd_output_metadata \<Rightarrow> bash_session \<Rightarrow> bash_session" where
  "moved_to md bs = (case com_working_dir md of Some d \<Rightarrow> if d \<noteq> [] then bs\<lparr>bs_cwd := d\<rparr> else bs | None \<Rightarrow> bs)"

lemma moved_to_simps [simp]: "bs_prev_output (moved_to md bs) = bs_prev_output bs"
  by (simp add: moved_to_def split: option.split)

lemma completed_output:
  assumes "finished_screen env command out g' content" "prompt_data env g' = Inr md"
    and "bs_prev_output bs = []" "str_lstrip command = command" "command \<noteq> []"
  shows "prompt_at_end content" "handle_completed_command env bs command content (matches_ps1_metadata env content) hid s =
    (Inr (cmd_output (str_strip out) command (md\<lparr>com_suffix := completed_suffix command (com_exit_code md)\<rparr>) hid),
     (moved_to md bs)\<lparr>bs_prev_status := Some Bash_completed, bs_prev_output := []\<rparr>, clear_screen env s)"
proof -
  from assms(1) obtain pre g post where
    c: "content = pre @ block g @ newline # (command @ newline # out) @ newline # block g' @ post"
      "readable env g" "readable env g'" "g' \<noteq> []" "last g' = newline" "\<not> str_contains ps1_open pre" "pre = [] \<or> last pre = newline"
      "\<not> str_contains ps1_open (command @ newline # out)" "list_all is_py_space post"
    unfolding finished_screen_def by blast
  show "prompt_at_end content"
    using block_at_end [OF c(9,4,5), of "pre @ block g @ newline # (command @ newline # out) @ [newline]"] by (simp add: c(1))
  let ?mid = "command @ newline # out"
  define m where "m = \<lparr>pm_start = length pre, pm_end = length pre + length (block g), pm_group = g\<rparr>"
  define m' where "m' = \<lparr>pm_start = length pre + length (block g) + length ?mid + 2,
      pm_end = length pre + length (block g) + length ?mid + 2 + length (block g'), pm_group = g'\<rparr>"
  have ns: "\<not> is_py_space (CHR ''#'')" by (simp add: is_py_space_def)
  have post: "\<not> str_contains ps1_open post"
    using str_contains_char [of ps1_open post "CHR ''#''"] c(9) ns by (auto simp: ps1_marks list_all_iff)
  have ms: "matches_ps1_metadata env content = [m, m']"
    using two_prompts [of g g' pre ?mid post] c post by (simp add: matches_ps1_metadata_def readable_def m_def m'_def)
  have 1: "between (length pre + length (block g) + 1) (length pre + length (block g) + length ?mid + 2) content = ?mid @ [newline]"
    using between_parts [of "pre @ block g @ [newline]" "?mid @ [newline]" "block g' @ post"] by (simp add: c(1))
  have drop_all: "drop (length x + 1) (x @ post) = drop 1 post" for x by simp
  have 2: "drop (length pre + length (block g) + length ?mid + 2 + length (block g') + 1) content = drop 1 post"
    using drop_all [of "pre @ block g @ newline # ?mid @ newline # block g'"] by (simp add: c(1) add.commute add.left_commute)
  have raw: "combine_outputs_between_matches content [m, m'] False = command @ newline # out @ newline # newline # drop 1 post"
    using 1 2 by (simp add: combine_outputs_between_matches_def m_def m'_def)
  have "str_rstrip (remove_command_prefix (command @ newline # out @ newline # newline # drop 1 post) command) = str_strip out"
    by (rule strip_command) (use assms(4,5) c(9) in \<open>auto simp: is_py_space_def list_all_iff dest: in_set_dropD\<close>)
  moreover have "from_ps1_match env m' = Inr md" using assms(2) by (simp add: prompt_data_def from_ps1_match_def m'_def)
  ultimately show "handle_completed_command env bs command content (matches_ps1_metadata env content) hid s =
    (Inr (cmd_output (str_strip out) command (md\<lparr>com_suffix := completed_suffix command (com_exit_code md)\<rparr>) hid),
     (moved_to md bs)\<lparr>bs_prev_status := Some Bash_completed, bs_prev_output := []\<rparr>, clear_screen env s)"
    unfolding ms using assms(3)
    by (simp add: handle_completed_command_def raw get_command_output_def moved_to_def [symmetric] Let_def)
qed

section \<open>Rounds\<close>

text \<open>What every round and every pause keep, the loop keeps.\<close>

lemma bash_loop_keeps:
  assumes "bash_loop env bs a timeout command count start content change s = Some (r, bs', s')" "P s"
    and "\<And>content change s r. P s \<Longrightarrow> bash_poll env bs a timeout command count start content change s = Inl r \<Longrightarrow> Q r"
    and "\<And>content change s c t s1. P s \<Longrightarrow> bash_poll env bs a timeout command count start content change s = Inr (c, t, s1) \<Longrightarrow>
      P (be_sleep env POLL_INTERVAL s1)"
    and "\<And>s. P s \<Longrightarrow> Q (Inl interrupted_exn, bs, s)"
  shows "Q (r, bs', s')"
proof -
  let ?R = "\<lambda>env' bs' a' t' cm' n' st' c ch s y. env' = env \<and> bs' = bs \<and> a' = a \<and> t' = timeout \<and> cm' = command \<and>
      n' = count \<and> st' = start \<longrightarrow> P s \<longrightarrow> Q y"
  have "?R env bs a timeout command count start content change s (r, bs', s')"
  proof (rule bash_loop.raw_induct [of ?R, OF _ assms(1)], intro impI)
    fix loop env' bs' a' t' cm' n' st' c ch s y
    assume IH: "\<And>env' bs' a' t' cm' n' st' c ch s y. loop env' bs' a' t' cm' n' st' c ch s = Some y \<Longrightarrow>
        ?R env' bs' a' t' cm' n' st' c ch s y"
      and run: "(if \<not> be_continue env' s then Some (Inl interrupted_exn, bs', s)
        else case bash_poll env' bs' a' t' cm' n' st' c ch s of
               Inl r \<Rightarrow> Some r
             | Inr (content, change, s1) \<Rightarrow>
                 loop env' bs' a' t' cm' n' st' content change (be_sleep env' POLL_INTERVAL s1)) = Some y"
      and eq: "env' = env \<and> bs' = bs \<and> a' = a \<and> t' = timeout \<and> cm' = command \<and> n' = count \<and> st' = start" and s: "P s"
    show "Q y"
    proof (cases "be_continue env s")
      case False
      with run eq s assms(5) show ?thesis by auto
    next
      case True
      show ?thesis
      proof (cases "bash_poll env bs a timeout command count start c ch s")
        case (Inl q)
        with run eq True have "y = q" by simp
        with Inl s assms(3) show ?thesis by blast
      next
        case (Inr q)
        obtain c1 t1 s1 where q: "q = (c1, t1, s1)" by (cases q)
        with run eq True Inr have "loop env bs a timeout command count start c1 t1 (be_sleep env POLL_INTERVAL s1) = Some y" by simp
        from IH [OF this] assms(4) [OF s] Inr q show ?thesis by blast
      qed
    qed
  qed
  with assms(2) show ?thesis by blast
qed

lemma get_pane_content_snd [simp]: "snd (get_pane_content env s) = snd (be_capture env s)"
  by (simp add: get_pane_content_def)

text \<open>The states a round goes through\<close>

lemma bash_poll_Inr:
  assumes "bash_poll env bs a timeout command count start content change s = Inr (c, t, s')"
  obtains s1 s2 where "c = fst (get_pane_content env s)" "s1 = snd (be_capture env s)"
    "(c = content \<and> t = change \<and> s2 = s1) \<or> (c \<noteq> content \<and> t = fst (be_time env s1) \<and> s2 = snd (be_time env s1))"
    "s' = snd (be_time env (snd (be_time env s2)))" "\<not> prompt_at_end c"
    "\<not> cra_blocking a \<Longrightarrow> fst (be_time env s2) - t < of_int (bs_no_change_timeout bs)"
    "\<And>d. timeout = Some d \<Longrightarrow> d \<noteq> 0 \<Longrightarrow> fst (be_time env (snd (be_time env s2))) - start < d"
proof -
  define s1 where "s1 = snd (be_capture env s)"
  obtain c1 where c1: "get_pane_content env s = (c1, s1)" by (metis get_pane_content_snd prod.collapse s1_def)
  obtain t2 s2 where t2: "(if c1 \<noteq> content then be_time env s1 else (change, s1)) = (t2, s2)" by force
  obtain t3 s3 where t3: "be_time env s2 = (t3, s3)" by force
  obtain t4 s4 where t4: "be_time env s3 = (t4, s4)" by force
  note run = assms [unfolded bash_poll_def c1 prod.case Let_def t2 t3 t4]
  have eq: "c = c1" "t = t2" "s' = s4" using run by (auto split: if_splits option.splits)
  have ord: "(c = content \<and> t = change \<and> s2 = s1) \<or> (c \<noteq> content \<and> t = fst (be_time env s1) \<and> s2 = snd (be_time env s1))"
    using t2 eq by (auto split: if_splits)
  show thesis
    by (rule that [OF _ s1_def ord]) (use run eq c1 t3 t4 in \<open>auto split: if_splits option.splits\<close>)
qed

lemma bash_poll_Inl:
  assumes "bash_poll env bs a timeout command count start content change s = Inl r"
  obtains c s1 s2 where "get_pane_content env s = (c, s1)" "s2 = s1 \<or> s2 = snd (be_time env s1)"
    "r = handle_completed_command env bs command c (matches_ps1_metadata env c) (cra_hidden a) s2 \<and>
       (count < length (matches_ps1_metadata env c) \<or> prompt_at_end c) \<or>
     r = handle_nochange_timeout_command bs command c (matches_ps1_metadata env c) (snd (be_time env s2)) \<or>
     (\<exists>d. r = handle_hard_timeout_command env d bs command c (matches_ps1_metadata env c) (snd (be_time env (snd (be_time env s2)))))"
proof -
  obtain c s1 where c: "get_pane_content env s = (c, s1)" by force
  obtain t2 s2 where t2: "(if c \<noteq> content then be_time env s1 else (change, s1)) = (t2, s2)" by force
  obtain t3 s3 where t3: "be_time env s2 = (t3, s3)" by force
  obtain t4 s4 where t4: "be_time env s3 = (t4, s4)" by force
  note run = assms [unfolded bash_poll_def c prod.case Let_def t2 t3 t4]
  have "s2 = s1 \<or> s2 = snd (be_time env s1)" using t2 by (auto split: if_splits)
  then show thesis by (rule that [OF c]) (use run t3 t4 in \<open>auto split: if_splits option.splits\<close>)
qed

lemma handle_timeout_state [simp]:
  "fst (snd (handle_timeout st suffix bs command c ms s)) =
     bs\<lparr>bs_prev_output := combine_outputs_between_matches c ms False, bs_prev_status := Some st\<rparr>"
  "snd (snd (handle_timeout st suffix bs command c ms s)) = s"
  "\<exists>x. fst (handle_timeout st suffix bs command c ms s) = Inr x"
  by (simp_all add: handle_timeout_def get_command_output_def Let_def)

lemma completed_state:
  assumes "handle_completed_command env bs command c ms hid s = (r, bs', s')"
  shows "s' = s \<or> s' = clear_screen env s \<and> bs_prev_status bs' = Some Bash_completed"
  using assms by (auto simp: handle_completed_command_def get_command_output_def Let_def split: if_splits sum.splits)

end
