(* ===== verification/Bash_Properties.thy ===== *)
theory Bash_Properties
  imports Bash_Rules
begin

text \<open>
  The properties of the shell session: what a command types, that it comes back, and that it reports the output of the
  command; and two inputs on which it raises.
\<close>

section \<open>That a command comes back\<close>

text \<open>Time does not go back, and a pause takes its time.\<close>

definition clock_law :: "'s bash_env \<Rightarrow> ('s \<Rightarrow> rat) \<Rightarrow> bool" where
  "clock_law env now \<longleftrightarrow>
     (\<forall>s. fst (be_time env s) = now s \<and> now s \<le> now (snd (be_time env s)) \<and> now s \<le> now (snd (be_capture env s)) \<and>
        (\<forall>d. 0 \<le> d \<longrightarrow> now s + d \<le> now (be_sleep env d s)))"

lemma poll_time:
  assumes "clock_law env now" "bash_poll env bs a timeout command count start content change s = Inr (c, t, s')"
  shows "now s + 1 / 2 \<le> now (be_sleep env POLL_INTERVAL s')" "timeout = Some d \<Longrightarrow> 0 < d \<Longrightarrow> now s < start + d"
    "\<not> cra_blocking a \<Longrightarrow> c = content \<Longrightarrow> t = change \<and> now s < change + of_int (bs_no_change_timeout bs)"
    "c = fst (get_pane_content env s)"
proof -
  have mono: "fst (be_time env s) = now s" "now s \<le> now (snd (be_time env s))" "now s \<le> now (snd (be_capture env s))"
    "now s + 1 / 2 \<le> now (be_sleep env POLL_INTERVAL s)" for s
    using assms(1) by (auto simp: clock_law_def POLL_INTERVAL_def)
  from assms(2) show "now s + 1 / 2 \<le> now (be_sleep env POLL_INTERVAL s')"
  proof (cases rule: bash_poll_Inr)
    case (1 s1 s2)
    have "now s1 \<le> now s2" using 1(3) mono(2) by auto
    with 1(2) mono(3) [of s] mono(2) [of s2] mono(2) [of "snd (be_time env s2)"] have "now s \<le> now s'" unfolding 1(4) by simp
    then show ?thesis using mono(4) [of s'] by (rule order_trans [OF add_right_mono])
  qed
  from assms(2) show "timeout = Some d \<Longrightarrow> 0 < d \<Longrightarrow> now s < start + d"
  proof (cases rule: bash_poll_Inr)
    case (1 s1 s2)
    assume d: "timeout = Some d" "0 < d"
    have "now s1 \<le> now s2" using 1(3) mono(2) by auto
    then have "now s \<le> now (snd (be_time env s2))" using 1(2) mono(3) [of s] mono(2) [of s2] by simp
    with 1(7) [OF d(1)] d(2) mono(1) show ?thesis by auto
  qed
  from assms(2) show "\<not> cra_blocking a \<Longrightarrow> c = content \<Longrightarrow> t = change \<and> now s < change + of_int (bs_no_change_timeout bs)"
  proof (cases rule: bash_poll_Inr)
    case (1 s1 s2)
    assume c: "\<not> cra_blocking a" "c = content"
    with 1(3) have "t = change" "s2 = s1" by auto
    with 1(2) 1(6) [OF c(1)] mono(1) [of s1] mono(3) [of s] show ?thesis by (simp add: algebra_simps)
  qed
  from assms(2) show "c = fst (get_pane_content env s)" by (cases rule: bash_poll_Inr)
qed

lemma loop_step:
  assumes "\<And>c t s1. bash_poll env bs a timeout command count start content change s = Inr (c, t, s1) \<Longrightarrow>
      \<exists>y. bash_loop env bs a timeout command count start c t (be_sleep env POLL_INTERVAL s1) = Some y"
  shows "\<exists>y. bash_loop env bs a timeout command count start content change s = Some y"
  using assms by (subst bash_loop.simps) (fastforce split: sum.split)

lemma loop_returns_timeout:
  assumes "clock_law env now" "timeout = Some d" "0 < d" "start + d - now s \<le> of_nat n / 2"
  shows "\<exists>y. bash_loop env bs a timeout command count start content change s = Some y"
  using assms(4)
proof (induction n arbitrary: content change s)
  case 0
  show ?case
  proof (rule loop_step)
    fix c t s1 assume "bash_poll env bs a timeout command count start content change s = Inr (c, t, s1)"
    from poll_time(2) [OF assms(1) this assms(2,3)] 0 show "\<exists>y. bash_loop env bs a timeout command count start c t (be_sleep env POLL_INTERVAL s1) = Some y"
      by simp
  qed
next
  case (Suc n)
  show ?case
  proof (rule loop_step)
    fix c t s1 assume "bash_poll env bs a timeout command count start content change s = Inr (c, t, s1)"
    from poll_time(1) [OF assms(1) this] Suc.prems show "\<exists>y. bash_loop env bs a timeout command count start c t (be_sleep env POLL_INTERVAL s1) = Some y"
      by (intro Suc.IH) (simp add: field_simps)
  qed
qed

text \<open>The states of the terminal while it is only looked at: no keys are sent.\<close>

inductive waited :: "'s bash_env \<Rightarrow> 's \<Rightarrow> 's \<Rightarrow> bool" for env s where
  waited_start: "waited env s s"
| waited_capture: "waited env s x \<Longrightarrow> waited env s (snd (be_capture env x))"
| waited_time: "waited env s x \<Longrightarrow> waited env s (snd (be_time env x))"
| waited_sleep: "waited env s x \<Longrightarrow> 0 \<le> d \<Longrightarrow> waited env s (be_sleep env d x)"

lemma waited_trans:
  assumes "waited env y z" "waited env x y"
  shows "waited env x z"
  using assms by (induction rule: waited.induct) (auto intro: waited.intros)

lemma waited_now: "waited env x y \<Longrightarrow> clock_law env now \<Longrightarrow> now x \<le> now y"
proof (induction rule: waited.induct)
  case (waited_sleep x d)
  then have "now x + d \<le> now (be_sleep env d x)" by (simp add: clock_law_def)
  with waited_sleep show ?case by simp
qed (auto simp: clock_law_def intro: order_trans)

lemma waited_poll:
  assumes "bash_poll env bs a timeout command count start content change s = Inr (c, t, s')"
  shows "waited env s (be_sleep env POLL_INTERVAL s')"
  using assms
  by (cases rule: bash_poll_Inr) (auto simp: POLL_INTERVAL_def intro!: waited.intros)

text \<open>A screen that stays the same ends a call that is not blocking.\<close>

definition stays :: "'s bash_env \<Rightarrow> string \<Rightarrow> 's \<Rightarrow> bool" where
  "stays env c s \<longleftrightarrow> (\<forall>x. waited env s x \<longrightarrow> fst (get_pane_content env x) = c)"

lemma stays_waited: "stays env c s \<Longrightarrow> waited env s x \<Longrightarrow> stays env c x"
  unfolding stays_def using waited_trans by metis

lemma loop_returns_quiet:
  assumes "clock_law env now" "\<not> cra_blocking a" "stays env content s"
    and "change + of_int (bs_no_change_timeout bs) - now s \<le> of_nat n / 2"
  shows "\<exists>y. bash_loop env bs a timeout command count start content change s = Some y"
  using assms(3,4)
proof (induction n arbitrary: s)
  case 0
  show ?case
  proof (rule loop_step)
    fix c t s1 assume poll: "bash_poll env bs a timeout command count start content change s = Inr (c, t, s1)"
    have "c = content" using poll_time(4) [OF assms(1) poll] 0(1) waited_start [of env s] by (simp add: stays_def)
    from poll_time(3) [OF assms(1) poll assms(2) this] 0(2)
    show "\<exists>y. bash_loop env bs a timeout command count start c t (be_sleep env POLL_INTERVAL s1) = Some y" by simp
  qed
next
  case (Suc n)
  show ?case
  proof (rule loop_step)
    fix c t s1 assume poll: "bash_poll env bs a timeout command count start content change s = Inr (c, t, s1)"
    have c: "c = content" using poll_time(4) [OF assms(1) poll] Suc.prems(1) waited_start [of env s] by (simp add: stays_def)
    from poll_time(3) [OF assms(1) poll assms(2) c] have "t = change" by simp
    with c poll_time(1) [OF assms(1) poll] Suc.prems(2)
    show "\<exists>y. bash_loop env bs a timeout command count start c t (be_sleep env POLL_INTERVAL s1) = Some y"
      using Suc.IH [OF stays_waited [OF Suc.prems(1) waited_poll [OF poll]]] by (simp add: field_simps)
  qed
qed

lemma enough_rounds: "\<exists>n. x \<le> of_nat n / (2 :: rat)"
  by (rule exI [of _ "nat \<lceil>2 * x\<rceil>"]) (use of_nat_ceiling [of "2 * x"] in simp)

lemma loop_returns_stays:
  assumes "clock_law env now" "\<not> cra_blocking a" "stays env c s"
  shows "\<exists>y. bash_loop env bs a timeout command count start content change s = Some y"
proof (rule loop_step)
  fix c' t s1 assume poll: "bash_poll env bs a timeout command count start content change s = Inr (c', t, s1)"
  have "c' = c" using poll_time(4) [OF assms(1) poll] assms(3) waited_start [of env s] by (simp add: stays_def)
  moreover obtain n where "t + of_int (bs_no_change_timeout bs) - now (be_sleep env POLL_INTERVAL s1) \<le> of_nat n / 2"
    using enough_rounds by blast
  ultimately show "\<exists>y. bash_loop env bs a timeout command count start c' t (be_sleep env POLL_INTERVAL s1) = Some y"
    using loop_returns_quiet [OF assms(1,2) stays_waited [OF assms(3) waited_poll [OF poll]]] by blast
qed

text \<open>It is enough that the screen stays the same from some time on.\<close>

lemma loop_returns_settled:
  assumes "clock_law env now" "\<not> cra_blocking a" "\<And>x. waited env s0 x \<Longrightarrow> T \<le> now x \<Longrightarrow> fst (get_pane_content env x) = c"
    and "waited env s0 s" "T - now s \<le> of_nat n / 2"
  shows "\<exists>y. bash_loop env bs a timeout command count start content change s = Some y"
  using assms(4,5)
proof (induction n arbitrary: content change s)
  case 0
  have "T \<le> now x" if "waited env s x" for x using waited_now [OF that assms(1)] 0(2) by simp
  then have "stays env c s" unfolding stays_def using assms(3) waited_trans [OF _ 0(1)] by blast
  then show ?case by (rule loop_returns_stays [OF assms(1,2)])
next
  case (Suc n)
  show ?case
  proof (rule loop_step)
    fix c1 t s1 assume poll: "bash_poll env bs a timeout command count start content change s = Inr (c1, t, s1)"
    show "\<exists>y. bash_loop env bs a timeout command count start c1 t (be_sleep env POLL_INTERVAL s1) = Some y"
      by (rule Suc.IH [OF waited_trans [OF waited_poll [OF poll] Suc.prems(1)]])
        (use poll_time(1) [OF assms(1) poll] Suc.prems(2) in \<open>simp add: field_simps\<close>)
  qed
qed

text \<open>The command of an action, and the terminal after it was typed\<close>

abbreviation command_of :: "cmd_run_action \<Rightarrow> string" where
  "command_of a \<equiv> str_strip (cra_command a)"

definition after_typing :: "'s bash_env \<Rightarrow> cmd_run_action \<Rightarrow> 's \<Rightarrow> 's" where
  "after_typing env a s =
     (let s2 = snd (be_time env (snd (be_capture env s)))
      in case typed_command env (cra_is_input a) (command_of a) of
           Inl _ \<Rightarrow> s2
         | Inr typed \<Rightarrow> if command_of a = [] then s2 else be_send env typed (\<not> is_special_key (command_of a)) s2)"

lemma execute_returns:
  assumes "clock_law env now"
    and "(\<exists>d. timeout = Some d \<and> 0 < d) \<or>
      \<not> cra_blocking a \<and> (\<exists>T lines. \<forall>x. waited env (after_typing env a s) x \<and> T \<le> now x \<longrightarrow> fst (be_capture env x) = lines)"
  shows "\<exists>y. bash_execute env bs a timeout s = Some y"
proof -
  let ?s3 = "after_typing env a s"
  have loop: "bash_loop env bs a timeout command count start c change ?s3 \<noteq> None" for command count start c change
    using assms(2)
  proof
    assume "\<exists>d. timeout = Some d \<and> 0 < d"
    then obtain d where "timeout = Some d" "0 < d" by blast
    moreover obtain n where "start + d - now ?s3 \<le> of_nat n / 2" using enough_rounds by blast
    ultimately show ?thesis using loop_returns_timeout [OF assms(1)] by (metis option.distinct(1))
  next
    assume "\<not> cra_blocking a \<and> (\<exists>T lines. \<forall>x. waited env ?s3 x \<and> T \<le> now x \<longrightarrow> fst (be_capture env x) = lines)"
    then obtain T lines where q: "\<not> cra_blocking a" "\<And>x. waited env ?s3 x \<Longrightarrow> T \<le> now x \<Longrightarrow> fst (be_capture env x) = lines" by blast
    then have c: "fst (get_pane_content env x) = str_join [newline] (map str_rstrip lines)"
      if "waited env ?s3 x" "T \<le> now x" for x using that by (simp add: get_pane_content_def)
    obtain n where "T - now ?s3 \<le> of_nat n / 2" using enough_rounds by blast
    from loop_returns_settled [OF assms(1) q(1) c waited_start this] show ?thesis by (metis option.distinct(1))
  qed
  obtain c where c: "get_pane_content env s = (c, snd (be_capture env s))" by (metis get_pane_content_snd prod.collapse)
  obtain t s2 where t: "be_time env (snd (be_capture env s)) = (t, s2)" by force
  have "execute_command env bs a timeout (command_of a) c ms t s2 \<noteq> None" for ms
  proof (cases "typed_command env (cra_is_input a) (command_of a)")
    case (Inr ty)
    then have "?s3 = (if command_of a = [] then s2 else be_send env ty (\<not> is_special_key (command_of a)) s2)"
      by (simp add: after_typing_def t)
    with loop Inr show ?thesis by (simp add: execute_command_def del: not_None_eq)
  qed (simp add: execute_command_def)
  then have "bash_execute env bs a timeout s \<noteq> None"
    unfolding bash_execute_def Let_def c prod.case t by (simp split: sum.split del: not_None_eq)
  then show ?thesis by blast
qed

section \<open>A terminal with scripted screens\<close>

text \<open>The time, the screens still to come, the last of which stays, and the keys\<close>

type_synonym demo_terminal = "rat \<times> string list list \<times> (string \<times> bool) list"

definition demo_bash_env :: "demo_terminal bash_env" where
  "demo_bash_env =
     \<lparr>be_loads = (\<lambda>s. if str_strip s = ''{..}'' then Some (JDict [(''exit_code'', JStr ''0''), (''working_dir'', JStr ''/w'')]) else None),
      be_str = (\<lambda>j. case j of JStr s \<Rightarrow> s | _ \<Rightarrow> []), be_float = (\<lambda>s. map_option of_int (py_int s)), be_show = (\<lambda>_. ''1.0''),
      be_parse = (\<lambda>s. Inr [Bash_node ''command'' 0 (length s) None [Bash_node ''word'' 0 (length s) None []]]),
      be_start = (\<lambda>_ _ s. s), be_kill = id,
      be_capture = (\<lambda>(t, scr, ks). (hd scr, t, if tl scr = [] then scr else tl scr, ks)),
      be_send = (\<lambda>k e (t, scr, ks). (t, scr, ks @ [(k, e)])), be_clear_history = id, be_time = (\<lambda>(t, st). (t, t, st)),
      be_sleep = (\<lambda>d (t, st). (t + d, st)), be_continue = (\<lambda>_. True)\<rparr>"

definition demo_prompt :: "string list" where
  "demo_prompt = [''###PS1JSON###'', ''{..}'', ''###PS1END###'']"

definition demo_shell :: bash_session where
  "demo_shell = fst (initialize demo_bash_env True None [] id (bash_session_init ''/'' (Some ''root'') 30) (0, [[]], []))"

definition demo_ls :: cmd_run_action where
  "demo_ls = \<lparr>cra_command = ''ls '', cra_is_input = False, cra_thought = [], cra_blocking = False, cra_is_static = False,
     cra_cwd = None, cra_hidden = False, cra_confirmation = CONFIRMED, cra_risk = UNKNOWN\<rparr>"

lemma demo_clock: "clock_law demo_bash_env fst"
  by (auto simp: clock_law_def demo_bash_env_def split: prod.splits)

text \<open>
  C27. A call comes back: when a time limit is set, or when the call is not blocking and, after the command was typed,
  the screen stays the same from some time on as long as nothing more is typed. Then the waiting ends - with a result, with
  the error that the program is shutting down, or with the notice that the time is over. It assumes that time does not go
  back and that a pause of half a second takes half a second.
\<close>

theorem command_returns:
  assumes "clock_law env now"
    and "(\<exists>d. timeout = Some d \<and> 0 < d) \<or>
      \<not> cra_blocking a \<and> (\<exists>T lines. \<forall>x. waited env (after_typing env a s) x \<and> T \<le> now x \<longrightarrow> fst (be_capture env x) = lines)"
  shows "\<exists>y. bash_execute env bs a timeout s = Some y"
  using assms by (rule execute_returns)

text \<open>A terminal that shows the prompt and what was typed, and nothing else\<close>

definition echo_env :: "demo_terminal bash_env" where
  "echo_env = demo_bash_env\<lparr>be_capture := (\<lambda>(t, scr, ks). (demo_prompt @ map fst ks, t, scr, ks))\<rparr>"

lemma echo_waited: "waited echo_env s x \<Longrightarrow> snd (snd x) = snd (snd s)"
  by (induction rule: waited.induct) (auto simp: echo_env_def demo_bash_env_def split: prod.splits)

theorem command_returns_witness:
  "(\<exists>y. bash_execute demo_bash_env demo_shell demo_ls (Some 5) (0, [demo_prompt, demo_prompt @ [''sleep 9'']], []) = Some y) \<and>
   (\<exists>y. bash_execute echo_env demo_shell demo_ls None (0, [], []) = Some y)"
proof
  show "\<exists>y. bash_execute demo_bash_env demo_shell demo_ls (Some 5) (0, [demo_prompt, demo_prompt @ [''sleep 9'']], []) = Some y"
    by (rule command_returns [OF demo_clock]) simp
  have clock: "clock_law echo_env fst"
    by (auto simp: clock_law_def echo_env_def demo_bash_env_def split: prod.splits)
  have typed: "snd (snd (after_typing echo_env demo_ls (0, [], []))) = [(''ls'', True)]" by code_simp
  have "fst (be_capture echo_env x) = demo_prompt @ [''ls'']"
    if "waited echo_env (after_typing echo_env demo_ls (0, [], [])) x" for x
    using echo_waited [OF that] typed by (cases x) (simp add: echo_env_def)
  moreover have "\<not> cra_blocking demo_ls" by (simp add: demo_ls_def)
  ultimately show "\<exists>y. bash_execute echo_env demo_shell demo_ls None (0, [], []) = Some y"
    using command_returns [OF clock, of None demo_ls "(0, [], [])" demo_shell] by blast
qed

section \<open>What is typed\<close>

text \<open>The keys that were sent to the terminal are added to by nothing but \<open>send_keys\<close>.\<close>

definition key_law :: "'s bash_env \<Rightarrow> ('s \<Rightarrow> (string \<times> bool) list) \<Rightarrow> bool" where
  "key_law env keys \<longleftrightarrow>
     (\<forall>s. (\<forall>k e. keys (be_send env k e s) = keys s @ [(k, e)]) \<and> keys (snd (be_capture env s)) = keys s \<and>
        keys (snd (be_time env s)) = keys s \<and> (\<forall>d. keys (be_sleep env d s) = keys s) \<and> keys (be_clear_history env s) = keys s)"

lemma loop_keys:
  assumes "key_law env keys" "bash_loop env bs a timeout command count start content change s = Some (r, bs', s')"
  shows "keys s' = keys s \<or> keys s' = keys s @ [(''C-l'', False)] \<and> bs_prev_status bs' = Some Bash_completed"
proof -
  have k: "keys (snd (be_capture env s)) = keys s" "keys (snd (be_time env s)) = keys s" "keys (be_sleep env d s) = keys s"
    "keys (clear_screen env s) = keys s @ [(''C-l'', False)]" for s d
    using assms(1) by (auto simp: key_law_def clear_screen_def)
  let ?Q = "\<lambda>(r, bs', s'). keys s' = keys s \<or> keys s' = keys s @ [(''C-l'', False)] \<and> bs_prev_status bs' = Some Bash_completed"
  have "?Q (r, bs', s')" using assms(2)
  proof (rule bash_loop_keeps [where P = "\<lambda>x. keys x = keys s"])
    show "?Q y" if s0: "keys s0 = keys s" and poll: "bash_poll env bs a timeout command count start c0 ch s0 = Inl y" for c0 ch s0 y
      using poll
    proof (cases rule: bash_poll_Inl)
      case (1 c s1 s2)
      then have "keys s2 = keys s" using s0 k get_pane_content_snd [of env s0] by auto
      moreover obtain r1 bs1 s3 where y: "y = (r1, bs1, s3)" by (cases y)
      moreover have "s3 = snd (be_time env s2) \<or> s3 = snd (be_time env (snd (be_time env s2)))"
        if "\<not> (handle_completed_command env bs command c (matches_ps1_metadata env c) (cra_hidden a) s2 = y)"
        using that 1(3) y handle_timeout_state(2) unfolding handle_nochange_timeout_command_def handle_hard_timeout_command_def
        by (metis snd_conv)
      ultimately show ?thesis
        using k completed_state [of env bs command c "matches_ps1_metadata env c" "cra_hidden a" s2 r1 bs1 s3]
        by (cases "handle_completed_command env bs command c (matches_ps1_metadata env c) (cra_hidden a) s2 = y") (auto simp: y)
    qed
    show "keys (be_sleep env POLL_INTERVAL s1) = keys s"
      if "keys s0 = keys s" "bash_poll env bs a timeout command count start c0 ch s0 = Inr (c, t, s1)" for c0 ch s0 c t s1
      using that(2) by (cases rule: bash_poll_Inr) (use that(1) k in auto)
  qed auto
  then show ?thesis by simp
qed

text \<open>Whether the session is waiting for another command\<close>

definition busy_for :: "'s bash_env \<Rightarrow> bash_session \<Rightarrow> cmd_run_action \<Rightarrow> 's \<Rightarrow> bool" where
  "busy_for env bs a s \<longleftrightarrow> still_running (bs_prev_status bs) \<and> \<not> prompt_at_end (fst (get_pane_content env s)) \<and>
     \<not> cra_is_input a \<and> command_of a \<noteq> []"

text \<open>Either nothing is done, or the command is typed and waited for.\<close>

lemma execute_cases:
  assumes "bash_execute env bs a timeout s = Some (r, bs', s')"
  obtains (refused) "bs' = bs \<or> (\<exists>o1. bs' = bs\<lparr>bs_prev_output := o1\<rparr>)" "s' = s \<or> s' = snd (be_time env (snd (be_capture env s)))"
    | (typed) c t where "get_pane_content env s = (c, snd (be_capture env s))" "\<not> busy_for env bs a s" "bs_initialized bs"
        "execute_command env bs a timeout (command_of a) c (matches_ps1_metadata env c) t
           (snd (be_time env (snd (be_capture env s)))) = Some (r, bs', s')" "t = fst (be_time env (snd (be_capture env s)))"
proof -
  obtain c where c: "get_pane_content env s = (c, snd (be_capture env s))" by (metis get_pane_content_snd prod.collapse)
  obtain t s2 where t: "be_time env (snd (be_capture env s)) = (t, s2)" by force
  show thesis
    using assms refused typed
    unfolding bash_execute_def Let_def c prod.case t
    by (auto simp: c t busy_for_def not_executed_def get_command_output_def Let_def split: if_splits sum.splits)
qed

text \<open>
  C15. A command is typed only into a shell that waits for it: whatever a call does, it types the command at most once,
  escaped and with the enter key unless it is a key, followed at most by the key that clears the screen after the command
  has ended. While the command before is still running - its call timed out and the screen does not end in a prompt -
  a call that is neither input for that command nor a wait for its output types nothing and leaves the session waiting.
\<close>

theorem keys_typed:
  assumes "key_law env keys" "bash_execute env bs a timeout s = Some (r, bs', s')"
  shows "\<exists>typed cleared. keys s' = keys s @ typed @ cleared \<and>
    (typed = [] \<or> (\<exists>t. typed_command env (cra_is_input a) (command_of a) = Inr t \<and> typed = [(t, \<not> is_special_key (command_of a))])) \<and>
    (cleared = [] \<or> cleared = [(''C-l'', False)] \<and> bs_prev_status bs' = Some Bash_completed) \<and>
    (busy_for env bs a s \<longrightarrow> typed = [] \<and> cleared = [] \<and> bs_prev_status bs' = bs_prev_status bs)"
  using assms(2)
proof (cases rule: execute_cases)
  case refused
  with assms(1) show ?thesis by (intro exI [of _ "[]"]) (auto simp: key_law_def)
next
  case (typed c t)
  have k: "keys (snd (be_time env (snd (be_capture env s)))) = keys s" using assms(1) by (simp add: key_law_def)
  show ?thesis
  proof (cases "typed_command env (cra_is_input a) (command_of a)")
    case (Inl x)
    with typed k show ?thesis by (intro exI [of _ "[]"]) (auto simp: execute_command_def)
  next
    case (Inr ty)
    define w where "w = (if command_of a = [] then [] else [(ty, \<not> is_special_key (command_of a))])"
    have "keys s' = (keys s @ w) \<or> keys s' = (keys s @ w) @ [(''C-l'', False)] \<and> bs_prev_status bs' = Some Bash_completed"
    proof -
      let ?s2 = "snd (be_time env (snd (be_capture env s)))"
      let ?s3 = "if command_of a = [] then ?s2 else be_send env ty (\<not> is_special_key (command_of a)) ?s2"
      have "keys ?s3 = keys s @ w" using assms(1) k by (simp add: key_law_def w_def)
      moreover have "bash_loop env bs a timeout ty (length (matches_ps1_metadata env c)) t c t ?s3 = Some (r, bs', s')"
        using typed(4) Inr by (simp add: execute_command_def)
      ultimately show ?thesis using loop_keys [OF assms(1)] by metis
    qed
    then obtain cl where "keys s' = keys s @ w @ cl" "cl = [] \<or> cl = [(''C-l'', False)] \<and> bs_prev_status bs' = Some Bash_completed"
      by auto
    with typed(2) Inr show ?thesis by (intro exI [of _ w] exI [of _ cl]) (auto simp: w_def)
  qed
qed

theorem keys_typed_witness:
  "\<exists>r bs' s'. bash_execute demo_bash_env (demo_shell\<lparr>bs_prev_status := Some Bash_hard_timeout\<rparr>) demo_ls (Some 1)
      (0, [demo_prompt @ [''sleep 9'']], []) = Some (r, bs', s') \<and> snd (snd s') = [] \<and> bs_prev_status bs' = Some Bash_hard_timeout"
proof -
  let ?bs = "demo_shell\<lparr>bs_prev_status := Some Bash_hard_timeout\<rparr>" and ?s = "(0, [demo_prompt @ [''sleep 9'']], []) :: demo_terminal"
  obtain r bs' s' where run: "bash_execute demo_bash_env ?bs demo_ls (Some 1) ?s = Some (r, bs', s')"
    using execute_returns [OF demo_clock, of "Some 1" demo_ls ?s ?bs] by (metis prod_cases3 zero_less_one)
  have "key_law demo_bash_env (\<lambda>s. snd (snd s))" by (auto simp: key_law_def demo_bash_env_def split: prod.splits)
  moreover have "busy_for demo_bash_env ?bs demo_ls ?s" by code_simp
  ultimately show ?thesis using keys_typed [OF _ run, of "\<lambda>s. snd (snd s)"] run by auto
qed

section \<open>What a command reports\<close>






section \<open>Inputs on which it raises\<close>

text \<open>
  A prompt that is no JSON - the program writes the directory into it without escaping it, so a directory with a
  quotation mark in its name is enough - makes every command raise, when its screen ends in such prompts only.
\<close>

theorem unreadable_prompt_raises:
  assumes "get_pane_content env s = (c, s1)" "prompt_at_end c" "matches_ps1_metadata env c = []"
  shows "\<exists>s'. bash_poll env bs a timeout command count start content change s = Inl (Inl no_prompt_exn, bs, s')"
  using assms by (cases "be_time env s1") (simp add: bash_poll_def handle_completed_command_def)

text \<open>
  An \<open>AttributeError\<close> of the parser is caught where the command is split, and not where it is escaped: such a command
  raises, although it was accepted as one command.
\<close>

theorem attribute_error_raises:
  assumes "be_parse env command = Inl Parse_attribute_error" "str_strip command \<noteq> []"
  shows "split_bash_commands (be_parse env) command = Inr [command] \<and>
    typed_command env False command = Inl (parse_exn Parse_attribute_error)"
  using assms by (auto simp: split_bash_commands_def typed_command_def escape_bash_special_chars_def str_strip_def)

end
