(* ===== verification/App_Paging.thy ===== *)
theory App_Paging
  imports Text_Search "HOL-Library.Multiset"
begin

text \<open>
  What the searches of \<open>openhands/app_server\<close> share: a search returns a page of rows and the id of the next page, the
  rows before which it starts. The contract of a paged search is a locale; its client reads page after page.
\<close>

section \<open>Pages\<close>

record 'a page =
  pg_items :: "'a list"
  pg_next :: "string option"

text \<open>
  The database: how it orders rows by a key, how it compares texts, whether a text is like a pattern, what a negative
  offset raises (\<open>None\<close> where it counts as zero). Every page is a query of its own; the first argument of the order is the
  offset of the query, so that rows with equal keys may come in another order on another page.
\<close>

datatype sort_key = Key_time rat | Key_text "string option"

record 'r db_env =
  de_order :: "int \<Rightarrow> bool \<Rightarrow> ('r \<Rightarrow> sort_key) \<Rightarrow> 'r list \<Rightarrow> 'r list"
  de_text_le :: "string option \<Rightarrow> string option \<Rightarrow> bool"
  de_like :: "string \<Rightarrow> string \<Rightarrow> bool"
  de_offset_error :: "exn option"

fun key_le :: "(string option \<Rightarrow> string option \<Rightarrow> bool) \<Rightarrow> sort_key \<Rightarrow> sort_key \<Rightarrow> bool" where
  "key_le tle (Key_time s) (Key_time t) = (s \<le> t)"
| "key_le tle (Key_time _) (Key_text _) = True"
| "key_le tle (Key_text _) (Key_time _) = False"
| "key_le tle (Key_text a) (Key_text b) = tle a b"

definition comes_before :: "'r db_env \<Rightarrow> bool \<Rightarrow> ('r \<Rightarrow> sort_key) \<Rightarrow> 'r \<Rightarrow> 'r \<Rightarrow> bool" where
  "comes_before env desc f x y =
     (if desc then key_le (de_text_le env) (f y) (f x) else key_le (de_text_le env) (f x) (f y))"

text \<open>What \<open>ORDER BY\<close> promises: each query returns the rows it selected, in the order of their keys\<close>

definition order_law :: "'r db_env \<Rightarrow> bool" where
  "order_law env \<longleftrightarrow>
     (\<forall>q desc f rows. mset (de_order env q desc f rows) = mset rows \<and>
        sorted_wrt (comes_before env desc f) (de_order env q desc f rows))"

text \<open>No two rows have equal keys; then the order is the same in every query.\<close>

definition no_ties :: "'r db_env \<Rightarrow> ('r \<Rightarrow> sort_key) \<Rightarrow> 'r list \<Rightarrow> bool" where
  "no_ties env f rows \<longleftrightarrow>
     distinct rows \<and>
     (\<forall>x \<in> set rows. \<forall>y \<in> set rows. x \<noteq> y \<longrightarrow>
        \<not> (key_le (de_text_le env) (f x) (f y) \<and> key_le (de_text_le env) (f y) (f x)))"

lemma sorted_wrt_unique:
  assumes "sorted_wrt le xs" "sorted_wrt le ys" "mset xs = mset ys" "distinct xs"
    and "\<And>x y. x \<in> set xs \<Longrightarrow> y \<in> set xs \<Longrightarrow> x \<noteq> y \<Longrightarrow> \<not> (le x y \<and> le y x)"
  shows "xs = ys"
  using assms
proof (induction xs arbitrary: ys)
  case (Cons x xs)
  then obtain y zs where ys: "ys = y # zs" by (cases ys) auto
  have set: "set (x # xs) = set (y # zs)" using Cons.prems(3) ys by (metis set_mset_mset)
  have "x = y"
  proof (rule ccontr)
    assume ne: "x \<noteq> y"
    have "x \<in> set (y # zs)" "y \<in> set (x # xs)" using set by auto
    with ne have in_rest: "x \<in> set zs" "y \<in> set xs" by auto
    then have "le y x" "le x y" using Cons.prems(1,2) ys by auto
    with Cons.prems(5) [of x y] in_rest ne show False by simp
  qed
  moreover have "xs = zs"
    by (rule Cons.IH) (use Cons.prems ys \<open>x = y\<close> in auto)
  ultimately show ?case by (simp add: ys)
qed simp

lemma order_unique:
  assumes "order_law env" "no_ties env f rows"
  shows "de_order env q desc f rows = de_order env q' desc f rows"
proof (rule sorted_wrt_unique [where le = "comes_before env desc f"])
  have m: "mset (de_order env q desc f rows) = mset rows" for q using assms(1) by (simp add: order_law_def)
  then show "mset (de_order env q desc f rows) = mset (de_order env q' desc f rows)" by simp
  show "distinct (de_order env q desc f rows)" using m [of q] assms(2) by (metis mset_eq_imp_distinct_iff no_ties_def)
  have "set (de_order env q desc f rows) = set rows" using m by (metis set_mset_mset)
  then show "\<not> (comes_before env desc f x y \<and> comes_before env desc f y x)"
    if "x \<in> set (de_order env q desc f rows)" "y \<in> set (de_order env q desc f rows)" "x \<noteq> y" for x y
    using that assms(2) by (auto simp: no_ties_def comes_before_def)
qed (use assms(1) in \<open>simp_all add: order_law_def\<close>)

text \<open>\<open>int(page_id)\<close>, where a text that is no number starts from the beginning\<close>

definition page_offset :: "string option \<Rightarrow> int" where
  "page_offset page_id = (case page_id of None \<Rightarrow> 0 | Some p \<Rightarrow> (case py_int p of None \<Rightarrow> 0 | Some i \<Rightarrow> i))"

definition sql_offset :: "'r db_env \<Rightarrow> int \<Rightarrow> 'r list \<Rightarrow> exn + 'r list" where
  "sql_offset env i rows =
     (if i < 0 then (case de_offset_error env of Some x \<Rightarrow> Inl x | None \<Rightarrow> Inr rows) else Inr (drop (nat i) rows))"

text \<open>One row more than the page is asked for; it tells whether there is another page.\<close>

definition fetch_page :: "'r db_env \<Rightarrow> string option \<Rightarrow> nat \<Rightarrow> 'r list \<Rightarrow> exn + 'r page" where
  "fetch_page env page_id limit rows =
     (let offset = page_offset page_id
      in map_sum id
           (\<lambda>found. let got = take (limit + 1) found
                    in \<lparr>pg_items = (if limit < length got then take limit got else got),
                        pg_next = (if limit < length got then Some (show_int (offset + int limit)) else None)\<rparr>)
           (sql_offset env offset rows))"

section \<open>Reading all pages\<close>

text \<open>The pages one after the other, at most as many as the first argument says\<close>

primrec collect_pages :: "nat \<Rightarrow> (string option \<Rightarrow> exn + 'a page) \<Rightarrow> string option \<Rightarrow> (exn + 'a list) option" where
  "collect_pages 0 search pid = None"
| "collect_pages (Suc n) search pid =
     (case search pid of
        Inl x \<Rightarrow> Some (Inl x)
      | Inr p \<Rightarrow>
          (case pg_next p of
             None \<Rightarrow> Some (Inr (pg_items p))
           | Some q \<Rightarrow> map_option (map_sum id ((@) (pg_items p))) (collect_pages n search (Some q))))"

definition page_at :: "'a list \<Rightarrow> nat \<Rightarrow> nat \<Rightarrow> 'a page" where
  "page_at rows n limit =
     \<lparr>pg_items = take limit (drop n rows), pg_next = (if n + limit < length rows then Some (show_nat (n + limit)) else None)\<rparr>"

locale paged_search =
  fixes search :: "string option \<Rightarrow> exn + 'a page" and rows :: "'a list" and limit :: nat
  assumes limit_pos: "0 < limit"
    and first_page: "search None = Inr (page_at rows 0 limit)"
    and later_page: "search (Some (show_nat n)) = Inr (page_at rows n limit)"
begin

text \<open>Following the ids of the next pages gives every row once, in order.\<close>

lemma collect_from:
  assumes "length rows - n < k * limit"
  shows "collect_pages k search (Some (show_nat n)) = Some (Inr (drop n rows))"
  using assms
proof (induction k arbitrary: n)
  case (Suc k)
  show ?case
  proof (cases "n + limit < length rows")
    case True
    have "length rows - (n + limit) < k * limit" using Suc.prems True by (simp add: algebra_simps)
    from Suc.IH [OF this] True show ?thesis
      by (simp add: later_page page_at_def) (metis add.commute append_take_drop_id drop_drop)
  qed (simp add: later_page page_at_def)
qed simp

theorem collect_all: "collect_pages (Suc (length rows)) search None = Some (Inr rows)"
proof (cases "limit < length rows")
  case True
  have "length rows - limit < length rows * limit" using limit_pos True by (cases limit) auto
  from collect_from [OF this] True show ?thesis by (simp add: first_page page_at_def)
qed (simp add: first_page page_at_def)

end

lemma fetch_page_at:
  "fetch_page env None limit rows = Inr (page_at rows 0 limit)"
  "fetch_page env (Some (show_nat n)) limit rows = Inr (page_at rows n limit)"
  by (auto simp: fetch_page_def page_at_def page_offset_def sql_offset_def Let_def show_int_def min_def nat_add_distrib)

interpretation fetched: paged_search "\<lambda>pid. fetch_page env pid (Suc n) rows" rows "Suc n" for env n rows
  by unfold_locales (simp_all add: fetch_page_at)

text \<open>A search that turns the rows of its pages into items\<close>

lemma collect_map:
  assumes "\<And>pid. search' pid = map_sum id (\<lambda>p. \<lparr>pg_items = map f (pg_items p), pg_next = pg_next p\<rparr>) (search pid)"
  shows "collect_pages k search' pid = map_option (map_sum id (map f)) (collect_pages k search pid)"
proof (induction k arbitrary: pid)
  case (Suc k)
  show ?case
  proof (cases "search pid")
    case (Inr p)
    show ?thesis
    proof (cases "pg_next p")
      case (Some q)
      with Inr Suc show ?thesis by (cases "collect_pages k search (Some q)"; cases "the (collect_pages k search (Some q))") (auto simp: assms)
    qed (use Inr in \<open>simp add: assms\<close>)
  qed (simp add: assms)
qed simp

end
