(* ===== verification/App_Conversations.thy ===== *)
theory App_Conversations
  imports App_Paging Event_Codec Fn_Calls
begin

text \<open>
  \<open>openhands/app_server/app_conversation/sql_app_conversation_info_service.py\<close> and, for several users,
  \<open>enterprise/server/utils/saas_app_conversation_info_injector.py\<close>: the table of conversations. A UUID is its text in
  the canonical form, a time a rational number. A row of the user's table says who owns a conversation.

  Parameters: how the database orders and compares (\<open>db_env\<close>), the clock.
\<close>

section \<open>Data\<close>

datatype provider_type = PT_GITHUB | PT_GITLAB | PT_BITBUCKET | PT_FORGEJO | PT_AZURE_DEVOPS | PT_ENTERPRISE_SSO

fun provider_value :: "provider_type \<Rightarrow> string" where
  "provider_value PT_GITHUB = ''github''"
| "provider_value PT_GITLAB = ''gitlab''"
| "provider_value PT_BITBUCKET = ''bitbucket''"
| "provider_value PT_FORGEJO = ''forgejo''"
| "provider_value PT_AZURE_DEVOPS = ''azure_devops''"
| "provider_value PT_ENTERPRISE_SSO = ''enterprise_sso''"

definition provider_of :: "string \<Rightarrow> provider_type option" where
  "provider_of s = find (\<lambda>p. provider_value p = s)
     [PT_GITHUB, PT_GITLAB, PT_BITBUCKET, PT_FORGEJO, PT_AZURE_DEVOPS, PT_ENTERPRISE_SSO]"

datatype conversation_trigger =
  TR_RESOLVER | TR_GUI | TR_SUGGESTED_TASK | TR_REMOTE_API_KEY | TR_SLACK | TR_MICROAGENT_MANAGEMENT | TR_JIRA | TR_JIRA_DC |
  TR_LINEAR | TR_BITBUCKET

fun trigger_value :: "conversation_trigger \<Rightarrow> string" where
  "trigger_value TR_RESOLVER = ''resolver''"
| "trigger_value TR_GUI = ''gui''"
| "trigger_value TR_SUGGESTED_TASK = ''suggested_task''"
| "trigger_value TR_REMOTE_API_KEY = ''openhands_api''"
| "trigger_value TR_SLACK = ''slack''"
| "trigger_value TR_MICROAGENT_MANAGEMENT = ''microagent_management''"
| "trigger_value TR_JIRA = ''jira''"
| "trigger_value TR_JIRA_DC = ''jira_dc''"
| "trigger_value TR_LINEAR = ''linear''"
| "trigger_value TR_BITBUCKET = ''bitbucket''"

definition trigger_of :: "string \<Rightarrow> conversation_trigger option" where
  "trigger_of s = find (\<lambda>t. trigger_value t = s)
     [TR_RESOLVER, TR_GUI, TR_SUGGESTED_TASK, TR_REMOTE_API_KEY, TR_SLACK, TR_MICROAGENT_MANAGEMENT, TR_JIRA, TR_JIRA_DC,
      TR_LINEAR, TR_BITBUCKET]"

record usage_snapshot =
  su_prompt_tokens :: int
  su_completion_tokens :: int
  su_cache_read_tokens :: int
  su_cache_write_tokens :: int
  su_reasoning_tokens :: int
  su_context_window :: int
  su_per_turn_token :: int

record metrics_snapshot =
  sn_accumulated_cost :: rat
  sn_max_budget :: "rat option"
  sn_usage :: "usage_snapshot option"

record conversation_info =
  ci_id :: string
  ci_created_by :: "string option"
  ci_sandbox_id :: string
  ci_repository :: "string option"
  ci_branch :: "string option"
  ci_git_provider :: "provider_type option"
  ci_title :: "string option"
  ci_trigger :: "conversation_trigger option"
  ci_pr_number :: "int list"
  ci_llm_model :: "string option"
  ci_metrics :: "metrics_snapshot option"
  ci_parent :: "string option"
  ci_sub_ids :: "string list"
  ci_public :: "bool option"
  ci_created_at :: rat
  ci_updated_at :: rat

text \<open>\<open>StoredConversationMetadata\<close>\<close>

record stored_conversation =
  sc_id :: string
  sc_repository :: "string option"
  sc_branch :: "string option"
  sc_git_provider :: "string option"
  sc_title :: "string option"
  sc_updated_at :: rat
  sc_created_at :: rat
  sc_trigger :: "string option"
  sc_pr_number :: "int list"
  sc_cost :: rat
  sc_prompt_tokens :: int
  sc_completion_tokens :: int
  sc_total_tokens :: int
  sc_max_budget :: "rat option"
  sc_cache_read_tokens :: int
  sc_cache_write_tokens :: int
  sc_reasoning_tokens :: int
  sc_context_window :: int
  sc_per_turn_token :: int
  sc_llm_model :: "string option"
  sc_version :: string
  sc_sandbox_id :: "string option"
  sc_parent :: "string option"
  sc_public :: "bool option"

text \<open>\<open>StoredConversationMetadataSaas\<close>\<close>

record conversation_owner =
  co_conversation_id :: string
  co_user_id :: string
  co_org_id :: string

record app_db =
  ad_conversations :: "stored_conversation list"
  ad_owners :: "conversation_owner list"
  ad_users :: "(string \<times> string) list"

definition assertion_exn :: exn where
  "assertion_exn = mk_exn ''AssertionError'' OtherError []"

definition value_exn :: "string \<Rightarrow> exn" where
  "value_exn m = mk_exn ''ValueError'' ValueError m"

section \<open>Queries\<close>

definition secure_select :: "app_db \<Rightarrow> stored_conversation list" where
  "secure_select db = filter (\<lambda>c. sc_version c = ''V1'') (ad_conversations db)"

text \<open>The inner join of the two tables on the conversation\<close>

definition join_owners :: "app_db \<Rightarrow> (stored_conversation \<times> conversation_owner) list" where
  "join_owners db = concat (map (\<lambda>c. map (Pair c) (filter (\<lambda>o1. co_conversation_id o1 = sc_id c) (ad_owners db))) (ad_conversations db))"

definition saas_select :: "string option \<Rightarrow> app_db \<Rightarrow> (stored_conversation \<times> conversation_owner) list" where
  "saas_select user db =
     filter (\<lambda>(c, o1). sc_version c = ''V1'' \<and> (case user of Some u \<Rightarrow> u = [] \<or> co_user_id o1 = u | None \<Rightarrow> True)) (join_owners db)"

record conv_filter =
  cf_title_contains :: "string option"
  cf_created_gte :: "rat option"
  cf_created_lt :: "rat option"
  cf_updated_gte :: "rat option"
  cf_updated_lt :: "rat option"

definition holds :: "('a \<Rightarrow> bool) \<Rightarrow> 'a option \<Rightarrow> bool" where
  "holds P x = (case x of None \<Rightarrow> True | Some v \<Rightarrow> P v)"

definition passes :: "'r db_env \<Rightarrow> conv_filter \<Rightarrow> stored_conversation \<Rightarrow> bool" where
  "passes env f c \<longleftrightarrow>
     holds (\<lambda>t. case sc_title c of None \<Rightarrow> False | Some s \<Rightarrow> de_like env (''%'' @ t @ ''%'') s) (cf_title_contains f) \<and>
     holds (\<lambda>t. t \<le> sc_created_at c) (cf_created_gte f) \<and> holds (\<lambda>t. sc_created_at c < t) (cf_created_lt f) \<and>
     holds (\<lambda>t. t \<le> sc_updated_at c) (cf_updated_gte f) \<and> holds (\<lambda>t. sc_updated_at c < t) (cf_updated_lt f)"

datatype conv_sort = By_created | By_created_desc | By_updated | By_updated_desc | By_title | By_title_desc

definition sort_desc :: "conv_sort \<Rightarrow> bool" where
  "sort_desc s \<longleftrightarrow> s \<in> {By_created_desc, By_updated_desc, By_title_desc}"

fun conv_key :: "conv_sort \<Rightarrow> stored_conversation \<Rightarrow> sort_key" where
  "conv_key By_created c = Key_time (sc_created_at c)"
| "conv_key By_created_desc c = Key_time (sc_created_at c)"
| "conv_key By_updated c = Key_time (sc_updated_at c)"
| "conv_key By_updated_desc c = Key_time (sc_updated_at c)"
| "conv_key By_title c = Key_text (sc_title c)"
| "conv_key By_title_desc c = Key_text (sc_title c)"

section \<open>Reading\<close>

text \<open>The usage that is rebuilt; the reasoning tokens are not passed, so they are the default.\<close>

definition usage_of :: "stored_conversation \<Rightarrow> usage_snapshot" where
  "usage_of c =
     \<lparr>su_prompt_tokens = sc_prompt_tokens c, su_completion_tokens = sc_completion_tokens c,
      su_cache_read_tokens = sc_cache_read_tokens c, su_cache_write_tokens = sc_cache_write_tokens c,
      su_reasoning_tokens = 0, su_context_window = sc_context_window c, su_per_turn_token = sc_per_turn_token c\<rparr>"

definition parse_opt :: "(string \<Rightarrow> 'a option) \<Rightarrow> string option \<Rightarrow> exn + 'a option" where
  "parse_opt parse s =
     (case s of
        None \<Rightarrow> Inr None
      | Some t \<Rightarrow> if t = [] then Inr None else (case parse t of None \<Rightarrow> Inl (value_exn t) | Some v \<Rightarrow> Inr (Some v)))"

definition to_info :: "stored_conversation \<Rightarrow> string list \<Rightarrow> exn + conversation_info" where
  "to_info c sub_ids =
     (case sc_sandbox_id c of
        None \<Rightarrow> Inl assertion_exn
      | Some sandbox \<Rightarrow>
          sbind (parse_opt provider_of (sc_git_provider c)) (\<lambda>provider.
          sbind (parse_opt trigger_of (sc_trigger c)) (\<lambda>trigger.
            Inr \<lparr>ci_id = sc_id c, ci_created_by = None, ci_sandbox_id = sandbox, ci_repository = sc_repository c,
                 ci_branch = sc_branch c, ci_git_provider = provider, ci_title = sc_title c, ci_trigger = trigger,
                 ci_pr_number = sc_pr_number c, ci_llm_model = sc_llm_model c,
                 ci_metrics = Some \<lparr>sn_accumulated_cost = sc_cost c, sn_max_budget = sc_max_budget c, sn_usage = Some (usage_of c)\<rparr>,
                 ci_parent = (if sc_parent c = Some [] then None else sc_parent c), ci_sub_ids = sub_ids,
                 ci_public = sc_public c, ci_created_at = sc_created_at c, ci_updated_at = sc_updated_at c\<rparr>)))"

definition to_info_with_user_id :: "stored_conversation \<times> conversation_owner \<Rightarrow> string list \<Rightarrow> exn + conversation_info" where
  "to_info_with_user_id = (\<lambda>(c, o1) sub_ids.
     map_sum id (\<lambda>i. i\<lparr>ci_created_by := (if co_user_id o1 = [] then None else Some (co_user_id o1))\<rparr>) (to_info c sub_ids))"

definition page_of :: "('r \<Rightarrow> exn + 'a) \<Rightarrow> 'r page \<Rightarrow> exn + 'a page" where
  "page_of f p = map_sum id (\<lambda>items. \<lparr>pg_items = items, pg_next = pg_next p\<rparr>) (traverse f (pg_items p))"

definition searched_rows ::
    "'r db_env \<Rightarrow> int \<Rightarrow> ('r \<Rightarrow> stored_conversation) \<Rightarrow> conv_filter \<Rightarrow> conv_sort \<Rightarrow> bool \<Rightarrow> 'r list \<Rightarrow> 'r list" where
  "searched_rows env q conv f order include_sub rows =
     de_order env q (sort_desc order) (conv_key order \<circ> conv)
       (filter (\<lambda>r. (include_sub \<or> sc_parent (conv r) = None) \<and> passes env f (conv r)) rows)"

definition search_app_conversation_info ::
    "stored_conversation db_env \<Rightarrow> app_db \<Rightarrow> conv_filter \<Rightarrow> conv_sort \<Rightarrow> string option \<Rightarrow> nat \<Rightarrow> bool \<Rightarrow>
      exn + conversation_info page" where
  "search_app_conversation_info env db f order page_id limit include_sub =
     sbind (fetch_page env page_id limit (searched_rows env (page_offset page_id) id f order include_sub (secure_select db)))
       (page_of (\<lambda>c. to_info c []))"

definition saas_search_app_conversation_info ::
    "(stored_conversation \<times> conversation_owner) db_env \<Rightarrow> string option \<Rightarrow> app_db \<Rightarrow> conv_filter \<Rightarrow> conv_sort \<Rightarrow>
      string option \<Rightarrow> nat \<Rightarrow> bool \<Rightarrow> exn + conversation_info page" where
  "saas_search_app_conversation_info env user db f order page_id limit include_sub =
     sbind (fetch_page env page_id limit (searched_rows env (page_offset page_id) fst f order include_sub (saas_select user db)))
       (page_of (\<lambda>r. to_info_with_user_id r []))"

definition count_app_conversation_info :: "'r db_env \<Rightarrow> app_db \<Rightarrow> conv_filter \<Rightarrow> nat" where
  "count_app_conversation_info env db f = length (filter (passes env f) (secure_select db))"

definition get_sub_conversation_ids :: "app_db \<Rightarrow> string \<Rightarrow> string list" where
  "get_sub_conversation_ids db parent = map sc_id (filter (\<lambda>c. sc_parent c = Some parent) (secure_select db))"

definition saas_sub_conversation_ids :: "string option \<Rightarrow> app_db \<Rightarrow> string \<Rightarrow> string list" where
  "saas_sub_conversation_ids user db parent =
     map (sc_id \<circ> fst) (filter (\<lambda>(c, _). sc_parent c = Some parent) (saas_select user db))"

text \<open>\<open>scalar_one_or_none\<close>: several rows are an error\<close>

definition scalar_one_or_none :: "'a list \<Rightarrow> exn + 'a option" where
  "scalar_one_or_none xs = (case xs of [] \<Rightarrow> Inr None | [x] \<Rightarrow> Inr (Some x) | _ \<Rightarrow> Inl (mk_exn ''MultipleResultsFound'' OtherError []))"

definition get_app_conversation_info :: "app_db \<Rightarrow> string \<Rightarrow> exn + conversation_info option" where
  "get_app_conversation_info db cid =
     sbind (scalar_one_or_none (filter (\<lambda>c. sc_id c = cid) (secure_select db))) (\<lambda>found.
       case found of
         None \<Rightarrow> Inr None
       | Some c \<Rightarrow> map_sum id Some (to_info c (get_sub_conversation_ids db cid)))"

definition saas_get_app_conversation_info :: "string option \<Rightarrow> app_db \<Rightarrow> string \<Rightarrow> exn + conversation_info option" where
  "saas_get_app_conversation_info user db cid =
     (case filter (\<lambda>(c, _). sc_id c = cid) (saas_select user db) of
        [] \<Rightarrow> Inr None
      | r # _ \<Rightarrow> map_sum id Some (to_info_with_user_id r (saas_sub_conversation_ids user db cid)))"

text \<open>The last of the rows with an id is taken, as the dictionary keeps it.\<close>

definition batch_get_app_conversation_info :: "app_db \<Rightarrow> string list \<Rightarrow> exn + conversation_info option list" where
  "batch_get_app_conversation_info db ids =
     traverse (\<lambda>cid.
       case rev (filter (\<lambda>c. sc_id c = cid \<and> sc_id c \<in> set ids) (secure_select db)) of
         [] \<Rightarrow> Inr None
       | c # _ \<Rightarrow> map_sum id Some (to_info c (get_sub_conversation_ids db cid))) ids"

definition saas_batch_get_app_conversation_info ::
    "string option \<Rightarrow> app_db \<Rightarrow> string list \<Rightarrow> exn + conversation_info option list" where
  "saas_batch_get_app_conversation_info user db ids =
     traverse (\<lambda>cid.
       case rev (filter (\<lambda>(c, _). sc_id c = cid \<and> sc_id c \<in> set ids) (saas_select user db)) of
         [] \<Rightarrow> Inr None
       | r # _ \<Rightarrow> map_sum id Some (to_info_with_user_id r (saas_sub_conversation_ids user db cid))) ids"

section \<open>Writing\<close>

definition no_usage :: usage_snapshot where
  "no_usage = \<lparr>su_prompt_tokens = 0, su_completion_tokens = 0, su_cache_read_tokens = 0, su_cache_write_tokens = 0,
     su_reasoning_tokens = 0, su_context_window = 0, su_per_turn_token = 0\<rparr>"

definition no_metrics :: metrics_snapshot where
  "no_metrics = \<lparr>sn_accumulated_cost = 0, sn_max_budget = None, sn_usage = None\<rparr>"

text \<open>The row of an info; what the row does not set stays as it was, or is zero.\<close>

definition stored_of :: "int \<Rightarrow> conversation_info \<Rightarrow> stored_conversation" where
  "stored_of reasoning i =
     (let m = (case ci_metrics i of None \<Rightarrow> no_metrics | Some m \<Rightarrow> m);
          u = (case sn_usage m of None \<Rightarrow> no_usage | Some u \<Rightarrow> u)
      in \<lparr>sc_id = ci_id i, sc_repository = ci_repository i, sc_branch = ci_branch i,
          sc_git_provider = map_option provider_value (ci_git_provider i), sc_title = ci_title i,
          sc_updated_at = ci_updated_at i, sc_created_at = ci_created_at i,
          sc_trigger = map_option trigger_value (ci_trigger i), sc_pr_number = ci_pr_number i,
          sc_cost = sn_accumulated_cost m, sc_prompt_tokens = su_prompt_tokens u, sc_completion_tokens = su_completion_tokens u,
          sc_total_tokens = 0, sc_max_budget = sn_max_budget m, sc_cache_read_tokens = su_cache_read_tokens u,
          sc_cache_write_tokens = su_cache_write_tokens u, sc_reasoning_tokens = reasoning,
          sc_context_window = su_context_window u, sc_per_turn_token = su_per_turn_token u, sc_llm_model = ci_llm_model i,
          sc_version = ''V1'', sc_sandbox_id = Some (ci_sandbox_id i),
          sc_parent = (if ci_parent i = Some [] then None else ci_parent i), sc_public = ci_public i\<rparr>)"

text \<open>\<open>merge\<close> by primary key\<close>

definition upsert :: "('r \<Rightarrow> 'k) \<Rightarrow> 'r \<Rightarrow> 'r list \<Rightarrow> 'r list" where
  "upsert key r rows = (if key r \<in> key ` set rows then map (\<lambda>x. if key x = key r then r else x) rows else rows @ [r])"

definition save_app_conversation_info :: "conversation_info \<Rightarrow> app_db \<Rightarrow> app_db" where
  "save_app_conversation_info i db =
     db\<lparr>ad_conversations := upsert sc_id
          (stored_of (case find (\<lambda>c. sc_id c = ci_id i) (ad_conversations db) of None \<Rightarrow> 0 | Some c \<Rightarrow> sc_reasoning_tokens c) i)
          (ad_conversations db)\<rparr>"

text \<open>The base class has committed before the owner is checked.\<close>

definition saas_save_app_conversation_info :: "string option \<Rightarrow> conversation_info \<Rightarrow> app_db \<Rightarrow> exn option \<times> app_db" where
  "saas_save_app_conversation_info user i db =
     (let db1 = save_app_conversation_info i db
      in case user of
           None \<Rightarrow> (None, db1)
         | Some u \<Rightarrow>
             if u = [] then (None, db1)
             else (case map_of (ad_users db) u of
                     None \<Rightarrow> (Some assertion_exn, db1)
                   | Some org \<Rightarrow>
                       (case filter (\<lambda>o1. co_conversation_id o1 = ci_id i) (ad_owners db) of
                          [] \<Rightarrow> (None, db1\<lparr>ad_owners := ad_owners db @ [\<lparr>co_conversation_id = ci_id i, co_user_id = u, co_org_id = org\<rparr>]\<rparr>)
                        | [o1] \<Rightarrow>
                            if co_user_id o1 = u \<and> co_org_id o1 = org then (None, db1) else (Some assertion_exn, db1)
                        | _ \<Rightarrow> (Some (mk_exn ''MultipleResultsFound'' OtherError []), db1))))"

text \<open>\<open>update_conversation_statistics\<close>: the cost and tokens of the service \<open>agent\<close>\<close>

record stats_metrics =
  sm_cost :: "rat option"
  sm_max_budget :: "rat option"
  sm_usage :: "usage_snapshot option"

definition or_keep :: "'a option \<Rightarrow> 'a \<Rightarrow> 'a" where
  "or_keep x v = (case x of None \<Rightarrow> v | Some y \<Rightarrow> y)"

definition apply_stats :: "stats_metrics \<Rightarrow> rat \<Rightarrow> stored_conversation \<Rightarrow> stored_conversation" where
  "apply_stats m now c =
     (let c1 = c\<lparr>sc_cost := or_keep (sm_cost m) (sc_cost c),
                 sc_max_budget := (case sm_max_budget m of None \<Rightarrow> sc_max_budget c | Some b \<Rightarrow> Some b), sc_updated_at := now\<rparr>
      in case sm_usage m of
           None \<Rightarrow> c1
         | Some u \<Rightarrow>
             c1\<lparr>sc_prompt_tokens := su_prompt_tokens u, sc_completion_tokens := su_completion_tokens u,
                sc_cache_read_tokens := su_cache_read_tokens u, sc_cache_write_tokens := su_cache_write_tokens u,
                sc_reasoning_tokens := su_reasoning_tokens u, sc_context_window := su_context_window u,
                sc_per_turn_token := su_per_turn_token u\<rparr>)"

definition update_conversation_statistics ::
    "stored_conversation list \<Rightarrow> string \<Rightarrow> (string \<times> stats_metrics) list \<Rightarrow> rat \<Rightarrow> app_db \<Rightarrow> exn option \<times> app_db" where
  "update_conversation_statistics visible cid stats now db =
     (case map_of stats ''agent'' of
        None \<Rightarrow> (None, db)
      | Some m \<Rightarrow>
          (case scalar_one_or_none (filter (\<lambda>c. sc_id c = cid) visible) of
             Inl x \<Rightarrow> (Some x, db)
           | Inr None \<Rightarrow> (None, db)
           | Inr (Some c) \<Rightarrow>
               (None, db\<lparr>ad_conversations := map (\<lambda>x. if sc_id x = cid then apply_stats m now x else x) (ad_conversations db)\<rparr>)))"

text \<open>\<open>process_stats_event\<close>: the value of the event, when it is one of statistics; errors are logged\<close>

definition process_stats_event ::
    "stored_conversation list \<Rightarrow> string \<Rightarrow> (exn + (string \<times> stats_metrics) list option) \<Rightarrow> rat \<Rightarrow> app_db \<Rightarrow> app_db" where
  "process_stats_event visible cid value now db =
     (case value of
        Inr (Some stats) \<Rightarrow> if stats = [] then db else snd (update_conversation_statistics visible cid stats now db)
      | _ \<Rightarrow> db)"

text \<open>\<open>delete_app_conversation_info\<close>, which neither class restricts to the user\<close>

definition delete_app_conversation_info :: "string \<Rightarrow> app_db \<Rightarrow> bool \<times> app_db" where
  "delete_app_conversation_info cid db =
     (list_ex (\<lambda>c. sc_id c = cid) (ad_conversations db),
      db\<lparr>ad_conversations := filter (\<lambda>c. sc_id c \<noteq> cid) (ad_conversations db)\<rparr>)"

end
