(* ===== verification/App_Properties.thy ===== *)
theory App_Properties
  imports App_Conversations
begin

text \<open>
  The properties of the conversation table: what is saved is read back, paging through a search gives what the filter
  selects, and a user sees the own conversations only; and what does not hold of writing.
\<close>

section \<open>Saving and reading\<close>

definition ids_distinct :: "app_db \<Rightarrow> bool" where
  "ids_distinct db \<longleftrightarrow> distinct (map sc_id (ad_conversations db)) \<and> distinct (map co_conversation_id (ad_owners db))"

lemma filter_key_unique: "distinct (map f xs) \<Longrightarrow> x \<in> set xs \<Longrightarrow> filter (\<lambda>y. f y = f x) xs = [x]"
proof (induction xs)
  case (Cons a xs)
  show ?case
  proof (cases "x = a")
    case True
    with Cons.prems have "filter (\<lambda>y. f y = f x) xs = []" by (auto simp: filter_empty_conv image_iff)
    with True show ?thesis by simp
  next
    case False
    with Cons show ?thesis by auto
  qed
qed simp

lemma filter_swap: "filter P (filter Q xs) = filter Q (filter P xs)"
  by (induction xs) auto

lemma upsert_keys:
  "map key (upsert key r rows) = (if key r \<in> key ` set rows then map key rows else map key rows @ [key r])"
  by (auto simp: upsert_def)

lemma upsert_distinct: "distinct (map key rows) \<Longrightarrow> distinct (map key (upsert key r rows))"
  by (auto simp: upsert_keys)

lemma upsert_in: "r \<in> set (upsert key r rows)"
  by (auto simp: upsert_def)

lemma upsert_other: "x \<in> set rows \<Longrightarrow> key x \<noteq> key r \<Longrightarrow> x \<in> set (upsert key r rows)"
  by (auto simp: upsert_def)

lemma parse_values [simp]:
  "parse_opt provider_of (map_option provider_value p) = Inr p"
  "parse_opt trigger_of (map_option trigger_value t) = Inr t"
proof -
  show "parse_opt provider_of (map_option provider_value p) = Inr p"
    by (cases p; simp add: parse_opt_def; cases "the p"; simp add: provider_of_def)
  show "parse_opt trigger_of (map_option trigger_value t) = Inr t"
    by (cases t; simp add: parse_opt_def; cases "the t"; simp add: trigger_of_def)
qed

text \<open>
  An info as it comes back: the metrics are complete but for the reasoning tokens, which are not saved, and the
  sub-conversations are those of the table
\<close>

definition complete_metrics :: "metrics_snapshot option \<Rightarrow> metrics_snapshot" where
  "complete_metrics m =
     (let s = (case m of None \<Rightarrow> no_metrics | Some s \<Rightarrow> s)
      in s\<lparr>sn_usage := Some ((case sn_usage s of None \<Rightarrow> no_usage | Some u \<Rightarrow> u)\<lparr>su_reasoning_tokens := 0\<rparr>)\<rparr>)"

definition read_back :: "string option \<Rightarrow> string list \<Rightarrow> conversation_info \<Rightarrow> conversation_info" where
  "read_back user subs i =
     i\<lparr>ci_created_by := user, ci_metrics := Some (complete_metrics (ci_metrics i)),
       ci_parent := (if ci_parent i = Some [] then None else ci_parent i), ci_sub_ids := subs\<rparr>"

lemma to_info_stored: "to_info (stored_of n i) subs = Inr (read_back None subs i)"
  by (cases i) (auto simp: to_info_def stored_of_def usage_of_def read_back_def complete_metrics_def no_usage_def Let_def
      split: option.splits)

lemma saved_row:
  assumes "ids_distinct db"
  shows "\<exists>n. filter (\<lambda>c. sc_id c = ci_id i) (ad_conversations (save_app_conversation_info i db)) = [stored_of n i] \<and>
    sc_version (stored_of n i) = ''V1''"
proof -
  let ?n = "case find (\<lambda>c. sc_id c = ci_id i) (ad_conversations db) of None \<Rightarrow> 0 | Some c \<Rightarrow> sc_reasoning_tokens c"
  have id: "sc_id (stored_of ?n i) = ci_id i" "sc_version (stored_of ?n i) = ''V1''" by (simp_all add: stored_of_def Let_def)
  have "distinct (map sc_id (ad_conversations (save_app_conversation_info i db)))"
    "stored_of ?n i \<in> set (ad_conversations (save_app_conversation_info i db))"
    using assms upsert_distinct upsert_in by (auto simp: save_app_conversation_info_def ids_distinct_def)
  from filter_key_unique [OF this] id show ?thesis by auto
qed

lemma base_read_back:
  assumes "ids_distinct db"
  shows "get_app_conversation_info (save_app_conversation_info i db) (ci_id i) =
    Inr (Some (read_back None (get_sub_conversation_ids (save_app_conversation_info i db) (ci_id i)) i))"
proof -
  obtain n where n: "filter (\<lambda>c. sc_id c = ci_id i) (ad_conversations (save_app_conversation_info i db)) = [stored_of n i]"
    "sc_version (stored_of n i) = ''V1''" using saved_row [OF assms] by blast
  have "filter (\<lambda>c. sc_id c = ci_id i) (secure_select (save_app_conversation_info i db)) = [stored_of n i]"
    unfolding secure_select_def by (subst filter_swap) (simp add: n)
  then show ?thesis by (simp add: get_app_conversation_info_def scalar_one_or_none_def to_info_stored)
qed

text \<open>The owners of a conversation that was saved\<close>

lemma join_owners_one:
  assumes "filter (\<lambda>c. sc_id c = cid) (ad_conversations db) = [c]"
  shows "filter (\<lambda>(c, _). sc_id c = cid) (join_owners db) =
    map (Pair c) (filter (\<lambda>o1. co_conversation_id o1 = cid) (ad_owners db))"
proof -
  have "filter (\<lambda>(c, _). sc_id c = cid) (concat (map (\<lambda>c. map (Pair c) (filter (\<lambda>o1. co_conversation_id o1 = sc_id c) os)) cs)) =
      concat (map (\<lambda>c. map (Pair c) (filter (\<lambda>o1. co_conversation_id o1 = cid) os)) (filter (\<lambda>c. sc_id c = cid) cs))"
    for os :: "conversation_owner list" and cs :: "stored_conversation list"
    by (induction cs) (auto simp: filter_map comp_def)
  from this [of "ad_owners db" "ad_conversations db"] assms show ?thesis by (simp add: join_owners_def)
qed

lemma saved_owner:
  assumes "ids_distinct db" "saas_save_app_conversation_info (Some u) i db = (None, db')" "u \<noteq> []"
  shows "\<exists>n o1. filter (\<lambda>(c, _). sc_id c = ci_id i) (join_owners db') = [(stored_of n i, o1)] \<and> co_user_id o1 = u \<and>
    sc_version (stored_of n i) = ''V1''"
proof -
  obtain n where n: "filter (\<lambda>c. sc_id c = ci_id i) (ad_conversations (save_app_conversation_info i db)) = [stored_of n i]"
    "sc_version (stored_of n i) = ''V1''" using saved_row [OF assms(1)] by blast
  have "filter (\<lambda>c. sc_id c = ci_id i) (ad_conversations db') = [stored_of n i] \<and>
    (\<exists>o1. filter (\<lambda>o1. co_conversation_id o1 = ci_id i) (ad_owners db') = [o1] \<and> co_user_id o1 = u)"
    using assms(2,3) n
    by (auto simp: saas_save_app_conversation_info_def save_app_conversation_info_def Let_def
        split: option.splits list.splits if_splits)
  with n(2) join_owners_one show ?thesis by fastforce
qed

lemma saas_read_back:
  assumes "ids_distinct db" "saas_save_app_conversation_info (Some u) i db = (None, db')" "u \<noteq> []"
  shows "saas_get_app_conversation_info (Some u) db' (ci_id i) =
      Inr (Some (read_back (Some u) (saas_sub_conversation_ids (Some u) db' (ci_id i)) i))"
    "v \<noteq> [] \<Longrightarrow> v \<noteq> u \<Longrightarrow> saas_get_app_conversation_info (Some v) db' (ci_id i) = Inr None"
proof -
  obtain n o1 where n: "filter (\<lambda>(c, _). sc_id c = ci_id i) (join_owners db') = [(stored_of n i, o1)]" "co_user_id o1 = u"
    "sc_version (stored_of n i) = ''V1''" using saved_owner [OF assms] by blast
  have "filter (\<lambda>(c, _). sc_id c = ci_id i) (saas_select (Some v) db') = (if v = [] \<or> v = u then [(stored_of n i, o1)] else [])" for v
    unfolding saas_select_def by (subst filter_swap) (simp add: n)
  then show "saas_get_app_conversation_info (Some u) db' (ci_id i) =
      Inr (Some (read_back (Some u) (saas_sub_conversation_ids (Some u) db' (ci_id i)) i))"
    "v \<noteq> [] \<Longrightarrow> v \<noteq> u \<Longrightarrow> saas_get_app_conversation_info (Some v) db' (ci_id i) = Inr None"
    using n(2) assms(3) by (simp_all add: saas_get_app_conversation_info_def to_info_with_user_id_def to_info_stored read_back_def)
qed

text \<open>
  C18. A conversation that a user saved is read back by that user as it was saved - title, repository, provider, trigger,
  model, costs, budget, times, and the tokens of the usage except the reasoning tokens -, with the user as its owner and
  with the sub-conversations of the table, and nobody else reads it. The reasoning tokens are neither saved nor read back:
  they come back as zero; a usage that is missing comes back as one of zeros. It assumes that ids are unique in the tables.
\<close>

theorem conversation_read_back:
  assumes "ids_distinct db" "saas_save_app_conversation_info (Some u) i db = (None, db')" "u \<noteq> []"
  shows "saas_get_app_conversation_info (Some u) db' (ci_id i) =
      Inr (Some (read_back (Some u) (saas_sub_conversation_ids (Some u) db' (ci_id i)) i)) \<and>
    (\<forall>v. v \<noteq> [] \<and> v \<noteq> u \<longrightarrow> saas_get_app_conversation_info (Some v) db' (ci_id i) = Inr None)"
  using saas_read_back [OF assms] by blast

section \<open>A table\<close>

definition demo_info :: conversation_info where
  "demo_info =
     \<lparr>ci_id = ''c1'', ci_created_by = None, ci_sandbox_id = ''s1'', ci_repository = Some ''o/r'', ci_branch = None,
      ci_git_provider = Some PT_GITLAB, ci_title = Some ''Fix'', ci_trigger = Some TR_GUI, ci_pr_number = [3], ci_llm_model = None,
      ci_metrics = None, ci_parent = None, ci_sub_ids = [], ci_public = None, ci_created_at = 5, ci_updated_at = 6\<rparr>"

definition demo_app_db :: app_db where
  "demo_app_db = \<lparr>ad_conversations = [], ad_owners = [], ad_users = [(''u1'', ''o1''), (''u2'', ''o2'')]\<rparr>"

definition demo_saved :: app_db where
  "demo_saved = snd (saas_save_app_conversation_info (Some ''u1'') demo_info demo_app_db)"

definition demo_filter :: conv_filter where
  "demo_filter = \<lparr>cf_title_contains = None, cf_created_gte = Some 1, cf_created_lt = None, cf_updated_gte = None, cf_updated_lt = None\<rparr>"

text \<open>A database that orders by insertion\<close>

fun insert_by :: "('r \<Rightarrow> 'r \<Rightarrow> bool) \<Rightarrow> 'r \<Rightarrow> 'r list \<Rightarrow> 'r list" where
  "insert_by le x [] = [x]"
| "insert_by le x (y # ys) = (if le x y then x # y # ys else y # insert_by le x ys)"

fun text_le :: "string option \<Rightarrow> string option \<Rightarrow> bool" where
  "text_le None _ = True"
| "text_le (Some _) None = False"
| "text_le (Some a) (Some b) = (a \<le> b)"

definition order_by :: "bool \<Rightarrow> ('r \<Rightarrow> sort_key) \<Rightarrow> 'r list \<Rightarrow> 'r list" where
  "order_by desc f rows =
     foldr (insert_by (\<lambda>x y. if desc then key_le text_le (f y) (f x) else key_le text_le (f x) (f y))) rows []"

definition demo_sql :: "'r db_env" where
  "demo_sql =
     \<lparr>de_order = (\<lambda>_. order_by), de_text_le = text_le, de_like = (\<lambda>p s. str_contains (butlast (tl p)) s), de_offset_error = None\<rparr>"

text \<open>The same, but rows with equal keys come in the reverse order in every query but the first\<close>

definition fickle_sql :: "'r db_env" where
  "fickle_sql = demo_sql\<lparr>de_order := (\<lambda>q desc f rows. order_by desc f (if q = 0 then rows else rev rows))\<rparr>"

lemma text_le_order: "text_le a b \<or> text_le b a" "text_le a b \<Longrightarrow> text_le b c \<Longrightarrow> text_le a c"
  by (cases a; cases b; cases c; auto)+

lemma key_le_order:
  "key_le text_le a b \<or> key_le text_le b a" "key_le text_le a b \<Longrightarrow> key_le text_le b c \<Longrightarrow> key_le text_le a c"
  by (cases a; cases b; cases c; use text_le_order in auto)+

lemma insert_by_sorted:
  assumes "\<And>x y. le x y \<or> le y x" "\<And>x y z. le x y \<Longrightarrow> le y z \<Longrightarrow> le x z"
  shows "mset (insert_by le x ys) = add_mset x (mset ys)" "sorted_wrt le ys \<Longrightarrow> sorted_wrt le (insert_by le x ys)"
proof -
  show m: "mset (insert_by le x ys) = add_mset x (mset ys)" for ys by (induction ys) auto
  have set: "set (insert_by le x ys) = insert x (set ys)" for ys using m [of ys] by (metis set_mset_add_mset_insert set_mset_mset)
  show "sorted_wrt le ys \<Longrightarrow> sorted_wrt le (insert_by le x ys)"
    by (induction ys) (use assms in \<open>auto simp: set\<close>)
qed

lemma insert_all_sorted:
  assumes "\<And>x y. le x y \<or> le y x" "\<And>x y z. le x y \<Longrightarrow> le y z \<Longrightarrow> le x z"
  shows "mset (foldr (insert_by le) rows []) = mset rows \<and> sorted_wrt le (foldr (insert_by le) rows [])"
  by (induction rows) (simp_all add: insert_by_sorted [of le, OF assms])

lemma order_by_sorted:
  "mset (order_by desc f rows) = mset rows"
  "sorted_wrt (\<lambda>x y. if desc then key_le text_le (f y) (f x) else key_le text_le (f x) (f y)) (order_by desc f rows)"
proof -
  let ?le = "\<lambda>x y. if desc then key_le text_le (f y) (f x) else key_le text_le (f x) (f y)"
  have "mset (foldr (insert_by ?le) rows []) = mset rows \<and> sorted_wrt ?le (foldr (insert_by ?le) rows [])"
  proof (rule insert_all_sorted)
    show "?le x y \<or> ?le y x" for x y using key_le_order(1) by auto
    show "?le x y \<Longrightarrow> ?le y z \<Longrightarrow> ?le x z" for x y z by (cases desc) (auto intro: key_le_order(2))
  qed
  then show "mset (order_by desc f rows) = mset rows" "sorted_wrt ?le (order_by desc f rows)" by (simp_all add: order_by_def)
qed

lemma order_by_before:
  assumes "de_text_le env = text_le"
  shows "sorted_wrt (comes_before env desc f) (order_by desc f rows)"
proof -
  have "comes_before env desc f = (\<lambda>x y. if desc then key_le text_le (f y) (f x) else key_le text_le (f x) (f y))"
    by (intro ext) (simp add: comes_before_def assms)
  with order_by_sorted(2) [of desc f rows] show ?thesis by (simp only:)
qed

lemma demo_order_law: "order_law (demo_sql :: 'r db_env)" "order_law (fickle_sql :: 'r db_env)"
proof -
  have "de_text_le (demo_sql :: 'r db_env) = text_le" "de_text_le (fickle_sql :: 'r db_env) = text_le"
    by (simp_all add: demo_sql_def fickle_sql_def)
  note b = order_by_before [OF this(1)] order_by_before [OF this(2)]
  show "order_law (demo_sql :: 'r db_env)"
    unfolding order_law_def using b(1) by (simp add: demo_sql_def order_by_sorted(1))
  show "order_law (fickle_sql :: 'r db_env)"
    unfolding order_law_def using b(2) by (simp add: fickle_sql_def order_by_sorted(1))
qed

theorem conversation_read_back_witness:
  "saas_save_app_conversation_info (Some ''u1'') demo_info demo_app_db = (None, demo_saved) \<and>
   saas_get_app_conversation_info (Some ''u1'') demo_saved ''c1'' = Inr (Some (read_back (Some ''u1'') [] demo_info)) \<and>
   saas_get_app_conversation_info (Some ''u2'') demo_saved ''c1'' = Inr None"
proof -
  have v: "ids_distinct demo_app_db" "ci_id demo_info = ''c1''" "saas_sub_conversation_ids (Some ''u1'') demo_saved ''c1'' = []" by code_simp+
  have save: "saas_save_app_conversation_info (Some ''u1'') demo_info demo_app_db = (None, demo_saved)"
    by (simp add: prod_eq_iff demo_saved_def) code_simp
  from conversation_read_back [OF v(1) save] save v(2,3) show ?thesis by simp
qed

section \<open>Paging\<close>

text \<open>The rows a search is about, as infos\<close>

definition found_infos ::
    "'r db_env \<Rightarrow> string option \<Rightarrow> app_db \<Rightarrow> conv_filter \<Rightarrow> bool \<Rightarrow> (stored_conversation \<times> conversation_owner) list" where
  "found_infos env user db f include_sub =
     filter (\<lambda>(c, _). (include_sub \<or> sc_parent c = None) \<and> passes env f c) (saas_select user db)"

lemma traverse_total: "list_all (\<lambda>x. f x = Inr (g x)) xs \<Longrightarrow> traverse f xs = Inr (map g xs)"
  by (induction xs) auto

lemma collect_pages_cong_pages:
  assumes "\<And>pid p. search pid = Inr p \<Longrightarrow> list_all P (pg_items p)" "\<And>x. P x \<Longrightarrow> f x = Inr (g x)"
    and "\<And>pid. search' pid = sbind (search pid) (page_of f)"
  shows "collect_pages k search' pid = map_option (map_sum id (map g)) (collect_pages k search pid)"
proof (rule collect_map)
  fix pid
  show "search' pid = map_sum id (\<lambda>p. \<lparr>pg_items = map g (pg_items p), pg_next = pg_next p\<rparr>) (search pid)"
  proof (cases "search pid")
    case (Inr p)
    have "list_all (\<lambda>x. f x = Inr (g x)) (pg_items p)" using assms(1) [OF Inr] assms(2) by (auto simp: list_all_iff)
    from traverse_total [OF this] Inr show ?thesis by (simp add: assms(3) page_of_def)
  qed (simp add: assms(3))
qed

lemma fetch_page_items:
  assumes "fetch_page env pid limit rows = Inr p"
  shows "set (pg_items p) \<subseteq> set rows"
  using assms
  by (auto simp: fetch_page_def sql_offset_def Let_def split: if_splits option.splits dest!: in_set_takeD dest: in_set_dropD)

text \<open>
  C31. Reading a search page by page gives every conversation that the filter selects among those the user may see
  exactly once, and all of them in the order asked for - by the times or by the title, as the database compares texts,
  upwards or downwards -, whatever the length of a page. It assumes that each query returns the rows it selected in
  the order of their keys, that no two of the selected conversations have equal keys, since the order of such rows may be
  another one on every page, and that the rows can be read.
\<close>

theorem conversations_paged:
  assumes "order_law env" "0 < limit"
    and "no_ties env (conv_key order \<circ> fst) (found_infos env user db f include_sub)"
    and "\<forall>r \<in> set (found_infos env user db f include_sub). to_info_with_user_id r [] = Inr (info r)"
  shows "\<exists>rows. collect_pages (Suc (length rows)) (\<lambda>pid. saas_search_app_conversation_info env user db f order pid limit include_sub) None =
      Some (Inr (map info rows)) \<and> mset rows = mset (found_infos env user db f include_sub) \<and>
    sorted_wrt (comes_before env (sort_desc order) (conv_key order \<circ> fst)) rows"
proof -
  define rows where "rows = searched_rows env 0 fst f order include_sub (saas_select user db)"
  have found: "filter (\<lambda>r. (include_sub \<or> sc_parent (fst r) = None) \<and> passes env f (fst r)) (saas_select user db) =
      found_infos env user db f include_sub" by (simp add: found_infos_def case_prod_unfold)
  have same: "searched_rows env q fst f order include_sub (saas_select user db) = rows" for q
    using order_unique [OF assms(1,3)] unfolding rows_def searched_rows_def found by blast
  have ord: "mset rows = mset (found_infos env user db f include_sub)"
    "sorted_wrt (comes_before env (sort_desc order) (conv_key order \<circ> fst)) rows"
    using assms(1) unfolding order_law_def rows_def searched_rows_def found by blast+
  obtain n where n: "limit = Suc n" using assms(2) by (cases limit) auto
  have "collect_pages k (\<lambda>pid. saas_search_app_conversation_info env user db f order pid limit include_sub) None =
      map_option (map_sum id (map info)) (collect_pages k (\<lambda>pid. fetch_page env pid limit rows) None)" for k
  proof (rule collect_pages_cong_pages [where P = "\<lambda>r. r \<in> set rows" and f = "\<lambda>r. to_info_with_user_id r []"])
    show "list_all (\<lambda>r. r \<in> set rows) (pg_items p)" if "fetch_page env pid limit rows = Inr p" for pid p
      using fetch_page_items [OF that] by (auto simp: list_all_iff)
    show "to_info_with_user_id r [] = Inr (info r)" if "r \<in> set rows" for r
      using that assms(4) ord(1) by (metis set_mset_mset)
    show "saas_search_app_conversation_info env user db f order pid limit include_sub =
        sbind (fetch_page env pid limit rows) (page_of (\<lambda>r. to_info_with_user_id r []))" for pid
      by (simp add: saas_search_app_conversation_info_def same)
  qed
  then have "collect_pages (Suc (length rows)) (\<lambda>pid. saas_search_app_conversation_info env user db f order pid limit include_sub) None =
      Some (Inr (map info rows))"
    using fetched.collect_all [of rows env n] by (simp add: n)
  with ord show ?thesis by blast
qed

text \<open>Two conversations of a user that were created at the same time\<close>

definition demo_two :: app_db where
  "demo_two = snd (saas_save_app_conversation_info (Some ''u1'') (demo_info\<lparr>ci_id := ''c2'', ci_title := Some ''Add''\<rparr>) demo_saved)"

abbreviation demo_found :: "(stored_conversation \<times> conversation_owner) list" where
  "demo_found \<equiv> found_infos (demo_sql :: (stored_conversation \<times> conversation_owner) db_env) (Some ''u1'') demo_two demo_filter False"

lemma demo_found_titles:
  "map (\<lambda>r. map_sum (\<lambda>_. ()) ci_title (to_info_with_user_id r [])) demo_found = [Inr (Some ''Fix''), Inr (Some ''Add'')]"
  "map (sc_title \<circ> fst) demo_found = [Some ''Fix'', Some ''Add'']"
  by code_simp+

theorem conversations_paged_witness:
  "\<exists>items. collect_pages 3 (\<lambda>pid. saas_search_app_conversation_info demo_sql (Some ''u1'') demo_two demo_filter By_title pid 1 False) None =
     Some (Inr items) \<and> map ci_title items = [Some ''Add'', Some ''Fix'']"
proof -
  let ?info = "\<lambda>r. projr (to_info_with_user_id r [])" and ?key = "conv_key By_title \<circ> fst"
  obtain r1 r2 where r: "demo_found = [r1, r2]" using demo_found_titles(2) by (auto simp: map_eq_Cons_conv)
  have t: "sc_title (fst r1) = Some ''Fix''" "sc_title (fst r2) = Some ''Add''" using demo_found_titles(2) unfolding r by auto
  have i: "to_info_with_user_id r1 [] = Inr (?info r1)" "ci_title (?info r1) = Some ''Fix''"
    "to_info_with_user_id r2 [] = Inr (?info r2)" "ci_title (?info r2) = Some ''Add''"
    using demo_found_titles(1) unfolding r by (auto simp: map_sum_def split: sum.splits)
  have lt: "''Add'' \<le> ''Fix''" "\<not> ''Fix'' \<le> ''Add''" by code_simp+
  have key: "key_le (de_text_le demo_sql) (?key r2) (?key r1)" "\<not> key_le (de_text_le demo_sql) (?key r1) (?key r2)"
    using t lt by (simp_all add: demo_sql_def)
  have "r1 \<noteq> r2" using t by auto
  then have ties: "no_ties demo_sql ?key demo_found" using key unfolding r by (auto simp: no_ties_def)
  from conversations_paged [OF demo_order_law(1) _ ties, of 1 ?info] i(1,3) obtain rows where
    rows: "collect_pages (Suc (length rows)) (\<lambda>pid. saas_search_app_conversation_info demo_sql (Some ''u1'') demo_two
      demo_filter By_title pid 1 False) None = Some (Inr (map ?info rows))" "mset rows = mset [r1, r2]"
      "sorted_wrt (comes_before demo_sql (sort_desc By_title) ?key) rows" unfolding r by auto
  from rows(2) have "length rows = 2" by (metis One_nat_def Suc_1 length_Cons list.size(3) mset_eq_length)
  then obtain a b where ab: "rows = [a, b]" by (auto simp: length_Suc_conv numeral_2_eq_2)
  with rows(2) have "a = r1 \<and> b = r2 \<or> a = r2 \<and> b = r1" by (auto simp: add_eq_conv_ex)
  with rows(3) key(2) ab have "rows = [r2, r1]" by (auto simp: comes_before_def sort_desc_def)
  have "Suc (length rows) = 3" using \<open>length rows = 2\<close> by simp
  from rows(1) [unfolded this] have "collect_pages 3 (\<lambda>pid. saas_search_app_conversation_info demo_sql (Some ''u1'') demo_two
      demo_filter By_title pid 1 False) None = Some (Inr [?info r2, ?info r1])" using \<open>rows = [r2, r1]\<close> by (simp only: list.map)
  with i(2,4) show ?thesis by simp
qed

text \<open>
  Conversations that were created at the same time: a database that keeps what \<open>ORDER BY\<close> promises may show one of them on
  two pages and the other one on none.
\<close>

theorem tied_rows_repeat:
  "order_law (fickle_sql :: (stored_conversation \<times> conversation_owner) db_env) \<and>
   map_option (map_sum (\<lambda>_. ()) (map ci_title))
     (collect_pages 3 (\<lambda>pid. saas_search_app_conversation_info fickle_sql (Some ''u1'') demo_two demo_filter By_created pid 1 False) None) =
     Some (Inr [Some ''Fix'', Some ''Fix''])"
proof
  show "order_law (fickle_sql :: (stored_conversation \<times> conversation_owner) db_env)" by (rule demo_order_law)
  show "map_option (map_sum (\<lambda>_. ()) (map ci_title))
     (collect_pages 3 (\<lambda>pid. saas_search_app_conversation_info fickle_sql (Some ''u1'') demo_two demo_filter By_created pid 1 False) None) =
     Some (Inr [Some ''Fix'', Some ''Fix''])" by code_simp
qed

section \<open>Who sees what\<close>

definition owned :: "string \<Rightarrow> app_db \<Rightarrow> string \<Rightarrow> bool" where
  "owned u db cid \<longleftrightarrow> (\<exists>o1 \<in> set (ad_owners db). co_conversation_id o1 = cid \<and> co_user_id o1 = u)"

lemma select_owned:
  assumes "(c, o1) \<in> set (saas_select (Some u) db)" "u \<noteq> []"
  shows "owned u db (sc_id c)" "co_user_id o1 = u"
  using assms by (auto simp: saas_select_def join_owners_def owned_def)

lemma subs_owned: "u \<noteq> [] \<Longrightarrow> list_all (owned u db) (saas_sub_conversation_ids (Some u) db cid)"
  using select_owned by (fastforce simp: saas_sub_conversation_ids_def list_all_iff)

lemma to_info_id: "to_info c subs = Inr i \<Longrightarrow> ci_id i = sc_id c \<and> ci_sub_ids i = subs"
  by (auto simp: to_info_def sbind_Inr_iff split: option.splits)

definition visible_to :: "string \<Rightarrow> app_db \<Rightarrow> conversation_info \<Rightarrow> bool" where
  "visible_to u db i \<longleftrightarrow> ci_created_by i = Some u \<and> owned u db (ci_id i) \<and> list_all (owned u db) (ci_sub_ids i)"

lemma info_visible:
  assumes "to_info_with_user_id r subs = Inr i" "r \<in> set (saas_select (Some u) db)" "u \<noteq> []" "list_all (owned u db) subs"
  shows "visible_to u db i"
proof -
  obtain c o1 where r: "r = (c, o1)" by force
  from assms(1) obtain j where j: "to_info c subs = Inr j" "i = j\<lparr>ci_created_by := (if co_user_id o1 = [] then None else Some (co_user_id o1))\<rparr>"
    by (auto simp: to_info_with_user_id_def r map_sum_def split: sum.splits)
  with to_info_id [OF j(1)] select_owned [of c o1 u db] assms(2-4) show ?thesis by (auto simp: visible_to_def r)
qed

lemma order_rows: "order_law env \<Longrightarrow> set (de_order env q desc f rows) = set rows"
  unfolding order_law_def by (metis set_mset_mset)

lemma map_sum_Inr_iff: "map_sum f g x = Inr y \<longleftrightarrow> (\<exists>z. x = Inr z \<and> y = g z)"
  by (cases x) auto

lemma traverse_in: "traverse f xs = Inr ys \<Longrightarrow> y \<in> set ys \<Longrightarrow> \<exists>x \<in> set xs. f x = Inr y"
  by (induction xs arbitrary: ys) (auto simp: and_then_def split: sum.splits)

text \<open>
  C17. A user sees the own conversations only: whatever a user of a server with several users gets - a page of a search, a
  conversation by its id, or several of them - is a conversation that the table of owners gives to this user, says so,
  and names only sub-conversations of this user; and statistics change no conversation of anybody else.
\<close>

theorem conversations_isolated:
  assumes "u \<noteq> []" "order_law env"
  shows "(\<forall>p. saas_search_app_conversation_info env (Some u) db f order pid limit include_sub = Inr p \<longrightarrow>
      list_all (visible_to u db) (pg_items p)) \<and>
    (\<forall>i. saas_get_app_conversation_info (Some u) db cid = Inr (Some i) \<longrightarrow> visible_to u db i) \<and>
    (\<forall>is. saas_batch_get_app_conversation_info (Some u) db ids = Inr is \<longrightarrow> (\<forall>i. Some i \<in> set is \<longrightarrow> visible_to u db i)) \<and>
    (\<forall>c \<in> set (ad_conversations db). \<not> owned u db (sc_id c) \<longrightarrow>
      c \<in> set (ad_conversations (process_stats_event (map fst (saas_select (Some u) db)) cid value now db)))"
proof (intro conjI allI impI ballI)
  fix p assume "saas_search_app_conversation_info env (Some u) db f order pid limit include_sub = Inr p"
  then obtain q where q: "fetch_page env pid limit (searched_rows env (page_offset pid) fst f order include_sub (saas_select (Some u) db)) = Inr q"
    "traverse (\<lambda>r. to_info_with_user_id r []) (pg_items q) = Inr (pg_items p)"
    by (auto simp: saas_search_app_conversation_info_def sbind_Inr_iff page_of_def map_sum_Inr_iff)
  have "visible_to u db i" if i: "i \<in> set (pg_items p)" for i
  proof -
    obtain r where r: "r \<in> set (pg_items q)" "to_info_with_user_id r [] = Inr i" using traverse_in [OF q(2) i] by blast
    then have "r \<in> set (saas_select (Some u) db)" using fetch_page_items [OF q(1)] order_rows [OF assms(2)]
      by (auto simp: searched_rows_def)
    with info_visible [OF r(2) _ assms(1)] show ?thesis by simp
  qed
  then show "list_all (visible_to u db) (pg_items p)" by (simp add: list_all_iff)
next
  fix i assume "saas_get_app_conversation_info (Some u) db cid = Inr (Some i)"
  then obtain r rs where r: "filter (\<lambda>(c, _). sc_id c = cid) (saas_select (Some u) db) = r # rs"
    "to_info_with_user_id r (saas_sub_conversation_ids (Some u) db cid) = Inr i"
    by (auto simp: saas_get_app_conversation_info_def map_sum_Inr_iff split: list.splits)
  have "r \<in> set (saas_select (Some u) db)" using arg_cong [OF r(1), of set] by auto
  with info_visible [OF r(2) _ assms(1) subs_owned [OF assms(1)]] show "visible_to u db i" by blast
next
  fix "is" i assume "saas_batch_get_app_conversation_info (Some u) db ids = Inr is" "Some i \<in> set is"
  from traverse_in [OF this(1) [unfolded saas_batch_get_app_conversation_info_def] this(2)] obtain cid' where
    c: "(case rev (filter (\<lambda>(c, _). sc_id c = cid' \<and> sc_id c \<in> set ids) (saas_select (Some u) db)) of
         [] \<Rightarrow> Inr None
       | r # _ \<Rightarrow> map_sum id Some (to_info_with_user_id r (saas_sub_conversation_ids (Some u) db cid'))) = Inr (Some i)" by blast
  then obtain r rs where r: "rev (filter (\<lambda>(c, _). sc_id c = cid' \<and> sc_id c \<in> set ids) (saas_select (Some u) db)) = r # rs"
    by (cases "rev (filter (\<lambda>(c, _). sc_id c = cid' \<and> sc_id c \<in> set ids) (saas_select (Some u) db))") auto
  have "to_info_with_user_id r (saas_sub_conversation_ids (Some u) db cid') = Inr i" using c unfolding r by (simp add: map_sum_Inr_iff)
  moreover have "r \<in> set (saas_select (Some u) db)" using arg_cong [OF r, of set] by auto
  ultimately show "visible_to u db i" using info_visible assms(1) subs_owned [OF assms(1)] by blast
next
  fix c assume c: "c \<in> set (ad_conversations db)" "\<not> owned u db (sc_id c)"
  have "owned u db cid" if "scalar_one_or_none (filter (\<lambda>c. sc_id c = cid) (map fst (saas_select (Some u) db))) = Inr (Some x)" for x
  proof -
    have "x \<in> set (filter (\<lambda>c. sc_id c = cid) (map fst (saas_select (Some u) db)))"
      using that unfolding scalar_one_or_none_def by (cases "filter (\<lambda>c. sc_id c = cid) (map fst (saas_select (Some u) db))" rule: list.exhaust)
        (auto simp del: set_filter set_map split: list.splits)
    then show ?thesis using select_owned(1) [OF _ assms(1)] by fastforce
  qed
  with c show "c \<in> set (ad_conversations (process_stats_event (map fst (saas_select (Some u) db)) cid value now db))"
    by (force simp: process_stats_event_def update_conversation_statistics_def split: sum.splits option.splits if_splits)
qed

theorem conversations_isolated_witness:
  "saas_get_app_conversation_info (Some ''u1'') demo_saved ''c1'' = Inr (Some (read_back (Some ''u1'') [] demo_info)) \<and>
   visible_to ''u1'' demo_saved (read_back (Some ''u1'') [] demo_info)"
proof -
  have g: "saas_get_app_conversation_info (Some ''u1'') demo_saved ''c1'' = Inr (Some (read_back (Some ''u1'') [] demo_info))" by code_simp
  from conversations_isolated [of "''u1''" demo_sql demo_saved] demo_order_law(1) g show ?thesis by blast
qed

section \<open>What writing does not check\<close>

text \<open>
  Saving a conversation under the id of somebody else's is refused, but only after it was written: the exception is
  raised, and the owner of the conversation reads what the other user saved.
\<close>

theorem foreign_save_overwrites:
  assumes "ids_distinct db" "u \<noteq> []" "v \<noteq> []" "u \<noteq> v" "map_of (ad_users db) u = Some org"
    and "filter (\<lambda>o1. co_conversation_id o1 = ci_id i) (ad_owners db) = [o1]" "co_user_id o1 = v"
  shows "\<exists>db'. saas_save_app_conversation_info (Some u) i db = (Some assertion_exn, db') \<and>
    saas_get_app_conversation_info (Some v) db' (ci_id i) =
      Inr (Some (read_back (Some v) (saas_sub_conversation_ids (Some v) db' (ci_id i)) i))"
proof -
  let ?db = "save_app_conversation_info i db"
  have save: "saas_save_app_conversation_info (Some u) i db = (Some assertion_exn, ?db)"
    using assms by (simp add: saas_save_app_conversation_info_def)
  obtain n where n: "filter (\<lambda>c. sc_id c = ci_id i) (ad_conversations ?db) = [stored_of n i]" "sc_version (stored_of n i) = ''V1''"
    using saved_row [OF assms(1)] by blast
  have "filter (\<lambda>(c, _). sc_id c = ci_id i) (join_owners ?db) = [(stored_of n i, o1)]"
    using join_owners_one [OF n(1)] assms(6) by (simp add: save_app_conversation_info_def)
  then have "filter (\<lambda>(c, _). sc_id c = ci_id i) (saas_select (Some v) ?db) = [(stored_of n i, o1)]"
    unfolding saas_select_def by (subst filter_swap) (simp add: n assms(7))
  with save assms(3,7) show ?thesis
    by (simp add: saas_get_app_conversation_info_def to_info_with_user_id_def to_info_stored read_back_def)
qed

theorem foreign_save_overwrites_witness:
  "\<exists>db'. saas_save_app_conversation_info (Some ''u2'') (demo_info\<lparr>ci_title := Some ''Gone''\<rparr>) demo_saved = (Some assertion_exn, db') \<and>
     saas_get_app_conversation_info (Some ''u1'') db' ''c1'' =
       Inr (Some (read_back (Some ''u1'') (saas_sub_conversation_ids (Some ''u1'') db' ''c1'') (demo_info\<lparr>ci_title := Some ''Gone''\<rparr>)))"
proof -
  have v: "ids_distinct demo_saved" "map_of (ad_users demo_saved) ''u2'' = Some ''o2''"
    "filter (\<lambda>o1. co_conversation_id o1 = ci_id (demo_info\<lparr>ci_title := Some ''Gone''\<rparr>)) (ad_owners demo_saved) =
       [\<lparr>co_conversation_id = ''c1'', co_user_id = ''u1'', co_org_id = ''o1''\<rparr>]"
    "ci_id (demo_info\<lparr>ci_title := Some ''Gone''\<rparr>) = ''c1''" by code_simp+
  from foreign_save_overwrites [OF v(1) _ _ _ v(2,3), of "''u1''"] v(4) show ?thesis by simp
qed

end
