(* ===== verification/App_Events.thy ===== *)
theory App_Events
  imports App_Conversations
begin

text \<open>
  \<open>openhands/app_server/event/event_service_base.py\<close> and \<open>filesystem_event_service.py\<close>: the events of a conversation as
  files, one per event. A path is the list of its parts; the file system keeps its files in an order of its own.

  Parameters: the events of the agent SDK, of any type, with their kind, time and id and their JSON text.
\<close>

record 'e event_env =
  ee_kind :: "'e \<Rightarrow> string"
  ee_time :: "'e \<Rightarrow> rat"
  ee_id :: "'e \<Rightarrow> string"
  ee_dump :: "'e \<Rightarrow> string"
  ee_validate :: "string \<Rightarrow> 'e option"

type_synonym files = "(string list \<times> string) list"

section \<open>Paths\<close>

record event_service =
  es_prefix :: "string list"
  es_user_id :: "string option"

text \<open>\<open>uuid.hex\<close>\<close>

definition hex_of :: "string \<Rightarrow> string" where
  "hex_of i = filter (\<lambda>c. c \<noteq> CHR ''-'') i"

text \<open>\<open>get_conversation_path\<close>; the last argument is what the conversation table knows, when the service has one\<close>

definition get_conversation_path :: "event_service \<Rightarrow> conversation_info option \<Rightarrow> string \<Rightarrow> string list" where
  "get_conversation_path es info cid =
     es_prefix es @
     (if es_user_id es \<noteq> None \<and> es_user_id es \<noteq> Some [] then [the (es_user_id es)]
      else (case info of
              None \<Rightarrow> []
            | Some i \<Rightarrow> (case ci_created_by i of None \<Rightarrow> [] | Some u \<Rightarrow> if u = [] then [] else [u]))) @
     [''v1_conversations'', hex_of cid]"

definition event_path :: "string list \<Rightarrow> string \<Rightarrow> string list" where
  "event_path dir eid = dir @ [hex_of eid @ ''.json'']"

section \<open>Files\<close>

definition load_event :: "'e event_env \<Rightarrow> files \<Rightarrow> string list \<Rightarrow> 'e option" where
  "load_event env fs path = (case map_of fs path of None \<Rightarrow> None | Some text \<Rightarrow> ee_validate env text)"

definition store_event :: "'e event_env \<Rightarrow> string list \<Rightarrow> 'e \<Rightarrow> files \<Rightarrow> files" where
  "store_event env path e fs = alist_set path (ee_dump env e) fs"

text \<open>\<open>glob\<close> of a directory: its files that are not hidden\<close>

definition search_paths :: "files \<Rightarrow> string list \<Rightarrow> string list list" where
  "search_paths fs dir =
     filter (\<lambda>p. p \<noteq> [] \<and> butlast p = dir \<and> \<not> str_startswith (last p) ''.'') (map fst fs)"

section \<open>The service\<close>

definition save_event :: "'e event_env \<Rightarrow> string list \<Rightarrow> 'e \<Rightarrow> files \<Rightarrow> files" where
  "save_event env dir e = store_event env (event_path dir (ee_id env e)) e"

definition get_app_event :: "'e event_env \<Rightarrow> string list \<Rightarrow> string \<Rightarrow> files \<Rightarrow> 'e option" where
  "get_app_event env dir eid fs = load_event env fs (event_path dir eid)"

definition batch_get_events :: "'e event_env \<Rightarrow> string list \<Rightarrow> string list \<Rightarrow> files \<Rightarrow> 'e option list" where
  "batch_get_events env dir ids fs = map (\<lambda>i. get_app_event env dir i fs) ids"

record app_event_filter =
  ef_kind :: "string option"
  ef_gte :: "rat option"
  ef_lt :: "rat option"

definition event_passes :: "'e event_env \<Rightarrow> app_event_filter \<Rightarrow> 'e \<Rightarrow> bool" where
  "event_passes env f e \<longleftrightarrow>
     holds (\<lambda>k. k = [] \<or> ee_kind env e = k) (ef_kind f) \<and> holds (\<lambda>t. t \<le> ee_time env e) (ef_gte f) \<and>
     holds (\<lambda>t. ee_time env e < t) (ef_lt f)"

text \<open>\<open>list.sort\<close> is stable, in both directions\<close>

definition sort_events :: "'e event_env \<Rightarrow> bool \<Rightarrow> 'e list \<Rightarrow> 'e list" where
  "sort_events env desc es = (if desc then rev (sort_key (ee_time env) (rev es)) else sort_key (ee_time env) es)"

definition found_events :: "'e event_env \<Rightarrow> string list \<Rightarrow> app_event_filter \<Rightarrow> bool \<Rightarrow> files \<Rightarrow> 'e list" where
  "found_events env dir f desc fs =
     sort_events env desc (filter (event_passes env f) (List.map_filter (load_event env fs) (search_paths fs dir)))"

text \<open>\<open>search_app_events\<close>: the page is cut out of the paths after the events were read from them.\<close>

definition search_app_events ::
    "'e event_env \<Rightarrow> string list \<Rightarrow> app_event_filter \<Rightarrow> bool \<Rightarrow> string option \<Rightarrow> nat \<Rightarrow> files \<Rightarrow> exn + 'e page" where
  "search_app_events env dir f desc page_id limit fs =
     (let items = found_events env dir f desc fs; paths = search_paths fs dir
      in case (if page_id = None \<or> page_id = Some [] then Some 0 else py_int (the page_id)) of
           None \<Rightarrow> Inl (value_exn (the page_id))
         | Some start \<Rightarrow>
             (let rest = (if page_id = None \<or> page_id = Some [] then paths else py_slice paths (Some start) None)
              in Inr \<lparr>pg_items = items,
                      pg_next = (if limit < length rest then Some (show_int (start + int limit)) else None)\<rparr>))"

end
