(* ===== verification/App_Services.thy ===== *)
theory App_Services
  imports App_Conversations
begin

text \<open>
  Further services of \<open>openhands/app_server\<close>: the tasks that start conversations
  (\<open>sql_app_conversation_start_task_service.py\<close>), the callbacks for events (\<open>sql_event_callback_service.py\<close>) and what
  all sandbox services share (\<open>sandbox_service.py\<close>).

  Parameters: the requests and processors, of any type, what a processor does, the pausing of a sandbox, the clock.
\<close>

section \<open>Start tasks\<close>

datatype start_status =
  ST_WORKING | ST_WAITING_FOR_SANDBOX | ST_PREPARING_REPOSITORY | ST_RUNNING_SETUP_SCRIPT | ST_SETTING_UP_GIT_HOOKS |
  ST_SETTING_UP_SKILLS | ST_STARTING_CONVERSATION | ST_READY | ST_ERROR

record 'q start_task =
  tk_id :: string
  tk_created_by :: "string option"
  tk_status :: start_status
  tk_detail :: "string option"
  tk_conversation_id :: "string option"
  tk_sandbox_id :: "string option"
  tk_agent_server_url :: "string option"
  tk_request :: 'q
  tk_created_at :: rat
  tk_updated_at :: rat

text \<open>A service without a user sees all tasks.\<close>

definition of_user :: "string option \<Rightarrow> 'q start_task \<Rightarrow> bool" where
  "of_user user t \<longleftrightarrow> user = None \<or> user = Some [] \<or> tk_created_by t = user"

datatype task_sort = Task_created | Task_created_desc | Task_updated | Task_updated_desc

fun task_key :: "task_sort \<Rightarrow> 'q start_task \<Rightarrow> sort_key" where
  "task_key Task_created t = Key_time (tk_created_at t)"
| "task_key Task_created_desc t = Key_time (tk_created_at t)"
| "task_key Task_updated t = Key_time (tk_updated_at t)"
| "task_key Task_updated_desc t = Key_time (tk_updated_at t)"

definition task_passes :: "string option \<Rightarrow> string option \<Rightarrow> rat option \<Rightarrow> 'q start_task \<Rightarrow> bool" where
  "task_passes user cid gte t \<longleftrightarrow>
     of_user user t \<and> holds (\<lambda>c. tk_conversation_id t = Some c) cid \<and> holds (\<lambda>g. g \<le> tk_created_at t) gte"

definition task_rows ::
    "'q start_task db_env \<Rightarrow> int \<Rightarrow> string option \<Rightarrow> string option \<Rightarrow> rat option \<Rightarrow> task_sort \<Rightarrow> 'q start_task list \<Rightarrow>
      'q start_task list" where
  "task_rows env q user cid gte order tasks =
     de_order env q (order \<in> {Task_created_desc, Task_updated_desc}) (task_key order) (filter (task_passes user cid gte) tasks)"

definition search_app_conversation_start_tasks ::
    "'q start_task db_env \<Rightarrow> string option \<Rightarrow> string option \<Rightarrow> rat option \<Rightarrow> task_sort \<Rightarrow> string option \<Rightarrow> nat \<Rightarrow>
      'q start_task list \<Rightarrow> exn + 'q start_task page" where
  "search_app_conversation_start_tasks env user cid gte order page_id limit tasks =
     fetch_page env page_id limit (task_rows env (page_offset page_id) user cid gte order tasks)"

definition count_app_conversation_start_tasks :: "string option \<Rightarrow> string option \<Rightarrow> rat option \<Rightarrow> 'q start_task list \<Rightarrow> nat" where
  "count_app_conversation_start_tasks user cid gte tasks = length (filter (task_passes user cid gte) tasks)"

definition get_app_conversation_start_task :: "string option \<Rightarrow> string \<Rightarrow> 'q start_task list \<Rightarrow> exn + 'q start_task option" where
  "get_app_conversation_start_task user tid tasks = scalar_one_or_none (filter (\<lambda>t. tk_id t = tid \<and> of_user user t) tasks)"

definition batch_get_app_conversation_start_tasks ::
    "string option \<Rightarrow> string list \<Rightarrow> 'q start_task list \<Rightarrow> 'q start_task option list" where
  "batch_get_app_conversation_start_tasks user ids tasks =
     map (\<lambda>i. find (\<lambda>t. tk_id t = i) (rev (filter (\<lambda>t. tk_id t \<in> set ids \<and> of_user user t) tasks))) ids"

text \<open>The owner of a task that is already there is checked before anything is written.\<close>

definition save_app_conversation_start_task ::
    "string option \<Rightarrow> rat \<Rightarrow> 'q start_task \<Rightarrow> 'q start_task list \<Rightarrow> exn option \<times> 'q start_task list" where
  "save_app_conversation_start_task user now t tasks =
     (let saved = upsert tk_id (t\<lparr>tk_updated_at := now\<rparr>) tasks
      in if user = None \<or> user = Some [] then (None, saved)
         else (case scalar_one_or_none (filter (\<lambda>x. tk_id x = tk_id t) tasks) of
                 Inl x \<Rightarrow> (Some x, tasks)
               | Inr None \<Rightarrow> (None, saved)
               | Inr (Some old) \<Rightarrow> if tk_created_by old = user then (None, saved) else (Some assertion_exn, tasks)))"

definition delete_app_conversation_start_tasks :: "string option \<Rightarrow> string \<Rightarrow> 'q start_task list \<Rightarrow> bool \<times> 'q start_task list" where
  "delete_app_conversation_start_tasks user cid tasks =
     (let hit = (\<lambda>t. tk_conversation_id t = Some cid \<and> of_user user t)
      in (list_ex hit tasks, filter (\<lambda>t. \<not> hit t) tasks))"

section \<open>Callbacks\<close>

datatype callback_status = CB_ACTIVE | CB_DISABLED | CB_COMPLETED | CB_ERROR

record 'p event_callback =
  cb_id :: string
  cb_conversation_id :: "string option"
  cb_status :: callback_status
  cb_processor :: 'p
  cb_event_kind :: "string option"
  cb_created_at :: rat
  cb_updated_at :: rat

record callback_result =
  cr_row_id :: "string option"
  cr_ok :: bool
  cr_callback_id :: string
  cr_event_id :: string
  cr_conversation_id :: string
  cr_detail :: "string option"

record 'p callback_db =
  cd_callbacks :: "'p event_callback list"
  cd_results :: "callback_result list"

text \<open>What a processor does with a callback and an event: it may change the callback, and returns a result or raises.\<close>

record ('p, 'e) callback_env =
  ce_kind :: "'e \<Rightarrow> string"
  ce_id :: "'e \<Rightarrow> string"
  ce_process :: "'p \<Rightarrow> string \<Rightarrow> 'e \<Rightarrow> 'p event_callback \<Rightarrow> (exn + callback_result option) \<times> 'p event_callback"
  ce_now :: rat

definition create_event_callback ::
    "string \<Rightarrow> rat \<Rightarrow> string option \<Rightarrow> 'p \<Rightarrow> string option \<Rightarrow> 'p callback_db \<Rightarrow> 'p event_callback \<times> 'p callback_db" where
  "create_event_callback new_id now cid proc kind db =
     (let cb = \<lparr>cb_id = new_id, cb_conversation_id = cid, cb_status = CB_ACTIVE, cb_processor = proc, cb_event_kind = kind,
                cb_created_at = now, cb_updated_at = now\<rparr>
      in (cb, db\<lparr>cd_callbacks := cd_callbacks db @ [cb]\<rparr>))"

definition get_event_callback :: "string \<Rightarrow> 'p callback_db \<Rightarrow> exn + 'p event_callback option" where
  "get_event_callback i db = scalar_one_or_none (filter (\<lambda>c. cb_id c = i) (cd_callbacks db))"

definition delete_event_callback :: "string \<Rightarrow> 'p callback_db \<Rightarrow> bool \<times> 'p callback_db" where
  "delete_event_callback i db =
     (list_ex (\<lambda>c. cb_id c = i) (cd_callbacks db), db\<lparr>cd_callbacks := filter (\<lambda>c. cb_id c \<noteq> i) (cd_callbacks db)\<rparr>)"

definition search_event_callbacks ::
    "'p event_callback db_env \<Rightarrow> string option \<Rightarrow> string option \<Rightarrow> string option \<Rightarrow> nat \<Rightarrow> 'p callback_db \<Rightarrow>
      exn + 'p event_callback page" where
  "search_event_callbacks env cid kind page_id limit db =
     fetch_page env page_id limit
       (de_order env (page_offset page_id) True (\<lambda>c. Key_time (cb_created_at c))
         (filter (\<lambda>c. holds (\<lambda>i. cb_conversation_id c = Some i) cid \<and> holds (\<lambda>k. cb_event_kind c = Some k) kind) (cd_callbacks db)))"

definition save_event_callback :: "rat \<Rightarrow> 'p event_callback \<Rightarrow> 'p callback_db \<Rightarrow> 'p callback_db" where
  "save_event_callback now cb db = db\<lparr>cd_callbacks := upsert cb_id (cb\<lparr>cb_updated_at := now\<rparr>) (cd_callbacks db)\<rparr>"

definition applies :: "('p, 'e) callback_env \<Rightarrow> string \<Rightarrow> 'e \<Rightarrow> 'p event_callback \<Rightarrow> bool" where
  "applies env cid e cb \<longleftrightarrow>
     cb_status cb = CB_ACTIVE \<and> (cb_event_kind cb = Some (ce_kind env e) \<or> cb_event_kind cb = None) \<and>
     (cb_conversation_id cb = Some cid \<or> cb_conversation_id cb = None)"

text \<open>\<open>execute_callback\<close>: the row of an error has no id of its own\<close>

definition execute_callback ::
    "('p, 'e) callback_env \<Rightarrow> string \<Rightarrow> 'e \<Rightarrow> 'p event_callback \<Rightarrow> callback_result list \<times> 'p event_callback" where
  "execute_callback env cid e cb =
     (case ce_process env (cb_processor cb) cid e cb of
        (Inr None, cb') \<Rightarrow> ([], cb')
      | (Inr (Some r), cb') \<Rightarrow> ([r], cb')
      | (Inl x, cb') \<Rightarrow>
          ([\<lparr>cr_row_id = None, cr_ok = False, cr_callback_id = cb_id cb, cr_event_id = ce_id env e, cr_conversation_id = cid,
             cr_detail = Some (exc_str x)\<rparr>], cb'))"

definition no_key_exn :: exn where
  "no_key_exn = mk_exn ''IntegrityError'' OtherError []"

text \<open>\<open>execute_callbacks\<close>: a row without a primary key is refused when the session is committed, with everything in it.\<close>

definition execute_callbacks ::
    "('p, 'e) callback_env \<Rightarrow> string \<Rightarrow> 'e \<Rightarrow> 'p callback_db \<Rightarrow> exn option \<times> 'p callback_db" where
  "execute_callbacks env cid e db =
     (let runs = map (execute_callback env cid e) (filter (applies env cid e) (cd_callbacks db));
          results = concat (map fst runs);
          db1 = fold (\<lambda>(_, cb). save_event_callback (ce_now env) cb) runs (db\<lparr>cd_results := cd_results db @ results\<rparr>)
      in if runs = [] then (None, db)
         else if list_ex (\<lambda>r. cr_row_id r = None) results then (Some no_key_exn, db)
         else (None, db1))"

section \<open>Sandboxes\<close>

datatype sandbox_status = SB_STARTING | SB_RUNNING | SB_PAUSED | SB_ERROR | SB_MISSING

record sandbox_info =
  sb_id :: string
  sb_status :: sandbox_status
  sb_urls :: "(string \<times> string) list"
  sb_created_at :: rat

text \<open>\<open>pause_old_sandboxes\<close>: the pages of the search were read; a sandbox that cannot be paused is skipped.\<close>

fun pause_each :: "(string \<Rightarrow> 's \<Rightarrow> (exn + bool) \<times> 's) \<Rightarrow> sandbox_info list \<Rightarrow> 's \<Rightarrow> string list \<times> 's" where
  "pause_each pause [] s = ([], s)"
| "pause_each pause (b # bs) s =
     (case pause (sb_id b) s of
        (r, s1) \<Rightarrow>
          (case pause_each pause bs s1 of (ids, s2) \<Rightarrow> ((if r = Inr True then sb_id b # ids else ids), s2)))"

definition pause_old_sandboxes ::
    "(string \<Rightarrow> 's \<Rightarrow> (exn + bool) \<times> 's) \<Rightarrow> sandbox_info list \<Rightarrow> int \<Rightarrow> 's \<Rightarrow> (exn + string list) \<times> 's" where
  "pause_old_sandboxes pause sandboxes max_num s =
     (if max_num \<le> 0 then (Inl (value_exn ''max_num_sandboxes must be greater than 0''), s)
      else (let running = filter (\<lambda>b. sb_status b = SB_RUNNING) sandboxes
            in if int (length running) \<le> max_num then (Inr [], s)
               else map_prod Inr id
                      (pause_each pause (take (length running - nat max_num) (sort_key sb_created_at running)) s)))"

definition sandbox_exn :: "string \<Rightarrow> exn" where
  "sandbox_exn m = mk_exn ''SandboxError'' OtherError m"

text \<open>
  The agent server of a sandbox; \<open>localhost\<close> is replaced inside a container, which is a parameter.
\<close>

definition get_agent_server_url :: "(string \<Rightarrow> string) \<Rightarrow> sandbox_info \<Rightarrow> exn + string" where
  "get_agent_server_url replace_host b =
     (if sb_urls b = [] then Inl (sandbox_exn (''No exposed URLs for sandbox: '' @ sb_id b))
      else case map_of (sb_urls b) ''AGENT_SERVER'' of
             Some u \<Rightarrow> Inr (replace_host u)
           | None \<Rightarrow> Inl (sandbox_exn (''No agent server URL found for sandbox: '' @ sb_id b)))"

text \<open>The world of a waiting call: the time, the sandbox, whether an address answers\<close>

record 's wait_env =
  we_time :: "'s \<Rightarrow> rat \<times> 's"
  we_get :: "string \<Rightarrow> 's \<Rightarrow> (exn + sandbox_info option) \<times> 's"
  we_alive :: "string \<Rightarrow> 's \<Rightarrow> (exn + bool) \<times> 's"
  we_sleep :: "rat \<Rightarrow> 's \<Rightarrow> 's"
  we_host :: "string \<Rightarrow> string"

definition check_agent_server_alive :: "'s wait_env \<Rightarrow> sandbox_info \<Rightarrow> 's \<Rightarrow> bool \<times> 's" where
  "check_agent_server_alive env b s =
     (case get_agent_server_url (we_host env) b of
        Inl _ \<Rightarrow> (False, s)
      | Inr u \<Rightarrow>
          (case we_alive env (rev (dropWhile (\<lambda>c. c = CHR ''/'') (rev u)) @ ''/alive'') s of
             (Inl _, s1) \<Rightarrow> (False, s1)
           | (Inr ok, s1) \<Rightarrow> (ok, s1)))"

definition wait_round :: "'s wait_env \<Rightarrow> string \<Rightarrow> bool \<Rightarrow> 's \<Rightarrow> (exn + sandbox_info) option \<times> 's" where
  "wait_round env sid client s =
     (case we_get env sid s of
        (Inl x, s1) \<Rightarrow> (Some (Inl x), s1)
      | (Inr None, s1) \<Rightarrow> (Some (Inl (sandbox_exn (''Sandbox not found: '' @ sid))), s1)
      | (Inr (Some b), s1) \<Rightarrow>
          if sb_status b = SB_ERROR then (Some (Inl (sandbox_exn (''Sandbox entered error state: '' @ sid))), s1)
          else if sb_status b = SB_RUNNING
          then (if client \<and> sb_urls b \<noteq> []
                then (case check_agent_server_alive env b s1 of
                        (ok, s2) \<Rightarrow> (if ok then Some (Inr b) else None, s2))
                else (Some (Inr b), s1))
          else (None, s1))"

text \<open>\<open>wait_for_sandbox_running\<close>\<close>

partial_function (option) wait_loop ::
    "'s wait_env \<Rightarrow> string \<Rightarrow> int \<Rightarrow> rat \<Rightarrow> bool \<Rightarrow> rat \<Rightarrow> 's \<Rightarrow> ((exn + sandbox_info) \<times> 's) option" where
  "wait_loop env sid timeout poll client start s =
     (case we_time env s of
        (now, s1) \<Rightarrow>
          if of_int timeout < now - start
          then Some (Inl (sandbox_exn (''Sandbox failed to start within '' @ show_int timeout @ ''s: '' @ sid)), s1)
          else (case wait_round env sid client s1 of
                  (Some r, s2) \<Rightarrow> Some (r, s2)
                | (None, s2) \<Rightarrow> wait_loop env sid timeout poll client start (we_sleep env poll s2)))"

definition wait_for_sandbox_running ::
    "'s wait_env \<Rightarrow> string \<Rightarrow> int \<Rightarrow> rat \<Rightarrow> bool \<Rightarrow> 's \<Rightarrow> ((exn + sandbox_info) \<times> 's) option" where
  "wait_for_sandbox_running env sid timeout poll client s =
     (case we_time env s of (start, s1) \<Rightarrow> wait_loop env sid timeout poll client start s1)"

end
