(* ===== verification/App_Service_Properties.thy ===== *)
theory App_Service_Properties
  imports App_Properties App_Events App_Services
begin

text \<open>
  The properties of the smaller services of the app server: events as files, tasks with an owner, callbacks, sandboxes.
\<close>

section \<open>Events\<close>

text \<open>
  An event that was saved is read back by its id and no other event is touched; it is among the events a search without
  a filter finds. It assumes that the text of the event is read as that event.
\<close>

theorem event_saved_found:
  assumes "ee_validate env (ee_dump env e) = Some e" "hex_of (ee_id env e) \<noteq> []" "hd (hex_of (ee_id env e)) \<noteq> CHR ''.''"
  shows "get_app_event env dir (ee_id env e) (save_event env dir e fs) = Some e \<and>
    (\<forall>dir' i. event_path dir' i \<noteq> event_path dir (ee_id env e) \<longrightarrow> get_app_event env dir' i (save_event env dir e fs) = get_app_event env dir' i fs) \<and>
    e \<in> set (found_events env dir \<lparr>ef_kind = None, ef_gte = None, ef_lt = None\<rparr> desc (save_event env dir e fs))"
proof (intro conjI allI impI)
  let ?fs = "save_event env dir e fs"
  let ?p = "event_path dir (ee_id env e)"
  have load: "load_event env ?fs ?p = Some e" by (simp add: load_event_def save_event_def store_event_def assms(1))
  then show "get_app_event env dir (ee_id env e) ?fs = Some e" by (simp add: get_app_event_def)
  show "get_app_event env dir' i ?fs = get_app_event env dir' i fs" if "event_path dir' i \<noteq> ?p" for dir' i
    using that by (simp add: get_app_event_def load_event_def save_event_def store_event_def)
  have "?p \<in> set (search_paths ?fs dir)"
    using assms(2,3) by (cases "hex_of (ee_id env e)")
      (auto simp: search_paths_def save_event_def store_event_def event_path_def str_startswith_def simp flip: set_map)
  then have "e \<in> set (List.map_filter (load_event env ?fs) (search_paths ?fs dir))"
    using load by (force simp: map_filter_def)
  then show "e \<in> set (found_events env dir \<lparr>ef_kind = None, ef_gte = None, ef_lt = None\<rparr> desc ?fs)"
    by (auto simp: found_events_def sort_events_def event_passes_def holds_def)
qed

text \<open>The pages of a search for events: every one of them has all the events.\<close>

lemma search_app_events_at:
  "search_app_events env dir f desc None limit fs =
     Inr \<lparr>pg_items = found_events env dir f desc fs,
          pg_next = (if limit < length (search_paths fs dir) then Some (show_nat limit) else None)\<rparr>"
  "search_app_events env dir f desc (Some (show_nat n)) limit fs =
     Inr \<lparr>pg_items = found_events env dir f desc fs,
          pg_next = (if limit < length (search_paths fs dir) - n then Some (show_nat (n + limit)) else None)\<rparr>"
  by (auto simp: search_app_events_def Let_def show_int_def nat_add_distrib)

definition page_count :: "nat \<Rightarrow> nat \<Rightarrow> nat" where
  "page_count l limit = Suc ((l - 1) div limit)"

lemma page_count_step: "0 < limit \<Longrightarrow> page_count l limit = (if limit < l then Suc (page_count (l - limit) limit) else 1)"
proof (cases "limit < l")
  case True
  assume "0 < limit"
  then have "(l - 1) div limit = Suc ((l - 1 - limit) div limit)" using True by (subst div_if) auto
  moreover have "l - 1 - limit = l - limit - 1" by simp
  ultimately show ?thesis using True by (simp add: page_count_def)
qed (simp add: page_count_def)

lemma collect_events_from:
  assumes "0 < limit" "length (search_paths fs dir) - n < k * limit"
  shows "collect_pages k (\<lambda>pid. search_app_events env dir f desc pid limit fs) (Some (show_nat n)) =
    Some (Inr (concat (replicate (page_count (length (search_paths fs dir) - n) limit) (found_events env dir f desc fs))))"
  using assms(2)
proof (induction k arbitrary: n)
  case (Suc k)
  let ?l = "length (search_paths fs dir) - n"
  show ?case
  proof (cases "limit < ?l")
    case True
    have "length (search_paths fs dir) - (n + limit) < k * limit" using Suc.prems True by (simp add: algebra_simps)
    from Suc.IH [OF this] True show ?thesis by (simp add: search_app_events_at page_count_step [OF assms(1), of ?l])
  qed (simp add: search_app_events_at page_count_step [OF assms(1), of ?l])
qed simp

text \<open>
  Every page of a search for events has all the events that pass the filter, whatever the limit: the page is cut out of
  the list of paths, not of the events that were read from them. Who reads page after page gets every event as many times
  as there are pages.
\<close>

theorem events_repeated:
  assumes "0 < limit"
  shows "collect_pages (Suc (length (search_paths fs dir))) (\<lambda>pid. search_app_events env dir f desc pid limit fs) None =
    Some (Inr (concat (replicate (page_count (length (search_paths fs dir)) limit) (found_events env dir f desc fs))))"
proof (cases "limit < length (search_paths fs dir)")
  case True
  have "length (search_paths fs dir) - limit < length (search_paths fs dir) * limit" using assms True by (cases limit) auto
  from collect_events_from [OF assms this, of env f desc] True show ?thesis
    by (simp add: search_app_events_at page_count_step [OF assms, of "length (search_paths fs dir)"])
qed (simp add: search_app_events_at page_count_step [OF assms, of "length (search_paths fs dir)"])

text \<open>Events of two numbers, the id and the time, with the id as their text\<close>

definition demo_event_env :: "(nat \<times> rat) event_env" where
  "demo_event_env =
     \<lparr>ee_kind = (\<lambda>_. ''MessageEvent''), ee_time = snd, ee_id = (\<lambda>e. show_nat (fst e)), ee_dump = (\<lambda>e. show_nat (fst e)),
      ee_validate = (\<lambda>t. map_option (\<lambda>n. (nat n, of_int n)) (py_int t))\<rparr>"

definition demo_files :: files where
  "demo_files = save_event demo_event_env [''c''] (2, 2) (save_event demo_event_env [''c''] (1, 1) [])"

theorem event_saved_found_witness:
  "get_app_event demo_event_env [''c''] ''7'' (save_event demo_event_env [''c''] (7, 7) demo_files) = Some (7, 7)"
proof -
  have v: "ee_validate demo_event_env (ee_dump demo_event_env (7, 7)) = Some (7, 7)" "ee_id demo_event_env (7, 7) = ''7''"
    "hex_of (ee_id demo_event_env (7, 7)) \<noteq> []" "hd (hex_of (ee_id demo_event_env (7, 7))) \<noteq> CHR ''.''" by code_simp+
  from event_saved_found [OF v(1,3,4), of "[''c'']" demo_files] v(2) show ?thesis by simp
qed

theorem events_repeated_witness:
  "collect_pages 3 (\<lambda>pid. search_app_events demo_event_env [''c''] \<lparr>ef_kind = None, ef_gte = None, ef_lt = None\<rparr> False pid 1 demo_files) None =
     Some (Inr [(1, 1), (2, 2), (1, 1), (2, 2)])"
proof -
  have v: "length (search_paths demo_files [''c'']) = 2" "page_count 2 1 = 2"
    "found_events demo_event_env [''c''] \<lparr>ef_kind = None, ef_gte = None, ef_lt = None\<rparr> False demo_files = [(1, 1), (2, 2)]" by code_simp+
  from events_repeated [of 1 demo_files "[''c'']" demo_event_env "\<lparr>ef_kind = None, ef_gte = None, ef_lt = None\<rparr>" False] v
  show ?thesis by (simp add: numeral_eq_Suc)
qed

section \<open>Tasks\<close>

lemma filter_and: "filter (\<lambda>x. P x \<and> Q x) xs = filter Q (filter P xs)"
  by (induction xs) auto

text \<open>
  C37. A task belongs to the user who started it: saving over the task of somebody else is refused and changes nothing,
  and deleting the tasks of a conversation leaves those of others. A task that was saved is read back by its user as it was
  saved, with the time of saving, and the other tasks are as they were.
\<close>

theorem tasks_guarded:
  assumes "distinct (map tk_id tasks)" "u \<noteq> []"
  shows "(\<forall>old \<in> set tasks. tk_id old = tk_id t \<and> tk_created_by old \<noteq> Some u \<longrightarrow>
      save_app_conversation_start_task (Some u) now t tasks = (Some assertion_exn, tasks)) \<and>
    (\<forall>tasks'. save_app_conversation_start_task (Some u) now t tasks = (None, tasks') \<and> tk_created_by t = Some u \<longrightarrow>
      get_app_conversation_start_task (Some u) (tk_id t) tasks' = Inr (Some (t\<lparr>tk_updated_at := now\<rparr>)) \<and>
      (\<forall>x \<in> set tasks. tk_id x \<noteq> tk_id t \<longrightarrow> x \<in> set tasks')) \<and>
    (\<forall>x \<in> set tasks. tk_created_by x \<noteq> Some u \<longrightarrow> x \<in> set (snd (delete_app_conversation_start_tasks (Some u) cid tasks)))"
proof (intro conjI ballI allI impI)
  fix old assume old: "old \<in> set tasks" "tk_id old = tk_id t \<and> tk_created_by old \<noteq> Some u"
  then have "filter (\<lambda>x. tk_id x = tk_id t) tasks = [old]" using filter_key_unique [OF assms(1) old(1)] by simp
  with old(2) assms(2) show "save_app_conversation_start_task (Some u) now t tasks = (Some assertion_exn, tasks)"
    by (simp add: save_app_conversation_start_task_def scalar_one_or_none_def)
next
  fix tasks' assume t: "save_app_conversation_start_task (Some u) now t tasks = (None, tasks') \<and> tk_created_by t = Some u"
  then have tasks': "tasks' = upsert tk_id (t\<lparr>tk_updated_at := now\<rparr>) tasks"
    using assms(2) by (auto simp: save_app_conversation_start_task_def Let_def split: sum.splits option.splits if_splits)
  have "filter (\<lambda>x. tk_id x = tk_id t) tasks' = [t\<lparr>tk_updated_at := now\<rparr>]"
    using filter_key_unique [OF upsert_distinct [OF assms(1)] upsert_in, of "t\<lparr>tk_updated_at := now\<rparr>"] by (simp add: tasks')
  then have "filter (\<lambda>x. tk_id x = tk_id t \<and> of_user (Some u) x) tasks' = [t\<lparr>tk_updated_at := now\<rparr>]"
    using t by (subst filter_and) (simp add: of_user_def)
  then show "get_app_conversation_start_task (Some u) (tk_id t) tasks' = Inr (Some (t\<lparr>tk_updated_at := now\<rparr>))"
    by (simp add: get_app_conversation_start_task_def scalar_one_or_none_def)
  show "x \<in> set tasks'" if "x \<in> set tasks" "tk_id x \<noteq> tk_id t" for x
    unfolding tasks' by (rule upsert_other) (use that in auto)
qed (use assms(2) in \<open>auto simp: delete_app_conversation_start_tasks_def of_user_def Let_def\<close>)

definition demo_start_task :: "string \<Rightarrow> string \<Rightarrow> unit start_task" where
  "demo_start_task i u = \<lparr>tk_id = i, tk_created_by = Some u, tk_status = ST_WORKING, tk_detail = None, tk_conversation_id = Some ''c'',
     tk_sandbox_id = None, tk_agent_server_url = None, tk_request = (), tk_created_at = 1, tk_updated_at = 1\<rparr>"

theorem tasks_guarded_witness:
  "save_app_conversation_start_task (Some ''u2'') 5 (demo_start_task ''t1'' ''u2'') [demo_start_task ''t1'' ''u1''] =
     (Some assertion_exn, [demo_start_task ''t1'' ''u1''])"
  using tasks_guarded [of "[demo_start_task ''t1'' ''u1'']" "''u2''" "demo_start_task ''t1'' ''u2''" 5] by (simp add: demo_start_task_def)

section \<open>Callbacks\<close>

text \<open>
  A processor that raises takes the whole event with it: the row that records its error has no primary key, so the
  session is not committed, the call raises, and neither that error nor the results of the other callbacks nor what they
  changed in themselves is stored.
\<close>

theorem raising_callback_loses_results:
  assumes "cb \<in> set (cd_callbacks db)" "applies env cid e cb" "ce_process env (cb_processor cb) cid e cb = (Inl x, cb')"
  shows "execute_callbacks env cid e db = (Some no_key_exn, db)"
proof -
  let ?runs = "map (execute_callback env cid e) (filter (applies env cid e) (cd_callbacks db))"
  have run: "execute_callback env cid e cb \<in> set ?runs" using assms(1,2) by simp
  moreover have "list_ex (\<lambda>r. cr_row_id r = None) (fst (execute_callback env cid e cb))"
    by (simp add: execute_callback_def assms(3))
  ultimately have "list_ex (\<lambda>r. cr_row_id r = None) (concat (map fst ?runs))" by (force simp: list_ex_iff)
  moreover have "?runs \<noteq> []" using run by (metis list.set(1) empty_iff)
  ultimately show ?thesis by (simp add: execute_callbacks_def Let_def)
qed

definition demo_callback_env :: "(bool, string) callback_env" where
  "demo_callback_env =
     \<lparr>ce_kind = (\<lambda>_. ''MessageEvent''), ce_id = id,
      ce_process = (\<lambda>ok cid e cb. if ok
        then (Inr (Some \<lparr>cr_row_id = Some ''r'', cr_ok = True, cr_callback_id = cb_id cb, cr_event_id = e, cr_conversation_id = cid, cr_detail = None\<rparr>), cb)
        else (Inl (value_exn ''bad''), cb)),
      ce_now = 9\<rparr>"

definition demo_callbacks :: "bool callback_db" where
  "demo_callbacks =
     snd (create_event_callback ''k2'' 1 None False None
       (snd (create_event_callback ''k1'' 1 (Some ''c'') True (Some ''MessageEvent'') \<lparr>cd_callbacks = [], cd_results = []\<rparr>)))"

theorem raising_callback_loses_results_witness:
  "execute_callbacks demo_callback_env ''c'' ''e1'' demo_callbacks = (Some no_key_exn, demo_callbacks) \<and>
   fst (execute_callbacks demo_callback_env ''c'' ''e1'' (snd (delete_event_callback ''k2'' demo_callbacks))) = None"
proof -
  let ?cb = "\<lparr>cb_id = ''k2'', cb_conversation_id = None, cb_status = CB_ACTIVE, cb_processor = False, cb_event_kind = None,
    cb_created_at = 1, cb_updated_at = 1\<rparr> :: bool event_callback"
  have v: "?cb \<in> set (cd_callbacks demo_callbacks)" "applies demo_callback_env ''c'' ''e1'' ?cb"
    "ce_process demo_callback_env (cb_processor ?cb) ''c'' ''e1'' ?cb = (Inl (value_exn ''bad''), ?cb)"
    "fst (execute_callbacks demo_callback_env ''c'' ''e1'' (snd (delete_event_callback ''k2'' demo_callbacks))) = None"
    by (simp_all add: demo_callbacks_def create_event_callback_def delete_event_callback_def applies_def demo_callback_env_def
        execute_callbacks_def execute_callback_def Let_def)
  from raising_callback_loses_results [OF v(1-3)] v(4) show ?thesis by simp
qed

section \<open>Sandboxes\<close>

lemma pause_each_ids:
  assumes "pause_each pause bs s = (ids, s')" "\<And>i s. fst (pause i s) = answer i"
  shows "ids = map sb_id (filter (\<lambda>b. answer (sb_id b) = Inr True) bs)"
  using assms(1)
proof (induction bs arbitrary: ids s)
  case (Cons b bs)
  obtain s1 where s1: "pause (sb_id b) s = (answer (sb_id b), s1)" using assms(2) [of "sb_id b" s] by (cases "pause (sb_id b) s") auto
  with Cons show ?case by (auto split: prod.splits)
qed simp

lemma sorted_take_drop:
  assumes "x \<in> set (take n (sort_key f xs))" "y \<in> set (drop n (sort_key f xs))"
  shows "f x \<le> f y"
proof -
  have "sorted (map f (take n (sort_key f xs) @ drop n (sort_key f xs)))" by (simp del: take_drop append_take_drop_id add: append_take_drop_id)
  then have "sorted_wrt (\<lambda>a b. f a \<le> f b) (take n (sort_key f xs) @ drop n (sort_key f xs))" by (simp only: sorted_map)
  with assms show ?thesis by (simp only: sorted_wrt_append)
qed

text \<open>
  Pausing old sandboxes keeps the newest: only running sandboxes are asked to pause, at most as many as there are above
  the limit, each not newer than any that is kept, and exactly those that say they were paused are reported.
\<close>

theorem old_sandboxes_paused:
  assumes "\<And>i s. fst (pause i s) = answer i" "0 < max_num"
  shows "\<exists>old kept ids s'. pause_old_sandboxes pause sandboxes max_num s = (Inr ids, s') \<and>
    mset (old @ kept) = mset (filter (\<lambda>b. sb_status b = SB_RUNNING) sandboxes) \<and> int (length kept) \<le> max_num \<and>
    (old \<noteq> [] \<longrightarrow> int (length kept) = max_num) \<and> (\<forall>x \<in> set old. \<forall>y \<in> set kept. sb_created_at x \<le> sb_created_at y) \<and>
    ids = map sb_id (filter (\<lambda>b. answer (sb_id b) = Inr True) old)"
proof -
  define running where "running = filter (\<lambda>b. sb_status b = SB_RUNNING) sandboxes"
  show ?thesis
  proof (cases "int (length running) \<le> max_num")
    case True
    then have "pause_old_sandboxes pause sandboxes max_num s = (Inr [], s)"
      using assms(2) by (simp add: pause_old_sandboxes_def running_def)
    with True show ?thesis by (intro exI [of _ "[]"] exI [of _ running] exI [of _ s]) (simp add: running_def)
  next
    case False
    let ?n = "length running - nat max_num"
    let ?old = "take ?n (sort_key sb_created_at running)"
    let ?kept = "drop ?n (sort_key sb_created_at running)"
    obtain ids s' where ids: "pause_each pause ?old s = (ids, s')" by force
    have "pause_old_sandboxes pause sandboxes max_num s = (Inr ids, s')"
      using False assms(2) ids by (simp add: pause_old_sandboxes_def running_def [symmetric])
    moreover have "mset (?old @ ?kept) = mset running" by (simp only: append_take_drop_id mset_sort)
    moreover have "int (length ?kept) = max_num" using False assms(2) by simp
    moreover have "\<forall>x \<in> set ?old. \<forall>y \<in> set ?kept. sb_created_at x \<le> sb_created_at y" using sorted_take_drop by fast
    moreover have "ids = map sb_id (filter (\<lambda>b. answer (sb_id b) = Inr True) ?old)" using pause_each_ids [OF ids assms(1)] .
    ultimately show ?thesis unfolding running_def [symmetric]
      by (intro exI [of _ ?old] exI [of _ ?kept] exI [of _ ids] exI [of _ s']) simp
  qed
qed

definition demo_sandbox :: "string \<Rightarrow> sandbox_status \<Rightarrow> rat \<Rightarrow> sandbox_info" where
  "demo_sandbox i st t = \<lparr>sb_id = i, sb_status = st, sb_urls = [(''AGENT_SERVER'', ''http://a'')], sb_created_at = t\<rparr>"

text \<open>The waiting ends: time does not go back, and a pause takes its time.\<close>

definition wait_law :: "'s wait_env \<Rightarrow> ('s \<Rightarrow> rat) \<Rightarrow> bool" where
  "wait_law env now \<longleftrightarrow>
     (\<forall>s. fst (we_time env s) = now s \<and> now s \<le> now (snd (we_time env s)) \<and> (\<forall>i. now s \<le> now (snd (we_get env i s))) \<and>
        (\<forall>u. now s \<le> now (snd (we_alive env u s))) \<and> (\<forall>d. now s + d \<le> now (we_sleep env d s)))"

lemma wait_round_time:
  assumes "wait_law env now"
  shows "now s \<le> now (snd (wait_round env sid client s))"
proof -
  have l: "now s \<le> now (snd (we_get env i s))" "now s \<le> now (snd (we_alive env u s))" for s i u
    using assms by (auto simp: wait_law_def)
  have alive: "now s \<le> now (snd (check_agent_server_alive env b s))" for b s
    using l(2) by (auto simp: check_agent_server_alive_def split: sum.splits prod.splits) (metis snd_conv)+
  have get: "now s \<le> now s1" if "we_get env sid s = (r, s1)" for r s1 using l(1) [of s sid] that by simp
  show ?thesis
  proof (cases "we_get env sid s")
    case (Pair r s1)
    have a: "now s1 \<le> now s2" if "check_agent_server_alive env b s1 = (ok, s2)" for b ok s2 using alive [of s1 b] that by simp
    show ?thesis using get [OF Pair] a
      by (fastforce simp: wait_round_def Pair split: sum.splits option.splits prod.splits intro: order_trans)
  qed
qed

text \<open>The last thing that was done is a look at the sandbox that showed it running, and the check of its server.\<close>

definition seen_running :: "'s wait_env \<Rightarrow> string \<Rightarrow> bool \<Rightarrow> sandbox_info \<Rightarrow> 's \<Rightarrow> bool" where
  "seen_running env sid client b s' \<longleftrightarrow>
     sb_status b = SB_RUNNING \<and>
     (\<exists>s s1. we_get env sid s = (Inr (Some b), s1) \<and>
        (if client \<and> sb_urls b \<noteq> [] then check_agent_server_alive env b s1 = (True, s') else s' = s1))"

lemma wait_round_running: "wait_round env sid client s = (Some (Inr b), s') \<Longrightarrow> seen_running env sid client b s'"
  by (auto simp: wait_round_def seen_running_def split: sum.splits option.splits prod.splits if_splits)

lemma wait_loop_ends:
  assumes "wait_law env now" "0 < poll" "of_int timeout - (now s - start) < of_nat n * poll"
  shows "\<exists>r s'. wait_loop env sid timeout poll client start s = Some (r, s') \<and> (\<forall>b. r = Inr b \<longrightarrow> seen_running env sid client b s')"
  using assms(3)
proof (induction n arbitrary: s)
  case 0
  obtain t s1 where t: "we_time env s = (t, s1)" by force
  have "t = now s" using assms(1) t by (metis wait_law_def fst_conv)
  with 0 t show ?case by (subst wait_loop.simps) simp
next
  case (Suc n)
  obtain t s1 where t: "we_time env s = (t, s1)" by force
  obtain r s2 where r: "wait_round env sid client s1 = (r, s2)" by force
  have "now s \<le> now s1" using assms(1) t by (metis wait_law_def snd_conv)
  also have "now s1 \<le> now s2" using wait_round_time [OF assms(1), of s1 sid client] r by simp
  finally have "now s + poll \<le> now (we_sleep env poll s2)" using assms(1) unfolding wait_law_def by (meson add_right_mono order_trans)
  then have "of_int timeout - (now (we_sleep env poll s2) - start) < of_nat n * poll" using Suc.prems by (simp add: algebra_simps)
  from Suc.IH [OF this] show ?case
    using wait_round_running [of env sid client s1 _ s2] by (subst wait_loop.simps) (auto simp: t r split: option.splits)
qed

text \<open>
  C38. Waiting for a sandbox ends, with an error or with a sandbox; and a sandbox that is returned was seen to be running,
  with its server answering where that is to be checked. It assumes that time does not go back and that a pause takes its
  time.
\<close>

theorem sandbox_awaited:
  assumes "wait_law env now" "0 < poll"
  shows "\<exists>r s'. wait_for_sandbox_running env sid timeout poll client s = Some (r, s') \<and>
    (\<forall>b. r = Inr b \<longrightarrow> seen_running env sid client b s')"
proof -
  obtain start s1 where s1: "we_time env s = (start, s1)" by force
  obtain n where "of_int timeout - (now s1 - start) < of_nat n * poll" using reals_Archimedean3 [OF assms(2)] by blast
  from wait_loop_ends [OF assms this] s1 show ?thesis by (simp add: wait_for_sandbox_running_def)
qed

text \<open>A sandbox that runs at the third look; the world is the time.\<close>

definition demo_wait :: "rat wait_env" where
  "demo_wait =
     \<lparr>we_time = (\<lambda>s. (s, s)), we_get = (\<lambda>i s. (Inr (Some (demo_sandbox i (if s < 4 then SB_STARTING else SB_RUNNING) 0)), s)),
      we_alive = (\<lambda>u s. (Inr True, s)), we_sleep = (\<lambda>d s. s + d), we_host = id\<rparr>"

theorem sandbox_awaited_witness:
  "\<exists>r s'. wait_for_sandbox_running demo_wait ''s1'' 120 2 True 0 = Some (r, s') \<and>
     (\<forall>b. r = Inr b \<longrightarrow> seen_running demo_wait ''s1'' True b s')"
proof (rule sandbox_awaited)
  show "wait_law demo_wait id" by (simp add: wait_law_def demo_wait_def)
qed simp

theorem old_sandboxes_paused_witness:
  "\<exists>old kept ids s'. pause_old_sandboxes (\<lambda>i s. (Inr True, i # s))
      [demo_sandbox ''a'' SB_RUNNING 3, demo_sandbox ''b'' SB_RUNNING 1, demo_sandbox ''c'' SB_PAUSED 0] 1 [] = (Inr ids, s') \<and>
    mset (old @ kept) = mset [demo_sandbox ''a'' SB_RUNNING 3, demo_sandbox ''b'' SB_RUNNING 1] \<and> int (length kept) \<le> 1 \<and>
    ids = map sb_id old"
  using old_sandboxes_paused [of "\<lambda>i s. (Inr True, i # s)" "\<lambda>_. Inr True" 1
      "[demo_sandbox ''a'' SB_RUNNING 3, demo_sandbox ''b'' SB_RUNNING 1, demo_sandbox ''c'' SB_PAUSED 0]" "[]"]
  by (simp add: demo_sandbox_def) blast

end
