(* ===== verification/Spec2Isabelle.thy ===== *)
theory Spec2Isabelle
  imports Fn_Properties Runtime_Properties Recall_Properties CodeAct_Properties Apollos_Properties Registry_Properties Bash_Properties
    App_Service_Properties
begin

text \<open>
  \<^bold>\<open>The agent core of the repository and its multi-tenant layer\<close>

  The program runs language-model agents. A conversation is a log of events (actions of the agent and of the
  user, observations of the environment). The first group of parts modelled here decides what happens in a
  conversation; it is under \<open>src/openhands\<close>:

  \<^item> the events and their dictionaries (\<open>events/\<close>, \<open>events/serialization/\<close>);
  \<^item> the store and the stream that keep, search and hand out the events (\<open>events/event_store.py\<close>,
    \<open>events/stream.py\<close>, on the in-memory file store \<open>storage/memory.py\<close>);
  \<^item> the view of the history and the condensers that shorten it (\<open>memory/view.py\<close>, \<open>memory/condenser\<close>);
  \<^item> the state of an agent, its tracker, its limits and its metrics (\<open>controller/state\<close>, \<open>llm/metrics.py\<close>,
    \<open>server/services/conversation_stats.py\<close>);
  \<^item> the stuck detector and the replay of trajectories (\<open>controller/stuck.py\<close>, \<open>controller/replay.py\<close>);
  \<^item> the controller that drives an agent and its delegates (\<open>controller/agent_controller.py\<close>);
  \<^item> the messages a view becomes before it is sent to a model (\<open>core/message.py\<close>, \<open>memory/conversation_memory.py\<close>),
    and the text form of tool calls for models without them (\<open>llm/fn_call_converter.py\<close>);
  \<^item> the agent that asks the model and turns its response into actions (\<open>agenthub/codeact_agent\<close>);
  \<^item> the client of a language model with its configuration, retries and accounting, the registry of the clients of a
    conversation and the routers between them (\<open>llm/llm.py\<close>, \<open>llm/retry_mixin.py\<close>, \<open>llm/llm_registry.py\<close>, \<open>llm/router\<close>);
  \<^item> the base class of the runtimes, which runs actions and answers them (\<open>runtime/base.py\<close>), and the shell in which
    commands are executed (\<open>runtime/utils/bash.py\<close>);
  \<^item> the microagents and the memory that recalls them (\<open>microagent\<close>, \<open>memory/memory.py\<close>).

  The controller subscribes to the stream and is called with each event; it updates the state and the history,
  asks the agent for the next action, guards that action by limits, confirmation and stuck detection, and puts it
  into the stream. The runtime and the memory subscribe to the same stream: the runtime executes the actions in its
  sandbox, the memory answers the recalls that the controller makes of messages, and both put an observation that
  names the action as its cause back into the stream, which releases the controller that waits for it. The agent sees
  the history as a view, shortened by a condenser and written as messages; for a model without tool calls the messages
  are translated into plain text and the text of the model back into calls.

  The second group is the layer under \<open>src/apollosai\<close> that makes the program a service for organizations: accounts,
  roles and sessions (\<open>server/auth\<close>, \<open>server/middleware\<close>, \<open>server/routes/auth.py\<close>), organizations, teams, API keys and
  tool servers (\<open>server/routes\<close>, \<open>storage/services\<close>, \<open>mcp/config.py\<close>), the stores of a user (\<open>storage/stores\<close>), the
  encryption of what is stored (\<open>storage/encrypt_utils.py\<close>), and the webhooks of other services (\<open>integrations\<close>). All of
  them work on one database, whose tables are the classes of \<open>storage/models\<close>.

  The third group are services of the second generation server, \<open>src/openhands/app_server\<close>, with the version for several
  users under \<open>src/enterprise\<close>: the table of conversations, the events of a conversation as files, the tasks that start
  conversations, the callbacks for events, and what all sandbox services share.

  \<^bold>\<open>Theories\<close>

  \<^item> \<open>Prelude\<close>: what the code uses of Python: exceptions as values (\<open>exn\<close>), slices, string methods, decimal
    numerals, JSON values and dictionaries as association lists; the collections of facts.
  \<^item> \<open>Events\<close>, \<open>Event_Ops\<close>: one record per dataclass, the sums \<open>action\<close>, \<open>observation\<close>, and \<open>event\<close> with the
    underscore attributes (\<open>_id\<close>, \<open>_source\<close>, ...); equality, messages, confirmation status, risk, truncation, pairs.
  \<^item> \<open>Event_Codec\<close>, \<open>Serialization\<close>: the fields of every class as JSON and back, then \<open>event_to_dict\<close>,
    \<open>event_from_dict\<close> with the rules for old dictionaries, and their round trip.
  \<^item> \<open>File_Store\<close>: the in-memory store, the interface \<open>file_store\<close> and the file names, which are injective.
  \<^item> \<open>Event_Store\<close>, \<open>Event_Stream\<close>, \<open>Stream_Restart\<close>, \<open>Event_Log\<close>: the store with its cache pages, the stream with its
    write page, secrets, subscribers and queue, the next id found again from the files, and the refinement of a list of
    events by all of this, along every sequence of operations (\<open>log_run\<close>).
  \<^item> \<open>View\<close>, \<open>Condensers\<close>: views, the interface \<open>rolling\<close> of condensers and one instance per strategy.
  \<^item> \<open>Metrics\<close>, \<open>Control_Flags\<close>: metrics and statistics with their invariant; the two limits behind one interface
    (\<open>control_flag_ops\<close>).
  \<^item> \<open>Agent_State\<close>, \<open>State_Tracker\<close>: the persisted state with its cached view; the history rebuilt from the log.
  \<^item> \<open>Stuck_Detector\<close>, \<open>Replay\<close>: what counts as a loop; which actions are played.
  \<^item> \<open>Agent_Controller\<close>: every handler of the controller. \<open>Controller_Rules\<close>, \<open>Controller_Invariant\<close>,
    \<open>Controller_Safety\<close>, \<open>Controller_Protocol\<close>: rules for sequences of statements, the invariant for every handler, and
    the laws of state changes, confirmation, limits, messages and delegates.
  \<^item> \<open>Scenario\<close>: a concrete conversation for the witnesses. \<open>Log_Properties\<close>, \<open>Memory_Properties\<close>, \<open>State_Properties\<close>,
    \<open>Controller_Properties\<close>: the properties, each with a witness where it has a hypothesis.
  \<^item> \<open>Messages\<close>, \<open>Conversation_Memory\<close>, \<open>Conversation_Properties\<close>: messages and their two serializations, one function
    per kind of event that turns it into messages, the loop that holds an answer back until the results of its tool
    calls have come, the final passes; the protocol of tool calls and that messages are always returned.
  \<^item> \<open>Text_Search\<close>, \<open>Fn_Examples\<close>, \<open>Fn_Calls\<close>: searching in strings, the prompts of the text format, and the three
    conversions of messages. \<open>Fn_Round_Trip\<close>, \<open>Fn_Split\<close>, \<open>Fn_Properties\<close>: what the patterns find in written texts, the
    translation there and back, and the splitting of messages with several calls.
  \<^item> \<open>CodeAct\<close>, \<open>CodeAct_Properties\<close>: one function per tool that turns its arguments into an action, the actions of a
    response, the step of the agent; calls and actions correspond, the rounds of the agent.
  \<^item> \<open>Runtime\<close>: environment variables and commands with retries, provider tokens, the task list, running an action and
    publishing its observation. \<open>Runtime_Rules\<close>, \<open>Log_Clients\<close>, \<open>Runtime_Properties\<close>: what a stored event keeps of the
    action it is made from, what adding does to a log, and the composition of controller, stream and runtime.
  \<^item> \<open>Llm_Config\<close>, \<open>Llm\<close>: features of models, the constructor of a client and the parameters of a request; one attempt
    (\<open>attempt\<close>) and the retries around it (\<open>completion\<close>). \<open>Fn_Answers\<close>, \<open>Llm_Rules\<close>, \<open>Llm_Properties\<close>: reading an answer in
    the text format, the chain of failed attempts (\<open>failures\<close>), and the properties of a request.
  \<^item> \<open>Llm_Registry\<close>, \<open>Registry_Properties\<close>: clients by service, sharing their metrics with the statistics of the
    conversation, and the router; the invariant along any sequence of requests (\<open>registry_step\<close>).
  \<^item> \<open>Bash\<close>, \<open>Bash_Rules\<close>, \<open>Bash_Properties\<close>: commands split and escaped, prompts found on the screen, the loop that waits
    for a prompt; what the loop keeps, what it types, what it reports, and that it ends.
  \<^item> \<open>App_Paging\<close>: pages of a search and the interface \<open>paged_search\<close> with its client that reads all pages.
    \<open>App_Conversations\<close>, \<open>App_Events\<close>, \<open>App_Services\<close>: the services; \<open>App_Properties\<close>, \<open>App_Service_Properties\<close>: what is
    saved is read back, who sees what, that waiting ends, and where the code fails.
  \<^item> \<open>Microagents\<close>, \<open>Recall\<close>: paths and files, loading of microagents, their triggers, and the memory. \<open>Recall_Rules\<close>,
    \<open>Recall_Properties\<close>: the invariant of a memory along any sequence of operations (\<open>memory_run\<close>), what a query recalls,
    and the composition of controller, stream and memory.
  \<^item> \<open>Apollos_Database\<close>: rows, tables, the constraints of the migrations (\<open>schema_ok\<close>), commit and rollback.
    \<open>Apollos_Auth\<close>, \<open>Apollos_Orgs\<close>, \<open>Apollos_Keys\<close>, \<open>Apollos_Stores\<close>: one function per route, service and store method.
    \<open>Apollos_Integrations\<close>: sanitizing, validators, replay detection, the webhook pipeline, the GitHub manager.
  \<^item> \<open>Apollos_Requests\<close>: every operation that changes the database as a value of \<open>operation\<close>, the reachable databases
    (\<open>db_run\<close>) and the interface \<open>run_invariant\<close> of what all operations keep. Its instances are the tenancy
    invariant (\<open>Apollos_Tenancy\<close>), and the schema, the dead keys and the approved servers (\<open>Apollos_Lifecycle\<close>).
    \<open>Apollos_Isolation\<close>: who may change what of an organization. \<open>Apollos_Takeover\<close>: two requests that replace an owner.
    \<open>Apollos_Scenario\<close>: a concrete database; \<open>Apollos_Properties\<close>: the properties.

  \<^bold>\<open>Correspondence\<close>

  A dataclass is a record with the same fields, an enumeration a datatype, a dictionary an association list (its order
  matters for the code that iterates over it), \<open>int\<close> is \<open>int\<close>, \<open>float\<close> is \<open>rat\<close> (costs and times are added and
  compared, rounding is not modelled), \<open>str\<close> is \<open>string\<close>. A method becomes a function that takes the object and
  returns it changed; a method that may raise returns a sum, or an optional exception together with the changed state,
  since the code keeps the changes made before the exception. The controller and its chain of delegates are a list in a
  \<open>world\<close> with the stream and the files; parent and delegate share the objects behind the flags, the metrics and the
  statistics, so writing one through a controller writes it for all (\<open>put_state\<close>). Handlers run one at a time: the
  executors of the stream have one worker per subscriber, and the controller's own coroutine is awaited to the end.

  Code that is not in the repository is a parameter: the security analyzer, the clock, the answer of a language model,
  \<open>json.loads\<close>, \<open>json.dumps\<close>, \<open>repr\<close> and \<open>ast.literal_eval\<close>, the parser of the header of a microagent and the validation
  by the model library. The controller takes any agent (its policy is a parameter, of which the agent of \<open>CodeAct\<close> is an
  instance), the runtime any sandbox: a function that executes an action on a sandbox state of any type. What a property needs of
  them is one of its hypotheses (\<open>keeps_stats\<close>, \<open>keeps_mode\<close>: the policy does not take the statistics away or
  change the confirmation mode).

  In the Apollos layer a request or store operation is one transaction: a function from the database to a result and the
  database after it, which is the old one when an exception is raised before the commit. Ids, nonces, random tokens and
  the time are arguments. The database is a parameter (\<open>accepts\<close>) that commits a state or refuses it with an integrity
  error; \<open>enforces_schema\<close> says that it commits nothing against the declared constraints. The token library, HMAC, key
  derivation, cipher, base64, JSON and \<open>shlex.split\<close> are parameters too (\<open>apollos_env\<close>); \<open>cipher_ok\<close> says that decryption
  undoes encryption under the same key and associated data, and fails under other associated data.

  A client of a language model is given the completion function, the price list and the retry library as parameters, on a
  state of any type; \<open>retry_law\<close> states what the retry library is documented to do. The shell is given the terminal
  (what the screen shows, keys, the clock) and the parser of commands; \<open>clock_law\<close> says that time does not go back and a
  pause lasts, \<open>key_law\<close> that only sent keys are typed. A table of the app server is a list of rows; the database is a
  parameter that orders rows, for each query anew, and compares texts; \<open>order_law\<close> says that every query returns the rows
  it selected, sorted, and leaves open how rows with equal keys are ordered.

  Loops are recursion on the list they run over; the loop of \<open>should_replay\<close> has a measure, the queue loop and the
  use of a replay are given the number of turns, and the properties say how many are enough. The loops that wait for a
  prompt or for a sandbox may run for ever and are partial functions; that they return is proved (C27, C38).

  \<^bold>\<open>What the properties show\<close>

  \<^item> C1, C13, C23 to C25, C35 are about the controller: its invariant, confirmation, stopping, limits, progress,
    delegates.
  \<^item> C2 to C4, C14 are about the controller with the memory and the runtime: a message reaches the agent, no command
    or code cell runs before its confirmation, what the answer of the user decides for them, actions are answered.
  \<^item> C5, C19, C20, C30, C32, C33 are about the log: refinement of a list, searching, round trip, secrets, errors, delivery.
  \<^item> C6, C7, C34 are about the Apollos layer: the tenancy invariant, isolation of organizations, revoked keys.
  \<^item> C8, C9, C26 are about the messages sent to a model, as calls and as text; C11, C28 about the agent.
  \<^item> C10, C12, C21, C22, C40 are about the client of a model: calls read from text, spending, attempts, accounting, and the
    rate limit that the controller takes for a passing one.
  \<^item> C15, C16, C27 are about the shell: what is typed, what is reported, that a call returns.
  \<^item> C17, C18, C31, C37, C38 are about the app server: isolation, round trip and paging of conversations, tasks, sandboxes.
  \<^item> C29 is about the memory and its microagents; C36 about views, C39 about what a condenser leaves.

  The other theorems of these theories are the laws of single operations, among them: what resuming after a limit, ending
  a delegate and a message of the user do, the state saved and restored, the metrics, the cached view, the history rebuilt
  from the log, replay, the splitting of calls, what a query recalls, when the stuck detector must and may report, that the system message is
  stored once,
  how a conversation starts, what the condensers keep, the task list of the runtime, rejected actions and provider tokens,
  the precedence of settings, the faults of the conversation store, takeover of an organization, tokens after a logout,
  servers that are never approved, the payloads of webhooks and their replay, the choice of a router, a client asked for
  again, conversations overwritten by another user, events repeated on every page, conversations repeated when their keys are
  equal, tokens exported before a confirmation, callbacks whose results are lost, and
  the sandboxes that are paused.

  \<^bold>\<open>Not modelled\<close>

  The implementations of the runtimes and their sandboxes, the process in the sandbox apart from its shell, the other agents
  and the prompts, asynchronous and streaming clients of language models, the stores on disk or in a
  cloud, the web servers of \<open>src/openhands\<close> with their routes and live services, the rest of the enterprise layer and the front ends:
  input and output around the core, most of it calls of libraries. Of the base class of the runtimes, cloning of
  repositories, setup scripts, git hooks and the git handler. Of the Apollos
  layer, login and callback (calls of the identity provider), the managers for Jira, Slack, Bitbucket and Microsoft, the
  HTTP clients, monitoring, rate limits and start-up; the time to live of the server cache. Of the modelled files, logging,
  \<open>__repr__\<close> and \<open>__str__\<close> (except where a condenser prints an event, where it is a parameter), thread start and
  shutdown, and the constructors from configuration are left out.
\<close>

end
